(* ===== verification/Prelude.thy ===== *)
theory Prelude imports Main "HOL-Library.AList" "HOL-Library.Word" begin

text \<open>
  What every component shares: the collections of rewrite rules the component proofs use, the
  machine integers of the source with the arithmetic it calls on them (\<open>saturating_add\<close>,
  \<open>saturating_sub\<close>, \<open>saturating_mul\<close>, \<open>checked_div\<close>), the interface of a
  \<^verbatim>\<open>HashMap\<close> as a locale together with the association lists that implement it in
  the models, and list lemmas on \<^verbatim>\<open>partition\<close>, suffixes and prefixes.

  A \<^verbatim>\<open>HashMap\<close> iterates in an unspecified order. The association list of the model fixes
  one such order; no theorem depends on which one, beyond the messages for one receiver being in
  the order they were sent.
\<close>

named_theorems fsimps "equations that unfold the accessors and small helpers of the models"
named_theorems frame "facts that a step leaves a part of the state unchanged"

section \<open>Machine integers\<close>

type_synonym u8 = "8 word"
type_synonym u16 = "16 word"
type_synonym u64 = "64 word"

definition u64_max :: nat where
  "u64_max = 2 ^ 64 - 1"

definition u32_max :: nat where
  "u32_max = 2 ^ 32 - 1"

text \<open>
  Unsigned 64-bit arithmetic on the values: the saturating operations of \<^verbatim>\<open>u64\<close>
  written on \<open>nat\<close>, for arguments that are at most \<^const>\<open>u64_max\<close>.
\<close>

definition sat_add64 :: "nat \<Rightarrow> nat \<Rightarrow> nat" where
  "sat_add64 a b = min u64_max (a + b)"

definition sat_mul64 :: "nat \<Rightarrow> nat \<Rightarrow> nat" where
  "sat_mul64 a b = min u64_max (a * b)"

definition sat_sub :: "nat \<Rightarrow> nat \<Rightarrow> nat" where
  "sat_sub a b = a - b"

definition checked_div :: "nat \<Rightarrow> nat \<Rightarrow> nat option" where
  "checked_div a b = (if b = 0 then None else Some (a div b))"

definition wrap64 :: "nat \<Rightarrow> nat" where
  "wrap64 n = n mod 2 ^ 64"

lemma sat_mul64_le: "sat_mul64 a b \<le> u64_max"
  by (simp add: sat_mul64_def)

lemma sat_mul64_exact: "a * b \<le> u64_max \<Longrightarrow> sat_mul64 a b = a * b"
  by (simp add: sat_mul64_def)

lemma sat_mul64_mono: "a \<le> a' \<Longrightarrow> sat_mul64 a b \<le> sat_mul64 a' b"
  unfolding sat_mul64_def by (meson min.mono mult_le_mono1 order_refl)

lemma wrap64_small: "n \<le> u64_max \<Longrightarrow> wrap64 n = n"
  by (simp add: wrap64_def u64_max_def)

section \<open>The interface of a hash map\<close>

locale hash_map =
  fixes get :: "'m \<Rightarrow> 'k \<Rightarrow> 'v option"
    and ins :: "'k \<Rightarrow> 'v \<Rightarrow> 'm \<Rightarrow> 'm"
    and rem :: "'k \<Rightarrow> 'm \<Rightarrow> 'm"
    and entries :: "'m \<Rightarrow> ('k \<times> 'v) list"
    and wf :: "'m \<Rightarrow> bool"
  assumes get_ins: "get (ins k v m) k' = (if k' = k then Some v else get m k')"
    and get_rem: "get (rem k m) k' = (if k' = k then None else get m k')"
    and wf_ins: "wf m \<Longrightarrow> wf (ins k v m)"
    and wf_rem: "wf m \<Longrightarrow> wf (rem k m)"
    and entries_get: "wf m \<Longrightarrow> (k, v) \<in> set (entries m) \<longleftrightarrow> get m k = Some v"
    and entries_distinct: "wf m \<Longrightarrow> distinct (map fst (entries m))"
begin

lemma get_ins_same [simp]: "get (ins k v m) k = Some v"
  by (simp add: get_ins)

lemma get_ins_other: "k' \<noteq> k \<Longrightarrow> get (ins k v m) k' = get m k'"
  by (simp add: get_ins)

lemma get_rem_same [simp]: "get (rem k m) k = None"
  by (simp add: get_rem)

lemma get_rem_other: "k' \<noteq> k \<Longrightarrow> get (rem k m) k' = get m k'"
  by (simp add: get_rem)

lemma get_ins_rem: "get (ins k v (rem k m)) k' = get (ins k v m) k'"
  by (simp add: get_ins get_rem)

lemma get_rem_all:
  "get (fold rem ks m) k = (if k \<in> set ks then None else get m k)"
  by (induction ks arbitrary: m) (auto simp: get_rem)

lemma wf_rem_all: "wf m \<Longrightarrow> wf (fold rem ks m)"
  by (induction ks arbitrary: m) (auto simp: wf_rem)

lemma entries_unique:
  "wf m \<Longrightarrow> (k, v) \<in> set (entries m) \<Longrightarrow> (k, v') \<in> set (entries m) \<Longrightarrow> v = v'"
  by (simp add: entries_get)

end

type_synonym ('k, 'v) hmap = "('k \<times> 'v) list"

abbreviation hm_get :: "('k, 'v) hmap \<Rightarrow> 'k \<Rightarrow> 'v option" where
  "hm_get \<equiv> map_of"

abbreviation hm_ins :: "'k \<Rightarrow> 'v \<Rightarrow> ('k, 'v) hmap \<Rightarrow> ('k, 'v) hmap" where
  "hm_ins \<equiv> AList.update"

abbreviation hm_rem :: "'k \<Rightarrow> ('k, 'v) hmap \<Rightarrow> ('k, 'v) hmap" where
  "hm_rem \<equiv> AList.delete"

definition hm_wf :: "('k, 'v) hmap \<Rightarrow> bool" where
  "hm_wf m \<longleftrightarrow> distinct (map fst m)"

interpretation hm: hash_map hm_get hm_ins hm_rem "\<lambda>m. m" hm_wf
  by unfold_locales
    (auto simp: hm_wf_def update_conv' delete_conv' distinct_update distinct_delete)

declare hm.get_ins [fsimps] hm.get_rem [fsimps]

lemma hm_wf_Nil [simp]: "hm_wf []"
  by (simp add: hm_wf_def)

lemma hm_wf_filter: "hm_wf m \<Longrightarrow> hm_wf (filter P m)"
  unfolding hm_wf_def by (simp add: distinct_map_filter)

lemma hm_get_filter:
  "hm_wf m \<Longrightarrow> hm_get (filter P m) k = (case hm_get m k of
     None \<Rightarrow> None | Some v \<Rightarrow> if P (k, v) then Some v else None)"
  unfolding hm_wf_def
  by (induction m) (auto simp: map_of_eq_None_iff split: option.splits)

lemma hm_get_map_values:
  "hm_get (map (\<lambda>(k, v). (k, f k v)) m) k = map_option (f k) (hm_get m k)"
  by (induction m) auto

lemma hm_keys_map_values [simp]:
  "map fst (map (\<lambda>(k, v). (k, f k v)) m) = map fst m"
  by (induction m) auto

lemma length_hm_ins:
  "length (hm_ins k v m) = (if hm_get m k = None then Suc (length m) else length m)"
  by (induction m) (auto split: if_splits)

section \<open>The interface of an outbox\<close>

text \<open>
  Sending one message: it is appended to what was sent when the receiver is connected, and who is
  connected does not change.
\<close>

locale outbox =
  fixes send :: "'c \<Rightarrow> 'm \<Rightarrow> 's \<Rightarrow> 's"
    and sent :: "'s \<Rightarrow> ('c \<times> 'm) list"
    and conn :: "'c \<Rightarrow> 's \<Rightarrow> bool"
  assumes sent_send: "sent (send c m s) = sent s @ (if conn c s then [(c, m)] else [])"
    and conn_send: "conn c' (send c m s) \<longleftrightarrow> conn c' s"
begin

lemma conn_send_all: "conn c (fold (\<lambda>x. send (receiver x) (msg x)) xs s) \<longleftrightarrow> conn c s"
  by (induction xs arbitrary: s) (simp_all add: conn_send)

lemma sent_send_all:
  "sent (fold (\<lambda>x. send (receiver x) (msg x)) xs s) =
    sent s @ map (\<lambda>x. (receiver x, msg x)) (filter (\<lambda>x. conn (receiver x) s) xs)"
  by (induction xs arbitrary: s) (simp_all add: sent_send conn_send)

lemma sent_mono: "m \<in> set (sent s) \<Longrightarrow> m \<in> set (sent (fold (\<lambda>x. send (receiver x) (msg x)) xs s))"
  by (simp add: sent_send_all)

end

section \<open>Lists\<close>

definition strip_prefix :: "'a list \<Rightarrow> 'a list \<Rightarrow> 'a list option" where
  "strip_prefix p xs = (if take (length p) xs = p then Some (drop (length p) xs) else None)"

definition starts_with :: "'a list \<Rightarrow> 'a list \<Rightarrow> bool" where
  "starts_with xs p \<longleftrightarrow> take (length p) xs = p"

definition ends_with :: "'a list \<Rightarrow> 'a list \<Rightarrow> bool" where
  "ends_with xs p \<longleftrightarrow> starts_with (rev xs) (rev p)"

lemma strip_prefix_Some: "strip_prefix p xs = Some ys \<longleftrightarrow> xs = p @ ys"
  unfolding strip_prefix_def by (auto simp: append_eq_conv_conj) (metis append_take_drop_id)

lemma strip_prefix_append [simp]: "strip_prefix p (p @ xs) = Some xs"
  by (simp add: strip_prefix_Some)

lemma starts_with_iff: "starts_with xs p \<longleftrightarrow> (\<exists>ys. xs = p @ ys)"
  unfolding starts_with_def by (metis append_eq_conv_conj append_take_drop_id)

lemma starts_with_append [simp]: "starts_with (p @ xs) p"
  by (simp add: starts_with_iff)

lemma ends_with_iff: "ends_with xs p \<longleftrightarrow> (\<exists>ys. xs = ys @ p)"
proof -
  have "rev xs = rev p @ ys \<longleftrightarrow> xs = rev ys @ p" for ys
    by (metis rev_append rev_rev_ident)
  then show ?thesis
    unfolding ends_with_def starts_with_iff by (metis rev_rev_ident)
qed

lemma take_drop_slice:
  "take n (drop i xs) = ys \<Longrightarrow> i + n \<le> length xs \<Longrightarrow>
    xs = take i xs @ ys @ drop (i + n) xs"
  by (metis add.commute append_take_drop_id drop_drop)

lemma length_filter_update:
  "i < length xs \<Longrightarrow> length (filter P (xs[i := x])) + (if P (xs ! i) then 1 else 0) =
    length (filter P xs) + (if P x then 1 else 0)"
proof (induction xs arbitrary: i)
  case (Cons y ys)
  then show ?case by (cases i) (auto split: if_splits)
qed simp

lemma filter_partition_length:
  "length (filter P xs) + length (filter (\<lambda>x. \<not> P x) xs) = length xs"
  by (rule sum_length_filter_compl)

lemma length_filter_twice: "length (filter P (filter Q xs)) \<le> length (filter P xs)"
  by (induction xs) auto

end
