(* ===== verification/Rust_Str.thy ===== *)
theory Rust_Str imports Prelude begin

text \<open>
  Rust's \<^verbatim>\<open>str\<close> as the sequence of its UTF-8 bytes: a \<open>string\<close> of the model is a
  list of \<open>char\<close>, one \<open>char\<close> per byte, so \<open>length\<close> is \<^verbatim>\<open>str::len\<close>, equality,
  \<^verbatim>\<open>starts_with\<close>, \<^verbatim>\<open>strip_prefix\<close>, \<^verbatim>\<open>contains\<close> and ordering are the byte-wise
  ones of Rust, and the operations that look at code points (\<^verbatim>\<open>trim\<close> with its Unicode
  \<^verbatim>\<open>White_Space\<close> set, \<^verbatim>\<open>is_char_boundary\<close>) read the UTF-8 encoding. The functions are the
  ones of the standard library that the modelled code calls, with the lemmas the components
  share about them.
\<close>

section \<open>Trimming\<close>

text \<open>The UTF-8 encodings of the code points with the property \<^verbatim>\<open>White_Space\<close>.\<close>

definition white_space :: "string list" where
  "white_space =
     [[CHR 0x20], [CHR 0x09], [CHR 0x0A], [CHR 0x0B], [CHR 0x0C], [CHR 0x0D],
      [CHR 0xC2, CHR 0x85], [CHR 0xC2, CHR 0xA0], [CHR 0xE1, CHR 0x9A, CHR 0x80],
      [CHR 0xE2, CHR 0x80, CHR 0x80], [CHR 0xE2, CHR 0x80, CHR 0x81],
      [CHR 0xE2, CHR 0x80, CHR 0x82], [CHR 0xE2, CHR 0x80, CHR 0x83],
      [CHR 0xE2, CHR 0x80, CHR 0x84], [CHR 0xE2, CHR 0x80, CHR 0x85],
      [CHR 0xE2, CHR 0x80, CHR 0x86], [CHR 0xE2, CHR 0x80, CHR 0x87],
      [CHR 0xE2, CHR 0x80, CHR 0x88], [CHR 0xE2, CHR 0x80, CHR 0x89],
      [CHR 0xE2, CHR 0x80, CHR 0x8A], [CHR 0xE2, CHR 0x80, CHR 0xA8],
      [CHR 0xE2, CHR 0x80, CHR 0xA9], [CHR 0xE2, CHR 0x80, CHR 0xAF],
      [CHR 0xE2, CHR 0x81, CHR 0x9F], [CHR 0xE3, CHR 0x80, CHR 0x80]]"

text \<open>Remove any of the patterns from the front, as long as one of them is there.\<close>

function strip_all :: "'a list list \<Rightarrow> 'a list \<Rightarrow> 'a list" where
  "strip_all ps s =
     (case find (\<lambda>p. p \<noteq> [] \<and> starts_with s p) ps of
        None \<Rightarrow> s
      | Some p \<Rightarrow> strip_all ps (drop (length p) s))"
  by pat_completeness auto
termination
proof (relation "measure (\<lambda>(ps, s). length s)", goal_cases)
  case (2 ps s p)
  then obtain t where "p \<noteq> []" "s = p @ t"
    unfolding find_Some_iff starts_with_iff by blast
  then show ?case by simp
qed simp

declare strip_all.simps [simp del]

definition trim_start :: "string \<Rightarrow> string" where
  "trim_start s = strip_all white_space s"

definition trim_end :: "string \<Rightarrow> string" where
  "trim_end s = rev (strip_all (map rev white_space) (rev s))"

definition trim :: "string \<Rightarrow> string" where
  "trim s = trim_end (trim_start s)"

lemma strip_all_suffix: "\<exists>xs. s = xs @ strip_all ps s"
proof (induction ps s rule: strip_all.induct)
  case (1 ps s)
  show ?case
  proof (cases "find (\<lambda>p. p \<noteq> [] \<and> starts_with s p) ps")
    case None
    then show ?thesis by (simp add: strip_all.simps [of ps s])
  next
    case (Some p)
    with "1.IH" obtain xs where "drop (length p) s = xs @ strip_all ps (drop (length p) s)"
      by blast
    then have "s = (take (length p) s @ xs) @ strip_all ps (drop (length p) s)"
      by (metis append.assoc append_take_drop_id)
    moreover from Some have "strip_all ps s = strip_all ps (drop (length p) s)"
      by (subst strip_all.simps) simp
    ultimately show ?thesis by metis
  qed
qed

lemma strip_all_done:
  "find (\<lambda>p. p \<noteq> [] \<and> starts_with (strip_all ps s) p) ps = None"
proof (induction ps s rule: strip_all.induct)
  case (1 ps s)
  then show ?case
    by (cases "find (\<lambda>p. p \<noteq> [] \<and> starts_with s p) ps")
      (simp_all add: strip_all.simps [of ps s])
qed

lemma strip_all_idem: "strip_all ps (strip_all ps s) = strip_all ps s"
  by (subst strip_all.simps) (simp add: strip_all_done)

lemma strip_all_Nil [simp]: "strip_all ps [] = []"
  using strip_all_suffix [of "[]" ps] by simp

lemma trim_end_prefix: "\<exists>ys. s = trim_end s @ ys"
proof -
  obtain xs where "rev s = xs @ strip_all (map rev white_space) (rev s)"
    using strip_all_suffix by blast
  then have "s = trim_end s @ rev xs"
    unfolding trim_end_def by (metis rev_append rev_rev_ident)
  then show ?thesis by blast
qed

lemma trim_end_idem: "trim_end (trim_end s) = trim_end s"
  by (simp add: trim_end_def strip_all_idem)

lemma trim_infix: "\<exists>xs ys. s = xs @ trim s @ ys"
  using strip_all_suffix [of s white_space] trim_end_prefix [of "trim_start s"]
  unfolding trim_def trim_start_def by metis

lemma length_trim: "length (trim s) \<le> length s"
  using trim_infix [of s] by (metis le_add2 length_append trans_le_add1 le_add1 add.left_commute)

lemma trim_Nil [simp]: "trim [] = []"
  by (simp add: trim_def trim_start_def trim_end_def)

text \<open>A string between two printable ASCII characters is already trimmed.\<close>

definition is_plain :: "char \<Rightarrow> bool" where
  "is_plain c \<longleftrightarrow> 33 \<le> (of_char c :: nat) \<and> (of_char c :: nat) \<le> 126"

lemma strip_all_id:
  assumes "s \<noteq> []" and "\<forall>p \<in> set ps. p \<noteq> [] \<longrightarrow> hd p \<noteq> hd s"
  shows "strip_all ps s = s"
proof -
  have "\<not> (p \<noteq> [] \<and> starts_with s p)" if "p \<in> set ps" for p
    using that assms by (cases p) (auto simp: starts_with_iff)
  then have "find (\<lambda>p. p \<noteq> [] \<and> starts_with s p) ps = None"
    by (simp add: find_None_iff)
  then show ?thesis by (subst strip_all.simps) simp
qed

lemma white_space_ends:
  "is_plain c \<Longrightarrow> w \<in> set white_space \<Longrightarrow> w \<noteq> [] \<and> hd w \<noteq> c \<and> last w \<noteq> c"
  by (auto simp: white_space_def is_plain_def)

lemma trim_start_plain: "s \<noteq> [] \<Longrightarrow> is_plain (hd s) \<Longrightarrow> trim_start s = s"
  unfolding trim_start_def by (rule strip_all_id) (auto dest: white_space_ends)

lemma trim_end_plain: "s \<noteq> [] \<Longrightarrow> is_plain (last s) \<Longrightarrow> trim_end s = s"
  unfolding trim_end_def
  by (subst strip_all_id) (auto simp: hd_rev dest: white_space_ends)

lemma trim_plain: "s \<noteq> [] \<Longrightarrow> is_plain (hd s) \<Longrightarrow> is_plain (last s) \<Longrightarrow> trim s = s"
  by (simp add: trim_def trim_start_plain trim_end_plain)

text \<open>Only bytes of the patterns are ever removed.\<close>

lemma strip_all_removes:
  "\<exists>xs. s = xs @ strip_all ps s \<and> set xs \<subseteq> \<Union> (set ` set ps)"
proof (induction ps s rule: strip_all.induct)
  case (1 ps s)
  show ?case
  proof (cases "find (\<lambda>p. p \<noteq> [] \<and> starts_with s p) ps")
    case None
    then show ?thesis by (simp add: strip_all.simps [of ps s])
  next
    case (Some p)
    then have p: "p \<in> set ps" "s = p @ drop (length p) s"
      by (auto simp: find_Some_iff starts_with_def) (metis append_take_drop_id)
    from Some "1.IH" obtain xs where "drop (length p) s = xs @ strip_all ps (drop (length p) s)"
        "set xs \<subseteq> \<Union> (set ` set ps)" by blast
    moreover have "strip_all ps s = strip_all ps (drop (length p) s)"
      using Some by (subst strip_all.simps) simp
    ultimately show ?thesis
      using p by (intro exI [of _ "p @ xs"]) auto
  qed
qed

lemma trim_plain_nonempty:
  assumes "s \<noteq> []" and "is_plain (hd s)"
  shows "trim s \<noteq> []"
proof
  assume "trim s = []"
  then have "strip_all (map rev white_space) (rev s) = []"
    using assms by (simp add: trim_def trim_start_plain) (simp add: trim_end_def)
  then obtain xs where "rev s = xs" "set xs \<subseteq> \<Union> (set ` set (map rev white_space))"
    using strip_all_removes [of "rev s" "map rev white_space"] by auto
  then have "hd s \<in> \<Union> (set ` set white_space)"
    using assms(1) by (auto simp: subset_iff)
  then show False
    using assms(2) by (auto simp: white_space_def is_plain_def)
qed

section \<open>Splitting and joining\<close>

fun split_on :: "'a \<Rightarrow> 'a list \<Rightarrow> 'a list list" where
  "split_on c [] = [[]]"
| "split_on c (x # xs) =
     (if x = c then [] # split_on c xs
      else case split_on c xs of [] \<Rightarrow> [[x]] | y # ys \<Rightarrow> (x # y) # ys)"

fun join :: "'a list \<Rightarrow> 'a list list \<Rightarrow> 'a list" where
  "join sep [] = []"
| "join sep [x] = x"
| "join sep (x # y # ys) = x @ sep @ join sep (y # ys)"

lemma split_on_nonempty [simp]: "split_on c xs \<noteq> []"
  by (induction xs) (auto split: list.splits)

lemma join_Cons: "ys \<noteq> [] \<Longrightarrow> join sep (x # ys) = x @ sep @ join sep ys"
  by (cases ys) auto

lemma join_concat: "join sep (x # xs) = x @ concat (map ((@) sep) xs)"
  by (induction xs arbitrary: x) simp_all

lemma join_split_on: "join [c] (split_on c xs) = xs"
proof (induction xs)
  case (Cons x xs)
  then show ?case
    by (cases "split_on c xs"; cases "tl (split_on c xs)") (auto simp: join_Cons)
qed simp

lemma split_on_no_sep: "x \<in> set (split_on c xs) \<Longrightarrow> c \<notin> set x"
  by (induction xs arbitrary: x) (auto split: list.splits if_splits)

lemma split_on_fresh: "c \<notin> set x \<Longrightarrow> split_on c x = [x]"
  by (induction x) auto

lemma split_on_append: "c \<notin> set x \<Longrightarrow> split_on c (x @ c # ys) = x # split_on c ys"
  by (induction x) auto

lemma split_on_join:
  "xs \<noteq> [] \<Longrightarrow> \<forall>x \<in> set xs. c \<notin> set x \<Longrightarrow> split_on c (join [c] xs) = xs"
proof (induction xs)
  case (Cons x xs)
  then show ?case
    by (cases xs) (simp_all add: split_on_fresh split_on_append)
qed simp

abbreviation newline :: char where
  "newline \<equiv> CHR 0x0A"

abbreviation carriage_return :: char where
  "carriage_return \<equiv> CHR 0x0D"

text \<open>
  \<^verbatim>\<open>str::lines\<close>: the pieces between newlines; a piece that a newline ends loses one
  carriage return at its end, and the piece after the last newline is dropped when it is empty.
\<close>

definition strip_cr :: "string \<Rightarrow> string" where
  "strip_cr s = (if s \<noteq> [] \<and> last s = carriage_return then butlast s else s)"

definition str_lines :: "string \<Rightarrow> string list" where
  "str_lines s =
     (let ps = split_on newline s
      in map strip_cr (butlast ps) @ (if last ps = [] then [] else [last ps]))"

lemma str_lines_join:
  assumes "ls \<noteq> []" and "last ls \<noteq> []" and "\<forall>l \<in> set ls. newline \<notin> set l \<and> strip_cr l = l"
  shows "str_lines (join [newline] ls) = ls"
proof -
  have "map strip_cr (butlast ls) = butlast ls"
    using assms(3) by (intro map_idI) (auto dest: in_set_butlastD)
  then show ?thesis
    using assms by (simp add: str_lines_def split_on_join)
qed

lemma hd_join: "x \<noteq> [] \<Longrightarrow> hd (join sep (x # xs)) = hd x"
  by (cases xs) auto

lemma join_nonempty: "xs \<noteq> [] \<Longrightarrow> last xs \<noteq> [] \<Longrightarrow> join sep xs \<noteq> []"
  by (induction sep xs rule: join.induct) auto

lemma last_join: "xs \<noteq> [] \<Longrightarrow> last xs \<noteq> [] \<Longrightarrow> last (join sep xs) = last (last xs)"
  by (induction sep xs rule: join.induct) (auto simp: last_append join_nonempty)

text \<open>\<^verbatim>\<open>str::split_once\<close> at a character.\<close>

definition split_once :: "char \<Rightarrow> string \<Rightarrow> (string \<times> string) option" where
  "split_once c s =
     (if c \<in> set s then Some (takeWhile (\<lambda>x. x \<noteq> c) s, tl (dropWhile (\<lambda>x. x \<noteq> c) s)) else None)"

section \<open>Searching\<close>

fun contains :: "'a list \<Rightarrow> 'a list \<Rightarrow> bool" where
  "contains [] p = (p = [])"
| "contains (x # xs) p = (starts_with (x # xs) p \<or> contains xs p)"

fun str_find :: "'a list \<Rightarrow> 'a list \<Rightarrow> nat option" where
  "str_find [] p = (if p = [] then Some 0 else None)"
| "str_find (x # xs) p =
     (if starts_with (x # xs) p then Some 0 else map_option Suc (str_find xs p))"

lemma contains_iff: "contains xs p \<longleftrightarrow> (\<exists>ys zs. xs = ys @ p @ zs)"
proof (induction xs)
  case (Cons x xs)
  show ?case
  proof
    assume "contains (x # xs) p"
    then show "\<exists>ys zs. x # xs = ys @ p @ zs"
      using Cons.IH by (auto simp: starts_with_iff) (metis append_Cons append_Nil)+
  next
    assume "\<exists>ys zs. x # xs = ys @ p @ zs"
    then obtain ys zs where "x # xs = ys @ p @ zs" by blast
    then show "contains (x # xs) p"
    proof (cases ys)
      case Nil
      with \<open>x # xs = ys @ p @ zs\<close> have "starts_with (x # xs) p"
        unfolding starts_with_iff by auto
      then show ?thesis by simp
    qed (use \<open>x # xs = ys @ p @ zs\<close> Cons.IH in auto)
  qed
qed auto

lemma str_find_Some: "str_find xs p = Some i \<Longrightarrow> i + length p \<le> length xs \<and> take (length p) (drop i xs) = p"
proof (induction xs arbitrary: i)
  case (Cons x xs)
  then show ?case
    by (auto simp: starts_with_def min_def split: if_splits)
      (metis length_Cons length_take min.bounded_iff nat_le_linear min_def)+
qed (auto split: if_splits)

lemma str_find_nth: "str_find xs p = Some i \<Longrightarrow> k < length p \<Longrightarrow> xs ! (i + k) = p ! k"
  by (drule str_find_Some) (metis add_leD1 nth_drop nth_take)

section \<open>Replacing\<close>

text \<open>\<^verbatim>\<open>str::replace\<close> for a pattern that is not empty (the code uses no other).\<close>

function str_replace :: "'a list \<Rightarrow> 'a list \<Rightarrow> 'a list \<Rightarrow> 'a list" where
  "str_replace p r [] = []"
| "str_replace p r (x # xs) =
     (if p \<noteq> [] \<and> starts_with (x # xs) p
      then r @ str_replace p r (drop (length p) (x # xs))
      else x # str_replace p r xs)"
  by pat_completeness auto
termination
  by (relation "measure (\<lambda>(p, r, xs). length xs)") auto

lemma str_replace_absent: "\<not> contains xs p \<Longrightarrow> str_replace p r xs = xs"
  by (induction p r xs rule: str_replace.induct) auto

lemma str_replace_hit: "p \<noteq> [] \<Longrightarrow> str_replace p r (p @ xs) = r @ str_replace p r xs"
  by (cases p) (auto simp: starts_with_def)

lemma str_replace_skip: "\<not> starts_with (x # xs) p \<Longrightarrow> str_replace p r (x # xs) = x # str_replace p r xs"
  by simp

lemma str_find_shorter:
  assumes "sep \<noteq> []" and "str_find s sep = Some i"
  shows "length s - (i + length sep) < length s"
proof -
  have "0 < length sep" using assms(1) by simp
  with str_find_Some [OF assms(2)] show ?thesis by linarith
qed

text \<open>\<^verbatim>\<open>str::split\<close> at a separator that is not empty.\<close>

function split_str :: "'a list \<Rightarrow> 'a list \<Rightarrow> 'a list list" where
  "split_str sep s =
     (if sep = [] then [s]
      else case str_find s sep of
        None \<Rightarrow> [s]
      | Some i \<Rightarrow> take i s # split_str sep (drop (i + length sep) s))"
  by pat_completeness auto
termination
  by (relation "measure (\<lambda>(sep, s). length s)") (simp_all add: str_find_shorter)

declare split_str.simps [simp del]

section \<open>Words\<close>

text \<open>\<^verbatim>\<open>str::split_whitespace\<close>: the maximal runs without white space.\<close>

fun split_ws_from :: "string \<Rightarrow> string \<Rightarrow> string list" where
  "split_ws_from acc [] = (if acc = [] then [] else [rev acc])"
| "split_ws_from acc (c # s) =
     (case find (starts_with (c # s)) white_space of
        None \<Rightarrow> split_ws_from (c # acc) s
      | Some p \<Rightarrow>
          (let rest = split_ws_from [] (drop (length p - 1) s)
           in if acc = [] then rest else rev acc # rest))"

definition split_whitespace :: "string \<Rightarrow> string list" where
  "split_whitespace s = split_ws_from [] s"

lemma split_ws_from_nonempty: "w \<in> set (split_ws_from acc s) \<Longrightarrow> w \<noteq> []"
  by (induction acc s rule: split_ws_from.induct) (auto simp: Let_def split: option.splits if_splits)

lemma split_whitespace_nonempty: "w \<in> set (split_whitespace s) \<Longrightarrow> w \<noteq> []"
  unfolding split_whitespace_def by (rule split_ws_from_nonempty)

definition strip_suffix :: "'a list \<Rightarrow> 'a list \<Rightarrow> 'a list option" where
  "strip_suffix p xs = map_option rev (strip_prefix (rev p) (rev xs))"

lemma strip_suffix_Some: "strip_suffix p xs = Some ys \<longleftrightarrow> xs = ys @ p"
  unfolding strip_suffix_def by (auto simp: strip_prefix_Some) (metis rev_append rev_rev_ident)

lemma strip_prefix_None: "strip_prefix p xs = None \<longleftrightarrow> \<not> starts_with xs p"
  by (simp add: strip_prefix_def starts_with_def)

lemma strip_suffix_None: "strip_suffix p xs = None \<longleftrightarrow> \<not> ends_with xs p"
  by (simp add: strip_suffix_def strip_prefix_None ends_with_def)

lemma strip_suffix_append [simp]: "strip_suffix p (ys @ p) = Some ys"
  by (simp add: strip_suffix_Some)

section \<open>ASCII case, numbers\<close>

definition ascii_lower_char :: "char \<Rightarrow> char" where
  "ascii_lower_char c =
     (let n = of_char c :: nat in if 65 \<le> n \<and> n \<le> 90 then char_of (n + 32) else c)"

definition ascii_lower :: "string \<Rightarrow> string" where
  "ascii_lower = map ascii_lower_char"

definition eq_ignore_ascii_case :: "string \<Rightarrow> string \<Rightarrow> bool" where
  "eq_ignore_ascii_case a b \<longleftrightarrow> ascii_lower a = ascii_lower b"

definition is_ascii :: "string \<Rightarrow> bool" where
  "is_ascii s \<longleftrightarrow> (\<forall>c \<in> set s. (of_char c :: nat) < 128)"

definition hex_digits :: string where
  "hex_digits = ''0123456789abcdef''"

text \<open>The digits of a number in a base from 2 to 16, most significant first, no leading zero.\<close>

function digits_in :: "nat \<Rightarrow> nat \<Rightarrow> string" where
  "digits_in b n =
     (if b < 2 \<or> n < b then [hex_digits ! n]
      else digits_in b (n div b) @ [hex_digits ! (n mod b)])"
  by pat_completeness auto
termination
  by (relation "measure snd") auto

declare digits_in.simps [simp del]

definition hex_of :: "nat \<Rightarrow> string" where
  "hex_of n = digits_in 16 n"

definition dec_of :: "nat \<Rightarrow> string" where
  "dec_of n = digits_in 10 n"

definition is_hex_lower :: "char \<Rightarrow> bool" where
  "is_hex_lower c \<longleftrightarrow> c \<in> set hex_digits"

definition is_dec_digit :: "char \<Rightarrow> bool" where
  "is_dec_digit c \<longleftrightarrow> c \<in> set ''0123456789''"

definition dec_value :: "string \<Rightarrow> nat" where
  "dec_value s = foldl (\<lambda>n c. 10 * n + (of_char c - 48)) 0 s"

text \<open>
  \<^verbatim>\<open>str::parse\<close> for an unsigned integer of at most \<open>hi\<close>: an optional plus sign, then at
  least one decimal digit; anything else, or a larger value, is an error.
\<close>

definition parse_uint :: "nat \<Rightarrow> string \<Rightarrow> nat option" where
  "parse_uint hi s =
     (let ds = (case s of c # cs \<Rightarrow> if c = CHR ''+'' then cs else s | [] \<Rightarrow> s)
      in if ds \<noteq> [] \<and> list_all is_dec_digit ds \<and> dec_value ds \<le> hi
         then Some (dec_value ds) else None)"

lemma hex_digits_length [simp]: "length hex_digits = 16"
  by (simp add: hex_digits_def)

lemma digits_in_nonempty [simp]: "digits_in b n \<noteq> []"
  by (subst digits_in.simps) simp

lemma digits_in_hex: "2 \<le> b \<Longrightarrow> b \<le> 16 \<Longrightarrow> c \<in> set (digits_in b n) \<Longrightarrow> is_hex_lower c"
proof (induction b n arbitrary: c rule: digits_in.induct)
  case (1 b n)
  have mod: "n mod b < 16" and small: "n < b \<Longrightarrow> n < 16"
    using "1.prems" by (auto intro: less_le_trans [OF mod_less_divisor])
  show ?case
  proof (cases "b < 2 \<or> n < b")
    case True
    with "1.prems" small show ?thesis
      by (simp add: digits_in.simps [of b n] is_hex_lower_def)
  next
    case False
    with "1.prems" have "c \<in> set (digits_in b (n div b)) \<or> c = hex_digits ! (n mod b)"
      by (auto simp: digits_in.simps [of b n])
    then show ?thesis
    proof (elim disjE)
      assume "c = hex_digits ! (n mod b)"
      with mod show ?thesis by (simp add: is_hex_lower_def)
    qed (use False "1.IH" "1.prems" in blast)
  qed
qed

lemma hex_digit_inj: "i < 16 \<Longrightarrow> j < 16 \<Longrightarrow> hex_digits ! i = hex_digits ! j \<longleftrightarrow> i = j"
  by (rule nth_eq_iff_index_eq) (simp_all add: hex_digits_def)

lemma digits_in_inj:
  "2 \<le> b \<Longrightarrow> b \<le> 16 \<Longrightarrow> digits_in b m = digits_in b n \<Longrightarrow> m = n"
proof (induction b m arbitrary: n rule: digits_in.induct)
  case (1 b m)
  have lt: "k mod b < 16" "k < b \<Longrightarrow> k < 16" for k
    using "1.prems" by (auto intro: less_le_trans [OF mod_less_divisor])
  show ?case
  proof (cases "m < b"; cases "n < b")
    assume "m < b" "n < b"
    with "1.prems" lt show ?thesis
      by (simp add: digits_in.simps [of b m] digits_in.simps [of b n] hex_digit_inj)
  next
    assume "\<not> m < b" "\<not> n < b"
    with "1.prems" have "digits_in b (m div b) = digits_in b (n div b)"
      and "hex_digits ! (m mod b) = hex_digits ! (n mod b)"
      by (simp_all add: digits_in.simps [of b m] digits_in.simps [of b n])
    moreover have "m mod b = n mod b"
      using calculation(2) lt(1) hex_digit_inj by blast
    ultimately have "m div b = n div b" "m mod b = n mod b"
      using \<open>\<not> m < b\<close> "1.IH" "1.prems" by simp_all
    then show ?thesis by (metis div_mult_mod_eq)
  qed (use "1.prems" digits_in_nonempty [symmetric] in
      \<open>auto simp: digits_in.simps [of b m] digits_in.simps [of b n]\<close>)
qed

text \<open>Printing a number and reading it back.\<close>

lemma dec_value_snoc: "dec_value (s @ [c]) = 10 * dec_value s + (of_char c - 48)"
  by (simp add: dec_value_def)

lemma digit_char:
  assumes "d < 10"
  shows "is_dec_digit (hex_digits ! d)" "(of_char (hex_digits ! d) :: nat) - 48 = d"
proof -
  have "d \<in> {0, 1, 2, 3, 4, 5, 6, 7, 8, 9}" using assms by auto
  then show "is_dec_digit (hex_digits ! d)" "(of_char (hex_digits ! d) :: nat) - 48 = d"
    by (auto simp: is_dec_digit_def hex_digits_def)
qed

lemma dec_of_digits: "list_all is_dec_digit (dec_of n) \<and> dec_value (dec_of n) = n"
proof (induction n rule: less_induct)
  case (less n)
  show ?case
  proof (cases "n < 10")
    case True
    with digit_char [of n] show ?thesis
      by (simp add: dec_of_def digits_in.simps [of 10 n] dec_value_def)
  next
    case False
    then have eq: "dec_of n = dec_of (n div 10) @ [hex_digits ! (n mod 10)]"
      by (simp add: dec_of_def digits_in.simps [of 10 n])
    from less.IH [of "n div 10"] False digit_char [of "n mod 10"] show ?thesis
      by (simp add: eq dec_value_snoc)
  qed
qed

lemma dec_of_nonempty [simp]: "dec_of n \<noteq> []"
  by (simp add: dec_of_def)

lemma parse_uint_dec_of [simp]: "n \<le> hi \<Longrightarrow> parse_uint hi (dec_of n) = Some n"
proof -
  assume "n \<le> hi"
  obtain c cs where cs: "dec_of n = c # cs" by (cases "dec_of n") simp_all
  have "is_dec_digit c" using dec_of_digits [of n] cs by simp
  then have "c \<noteq> CHR ''+''" by (auto simp: is_dec_digit_def)
  with cs dec_of_digits [of n] \<open>n \<le> hi\<close> show ?thesis
    by (simp add: parse_uint_def Let_def)
qed

lemma split_ws_plain:
  "list_all is_plain s \<Longrightarrow> split_ws_from acc (s @ rest) = split_ws_from (rev s @ acc) rest"
proof (induction s arbitrary: acc)
  case (Cons c s)
  have "find (starts_with (c # s @ rest)) white_space = None"
    using Cons.prems white_space_ends [of c] by (auto simp: find_None_iff starts_with_iff) (metis hd_append2 list.sel(1))
  with Cons show ?case by simp
qed simp

lemma split_ws_space: "split_ws_from acc (CHR '' '' # s) = (if acc = [] then split_ws_from [] s else rev acc # split_ws_from [] s)"
  by (simp add: white_space_def starts_with_def)

section \<open>Character boundaries\<close>

definition is_continuation :: "char \<Rightarrow> bool" where
  "is_continuation c \<longleftrightarrow> 128 \<le> (of_char c :: nat) \<and> (of_char c :: nat) < 192"

definition is_char_boundary :: "string \<Rightarrow> nat \<Rightarrow> bool" where
  "is_char_boundary s i \<longleftrightarrow>
     i = 0 \<or> i = length s \<or> (i < length s \<and> \<not> is_continuation (s ! i))"

lemma dec_of_inj: "dec_of m = dec_of n \<longleftrightarrow> m = n"
  using digits_in_inj [of 10] by (auto simp: dec_of_def)

end
