(* ===== verification/Delivery.thy ===== *)
theory Delivery imports Rust_Str "HOL-Library.Multiset" begin

text \<open>
  The message-delivery core (\<^verbatim>\<open>crates/common/xai-message-delivery-core\<close>): the lifecycle of
  messages bound to a turn (\<^verbatim>\<open>lifecycle.rs\<close>), agent identities (\<^verbatim>\<open>identity.rs\<close>), child
  addresses (\<^verbatim>\<open>address.rs\<close>) and the typed envelope with its set of allowed operations
  (\<^verbatim>\<open>envelope.rs\<close>). The generic parameters of the Rust types are type variables of the model.
\<close>

unbundle bit_operations_syntax

section \<open>The lifecycle: data\<close>

record ('p, 'e) turn_binding =
  tb_prompt_id :: 'p
  tb_epoch :: 'e

record ('i, 's, 'c) delivery_message =
  dm_identity :: 'i
  dm_source :: 's
  dm_content :: 'c

record ('i, 's, 'c, 'd, 'p, 'e) owned_delivery =
  od_binding :: "('p, 'e) turn_binding"
  od_message :: "('i, 's, 'c) delivery_message"
  od_completion :: 'd

datatype ('i, 's, 'c, 'd, 'p, 'e) delivery_slot =
    Pending "('i, 's, 'c, 'd, 'p, 'e) owned_delivery"
  | Projecting "('i, 's, 'c, 'd, 'p, 'e) owned_delivery"
  | Delivered "('i, 's, 'c, 'd, 'p, 'e) owned_delivery"

datatype terminal_cause = Completion | SoftCancel | Rewind | HardTeardown | ActorDrop

datatype ('p, 'e) terminal_target = TargetTurn "('p, 'e) turn_binding" | TargetAll

record ('i, 's, 'c, 'd, 'p, 'e) terminal_transition =
  fallbacks :: "('i, 's, 'c, 'd, 'p, 'e) owned_delivery list"
  completions :: "('i, 's, 'c, 'd, 'p, 'e) owned_delivery list"

type_synonym ('i, 's, 'c, 'd, 'p, 'e) delivery_lifecycle =
  "('i, 's, 'c, 'd, 'p, 'e) delivery_slot list"

section \<open>The lifecycle: operations\<close>

fun slot_owned :: "('i, 's, 'c, 'd, 'p, 'e) delivery_slot \<Rightarrow> ('i, 's, 'c, 'd, 'p, 'e) owned_delivery" where
  "slot_owned (Pending od) = od"
| "slot_owned (Projecting od) = od"
| "slot_owned (Delivered od) = od"

definition falls_back :: "terminal_cause \<Rightarrow> bool" where
  "falls_back cause \<longleftrightarrow> cause = Completion \<or> cause = SoftCancel \<or> cause = Rewind"

definition slot_identity :: "('i, 's, 'c, 'd, 'p, 'e) delivery_slot \<Rightarrow> 'i" where
  "slot_identity s = dm_identity (od_message (slot_owned s))"

definition new_lifecycle :: "('i, 's, 'c, 'd, 'p, 'e) delivery_lifecycle" where
  "new_lifecycle = []"

definition lifecycle_len :: "('i, 's, 'c, 'd, 'p, 'e) delivery_lifecycle \<Rightarrow> nat" where
  "lifecycle_len slots = length slots"

definition lifecycle_is_empty :: "('i, 's, 'c, 'd, 'p, 'e) delivery_lifecycle \<Rightarrow> bool" where
  "lifecycle_is_empty slots \<longleftrightarrow> slots = []"

definition contains_identity :: "('i, 's, 'c, 'd, 'p, 'e) delivery_lifecycle \<Rightarrow> 'i \<Rightarrow> bool" where
  "contains_identity slots i \<longleftrightarrow> list_ex (\<lambda>slot. slot_identity slot = i) slots"

text \<open>The message is handed back as an error when its identity is already held.\<close>

definition admit_pending ::
    "('i, 's, 'c, 'd, 'p, 'e) delivery_lifecycle \<Rightarrow> ('p, 'e) turn_binding \<Rightarrow>
     ('i, 's, 'c) delivery_message \<Rightarrow> 'd \<Rightarrow>
     ('i, 's, 'c) delivery_message + ('i, 's, 'c, 'd, 'p, 'e) delivery_lifecycle" where
  "admit_pending slots binding message completion =
     (if list_ex (\<lambda>slot. slot_identity slot = dm_identity message) slots then Inl message
      else Inr (slots @ [Pending \<lparr>od_binding = binding, od_message = message,
                                   od_completion = completion\<rparr>]))"

definition pending_messages ::
    "('i, 's, 'c, 'd, 'p, 'e) delivery_lifecycle \<Rightarrow> ('p, 'e) turn_binding \<Rightarrow>
     ('i, 's, 'c) delivery_message list" where
  "pending_messages slots binding =
     List.map_filter (\<lambda>slot. case slot of
         Pending od \<Rightarrow> if od_binding od = binding then Some (od_message od) else None
       | _ \<Rightarrow> None) slots"

definition begin_delivery ::
    "('i, 's, 'c, 'd, 'p, 'e) delivery_lifecycle \<Rightarrow> ('p, 'e) turn_binding \<Rightarrow>
     ('i, 's, 'c, 'd, 'p, 'e) delivery_lifecycle \<times> ('i, 's, 'c) delivery_message list" where
  "begin_delivery slots binding =
     (let messages = pending_messages slots binding
      in if messages = [] then (slots, messages)
         else (map (\<lambda>slot. case slot of
                 Pending od \<Rightarrow> if od_binding od = binding then Projecting od else slot
               | _ \<Rightarrow> slot) slots, messages))"

definition projecting_messages ::
    "('i, 's, 'c, 'd, 'p, 'e) delivery_lifecycle \<Rightarrow> ('p, 'e) turn_binding \<Rightarrow>
     ('i, 's, 'c) delivery_message list" where
  "projecting_messages slots binding =
     List.map_filter (\<lambda>slot. case slot of
         Projecting od \<Rightarrow> if od_binding od = binding then Some (od_message od) else None
       | _ \<Rightarrow> None) slots"

text \<open>
  The callback \<^verbatim>\<open>commit\<close> is a function from the messages to its result; when it fails,
  no slot moves and its error is the result.
\<close>

definition finish_delivery ::
    "('i, 's, 'c, 'd, 'p, 'e) delivery_lifecycle \<Rightarrow> ('p, 'e) turn_binding \<Rightarrow>
     (('i, 's, 'c) delivery_message list \<Rightarrow> 'err + unit) \<Rightarrow>
     ('i, 's, 'c, 'd, 'p, 'e) delivery_lifecycle \<times> ('err + ('i, 's, 'c) delivery_message list)" where
  "finish_delivery slots binding commit =
     (let messages = projecting_messages slots binding
      in if messages = [] then (slots, Inr messages)
         else case commit messages of
                Inl e \<Rightarrow> (slots, Inl e)
              | Inr _ \<Rightarrow>
                  (map (\<lambda>slot. case slot of
                     Projecting od \<Rightarrow> if od_binding od = binding then Delivered od else slot
                   | _ \<Rightarrow> slot) slots, Inr messages))"

fun target_matches :: "('p, 'e) terminal_target \<Rightarrow> ('i, 's, 'c, 'd, 'p, 'e) delivery_slot \<Rightarrow> bool" where
  "target_matches (TargetTurn binding) slot = (od_binding (slot_owned slot) = binding)"
| "target_matches TargetAll slot = True"

fun transition ::
    "('i, 's, 'c, 'd, 'p, 'e) delivery_lifecycle \<Rightarrow> ('p, 'e) terminal_target \<Rightarrow> terminal_cause \<Rightarrow>
     ('i, 's, 'c, 'd, 'p, 'e) delivery_lifecycle \<times> ('i, 's, 'c, 'd, 'p, 'e) terminal_transition" where
  "transition [] target cause = ([], \<lparr>fallbacks = [], completions = []\<rparr>)"
| "transition (slot # slots) target cause =
     (let (kept, tr) = transition slots target cause
      in if \<not> target_matches target slot then (slot # kept, tr)
         else case slot of
                Pending od \<Rightarrow>
                  if falls_back cause then (kept, tr\<lparr>fallbacks := od # fallbacks tr\<rparr>)
                  else (kept, tr\<lparr>completions := od # completions tr\<rparr>)
              | Projecting od \<Rightarrow> (kept, tr\<lparr>completions := od # completions tr\<rparr>)
              | Delivered od \<Rightarrow> (kept, tr\<lparr>completions := od # completions tr\<rparr>))"

section \<open>The lifecycle: lemmas\<close>

definition lifecycle_inv :: "('i, 's, 'c, 'd, 'p, 'e) delivery_lifecycle \<Rightarrow> bool" where
  "lifecycle_inv slots \<longleftrightarrow> distinct (map slot_identity slots)"

fun is_pending :: "('i, 's, 'c, 'd, 'p, 'e) delivery_slot \<Rightarrow> bool" where
  "is_pending (Pending _) = True" | "is_pending _ = False"

fun is_projecting :: "('i, 's, 'c, 'd, 'p, 'e) delivery_slot \<Rightarrow> bool" where
  "is_projecting (Projecting _) = True" | "is_projecting _ = False"

fun is_delivered :: "('i, 's, 'c, 'd, 'p, 'e) delivery_slot \<Rightarrow> bool" where
  "is_delivered (Delivered _) = True" | "is_delivered _ = False"

lemma map_filter_filter: "List.map_filter (\<lambda>x. if P x then Some (f x) else None) xs = map f (filter P xs)"
  by (induction xs) (simp_all add: List.map_filter_simps)

lemma pending_messages_eq:
  "pending_messages slots b =
     map (\<lambda>s. od_message (slot_owned s))
       (filter (\<lambda>s. is_pending s \<and> od_binding (slot_owned s) = b) slots)"
  unfolding pending_messages_def
  by (induction slots) (auto simp: List.map_filter_simps split: delivery_slot.splits)

lemma projecting_messages_eq:
  "projecting_messages slots b =
     map (\<lambda>s. od_message (slot_owned s))
       (filter (\<lambda>s. is_projecting s \<and> od_binding (slot_owned s) = b) slots)"
  unfolding projecting_messages_def
  by (induction slots) (auto simp: List.map_filter_simps split: delivery_slot.splits)

definition project_slot :: "('p, 'e) turn_binding \<Rightarrow> ('i, 's, 'c, 'd, 'p, 'e) delivery_slot \<Rightarrow>
    ('i, 's, 'c, 'd, 'p, 'e) delivery_slot" where
  "project_slot b s = (if is_pending s \<and> od_binding (slot_owned s) = b then Projecting (slot_owned s) else s)"

definition deliver_slot :: "('p, 'e) turn_binding \<Rightarrow> ('i, 's, 'c, 'd, 'p, 'e) delivery_slot \<Rightarrow>
    ('i, 's, 'c, 'd, 'p, 'e) delivery_slot" where
  "deliver_slot b s = (if is_projecting s \<and> od_binding (slot_owned s) = b then Delivered (slot_owned s) else s)"

lemma owned_project [simp]: "slot_owned (project_slot b s) = slot_owned s"
  by (cases s) (auto simp: project_slot_def)

lemma owned_deliver [simp]: "slot_owned (deliver_slot b s) = slot_owned s"
  by (cases s) (auto simp: deliver_slot_def)

lemma begin_delivery_state: "fst (begin_delivery slots b) = map (project_slot b) slots"
proof (cases "pending_messages slots b = []")
  case True
  then have "\<And>s. s \<in> set slots \<Longrightarrow> project_slot b s = s"
    by (auto simp: pending_messages_eq project_slot_def filter_empty_conv)
  with True show ?thesis
    by (simp add: begin_delivery_def Let_def map_idI)
next
  case False
  then show ?thesis
    by (auto simp: begin_delivery_def Let_def project_slot_def split: delivery_slot.splits)
qed

lemma begin_delivery_messages: "snd (begin_delivery slots b) = pending_messages slots b"
  by (simp add: begin_delivery_def Let_def)

lemma finish_delivery_ok:
  assumes "finish_delivery slots b commit = (slots', Inr ms)"
  shows "slots' = map (deliver_slot b) slots" and "ms = projecting_messages slots b"
proof -
  have idle: "map (deliver_slot b) slots = slots" if "projecting_messages slots b = []"
    using that by (auto simp: projecting_messages_eq deliver_slot_def filter_empty_conv intro!: map_idI)
  show "slots' = map (deliver_slot b) slots"
    using assms idle
    by (auto simp: finish_delivery_def Let_def deliver_slot_def split: if_splits sum.splits delivery_slot.splits)
  show "ms = projecting_messages slots b"
    using assms by (auto simp: finish_delivery_def Let_def split: if_splits sum.splits)
qed

lemma finish_delivery_error:
  "finish_delivery slots b commit = (slots', Inl e) \<Longrightarrow> slots' = slots"
  by (auto simp: finish_delivery_def Let_def split: if_splits sum.splits)

lemma transition_kept:
  "fst (transition slots t c) = filter (\<lambda>s. \<not> target_matches t s) slots"
  by (induction slots t c rule: transition.induct)
    (auto simp: Let_def split: prod.splits delivery_slot.splits)

lemma transition_fallbacks:
  "fallbacks (snd (transition slots t c)) =
     map slot_owned (filter (\<lambda>s. target_matches t s \<and> is_pending s \<and> falls_back c) slots)"
  by (induction slots t c rule: transition.induct)
    (auto simp: Let_def split: prod.splits delivery_slot.splits)

lemma transition_completions:
  "completions (snd (transition slots t c)) =
     map slot_owned (filter (\<lambda>s. target_matches t s \<and> \<not> (is_pending s \<and> falls_back c)) slots)"
  by (induction slots t c rule: transition.induct)
    (auto simp: Let_def split: prod.splits delivery_slot.splits)

lemmas transition_facts = transition_kept transition_fallbacks transition_completions

lemma slot_identity_project [simp]: "slot_identity (project_slot b s) = slot_identity s"
  by (simp add: slot_identity_def)

lemma slot_identity_deliver [simp]: "slot_identity (deliver_slot b s) = slot_identity s"
  by (simp add: slot_identity_def)

lemma admit_inv: "lifecycle_inv slots \<Longrightarrow> admit_pending slots b m d = Inr slots' \<Longrightarrow> lifecycle_inv slots'"
  by (force simp: admit_pending_def lifecycle_inv_def slot_identity_def list_ex_iff split: if_splits)

lemma begin_inv: "lifecycle_inv slots \<Longrightarrow> lifecycle_inv (fst (begin_delivery slots b))"
  by (simp add: begin_delivery_state lifecycle_inv_def comp_def)

lemma finish_inv: "lifecycle_inv slots \<Longrightarrow> lifecycle_inv (fst (finish_delivery slots b commit))"
  by (cases "finish_delivery slots b commit"; cases "snd (finish_delivery slots b commit)")
    (auto dest: finish_delivery_ok(1) finish_delivery_error simp: lifecycle_inv_def comp_def)

lemma transition_inv: "lifecycle_inv slots \<Longrightarrow> lifecycle_inv (fst (transition slots t c))"
  by (simp add: transition_kept lifecycle_inv_def distinct_map_filter)

section \<open>The lifecycle as a transition system\<close>

text \<open>
  A run of the lifecycle together with what the host saw: the identities admitted, those a
  successful commit put into the transcript, those handed back as fallbacks and those handed
  back as completions, each in order. The host admits an identity once (message ids are
  minted fresh), and \<^verbatim>\<open>commit\<close> may fail at any \<^verbatim>\<open>finish_delivery\<close>.
\<close>

record ('i, 's, 'c, 'd, 'p, 'e) delivery_run =
  dr_slots :: "('i, 's, 'c, 'd, 'p, 'e) delivery_lifecycle"
  dr_admitted :: "'i list"
  dr_committed :: "'i list"
  dr_fell_back :: "'i list"
  dr_completed :: "'i list"

definition init_run :: "('i, 's, 'c, 'd, 'p, 'e) delivery_run" where
  "init_run = \<lparr>dr_slots = new_lifecycle, dr_admitted = [], dr_committed = [],
     dr_fell_back = [], dr_completed = []\<rparr>"

abbreviation od_identity :: "('i, 's, 'c, 'd, 'p, 'e) owned_delivery \<Rightarrow> 'i" where
  "od_identity od \<equiv> dm_identity (od_message od)"

inductive delivery_step ::
    "('i, 's, 'c, 'd, 'p, 'e) delivery_run \<Rightarrow> ('i, 's, 'c, 'd, 'p, 'e) delivery_run \<Rightarrow> bool" where
  step_admit:
    "dm_identity m \<notin> set (dr_admitted r) \<Longrightarrow> admit_pending (dr_slots r) b m d = Inr slots' \<Longrightarrow>
     delivery_step r (r\<lparr>dr_slots := slots', dr_admitted := dr_admitted r @ [dm_identity m]\<rparr>)"
| step_begin:
    "begin_delivery (dr_slots r) b = (slots', ms) \<Longrightarrow> delivery_step r (r\<lparr>dr_slots := slots'\<rparr>)"
| step_finish:
    "finish_delivery (dr_slots r) b (commit :: _ \<Rightarrow> unit + unit) = (slots', Inr ms) \<Longrightarrow>
     delivery_step r (r\<lparr>dr_slots := slots', dr_committed := dr_committed r @ map dm_identity ms\<rparr>)"
| step_finish_failed:
    "finish_delivery (dr_slots r) b (commit :: _ \<Rightarrow> unit + unit) = (slots', Inl e) \<Longrightarrow>
     delivery_step r (r\<lparr>dr_slots := slots'\<rparr>)"
| step_terminal:
    "transition (dr_slots r) t c = (slots', tr) \<Longrightarrow>
     delivery_step r (r\<lparr>dr_slots := slots',
       dr_fell_back := dr_fell_back r @ map od_identity (fallbacks tr),
       dr_completed := dr_completed r @ map od_identity (completions tr)\<rparr>)"

inductive delivery_reachable :: "('i, 's, 'c, 'd, 'p, 'e) delivery_run \<Rightarrow> bool" where
  reach_init: "delivery_reachable init_run"
| reach_step: "delivery_reachable r \<Longrightarrow> delivery_step r r' \<Longrightarrow> delivery_reachable r'"

definition held :: "('i, 's, 'c, 'd, 'p, 'e) delivery_run \<Rightarrow> 'i list" where
  "held r = map slot_identity (dr_slots r)"

definition delivered_ids :: "('i, 's, 'c, 'd, 'p, 'e) delivery_lifecycle \<Rightarrow> 'i list" where
  "delivered_ids slots = map slot_identity (filter is_delivered slots)"

text \<open>
  Conservation: every admitted identity is held, fallen back or completed, with multiplicity;
  a committed one is either still held in a delivered slot or was completed.
\<close>

definition delivery_inv :: "('i, 's, 'c, 'd, 'p, 'e) delivery_run \<Rightarrow> bool" where
  "delivery_inv r \<longleftrightarrow>
     distinct (dr_admitted r) \<and>
     mset (dr_admitted r) = mset (held r @ dr_fell_back r @ dr_completed r) \<and>
     distinct (dr_committed r) \<and>
     set (dr_committed r) \<inter> set (held r) = set (delivered_ids (dr_slots r)) \<and>
     set (dr_committed r) \<subseteq> set (held r) \<union> set (dr_completed r)"

lemma delivery_inv_distinct:
  "delivery_inv r \<Longrightarrow> distinct (held r @ dr_fell_back r @ dr_completed r)"
  unfolding delivery_inv_def by (metis mset_eq_imp_distinct_iff)

lemma delivery_inv_admitted:
  "delivery_inv r \<Longrightarrow> set (dr_admitted r) = set (held r @ dr_fell_back r @ dr_completed r)"
  unfolding delivery_inv_def by (metis mset_eq_setD)

lemma mset_map_split:
  "mset (map f xs) = mset (map f (filter P xs)) + mset (map f (filter (\<lambda>x. \<not> P x) xs))"
  by (induction xs) auto

lemma same_identity_same_slot:
  "distinct (map slot_identity slots) \<Longrightarrow> x \<in> set slots \<Longrightarrow> y \<in> set slots \<Longrightarrow>
    slot_identity x = slot_identity y \<Longrightarrow> x = y"
  by (simp add: distinct_map inj_on_def)

lemma is_delivered_project [simp]: "is_delivered (project_slot b s) = is_delivered s"
  by (cases s) (auto simp: project_slot_def)

lemma is_delivered_deliver:
  "is_delivered (deliver_slot b s) \<longleftrightarrow>
     is_delivered s \<or> (is_projecting s \<and> od_binding (slot_owned s) = b)"
  by (cases s) (auto simp: deliver_slot_def)

lemma inv_admit:
  assumes inv: "delivery_inv r" and fresh: "dm_identity m \<notin> set (dr_admitted r)"
    and step: "admit_pending (dr_slots r) b m d = Inr slots'"
  shows "delivery_inv (r\<lparr>dr_slots := slots', dr_admitted := dr_admitted r @ [dm_identity m]\<rparr>)"
proof -
  have slots': "slots' = dr_slots r @ [Pending \<lparr>od_binding = b, od_message = m, od_completion = d\<rparr>]"
    using step by (auto simp: admit_pending_def split: if_splits)
  have "dm_identity m \<notin> set (dr_committed r)"
    using fresh inv delivery_inv_admitted [OF inv] unfolding delivery_inv_def by auto
  with inv fresh slots' show ?thesis
    by (auto simp: delivery_inv_def held_def slot_identity_def delivered_ids_def)
qed

lemma inv_begin:
  assumes inv: "delivery_inv r" and step: "begin_delivery (dr_slots r) b = (slots', ms)"
  shows "delivery_inv (r\<lparr>dr_slots := slots'\<rparr>)"
proof -
  have "slots' = map (project_slot b) (dr_slots r)"
    using begin_delivery_state [of "dr_slots r" b] step by simp
  with inv show ?thesis
    by (simp add: delivery_inv_def held_def delivered_ids_def comp_def filter_map)
qed

lemma inv_finish:
  assumes inv: "delivery_inv r" and step: "finish_delivery (dr_slots r) b commit = (slots', Inr ms)"
  shows "delivery_inv (r\<lparr>dr_slots := slots', dr_committed := dr_committed r @ map dm_identity ms\<rparr>)"
proof -
  let ?P = "\<lambda>s. is_projecting s \<and> od_binding (slot_owned s) = b"
  have slots': "slots' = map (deliver_slot b) (dr_slots r)"
    and ms: "map dm_identity ms = map slot_identity (filter ?P (dr_slots r))"
    using finish_delivery_ok [OF step] by (auto simp: projecting_messages_eq slot_identity_def)
  have held': "held (r\<lparr>dr_slots := slots'\<rparr>) = held r"
    by (simp add: held_def slots' comp_def)
  have dist: "distinct (map slot_identity (dr_slots r))"
    using delivery_inv_distinct [OF inv] by (simp add: held_def)
  have committed: "set (dr_committed r) \<inter> set (held r) = set (delivered_ids (dr_slots r))"
    using inv by (simp add: delivery_inv_def)
  have not_before: "set (dr_committed r) \<inter> set (map dm_identity ms) = {}"
  proof -
    have "slot_identity s \<notin> set (delivered_ids (dr_slots r))" if "s \<in> set (dr_slots r)" "?P s" for s
    proof
      assume "slot_identity s \<in> set (delivered_ids (dr_slots r))"
      then obtain x where "x \<in> set (dr_slots r)" "is_delivered x" "slot_identity s = slot_identity x"
        by (auto simp: delivered_ids_def)
      with that same_identity_same_slot [OF dist] have "s = x" by blast
      with that \<open>is_delivered x\<close> show False by (cases s rule: delivery_slot.exhaust) auto
    qed
    then show ?thesis using committed by (auto simp: ms held_def)
  qed
  have "set (delivered_ids slots') = set (delivered_ids (dr_slots r)) \<union> set (map dm_identity ms)"
    by (auto simp: delivered_ids_def slots' ms is_delivered_deliver filter_map comp_def)
  moreover have "set (map dm_identity ms) \<subseteq> set (held r)"
    by (auto simp: ms held_def)
  moreover have "distinct (map dm_identity ms)"
    using dist by (simp add: ms distinct_map_filter)
  ultimately show ?thesis
    using inv not_before held' unfolding delivery_inv_def by (auto simp: held_def)
qed

lemma inv_terminal:
  assumes inv: "delivery_inv r" and step: "transition (dr_slots r) t c = (slots', tr)"
  shows "delivery_inv (r\<lparr>dr_slots := slots',
       dr_fell_back := dr_fell_back r @ map od_identity (fallbacks tr),
       dr_completed := dr_completed r @ map od_identity (completions tr)\<rparr>)"
proof -
  let ?M = "target_matches t" and ?F = "\<lambda>s. is_pending s \<and> falls_back c"
  let ?s = "dr_slots r"
  have slots': "slots' = filter (\<lambda>s. \<not> ?M s) ?s"
    and fb: "map od_identity (fallbacks tr) = map slot_identity (filter (\<lambda>s. ?M s \<and> ?F s) ?s)"
    and co: "map od_identity (completions tr) = map slot_identity (filter (\<lambda>s. ?M s \<and> \<not> ?F s) ?s)"
    using transition_facts [of ?s t c] step by (simp_all add: slot_identity_def comp_def)
  have "mset (map slot_identity ?s) =
      mset (map slot_identity (filter (\<lambda>s. \<not> ?M s) ?s)) + mset (map slot_identity (filter ?M ?s))"
    using mset_map_split [of slot_identity ?s ?M] by simp
  also have "mset (map slot_identity (filter ?M ?s)) =
      mset (map od_identity (fallbacks tr)) + mset (map od_identity (completions tr))"
    using mset_map_split [of slot_identity "filter ?M ?s" ?F] by (simp add: fb co conj_commute)
  finally have split: "mset (map slot_identity ?s) = mset (map slot_identity slots') +
      (mset (map od_identity (fallbacks tr)) + mset (map od_identity (completions tr)))"
    by (simp add: slots')
  have dist: "distinct (map slot_identity ?s)"
    using delivery_inv_distinct [OF inv] by (simp add: held_def)
  have committed: "set (dr_committed r) \<inter> slot_identity ` set ?s = slot_identity ` set (filter is_delivered ?s)"
    using inv by (simp add: delivery_inv_def held_def delivered_ids_def)
  have delivered: "is_delivered s"
    if "s \<in> set ?s" "slot_identity s \<in> set (dr_committed r)" for s
    using that committed same_identity_same_slot [OF dist] by (auto simp: set_eq_iff image_iff)
  have "set (dr_committed r) \<inter> slot_identity ` set slots' = slot_identity ` set (filter is_delivered slots')"
    using delivered committed by (auto simp: slots')
  moreover have "set (dr_committed r) \<subseteq> slot_identity ` set slots' \<union>
      set (dr_completed r @ map od_identity (completions tr))"
  proof
    fix i assume i: "i \<in> set (dr_committed r)"
    with inv have "i \<in> slot_identity ` set ?s \<or> i \<in> set (dr_completed r)"
      by (auto simp: delivery_inv_def held_def)
    then show "i \<in> slot_identity ` set slots' \<union> set (dr_completed r @ map od_identity (completions tr))"
    proof
      assume "i \<in> slot_identity ` set ?s"
      then obtain s where s: "s \<in> set ?s" "i = slot_identity s" by blast
      with i delivered have "is_delivered s" by blast
      then have "\<not> ?F s" by (cases s) auto
      with s show ?thesis by (cases "?M s") (auto simp: slots' co)
    qed simp
  qed
  ultimately show ?thesis
    using inv split unfolding delivery_inv_def
    by (simp add: held_def delivered_ids_def ac_simps)
qed

lemma delivery_step_inv: "delivery_step r r' \<Longrightarrow> delivery_inv r \<Longrightarrow> delivery_inv r'"
  by (induction rule: delivery_step.induct)
    (auto dest: finish_delivery_error intro: inv_admit inv_begin inv_finish inv_terminal)

lemma delivery_reachable_inv: "delivery_reachable r \<Longrightarrow> delivery_inv r"
proof (induction rule: delivery_reachable.induct)
  case reach_init
  show ?case
    by (simp add: delivery_inv_def init_run_def new_lifecycle_def held_def delivered_ids_def)
qed (rule delivery_step_inv)

section \<open>Agent identities\<close>

type_synonym u128 = "128 word"

datatype agent_id = AgentId string
datatype attempt_id = AttemptId string
datatype agent_address = AgentAddress string

definition agent_prefix :: string where "agent_prefix = ''ag1.''"
definition attempt_prefix :: string where "attempt_prefix = ''at1.''"
definition address_prefix :: string where "address_prefix = ''aa1.''"

definition uuid_token_len :: nat where "uuid_token_len = 36"
definition uuid_hyphens :: "nat list" where "uuid_hyphens = [8, 13, 18, 23]"
definition uuid_v7_index :: nat where "uuid_v7_index = 14"
definition uuid_variant_index :: nat where "uuid_variant_index = 19"

definition is_uuid_v7 :: "string \<Rightarrow> bool" where
  "is_uuid_v7 token \<longleftrightarrow>
     length token = uuid_token_len \<and>
     list_all (\<lambda>(index, byte). if index \<in> set uuid_hyphens then byte = CHR ''-'' else is_hex_lower byte)
       (enumerate 0 token) \<and>
     token ! uuid_v7_index = CHR ''7'' \<and>
     token ! uuid_variant_index \<in> set ''89ab''"

definition parse_prefixed :: "string \<Rightarrow> string \<Rightarrow> string option" where
  "parse_prefixed token prefix =
     (let token = trim token
      in case strip_prefix prefix token of
           None \<Rightarrow> None
         | Some rest \<Rightarrow>
             if rest = [] \<or> \<not> list_all is_hex_lower rest then None else Some token)"

definition agent_mint :: "u128 \<Rightarrow> agent_id" where
  "agent_mint entropy = AgentId (agent_prefix @ hex_of (unat entropy))"

definition agent_parse :: "string \<Rightarrow> agent_id option" where
  "agent_parse token =
     (let token = trim token
      in if is_uuid_v7 token then Some (AgentId token)
         else map_option AgentId (parse_prefixed token agent_prefix))"

definition agent_from_uuid_v7 :: "string \<Rightarrow> agent_id option" where
  "agent_from_uuid_v7 token = (if is_uuid_v7 token then Some (AgentId token) else None)"

fun agent_as_str :: "agent_id \<Rightarrow> string" where "agent_as_str (AgentId s) = s"

definition attempt_mint :: "u128 \<Rightarrow> attempt_id" where
  "attempt_mint entropy = AttemptId (attempt_prefix @ hex_of (unat entropy))"

definition attempt_parse :: "string \<Rightarrow> attempt_id option" where
  "attempt_parse token = map_option AttemptId (parse_prefixed token attempt_prefix)"

fun attempt_as_str :: "attempt_id \<Rightarrow> string" where "attempt_as_str (AttemptId s) = s"

datatype identity_action =
    IdStart agent_id attempt_id
  | IdResume agent_id attempt_id
  | IdFork agent_id attempt_id

definition next_identity :: "agent_id option \<Rightarrow> bool \<Rightarrow> u128 \<Rightarrow> u128 \<Rightarrow> identity_action" where
  "next_identity previous fork agent_entropy attempt_entropy =
     (let attempt = attempt_mint attempt_entropy
      in case previous of
           None \<Rightarrow> IdStart (agent_mint agent_entropy) attempt
         | Some agent \<Rightarrow>
             if fork then IdFork (agent_mint agent_entropy) attempt
             else IdResume agent attempt)"

section \<open>Child addresses\<close>

definition is_presentable :: "string \<Rightarrow> bool" where
  "is_presentable token \<longleftrightarrow>
     token \<noteq> [] \<and> \<not> eq_ignore_ascii_case token ''null'' \<and>
     \<not> eq_ignore_ascii_case token ''none'' \<and> \<not> eq_ignore_ascii_case token ''undefined''"

definition address_mint :: "u128 \<Rightarrow> agent_address" where
  "address_mint entropy = AgentAddress (address_prefix @ hex_of (unat entropy))"

definition address_parse :: "string \<Rightarrow> agent_address option" where
  "address_parse token =
     (let token = trim token
      in if \<not> is_presentable token then None else Some (AgentAddress token))"

fun address_as_str :: "agent_address \<Rightarrow> string" where "address_as_str (AgentAddress s) = s"

definition mint_child_address :: "bool \<Rightarrow> u128 \<Rightarrow> agent_address option" where
  "mint_child_address workflow entropy = (if workflow then None else Some (address_mint entropy))"

definition advertised_address :: "string option \<Rightarrow> bool \<Rightarrow> string option" where
  "advertised_address stored workflow =
     (if workflow then None
      else case stored of
             None \<Rightarrow> None
           | Some token \<Rightarrow> if address_parse token \<noteq> None then Some token else None)"

datatype address_presence = Active | PendingPresence | Gone

record address_candidate =
  ac_stored_address :: "string option"
  ac_session_id :: string
  ac_owner_match :: bool
  ac_generation_current :: bool
  ac_workflow :: bool
  ac_presence :: address_presence

datatype address_decision =
    Owned address_presence
  | RawSessionId
  | Foreign
  | Stale
  | WorkflowNotAddressable
  | Unresolved

definition resolve_address :: "string \<Rightarrow> address_candidate option \<Rightarrow> address_decision" where
  "resolve_address presented candidate =
     (case candidate of
        None \<Rightarrow> Unresolved
      | Some c \<Rightarrow>
          let presented = trim presented;
              address_match = (case ac_stored_address c of None \<Rightarrow> False | Some stored \<Rightarrow> stored = presented)
          in if ac_session_id c = presented \<and> \<not> address_match then RawSessionId
             else if \<not> address_match then Unresolved
             else if ac_workflow c then WorkflowNotAddressable
             else if \<not> ac_owner_match c then Foreign
             else if \<not> ac_generation_current c \<or> ac_presence c = Gone then Stale
             else Owned (ac_presence c))"

section \<open>The envelope and its authorisation\<close>

datatype principal = Human | Agent | Runtime
datatype operation = Queue | Steer | Interject | InterruptAndSend

datatype human_source = HumanSource unit
datatype agent_source = AgentSource unit

record ('mid, 'pid) delivery_identity =
  di_message_id :: 'mid
  di_prompt_id :: 'pid

text \<open>The source of an envelope is a type parameter only, as the phantom of the code.\<close>

datatype ('src, 'g, 'c, 'i) delivery_envelope = DeliveryEnvelope principal operation 'c 'i 'g

definition from_human :: "operation \<Rightarrow> 'c \<Rightarrow> 'i \<Rightarrow> 'g \<Rightarrow> (human_source, 'g, 'c, 'i) delivery_envelope" where
  "from_human operation content identity grant = DeliveryEnvelope Human operation content identity grant"

definition from_agent :: "operation \<Rightarrow> 'c \<Rightarrow> 'i \<Rightarrow> 'g \<Rightarrow> (agent_source, 'g, 'c, 'i) delivery_envelope" where
  "from_agent operation content identity grant = DeliveryEnvelope Agent operation content identity grant"

fun envelope_principal :: "('src, 'g, 'c, 'i) delivery_envelope \<Rightarrow> principal" where
  "envelope_principal (DeliveryEnvelope p opn c i g) = p"

fun envelope_into_parts :: "('src, 'g, 'c, 'i) delivery_envelope \<Rightarrow> operation \<times> 'c \<times> 'i \<times> 'g" where
  "envelope_into_parts (DeliveryEnvelope p opn c i g) = (opn, c, i, g)"

datatype operation_set = OperationSet u8

definition op_QUEUE :: operation_set where
  "op_QUEUE = OperationSet (push_bit 0 1)"

definition op_QUEUE_AND_STEER :: operation_set where
  "op_QUEUE_AND_STEER = OperationSet (push_bit 0 1 OR push_bit 1 1)"

definition op_QUEUE_STEER_AND_INTERJECT :: operation_set where
  "op_QUEUE_STEER_AND_INTERJECT = OperationSet (push_bit 0 1 OR push_bit 1 1 OR push_bit 2 1)"

fun operation_flag :: "operation \<Rightarrow> u8" where
  "operation_flag Queue = push_bit 0 1"
| "operation_flag Steer = push_bit 1 1"
| "operation_flag Interject = push_bit 2 1"
| "operation_flag InterruptAndSend = push_bit 3 1"

fun opset_contains :: "operation_set \<Rightarrow> operation \<Rightarrow> bool" where
  "opset_contains (OperationSet bits) operation = (bits AND operation_flag operation \<noteq> 0)"

datatype authorized_operation = AuthorizedOperation operation
datatype unsupported_operation = UnsupportedOperation operation

definition authorize_operation ::
    "operation_set \<Rightarrow> operation \<Rightarrow> unsupported_operation + authorized_operation" where
  "authorize_operation allowed requested =
     (if opset_contains allowed requested then Inr (AuthorizedOperation requested)
      else Inl (UnsupportedOperation requested))"

section \<open>Identities, addresses, envelopes: lemmas\<close>

lemma is_hex_plain: "is_hex_lower c \<Longrightarrow> is_plain c"
  by (auto simp: is_hex_lower_def hex_digits_def is_plain_def)

lemma parse_prefixed_Some:
  "parse_prefixed token prefix = Some t \<longleftrightarrow>
     t = trim token \<and> (\<exists>rest. t = prefix @ rest \<and> rest \<noteq> [] \<and> list_all is_hex_lower rest)"
  unfolding parse_prefixed_def
  by (auto simp: Let_def strip_prefix_Some split: option.splits if_splits)

lemma hex_of_hex: "list_all is_hex_lower (hex_of n)"
  using digits_in_hex [of 16] by (auto simp: hex_of_def list_all_iff)

lemma hex_of_inj: "hex_of m = hex_of n \<longleftrightarrow> m = n"
  using digits_in_inj [of 16] by (auto simp: hex_of_def)

lemma trim_prefixed_hex:
  assumes "is_plain c" and "list_all is_hex_lower h" and "h \<noteq> []"
  shows "trim (c # p @ h) = c # p @ h"
proof (rule trim_plain)
  have "last h \<in> set h" using assms(3) by simp
  with assms show "is_plain (last (c # p @ h))"
    by (auto simp: list_all_iff intro: is_hex_plain)
qed (use assms in auto)

lemma hex_of_nonempty [simp]: "hex_of n \<noteq> []"
  by (simp add: hex_of_def)

lemma parse_prefixed_mint:
  assumes "is_plain c"
  shows "parse_prefixed (c # p @ hex_of n) (c # p) = Some (c # p @ hex_of n)"
  using assms by (auto simp: parse_prefixed_Some trim_prefixed_hex hex_of_hex)

lemma prefixed_not_uuid:
  "\<not> is_uuid_v7 (CHR ''a'' # CHR ''g'' # t)" "\<not> is_uuid_v7 (CHR ''a'' # CHR ''t'' # t)"
  by (simp_all add: is_uuid_v7_def uuid_hyphens_def is_hex_lower_def hex_digits_def)

section \<open>Properties\<close>

text \<open>
  C29. In every run of the lifecycle in which the host mints fresh identities: each admitted
  message is held, fell back to the host or was completed, exactly once and in exactly one of
  these ways; a message is committed to the transcript at most once; and a committed message
  never falls back, so it is not queued a second time.
\<close>

theorem delivery_exactly_once:
  assumes "delivery_reachable r"
  shows "mset (dr_admitted r) = mset (held r) + mset (dr_fell_back r) + mset (dr_completed r) \<and>
    distinct (held r @ dr_fell_back r @ dr_completed r) \<and>
    distinct (dr_committed r) \<and>
    set (dr_committed r) \<inter> set (dr_fell_back r) = {}"
proof -
  from assms have inv: "delivery_inv r" by (rule delivery_reachable_inv)
  then have "set (dr_committed r) \<subseteq> set (held r) \<union> set (dr_completed r)"
    by (simp add: delivery_inv_def)
  moreover note dist = delivery_inv_distinct [OF inv]
  ultimately have "set (dr_committed r) \<inter> set (dr_fell_back r) = {}"
    by (fastforce simp: disjoint_iff)
  with inv dist show ?thesis by (simp add: delivery_inv_def)
qed

definition example_binding :: "(nat, nat) turn_binding" where
  "example_binding = \<lparr>tb_prompt_id = 1, tb_epoch = 1\<rparr>"

definition example_run :: "(nat, nat, nat, nat, nat, nat) delivery_run" where
  "example_run =
     \<lparr>dr_slots = [Delivered \<lparr>od_binding = example_binding,
        od_message = \<lparr>dm_identity = 7, dm_source = 0, dm_content = 0\<rparr>, od_completion = 0\<rparr>],
      dr_admitted = [7], dr_committed = [7], dr_fell_back = [], dr_completed = []\<rparr>"

lemma example_run_reachable: "delivery_reachable example_run"
proof -
  let ?m = "\<lparr>dm_identity = 7, dm_source = 0, dm_content = 0\<rparr> :: (nat, nat, nat) delivery_message"
  let ?od = "\<lparr>od_binding = example_binding, od_message = ?m, od_completion = 0\<rparr>
    :: (nat, nat, nat, nat, nat, nat) owned_delivery"
  let ?i = "init_run :: (nat, nat, nat, nat, nat, nat) delivery_run"
  let ?r1 = "?i\<lparr>dr_slots := [Pending ?od], dr_admitted := dr_admitted ?i @ [dm_identity ?m]\<rparr>"
  let ?r2 = "?r1\<lparr>dr_slots := [Projecting ?od]\<rparr>"
  let ?r3 = "?r2\<lparr>dr_slots := [Delivered ?od],
    dr_committed := dr_committed ?r2 @ map dm_identity [?m]\<rparr>"
  have "delivery_step ?i ?r1"
    by (rule step_admit [where b = example_binding and d = 0])
      (simp_all add: init_run_def new_lifecycle_def admit_pending_def)
  then have "delivery_reachable ?r1" by (rule reach_step [OF reach_init])
  moreover have "delivery_step ?r1 ?r2"
    by (rule step_begin [where b = example_binding and ms = "[?m]"])
      (simp add: begin_delivery_def pending_messages_def List.map_filter_simps)
  ultimately have "delivery_reachable ?r2" by (rule reach_step)
  moreover have "delivery_step ?r2 ?r3"
    by (rule step_finish [where b = example_binding and commit = "\<lambda>_. Inr ()"])
      (simp add: finish_delivery_def projecting_messages_def List.map_filter_simps)
  ultimately have "delivery_reachable ?r3" by (rule reach_step)
  moreover have "?r3 = example_run"
    by (simp add: example_run_def init_run_def)
  ultimately show ?thesis by simp
qed

theorem delivery_exactly_once_witness:
  "delivery_reachable example_run \<and> distinct (dr_committed example_run) \<and>
   set (dr_committed example_run) \<inter> set (dr_fell_back example_run) = {}"
  using example_run_reachable delivery_exactly_once [OF example_run_reachable] by simp

text \<open>
  A terminal transition splits the slots it targets, in order: under completion, soft
  cancel and rewind the pending ones (and only they) fall back, under a hard teardown or an
  actor drop nothing falls back; every other targeted slot is completed and the untargeted
  slots stay as they were.
\<close>

theorem transition_splits:
  "transition slots target cause =
     (filter (\<lambda>s. \<not> target_matches target s) slots,
      \<lparr>fallbacks = (if cause = HardTeardown \<or> cause = ActorDrop then []
         else map slot_owned (filter (\<lambda>s. target_matches target s \<and> is_pending s) slots)),
       completions = map slot_owned
         (if cause = HardTeardown \<or> cause = ActorDrop then filter (target_matches target) slots
          else filter (\<lambda>s. target_matches target s \<and> \<not> is_pending s) slots)\<rparr>)"
  using transition_facts [of slots target cause]
  by (cases "transition slots target cause"; cases cause)
    (auto simp: falls_back_def intro!: terminal_transition.equality)

text \<open>
  Minted identities parse back to themselves, are different for different entropy, and an
  attempt token is never adopted as an agent token nor the other way round.
\<close>

theorem identity_roundtrip:
  "agent_parse (agent_as_str (agent_mint e)) = Some (agent_mint e) \<and>
   attempt_parse (attempt_as_str (attempt_mint e)) = Some (attempt_mint e) \<and>
   (agent_mint e = agent_mint e' \<longleftrightarrow> e = e') \<and>
   (attempt_mint e = attempt_mint e' \<longleftrightarrow> e = e') \<and>
   attempt_parse (agent_as_str (agent_mint e)) = None \<and>
   agent_parse (attempt_as_str (attempt_mint e)) = None"
proof -
  let ?h = "hex_of (unat e)"
  have plain: "is_plain (CHR ''a'')" by (simp add: is_plain_def)
  have trims: "trim (''ag1.'' @ ?h) = ''ag1.'' @ ?h" "trim (''at1.'' @ ?h) = ''at1.'' @ ?h"
    using trim_prefixed_hex [OF plain hex_of_hex hex_of_nonempty, of "''g1.''" "unat e"]
      trim_prefixed_hex [OF plain hex_of_hex hex_of_nonempty, of "''t1.''" "unat e"] by simp_all
  have "parse_prefixed (''ag1.'' @ ?h) ''ag1.'' = Some (''ag1.'' @ ?h)"
    and "parse_prefixed (''at1.'' @ ?h) ''at1.'' = Some (''at1.'' @ ?h)"
    using parse_prefixed_mint [OF plain, of "''g1.''"] parse_prefixed_mint [OF plain, of "''t1.''"]
    by simp_all
  moreover have "parse_prefixed (''ag1.'' @ ?h) ''at1.'' = None"
    and "parse_prefixed (''at1.'' @ ?h) ''ag1.'' = None"
    using trims by (auto simp: parse_prefixed_def strip_prefix_def)
  ultimately show ?thesis
    using trims prefixed_not_uuid [of "''1.'' @ ?h"]
    by (auto simp: agent_parse_def attempt_parse_def agent_mint_def attempt_mint_def
        agent_prefix_def attempt_prefix_def hex_of_inj word_unat_eq_iff [symmetric])
qed

text \<open>
  A presented token is resolved as owned exactly when, trimmed, it is the candidate's stored
  address, the candidate is not a workflow child, belongs to the presenter, is of the current
  generation and is not gone; the presence reported is then the candidate's. In particular a
  session id alone, another owner's address or a stale one never resolves to a recipient.
\<close>

theorem resolve_owned_iff:
  "resolve_address presented (Some c) = Owned p \<longleftrightarrow>
     ac_stored_address c = Some (trim presented) \<and> \<not> ac_workflow c \<and> ac_owner_match c \<and>
     ac_generation_current c \<and> ac_presence c \<noteq> Gone \<and> p = ac_presence c"
  by (auto simp: resolve_address_def Let_def split: option.splits if_splits)

text \<open>
  Authorisation by the bit set: each of the three declared sets grants exactly the
  operations of its name; interrupting is granted by none of them.
\<close>

theorem authorize_sets:
  "(authorize_operation op_QUEUE opn = Inr (AuthorizedOperation opn) \<longleftrightarrow> opn = Queue) \<and>
   (authorize_operation op_QUEUE_AND_STEER opn = Inr (AuthorizedOperation opn) \<longleftrightarrow>
      opn \<in> {Queue, Steer}) \<and>
   (authorize_operation op_QUEUE_STEER_AND_INTERJECT opn = Inr (AuthorizedOperation opn) \<longleftrightarrow>
      opn \<in> {Queue, Steer, Interject})"
  by (cases opn) (simp_all add: authorize_operation_def op_QUEUE_def op_QUEUE_AND_STEER_def
      op_QUEUE_STEER_AND_INTERJECT_def push_bit_eq_mult)

end
