(* ===== verification/Json.thy ===== *)
theory Json imports Rust_Str begin

text \<open>
  \<^verbatim>\<open>serde_json::Value\<close> as a datatype: an object is the list of its entries in one fixed
  order, with distinct keys; an integer literal in the range of \<^verbatim>\<open>i64\<close> and \<^verbatim>\<open>u64\<close> is
  \<open>JInt\<close>, every other number keeps its literal in \<open>JFloat\<close>. The functions are the accessors
  the modelled code calls on values.
\<close>

datatype json =
    JNull
  | JBool bool
  | JInt int
  | JFloat string
  | JStr string
  | JArr "json list"
  | JObj "(string \<times> json) list"

fun jget :: "string \<Rightarrow> json \<Rightarrow> json option" where
  "jget k (JObj kvs) = hm_get kvs k"
| "jget k _ = None"

fun jpointer :: "string list \<Rightarrow> json \<Rightarrow> json option" where
  "jpointer [] v = Some v"
| "jpointer (k # ks) v = (case jget k v of None \<Rightarrow> None | Some w \<Rightarrow> jpointer ks w)"

fun as_str :: "json \<Rightarrow> string option" where
  "as_str (JStr s) = Some s"
| "as_str _ = None"

fun as_array :: "json \<Rightarrow> json list option" where
  "as_array (JArr xs) = Some xs"
| "as_array _ = None"

fun as_object :: "json \<Rightarrow> (string \<times> json) list option" where
  "as_object (JObj kvs) = Some kvs"
| "as_object _ = None"

fun as_u64 :: "json \<Rightarrow> nat option" where
  "as_u64 (JInt n) = (if 0 \<le> n \<and> n < 2 ^ 64 then Some (nat n) else None)"
| "as_u64 _ = None"

fun as_i64 :: "json \<Rightarrow> int option" where
  "as_i64 (JInt n) = (if - (2 ^ 63) \<le> n \<and> n < 2 ^ 63 then Some n else None)"
| "as_i64 _ = None"

text \<open>\<^verbatim>\<open>v.get(k).and_then(|v| v.as_str())\<close>\<close>

definition jget_str :: "string \<Rightarrow> json \<Rightarrow> string option" where
  "jget_str k v = Option.bind (jget k v) as_str"

definition jget_u64 :: "string \<Rightarrow> json \<Rightarrow> nat option" where
  "jget_u64 k v = Option.bind (jget k v) as_u64"

definition jpointer_str :: "string list \<Rightarrow> json \<Rightarrow> string option" where
  "jpointer_str ks v = Option.bind (jpointer ks v) as_str"

text \<open>\<^verbatim>\<open>.filter(|s| !s.is_empty())\<close>\<close>

definition nonempty :: "string option \<Rightarrow> string option" where
  "nonempty o_s = (case o_s of None \<Rightarrow> None | Some s \<Rightarrow> if s = [] then None else Some s)"

text \<open>\<^verbatim>\<open>a.or_else(|| b)\<close> and \<^verbatim>\<open>a.unwrap_or(b)\<close>\<close>

definition or_else :: "'a option \<Rightarrow> 'a option \<Rightarrow> 'a option" where
  "or_else a b = (case a of None \<Rightarrow> b | Some x \<Rightarrow> Some x)"

definition unwrap_or :: "'a \<Rightarrow> 'a option \<Rightarrow> 'a" where
  "unwrap_or d a = (case a of None \<Rightarrow> d | Some x \<Rightarrow> x)"

text \<open>\<^verbatim>\<open>obj.insert(k, v)\<close>: only an object has entries to insert into.\<close>

fun jset :: "string \<Rightarrow> json \<Rightarrow> json \<Rightarrow> json" where
  "jset k v (JObj kvs) = JObj (hm_ins k v kvs)"
| "jset k v w = w"

definition jopt_str :: "string option \<Rightarrow> json" where
  "jopt_str s = (case s of None \<Rightarrow> JNull | Some s \<Rightarrow> JStr s)"

lemma jget_jset_same: "as_object v \<noteq> None \<Longrightarrow> jget k (jset k w v) = Some w"
  by (cases v) auto

lemma jget_jset_other [simp]: "k' \<noteq> k \<Longrightarrow> jget k' (jset k w v) = jget k' v"
  by (cases v) (auto simp: hm.get_ins)

lemma jget_object: "jget k v = Some w \<Longrightarrow> as_object v \<noteq> None"
  by (cases v) auto

lemma nonempty_Some [simp]: "nonempty s = Some t \<longleftrightarrow> s = Some t \<and> t \<noteq> []"
  by (auto simp: nonempty_def split: option.splits if_splits)

lemma unwrap_or_simps [simp]: "unwrap_or d None = d" "unwrap_or d (Some x) = x"
  by (simp_all add: unwrap_or_def)

lemma or_else_simps [simp]: "or_else None b = b" "or_else (Some x) b = Some x"
  by (simp_all add: or_else_def)

end
