(* ===== verification/Interjection.thy ===== *)
theory Interjection imports Json "HOL-Library.Multiset" begin

text \<open>
  Messages a user types while a turn runs: the shared event queue, its drain and the text frame
  around each message (\<^verbatim>\<open>crates/common/xai-interjection-core\<close>), and the merge rules for
  queued follow-up prompts (\<^verbatim>\<open>crates/codegen/xai-prompt-queue\<close>). An \<^verbatim>\<open>EventQueue\<close> is
  the list its mutex guards; every operation is one critical section.
\<close>

section \<open>The event queue\<close>

type_synonym 'e event_queue = "'e list"

definition eq_new :: "'e event_queue" where
  "eq_new = []"

definition eq_push :: "'e event_queue \<Rightarrow> 'e \<Rightarrow> 'e event_queue" where
  "eq_push q event = q @ [event]"

definition eq_push_capped :: "'e event_queue \<Rightarrow> 'e \<Rightarrow> nat \<Rightarrow> 'e event_queue" where
  "eq_push_capped q event cap =
     (let q = q @ [event]
      in if length q > cap then drop (length q - cap) q else q)"

definition eq_len :: "'e event_queue \<Rightarrow> nat" where
  "eq_len q = length q"

definition eq_is_empty :: "'e event_queue \<Rightarrow> bool" where
  "eq_is_empty q \<longleftrightarrow> q = []"

definition eq_drain_matching :: "'e event_queue \<Rightarrow> ('e \<Rightarrow> bool) \<Rightarrow> 'e event_queue \<times> 'e list" where
  "eq_drain_matching q take_event = (let (matched, kept) = partition take_event q in (kept, matched))"

definition eq_drain_all :: "'e event_queue \<Rightarrow> 'e event_queue \<times> 'e list" where
  "eq_drain_all q = ([], q)"

definition eq_restore_front :: "'e event_queue \<Rightarrow> 'e list \<Rightarrow> 'e event_queue" where
  "eq_restore_front q events = (if events = [] then q else events @ q)"

definition eq_clear :: "'e event_queue \<Rightarrow> 'e event_queue" where
  "eq_clear q = []"

definition eq_snapshot :: "'e event_queue \<Rightarrow> 'e list" where
  "eq_snapshot q = q"

section \<open>The frame around a message\<close>

definition LARGE_PROMPT_THRESHOLD :: nat where
  "LARGE_PROMPT_THRESHOLD = 25000"

definition INTERJECTION_NOTE :: string where
  "INTERJECTION_NOTE = ''The user sent a message while you were working:''"

definition INTERRUPT_NOTE :: string where
  "INTERRUPT_NOTE = ''The user interrupted the previous turn:''"

definition UNFINISHED_TASKS_REMINDER :: string where
  "UNFINISHED_TASKS_REMINDER = ''Make sure to complete any unfinished tasks from previous turns.''"

definition user_query :: "string \<Rightarrow> string" where
  "user_query user_message =
     ''<user_query>'' @ [newline] @ user_message @ [newline] @ ''</user_query>''"

definition frame_user_turn :: "string \<Rightarrow> string \<Rightarrow> string" where
  "frame_user_turn note assembled =
     note @ [newline] @ assembled @ [newline] @ UNFINISHED_TASKS_REMINDER"

text \<open>
  \<^verbatim>\<open>char_indices\<close> on UTF-8 bytes: the offset of each first byte of a character, with the
  length of the character that the byte announces.
\<close>

definition utf8_len :: "char \<Rightarrow> nat" where
  "utf8_len c = (let n = of_char c :: nat in
     if n < 128 then 1 else if n < 224 then 2 else if n < 240 then 3 else 4)"

definition char_indices :: "string \<Rightarrow> (nat \<times> nat) list" where
  "char_indices s =
     map (\<lambda>(i, c). (i, utf8_len c)) (filter (\<lambda>(i, c). \<not> is_continuation c) (enumerate 0 s))"

text \<open>Where the text is cut: the end of the last character that starts before the limit.\<close>

definition cut_point :: "nat \<Rightarrow> string \<Rightarrow> nat" where
  "cut_point limit text =
     (case takeWhile (\<lambda>(i, n). i < limit) (char_indices text) of
        [] \<Rightarrow> length text
      | cs \<Rightarrow> (let (i, n) = last cs in i + n))"

definition truncate_prompt :: "nat \<Rightarrow> string \<Rightarrow> string" where
  "truncate_prompt limit text =
     (if length text \<le> limit then text
      else take (cut_point limit text) text @ ''... [truncated]'')"

definition format_steered_query :: "string \<Rightarrow> string \<Rightarrow> string" where
  "format_steered_query note text =
     frame_user_turn note (user_query (truncate_prompt LARGE_PROMPT_THRESHOLD text))"

definition format_interjection :: "string \<Rightarrow> string" where
  "format_interjection text = format_steered_query INTERJECTION_NOTE text"

definition format_interrupt :: "string \<Rightarrow> string" where
  "format_interrupt text = format_steered_query INTERRUPT_NOTE text"

section \<open>The interjection buffer\<close>

record 'a interjection =
  ij_text :: string
  ij_attachments :: "'a list"

type_synonym 'a interjection_buffer = "'a interjection event_queue"

definition drain_formatted ::
    "'a interjection_buffer \<Rightarrow> (string \<Rightarrow> string) \<Rightarrow> 'a interjection_buffer \<times> 'a interjection list" where
  "drain_formatted buffer sanitize_text =
     (let (buffer, entries) = eq_drain_all buffer
      in (buffer, map (\<lambda>entry. \<lparr>ij_text = format_interjection (sanitize_text (ij_text entry)),
                              ij_attachments = ij_attachments entry\<rparr>) entries))"

section \<open>Combining queued prompts\<close>

record combine_gate =
  cg_id :: string
  cg_is_plain_prompt :: bool
  cg_is_synthetic :: bool
  cg_is_expanded_skill :: bool
  cg_is_bash :: bool
  cg_has_images :: bool
  cg_text :: string

definition can_merge_front :: "combine_gate \<Rightarrow> bool" where
  "can_merge_front g \<longleftrightarrow> cg_is_plain_prompt g \<and> \<not> cg_is_synthetic g \<and>
     \<not> cg_is_expanded_skill g \<and> \<not> cg_is_bash g \<and> cg_text g \<noteq> []"

definition can_merge_follower :: "combine_gate \<Rightarrow> string list \<Rightarrow> bool" where
  "can_merge_follower g skip_ids \<longleftrightarrow>
     can_merge_front g \<and> \<not> cg_has_images g \<and> cg_id g \<notin> set skip_ids"

fun count_followers :: "combine_gate list \<Rightarrow> string list \<Rightarrow> nat \<Rightarrow> nat" where
  "count_followers [] skip_ids n = n"
| "count_followers (g # gs) skip_ids n =
     (if \<not> can_merge_follower g skip_ids then n else count_followers gs skip_ids (n + 1))"

definition combine_prefix_len :: "combine_gate list \<Rightarrow> string list \<Rightarrow> nat" where
  "combine_prefix_len items skip_ids =
     (case items of
        [] \<Rightarrow> 0
      | front # rest \<Rightarrow>
          if \<not> can_merge_front front then 1 else count_followers rest skip_ids 1)"

definition TEXT_SEPARATOR :: string where
  "TEXT_SEPARATOR = [newline, newline]"

definition join_texts :: "string list \<Rightarrow> string" where
  "join_texts texts = join TEXT_SEPARATOR (filter (\<lambda>t. t \<noteq> []) texts)"

definition COMBINED_DISPLAY_TEXTS_META :: string where
  "COMBINED_DISPLAY_TEXTS_META = ''combinedDisplayTexts''"

definition is_combined :: "string list \<Rightarrow> bool" where
  "is_combined segs \<longleftrightarrow> length segs \<ge> 2"

definition stamp_combined_display_texts ::
    "(string, json) hmap \<Rightarrow> string list \<Rightarrow> (string, json) hmap" where
  "stamp_combined_display_texts meta segs =
     (if \<not> is_combined segs then meta
      else hm_ins COMBINED_DISPLAY_TEXTS_META (JArr (map JStr segs)) meta)"

section \<open>The queue: lemmas\<close>

text \<open>A restored remainder is drained again first, before what was pushed since.\<close>

lemma drain_restore:
  assumes "eq_drain_all q = (q', events)"
  shows "eq_drain_all (eq_restore_front (foldl eq_push q' later) (drop k events)) = ([], drop k q @ later)"
proof -
  have "foldl eq_push q' later = q' @ later"
    by (induction later arbitrary: q') (simp_all add: eq_push_def)
  with assms show ?thesis
    by (auto simp: eq_drain_all_def eq_restore_front_def)
qed

lemma push_capped_eq: "eq_push_capped q e cap = drop (Suc (length q) - cap) (q @ [e])"
  by (simp add: eq_push_capped_def Let_def)

lemma push_capped_all:
  assumes "length q \<le> cap" and "0 < cap"
  shows "foldl (\<lambda>q e. eq_push_capped q e cap) q es = drop (length q + length es - cap) (q @ es)"
  using assms(1)
proof (induction es rule: rev_induct)
  case (snoc e es)
  let ?xs = "q @ es" and ?n = "length q + length es - cap"
  have "drop ?n ?xs @ [e] = drop ?n (?xs @ [e])" by simp
  moreover have "Suc (length (drop ?n ?xs)) - cap + ?n = length q + length (es @ [e]) - cap"
    using assms(2) by simp
  ultimately show ?case
    using snoc by (simp only: foldl_append foldl.simps push_capped_eq drop_drop append_assoc)
qed simp

section \<open>Truncation at a character boundary: lemmas\<close>

text \<open>A character of UTF-8: a first byte and the continuation bytes it announces.\<close>

definition utf8_char :: "string \<Rightarrow> bool" where
  "utf8_char c \<longleftrightarrow> c \<noteq> [] \<and> \<not> is_continuation (hd c) \<and> list_all is_continuation (tl c) \<and>
     length c = utf8_len (hd c)"

fun offsets :: "nat \<Rightarrow> string list \<Rightarrow> (nat \<times> nat) list" where
  "offsets i [] = []"
| "offsets i (c # cs) = (i, length c) # offsets (i + length c) cs"

lemma utf8_len_bounds: "1 \<le> utf8_len c" "utf8_len c \<le> 4"
  by (simp_all add: utf8_len_def Let_def)

lemma enumerate_continuation:
  "list_all is_continuation xs \<Longrightarrow> filter (\<lambda>(i, c). \<not> is_continuation c) (enumerate i xs) = []"
  by (induction xs arbitrary: i) auto

lemma char_indices_concat:
  assumes "list_all utf8_char cs"
  shows "map (\<lambda>(i, c). (i, utf8_len c))
      (filter (\<lambda>(i, c). \<not> is_continuation c) (enumerate i (concat cs))) = offsets i cs"
  using assms
proof (induction cs arbitrary: i)
  case (Cons c cs)
  then obtain x xs where "c = x # xs" "\<not> is_continuation x" "list_all is_continuation xs"
      "Suc (length xs) = utf8_len x"
    by (cases c) (auto simp: utf8_char_def)
  with Cons show ?case
    by (simp add: enumerate_append_eq enumerate_continuation) (metis add_Suc_right)
qed simp

lemma offsets_take:
  "\<exists>k \<le> length cs. takeWhile (\<lambda>(i, n). i < limit) (offsets i cs) = offsets i (take k cs) \<and>
     (k < length cs \<longrightarrow> limit \<le> i + length (concat (take k cs)))"
proof (induction cs arbitrary: i)
  case (Cons c cs)
  show ?case
  proof (cases "i < limit")
    case True
    from Cons [of "i + length c"] obtain k where "k \<le> length cs"
      "takeWhile (\<lambda>(i, n). i < limit) (offsets (i + length c) cs) = offsets (i + length c) (take k cs)"
      "k < length cs \<longrightarrow> limit \<le> i + length c + length (concat (take k cs))"
      by blast
    with True show ?thesis
      by (intro exI [of _ "Suc k"]) (simp add: ac_simps)
  next
    case False
    then show ?thesis by (intro exI [of _ 0]) simp
  qed
qed simp

lemma offsets_Nil [simp]: "offsets i cs = [] \<longleftrightarrow> cs = []"
  by (cases cs) auto

lemma last_offsets:
  "cs \<noteq> [] \<Longrightarrow> (case last (offsets i cs) of (j, n) \<Rightarrow> j + n) = i + length (concat cs) \<and>
     fst (last (offsets i cs)) + length (last cs) = i + length (concat cs)"
  by (induction cs arbitrary: i) (auto simp: add.assoc)

lemma offsets_starts: "x \<in> set (takeWhile P xs) \<Longrightarrow> P x"
  by (rule set_takeWhileD [THEN conjunct2])

section \<open>Properties\<close>

text \<open>
  The cap of the event queue: after any number of capped pushes the queue holds the newest
  \<open>cap\<close> events of all that were pushed, in order, and draining takes exactly them; a drain that
  is aborted after \<open>k\<close> events and restored hands out the remainder first, before what was pushed
  since; and \<^verbatim>\<open>drain_matching\<close> loses nothing.
\<close>

theorem queue_cap_and_restore:
  assumes "0 < cap"
  shows "eq_drain_all (foldl (\<lambda>q e. eq_push_capped q e cap) eq_new es) = ([], drop (length es - cap) es)
    \<and> eq_len (foldl (\<lambda>q e. eq_push_capped q e cap) eq_new es) \<le> cap
    \<and> eq_drain_all (eq_restore_front (foldl eq_push (fst (eq_drain_all q)) later)
        (drop k (snd (eq_drain_all q)))) = ([], drop k q @ later)
    \<and> mset (fst (eq_drain_matching q p)) + mset (snd (eq_drain_matching q p)) = mset q"
proof -
  have "foldl (\<lambda>q e. eq_push_capped q e cap) eq_new es = drop (length es - cap) es"
    using push_capped_all [of "[]" cap es] assms by (simp add: eq_new_def)
  moreover have "mset (filter p q) + mset (filter (Not \<circ> p) q) = mset q"
    by (induction q) auto
  ultimately show ?thesis
    using drain_restore [of q "fst (eq_drain_all q)" "snd (eq_drain_all q)" later k]
    by (simp add: eq_drain_all_def eq_len_def eq_drain_matching_def add.commute)
qed

theorem queue_cap_and_restore_witness:
  "eq_drain_all (foldl (\<lambda>q e. eq_push_capped q e 2) eq_new [1, 2, 3::nat]) = ([], [2, 3])"
  using queue_cap_and_restore [of 2 "[1, 2, 3::nat]" "[]" "[]" 0 "\<lambda>_. True", THEN conjunct1] by simp

text \<open>
  A prompt over the limit is cut at the end of a character, so the result is still UTF-8: what
  is kept is a number of whole characters from the front, at least \<open>limit\<close> bytes and at most three
  bytes more, and the marker follows; a prompt within the limit is not touched.
\<close>

theorem truncate_prompt_whole_chars:
  assumes "list_all utf8_char cs" and "0 < limit"
  shows "if length (concat cs) \<le> limit then truncate_prompt limit (concat cs) = concat cs
    else \<exists>k \<le> length cs. truncate_prompt limit (concat cs) = concat (take k cs) @ ''... [truncated]'' \<and>
      limit \<le> length (concat (take k cs)) \<and> length (concat (take k cs)) \<le> limit + 3"
proof (cases "length (concat cs) \<le> limit")
  case False
  let ?P = "\<lambda>(i, n). i < limit"
  from offsets_take [of cs limit 0] obtain k where k: "k \<le> length cs"
      "takeWhile ?P (offsets 0 cs) = offsets 0 (take k cs)"
      "k < length cs \<longrightarrow> limit \<le> length (concat (take k cs))"
    by auto
  have ge: "limit \<le> length (concat (take k cs))"
    using k False by (cases "k < length cs") auto
  then have ne: "take k cs \<noteq> []" using assms(2) by (metis concat.simps(1) leD list.size(3))
  then obtain o1 os where off: "offsets 0 (take k cs) = o1 # os"
    by (cases "take k cs") auto
  have "cut_point limit (concat cs) = length (concat (take k cs))"
    using k(2) off last_offsets [OF ne, of 0] char_indices_concat [OF assms(1), of 0]
    by (simp add: cut_point_def char_indices_def split: prod.splits)
  moreover have "take (length (concat (take k cs))) (concat cs) = concat (take k cs)"
    by (metis append_eq_conv_conj append_take_drop_id concat_append)
  moreover have "length (concat (take k cs)) \<le> limit + 3"
  proof -
    have "last (offsets 0 (take k cs)) \<in> set (takeWhile ?P (offsets 0 cs))"
      using k(2) off by simp
    then have "fst (last (offsets 0 (take k cs))) < limit"
      using offsets_starts by (metis (mono_tags, lifting) case_prod_unfold)
    moreover have "length (last (take k cs)) \<le> 4"
      using assms(1) ne last_in_set [OF ne] in_set_takeD [of "last (take k cs)" k cs]
      by (auto simp: list_all_iff utf8_char_def utf8_len_bounds)
    ultimately show ?thesis using last_offsets [OF ne, of 0] by linarith
  qed
  ultimately show ?thesis
    using False ge k(1) by (auto simp: truncate_prompt_def)
qed (simp add: truncate_prompt_def)

theorem truncate_prompt_whole_chars_witness:
  "\<exists>k. truncate_prompt 2 (concat [''a'', [CHR 0xC3, CHR 0xA9], ''b'', ''c'']) =
     concat (take k [''a'', [CHR 0xC3, CHR 0xA9], ''b'', ''c'']) @ ''... [truncated]''"
  using truncate_prompt_whole_chars
    [of "[''a'', [CHR 0xC3, CHR 0xA9], ''b'', ''c'']" 2]
  by (auto simp: utf8_char_def utf8_len_def is_continuation_def)

text \<open>
  The number of queued prompts taken at once is the front and then every mergeable follower
  up to the first that is not: one when the front may not merge, none when the queue is empty;
  and the display segments are stamped exactly when two or more prompts were joined.
\<close>

theorem combine_prefix_len_spec:
  "combine_prefix_len items skip_ids = (case items of [] \<Rightarrow> 0 | front # rest \<Rightarrow>
       1 + (if can_merge_front front
            then length (takeWhile (\<lambda>g. can_merge_follower g skip_ids) rest) else 0))
   \<and> combine_prefix_len items skip_ids \<le> length items
   \<and> hm_get (stamp_combined_display_texts [] segs) COMBINED_DISPLAY_TEXTS_META =
       (if length segs \<ge> 2 then Some (JArr (map JStr segs)) else None)"
proof -
  have "count_followers rest skip_ids n = n + length (takeWhile (\<lambda>g. can_merge_follower g skip_ids) rest)"
    for rest n
    by (induction rest arbitrary: n) auto
  moreover have "length (takeWhile P xs) \<le> length xs" for P :: "combine_gate \<Rightarrow> bool" and xs
    by (rule length_takeWhile_le)
  ultimately show ?thesis
    by (auto simp: combine_prefix_len_def stamp_combined_display_texts_def is_combined_def
        split: list.split)
qed

end
