(* ===== verification/TokenEst.thy ===== *)
theory TokenEst imports Rust_Str begin

text \<open>
  The token arithmetic every context-window gate shares
  (\<^verbatim>\<open>crates/codegen/xai-token-estimation/src/lib.rs\<close>): estimates, the truncating usage
  percentage, and the thresholds that start a compaction. A \<^verbatim>\<open>u64\<close> is a \<open>nat\<close> of at
  most \<^const>\<open>u64_max\<close>; the saturations are the source's.
\<close>

section \<open>The functions\<close>

definition BYTES_PER_TOKEN :: nat where
  "BYTES_PER_TOKEN = 4"

definition IMAGE_TOKEN_ESTIMATE :: nat where
  "IMAGE_TOKEN_ESTIMATE = 765"

definition estimate_tokens :: "string \<Rightarrow> nat" where
  "estimate_tokens s = wrap64 (length s) div BYTES_PER_TOKEN"

definition estimate_chars :: "nat \<Rightarrow> nat" where
  "estimate_chars tokens = sat_mul64 tokens BYTES_PER_TOKEN"

definition estimate_image_tokens :: "nat \<Rightarrow> nat" where
  "estimate_image_tokens image_count = sat_mul64 image_count IMAGE_TOKEN_ESTIMATE"

definition usage_percentage_truncated_u8 :: "nat \<Rightarrow> nat \<Rightarrow> nat" where
  "usage_percentage_truncated_u8 used all =
     (case checked_div (sat_mul64 used 100) all of
        None \<Rightarrow> 0
      | Some pct \<Rightarrow> min pct 100 mod 256)"

definition free_tokens :: "nat \<Rightarrow> nat \<Rightarrow> nat" where
  "free_tokens all used = sat_sub all used"

definition exceeds_threshold :: "nat \<Rightarrow> nat \<Rightarrow> u8 \<Rightarrow> bool" where
  "exceeds_threshold used context_window threshold_percent =
     (if context_window = 0 then False
      else sat_mul64 used 100 \<ge> sat_mul64 context_window (unat threshold_percent))"

definition exceeds_threshold_with_headroom :: "nat \<Rightarrow> nat \<Rightarrow> u8 \<Rightarrow> nat \<Rightarrow> bool" where
  "exceeds_threshold_with_headroom used context_window threshold_percent headroom =
     (if context_window = 0 then False
      else sat_mul64 used 100 \<ge>
        sat_sub (sat_mul64 context_window (unat threshold_percent)) (sat_mul64 headroom 100))"

section \<open>Lemmas\<close>

lemma exceeds_mono: "used \<le> used' \<Longrightarrow> exceeds_threshold_with_headroom used cw pct h \<Longrightarrow>
    exceeds_threshold_with_headroom used' cw pct h"
  by (auto simp: exceeds_threshold_with_headroom_def sat_sub_def split: if_splits
      dest: sat_mul64_mono [of used used' 100])

lemma headroom_mono: "h \<le> h' \<Longrightarrow> exceeds_threshold_with_headroom used cw pct h \<Longrightarrow>
    exceeds_threshold_with_headroom used cw pct h'"
  by (auto simp: exceeds_threshold_with_headroom_def sat_sub_def split: if_splits
      dest: sat_mul64_mono [of h h' 100])

lemma headroom_0: "exceeds_threshold_with_headroom used cw pct 0 = exceeds_threshold used cw pct"
  by (simp add: exceeds_threshold_with_headroom_def exceeds_threshold_def sat_sub_def sat_mul64_def)

section \<open>Properties\<close>

text \<open>
  The compaction gate, at every \<^verbatim>\<open>u64\<close> whose percentages do not saturate: it fires
  exactly from the first token count at or above \<open>threshold_percent\<close> of the window, less the
  headroom; it agrees with the truncating percentage the clients display for every threshold up to
  100; more use never stops it, and a headroom only makes it fire earlier.
\<close>

theorem threshold_gate_exact:
  assumes "used * 100 \<le> u64_max" and "cw * unat pct \<le> u64_max" and "h * 100 \<le> u64_max"
    and "0 < cw" and "unat pct \<le> 100" and "used \<le> used'"
  shows "(exceeds_threshold_with_headroom used cw pct h \<longleftrightarrow> cw * unat pct \<le> (used + h) * 100) \<and>
    (exceeds_threshold used cw pct \<longleftrightarrow> unat pct \<le> usage_percentage_truncated_u8 used cw) \<and>
    (exceeds_threshold used cw pct \<longrightarrow> exceeds_threshold_with_headroom used' cw pct h)"
proof (intro conjI impI)
  show "exceeds_threshold_with_headroom used cw pct h \<longleftrightarrow> cw * unat pct \<le> (used + h) * 100"
    using assms by (simp add: exceeds_threshold_with_headroom_def sat_mul64_exact sat_sub_def) linarith
  show "exceeds_threshold used cw pct \<longleftrightarrow> unat pct \<le> usage_percentage_truncated_u8 used cw"
    using assms by (simp add: exceeds_threshold_def usage_percentage_truncated_u8_def checked_div_def
        sat_mul64_exact less_eq_div_iff_mult_less_eq mult.commute min_less_iff_disj)
  show "exceeds_threshold_with_headroom used' cw pct h" if "exceeds_threshold used cw pct"
    using that headroom_0 headroom_mono exceeds_mono [OF assms(6)] by (metis le0)
qed

theorem threshold_gate_exact_witness:
  "exceeds_threshold_with_headroom 81000 100000 85 4000 \<and>
   \<not> exceeds_threshold_with_headroom 80999 100000 85 4000"
  using threshold_gate_exact [of 81000 100000 85 4000 81000]
    threshold_gate_exact [of 80999 100000 85 4000 80999]
  by (simp add: u64_max_def)

end
