(* ===== verification/Breaker.thy ===== *)
theory Breaker imports Rust_Str Complex_Main begin

text \<open>
  The circuit breaker (\<^verbatim>\<open>crates/common/xai-circuit-breaker\<close>): the sliding window, the
  three-state machine with its cool-down and probe slots, the configuration and its environment
  variables, the registry of breakers, and the retry policies by status code. Durations and
  instants are nanoseconds as \<open>nat\<close>. An operation that reads the clock several times takes the
  readings as a function of their index, so two readings of one call may differ. Every
  operation is first modelled as it runs alone; the section on interleaving splits \<^verbatim>\<open>check\<close>
  into its atomic steps.
\<close>

section \<open>Floating point\<close>

text \<open>
  The quotient of two integers as an IEEE double: the exact quotient, scaled by a power of two
  until its integer part has at least 53 bits, rounded half to even. For \<open>0 < a \<le> b\<close> with both far
  below \<open>2\<^sup>5\<^sup>3\<close>, as here, the integer part has exactly 53 bits and neither overflow
  nor a subnormal result occurs.
\<close>

datatype f64 = Fin rat | PosInf | NegInf | NaN

fun f64_ge :: "f64 \<Rightarrow> f64 \<Rightarrow> bool" where
  "f64_ge (Fin x) (Fin y) = (x \<ge> y)"
| "f64_ge NaN _ = False"
| "f64_ge _ NaN = False"
| "f64_ge PosInf _ = True"
| "f64_ge _ NegInf = True"
| "f64_ge _ PosInf = False"
| "f64_ge NegInf (Fin _) = False"

function scale_shift :: "nat \<Rightarrow> nat \<Rightarrow> nat \<Rightarrow> nat" where
  "scale_shift a b k =
     (if a = 0 \<or> 2 ^ 52 * b \<le> a * 2 ^ k then k else scale_shift a b (Suc k))"
  by pat_completeness auto
termination
proof (relation "measure (\<lambda>(a, b, k). 2 ^ 52 * b - a * 2 ^ k)", goal_cases)
  case (2 a b k)
  then have "a * 2 ^ k < a * 2 ^ Suc k" "a * 2 ^ k < 2 ^ 52 * b" by simp_all
  then show ?case by (simp only: in_measure prod.case diff_less_mono2)
qed simp

declare scale_shift.simps [simp del]

definition round_half_even :: "nat \<Rightarrow> nat \<Rightarrow> nat" where
  "round_half_even n d =
     (let q = n div d; r = n mod d
      in if 2 * r > d \<or> (2 * r = d \<and> odd q) then q + 1 else q)"

definition f64_div :: "nat \<Rightarrow> nat \<Rightarrow> rat" where
  "f64_div a b = (let k = scale_shift a b 0 in of_nat (round_half_even (a * 2 ^ k) b) / 2 ^ k)"

section \<open>The sliding window\<close>

type_synonym instant = nat
type_synonym duration = nat

definition from_secs :: "nat \<Rightarrow> duration" where
  "from_secs s = s * 10 ^ 9"

definition from_millis :: "nat \<Rightarrow> duration" where
  "from_millis ms = ms * 10 ^ 6"

definition as_millis_u64 :: "duration \<Rightarrow> nat" where
  "as_millis_u64 d = wrap64 (d div 10 ^ 6)"

definition MAX_WINDOW_ENTRIES :: nat where
  "MAX_WINDOW_ENTRIES = 10000"

record sliding_window =
  sw_entries :: "(instant \<times> bool) list"
  sw_failures :: nat

definition sw_new :: sliding_window where
  "sw_new = \<lparr>sw_entries = [], sw_failures = 0\<rparr>"

definition pop_front :: "sliding_window \<Rightarrow> sliding_window" where
  "pop_front w =
     (case sw_entries w of
        [] \<Rightarrow> w
      | (ts, was_failure) # rest \<Rightarrow>
          w\<lparr>sw_entries := rest,
            sw_failures := if was_failure then sw_failures w - 1 else sw_failures w\<rparr>)"

definition sw_push :: "bool \<Rightarrow> instant \<Rightarrow> sliding_window \<Rightarrow> sliding_window" where
  "sw_push is_failure t w =
     (let w = (if length (sw_entries w) \<ge> MAX_WINDOW_ENTRIES then pop_front w else w)
      in w\<lparr>sw_entries := sw_entries w @ [(t, is_failure)],
           sw_failures := if is_failure then sw_failures w + 1 else sw_failures w\<rparr>)"

function evict_before :: "instant \<Rightarrow> sliding_window \<Rightarrow> sliding_window" where
  "evict_before cutoff w =
     (case sw_entries w of
        [] \<Rightarrow> w
      | (ts, was_failure) # _ \<Rightarrow> if ts < cutoff then evict_before cutoff (pop_front w) else w)"
  by pat_completeness auto
termination
  by (relation "measure (\<lambda>(c, w). length (sw_entries w))") (auto simp: pop_front_def)

declare evict_before.simps [simp del]

definition sw_evict :: "duration \<Rightarrow> instant \<Rightarrow> sliding_window \<Rightarrow> sliding_window" where
  "sw_evict window now w =
     (if now < window then w else evict_before (now - window) w)"

definition sw_error_rate :: "sliding_window \<Rightarrow> f64" where
  "sw_error_rate w =
     (if sw_entries w = [] then Fin 0 else Fin (f64_div (sw_failures w) (length (sw_entries w))))"

definition sw_sample_count :: "sliding_window \<Rightarrow> nat" where
  "sw_sample_count w = length (sw_entries w)"

definition sw_clear :: "sliding_window \<Rightarrow> sliding_window" where
  "sw_clear w = \<lparr>sw_entries = [], sw_failures = 0\<rparr>"

section \<open>Configuration\<close>

record breaker_config =
  window_duration :: duration
  min_samples :: nat
  error_rate_threshold :: f64
  open_duration :: duration
  half_open_max_probes :: nat
  failure_codes :: "u16 list"
  enabled :: bool

definition default_failure_codes :: "u16 list" where
  "default_failure_codes = [429, 500, 502, 503, 504]"

definition server_config :: breaker_config where
  "server_config =
     \<lparr>window_duration = from_secs 60, min_samples = 10, error_rate_threshold = Fin (1 / 2),
      open_duration = from_secs 10, half_open_max_probes = 1,
      failure_codes = default_failure_codes, enabled = True\<rparr>"

definition client_config :: breaker_config where
  "client_config =
     \<lparr>window_duration = from_secs 60, min_samples = 5, error_rate_threshold = Fin (1 / 2),
      open_duration = from_secs 60, half_open_max_probes = 1,
      failure_codes = [401], enabled = True\<rparr>"

text \<open>\<^verbatim>\<open>lookup_or\<close>, with the parser of the wanted type.\<close>

definition lookup_or ::
    "(string \<Rightarrow> 'a option) \<Rightarrow> (string \<Rightarrow> string option) \<Rightarrow> string \<Rightarrow> 'a \<Rightarrow> 'a" where
  "lookup_or parse get key dflt =
     (case get key of
        None \<Rightarrow> dflt
      | Some v \<Rightarrow> (case parse v of Some parsed \<Rightarrow> parsed | None \<Rightarrow> dflt))"

definition parse_bool :: "string \<Rightarrow> bool option" where
  "parse_bool s = (if s = ''true'' then Some True else if s = ''false'' then Some False else None)"

definition parse_failure_codes :: "string \<Rightarrow> u16 list" where
  "parse_failure_codes s =
     List.map_filter (\<lambda>c. map_option word_of_nat (parse_uint 65535 (trim c))) (split_on (CHR '','') s)"

text \<open>
  \<open>parse_f64\<close> is \<^verbatim>\<open>f64::from_str\<close>. The set of codes is the list of its members,
  read only through membership.
\<close>

definition from_lookup_with_prefix ::
    "(string \<Rightarrow> f64 option) \<Rightarrow> string \<Rightarrow> (string \<Rightarrow> string option) \<Rightarrow> breaker_config" where
  "from_lookup_with_prefix parse_f64 prefix get =
     (let key = (\<lambda>k. prefix @ k);
          codes = (case get (key ''FAILURE_CODES'') of
             Some raw \<Rightarrow> (let codes = parse_failure_codes raw
                         in if codes = [] then default_failure_codes else codes)
           | None \<Rightarrow> default_failure_codes)
      in \<lparr>window_duration = from_secs (lookup_or (parse_uint u64_max) get (key ''WINDOW_SECS'') 60),
          min_samples = lookup_or (parse_uint u64_max) get (key ''MIN_SAMPLES'') 10,
          error_rate_threshold = lookup_or parse_f64 get (key ''ERROR_RATE_THRESHOLD'') (Fin (1 / 2)),
          open_duration = from_secs (lookup_or (parse_uint u64_max) get (key ''OPEN_DURATION_SECS'') 10),
          half_open_max_probes =
            max (lookup_or (parse_uint u64_max) get (key ''HALF_OPEN_MAX_PROBES'') 1) 1,
          failure_codes = codes,
          enabled = lookup_or parse_bool get (key ''ENABLED'') True\<rparr>)"

definition config_is_failure_status :: "breaker_config \<Rightarrow> u16 \<Rightarrow> bool" where
  "config_is_failure_status c status \<longleftrightarrow> status \<in> set (failure_codes c)"

section \<open>The state machine\<close>

datatype breaker_state = Closed | Open | HalfOpen

datatype outcome = Success | Failure

datatype breaker_open = BreakerOpen (retry_after: duration)

datatype observed =
    OnStateChange breaker_state breaker_state string
  | OnProbeAdmission bool
  | OnOutcome outcome breaker_state

definition state_from_u8 :: "u8 \<Rightarrow> breaker_state" where
  "state_from_u8 v = (if v = 1 then Open else if v = 2 then HalfOpen else Closed)"

definition state_as_u8 :: "breaker_state \<Rightarrow> u8" where
  "state_as_u8 s = (case s of Closed \<Rightarrow> 0 | Open \<Rightarrow> 1 | HalfOpen \<Rightarrow> 2)"

text \<open>The shared inner of a breaker, with the calls its observer has received.\<close>

record breaker =
  cb_config :: breaker_config
  cb_state :: u8
  cb_baseline :: instant
  cb_opened_at_millis :: nat
  cb_half_open_probes :: nat
  cb_probe_claimed_at_millis :: nat
  cb_is_open_fast :: bool
  cb_window :: sliding_window
  cb_observed :: "observed list"

definition with_clock :: "breaker_config \<Rightarrow> instant \<Rightarrow> breaker" where
  "with_clock config now =
     \<lparr>cb_config = config\<lparr>half_open_max_probes := max (half_open_max_probes config) 1\<rparr>,
      cb_state = state_as_u8 Closed, cb_baseline = now, cb_opened_at_millis = 0,
      cb_half_open_probes = 0, cb_probe_claimed_at_millis = 0, cb_is_open_fast = False,
      cb_window = sw_new, cb_observed = []\<rparr>"

definition breaker_state :: "breaker \<Rightarrow> breaker_state" where
  "breaker_state cb = state_from_u8 (cb_state cb)"

definition is_open :: "breaker \<Rightarrow> bool" where
  "is_open cb = cb_is_open_fast cb"

definition observe :: "observed \<Rightarrow> breaker \<Rightarrow> breaker" where
  "observe e cb = cb\<lparr>cb_observed := cb_observed cb @ [e]\<rparr>"

definition elapsed_millis :: "breaker \<Rightarrow> instant \<Rightarrow> nat" where
  "elapsed_millis cb now = as_millis_u64 (now - cb_baseline cb)"

definition HALF_OPEN_PROBE_BACKOFF :: duration where
  "HALF_OPEN_PROBE_BACKOFF = from_millis 50"

definition try_half_open_probe :: "instant \<Rightarrow> breaker \<Rightarrow> breaker \<times> (breaker_open + unit)" where
  "try_half_open_probe clock cb =
     (let now = elapsed_millis cb clock;
          prev = cb_half_open_probes cb;
          cb = cb\<lparr>cb_half_open_probes := cb_half_open_probes cb + 1\<rparr>
      in if prev < half_open_max_probes (cb_config cb)
         then (observe (OnProbeAdmission True) (cb\<lparr>cb_probe_claimed_at_millis := now\<rparr>), Inr ())
         else (let cb = cb\<lparr>cb_half_open_probes := cb_half_open_probes cb - 1\<rparr>;
                   lease_millis = as_millis_u64 (open_duration (cb_config cb));
                   claimed = cb_probe_claimed_at_millis cb
               in if now - claimed \<ge> lease_millis
                  then (observe (OnProbeAdmission True) (cb\<lparr>cb_probe_claimed_at_millis := now\<rparr>), Inr ())
                  else (observe (OnProbeAdmission False) cb,
                        Inl (BreakerOpen (min HALF_OPEN_PROBE_BACKOFF (open_duration (cb_config cb)))))))"

definition cas_state :: "breaker_state \<Rightarrow> breaker_state \<Rightarrow> breaker \<Rightarrow> breaker \<times> bool" where
  "cas_state from_state to_state cb =
     (if cb_state cb = state_as_u8 from_state then (cb\<lparr>cb_state := state_as_u8 to_state\<rparr>, True)
      else (cb, False))"

text \<open>Alone, the branch for a lost \<^verbatim>\<open>cas_state\<close> is not reached; it is modelled as written.\<close>

definition check_open :: "(nat \<Rightarrow> instant) \<Rightarrow> breaker \<Rightarrow> breaker \<times> (breaker_open + unit)" where
  "check_open clock cb =
     (let opened = cb_opened_at_millis cb;
          now = elapsed_millis cb (clock 0);
          elapsed = from_millis (now - opened)
      in if elapsed \<ge> open_duration (cb_config cb)
         then (case cas_state Open HalfOpen cb of
             (cb, True) \<Rightarrow>
               (let cb = cb\<lparr>cb_is_open_fast := False\<rparr>;
                    cb = observe (OnStateChange Open HalfOpen ''open_elapsed'') cb
                in try_half_open_probe (clock 1) cb)
           | (cb, False) \<Rightarrow>
               (case breaker_state cb of
                  Closed \<Rightarrow> (cb, Inr ())
                | HalfOpen \<Rightarrow> try_half_open_probe (clock 1) cb
                | Open \<Rightarrow>
                    (let opened = cb_opened_at_millis cb;
                         elapsed = from_millis (elapsed_millis cb (clock 1) - opened)
                     in (cb, Inl (BreakerOpen (open_duration (cb_config cb) - elapsed))))))
         else (cb, Inl (BreakerOpen (open_duration (cb_config cb) - elapsed))))"

definition check :: "(nat \<Rightarrow> instant) \<Rightarrow> breaker \<Rightarrow> breaker \<times> (breaker_open + unit)" where
  "check clock cb =
     (if \<not> enabled (cb_config cb) then (cb, Inr ())
      else case breaker_state cb of
          Closed \<Rightarrow> (cb, Inr ())
        | Open \<Rightarrow> check_open clock cb
        | HalfOpen \<Rightarrow> try_half_open_probe (clock 0) cb)"

definition trip :: "instant \<Rightarrow> breaker_state \<Rightarrow> string \<Rightarrow> breaker \<Rightarrow> breaker" where
  "trip clock prev reason cb =
     (let cb = cb\<lparr>cb_state := state_as_u8 Open\<rparr>;
          cb = cb\<lparr>cb_opened_at_millis := elapsed_millis cb clock\<rparr>;
          cb = cb\<lparr>cb_half_open_probes := 0\<rparr>;
          cb = cb\<lparr>cb_is_open_fast := True\<rparr>
      in if prev \<noteq> Open then observe (OnStateChange prev Open reason) cb else cb)"

definition close_breaker :: "breaker_state \<Rightarrow> string \<Rightarrow> breaker \<Rightarrow> breaker" where
  "close_breaker prev reason cb =
     (let cb = cb\<lparr>cb_state := state_as_u8 Closed\<rparr>;
          cb = cb\<lparr>cb_window := sw_clear (cb_window cb)\<rparr>;
          cb = cb\<lparr>cb_half_open_probes := 0\<rparr>;
          cb = cb\<lparr>cb_is_open_fast := False\<rparr>
      in if prev \<noteq> Closed then observe (OnStateChange prev Closed reason) cb else cb)"

definition should_trip :: "breaker_config \<Rightarrow> sliding_window \<Rightarrow> bool" where
  "should_trip c w \<longleftrightarrow>
     sw_sample_count w \<ge> min_samples c \<and> f64_ge (sw_error_rate w) (error_rate_threshold c)"

definition record_outcome :: "(nat \<Rightarrow> instant) \<Rightarrow> outcome \<Rightarrow> breaker \<Rightarrow> breaker" where
  "record_outcome clock outcome cb =
     (if \<not> enabled (cb_config cb) then cb
      else
        let is_failure = (outcome = Failure);
            now = clock 0;
            prev_state = breaker_state cb;
            sampled = cb\<lparr>cb_window := sw_evict (window_duration (cb_config cb)) now
                                      (sw_push is_failure now (cb_window cb))\<rparr>;
            cb' = (case prev_state of
              Closed \<Rightarrow>
                if should_trip (cb_config cb) (cb_window sampled)
                then trip (clock 1) prev_state ''trip'' sampled
                else sampled
            | HalfOpen \<Rightarrow>
                if is_failure then trip (clock 1) prev_state ''probe_failure'' cb
                else close_breaker prev_state ''probe_success'' cb
            | Open \<Rightarrow> sampled)
        in observe (OnOutcome outcome (breaker_state cb')) cb')"

definition breaker_error_rate :: "instant \<Rightarrow> breaker \<Rightarrow> breaker \<times> f64" where
  "breaker_error_rate now cb =
     (let w = sw_evict (window_duration (cb_config cb)) now (cb_window cb)
      in (cb\<lparr>cb_window := w\<rparr>, sw_error_rate w))"

definition is_failure_status :: "breaker \<Rightarrow> u16 \<Rightarrow> bool" where
  "is_failure_status cb status = config_is_failure_status (cb_config cb) status"

section \<open>The registry\<close>

text \<open>
  A handle to a breaker is its key: the \<^verbatim>\<open>Arc\<close> of a key is created once and shared, so
  an operation through a handle acts on the entry of the registry.
\<close>

record breaker_registry =
  reg_config :: breaker_config
  reg_breakers :: "(string, breaker) hmap"

definition registry_new :: "breaker_config \<Rightarrow> breaker_registry" where
  "registry_new config = \<lparr>reg_config = config, reg_breakers = []\<rparr>"

definition registry_get ::
    "string \<Rightarrow> instant \<Rightarrow> breaker_registry \<Rightarrow> breaker_registry \<times> string option" where
  "registry_get key now reg =
     (if \<not> enabled (reg_config reg) then (reg, None)
      else case hm_get (reg_breakers reg) key of
          Some cb \<Rightarrow> (reg, Some key)
        | None \<Rightarrow>
            (let cb = with_clock (reg_config reg) now
             in (reg\<lparr>reg_breakers := hm_ins key cb (reg_breakers reg)\<rparr>, Some key)))"

definition through_handle ::
    "string \<Rightarrow> (breaker \<Rightarrow> breaker) \<Rightarrow> breaker_registry \<Rightarrow> breaker_registry" where
  "through_handle key f reg =
     (case hm_get (reg_breakers reg) key of
        None \<Rightarrow> reg
      | Some cb \<Rightarrow> reg\<lparr>reg_breakers := hm_ins key (f cb) (reg_breakers reg)\<rparr>)"

section \<open>Retry policies\<close>

datatype disposition = Retryable | AuthRefresh | Terminal

record retry_policy =
  rp_retryable :: "u16 list"
  rp_auth_refresh :: "u16 list"
  rp_terminal :: "u16 list"
  rp_default :: disposition

definition classify :: "retry_policy \<Rightarrow> u16 \<Rightarrow> disposition option" where
  "classify p status =
     (if 200 \<le> status \<and> status < 300 then None
      else if status \<in> set (rp_auth_refresh p) then Some AuthRefresh
      else if status \<in> set (rp_terminal p) then Some Terminal
      else if status \<in> set (rp_retryable p) \<or> (500 \<le> status \<and> status < 600) then Some Retryable
      else Some (rp_default p))"

definition should_retry :: "retry_policy \<Rightarrow> u16 \<Rightarrow> bool" where
  "should_retry p status \<longleftrightarrow> classify p status = Some Retryable"

definition server_policy :: retry_policy where
  "server_policy = \<lparr>rp_retryable = [429], rp_auth_refresh = [], rp_terminal = [],
                    rp_default = Terminal\<rparr>"

definition edge_client_policy :: retry_policy where
  "edge_client_policy = \<lparr>rp_retryable = [429], rp_auth_refresh = [], rp_terminal = [525, 526],
                         rp_default = Terminal\<rparr>"

definition client_storage_policy :: retry_policy where
  "client_storage_policy = \<lparr>rp_retryable = [], rp_auth_refresh = [401],
                            rp_terminal = [400, 403, 404, 525, 526], rp_default = Retryable\<rparr>"

section \<open>Interleaving: the atomic steps of a check\<close>

text \<open>
  Where a thread is inside \<^verbatim>\<open>check\<close>. Each step makes at most one access to the shared
  atomics; \<open>AtClaim\<close>, \<open>AtSub\<close> and \<open>AtLease\<close> carry the clock reading taken when the probe
  began. A finished thread knows how it was let through, or that it was shed.
\<close>

datatype admission = ByClosed | BySlot | ByLease

datatype pc =
    Start
  | AtOpen
  | AtCas
  | AtMirror
  | AtReload
  | AtProbe
  | AtClaim nat
  | AtSub nat
  | AtLease nat
  | AtSwap nat nat
  | Admitted admission
  | Shed breaker_open
  | Recorded

fun check_atomic :: "instant \<Rightarrow> breaker \<Rightarrow> pc \<Rightarrow> breaker \<times> pc" where
  "check_atomic clock cb Start =
     (if \<not> enabled (cb_config cb) then (cb, Admitted ByClosed)
      else (cb, case breaker_state cb of
          Closed \<Rightarrow> Admitted ByClosed | Open \<Rightarrow> AtOpen | HalfOpen \<Rightarrow> AtProbe))"
| "check_atomic clock cb AtOpen =
     (let elapsed = from_millis (elapsed_millis cb clock - cb_opened_at_millis cb)
      in (cb, if elapsed \<ge> open_duration (cb_config cb) then AtCas
              else Shed (BreakerOpen (open_duration (cb_config cb) - elapsed))))"
| "check_atomic clock cb AtCas =
     (case cas_state Open HalfOpen cb of
        (cb, True) \<Rightarrow> (cb, AtMirror)
      | (cb, False) \<Rightarrow> (cb, AtReload))"
| "check_atomic clock cb AtMirror =
     (observe (OnStateChange Open HalfOpen ''open_elapsed'') (cb\<lparr>cb_is_open_fast := False\<rparr>), AtProbe)"
| "check_atomic clock cb AtReload =
     (cb, case breaker_state cb of
        Closed \<Rightarrow> Admitted ByClosed
      | HalfOpen \<Rightarrow> AtProbe
      | Open \<Rightarrow> Shed (BreakerOpen (open_duration (cb_config cb) -
          from_millis (elapsed_millis cb clock - cb_opened_at_millis cb))))"
| "check_atomic clock cb AtProbe =
     (let now = elapsed_millis cb clock
      in (cb\<lparr>cb_half_open_probes := cb_half_open_probes cb + 1\<rparr>,
          if cb_half_open_probes cb < half_open_max_probes (cb_config cb)
          then AtClaim now else AtSub now))"
| "check_atomic clock cb (AtClaim now) =
     (observe (OnProbeAdmission True) (cb\<lparr>cb_probe_claimed_at_millis := now\<rparr>), Admitted BySlot)"
| "check_atomic clock cb (AtSub now) =
     (cb\<lparr>cb_half_open_probes :=
        (if cb_half_open_probes cb = 0 then u64_max else cb_half_open_probes cb - 1)\<rparr>, AtLease now)"
| "check_atomic clock cb (AtLease now) =
     (if now - cb_probe_claimed_at_millis cb \<ge> as_millis_u64 (open_duration (cb_config cb))
      then (cb, AtSwap (cb_probe_claimed_at_millis cb) now)
      else (observe (OnProbeAdmission False) cb,
            Shed (BreakerOpen (min HALF_OPEN_PROBE_BACKOFF (open_duration (cb_config cb))))))"
| "check_atomic clock cb (AtSwap claimed now) =
     (if cb_probe_claimed_at_millis cb = claimed
      then (observe (OnProbeAdmission True) (cb\<lparr>cb_probe_claimed_at_millis := now\<rparr>), Admitted ByLease)
      else (observe (OnProbeAdmission False) cb,
            Shed (BreakerOpen (min HALF_OPEN_PROBE_BACKOFF (open_duration (cb_config cb))))))"
| "check_atomic clock cb (Admitted a) = (cb, Admitted a)"
| "check_atomic clock cb (Shed r) = (cb, Shed r)"
| "check_atomic clock cb Recorded = (cb, Recorded)"

type_synonym system = "breaker \<times> pc list"

text \<open>Any thread may take its next step of \<^verbatim>\<open>check\<close>, at any clock reading.\<close>

inductive check_step :: "system \<Rightarrow> system \<Rightarrow> bool" where
  step_thread: "i < length ts \<Longrightarrow> check_atomic clock cb (ts ! i) = (cb', p) \<Longrightarrow>
    check_step (cb, ts) (cb', ts[i := p])"

text \<open>A thread that was let through may also record the outcome of its request.\<close>

inductive breaker_step :: "system \<Rightarrow> system \<Rightarrow> bool" where
  step_check: "check_step s s' \<Longrightarrow> breaker_step s s'"
| step_record: "i < length ts \<Longrightarrow> ts ! i = Admitted a \<Longrightarrow>
    breaker_step (cb, ts) (record_outcome clock outcome cb, ts[i := Recorded])"

inductive_cases check_stepE: "check_step s s'"

text \<open>The same while the clock of the breaker stands at \<open>t0\<close> or later and before \<open>t1\<close>.\<close>

inductive timed_step :: "nat \<Rightarrow> nat \<Rightarrow> system \<Rightarrow> system \<Rightarrow> bool" for t0 t1 where
  timed_thread: "i < length ts \<Longrightarrow> check_atomic clock cb (ts ! i) = (cb', p) \<Longrightarrow>
    t0 \<le> elapsed_millis cb clock \<Longrightarrow> elapsed_millis cb clock < t1 \<Longrightarrow>
    timed_step t0 t1 (cb, ts) (cb', ts[i := p])"

text \<open>One thread alone, with its successive clock readings.\<close>

fun run_alone :: "instant list \<Rightarrow> breaker \<Rightarrow> pc \<Rightarrow> breaker \<times> pc" where
  "run_alone [] cb p = (cb, p)"
| "run_alone (t # ts) cb p = (case check_atomic t cb p of (cb, p) \<Rightarrow> run_alone ts cb p)"

fun pc_result :: "pc \<Rightarrow> (breaker_open + unit) option" where
  "pc_result (Admitted a) = Some (Inr ())"
| "pc_result (Shed r) = Some (Inl r)"
| "pc_result _ = None"

section \<open>Lemmas: the quotient\<close>

lemma scale_shift_enough: "0 < a \<Longrightarrow> 2 ^ 52 * b \<le> a * 2 ^ scale_shift a b k"
proof (induction a b k rule: scale_shift.induct)
  case (1 a b k)
  then show ?case
    by (cases "2 ^ 52 * b \<le> a * 2 ^ k") (simp_all add: scale_shift.simps [of a b k])
qed

lemma round_half_even_bounds:
  assumes "0 < d"
  shows "2 * round_half_even n d * d \<le> 2 * n + d" and "n div d \<le> round_half_even n d"
proof -
  show "n div d \<le> round_half_even n d" by (simp add: round_half_even_def Let_def)
  define q r where "q = n div d" and "r = n mod d"
  have n: "2 * n = 2 * (q * d) + 2 * r" by (simp add: q_def r_def flip: distrib_left)
  have round: "round_half_even n d = (if 2 * r > d \<or> (2 * r = d \<and> odd q) then q + 1 else q)"
    by (simp add: round_half_even_def q_def r_def Let_def)
  have "2 * (q + 1) * d = 2 * (q * d) + 2 * d" "2 * q * d = 2 * (q * d)"
    by (simp_all add: algebra_simps)
  then show "2 * round_half_even n d * d \<le> 2 * n + d"
    unfolding round by (cases "2 * r > d \<or> (2 * r = d \<and> odd q)") (use n in \<open>simp, linarith\<close>, use n in simp)
qed

text \<open>Rounding does not move the quotient across one half.\<close>

lemma f64_div_half:
  assumes "0 < b" and "b \<le> 2 ^ 52"
  shows "f64_div a b \<ge> 1 / 2 \<longleftrightarrow> b \<le> 2 * a"
proof (cases "a = 0")
  case True
  with assms show ?thesis
    by (simp add: f64_div_def round_half_even_def scale_shift.simps)
next
  case False
  define k where "k = scale_shift a b 0"
  define m where "m = round_half_even (a * 2 ^ k) b"
  have enough: "2 ^ 52 * b \<le> a * 2 ^ k"
    using False scale_shift_enough by (simp add: k_def)
  have div_half: "f64_div a b \<ge> 1 / 2 \<longleftrightarrow> 2 ^ k \<le> 2 * m"
  proof -
    have "(1 / 2 :: rat) \<le> of_nat m / 2 ^ k \<longleftrightarrow> (of_nat (2 ^ k) :: rat) \<le> of_nat (2 * m)"
      by (simp add: field_simps)
    then show ?thesis
      unfolding of_nat_le_iff by (simp add: f64_div_def Let_def k_def m_def)
  qed
  show ?thesis
  proof
    assume ge: "b \<le> 2 * a"
    show "f64_div a b \<ge> 1 / 2"
    proof (cases k)
      case 0
      with enough have "b \<le> a" by simp
      then have "1 \<le> a div b" using assms(1) by (simp add: Suc_le_eq div_greater_zero_iff)
      then show ?thesis
        using div_half 0 round_half_even_bounds(2) [OF assms(1), of "a * 2 ^ k"] by (simp add: m_def)
    next
      case (Suc j)
      have "2 ^ j * b \<le> a * 2 ^ k"
        using mult_le_mono1 [OF ge, of "2 ^ j"] by (simp add: Suc mult.commute mult.left_commute)
      then have "2 ^ j \<le> a * 2 ^ k div b"
        using assms(1) by (simp add: less_eq_div_iff_mult_less_eq)
      then show ?thesis
        using div_half Suc round_half_even_bounds(2) [OF assms(1), of "a * 2 ^ k"] by (simp add: m_def)
    qed
  next
    assume "f64_div a b \<ge> 1 / 2"
    then have half: "2 ^ k \<le> 2 * m" using div_half by blast
    show "b \<le> 2 * a"
    proof (rule ccontr)
      assume "\<not> b \<le> 2 * a"
      then have lt: "2 * a + 1 \<le> b" by simp
      have up: "2 * m * b \<le> 2 * (a * 2 ^ k) + b"
        unfolding m_def by (rule round_half_even_bounds(1) [OF assms(1)])
      have "2 ^ k * b \<le> 2 * m * b" using half by (rule mult_le_mono1)
      moreover have step: "2 * (a * 2 ^ k) + 2 ^ k \<le> b * 2 ^ k"
        using mult_le_mono1 [OF lt, of "2 ^ k"] by (simp add: algebra_simps)
      moreover have "2 ^ k * b = b * 2 ^ k" by (rule mult.commute)
      ultimately have kb: "2 ^ k \<le> b" using up by linarith
      have "2 * (2 ^ 52 * b) \<le> 2 * (a * 2 ^ k)" using enough by simp
      also have "\<dots> < 2 * (a * 2 ^ k) + 2 ^ k" by simp
      also have "\<dots> \<le> b * 2 ^ k" by (rule step)
      also have "\<dots> \<le> b * b" using kb by simp
      finally have "2 * 2 ^ 52 < b" using assms(1) by (simp add: mult.commute mult.left_commute)
      with assms(2) show False by simp
    qed
  qed
qed

section \<open>Lemmas: the window\<close>

definition window_ok :: "sliding_window \<Rightarrow> bool" where
  "window_ok w \<longleftrightarrow> sw_failures w = length (filter snd (sw_entries w)) \<and>
     length (sw_entries w) \<le> MAX_WINDOW_ENTRIES"

lemma window_ok_new [simp]: "window_ok sw_new"
  by (simp add: window_ok_def sw_new_def)

lemma window_ok_clear [simp]: "window_ok (sw_clear w)"
  by (simp add: window_ok_def sw_clear_def)

lemma window_ok_pop: "window_ok w \<Longrightarrow> window_ok (pop_front w)"
  by (auto simp: window_ok_def pop_front_def split: list.splits)

lemma entries_pop: "sw_entries (pop_front w) = tl (sw_entries w)"
  by (auto simp: pop_front_def split: list.splits)

lemma sw_push_eq: "sw_push f t w =
    (let w' = if length (sw_entries w) \<ge> MAX_WINDOW_ENTRIES then pop_front w else w
     in \<lparr>sw_entries = sw_entries w' @ [(t, f)],
         sw_failures = (if f then sw_failures w' + 1 else sw_failures w')\<rparr>)"
  by (simp add: sw_push_def Let_def)

lemma window_ok_push:
  assumes "window_ok w"
  shows "window_ok (sw_push f t w)"
proof -
  define w' where "w' = (if length (sw_entries w) \<ge> MAX_WINDOW_ENTRIES then pop_front w else w)"
  have "window_ok w'" using assms window_ok_pop by (simp add: w'_def)
  moreover have "length (sw_entries w') < MAX_WINDOW_ENTRIES"
    using assms by (auto simp: w'_def entries_pop window_ok_def MAX_WINDOW_ENTRIES_def)
  ultimately show ?thesis
    by (auto simp: sw_push_eq w'_def [symmetric] Let_def window_ok_def)
qed

lemma evict_before_entries:
  "sw_entries (evict_before c w) = dropWhile (\<lambda>(ts, _). ts < c) (sw_entries w)"
proof (induction c w rule: evict_before.induct)
  case (1 c w)
  then show ?case
    by (cases "sw_entries w") (auto simp: evict_before.simps [of c w] entries_pop)
qed

lemma window_ok_evict_before: "window_ok w \<Longrightarrow> window_ok (evict_before c w)"
proof (induction c w rule: evict_before.induct)
  case (1 c w)
  then show ?case
    by (cases "sw_entries w") (auto simp: evict_before.simps [of c w] window_ok_pop)
qed

lemma window_ok_evict: "window_ok w \<Longrightarrow> window_ok (sw_evict d t w)"
  by (simp add: sw_evict_def window_ok_evict_before)

lemma should_trip_half:
  assumes "window_ok w" and "error_rate_threshold c = Fin (1 / 2)" and "0 < min_samples c"
  shows "should_trip c w \<longleftrightarrow> min_samples c \<le> length (sw_entries w) \<and>
    length (sw_entries w) \<le> 2 * length (filter snd (sw_entries w))"
proof (cases "sw_entries w = []")
  case False
  then have "0 < length (sw_entries w)" "length (sw_entries w) \<le> 2 ^ 52"
    using assms(1) by (auto simp: window_ok_def MAX_WINDOW_ENTRIES_def)
  from f64_div_half [OF this] show ?thesis
    using assms(1,2) False
    by (simp add: should_trip_def sw_error_rate_def sw_sample_count_def window_ok_def)
qed (use assms in \<open>simp add: should_trip_def sw_sample_count_def\<close>)

section \<open>Lemmas: the state machine\<close>

lemma breaker_state_as [simp]:
  "state_from_u8 (state_as_u8 s) = s" "state_as_u8 s = state_as_u8 s' \<longleftrightarrow> s = s'"
  by (cases s; cases s'; simp add: state_from_u8_def state_as_u8_def)+

lemma observe_frame [simp]:
  "cb_config (observe e cb) = cb_config cb" "cb_state (observe e cb) = cb_state cb"
  "cb_half_open_probes (observe e cb) = cb_half_open_probes cb"
  "cb_window (observe e cb) = cb_window cb" "cb_is_open_fast (observe e cb) = cb_is_open_fast cb"
  "cb_opened_at_millis (observe e cb) = cb_opened_at_millis cb"
  "cb_probe_claimed_at_millis (observe e cb) = cb_probe_claimed_at_millis cb"
  "cb_baseline (observe e cb) = cb_baseline cb"
  by (simp_all add: observe_def)

text \<open>The invariant of a breaker whose operations run one at a time.\<close>

definition breaker_ok :: "breaker \<Rightarrow> bool" where
  "breaker_ok cb \<longleftrightarrow> (\<exists>s. cb_state cb = state_as_u8 s) \<and> window_ok (cb_window cb) \<and>
     (cb_is_open_fast cb \<longleftrightarrow> breaker_state cb = Open) \<and>
     (breaker_state cb \<noteq> HalfOpen \<longrightarrow> cb_half_open_probes cb = 0) \<and>
     cb_half_open_probes cb \<le> half_open_max_probes (cb_config cb) \<and>
     0 < half_open_max_probes (cb_config cb)"

lemma breaker_ok_new: "breaker_ok (with_clock config now)"
  by (auto simp: breaker_ok_def with_clock_def breaker_state_def)

lemma breaker_ok_probe:
  "breaker_ok cb \<Longrightarrow> breaker_state cb = HalfOpen \<Longrightarrow> breaker_ok (fst (try_half_open_probe t cb))"
  by (auto simp: breaker_ok_def try_half_open_probe_def Let_def breaker_state_def)

lemma breaker_ok_check_open:
  assumes "breaker_ok cb" and "breaker_state cb = Open"
  shows "breaker_ok (fst (check_open clock cb))"
proof -
  have state: "cb_state cb = state_as_u8 Open"
    using assms by (auto simp: breaker_ok_def breaker_state_def)
  let ?cb = "observe (OnStateChange Open HalfOpen ''open_elapsed'')
      (cb\<lparr>cb_state := state_as_u8 HalfOpen, cb_is_open_fast := False\<rparr>)"
  have "breaker_ok ?cb" "breaker_state ?cb = HalfOpen"
    using assms by (auto simp: breaker_ok_def breaker_state_def)
  then have "breaker_ok (fst (try_half_open_probe (clock 1) ?cb))"
    by (rule breaker_ok_probe)
  then show ?thesis
    using assms(1) state by (simp add: check_open_def Let_def cas_state_def)
qed

lemma breaker_ok_check: "breaker_ok cb \<Longrightarrow> breaker_ok (fst (check clock cb))"
  by (auto simp: check_def breaker_ok_probe breaker_ok_check_open split: breaker_state.split)

lemma breaker_ok_trip:
  assumes "0 < half_open_max_probes (cb_config cb)" and "window_ok (cb_window cb)"
  shows "breaker_ok (trip t prev reason cb)" "breaker_state (trip t prev reason cb) = Open"
  using assms by (auto simp: breaker_ok_def trip_def Let_def breaker_state_def)

lemma breaker_ok_close:
  assumes "0 < half_open_max_probes (cb_config cb)"
  shows "breaker_ok (close_breaker prev reason cb)"
    and "breaker_state (close_breaker prev reason cb) = Closed"
  using assms by (auto simp: breaker_ok_def close_breaker_def Let_def breaker_state_def)

lemma breaker_ok_observe [simp]: "breaker_ok (observe e cb) = breaker_ok cb"
  by (simp add: breaker_ok_def breaker_state_def)

lemma breaker_ok_record:
  assumes "breaker_ok cb"
  shows "breaker_ok (record_outcome clock outcome cb)"
proof -
  let ?w = "sw_evict (window_duration (cb_config cb)) (clock 0)
      (sw_push (outcome = Failure) (clock 0) (cb_window cb))"
  have w: "window_ok ?w" "0 < half_open_max_probes (cb_config cb)" "window_ok (cb_window cb)"
    using assms by (auto simp: breaker_ok_def intro: window_ok_evict window_ok_push)
  have "breaker_ok (cb\<lparr>cb_window := ?w\<rparr>)"
    using assms w by (auto simp: breaker_ok_def breaker_state_def)
  moreover have "breaker_ok (trip t s r (cb\<lparr>cb_window := ?w\<rparr>))" for t s r
    by (rule breaker_ok_trip) (use w in simp_all)
  ultimately show ?thesis
    using assms w
    by (auto simp: record_outcome_def Let_def breaker_ok_trip(1) breaker_ok_close(1)
        split: breaker_state.split)
qed

section \<open>Sequential runs\<close>

datatype breaker_op = Check "nat \<Rightarrow> instant" | Record "nat \<Rightarrow> instant" outcome

fun apply_op :: "breaker_op \<Rightarrow> breaker \<Rightarrow> breaker" where
  "apply_op (Check clock) cb = fst (check clock cb)"
| "apply_op (Record clock outcome) cb = record_outcome clock outcome cb"

definition run_ops :: "breaker_config \<Rightarrow> instant \<Rightarrow> breaker_op list \<Rightarrow> breaker" where
  "run_ops config now ops = fold apply_op ops (with_clock config now)"

lemma config_try [simp]: "cb_config (fst (try_half_open_probe t cb)) = cb_config cb"
  by (simp add: try_half_open_probe_def Let_def)

lemma config_apply [simp]: "cb_config (apply_op op cb) = cb_config cb"
  by (cases op) (simp_all add: check_def check_open_def cas_state_def Let_def record_outcome_def
      trip_def close_breaker_def split: breaker_state.split)

lemma run_ops_ok: "breaker_ok (run_ops config now ops)"
proof -
  have "breaker_ok cb \<Longrightarrow> breaker_ok (fold apply_op ops cb)" for cb
  proof (induction ops arbitrary: cb)
    case (Cons op ops)
    then show ?case
      by (cases op) (simp_all add: breaker_ok_check breaker_ok_record)
  qed simp
  then show ?thesis by (simp add: run_ops_def breaker_ok_new)
qed

lemma run_ops_config:
  "cb_config (run_ops config now ops) = config\<lparr>half_open_max_probes := max (half_open_max_probes config) 1\<rparr>"
proof -
  have "cb_config (fold apply_op ops cb) = cb_config cb" for cb
    by (induction ops arbitrary: cb) simp_all
  then show ?thesis by (simp add: run_ops_def with_clock_def)
qed

lemma breaker_state_record:
  assumes "breaker_ok cb" and "enabled (cb_config cb)"
  shows "breaker_state (record_outcome clock outcome cb) =
    (case breaker_state cb of
       Closed \<Rightarrow> if should_trip (cb_config cb) (sw_evict (window_duration (cb_config cb)) (clock 0)
           (sw_push (outcome = Failure) (clock 0) (cb_window cb))) then Open else Closed
     | HalfOpen \<Rightarrow> if outcome = Failure then Open else Closed
     | Open \<Rightarrow> Open)"
  using assms by (auto simp: record_outcome_def Let_def trip_def close_breaker_def breaker_state_def
      split: breaker_state.split)

lemma probe_result:
  "snd (try_half_open_probe t cb) =
    (if cb_half_open_probes cb < half_open_max_probes (cb_config cb) \<or>
        as_millis_u64 (open_duration (cb_config cb)) \<le> elapsed_millis cb t - cb_probe_claimed_at_millis cb
     then Inr () else Inl (BreakerOpen (min HALF_OPEN_PROBE_BACKOFF (open_duration (cb_config cb)))))"
  by (simp add: try_half_open_probe_def Let_def elapsed_millis_def)

lemma probe_state [simp]: "breaker_state (fst (try_half_open_probe t cb)) = breaker_state cb"
  by (simp add: try_half_open_probe_def Let_def breaker_state_def)

section \<open>Interleaved runs: lemmas\<close>

fun holds_slot :: "pc \<Rightarrow> bool" where
  "holds_slot (AtClaim _) = True"
| "holds_slot (Admitted BySlot) = True"
| "holds_slot _ = False"

fun returns_slot :: "pc \<Rightarrow> bool" where
  "returns_slot (AtSub _) = True"
| "returns_slot _ = False"

definition count_pc :: "(pc \<Rightarrow> bool) \<Rightarrow> pc list \<Rightarrow> nat" where
  "count_pc P ts = length (filter P ts)"

lemma count_pc_update:
  "i < length ts \<Longrightarrow> count_pc P (ts[i := p]) + (if P (ts ! i) then 1 else 0) =
    count_pc P ts + (if P p then 1 else 0)"
  unfolding count_pc_def by (rule length_filter_update)

lemma count_pc_pos: "i < length ts \<Longrightarrow> P (ts ! i) \<Longrightarrow> 0 < count_pc P ts"
  unfolding count_pc_def by (auto simp: filter_empty_conv intro: nth_mem bexI [of _ "ts ! i"])

definition slots_inv :: "system \<Rightarrow> bool" where
  "slots_inv s \<longleftrightarrow> (case s of (cb, ts) \<Rightarrow>
     cb_half_open_probes cb = count_pc holds_slot ts + count_pc returns_slot ts \<and>
     count_pc holds_slot ts \<le> half_open_max_probes (cb_config cb))"

definition not_closed_inv :: "system \<Rightarrow> bool" where
  "not_closed_inv s \<longleftrightarrow> (case s of (cb, ts) \<Rightarrow>
     enabled (cb_config cb) \<and> breaker_state cb \<noteq> Closed \<and> Admitted ByClosed \<notin> set ts)"

lemma cas_cases: "cas_state a b cb = (cb', ok) \<Longrightarrow>
    (ok \<and> cb' = cb\<lparr>cb_state := state_as_u8 b\<rparr>) \<or> (\<not> ok \<and> cb' = cb)"
  by (auto simp: cas_state_def split: if_splits)

lemma check_atomic_config:
  "check_atomic clock cb p = (cb', p') \<Longrightarrow> cb_config cb' = cb_config cb"
  by (cases p) (auto simp: Let_def split: if_splits breaker_state.splits prod.splits bool.splits
      dest: cas_cases)

lemma check_atomic_clock:
  "check_atomic clock cb p = (cb', p') \<Longrightarrow> elapsed_millis cb' t = elapsed_millis cb t"
  by (cases p) (auto simp: elapsed_millis_def observe_def Let_def
      split: if_splits breaker_state.splits prod.splits bool.splits dest: cas_cases)

lemma check_atomic_probes:
  assumes "check_atomic clock cb p = (cb', p')" and "returns_slot p \<Longrightarrow> 0 < cb_half_open_probes cb"
  shows "(\<not> holds_slot p' \<longrightarrow> \<not> holds_slot p) \<and>
    (holds_slot p' \<and> \<not> holds_slot p \<longrightarrow> cb_half_open_probes cb < half_open_max_probes (cb_config cb)) \<and>
    cb_half_open_probes cb' = (cb_half_open_probes cb - (if returns_slot p then 1 else 0)) +
      (if returns_slot p' then 1 else 0) + (if holds_slot p' \<and> \<not> holds_slot p then 1 else 0)"
  using assms
  by (cases p; auto simp: Let_def split: if_splits breaker_state.splits prod.splits bool.splits
      admission.splits dest: cas_cases)

lemma slots_inv_step: "check_step s s' \<Longrightarrow> slots_inv s \<Longrightarrow> slots_inv s'"
proof (induction rule: check_step.induct)
  case (step_thread i ts clock cb cb' p)
  note up = count_pc_update [OF step_thread.hyps(1), of holds_slot p]
    count_pc_update [OF step_thread.hyps(1), of returns_slot p]
  have pos: "returns_slot (ts ! i) \<Longrightarrow> 0 < count_pc returns_slot ts"
    using step_thread.hyps(1) count_pc_pos by blast
  then have "returns_slot (ts ! i) \<Longrightarrow> 0 < cb_half_open_probes cb"
    using step_thread.prems by (simp add: slots_inv_def)
  note at = check_atomic_probes [OF step_thread.hyps(2) this] check_atomic_config [OF step_thread.hyps(2)]
  have excl: "\<not> (holds_slot q \<and> returns_slot q)" for q
    by (cases q) auto
  show ?case
    using step_thread.prems up at pos excl [of p] excl [of "ts ! i"]
    unfolding slots_inv_def by (auto split: if_splits)
qed

lemma not_closed_atomic:
  assumes "check_atomic clock cb p = (cb', p')" and "enabled (cb_config cb)"
    and "breaker_state cb \<noteq> Closed" and "p \<noteq> Admitted ByClosed"
  shows "breaker_state cb' \<noteq> Closed \<and> p' \<noteq> Admitted ByClosed"
  using assms
  by (cases p; auto simp: Let_def breaker_state_def split: if_splits breaker_state.splits prod.splits
      bool.splits dest: cas_cases)

lemma not_closed_step: "check_step s s' \<Longrightarrow> not_closed_inv s \<Longrightarrow> not_closed_inv s'"
proof (induction rule: check_step.induct)
  case (step_thread i ts clock cb cb' p)
  then have "ts ! i \<noteq> Admitted ByClosed"
    by (auto simp: not_closed_inv_def in_set_conv_nth)
  with step_thread not_closed_atomic [OF step_thread.hyps(2)] check_atomic_config [OF step_thread.hyps(2)]
  show ?case
    by (auto simp: not_closed_inv_def dest: set_update_subset_insert [THEN subsetD])
qed

text \<open>
  While the clock stands within one cool-down after \<open>t0\<close>: the readings that threads carry are of
  that time, a claim that somebody is about to take over is older than \<open>t0\<close>, and once one was taken
  over the stamp is younger, so that no second one is.
\<close>

fun reads_within :: "nat \<Rightarrow> nat \<Rightarrow> pc \<Rightarrow> bool" where
  "reads_within t0 t1 (AtClaim now) = (t0 \<le> now \<and> now < t1)"
| "reads_within t0 t1 (AtSub now) = (t0 \<le> now \<and> now < t1)"
| "reads_within t0 t1 (AtLease now) = (t0 \<le> now \<and> now < t1)"
| "reads_within t0 t1 (AtSwap claimed now) = (claimed < t0 \<and> t0 \<le> now \<and> now < t1)"
| "reads_within t0 t1 _ = True"

definition by_lease :: "pc \<Rightarrow> bool" where
  "by_lease p \<longleftrightarrow> p = Admitted ByLease"

lemma by_lease_eq: "by_lease = (\<lambda>p. p = Admitted ByLease)"
  by (rule ext) (simp add: by_lease_def)

definition lease_inv :: "nat \<Rightarrow> system \<Rightarrow> bool" where
  "lease_inv t0 s \<longleftrightarrow> (case s of (cb, ts) \<Rightarrow>
     list_all (reads_within t0 (t0 + as_millis_u64 (open_duration (cb_config cb)))) ts \<and>
     count_pc by_lease ts \<le> (if t0 \<le> cb_probe_claimed_at_millis cb then 1 else 0))"

lemma timed_checks: "timed_step t0 t1 s s' \<Longrightarrow> check_step s s'"
  by (induction rule: timed_step.induct) (rule step_thread)

lemma check_atomic_lease:
  assumes "check_atomic clock cb p = (cb', p')" and "reads_within t0 (t0 + L) p"
    and "t0 \<le> elapsed_millis cb clock" and "elapsed_millis cb clock < t0 + L"
    and "as_millis_u64 (open_duration (cb_config cb)) = L"
  shows "reads_within t0 (t0 + L) p' \<and>
    (by_lease p' \<and> \<not> by_lease p \<longrightarrow> cb_probe_claimed_at_millis cb < t0) \<and>
    (by_lease p \<longrightarrow> by_lease p') \<and>
    (cb_probe_claimed_at_millis cb' = cb_probe_claimed_at_millis cb \<and> (by_lease p' \<longrightarrow> by_lease p) \<or>
     t0 \<le> cb_probe_claimed_at_millis cb')"
  using assms
  by (cases p; auto simp: by_lease_def Let_def split: if_splits breaker_state.splits prod.splits bool.splits
      dest: cas_cases)

lemma lease_inv_step:
  "timed_step t0 t1 s s' \<Longrightarrow> t1 = t0 + as_millis_u64 (open_duration (cb_config (fst s))) \<Longrightarrow>
   lease_inv t0 s \<Longrightarrow> lease_inv t0 s'"
proof (induction rule: timed_step.induct)
  case (timed_thread i ts clock cb cb' p)
  let ?t1 = "t0 + as_millis_u64 (open_duration (cb_config cb))"
  have within: "reads_within t0 ?t1 (ts ! i)"
    using timed_thread by (simp add: lease_inv_def list_all_length)
  note at = check_atomic_lease [OF timed_thread.hyps(2) within timed_thread.hyps(3), OF _ refl]
  have "list_all (reads_within t0 ?t1) (ts[i := p])"
    using timed_thread at by (auto simp: lease_inv_def list_all_iff dest: set_update_subset_insert [THEN subsetD])
  then show ?case
    using timed_thread at check_atomic_config [OF timed_thread.hyps(2)]
      count_pc_update [OF timed_thread.hyps(1), of by_lease p]
    by (auto simp: lease_inv_def split: if_splits)
qed

lemma timed_run:
  assumes "(timed_step t0 t1)\<^sup>*\<^sup>* s s'" and "t1 = t0 + as_millis_u64 (open_duration (cb_config (fst s)))"
  shows "cb_config (fst s') = cb_config (fst s) \<and> (slots_inv s \<longrightarrow> slots_inv s') \<and>
    (not_closed_inv s \<longrightarrow> not_closed_inv s') \<and> (lease_inv t0 s \<longrightarrow> lease_inv t0 s')"
  using assms
proof (induction rule: rtranclp_induct)
  case (step s1 s2)
  have check: "check_step s1 s2" using step.hyps(2) by (rule timed_checks)
  then have "cb_config (fst s2) = cb_config (fst s1)"
    by (auto elim!: check_stepE dest: check_atomic_config)
  with step lease_inv_step [OF step.hyps(2)] slots_inv_step [OF check] not_closed_step [OF check]
  show ?case by simp
qed simp

fun let_through :: "pc \<Rightarrow> bool" where
  "let_through (Admitted _) = True"
| "let_through _ = False"

text \<open>A schedule: which thread moves, at which reading, and whether it checks or records.\<close>

fun schedule :: "(nat \<times> instant \<times> outcome option) list \<Rightarrow> system \<Rightarrow> system" where
  "schedule [] s = s"
| "schedule ((i, clock, None) # rest) (cb, ts) =
     (case check_atomic clock cb (ts ! i) of (cb', p) \<Rightarrow> schedule rest (cb', ts[i := p]))"
| "schedule ((i, clock, Some outcome) # rest) (cb, ts) =
     schedule rest (record_outcome (\<lambda>_. clock) outcome cb, ts[i := Recorded])"

fun schedule_ok :: "(nat \<times> instant \<times> outcome option) list \<Rightarrow> system \<Rightarrow> bool" where
  "schedule_ok [] s = True"
| "schedule_ok ((i, clock, None) # rest) (cb, ts) =
     (i < length ts \<and> (case check_atomic clock cb (ts ! i) of (cb', p) \<Rightarrow> schedule_ok rest (cb', ts[i := p])))"
| "schedule_ok ((i, clock, Some outcome) # rest) (cb, ts) =
     (i < length ts \<and> let_through (ts ! i) \<and>
      schedule_ok rest (record_outcome (\<lambda>_. clock) outcome cb, ts[i := Recorded]))"

lemma schedule_run: "schedule_ok sch s \<Longrightarrow> breaker_step\<^sup>*\<^sup>* s (schedule sch s)"
proof (induction sch s rule: schedule.induct)
  case (2 i clock rest cb ts)
  obtain cb' p where at: "check_atomic clock cb (ts ! i) = (cb', p)" by fastforce
  with "2.prems" have "breaker_step (cb, ts) (cb', ts[i := p])"
    by (auto intro: step_check step_thread)
  with 2 at show ?case by (auto intro: converse_rtranclp_into_rtranclp)
next
  case (3 i clock outcome rest cb ts)
  then obtain a where "ts ! i = Admitted a" "i < length ts"
    by (cases "ts ! i") auto
  then have "breaker_step (cb, ts) (record_outcome (\<lambda>_. clock) outcome cb, ts[i := Recorded])"
    by (rule step_record [rotated])
  with 3 show ?case by (auto intro: converse_rtranclp_into_rtranclp)
qed simp

section \<open>Properties\<close>

text \<open>
  When its operations run one at a time, a breaker keeps its invariant from construction on:
  the failure count is the number of failed samples, the window stays within its cap, the lock-free
  mirror says open exactly when the state is open, and probe slots are claimed only while half
  open and never more than configured.
\<close>

theorem breaker_invariant:
  "let cb = run_ops config now ops
   in sw_failures (cb_window cb) = length (filter snd (sw_entries (cb_window cb))) \<and>
      length (sw_entries (cb_window cb)) \<le> MAX_WINDOW_ENTRIES \<and>
      (is_open cb \<longleftrightarrow> breaker_state cb = Open) \<and>
      cb_half_open_probes cb \<le>
        (if breaker_state cb = HalfOpen then max (half_open_max_probes config) 1 else 0)"
  using run_ops_ok [of config now ops] run_ops_config [of config now ops]
  by (auto simp: breaker_ok_def window_ok_def is_open_def)

text \<open>
  What recording does to the state, at a threshold of one half: a closed breaker opens exactly
  when, with the sample added, the cap applied and the samples before the window dropped, at least
  \<open>min_samples\<close> remain and at least half of them failed (the floating-point quotient does not
  change that); a probe's success closes, its failure reopens; an open breaker stays open.
\<close>

theorem record_state_spec:
  assumes "enabled config" and "error_rate_threshold config = Fin (1 / 2)" and "0 < min_samples config"
    and "window_duration config \<le> clock 0"
  shows "let cb = run_ops config now ops; old = sw_entries (cb_window cb);
       kept = (if length old < MAX_WINDOW_ENTRIES then old else tl old);
       live = dropWhile (\<lambda>(t, _). t < clock 0 - window_duration config) (kept @ [(clock 0, outcome = Failure)])
     in breaker_state (record_outcome clock outcome cb) =
       (case breaker_state cb of
          Closed \<Rightarrow> if min_samples config \<le> length live \<and> length live \<le> 2 * length (filter snd live)
            then Open else Closed
        | HalfOpen \<Rightarrow> if outcome = Failure then Open else Closed
        | Open \<Rightarrow> Open)"
proof -
  define cb where "cb = run_ops config now ops"
  define w where "w = sw_evict (window_duration config) (clock 0)
      (sw_push (outcome = Failure) (clock 0) (cb_window cb))"
  note ok = run_ops_ok [of config now ops, folded cb_def]
    run_ops_config [of config now ops, folded cb_def]
  then have w_ok: "window_ok w"
    unfolding w_def by (auto simp: breaker_ok_def intro: window_ok_evict window_ok_push)
  have entries: "sw_entries w = dropWhile (\<lambda>(t, _). t < clock 0 - window_duration config)
      ((if length (sw_entries (cb_window cb)) < MAX_WINDOW_ENTRIES then sw_entries (cb_window cb)
        else tl (sw_entries (cb_window cb))) @ [(clock 0, outcome = Failure)])"
    using assms(4) by (simp add: w_def sw_evict_def evict_before_entries sw_push_eq entries_pop Let_def)
  have trip: "should_trip (cb_config cb) w \<longleftrightarrow> min_samples config \<le> length (sw_entries w) \<and>
      length (sw_entries w) \<le> 2 * length (filter snd (sw_entries w))"
    using should_trip_half [OF w_ok, of "cb_config cb"] ok(2) assms by simp
  have "breaker_state (record_outcome clock outcome cb) = (case breaker_state cb of
      Closed \<Rightarrow> if should_trip (cb_config cb) w then Open else Closed
    | HalfOpen \<Rightarrow> if outcome = Failure then Open else Closed
    | Open \<Rightarrow> Open)"
    using breaker_state_record [OF ok(1), of clock outcome] ok(2) assms(1) by (simp add: w_def)
  then show ?thesis
    unfolding Let_def cb_def [symmetric] entries [symmetric] trip .
qed

theorem record_state_spec_witness:
  "breaker_state (record_outcome (\<lambda>_. from_secs 70) Failure
     (run_ops (client_config\<lparr>min_samples := 1\<rparr>) 0 [])) = Open"
  using record_state_spec [of "client_config\<lparr>min_samples := 1\<rparr>" "\<lambda>_. from_secs 70" 0 "[]" Failure]
  by (simp add: client_config_def from_secs_def run_ops_def with_clock_def
      breaker_state_def sw_new_def MAX_WINDOW_ENTRIES_def)

text \<open>
  The answer of a check, alone: closed admits; open refuses with exactly the rest of the
  cool-down until it is over, then moves to half open and admits; half open admits while a slot is
  free or the last claim is a cool-down old (a probe whose owner never reported cannot strand the
  breaker), and otherwise refuses with the short back-off.
\<close>

theorem check_spec:
  assumes "enabled config"
  shows "let cb = run_ops config now ops;
       elapsed = from_millis (elapsed_millis cb (clock 0) - cb_opened_at_millis cb);
       r = check clock cb
     in (case breaker_state cb of
          Closed \<Rightarrow> r = (cb, Inr ())
        | Open \<Rightarrow>
            if elapsed < open_duration config then r = (cb, Inl (BreakerOpen (open_duration config - elapsed)))
            else snd r = Inr () \<and> breaker_state (fst r) = HalfOpen \<and> cb_half_open_probes (fst r) = 1
        | HalfOpen \<Rightarrow> breaker_state (fst r) = HalfOpen \<and> snd r =
            (if cb_half_open_probes cb < max (half_open_max_probes config) 1 \<or>
                as_millis_u64 (open_duration config)
                  \<le> elapsed_millis cb (clock 0) - cb_probe_claimed_at_millis cb
             then Inr () else Inl (BreakerOpen (min HALF_OPEN_PROBE_BACKOFF (open_duration config)))))"
proof -
  define cb where "cb = run_ops config now ops"
  note ok = run_ops_ok [of config now ops, folded cb_def]
    run_ops_config [of config now ops, folded cb_def]
  show ?thesis
  proof (cases "breaker_state cb")
    case Open
    then have "cb_state cb = state_as_u8 Open" "cb_half_open_probes cb = 0"
      using ok(1) by (auto simp: breaker_ok_def breaker_state_def)
    then show ?thesis
      using Open ok(2) assms
      by (simp add: Let_def cb_def [symmetric] check_def check_open_def cas_state_def
          try_half_open_probe_def breaker_state_def)
  next
    case HalfOpen
    then show ?thesis
      using ok(2) assms by (simp add: Let_def cb_def [symmetric] check_def probe_result)
  qed (use ok assms in \<open>simp add: Let_def cb_def [symmetric] check_def\<close>)
qed

theorem check_spec_witness:
  "check (\<lambda>_. 5) (run_ops server_config 0 []) = (run_ops server_config 0 [], Inr ())"
  using check_spec [of server_config 0 "[]" "\<lambda>_. 5"]
  by (simp add: server_config_def run_ops_def with_clock_def breaker_state_def Let_def)

text \<open>
  The atomic steps are those of \<^verbatim>\<open>check\<close>: a thread that takes them with no other
  thread in between, reading the same clock, ends with the state and the answer of the sequential
  operation.
\<close>

theorem atomic_steps_refine_check:
  "\<exists>readings p. set readings \<subseteq> range clock \<and> run_alone readings cb Start = (fst (check clock cb), p) \<and>
     pc_result p = Some (snd (check clock cb))"
proof (cases "enabled (cb_config cb)")
  case True
  show ?thesis
  proof (cases "breaker_state cb")
    case Closed
    with True show ?thesis
      by (intro exI [of _ "[clock 0]"]) (simp add: check_def)
  next
    case HalfOpen
    with True show ?thesis
      by (intro exI [of _ "[clock 0, clock 0, clock 0, clock 0, clock 0]"])
        (auto simp: check_def try_half_open_probe_def Let_def elapsed_millis_def)
  next
    case Open
    then have "cb_state cb = state_as_u8 Open"
      by (auto simp: breaker_state_def state_from_u8_def state_as_u8_def split: if_splits)
    with Open True show ?thesis
      by (intro exI [of _ "[clock 0, clock 0, clock 0, clock 0, clock 1, clock 0, clock 0, clock 0]"])
        (auto simp: check_def check_open_def cas_state_def try_half_open_probe_def Let_def
          elapsed_millis_def observe_def breaker_state_def)
  qed
next
  case False
  then show ?thesis
    by (intro exI [of _ "[clock 0]"]) (simp add: check_def)
qed

text \<open>
  C35. However the checks of any number of threads interleave within a time shorter than the
  cool-down, from a breaker that is open or half open with no slot claimed: at most
  \<open>half_open_max_probes\<close> threads are let through on a slot of their own, at most one more by
  taking over the claim of another, and none in any other way.
\<close>

theorem concurrent_probe_bound:
  assumes "enabled (cb_config cb)" and "breaker_state cb \<noteq> Closed" and "cb_half_open_probes cb = 0"
    and "(timed_step t0 (t0 + as_millis_u64 (open_duration (cb_config cb))))\<^sup>*\<^sup>*
      (cb, replicate n Start) (cb', ts)"
  shows "length (filter (\<lambda>p. p = Admitted BySlot) ts) \<le> half_open_max_probes (cb_config cb) \<and>
    length (filter (\<lambda>p. p = Admitted ByLease) ts) \<le> 1 \<and> Admitted ByClosed \<notin> set ts"
proof -
  have none: "count_pc P (replicate n Start) = 0" if "\<not> P Start" for P
    using that by (simp add: count_pc_def)
  have "slots_inv (cb, replicate n Start)" "not_closed_inv (cb, replicate n Start)"
    "lease_inv t0 (cb, replicate n Start)"
    using assms(1,2,3) none [of holds_slot] none [of returns_slot] none [of by_lease]
    by (auto simp: slots_inv_def not_closed_inv_def lease_inv_def by_lease_def list_all_iff)
  with timed_run [OF assms(4)] have inv: "slots_inv (cb', ts)" "not_closed_inv (cb', ts)"
    "lease_inv t0 (cb', ts)" and config: "cb_config cb' = cb_config cb"
    by simp_all
  have "count_pc (\<lambda>p. p = Admitted BySlot) ts \<le> count_pc holds_slot ts"
    unfolding count_pc_def by (induction ts) auto
  moreover have "Admitted ByClosed \<notin> set ts"
    using inv(2) by (simp add: not_closed_inv_def)
  moreover have "count_pc (\<lambda>p. p = Admitted ByLease) ts \<le> 1"
    using inv(3) by (auto simp: lease_inv_def by_lease_eq split: if_splits)
  ultimately show ?thesis
    using inv(1) config
    by (simp add: slots_inv_def count_pc_def)
qed

definition tripped :: breaker where
  "tripped = trip 0 Closed ''trip'' (with_clock server_config 0)"

definition race :: "(nat \<times> instant \<times> outcome option) list" where
  "race = (let t = from_secs 10 in
     [(0, t, None), (0, t, None), (0, t, None),
      (1, t, None), (1, t, None), (1, t, None), (1, t, Some Failure),
      (0, t, None), (0, t, None), (0, t, None)])"

lemmas breaker_eval = tripped_def race_def trip_def with_clock_def server_config_def from_secs_def
  from_millis_def elapsed_millis_def as_millis_u64_def wrap64_def observe_def breaker_state_def
  state_from_u8_def state_as_u8_def cas_state_def record_outcome_def is_open_def Let_def

text \<open>
  Two threads at one instant, one slot: the first moves the breaker to half open and counts its
  slot, the second finds the slot taken and the stamp of the claim old, takes it over, and only then
  the first writes its stamp. Both are let through, so the one more of the bound is reached at once
  and not only after an abandoned claim.
\<close>

definition double_probe :: "nat list" where
  "double_probe = [0, 0, 0, 0, 0, 1, 1, 1, 1, 1, 0]"

fun take_turns :: "instant \<Rightarrow> nat list \<Rightarrow> system \<Rightarrow> system" where
  "take_turns clock [] s = s"
| "take_turns clock (i # is) (cb, ts) =
     (case check_atomic clock cb (ts ! i) of (cb', p) \<Rightarrow> take_turns clock is (cb', ts[i := p]))"

lemma take_turns_run:
  "list_all (\<lambda>i. i < length ts) is \<Longrightarrow> t0 \<le> elapsed_millis cb clock \<Longrightarrow> elapsed_millis cb clock < t1 \<Longrightarrow>
   (timed_step t0 t1)\<^sup>*\<^sup>* (cb, ts) (take_turns clock is (cb, ts))"
proof (induction "is" arbitrary: cb ts)
  case (Cons i "is")
  obtain cb' p where at: "check_atomic clock cb (ts ! i) = (cb', p)" by fastforce
  then have "elapsed_millis cb' clock = elapsed_millis cb clock"
    using check_atomic_clock by blast
  with Cons at have "(timed_step t0 t1)\<^sup>*\<^sup>* (cb', ts[i := p]) (take_turns clock is (cb', ts[i := p]))" by simp
  moreover have "timed_step t0 t1 (cb, ts) (cb', ts[i := p])"
    using Cons.prems at by (auto intro: timed_thread)
  ultimately show ?case using at by (auto intro: converse_rtranclp_into_rtranclp)
qed simp

lemma two_probes_at_once:
  "(timed_step 10000 20000)\<^sup>*\<^sup>* (tripped, [Start, Start])
     (take_turns (from_secs 10) double_probe (tripped, [Start, Start])) \<and>
   snd (take_turns (from_secs 10) double_probe (tripped, [Start, Start])) = [Admitted BySlot, Admitted ByLease] \<and>
   half_open_max_probes (cb_config tripped) = 1"
  by (intro conjI take_turns_run) (simp_all add: breaker_eval double_probe_def)

theorem concurrent_probe_bound_witness:
  "\<exists>cb ts. (timed_step 10000 20000)\<^sup>*\<^sup>* (tripped, [Start, Start]) (cb, ts) \<and>
     ts = [Admitted BySlot, Admitted ByLease] \<and>
     length (filter (\<lambda>p. p = Admitted BySlot) ts) \<le> half_open_max_probes (cb_config tripped) \<and>
     length (filter (\<lambda>p. p = Admitted ByLease) ts) \<le> 1"
proof -
  let ?s = "take_turns (from_secs 10) double_probe (tripped, [Start, Start])"
  have open_now: "enabled (cb_config tripped)" "breaker_state tripped \<noteq> Closed"
      "cb_half_open_probes tripped = 0" "as_millis_u64 (open_duration (cb_config tripped)) = 10000"
    by (simp_all add: breaker_eval)
  have run: "(timed_step 10000 20000)\<^sup>*\<^sup>* (tripped, [Start, Start]) (fst ?s, snd ?s)"
    and both: "snd ?s = [Admitted BySlot, Admitted ByLease]"
    unfolding prod.collapse using two_probes_at_once by simp_all
  from concurrent_probe_bound [OF open_now(1-3), of 10000 2 "fst ?s" "snd ?s"] run open_now(4)
  have "length (filter (\<lambda>p. p = Admitted BySlot) (snd ?s)) \<le> half_open_max_probes (cb_config tripped)"
    "length (filter (\<lambda>p. p = Admitted ByLease) (snd ?s)) \<le> 1"
    by (simp_all add: numeral_2_eq_2)
  with run both show ?thesis by blast
qed

text \<open>
  Recording does not exclude a check in progress: the thread that moved the breaker to half
  open can be delayed before it clears the mirror, while another thread probes, fails and trips
  the breaker again. The breaker is then open, the mirror says it is not, and the delayed thread
  has claimed a probe slot and is let through while the state is open.
\<close>

theorem mirror_and_slot_race:
  "\<exists>cb ts. breaker_step\<^sup>*\<^sup>* (tripped, [Start, Start]) (cb, ts) \<and>
     breaker_state cb = Open \<and> \<not> is_open cb \<and> cb_half_open_probes cb = 1 \<and> ts ! 0 = Admitted BySlot"
proof -
  let ?s = "schedule race (tripped, [Start, Start])"
  have "schedule_ok race (tripped, [Start, Start])"
    by (simp add: breaker_eval)
  then have "breaker_step\<^sup>*\<^sup>* (tripped, [Start, Start]) ?s"
    by (rule schedule_run)
  moreover have "breaker_state (fst ?s) = Open \<and> \<not> is_open (fst ?s) \<and>
      cb_half_open_probes (fst ?s) = 1 \<and> snd ?s ! 0 = Admitted BySlot"
    by (simp add: breaker_eval)
  ultimately show ?thesis
    by (metis prod.collapse)
qed

text \<open>
  The registry: a disabled configuration hands out no breaker; otherwise a key gets one
  breaker, the same at every call, and what is done through one key's handle never touches the
  breaker of another key.
\<close>

theorem registry_one_breaker_per_key:
  "let (reg1, h1) = registry_get key now reg; (reg2, h2) = registry_get key now' reg1
   in (if enabled (reg_config reg)
       then h1 = Some key \<and> h2 = h1 \<and> reg2 = reg1 \<and>
         hm_get (reg_breakers reg1) key =
           Some (case hm_get (reg_breakers reg) key of
             None \<Rightarrow> with_clock (reg_config reg) now | Some cb \<Rightarrow> cb) \<and>
         (key' = key \<or> hm_get (reg_breakers (through_handle key f reg1)) key' = hm_get (reg_breakers reg) key')
       else h1 = None \<and> reg1 = reg)"
  by (auto simp: registry_get_def through_handle_def Let_def fsimps split: option.split)

text \<open>
  The retry policies on every status: the edge policy retries what the server policy retries
  except the origin certificate errors 525 and 526; the storage policy drops 400, 403, 404, 525
  and 526, refreshes on 401, and retries every other status that is not a success.
\<close>

theorem retry_policies:
  "(should_retry server_policy status \<longleftrightarrow> status = 429 \<or> (500 \<le> status \<and> status < 600)) \<and>
   (should_retry edge_client_policy status \<longleftrightarrow>
     should_retry server_policy status \<and> status \<notin> {525, 526}) \<and>
   classify client_storage_policy status =
     (if 200 \<le> status \<and> status < 300 then None
      else if status = 401 then Some AuthRefresh
      else if status \<in> {400, 403, 404, 525, 526} then Some Terminal
      else Some Retryable)"
proof -
  have "\<not> (status < 300 \<and> 500 \<le> status)" by (auto dest: order.strict_trans1)
  then show ?thesis
    by (auto simp: should_retry_def classify_def server_policy_def edge_client_policy_def
        client_storage_policy_def)
qed

end
