(* ===== verification/PatchApply.thy ===== *)
theory PatchApply imports Rust_Str "HOL-Library.Multiset" begin

text \<open>
  The pure engine of the patch tool
  (\<^verbatim>\<open>crates/codegen/xai-grok-tools/src/implementations/codex/apply_patch\<close>): the fuzzy
  matcher of \<^verbatim>\<open>seek_sequence.rs\<close>, the replacements of \<^verbatim>\<open>apply.rs\<close> and its entry point
  \<open>derive_new_contents\<close>. A \<^verbatim>\<open>Vec::insert\<close> out of range panics: the model's insertion
  returns an option, and a property shows that it never does.
\<close>

section \<open>Errors and chunks\<close>

datatype parse_error =
    InvalidPatchError string
  | InvalidHunkError string nat

datatype apply_patch_error =
    Parse parse_error
  | ComputeReplacements string
  | Io string string "string option"

record update_file_chunk =
  change_context :: "string option"
  old_lines :: "string list"
  new_lines :: "string list"
  is_end_of_file :: bool

section \<open>The matcher\<close>

text \<open>Typographic punctuation by its UTF-8 bytes: three of them, or the two of U+00A0.\<close>

definition normal_3 :: "char \<Rightarrow> char \<Rightarrow> char \<Rightarrow> char option" where
  "normal_3 a b c =
     (let n = of_char c :: nat in
      if a = CHR 0xE2 \<and> b = CHR 0x80 then
        if 144 \<le> n \<and> n \<le> 149 then Some (CHR ''-'')
        else if 152 \<le> n \<and> n \<le> 155 then Some (CHR 0x27)
        else if 156 \<le> n \<and> n \<le> 159 then Some (CHR 0x22)
        else if 130 \<le> n \<and> n \<le> 138 \<or> n = 175 then Some (CHR '' '')
        else None
      else if a = CHR 0xE2 \<and> b = CHR 0x88 \<and> n = 146 then Some (CHR ''-'')
      else if a = CHR 0xE2 \<and> b = CHR 0x81 \<and> n = 159 then Some (CHR '' '')
      else if a = CHR 0xE3 \<and> b = CHR 0x80 \<and> n = 128 then Some (CHR '' '')
      else None)"

definition normal_2 :: "char \<Rightarrow> char \<Rightarrow> char option" where
  "normal_2 a b = (if a = CHR 0xC2 \<and> b = CHR 0xA0 then Some (CHR '' '') else None)"

fun normal_chars :: "string \<Rightarrow> string" where
  "normal_chars (a # b # c # s) =
     (case normal_3 a b c of
        Some x \<Rightarrow> x # normal_chars s
      | None \<Rightarrow> (case normal_2 a b of
          Some x \<Rightarrow> x # normal_chars (c # s)
        | None \<Rightarrow> a # normal_chars (b # c # s)))"
| "normal_chars [a, b] = (case normal_2 a b of Some x \<Rightarrow> [x] | None \<Rightarrow> [a, b])"
| "normal_chars s = s"

definition normalise :: "string \<Rightarrow> string" where
  "normalise s = normal_chars (trim s)"

text \<open>The inner loop of a pass, with the equality of that pass on a line and a pattern line.\<close>

fun lines_match :: "(string \<Rightarrow> string) \<Rightarrow> string list \<Rightarrow> nat \<Rightarrow> string list \<Rightarrow> bool" where
  "lines_match canon lines i [] = True"
| "lines_match canon lines i (pat # pats) =
     (if i < length lines \<and> canon (lines ! i) = canon pat
      then lines_match canon lines (i + 1) pats else False)"

definition slice_matches :: "string list \<Rightarrow> nat \<Rightarrow> string list \<Rightarrow> bool" where
  "slice_matches lines i pattern \<longleftrightarrow>
     i + length pattern \<le> length lines \<and> take (length pattern) (drop i lines) = pattern"

text \<open>\<^verbatim>\<open>for i in lo..=hi\<close> with an early return.\<close>

definition first_in :: "nat \<Rightarrow> nat \<Rightarrow> (nat \<Rightarrow> bool) \<Rightarrow> nat option" where
  "first_in lo hi hit = find hit [lo..<Suc hi]"

definition seek_sequence :: "string list \<Rightarrow> string list \<Rightarrow> nat \<Rightarrow> bool \<Rightarrow> nat option" where
  "seek_sequence lines pattern start eof =
     (if pattern = [] then Some start
      else if length pattern > length lines then None
      else
        let search_start = (if eof \<and> length lines \<ge> length pattern
                            then length lines - length pattern else start);
            hi = sat_sub (length lines) (length pattern)
        in case first_in search_start hi (\<lambda>i. slice_matches lines i pattern) of
             Some i \<Rightarrow> Some i
           | None \<Rightarrow>
         (case first_in search_start hi (\<lambda>i. lines_match trim_end lines i pattern) of
             Some i \<Rightarrow> Some i
           | None \<Rightarrow>
         (case first_in search_start hi (\<lambda>i. lines_match trim lines i pattern) of
             Some i \<Rightarrow> Some i
           | None \<Rightarrow> first_in search_start hi (\<lambda>i. lines_match normalise lines i pattern))))"

section \<open>Replacements\<close>

type_synonym replacement = "nat \<times> nat \<times> string list"

definition last_is_empty :: "string list \<Rightarrow> bool" where
  "last_is_empty ls \<longleftrightarrow> ls \<noteq> [] \<and> last ls = []"

definition context_error :: "string \<Rightarrow> string \<Rightarrow> apply_patch_error" where
  "context_error ctx_line path = ComputeReplacements
     (''Failed to find context '' @ [CHR 0x27] @ ctx_line @ [CHR 0x27] @ '' in '' @ path)"

definition lines_error :: "string list \<Rightarrow> string \<Rightarrow> apply_patch_error" where
  "lines_error old path = ComputeReplacements
     (''Failed to find expected lines in '' @ path @ '':'' @ [newline] @ join [newline] old)"

text \<open>
  One turn of the loop over the chunks: from the line index to the replacement and the next line
  index.
\<close>

definition seek_context ::
    "string list \<Rightarrow> string \<Rightarrow> update_file_chunk \<Rightarrow> nat \<Rightarrow> apply_patch_error + nat" where
  "seek_context original_lines path chunk line_index =
     (case change_context chunk of
        None \<Rightarrow> Inr line_index
      | Some ctx_line \<Rightarrow>
          (case seek_sequence original_lines [ctx_line] line_index False of
             Some idx \<Rightarrow> Inr (idx + 1)
           | None \<Rightarrow> Inl (context_error ctx_line path)))"

definition compute_one ::
    "string list \<Rightarrow> string \<Rightarrow> update_file_chunk \<Rightarrow> nat \<Rightarrow> apply_patch_error + (replacement \<times> nat)" where
  "compute_one original_lines path chunk line_index =
     (case seek_context original_lines path chunk line_index of
        Inl e \<Rightarrow> Inl e
      | Inr line_index \<Rightarrow>
        if old_lines chunk = [] then
          (let insertion_idx = (if last_is_empty original_lines
             then length original_lines - 1 else length original_lines)
           in Inr ((insertion_idx, 0, new_lines chunk), line_index))
        else
          (let pattern = old_lines chunk;
               found = seek_sequence original_lines pattern line_index (is_end_of_file chunk);
               new_slice = new_lines chunk;
               retry = (found = None \<and> last_is_empty pattern);
               (pattern, new_slice, found) =
                 (if retry then
                    (let pattern = butlast pattern;
                         new_slice = (if last_is_empty new_slice then butlast new_slice else new_slice)
                     in (pattern, new_slice,
                         seek_sequence original_lines pattern line_index (is_end_of_file chunk)))
                  else (pattern, new_slice, found))
           in case found of
                Some start_idx \<Rightarrow>
                  Inr ((start_idx, length pattern, new_slice), start_idx + length pattern)
              | None \<Rightarrow> Inl (lines_error (old_lines chunk) path)))"

fun compute_loop ::
    "string list \<Rightarrow> string \<Rightarrow> update_file_chunk list \<Rightarrow> nat \<Rightarrow> replacement list \<Rightarrow>
      apply_patch_error + replacement list" where
  "compute_loop original_lines path [] line_index replacements = Inr replacements"
| "compute_loop original_lines path (chunk # chunks) line_index replacements =
     (case compute_one original_lines path chunk line_index of
        Inl e \<Rightarrow> Inl e
      | Inr (r, line_index) \<Rightarrow>
          compute_loop original_lines path chunks line_index (replacements @ [r]))"

definition compute_replacements ::
    "string list \<Rightarrow> string \<Rightarrow> update_file_chunk list \<Rightarrow> apply_patch_error + replacement list" where
  "compute_replacements original_lines path chunks =
     (case compute_loop original_lines path chunks 0 [] of
        Inl e \<Rightarrow> Inl e
      | Inr replacements \<Rightarrow> Inr (sort_key fst replacements))"

definition vec_remove :: "nat \<Rightarrow> 'a list \<Rightarrow> 'a list" where
  "vec_remove i xs = take i xs @ drop (Suc i) xs"

text \<open>\<^verbatim>\<open>Vec::insert\<close> panics past the end.\<close>

definition vec_insert :: "nat \<Rightarrow> 'a \<Rightarrow> 'a list \<Rightarrow> 'a list option" where
  "vec_insert i x xs = (if i \<le> length xs then Some (take i xs @ x # drop i xs) else None)"

fun remove_times :: "nat \<Rightarrow> nat \<Rightarrow> string list \<Rightarrow> string list" where
  "remove_times 0 start_idx lines = lines"
| "remove_times (Suc n) start_idx lines =
     remove_times n start_idx (if start_idx < length lines then vec_remove start_idx lines else lines)"

fun insert_from :: "nat \<Rightarrow> string list \<Rightarrow> string list \<Rightarrow> string list option" where
  "insert_from at_idx [] lines = Some lines"
| "insert_from at_idx (new_line # rest) lines =
     (case vec_insert at_idx new_line lines of
        None \<Rightarrow> None
      | Some lines \<Rightarrow> insert_from (at_idx + 1) rest lines)"

definition apply_one :: "replacement \<Rightarrow> string list \<Rightarrow> string list option" where
  "apply_one r lines =
     (case r of (start_idx, old_len, new_segment) \<Rightarrow>
        insert_from start_idx new_segment (remove_times old_len start_idx lines))"

fun apply_rev :: "replacement list \<Rightarrow> string list \<Rightarrow> string list option" where
  "apply_rev [] lines = Some lines"
| "apply_rev (r # rs) lines = Option.bind (apply_one r lines) (apply_rev rs)"

definition apply_replacements :: "string list \<Rightarrow> replacement list \<Rightarrow> string list option" where
  "apply_replacements lines replacements = apply_rev (rev replacements) lines"

definition file_lines :: "string \<Rightarrow> string list" where
  "file_lines original_content =
     (let original_lines = split_on newline original_content
      in if last_is_empty original_lines then butlast original_lines else original_lines)"

text \<open>\<open>None\<close> is a panic.\<close>

definition derive_new_contents ::
    "string \<Rightarrow> string \<Rightarrow> update_file_chunk list \<Rightarrow> (apply_patch_error + string) option" where
  "derive_new_contents original_content path chunks =
     (let original_lines = file_lines original_content
      in case compute_replacements original_lines path chunks of
           Inl e \<Rightarrow> Some (Inl e)
         | Inr replacements \<Rightarrow>
             (case apply_replacements original_lines replacements of
                None \<Rightarrow> None
              | Some ls \<Rightarrow>
                  (let ls = (if \<not> last_is_empty ls then ls @ [[]] else ls)
                   in Some (Inr (join [newline] ls)))))"

section \<open>The matcher: lemmas\<close>

lemma lines_match_iff:
  "lines_match canon lines i pats \<longleftrightarrow> (pats = [] \<or> i + length pats \<le> length lines) \<and>
    (\<forall>k < length pats. canon (lines ! (i + k)) = canon (pats ! k))"
proof (induction pats arbitrary: i)
  case (Cons p ps)
  show ?case
    by (auto simp: Cons.IH All_less_Suc2)
qed simp

lemma slice_matches_iff:
  "slice_matches lines i pats \<longleftrightarrow> i + length pats \<le> length lines \<and>
    (\<forall>k < length pats. lines ! (i + k) = pats ! k)"
  unfolding slice_matches_def by (auto simp: list_eq_iff_nth_eq)

lemma first_in_Some: "first_in lo hi hit = Some i \<Longrightarrow> lo \<le> i \<and> i \<le> hi \<and> hit i"
  by (auto simp: first_in_def find_Some_iff simp del: upt_Suc)

lemma first_in_least: "first_in lo hi hit = Some i \<Longrightarrow> lo \<le> j \<Longrightarrow> j < i \<Longrightarrow> \<not> hit j"
proof -
  have "find hit [lo..<n] = Some i \<Longrightarrow> lo \<le> j \<Longrightarrow> j < i \<Longrightarrow> \<not> hit j" for n
  proof (induction "n - lo" arbitrary: lo)
    case (Suc d)
    then have "[lo..<n] = lo # [Suc lo..<n]" by (simp add: upt_conv_Cons)
    then show ?case
      using Suc.prems Suc.hyps(1) [of "Suc lo"] Suc.hyps(2) by (cases "j = lo") (auto split: if_splits)
  qed simp
  then show "first_in lo hi hit = Some i \<Longrightarrow> lo \<le> j \<Longrightarrow> j < i \<Longrightarrow> \<not> hit j"
    unfolding first_in_def by blast
qed

lemma first_in_None: "first_in lo hi hit = None \<longleftrightarrow> (\<forall>i. lo \<le> i \<and> i \<le> hi \<longrightarrow> \<not> hit i)"
  by (auto simp: first_in_def find_None_iff simp del: upt_Suc)

definition passes :: "(string \<Rightarrow> string) list" where
  "passes = [\<lambda>s. s, trim_end, trim, normalise]"

lemma slice_lines_match:
  "slice_matches lines i pats \<longleftrightarrow> i + length pats \<le> length lines \<and> lines_match (\<lambda>s. s) lines i pats"
  by (auto simp: slice_matches_iff lines_match_iff)

lemma seek_Some:
  assumes "seek_sequence lines pattern start eof = Some i" and "pattern \<noteq> []"
  shows "i + length pattern \<le> length lines \<and>
    (if eof then i = length lines - length pattern else start \<le> i) \<and>
    (\<exists>canon \<in> set passes. \<forall>k < length pattern. canon (lines ! (i + k)) = canon (pattern ! k))"
proof -
  define s where "s = (if eof then length lines - length pattern else start)"
  from assms have len: "length pattern \<le> length lines"
    by (auto simp: seek_sequence_def split: if_splits)
  let ?hi = "length lines - length pattern"
  let ?in = "\<lambda>canon. first_in s ?hi (\<lambda>i. lines_match canon lines i pattern)"
  have "first_in s ?hi (\<lambda>i. slice_matches lines i pattern) = Some i \<or> ?in trim_end = Some i \<or>
      ?in trim = Some i \<or> ?in normalise = Some i"
    using assms len
    by (cases eof; simp add: seek_sequence_def Let_def sat_sub_def s_def split: option.splits)
  then have "\<exists>canon \<in> set passes. lines_match canon lines i pattern \<and> s \<le> i \<and> i \<le> ?hi"
    by (auto simp: passes_def slice_lines_match dest: first_in_Some)
  then show ?thesis
    using len by (auto simp: lines_match_iff s_def)
qed

lemma seek_bound:
  assumes "seek_sequence lines pattern start eof = Some i" and "start \<le> length lines"
  shows "i + length pattern \<le> length lines"
proof (cases "pattern = []")
  case True
  with assms show ?thesis by (simp add: seek_sequence_def)
qed (use assms seek_Some in blast)

section \<open>Replacements: lemmas\<close>

text \<open>The reference: copy what is before each replacement, then its lines, left to right.\<close>

fun splice :: "nat \<Rightarrow> replacement list \<Rightarrow> string list \<Rightarrow> string list" where
  "splice pos [] lines = drop pos lines"
| "splice pos ((i, n, new) # rs) lines = take (i - pos) (drop pos lines) @ new @ splice (i + n) rs lines"

definition rep_start :: "replacement \<Rightarrow> nat" where
  "rep_start r = fst r"

definition rep_end :: "replacement \<Rightarrow> nat" where
  "rep_end r = fst r + fst (snd r)"

abbreviation before :: "replacement \<Rightarrow> replacement \<Rightarrow> bool" where
  "before r r' \<equiv> rep_end r \<le> rep_start r'"

definition disjoint_reps :: "replacement list \<Rightarrow> bool" where
  "disjoint_reps rs \<longleftrightarrow> sorted_wrt before rs"

lemma remove_times_eq: "remove_times n i xs = take i xs @ drop (i + n) xs"
proof (induction n arbitrary: xs)
  case (Suc n)
  then show ?case
    by (auto simp: vec_remove_def min_def add.commute)
qed simp

lemma insert_from_eq:
  "i \<le> length xs \<Longrightarrow> insert_from i new xs = Some (take i xs @ new @ drop i xs)"
proof (induction new arbitrary: i xs)
  case (Cons x new)
  then show ?case by (simp add: vec_insert_def min_def Suc_diff_le)
qed simp

lemma apply_one_eq:
  "i \<le> length xs \<Longrightarrow> apply_one (i, n, new) xs = Some (take i xs @ new @ drop (i + n) xs)"
  by (simp add: apply_one_def remove_times_eq insert_from_eq)

lemma apply_rev_append: "apply_rev (rs @ rs') xs = Option.bind (apply_rev rs xs) (apply_rev rs')"
  by (induction rs arbitrary: xs) (auto split: Option.bind_splits)

text \<open>Reversed, each replacement starts inside what the later ones have left.\<close>

lemma apply_rev_total:
  assumes "sorted (map fst rs)" and "\<forall>r \<in> set rs. fst r \<le> length xs"
  shows "\<exists>ys. apply_rev (rev rs) xs = Some ys \<and> (\<forall>i. (\<forall>r \<in> set rs. i \<le> fst r) \<longrightarrow> i \<le> length xs \<longrightarrow>
    i \<le> length ys \<and> take i ys = take i xs)"
  using assms
proof (induction rs)
  case (Cons r rs)
  obtain i n new where r: "r = (i, n, new)" by (cases r)
  from Cons obtain ys where ys: "apply_rev (rev rs) xs = Some ys"
      "\<forall>i. (\<forall>r \<in> set rs. i \<le> fst r) \<longrightarrow> i \<le> length xs \<longrightarrow> i \<le> length ys \<and> take i ys = take i xs"
    by auto
  have i: "i \<le> length ys" "take i ys = take i xs"
    using Cons.prems ys(2) r by auto
  have "j \<le> i \<Longrightarrow> take j (take i ys) = take j (take i xs)" for j
    using i by simp
  then show ?case
    using i ys(1) r by (auto simp: apply_rev_append apply_one_eq min_def)
qed simp

lemma apply_rev_splice:
  assumes "sorted_wrt before rs" and "\<forall>r \<in> set rs. p \<le> rep_start r \<and> rep_end r \<le> length xs"
    and "p \<le> length xs"
  shows "apply_rev (rev rs) xs = Some (take p xs @ splice p rs xs)"
  using assms
proof (induction rs arbitrary: p)
  case (Cons r rs)
  obtain i n new where r: "r = (i, n, new)" by (cases r)
  with Cons.prems have le: "p \<le> i" "i + n \<le> length xs"
    by (auto simp: rep_start_def rep_end_def)
  have "apply_rev (rev rs) xs = Some (take (i + n) xs @ splice (i + n) rs xs)"
    using Cons.prems r le by (intro Cons.IH) (auto simp: rep_end_def)
  moreover have "take i xs = take p xs @ take (i - p) (drop p xs)"
    using le by (metis le_add_diff_inverse take_add)
  ultimately show ?case
    using le r by (simp add: apply_rev_append apply_one_eq min_def)
qed simp

text \<open>Sorting by the start keeps pairs apart that are apart in either order.\<close>

definition apart :: "replacement \<Rightarrow> replacement \<Rightarrow> bool" where
  "apart r r' \<longleftrightarrow> before r r' \<or> (before r' r \<and> rep_start r' < rep_start r)"

lemma insort_before:
  assumes "sorted_wrt before rs" and "\<forall>r' \<in> set rs. apart r r'"
  shows "sorted_wrt before (insort_key fst r rs)"
  using assms
proof (induction rs)
  case (Cons r' rs)
  have start_end: "rep_start x \<le> rep_end x" for x
    by (simp add: rep_start_def rep_end_def)
  show ?case
  proof (cases "fst r \<le> fst r'")
    case True
    have "rep_start r \<le> rep_start x" if "x \<in> set (r' # rs)" for x
      using that True Cons.prems(1) start_end [of r'] by (auto simp: rep_start_def)
    then have "before r x" if "x \<in> set (r' # rs)" for x
      using that Cons.prems(2) unfolding apart_def by (meson leD)
    with True Cons.prems(1) show ?thesis by simp
  next
    case False
    then have "before r' r"
      using Cons.prems(2) start_end [of r] by (auto simp: apart_def rep_start_def)
    with False Cons show ?thesis by (auto simp: set_insort_key)
  qed
qed simp

lemma sort_before: "sorted_wrt apart rs \<Longrightarrow> sorted_wrt before (sort_key fst rs)"
  by (induction rs) (simp_all add: sort_key_simps insort_before)

text \<open>
  Chunks whose replacements cannot overlap: none asks for the end of the file, and one without
  old lines only meets a file whose last line is not empty.
\<close>

definition plain_chunks :: "string list \<Rightarrow> update_file_chunk list \<Rightarrow> bool" where
  "plain_chunks original chunks \<longleftrightarrow> (\<forall>c \<in> set chunks. \<not> is_end_of_file c \<and>
     (old_lines c = [] \<longrightarrow> \<not> last_is_empty original))"

text \<open>What one chunk contributes.\<close>

definition placed :: "string list \<Rightarrow> string list \<Rightarrow> nat \<Rightarrow> bool" where
  "placed original old i \<longleftrightarrow> i + length old \<le> length original \<and>
     (old = [] \<or> (\<exists>canon \<in> set passes. \<forall>k < length old. canon (original ! (i + k)) = canon (old ! k)))"

definition chunk_applied :: "string list \<Rightarrow> update_file_chunk \<Rightarrow> replacement \<Rightarrow> bool" where
  "chunk_applied original c r \<longleftrightarrow> (case r of (i, n, new) \<Rightarrow>
     (n = length (old_lines c) \<and> new = new_lines c \<and> placed original (old_lines c) i) \<or>
     (last_is_empty (old_lines c) \<and> n = length (butlast (old_lines c)) \<and>
      new = (if last_is_empty (new_lines c) then butlast (new_lines c) else new_lines c) \<and>
      placed original (butlast (old_lines c)) i))"

lemma seek_context_bound:
  assumes "seek_context original path c idx = Inr idx'" and "idx \<le> length original"
  shows "idx \<le> idx' \<and> idx' \<le> length original"
proof (cases "change_context c")
  case (Some ctx)
  then obtain i where "seek_sequence original [ctx] idx False = Some i" "idx' = i + 1"
    using assms by (auto simp: seek_context_def split: option.splits)
  then show ?thesis using seek_Some [of original "[ctx]" idx False i] by simp
qed (use assms in \<open>simp add: seek_context_def\<close>)

lemma seek_Some':
  assumes "seek_sequence lines pattern start eof = Some i" and "start \<le> length lines"
  shows "i + length pattern \<le> length lines" and "\<not> eof \<longrightarrow> start \<le> i"
    and "pattern = [] \<or> (\<exists>canon \<in> set passes. \<forall>k < length pattern. canon (lines ! (i + k)) = canon (pattern ! k))"
  using seek_Some [OF assms(1)] assms by (cases "pattern = []"; simp add: seek_sequence_def)+

lemma compute_one_spec:
  assumes "compute_one original path c idx = Inr (r, idx')" and "idx \<le> length original"
  shows "chunk_applied original c r \<and> idx' \<le> length original \<and>
    (\<not> is_end_of_file c \<longrightarrow> idx \<le> idx' \<and>
      (if old_lines c = [] then rep_end r \<le> length original \<and> rep_start r = rep_end r \<and>
          (\<not> last_is_empty original \<longrightarrow> rep_start r = length original)
       else idx \<le> rep_start r \<and> rep_end r = idx'))"
proof -
  obtain idx1 where ctx: "seek_context original path c idx = Inr idx1"
    using assms(1) by (auto simp: compute_one_def split: sum.splits)
  note b = seek_context_bound [OF ctx assms(2)]
  show ?thesis
  proof (cases "old_lines c = []")
    case True
    define i where "i = (if last_is_empty original then length original - 1 else length original)"
    from True assms(1) ctx have r: "r = (i, 0, new_lines c)" "idx' = idx1"
      by (simp_all add: compute_one_def i_def Let_def)
    have "chunk_applied original c r"
      using True r(1) by (simp add: chunk_applied_def placed_def i_def)
    then show ?thesis
      using True b r by (simp add: rep_start_def rep_end_def i_def)
  next
    case False
    let ?seek = "\<lambda>p. seek_sequence original p idx1 (is_end_of_file c)"
    show ?thesis
    proof (cases "?seek (old_lines c)")
      case (Some i)
      with assms(1) ctx False have r: "r = (i, length (old_lines c), new_lines c)"
          "idx' = i + length (old_lines c)"
        by (auto simp: compute_one_def Let_def)
      have "chunk_applied original c r"
        using seek_Some' [OF Some] b r(1) by (simp add: chunk_applied_def placed_def)
      then show ?thesis
        using seek_Some' [OF Some] b r False by (auto simp: rep_start_def rep_end_def)
    next
      case None
      let ?old = "butlast (old_lines c)"
      from None assms(1) ctx False obtain i where i: "?seek ?old = Some i"
          "last_is_empty (old_lines c)" "idx' = i + length ?old"
          "r = (i, length ?old, if last_is_empty (new_lines c) then butlast (new_lines c) else new_lines c)"
        by (auto simp: compute_one_def Let_def split: if_splits option.splits)
      have "chunk_applied original c r"
        using seek_Some' [OF i(1)] b i(2,4) by (simp add: chunk_applied_def placed_def)
      then show ?thesis
        using seek_Some' [OF i(1)] b i(3,4) False by (auto simp: rep_start_def rep_end_def)
    qed
  qed
qed

lemma compute_loop_spec:
  assumes "compute_loop original path cs idx acc = Inr reps" and "idx \<le> length original"
  shows "\<exists>rs. reps = acc @ rs \<and> list_all2 (chunk_applied original) cs rs \<and>
    (plain_chunks original cs \<longrightarrow> sorted_wrt apart rs \<and>
      (\<forall>r \<in> set rs. idx \<le> rep_start r \<and> rep_end r \<le> length original))"
  using assms
proof (induction cs arbitrary: idx acc)
  case (Cons c cs)
  from Cons.prems(1) obtain r idx' where one: "compute_one original path c idx = Inr (r, idx')"
      and rest: "compute_loop original path cs idx' (acc @ [r]) = Inr reps"
    by (auto split: sum.splits)
  note spec = compute_one_spec [OF one Cons.prems(2)]
  from spec rest Cons.IH obtain rs where rs: "reps = (acc @ [r]) @ rs"
      "list_all2 (chunk_applied original) cs rs"
      "plain_chunks original cs \<longrightarrow> sorted_wrt apart rs \<and>
        (\<forall>r \<in> set rs. idx' \<le> rep_start r \<and> rep_end r \<le> length original)"
    by blast
  have order: "rep_start x \<le> rep_end x" for x by (simp add: rep_start_def rep_end_def)
  have "sorted_wrt apart (r # rs) \<and> (\<forall>x \<in> set (r # rs). idx \<le> rep_start x \<and> rep_end x \<le> length original)"
    if plain: "plain_chunks original (c # cs)"
  proof -
    from plain have p: "\<not> is_end_of_file c" "old_lines c = [] \<longrightarrow> \<not> last_is_empty original"
        "plain_chunks original cs"
      by (auto simp: plain_chunks_def)
    have "apart r x" if "x \<in> set rs" for x
      using that p spec rs(3) order [of x] by (auto simp: apart_def split: if_splits)
    moreover have "idx \<le> rep_start r \<and> rep_end r \<le> length original \<and> idx \<le> idx'"
      using p spec Cons.prems(2) by (auto split: if_splits)
    ultimately show ?thesis using p rs(3) by fastforce
  qed
  then show ?case using rs(1,2) spec by (intro exI [of _ "r # rs"]) simp
qed simp

lemma chunk_applied_start: "chunk_applied original c r \<Longrightarrow> fst r \<le> length original"
  by (auto simp: chunk_applied_def placed_def split: prod.splits)

lemma derive_total:
  assumes "compute_replacements original path chunks = Inr reps"
  shows "\<exists>ys. apply_replacements original reps = Some ys"
proof -
  from assms obtain rs where "compute_loop original path chunks 0 [] = Inr rs" "reps = sort_key fst rs"
    by (auto simp: compute_replacements_def split: sum.splits)
  then have "list_all2 (chunk_applied original) chunks rs"
    using compute_loop_spec [of original path chunks 0 "[]" rs] by auto
  then have "\<forall>r \<in> set rs. fst r \<le> length original"
    by (metis chunk_applied_start in_set_conv_nth list_all2_conv_all_nth)
  then show ?thesis
    using apply_rev_total [of reps original] \<open>reps = sort_key fst rs\<close>
    by (auto simp: apply_replacements_def)
qed

lemma derive_not_None: "derive_new_contents content path chunks \<noteq> None"
  using derive_total [of "file_lines content" path chunks]
  by (auto simp: derive_new_contents_def Let_def split: sum.split)

lemma plain_spliced:
  assumes "compute_replacements original path chunks = Inr reps" and "plain_chunks original chunks"
  shows "sorted_wrt before reps \<and> apply_replacements original reps = Some (splice 0 reps original) \<and>
    (\<exists>rs. mset rs = mset reps \<and> list_all2 (chunk_applied original) chunks rs)"
proof -
  from assms obtain rs where rs: "compute_loop original path chunks 0 [] = Inr rs" "reps = sort_key fst rs"
    by (auto simp: compute_replacements_def split: sum.splits)
  then have spec: "list_all2 (chunk_applied original) chunks rs" "sorted_wrt apart rs"
      "\<forall>r \<in> set rs. rep_end r \<le> length original"
    using compute_loop_spec [of original path chunks 0 "[]" rs] assms(2) by auto
  then have "sorted_wrt before reps" using rs(2) sort_before by blast
  moreover from this have "apply_replacements original reps = Some (splice 0 reps original)"
    using apply_rev_splice [of reps 0 original] spec(3) rs(2) by (simp add: apply_replacements_def)
  ultimately show ?thesis using spec(1) rs(2) by (metis mset_sort)
qed

section \<open>Properties\<close>

text \<open>
  The matcher: a hit is an index at or after the start whose lines agree with the whole
  pattern under one of the four comparisons, no stricter comparison agrees anywhere in the range,
  and no earlier index agrees under the same one; no hit means that no index of the range agrees
  under any of the four.
\<close>

theorem seek_sequence_strictest_first:
  assumes "pattern \<noteq> []" and "length pattern \<le> length lines"
  shows "let agree = (\<lambda>canon i. i + length pattern \<le> length lines \<and>
        (\<forall>k < length pattern. canon (lines ! (i + k)) = canon (pattern ! k)))
     in case seek_sequence lines pattern start False of
          Some i \<Rightarrow> (\<exists>n < length passes. start \<le> i \<and> agree (passes ! n) i \<and>
            (\<forall>i'. start \<le> i' \<and> i' < i \<longrightarrow> \<not> agree (passes ! n) i') \<and>
            (\<forall>m < n. \<forall>i'. start \<le> i' \<longrightarrow> \<not> agree (passes ! m) i'))
        | None \<Rightarrow> (\<forall>n < length passes. \<forall>i'. start \<le> i' \<longrightarrow> \<not> agree (passes ! n) i')"
proof -
  define agree where "agree = (\<lambda>(canon :: string \<Rightarrow> string) i. i + length pattern \<le> length lines \<and>
      (\<forall>k < length pattern. canon (lines ! (i + k)) = canon (pattern ! k)))"
  let ?hi = "length lines - length pattern"
  have hit: "first_in start ?hi (agree canon) = Some i \<Longrightarrow> start \<le> i \<and> agree canon i \<and>
      (\<forall>i'. start \<le> i' \<and> i' < i \<longrightarrow> \<not> agree canon i')" for canon i
    using first_in_Some first_in_least by blast
  have miss: "first_in start ?hi (agree canon) = None \<Longrightarrow> start \<le> i \<Longrightarrow> \<not> agree canon i" for canon i
    unfolding first_in_None using assms(2) by (auto simp: agree_def)
  have first: "first_in start ?hi (\<lambda>i. slice_matches lines i pattern) = first_in start ?hi (agree (\<lambda>s. s))"
    "first_in start ?hi (\<lambda>i. lines_match canon lines i pattern) = first_in start ?hi (agree canon)" for canon
    using assms(1) by (simp_all add: agree_def slice_matches_iff lines_match_iff)
  have nth: "passes ! 0 = (\<lambda>s. s)" "passes ! 1 = trim_end" "passes ! 2 = trim" "passes ! 3 = normalise"
    by (simp_all add: passes_def numeral_2_eq_2 numeral_3_eq_3)
  have "seek_sequence lines pattern start False =
      (case first_in start ?hi (\<lambda>i. slice_matches lines i pattern) of Some i \<Rightarrow> Some i | None \<Rightarrow>
      (case first_in start ?hi (\<lambda>i. lines_match trim_end lines i pattern) of Some i \<Rightarrow> Some i | None \<Rightarrow>
      (case first_in start ?hi (\<lambda>i. lines_match trim lines i pattern) of Some i \<Rightarrow> Some i | None \<Rightarrow>
        first_in start ?hi (\<lambda>i. lines_match normalise lines i pattern))))"
    using assms by (simp add: seek_sequence_def Let_def sat_sub_def)
  then have seek: "seek_sequence lines pattern start False =
      (case first_in start ?hi (agree (passes ! 0)) of Some i \<Rightarrow> Some i | None \<Rightarrow>
      (case first_in start ?hi (agree (passes ! 1)) of Some i \<Rightarrow> Some i | None \<Rightarrow>
      (case first_in start ?hi (agree (passes ! 2)) of Some i \<Rightarrow> Some i | None \<Rightarrow>
        first_in start ?hi (agree (passes ! 3)))))"
    unfolding first nth .
  have four: "(\<exists>n < length passes. P n) \<longleftrightarrow> P 0 \<or> P 1 \<or> P 2 \<or> P 3"
    "(\<forall>n < length passes. P n) \<longleftrightarrow> P 0 \<and> P 1 \<and> P 2 \<and> P 3" for P
    by (auto simp: passes_def less_Suc_eq numeral_2_eq_2 numeral_3_eq_3)
  have less: "(\<forall>m < 0. P m) \<longleftrightarrow> True" "(\<forall>m < 1. P m) \<longleftrightarrow> P 0" "(\<forall>m < 2. P m) \<longleftrightarrow> P 0 \<and> P 1"
    "(\<forall>m < 3. P m) \<longleftrightarrow> P 0 \<and> P 1 \<and> P 2" for P :: "nat \<Rightarrow> bool"
    by (auto simp: less_Suc_eq numeral_2_eq_2 numeral_3_eq_3)
  show ?thesis
    unfolding Let_def agree_def [symmetric] seek four less
    using hit miss by (auto split: option.split)
qed

theorem seek_sequence_strictest_first_witness:
  "seek_sequence [''a '', ''a''] [''a''] 0 False = Some 1 \<and>
   (\<exists>n < length passes. (passes ! n) ([''a '', ''a''] ! 1) = (passes ! n) ''a'')"
proof -
  have "seek_sequence [''a '', ''a''] [''a''] 0 False = Some 1"
    by (simp add: seek_sequence_def first_in_def sat_sub_def slice_matches_def)
  then show ?thesis
    using seek_sequence_strictest_first [of "[''a'']" "[''a '', ''a'']" 0] by auto
qed

text \<open>
  C38. A file update never panics; and when the chunks are plain, a success is exactly the file
  with disjoint slices replaced: each chunk is placed where the file agrees with its old lines
  under one of the comparisons, everything outside the slices is kept in order, and the
  last line of the result, if it has one, ends with a newline.
\<close>

theorem derive_new_contents_splices:
  "derive_new_contents content path chunks \<noteq> None \<and>
   (case derive_new_contents content path chunks of
      Some (Inr result) \<Rightarrow> \<exists>reps rs.
        mset reps = mset rs \<and> list_all2 (chunk_applied (file_lines content)) chunks rs \<and>
        (if plain_chunks (file_lines content) chunks
         then sorted_wrt before reps \<and>
           (let ls = splice 0 reps (file_lines content)
            in result = join [newline] (if last_is_empty ls then ls else ls @ [[]]))
         else True)
    | _ \<Rightarrow> True)"
proof (cases "compute_replacements (file_lines content) path chunks")
  case (Inl e)
  then show ?thesis by (simp add: derive_new_contents_def Let_def)
next
  case (Inr reps)
  from derive_total [OF Inr] obtain ys where ys: "apply_replacements (file_lines content) reps = Some ys"
    by blast
  obtain rs where "compute_loop (file_lines content) path chunks 0 [] = Inr rs" "reps = sort_key fst rs"
    using Inr by (auto simp: compute_replacements_def split: sum.splits)
  then have "mset reps = mset rs \<and> list_all2 (chunk_applied (file_lines content)) chunks rs"
    using compute_loop_spec [of "file_lines content" path chunks 0 "[]" rs] by auto
  moreover have "plain_chunks (file_lines content) chunks \<Longrightarrow>
      sorted_wrt before reps \<and> ys = splice 0 reps (file_lines content)"
    using plain_spliced [OF Inr] ys by auto
  ultimately show ?thesis
    using Inr ys by (auto simp: derive_new_contents_def Let_def)
qed

text \<open>
  With the end-of-file mark the only index the matcher looks at is the one where the pattern
  ends the file: there is no second search from the start, whatever the start is.
\<close>

theorem seek_eof_only_at_the_end:
  "seek_sequence lines pattern start True =
    (if pattern = [] then Some start
     else if length pattern > length lines then None
     else let i = length lines - length pattern
       in if \<exists>canon \<in> set passes. lines_match canon lines i pattern then Some i else None)"
proof -
  have one: "first_in i i P = (if P i then Some i else None)" for i P
    by (simp add: first_in_def)
  show ?thesis
    by (auto simp: seek_sequence_def Let_def sat_sub_def one passes_def slice_lines_match)
qed

definition lost_addition :: "update_file_chunk list" where
  "lost_addition =
     [\<lparr>change_context = None, old_lines = [''a'', []], new_lines = [''b'', []], is_end_of_file = False\<rparr>,
      \<lparr>change_context = None, old_lines = [], new_lines = [''added''], is_end_of_file = False\<rparr>]"

text \<open>
  A pure addition is inserted before a final empty line, also when an earlier chunk has
  replaced that line: the added line is then removed in the place of the old one, and the update
  succeeds without it.
\<close>

theorem addition_lost_before_empty_line:
  "derive_new_contents [CHR ''a'', newline, newline] ''f'' lost_addition =
     Some (Inr [CHR ''b'', newline, newline])"
  by (simp add: derive_new_contents_def file_lines_def lost_addition_def last_is_empty_def
      compute_replacements_def compute_one_def seek_context_def seek_sequence_def first_in_def
      sat_sub_def slice_matches_def apply_replacements_def apply_one_def vec_remove_def
      vec_insert_def numeral_2_eq_2)

end
