(* ===== verification/PatchParse.thy ===== *)
theory PatchParse imports PatchApply begin

text \<open>
  The parser of the patch format (\<^verbatim>\<open>codex/apply_patch/parser.rs\<close>): the boundary checks with
  their lenient heredoc form, the hunks and their chunks. A path is the string of its bytes; a
  slice of lines is the list of the lines that remain. The parser is shown to accept every text
  that the grammar of the file's header produces, and to return what the text describes.
\<close>

section \<open>Markers and types\<close>

definition BEGIN_PATCH_MARKER :: string where
  "BEGIN_PATCH_MARKER = ''*** Begin Patch''"

definition END_PATCH_MARKER :: string where
  "END_PATCH_MARKER = ''*** End Patch''"

definition ADD_FILE_MARKER :: string where
  "ADD_FILE_MARKER = ''*** Add File: ''"

definition DELETE_FILE_MARKER :: string where
  "DELETE_FILE_MARKER = ''*** Delete File: ''"

definition UPDATE_FILE_MARKER :: string where
  "UPDATE_FILE_MARKER = ''*** Update File: ''"

definition MOVE_TO_MARKER :: string where
  "MOVE_TO_MARKER = ''*** Move to: ''"

definition EOF_MARKER :: string where
  "EOF_MARKER = ''*** End of File''"

definition CHANGE_CONTEXT_MARKER :: string where
  "CHANGE_CONTEXT_MARKER = ''@@ ''"

definition EMPTY_CHANGE_CONTEXT_MARKER :: string where
  "EMPTY_CHANGE_CONTEXT_MARKER = ''@@''"

definition PARSE_IN_STRICT_MODE :: bool where
  "PARSE_IN_STRICT_MODE = False"

lemmas markers = BEGIN_PATCH_MARKER_def END_PATCH_MARKER_def ADD_FILE_MARKER_def
  DELETE_FILE_MARKER_def UPDATE_FILE_MARKER_def MOVE_TO_MARKER_def EOF_MARKER_def
  CHANGE_CONTEXT_MARKER_def EMPTY_CHANGE_CONTEXT_MARKER_def

datatype hunk =
    AddFile string string
  | DeleteFile string
  | UpdateFile string "string option" "update_file_chunk list"

record parsed_patch =
  pp_hunks :: "hunk list"
  pp_patch :: string

datatype parse_mode = Strict | Lenient

section \<open>Boundaries\<close>

definition quoted :: "string \<Rightarrow> string" where
  "quoted s = [CHR 0x27] @ s @ [CHR 0x27]"

definition check_start_and_end_lines_strict ::
    "string option \<Rightarrow> string option \<Rightarrow> parse_error + unit" where
  "check_start_and_end_lines_strict first_line last_line =
     (let first_line = map_option trim first_line; last_line = map_option trim last_line
      in if first_line = Some BEGIN_PATCH_MARKER \<and> last_line = Some END_PATCH_MARKER then Inr ()
         else if first_line \<noteq> None \<and> first_line \<noteq> Some BEGIN_PATCH_MARKER
         then Inl (InvalidPatchError (''The first line of the patch must be '' @ quoted BEGIN_PATCH_MARKER))
         else Inl (InvalidPatchError (''The last line of the patch must be '' @ quoted END_PATCH_MARKER)))"

definition check_patch_boundaries_strict :: "string list \<Rightarrow> parse_error + unit" where
  "check_patch_boundaries_strict lines =
     (case lines of
        [] \<Rightarrow> check_start_and_end_lines_strict None None
      | first # rest \<Rightarrow> check_start_and_end_lines_strict (Some first) (Some (last lines)))"

definition heredoc_starts :: "string list" where
  "heredoc_starts = [''<<EOF'', ''<<'' @ quoted ''EOF'', ''<<'' @ [CHR 0x22] @ ''EOF'' @ [CHR 0x22]]"

definition check_patch_boundaries_lenient ::
    "string list \<Rightarrow> parse_error \<Rightarrow> parse_error + string list" where
  "check_patch_boundaries_lenient original_lines original_parse_error =
     (case original_lines of
        first # x # rest \<Rightarrow>
          (let inner = butlast (x # rest)
           in if first \<in> set heredoc_starts \<and> ends_with (last (x # rest)) ''EOF'' \<and>
                 length original_lines \<ge> 4
              then (case check_patch_boundaries_strict inner of
                  Inr _ \<Rightarrow> Inr inner
                | Inl e \<Rightarrow> Inl e)
              else Inl original_parse_error)
      | _ \<Rightarrow> Inl original_parse_error)"

section \<open>Chunks\<close>

definition no_lines_error :: "nat \<Rightarrow> parse_error" where
  "no_lines_error line_number =
     InvalidHunkError ''Update hunk does not contain any lines'' line_number"

definition unexpected_line_error :: "string \<Rightarrow> nat \<Rightarrow> parse_error" where
  "unexpected_line_error line_contents line_number = InvalidHunkError
     (''Unexpected line found in update hunk: '' @ quoted line_contents @
      ''. Every line should start with '' @ quoted '' '' @ '' (context line), '' @
      quoted ''+'' @ '' (added line), or '' @ quoted ''-'' @ '' (removed line)'') line_number"

definition push_old :: "string \<Rightarrow> update_file_chunk \<Rightarrow> update_file_chunk" where
  "push_old s c = c\<lparr>old_lines := old_lines c @ [s]\<rparr>"

definition push_new :: "string \<Rightarrow> update_file_chunk \<Rightarrow> update_file_chunk" where
  "push_new s c = c\<lparr>new_lines := new_lines c @ [s]\<rparr>"

text \<open>The loop over the lines of a chunk; the second result is the number of lines it took.\<close>

fun chunk_lines ::
    "nat \<Rightarrow> string list \<Rightarrow> update_file_chunk \<Rightarrow> nat \<Rightarrow> parse_error + (update_file_chunk \<times> nat)" where
  "chunk_lines line_number [] chunk parsed_lines = Inr (chunk, parsed_lines)"
| "chunk_lines line_number (line # rest) chunk parsed_lines =
     (if line = EOF_MARKER then
        (if parsed_lines = 0 then Inl (no_lines_error (line_number + 1))
         else Inr (chunk\<lparr>is_end_of_file := True\<rparr>, parsed_lines + 1))
      else case line of
          [] \<Rightarrow> chunk_lines line_number rest (push_new [] (push_old [] chunk)) (parsed_lines + 1)
        | c # cs \<Rightarrow>
            if c = CHR '' '' then
              chunk_lines line_number rest (push_new cs (push_old cs chunk)) (parsed_lines + 1)
            else if c = CHR ''+'' then
              chunk_lines line_number rest (push_new cs chunk) (parsed_lines + 1)
            else if c = CHR ''-'' then
              chunk_lines line_number rest (push_old cs chunk) (parsed_lines + 1)
            else if parsed_lines = 0 then Inl (unexpected_line_error line (line_number + 1))
            else Inr (chunk, parsed_lines))"

definition chunk_header ::
    "string \<Rightarrow> nat \<Rightarrow> bool \<Rightarrow> parse_error + (string option \<times> nat)" where
  "chunk_header first line_number allow_missing_context =
     (if first = EMPTY_CHANGE_CONTEXT_MARKER then Inr (None, 1)
      else case strip_prefix CHANGE_CONTEXT_MARKER first of
          Some context \<Rightarrow> Inr (Some context, 1)
        | None \<Rightarrow>
            if \<not> allow_missing_context
            then Inl (InvalidHunkError
              (''Expected update hunk to start with a @@ context marker, got: '' @ quoted first) line_number)
            else Inr (None, 0))"

definition parse_update_file_chunk ::
    "string list \<Rightarrow> nat \<Rightarrow> bool \<Rightarrow> parse_error + (update_file_chunk \<times> nat)" where
  "parse_update_file_chunk lines line_number allow_missing_context =
     (case lines of
        [] \<Rightarrow> Inl (no_lines_error line_number)
      | first # _ \<Rightarrow>
          (case chunk_header first line_number allow_missing_context of
             Inl e \<Rightarrow> Inl e
           | Inr (context, start_index) \<Rightarrow>
               if start_index \<ge> length lines then Inl (no_lines_error (line_number + 1))
               else
                 (case chunk_lines line_number (drop start_index lines)
                     \<lparr>change_context = context, old_lines = [], new_lines = [], is_end_of_file = False\<rparr> 0 of
                    Inl e \<Rightarrow> Inl e
                  | Inr (chunk, parsed_lines) \<Rightarrow> Inr (chunk, parsed_lines + start_index))))"

text \<open>A chunk takes at least one line, so the loop over the chunks ends.\<close>

lemma chunk_lines_progress:
  "chunk_lines ln lines c n = Inr (c', n') \<Longrightarrow> n \<le> n' \<and> (n = 0 \<longrightarrow> lines \<noteq> [] \<longrightarrow> 0 < n')"
proof (induction ln lines c n rule: chunk_lines.induct)
  case (2 ln line rest c n)
  show ?case
    using "2.prems" "2.IH" by (cases line) (force split: if_splits)+
qed simp

lemma parse_chunk_progress:
  assumes "parse_update_file_chunk lines ln allow = Inr (c, n)"
  shows "0 < n"
  using assms
  by (auto simp: parse_update_file_chunk_def chunk_header_def split: list.splits sum.splits if_splits
      option.splits simp del: chunk_lines.simps dest!: chunk_lines_progress)

section \<open>Hunks\<close>

fun add_lines :: "string list \<Rightarrow> string \<Rightarrow> nat \<Rightarrow> string \<times> nat" where
  "add_lines [] contents parsed_lines = (contents, parsed_lines)"
| "add_lines (add_line # rest) contents parsed_lines =
     (case strip_prefix ''+'' add_line of
        Some line_to_add \<Rightarrow> add_lines rest (contents @ line_to_add @ [newline]) (parsed_lines + 1)
      | None \<Rightarrow> (contents, parsed_lines))"

function update_chunks ::
    "nat \<Rightarrow> string list \<Rightarrow> nat \<Rightarrow> update_file_chunk list \<Rightarrow>
      parse_error + (update_file_chunk list \<times> nat)" where
  "update_chunks line_number remaining_lines parsed_lines chunks =
     (case remaining_lines of
        [] \<Rightarrow> Inr (chunks, parsed_lines)
      | l # ls \<Rightarrow>
          if trim l = [] then update_chunks line_number ls (parsed_lines + 1) chunks
          else if starts_with l ''***'' then Inr (chunks, parsed_lines)
          else
            (case parse_update_file_chunk remaining_lines (line_number + parsed_lines) (chunks = []) of
               Inl e \<Rightarrow> Inl e
             | Inr (chunk, n) \<Rightarrow>
                 update_chunks line_number (drop n remaining_lines) (parsed_lines + n) (chunks @ [chunk])))"
  by pat_completeness auto
termination
  by (relation "measure (\<lambda>(_, ls, _, _). length ls)") (auto dest: parse_chunk_progress)

declare update_chunks.simps [simp del]

definition invalid_header_error :: "string \<Rightarrow> nat \<Rightarrow> parse_error" where
  "invalid_header_error first_line line_number = InvalidHunkError
     (quoted first_line @ '' is not a valid hunk header. Valid hunk headers: '' @
      quoted ''*** Add File: {path}'' @ '', '' @ quoted ''*** Delete File: {path}'' @ '', '' @
      quoted ''*** Update File: {path}'') line_number"

definition parse_update_hunk ::
    "string \<Rightarrow> string list \<Rightarrow> nat \<Rightarrow> parse_error + (hunk \<times> nat)" where
  "parse_update_hunk path rest line_number =
     (let move_path = (case rest of [] \<Rightarrow> None | x # _ \<Rightarrow> strip_prefix MOVE_TO_MARKER x);
          (remaining_lines, parsed_lines) =
            (if move_path \<noteq> None then (drop 1 rest, 2) else (rest, 1))
      in case update_chunks line_number remaining_lines parsed_lines [] of
           Inl e \<Rightarrow> Inl e
         | Inr (chunks, parsed_lines) \<Rightarrow>
             if chunks = []
             then Inl (InvalidHunkError
               (''Update file hunk for path '' @ quoted path @ '' is empty'') line_number)
             else Inr (UpdateFile path move_path chunks, parsed_lines))"

definition parse_one_hunk :: "string list \<Rightarrow> nat \<Rightarrow> parse_error + (hunk \<times> nat)" where
  "parse_one_hunk lines line_number =
     (case lines of
        [] \<Rightarrow> Inl (InvalidHunkError ''hunk is empty'' line_number)
      | first # rest \<Rightarrow>
          (let first_line = trim first in
           case strip_prefix ADD_FILE_MARKER first_line of
             Some path \<Rightarrow>
               (case add_lines rest [] 1 of (contents, parsed_lines) \<Rightarrow>
                  Inr (AddFile path contents, parsed_lines))
           | None \<Rightarrow>
          (case strip_prefix DELETE_FILE_MARKER first_line of
             Some path \<Rightarrow> Inr (DeleteFile path, 1)
           | None \<Rightarrow>
          (case strip_prefix UPDATE_FILE_MARKER first_line of
             Some path \<Rightarrow> parse_update_hunk path rest line_number
           | None \<Rightarrow> Inl (invalid_header_error first_line line_number)))))"

lemma add_lines_progress: "n \<le> snd (add_lines ls c n)"
  by (induction ls arbitrary: c n) (auto split: option.split intro: Suc_leD)

lemma update_chunks_progress: "update_chunks ln ls n cs = Inr (cs', n') \<Longrightarrow> n \<le> n'"
proof (induction ln ls n cs rule: update_chunks.induct)
  case (1 ln ls n cs)
  show ?case
  proof (cases ls)
    case (Cons l ls')
    then show ?thesis
      using "1.prems" "1.IH" update_chunks.simps [of ln ls n cs]
      by (force split: if_splits sum.splits)
  qed (use "1.prems" update_chunks.simps [of ln ls n cs] in simp)
qed

lemma parse_one_hunk_progress: "parse_one_hunk lines ln = Inr (h, n) \<Longrightarrow> 0 < n"
  by (auto simp: parse_one_hunk_def parse_update_hunk_def Let_def split: list.splits option.splits
      sum.splits if_splits prod.splits dest!: update_chunks_progress)
    (metis add_lines_progress less_eq_Suc_le One_nat_def snd_conv)+

function parse_hunks :: "string list \<Rightarrow> nat \<Rightarrow> hunk list \<Rightarrow> parse_error + hunk list" where
  "parse_hunks remaining_lines line_number hs =
     (if remaining_lines = [] then Inr hs
      else case parse_one_hunk remaining_lines line_number of
          Inl e \<Rightarrow> Inl e
        | Inr (h, hunk_lines) \<Rightarrow>
            parse_hunks (drop hunk_lines remaining_lines) (line_number + hunk_lines) (hs @ [h]))"
  by pat_completeness auto
termination
  by (relation "measure (\<lambda>(ls, _, _). length ls)") (auto dest: parse_one_hunk_progress)

declare parse_hunks.simps [simp del]

definition parse_patch_text :: "string \<Rightarrow> parse_mode \<Rightarrow> parse_error + parsed_patch" where
  "parse_patch_text p mode =
     (let lines = str_lines (trim p);
          bounded = (case check_patch_boundaries_strict lines of
             Inr _ \<Rightarrow> Inr lines
           | Inl e \<Rightarrow> (case mode of
               Strict \<Rightarrow> Inl e
             | Lenient \<Rightarrow> check_patch_boundaries_lenient lines e))
      in case bounded of
           Inl e \<Rightarrow> Inl e
         | Inr lines \<Rightarrow>
             (let last_line_index = sat_sub (length lines) 1;
                  remaining_lines = (if 1 \<le> last_line_index
                    then drop 1 (take last_line_index lines) else [])
              in case parse_hunks remaining_lines 2 [] of
                   Inl e \<Rightarrow> Inl e
                 | Inr hs \<Rightarrow> Inr \<lparr>pp_hunks = hs, pp_patch = join [newline] lines\<rparr>))"

definition parse_patch :: "string \<Rightarrow> parse_error + parsed_patch" where
  "parse_patch p = parse_patch_text p (if PARSE_IN_STRICT_MODE then Strict else Lenient)"

section \<open>The grammar\<close>

text \<open>The syntax trees of the grammar in the file's header, their text and what they mean.\<close>

datatype change = Ctx string | Ins string | Del string

datatype chunk_syntax = Chunk "string option" "change list" bool

datatype hunk_syntax =
    SAdd string "string list"
  | SDelete string
  | SUpdate string "string option" "chunk_syntax list"

fun render_change :: "change \<Rightarrow> string" where
  "render_change (Ctx s) = CHR '' '' # s"
| "render_change (Ins s) = CHR ''+'' # s"
| "render_change (Del s) = CHR ''-'' # s"

fun render_chunk :: "chunk_syntax \<Rightarrow> string list" where
  "render_chunk (Chunk ctx cs eof) =
     (case ctx of None \<Rightarrow> EMPTY_CHANGE_CONTEXT_MARKER | Some c \<Rightarrow> CHANGE_CONTEXT_MARKER @ c) #
     map render_change cs @ (if eof then [EOF_MARKER] else [])"

fun render_hunk :: "hunk_syntax \<Rightarrow> string list" where
  "render_hunk (SAdd path ls) = (ADD_FILE_MARKER @ path) # map (\<lambda>l. CHR ''+'' # l) ls"
| "render_hunk (SDelete path) = [DELETE_FILE_MARKER @ path]"
| "render_hunk (SUpdate path dest cs) = (UPDATE_FILE_MARKER @ path) #
     (case dest of None \<Rightarrow> [] | Some d \<Rightarrow> [MOVE_TO_MARKER @ d]) @ concat (map render_chunk cs)"

definition render_lines :: "hunk_syntax list \<Rightarrow> string list" where
  "render_lines hs = BEGIN_PATCH_MARKER # concat (map render_hunk hs) @ [END_PATCH_MARKER]"

definition render_patch :: "hunk_syntax list \<Rightarrow> string" where
  "render_patch hs = join [newline] (render_lines hs)"

fun change_old :: "change \<Rightarrow> string list" where
  "change_old (Ctx s) = [s]"
| "change_old (Ins s) = []"
| "change_old (Del s) = [s]"

fun change_new :: "change \<Rightarrow> string list" where
  "change_new (Ctx s) = [s]"
| "change_new (Ins s) = [s]"
| "change_new (Del s) = []"

fun chunk_of :: "chunk_syntax \<Rightarrow> update_file_chunk" where
  "chunk_of (Chunk ctx cs eof) =
     \<lparr>change_context = ctx, old_lines = concat (map change_old cs),
      new_lines = concat (map change_new cs), is_end_of_file = eof\<rparr>"

fun hunk_of :: "hunk_syntax \<Rightarrow> hunk" where
  "hunk_of (SAdd path ls) = AddFile path (concat (map (\<lambda>l. l @ [newline]) ls))"
| "hunk_of (SDelete path) = DeleteFile path"
| "hunk_of (SUpdate path dest cs) = UpdateFile path dest (map chunk_of cs)"

text \<open>
  Texts that survive the splitting into lines: no newline and no carriage return at the end; a
  path ends in a printable character, since the header line is trimmed.
\<close>

definition line_ok :: "string \<Rightarrow> bool" where
  "line_ok s \<longleftrightarrow> newline \<notin> set s \<and> (s = [] \<or> last s \<noteq> carriage_return)"

definition path_ok :: "string \<Rightarrow> bool" where
  "path_ok s \<longleftrightarrow> newline \<notin> set s \<and> s \<noteq> [] \<and> is_plain (last s)"

fun change_ok :: "change \<Rightarrow> bool" where
  "change_ok (Ctx s) = line_ok s"
| "change_ok (Ins s) = line_ok s"
| "change_ok (Del s) = line_ok s"

fun chunk_ok :: "chunk_syntax \<Rightarrow> bool" where
  "chunk_ok (Chunk ctx cs eof) \<longleftrightarrow> (case ctx of None \<Rightarrow> True | Some c \<Rightarrow> line_ok c) \<and>
     cs \<noteq> [] \<and> list_all change_ok cs"

fun hunk_ok :: "hunk_syntax \<Rightarrow> bool" where
  "hunk_ok (SAdd path ls) \<longleftrightarrow> path_ok path \<and> list_all line_ok ls"
| "hunk_ok (SDelete path) \<longleftrightarrow> path_ok path"
| "hunk_ok (SUpdate path dest cs) \<longleftrightarrow> path_ok path \<and> (case dest of None \<Rightarrow> True | Some d \<Rightarrow> line_ok d) \<and>
     cs \<noteq> [] \<and> list_all chunk_ok cs"

section \<open>The grammar: lemmas\<close>

text \<open>Where a chunk ends: the next header of a chunk or of a hunk, or the end.\<close>

definition at_header :: "char \<Rightarrow> string list \<Rightarrow> bool" where
  "at_header c rest \<longleftrightarrow> rest = [] \<or> (\<exists>s. hd rest = c # s \<and> hd rest \<noteq> EOF_MARKER)"

lemma chunk_lines_changes:
  "chunk_lines ln (map render_change cs @ rest) ch n =
    chunk_lines ln rest (ch\<lparr>old_lines := old_lines ch @ concat (map change_old cs),
      new_lines := new_lines ch @ concat (map change_new cs)\<rparr>) (n + length cs)"
proof (induction cs arbitrary: ch n)
  case (Cons c cs)
  show ?case by (cases c) (simp_all add: Cons.IH EOF_MARKER_def push_old_def push_new_def)
qed simp

lemma chunk_lines_stop:
  "at_header c rest \<Longrightarrow> c \<noteq> CHR '' '' \<Longrightarrow> c \<noteq> CHR ''+'' \<Longrightarrow> c \<noteq> CHR ''-'' \<Longrightarrow> 0 < n \<Longrightarrow>
    chunk_lines ln rest ch n = Inr (ch, n)"
  by (cases rest) (auto simp: at_header_def)

lemma parse_chunk_render:
  assumes "chunk_ok c" and "at_header h rest" and "h = CHR ''@'' \<or> h = CHR ''*''"
  shows "parse_update_file_chunk (render_chunk c @ rest) ln allow = Inr (chunk_of c, length (render_chunk c))"
proof -
  obtain ctx cs eof where c: "c = Chunk ctx cs eof" by (cases c)
  have header: "chunk_header (case ctx of None \<Rightarrow> EMPTY_CHANGE_CONTEXT_MARKER
      | Some c \<Rightarrow> CHANGE_CONTEXT_MARKER @ c) ln allow = Inr (ctx, 1)"
    by (simp add: chunk_header_def EMPTY_CHANGE_CONTEXT_MARKER_def CHANGE_CONTEXT_MARKER_def
        strip_prefix_def split: option.split)
  show ?thesis
    using assms chunk_lines_stop [OF assms(2)]
    by (cases eof) (auto simp: parse_update_file_chunk_def c header chunk_lines_changes)
qed

lemma render_chunk_hd: "\<exists>s ls. render_chunk c = (CHR ''@'' # s) # ls"
  by (cases c) (auto simp: EMPTY_CHANGE_CONTEXT_MARKER_def CHANGE_CONTEXT_MARKER_def split: option.split)

lemma update_chunks_step:
  assumes "ls = (c # s) # ls'" and "is_plain c" and "\<not> starts_with (c # s) ''***''"
  shows "update_chunks ln ls n acc =
    (case parse_update_file_chunk ls (ln + n) (acc = []) of
       Inl e \<Rightarrow> Inl e
     | Inr (chunk, k) \<Rightarrow> update_chunks ln (drop k ls) (n + k) (acc @ [chunk]))"
  using assms trim_plain_nonempty [of "c # s"] by (subst update_chunks.simps) simp

lemma update_chunks_render:
  assumes "list_all chunk_ok cs" and "rest = [] \<or> starts_with (hd rest) ''*** '' \<and> hd rest \<noteq> EOF_MARKER"
  shows "update_chunks ln (concat (map render_chunk cs) @ rest) n acc =
    Inr (acc @ map chunk_of cs, n + length (concat (map render_chunk cs)))"
  using assms(1)
proof (induction cs arbitrary: n acc)
  case Nil
  show ?case
  proof (cases rest)
    case (Cons l ls)
    with assms(2) obtain s where l: "l = CHR ''*'' # s" "starts_with l ''***''"
      by (auto simp: starts_with_iff)
    then have "trim l \<noteq> []" by (intro trim_plain_nonempty) (auto simp: is_plain_def)
    with Cons l show ?thesis by (subst update_chunks.simps) simp
  qed (simp add: update_chunks.simps)
next
  case (Cons c cs)
  let ?rest = "concat (map render_chunk cs) @ rest"
  have "\<exists>h. at_header h ?rest \<and> (h = CHR ''@'' \<or> h = CHR ''*'')"
  proof (cases cs)
    case Nil
    then show ?thesis using assms(2) by (auto simp: at_header_def starts_with_iff)
  next
    case (Cons c' cs')
    then show ?thesis
      using render_chunk_hd [of c'] by (auto simp: at_header_def EOF_MARKER_def intro: exI [of _ "CHR ''@''"])
  qed
  then have parse: "parse_update_file_chunk (render_chunk c @ ?rest) (ln + n) (acc = []) =
      Inr (chunk_of c, length (render_chunk c))"
    using parse_chunk_render Cons.prems by auto
  obtain s ls where "render_chunk c = (CHR ''@'' # s) # ls"
    using render_chunk_hd by blast
  then have "update_chunks ln (render_chunk c @ ?rest) n acc =
      update_chunks ln ?rest (n + length (render_chunk c)) (acc @ [chunk_of c])"
    using update_chunks_step [of "render_chunk c @ ?rest" "CHR ''@''" s "ls @ ?rest"] parse
    by (simp add: is_plain_def starts_with_def)
  with Cons show ?case by simp
qed

lemma trim_header:
  assumes "path_ok path" and "m = ADD_FILE_MARKER \<or> m = DELETE_FILE_MARKER \<or> m = UPDATE_FILE_MARKER"
  shows "trim (m @ path) = m @ path"
  using assms by (intro trim_plain) (auto simp: path_ok_def markers is_plain_def)

lemma add_lines_render:
  "rest = [] \<or> starts_with (hd rest) ''*** '' \<Longrightarrow>
    add_lines (map (\<lambda>l. CHR ''+'' # l) ls @ rest) contents n =
      (contents @ concat (map (\<lambda>l. l @ [newline]) ls), n + length ls)"
proof (induction ls arbitrary: contents n)
  case Nil
  then show ?case by (cases rest) (auto simp: strip_prefix_def starts_with_iff)
qed (simp add: strip_prefix_def)

lemma parse_one_hunk_render:
  assumes "hunk_ok h" and "rest = [] \<or> starts_with (hd rest) ''*** '' \<and> hd rest \<noteq> EOF_MARKER"
  shows "parse_one_hunk (render_hunk h @ rest) ln = Inr (hunk_of h, length (render_hunk h))"
proof (cases h)
  case (SAdd path ls)
  with assms show ?thesis
    using add_lines_render [of rest ls "[]" 1] trim_header [of path ADD_FILE_MARKER]
    by (auto simp: parse_one_hunk_def)
next
  case (SDelete path)
  with assms show ?thesis
    using trim_header [of path DELETE_FILE_MARKER]
    by (auto simp: parse_one_hunk_def strip_prefix_def ADD_FILE_MARKER_def DELETE_FILE_MARKER_def)
next
  case (SUpdate path dest cs)
  have marker: "strip_prefix ADD_FILE_MARKER (UPDATE_FILE_MARKER @ path) = None"
    "strip_prefix DELETE_FILE_MARKER (UPDATE_FILE_MARKER @ path) = None"
    by (simp_all add: strip_prefix_def markers)
  obtain s ls where first: "concat (map render_chunk cs) @ rest = (CHR ''@'' # s) # ls"
    using assms(1) SUpdate render_chunk_hd [of "hd cs"] by (cases cs) auto
  then have no_move: "strip_prefix MOVE_TO_MARKER (CHR ''@'' # s) = None"
    by (simp add: strip_prefix_def MOVE_TO_MARKER_def)
  have upd: "update_chunks ln (concat (map render_chunk cs) @ rest) n [] =
      Inr (map chunk_of cs, n + length (concat (map render_chunk cs)))" for n
    using update_chunks_render [of cs rest ln n "[]"] assms SUpdate by simp
  have "parse_update_hunk path ((case dest of None \<Rightarrow> [] | Some d \<Rightarrow> [MOVE_TO_MARKER @ d]) @
      concat (map render_chunk cs) @ rest) ln = Inr (hunk_of h, length (render_hunk h))"
    using upd assms(1) SUpdate no_move first
    by (cases dest) (auto simp: parse_update_hunk_def Let_def)
  with SUpdate assms marker show ?thesis
    using trim_header [of path UPDATE_FILE_MARKER] by (simp add: parse_one_hunk_def)
qed

lemma render_hunk_hd:
  "\<exists>l ls. render_hunk h = l # ls \<and> starts_with l ''*** '' \<and> l \<noteq> EOF_MARKER"
  by (cases h) (auto simp: markers starts_with_def)

lemma parse_hunks_render:
  "list_all hunk_ok hs \<Longrightarrow> parse_hunks (concat (map render_hunk hs)) ln acc = Inr (acc @ map hunk_of hs)"
proof (induction hs arbitrary: ln acc)
  case (Cons h hs)
  let ?rest = "concat (map render_hunk hs)"
  have "?rest = [] \<or> starts_with (hd ?rest) ''*** '' \<and> hd ?rest \<noteq> EOF_MARKER"
  proof (cases hs)
    case (Cons h' hs')
    then show ?thesis using render_hunk_hd [of h'] by auto
  qed simp
  then have "parse_one_hunk (render_hunk h @ ?rest) ln = Inr (hunk_of h, length (render_hunk h))"
    using parse_one_hunk_render Cons.prems by simp
  moreover have "render_hunk h \<noteq> []" using render_hunk_hd [of h] by auto
  ultimately show ?case
    using Cons by (subst parse_hunks.simps) simp
qed (simp add: parse_hunks.simps)

lemma strip_cr_ok: "line_ok s \<Longrightarrow> strip_cr s = s"
  by (auto simp: line_ok_def strip_cr_def)

lemma path_line_ok: "path_ok s \<Longrightarrow> line_ok s"
  by (auto simp: path_ok_def line_ok_def is_plain_def)

lemma line_ok_append: "line_ok s \<Longrightarrow> line_ok p \<Longrightarrow> line_ok (p @ s)"
  by (cases "s = []") (auto simp: line_ok_def)

lemma line_ok_markers:
  "line_ok BEGIN_PATCH_MARKER" "line_ok END_PATCH_MARKER" "line_ok ADD_FILE_MARKER"
  "line_ok DELETE_FILE_MARKER" "line_ok UPDATE_FILE_MARKER" "line_ok MOVE_TO_MARKER"
  "line_ok EOF_MARKER" "line_ok CHANGE_CONTEXT_MARKER" "line_ok EMPTY_CHANGE_CONTEXT_MARKER"
  by (simp_all add: line_ok_def markers)

lemma render_change_ok: "change_ok c \<Longrightarrow> line_ok (render_change c)"
  by (cases c) (auto simp: line_ok_def)

lemma render_chunk_ok: "chunk_ok c \<Longrightarrow> list_all line_ok (render_chunk c)"
  by (cases c) (auto simp: list_all_iff line_ok_markers line_ok_append render_change_ok
      split: option.splits)

lemma render_hunk_ok: "hunk_ok h \<Longrightarrow> list_all line_ok (render_hunk h)"
proof (cases h)
  case (SAdd path ls)
  moreover have "line_ok l \<Longrightarrow> line_ok (CHR ''+'' # l)" for l by (auto simp: line_ok_def)
  ultimately show "hunk_ok h \<Longrightarrow> ?thesis"
    by (auto simp: list_all_iff line_ok_markers line_ok_append path_line_ok)
next
  case (SUpdate path dest cs)
  then show "hunk_ok h \<Longrightarrow> ?thesis"
    using render_chunk_ok
    by (auto simp: list_all_iff line_ok_markers line_ok_append path_line_ok split: option.splits)
qed (simp add: line_ok_markers line_ok_append path_line_ok)

lemma parse_render:
  assumes "list_all hunk_ok hs"
  shows "parse_patch (render_patch hs) = Inr \<lparr>pp_hunks = map hunk_of hs, pp_patch = render_patch hs\<rparr>"
proof -
  have ne: "render_lines hs \<noteq> []" "last (render_lines hs) = END_PATCH_MARKER"
    by (simp_all add: render_lines_def)
  have "list_all line_ok (render_lines hs)"
    using assms render_hunk_ok by (auto simp: render_lines_def list_all_iff line_ok_markers)
  then have lines: "str_lines (render_patch hs) = render_lines hs"
    unfolding render_patch_def using ne
    by (intro str_lines_join) (auto simp: list_all_iff line_ok_def strip_cr_def END_PATCH_MARKER_def)
  have "hd (render_patch hs) = CHR ''*''" "last (render_patch hs) = CHR ''h''" "render_patch hs \<noteq> []"
    using ne join_nonempty [of "render_lines hs" "[newline]"] last_join [of "render_lines hs" "[newline]"]
    by (simp_all add: render_patch_def render_lines_def hd_join markers)
  then have trimmed: "trim (render_patch hs) = render_patch hs"
    by (intro trim_plain) (simp_all add: is_plain_def)
  have strict: "check_patch_boundaries_strict (render_lines hs) = Inr ()"
    by (simp add: check_patch_boundaries_strict_def check_start_and_end_lines_strict_def
        render_lines_def trim_plain markers is_plain_def)
  show ?thesis
    using parse_hunks_render [OF assms, of 2 "[]"]
    by (simp add: parse_patch_def parse_patch_text_def trimmed lines strict Let_def)
      (simp add: render_lines_def sat_sub_def render_patch_def)
qed

section \<open>Properties\<close>

text \<open>
  Every patch of the grammar parses, whatever its hunks: the text of a list of hunks whose
  lines carry no newline and whose paths end in a printable character is parsed to exactly what
  the hunks describe, chunk by chunk, with the text itself as the normalised patch.
\<close>

theorem parse_render_patch:
  assumes "list_all hunk_ok hs"
  shows "parse_patch (render_patch hs) = Inr \<lparr>pp_hunks = map hunk_of hs, pp_patch = render_patch hs\<rparr>"
  using assms by (rule parse_render)

definition example_patch :: "hunk_syntax list" where
  "example_patch =
     [SAdd ''a.txt'' [''Hello''],
      SUpdate ''b.txt'' (Some ''c.txt'') [Chunk (Some ''def f():'') [Del ''x'', Ins ''y''] True],
      SDelete ''d.txt'']"

theorem parse_render_patch_witness:
  "parse_patch (render_patch example_patch) =
     Inr \<lparr>pp_hunks = map hunk_of example_patch, pp_patch = render_patch example_patch\<rparr>"
  by (rule parse_render_patch) (simp add: example_patch_def path_ok_def line_ok_def is_plain_def)

end
