(* ===== verification/Rust_Path.thy ===== *)
theory Rust_Path imports Rust_Str begin

text \<open>
  \<^verbatim>\<open>std::path\<close> on Unix: a path is its spelling, and \<open>components\<close> is the sequence that
  equality, \<^verbatim>\<open>parent\<close>, \<^verbatim>\<open>file_name\<close>, \<^verbatim>\<open>starts_with\<close> and
  \<^verbatim>\<open>strip_prefix\<close> read. \<open>normalize_lexically\<close> is the function of
  \<^verbatim>\<open>xai-grok-paths\<close> that resolves \<^verbatim>\<open>.\<close> and \<^verbatim>\<open>..\<close> in the text alone; its lemmas say
  what the permission gates rely on: an absolute path stays absolute and keeps no dot component,
  and normalising twice changes nothing.
\<close>

section \<open>Paths\<close>

type_synonym path = string

definition is_absolute :: "path \<Rightarrow> bool" where
  "is_absolute p \<longleftrightarrow> starts_with p ''/''"

text \<open>\<^verbatim>\<open>Path::join\<close> on Unix.\<close>

definition path_join :: "path \<Rightarrow> path \<Rightarrow> path" where
  "path_join cwd p =
     (if is_absolute p \<or> cwd = [] then p
      else if last cwd = CHR ''/'' then cwd @ p
      else cwd @ ''/'' @ p)"

text \<open>\<^verbatim>\<open>Path::parent\<close> on Unix, for a path that does not end in a \<^verbatim>\<open>.\<close> component.\<close>

definition drop_slashes :: "path \<Rightarrow> path" where
  "drop_slashes p = rev (dropWhile (\<lambda>c. c = CHR ''/'') (rev p))"

definition path_parent :: "path \<Rightarrow> path option" where
  "path_parent p =
     (let q = drop_slashes p
      in if q = [] then None
         else let dir = rev (dropWhile (\<lambda>c. c \<noteq> CHR ''/'') (rev q))
           in if dir = [] then Some []
              else if drop_slashes dir = [] then Some ''/''
              else Some (drop_slashes dir))"

section \<open>Components\<close>

datatype path_component = RootDir | CurDir | ParentDir | Normal string

definition segment_component :: "string \<Rightarrow> path_component" where
  "segment_component s = (if s = ''..'' then ParentDir else Normal s)"

definition components :: "path \<Rightarrow> path_component list" where
  "components p =
     (let segments = split_on (CHR ''/'') p;
          body = map segment_component (filter (\<lambda>s. s \<noteq> [] \<and> s \<noteq> ''.'') segments)
      in if is_absolute p then RootDir # body
         else if hd segments = ''.'' then CurDir # body
         else body)"

fun component_str :: "path_component \<Rightarrow> string" where
  "component_str RootDir = ''/''"
| "component_str CurDir = ''.''"
| "component_str ParentDir = ''..''"
| "component_str (Normal s) = s"

text \<open>\<^verbatim>\<open>components.into_iter().collect::<PathBuf>()\<close>\<close>

definition path_of_components :: "path_component list \<Rightarrow> path" where
  "path_of_components cs = foldl path_join [] (map component_str cs)"

definition file_name :: "path \<Rightarrow> string option" where
  "file_name p =
     (case rev (components p) of Normal s # _ \<Rightarrow> Some s | _ \<Rightarrow> None)"

text \<open>\<^verbatim>\<open>Path::parent\<close> for every path, spelled with single separators.\<close>

definition parent_path :: "path \<Rightarrow> path option" where
  "parent_path p =
     (case rev (components p) of
        [] \<Rightarrow> None
      | RootDir # _ \<Rightarrow> None
      | _ # rest \<Rightarrow> Some (path_of_components (rev rest)))"

text \<open>\<^verbatim>\<open>Path::strip_prefix\<close>, the rest spelled with single separators.\<close>

definition path_strip_prefix :: "path \<Rightarrow> path \<Rightarrow> path option" where
  "path_strip_prefix base p =
     map_option path_of_components (strip_prefix (components base) (components p))"

definition path_starts_with :: "path \<Rightarrow> path \<Rightarrow> bool" where
  "path_starts_with p base \<longleftrightarrow> starts_with (components p) (components base)"

definition path_eq :: "path \<Rightarrow> path \<Rightarrow> bool" where
  "path_eq p q \<longleftrightarrow> components p = components q"

section \<open>Lexical normalisation\<close>

text \<open>One component of the walk; the stack is reversed, its head is the last component.\<close>

fun normalize_push :: "path_component list \<Rightarrow> path_component \<Rightarrow> path_component list" where
  "normalize_push st CurDir = st"
| "normalize_push (Normal s # st) ParentDir = st"
| "normalize_push (RootDir # st) ParentDir = RootDir # st"
| "normalize_push st c = c # st"

definition normalize_components :: "path_component list \<Rightarrow> path_component list" where
  "normalize_components cs = rev (foldl normalize_push [] cs)"

definition normalize_lexically :: "path \<Rightarrow> path" where
  "normalize_lexically p =
     (let cs = normalize_components (components p)
      in if cs = [] then ''.'' else path_of_components cs)"

text \<open>A component list as the code's paths have it: the root only at the front.\<close>

definition ordinary :: "path_component \<Rightarrow> bool" where
  "ordinary c \<longleftrightarrow> (case c of Normal s \<Rightarrow> s \<noteq> [] \<and> s \<noteq> ''.'' \<and> s \<noteq> ''..'' \<and> CHR ''/'' \<notin> set s
     | _ \<Rightarrow> False)"

definition plain_component :: "path_component \<Rightarrow> bool" where
  "plain_component c \<longleftrightarrow> c = ParentDir \<or> ordinary c"

lemma components_body:
  assumes "s \<in> set (filter (\<lambda>s. s \<noteq> [] \<and> s \<noteq> ''.'') (split_on (CHR ''/'') p))"
  shows "plain_component (segment_component s)"
proof -
  from assms have "CHR ''/'' \<notin> set s" by (auto dest: split_on_no_sep)
  with assms show ?thesis by (auto simp: plain_component_def ordinary_def segment_component_def)
qed

lemma components_shape:
  "(\<exists>body. components p = RootDir # body \<and> is_absolute p \<and> list_all plain_component body) \<or>
   (\<exists>body. components p = CurDir # body \<and> \<not> is_absolute p \<and> list_all plain_component body) \<or>
   (\<not> is_absolute p \<and> list_all plain_component (components p))"
  using components_body [of _ p] by (auto simp: components_def Let_def list_all_iff)

text \<open>The stack of the walk after an absolute path: ordinary components over the root.\<close>

definition rooted_stack :: "path_component list \<Rightarrow> bool" where
  "rooted_stack st \<longleftrightarrow> (\<exists>names. st = names @ [RootDir] \<and> list_all ordinary names)"

lemma normalize_push_rooted:
  assumes "rooted_stack st" and "plain_component c"
  shows "rooted_stack (normalize_push st c)"
proof -
  from assms(1) obtain names where st: "st = names @ [RootDir]" and names: "list_all ordinary names"
    unfolding rooted_stack_def by blast
  show ?thesis
  proof (cases "c = ParentDir")
    case True
    show ?thesis
    proof (cases names)
      case Nil
      with True st show ?thesis by (simp add: rooted_stack_def)
    next
      case (Cons n ns)
      with names obtain s where "n = Normal s" by (cases n) (simp_all add: ordinary_def)
      with True st Cons names show ?thesis by (auto simp: rooted_stack_def)
    qed
  next
    case False
    with assms(2) have c: "ordinary c" by (simp add: plain_component_def)
    then obtain s where s: "c = Normal s" by (cases c) (simp_all add: ordinary_def)
    have "normalize_push st c = (c # names) @ [RootDir]"
      using s st by (cases st rule: list.exhaust; cases "hd st") auto
    with c names show ?thesis by (auto simp: rooted_stack_def)
  qed
qed

lemma foldl_normalize_rooted:
  "rooted_stack st \<Longrightarrow> list_all plain_component cs \<Longrightarrow> rooted_stack (foldl normalize_push st cs)"
  by (induction cs arbitrary: st) (auto intro: normalize_push_rooted)

lemma normalize_components_absolute:
  assumes "is_absolute p"
  shows "\<exists>names. normalize_components (components p) = RootDir # names \<and> list_all ordinary names"
proof -
  from components_shape [of p] assms obtain body where
    body: "components p = RootDir # body" "list_all plain_component body" by auto
  have "rooted_stack [RootDir]" by (simp add: rooted_stack_def)
  from foldl_normalize_rooted [OF this body(2)] obtain names where
    "foldl normalize_push [RootDir] body = names @ [RootDir]" "list_all ordinary names"
    unfolding rooted_stack_def by blast
  with body(1) have "normalize_components (components p) = RootDir # rev names"
    by (simp add: normalize_components_def)
  with \<open>list_all ordinary names\<close> show ?thesis by (auto simp: list_all_iff)
qed

text \<open>The spelling of ordinary components below the root reads back as the same components.\<close>

lemma ordinary_str:
  "ordinary c \<Longrightarrow> component_str c \<noteq> [] \<and> component_str c \<noteq> ''.'' \<and> CHR ''/'' \<notin> set (component_str c) \<and>
    segment_component (component_str c) = c"
  by (cases c) (auto simp: ordinary_def segment_component_def)

lemma not_absolute_no_slash: "CHR ''/'' \<notin> set s \<Longrightarrow> \<not> is_absolute s"
  by (auto simp: is_absolute_def starts_with_iff)

lemma foldl_path_join:
  assumes "list_all (\<lambda>s. s \<noteq> [] \<and> CHR ''/'' \<notin> set s) ss" and "base \<noteq> []" and "last base \<noteq> CHR ''/''"
  shows "foldl path_join base ss = base @ concat (map (\<lambda>s. CHR ''/'' # s) ss)"
  using assms
proof (induction ss arbitrary: base)
  case (Cons s ss)
  then have "path_join base s = base @ CHR ''/'' # s" "last (base @ CHR ''/'' # s) \<noteq> CHR ''/''"
    by (auto simp: path_join_def not_absolute_no_slash last_append) (metis last_in_set)
  with Cons show ?case by simp
qed simp

lemma path_of_rooted:
  assumes "list_all ordinary names"
  shows "path_of_components (RootDir # names) = CHR ''/'' # join ''/'' (map component_str names)"
proof (cases names)
  case (Cons n ns)
  let ?s = "component_str n" and ?ss = "map component_str ns"
  from assms Cons have n: "?s \<noteq> []" "CHR ''/'' \<notin> set ?s"
    and ns: "list_all (\<lambda>s. s \<noteq> [] \<and> CHR ''/'' \<notin> set s) ?ss"
    using ordinary_str by (auto simp: list_all_iff)
  then have "path_join ''/'' ?s = CHR ''/'' # ?s" "last (CHR ''/'' # ?s) \<noteq> CHR ''/''"
    by (auto simp: path_join_def not_absolute_no_slash) (metis last_in_set)
  moreover have "join ''/'' (?s # ?ss) = ?s @ concat (map (\<lambda>s. CHR ''/'' # s) ?ss)"
    by (simp add: join_concat comp_def)
  moreover have "path_join [] ''/'' = ''/''" by (simp add: path_join_def)
  ultimately show ?thesis
    using Cons foldl_path_join [OF ns, of "CHR ''/'' # ?s"]
    by (simp add: path_of_components_def)
qed (simp add: path_of_components_def path_join_def)

lemma components_path_of_rooted:
  assumes "list_all ordinary names"
  shows "components (path_of_components (RootDir # names)) = RootDir # names"
proof (cases "names = []")
  case True
  then show ?thesis
    by (simp add: path_of_components_def path_join_def components_def is_absolute_def starts_with_def)
next
  case False
  let ?ss = "map component_str names" and ?p = "path_of_components (RootDir # names)"
  have str: "s \<noteq> [] \<and> s \<noteq> ''.'' \<and> CHR ''/'' \<notin> set s" if "s \<in> set ?ss" for s
    using that assms ordinary_str by (auto simp: list_all_iff)
  have p: "?p = CHR ''/'' # join ''/'' ?ss"
    by (rule path_of_rooted [OF assms])
  have "split_on (CHR ''/'') ?p = [] # ?ss"
    using str False by (simp add: p split_on_join)
  moreover have "filter (\<lambda>s. s \<noteq> [] \<and> s \<noteq> ''.'') ?ss = ?ss"
    using str by (intro filter_True) blast
  moreover have "map segment_component ?ss = names"
    using assms ordinary_str by (simp add: list_all_iff map_idI)
  moreover have "is_absolute ?p" by (simp add: p is_absolute_def starts_with_def)
  ultimately show ?thesis by (simp add: components_def Let_def)
qed

lemma normalize_components_rooted:
  assumes "list_all ordinary names"
  shows "normalize_components (RootDir # names) = RootDir # names"
proof -
  have "foldl normalize_push st names = rev names @ st" if "st \<noteq> []" for st
    using that assms
  proof (induction names arbitrary: st)
    case (Cons n ns)
    then obtain s where "n = Normal s" by (cases n) (simp_all add: ordinary_def)
    then have "normalize_push st n = n # st" by (cases st; cases "hd st") auto
    with Cons show ?case by simp
  qed simp
  then show ?thesis by (simp add: normalize_components_def)
qed

lemma normalize_absolute:
  assumes "is_absolute p"
  shows "is_absolute (normalize_lexically p)"
    "components (normalize_lexically p) = normalize_components (components p)"
    "ParentDir \<notin> set (components (normalize_lexically p))"
    "normalize_lexically (normalize_lexically p) = normalize_lexically p"
proof -
  obtain names where n: "normalize_components (components p) = RootDir # names"
      "list_all ordinary names"
    using normalize_components_absolute [OF assms] by blast
  then have eq: "normalize_lexically p = path_of_components (RootDir # names)"
    by (simp add: normalize_lexically_def)
  then show comps: "components (normalize_lexically p) = normalize_components (components p)"
    using n components_path_of_rooted by simp
  show "is_absolute (normalize_lexically p)"
    using path_of_rooted [OF n(2)] by (simp add: eq is_absolute_def starts_with_def)
  show "ParentDir \<notin> set (components (normalize_lexically p))"
    using n by (auto simp: comps list_all_iff ordinary_def)
  have "normalize_lexically (normalize_lexically p) =
      path_of_components (normalize_components (RootDir # names))"
    unfolding normalize_lexically_def [of "normalize_lexically p"] comps n(1)
    using normalize_components_rooted [OF n(2)] by simp
  then show "normalize_lexically (normalize_lexically p) = normalize_lexically p"
    using normalize_components_rooted [OF n(2)] eq by simp
qed

end
