(* ===== verification/PatchTool.thy ===== *)
theory PatchTool imports PatchParse Rust_Path begin

text \<open>
  The patch tool itself (\<^verbatim>\<open>codex/apply_patch/tool.rs\<close>): a patch is parsed, every file change
  is computed in memory, checked against the memory policy, and only then written, one change
  after the other, each with its notification. The file system
  (\<^verbatim>\<open>AsyncFileSystem\<close>, \<^verbatim>\<open>tokio::fs::create_dir_all\<close>) and the memory policy
  (\<^verbatim>\<open>types/memory_v2\<close>) are the operations of an environment, on a world of any type; their
  laws are a locale, interpreted on a store of paths and texts.
\<close>

section \<open>The environment\<close>

text \<open>
  An error is its display text. \<open>pe_mem_write\<close> answers whether the memory policy has written
  the file; \<open>pe_mem_read\<close> whether the path is inside a memory directory; \<open>pe_lossy\<close> is
  \<^verbatim>\<open>String::from_utf8_lossy\<close>.
\<close>

record 'w patch_env =
  pe_read :: "path \<Rightarrow> 'w \<Rightarrow> string + string"
  pe_write :: "path \<Rightarrow> string \<Rightarrow> 'w \<Rightarrow> 'w \<times> (string + unit)"
  pe_delete :: "path \<Rightarrow> 'w \<Rightarrow> 'w \<times> (string + unit)"
  pe_create_dir_all :: "path \<Rightarrow> 'w \<Rightarrow> 'w \<times> (string + unit)"
  pe_lossy :: "string \<Rightarrow> string"
  pe_mem_preflight :: "path \<Rightarrow> string \<Rightarrow> 'w \<Rightarrow> string + unit"
  pe_mem_read :: "path \<Rightarrow> 'w \<Rightarrow> string + bool"
  pe_mem_write :: "path \<Rightarrow> string \<Rightarrow> 'w \<Rightarrow> 'w \<times> (string + bool)"

section \<open>Computing the changes\<close>

datatype file_change =
    Add path string
  | Delete path string
  | Update path string string
  | Move path path string string

definition read_file_as_string :: "'w patch_env \<Rightarrow> path \<Rightarrow> 'w \<Rightarrow> string + string" where
  "read_file_as_string env p w =
     (case pe_read env p w of Inl e \<Rightarrow> Inl e | Inr bytes \<Rightarrow> Inr (pe_lossy env bytes))"

definition parse_error_display :: "parse_error \<Rightarrow> string" where
  "parse_error_display e =
     (case e of
        InvalidPatchError m \<Rightarrow> ''invalid patch: '' @ m
      | InvalidHunkError m n \<Rightarrow> ''invalid hunk at line '' @ dec_of n @ '', '' @ m)"

definition apply_error_text :: "apply_patch_error \<Rightarrow> string" where
  "apply_error_text e =
     (case e of
        ComputeReplacements msg \<Rightarrow> msg
      | Parse pe \<Rightarrow> parse_error_display pe
      | Io ctx message _ \<Rightarrow> ctx @ '': '' @ message)"

text \<open>One hunk; \<open>None\<close> is a panic of the engine.\<close>

definition compute_change ::
    "path \<Rightarrow> 'w patch_env \<Rightarrow> 'w \<Rightarrow> hunk \<Rightarrow> (string + file_change) option" where
  "compute_change cwd env w h =
     (case h of
        AddFile p contents \<Rightarrow> Some (Inr (Add (path_join cwd p) contents))
      | DeleteFile p \<Rightarrow>
          (let resolved = path_join cwd p
           in case read_file_as_string env resolved w of
                Inl e \<Rightarrow> Some (Inl (''Failed to read file: '' @ resolved @ '', '' @ e))
              | Inr original_content \<Rightarrow> Some (Inr (Delete resolved original_content)))
      | UpdateFile p move_path chunks \<Rightarrow>
          (let resolved = path_join cwd p
           in case read_file_as_string env resolved w of
                Inl e \<Rightarrow> Some (Inl (''Failed to read file to update: '' @ resolved @ '', '' @ e))
              | Inr original_content \<Rightarrow>
                  (case derive_new_contents original_content resolved chunks of
                     None \<Rightarrow> None
                   | Some (Inl e) \<Rightarrow> Some (Inl (apply_error_text e))
                   | Some (Inr new_content) \<Rightarrow>
                       (case move_path of
                          Some dest \<Rightarrow>
                            Some (Inr (Move resolved (path_join cwd dest) original_content new_content))
                        | None \<Rightarrow> Some (Inr (Update resolved original_content new_content))))))"

fun compute_all_changes ::
    "path \<Rightarrow> 'w patch_env \<Rightarrow> 'w \<Rightarrow> hunk list \<Rightarrow> file_change list \<Rightarrow>
      (string + file_change list) option" where
  "compute_all_changes cwd env w [] changes = Some (Inr changes)"
| "compute_all_changes cwd env w (h # hs) changes =
     (case compute_change cwd env w h of
        None \<Rightarrow> None
      | Some (Inl e) \<Rightarrow> Some (Inl e)
      | Some (Inr c) \<Rightarrow> compute_all_changes cwd env w hs (changes @ [c]))"

section \<open>The memory policy\<close>

definition reject_memory_v2_destructive_path ::
    "'w patch_env \<Rightarrow> path \<Rightarrow> 'w \<Rightarrow> string + unit" where
  "reject_memory_v2_destructive_path env p w =
     (case pe_mem_read env p w of
        Inl e \<Rightarrow> Inl e
      | Inr inside \<Rightarrow>
          if inside then Inl (p @ '' is inside a memory directory; apply_patch cannot delete or move '' @
            ''memory files. Use the memory workflow instead: edit topic files in place or manage '' @
            ''memories with the memory tools.'')
          else Inr ())"

fun preflight_memory_v2_changes ::
    "'w patch_env \<Rightarrow> file_change list \<Rightarrow> 'w \<Rightarrow> string + unit" where
  "preflight_memory_v2_changes env [] w = Inr ()"
| "preflight_memory_v2_changes env (c # cs) w =
     (case (case c of
          Add p content \<Rightarrow> pe_mem_preflight env p content w
        | Update p _ new_content \<Rightarrow> pe_mem_preflight env p new_content w
        | Delete p _ \<Rightarrow> reject_memory_v2_destructive_path env p w
        | Move source dest _ _ \<Rightarrow>
            (case reject_memory_v2_destructive_path env source w of
               Inl e \<Rightarrow> Inl e
             | Inr _ \<Rightarrow> reject_memory_v2_destructive_path env dest w)) of
        Inl e \<Rightarrow> Inl e
      | Inr _ \<Rightarrow> preflight_memory_v2_changes env cs w)"

section \<open>Writing the changes\<close>

record file_written =
  fw_tool_call_id :: string
  fw_absolute_path :: path
  fw_content :: string
  fw_previous_content :: "string option"
  fw_is_new_file :: bool

record file_result =
  fr_path :: path
  fr_action :: string
  fr_old_text :: "string option"
  fr_new_text :: string
  fr_move_to :: "path option"

datatype patch_output =
    OutParseError string
  | OutEmptyPatch string
  | OutApplicationError string
  | OutSuccess "file_result list" string

text \<open>Why the loop over the changes is left: a tool error, or an output.\<close>

datatype stop = ToolError string | Output patch_output

type_synonym 'w tool_state = "'w \<times> file_written list"

definition ensure_parent_dirs :: "'w patch_env \<Rightarrow> path \<Rightarrow> 'w \<Rightarrow> 'w \<times> (string + unit)" where
  "ensure_parent_dirs env p w =
     (case path_parent p of
        Some dir \<Rightarrow> if dir \<noteq> [] then pe_create_dir_all env dir w else (w, Inr ())
      | None \<Rightarrow> (w, Inr ()))"

definition apply_add ::
    "'w patch_env \<Rightarrow> string \<Rightarrow> path \<Rightarrow> string \<Rightarrow> 'w tool_state \<Rightarrow> 'w tool_state \<times> (stop + file_result)" where
  "apply_add env call_id p content s =
     (case s of (w, notes) \<Rightarrow>
      let done = (notes @ [\<lparr>fw_tool_call_id = call_id, fw_absolute_path = p, fw_content = content,
                            fw_previous_content = None, fw_is_new_file = True\<rparr>],
                  Inr \<lparr>fr_path = p, fr_action = ''added'', fr_old_text = None,
                       fr_new_text = content, fr_move_to = None\<rparr>)
      in case pe_mem_write env p content w of
        (w, Inl msg) \<Rightarrow> ((w, notes), Inl (Output (OutApplicationError msg)))
      | (w, Inr True) \<Rightarrow> ((w, fst done), snd done)
      | (w, Inr False) \<Rightarrow>
          (case ensure_parent_dirs env p w of
             (w, Inl e) \<Rightarrow> ((w, notes), Inl (ToolError e))
           | (w, Inr _) \<Rightarrow>
               (case pe_write env p content w of
                  (w, Inl e) \<Rightarrow> ((w, notes), Inl (ToolError e))
                | (w, Inr _) \<Rightarrow> ((w, fst done), snd done))))"

definition apply_delete ::
    "'w patch_env \<Rightarrow> string \<Rightarrow> path \<Rightarrow> string \<Rightarrow> 'w tool_state \<Rightarrow> 'w tool_state \<times> (stop + file_result)" where
  "apply_delete env call_id p original_content s =
     (case s of (w, notes) \<Rightarrow>
      (case pe_delete env p w of
         (w, Inl e) \<Rightarrow> ((w, notes), Inl (ToolError e))
       | (w, Inr _) \<Rightarrow>
           ((w, notes @ [\<lparr>fw_tool_call_id = call_id, fw_absolute_path = p, fw_content = [],
               fw_previous_content = Some original_content, fw_is_new_file = False\<rparr>]),
            Inr \<lparr>fr_path = p, fr_action = ''deleted'', fr_old_text = Some original_content,
                 fr_new_text = [], fr_move_to = None\<rparr>)))"

definition apply_update ::
    "'w patch_env \<Rightarrow> string \<Rightarrow> path \<Rightarrow> string \<Rightarrow> string \<Rightarrow> 'w tool_state \<Rightarrow>
      'w tool_state \<times> (stop + file_result)" where
  "apply_update env call_id p original_content new_content s =
     (case s of (w, notes) \<Rightarrow>
      let done = (notes @ [\<lparr>fw_tool_call_id = call_id, fw_absolute_path = p, fw_content = new_content,
                            fw_previous_content = Some original_content, fw_is_new_file = False\<rparr>],
                  Inr \<lparr>fr_path = p, fr_action = ''modified'', fr_old_text = Some original_content,
                       fr_new_text = new_content, fr_move_to = None\<rparr>)
      in case pe_mem_write env p new_content w of
        (w, Inl msg) \<Rightarrow> ((w, notes), Inl (Output (OutApplicationError msg)))
      | (w, Inr True) \<Rightarrow> ((w, fst done), snd done)
      | (w, Inr False) \<Rightarrow>
          (case pe_write env p new_content w of
             (w, Inl e) \<Rightarrow> ((w, notes), Inl (ToolError e))
           | (w, Inr _) \<Rightarrow> ((w, fst done), snd done)))"

definition apply_move ::
    "'w patch_env \<Rightarrow> string \<Rightarrow> path \<Rightarrow> path \<Rightarrow> string \<Rightarrow> string \<Rightarrow> 'w tool_state \<Rightarrow>
      'w tool_state \<times> (stop + file_result)" where
  "apply_move env call_id source_path dest_path original_content new_content s =
     (case s of (w, notes) \<Rightarrow>
      (case ensure_parent_dirs env dest_path w of
         (w, Inl e) \<Rightarrow> ((w, notes), Inl (ToolError e))
       | (w, Inr _) \<Rightarrow>
      (case pe_write env dest_path new_content w of
         (w, Inl e) \<Rightarrow> ((w, notes), Inl (ToolError e))
       | (w, Inr _) \<Rightarrow>
      (case pe_delete env source_path w of
         (w, Inl e) \<Rightarrow> ((w, notes), Inl (ToolError e))
       | (w, Inr _) \<Rightarrow>
           ((w, notes @
              [\<lparr>fw_tool_call_id = call_id, fw_absolute_path = dest_path, fw_content = new_content,
                fw_previous_content = None, fw_is_new_file = True\<rparr>,
               \<lparr>fw_tool_call_id = call_id, fw_absolute_path = source_path, fw_content = [],
                fw_previous_content = Some original_content, fw_is_new_file = False\<rparr>]),
            Inr \<lparr>fr_path = source_path, fr_action = ''moved'', fr_old_text = Some original_content,
                 fr_new_text = new_content, fr_move_to = Some dest_path\<rparr>)))))"

definition apply_change ::
    "'w patch_env \<Rightarrow> string \<Rightarrow> file_change \<Rightarrow> 'w tool_state \<Rightarrow> 'w tool_state \<times> (stop + file_result)" where
  "apply_change env call_id c s =
     (case c of
        Add p content \<Rightarrow> apply_add env call_id p content s
      | Delete p original_content \<Rightarrow> apply_delete env call_id p original_content s
      | Update p original_content new_content \<Rightarrow>
          apply_update env call_id p original_content new_content s
      | Move source dest original_content new_content \<Rightarrow>
          apply_move env call_id source dest original_content new_content s)"

fun apply_changes ::
    "'w patch_env \<Rightarrow> string \<Rightarrow> file_change list \<Rightarrow> file_result list \<Rightarrow> 'w tool_state \<Rightarrow>
      'w tool_state \<times> (stop + file_result list)" where
  "apply_changes env call_id [] file_results s = (s, Inr file_results)"
| "apply_changes env call_id (c # cs) file_results s =
     (case apply_change env call_id c s of
        (s, Inl e) \<Rightarrow> (s, Inl e)
      | (s, Inr r) \<Rightarrow> apply_changes env call_id cs (file_results @ [r]) s)"

definition action_prefix :: "string \<Rightarrow> string" where
  "action_prefix action =
     (if action = ''added'' then ''A'' else if action = ''deleted'' then ''D'' else ''M'')"

definition build_summary :: "file_result list \<Rightarrow> string" where
  "build_summary results =
     ''Success. Updated the following files:'' @ [newline] @
     concat (map (\<lambda>r. action_prefix (fr_action r) @ '' '' @ fr_path r @ [newline]) results)"

section \<open>The tool\<close>

definition parse_error_output :: "parse_error \<Rightarrow> patch_output" where
  "parse_error_output e = OutParseError
     (case e of
        InvalidPatchError m \<Rightarrow> ''Invalid patch: '' @ m
      | InvalidHunkError m n \<Rightarrow> ''Invalid patch hunk on line '' @ dec_of n @ '': '' @ m)"

text \<open>The first two phases: what stops before any write, or the changes to write.\<close>

definition plan_changes ::
    "path \<Rightarrow> 'w patch_env \<Rightarrow> string \<Rightarrow> 'w \<Rightarrow> (patch_output + file_change list) option" where
  "plan_changes cwd env input w =
     (case parse_patch input of
        Inl e \<Rightarrow> Some (Inl (parse_error_output e))
      | Inr parsed \<Rightarrow>
          if pp_hunks parsed = [] then Some (Inl (OutEmptyPatch ''No files were modified.''))
          else
            (case compute_all_changes cwd env w (pp_hunks parsed) [] of
               None \<Rightarrow> None
             | Some (Inl msg) \<Rightarrow> Some (Inl (OutApplicationError msg))
             | Some (Inr changes) \<Rightarrow>
                 (case preflight_memory_v2_changes env changes w of
                    Inl msg \<Rightarrow> Some (Inl (OutApplicationError msg))
                  | Inr _ \<Rightarrow> Some (Inr changes))))"

definition run_apply_patch ::
    "path \<Rightarrow> 'w patch_env \<Rightarrow> string \<Rightarrow> string \<Rightarrow> 'w \<Rightarrow> ('w tool_state \<times> (string + patch_output)) option" where
  "run_apply_patch cwd env call_id input w =
     (case plan_changes cwd env input w of
        None \<Rightarrow> None
      | Some (Inl out) \<Rightarrow> Some ((w, []), Inr out)
      | Some (Inr changes) \<Rightarrow>
          (case apply_changes env call_id changes [] (w, []) of
             (s, Inl (ToolError e)) \<Rightarrow> Some (s, Inl e)
           | (s, Inl (Output out)) \<Rightarrow> Some (s, Inr out)
           | (s, Inr file_results) \<Rightarrow>
               Some (s, Inr (OutSuccess file_results (build_summary file_results)))))"

section \<open>The interface of the file system\<close>

fun change_effect :: "file_change \<Rightarrow> (path \<Rightarrow> string option) \<Rightarrow> path \<Rightarrow> string option" where
  "change_effect (Add p content) m = m(p \<mapsto> content)"
| "change_effect (Delete p _) m = m(p := None)"
| "change_effect (Update p _ new_content) m = m(p \<mapsto> new_content)"
| "change_effect (Move source dest _ new_content) m = m(dest \<mapsto> new_content, source := None)"

text \<open>The files that a change touches, and what a listener is told when it is written.\<close>

fun change_paths :: "file_change \<Rightarrow> path list" where
  "change_paths (Add p _) = [p]"
| "change_paths (Delete p _) = [p]"
| "change_paths (Update p _ _) = [p]"
| "change_paths (Move source dest _ _) = [source, dest]"

fun change_notes :: "string \<Rightarrow> file_change \<Rightarrow> file_written list" where
  "change_notes call_id (Add p content) =
     [\<lparr>fw_tool_call_id = call_id, fw_absolute_path = p, fw_content = content,
       fw_previous_content = None, fw_is_new_file = True\<rparr>]"
| "change_notes call_id (Delete p old) =
     [\<lparr>fw_tool_call_id = call_id, fw_absolute_path = p, fw_content = [],
       fw_previous_content = Some old, fw_is_new_file = False\<rparr>]"
| "change_notes call_id (Update p old new) =
     [\<lparr>fw_tool_call_id = call_id, fw_absolute_path = p, fw_content = new,
       fw_previous_content = Some old, fw_is_new_file = False\<rparr>]"
| "change_notes call_id (Move source dest old new) =
     [\<lparr>fw_tool_call_id = call_id, fw_absolute_path = dest, fw_content = new,
       fw_previous_content = None, fw_is_new_file = True\<rparr>,
      \<lparr>fw_tool_call_id = call_id, fw_absolute_path = source, fw_content = [],
       fw_previous_content = Some old, fw_is_new_file = False\<rparr>]"

text \<open>
  What the tool relies on: an operation that succeeds did what it says, and one that fails, even
  half way, touched no other file than its own. Directories hold no text.
\<close>

locale patch_store =
  fixes env :: "'w patch_env"
    and lookup :: "'w \<Rightarrow> path \<Rightarrow> string option"
  assumes write_ok: "pe_write env p c w = (w', Inr u) \<Longrightarrow> lookup w' = (lookup w)(p \<mapsto> c)"
    and delete_ok: "pe_delete env p w = (w', Inr u) \<Longrightarrow> lookup w' = (lookup w)(p := None)"
    and dirs_ok: "pe_create_dir_all env p w = (w', r) \<Longrightarrow> lookup w' = lookup w"
    and mem_written: "pe_mem_write env p c w = (w', Inr True) \<Longrightarrow> lookup w' = (lookup w)(p \<mapsto> c)"
    and mem_outside: "pe_mem_write env p c w = (w', Inr False) \<Longrightarrow> lookup w' = lookup w"
    and write_fail: "pe_write env p c w = (w', Inl e) \<Longrightarrow> q \<noteq> p \<Longrightarrow> lookup w' q = lookup w q"
    and delete_fail: "pe_delete env p w = (w', Inl e) \<Longrightarrow> q \<noteq> p \<Longrightarrow> lookup w' q = lookup w q"
    and mem_fail: "pe_mem_write env p c w = (w', Inl e) \<Longrightarrow> q \<noteq> p \<Longrightarrow> lookup w' q = lookup w q"
begin

lemma parent_dirs_ok: "ensure_parent_dirs env p w = (w', r) \<Longrightarrow> lookup w' = lookup w"
  by (auto simp: ensure_parent_dirs_def split: option.splits if_splits dest: dirs_ok)

lemma apply_change_effect:
  assumes "apply_change env call_id c (w, ns) = ((w', ns'), Inr r)"
  shows "lookup w' = change_effect c (lookup w)"
proof (cases c)
  case (Add p content)
  with assms show ?thesis
    by (auto simp: apply_change_def apply_add_def Let_def split: prod.splits sum.splits bool.splits
        dest!: write_ok parent_dirs_ok mem_written mem_outside)
next
  case (Delete p old)
  with assms show ?thesis
    by (auto simp: apply_change_def apply_delete_def split: prod.splits sum.splits dest!: delete_ok)
next
  case (Update p old new)
  with assms show ?thesis
    by (auto simp: apply_change_def apply_update_def Let_def split: prod.splits sum.splits bool.splits
        dest!: write_ok mem_written mem_outside)
next
  case (Move source dest old new)
  with assms show ?thesis
    by (auto simp: apply_change_def apply_move_def split: prod.splits sum.splits
        dest!: write_ok parent_dirs_ok delete_ok)
qed

lemma apply_change_notes:
  assumes "apply_change env call_id c (w, ns) = ((w', ns'), Inr r)"
  shows "ns' = ns @ change_notes call_id c"
  using assms
  by (cases c) (auto simp: apply_change_def apply_add_def apply_delete_def apply_update_def apply_move_def
      Let_def split: prod.splits sum.splits bool.splits)

lemma apply_change_stops:
  assumes "apply_change env call_id c (w, ns) = ((w', ns'), Inl e)"
  shows "ns' = ns" and "q \<notin> set (change_paths c) \<Longrightarrow> lookup w' q = lookup w q"
proof -
  show "ns' = ns"
    using assms
    by (cases c) (auto simp: apply_change_def apply_add_def apply_delete_def apply_update_def apply_move_def
        Let_def split: prod.splits sum.splits bool.splits)
  assume q: "q \<notin> set (change_paths c)"
  show "lookup w' q = lookup w q"
  proof (cases c)
    case (Add p content)
    with assms q show ?thesis
      by (auto simp: apply_change_def apply_add_def Let_def split: prod.splits sum.splits bool.splits
          dest!: write_fail parent_dirs_ok mem_outside mem_fail)
  next
    case (Delete p old)
    with assms q show ?thesis
      by (auto simp: apply_change_def apply_delete_def split: prod.splits sum.splits dest!: delete_fail)
  next
    case (Update p old new)
    with assms q show ?thesis
      by (auto simp: apply_change_def apply_update_def Let_def split: prod.splits sum.splits bool.splits
          dest!: write_fail mem_outside mem_fail)
  next
    case (Move source dest old new)
    with assms q show ?thesis
      by (auto simp: apply_change_def apply_move_def split: prod.splits sum.splits
          dest!: write_ok write_fail parent_dirs_ok delete_fail)
  qed
qed

lemma apply_changes_effect:
  "apply_changes env call_id cs rs (w, ns) = ((w', ns'), Inr rs') \<Longrightarrow>
    lookup w' = fold change_effect cs (lookup w) \<and> ns' = ns @ concat (map (change_notes call_id) cs) \<and>
    length rs' = length rs + length cs"
proof (induction cs arbitrary: rs w ns)
  case (Cons c cs)
  from Cons.prems obtain w1 n1 r where one: "apply_change env call_id c (w, ns) = ((w1, n1), Inr r)"
      and rest: "apply_changes env call_id cs (rs @ [r]) (w1, n1) = ((w', ns'), Inr rs')"
    by (auto split: prod.splits sum.splits)
  from Cons.IH [OF rest] apply_change_effect [OF one] apply_change_notes [OF one] show ?case by simp
qed simp

lemma apply_changes_stops:
  "apply_changes env call_id cs rs (w, ns) = ((w', ns'), Inl e) \<Longrightarrow>
    \<exists>written c rest. cs = written @ c # rest \<and> ns' = ns @ concat (map (change_notes call_id) written) \<and>
      (\<forall>q. q \<notin> set (change_paths c) \<longrightarrow> lookup w' q = fold change_effect written (lookup w) q)"
proof (induction cs arbitrary: rs w ns)
  case (Cons c cs)
  obtain w1 n1 o1 where one: "apply_change env call_id c (w, ns) = ((w1, n1), o1)"
    by (metis prod.exhaust_sel)
  show ?case
  proof (cases o1)
    case (Inl e1)
    with one Cons.prems have "w' = w1" "ns' = n1" by auto
    with apply_change_stops [OF one [unfolded Inl]] show ?thesis
      by (intro exI [of _ "[]"] exI [of _ c] exI [of _ cs]) simp
  next
    case (Inr r)
    with one Cons.prems have "apply_changes env call_id cs (rs @ [r]) (w1, n1) = ((w', ns'), Inl e)" by simp
    from Cons.IH [OF this] obtain written d rest where
      "cs = written @ d # rest" "ns' = n1 @ concat (map (change_notes call_id) written)"
      "\<forall>q. q \<notin> set (change_paths d) \<longrightarrow> lookup w' q = fold change_effect written (lookup w1) q" by blast
    with apply_change_effect [OF one [unfolded Inr]] apply_change_notes [OF one [unfolded Inr]] show ?thesis
      by (intro exI [of _ "c # written"] exI [of _ d] exI [of _ rest]) simp
  qed
qed simp

end

text \<open>
  A store of texts by path, with a memory policy: the paths in \<open>mem\<close> are memory files, which
  are written when \<open>policy\<close> allows the text.
\<close>

type_synonym store = "(path, string) hmap"

definition store_env :: "path list \<Rightarrow> (path \<Rightarrow> string \<Rightarrow> bool) \<Rightarrow> store patch_env" where
  "store_env mem policy =
     (let mem_check = (\<lambda>p c. p \<notin> set mem \<or> policy p c) in
     \<lparr>pe_read = (\<lambda>p w. case hm_get w p of None \<Rightarrow> Inl ''not found'' | Some c \<Rightarrow> Inr c),
      pe_write = (\<lambda>p c w. (hm_ins p c w, Inr ())),
      pe_delete = (\<lambda>p w. case hm_get w p of None \<Rightarrow> (w, Inl ''not found'') | Some _ \<Rightarrow> (hm_rem p w, Inr ())),
      pe_create_dir_all = (\<lambda>p w. (w, Inr ())),
      pe_lossy = (\<lambda>bytes. bytes),
      pe_mem_preflight = (\<lambda>p c w. if mem_check p c then Inr () else Inl ''protected''),
      pe_mem_read = (\<lambda>p w. Inr (p \<in> set mem)),
      pe_mem_write = (\<lambda>p c w. if \<not> mem_check p c then (w, Inl ''protected'')
        else if p \<in> set mem then (hm_ins p c w, Inr True) else (w, Inr False))\<rparr>)"

interpretation st: patch_store "store_env mem policy" hm_get
  by unfold_locales (auto simp: store_env_def Let_def fun_eq_iff fsimps split: option.splits if_splits)

section \<open>Lemmas: the two phases on a store\<close>

fun hunk_paths :: "path \<Rightarrow> hunk \<Rightarrow> path list" where
  "hunk_paths cwd (AddFile p _) = [path_join cwd p]"
| "hunk_paths cwd (DeleteFile p) = [path_join cwd p]"
| "hunk_paths cwd (UpdateFile p move_path _) =
     path_join cwd p # (case move_path of None \<Rightarrow> [] | Some d \<Rightarrow> [path_join cwd d])"

text \<open>What a change needs of the store when it is written.\<close>

fun ready :: "store \<Rightarrow> file_change \<Rightarrow> bool" where
  "ready w (Add p _) = True"
| "ready w (Delete p _) = (hm_get w p \<noteq> None)"
| "ready w (Update p _ _) = True"
| "ready w (Move source dest _ _) = (hm_get w source \<noteq> None)"

lemma compute_change_ok:
  assumes "compute_change cwd (store_env mem policy) w h = Some (Inr c)"
  shows "change_paths c = hunk_paths cwd h \<and> ready w c"
  using assms
  by (cases h) (auto simp: compute_change_def Let_def read_file_as_string_def store_env_def
      split: sum.splits option.splits)

lemma compute_all_ok:
  "compute_all_changes cwd (store_env mem policy) w hs acc = Some (Inr cs) \<Longrightarrow>
    \<exists>cs'. cs = acc @ cs' \<and> map change_paths cs' = map (hunk_paths cwd) hs \<and> list_all (ready w) cs'"
proof (induction hs arbitrary: acc)
  case (Cons h hs)
  from Cons.prems obtain c where c: "compute_change cwd (store_env mem policy) w h = Some (Inr c)"
      and rest: "compute_all_changes cwd (store_env mem policy) w hs (acc @ [c]) = Some (Inr cs)"
    by (auto split: option.splits sum.splits)
  from Cons.IH [OF rest] obtain cs' where "cs = (acc @ [c]) @ cs'"
      "map change_paths cs' = map (hunk_paths cwd) hs" "list_all (ready w) cs'" by blast
  then show ?case
    using compute_change_ok [OF c] by (intro exI [of _ "c # cs'"]) simp
qed simp

lemma compute_change_total: "compute_change cwd env w h \<noteq> None"
  by (auto simp: compute_change_def Let_def split: hunk.split sum.split option.split)
    (metis derive_not_None)

lemma compute_all_total: "compute_all_changes cwd env w hs acc \<noteq> None"
proof (induction hs arbitrary: acc)
  case (Cons h hs)
  then show ?case
    using compute_change_total [of cwd env w h] by (auto split: option.split sum.split)
qed simp

text \<open>A change that is ready and passed the preflight is written.\<close>

lemma apply_change_runs:
  assumes "ready w c" and "distinct (change_paths c)"
    and "preflight_memory_v2_changes (store_env mem policy) (c # cs) w0 = Inr ()"
  shows "\<exists>w' ns' r. apply_change (store_env mem policy) call_id c (w, ns) = ((w', ns'), Inr r)"
  using assms
  by (cases c) (auto simp: apply_change_def apply_add_def apply_delete_def apply_update_def
      apply_move_def ensure_parent_dirs_def store_env_def Let_def reject_memory_v2_destructive_path_def
      fsimps split: option.split if_splits)

lemma change_effect_other: "q \<notin> set (change_paths c) \<Longrightarrow> change_effect c m q = m q"
  by (cases c) auto

lemma ready_cong: "(\<forall>q \<in> set (change_paths c). hm_get w' q = hm_get w q) \<Longrightarrow> ready w' c = ready w c"
  by (cases c) auto

lemma apply_changes_runs:
  assumes "list_all (ready w) cs" and "distinct (concat (map change_paths cs))"
    and "preflight_memory_v2_changes (store_env mem policy) cs w0 = Inr ()"
  shows "\<exists>w' ns' rs'. apply_changes (store_env mem policy) call_id cs rs (w, ns) = ((w', ns'), Inr rs')"
  using assms
proof (induction cs arbitrary: w ns rs)
  case (Cons c cs)
  from Cons.prems obtain w1 n1 r where
      one: "apply_change (store_env mem policy) call_id c (w, ns) = ((w1, n1), Inr r)"
    using apply_change_runs [of w c mem policy cs w0 call_id ns] by auto
  have "hm_get w1 q = hm_get w q" if "q \<notin> set (change_paths c)" for q
    using st.apply_change_effect [OF one] change_effect_other [OF that] by simp
  then have "ready w1 c' = ready w c'" if "c' \<in> set cs" for c'
    using that Cons.prems(2) by (intro ready_cong) (auto simp: disjoint_iff)
  then have "list_all (ready w1) cs"
    using Cons.prems(1) by (simp add: list_all_iff)
  moreover have "preflight_memory_v2_changes (store_env mem policy) cs w0 = Inr ()"
    using Cons.prems(3) by (auto split: sum.splits)
  ultimately show ?case
    using Cons.IH [of w1 "rs @ [r]" n1] Cons.prems(2) one by simp
qed simp

section \<open>Properties\<close>

text \<open>What a run leaves behind when it is over, whatever became of it.\<close>

definition computed_from :: "path \<Rightarrow> 'w patch_env \<Rightarrow> 'w \<Rightarrow> hunk \<Rightarrow> file_change \<Rightarrow> bool" where
  "computed_from cwd env w h c \<longleftrightarrow> compute_change cwd env w h = Some (Inr c)"

definition is_success :: "string + patch_output \<Rightarrow> bool" where
  "is_success r \<longleftrightarrow> (case r of Inr (OutSuccess files summary) \<Rightarrow> True | _ \<Rightarrow> False)"

lemma compute_all_computed:
  "compute_all_changes cwd env w hs acc = Some (Inr cs) \<Longrightarrow>
    \<exists>cs'. cs = acc @ cs' \<and> list_all2 (computed_from cwd env w) hs cs'"
proof (induction hs arbitrary: acc)
  case (Cons h hs)
  from Cons.prems obtain c where c: "compute_change cwd env w h = Some (Inr c)"
      and rest: "compute_all_changes cwd env w hs (acc @ [c]) = Some (Inr cs)"
    by (auto split: option.splits sum.splits)
  from Cons.IH [OF rest] obtain cs' where "cs = acc @ c # cs'" "list_all2 (computed_from cwd env w) hs cs'"
    by auto
  moreover have "computed_from cwd env w h c" using c by (simp add: computed_from_def)
  ultimately show ?case by (intro exI [of _ "c # cs'"]) simp
qed simp

lemma plan_computed:
  assumes "plan_changes cwd env input w = Some (Inr changes)" and "parse_patch input = Inr parsed"
  shows "list_all2 (computed_from cwd env w) (pp_hunks parsed) changes"
  using assms compute_all_computed [of cwd env w "pp_hunks parsed" "[]"]
  by (auto simp: plan_changes_def split: if_splits option.splits sum.splits)

lemma plan_stops:
  assumes "plan_changes cwd env input w = Some (Inl out)"
  shows "\<not> is_success (Inr out)"
  using assms by (auto simp: plan_changes_def is_success_def parse_error_output_def
      split: if_splits option.splits sum.splits parse_error.splits)

lemma output_stops:
  assumes "apply_change env call_id c s = (s', Inl (Output out))"
  shows "\<not> is_success (Inr out)"
  using assms
  by (cases c; cases s) (auto simp: apply_change_def apply_add_def apply_delete_def apply_update_def
      apply_move_def Let_def is_success_def split: prod.splits sum.splits bool.splits)

lemma outputs_stop:
  "apply_changes env call_id cs rs s = (s', Inl (Output out)) \<Longrightarrow> \<not> is_success (Inr out)"
  by (induction cs arbitrary: rs s) (auto split: prod.splits sum.splits dest: output_stops)

text \<open>
  C36. What a patch leaves behind, on any file system whose operations do what they say when they
  succeed and touch no other file when they fail: the run never panics. Either nothing was written
  and no listener was told anything, and it does not report a success; or every hunk was computed
  from the files as they were before the run, and the changes were written in order: all of them when
  it reports a success, and otherwise exactly those before the first that failed, apart from the files
  of that one. The listeners were told of exactly the changes that were written.
\<close>

theorem patch_stops_where_it_fails:
  assumes "patch_store env content" and "parse_patch input = Inr parsed"
  shows "case run_apply_patch cwd env call_id input w of
      None \<Rightarrow> False
    | Some ((w', sent), r) \<Rightarrow>
        (w' = w \<and> sent = [] \<and> \<not> is_success r) \<or>
        (\<exists>changes written. list_all2 (computed_from cwd env w) (pp_hunks parsed) changes \<and>
          sent = concat (map (change_notes call_id) written) \<and>
          (if is_success r
           then written = changes \<and> content w' = fold change_effect changes (content w)
           else \<exists>c rest. changes = written @ c # rest \<and>
             (\<forall>q. q \<notin> set (change_paths c) \<longrightarrow> content w' q = fold change_effect written (content w) q)))"
proof (cases "plan_changes cwd env input w")
  case None
  then show ?thesis
    using assms(2) compute_all_total [of cwd env w "pp_hunks parsed" "[]"]
    by (auto simp: plan_changes_def split: if_splits option.splits sum.splits)
next
  case (Some plan)
  show ?thesis
  proof (cases plan)
    case (Inl out)
    with Some plan_stops [of cwd env input w out] show ?thesis by (simp add: run_apply_patch_def)
  next
    case (Inr changes)
    with Some have plan: "plan_changes cwd env input w = Some (Inr changes)" by simp
    note computed = plan_computed [OF plan assms(2)]
    obtain w' ns res where run: "apply_changes env call_id changes [] (w, []) = ((w', ns), res)"
      by (metis prod.exhaust_sel)
    show ?thesis
    proof (cases res)
      case (Inl stopped)
      from patch_store.apply_changes_stops [OF assms(1) run [unfolded Inl]] computed
      have main: "\<exists>changes written. list_all2 (computed_from cwd env w) (pp_hunks parsed) changes \<and>
          ns = concat (map (change_notes call_id) written) \<and> (\<exists>c rest. changes = written @ c # rest \<and>
             (\<forall>q. q \<notin> set (change_paths c) \<longrightarrow> content w' q = fold change_effect written (content w) q))"
        by auto
      have "\<exists>r. run_apply_patch cwd env call_id input w = Some ((w', ns), r) \<and> \<not> is_success r"
        using plan run Inl outputs_stop [of env call_id changes "[]" "(w, [])"]
        by (cases stopped) (auto simp: run_apply_patch_def is_success_def)
      then obtain r where r: "run_apply_patch cwd env call_id input w = Some ((w', ns), r)" "\<not> is_success r"
        by blast
      from main r(2) show ?thesis by (simp only: r(1) option.case prod.case if_False not_False_eq_True simp_thms)
    next
      case (Inr files)
      from patch_store.apply_changes_effect [OF assms(1) run [unfolded Inr]] computed plan run Inr
      show ?thesis by (auto simp: run_apply_patch_def is_success_def)
    qed
  qed
qed

text \<open>A file system on which a file cannot be a directory: the second file of the patch cannot be written.\<close>

definition blocked_env :: "store patch_env" where
  "blocked_env = (store_env [] (\<lambda>_ _. True))
     \<lparr>pe_write := (\<lambda>p c w. if p = ''/r/a/b'' then (w, Inl ''not a directory'') else (hm_ins p c w, Inr ()))\<rparr>"

lemma blocked_laws: "patch_store blocked_env hm_get"
  by unfold_locales (auto simp: blocked_env_def store_env_def Let_def fun_eq_iff fsimps
      split: option.splits if_splits)

definition nested_files :: "hunk_syntax list" where
  "nested_files = [SAdd ''a'' [''1''], SAdd ''a/b'' [''2'']]"

theorem patch_stops_where_it_fails_witness:
  "\<exists>w' sent. run_apply_patch ''/r'' blocked_env ''c'' (render_patch nested_files) [] =
     Some ((w', sent), Inl ''not a directory'') \<and> hm_get w' ''/r/a'' \<noteq> None \<and> length sent = 1 \<and>
     (\<exists>changes written c rest. list_all2 (computed_from ''/r'' blocked_env []) (map hunk_of nested_files) changes \<and>
        sent = concat (map (change_notes ''c'') written) \<and> changes = written @ c # rest)"
proof -
  let ?run = "run_apply_patch ''/r'' blocked_env ''c'' (render_patch nested_files) []"
  have parsed: "parse_patch (render_patch nested_files) =
      Inr \<lparr>pp_hunks = map hunk_of nested_files, pp_patch = render_patch nested_files\<rparr>"
    by (rule parse_render) (simp add: nested_files_def path_ok_def line_ok_def is_plain_def)
  then have run: "\<exists>w' sent. ?run = Some ((w', sent), Inl ''not a directory'') \<and>
      hm_get w' ''/r/a'' \<noteq> None \<and> length sent = 1"
    by (simp add: run_apply_patch_def plan_changes_def nested_files_def compute_change_def path_join_def
        is_absolute_def starts_with_def blocked_env_def store_env_def apply_change_def apply_add_def
        ensure_parent_dirs_def Let_def fsimps split: option.split)
  then obtain w' sent where eq: "?run = Some ((w', sent), Inl ''not a directory'')"
    and facts: "hm_get w' ''/r/a'' \<noteq> None" "length sent = 1" by blast
  have failed: "is_success (Inl ''not a directory'') = False" by (simp add: is_success_def)
  from patch_stops_where_it_fails [OF blocked_laws parsed, where cwd = "''/r''" and call_id = "''c''"
      and w = "[]"]
  have "w' = [] \<and> sent = [] \<or> (\<exists>changes written.
      list_all2 (computed_from ''/r'' blocked_env []) (map hunk_of nested_files) changes \<and>
      sent = concat (map (change_notes ''c'') written) \<and> (\<exists>c rest. changes = written @ c # rest))"
    by (simp only: eq option.case prod.case failed if_False parsed_patch.simps) blast
  with eq facts show ?thesis by (elim disjE) (simp, blast)
qed

text \<open>
  On a store whose operations do not fail otherwise, a patch whose hunks touch pairwise different
  files is all or nothing.
\<close>

theorem patch_all_or_nothing:
  assumes "parse_patch input = Inr parsed"
    and "distinct (concat (map (hunk_paths cwd) (pp_hunks parsed)))"
  shows "case run_apply_patch cwd (store_env mem policy) call_id input w of
      None \<Rightarrow> False
    | Some ((w', sent), r) \<Rightarrow>
        (w' = w \<and> sent = [] \<and> (\<forall>files summary. r \<noteq> Inr (OutSuccess files summary))) \<or>
        (\<exists>changes files. compute_all_changes cwd (store_env mem policy) w (pp_hunks parsed) [] = Some (Inr changes) \<and>
          r = Inr (OutSuccess files (build_summary files)) \<and>
          hm_get w' = fold change_effect changes (hm_get w))"
proof (cases "plan_changes cwd (store_env mem policy) input w")
  case None
  then show ?thesis
    using assms(1) compute_all_total [of cwd "store_env mem policy" w "pp_hunks parsed" "[]"]
    by (auto simp: plan_changes_def split: if_splits option.splits sum.splits)
next
  case (Some plan)
  show ?thesis
  proof (cases plan)
    case (Inl out)
    then show ?thesis
      using Some assms(1)
      by (auto simp: run_apply_patch_def plan_changes_def split: if_splits option.splits sum.splits)
  next
    case (Inr changes)
    then have comp: "compute_all_changes cwd (store_env mem policy) w (pp_hunks parsed) [] = Some (Inr changes)"
      and pre: "preflight_memory_v2_changes (store_env mem policy) changes w = Inr ()"
      using Some assms(1) by (auto simp: plan_changes_def split: if_splits option.splits sum.splits)
    from compute_all_ok [OF comp] have "list_all (ready w) changes"
      "distinct (concat (map change_paths changes))"
      using assms(2) by auto
    from apply_changes_runs [OF this pre] obtain w' ns rs where
        run: "apply_changes (store_env mem policy) call_id changes [] (w, []) = ((w', ns), Inr rs)"
      by blast
    then show ?thesis
      using Some Inr comp st.apply_changes_effect [OF run] by (auto simp: run_apply_patch_def)
  qed
qed

definition two_files :: "hunk_syntax list" where
  "two_files = [SAdd ''new'' [''1''], SDelete ''old'']"

theorem patch_all_or_nothing_witness:
  "\<exists>w' sent r. run_apply_patch ''/r'' (store_env [] (\<lambda>_ _. True)) ''c'' (render_patch two_files)
     [(''/r/old'', ''text'')] = Some ((w', sent), r)"
proof -
  have "parse_patch (render_patch two_files) =
      Inr \<lparr>pp_hunks = map hunk_of two_files, pp_patch = render_patch two_files\<rparr>"
    by (rule parse_render) (simp add: two_files_def path_ok_def line_ok_def is_plain_def)
  from patch_all_or_nothing [OF this, where cwd = "''/r''" and mem = "[]" and policy = "\<lambda>_ _. True"
      and call_id = "''c''" and w = "[(''/r/old'', ''text'')]"]
  show ?thesis
    by (auto simp: two_files_def path_join_def is_absolute_def starts_with_def split: option.splits)
qed

definition change_line :: "string \<Rightarrow> string \<Rightarrow> chunk_syntax" where
  "change_line old new = Chunk None [Del old, Ins new] False"

text \<open>
  A file that is updated and moved onto itself is lost: the new text is written to the
  destination and then the source is deleted, which is the same file; the tool reports success.
\<close>

theorem move_onto_itself_deletes:
  "\<exists>sent files summary.
     run_apply_patch ''/r'' (store_env [] (\<lambda>_ _. True)) ''c''
       (render_patch [SUpdate ''a'' (Some ''a'') [change_line ''x'' ''y'']]) [(''/r/a'', ''x'')] =
     Some (([], sent), Inr (OutSuccess files summary))"
proof -
  let ?hs = "[SUpdate ''a'' (Some ''a'') [change_line ''x'' ''y'']]"
  have "parse_patch (render_patch ?hs) = Inr \<lparr>pp_hunks = map hunk_of ?hs, pp_patch = render_patch ?hs\<rparr>"
    by (rule parse_render) (simp add: change_line_def path_ok_def line_ok_def is_plain_def)
  moreover have "derive_new_contents ''x'' ''/r/a'' [chunk_of (change_line ''x'' ''y'')] =
      Some (Inr (''y'' @ [newline]))"
    by (simp add: change_line_def derive_new_contents_def file_lines_def last_is_empty_def
      compute_replacements_def compute_one_def seek_context_def seek_sequence_def first_in_def
      sat_sub_def slice_matches_def apply_replacements_def apply_one_def vec_remove_def
      vec_insert_def)
  ultimately show ?thesis
    by (simp add: run_apply_patch_def plan_changes_def compute_change_def read_file_as_string_def
        store_env_def path_join_def is_absolute_def starts_with_def
        reject_memory_v2_destructive_path_def apply_change_def apply_move_def
        ensure_parent_dirs_def Let_def split: option.split)
qed

text \<open>
  Two update hunks for one file are both computed from the file as it was: the second write
  replaces the first, and the change of the first hunk is lost although both are reported.
\<close>

theorem second_update_overwrites_first:
  "\<exists>sent files summary.
     run_apply_patch ''/r'' (store_env [] (\<lambda>_ _. True)) ''c''
       (render_patch [SUpdate ''a'' None [change_line ''x'' ''X''], SUpdate ''a'' None [change_line ''z'' ''Z'']])
       [(''/r/a'', ''x'' @ [newline] @ ''z'')] =
     Some (([(''/r/a'', ''x'' @ [newline] @ ''Z'' @ [newline])], sent), Inr (OutSuccess files summary)) \<and>
     length files = 2"
proof -
  let ?hs = "[SUpdate ''a'' None [change_line ''x'' ''X''], SUpdate ''a'' None [change_line ''z'' ''Z'']]"
  have "parse_patch (render_patch ?hs) = Inr \<lparr>pp_hunks = map hunk_of ?hs, pp_patch = render_patch ?hs\<rparr>"
    by (rule parse_render) (simp add: change_line_def path_ok_def line_ok_def is_plain_def)
  moreover have
      "derive_new_contents (''x'' @ [newline] @ ''z'') ''/r/a'' [chunk_of (change_line ''x'' ''X'')] =
        Some (Inr (''X'' @ [newline] @ ''z'' @ [newline]))"
      "derive_new_contents (''x'' @ [newline] @ ''z'') ''/r/a'' [chunk_of (change_line ''z'' ''Z'')] =
        Some (Inr (''x'' @ [newline] @ ''Z'' @ [newline]))"
    by (simp_all add: change_line_def derive_new_contents_def file_lines_def last_is_empty_def
      compute_replacements_def compute_one_def seek_context_def seek_sequence_def first_in_def
      sat_sub_def slice_matches_def apply_replacements_def apply_one_def vec_remove_def
      vec_insert_def)
  ultimately show ?thesis
    by (simp add: run_apply_patch_def plan_changes_def compute_change_def read_file_as_string_def
        store_env_def path_join_def is_absolute_def starts_with_def apply_change_def
        apply_update_def Let_def)
qed

end
