(* ===== verification/HubSessions.thy ===== *)
theory HubSessions imports Json "HOL-Library.List_Lexorder" "HOL-Library.Char_ord" begin

text \<open>
  The session files the hub reads (\<^verbatim>\<open>crates/codegen/gtm-hub/src/sessions.rs\<close>): the cards of
  the sessions on disk, titles and working directories, transcripts with their texts trimmed and
  cut, diffs, and the merge of live sessions with those on disk. The directory tree is a value: the
  groups of the sessions root with the files of their sessions, in the order the directory is
  read; a file that is absent or unreadable is \<open>None\<close>. \<open>from_str\<close> and \<open>to_str\<close> stand for
  \<^verbatim>\<open>serde_json::from_str\<close> and \<^verbatim>\<open>to_string\<close>.
\<close>

section \<open>Session cards\<close>

record session_dir =
  sd_name :: string
  sd_summary :: "string option"
  sd_chat_history :: "string option"
  sd_updates :: "string option"

record session_group =
  sg_name :: string
  sg_is_dir :: bool
  sg_cwd_file :: "string option"
  sg_sessions :: "session_dir list"

type_synonym parser = "string \<Rightarrow> json option"

text \<open>The first of the keys that the object has.\<close>

fun jget_first :: "string list \<Rightarrow> json \<Rightarrow> json option" where
  "jget_first [] v = None"
| "jget_first (k # ks) v = or_else (jget k v) (jget_first ks v)"

definition jfirst_str :: "string list \<Rightarrow> json \<Rightarrow> string option" where
  "jfirst_str ks v = Option.bind (jget_first ks v) as_str"

definition session_title :: "json \<Rightarrow> string" where
  "session_title parsed = unwrap_or [] (jfirst_str
     [''generated_title'', ''generatedTitle'', ''session_summary'', ''sessionSummary'', ''title''] parsed)"

definition hex_digit_value :: "char \<Rightarrow> nat option" where
  "hex_digit_value c =
     (let n = of_char c :: nat in
      if 48 \<le> n \<and> n \<le> 57 then Some (n - 48)
      else if 97 \<le> n \<and> n \<le> 102 then Some (n - 87)
      else if 65 \<le> n \<and> n \<le> 70 then Some (n - 55)
      else None)"

text \<open>\<^verbatim>\<open>u8::from_str_radix(s, 16)\<close> on two bytes; a leading plus sign is accepted.\<close>

definition hex_byte :: "char \<Rightarrow> char \<Rightarrow> char option" where
  "hex_byte a b =
     (case hex_digit_value b of
        None \<Rightarrow> None
      | Some y \<Rightarrow>
          if a = CHR ''+'' then Some (char_of y)
          else map_option (\<lambda>x. char_of (16 * x + y)) (hex_digit_value a))"

text \<open>\<^verbatim>\<open>String::from_utf8\<close> is a parameter: whether the bytes are UTF-8.\<close>

fun percent_bytes :: "string \<Rightarrow> string option" where
  "percent_bytes (c # a # b # s) =
     (if c = CHR ''%'' then
        (case hex_byte a b of
           None \<Rightarrow> None
         | Some x \<Rightarrow> map_option (\<lambda>r. x # r) (percent_bytes s))
      else map_option (\<lambda>r. c # r) (percent_bytes (a # b # s)))"
| "percent_bytes s = Some s"

definition percent_decode :: "(string \<Rightarrow> bool) \<Rightarrow> string \<Rightarrow> string option" where
  "percent_decode is_utf8 name =
     (case percent_bytes name of
        Some out \<Rightarrow> if is_utf8 out then Some out else None
      | None \<Rightarrow> None)"

definition session_cwd :: "(string \<Rightarrow> bool) \<Rightarrow> json \<Rightarrow> session_group \<Rightarrow> json" where
  "session_cwd is_utf8 parsed grp =
     (case nonempty (Option.bind (or_else (jget ''cwd'' parsed) (jpointer [''info'', ''cwd''] parsed)) as_str) of
        Some cwd \<Rightarrow> JStr cwd
      | None \<Rightarrow>
          (case nonempty (map_option trim (sg_cwd_file grp)) of
             Some trimmed \<Rightarrow> JStr trimmed
           | None \<Rightarrow>
               (case percent_decode is_utf8 (sg_name grp) of
                  Some decoded \<Rightarrow> if starts_with decoded ''/'' then JStr decoded else JNull
                | None \<Rightarrow> JNull)))"

definition is_subagent :: "json \<Rightarrow> bool" where
  "is_subagent parsed =
     (case jfirst_str [''session_kind'', ''sessionKind''] parsed of
        Some s \<Rightarrow> starts_with (ascii_lower s) ''subagent''
      | None \<Rightarrow> False)"

definition title_of :: "json \<Rightarrow> string" where
  "title_of c = unwrap_or [] (jget_str ''title'' c)"

definition session_card ::
    "parser \<Rightarrow> (string \<Rightarrow> bool) \<Rightarrow> session_group \<Rightarrow> session_dir \<Rightarrow> json option" where
  "session_card from_str is_utf8 grp session =
     (case sd_summary session of
        None \<Rightarrow> None
      | Some summary \<Rightarrow>
          (let parsed = unwrap_or (JObj []) (from_str summary)
           in if is_subagent parsed then None
              else Some (JObj [(''id'', JStr (sd_name session)), (''title'', JStr (session_title parsed)),
                               (''live'', JBool False), (''cwd'', session_cwd is_utf8 parsed grp)])))"

definition list_disk_sessions_in ::
    "parser \<Rightarrow> (string \<Rightarrow> bool) \<Rightarrow> session_group list \<Rightarrow> json list" where
  "list_disk_sessions_in from_str is_utf8 root =
     sort_key title_of
       (concat (map (\<lambda>grp. if sg_is_dir grp
           then List.map_filter (session_card from_str is_utf8 grp) (sg_sessions grp) else []) root))"

definition find_session :: "string \<Rightarrow> session_group \<Rightarrow> session_dir option" where
  "find_session sid grp = find (\<lambda>d. sd_name d = sid) (sg_sessions grp)"

text \<open>The first grp that has the session's summary decides; an unreadable summary ends the search.\<close>

fun lookup_summary ::
    "parser \<Rightarrow> session_group list \<Rightarrow> string \<Rightarrow> (json \<times> session_group) option" where
  "lookup_summary from_str [] sid = None"
| "lookup_summary from_str (grp # groups) sid =
     (if \<not> sg_is_dir grp then lookup_summary from_str groups sid
      else case Option.bind (find_session sid grp) sd_summary of
          None \<Rightarrow> lookup_summary from_str groups sid
        | Some summary \<Rightarrow> Some (unwrap_or (JObj []) (from_str summary), grp))"

definition lookup_title :: "parser \<Rightarrow> session_group list \<Rightarrow> string \<Rightarrow> string option" where
  "lookup_title from_str root sid =
     Option.bind (lookup_summary from_str root sid) (\<lambda>(parsed, _). nonempty (Some (session_title parsed)))"

definition lookup_cwd ::
    "parser \<Rightarrow> (string \<Rightarrow> bool) \<Rightarrow> session_group list \<Rightarrow> string \<Rightarrow> string option" where
  "lookup_cwd from_str is_utf8 root sid =
     Option.bind (lookup_summary from_str root sid)
       (\<lambda>(parsed, grp). nonempty (as_str (session_cwd is_utf8 parsed grp)))"

fun lookup_session_dir :: "session_group list \<Rightarrow> string \<Rightarrow> session_dir option" where
  "lookup_session_dir [] sid = None"
| "lookup_session_dir (grp # groups) sid =
     (if \<not> sg_is_dir grp then lookup_session_dir groups sid
      else case find_session sid grp of
          Some dir \<Rightarrow> if sd_summary dir \<noteq> None \<or> sd_chat_history dir \<noteq> None then Some dir
                      else lookup_session_dir groups sid
        | None \<Rightarrow> lookup_session_dir groups sid)"

section \<open>Texts\<close>

definition HISTORY_DEFAULT :: nat where
  "HISTORY_DEFAULT = 200"

definition HISTORY_MAX :: nat where
  "HISTORY_MAX = 500"

definition HISTORY_TEXT_MAX :: nat where
  "HISTORY_TEXT_MAX = 8000"

definition TOOL_TEXT_MAX :: nat where
  "TOOL_TEXT_MAX = 240"

definition DIFF_TEXT_MAX :: nat where
  "DIFF_TEXT_MAX = 4000"

text \<open>The ellipsis, U+2026.\<close>

definition ellipsis :: string where
  "ellipsis = [CHR 0xE2, CHR 0x80, CHR 0xA6]"

text \<open>The \<^verbatim>\<open>while\<close> loop back to a character boundary.\<close>

fun boundary_at_most :: "string \<Rightarrow> nat \<Rightarrow> nat" where
  "boundary_at_most s 0 = 0"
| "boundary_at_most s (Suc n) =
     (if \<not> is_char_boundary s (Suc n) then boundary_at_most s n else Suc n)"

definition truncate_text :: "string \<Rightarrow> nat \<Rightarrow> string" where
  "truncate_text s cap =
     (if length s \<le> cap then s
      else take (boundary_at_most s (sat_sub cap 1)) s @ ellipsis)"

text \<open>The last \<open>n\<close> characters: the suffix from the \<open>n\<close>-th first byte of a character, backwards.\<close>

fun last_chars_rev :: "nat \<Rightarrow> string \<Rightarrow> string" where
  "last_chars_rev 0 rs = []"
| "last_chars_rev (Suc n) [] = []"
| "last_chars_rev (Suc n) (c # rs) =
     (if is_continuation c then c # last_chars_rev (Suc n) rs else c # last_chars_rev n rs)"

definition last_chars :: "nat \<Rightarrow> string \<Rightarrow> string" where
  "last_chars n s = rev (last_chars_rev n (rev s))"

definition user_query_open :: string where
  "user_query_open = ''<user_query>''"

definition user_query_close :: string where
  "user_query_close = ''</user_query>''"

text \<open>Slicing a string panics on an inverted range.\<close>

definition slice :: "nat \<Rightarrow> nat \<Rightarrow> string \<Rightarrow> string option" where
  "slice i j s = (if i \<le> j \<and> j \<le> length s then Some (drop i (take j s)) else None)"

definition strip_env_tail :: "string \<Rightarrow> string" where
  "strip_env_tail raw =
     (let trimmed = trim raw
      in if length trimmed > 4000 then ellipsis @ last_chars 2000 trimmed else trimmed)"

definition strip_env_noise :: "string \<Rightarrow> string option" where
  "strip_env_noise raw =
     (case (str_find raw user_query_open, str_find raw user_query_close) of
        (Some start, Some fin) \<Rightarrow>
          if fin > start then
            (case slice (start + length user_query_open) fin raw of
               None \<Rightarrow> None
             | Some inner \<Rightarrow>
                 if trim inner \<noteq> [] then Some (trim inner) else Some (strip_env_tail raw))
          else Some (strip_env_tail raw)
      | _ \<Rightarrow> Some (strip_env_tail raw))"

definition block_texts :: "json list \<Rightarrow> string list" where
  "block_texts blocks = List.map_filter (jget_str ''text'') blocks"

definition extract_user_text :: "json option \<Rightarrow> string" where
  "extract_user_text content =
     (case content of
        None \<Rightarrow> []
      | Some (JStr s) \<Rightarrow> s
      | Some (JArr arr) \<Rightarrow> join [newline] (block_texts arr)
      | Some _ \<Rightarrow> [])"

definition extract_reasoning :: "json \<Rightarrow> string" where
  "extract_reasoning obj =
     (case Option.bind (jget ''summary'' obj) as_array of
        Some arr \<Rightarrow> join [newline] (block_texts arr)
      | None \<Rightarrow> [])"

section \<open>Rows and diffs\<close>

type_synonym diff = "string \<times> string \<times> string"

definition history_row :: "string \<Rightarrow> string \<Rightarrow> string option \<Rightarrow> json" where
  "history_row role text tool_title =
     (let row = JObj [(''role'', JStr role), (''text'', JStr text)]
      in case tool_title of None \<Rightarrow> row | Some title \<Rightarrow> jset ''toolTitle'' (JStr title) row)"

definition attach_diff :: "json \<Rightarrow> diff option \<Rightarrow> json" where
  "attach_diff row d =
     (case d of
        None \<Rightarrow> row
      | Some (path, old, new) \<Rightarrow>
          jset ''newText'' (JStr (truncate_text new DIFF_TEXT_MAX))
            (jset ''oldText'' (JStr (truncate_text old DIFF_TEXT_MAX))
              (jset ''diffPath'' (JStr path) row)))"

definition tool_args_diff_value :: "json \<Rightarrow> diff option" where
  "tool_args_diff_value raw =
     (case nonempty (jfirst_str [''file_path'', ''filePath'', ''path''] raw) of
        None \<Rightarrow> None
      | Some path \<Rightarrow>
          (let old = unwrap_or [] (jfirst_str [''old_string'', ''oldString'', ''oldText''] raw);
               new = unwrap_or [] (jfirst_str [''new_string'', ''newString'', ''newText'', ''content''] raw)
           in if old = [] \<and> new = [] then None else Some (path, old, new)))"

definition tool_args_diff :: "parser \<Rightarrow> string \<Rightarrow> diff option" where
  "tool_args_diff from_str args = Option.bind (from_str args) tool_args_diff_value"

definition object_diff :: "json \<Rightarrow> diff option" where
  "object_diff obj =
     (case nonempty (jfirst_str [''path'', ''filePath''] obj) of
        None \<Rightarrow> None
      | Some path \<Rightarrow>
          Some (path, unwrap_or [] (jfirst_str [''oldText'', ''old_text''] obj),
                unwrap_or [] (jfirst_str [''newText'', ''new_text''] obj)))"

definition is_diff :: "json \<Rightarrow> bool" where
  "is_diff obj \<longleftrightarrow> ascii_lower (unwrap_or [] (jget_str ''type'' obj)) = ''diff''"

lemma jget_size: "jget k v = Some w \<Longrightarrow> size w < size v"
proof (cases v)
  case (JObj kvs)
  assume "jget k v = Some w"
  with JObj have "(k, w) \<in> set kvs" by (simp add: map_of_SomeD)
  then have "size_prod (\<lambda>_. 0) size (k, w) \<le> size_list (size_prod (\<lambda>_. 0) size) kvs"
    by (intro size_list_estimation') auto
  with JObj show ?thesis by simp
qed auto

text \<open>Into arrays, in order, and into the contents of objects that are not a diff themselves.\<close>

function content_diff :: "json \<Rightarrow> diff option" and content_diffs :: "json list \<Rightarrow> diff option" where
  "content_diff content =
     (case content of
        JArr items \<Rightarrow> content_diffs items
      | JObj kvs \<Rightarrow>
          if is_diff (JObj kvs) then object_diff (JObj kvs)
          else (case jget ''content'' (JObj kvs) of None \<Rightarrow> None | Some c \<Rightarrow> content_diff c)
      | _ \<Rightarrow> None)"
| "content_diffs [] = None"
| "content_diffs (item # items) =
     (case content_diff item of Some found \<Rightarrow> Some found | None \<Rightarrow> content_diffs items)"
  by pat_completeness auto
termination
  by (relation "measure (\<lambda>x. case x of Inl v \<Rightarrow> size v | Inr vs \<Rightarrow> size_list size vs)")
    (auto dest: jget_size [of _ "JObj _", simplified])

declare content_diff.simps [simp del]

definition extract_diff :: "json \<Rightarrow> diff option" where
  "extract_diff update =
     (case Option.bind (jget ''content'' update) content_diff of
        Some found \<Rightarrow> Some found
      | None \<Rightarrow> Option.bind (jget_first [''rawInput'', ''raw_input''] update) tool_args_diff_value)"

section \<open>Transcripts\<close>

definition take_last :: "json list \<Rightarrow> nat \<Rightarrow> json list" where
  "take_last msgs limit = (if length msgs > limit then drop (length msgs - limit) msgs else msgs)"

definition is_tool_row :: "json \<Rightarrow> bool" where
  "is_tool_row row \<longleftrightarrow> jget_str ''role'' row = Some ''tool''"

text \<open>The row of one tool call of an assistant message.\<close>

definition tool_call_row :: "parser \<Rightarrow> (json \<Rightarrow> string) \<Rightarrow> json \<Rightarrow> json" where
  "tool_call_row from_str to_str tool =
     (let name = unwrap_or ''tool'' (jget_str ''name'' tool);
          args_val = jget ''arguments'' tool;
          args_owned = (case Option.bind args_val as_str of
             Some s \<Rightarrow> s
           | None \<Rightarrow> (case args_val of Some v \<Rightarrow> to_str v | None \<Rightarrow> []));
          preview = truncate_text args_owned TOOL_TEXT_MAX;
          row = history_row ''tool'' (if preview = [] then ''called'' else preview) (Some name)
      in case args_val of
           None \<Rightarrow> row
         | Some (JStr s) \<Rightarrow> attach_diff row (tool_args_diff from_str s)
         | Some v \<Rightarrow> attach_diff row (tool_args_diff_value v))"

text \<open>The rows one line of the chat history adds; \<open>None\<close> is a panic.\<close>

definition chat_rows :: "parser \<Rightarrow> (json \<Rightarrow> string) \<Rightarrow> json \<Rightarrow> json list option" where
  "chat_rows from_str to_str obj =
     (let kind = unwrap_or [] (jget_str ''type'' obj) in
      if kind = ''user'' then
        (case strip_env_noise (extract_user_text (jget ''content'' obj)) of
           None \<Rightarrow> None
         | Some body \<Rightarrow> Some (if body = [] then [] else [history_row ''user'' body None]))
      else if kind = ''assistant'' then
        (let tools = unwrap_or [] (Option.bind (jget ''tool_calls'' obj) as_array);
             content = trim (unwrap_or [] (jget_str ''content'' obj))
         in Some (map (tool_call_row from_str to_str) tools @
              (if content \<noteq> []
               then [history_row ''assistant'' (truncate_text content HISTORY_TEXT_MAX) None] else [])))
      else if kind = ''reasoning'' then
        (let thought = extract_reasoning obj
         in Some (if thought = [] then []
              else [history_row ''thought'' (truncate_text thought HISTORY_TEXT_MAX) None]))
      else if kind = ''tool_result'' then
        (let trimmed = trim (unwrap_or [] (jget_str ''content'' obj))
         in Some (if trimmed = [] then []
              else [history_row ''tool'' (truncate_text trimmed TOOL_TEXT_MAX) (Some ''result'')]))
      else Some [])"

text \<open>The objects of a file with one JSON text per line; lines that do not parse are skipped.\<close>

definition json_lines :: "parser \<Rightarrow> string \<Rightarrow> json list" where
  "json_lines from_str text =
     List.map_filter (\<lambda>line. let line = trim line in if line = [] then None else from_str line)
       (str_lines text)"

fun parse_chat_objs :: "parser \<Rightarrow> (json \<Rightarrow> string) \<Rightarrow> json list \<Rightarrow> json list \<Rightarrow> json list option" where
  "parse_chat_objs from_str to_str [] out = Some out"
| "parse_chat_objs from_str to_str (obj # objs) out =
     (case chat_rows from_str to_str obj of
        None \<Rightarrow> None
      | Some rows \<Rightarrow> parse_chat_objs from_str to_str objs (out @ rows))"

definition parse_chat_history ::
    "parser \<Rightarrow> (json \<Rightarrow> string) \<Rightarrow> string option \<Rightarrow> json list option" where
  "parse_chat_history from_str to_str file =
     (case file of
        None \<Rightarrow> Some []
      | Some text \<Rightarrow> parse_chat_objs from_str to_str (json_lines from_str text) [])"

text \<open>The state of the loop over the updates: the rows, the role being collected and its text.\<close>

record update_state =
  us_out :: "json list"
  us_role :: "string option"
  us_buf :: string

text \<open>\<^verbatim>\<open>tool_title\<close> is never set in the source, so a flushed row has none.\<close>

definition flush :: "update_state \<Rightarrow> update_state" where
  "flush s =
     (let t = trim (us_buf s);
          out = (case us_role s of
             Some r \<Rightarrow>
               if t \<noteq> [] then us_out s @
                 [history_row r (truncate_text t (if r = ''tool'' then TOOL_TEXT_MAX else HISTORY_TEXT_MAX)) None]
               else us_out s
           | None \<Rightarrow> us_out s)
      in \<lparr>us_out = out, us_role = None, us_buf = []\<rparr>)"

definition push_chunk :: "string \<Rightarrow> string \<Rightarrow> update_state \<Rightarrow> update_state" where
  "push_chunk role chunk s =
     (let s = (if us_role s \<noteq> Some role then (flush s)\<lparr>us_role := Some role\<rparr> else s)
      in s\<lparr>us_buf := us_buf s @ chunk\<rparr>)"

definition update_last_tool :: "json \<Rightarrow> json list \<Rightarrow> json list" where
  "update_last_tool update out =
     (if out \<noteq> [] \<and> is_tool_row (last out) then
        (let row = last out;
             row = (case jget_str ''status'' update of
               Some status \<Rightarrow> jset ''text'' (JStr status) row | None \<Rightarrow> row)
         in butlast out @ [attach_diff row (extract_diff update)])
      else out)"

definition apply_update_line :: "json \<Rightarrow> update_state \<Rightarrow> update_state" where
  "apply_update_line obj s =
     (let line_method = unwrap_or [] (jget_str ''method'' obj) in
      if line_method \<noteq> ''session/update'' \<and> \<not> ends_with line_method ''session/update'' then s
      else
        let update = unwrap_or (JObj []) (jpointer [''params'', ''update''] obj);
            kind = unwrap_or [] (jfirst_str [''sessionUpdate'', ''session_update''] update);
            chunk = unwrap_or []
              (Option.bind (or_else (jpointer [''content'', ''text''] update) (jget ''text'' update)) as_str)
        in if kind = ''user_message_chunk'' then push_chunk ''user'' chunk s
           else if kind = ''agent_thought_chunk'' then push_chunk ''thought'' chunk s
           else if kind = ''agent_message_chunk'' \<or> kind = ''agent_message'' then push_chunk ''assistant'' chunk s
           else if kind = ''tool_call'' then
             (let s = flush s;
                  title = unwrap_or ''Tool'' (jget_str ''title'' update);
                  status = unwrap_or ''ran'' (jget_str ''status'' update)
              in s\<lparr>us_out := us_out s @ [attach_diff (history_row ''tool'' status (Some title)) (extract_diff update)]\<rparr>)
           else if kind = ''tool_call_update'' then s\<lparr>us_out := update_last_tool update (us_out s)\<rparr>
           else s)"

definition clean_row :: "json \<Rightarrow> json option" where
  "clean_row row =
     (if jget_str ''role'' row = Some ''user'' then
        (case jget_str ''text'' row of
           Some text \<Rightarrow> map_option (\<lambda>cleaned. jset ''text'' (JStr cleaned) row) (strip_env_noise text)
         | None \<Rightarrow> Some row)
      else Some row)"

definition has_text :: "json \<Rightarrow> bool" where
  "has_text row \<longleftrightarrow> (case jget_str ''text'' row of Some s \<Rightarrow> s \<noteq> [] | None \<Rightarrow> False)"

fun option_list :: "'a option list \<Rightarrow> 'a list option" where
  "option_list [] = Some []"
| "option_list (x # xs) = (case x of None \<Rightarrow> None | Some y \<Rightarrow> map_option (\<lambda>ys. y # ys) (option_list xs))"

definition parse_updates :: "parser \<Rightarrow> string option \<Rightarrow> json list option" where
  "parse_updates from_str file =
     (case file of
        None \<Rightarrow> Some []
      | Some text \<Rightarrow>
          (let s = fold apply_update_line (json_lines from_str text)
                     \<lparr>us_out = [], us_role = None, us_buf = []\<rparr>;
               out = us_out (flush s)
           in map_option (filter has_text) (option_list (map clean_row out))))"

definition session_history_in ::
    "parser \<Rightarrow> (json \<Rightarrow> string) \<Rightarrow> session_dir \<Rightarrow> nat \<Rightarrow> json list option" where
  "session_history_in from_str to_str dir limit =
     (let limit = (if limit = 0 then HISTORY_DEFAULT else min limit HISTORY_MAX)
      in case parse_chat_history from_str to_str (sd_chat_history dir) of
           None \<Rightarrow> None
         | Some msgs \<Rightarrow>
             if sd_chat_history dir \<noteq> None \<and> msgs \<noteq> [] then Some (take_last msgs limit)
             else if sd_updates dir \<noteq> None
             then map_option (\<lambda>msgs. take_last msgs limit) (parse_updates from_str (sd_updates dir))
             else Some [])"

definition session_history ::
    "parser \<Rightarrow> (json \<Rightarrow> string) \<Rightarrow> session_group list \<Rightarrow> string \<Rightarrow> nat \<Rightarrow> json list option" where
  "session_history from_str to_str root sid limit =
     (case lookup_session_dir root sid of
        None \<Rightarrow> Some []
      | Some dir \<Rightarrow> session_history_in from_str to_str dir limit)"

section \<open>Live and cold cards\<close>

definition id_of :: "json \<Rightarrow> string option" where
  "id_of c = jget_str ''id'' c"

text \<open>Collecting pairs into a map: a later entry of the same key wins.\<close>

definition disk_titles :: "json list \<Rightarrow> (string, string) hmap" where
  "disk_titles disk =
     fold (\<lambda>c m. case (id_of c, jget_str ''title'' c) of
         (Some i, Some title) \<Rightarrow> if title \<noteq> [] then hm_ins i title m else m
       | _ \<Rightarrow> m) disk []"

definition merge_live :: "json list \<Rightarrow> json list \<Rightarrow> json list" where
  "merge_live live disk =
     (let live_ids = List.map_filter id_of live;
          titles = disk_titles disk
      in map (\<lambda>c. if title_of c = [] then
             (case id_of c of
                Some i \<Rightarrow> (case hm_get titles i of
                    Some title \<Rightarrow> jset ''title'' (JStr title) c | None \<Rightarrow> c)
              | None \<Rightarrow> c)
           else c) live
         @ filter (\<lambda>c. unwrap_or [] (id_of c) \<notin> set live_ids) disk)"

section \<open>Lemmas\<close>

lemma strip_env_noise_total: "strip_env_noise raw \<noteq> None"
proof (cases "str_find raw user_query_open"; cases "str_find raw user_query_close")
  fix i j assume i: "str_find raw user_query_open = Some i" and j: "str_find raw user_query_close = Some j"
  have "slice (i + length user_query_open) j raw \<noteq> None" if "j > i"
  proof -
    have "raw ! j = CHR ''<''"
      using str_find_nth [OF j, of 0] by (simp add: user_query_close_def)
    moreover have "raw ! j = user_query_open ! (j - i)" if "j < i + length user_query_open"
      using str_find_nth [OF i, of "j - i"] that \<open>j > i\<close> by simp
    moreover have "user_query_open ! k \<noteq> CHR ''<''" if "0 < k" "k < length user_query_open" for k
      using that by (auto simp: user_query_open_def nth_Cons' split: if_splits)
    ultimately have "i + length user_query_open \<le> j"
      using that by (metis add_diff_inverse_nat leI less_diff_conv2 nat_add_left_cancel_less
          less_imp_le_nat not_less_iff_gr_or_eq zero_less_diff)
    then show ?thesis using str_find_Some [OF j] by (simp add: slice_def)
  qed
  then show ?thesis using i j by (auto simp: strip_env_noise_def split: option.split)
qed (simp_all add: strip_env_noise_def)

lemma chat_rows_total: "chat_rows from_str to_str obj \<noteq> None"
  using strip_env_noise_total [of "extract_user_text (jget ''content'' obj)"]
  by (auto simp: chat_rows_def Let_def)

lemma parse_chat_objs_total: "parse_chat_objs from_str to_str objs out \<noteq> None"
proof (induction objs arbitrary: out)
  case (Cons obj objs)
  then show ?case using chat_rows_total [of from_str to_str obj] by (auto split: option.split)
qed simp

lemma option_list_total: "(\<forall>x \<in> set xs. x \<noteq> None) \<Longrightarrow> option_list xs \<noteq> None"
  by (induction xs) (auto split: option.split)

lemma parse_updates_total: "parse_updates from_str file \<noteq> None"
proof -
  have "clean_row row \<noteq> None" for row
    using strip_env_noise_total by (auto simp: clean_row_def split: option.split)
  then show ?thesis
    using option_list_total [of "map clean_row out" for out]
    by (auto simp: parse_updates_def Let_def split: option.split)
qed

lemma length_take_last: "length (take_last msgs n) \<le> n"
  by (simp add: take_last_def)

lemma boundary_at_most_le: "boundary_at_most s n \<le> n"
  by (induction n) auto

lemma boundary_at_most_boundary: "is_char_boundary s (boundary_at_most s n)"
  by (induction n) (auto simp: is_char_boundary_def)

section \<open>Properties\<close>

text \<open>
  Reading a transcript never panics, whatever the files hold, and returns at most the asked
  number of rows, never more than 500.
\<close>

theorem session_history_bounded:
  "case session_history from_str to_str root sid limit of
     None \<Rightarrow> False
   | Some rows \<Rightarrow> length rows \<le> (if limit = 0 then 200 else min limit 500)"
proof (cases "lookup_session_dir root sid")
  case (Some dir)
  obtain msgs where "parse_chat_history from_str to_str (sd_chat_history dir) = Some msgs"
    using parse_chat_objs_total by (fastforce simp: parse_chat_history_def split: option.split)
  moreover obtain ups where "parse_updates from_str (sd_updates dir) = Some ups"
    using parse_updates_total by fastforce
  moreover have "length (take_last ms (min limit 500)) \<le> limit" "length (take_last ms (min limit 500)) \<le> 500"
      "length (take_last ms n) \<le> n" for ms n
    using length_take_last [of ms "min limit 500"] length_take_last [of ms n] by simp_all
  ultimately show ?thesis
    using Some
    by (simp add: session_history_def session_history_in_def Let_def HISTORY_DEFAULT_def HISTORY_MAX_def)
qed (simp add: session_history_def)

text \<open>
  A cut text is a prefix that ends at a character boundary, shorter than the cap, followed by
  the ellipsis, so it is at most two bytes over the cap; a text within the cap is kept.
\<close>

theorem truncate_text_spec:
  "if length s \<le> cap then truncate_text s cap = s
   else \<exists>n. n \<le> cap - 1 \<and> is_char_boundary s n \<and> truncate_text s cap = take n s @ ellipsis \<and>
     length (truncate_text s cap) \<le> cap - 1 + 3"
proof (cases "length s \<le> cap")
  case False
  then show ?thesis
    using boundary_at_most_le [of s "cap - 1"] boundary_at_most_boundary [of s "cap - 1"]
    by (auto simp: truncate_text_def sat_sub_def ellipsis_def intro!: exI [of _ "boundary_at_most s (cap - 1)"])
qed (simp add: truncate_text_def)

text \<open>
  The merged list shows every live session and then exactly the cold ones whose id is not
  live, in order; when the live ids are distinct and the cold ids are distinct, no id is listed
  twice.
\<close>

theorem merge_live_no_duplicates:
  assumes "distinct (map id_of live)" and "distinct (map id_of disk)"
    and "None \<notin> set (map id_of live)" and "None \<notin> set (map id_of disk)"
  shows "map id_of (merge_live live disk) =
      map id_of live @ filter (\<lambda>i. i \<notin> set (map id_of live)) (map id_of disk) \<and>
    distinct (map id_of (merge_live live disk))"
proof -
  have id: "id_of (jset ''title'' v c) = id_of c" for v c
    by (simp add: id_of_def jget_str_def)
  have "map id_of (map (\<lambda>c. if title_of c = [] then
      (case id_of c of Some i \<Rightarrow> (case hm_get titles i of
          Some title \<Rightarrow> jset ''title'' (JStr title) c | None \<Rightarrow> c) | None \<Rightarrow> c) else c) live) = map id_of live"
    for titles
    using id by (auto split: option.split)
  moreover have "unwrap_or [] (id_of c) \<notin> set (List.map_filter id_of live) \<longleftrightarrow> id_of c \<notin> set (map id_of live)"
    if c: "c \<in> set disk" for c
  proof -
    obtain i where i: "id_of c = Some i"
      using c assms(4) by (cases "id_of c") force+
    have "i \<in> set (List.map_filter id_of live) \<longleftrightarrow> Some i \<in> set (map id_of live)"
      by (induction live) (auto simp: List.map_filter_simps split: option.split)
    with i show ?thesis by simp
  qed
  then have "map id_of (filter (\<lambda>c. unwrap_or [] (id_of c) \<notin> set (List.map_filter id_of live)) disk) =
      filter (\<lambda>i. i \<notin> set (map id_of live)) (map id_of disk)"
    by (simp add: filter_map o_def cong: filter_cong)
  ultimately have eq: "map id_of (merge_live live disk) =
      map id_of live @ filter (\<lambda>i. i \<notin> set (map id_of live)) (map id_of disk)"
    by (simp add: merge_live_def Let_def)
  then show ?thesis using assms(1,2) by auto
qed

definition example_cards :: "json list \<times> json list" where
  "example_cards = ([JObj [(''id'', JStr ''a''), (''title'', JStr [])]],
     [JObj [(''id'', JStr ''a''), (''title'', JStr ''T'')], JObj [(''id'', JStr ''b'')]])"

theorem merge_live_no_duplicates_witness:
  "map id_of (merge_live (fst example_cards) (snd example_cards)) = [Some ''a'', Some ''b'']"
  using merge_live_no_duplicates [of "fst example_cards" "snd example_cards"]
  by (simp add: example_cards_def id_of_def jget_str_def)

end
