(* ===== verification/Hub.thy ===== *)
theory Hub imports HubSessions begin

text \<open>
  The hub of the remote clients (\<^verbatim>\<open>crates/codegen/gtm-hub/src/hub.rs\<close>, with the device
  records of \<^verbatim>\<open>tls.rs\<close> and the messages of \<^verbatim>\<open>rpc.rs\<close>): the connected clients, the
  table of sessions, the routes of permission requests and of prompts to a hosting TUI, and every
  request handler. A handler runs to its end before the next one; a map under a mutex is an
  association list. What the hub puts on channels is recorded in order: messages to clients,
  commands to actors, and actors spawned. The environment holds what is read from outside: the
  session files, the clock, the TLS materials, and the JSON printer and parser.
\<close>

section \<open>Messages\<close>

record rpc_err =
  re_code :: int
  re_message :: string

definition rpc_error_new :: "int \<Rightarrow> string \<Rightarrow> rpc_err" where
  "rpc_error_new code message = \<lparr>re_code = code, re_message = message\<rparr>"

definition rpc_result :: "json \<Rightarrow> json \<Rightarrow> json" where
  "rpc_result id_val result =
     JObj [(''jsonrpc'', JStr ''2.0''), (''id'', id_val), (''result'', result)]"

definition rpc_error :: "json \<Rightarrow> int \<Rightarrow> string \<Rightarrow> json" where
  "rpc_error id_val code message =
     JObj [(''jsonrpc'', JStr ''2.0''), (''id'', id_val),
           (''error'', JObj [(''code'', JInt code), (''message'', JStr message)])]"

definition to_msg :: "rpc_err \<Rightarrow> json \<Rightarrow> json" where
  "to_msg err id_val = rpc_error id_val (re_code err) (re_message err)"

definition rpc_notification :: "string \<Rightarrow> json \<Rightarrow> json" where
  "rpc_notification name params =
     JObj [(''jsonrpc'', JStr ''2.0''), (''method'', JStr name), (''params'', params)]"

definition rpc_request :: "json \<Rightarrow> string \<Rightarrow> json \<Rightarrow> json" where
  "rpc_request id_val name params =
     JObj [(''jsonrpc'', JStr ''2.0''), (''id'', id_val), (''method'', JStr name), (''params'', params)]"

section \<open>State\<close>

record client =
  cl_subs :: "string list"
  cl_lan :: bool
  cl_device_fp :: "string option"

type_synonym actor_handle = nat

record slot =
  sl_cwd :: "string option"
  sl_title :: string
  sl_new_result :: json
  sl_actor :: actor_handle

record host_slot =
  hs_client_id :: nat
  hs_cwd :: "string option"
  hs_title :: string

datatype entry =
    Starting "(nat \<times> json) list"
  | Live slot
  | Hosted host_slot

record hosted_prompt =
  hp_origin :: nat
  hp_host :: nat

record lan_want =
  lw_enabled :: bool
  lw_port :: nat

datatype actor_cmd =
    Rpc nat json string json
  | Notify string json
  | ClientReply json "json option" "json option"
  | Shutdown

datatype start = New | Load | Resume

record spawn_request =
  sp_start :: start
  sp_origin_client :: nat
  sp_origin_id :: json
  sp_params :: json

record device_record =
  dr_device_id :: string
  dr_expires :: nat
  dr_cert_sha256 :: string

text \<open>
  The device files by their stem; \<open>None\<close> is a file that does not parse. Counters are numbers
  that do not reach \<open>2\<^sup>6\<^sup>4\<close>. An actor handle is its index in the list of spawned actors.
\<close>

record hub =
  hb_clients :: "(nat, client) hmap"
  hb_sessions :: "(string, entry) hmap"
  hb_perm_routes :: "(string, string) hmap"
  hb_hosted_prompts :: "(string, hosted_prompt) hmap"
  hb_next_client :: nat
  hb_next_perm :: nat
  hb_lan :: lan_want
  hb_devices :: "(string, device_record option) hmap"
  hb_sent :: "(nat \<times> json) list"
  hb_cmds :: "(actor_handle \<times> actor_cmd) list"
  hb_spawned :: "spawn_request list"

record hub_env =
  he_now :: nat
  he_lan_port :: nat
  he_lan_watched :: bool
  he_materials :: "string + unit"
  he_remove_error :: "string \<Rightarrow> string option"
  he_guess_host :: string
  he_pid :: nat
  he_socket :: string
  he_version :: string
  he_root :: "session_group list"
  he_is_utf8 :: "string \<Rightarrow> bool"
  he_from_str :: parser
  he_to_str :: "json \<Rightarrow> string"
  he_to_lowercase :: "string \<Rightarrow> string"

datatype dispatch = Reply "rpc_err + json" | ReplyPending

definition LOCAL_CONN_MAX :: nat where
  "LOCAL_CONN_MAX = 8"

definition LAN_CONN_MAX :: nat where
  "LAN_CONN_MAX = 2"

definition PROTOCOL_VERSION :: nat where
  "PROTOCOL_VERSION = 1"

definition ALPN :: string where
  "ALPN = ''gtm-hub''"

definition with_agent :: "hub_env \<Rightarrow> (string, device_record option) hmap \<Rightarrow> hub" where
  "with_agent env devices =
     \<lparr>hb_clients = [], hb_sessions = [], hb_perm_routes = [], hb_hosted_prompts = [],
      hb_next_client = 1, hb_next_perm = 1, hb_lan = \<lparr>lw_enabled = False, lw_port = he_lan_port env\<rparr>,
      hb_devices = devices, hb_sent = [], hb_cmds = [], hb_spawned = []\<rparr>"

section \<open>Channels\<close>

definition emit :: "(nat \<times> json) list \<Rightarrow> hub \<Rightarrow> hub" where
  "emit msgs h = h\<lparr>hb_sent := hb_sent h @ msgs\<rparr>"

definition actor_send :: "actor_handle \<Rightarrow> actor_cmd \<Rightarrow> hub \<Rightarrow> hub" where
  "actor_send a cmd h = h\<lparr>hb_cmds := hb_cmds h @ [(a, cmd)]\<rparr>"

definition actor_spawn :: "start \<Rightarrow> nat \<Rightarrow> json \<Rightarrow> json \<Rightarrow> hub \<Rightarrow> hub" where
  "actor_spawn start origin_client origin_id params h =
     h\<lparr>hb_spawned := hb_spawned h @ [\<lparr>sp_start = start, sp_origin_client = origin_client,
        sp_origin_id = origin_id, sp_params = params\<rparr>]\<rparr>"

definition is_lan :: "nat \<Rightarrow> hub \<Rightarrow> bool" where
  "is_lan client_id h = (case hm_get (hb_clients h) client_id of Some c \<Rightarrow> cl_lan c | None \<Rightarrow> False)"

definition send_to :: "nat \<Rightarrow> json \<Rightarrow> hub \<Rightarrow> hub" where
  "send_to client_id msg h =
     (case hm_get (hb_clients h) client_id of Some _ \<Rightarrow> emit [(client_id, msg)] h | None \<Rightarrow> h)"

definition broadcast_session :: "string \<Rightarrow> json \<Rightarrow> hub \<Rightarrow> hub" where
  "broadcast_session session_id msg h =
     emit (map (\<lambda>(cid, _). (cid, msg)) (filter (\<lambda>(_, c). session_id \<in> set (cl_subs c)) (hb_clients h))) h"

definition broadcast_all :: "json \<Rightarrow> hub \<Rightarrow> hub" where
  "broadcast_all msg h = emit (map (\<lambda>(cid, _). (cid, msg)) (hb_clients h)) h"

definition set_client :: "nat \<Rightarrow> (client \<Rightarrow> client) \<Rightarrow> hub \<Rightarrow> hub" where
  "set_client client_id f h =
     (case hm_get (hb_clients h) client_id of
        Some c \<Rightarrow> h\<lparr>hb_clients := hm_ins client_id (f c) (hb_clients h)\<rparr>
      | None \<Rightarrow> h)"

definition subscribe :: "nat \<Rightarrow> string \<Rightarrow> hub \<Rightarrow> hub" where
  "subscribe client_id session_id h =
     set_client client_id (\<lambda>c. c\<lparr>cl_subs := List.insert session_id (cl_subs c)\<rparr>) h"

definition subscribers :: "string \<Rightarrow> hub \<Rightarrow> nat list" where
  "subscribers session_id h =
     map fst (filter (\<lambda>(_, c). session_id \<in> set (cl_subs c)) (hb_clients h))"

definition next_perm_id :: "hub \<Rightarrow> hub \<times> string" where
  "next_perm_id h = (h\<lparr>hb_next_perm := hb_next_perm h + 1\<rparr>, ''hp-'' @ dec_of (hb_next_perm h))"

definition register_perm_route :: "string \<Rightarrow> string \<Rightarrow> hub \<Rightarrow> hub" where
  "register_perm_route hid session_id h =
     h\<lparr>hb_perm_routes := hm_ins hid session_id (hb_perm_routes h)\<rparr>"

definition clear_perm_routes :: "string list \<Rightarrow> hub \<Rightarrow> hub" where
  "clear_perm_routes ids h = h\<lparr>hb_perm_routes := fold hm_rem ids (hb_perm_routes h)\<rparr>"

section \<open>Devices\<close>

definition list_devices :: "hub \<Rightarrow> device_record list" where
  "list_devices h = sort_key dr_device_id (List.map_filter snd (hb_devices h))"

definition lookup_device_fp :: "hub_env \<Rightarrow> string \<Rightarrow> hub \<Rightarrow> device_record option" where
  "lookup_device_fp env fp h =
     find (\<lambda>d. dr_cert_sha256 d = fp \<and> dr_expires d > he_now env) (list_devices h)"

definition revoke_device :: "hub_env \<Rightarrow> string \<Rightarrow> hub \<Rightarrow> hub \<times> (string + bool)" where
  "revoke_device env device_id h =
     (case hm_get (hb_devices h) device_id of
        None \<Rightarrow> (h, Inr False)
      | Some _ \<Rightarrow>
          (case he_remove_error env device_id of
             Some e \<Rightarrow> (h, Inl e)
           | None \<Rightarrow> (h\<lparr>hb_devices := hm_rem device_id (hb_devices h)\<rparr>, Inr True)))"

definition hub_shutdown_msg :: "string \<Rightarrow> json" where
  "hub_shutdown_msg reason = rpc_notification ''gtm/hub.shutdown'' (JObj [(''reason'', JStr reason)])"

definition evict_one :: "string \<Rightarrow> nat \<Rightarrow> hub \<Rightarrow> hub" where
  "evict_one reason cid h =
     (case hm_get (hb_clients h) cid of
        Some _ \<Rightarrow> emit [(cid, hub_shutdown_msg reason)] (h\<lparr>hb_clients := hm_rem cid (hb_clients h)\<rparr>)
      | None \<Rightarrow> h)"

definition evict_fp :: "string \<Rightarrow> string \<Rightarrow> hub \<Rightarrow> hub" where
  "evict_fp fp reason h =
     fold (evict_one reason)
       (map fst (filter (\<lambda>(_, c). cl_device_fp c = Some fp) (hb_clients h))) h"

definition drop_device :: "string \<Rightarrow> hub \<Rightarrow> hub" where
  "drop_device fp h = evict_fp fp ''revoked'' h"

section \<open>The greeting\<close>

definition hello_check :: "hub_env \<Rightarrow> json \<Rightarrow> bool \<Rightarrow> string option \<Rightarrow> hub \<Rightarrow> rpc_err + string" where
  "hello_check env params lan device_fp h =
     (let kind = unwrap_or [] (jpointer_str [''client'', ''kind''] params);
          version = unwrap_or 0 (Option.bind (jpointer [''protocolVersion''] params) as_u64)
      in if kind \<notin> {''macos'', ''tui'', ''stdio'', ''ios'', ''android''}
         then Inl (rpc_error_new (-32602) (''unknown client kind '' @ kind))
         else if lan \<and> kind \<notin> {''ios'', ''android''}
         then Inl (rpc_error_new (-32000) ''LAN listener only accepts ios/android clients'')
         else if \<not> lan \<and> kind \<in> {''ios'', ''android''}
         then Inl (rpc_error_new (-32000) ''mobile clients must use the TLS listener'')
         else if lan \<and> device_fp = None
         then Inl (rpc_error_new (-32000) ''missing device certificate'')
         else if lan \<and> lookup_device_fp env (the device_fp) h = None
         then Inl (rpc_error_new (-32000) ''device not enrolled or expired'')
         else if version \<noteq> PROTOCOL_VERSION
         then Inl (rpc_error_new (-32000) (''unsupported protocolVersion '' @ dec_of version))
         else Inr kind)"

definition hello ::
    "hub_env \<Rightarrow> json \<Rightarrow> bool \<Rightarrow> string option \<Rightarrow> hub \<Rightarrow> hub \<times> (rpc_err + nat \<times> json)" where
  "hello env params lan device_fp h =
     (case hello_check env params lan device_fp h of
        Inl e \<Rightarrow> (h, Inl e)
      | Inr kind \<Rightarrow>
          (let h = (case device_fp of Some fp \<Rightarrow> if lan then evict_fp fp ''replaced'' h else h | None \<Rightarrow> h);
               n = length (filter (\<lambda>(_, c). cl_lan c = lan) (hb_clients h));
               cap = (if lan then LAN_CONN_MAX else LOCAL_CONN_MAX)
           in if n \<ge> cap then (h, Inl (rpc_error_new (-32001) ''too many connections''))
              else
                let cid = hb_next_client h;
                    h = h\<lparr>hb_next_client := cid + 1,
                          hb_clients := hm_ins cid \<lparr>cl_subs = [], cl_lan = lan, cl_device_fp = device_fp\<rparr>
                            (hb_clients h)\<rparr>
                in (h, Inr (cid, JObj [(''clientId'', JInt (int cid)), (''hubVersion'', JStr (he_version env)),
                      (''protocolVersion'', JInt (int PROTOCOL_VERSION)),
                      (''transport'', JStr (if lan then ''lan'' else ''unix'')), (''kind'', JStr kind)]))))"

section \<open>Sessions\<close>

definition sessions_changed :: "string \<Rightarrow> bool \<Rightarrow> (string \<times> json) list \<Rightarrow> json" where
  "sessions_changed sid live extra =
     rpc_notification ''gtm/sessions.changed'' (JObj ([(''id'', JStr sid), (''live'', JBool live)] @ extra))"

definition host_client :: "string \<Rightarrow> hub \<Rightarrow> nat option" where
  "host_client sid h =
     (case hm_get (hb_sessions h) sid of Some (Hosted s) \<Rightarrow> Some (hs_client_id s) | _ \<Rightarrow> None)"

definition is_host :: "nat \<Rightarrow> string \<Rightarrow> hub \<Rightarrow> bool" where
  "is_host client_id sid h \<longleftrightarrow> host_client sid h = Some client_id"

definition actor_for :: "string \<Rightarrow> hub \<Rightarrow> actor_handle option" where
  "actor_for sid h =
     (case hm_get (hb_sessions h) sid of Some (Live s) \<Rightarrow> Some (sl_actor s) | _ \<Rightarrow> None)"

text \<open>The session the client hosts, when it hosts exactly one.\<close>

definition hosted_sid_for_client :: "nat \<Rightarrow> hub \<Rightarrow> string option" where
  "hosted_sid_for_client client_id h =
     (case filter (\<lambda>(_, e). case e of Hosted s \<Rightarrow> hs_client_id s = client_id | _ \<Rightarrow> False) (hb_sessions h) of
        [(sid, _)] \<Rightarrow> Some sid
      | _ \<Rightarrow> None)"

definition reply_waiter :: "string \<Rightarrow> json \<Rightarrow> nat \<times> json \<Rightarrow> hub \<Rightarrow> hub" where
  "reply_waiter sid result w h =
     (case w of (cid, id_val) \<Rightarrow> send_to cid (rpc_result id_val result) (subscribe cid sid h))"

definition complete_session ::
    "string \<Rightarrow> string option \<Rightarrow> string \<Rightarrow> json \<Rightarrow> actor_handle \<Rightarrow> (nat \<times> json) option \<Rightarrow> hub \<Rightarrow> hub" where
  "complete_session sid cwd title result actor origin h =
     (case hm_get (hb_sessions h) sid of
        Some (Hosted _) \<Rightarrow> actor_send actor Shutdown h
      | e \<Rightarrow>
          (let waiters = (case e of Some (Starting ws) \<Rightarrow> ws | _ \<Rightarrow> []);
               h = h\<lparr>hb_sessions := hm_ins sid (Live \<lparr>sl_cwd = cwd, sl_title = title,
                       sl_new_result = result, sl_actor = actor\<rparr>) (hb_sessions h)\<rparr>;
               replies = (case origin of
                   Some w \<Rightarrow> if w \<in> set waiters then waiters else waiters @ [w]
                 | None \<Rightarrow> waiters);
               h = fold (reply_waiter sid result) replies h
           in broadcast_all (sessions_changed sid True []) h))"

fun fail_replies :: "hub_env \<Rightarrow> rpc_err \<Rightarrow> string list \<Rightarrow> (nat \<times> json) list \<Rightarrow> hub \<Rightarrow> hub" where
  "fail_replies env err seen [] h = h"
| "fail_replies env err seen ((cid, id_val) # ws) h =
     (let key = dec_of cid @ '':'' @ he_to_str env id_val
      in if key \<in> set seen then fail_replies env err seen ws h
         else fail_replies env err (key # seen) ws (send_to cid (to_msg err id_val) h))"

definition fail_session ::
    "hub_env \<Rightarrow> string option \<Rightarrow> nat \<Rightarrow> json \<Rightarrow> rpc_err \<Rightarrow> hub \<Rightarrow> hub" where
  "fail_session env sid origin_client origin_id err h =
     (case sid of
        None \<Rightarrow> fail_replies env err [] [(origin_client, origin_id)] h
      | Some sid \<Rightarrow>
          (let waiters = (case hm_get (hb_sessions h) sid of
                 Some (Starting ws) \<Rightarrow> ws | _ \<Rightarrow> [(origin_client, origin_id)])
           in fail_replies env err [] waiters (h\<lparr>hb_sessions := hm_rem sid (hb_sessions h)\<rparr>)))"

definition remove_session :: "string \<Rightarrow> hub \<Rightarrow> hub" where
  "remove_session sid h =
     broadcast_all (sessions_changed sid False [(''reason'', JStr ''actor_exit'')])
       (h\<lparr>hb_sessions := hm_rem sid (hb_sessions h)\<rparr>)"

definition session_list_card :: "string \<times> entry \<Rightarrow> json" where
  "session_list_card se =
     (case se of (sid, e) \<Rightarrow>
      (case e of
         Live s \<Rightarrow> JObj [(''id'', JStr sid), (''title'', JStr (sl_title s)), (''live'', JBool True),
                        (''hosted'', JBool False), (''cwd'', jopt_str (sl_cwd s))]
       | Hosted s \<Rightarrow> JObj [(''id'', JStr sid), (''title'', JStr (hs_title s)), (''live'', JBool True),
                          (''hosted'', JBool True), (''cwd'', jopt_str (hs_cwd s))]
       | Starting _ \<Rightarrow> JObj [(''id'', JStr sid), (''title'', JStr []), (''live'', JBool True), (''cwd'', JNull)]))"

definition list_sessions :: "hub_env \<Rightarrow> hub \<Rightarrow> json list" where
  "list_sessions env h =
     merge_live (map session_list_card (hb_sessions h))
       (list_disk_sessions_in (he_from_str env) (he_is_utf8 env) (he_root env))"

section \<open>Hosting\<close>

definition fail_hosted_one :: "hub_env \<Rightarrow> string \<times> hosted_prompt \<Rightarrow> hub \<Rightarrow> hub" where
  "fail_hosted_one env kp h =
     (case kp of (key, p) \<Rightarrow>
      send_to (hp_origin p)
        (to_msg (rpc_error_new (-32012) ''TUI session host disconnected'')
          (unwrap_or JNull (he_from_str env key))) h)"

definition fail_hosted_prompts_for_host :: "hub_env \<Rightarrow> nat \<Rightarrow> hub \<Rightarrow> hub" where
  "fail_hosted_prompts_for_host env host h =
     (let pending = filter (\<lambda>(_, p). hp_host p = host) (hb_hosted_prompts h);
          h = h\<lparr>hb_hosted_prompts := filter (\<lambda>(_, p). hp_host p \<noteq> host) (hb_hosted_prompts h)\<rparr>
      in fold (fail_hosted_one env) pending h)"

definition param_str :: "string \<Rightarrow> json \<Rightarrow> string option" where
  "param_str k params = nonempty (jget_str k params)"

definition host_req :: "hub_env \<Rightarrow> nat \<Rightarrow> json \<Rightarrow> hub \<Rightarrow> hub \<times> dispatch" where
  "host_req env client_id params h =
     (if is_lan client_id h
      then (h, Reply (Inl (rpc_error_new (-32000) ''gtm/sessions.host is local-only'')))
      else case param_str ''sessionId'' params of
        None \<Rightarrow> (h, Reply (Inl (rpc_error_new (-32602) ''sessionId required'')))
      | Some sid \<Rightarrow>
          (let cwd = or_else (param_str ''cwd'' params)
                       (lookup_cwd (he_from_str env) (he_is_utf8 env) (he_root env) sid);
               title = unwrap_or [] (or_else (param_str ''title'' params)
                       (lookup_title (he_from_str env) (he_root env) sid));
               old = hm_get (hb_sessions h) sid;
               waiters = (case old of Some (Starting ws) \<Rightarrow> ws | _ \<Rightarrow> []);
               takeover = (case old of Some (Live s) \<Rightarrow> Some (sl_actor s) | _ \<Rightarrow> None);
               replaced_host = (case old of
                   Some (Hosted s) \<Rightarrow> if hs_client_id s \<noteq> client_id then Some (hs_client_id s) else None
                 | _ \<Rightarrow> None);
               h = h\<lparr>hb_sessions := hm_ins sid (Hosted \<lparr>hs_client_id = client_id, hs_cwd = cwd, hs_title = title\<rparr>)
                       (hm_rem sid (hb_sessions h))\<rparr>;
               h = (case replaced_host of Some c \<Rightarrow> fail_hosted_prompts_for_host env c h | None \<Rightarrow> h);
               h = (case takeover of Some actor \<Rightarrow> actor_send actor Shutdown h | None \<Rightarrow> h);
               hosted_result = JObj [(''sessionId'', JStr sid), (''title'', JStr title), (''cwd'', jopt_str cwd)];
               h = fold (reply_waiter sid hosted_result) waiters h;
               h = broadcast_all (sessions_changed sid True [(''hosted'', JBool True)]) h
           in (h, Reply (Inr (JObj [(''ok'', JBool True), (''sessionId'', JStr sid), (''cwd'', jopt_str cwd),
                 (''title'', JStr title), (''tookOver'', JBool (takeover \<noteq> None))])))))"

definition unhost_if_owner :: "hub_env \<Rightarrow> nat \<Rightarrow> string \<Rightarrow> hub \<Rightarrow> hub" where
  "unhost_if_owner env client_id sid h =
     (if is_host client_id sid h then
        broadcast_all (sessions_changed sid False [(''reason'', JStr ''unhost'')])
          (fail_hosted_prompts_for_host env client_id
            (h\<lparr>hb_sessions := hm_rem sid (hb_sessions h)\<rparr>))
      else h)"

definition unhost_req :: "hub_env \<Rightarrow> nat \<Rightarrow> json \<Rightarrow> hub \<Rightarrow> hub \<times> dispatch" where
  "unhost_req env client_id params h =
     (case param_str ''sessionId'' params of
        None \<Rightarrow> (h, Reply (Inl (rpc_error_new (-32602) ''sessionId required'')))
      | Some sid \<Rightarrow>
          (unhost_if_owner env client_id sid h,
           Reply (Inr (JObj [(''ok'', JBool True), (''sessionId'', JStr sid)]))))"

definition drop_host_client :: "hub_env \<Rightarrow> nat \<Rightarrow> hub \<Rightarrow> hub" where
  "drop_host_client env client_id h =
     (let sids = map fst (filter (\<lambda>(_, e). case e of Hosted s \<Rightarrow> hs_client_id s = client_id | _ \<Rightarrow> False)
                   (hb_sessions h))
      in fail_hosted_prompts_for_host env client_id (fold (unhost_if_owner env client_id) sids h))"

definition disconnect :: "hub_env \<Rightarrow> nat \<Rightarrow> hub \<Rightarrow> hub" where
  "disconnect env client_id h =
     drop_host_client env client_id (h\<lparr>hb_clients := hm_rem client_id (hb_clients h)\<rparr>)"

definition shutdown :: "hub \<Rightarrow> hub" where
  "shutdown h =
     (let actors = List.map_filter (\<lambda>(_, e). case e of Live s \<Rightarrow> Some (sl_actor s) | _ \<Rightarrow> None) (hb_sessions h);
          h = fold (\<lambda>a. actor_send a Shutdown) actors (h\<lparr>hb_sessions := []\<rparr>)
      in h\<lparr>hb_clients := []\<rparr>)"

section \<open>Prompts, cancels, attachments\<close>

definition rpc_id_key :: "hub_env \<Rightarrow> json \<Rightarrow> string" where
  "rpc_id_key env id_val = he_to_str env id_val"

definition extract_prompt_text :: "json \<Rightarrow> string option" where
  "extract_prompt_text params =
     (case jget ''prompt'' params of
        None \<Rightarrow> None
      | Some (JStr s) \<Rightarrow> nonempty (Some (trim s))
      | Some (JArr arr) \<Rightarrow> nonempty (Some (trim (concat (block_texts arr))))
      | Some _ \<Rightarrow> None)"

definition is_session_method :: "string \<Rightarrow> bool" where
  "is_session_method m \<longleftrightarrow>
     starts_with m ''session/'' \<or> starts_with m ''x.ai/'' \<or> starts_with m ''_x.ai/''"

definition lan_method_allowed :: "string \<Rightarrow> bool" where
  "lan_method_allowed m \<longleftrightarrow>
     m \<in> {''initialize'', ''gtm/ping'', ''gtm/hub.info'', ''gtm/sessions.list'', ''gtm/sessions.subscribe'',
          ''gtm/sessions.unsubscribe'', ''gtm/session.history'', ''session/load'', ''session/resume'',
          ''session/prompt'', ''session/cancel'', ''session/set_mode'', ''session/set_model''} \<or>
     starts_with m ''x.ai/'' \<or> starts_with m ''_x.ai/''"

definition forward_to_actor :: "nat \<Rightarrow> json \<Rightarrow> string \<Rightarrow> json \<Rightarrow> hub \<Rightarrow> hub \<times> dispatch" where
  "forward_to_actor client_id id_val name params h =
     (case jget_str ''sessionId'' params of
        None \<Rightarrow> (h, Reply (Inl (rpc_error_new (-32602) (name @ '' requires sessionId''))))
      | Some sid \<Rightarrow>
          (case actor_for sid h of
             None \<Rightarrow> (h, Reply (Inl (rpc_error_new (-32012) (''no live session '' @ sid))))
           | Some actor \<Rightarrow> (actor_send actor (Rpc client_id id_val name params) h, ReplyPending)))"

definition user_message_update :: "string \<Rightarrow> string \<Rightarrow> json" where
  "user_message_update sid text =
     rpc_notification ''session/update'' (JObj [(''sessionId'', JStr sid),
       (''update'', JObj [(''sessionUpdate'', JStr ''user_message_chunk''),
         (''content'', JObj [(''type'', JStr ''text''), (''text'', JStr text)])])])"

definition session_prompt :: "hub_env \<Rightarrow> nat \<Rightarrow> json \<Rightarrow> json \<Rightarrow> hub \<Rightarrow> hub \<times> dispatch" where
  "session_prompt env client_id id_val params h =
     (case jget_str ''sessionId'' params of
        None \<Rightarrow> (h, Reply (Inl (rpc_error_new (-32602) ''session/prompt requires sessionId'')))
      | Some sid \<Rightarrow>
          (case host_client sid h of
             Some host \<Rightarrow>
               if host = client_id
               then (h, Reply (Inl (rpc_error_new (-32000) ''host client already owns this session'')))
               else
                 let h = subscribe client_id sid h;
                     h = h\<lparr>hb_hosted_prompts := hm_ins (rpc_id_key env id_val)
                           \<lparr>hp_origin = client_id, hp_host = host\<rparr> (hb_hosted_prompts h)\<rparr>;
                     h = (case extract_prompt_text params of
                            Some text \<Rightarrow> broadcast_session sid (user_message_update sid text) h
                          | None \<Rightarrow> h)
                 in (send_to host (rpc_request id_val ''session/prompt'' params) h, ReplyPending)
           | None \<Rightarrow> forward_to_actor client_id id_val ''session/prompt'' params h))"

definition session_cancel :: "nat \<Rightarrow> json \<Rightarrow> json \<Rightarrow> hub \<Rightarrow> hub \<times> dispatch" where
  "session_cancel client_id id_val params h =
     (case jget_str ''sessionId'' params of
        None \<Rightarrow> (h, Reply (Inl (rpc_error_new (-32602) ''session/cancel requires sessionId'')))
      | Some sid \<Rightarrow>
          (case host_client sid h of
             Some host \<Rightarrow>
               (send_to host (rpc_notification ''session/cancel'' params) h, Reply (Inr (JObj [])))
           | None \<Rightarrow> forward_to_actor client_id id_val ''session/cancel'' params h))"

definition session_new :: "nat \<Rightarrow> json \<Rightarrow> json \<Rightarrow> hub \<Rightarrow> hub \<times> dispatch" where
  "session_new client_id id_val params h =
     (if param_str ''cwd'' params = None
      then (h, Reply (Inl (rpc_error_new (-32602) ''session/new requires cwd'')))
      else (actor_spawn New client_id id_val params h, ReplyPending))"

definition session_attach :: "hub_env \<Rightarrow> nat \<Rightarrow> json \<Rightarrow> start \<Rightarrow> json \<Rightarrow> hub \<Rightarrow> hub \<times> dispatch" where
  "session_attach env client_id id_val start params h =
     (case param_str ''sessionId'' params of
        None \<Rightarrow> (h, Reply (Inl (rpc_error_new (-32602) ''session/load requires sessionId'')))
      | Some sid \<Rightarrow>
          (let params = (if param_str ''cwd'' params = None then
                 (case lookup_cwd (he_from_str env) (he_is_utf8 env) (he_root env) sid of
                    Some cwd \<Rightarrow> jset ''cwd'' (JStr cwd) params | None \<Rightarrow> params)
               else params)
           in if param_str ''cwd'' params = None
              then (h, Reply (Inl (rpc_error_new (-32602) (''session/load '' @ sid @ '' is missing cwd''))))
              else case hm_get (hb_sessions h) sid of
                  Some (Live s) \<Rightarrow> (subscribe client_id sid h, Reply (Inr (sl_new_result s)))
                | Some (Hosted s) \<Rightarrow>
                    (subscribe client_id sid h,
                     Reply (Inr (JObj [(''sessionId'', JStr sid), (''title'', JStr (hs_title s)),
                       (''cwd'', jopt_str (hs_cwd s)), (''hosted'', JBool True)])))
                | Some (Starting ws) \<Rightarrow>
                    (h\<lparr>hb_sessions := hm_ins sid (Starting (ws @ [(client_id, id_val)])) (hb_sessions h)\<rparr>, ReplyPending)
                | None \<Rightarrow>
                    (actor_spawn start client_id id_val params
                      (h\<lparr>hb_sessions := hm_ins sid (Starting [(client_id, id_val)]) (hb_sessions h)\<rparr>), ReplyPending)))"

definition session_history_req :: "hub_env \<Rightarrow> json \<Rightarrow> hub \<Rightarrow> hub \<times> dispatch" where
  "session_history_req env params h =
     (case param_str ''sessionId'' params of
        None \<Rightarrow> (h, Reply (Inl (rpc_error_new (-32602) ''sessionId required'')))
      | Some sid \<Rightarrow>
          (let limit = unwrap_or HISTORY_DEFAULT (jget_u64 ''limit'' params);
               messages = unwrap_or [] (session_history (he_from_str env) (he_to_str env) (he_root env) sid limit)
           in (h, Reply (Inr (JObj [(''sessionId'', JStr sid), (''messages'', JArr messages)])))))"

definition subscribe_req :: "nat \<Rightarrow> json \<Rightarrow> hub \<Rightarrow> hub \<times> dispatch" where
  "subscribe_req client_id params h =
     (case jget_str ''sessionId'' params of
        None \<Rightarrow> (h, Reply (Inl (rpc_error_new (-32602) ''subscribe requires sessionId'')))
      | Some sid \<Rightarrow>
          (let h = subscribe client_id sid h;
               live = (actor_for sid h \<noteq> None \<or> host_client sid h \<noteq> None)
           in (h, Reply (Inr (JObj [(''ok'', JBool True), (''live'', JBool live)])))))"

definition unsubscribe_req :: "nat \<Rightarrow> json \<Rightarrow> hub \<Rightarrow> hub \<times> dispatch" where
  "unsubscribe_req client_id params h =
     (case jget_str ''sessionId'' params of
        None \<Rightarrow> (h, Reply (Inl (rpc_error_new (-32602) ''unsubscribe requires sessionId'')))
      | Some sid \<Rightarrow>
          (set_client client_id (\<lambda>c. c\<lparr>cl_subs := removeAll sid (cl_subs c)\<rparr>) h,
           Reply (Inr (JObj [(''ok'', JBool True)]))))"

section \<open>Information and remote control\<close>

definition bind_address :: "nat \<Rightarrow> string" where
  "bind_address port = ''0.0.0.0:'' @ dec_of port"

definition lan_bind :: "lan_want \<Rightarrow> json" where
  "lan_bind lan = (if lw_enabled lan then JStr (bind_address (lw_port lan)) else JNull)"

definition info_card :: "string \<times> entry \<Rightarrow> json" where
  "info_card se =
     (case se of (sid, e) \<Rightarrow>
      (case e of
         Live s \<Rightarrow> JObj [(''id'', JStr sid), (''hosted'', JBool False), (''title'', JStr (sl_title s)),
                        (''cwd'', jopt_str (sl_cwd s))]
       | Hosted s \<Rightarrow> JObj [(''id'', JStr sid), (''hosted'', JBool True), (''title'', JStr (hs_title s)),
                          (''cwd'', jopt_str (hs_cwd s))]
       | Starting _ \<Rightarrow> JObj [(''id'', JStr sid), (''hosted'', JBool False), (''starting'', JBool True)]))"

definition hub_info_value :: "hub_env \<Rightarrow> hub \<Rightarrow> json" where
  "hub_info_value env h =
     JObj [(''pid'', JInt (int (he_pid env))), (''socket'', JStr (he_socket env)),
       (''protocolVersion'', JInt (int PROTOCOL_VERSION)), (''running'', JBool True),
       (''lan'', JBool (lw_enabled (hb_lan h))), (''lanBind'', lan_bind (hb_lan h)),
       (''live'', JArr (map info_card (hb_sessions h)))]"

definition remote_status_value :: "hub_env \<Rightarrow> hub \<Rightarrow> json" where
  "remote_status_value env h =
     JObj [(''lan'', JBool (lw_enabled (hb_lan h))), (''port'', JInt (int (lw_port (hb_lan h)))),
       (''bind'', lan_bind (hb_lan h)), (''devices'', JInt (int (length (list_devices h)))),
       (''host'', JStr (he_guess_host env))]"

definition port_param :: "json \<Rightarrow> nat option" where
  "port_param params =
     (case jget_u64 ''port'' params of
        Some n \<Rightarrow> if n \<le> 65535 \<and> n > 0 then Some n else None
      | None \<Rightarrow> None)"

text \<open>What is wanted of the LAN listener changes only while something watches it.\<close>

definition send_lan :: "hub_env \<Rightarrow> lan_want \<Rightarrow> hub \<Rightarrow> hub" where
  "send_lan env want h = (if he_lan_watched env then h\<lparr>hb_lan := want\<rparr> else h)"

definition remote_on :: "hub_env \<Rightarrow> nat \<Rightarrow> json \<Rightarrow> hub \<Rightarrow> hub \<times> dispatch" where
  "remote_on env client_id params h =
     (if is_lan client_id h
      then (h, Reply (Inl (rpc_error_new (-32000) ''gtm/remote.on is local-only'')))
      else
        let port = unwrap_or (he_lan_port env) (port_param params)
        in case he_materials env of
             Inl err \<Rightarrow> (h, Reply (Inl (rpc_error_new (-32011) err)))
           | Inr _ \<Rightarrow>
               (send_lan env \<lparr>lw_enabled = True, lw_port = port\<rparr> h,
                Reply (Inr (JObj [(''lan'', JBool True), (''port'', JInt (int port)),
                  (''bind'', JStr (bind_address port)), (''host'', JStr (he_guess_host env)),
                  (''alpn'', JStr ALPN)]))))"

definition remote_off :: "hub_env \<Rightarrow> nat \<Rightarrow> hub \<Rightarrow> hub \<times> dispatch" where
  "remote_off env client_id h =
     (if is_lan client_id h
      then (h, Reply (Inl (rpc_error_new (-32000) ''gtm/remote.off is local-only'')))
      else (send_lan env \<lparr>lw_enabled = False, lw_port = lw_port (hb_lan h)\<rparr> h,
            Reply (Inr (JObj [(''lan'', JBool False)]))))"

definition remote_revoke :: "hub_env \<Rightarrow> nat \<Rightarrow> json \<Rightarrow> hub \<Rightarrow> hub \<times> dispatch" where
  "remote_revoke env client_id params h =
     (if is_lan client_id h
      then (h, Reply (Inl (rpc_error_new (-32000) ''gtm/remote.revoke is local-only'')))
      else case jget_str ''deviceId'' params of
        None \<Rightarrow> (h, Reply (Inl (rpc_error_new (-32602) ''deviceId required'')))
      | Some device_id \<Rightarrow>
          (let rec = find (\<lambda>d. dr_device_id d = device_id) (list_devices h)
           in case revoke_device env device_id h of
                (h, Inr True) \<Rightarrow>
                  ((case rec of Some d \<Rightarrow> drop_device (dr_cert_sha256 d) h | None \<Rightarrow> h),
                   Reply (Inr (JObj [(''ok'', JBool True), (''deviceId'', JStr device_id)])))
              | (h, Inr False) \<Rightarrow> (h, Reply (Inl (rpc_error_new (-32602) ''unknown device'')))
              | (h, Inl err) \<Rightarrow> (h, Reply (Inl (rpc_error_new (-32011) err)))))"

section \<open>The three entry points\<close>

definition initialize_result :: "hub_env \<Rightarrow> json" where
  "initialize_result env =
     (let info = JObj [(''name'', JStr ''gtm-hub''), (''version'', JStr (he_version env))]
      in JObj [(''protocolVersion'', JInt 1), (''serverInfo'', info), (''agentInfo'', info),
           (''agentCapabilities'', JObj [(''loadSession'', JBool True), (''resumeSession'', JBool True)])])"

definition handle_request :: "hub_env \<Rightarrow> nat \<Rightarrow> json \<Rightarrow> string \<Rightarrow> json \<Rightarrow> hub \<Rightarrow> hub \<times> dispatch" where
  "handle_request env client_id id_val name params h =
     (if is_lan client_id h \<and> \<not> lan_method_allowed name
      then (h, Reply (Inl (rpc_error_new (-32000) (name @ '' is not allowed on LAN''))))
      else if name = ''gtm/hello'' then (h, Reply (Inl (rpc_error_new (-32000) ''gtm/hello already completed'')))
      else if name = ''gtm/ping'' then (h, Reply (Inr (JObj [(''ok'', JBool True)])))
      else if name = ''gtm/hub.info'' then (h, Reply (Inr (hub_info_value env h)))
      else if name = ''gtm/remote.status'' then (h, Reply (Inr (remote_status_value env h)))
      else if name = ''gtm/remote.on'' then remote_on env client_id params h
      else if name = ''gtm/remote.off'' then remote_off env client_id h
      else if name = ''gtm/remote.revoke'' then remote_revoke env client_id params h
      else if name = ''gtm/sessions.list''
        then (h, Reply (Inr (JObj [(''sessions'', JArr (list_sessions env h))])))
      else if name = ''gtm/sessions.subscribe'' then subscribe_req client_id params h
      else if name = ''gtm/sessions.unsubscribe'' then unsubscribe_req client_id params h
      else if name = ''gtm/sessions.host'' then host_req env client_id params h
      else if name = ''gtm/sessions.unhost'' then unhost_req env client_id params h
      else if name = ''gtm/session.history'' then session_history_req env params h
      else if name = ''initialize'' then (h, Reply (Inr (initialize_result env)))
      else if name = ''session/new'' then session_new client_id id_val params h
      else if name = ''session/load'' then session_attach env client_id id_val Load params h
      else if name = ''session/resume'' then session_attach env client_id id_val Resume params h
      else if name = ''session/prompt'' then session_prompt env client_id id_val params h
      else if name = ''session/cancel'' then session_cancel client_id id_val params h
      else if is_session_method name then forward_to_actor client_id id_val name params h
      else (h, Reply (Inl (rpc_error_new (-32601) (''method not found: '' @ name)))))"

definition is_update_method :: "string \<Rightarrow> bool" where
  "is_update_method name \<longleftrightarrow>
     name = ''session/update'' \<or> name = ''x.ai/session/update'' \<or> name = ''x.ai/session_notification''"

text \<open>The session an update is fanned out to, when the sender may send it.\<close>

definition update_target :: "nat \<Rightarrow> string \<Rightarrow> json \<Rightarrow> hub \<Rightarrow> string option" where
  "update_target client_id name params h =
     (if is_update_method name then
        (case or_else (jfirst_str [''sessionId'', ''session_id''] params) (hosted_sid_for_client client_id h) of
           Some sid \<Rightarrow>
             if is_host client_id sid h \<or> (host_client sid h \<noteq> None \<and> \<not> is_lan client_id h)
             then Some sid else None
         | None \<Rightarrow> None)
      else None)"

definition handle_notification :: "nat \<Rightarrow> string \<Rightarrow> json \<Rightarrow> hub \<Rightarrow> hub" where
  "handle_notification client_id name params h =
     (case update_target client_id name params h of
        Some sid \<Rightarrow>
          (let params = (if jget ''sessionId'' params = None then jset ''sessionId'' (JStr sid) params else params)
           in broadcast_session sid (rpc_notification ''session/update'' params) h)
      | None \<Rightarrow>
          if name = ''session/cancel'' \<or> is_session_method name then
            (case jget_str ''sessionId'' params of
               None \<Rightarrow> h
             | Some sid \<Rightarrow>
                 (case actor_for sid h of
                    None \<Rightarrow> h
                  | Some actor \<Rightarrow> actor_send actor (Notify name params) h))
          else h)"

definition handle_client_reply ::
    "hub_env \<Rightarrow> nat \<Rightarrow> json \<Rightarrow> json option \<Rightarrow> json option \<Rightarrow> hub \<Rightarrow> hub" where
  "handle_client_reply env client_id id_val result error h =
     (let hosted_key = rpc_id_key env id_val
      in case hm_get (hb_hosted_prompts h) hosted_key of
           Some pending \<Rightarrow>
             (let h = h\<lparr>hb_hosted_prompts := hm_rem hosted_key (hb_hosted_prompts h)\<rparr>
              in send_to (hp_origin pending)
                   (case error of
                      Some e \<Rightarrow> JObj [(''jsonrpc'', JStr ''2.0''), (''id'', id_val), (''error'', e)]
                    | None \<Rightarrow> rpc_result id_val (unwrap_or (JObj []) result)) h)
         | None \<Rightarrow>
             (let key = unwrap_or [] (as_str id_val)
              in case hm_get (hb_perm_routes h) key of
                   None \<Rightarrow> h
                 | Some sid \<Rightarrow>
                     (case actor_for sid h of
                        None \<Rightarrow> h
                      | Some actor \<Rightarrow> actor_send actor (ClientReply id_val result error) h)))"

end
