(* ===== verification/HubActor.thy ===== *)
theory HubActor imports Hub begin

text \<open>
  The actor of one live session (\<^verbatim>\<open>crates/codegen/gtm-hub/src/actor.rs\<close>): it boots an agent
  process, forwards the requests of the clients to it one prompt at a time, fans its messages out,
  and arbitrates permission requests between the subscribed clients. The agent is what the actor
  has written to it, its request counter, and whether its pipe still takes writes; what it prints
  arrives as events. A step works on the hub and the actor and runs to its end.
\<close>

section \<open>State\<close>

definition SPAWN_FAILED :: int where
  "SPAWN_FAILED = -32011"

definition ALREADY_RESOLVED :: int where
  "ALREADY_RESOLVED = -32013"

record agent_conn =
  ag_next_id :: int
  ag_out :: "json list"
  ag_broken :: "string option"

datatype pending_kind = Prompt | Other

record pending =
  pd_client_id :: nat
  pd_rpc_id :: json
  pd_kind :: pending_kind

record queued_prompt =
  qp_client_id :: nat
  qp_rpc_id :: json
  qp_params :: json

record perm_state =
  pm_agent_id :: json
  pm_session_id :: string
  pm_client_ids :: "(string, nat) hmap"
  pm_resolved :: bool
  pm_dangerous :: bool

record actor =
  ac_sid :: string
  ac_agent :: agent_conn
  ac_pending :: "(int, pending) hmap"
  ac_queue :: "queued_prompt list"
  ac_inflight :: bool
  ac_perm :: "perm_state option"

text \<open>Counters are numbers that do not reach \<open>2\<^sup>6\<^sup>3\<close>.\<close>

definition next_rpc_id :: "agent_conn \<Rightarrow> agent_conn \<times> int" where
  "next_rpc_id ag = (ag\<lparr>ag_next_id := ag_next_id ag + 1\<rparr>, ag_next_id ag)"

definition write_msg :: "json \<Rightarrow> agent_conn \<Rightarrow> agent_conn \<times> (string + unit)" where
  "write_msg msg ag =
     (case ag_broken ag of
        Some e \<Rightarrow> (ag, Inl e)
      | None \<Rightarrow> (ag\<lparr>ag_out := ag_out ag @ [msg]\<rparr>, Inr ()))"

text \<open>\<^verbatim>\<open>let _ = agent.write_msg(..)\<close>\<close>

definition write_ignored :: "json \<Rightarrow> actor \<Rightarrow> actor" where
  "write_ignored msg a = a\<lparr>ac_agent := fst (write_msg msg (ac_agent a))\<rparr>"

definition to_agent_method :: "string \<Rightarrow> string" where
  "to_agent_method m =
     (case strip_prefix ''x.ai/'' m of Some rest \<Rightarrow> ''_x.ai/'' @ rest | None \<Rightarrow> m)"

section \<open>Booting\<close>

record boot_state =
  bs_id :: int
  bs_sid :: "string option"
  bs_buffered :: "json list"

datatype boot_progress = Booting boot_state | BootError string | BootResult json

definition start_method :: "start \<Rightarrow> string" where
  "start_method s = (case s of New \<Rightarrow> ''session/new'' | Load \<Rightarrow> ''session/load'' | Resume \<Rightarrow> ''session/resume'')"

definition initialize_msg :: "hub_env \<Rightarrow> int \<Rightarrow> json" where
  "initialize_msg env i =
     rpc_request (JInt i) ''initialize'' (JObj [(''protocolVersion'', JInt 1),
       (''clientCapabilities'', JObj [(''fs'', JObj [(''readTextFile'', JBool False),
         (''writeTextFile'', JBool False)])]),
       (''clientInfo'', JObj [(''name'', JStr ''gtm-hub''), (''title'', JStr ''Grok to Mars hub''),
         (''version'', JStr (he_version env))])])"

definition error_message :: "string \<Rightarrow> json \<Rightarrow> string" where
  "error_message fallback err = unwrap_or fallback (jget_str ''message'' err)"

text \<open>One message while waiting for the answer to \<open>id\<close>: nothing yet, an error or the result.\<close>

definition wait_response_msg :: "int \<Rightarrow> json \<Rightarrow> (string + json) option" where
  "wait_response_msg i msg =
     (if jget ''id'' msg = Some (JInt i) then
        (case jget ''error'' msg of
           Some err \<Rightarrow> Some (Inl (error_message ''agent error'' err))
         | None \<Rightarrow> Some (Inr (unwrap_or (JObj []) (jget ''result'' msg))))
      else None)"

text \<open>The start of the boot: the handshake request on a fresh agent.\<close>

definition boot_initialize :: "hub_env \<Rightarrow> agent_conn \<Rightarrow> agent_conn \<times> int \<times> (string + unit)" where
  "boot_initialize env ag =
     (let (ag, init_id) = next_rpc_id ag; (ag, r) = write_msg (initialize_msg env init_id) ag
      in (ag, init_id, r))"

text \<open>After the handshake: the origin is subscribed and the session request is written.\<close>

definition boot_session ::
    "spawn_request \<Rightarrow> agent_conn \<Rightarrow> hub \<Rightarrow> hub \<times> agent_conn \<times> (string + boot_state)" where
  "boot_session sp ag h =
     (let known_sid = jget_str ''sessionId'' (sp_params sp);
          h = (case known_sid of Some sid \<Rightarrow> subscribe (sp_origin_client sp) sid h | None \<Rightarrow> h);
          (ag, boot_id) = next_rpc_id ag;
          (ag, r) = write_msg (rpc_request (JInt boot_id) (start_method (sp_start sp)) (sp_params sp)) ag
      in (h, ag, case r of Inl e \<Rightarrow> Inl e
            | Inr _ \<Rightarrow> Inr \<lparr>bs_id = boot_id, bs_sid = known_sid, bs_buffered = []\<rparr>))"

definition boot_msg :: "boot_state \<Rightarrow> json \<Rightarrow> boot_progress" where
  "boot_msg b msg =
     (if jget ''id'' msg = Some (JInt (bs_id b)) then
        (case jget ''error'' msg of
           Some err \<Rightarrow> BootError (error_message ''session boot failed'' err)
         | None \<Rightarrow> BootResult (unwrap_or (JObj []) (jget ''result'' msg)))
      else if jget_str ''method'' msg = Some ''session/update'' then
        Booting \<lparr>bs_id = bs_id b,
          bs_sid = (if bs_sid b = None then jpointer_str [''params'', ''sessionId''] msg else bs_sid b),
          bs_buffered = bs_buffered b @ [msg]\<rparr>
      else Booting b)"

text \<open>The result of the boot: the session is completed, or the boot fails for want of an id.\<close>

definition boot_finish ::
    "hub_env \<Rightarrow> spawn_request \<Rightarrow> actor_handle \<Rightarrow> boot_state \<Rightarrow> json \<Rightarrow> agent_conn \<Rightarrow> hub \<Rightarrow>
      hub \<times> (string + actor)" where
  "boot_finish env sp handle b result ag h =
     (case or_else (bs_sid b) (jget_str ''sessionId'' result) of
        None \<Rightarrow> (h, Inl (''agent '' @ start_method (sp_start sp) @ '' missing sessionId''))
      | Some sid \<Rightarrow>
          (let cwd = jget_str ''cwd'' (sp_params sp);
               title = unwrap_or [] (or_else (nonempty (jget_str ''title'' result))
                         (lookup_title (he_from_str env) (he_root env) sid));
               origin = (case sp_start sp of
                   New \<Rightarrow> Some (sp_origin_client sp, sp_origin_id sp) | _ \<Rightarrow> None);
               h = complete_session sid cwd title result handle origin h;
               h = fold (broadcast_session sid) (bs_buffered b) h
           in (h, Inr \<lparr>ac_sid = sid, ac_agent = ag, ac_pending = [], ac_queue = [],
                       ac_inflight = False, ac_perm = None\<rparr>)))"

text \<open>Any error of the boot.\<close>

definition boot_fail :: "hub_env \<Rightarrow> spawn_request \<Rightarrow> string \<Rightarrow> hub \<Rightarrow> hub" where
  "boot_fail env sp err h =
     fail_session env (jget_str ''sessionId'' (sp_params sp)) (sp_origin_client sp) (sp_origin_id sp)
       (rpc_error_new SPAWN_FAILED err) h"

section \<open>Requests\<close>

definition forward_rpc ::
    "nat \<Rightarrow> json \<Rightarrow> string \<Rightarrow> json \<Rightarrow> pending_kind \<Rightarrow> actor \<Rightarrow> actor \<times> (string + unit)" where
  "forward_rpc client_id rpc_id name params kind a =
     (let (ag, agent_id) = next_rpc_id (ac_agent a);
          is_cancel = (name = ''session/cancel'');
          msg = (if is_cancel then rpc_notification ''session/cancel'' params
                 else rpc_request (JInt agent_id) (to_agent_method name) params)
      in case write_msg msg ag of
           (ag, Inl e) \<Rightarrow> (a\<lparr>ac_agent := ag\<rparr>, Inl e)
         | (ag, Inr _) \<Rightarrow>
             (let a = a\<lparr>ac_agent := ag\<rparr>
              in (if is_cancel then a
                  else a\<lparr>ac_pending := hm_ins agent_id
                         \<lparr>pd_client_id = client_id, pd_rpc_id = rpc_id, pd_kind = kind\<rparr> (ac_pending a)\<rparr>,
                  Inr ())))"

definition on_prompt :: "nat \<Rightarrow> json \<Rightarrow> json \<Rightarrow> hub \<Rightarrow> actor \<Rightarrow> hub \<times> actor" where
  "on_prompt client_id rpc_id params h a =
     (if ac_inflight a
      then (h, a\<lparr>ac_queue := ac_queue a @ [\<lparr>qp_client_id = client_id, qp_rpc_id = rpc_id, qp_params = params\<rparr>]\<rparr>)
      else
        case forward_rpc client_id rpc_id ''session/prompt'' params Prompt (a\<lparr>ac_inflight := True\<rparr>) of
          (a, Inl e) \<Rightarrow>
            (send_to client_id (to_msg (rpc_error_new SPAWN_FAILED e) rpc_id) h, a\<lparr>ac_inflight := False\<rparr>)
        | (a, Inr _) \<Rightarrow> (h, a))"

definition on_other :: "nat \<Rightarrow> json \<Rightarrow> string \<Rightarrow> json \<Rightarrow> hub \<Rightarrow> actor \<Rightarrow> hub \<times> actor" where
  "on_other client_id rpc_id name params h a =
     (case forward_rpc client_id rpc_id name params Other a of
        (a, Inl e) \<Rightarrow> (send_to client_id (to_msg (rpc_error_new SPAWN_FAILED e) rpc_id) h, a)
      | (a, Inr _) \<Rightarrow>
          if name = ''session/cancel''
          then (send_to client_id (rpc_result rpc_id (JObj [])) h,
                a\<lparr>ac_pending := filter (\<lambda>(_, p). pd_rpc_id p \<noteq> rpc_id) (ac_pending a)\<rparr>)
          else (h, a))"

section \<open>Permissions\<close>

definition cancelled_outcome :: json where
  "cancelled_outcome = JObj [(''outcome'', JObj [(''outcome'', JStr ''cancelled'')])]"

definition permission_resolved :: "(string \<times> json) list \<Rightarrow> json" where
  "permission_resolved params = rpc_notification ''gtm/permission.resolved'' (JObj params)"

definition danger_words :: "string list" where
  "danger_words = [''delete'', ''force'', ''push'', ''wipe'', ''drop '', ''remove'', ''rm -rf'']"

definition is_dangerous_permission :: "hub_env \<Rightarrow> json \<Rightarrow> bool" where
  "is_dangerous_permission env params =
     (let title = unwrap_or [] (jpointer_str [''toolCall'', ''title''] params);
          kind = unwrap_or [] (jpointer_str [''toolCall'', ''kind''] params);
          blob = he_to_lowercase env (title @ '' '' @ kind)
      in list_ex (contains blob) danger_words)"

text \<open>Offer the request to one subscriber, under a fresh id.\<close>

definition offer_permission ::
    "string \<Rightarrow> json \<Rightarrow> nat \<Rightarrow> hub \<times> (string, nat) hmap \<Rightarrow> hub \<times> (string, nat) hmap" where
  "offer_permission sid params cid s =
     (case s of (h, client_ids) \<Rightarrow>
      (case next_perm_id h of (h, hid) \<Rightarrow>
       (send_to cid (rpc_request (JStr hid) ''session/request_permission'' params)
          (register_perm_route hid sid h),
        hm_ins hid cid client_ids)))"

definition start_permission ::
    "hub_env \<Rightarrow> json \<Rightarrow> json \<Rightarrow> hub \<Rightarrow> actor \<Rightarrow> hub \<times> actor" where
  "start_permission env agent_id params h a =
     (let dangerous = is_dangerous_permission env params;
          sid = ac_sid a;
          subs = subscribers sid h
      in if dangerous \<and> \<not> list_ex (\<lambda>cid. \<not> is_lan cid h) subs
         then (broadcast_session sid (permission_resolved
                 [(''sessionId'', JStr sid), (''reason'', JStr ''no_local_client'')]) h,
               write_ignored (rpc_result agent_id cancelled_outcome) a)
         else if subs = [] then (h, write_ignored (rpc_result agent_id cancelled_outcome) a)
         else
           (case fold (offer_permission sid params) subs (h, []) of (h, client_ids) \<Rightarrow>
             (h, a\<lparr>ac_perm := Some \<lparr>pm_agent_id = agent_id, pm_session_id = sid,
                    pm_client_ids = client_ids, pm_resolved = False, pm_dangerous = dangerous\<rparr>\<rparr>)))"

definition perm_answer :: "json \<Rightarrow> json option \<Rightarrow> json option \<Rightarrow> json" where
  "perm_answer agent_id result error =
     (case result of
        Some r \<Rightarrow> rpc_result agent_id r
      | None \<Rightarrow>
          (case error of
             Some e \<Rightarrow> JObj [(''jsonrpc'', JStr ''2.0''), (''id'', agent_id), (''error'', e)]
           | None \<Rightarrow> rpc_result agent_id cancelled_outcome))"

definition tell_loser :: "string \<times> nat \<Rightarrow> hub \<Rightarrow> hub" where
  "tell_loser kc h =
     (case kc of (hid, cid) \<Rightarrow> send_to cid (rpc_error (JStr hid) ALREADY_RESOLVED ''already_resolved'') h)"

definition handle_perm_reply ::
    "json \<Rightarrow> json option \<Rightarrow> json option \<Rightarrow> hub \<Rightarrow> actor \<Rightarrow> hub \<times> actor" where
  "handle_perm_reply id_val result error h a =
     (case ac_perm a of
        None \<Rightarrow> (h, a)
      | Some state \<Rightarrow>
          (let key = unwrap_or [] (as_str id_val) in
           case hm_get (pm_client_ids state) key of
             None \<Rightarrow> (h, a)
           | Some winner_cid \<Rightarrow>
               if pm_resolved state then (h, a)
               else if pm_dangerous state \<and> is_lan winner_cid h
               then (send_to winner_cid (rpc_error id_val ALREADY_RESOLVED
                       ''dangerous tools need a local Mac/TUI confirmation'') h, a)
               else
                 let a = a\<lparr>ac_perm := Some (state\<lparr>pm_resolved := True\<rparr>)\<rparr>;
                     a = write_ignored (perm_answer (pm_agent_id state) result error) a;
                     h = fold tell_loser (filter (\<lambda>(k, _). k \<noteq> key) (pm_client_ids state)) h;
                     h = broadcast_session (pm_session_id state)
                           (permission_resolved [(''sessionId'', JStr (pm_session_id state))]) h
                 in (clear_perm_routes (map fst (pm_client_ids state)) h, a)))"

section \<open>Messages of the agent\<close>

definition attach_id :: "json \<Rightarrow> json \<Rightarrow> json" where
  "attach_id msg id_val =
     (let msg = jset ''id'' id_val msg
      in if jget ''jsonrpc'' msg = None then jset ''jsonrpc'' (JStr ''2.0'') msg else msg)"

definition with_session_id :: "string \<Rightarrow> json \<Rightarrow> json" where
  "with_session_id sid msg =
     (case jget ''params'' msg of
        Some p \<Rightarrow> if jget ''sessionId'' p = None
                 then jset ''params'' (jset ''sessionId'' (JStr sid) p) msg else msg
      | None \<Rightarrow> msg)"

definition pop_prompt :: "actor \<Rightarrow> actor" where
  "pop_prompt a =
     (case ac_queue a of
        [] \<Rightarrow> a
      | nxt # rest \<Rightarrow>
          fst (forward_rpc (qp_client_id nxt) (qp_rpc_id nxt) ''session/prompt'' (qp_params nxt) Prompt
            (a\<lparr>ac_queue := rest, ac_inflight := True\<rparr>)))"

definition on_response :: "json \<Rightarrow> int \<Rightarrow> hub \<Rightarrow> actor \<Rightarrow> hub \<times> actor" where
  "on_response msg aid h a =
     (case hm_get (ac_pending a) aid of
        None \<Rightarrow> (h, a)
      | Some p \<Rightarrow>
          (let a = a\<lparr>ac_pending := hm_rem aid (ac_pending a)\<rparr>;
               h = send_to (pd_client_id p) (attach_id msg (pd_rpc_id p)) h
           in if pd_kind p = Prompt then (h, pop_prompt (a\<lparr>ac_inflight := False\<rparr>)) else (h, a)))"

definition is_permission_method :: "string \<Rightarrow> bool" where
  "is_permission_method m \<longleftrightarrow> m = ''session/request_permission'' \<or> m = ''session/requestPermission''"

definition handle_agent_msg :: "hub_env \<Rightarrow> json \<Rightarrow> hub \<Rightarrow> actor \<Rightarrow> hub \<times> actor" where
  "handle_agent_msg env msg h a =
     (let m = unwrap_or [] (jget_str ''method'' msg) in
      if m \<noteq> [] then
        (case jget ''id'' msg of
           Some agent_id \<Rightarrow>
             if is_permission_method m
             then start_permission env agent_id (unwrap_or (JObj []) (jget ''params'' msg)) h a
             else (h, write_ignored (rpc_result agent_id (JObj [])) a)
         | None \<Rightarrow> (broadcast_session (ac_sid a) (with_session_id (ac_sid a) msg) h, a))
      else
        (case Option.bind (jget ''id'' msg) as_i64 of
           None \<Rightarrow> (h, a)
         | Some aid \<Rightarrow> on_response msg aid h a))"

definition fail_pending :: "(int, pending) hmap \<Rightarrow> string \<Rightarrow> hub \<Rightarrow> hub" where
  "fail_pending pend message h =
     fold (\<lambda>(_, p). send_to (pd_client_id p) (rpc_error (pd_rpc_id p) SPAWN_FAILED message)) pend h"

section \<open>The loop\<close>

datatype actor_event =
    Command actor_cmd
  | AgentMsg json
  | AgentClosed

text \<open>One turn of the loop; \<open>False\<close> leaves it.\<close>

fun actor_turn :: "hub_env \<Rightarrow> actor_event \<Rightarrow> hub \<Rightarrow> actor \<Rightarrow> hub \<times> actor \<times> bool" where
  "actor_turn env (Command Shutdown) h a = (h, a, False)"
| "actor_turn env (Command (Notify name params)) h a =
     (h, write_ignored (rpc_notification (to_agent_method name) params) a, True)"
| "actor_turn env (Command (ClientReply id_val result error)) h a =
     (case handle_perm_reply id_val result error h a of (h, a) \<Rightarrow> (h, a, True))"
| "actor_turn env (Command (Rpc client_id id_val name params)) h a =
     (case (if name = ''session/prompt'' then on_prompt client_id id_val params h a
            else on_other client_id id_val name params h a) of (h, a) \<Rightarrow> (h, a, True))"
| "actor_turn env (AgentMsg msg) h a =
     (case handle_agent_msg env msg h a of (h, a) \<Rightarrow> (h, a, True))"
| "actor_turn env AgentClosed h a =
     (remove_session (ac_sid a) (fail_pending (ac_pending a) ''agent process closed'' h), a, False)"

fun actor_run :: "hub_env \<Rightarrow> actor_event list \<Rightarrow> hub \<Rightarrow> actor \<Rightarrow> hub \<times> actor \<times> bool" where
  "actor_run env [] h a = (h, a, True)"
| "actor_run env (e # es) h a =
     (case actor_turn env e h a of
        (h, a, True) \<Rightarrow> actor_run env es h a
      | (h, a, False) \<Rightarrow> (h, a, False))"

end
