(* ===== verification/HubServer.thy ===== *)
theory HubServer imports HubActor begin

text \<open>
  A connection of the hub (\<^verbatim>\<open>crates/codegen/gtm-hub/src/server.rs\<close>, \<open>handle_rpc\<close>) and its
  frames (\<^verbatim>\<open>frame.rs\<close>): a length in four bytes, big-endian, and the body. The first message
  of a connection must be the greeting; then requests, notifications and replies go to the hub,
  whose answers are put on the connection's channel. A stream is the list of its bytes.
\<close>

section \<open>Frames\<close>

definition MAX_FRAME :: nat where
  "MAX_FRAME = 16 * 1024 * 1024"

definition be_bytes :: "nat \<Rightarrow> char list" where
  "be_bytes n = map (\<lambda>k. char_of (n div 256 ^ k mod 256)) [3, 2, 1, 0]"

definition from_be_bytes :: "char list \<Rightarrow> nat" where
  "from_be_bytes bs = foldl (\<lambda>n b. 256 * n + of_char b) 0 bs"

definition u32_try_from :: "nat \<Rightarrow> nat" where
  "u32_try_from n = (if n < 2 ^ 32 then n else 2 ^ 32 - 1)"

definition too_large :: "nat \<Rightarrow> string" where
  "too_large len = ''hub frame too large: '' @ dec_of len @ '' (max '' @ dec_of MAX_FRAME @ '')''"

definition write_frame :: "string \<Rightarrow> string + char list" where
  "write_frame data =
     (let len = u32_try_from (length data)
      in if len > MAX_FRAME then Inl (too_large len) else Inr (be_bytes len @ data))"

text \<open>The body of the next frame and the rest of the stream; a short stream is an end of file.\<close>

definition read_frame :: "char list \<Rightarrow> string + string \<times> char list" where
  "read_frame stream =
     (if length stream < 4 then Inl ''early eof''
      else
        let len = from_be_bytes (take 4 stream); rest = drop 4 stream
        in if len > MAX_FRAME then Inl (too_large len)
           else if length rest < len then Inl ''early eof''
           else Inr (take len rest, drop len rest))"

section \<open>Connections\<close>

record conn =
  cn_lan :: bool
  cn_device_fp :: "string option"
  cn_hello_done :: bool
  cn_client_id :: "nat option"

definition new_conn :: "bool \<Rightarrow> string option \<Rightarrow> conn" where
  "new_conn lan device_fp =
     \<lparr>cn_lan = lan, cn_device_fp = device_fp, cn_hello_done = False, cn_client_id = None\<rparr>"

text \<open>
  What a message does: the messages written at once, and whether the connection goes on
  (\<open>Continue\<close>), ends (\<open>Break\<close>) or fails (\<open>Bail\<close>, which leaves without the disconnect).
\<close>

datatype flow = Continue | Break | Bail string

definition greet :: "hub_env \<Rightarrow> json \<Rightarrow> conn \<Rightarrow> hub \<Rightarrow> hub \<times> conn \<times> json list \<times> flow" where
  "greet env msg cn h =
     (let m = unwrap_or [] (jget_str ''method'' msg); id_val = jget ''id'' msg
      in if m \<noteq> ''gtm/hello'' then
           (h, cn, (case id_val of
                Some i \<Rightarrow> [rpc_error i (-32000) ''first request must be gtm/hello''] | None \<Rightarrow> []),
            Bail ''first request must be gtm/hello'')
         else
           case hello env (unwrap_or (JObj []) (jget ''params'' msg)) (cn_lan cn) (cn_device_fp cn) h of
             (h, Inr (cid, result)) \<Rightarrow>
               (h, cn\<lparr>cn_client_id := Some cid, cn_hello_done := True\<rparr>,
                (case id_val of Some i \<Rightarrow> [rpc_result i result] | None \<Rightarrow> []), Continue)
           | (h, Inl err) \<Rightarrow>
               (h, cn, (case id_val of Some i \<Rightarrow> [to_msg err i] | None \<Rightarrow> []), Bail ''gtm/hello rejected''))"

definition answer :: "nat \<Rightarrow> json \<Rightarrow> hub \<times> dispatch \<Rightarrow> hub" where
  "answer cid id_val r =
     (case r of
        (h, ReplyPending) \<Rightarrow> h
      | (h, Reply (Inr value)) \<Rightarrow> emit [(cid, rpc_result id_val value)] h
      | (h, Reply (Inl err)) \<Rightarrow> emit [(cid, to_msg err id_val)] h)"

definition on_message :: "hub_env \<Rightarrow> json \<Rightarrow> conn \<Rightarrow> hub \<Rightarrow> hub \<times> conn \<times> json list \<times> flow" where
  "on_message env msg cn h =
     (if \<not> cn_hello_done cn then greet env msg cn h
      else
        let m = unwrap_or [] (jget_str ''method'' msg); id_val = jget ''id'' msg;
            params = unwrap_or (JObj []) (jget ''params'' msg)
        in if m = ''gtm/bye'' then (h, cn, [], Break)
           else case cn_client_id cn of
               None \<Rightarrow> (h, cn, [], Break)
             | Some cid \<Rightarrow>
                 if m = [] then
                   ((case id_val of
                       Some i \<Rightarrow> handle_client_reply env cid i (jget ''result'' msg) (jget ''error'' msg) h
                     | None \<Rightarrow> h), cn, [], Continue)
                 else
                   ((case id_val of
                       None \<Rightarrow> handle_notification cid m params h
                     | Some i \<Rightarrow> answer cid i (handle_request env cid i m params h)), cn, [], Continue))"

text \<open>
  What the loop waits for: a frame that is JSON, a read that fails (the end of the stream, a frame
  that is too large, a body that is not JSON), a message on the connection's channel with the
  outcome of writing it, and the idle timer.
\<close>

datatype conn_event =
    Frame json
  | ReadError string
  | Outgoing json "string option"
  | IdleExpired

definition on_event :: "hub_env \<Rightarrow> conn_event \<Rightarrow> conn \<Rightarrow> hub \<Rightarrow> hub \<times> conn \<times> json list \<times> flow" where
  "on_event env e cn h =
     (case e of
        Frame msg \<Rightarrow> on_message env msg cn h
      | ReadError err \<Rightarrow> (h, cn, [], Bail err)
      | Outgoing msg (Some err) \<Rightarrow> (h, cn, [], Bail err)
      | Outgoing msg None \<Rightarrow>
          (h, cn, [msg], if jget_str ''method'' msg = Some ''gtm/hub.shutdown'' then Break else Continue)
      | IdleExpired \<Rightarrow> (h, cn, [], Break))"

text \<open>After the loop: an error has left the function before this point.\<close>

definition close_conn :: "hub_env \<Rightarrow> conn \<Rightarrow> hub \<Rightarrow> hub" where
  "close_conn env cn h =
     (case cn_client_id cn of Some cid \<Rightarrow> disconnect env cid h | None \<Rightarrow> h)"

fun run_conn :: "hub_env \<Rightarrow> conn_event list \<Rightarrow> conn \<Rightarrow> hub \<Rightarrow> hub \<times> conn \<times> flow" where
  "run_conn env [] cn h = (h, cn, Continue)"
| "run_conn env (e # es) cn h =
     (case on_event env e cn h of
        (h, cn, _, Continue) \<Rightarrow> run_conn env es cn h
      | (h, cn, _, Break) \<Rightarrow> (close_conn env cn h, cn, Break)
      | (h, cn, _, Bail err) \<Rightarrow> (h, cn, Bail err))"

end
