(* ===== verification/HubLaws.thy ===== *)
theory HubLaws imports HubServer begin

text \<open>
  Laws of the hub that its properties share. The roster is what the caps and the confinement of
  LAN clients depend on: the connected clients without their subscriptions. \<open>keeps\<close> relates two
  hubs that agree on the roster, the counters, the permission routes, the LAN switch and the
  devices; every operation except the greeting, the end of a connection, the permission offers and
  remote control keeps them.
\<close>

section \<open>What an operation leaves alone\<close>

definition roster :: "hub \<Rightarrow> (nat \<times> bool \<times> string option) list" where
  "roster h = map (\<lambda>(cid, c). (cid, cl_lan c, cl_device_fp c)) (hb_clients h)"

definition keeps :: "hub \<Rightarrow> hub \<Rightarrow> bool" where
  "keeps h h' \<longleftrightarrow> roster h' = roster h \<and> hb_next_client h' = hb_next_client h \<and>
     hb_next_perm h' = hb_next_perm h \<and> hb_perm_routes h' = hb_perm_routes h \<and>
     hb_lan h' = hb_lan h \<and> hb_devices h' = hb_devices h \<and>
     (hm_wf (hb_sessions h) \<longrightarrow> hm_wf (hb_sessions h')) \<and>
     (hm_wf (hb_hosted_prompts h) \<longrightarrow> hm_wf (hb_hosted_prompts h'))"

named_theorems keeping "an operation keeps what an earlier state kept"

lemma keeps_refl [simp, keeping]: "keeps h h"
  by (simp add: keeps_def)

lemma keeps_trans: "keeps h h' \<Longrightarrow> keeps h' h'' \<Longrightarrow> keeps h h''"
  by (auto simp: keeps_def)

lemma keeps_fold:
  "keeps h0 h \<Longrightarrow> (\<And>x h. keeps h0 h \<Longrightarrow> keeps h0 (f x h)) \<Longrightarrow> keeps h0 (fold f xs h)"
  by (induction xs arbitrary: h) auto

lemma keeps_sent [keeping]: "keeps h0 h \<Longrightarrow> keeps h0 (h\<lparr>hb_sent := s\<rparr>)"
  and keeps_cmds [keeping]: "keeps h0 h \<Longrightarrow> keeps h0 (h\<lparr>hb_cmds := c\<rparr>)"
  and keeps_spawned [keeping]: "keeps h0 h \<Longrightarrow> keeps h0 (h\<lparr>hb_spawned := l\<rparr>)"
  by (simp_all add: keeps_def roster_def)

lemma keeps_session_ins [keeping]:
  "keeps h0 h \<Longrightarrow> keeps h0 (h\<lparr>hb_sessions := hm_ins sid e (hb_sessions h)\<rparr>)"
  and keeps_session_rem [keeping]:
  "keeps h0 h \<Longrightarrow> keeps h0 (h\<lparr>hb_sessions := hm_rem sid (hb_sessions h)\<rparr>)"
  and keeps_session_both [keeping]:
  "keeps h0 h \<Longrightarrow> keeps h0 (h\<lparr>hb_sessions := hm_ins sid e (hm_rem sid (hb_sessions h))\<rparr>)"
  by (auto simp: keeps_def roster_def intro: hm.wf_ins hm.wf_rem)

lemma keeps_hosted_ins [keeping]:
  "keeps h0 h \<Longrightarrow> keeps h0 (h\<lparr>hb_hosted_prompts := hm_ins k p (hb_hosted_prompts h)\<rparr>)"
  and keeps_hosted_rem [keeping]:
  "keeps h0 h \<Longrightarrow> keeps h0 (h\<lparr>hb_hosted_prompts := hm_rem k (hb_hosted_prompts h)\<rparr>)"
  and keeps_hosted_filter [keeping]:
  "keeps h0 h \<Longrightarrow> keeps h0 (h\<lparr>hb_hosted_prompts := filter Q (hb_hosted_prompts h)\<rparr>)"
  by (auto simp: keeps_def roster_def intro: hm.wf_ins hm.wf_rem hm_wf_filter)

lemma roster_update:
  "hm_get m cid = Some c \<Longrightarrow> cl_lan c' = cl_lan c \<Longrightarrow> cl_device_fp c' = cl_device_fp c \<Longrightarrow>
    map (\<lambda>(cid, c). (cid, cl_lan c, cl_device_fp c)) (hm_ins cid c' m) =
    map (\<lambda>(cid, c). (cid, cl_lan c, cl_device_fp c)) m"
  by (induction m) (auto split: if_splits)

lemma keeps_set_client:
  assumes "keeps h0 h" and "\<And>c. cl_lan (f c) = cl_lan c" and "\<And>c. cl_device_fp (f c) = cl_device_fp c"
  shows "keeps h0 (set_client cid f h)"
  using assms by (auto simp: set_client_def keeps_def roster_def roster_update split: option.split)

lemma keeps_subscribe [keeping]: "keeps h0 h \<Longrightarrow> keeps h0 (subscribe cid sid h)"
  unfolding subscribe_def by (rule keeps_set_client) simp_all

lemma keeps_emit [keeping]: "keeps h0 h \<Longrightarrow> keeps h0 (emit msgs h)"
  unfolding emit_def by (rule keeps_sent)

lemma keeps_send_to [keeping]: "keeps h0 h \<Longrightarrow> keeps h0 (send_to cid msg h)"
  by (auto simp: send_to_def intro: keeping split: option.split)

lemma keeps_broadcast [keeping]: "keeps h0 h \<Longrightarrow> keeps h0 (broadcast_session sid msg h)"
  and keeps_broadcast_all [keeping]: "keeps h0 h \<Longrightarrow> keeps h0 (broadcast_all msg h)"
  by (simp_all add: broadcast_session_def broadcast_all_def keeps_emit)

lemma keeps_actor_send [keeping]: "keeps h0 h \<Longrightarrow> keeps h0 (actor_send a cmd h)"
  and keeps_actor_spawn [keeping]: "keeps h0 h \<Longrightarrow> keeps h0 (actor_spawn st cid i params h)"
  by (simp_all add: actor_send_def actor_spawn_def keeping)

lemma keeps_reply_waiter [keeping]: "keeps h0 h \<Longrightarrow> keeps h0 (reply_waiter sid result w h)"
  by (cases w) (simp add: reply_waiter_def keeping)

lemma keeps_complete [keeping]:
  "keeps h0 h \<Longrightarrow> keeps h0 (complete_session sid cwd title result actor origin h)"
  unfolding complete_session_def Let_def
  by (auto intro!: keeping keeps_fold split: option.split entry.split)

lemma keeps_fail_replies [keeping]: "keeps h0 h \<Longrightarrow> keeps h0 (fail_replies env err seen ws h)"
  by (induction env err seen ws h rule: fail_replies.induct) (auto simp: Let_def intro: keeping)

lemma keeps_fail_session [keeping]: "keeps h0 h \<Longrightarrow> keeps h0 (fail_session env sid cid i err h)"
  unfolding fail_session_def Let_def
  by (auto simp del: fail_replies.simps intro!: keeping split: option.split entry.split)

lemma keeps_remove [keeping]: "keeps h0 h \<Longrightarrow> keeps h0 (remove_session sid h)"
  unfolding remove_session_def by (intro keeping)

lemma keeps_fail_hosted_one [keeping]: "keeps h0 h \<Longrightarrow> keeps h0 (fail_hosted_one env kp h)"
  by (cases kp) (simp add: fail_hosted_one_def keeping)

lemma keeps_fail_hosted [keeping]: "keeps h0 h \<Longrightarrow> keeps h0 (fail_hosted_prompts_for_host env c h)"
  unfolding fail_hosted_prompts_for_host_def Let_def by (intro keeps_fold keeping)

lemma keeps_unhost [keeping]: "keeps h0 h \<Longrightarrow> keeps h0 (unhost_if_owner env cid sid h)"
  by (simp add: unhost_if_owner_def keeping)

lemma keeps_drop_host [keeping]: "keeps h0 h \<Longrightarrow> keeps h0 (drop_host_client env cid h)"
  unfolding drop_host_client_def Let_def by (intro keeps_fold keeping)

section \<open>Requests\<close>

lemma keeps_forward [keeping]: "keeps h0 h \<Longrightarrow> keeps h0 (fst (forward_to_actor cid i name params h))"
  by (auto simp: forward_to_actor_def intro: keeping split: option.split)

lemma keeps_host_req [keeping]: "keeps h0 h \<Longrightarrow> keeps h0 (fst (host_req env cid params h))"
  unfolding host_req_def Let_def
  by (auto intro!: keeping keeps_fold split: option.split entry.split)

lemma keeps_unhost_req [keeping]: "keeps h0 h \<Longrightarrow> keeps h0 (fst (unhost_req env cid params h))"
  by (auto simp: unhost_req_def intro: keeping split: option.split)

lemma keeps_prompt [keeping]: "keeps h0 h \<Longrightarrow> keeps h0 (fst (session_prompt env cid i params h))"
  unfolding session_prompt_def Let_def
  by (auto intro!: keeping split: option.split)

lemma keeps_cancel [keeping]: "keeps h0 h \<Longrightarrow> keeps h0 (fst (session_cancel cid i params h))"
  by (auto simp: session_cancel_def intro: keeping split: option.split)

lemma keeps_new [keeping]: "keeps h0 h \<Longrightarrow> keeps h0 (fst (session_new cid i params h))"
  by (simp add: session_new_def keeping)

lemma keeps_attach [keeping]:
  "keeps h0 h \<Longrightarrow> keeps h0 (fst (session_attach env cid i st params h))"
  unfolding session_attach_def Let_def
  by (auto intro!: keeping split: option.split entry.split)

lemma keeps_history [keeping]: "keeps h0 h \<Longrightarrow> keeps h0 (fst (session_history_req env params h))"
  by (simp add: session_history_req_def Let_def split: option.split)

lemma keeps_subscribe_req [keeping]: "keeps h0 h \<Longrightarrow> keeps h0 (fst (subscribe_req cid params h))"
  by (auto simp: subscribe_req_def Let_def intro: keeping split: option.split)

lemma keeps_unsubscribe_req [keeping]: "keeps h0 h \<Longrightarrow> keeps h0 (fst (unsubscribe_req cid params h))"
  by (auto simp: unsubscribe_req_def intro: keeps_set_client split: option.split)

definition remote_methods :: "string list" where
  "remote_methods = [''gtm/remote.on'', ''gtm/remote.off'', ''gtm/remote.revoke'']"

lemma keeps_request:
  "keeps h0 h \<Longrightarrow> name \<notin> set remote_methods \<Longrightarrow> keeps h0 (fst (handle_request env cid i name params h))"
  by (simp add: handle_request_def remote_methods_def keeping)

lemma keeps_notification [keeping]: "keeps h0 h \<Longrightarrow> keeps h0 (handle_notification cid name params h)"
  unfolding handle_notification_def Let_def by (auto intro!: keeping split: option.split)

lemma keeps_client_reply [keeping]: "keeps h0 h \<Longrightarrow> keeps h0 (handle_client_reply env cid i result err h)"
  unfolding handle_client_reply_def Let_def by (auto intro!: keeping split: option.split)

lemma keeps_answer [keeping]: "keeps h0 (fst r) \<Longrightarrow> keeps h0 (answer cid i r)"
  by (cases r) (auto simp: answer_def intro: keeping split: dispatch.split sum.split)

section \<open>The invariant\<close>

definition count_conn :: "bool \<Rightarrow> (nat \<times> bool \<times> string option) list \<Rightarrow> nat" where
  "count_conn lan r = length (filter (\<lambda>(_, l, _). l = lan) r)"

definition lan_fps :: "(nat \<times> bool \<times> string option) list \<Rightarrow> string option list" where
  "lan_fps r = map (\<lambda>(_, _, fp). fp) (filter (\<lambda>(_, l, _). l) r)"

text \<open>
  A route to a permission request has an id that the counter has passed, so a fresh id is never
  the id of a route that is still open.
\<close>

definition hub_inv :: "hub \<Rightarrow> bool" where
  "hub_inv h \<longleftrightarrow>
     (let r = roster h in
      distinct (map fst r) \<and> (\<forall>x \<in> set r. fst x < hb_next_client h) \<and>
      count_conn False r \<le> LOCAL_CONN_MAX \<and> count_conn True r \<le> LAN_CONN_MAX \<and>
      distinct (lan_fps r) \<and> None \<notin> set (lan_fps r)) \<and>
     hm_wf (hb_sessions h) \<and> hm_wf (hb_hosted_prompts h) \<and> hm_wf (hb_perm_routes h) \<and>
     hm_wf (hb_devices h) \<and>
     (\<forall>hid \<in> fst ` set (hb_perm_routes h). \<exists>n < hb_next_perm h. hid = ''hp-'' @ dec_of n)"

lemma hub_inv_keeps: "hub_inv h \<Longrightarrow> keeps h h' \<Longrightarrow> hub_inv h'"
  by (simp add: hub_inv_def keeps_def)

lemma roster_keys [simp]: "map fst (roster h) = map fst (hb_clients h)"
  by (auto simp: roster_def)

lemma hub_inv_clients: "hub_inv h \<Longrightarrow> hm_wf (hb_clients h)"
  unfolding hub_inv_def Let_def hm_wf_def by simp

lemma count_conn_snoc [simp]: "count_conn l (r @ [x]) = count_conn l r + (if fst (snd x) = l then 1 else 0)"
  by (cases x) (simp add: count_conn_def)

lemma lan_fps_snoc [simp]: "lan_fps (r @ [x]) = lan_fps r @ (if fst (snd x) then [snd (snd x)] else [])"
  by (cases x) (simp add: lan_fps_def)

lemma count_conn_filter: "count_conn lan (filter P r) \<le> count_conn lan r"
  by (induction r) (auto simp: count_conn_def)

lemma lan_fps_filter:
  shows "distinct (lan_fps r) \<Longrightarrow> distinct (lan_fps (filter P r))"
    and "set (lan_fps (filter P r)) \<subseteq> set (lan_fps r)"
proof -
  have "filter (\<lambda>(_, l, _). l) (filter P r) = filter P (filter (\<lambda>(_, l, _). l) r)"
    by (simp add: conj_commute)
  then show "distinct (lan_fps r) \<Longrightarrow> distinct (lan_fps (filter P r))"
    unfolding lan_fps_def by (simp only: distinct_map_filter)
  show "set (lan_fps (filter P r)) \<subseteq> set (lan_fps r)"
    by (force simp: lan_fps_def)
qed

text \<open>Removing clients.\<close>

lemma hub_inv_shrink:
  assumes "hub_inv h" and "roster h' = filter P (roster h)" and "hb_next_client h' = hb_next_client h"
    and "hb_next_perm h' = hb_next_perm h" and "hb_perm_routes h' = hb_perm_routes h"
    and "hm_wf (hb_sessions h')" "hm_wf (hb_hosted_prompts h')" "hm_wf (hb_devices h')"
  shows "hub_inv h'"
proof -
  have "distinct (map fst (filter P (roster h)))"
    using assms(1) by (simp add: hub_inv_def Let_def distinct_map_filter del: roster_keys)
  then show ?thesis
    using assms lan_fps_filter [where P = P and r = "roster h"] count_conn_filter [of False P "roster h"]
      count_conn_filter [of True P "roster h"]
    by (auto simp: hub_inv_def Let_def simp del: roster_keys)
qed

lemma roster_remove: "roster (h\<lparr>hb_clients := hm_rem cid (hb_clients h)\<rparr>) = filter (\<lambda>x. cid \<noteq> fst x) (roster h)"
  by (auto simp: roster_def AList.delete_eq filter_map comp_def case_prod_unfold)

lemma roster_evict_one: "roster (evict_one reason cid h) = filter (\<lambda>x. cid \<noteq> fst x) (roster h)"
proof (cases "hm_get (hb_clients h) cid")
  case None
  then have "cid \<notin> fst ` set (hb_clients h)"
    by (simp add: map_of_eq_None_iff)
  then have "filter (\<lambda>x. cid \<noteq> fst x) (roster h) = roster h"
    by (force simp: roster_def filter_id_conv)
  with None show ?thesis by (simp add: evict_one_def)
next
  case (Some c)
  then show ?thesis
    using roster_remove [where h = h and cid = cid] by (simp add: evict_one_def emit_def roster_def)
qed

lemma evict_one_frame [simp]:
  "hb_next_client (evict_one reason cid h) = hb_next_client h"
  "hb_next_perm (evict_one reason cid h) = hb_next_perm h"
  "hb_perm_routes (evict_one reason cid h) = hb_perm_routes h"
  "hb_sessions (evict_one reason cid h) = hb_sessions h"
  "hb_hosted_prompts (evict_one reason cid h) = hb_hosted_prompts h"
  "hb_lan (evict_one reason cid h) = hb_lan h"
  "hb_devices (evict_one reason cid h) = hb_devices h"
  by (simp_all add: evict_one_def emit_def split: option.split)

lemma evict_all_frame [simp]:
  "hb_next_client (fold (evict_one reason) cids h) = hb_next_client h"
  "hb_next_perm (fold (evict_one reason) cids h) = hb_next_perm h"
  "hb_perm_routes (fold (evict_one reason) cids h) = hb_perm_routes h"
  "hb_sessions (fold (evict_one reason) cids h) = hb_sessions h"
  "hb_hosted_prompts (fold (evict_one reason) cids h) = hb_hosted_prompts h"
  "hb_lan (fold (evict_one reason) cids h) = hb_lan h"
  "hb_devices (fold (evict_one reason) cids h) = hb_devices h"
  by (induction cids arbitrary: h) simp_all

lemma roster_evict_all:
  "roster (fold (evict_one reason) cids h) = filter (\<lambda>x. fst x \<notin> set cids) (roster h)"
proof (induction cids arbitrary: h)
  case (Cons cid cids)
  then show ?case by (auto simp: roster_evict_one intro: filter_cong)
qed simp

lemma roster_evict_fp:
  assumes "hm_wf (hb_clients h)"
  shows "roster (evict_fp fp reason h) = filter (\<lambda>x. snd (snd x) \<noteq> Some fp) (roster h)"
proof -
  let ?cids = "map fst (filter (\<lambda>(_, c). cl_device_fp c = Some fp) (hb_clients h))"
  have "fst x \<notin> set ?cids \<longleftrightarrow> snd (snd x) \<noteq> Some fp" if "x \<in> set (roster h)" for x
  proof -
    from that obtain cid c where x: "x = (cid, cl_lan c, cl_device_fp c)" "(cid, c) \<in> set (hb_clients h)"
      by (auto simp: roster_def)
    have "c' = c" if "(cid, c') \<in> set (hb_clients h)" for c'
      using hm.entries_unique [OF assms that x(2)] .
    moreover have "cid \<in> set ?cids \<longleftrightarrow> (\<exists>c'. (cid, c') \<in> set (hb_clients h) \<and> cl_device_fp c' = Some fp)"
      by force
    ultimately have "cid \<in> set ?cids \<longleftrightarrow> cl_device_fp c = Some fp"
      using x(2) by blast
    with x(1) show ?thesis by simp
  qed
  then show ?thesis
    unfolding evict_fp_def roster_evict_all by (rule filter_cong [OF refl])
qed

lemma evict_fp_frame [simp]:
  "hb_next_client (evict_fp fp reason h) = hb_next_client h"
  "hb_next_perm (evict_fp fp reason h) = hb_next_perm h"
  "hb_perm_routes (evict_fp fp reason h) = hb_perm_routes h"
  "hb_sessions (evict_fp fp reason h) = hb_sessions h"
  "hb_hosted_prompts (evict_fp fp reason h) = hb_hosted_prompts h"
  "hb_lan (evict_fp fp reason h) = hb_lan h"
  "hb_devices (evict_fp fp reason h) = hb_devices h"
  by (simp_all add: evict_fp_def)

lemma hub_inv_maps:
  "hub_inv h \<Longrightarrow> hm_wf (hb_sessions h)" "hub_inv h \<Longrightarrow> hm_wf (hb_hosted_prompts h)"
  "hub_inv h \<Longrightarrow> hm_wf (hb_devices h)" "hub_inv h \<Longrightarrow> hm_wf (hb_perm_routes h)"
  by (simp_all add: hub_inv_def)

lemma hub_inv_evict_fp: "hub_inv h \<Longrightarrow> hub_inv (evict_fp fp reason h)"
  by (rule hub_inv_shrink [OF _ roster_evict_fp [OF hub_inv_clients]]) (simp_all add: hub_inv_maps)

lemma hub_inv_devices: "hub_inv h \<Longrightarrow> hub_inv (h\<lparr>hb_devices := hm_rem d (hb_devices h)\<rparr>)"
  by (auto simp: hub_inv_def Let_def roster_def intro: hm.wf_rem)

lemma hub_inv_lan: "hub_inv h \<Longrightarrow> hub_inv (h\<lparr>hb_lan := l\<rparr>)"
  by (simp add: hub_inv_def Let_def roster_def)

lemma hm_ins_fresh: "hm_get m k = None \<Longrightarrow> hm_ins k v m = m @ [(k, v)]"
  by (induction m) (auto split: if_splits)

text \<open>The greeting: a fresh client within the cap, and at most one of a device.\<close>

lemma hello_check_lan:
  "hello_check env params lan fp h = Inr kind \<Longrightarrow> lan \<Longrightarrow> fp \<noteq> None"
  by (auto simp: hello_check_def Let_def split: if_splits)

lemma hub_inv_insert:
  assumes inv: "hub_inv h" and cap: "count_conn lan (roster h) < (if lan then LAN_CONN_MAX else LOCAL_CONN_MAX)"
    and fp: "lan \<longrightarrow> fp \<noteq> None \<and> fp \<notin> set (lan_fps (roster h))"
  shows "hub_inv (h\<lparr>hb_next_client := hb_next_client h + 1,
     hb_clients := hm_ins (hb_next_client h) \<lparr>cl_subs = [], cl_lan = lan, cl_device_fp = fp\<rparr> (hb_clients h)\<rparr>)"
    (is "hub_inv ?h")
proof -
  have "hb_next_client h \<notin> set (map fst (roster h))"
    using inv by (auto simp: hub_inv_def Let_def simp del: roster_keys)
  then have "hm_get (hb_clients h) (hb_next_client h) = None"
    by (simp add: map_of_eq_None_iff)
  then have r: "roster ?h = roster h @ [(hb_next_client h, lan, fp)]"
    by (simp add: roster_def hm_ins_fresh)
  show ?thesis
    using inv cap fp \<open>hb_next_client h \<notin> set (map fst (roster h))\<close>
    unfolding hub_inv_def r
    by (auto simp: Let_def simp del: roster_keys split: if_splits)
qed

end
