(* ===== verification/HubInvariant.thy ===== *)
theory HubInvariant imports HubLaws begin

text \<open>
  The hub as a transition system: any connection, actor or boot may take its next step, in any
  order and at any clock and file state; the connections and actors are arbitrary. The invariant
  holds in every reachable state.
\<close>

section \<open>The steps\<close>

inductive hub_step :: "hub \<Rightarrow> hub \<Rightarrow> bool" where
  step_conn: "on_event env e cn h = (h', cn', out, fl) \<Longrightarrow> hub_step h h'"
| step_close: "hub_step h (close_conn env cn h)"
| step_shutdown: "hub_step h (shutdown h)"
| step_boot: "boot_session sp ag h = (h', ag', r) \<Longrightarrow> hub_step h h'"
| step_booted: "boot_finish env sp handle b result ag h = (h', r) \<Longrightarrow> hub_step h h'"
| step_boot_failed: "hub_step h (boot_fail env sp err h)"
| step_turn: "actor_turn env ev h a = (h', a', go) \<Longrightarrow> hub_step h h'"

inductive_cases hub_stepE: "hub_step h h'"

definition hub_reachable :: "hub_env \<Rightarrow> (string, device_record option) hmap \<Rightarrow> hub \<Rightarrow> bool" where
  "hub_reachable env devices h \<longleftrightarrow> hm_wf devices \<and> hub_step\<^sup>*\<^sup>* (with_agent env devices) h"

section \<open>Every step keeps the invariant\<close>

lemma inv_with_agent: "hm_wf devices \<Longrightarrow> hub_inv (with_agent env devices)"
  by (simp add: hub_inv_def with_agent_def roster_def count_conn_def lan_fps_def Let_def
      LOCAL_CONN_MAX_def LAN_CONN_MAX_def)

lemma count_conn_clients:
  "length (filter (\<lambda>(_, c). cl_lan c = lan) (hb_clients h)) = count_conn lan (roster h)"
  by (simp add: count_conn_def roster_def filter_map comp_def case_prod_unfold)

lemma inv_hello:
  assumes "hub_inv h"
  shows "hub_inv (fst (hello env params lan fp h))"
proof (cases "hello_check env params lan fp h")
  case Inl
  with assms show ?thesis by (simp add: hello_def)
next
  case (Inr kind)
  let ?h = "case fp of Some f \<Rightarrow> if lan then evict_fp f ''replaced'' h else h | None \<Rightarrow> h"
  have inv: "hub_inv ?h"
    using assms by (simp add: hub_inv_evict_fp split: option.split)
  have "lan \<longrightarrow> fp \<noteq> None \<and> fp \<notin> set (lan_fps (roster ?h))"
    using hello_check_lan [OF Inr] roster_evict_fp [OF hub_inv_clients [OF assms]]
    by (auto simp: lan_fps_def)
  from hub_inv_insert [OF inv _ this] show ?thesis
    using inv unfolding hello_def Inr count_conn_clients Let_def by (simp split: sum.split)
qed

lemma inv_drop_device: "hub_inv h \<Longrightarrow> hub_inv (drop_device fp h)"
  by (simp add: drop_device_def hub_inv_evict_fp)

lemma inv_remote_revoke: "hub_inv h \<Longrightarrow> hub_inv (fst (remote_revoke env cid params h))"
  by (auto simp: remote_revoke_def Let_def revoke_device_def hub_inv_devices inv_drop_device split: option.split)

lemma inv_remote_switch:
  "hub_inv h \<Longrightarrow> hub_inv (fst (remote_on env cid params h))" "hub_inv h \<Longrightarrow> hub_inv (fst (remote_off env cid h))"
  by (simp_all add: remote_on_def remote_off_def send_lan_def Let_def hub_inv_lan split: sum.split)

lemma handle_remote:
  assumes remote: "name \<in> set remote_methods"
  shows "handle_request env cid i name params h =
     (if is_lan cid h \<and> \<not> lan_method_allowed name
      then (h, Reply (Inl (rpc_error_new (-32000) (name @ '' is not allowed on LAN''))))
      else if name = ''gtm/remote.on'' then remote_on env cid params h
      else if name = ''gtm/remote.off'' then remote_off env cid h else remote_revoke env cid params h)"
proof -
  consider "name = ''gtm/remote.on''" | "name = ''gtm/remote.off''" | "name = ''gtm/remote.revoke''"
    using remote by (auto simp: remote_methods_def)
  then show ?thesis by cases (simp_all add: handle_request_def)
qed

lemma inv_request: "hub_inv h \<Longrightarrow> hub_inv (fst (handle_request env cid i name params h))"
  by (cases "name \<in> set remote_methods")
    (simp_all add: handle_remote inv_remote_switch inv_remote_revoke
      hub_inv_keeps [OF _ keeps_request [OF keeps_refl]])

lemma inv_answer: "hub_inv (fst r) \<Longrightarrow> hub_inv (answer cid i r)"
  using hub_inv_keeps keeps_answer [OF keeps_refl] by blast

lemma inv_on_message: "hub_inv h \<Longrightarrow> hub_inv (fst (on_message env msg cn h))"
  using inv_hello [of h env "unwrap_or (JObj []) (jget ''params'' msg)" "cn_lan cn" "cn_device_fp cn"]
    hub_inv_keeps [OF _ keeps_notification [OF keeps_refl]]
    hub_inv_keeps [OF _ keeps_client_reply [OF keeps_refl]]
  unfolding on_message_def greet_def Let_def
  by (fastforce intro: inv_answer inv_request split: option.split prod.split sum.split)

lemma inv_on_event: "hub_inv h \<Longrightarrow> hub_inv (fst (on_event env e cn h))"
  by (cases e) (auto simp: on_event_def inv_on_message split: option.split)

lemma inv_remove_client: "hub_inv h \<Longrightarrow> hub_inv (h\<lparr>hb_clients := hm_rem cid (hb_clients h)\<rparr>)"
  by (rule hub_inv_shrink [OF _ roster_remove]) (simp_all add: hub_inv_maps)

lemma inv_close: "hub_inv h \<Longrightarrow> hub_inv (close_conn env cn h)"
  by (simp add: close_conn_def disconnect_def hub_inv_keeps [OF inv_remove_client keeps_drop_host [OF keeps_refl]]
      split: option.split)

lemma keeps_shutdowns: "keeps h0 h \<Longrightarrow> keeps h0 (fold (\<lambda>a. actor_send a cmd) as h)"
  by (rule keeps_fold) (auto intro: keeping)

lemma inv_shutdown: "hub_inv h \<Longrightarrow> hub_inv (shutdown h)"
proof -
  assume inv: "hub_inv h"
  let ?as = "List.map_filter (\<lambda>(_, e). case e of Live s \<Rightarrow> Some (sl_actor s) | _ \<Rightarrow> None) (hb_sessions h)"
  let ?h = "fold (\<lambda>a. actor_send a Shutdown) ?as (h\<lparr>hb_sessions := []\<rparr>)"
  have "hub_inv (h\<lparr>hb_sessions := []\<rparr>)"
    using inv by (simp add: hub_inv_def roster_def)
  then have "hub_inv ?h"
    using hub_inv_keeps keeps_shutdowns [OF keeps_refl] by blast
  then have "hub_inv (?h\<lparr>hb_clients := []\<rparr>)"
    by (simp add: hub_inv_def Let_def roster_def count_conn_def lan_fps_def)
  then show ?thesis
    by (simp add: shutdown_def Let_def)
qed

section \<open>Actors\<close>

lemma inv_send_to: "hub_inv h \<Longrightarrow> hub_inv (send_to cid msg h)"
  using hub_inv_keeps keeps_send_to [OF keeps_refl] by blast

lemma inv_route:
  "hub_inv h \<Longrightarrow> hub_inv (register_perm_route (''hp-'' @ dec_of (hb_next_perm h)) sid
     (h\<lparr>hb_next_perm := hb_next_perm h + 1\<rparr>))"
  unfolding hub_inv_def register_perm_route_def
  by (auto simp: roster_def Let_def update_conv' dom_def less_Suc_eq hm.wf_ins
      simp flip: dom_map_of_conv_image_fst)

lemma inv_offer: "hub_inv (fst s) \<Longrightarrow> hub_inv (fst (offer_permission sid params cid s))"
proof (cases s)
  case (Pair h m)
  then show "hub_inv (fst s) \<Longrightarrow> ?thesis"
    using inv_send_to [OF inv_route, of h cid _ sid] by (simp add: offer_permission_def next_perm_id_def)
qed

lemma inv_offers: "hub_inv (fst s) \<Longrightarrow> hub_inv (fst (fold (offer_permission sid params) subs s))"
  by (induction subs arbitrary: s) (simp_all add: inv_offer)

lemma inv_clear_routes: "hub_inv h \<Longrightarrow> hub_inv (clear_perm_routes ids h)"
proof -
  assume inv: "hub_inv h"
  have "fst ` set (fold hm_rem ids m) \<subseteq> fst ` set m" for m :: "(string, string) hmap"
  proof (induction ids arbitrary: m)
    case (Cons k ids)
    have "fst ` set (hm_rem k m) \<subseteq> fst ` set m"
      by (auto simp: AList.delete_eq)
    with Cons [of "hm_rem k m"] show ?case by simp
  qed simp
  then have "\<forall>hid \<in> fst ` set (fold hm_rem ids (hb_perm_routes h)). \<exists>n < hb_next_perm h. hid = ''hp-'' @ dec_of n"
    using inv unfolding hub_inv_def by blast
  moreover have "roster (h\<lparr>hb_perm_routes := m\<rparr>) = roster h" for m
    by (simp add: roster_def)
  ultimately show ?thesis
    using inv by (simp add: hub_inv_def clear_perm_routes_def Let_def hm.wf_rem_all del: roster_keys)
qed

lemma inv_start_permission: "hub_inv h \<Longrightarrow> hub_inv (fst (start_permission env i params h a))"
  using hub_inv_keeps [OF _ keeps_broadcast [OF keeps_refl]] inv_offers [of "(h, [])" "ac_sid a" params "subscribers (ac_sid a) h"]
  by (auto simp: start_permission_def Let_def split: prod.split)

lemma keeps_tell [keeping]: "keeps h0 h \<Longrightarrow> keeps h0 (tell_loser kc h)"
  by (cases kc) (simp add: tell_loser_def keeping)

lemma inv_perm_reply: "hub_inv h \<Longrightarrow> hub_inv (fst (handle_perm_reply i result err h a))"
proof -
  assume inv: "hub_inv h"
  have "keeps h (broadcast_session sid msg (fold tell_loser ks h))" for sid msg ks
    by (intro keeping keeps_fold)
  then have "hub_inv (clear_perm_routes ids (broadcast_session sid msg (fold tell_loser ks h)))" for ids sid msg ks
    using inv hub_inv_keeps inv_clear_routes by blast
  then show ?thesis
    using inv by (auto simp: handle_perm_reply_def Let_def inv_send_to split: option.split)
qed

lemma inv_agent_msg: "hub_inv h \<Longrightarrow> hub_inv (fst (handle_agent_msg env msg h a))"
  using hub_inv_keeps [OF _ keeps_broadcast [OF keeps_refl]]
  by (auto simp: handle_agent_msg_def Let_def on_response_def inv_start_permission inv_send_to
      split: option.split)

lemma inv_turn: "hub_inv h \<Longrightarrow> hub_inv (fst (actor_turn env ev h a))"
proof -
  assume inv: "hub_inv h"
  have "keeps h (remove_session sid (fail_pending pend msg h))" for sid pend msg
    unfolding fail_pending_def by (intro keeping keeps_fold) (auto intro: keeping)
  then have closed: "hub_inv (remove_session sid (fail_pending pend msg h))" for sid pend msg
    using inv hub_inv_keeps by blast
  show ?thesis
    using inv inv_perm_reply [OF inv] inv_agent_msg [OF inv] closed
    by (cases "(env, ev, h, a)" rule: actor_turn.cases)
      (auto simp: on_prompt_def on_other_def inv_send_to split: prod.split sum.split
        dest!: arg_cong [of "handle_perm_reply _ _ _ _ _" _ fst] arg_cong [of "handle_agent_msg _ _ _ _" _ fst])
qed

lemma inv_boot: "hub_inv h \<Longrightarrow> hub_inv (fst (boot_session sp ag h))"
  using hub_inv_keeps [OF _ keeps_subscribe [OF keeps_refl]]
  by (auto simp: boot_session_def Let_def split: prod.split sum.split option.split)

lemma inv_boot_finish: "hub_inv h \<Longrightarrow> hub_inv (fst (boot_finish env sp handle b result ag h))"
proof -
  assume inv: "hub_inv h"
  have "keeps h (fold (broadcast_session sid) msgs (complete_session sid cwd title result handle origin h))"
    for sid msgs cwd title origin
    by (intro keeping keeps_fold)
  then show ?thesis
    using inv hub_inv_keeps by (auto simp: boot_finish_def Let_def split: option.split)
qed

lemma inv_boot_fail: "hub_inv h \<Longrightarrow> hub_inv (boot_fail env sp err h)"
  unfolding boot_fail_def using hub_inv_keeps keeps_fail_session [OF keeps_refl] by blast

lemma inv_step: "hub_step h h' \<Longrightarrow> hub_inv h \<Longrightarrow> hub_inv h'"
  by (erule hub_stepE)
    (metis fst_conv inv_on_event inv_close inv_shutdown inv_boot inv_boot_finish inv_boot_fail inv_turn)+

lemma hub_reachable_inv: "hub_reachable env devices h \<Longrightarrow> hub_inv h"
proof -
  assume r: "hub_reachable env devices h"
  then have "hub_step\<^sup>*\<^sup>* (with_agent env devices) h" by (simp add: hub_reachable_def)
  then show ?thesis
    by (induction) (use r in \<open>auto simp: hub_reachable_def intro: inv_with_agent inv_step\<close>)
qed

section \<open>What the invariant gives\<close>

definition example_env :: hub_env where
  "example_env =
     \<lparr>he_now = 0, he_lan_port = 27420, he_lan_watched = True, he_materials = Inr (), he_remove_error = (\<lambda>_. None),
      he_guess_host = ''mac'', he_pid = 1, he_socket = ''s'', he_version = ''1'', he_root = [],
      he_is_utf8 = (\<lambda>_. True), he_from_str = (\<lambda>_. None), he_to_str = (\<lambda>v. case v of JInt n \<Rightarrow> dec_of (nat n) | _ \<Rightarrow> []),
      he_to_lowercase = (\<lambda>s. s)\<rparr>"

definition hello_frame :: "string \<Rightarrow> conn_event" where
  "hello_frame kind =
     Frame (rpc_request (JInt 1) ''gtm/hello'' (JObj [(''protocolVersion'', JInt 1),
       (''client'', JObj [(''kind'', JStr kind)])]))"

definition phone :: device_record where
  "phone = \<lparr>dr_device_id = ''d'', dr_expires = 10, dr_cert_sha256 = ''f''\<rparr>"

definition one_phone :: hub where
  "one_phone = fst (on_event example_env (hello_frame ''ios'') (new_conn True (Some ''f''))
     (with_agent example_env [(''d'', Some phone)]))"

lemmas hello_eval = example_env_def hello_frame_def phone_def on_event_def on_message_def greet_def
  new_conn_def with_agent_def hello_def hello_check_def jpointer_str_def jget_str_def
  rpc_request_def PROTOCOL_VERSION_def lookup_device_fp_def
  list_devices_def map_filter_simps evict_fp_def LAN_CONN_MAX_def LOCAL_CONN_MAX_def emit_def

lemma one_phone_clients:
  "hb_clients one_phone = [(1, \<lparr>cl_subs = [], cl_lan = True, cl_device_fp = Some ''f''\<rparr>)]"
  by (simp add: one_phone_def hello_eval)

lemma one_phone_reachable: "hub_reachable example_env [(''d'', Some phone)] one_phone"
proof -
  have "hub_step (with_agent example_env [(''d'', Some phone)]) one_phone"
    unfolding one_phone_def by (metis prod.collapse step_conn)
  then show ?thesis
    by (simp add: hub_reachable_def hm_wf_def)
qed

text \<open>
  C1. In every reachable state of the hub, whatever connections, actors and boots have done in
  whatever order: at most eight local and two LAN clients are connected, an enrolled device has one
  connection, the next client id is not in use, and the next id for a permission request is not the id
  of a request that is still open.
\<close>

theorem hub_invariant:
  assumes "hub_reachable env devices h"
  shows "length (filter (\<lambda>(_, c). cl_lan c = False) (hb_clients h)) \<le> LOCAL_CONN_MAX \<and>
    length (filter (\<lambda>(_, c). cl_lan c = True) (hb_clients h)) \<le> LAN_CONN_MAX \<and>
    distinct (map cl_device_fp (filter cl_lan (map snd (hb_clients h)))) \<and>
    hm_wf (hb_clients h) \<and> hm_get (hb_clients h) (hb_next_client h) = None \<and>
    hm_get (hb_perm_routes h) (snd (next_perm_id h)) = None"
proof -
  from assms have inv: "hub_inv h" by (rule hub_reachable_inv)
  have "hb_next_client h \<notin> set (map fst (roster h))"
    using inv by (auto simp: hub_inv_def Let_def simp del: roster_keys)
  moreover have "''hp-'' @ dec_of (hb_next_perm h) \<notin> fst ` set (hb_perm_routes h)"
    using inv by (force simp: hub_inv_def dec_of_inj)
  moreover have "lan_fps (roster h) = map cl_device_fp (filter cl_lan (map snd (hb_clients h)))"
    by (simp add: lan_fps_def roster_def filter_map comp_def case_prod_unfold)
  ultimately show ?thesis
    using inv hub_inv_clients [OF inv] unfolding count_conn_clients
    by (simp add: hub_inv_def Let_def next_perm_id_def map_of_eq_None_iff)
qed

theorem hub_invariant_witness:
  "length (hb_clients one_phone) = 1 \<and> hm_get (hb_clients one_phone) (hb_next_client one_phone) = None"
  using hub_invariant [OF one_phone_reachable] by (simp add: one_phone_clients)

end
