(* ===== verification/HubSafety.thy ===== *)
theory HubSafety imports HubInvariant begin

text \<open>
  What the handlers of the hub do, one by one: the confinement of LAN clients and the two ways
  around it, taking over a session, boots that end late, disconnecting, and attaching.
\<close>

section \<open>Frames\<close>

lemma sessions_frame [simp, frame]:
  "hb_sessions (emit msgs h) = hb_sessions h"
  "hb_sessions (send_to cid msg h) = hb_sessions h"
  "hb_sessions (broadcast_session sid msg h) = hb_sessions h"
  "hb_sessions (broadcast_all msg h) = hb_sessions h"
  "hb_sessions (subscribe cid sid h) = hb_sessions h"
  "hb_sessions (set_client cid f h) = hb_sessions h"
  "hb_sessions (actor_send a cmd h) = hb_sessions h"
  "hb_sessions (actor_spawn st cid i params h) = hb_sessions h"
  "hb_sessions (reply_waiter sid result w h) = hb_sessions h"
  "hb_sessions (fail_hosted_one env kp h) = hb_sessions h"
  by (auto simp: emit_def send_to_def broadcast_session_def broadcast_all_def subscribe_def set_client_def
      actor_send_def actor_spawn_def reply_waiter_def fail_hosted_one_def split: option.split prod.split)

lemma cmds_frame [simp, frame]:
  "hb_cmds (emit msgs h) = hb_cmds h"
  "hb_cmds (send_to cid msg h) = hb_cmds h"
  "hb_cmds (broadcast_session sid msg h) = hb_cmds h"
  "hb_cmds (broadcast_all msg h) = hb_cmds h"
  "hb_cmds (subscribe cid sid h) = hb_cmds h"
  "hb_cmds (set_client cid f h) = hb_cmds h"
  "hb_cmds (actor_send a cmd h) = hb_cmds h @ [(a, cmd)]"
  "hb_cmds (actor_spawn st cid i params h) = hb_cmds h"
  "hb_cmds (reply_waiter sid result w h) = hb_cmds h"
  "hb_cmds (fail_hosted_one env kp h) = hb_cmds h"
  by (auto simp: emit_def send_to_def broadcast_session_def broadcast_all_def subscribe_def set_client_def
      actor_send_def actor_spawn_def reply_waiter_def fail_hosted_one_def split: option.split prod.split)

lemma spawned_frame [simp, frame]:
  "hb_spawned (emit msgs h) = hb_spawned h"
  "hb_spawned (send_to cid msg h) = hb_spawned h"
  "hb_spawned (broadcast_session sid msg h) = hb_spawned h"
  "hb_spawned (broadcast_all msg h) = hb_spawned h"
  "hb_spawned (subscribe cid sid h) = hb_spawned h"
  "hb_spawned (set_client cid f h) = hb_spawned h"
  "hb_spawned (actor_send a cmd h) = hb_spawned h"
  by (auto simp: emit_def send_to_def broadcast_session_def broadcast_all_def subscribe_def set_client_def
      actor_send_def split: option.split prod.split)

lemma fold_same: "(\<And>x h. f (g x h) = f h) \<Longrightarrow> f (fold g xs h) = f h"
  by (induction xs arbitrary: h) auto

lemma waiters_frame [simp]:
  "hb_sessions (fold (reply_waiter sid result) ws h) = hb_sessions h"
  "hb_cmds (fold (reply_waiter sid result) ws h) = hb_cmds h"
  by (simp_all add: fold_same)

lemma fail_hosted_frame [simp]:
  "hb_sessions (fail_hosted_prompts_for_host env c h) = hb_sessions h"
  "hb_cmds (fail_hosted_prompts_for_host env c h) = hb_cmds h"
  by (simp_all add: fail_hosted_prompts_for_host_def Let_def fold_same)

text \<open>Who owns a session depends on the table of sessions only.\<close>

lemma owner_cong:
  "hb_sessions h' = hb_sessions h \<Longrightarrow> host_client sid h' = host_client sid h"
  "hb_sessions h' = hb_sessions h \<Longrightarrow> actor_for sid h' = actor_for sid h"
  by (simp_all add: host_client_def actor_for_def)

section \<open>LAN clients\<close>

definition same_owners :: "hub \<Rightarrow> hub \<Rightarrow> bool" where
  "same_owners h h' \<longleftrightarrow> (\<forall>sid. host_client sid h' = host_client sid h \<and> actor_for sid h' = actor_for sid h)"

definition commands_since :: "hub \<Rightarrow> hub \<Rightarrow> actor_cmd list" where
  "commands_since h h' = map snd (drop (length (hb_cmds h)) (hb_cmds h'))"

lemma same_owners_sessions: "hb_sessions h' = hb_sessions h \<Longrightarrow> same_owners h h'"
  by (simp add: same_owners_def host_client_def actor_for_def)

definition confined :: "hub \<Rightarrow> hub \<times> dispatch \<Rightarrow> bool" where
  "confined h r \<longleftrightarrow> same_owners h (fst r) \<and> Shutdown \<notin> set (commands_since h (fst r)) \<and>
     (\<forall>sp \<in> set (drop (length (hb_spawned h)) (hb_spawned (fst r))). sp_start sp \<noteq> New)"

lemma confined_same [simp]: "confined h (h, d)"
  by (simp add: confined_def same_owners_def commands_since_def)

lemma confined_frame:
  "hb_sessions h' = hb_sessions h \<Longrightarrow> hb_cmds h' = hb_cmds h \<Longrightarrow> hb_spawned h' = hb_spawned h \<Longrightarrow> confined h (h', d)"
  by (simp add: confined_def same_owners_sessions commands_since_def)

lemma confined_forward [simp]: "confined h (forward_to_actor cid i name params h)"
  by (auto simp: forward_to_actor_def confined_def same_owners_sessions commands_since_def split: option.split)

lemma confined_prompt [simp]: "confined h (session_prompt env cid i params h)"
  by (simp add: session_prompt_def Let_def confined_frame split: option.split)

lemma confined_cancel [simp]: "confined h (session_cancel cid i params h)"
  by (simp add: session_cancel_def confined_frame split: option.split)

lemma confined_subscribe [simp]:
  "confined h (subscribe_req cid params h)" "confined h (unsubscribe_req cid params h)"
  by (simp_all add: subscribe_req_def unsubscribe_req_def Let_def confined_frame split: option.split)

lemma confined_history [simp]: "confined h (session_history_req env params h)"
  by (simp add: session_history_req_def Let_def split: option.split)

lemma confined_attach [simp]: "st \<noteq> New \<Longrightarrow> confined h (session_attach env cid i st params h)"
  unfolding session_attach_def Let_def
  by (auto simp: confined_def same_owners_def commands_since_def host_client_def actor_for_def
      actor_spawn_def hm.get_ins split: option.splits entry.splits)

text \<open>
  C12. A connected LAN client is confined: a request whose method is not on the list changes
  nothing and is refused, and whatever a LAN client asks for, no session changes its host or its
  actor, no actor is shut down, no new session is started, and the connected clients, the LAN
  switch and the enrolled devices stay as they are.
\<close>

theorem lan_request_confined:
  assumes lan: "is_lan cid h"
  shows "let (h', d) = handle_request env cid i name params h in
    (lan_method_allowed name \<or>
       h' = h \<and> d = Reply (Inl (rpc_error_new (-32000) (name @ '' is not allowed on LAN'')))) \<and>
    confined h (h', d) \<and> map fst (hb_clients h') = map fst (hb_clients h) \<and>
    hb_lan h' = hb_lan h \<and> hb_devices h' = hb_devices h"
proof (cases "lan_method_allowed name")
  case False
  with lan show ?thesis by (simp add: handle_request_def)
next
  case True
  then have not_remote: "name \<notin> set remote_methods" "name \<noteq> ''gtm/sessions.host''"
      "name \<noteq> ''gtm/sessions.unhost''" "name \<noteq> ''session/new''"
    by (auto simp: remote_methods_def lan_method_allowed_def starts_with_def)
  have k: "keeps h (fst (handle_request env cid i name params h))"
    using keeps_request [OF keeps_refl not_remote(1)] .
  have "confined h (handle_request env cid i name params h)"
    using True not_remote by (simp add: handle_request_def remote_methods_def)
  moreover have "map fst (hb_clients (fst (handle_request env cid i name params h))) = map fst (hb_clients h)"
    using k by (metis keeps_def roster_keys)
  ultimately show ?thesis
    using True k by (auto simp: keeps_def split: prod.split)
qed

theorem lan_request_confined_witness:
  "fst (handle_request example_env 1 (JInt 2) ''gtm/remote.on'' (JObj []) one_phone) = one_phone \<and>
   hb_lan (fst (handle_request example_env 1 (JInt 2) ''session/load'' (JObj []) one_phone)) = hb_lan one_phone"
proof -
  have lan: "is_lan 1 one_phone"
    by (simp add: is_lan_def one_phone_clients)
  have "\<not> lan_method_allowed ''gtm/remote.on''"
    by (simp add: lan_method_allowed_def starts_with_def)
  then show ?thesis
    using lan_request_confined [OF lan, of example_env "JInt 2" "''gtm/remote.on''" "JObj []"]
      lan_request_confined [OF lan, of example_env "JInt 2" "''session/load''" "JObj []"]
    by (auto split: prod.splits)
qed

section \<open>Around the confinement\<close>

lemma evicted_gone:
  assumes "hm_get (hb_clients h) cid = Some c" and "cl_device_fp c = Some fp"
  shows "hm_get (hb_clients (evict_fp fp reason h)) cid = None"
proof -
  let ?cids = "map fst (filter (\<lambda>(_, c). cl_device_fp c = Some fp) (hb_clients h))"
  have "cid \<in> set ?cids"
    using assms map_of_SomeD [OF assms(1)] by force
  moreover have "set (map fst (roster (evict_fp fp reason h))) \<inter> set ?cids = {}"
    unfolding evict_fp_def roster_evict_all set_map set_filter by blast
  ultimately have "cid \<notin> set (map fst (roster (evict_fp fp reason h)))"
    by blast
  then show ?thesis
    by (simp add: map_of_eq_None_iff)
qed

lemma hosting_makes_host:
  "\<not> is_lan cid h \<Longrightarrow> param_str ''sessionId'' params = Some sid \<Longrightarrow>
    host_client sid (fst (host_req env cid params h)) = Some cid"
  by (auto simp: host_req_def host_client_def Let_def hm.get_ins split: option.split)

text \<open>
  Revoking a device removes its client from the table, but its connection goes on, and a
  client that is not in the table counts as local: the request that was refused to the phone before
  the revocation makes it the host of the session after it.
\<close>

theorem revoked_phone_counts_as_local:
  assumes "hm_get (hb_clients h) cid = Some c" and "cl_lan c" and "cl_device_fp c = Some fp"
    and "cn_hello_done cn" and "cn_client_id cn = Some cid" and "param_str ''sessionId'' params = Some sid"
  shows "let ask = on_message env (rpc_request i ''gtm/sessions.host'' params) cn in
    host_client sid (fst (ask h)) = host_client sid h \<and>
    host_client sid (fst (ask (drop_device fp h))) = Some cid"
proof -
  let ?h = "drop_device fp h"
  have lan: "is_lan cid h" "\<not> is_lan cid ?h"
    using assms(1,2) evicted_gone [OF assms(1,3)] by (simp_all add: is_lan_def drop_device_def)
  have refused: "\<not> lan_method_allowed ''gtm/sessions.host''"
    by (simp add: lan_method_allowed_def starts_with_def)
  have msg: "fst (on_message env (rpc_request i ''gtm/sessions.host'' params) cn h') =
      answer cid i (handle_request env cid i ''gtm/sessions.host'' params h')" for h'
    using assms(4,5) by (simp add: on_message_def rpc_request_def jget_str_def Let_def)
  have owner: "host_client sid (answer cid i r) = host_client sid (fst r)" for r
    by (cases r) (auto simp: answer_def host_client_def split: dispatch.split sum.split)
  have "handle_request env cid i ''gtm/sessions.host'' params ?h = host_req env cid params ?h"
    using lan(2) by (simp add: handle_request_def)
  then show ?thesis
    using lan(1) refused hosting_makes_host [OF lan(2) assms(6), of env]
    by (simp add: msg owner handle_request_def)
qed

theorem revoked_phone_counts_as_local_witness:
  "host_client ''s'' (fst (on_message example_env (rpc_request (JInt 2) ''gtm/sessions.host'' (JObj [(''sessionId'', JStr ''s'')]))
     \<lparr>cn_lan = True, cn_device_fp = Some ''f'', cn_hello_done = True, cn_client_id = Some 1\<rparr>
     (drop_device ''f'' one_phone))) = Some 1"
  using revoked_phone_counts_as_local [of one_phone 1 "\<lparr>cl_subs = [], cl_lan = True, cl_device_fp = Some ''f''\<rparr>" "''f''"
      "\<lparr>cn_lan = True, cn_device_fp = Some ''f'', cn_hello_done = True, cn_client_id = Some 1\<rparr>"
      "JObj [(''sessionId'', JStr ''s'')]" "''s''" example_env "JInt 2"]
  by (simp add: one_phone_clients param_str_def jget_str_def Let_def)

text \<open>
  The list of methods is consulted for requests only: a session method that is refused to a
  LAN client as a request is passed on to the agent when it comes as a notification.
\<close>

theorem lan_notification_bypass:
  assumes "is_lan cid h" and "is_session_method name" and "\<not> lan_method_allowed name"
    and "\<not> is_update_method name" and "jget_str ''sessionId'' params = Some sid" and "actor_for sid h = Some a"
  shows "fst (handle_request env cid i name params h) = h \<and>
    handle_notification cid name params h = actor_send a (Notify name params) h"
  using assms by (simp add: handle_request_def handle_notification_def update_target_def)

definition with_live :: "string \<Rightarrow> hub \<Rightarrow> hub" where
  "with_live sid h = h\<lparr>hb_sessions := [(sid, Live \<lparr>sl_cwd = None, sl_title = [], sl_new_result = JNull, sl_actor = 0\<rparr>)]\<rparr>"

theorem lan_notification_bypass_witness:
  "hb_cmds (handle_notification 1 ''session/fork'' (JObj [(''sessionId'', JStr ''s'')]) (with_live ''s'' one_phone)) =
   hb_cmds one_phone @ [(0, Notify ''session/fork'' (JObj [(''sessionId'', JStr ''s'')]))]"
  using lan_notification_bypass [of 1 "with_live ''s'' one_phone" "''session/fork''" "JObj [(''sessionId'', JStr ''s'')]" "''s''" 0]
  by (simp add: is_lan_def with_live_def one_phone_clients is_session_method_def lan_method_allowed_def
      starts_with_def is_update_method_def jget_str_def actor_for_def)

section \<open>Hosting\<close>

lemma fail_replies_frame [simp]: "hb_sessions (fail_replies env err seen ws h) = hb_sessions h"
  by (induction env err seen ws h rule: fail_replies.induct) (auto simp: Let_def)

text \<open>
  A local client that asks to host a session becomes its host at once, whoever had it; no other
  session changes; an actor that was running it, and only that actor, is told to stop; and a boot of
  the session that ends after the takeover leaves the host and stops its own actor.
\<close>

theorem host_takes_over:
  assumes "\<not> is_lan cid h" and "param_str ''sessionId'' params = Some sid"
  shows "let h' = fst (host_req env cid params h);
             late = complete_session sid cwd title result actor origin h' in
    host_client sid h' = Some cid \<and>
    (sid' = sid \<or> hm_get (hb_sessions h') sid' = hm_get (hb_sessions h) sid') \<and>
    hb_cmds h' = hb_cmds h @ (case actor_for sid h of Some a \<Rightarrow> [(a, Shutdown)] | None \<Rightarrow> []) \<and>
    host_client sid late = Some cid \<and> hb_cmds late = hb_cmds h' @ [(actor, Shutdown)]"
proof -
  let ?h = "fst (host_req env cid params h)"
  have host: "host_client sid ?h = Some cid"
    using hosting_makes_host assms by blast
  moreover from this have "complete_session sid cwd title result actor origin ?h = actor_send actor Shutdown ?h"
    by (auto simp: complete_session_def host_client_def split: option.splits entry.splits)
  moreover have "hb_cmds ?h = hb_cmds h @ (case actor_for sid h of Some a \<Rightarrow> [(a, Shutdown)] | None \<Rightarrow> [])"
    using assms by (auto simp: host_req_def Let_def actor_for_def split: option.split entry.split)
  moreover have "sid' = sid \<or> hm_get (hb_sessions ?h) sid' = hm_get (hb_sessions h) sid'"
    using assms by (auto simp: host_req_def Let_def hm.get_ins hm.get_rem split: option.split entry.split)
  ultimately show ?thesis
    by (simp add: Let_def owner_cong(1) [of "actor_send actor Shutdown ?h" ?h])
qed

theorem host_takes_over_witness:
  "host_client ''s'' (fst (host_req example_env 9 (JObj [(''sessionId'', JStr ''s'')]) (with_live ''s'' one_phone))) = Some 9"
  using host_takes_over [of 9 "with_live ''s'' one_phone" "JObj [(''sessionId'', JStr ''s'')]" "''s''" example_env]
  by (simp add: is_lan_def with_live_def one_phone_clients param_str_def jget_str_def Let_def)

text \<open>
  A boot of the session that fails after the takeover, and an actor whose agent closes before
  it has read the order to stop, remove the new host's entry: the host is still connected, but the
  session has no host any more.
\<close>

theorem failure_evicts_host:
  assumes "host_client sid h = Some cid" and "hm_wf (hb_sessions h)"
  shows "(jget_str ''sessionId'' (sp_params sp) = Some sid \<longrightarrow> host_client sid (boot_fail env sp err h) = None) \<and>
    (ac_sid a = sid \<longrightarrow> host_client sid (fst (actor_turn env AgentClosed h a)) = None) \<and>
    hb_clients (boot_fail env sp err h) = hb_clients h"
proof -
  have sent: "hb_sessions (fail_pending pend msg h) = hb_sessions h" for pend msg
    unfolding fail_pending_def by (rule fold_same) auto
  have "hb_clients (fail_replies env err seen ws h) = hb_clients h" for err seen ws h
    by (induction env err seen ws h rule: fail_replies.induct)
      (auto simp: Let_def send_to_def emit_def split: option.split)
  then show ?thesis
    by (auto simp: boot_fail_def fail_session_def host_client_def remove_session_def sent hm.get_rem Let_def
        simp del: fail_replies.simps split: option.split)
qed

theorem failure_evicts_host_witness:
  "host_client ''s'' (fst (actor_turn example_env AgentClosed
     (fst (host_req example_env 9 (JObj [(''sessionId'', JStr ''s'')]) (with_live ''s'' one_phone)))
     \<lparr>ac_sid = ''s'', ac_agent = \<lparr>ag_next_id = 1, ag_out = [], ag_broken = None\<rparr>, ac_pending = [],
      ac_queue = [], ac_inflight = False, ac_perm = None\<rparr>)) = None"
  (is "host_client _ (fst (actor_turn _ _ ?h ?a)) = None")
proof -
  have h: "host_client ''s'' ?h = Some 9"
    by (rule hosting_makes_host)
      (simp_all add: is_lan_def with_live_def one_phone_clients param_str_def jget_str_def)
  have wf: "hm_wf (hb_sessions ?h)"
    using keeps_host_req [OF keeps_refl, of "with_live ''s'' one_phone"]
    by (simp add: keeps_def hm_wf_def with_live_def)
  show ?thesis
    using failure_evicts_host [OF h wf, of undefined example_env undefined ?a] by simp
qed

end
