(* ===== verification/HubRouting.thy ===== *)
theory HubRouting imports HubSafety begin

text \<open>
  Who is answered: the prompts that wait for a hosting client, what a disconnect leaves behind,
  and the clients that wait for a session to start.
\<close>

section \<open>Frames\<close>

lemma clients_frame [simp, frame]:
  "hb_clients (emit msgs h) = hb_clients h"
  "hb_clients (send_to cid msg h) = hb_clients h"
  "hb_clients (broadcast_session sid msg h) = hb_clients h"
  "hb_clients (broadcast_all msg h) = hb_clients h"
  "hb_clients (actor_send a cmd h) = hb_clients h"
  "hb_clients (fail_hosted_one env kp h) = hb_clients h"
  by (auto simp: emit_def send_to_def broadcast_session_def broadcast_all_def actor_send_def
      fail_hosted_one_def split: option.split prod.split)

lemma hosted_frame [simp, frame]:
  "hb_hosted_prompts (emit msgs h) = hb_hosted_prompts h"
  "hb_hosted_prompts (send_to cid msg h) = hb_hosted_prompts h"
  "hb_hosted_prompts (broadcast_session sid msg h) = hb_hosted_prompts h"
  "hb_hosted_prompts (broadcast_all msg h) = hb_hosted_prompts h"
  "hb_hosted_prompts (subscribe cid sid h) = hb_hosted_prompts h"
  "hb_hosted_prompts (fail_hosted_one env kp h) = hb_hosted_prompts h"
  by (auto simp: emit_def send_to_def broadcast_session_def broadcast_all_def subscribe_def set_client_def
      fail_hosted_one_def split: option.split prod.split)

lemma routes_frame [simp, frame]:
  "hb_perm_routes (emit msgs h) = hb_perm_routes h"
  "hb_perm_routes (send_to cid msg h) = hb_perm_routes h"
  "hb_perm_routes (broadcast_session sid msg h) = hb_perm_routes h"
  "hb_perm_routes (subscribe cid sid h) = hb_perm_routes h"
  by (auto simp: emit_def send_to_def broadcast_session_def subscribe_def set_client_def split: option.split)

definition connected :: "nat \<Rightarrow> hub \<Rightarrow> bool" where
  "connected cid h \<longleftrightarrow> hm_get (hb_clients h) cid \<noteq> None"

lemma connected_subscribe [simp]: "connected c (subscribe cid sid h) = connected c h"
  by (auto simp: connected_def subscribe_def set_client_def hm.get_ins split: option.split)

lemma connected_cong: "hb_clients h' = hb_clients h \<Longrightarrow> connected c h' = connected c h"
  by (simp add: connected_def)

lemma sent_send_to: "hb_sent (send_to cid msg h) = hb_sent h @ (if connected cid h then [(cid, msg)] else [])"
  by (auto simp: send_to_def connected_def emit_def)

interpretation ob: outbox send_to hb_sent connected
  by unfold_locales (simp_all add: sent_send_to connected_def)

lemma sent_frame [simp]:
  "hb_sent (subscribe cid sid h) = hb_sent h"
  "hb_sent (actor_send a cmd h) = hb_sent h"
  "hb_sent (actor_spawn st cid i params h) = hb_sent h"
  by (auto simp: subscribe_def set_client_def actor_send_def actor_spawn_def split: option.split)

lemma sent_grows [intro]:
  "m \<in> set (hb_sent h) \<Longrightarrow> m \<in> set (hb_sent (emit msgs h))"
  "m \<in> set (hb_sent h) \<Longrightarrow> m \<in> set (hb_sent (broadcast_all msg h))"
  "m \<in> set (hb_sent h) \<Longrightarrow> m \<in> set (hb_sent (fail_hosted_one env kp h))"
  by (auto simp: emit_def broadcast_all_def fail_hosted_one_def sent_send_to split: prod.split)

section \<open>The end of a host\<close>

definition host_gone_msg :: "hub_env \<Rightarrow> string \<Rightarrow> json" where
  "host_gone_msg env key =
     to_msg (rpc_error_new (-32012) ''TUI session host disconnected'') (unwrap_or JNull (he_from_str env key))"

text \<open>A hosted prompt is open, or its origin was told that the host is gone.\<close>

definition open_or_told :: "hub_env \<Rightarrow> string \<times> hosted_prompt \<Rightarrow> hub \<Rightarrow> bool" where
  "open_or_told env kp h \<longleftrightarrow> kp \<in> set (hb_hosted_prompts h) \<or>
     (hp_origin (snd kp), host_gone_msg env (fst kp)) \<in> set (hb_sent h)"

lemma fail_hosted_one_send:
  "fail_hosted_one env = (\<lambda>kp. send_to (hp_origin (snd kp)) (host_gone_msg env (fst kp)))"
  by (rule ext, rule ext) (simp add: fail_hosted_one_def host_gone_msg_def case_prod_unfold)

lemma fail_hosted_fold_sent:
  "m \<in> set (hb_sent h) \<Longrightarrow> m \<in> set (hb_sent (fold (fail_hosted_one env) ps h))"
  unfolding fail_hosted_one_send by (rule ob.sent_mono)

lemma fail_hosted_fold_clients [simp]:
  "hb_clients (fold (fail_hosted_one env) ps h) = hb_clients h"
  "hb_hosted_prompts (fold (fail_hosted_one env) ps h) = hb_hosted_prompts h"
  by (simp_all add: fold_same)

lemma fail_hosted_fold_told:
  "kp \<in> set ps \<Longrightarrow> connected (hp_origin (snd kp)) h \<Longrightarrow>
    (hp_origin (snd kp), host_gone_msg env (fst kp)) \<in> set (hb_sent (fold (fail_hosted_one env) ps h))"
  unfolding fail_hosted_one_send by (auto simp: ob.sent_send_all)

lemma fail_hosted_clients [simp]: "hb_clients (fail_hosted_prompts_for_host env c h) = hb_clients h"
  by (simp add: fail_hosted_prompts_for_host_def Let_def)

lemma fail_hosted_prompts [simp]:
  "hb_hosted_prompts (fail_hosted_prompts_for_host env c h) = filter (\<lambda>(_, p). hp_host p \<noteq> c) (hb_hosted_prompts h)"
  by (simp add: fail_hosted_prompts_for_host_def Let_def)

lemma fail_hosted_told:
  assumes "open_or_told env kp h" and "connected (hp_origin (snd kp)) h"
  shows "open_or_told env kp (fail_hosted_prompts_for_host env c h)"
proof (cases "hp_host (snd kp) = c \<and> kp \<in> set (hb_hosted_prompts h)")
  case True
  then have "kp \<in> set (filter (\<lambda>(_, p). hp_host p = c) (hb_hosted_prompts h))"
    by auto
  from fail_hosted_fold_told [OF this, of "h\<lparr>hb_hosted_prompts := filter (\<lambda>(_, p). hp_host p \<noteq> c) (hb_hosted_prompts h)\<rparr>" env]
  show ?thesis
    using assms(2) by (simp add: open_or_told_def fail_hosted_prompts_for_host_def Let_def connected_def)
next
  case False
  then show ?thesis
    using assms(1) by (cases kp) (auto simp: open_or_told_def fail_hosted_prompts_for_host_def Let_def
        intro: fail_hosted_fold_sent)
qed

lemma unhost_clients [simp]: "hb_clients (unhost_if_owner env c sid h) = hb_clients h"
  by (simp add: unhost_if_owner_def)

lemma unhost_told:
  assumes "open_or_told env kp h" and "connected (hp_origin (snd kp)) h"
  shows "open_or_told env kp (unhost_if_owner env c sid h)"
proof -
  have "open_or_told env kp (broadcast_all msg h')" if "open_or_told env kp h'" for msg h'
    using that by (auto simp: open_or_told_def)
  moreover have "open_or_told env kp (h\<lparr>hb_sessions := s\<rparr>)" for s
    using assms(1) by (simp add: open_or_told_def)
  ultimately show ?thesis
    using assms(1) fail_hosted_told assms(2) by (simp add: unhost_if_owner_def connected_def)
qed

lemma unhost_sessions:
  "hm_get (hb_sessions (unhost_if_owner env c sid h)) s =
    (if s = sid \<and> host_client s h = Some c then None else hm_get (hb_sessions h) s)"
  by (auto simp: unhost_if_owner_def is_host_def hm.get_rem)

lemma host_client_get:
  "host_client s h = (case hm_get (hb_sessions h) s of Some (Hosted t) \<Rightarrow> Some (hs_client_id t) | _ \<Rightarrow> None)"
  by (simp add: host_client_def)

lemma unhost_all:
  assumes "open_or_told env kp h" and "connected (hp_origin (snd kp)) h"
  shows "open_or_told env kp (fold (unhost_if_owner env c) sids h)"
  using assms by (induction sids arbitrary: h) (simp_all add: unhost_told connected_def)

lemma unhost_all_clients [simp]: "hb_clients (fold (unhost_if_owner env c) sids h) = hb_clients h"
  by (simp add: fold_same)

lemma unhost_all_sessions:
  "hm_get (hb_sessions (fold (unhost_if_owner env c) sids h)) s =
    (if s \<in> set sids \<and> host_client s h = Some c then None else hm_get (hb_sessions h) s)"
proof (induction sids arbitrary: h)
  case (Cons sid sids)
  have "host_client s (unhost_if_owner env c sid h) =
      (if s = sid \<and> host_client s h = Some c then None else host_client s h)"
    unfolding host_client_get [of s "unhost_if_owner env c sid h"] unhost_sessions
    by (auto simp: host_client_get [of s h])
  with Cons [of "unhost_if_owner env c sid h"] show ?case
    by (auto simp: unhost_sessions)
qed simp

lemma hosted_listed:
  assumes "host_client s h = Some c"
  shows "s \<in> set (map fst (filter (\<lambda>(_, e). case e of Hosted t \<Rightarrow> hs_client_id t = c | _ \<Rightarrow> False) (hb_sessions h)))"
proof -
  obtain t where "hm_get (hb_sessions h) s = Some (Hosted t)" "hs_client_id t = c"
    using assms by (auto simp: host_client_def split: option.splits entry.splits)
  then show ?thesis
    using map_of_SomeD by force
qed

lemma disconnect_clients: "hb_clients (disconnect env cid h) = hm_rem cid (hb_clients h)"
  by (simp add: disconnect_def drop_host_client_def)

lemma disconnect_sessions:
  "hm_get (hb_sessions (disconnect env cid h)) sid =
    (if host_client sid h = Some cid then None else hm_get (hb_sessions h) sid)"
proof -
  have "host_client s (h\<lparr>hb_clients := m\<rparr>) = host_client s h" for s m
    by (simp add: host_client_def)
  then show ?thesis
    using hosted_listed [of sid h cid]
    by (auto simp: disconnect_def drop_host_client_def unhost_all_sessions)
qed

text \<open>
  Disconnecting leaves nothing of a client behind: it is not connected, it hosts no session,
  no prompt waits for it, and every client whose prompt waited for it, and that is connected, was
  told so; the sessions of others stay.
\<close>

theorem disconnect_leaves_nothing:
  "let h' = disconnect env cid h in
    hm_get (hb_clients h') cid = None \<and> host_client sid h' \<noteq> Some cid \<and>
    (host_client sid h \<noteq> Some cid \<longrightarrow> hm_get (hb_sessions h') sid = hm_get (hb_sessions h) sid) \<and>
    (\<forall>kp \<in> set (hb_hosted_prompts h'). hp_host (snd kp) \<noteq> cid) \<and>
    (\<forall>kp \<in> set (hb_hosted_prompts h). hp_host (snd kp) = cid \<and> connected (hp_origin (snd kp)) h' \<longrightarrow>
       (hp_origin (snd kp), host_gone_msg env (fst kp)) \<in> set (hb_sent h'))"
proof -
  let ?h = "h\<lparr>hb_clients := hm_rem cid (hb_clients h)\<rparr>"
  let ?sids = "map fst (filter (\<lambda>(_, e). case e of Hosted s \<Rightarrow> hs_client_id s = cid | _ \<Rightarrow> False) (hb_sessions h))"
  let ?u = "fold (unhost_if_owner env cid) ?sids ?h"
  have d: "disconnect env cid h = fail_hosted_prompts_for_host env cid ?u"
    by (simp add: disconnect_def drop_host_client_def)
  note get = disconnect_sessions [of env cid h sid] and clients = disconnect_clients [of env cid h]
  have told: "(hp_origin (snd kp), host_gone_msg env (fst kp)) \<in> set (hb_sent (disconnect env cid h))"
    if "kp \<in> set (hb_hosted_prompts h)" "hp_host (snd kp) = cid" "connected (hp_origin (snd kp)) (disconnect env cid h)" for kp
  proof -
    have "connected (hp_origin (snd kp)) ?h"
      using that(3) by (simp add: connected_def clients)
    moreover from this have "open_or_told env kp ?u"
      using that(1) by (intro unhost_all) (simp_all add: open_or_told_def)
    ultimately have "open_or_told env kp (disconnect env cid h)"
      unfolding d by (intro fail_hosted_told) (simp_all add: connected_def)
    then show ?thesis
      using that(2) unfolding d by (auto simp: open_or_told_def)
  qed
  have "host_client sid (disconnect env cid h) \<noteq> Some cid"
    by (auto simp: host_client_get [of sid "disconnect env cid h"] get) (auto simp: host_client_def)
  moreover have "\<forall>kp \<in> set (hb_hosted_prompts (disconnect env cid h)). hp_host (snd kp) \<noteq> cid"
    unfolding d by auto
  ultimately show ?thesis
    using get told clients by (simp add: Let_def hm.get_rem)
qed

section \<open>Attaching\<close>

definition attach_all :: "hub_env \<Rightarrow> string \<Rightarrow> json \<Rightarrow> (nat \<times> json) list \<Rightarrow> hub \<Rightarrow> hub" where
  "attach_all env sid params reqs h =
     fold (\<lambda>(cid, i) h. fst (session_attach env cid i Load params h)) reqs h"

lemma attach_starting:
  assumes "param_str ''sessionId'' params = Some sid" and "param_str ''cwd'' params = Some dir"
    and "hm_get (hb_sessions h) sid = Some (Starting ws)"
  shows "session_attach env cid i st params h =
    (h\<lparr>hb_sessions := hm_ins sid (Starting (ws @ [(cid, i)])) (hb_sessions h)\<rparr>, ReplyPending)"
  using assms by (simp add: session_attach_def Let_def)

lemma attach_all_starting:
  assumes "param_str ''sessionId'' params = Some sid" and "param_str ''cwd'' params = Some dir"
    and "hm_get (hb_sessions h) sid = Some (Starting ws)"
  shows "hm_get (hb_sessions (attach_all env sid params reqs h)) sid = Some (Starting (ws @ reqs)) \<and>
    hb_spawned (attach_all env sid params reqs h) = hb_spawned h \<and>
    hb_sent (attach_all env sid params reqs h) = hb_sent h \<and>
    hb_clients (attach_all env sid params reqs h) = hb_clients h"
  using assms(3)
proof (induction reqs arbitrary: h ws)
  case (Cons r reqs)
  obtain cid i where r: "r = (cid, i)" by (cases r)
  show ?case
    using Cons.IH [of "h\<lparr>hb_sessions := hm_ins sid (Starting (ws @ [r])) (hb_sessions h)\<rparr>" "ws @ [r]"] Cons.prems
    by (simp add: attach_all_def r attach_starting [OF assms(1,2)] hm.get_ins)
qed (simp add: attach_all_def)

lemma waiters_answered:
  "hb_sent (fold (reply_waiter sid result) ws h) = hb_sent h @
    map (\<lambda>(cid, i). (cid, rpc_result i result)) (filter (\<lambda>(cid, _). connected cid h) ws)"
proof (induction ws arbitrary: h)
  case (Cons w ws)
  obtain cid i where w: "w = (cid, i)" by (cases w)
  have "connected c (send_to cid msg (subscribe cid sid h)) = connected c h" for c msg
    using connected_cong [of "send_to cid msg (subscribe cid sid h)"] by simp
  with Cons show ?case
    by (simp add: w reply_waiter_def sent_send_to)
qed simp

text \<open>
  However many clients ask for a session that is not running, one agent is started; nobody is
  answered before it is ready; and when it is ready every waiting client that is connected is
  answered once, in the order of the requests.
\<close>

theorem attach_starts_one_agent:
  assumes "param_str ''sessionId'' params = Some sid" and "param_str ''cwd'' params = Some dir"
    and "hm_get (hb_sessions h) sid = None" and "reqs \<noteq> []"
  shows "let h' = attach_all env sid params reqs h;
             live = complete_session sid cwd title result actor None h' in
    length (hb_spawned h') = Suc (length (hb_spawned h)) \<and> hb_sent h' = hb_sent h \<and>
    actor_for sid live = Some actor \<and>
    (\<exists>news. hb_sent live = hb_sent h @
       map (\<lambda>(cid, i). (cid, rpc_result i result)) (filter (\<lambda>(cid, _). connected cid h) reqs) @ news \<and>
       (\<forall>n \<in> set news. snd n = sessions_changed sid True []))"
proof -
  obtain cid i rest where reqs: "reqs = (cid, i) # rest"
    using assms(4) by (cases reqs) auto
  let ?h1 = "actor_spawn Load cid i params (h\<lparr>hb_sessions := hm_ins sid (Starting [(cid, i)]) (hb_sessions h)\<rparr>)"
  let ?h' = "attach_all env sid params reqs h"
  have first: "?h' = attach_all env sid params rest ?h1"
    using assms(1,2,3) by (simp add: attach_all_def reqs session_attach_def Let_def)
  have "hm_get (hb_sessions ?h1) sid = Some (Starting [(cid, i)])"
    by (simp add: actor_spawn_def)
  from attach_all_starting [OF assms(1,2) this, of env rest]
  have h': "hm_get (hb_sessions ?h') sid = Some (Starting reqs)" "hb_sent ?h' = hb_sent h"
      "hb_clients ?h' = hb_clients h" "length (hb_spawned ?h') = Suc (length (hb_spawned h))"
    unfolding first by (simp_all add: reqs actor_spawn_def)
  have con: "connected c (?h'\<lparr>hb_sessions := s\<rparr>) = connected c h" for c s
    using h'(3) by (simp add: connected_def)
  let ?live = "?h'\<lparr>hb_sessions := hm_ins sid (Live \<lparr>sl_cwd = cwd, sl_title = title, sl_new_result = result,
      sl_actor = actor\<rparr>) (hb_sessions ?h')\<rparr>"
  let ?told = "fold (reply_waiter sid result) reqs ?live"
  let ?news = "map (\<lambda>(c, _). (c, sessions_changed sid True [])) (hb_clients ?told)"
  have fin: "complete_session sid cwd title result actor None ?h' = emit ?news ?told"
    by (simp add: complete_session_def Let_def h'(1) broadcast_all_def)
  have "hb_sent (emit ?news ?told) = hb_sent h @
      map (\<lambda>(cid, i). (cid, rpc_result i result)) (filter (\<lambda>(cid, _). connected cid h) reqs) @ ?news"
    by (simp add: emit_def waiters_answered con h'(2))
  moreover have "\<forall>n \<in> set ?news. snd n = sessions_changed sid True []"
    by auto
  moreover have "actor_for sid (emit ?news ?told) = Some actor"
    by (simp add: actor_for_def)
  ultimately show ?thesis
    unfolding Let_def fin using h'(2,4) by blast
qed

theorem attach_starts_one_agent_witness:
  "length (hb_spawned (attach_all example_env ''s'' (JObj [(''sessionId'', JStr ''s''), (''cwd'', JStr ''c'')])
     [(1, JInt 1), (1, JInt 2)] one_phone)) = 1"
proof -
  have h: "hm_get (hb_sessions one_phone) ''s'' = None" "hb_spawned one_phone = []"
    by (simp_all add: one_phone_def hello_eval)
  show ?thesis
    using attach_starts_one_agent [OF _ _ h(1), where params = "JObj [(''sessionId'', JStr ''s''), (''cwd'', JStr ''c'')]"
        and reqs = "[(1, JInt 1), (1, JInt 2)]" and env = example_env]
    by (simp add: param_str_def jget_str_def h(2) Let_def)
qed

section \<open>Prompts to a hosting client\<close>

lemma hosted_prompt_effect:
  assumes "host_client sid h = Some host" and "c \<noteq> host" and "jget_str ''sessionId'' params = Some sid"
  shows "hb_hosted_prompts (fst (session_prompt env c i params h)) =
      hm_ins (rpc_id_key env i) \<lparr>hp_origin = c, hp_host = host\<rparr> (hb_hosted_prompts h)"
    and "hb_sessions (fst (session_prompt env c i params h)) = hb_sessions h"
    and "hb_perm_routes (fst (session_prompt env c i params h)) = hb_perm_routes h"
    and "connected d (fst (session_prompt env c i params h)) = connected d h"
    and "snd (session_prompt env c i params h) = ReplyPending"
proof -
  have "connected d (h1\<lparr>hb_hosted_prompts := p\<rparr>) = connected d h1"
    "connected d (broadcast_session s m h1) = connected d h1" "connected d (send_to s' m h1) = connected d h1"
    for h1 p s m s'
    by (simp_all add: connected_def)
  then show "connected d (fst (session_prompt env c i params h)) = connected d h"
    using assms by (auto simp: session_prompt_def Let_def split: option.split)
qed (use assms in \<open>auto simp: session_prompt_def Let_def split: option.split\<close>)

text \<open>
  Prompts that wait for a hosting client are kept by the id of the request alone, and every
  client numbers its own requests: when a second client prompts under the same id, the host's
  answer to the first prompt is sent to the second client, its answer to the second prompt goes
  nowhere, and the first client is never answered.
\<close>

theorem hosted_prompts_share_ids:
  assumes "host_client sid h = Some host" and "a \<noteq> host" and "b \<noteq> host" and "connected b h"
    and "jget_str ''sessionId'' pa = Some sid" and "jget_str ''sessionId'' pb = Some sid"
    and "hm_get (hb_perm_routes h) (unwrap_or [] (as_str i)) = None"
  shows "let both = fst (session_prompt env b i pb (fst (session_prompt env a i pa h)));
             first = handle_client_reply env host i (Some ra) None both;
             second = handle_client_reply env host i (Some rb) None first in
    hb_sent first = hb_sent both @ [(b, rpc_result i ra)] \<and> second = first"
proof -
  let ?one = "fst (session_prompt env a i pa h)"
  let ?both = "fst (session_prompt env b i pb ?one)"
  let ?key = "rpc_id_key env i"
  note one = hosted_prompt_effect [OF assms(1,2,5), where env = env and i = i]
  have "host_client sid ?one = Some host"
    using assms(1) one(2) by (simp add: host_client_def)
  note both = hosted_prompt_effect [OF this assms(3,6), where env = env and i = i]
  let ?first = "send_to b (rpc_result i ra) (?both\<lparr>hb_hosted_prompts := hm_rem ?key (hb_hosted_prompts ?both)\<rparr>)"
  have first: "handle_client_reply env host i (Some ra) None ?both = ?first"
    by (simp add: handle_client_reply_def Let_def both(1))
  have "hm_get (hb_hosted_prompts ?first) ?key = None" "hb_perm_routes ?first = hb_perm_routes h"
    by (simp_all add: both(3) one(3) hm.get_rem)
  then have "handle_client_reply env host i (Some rb) None ?first = ?first"
    using assms(7) by (simp add: handle_client_reply_def Let_def)
  moreover have "connected b (?both\<lparr>hb_hosted_prompts := p\<rparr>)" for p
    using both(4) [where d = b] one(4) [where d = b] assms(4) by (simp add: connected_def)
  then have "hb_sent ?first = hb_sent ?both @ [(b, rpc_result i ra)]"
    by (simp add: sent_send_to)
  ultimately show ?thesis
    by (simp only: Let_def first)
qed

definition with_host :: "string \<Rightarrow> nat \<Rightarrow> hub \<Rightarrow> hub" where
  "with_host sid host h =
     h\<lparr>hb_sessions := [(sid, Hosted \<lparr>hs_client_id = host, hs_cwd = None, hs_title = []\<rparr>)]\<rparr>"

theorem hosted_prompts_share_ids_witness:
  "let p = JObj [(''sessionId'', JStr ''s'')];
       both = fst (session_prompt example_env 1 (JInt 3) p (fst (session_prompt example_env 2 (JInt 3) p (with_host ''s'' 9 one_phone))));
       first = handle_client_reply example_env 9 (JInt 3) (Some JNull) None both in
   (1, rpc_result (JInt 3) JNull) \<in> set (hb_sent first)"
proof -
  have "host_client ''s'' (with_host ''s'' 9 one_phone) = Some 9" "connected 1 (with_host ''s'' 9 one_phone)"
      "hb_perm_routes (with_host ''s'' 9 one_phone) = []"
    by (simp_all add: host_client_def with_host_def connected_def one_phone_clients)
      (simp add: one_phone_def hello_eval)
  then show ?thesis
    using hosted_prompts_share_ids [of "''s''" "with_host ''s'' 9 one_phone" 9 2 1 "JObj [(''sessionId'', JStr ''s'')]"
        "JObj [(''sessionId'', JStr ''s'')]" "JInt 3" example_env JNull JNull]
    by (simp add: jget_str_def Let_def)
qed

definition waiting_prompt :: hub where
  "waiting_prompt = fst (session_prompt example_env 1 (JInt 3) (JObj [(''sessionId'', JStr ''s'')]) (with_host ''s'' 9 one_phone))"

theorem disconnect_leaves_nothing_witness:
  "host_client ''s'' (disconnect example_env 9 waiting_prompt) = None \<and>
   (1, host_gone_msg example_env (rpc_id_key example_env (JInt 3))) \<in> set (hb_sent (disconnect example_env 9 waiting_prompt))"
proof -
  let ?h' = "disconnect example_env 9 waiting_prompt"
  have host: "host_client ''s'' (with_host ''s'' 9 one_phone) = Some 9"
    by (simp add: host_client_def with_host_def)
  note w = hosted_prompt_effect [OF host, where c = 1 and env = example_env and i = "JInt 3"
      and params = "JObj [(''sessionId'', JStr ''s'')]", folded waiting_prompt_def]
  have kp: "(rpc_id_key example_env (JInt 3), \<lparr>hp_origin = 1, hp_host = 9\<rparr>) \<in> set (hb_hosted_prompts waiting_prompt)"
    using w(1) by (simp add: jget_str_def with_host_def one_phone_def hello_eval)
  have "connected 1 waiting_prompt"
    using w(4) [where d = 1] by (simp add: jget_str_def connected_def with_host_def one_phone_clients)
  then have con: "connected 1 ?h'"
    by (simp add: connected_def disconnect_clients hm.get_rem)
  have "host_client ''s'' ?h' = None"
    using w(2) disconnect_sessions [of example_env 9 waiting_prompt "''s''"]
    by (simp add: jget_str_def host_client_def with_host_def)
  then show ?thesis
    using disconnect_leaves_nothing [of example_env 9 waiting_prompt "''s''"] kp con
    unfolding Let_def by fastforce
qed

end
