(* ===== verification/HubActorLaws.thy ===== *)
theory HubActorLaws imports HubRouting begin

text \<open>
  The session actor: which reply answers a permission request, and the queue of prompts.
\<close>

section \<open>Permissions\<close>

definition reply_key :: "json \<Rightarrow> string" where
  "reply_key i = unwrap_or [] (as_str i)"

text \<open>A reply that may decide: its id was offered, and not to a LAN client when it is dangerous.\<close>

definition decides :: "perm_state \<Rightarrow> hub \<Rightarrow> json \<Rightarrow> bool" where
  "decides st h i \<longleftrightarrow> (case hm_get (pm_client_ids st) (reply_key i) of
     None \<Rightarrow> False | Some c \<Rightarrow> \<not> (pm_dangerous st \<and> is_lan c h))"

type_synonym reply = "json \<times> json option \<times> json option"

definition perm_replies :: "reply list \<Rightarrow> hub \<Rightarrow> actor \<Rightarrow> hub \<times> actor" where
  "perm_replies rs h a = fold (\<lambda>(i, r, e) (h, a). handle_perm_reply i r e h a) rs (h, a)"

definition agent_out :: "actor \<Rightarrow> json list" where
  "agent_out a = ag_out (ac_agent a)"

definition agent_up :: "actor \<Rightarrow> bool" where
  "agent_up a \<longleftrightarrow> ag_broken (ac_agent a) = None"

lemma write_ignored_up [simp]:
  "agent_up a \<Longrightarrow> agent_out (write_ignored msg a) = agent_out a @ [msg]"
  "agent_up (write_ignored msg a) = agent_up a"
  "ac_perm (write_ignored msg a) = ac_perm a"
  "ac_pending (write_ignored msg a) = ac_pending a"
  "ac_queue (write_ignored msg a) = ac_queue a"
  "ac_inflight (write_ignored msg a) = ac_inflight a"
  "ac_sid (write_ignored msg a) = ac_sid a"
  by (auto simp: agent_up_def agent_out_def write_ignored_def write_msg_def split: option.split)

lemma perm_reply_none: "\<not> decides st h i \<Longrightarrow> ac_perm a = Some st \<Longrightarrow> snd (handle_perm_reply i r e h a) = a"
  by (auto simp: handle_perm_reply_def decides_def reply_key_def Let_def split: option.splits)

lemma perm_reply_resolved: "ac_perm a = Some st \<Longrightarrow> pm_resolved st \<Longrightarrow> handle_perm_reply i r e h a = (h, a)"
  by (auto simp: handle_perm_reply_def Let_def split: option.split)

lemma tell_clients [simp]: "hb_clients (fold tell_loser ks h) = hb_clients h"
  by (rule fold_same) (auto simp: tell_loser_def split: prod.split)

lemma clear_routes_frame [simp]:
  "hb_clients (clear_perm_routes ids h) = hb_clients h" "hb_sent (clear_perm_routes ids h) = hb_sent h"
  by (simp_all add: clear_perm_routes_def)

lemma perm_reply_clients [simp]: "hb_clients (fst (handle_perm_reply i r e h a)) = hb_clients h"
  by (auto simp: handle_perm_reply_def Let_def split: option.split)

lemma decides_cong: "hb_clients h' = hb_clients h \<Longrightarrow> decides st h' i = decides st h i"
  by (simp add: decides_def is_lan_def split: option.split)

lemma perm_reply_decides:
  assumes "decides st h i" and "ac_perm a = Some st" and "\<not> pm_resolved st"
  shows "snd (handle_perm_reply i r e h a) =
      write_ignored (perm_answer (pm_agent_id st) r e) (a\<lparr>ac_perm := Some (st\<lparr>pm_resolved := True\<rparr>)\<rparr>)"
    and "fst (handle_perm_reply i r e h a) = clear_perm_routes (map fst (pm_client_ids st))
      (broadcast_session (pm_session_id st)
        (permission_resolved [(''sessionId'', JStr (pm_session_id st))])
        (fold tell_loser (filter (\<lambda>(k, _). k \<noteq> reply_key i) (pm_client_ids st)) h))"
  using assms by (auto simp: handle_perm_reply_def decides_def reply_key_def Let_def split: option.splits)

lemma perm_replies_Cons:
  "perm_replies ((i, r, e) # rs) h a =
    (case handle_perm_reply i r e h a of (h, a) \<Rightarrow> perm_replies rs h a)"
  by (simp add: perm_replies_def split: prod.split)

lemma perm_replies_resolved: "ac_perm a = Some st \<Longrightarrow> pm_resolved st \<Longrightarrow> perm_replies rs h a = (h, a)"
  by (induction rs) (auto simp: perm_replies_def perm_reply_resolved)

lemma tell_loser_send:
  "tell_loser = (\<lambda>kc. send_to (snd kc) (rpc_error (JStr (fst kc)) ALREADY_RESOLVED ''already_resolved''))"
  by (rule ext, rule ext) (simp add: tell_loser_def case_prod_unfold)

lemma tell_sent:
  "hb_sent (fold tell_loser ks h) = hb_sent h @
    map (\<lambda>kc. (snd kc, rpc_error (JStr (fst kc)) ALREADY_RESOLVED ''already_resolved''))
      (filter (\<lambda>kc. connected (snd kc) h) ks)"
  unfolding tell_loser_send by (rule ob.sent_send_all)

text \<open>
  C13. A permission request is answered to the agent at most once, by the first reply that may
  decide it, whatever replies arrive: a dangerous request is never decided under an id that was
  offered to a LAN client. The deciding reply is passed on unchanged, and every other client that
  was asked is told that it is too late.
\<close>

theorem permission_answered_once:
  assumes "ac_perm a = Some st" and "\<not> pm_resolved st" and "agent_up a"
  shows "let (h', a') = perm_replies rs h a in
    (case find (\<lambda>(i, _, _). decides st h i) rs of
       None \<Rightarrow> a' = a
     | Some (i, r, e) \<Rightarrow>
         agent_out a' = agent_out a @ [perm_answer (pm_agent_id st) r e] \<and>
         (\<forall>kc \<in> set (pm_client_ids st). fst kc \<noteq> reply_key i \<and> connected (snd kc) h \<longrightarrow>
            (snd kc, rpc_error (JStr (fst kc)) ALREADY_RESOLVED ''already_resolved'') \<in> set (hb_sent h')))"
proof (induction rs arbitrary: h)
  case (Cons x rs)
  obtain i r e where x: "x = (i, r, e)" by (cases x)
  obtain h1 a1 where one: "handle_perm_reply i r e h a = (h1, a1)" by fastforce
  have clients: "hb_clients h1 = hb_clients h"
    using perm_reply_clients [of i r e h a] one by simp
  show ?case
  proof (cases "decides st h i")
    case False
    then have "a1 = a"
      using perm_reply_none [OF False assms(1), of r e] one by simp
    moreover have "decides st h1 j = decides st h j" "connected c h1 = connected c h" for j c
      using clients decides_cong connected_cong by blast+
    ultimately show ?thesis
      using Cons [of h1] False by (fastforce simp: perm_replies_Cons x one split: option.splits prod.splits)
  next
    case True
    note d = perm_reply_decides [OF True assms(1,2), of r e]
    have a1: "a1 = write_ignored (perm_answer (pm_agent_id st) r e) (a\<lparr>ac_perm := Some (st\<lparr>pm_resolved := True\<rparr>)\<rparr>)"
      using d(1) one by simp
    then have rest: "perm_replies rs h1 a1 = (h1, a1)"
      by (intro perm_replies_resolved) auto
    have "agent_out a1 = agent_out a @ [perm_answer (pm_agent_id st) r e]"
      using assms(3) a1 by (simp add: agent_up_def agent_out_def write_ignored_def write_msg_def)
    moreover have "(c, rpc_error (JStr k) ALREADY_RESOLVED ''already_resolved'') \<in> set (hb_sent h1)"
      if "(k, c) \<in> set (pm_client_ids st)" "k \<noteq> reply_key i" "connected c h" for k c
      using that d(2) one by (force simp: broadcast_session_def emit_def tell_sent)
    ultimately show ?thesis
      using True by (auto simp: perm_replies_Cons x one rest)
  qed
qed (simp add: perm_replies_def)

definition asked :: perm_state where
  "asked = \<lparr>pm_agent_id = JInt 7, pm_session_id = ''s'', pm_client_ids = [(''hp-1'', 1), (''hp-2'', 2)],
     pm_resolved = False, pm_dangerous = True\<rparr>"

definition asking :: actor where
  "asking = \<lparr>ac_sid = ''s'', ac_agent = \<lparr>ag_next_id = 1, ag_out = [], ag_broken = None\<rparr>, ac_pending = [],
     ac_queue = [], ac_inflight = False, ac_perm = Some asked\<rparr>"

theorem permission_answered_once_witness:
  "agent_out (snd (perm_replies [(JStr ''hp-1'', Some JNull, None), (JStr ''hp-2'', Some (JInt 5), None)] one_phone asking)) =
   [rpc_result (JInt 7) (JInt 5)]"
  using permission_answered_once [of asking asked "[(JStr ''hp-1'', Some JNull, None), (JStr ''hp-2'', Some (JInt 5), None)]" one_phone]
  by (simp add: asking_def asked_def agent_up_def agent_out_def decides_def reply_key_def is_lan_def
      one_phone_clients perm_answer_def split: prod.splits)

text \<open>
  Who sends a reply is not looked at: a LAN client that replies under the id that was offered
  to a local client decides a dangerous request in the local client's place.
\<close>

theorem lan_client_decides_dangerous:
  assumes "is_lan tablet h" and "ac_perm a = Some st" and "pm_dangerous st" and "\<not> pm_resolved st"
    and "agent_up a" and "hm_get (pm_client_ids st) k = Some mac" and "\<not> is_lan mac h"
    and "hm_get (hb_perm_routes h) k = Some sid" and "actor_for sid h = Some n"
    and "hm_get (hb_hosted_prompts h) (rpc_id_key env (JStr k)) = None"
  shows "let h1 = handle_client_reply env tablet (JStr k) (Some r) None h in
    hb_cmds h1 = hb_cmds h @ [(n, ClientReply (JStr k) (Some r) None)] \<and>
    agent_out (fst (snd (actor_turn env (Command (ClientReply (JStr k) (Some r) None)) h1 a))) =
      agent_out a @ [rpc_result (pm_agent_id st) r]"
proof -
  let ?h1 = "actor_send n (ClientReply (JStr k) (Some r) None) h"
  have h1: "handle_client_reply env tablet (JStr k) (Some r) None h = ?h1"
    using assms(8,9,10) by (simp add: handle_client_reply_def Let_def)
  have "decides st ?h1 (JStr k)"
    using assms(6,7) by (simp add: decides_def reply_key_def is_lan_def)
  note d = perm_reply_decides(1) [OF this assms(2,4), of "Some r" None]
  have "agent_out (snd (handle_perm_reply (JStr k) (Some r) None ?h1 a)) = agent_out a @ [rpc_result (pm_agent_id st) r]"
    unfolding d using assms(5)
    by (simp add: agent_up_def agent_out_def write_ignored_def write_msg_def perm_answer_def)
  then show ?thesis
    by (simp add: h1 case_prod_unfold)
qed

definition two_clients :: hub where
  "two_clients = (with_live ''s'' one_phone)\<lparr>hb_perm_routes := [(''hp-2'', ''s'')]\<rparr>"

theorem lan_client_decides_dangerous_witness:
  "agent_out (fst (snd (actor_turn example_env (Command (ClientReply (JStr ''hp-2'') (Some JNull) None))
     (handle_client_reply example_env 1 (JStr ''hp-2'') (Some JNull) None two_clients) asking))) =
   [rpc_result (JInt 7) JNull]"
  using lan_client_decides_dangerous [of 1 two_clients asking asked "''hp-2''" 2 "''s''" 0 example_env JNull]
  by (simp add: two_clients_def with_live_def one_phone_def hello_eval is_lan_def asking_def asked_def
      agent_up_def agent_out_def actor_for_def rpc_id_key_def Let_def)

end
