(* ===== verification/HubPrompts.thy ===== *)
theory HubPrompts imports HubActorLaws begin

text \<open>
  The queue of prompts of a session actor: one prompt at a time reaches the agent, in the order in
  which the prompts arrived, as long as no cancel carries the id of the prompt in progress.
\<close>

section \<open>What was written and what arrived\<close>

definition written_prompt :: "json \<Rightarrow> json option" where
  "written_prompt m = (if jget_str ''method'' m = Some ''session/prompt'' \<and> jget ''id'' m \<noteq> None
     then jget ''params'' m else None)"

definition prompts_written :: "json list \<Rightarrow> json list" where
  "prompts_written out = List.map_filter written_prompt out"

definition arriving :: "actor_event \<Rightarrow> json list" where
  "arriving e = (case e of
     Command (Rpc _ _ name params) \<Rightarrow> if name = ''session/prompt'' then [params] else []
   | _ \<Rightarrow> [])"

definition is_cancel :: "actor_event \<Rightarrow> bool" where
  "is_cancel e \<longleftrightarrow> (case e of Command (Rpc _ _ name _) \<Rightarrow> name = ''session/cancel'' | _ \<Rightarrow> False)"

definition prompts_pending :: "actor \<Rightarrow> nat" where
  "prompts_pending a = length (filter (\<lambda>(_, p). pd_kind p = Prompt) (ac_pending a))"

lemma prompts_written_snoc [simp]:
  "prompts_written (out @ [m]) = prompts_written out @ (case written_prompt m of None \<Rightarrow> [] | Some p \<Rightarrow> [p])"
  by (simp add: prompts_written_def List.map_filter_def split: option.split)

lemma written_results [simp]:
  "written_prompt (rpc_result i r) = None" "written_prompt (rpc_notification name p) = None"
  "written_prompt (perm_answer i res e) = None"
  by (auto simp: written_prompt_def rpc_result_def rpc_notification_def perm_answer_def jget_str_def
      cancelled_outcome_def split: option.split)

lemma to_agent_prompt [simp]: "to_agent_method ''session/prompt'' = ''session/prompt''"
  by (simp add: to_agent_method_def strip_prefix_def)

lemma to_agent_other: "name \<noteq> ''session/prompt'' \<Longrightarrow> to_agent_method name \<noteq> ''session/prompt''"
  by (auto simp: to_agent_method_def strip_prefix_Some split: option.splits)

lemma written_request:
  "written_prompt (rpc_request (JInt i) name p) = (if name = ''session/prompt'' then Some p else None)"
  by (simp add: written_prompt_def rpc_request_def jget_str_def)

section \<open>The invariant of the queue\<close>

definition queue_inv :: "bool \<Rightarrow> json list \<Rightarrow> actor \<Rightarrow> bool" where
  "queue_inv uncancelled arrived a \<longleftrightarrow> agent_up a \<and>
     prompts_written (agent_out a) @ map qp_params (ac_queue a) = arrived \<and>
     (ac_queue a \<noteq> [] \<longrightarrow> ac_inflight a) \<and>
     prompts_pending a \<le> (if ac_inflight a then 1 else 0) \<and>
     (uncancelled \<and> ac_inflight a \<longrightarrow> prompts_pending a = 1) \<and>
     hm_wf (ac_pending a) \<and> (\<forall>k \<in> fst ` set (ac_pending a). k < ag_next_id (ac_agent a))"

lemma forward_up:
  "agent_up a \<Longrightarrow> forward_rpc cid i name params kind a =
    (a\<lparr>ac_agent := (ac_agent a)\<lparr>ag_next_id := ag_next_id (ac_agent a) + 1,
         ag_out := ag_out (ac_agent a) @ [if name = ''session/cancel'' then rpc_notification ''session/cancel'' params
           else rpc_request (JInt (ag_next_id (ac_agent a))) (to_agent_method name) params]\<rparr>,
       ac_pending := (if name = ''session/cancel'' then ac_pending a
         else hm_ins (ag_next_id (ac_agent a)) \<lparr>pd_client_id = cid, pd_rpc_id = i, pd_kind = kind\<rparr> (ac_pending a))\<rparr>,
     Inr ())"
  by (simp add: forward_rpc_def next_rpc_id_def write_msg_def agent_up_def Let_def)

lemma pending_insert:
  assumes "queue_inv u arrived a"
  shows "hm_ins (ag_next_id (ac_agent a)) p (ac_pending a) = ac_pending a @ [(ag_next_id (ac_agent a), p)]"
  using assms by (intro hm_ins_fresh) (force simp: queue_inv_def map_of_eq_None_iff)

lemma queue_forward_prompt:
  assumes "queue_inv u arrived a" and "\<not> ac_inflight a"
  shows "queue_inv u (arrived @ [params])
    (fst (forward_rpc cid i ''session/prompt'' params Prompt (a\<lparr>ac_inflight := True\<rparr>)))"
proof -
  have up: "agent_up (a\<lparr>ac_inflight := True\<rparr>)"
    using assms(1) by (simp add: queue_inv_def agent_up_def)
  show ?thesis
    using assms pending_insert [OF assms(1)] unfolding forward_up [OF up] queue_inv_def
    by (auto simp: agent_out_def agent_up_def written_request prompts_pending_def hm_wf_def)
qed

lemma queue_prompt:
  assumes "queue_inv u arrived a"
  shows "queue_inv u (arrived @ [params]) (snd (on_prompt cid i params h a))"
proof (cases "ac_inflight a")
  case True
  then show ?thesis
    using assms by (auto simp: on_prompt_def queue_inv_def agent_out_def agent_up_def prompts_pending_def)
next
  case False
  have up: "agent_up (a\<lparr>ac_inflight := True\<rparr>)"
    using assms by (simp add: queue_inv_def agent_up_def)
  show ?thesis
    using queue_forward_prompt [OF assms False, of params cid i] False
    by (simp add: on_prompt_def forward_up [OF up])
qed

lemma queue_other:
  assumes "queue_inv u arrived a" and "name \<noteq> ''session/prompt''" and "name = ''session/cancel'' \<Longrightarrow> \<not> u"
  shows "queue_inv u arrived (snd (on_other cid i name params h a))"
proof -
  have up: "agent_up a" and wf: "hm_wf (ac_pending a)"
    using assms(1) by (simp_all add: queue_inv_def)
  show ?thesis
    using assms pending_insert [OF assms(1)] hm_wf_filter [OF wf]
      length_filter_twice [of "\<lambda>(_, p). pd_kind p = Prompt" "\<lambda>(_, p). pd_rpc_id p \<noteq> i" "ac_pending a"] to_agent_other [OF assms(2)]
    unfolding on_other_def forward_up [OF up]
    by (cases "name = ''session/cancel''")
      (auto simp: queue_inv_def agent_out_def agent_up_def written_request prompts_pending_def hm_wf_def
        intro: le_trans split: if_splits)
qed

lemma pending_removed:
  assumes "hm_get m k = Some p" and "P p"
  shows "length (filter (\<lambda>(_, p). P p) (hm_rem k m)) < length (filter (\<lambda>(_, p). P p) m)"
proof -
  have "(k, p) \<in> set (filter (\<lambda>(_, p). P p) m)"
    using assms map_of_SomeD by fastforce
  then have "length (filter (\<lambda>(k', _). k \<noteq> k') (filter (\<lambda>(_, p). P p) m)) < length (filter (\<lambda>(_, p). P p) m)"
    by (rule length_filter_less) simp
  then show ?thesis
    by (simp add: AList.delete_eq conj_commute)
qed

lemma pending_kept:
  assumes "hm_get m k = Some p" and "\<not> P p" and "hm_wf m"
  shows "filter (\<lambda>(_, p). P p) (hm_rem k m) = filter (\<lambda>(_, p). P p) m"
proof -
  have "k \<noteq> k'" if "(k', q) \<in> set m" "P q" for k' q
    using hm.entries_unique [OF assms(3)] map_of_SomeD [OF assms(1)] that assms(2) by blast
  then show ?thesis
    unfolding AList.delete_eq filter_filter by (intro filter_cong) auto
qed

lemma queue_pop:
  assumes "queue_inv u arrived (a\<lparr>ac_inflight := False, ac_queue := []\<rparr>)"
  shows "queue_inv u (arrived @ map qp_params (ac_queue a)) (pop_prompt (a\<lparr>ac_inflight := False\<rparr>))"
proof (cases "ac_queue a")
  case Nil
  then have "pop_prompt (a\<lparr>ac_inflight := False\<rparr>) = a\<lparr>ac_inflight := False, ac_queue := []\<rparr>"
    by (simp add: pop_prompt_def)
  with assms Nil show ?thesis by simp
next
  case (Cons q qs)
  let ?a = "fst (forward_rpc (qp_client_id q) (qp_rpc_id q) ''session/prompt'' (qp_params q) Prompt
    (a\<lparr>ac_inflight := False, ac_queue := [], ac_inflight := True\<rparr>))"
  have up: "agent_up (a\<lparr>ac_queue := qs, ac_inflight := True\<rparr>)" "agent_up (a\<lparr>ac_queue := [], ac_inflight := True\<rparr>)"
    using assms by (simp_all add: queue_inv_def agent_up_def)
  have pop: "pop_prompt (a\<lparr>ac_inflight := False\<rparr>) = ?a\<lparr>ac_queue := qs\<rparr>"
    using forward_up [OF up(1)] forward_up [OF up(2)] by (simp add: pop_prompt_def Cons)
  have inv: "queue_inv u (arrived @ [qp_params q]) ?a"
    using queue_forward_prompt [OF assms] by simp
  have "ac_inflight ?a" "ac_queue ?a = []"
    using forward_up [OF up(2)] by simp_all
  with inv show ?thesis
    unfolding pop by (auto simp: Cons queue_inv_def agent_out_def agent_up_def prompts_pending_def)
qed

lemma queue_response:
  assumes "queue_inv u arrived a"
  shows "queue_inv u arrived (snd (on_response msg aid h a))"
proof (cases "hm_get (ac_pending a) aid")
  case None
  with assms show ?thesis by (simp add: on_response_def)
next
  case (Some p)
  have wf: "hm_wf (ac_pending a)" "hm_wf (hm_rem aid (ac_pending a))"
    using assms by (simp_all add: queue_inv_def hm.wf_rem)
  have keys: "\<forall>k \<in> fst ` set (hm_rem aid (ac_pending a)). k < ag_next_id (ac_agent a)"
    using assms by (auto simp: queue_inv_def AList.delete_eq)
  show ?thesis
  proof (cases "pd_kind p = Prompt")
    case True
    note less = pending_removed [OF Some, of "\<lambda>p. pd_kind p = Prompt", OF True]
    have "prompts_pending a \<le> 1"
      using assms by (simp add: queue_inv_def split: if_splits)
    with less have none: "filter (\<lambda>(_, p). pd_kind p = Prompt) (hm_rem aid (ac_pending a)) = []"
      unfolding prompts_pending_def length_0_conv [symmetric] by linarith
    let ?b = "a\<lparr>ac_pending := hm_rem aid (ac_pending a)\<rparr>"
    have "queue_inv u (prompts_written (agent_out a)) (?b\<lparr>ac_inflight := False, ac_queue := []\<rparr>)"
      using assms wf keys
      by (simp add: queue_inv_def agent_out_def agent_up_def prompts_pending_def none)
    from queue_pop [OF this] show ?thesis
      using assms Some True by (simp add: on_response_def Let_def queue_inv_def)
  next
    case False
    note kept = pending_kept [OF Some, of "\<lambda>p. pd_kind p = Prompt", OF False wf(1)]
    show ?thesis
      using assms wf keys Some False
      by (simp add: on_response_def Let_def queue_inv_def agent_out_def agent_up_def prompts_pending_def kept)
  qed
qed

lemma queue_ignored:
  "queue_inv u arrived a \<Longrightarrow> written_prompt msg = None \<Longrightarrow> queue_inv u arrived (write_ignored msg a)"
  by (auto simp: queue_inv_def prompts_pending_def write_ignored_def write_msg_def agent_up_def agent_out_def)

lemma queue_perm_field: "queue_inv u arrived (a\<lparr>ac_perm := p\<rparr>) = queue_inv u arrived a"
  by (simp add: queue_inv_def prompts_pending_def agent_up_def agent_out_def)

lemma queue_agent_msg:
  "queue_inv u arrived a \<Longrightarrow> queue_inv u arrived (snd (handle_agent_msg env msg h a))"
  by (auto simp: handle_agent_msg_def start_permission_def Let_def queue_response queue_ignored queue_perm_field
      split: option.split prod.split)

lemma queue_perm_reply:
  "queue_inv u arrived a \<Longrightarrow> queue_inv u arrived (snd (handle_perm_reply i r e h a))"
  by (auto simp: handle_perm_reply_def Let_def queue_ignored queue_perm_field split: option.split)

lemma queue_turn:
  assumes "queue_inv u arrived a" and "is_cancel ev \<Longrightarrow> \<not> u"
  shows "queue_inv u (arrived @ arriving ev) (fst (snd (actor_turn env ev h a)))"
  using assms
proof (cases "(env, ev, h, a)" rule: actor_turn.cases)
  case (4 env' cid i name params h' a')
  with assms show ?thesis
    using queue_prompt [OF assms(1), of params cid i h] queue_other [OF assms(1), of name cid i params h]
    by (auto simp: arriving_def is_cancel_def case_prod_unfold)
qed (auto simp: arriving_def queue_ignored case_prod_unfold queue_perm_reply queue_agent_msg)

lemma queue_run:
  "queue_inv u arrived a \<Longrightarrow> (\<forall>ev \<in> set es. is_cancel ev \<longrightarrow> \<not> u) \<Longrightarrow> actor_run env es h a = (h', a', True) \<Longrightarrow>
    queue_inv u (arrived @ concat (map arriving es)) a'"
proof (induction es arbitrary: arrived h a)
  case (Cons ev es)
  obtain h1 a1 go where turn: "actor_turn env ev h a = (h1, a1, go)" by (metis prod_cases3)
  with Cons.prems have go: "go" "actor_run env es h1 a1 = (h', a', True)"
    by (auto split: bool.splits)
  have "queue_inv u (arrived @ arriving ev) a1"
    using queue_turn [OF Cons.prems(1), of ev env h] Cons.prems(2) turn by simp
  from Cons.IH [OF this _ go(2)] Cons.prems(2) show ?case by simp
qed simp

section \<open>The order of prompts\<close>

definition booted :: "string \<Rightarrow> agent_conn \<Rightarrow> actor" where
  "booted sid ag = \<lparr>ac_sid = sid, ac_agent = ag, ac_pending = [], ac_queue = [], ac_inflight = False, ac_perm = None\<rparr>"

text \<open>
  As long as the loop runs and the agent takes writes: the prompts written to the agent and
  then those in the queue are exactly the prompts that arrived, in their order; at most one is
  unanswered, and a prompt is queued only behind one in progress. When no cancel arrived, a prompt
  is in progress exactly when its answer is awaited, so the queue moves on with every answer.
\<close>

theorem prompts_in_order:
  assumes "ag_broken ag = None" and "prompts_written (ag_out ag) = []"
    and "actor_run env es h (booted sid ag) = (h', a, True)"
  shows "prompts_written (agent_out a) @ map qp_params (ac_queue a) = concat (map arriving es) \<and>
    prompts_pending a \<le> 1 \<and> (ac_queue a = [] \<or> ac_inflight a) \<and>
    (list_ex is_cancel es \<or> (ac_inflight a \<longleftrightarrow> prompts_pending a = 1))"
proof -
  have start: "queue_inv u [] (booted sid ag)" for u
    using assms(1,2) by (simp add: queue_inv_def booted_def agent_up_def agent_out_def prompts_pending_def)
  have "queue_inv False (concat (map arriving es)) a"
    using queue_run [OF start _ assms(3)] by simp
  moreover have "queue_inv True (concat (map arriving es)) a" if "\<not> list_ex is_cancel es"
    using queue_run [OF start _ assms(3), of True] that by (auto simp: list_ex_iff)
  ultimately show ?thesis
    by (cases "list_ex is_cancel es") (auto simp: queue_inv_def split: if_splits)
qed

definition fresh_agent :: agent_conn where
  "fresh_agent = \<lparr>ag_next_id = 3, ag_out = [], ag_broken = None\<rparr>"

definition two_prompts :: "actor_event list" where
  "two_prompts = [Command (Rpc 1 (JInt 5) ''session/prompt'' (JStr ''a'')), Command (Rpc 2 (JInt 5) ''session/prompt'' (JStr ''b''))]"

theorem prompts_in_order_witness:
  "let a = fst (snd (actor_run example_env two_prompts one_phone (booted ''s'' fresh_agent))) in
   prompts_written (agent_out a) @ map qp_params (ac_queue a) = [JStr ''a'', JStr ''b'']"
proof -
  obtain h a where run: "actor_run example_env two_prompts one_phone (booted ''s'' fresh_agent) = (h, a, True)"
    by (simp add: two_prompts_def on_prompt_def booted_def fresh_agent_def forward_rpc_def next_rpc_id_def
        write_msg_def Let_def)
  show ?thesis
    using prompts_in_order [OF _ _ run] run
    by (simp add: fresh_agent_def prompts_written_def map_filter_simps two_prompts_def arriving_def)
qed

section \<open>The end of the queue\<close>

text \<open>A prompt is in progress whose answer nobody waits for.\<close>

definition stuck :: "actor \<Rightarrow> bool" where
  "stuck a \<longleftrightarrow> ac_inflight a \<and> prompts_pending a = 0"

lemma stuck_same:
  "stuck a \<Longrightarrow> ac_inflight a' = ac_inflight a \<Longrightarrow> ac_pending a' = ac_pending a \<Longrightarrow> stuck a'"
  by (simp add: stuck_def prompts_pending_def)

lemma stuck_ignored: "stuck (write_ignored msg a) = stuck a"
  by (simp add: stuck_def prompts_pending_def write_ignored_def)

lemma written_ignored:
  "written_prompt msg = None \<Longrightarrow> prompts_written (agent_out (write_ignored msg a)) = prompts_written (agent_out a)"
  by (simp add: agent_out_def write_ignored_def write_msg_def split: option.split)

lemma stuck_response:
  assumes "stuck a"
  shows "stuck (snd (on_response msg aid h a)) \<and> agent_out (snd (on_response msg aid h a)) = agent_out a"
proof (cases "hm_get (ac_pending a) aid")
  case None
  with assms show ?thesis by (simp add: on_response_def)
next
  case (Some p)
  then have "(aid, p) \<in> set (ac_pending a)" by (rule map_of_SomeD)
  with assms have "pd_kind p \<noteq> Prompt"
    by (auto simp: stuck_def prompts_pending_def filter_empty_conv)
  moreover have "filter (\<lambda>(_, p). pd_kind p = Prompt) (hm_rem aid (ac_pending a)) = []"
    using assms by (auto simp: stuck_def prompts_pending_def filter_empty_conv AList.delete_eq)
  ultimately show ?thesis
    using assms Some by (simp add: on_response_def Let_def stuck_def prompts_pending_def agent_out_def)
qed

lemma stuck_other:
  assumes "stuck a" and "name \<noteq> ''session/prompt''"
  shows "stuck (snd (on_other cid i name params h a)) \<and>
    prompts_written (agent_out (snd (on_other cid i name params h a))) = prompts_written (agent_out a)"
proof -
  have ins: "filter (\<lambda>(_, p). pd_kind p = Prompt) (hm_ins k \<lparr>pd_client_id = cid, pd_rpc_id = i, pd_kind = Other\<rparr> m) = []"
    if "filter (\<lambda>(_, p). pd_kind p = Prompt) m = []" for k m
    using that by (induction m) (auto split: if_splits)
  have none: "filter (\<lambda>(_, p). pd_kind p = Prompt) (ac_pending a) = []"
    using assms(1) by (simp add: stuck_def prompts_pending_def)
  then have "filter (\<lambda>(_, p). pd_kind p = Prompt) (filter (\<lambda>(_, p). pd_rpc_id p \<noteq> i) (ac_pending a)) = []"
    by (auto simp: filter_empty_conv)
  then show ?thesis
    using assms to_agent_other [OF assms(2)] ins [OF none]
    by (cases "ag_broken (ac_agent a)"; cases "name = ''session/cancel''")
      (simp_all add: on_other_def forward_rpc_def next_rpc_id_def write_msg_def Let_def stuck_def
        prompts_pending_def agent_out_def written_request)
qed

lemma stuck_turn:
  assumes "stuck a"
  shows "stuck (fst (snd (actor_turn env ev h a))) \<and>
    prompts_written (agent_out (fst (snd (actor_turn env ev h a)))) = prompts_written (agent_out a)"
proof -
  have reply: "stuck (snd (handle_perm_reply i r e h a)) \<and>
      prompts_written (agent_out (snd (handle_perm_reply i r e h a))) = prompts_written (agent_out a)" for i r e h
    using assms by (auto simp: handle_perm_reply_def Let_def stuck_ignored written_ignored stuck_def
        prompts_pending_def agent_out_def [of "a\<lparr>ac_perm := _\<rparr>"] agent_out_def [of a] split: option.split)
  have agent: "stuck (snd (handle_agent_msg env msg h a)) \<and>
      prompts_written (agent_out (snd (handle_agent_msg env msg h a))) = prompts_written (agent_out a)" for msg h
    using assms stuck_response [OF assms]
    by (auto simp: handle_agent_msg_def start_permission_def Let_def stuck_ignored written_ignored stuck_def
        prompts_pending_def agent_out_def [of "a\<lparr>ac_perm := _\<rparr>"] agent_out_def [of a] split: option.split prod.split)
  show ?thesis
    using assms
  proof (cases "(env, ev, h, a)" rule: actor_turn.cases)
    case (4 env' cid i name params h' a')
    with assms show ?thesis
      using stuck_other [OF assms, of name cid i params h]
      by (auto simp: on_prompt_def stuck_def prompts_pending_def agent_out_def case_prod_unfold)
  qed (use assms reply agent in \<open>auto simp: stuck_ignored written_ignored case_prod_unfold\<close>)
qed

lemma stuck_run:
  "stuck a \<Longrightarrow> prompts_written (agent_out (fst (snd (actor_run env es h a)))) = prompts_written (agent_out a)"
proof (induction es arbitrary: h a)
  case (Cons ev es)
  obtain h1 a1 go where turn: "actor_turn env ev h a = (h1, a1, go)" by (metis prod_cases3)
  with stuck_turn [OF Cons.prems, of env ev h] have "stuck a1"
      "prompts_written (agent_out a1) = prompts_written (agent_out a)"
    by simp_all
  with Cons.IH [of a1 h1] turn show ?case by (cases go) simp_all
qed simp

text \<open>
  A cancel is matched by the id of the request alone, whichever client sent it: a cancel whose
  id is that of the prompt in progress forgets the prompt, and then no prompt is ever written to
  the agent again, whatever happens afterwards.
\<close>

theorem cancel_id_wedges_queue:
  assumes "ac_inflight a" and "\<forall>x \<in> set (ac_pending a). pd_kind (snd x) = Prompt \<longrightarrow> pd_rpc_id (snd x) = i"
    and "agent_up a"
  shows "prompts_written (agent_out (fst (snd
      (actor_run env (Command (Rpc other i ''session/cancel'' params) # es) h a)))) = prompts_written (agent_out a)"
proof -
  let ?a = "snd (on_other other i ''session/cancel'' params h a)"
  have "stuck ?a" "prompts_written (agent_out ?a) = prompts_written (agent_out a)"
    using assms by (auto simp: on_other_def forward_up stuck_def prompts_pending_def agent_out_def filter_empty_conv)
  with stuck_run [of ?a] show ?thesis
    by (simp add: case_prod_unfold)
qed

definition prompting :: actor where
  "prompting = (booted ''s'' fresh_agent)\<lparr>ac_inflight := True,
     ac_pending := [(3, \<lparr>pd_client_id = 1, pd_rpc_id = JInt 5, pd_kind = Prompt\<rparr>)]\<rparr>"

theorem cancel_id_wedges_queue_witness:
  "prompts_written (agent_out (fst (snd (actor_run example_env
     (Command (Rpc 2 (JInt 5) ''session/cancel'' JNull) # AgentMsg (rpc_result (JInt 3) JNull) # two_prompts) one_phone prompting)))) = []"
  using cancel_id_wedges_queue [of prompting "JInt 5" example_env 2 JNull "AgentMsg (rpc_result (JInt 3) JNull) # two_prompts" one_phone]
  by (simp add: prompting_def booted_def fresh_agent_def agent_up_def agent_out_def prompts_written_def map_filter_simps)

end
