(* ===== verification/HubFrames.thy ===== *)
theory HubFrames imports HubPrompts begin

text \<open>
  The stream of a connection and its end. The reader of a connection takes bytes as they arrive;
  reading a frame is one of the things the loop waits for, and when another one comes first the
  reading is dropped together with the bytes it has taken. A connection that ends in an error
  leaves the loop without disconnecting its client.
\<close>

section \<open>Reading frames as they arrive\<close>

datatype read_event = Arrive "char list" | Interrupt

definition frame_len :: "char list \<Rightarrow> nat" where
  "frame_len buf = from_be_bytes (take 4 buf)"

text \<open>The reading of a frame waits: for the rest of the length, or for the rest of the body.\<close>

definition waiting :: "char list \<Rightarrow> bool" where
  "waiting buf \<longleftrightarrow> length buf < 4 \<or> (frame_len buf \<le> MAX_FRAME \<and> length buf < 4 + frame_len buf)"

lemma read_frame_shorter: "read_frame buf = Inr (f, rest) \<Longrightarrow> length rest < length buf"
  by (auto simp: read_frame_def Let_def split: if_splits)

text \<open>The frames that are complete, what is taken of the next one, and whether reading failed.\<close>

function drain :: "char list \<Rightarrow> string list \<times> char list \<times> bool" where
  "drain buf =
     (if waiting buf then ([], buf, False)
      else case read_frame buf of
        Inl _ \<Rightarrow> ([], buf, True)
      | Inr (f, rest) \<Rightarrow> (case drain rest of (fs, taken, failed) \<Rightarrow> (f # fs, taken, failed)))"
  by pat_completeness auto
termination
  by (relation "measure length") (simp_all, metis read_frame_shorter)

declare drain.simps [simp del]

fun read_run :: "read_event list \<Rightarrow> char list \<Rightarrow> string list" where
  "read_run [] taken = []"
| "read_run (Interrupt # es) taken = read_run es []"
| "read_run (Arrive bs # es) taken =
     (case drain (taken @ bs) of (fs, taken, failed) \<Rightarrow> fs @ (if failed then [] else read_run es taken))"

lemma from_be_bytes_be_bytes:
  assumes "n < 2 ^ 32"
  shows "from_be_bytes (be_bytes n) = n"
proof -
  define a where "a = n div 256"
  define b where "b = a div 256"
  have "b div 256 < 256"
    using assms by (simp add: a_def b_def flip: div_mult2_eq)
  then have "b div 256 mod 256 = b div 256" by simp
  moreover have "n div 16777216 = b div 256" "n div 65536 = b"
    by (simp_all add: a_def b_def flip: div_mult2_eq)
  moreover have "256 * (x div 256) + x mod 256 = x" for x :: nat
    by simp
  ultimately have "256 * (256 * (256 * (n div 16777216 mod 256) + n div 65536 mod 256) + n div 256 mod 256) + n mod 256 = n"
    by (metis a_def b_def)
  moreover have "n div 16777216 mod 256 = n div 16777216"
    using \<open>b div 256 mod 256 = b div 256\<close> \<open>n div 16777216 = b div 256\<close> by simp
  ultimately show ?thesis
    by (simp add: from_be_bytes_def be_bytes_def)
qed

lemma be_bytes_length [simp]: "length (be_bytes n) = 4"
  by (simp add: be_bytes_def)

lemma MAX_FRAME_u32: "n \<le> MAX_FRAME \<Longrightarrow> n < 2 ^ 32"
  by (simp add: MAX_FRAME_def)

lemma read_frame_append:
  assumes "\<not> waiting buf"
  shows "read_frame (buf @ more_bytes) =
    (case read_frame buf of Inl e \<Rightarrow> Inl e | Inr (f, rest) \<Rightarrow> Inr (f, rest @ more_bytes))"
  using assms by (auto simp: read_frame_def waiting_def frame_len_def Let_def)

lemma waiting_append: "\<not> waiting buf \<Longrightarrow> \<not> waiting (buf @ more_bytes)"
  by (auto simp: waiting_def frame_len_def)

lemma drain_append:
  "drain buf = (fs, taken, failed) \<Longrightarrow>
    drain (buf @ more_bytes) =
      (if failed then (fs, taken @ more_bytes, True)
       else case drain (taken @ more_bytes) of (fs', taken', failed') \<Rightarrow> (fs @ fs', taken', failed'))"
proof (induction buf arbitrary: fs rule: drain.induct)
  case (1 buf)
  show ?case
  proof (cases "waiting buf")
    case True
    with "1.prems" show ?thesis by (simp add: drain.simps [of buf] split: prod.split)
  next
    case False
    note step = drain.simps [of "buf @ more_bytes"] read_frame_append [OF False] waiting_append [OF False]
    show ?thesis
    proof (cases "read_frame buf")
      case (Inl e)
      then have "drain buf = ([], buf, True)"
        using False by (simp add: drain.simps [of buf])
      with "1.prems" have "fs = []" "taken = buf" "failed" by simp_all
      with Inl show ?thesis by (simp add: step)
    next
      case (Inr x)
      obtain f rest where x: "x = (f, rest)" by (cases x)
      obtain gs where "drain rest = (gs, taken, failed)" "fs = f # gs"
        using "1.prems" False Inr x by (auto simp: drain.simps [of buf] split: prod.splits)
      with "1.IH" [OF False Inr [unfolded x] refl] show ?thesis
        using Inr x by (simp add: step split: prod.split)
    qed
  qed
qed

lemma drain_idle: "drain buf = (fs, taken, False) \<Longrightarrow> drain taken = ([], taken, False)"
proof (induction buf arbitrary: fs rule: drain.induct)
  case (1 buf)
  show ?case
  proof (cases "waiting buf")
    case True
    then have "drain buf = ([], buf, False)" by (simp add: drain.simps [of buf])
    with "1.prems" show ?thesis by simp
  next
    case False
    then show ?thesis
      using "1.prems" "1.IH" [OF False] by (auto simp: drain.simps [of buf] split: sum.splits prod.splits)
  qed
qed

text \<open>Without interruptions only the stream as a whole counts.\<close>

lemma read_run_drain:
  "drain taken = ([], taken, False) \<Longrightarrow> snd (snd (drain (taken @ concat chunks))) = False \<Longrightarrow>
    read_run (map Arrive chunks) taken = fst (drain (taken @ concat chunks))"
proof (induction chunks arbitrary: taken)
  case (Cons bs chunks)
  obtain fs taken' failed where d: "drain (taken @ bs) = (fs, taken', failed)" by (metis prod_cases3)
  note app = drain_append [OF d, of "concat chunks"]
  have ok: "\<not> failed"
    using Cons.prems(2) app by (auto split: if_splits)
  have "drain taken' = ([], taken', False)"
    using drain_idle [of "taken @ bs" fs taken'] d ok by simp
  with Cons.IH [of taken'] show ?case
    using Cons.prems(2) app ok by (auto simp: d split: prod.splits)
qed simp

lemma read_frame_write:
  assumes "length data \<le> MAX_FRAME"
  shows "write_frame data = Inr (be_bytes (length data) @ data)"
    and "read_frame (be_bytes (length data) @ data @ rest) = Inr (data, rest)"
    and "\<not> waiting (be_bytes (length data) @ data @ rest)"
  using assms MAX_FRAME_u32 [OF assms] from_be_bytes_be_bytes [OF MAX_FRAME_u32 [OF assms]]
  by (simp_all add: write_frame_def u32_try_from_def read_frame_def waiting_def frame_len_def Let_def)

lemma drain_frames:
  "list_all (\<lambda>d. length d \<le> MAX_FRAME) datas \<Longrightarrow>
    drain (concat (map (\<lambda>d. be_bytes (length d) @ d) datas)) = (datas, [], False)"
proof (induction datas)
  case Nil
  show ?case by (simp add: drain.simps waiting_def)
next
  case (Cons d ds)
  let ?rest = "concat (map (\<lambda>d. be_bytes (length d) @ d) ds)"
  have d: "length d \<le> MAX_FRAME" using Cons.prems by simp
  show ?case
    using Cons read_frame_write(2,3) [OF d, of ?rest]
    by (simp add: drain.simps [of "be_bytes (length d) @ d @ ?rest"])
qed

lemma write_two: "write_frame [CHR 0x7B, CHR 0x7D] = Inr [CHR 0x00, CHR 0x00, CHR 0x00, CHR 0x02, CHR 0x7B, CHR 0x7D]"
proof -
  have "be_bytes 2 = [CHR 0x00, CHR 0x00, CHR 0x00, CHR 0x02]"
    by (simp add: be_bytes_def char_of_def bit_0)
  then show ?thesis
    using read_frame_write(1) [of "[CHR 0x7B, CHR 0x7D]"] by (simp add: MAX_FRAME_def numeral_2_eq_2)
qed

text \<open>
  Frames survive the stream: what is written as frames of at most 16 MiB is read back as the
  same bodies in the same order, however the bytes are cut into arrivals; a longer body is refused
  before a byte is written.
\<close>

theorem frames_roundtrip:
  assumes "list_all (\<lambda>d. length d \<le> MAX_FRAME) datas"
    and "map write_frame datas = map Inr frames" and "concat chunks = concat frames"
  shows "read_run (map Arrive chunks) [] = datas \<and>
    (length data \<le> MAX_FRAME \<or> (\<exists>e. write_frame data = Inl e))"
proof -
  have "map write_frame datas = map Inr (map (\<lambda>d. be_bytes (length d) @ d) datas)"
    using assms(1) read_frame_write(1) by (auto simp: list_all_iff)
  with assms(2) have "map Inr frames = (map Inr (map (\<lambda>d. be_bytes (length d) @ d) datas) :: (string + char list) list)"
    by simp
  then have "frames = map (\<lambda>d. be_bytes (length d) @ d) datas"
    by (rule map_injective) (simp add: inj_on_def)
  then have "drain (concat chunks) = (datas, [], False)"
    using drain_frames [OF assms(1)] assms(3) by simp
  moreover have "drain [] = ([], [], False)"
    by (simp add: drain.simps waiting_def)
  ultimately have "read_run (map Arrive chunks) [] = datas"
    using read_run_drain [of "[]" chunks] by simp
  moreover have "length data \<le> MAX_FRAME \<or> (\<exists>e. write_frame data = Inl e)"
    by (auto simp: write_frame_def u32_try_from_def MAX_FRAME_def Let_def)
  ultimately show ?thesis by blast
qed

theorem frames_roundtrip_witness:
  "read_run (map Arrive [[CHR 0x00, CHR 0x00], [CHR 0x00, CHR 0x02, CHR 0x7B], [CHR 0x7D]]) [] = [[CHR 0x7B, CHR 0x7D]]"
proof -
  have "map write_frame [[CHR 0x7B, CHR 0x7D]] = map Inr [[CHR 0x00, CHR 0x00, CHR 0x00, CHR 0x02, CHR 0x7B, CHR 0x7D]]"
    by (simp add: write_two)
  then show ?thesis
    by (rule conjunct1 [OF frames_roundtrip [rotated]]) (simp_all add: MAX_FRAME_def)
qed

text \<open>
  An outgoing message that interrupts the reading of a frame drops the bytes already taken:
  the reader goes on in the middle of the frame, which is not delivered, and takes what follows
  for a length.
\<close>

theorem interrupted_frame_is_lost:
  assumes "length data \<le> MAX_FRAME" and "write_frame data = Inr bytes" and "bytes = taken @ rest"
    and "taken \<noteq> []" and "rest \<noteq> []"
  shows "read_run [Arrive taken, Arrive rest] [] = [data] \<and>
    read_run (Arrive taken # Interrupt # Arrive rest # es) [] = read_run (Arrive rest # es) []"
proof -
  have bytes: "bytes = be_bytes (length data) @ data"
    using assms(2) read_frame_write(1) [OF assms(1)] by simp
  have "drain bytes = ([data], [], False)"
    using drain_frames [of "[data]"] assms(1) bytes by simp
  then have whole: "drain (taken @ rest) = ([data], [], False)"
    using assms(3) by simp
  moreover have "drain taken = ([], taken, False)"
  proof -
    have "length taken < length bytes" using assms(3,5) by simp
    moreover have "frame_len taken = length data" if "4 \<le> length taken"
    proof -
      have "take 4 taken = take 4 bytes" using that assms(3) by simp
      also have "\<dots> = be_bytes (length data)" by (simp add: bytes)
      finally show ?thesis
        using from_be_bytes_be_bytes [OF MAX_FRAME_u32 [OF assms(1)]] by (simp add: frame_len_def)
    qed
    ultimately have "waiting taken"
      using assms(1) bytes by (auto simp: waiting_def)
    then show ?thesis by (simp add: drain.simps)
  qed
  ultimately show ?thesis by simp
qed

theorem interrupted_frame_is_lost_witness:
  "read_run [Arrive [CHR 0x00, CHR 0x00, CHR 0x00, CHR 0x02], Interrupt, Arrive [CHR 0x7B, CHR 0x7D]] [] = []"
proof -
  let ?len = "[CHR 0x00, CHR 0x00, CHR 0x00, CHR 0x02]" and ?body = "[CHR 0x7B, CHR 0x7D]"
  have "write_frame ?body = Inr (?len @ ?body)"
    by (simp add: write_two)
  then have "read_run [Arrive ?len, Interrupt, Arrive ?body] [] = read_run [Arrive ?body] []"
    by (rule conjunct2 [OF interrupted_frame_is_lost [rotated]]) (simp_all add: MAX_FRAME_def)
  then show ?thesis
    by (simp add: drain.simps waiting_def)
qed

section \<open>The end of a connection\<close>

text \<open>A local client that greets, and whose connection then ends in the given way.\<close>

definition client_run :: "hub_env \<Rightarrow> conn_event \<Rightarrow> hub \<Rightarrow> hub \<times> conn \<times> flow" where
  "client_run env last_event h = run_conn env [hello_frame ''tui'', last_event] (new_conn False None) h"

definition client_added :: "hub \<Rightarrow> hub" where
  "client_added h = h\<lparr>hb_next_client := hb_next_client h + 1,
     hb_clients := hm_ins (hb_next_client h) \<lparr>cl_subs = [], cl_lan = False, cl_device_fp = None\<rparr> (hb_clients h)\<rparr>"

lemmas greet_eval = hello_frame_def on_event_def on_message_def greet_def hello_def hello_check_def
  jpointer_str_def jget_str_def rpc_request_def PROTOCOL_VERSION_def new_conn_def

lemma greeting:
  assumes "count_conn False (roster h) < LOCAL_CONN_MAX"
  shows "\<exists>out. on_event env (hello_frame ''tui'') (new_conn False None) h =
    (client_added h, (new_conn False None)\<lparr>cn_client_id := Some (hb_next_client h), cn_hello_done := True\<rparr>, out, Continue)"
  using assms count_conn_clients [of False h] by (simp add: greet_eval client_added_def Let_def)

lemma greeting_full:
  assumes "\<not> count_conn False (roster h) < LOCAL_CONN_MAX"
  shows "\<exists>out. on_event env (hello_frame ''tui'') (new_conn False None) h =
    (h, new_conn False None, out, Bail ''gtm/hello rejected'')"
  using assms count_conn_clients [of False h] by (simp add: greet_eval Let_def)

lemma added_client:
  assumes "hub_inv h" and "count_conn False (roster h) < LOCAL_CONN_MAX"
  shows "hub_inv (client_added h)" and "hb_clients (client_added h) =
      hb_clients h @ [(hb_next_client h, \<lparr>cl_subs = [], cl_lan = False, cl_device_fp = None\<rparr>)]"
proof -
  show "hub_inv (client_added h)"
    unfolding client_added_def using hub_inv_insert [OF assms(1), of False None] assms(2) by simp
  have "hb_next_client h \<notin> set (map fst (roster h))"
    using assms(1) by (auto simp: hub_inv_def Let_def simp del: roster_keys)
  then show "hb_clients (client_added h) =
      hb_clients h @ [(hb_next_client h, \<lparr>cl_subs = [], cl_lan = False, cl_device_fp = None\<rparr>)]"
    by (simp add: client_added_def map_of_eq_None_iff hm_ins_fresh)
qed

lemma crash_adds:
  assumes "count_conn False (roster h) < LOCAL_CONN_MAX"
  shows "fst (client_run env (ReadError err) h) = client_added h"
proof -
  obtain out where "on_event env (hello_frame ''tui'') (new_conn False None) h =
      (client_added h, (new_conn False None)\<lparr>cn_client_id := Some (hb_next_client h), cn_hello_done := True\<rparr>, out, Continue)"
    using greeting [OF assms] by blast
  then show ?thesis
    by (simp add: client_run_def) (simp add: on_event_def)
qed

lemma crashes:
  "n \<le> 8 \<Longrightarrow> hub_inv (((\<lambda>h. fst (client_run env (ReadError err) h)) ^^ n) (with_agent env [])) \<and>
    length (hb_clients (((\<lambda>h. fst (client_run env (ReadError err) h)) ^^ n) (with_agent env []))) = n \<and>
    count_conn False (roster (((\<lambda>h. fst (client_run env (ReadError err) h)) ^^ n) (with_agent env []))) = n"
proof (induction n)
  case 0
  show ?case
    using inv_with_agent [of "[]" env] by (simp add: with_agent_def roster_def count_conn_def)
next
  case (Suc n)
  let ?h = "((\<lambda>h. fst (client_run env (ReadError err) h)) ^^ n) (with_agent env [])"
  from Suc have inv: "hub_inv ?h" "length (hb_clients ?h) = n" "count_conn False (roster ?h) = n"
    by simp_all
  then have cap: "count_conn False (roster ?h) < LOCAL_CONN_MAX"
    using Suc.prems by (simp add: LOCAL_CONN_MAX_def)
  have "roster (client_added ?h) = roster ?h @ [(hb_next_client ?h, False, None)]"
    unfolding roster_def added_client(2) [OF inv(1) cap] by simp
  then show ?case
    using added_client [OF inv(1) cap] inv(2,3) crash_adds [OF cap, of env err] by simp
qed

lemma idle_leaves:
  assumes "hub_inv h" and "count_conn False (roster h) < LOCAL_CONN_MAX"
  shows "\<not> connected (hb_next_client h) (fst (client_run env IdleExpired h))"
proof -
  obtain out where g: "on_event env (hello_frame ''tui'') (new_conn False None) h =
      (client_added h, (new_conn False None)\<lparr>cn_client_id := Some (hb_next_client h), cn_hello_done := True\<rparr>, out, Continue)"
    using greeting [OF assms(2)] by blast
  have "fst (client_run env IdleExpired h) = disconnect env (hb_next_client h) (client_added h)"
    by (simp add: client_run_def g) (simp add: on_event_def close_conn_def)
  moreover have "hb_clients (disconnect env cid h') = hm_rem cid (hb_clients h')" for cid h'
    by (simp add: disconnect_def drop_host_client_def)
  ultimately show ?thesis
    by (simp add: connected_def hm.get_rem)
qed

text \<open>
  A client that goes idle is disconnected. One whose connection is closed, or sends bytes that
  are not a frame, stays in the table: after eight of them the hub refuses every local client,
  although nobody is connected.
\<close>

theorem closed_connections_fill_hub:
  "let full = ((\<lambda>h. fst (client_run env (ReadError err) h)) ^^ 8) (with_agent env []) in
    length (hb_clients full) = 8 \<and>
    client_run env e full = (full, new_conn False None, Bail ''gtm/hello rejected'') \<and>
    \<not> connected 1 (fst (client_run env IdleExpired (with_agent env [])))"
proof -
  let ?full = "((\<lambda>h. fst (client_run env (ReadError err) h)) ^^ 8) (with_agent env [])"
  have "\<not> count_conn False (roster ?full) < LOCAL_CONN_MAX"
    using crashes [of 8 env err] unfolding LOCAL_CONN_MAX_def by linarith
  from greeting_full [OF this, of env]
  have refused: "client_run env e ?full = (?full, new_conn False None, Bail ''gtm/hello rejected'')"
    unfolding client_run_def by auto
  have start: "hub_inv (with_agent env [])" "count_conn False (roster (with_agent env [])) < LOCAL_CONN_MAX"
    using crashes [of 0 env err] by (simp_all add: LOCAL_CONN_MAX_def)
  have "hb_next_client (with_agent env []) = 1"
    by (simp add: with_agent_def)
  then show ?thesis
    using idle_leaves [OF start, of env] conjunct1 [OF conjunct2 [OF crashes [of 8 env err]]] refused
    unfolding Let_def by simp
qed

end
