(* ===== verification/PermTypes.thy ===== *)
theory PermTypes imports Json begin

text \<open>
  The vocabulary of the permission subsystem
  (\<^verbatim>\<open>xai-grok-workspace/src/permission/types.rs\<close>): what a tool call wants to access, the
  decisions, the rules of a policy and the marks of a hook that asks for a confirmation. The
  classification of a tool call reads only the fields of the typed input that the code reads; the
  other fields of the inputs are left out of \<open>tool_input\<close>.
\<close>

section \<open>Accesses and decisions\<close>

datatype access_kind =
    AcRead "string option"
  | AcGrep (grep_path: "string option") (grep_glob: "string option")
  | AcEdit string
  | AcBash string
  | AcMCPTool (mcp_name: string) (mcp_input: json)
  | AcWebFetch string
  | AcWebSearch string
  | AcAgentMessage (subagent_id: string)
  | AcTool string

datatype decision =
    Allow
  | Ask
  | FollowupMessage string
  | Reject string
  | PolicyDeny string
  | Cancelled

datatype edit_policy = EpAsk | EpAllow | EpReject

fun edit_policy_str :: "edit_policy \<Rightarrow> string" where
  "edit_policy_str EpAsk = ''ask''"
| "edit_policy_str EpAllow = ''allow''"
| "edit_policy_str EpReject = ''reject''"

definition edit_policy_of_str :: "string \<Rightarrow> string + edit_policy" where
  "edit_policy_of_str v =
     (if v = ''ask'' then Inr EpAsk
      else if v = ''allow'' then Inr EpAllow
      else if v = ''reject'' then Inr EpReject
      else Inl v)"

lemma edit_policy_roundtrip: "edit_policy_of_str (edit_policy_str p) = Inr p"
  by (cases p) (simp_all add: edit_policy_of_str_def)

section \<open>Clients\<close>

datatype client_type = Generic | GrokTUI | GrokWeb | Nebula | Extension | GrokPager | Desktop

fun user_agent_label :: "client_type \<Rightarrow> string" where
  "user_agent_label Generic = ''grok-shell''"
| "user_agent_label GrokTUI = ''grok-tui''"
| "user_agent_label GrokWeb = ''grok-web''"
| "user_agent_label Nebula = ''nebula''"
| "user_agent_label Extension = ''grok-code-extension''"
| "user_agent_label GrokPager = ''grok-pager''"
| "user_agent_label Desktop = ''grok-desktop''"

definition from_client_identifier :: "string option \<Rightarrow> client_type" where
  "from_client_identifier i =
     (if i = Some ''grok-web'' then GrokWeb
      else if i = Some ''nebula'' then Nebula
      else if i = Some ''grok-code-extension'' then Extension
      else if i = Some ''grok-desktop'' then Desktop
      else if i = Some ''grok-pager'' then GrokPager
      else Generic)"

fun feedback_label :: "client_type \<Rightarrow> string" where
  "feedback_label GrokTUI = ''tui''"
| "feedback_label GrokPager = ''tui''"
| "feedback_label GrokWeb = ''web''"
| "feedback_label Nebula = ''nebula''"
| "feedback_label Extension = ''extension''"
| "feedback_label Generic = ''agent''"
| "feedback_label Desktop = ''desktop''"

definition can_present_permission_prompt :: "client_type \<Rightarrow> bool" where
  "can_present_permission_prompt c \<longleftrightarrow> c \<noteq> Generic"

text \<open>
  The user agent label of every client but the terminal UI is its identifier; the terminal UI's
  own label is read back as a generic client, which cannot show a prompt.
\<close>

lemma client_identifier_roundtrip:
  "from_client_identifier (Some (user_agent_label c)) = (if c = GrokTUI then Generic else c)"
  by (cases c) (simp_all add: from_client_identifier_def)

section \<open>Hooks that ask\<close>

record hook_ask =
  hook_name :: string
  hook_reason :: "string option"

text \<open>A space, an em dash (three bytes), a space.\<close>

definition hook_ask_separator :: string where
  "hook_ask_separator = [CHR 0x20, CHR 0xE2, CHR 0x80, CHR 0x94, CHR 0x20]"

definition ask_line :: "hook_ask \<Rightarrow> string" where
  "ask_line h =
     (let reason = join '' '' (split_whitespace (unwrap_or [] (hook_reason h)))
      in if reason = []
         then ''hook '' @ [CHR 39] @ hook_name h @ [CHR 39] @ '' asks for confirmation''
         else ''hook '' @ [CHR 39] @ hook_name h @ [CHR 39] @ '' asks: '' @ reason)"

definition prompt_header :: "hook_ask \<Rightarrow> string \<Rightarrow> string" where
  "prompt_header h action = action @ hook_ask_separator @ ask_line h"

definition strip_prompt_header :: "hook_ask \<Rightarrow> string \<Rightarrow> string" where
  "strip_prompt_header h title =
     unwrap_or title (Option.bind (strip_suffix (ask_line h) title)
       (\<lambda>action. strip_suffix hook_ask_separator action))"

lemma strip_prompt_header_roundtrip: "strip_prompt_header h (prompt_header h action) = action"
  by (simp add: strip_prompt_header_def prompt_header_def unwrap_or_def
      append.assoc [symmetric] del: append_assoc)

lemma strip_prompt_header_other:
  "(\<And>action. title \<noteq> prompt_header h action) \<Longrightarrow> strip_prompt_header h title = title"
  by (auto simp: strip_prompt_header_def prompt_header_def unwrap_or_def strip_suffix_Some
      split: bind_splits option.splits)

section \<open>Rules\<close>

datatype prompt_policy = PpAsk | PpDeny | PpAuto | PpAllow

datatype pattern_mode = Glob | Domain

datatype rule_action = RAllow | RDeny | RAsk

datatype tool_filter =
  TfAny | TfBash | TfEdit | TfRead | TfGrep | TfMcp | TfWebFetch | TfWebSearch | TfAgentMessage

record permission_rule =
  rule_act :: rule_action
  rule_tool :: tool_filter
  rule_pattern :: "string option"
  rule_mode :: pattern_mode

record permission_config =
  pc_rules :: "permission_rule list"
  pc_prompt_policy :: prompt_policy
  pc_default_mode_configured :: bool

definition permission_config_new :: "permission_rule list \<Rightarrow> permission_config" where
  "permission_config_new rules =
     \<lparr>pc_rules = rules, pc_prompt_policy = PpAsk, pc_default_mode_configured = False\<rparr>"

datatype requirement_source =
    SrcUnknown
  | SrcRequirements string
  | SrcSystemRequirements string
  | SrcManagedSettings string
  | SrcManagedConfig string
  | SrcConfig string
  | SrcSettings string

fun requirement_source_str :: "requirement_source \<Rightarrow> string" where
  "requirement_source_str SrcUnknown = ''<unknown>''"
| "requirement_source_str (SrcRequirements p) = p @ '' (requirements)''"
| "requirement_source_str (SrcSystemRequirements p) = p @ '' (system requirements)''"
| "requirement_source_str (SrcManagedSettings p) = p @ '' (managed-settings)''"
| "requirement_source_str (SrcManagedConfig p) = p @ '' (managed config)''"
| "requirement_source_str (SrcConfig p) = p @ '' (config)''"
| "requirement_source_str (SrcSettings p) = p @ '' (settings)''"

section \<open>Classifying a tool call\<close>

text \<open>
  \<^verbatim>\<open>ToolInput\<close> with the fields the classification reads; \<open>UseTool\<close> keeps its three
  shapes (\<^verbatim>\<open>UseToolInput\<close>).
\<close>

datatype use_tool_input =
    UseInline (ut_name: string) (ut_input: json)
  | UseArgumentsFile string
  | UseInvocationFile string

fun source_path :: "use_tool_input \<Rightarrow> string option" where
  "source_path (UseInline _ _) = None"
| "source_path (UseArgumentsFile f) = Some f"
| "source_path (UseInvocationFile f) = Some f"

datatype tool_input =
    ReadFile string | SearchReplace string | BashTool string | GrepSearch "string option" "string option"
  | ListDir string | TodoWrite | Skill | MCPToolCall string json | TaskOutput | WaitTasks | KillTask
  | Task | WebSearchTool string | ImageGen | ImageEdit | ImageToVideo | ReferenceToVideo
  | WebFetchTool string | Write string | ApplyPatch | HashlineEdit string | CodexListDir string
  | CodexGrepFiles "string option" "string option" | CodexReadFile string | MemorySearch
  | MemoryGet string | SearchTool | UseTool use_tool_input | EnterPlanMode | ExitPlanMode
  | AskUserQuestion | SendSubagentMessage string | SendFeedback | Lsp "string option"
  | Monitor string | SchedulerCreate | SchedulerDelete | SchedulerList | UpdateGoal | Workflow
  | Dynamic json

fun first_str_field :: "(string \<times> json) list \<Rightarrow> string list \<Rightarrow> string option" where
  "first_str_field obj [] = None"
| "first_str_field obj (k # ks) =
     (case Option.bind (hm_get obj k) as_str of
        None \<Rightarrow> first_str_field obj ks
      | Some s \<Rightarrow> Some s)"

definition dynamic_string_field :: "json \<Rightarrow> string list \<Rightarrow> string option" where
  "dynamic_string_field v keys = Option.bind (as_object v) (\<lambda>obj. first_str_field obj keys)"

definition dynamic_has_field :: "json \<Rightarrow> string list \<Rightarrow> bool" where
  "dynamic_has_field v keys =
     (case as_object v of
        None \<Rightarrow> False
      | Some obj \<Rightarrow> list_ex (\<lambda>k. hm_get obj k \<noteq> None) keys)"

definition mutation_fields :: "string list" where
  "mutation_fields =
     [''oldString'', ''old_string'', ''newString'', ''new_string'', ''content'', ''edits'',
      ''replaceAll'', ''replace_all'']"

definition access_kind_from_dynamic :: "json \<Rightarrow> access_kind" where
  "access_kind_from_dynamic v =
     (let name = dynamic_string_field v [''name'', ''tool'', ''tool_name'', ''variant'']
      in if name = Some ''send_feedback'' \<or> name = Some ''SendFeedback''
         then AcTool ''send_feedback''
         else case dynamic_string_field v [''filePath'', ''file_path'', ''path''] of
           Some path \<Rightarrow>
             if dynamic_has_field v mutation_fields then AcEdit path else AcRead (Some path)
         | None \<Rightarrow>
             (case dynamic_string_field v [''command''] of
                Some command \<Rightarrow> AcBash command
              | None \<Rightarrow> AcRead None))"

fun access_kind_of :: "tool_input \<Rightarrow> access_kind" where
  "access_kind_of (ReadFile p) = AcRead (Some p)"
| "access_kind_of (ListDir p) = AcRead (Some p)"
| "access_kind_of (CodexReadFile p) = AcRead (Some p)"
| "access_kind_of (CodexListDir p) = AcRead (Some p)"
| "access_kind_of (MemoryGet p) = AcRead (Some p)"
| "access_kind_of (Lsp p) = AcRead p"
| "access_kind_of (GrepSearch p g) = AcGrep p g"
| "access_kind_of (CodexGrepFiles p g) = AcGrep p g"
| "access_kind_of TodoWrite = AcRead None"
| "access_kind_of TaskOutput = AcRead None"
| "access_kind_of WaitTasks = AcRead None"
| "access_kind_of KillTask = AcRead None"
| "access_kind_of Skill = AcRead None"
| "access_kind_of MemorySearch = AcRead None"
| "access_kind_of SearchTool = AcRead None"
| "access_kind_of SchedulerList = AcRead None"
| "access_kind_of EnterPlanMode = AcRead None"
| "access_kind_of ExitPlanMode = AcRead None"
| "access_kind_of AskUserQuestion = AcRead None"
| "access_kind_of UpdateGoal = AcRead None"
| "access_kind_of Task = AcTool ''task''"
| "access_kind_of SchedulerCreate = AcTool ''scheduler_create''"
| "access_kind_of SchedulerDelete = AcTool ''scheduler_delete''"
| "access_kind_of Workflow = AcTool ''workflow''"
| "access_kind_of ImageGen = AcTool ''image_gen''"
| "access_kind_of ImageEdit = AcTool ''image_edit''"
| "access_kind_of ImageToVideo = AcTool ''image_to_video''"
| "access_kind_of ReferenceToVideo = AcTool ''reference_to_video''"
| "access_kind_of (SendSubagentMessage i) = AcAgentMessage i"
| "access_kind_of SendFeedback = AcTool ''send_feedback''"
| "access_kind_of (WebSearchTool q) = AcWebSearch q"
| "access_kind_of (SearchReplace p) = AcEdit p"
| "access_kind_of ApplyPatch = AcTool ''apply_patch''"
| "access_kind_of (HashlineEdit p) = AcEdit p"
| "access_kind_of (Write p) = AcEdit p"
| "access_kind_of (BashTool c) = AcBash c"
| "access_kind_of (Monitor c) = AcBash c"
| "access_kind_of (MCPToolCall n i) = AcMCPTool n i"
| "access_kind_of (UseTool u) =
     (case u of UseInline n i \<Rightarrow> AcMCPTool n i | _ \<Rightarrow> AcRead (source_path u))"
| "access_kind_of (WebFetchTool u) = AcWebFetch u"
| "access_kind_of (Dynamic v) = access_kind_from_dynamic v"

text \<open>
  The inputs that only read, by their constructors: all other typed inputs must be classified as
  something that is not a read.
\<close>

fun reads_only :: "tool_input \<Rightarrow> bool" where
  "reads_only (ReadFile _) = True"
| "reads_only (ListDir _) = True"
| "reads_only (CodexReadFile _) = True"
| "reads_only (CodexListDir _) = True"
| "reads_only (MemoryGet _) = True"
| "reads_only (Lsp _) = True"
| "reads_only (GrepSearch _ _) = True"
| "reads_only (CodexGrepFiles _ _) = True"
| "reads_only TodoWrite = True"
| "reads_only TaskOutput = True"
| "reads_only WaitTasks = True"
| "reads_only KillTask = True"
| "reads_only Skill = True"
| "reads_only MemorySearch = True"
| "reads_only SearchTool = True"
| "reads_only SchedulerList = True"
| "reads_only EnterPlanMode = True"
| "reads_only ExitPlanMode = True"
| "reads_only AskUserQuestion = True"
| "reads_only UpdateGoal = True"
| "reads_only (WebSearchTool _) = True"
| "reads_only (UseTool (UseArgumentsFile _)) = True"
| "reads_only (UseTool (UseInvocationFile _)) = True"
| "reads_only _ = False"

fun is_read_access :: "access_kind \<Rightarrow> bool" where
  "is_read_access (AcRead _) = True"
| "is_read_access (AcGrep _ _) = True"
| "is_read_access (AcWebSearch _) = True"
| "is_read_access _ = False"

lemma typed_input_classified:
  "(\<nexists>v. i = Dynamic v) \<Longrightarrow> is_read_access (access_kind_of i) \<longleftrightarrow> reads_only i"
  by (cases i) (auto split: use_tool_input.split)

text \<open>
  A runtime-registered tool is the exception: an object without a path and a command is a read
  without a path, whatever the tool does.
\<close>

lemma dynamic_without_known_field:
  assumes "dynamic_string_field v [''name'', ''tool'', ''tool_name'', ''variant'']
      \<notin> {Some ''send_feedback'', Some ''SendFeedback''}"
    and "dynamic_string_field v [''filePath'', ''file_path'', ''path''] = None"
    and "dynamic_string_field v [''command''] = None"
  shows "access_kind_of (Dynamic v) = AcRead None"
  using assms by (auto simp: access_kind_from_dynamic_def Let_def)

end
