(* ===== verification/ShellWords.thy ===== *)
theory ShellWords imports PermTypes begin

text \<open>
  Peeling of wrapper commands from the words of a command
  (\<^verbatim>\<open>permission/bash_command_splitting.rs\<close>): the scan of the options of
  \<^verbatim>\<open>env\<close>, the canonical wrappers (\<^verbatim>\<open>timeout\<close>, \<^verbatim>\<open>nice\<close>, \<^verbatim>\<open>ionice\<close>,
  \<^verbatim>\<open>chrt\<close>, \<^verbatim>\<open>stdbuf\<close>, \<^verbatim>\<open>env\<close>), the transparent prefixes (\<^verbatim>\<open>exec\<close>,
  \<^verbatim>\<open>command\<close>, \<^verbatim>\<open>builtin\<close>) and their bounded alternation. The permission gates match
  their rules on the words before and after this normalisation, so what it hides is hidden from
  the rules.
\<close>

section \<open>Slices and words\<close>

definition get_at :: "'a list \<Rightarrow> nat \<Rightarrow> 'a option" where
  "get_at xs i = (if i < length xs then Some (xs ! i) else None)"

text \<open>\<^verbatim>\<open>xs.get(i..)\<close>\<close>

definition get_from :: "'a list \<Rightarrow> nat \<Rightarrow> 'a list option" where
  "get_from xs i = (if i \<le> length xs then Some (drop i xs) else None)"

text \<open>\<^verbatim>\<open>s.get(..i)\<close> and \<^verbatim>\<open>s.get(i..)\<close> of a string: only at character boundaries.\<close>

definition str_get_to :: "string \<Rightarrow> nat \<Rightarrow> string option" where
  "str_get_to s i = (if is_char_boundary s i then Some (take i s) else None)"

definition str_get_from :: "string \<Rightarrow> nat \<Rightarrow> string option" where
  "str_get_from s i = (if is_char_boundary s i then Some (drop i s) else None)"

text \<open>\<^verbatim>\<open>w.rsplit(['/', '\\']).next()\<close>: what follows the last separator.\<close>

definition last_segment :: "string \<Rightarrow> string" where
  "last_segment w = rev (takeWhile (\<lambda>c. c \<noteq> CHR ''/'' \<and> c \<noteq> CHR 0x5C) (rev w))"

definition first_segment :: "string list \<Rightarrow> string option" where
  "first_segment cmd = map_option last_segment (get_at cmd 0)"

lemma get_at_Some: "get_at xs i = Some x \<longleftrightarrow> i < length xs \<and> xs ! i = x"
  by (auto simp: get_at_def)

lemma get_at_0 [simp]: "get_at (x # xs) 0 = Some x"
  by (simp add: get_at_def)

lemma get_at_Suc [simp]: "get_at (x # xs) (Suc i) = get_at xs i"
  by (simp add: get_at_def)

lemma get_at_Nil [simp]: "get_at [] i = None"
  by (simp add: get_at_def)

section \<open>The options of env\<close>

abbreviation nul :: char where
  "nul \<equiv> CHR 0x00"

abbreviation quote_char :: char where
  "quote_char \<equiv> CHR 0x27"

abbreviation dquote_char :: char where
  "dquote_char \<equiv> CHR 0x22"

definition ascii_alpha :: "char \<Rightarrow> bool" where
  "ascii_alpha c \<longleftrightarrow>
     (let n = of_char c :: nat in (65 \<le> n \<and> n \<le> 90) \<or> (97 \<le> n \<and> n \<le> 122))"

definition ascii_alnum :: "char \<Rightarrow> bool" where
  "ascii_alnum c \<longleftrightarrow> ascii_alpha c \<or> is_dec_digit c"

definition is_env_assignment :: "string \<Rightarrow> bool" where
  "is_env_assignment tok \<longleftrightarrow>
     CHR ''='' \<in> set tok \<and>
     (let name = takeWhile (\<lambda>c. c \<noteq> CHR ''='') tok
      in name \<noteq> [] \<and> (ascii_alpha (hd name) \<or> hd name = CHR ''_'') \<and>
         list_all (\<lambda>b. ascii_alnum b \<or> b = CHR ''_'') name)"

text \<open>
  Decoding the source spelling of a literal word under the quote rules of the shell. The bytes
  of a character beyond ASCII are never a quote or a backslash, so the scan is byte-wise.
\<close>

fun decode_spelling :: "char option \<Rightarrow> string \<Rightarrow> string option" where
  "decode_spelling q [] = (if q = None then Some [] else None)"
| "decode_spelling q (ch # cs) =
     (if q = None \<and> (ch = quote_char \<or> ch = dquote_char) then decode_spelling (Some ch) cs
      else if q = Some ch then decode_spelling None cs
      else if q = None \<and> ch = CHR 0x5C then
        (case cs of
           [] \<Rightarrow> None
         | n # cs' \<Rightarrow> map_option ((#) n) (decode_spelling None cs'))
      else if q = Some dquote_char \<and> ch = CHR 0x5C then
        (case cs of
           [] \<Rightarrow> None
         | n # cs' \<Rightarrow>
             if n \<in> set [CHR ''$'', CHR 0x60, dquote_char, CHR 0x5C, newline]
             then map_option ((#) n) (decode_spelling q cs')
             else map_option (\<lambda>out. CHR 0x5C # n # out) (decode_spelling q cs'))
      else map_option ((#) ch) (decode_spelling q cs))"

definition decode_shell_literal_spelling :: "string \<Rightarrow> string option" where
  "decode_shell_literal_spelling raw = decode_spelling None raw"

definition decode_env_option_token :: "string \<Rightarrow> string" where
  "decode_env_option_token raw =
     (if quote_char \<notin> set raw \<and> dquote_char \<notin> set raw then raw
      else unwrap_or raw (decode_shell_literal_spelling raw))"

definition is_high_confidence_env_s_payload :: "string \<Rightarrow> bool" where
  "is_high_confidence_env_s_payload s \<longleftrightarrow>
     s \<noteq> [] \<and> nul \<notin> set s \<and>
     \<not> list_ex (\<lambda>c. c \<in> set [quote_char, dquote_char, CHR 0x5C, CHR ''#'', CHR 0x60, CHR ''$'',
         newline, carriage_return]) s"

definition take_high_confidence_payload :: "string \<Rightarrow> string option" where
  "take_high_confidence_payload raw =
     (if is_high_confidence_env_s_payload raw then Some raw else None)"

datatype env_short =
    SplitStringNext
  | SplitStringGlued string
  | SplitStringDetect
  | NoArg
  | ArgNeedNext char
  | ArgGlued char
  | Uncertain

text \<open>The cluster of short options after the first dash; an argument absorbs the rest.\<close>

fun env_cluster :: "string \<Rightarrow> env_short" where
  "env_cluster [] = NoArg"
| "env_cluster (c # cs) =
     (if c \<in> set ''iv0'' then env_cluster cs
      else if c = CHR ''S'' then SplitStringDetect
      else if c \<in> set ''uCPa'' then (if cs \<noteq> [] then ArgGlued c else ArgNeedNext c)
      else Uncertain)"

definition classify_env_short :: "string \<Rightarrow> env_short" where
  "classify_env_short tok =
     (if \<not> starts_with tok ''-'' \<or> starts_with tok ''--'' \<or> tok = ''-'' then Uncertain
      else
        (let body = tl tok
         in if body = [] then Uncertain
            else case strip_prefix ''S'' body of
              Some rest \<Rightarrow> if rest = [] then SplitStringNext else SplitStringGlued rest
            | None \<Rightarrow> env_cluster body))"

record env_scan =
  es_chdir :: "string option"
  es_has_split_string :: bool
  es_options_uncertain :: bool
  es_split_string_script :: "string option"
  es_command_start :: nat

definition es_break :: "env_scan \<Rightarrow> nat \<Rightarrow> env_scan + env_scan \<times> nat" where
  "es_break st i = Inl (st\<lparr>es_command_start := i\<rparr>)"

definition es_uncertain :: "env_scan \<Rightarrow> nat \<Rightarrow> env_scan + env_scan \<times> nat" where
  "es_uncertain st i = es_break (st\<lparr>es_options_uncertain := True\<rparr>) i"

definition es_split :: "env_scan \<Rightarrow> nat \<Rightarrow> string option \<Rightarrow> env_scan + env_scan \<times> nat" where
  "es_split st i payload =
     es_break (st\<lparr>es_has_split_string := True,
       es_split_string_script := Option.bind payload take_high_confidence_payload\<rparr>) i"

text \<open>An option that takes the next word (\<^verbatim>\<open>take_option_operand\<close>).\<close>

definition es_operand ::
    "string list \<Rightarrow> nat \<Rightarrow> env_scan \<Rightarrow> (string \<Rightarrow> env_scan) \<Rightarrow> env_scan + env_scan \<times> nat" where
  "es_operand cmd i st f =
     (case get_at cmd (i + 1) of
        Some v \<Rightarrow> Inr (f v, i + 2)
      | None \<Rightarrow> es_uncertain st i)"

definition env_long ::
    "string list \<Rightarrow> nat \<Rightarrow> env_scan \<Rightarrow> string \<Rightarrow> env_scan + env_scan \<times> nat" where
  "env_long cmd i st tok =
     (if tok = ''--chdir'' then es_operand cmd i st (\<lambda>dir. st\<lparr>es_chdir := Some dir\<rparr>)
      else case strip_prefix ''--chdir='' tok of
        Some dir \<Rightarrow> Inr (st\<lparr>es_chdir := Some dir\<rparr>, i + 1)
      | None \<Rightarrow>
      if tok \<in> {''--unset'', ''--path'', ''--argv0''} then es_operand cmd i st (\<lambda>_. st)
      else if starts_with tok ''--unset='' \<or> starts_with tok ''--path='' \<or> starts_with tok ''--argv0=''
      then Inr (st, i + 1)
      else if tok \<in> {''--ignore-environment'', ''--null'', ''--debug'', ''--version'', ''--help''}
      then Inr (st, i + 1)
      else if tok = ''--split-string'' then es_split st i (get_at cmd (i + 1))
      else case strip_prefix ''--split-string='' tok of
        Some payload \<Rightarrow>
          es_split st i
            (Some (unwrap_or payload (strip_prefix ''--split-string='' (decode_env_option_token tok))))
      | None \<Rightarrow> es_uncertain st i)"

definition env_short_option ::
    "string list \<Rightarrow> nat \<Rightarrow> env_scan \<Rightarrow> string \<Rightarrow> env_scan + env_scan \<times> nat" where
  "env_short_option cmd i st tok_raw =
     (case classify_env_short (decode_env_option_token tok_raw) of
        SplitStringNext \<Rightarrow> es_split st i (get_at cmd (i + 1))
      | SplitStringGlued payload \<Rightarrow> es_split st i (Some payload)
      | SplitStringDetect \<Rightarrow> es_break (st\<lparr>es_has_split_string := True\<rparr>) i
      | NoArg \<Rightarrow> Inr (st, i + 1)
      | ArgNeedNext kind \<Rightarrow>
          es_operand cmd i st
            (\<lambda>operand. if kind = CHR ''C'' then st\<lparr>es_chdir := Some operand\<rparr> else st)
      | ArgGlued kind \<Rightarrow>
          Inr (if kind = CHR ''C''
               then st\<lparr>es_chdir := Some (unwrap_or [] (nonempty (strip_prefix ''-C'' tok_raw)))\<rparr>
               else st, i + 1)
      | Uncertain \<Rightarrow> es_uncertain st i)"

text \<open>One round of the loop: break with the final scan, or go on at a later word.\<close>

definition env_step ::
    "string list \<Rightarrow> nat \<Rightarrow> env_scan \<Rightarrow> string \<Rightarrow> env_scan + env_scan \<times> nat" where
  "env_step cmd i st tok_raw =
     (if tok_raw = ''--'' then es_break st (i + 1)
      else if tok_raw = ''-'' then Inr (st, i + 1)
      else if \<not> starts_with tok_raw ''-'' then
        (if is_env_assignment tok_raw then Inr (st, i + 1) else es_break st i)
      else if starts_with tok_raw ''--'' then env_long cmd i st tok_raw
      else env_short_option cmd i st tok_raw)"

named_theorems env_defs "the steps of the scan of env"
lemmas [env_defs] = env_step_def env_long_def env_short_option_def es_operand_def es_split_def
  es_uncertain_def es_break_def

lemma env_step_progress: "env_step cmd i st tok = Inr (st', i') \<Longrightarrow> i < i'"
  by (auto simp: env_defs split: if_splits option.splits env_short.splits)

function env_scan_from :: "string list \<Rightarrow> nat \<Rightarrow> env_scan \<Rightarrow> env_scan" where
  "env_scan_from cmd i st =
     (case get_at cmd i of
        None \<Rightarrow> st\<lparr>es_command_start := i\<rparr>
      | Some tok \<Rightarrow>
          (case env_step cmd i st tok of
             Inl result \<Rightarrow> result
           | Inr (st', i') \<Rightarrow> env_scan_from cmd i' st'))"
  by pat_completeness auto
termination
proof (relation "measure (\<lambda>(cmd, i, st). length cmd - i)", goal_cases)
  case (2 cmd i st tok x st' i')
  then have "i < i'" "i < length cmd" by (auto dest: env_step_progress simp: get_at_Some)
  then show ?case by simp
qed simp

declare env_scan_from.simps [simp del]

definition env_scan_start :: env_scan where
  "env_scan_start = \<lparr>es_chdir = None, es_has_split_string = False, es_options_uncertain = False,
     es_split_string_script = None, es_command_start = 1\<rparr>"

definition env_scan_of :: "string list \<Rightarrow> env_scan" where
  "env_scan_of cmd = env_scan_from cmd 1 env_scan_start"

definition env_split_string_script :: "string list \<Rightarrow> string option" where
  "env_split_string_script words =
     (if first_segment words \<noteq> Some ''env'' then None
      else let scan = env_scan_of words
        in if es_has_split_string scan then es_split_string_script scan else None)"

lemma env_step_break:
  "env_step cmd i st tok = Inl st' \<Longrightarrow> i \<le> es_command_start st'"
  by (auto simp: env_defs split: if_splits option.splits env_short.splits)

lemma env_scan_from_start: "i \<le> es_command_start (env_scan_from cmd i st)"
proof (induction cmd i st rule: env_scan_from.induct)
  case (1 cmd i st)
  show ?case
  proof (cases "get_at cmd i")
    case None
    then show ?thesis by (simp add: env_scan_from.simps)
  next
    case (Some tok)
    show ?thesis
    proof (cases "env_step cmd i st tok")
      case (Inl r)
      with Some show ?thesis
        by (simp add: env_scan_from.simps env_step_break [OF Inl])
    next
      case (Inr p)
      obtain st' i' where p: "p = (st', i')" by fastforce
      from "1.IH" [OF Some Inr p [symmetric]] env_step_progress [of cmd i st tok st' i'] Inr p Some
      show ?thesis by (subst env_scan_from.simps) simp
    qed
  qed
qed

lemma env_command_start: "1 \<le> es_command_start (env_scan_of cmd)"
  unfolding env_scan_of_def by (rule env_scan_from_start)

section \<open>Canonical wrappers\<close>

text \<open>Skip options; an option of the list takes the next word too.\<close>

function skip_options :: "string list \<Rightarrow> string list \<Rightarrow> nat \<Rightarrow> nat" where
  "skip_options with_value cmd i =
     (case get_at cmd i of
        None \<Rightarrow> i
      | Some t \<Rightarrow>
          if \<not> starts_with t ''-'' then i
          else if List.member with_value t then skip_options with_value cmd (i + 2)
          else skip_options with_value cmd (i + 1))"
  by pat_completeness auto
termination
  by (relation "measure (\<lambda>(w, cmd, i). length cmd - i)") (auto simp: get_at_Some)

declare skip_options.simps [simp del]

lemma skip_options_ge: "i \<le> skip_options w cmd i"
proof (induction w cmd i rule: skip_options.induct)
  case (1 w cmd i)
  then show ?case by (subst skip_options.simps) (auto split: option.split)
qed

definition ionice_value_options :: "string list" where
  "ionice_value_options =
     [''-c'', ''-n'', ''-p'', ''-P'', ''-u'', ''--class'', ''--classdata'', ''--pid'', ''--pgid'',
      ''--uid'']"

text \<open>The index at which the wrapped command starts, or none when the head is no wrapper.\<close>

definition wrapper_inner_start :: "string list \<Rightarrow> nat option" where
  "wrapper_inner_start cmd =
     (let mandatory = (\<lambda>i. if length cmd \<le> i then None else Some (i + 1))
      in case first_segment cmd of
        None \<Rightarrow> None
      | Some head \<Rightarrow>
          if head = ''timeout''
          then mandatory (skip_options [''-k'', ''-s'', ''--kill-after'', ''--signal''] cmd 1)
          else if head = ''nice'' then Some (skip_options [''-n'', ''--adjustment''] cmd 1)
          else if head = ''ionice'' then Some (skip_options ionice_value_options cmd 1)
          else if head = ''chrt'' then mandatory (skip_options [] cmd 1)
          else if head = ''stdbuf'' then Some (skip_options [''-i'', ''-o'', ''-e''] cmd 1)
          else if head = ''env'' then
            (let scan = env_scan_of cmd
             in if es_has_split_string scan \<or> es_options_uncertain scan then None
                else Some (es_command_start scan))
          else None)"

definition strip_wrapper_command :: "string list \<Rightarrow> string list option" where
  "strip_wrapper_command cmd =
     Option.bind (wrapper_inner_start cmd) (\<lambda>i.
       Option.bind (get_from cmd i) (\<lambda>inner. if inner = [] then None else Some inner))"

definition is_wrapper_command :: "string list \<Rightarrow> bool" where
  "is_wrapper_command words \<longleftrightarrow>
     first_segment words \<in> Some ` {''timeout'', ''nice'', ''ionice'', ''chrt'', ''stdbuf'', ''env''}"

definition max_wrapper_depth :: nat where
  "max_wrapper_depth = 8"

definition max_inline_shell_depth :: nat where
  "max_inline_shell_depth = 8"

lemma wrapper_inner_start_pos: "wrapper_inner_start cmd = Some i \<Longrightarrow> 1 \<le> i"
  unfolding wrapper_inner_start_def
  using skip_options_ge [of 1] env_command_start [of cmd]
  by (auto simp: Let_def split: option.splits if_splits)

lemma strip_wrapper_suffix:
  assumes "strip_wrapper_command cmd = Some inner"
  shows "\<exists>peeled. peeled \<noteq> [] \<and> cmd = peeled @ inner" "inner \<noteq> []"
    "length inner < length cmd" "is_wrapper_command cmd"
proof -
  from assms obtain i where i: "wrapper_inner_start cmd = Some i" "i \<le> length cmd"
      "inner = drop i cmd" "inner \<noteq> []"
    by (auto simp: strip_wrapper_command_def get_from_def split: bind_splits if_splits)
  then have "1 \<le> i" "i < length cmd"
    using wrapper_inner_start_pos by auto
  then have "cmd = take i cmd @ inner" "take i cmd \<noteq> []"
    using i by auto
  then show "\<exists>peeled. peeled \<noteq> [] \<and> cmd = peeled @ inner" by blast
  show "inner \<noteq> []" by (fact i)
  show "length inner < length cmd"
    using i \<open>1 \<le> i\<close> \<open>i < length cmd\<close> by simp
  show "is_wrapper_command cmd"
    using i(1) by (auto simp: wrapper_inner_start_def is_wrapper_command_def Let_def
        split: option.splits if_splits)
qed

section \<open>Peeling wrappers\<close>

record wrapper_peel =
  wp_words :: "string list"
  wp_has_chdir :: bool
  wp_has_split_string :: bool
  wp_env_options_uncertain :: bool
  wp_exhausted :: bool

text \<open>The facts the scan of a leading \<^verbatim>\<open>env\<close> adds.\<close>

definition note_env :: "wrapper_peel \<Rightarrow> wrapper_peel" where
  "note_env p =
     (if first_segment (wp_words p) = Some ''env''
      then let scan = env_scan_of (wp_words p)
        in p\<lparr>wp_has_chdir := wp_has_chdir p \<or> es_chdir scan \<noteq> None,
             wp_has_split_string := wp_has_split_string p \<or> es_has_split_string scan,
             wp_env_options_uncertain := wp_env_options_uncertain p \<or> es_options_uncertain scan\<rparr>
      else p)"

text \<open>The bounded loop: the first argument is the number of rounds left.\<close>

fun unwrap_rounds :: "nat \<Rightarrow> wrapper_peel \<Rightarrow> wrapper_peel" where
  "unwrap_rounds 0 p =
     p\<lparr>wp_exhausted := is_wrapper_command (wp_words p) \<and> strip_wrapper_command (wp_words p) \<noteq> None\<rparr>"
| "unwrap_rounds (Suc n) p =
     (let p = note_env p
      in case strip_wrapper_command (wp_words p) of
        Some inner \<Rightarrow> unwrap_rounds n (p\<lparr>wp_words := inner\<rparr>)
      | None \<Rightarrow> p\<lparr>wp_exhausted := False\<rparr>)"

definition unwrap_wrappers_checked :: "string list \<Rightarrow> wrapper_peel" where
  "unwrap_wrappers_checked words = unwrap_rounds max_wrapper_depth
     \<lparr>wp_words = words, wp_has_chdir = False, wp_has_split_string = False,
      wp_env_options_uncertain = False, wp_exhausted = False\<rparr>"

definition unwrap_wrappers :: "string list \<Rightarrow> string list" where
  "unwrap_wrappers words = wp_words (unwrap_wrappers_checked words)"

definition unwrap_command_wrappers :: "string list \<Rightarrow> string list" where
  "unwrap_command_wrappers words = unwrap_wrappers words"

section \<open>Transparent prefixes\<close>

datatype transparent_strip = NotPrefix | Peeled "string list" | StripAmbiguous

datatype transparent_peel = PeelReady "string list" | PeelAmbiguous

definition peeled_at :: "string list \<Rightarrow> nat \<Rightarrow> transparent_strip" where
  "peeled_at cmd i =
     (case get_from cmd i of
        Some inner \<Rightarrow> if inner \<noteq> [] then Peeled inner else NotPrefix
      | None \<Rightarrow> NotPrefix)"

definition ends_options :: "string \<Rightarrow> bool" where
  "ends_options tok \<longleftrightarrow> tok = ''-'' \<or> \<not> starts_with tok ''-''"

text \<open>\<^verbatim>\<open>exec [-cl] [-a name] [command [arguments]]\<close>\<close>

function strip_exec_from :: "string list \<Rightarrow> nat \<Rightarrow> transparent_strip" where
  "strip_exec_from cmd i =
     (case get_at cmd i of
        None \<Rightarrow> peeled_at cmd i
      | Some tok \<Rightarrow>
          if tok = ''--'' then peeled_at cmd (i + 1)
          else if ends_options tok then peeled_at cmd i
          else if tok \<in> {''-c'', ''-l'', ''-cl'', ''-lc''} then strip_exec_from cmd (i + 1)
          else if tok = ''-a'' then
            (case get_at cmd (i + 1) of
               Some v \<Rightarrow> if v \<noteq> [nul] \<and> v \<noteq> [] then strip_exec_from cmd (i + 2) else StripAmbiguous
             | None \<Rightarrow> StripAmbiguous)
          else
            (case nonempty (strip_prefix ''-a'' tok) of
               Some rest \<Rightarrow> if rest = [nul] then StripAmbiguous else strip_exec_from cmd (i + 1)
             | None \<Rightarrow>
                 if \<not> starts_with tok ''--'' \<and> list_all (\<lambda>c. c \<in> set ''cl'') (tl tok)
                 then strip_exec_from cmd (i + 1)
                 else StripAmbiguous))"
  by pat_completeness auto
termination
  by (relation "measure (\<lambda>(cmd, i). length cmd - i)") (auto simp: get_at_Some)

text \<open>\<^verbatim>\<open>command [-p] command [arguments]\<close>\<close>

function strip_command_from :: "string list \<Rightarrow> nat \<Rightarrow> transparent_strip" where
  "strip_command_from cmd i =
     (case get_at cmd i of
        None \<Rightarrow> peeled_at cmd i
      | Some tok \<Rightarrow>
          if tok = ''--'' then peeled_at cmd (i + 1)
          else if ends_options tok then peeled_at cmd i
          else if tok \<in> {''-v'', ''-V'', ''--help'', ''--version''} \<or>
            (\<not> starts_with tok ''--'' \<and> list_ex (\<lambda>c. c \<in> set ''vV'') (tl tok)) then NotPrefix
          else if tok = ''-p'' \<or> (\<not> starts_with tok ''--'' \<and> list_all (\<lambda>c. c = CHR ''p'') (tl tok))
          then strip_command_from cmd (i + 1)
          else StripAmbiguous)"
  by pat_completeness auto
termination
  by (relation "measure (\<lambda>(cmd, i). length cmd - i)") (auto simp: get_at_Some)

declare strip_exec_from.simps [simp del] strip_command_from.simps [simp del]

definition strip_builtin_prefix :: "string list \<Rightarrow> transparent_strip" where
  "strip_builtin_prefix cmd =
     (case get_at cmd 1 of
        None \<Rightarrow> NotPrefix
      | Some tok \<Rightarrow>
          if starts_with tok ''-'' \<and> tok \<noteq> ''-'' then StripAmbiguous else peeled_at cmd 1)"

definition strip_transparent_prefix :: "string list \<Rightarrow> transparent_strip" where
  "strip_transparent_prefix cmd =
     (case get_at cmd 0 of
        None \<Rightarrow> NotPrefix
      | Some h \<Rightarrow>
          if h = [] \<or> h = [nul] then NotPrefix
          else if last_segment h = ''exec'' then strip_exec_from cmd 1
          else if last_segment h = ''command'' then strip_command_from cmd 1
          else if last_segment h = ''builtin'' then strip_builtin_prefix cmd
          else NotPrefix)"

definition max_transparent_prefix_depth :: nat where
  "max_transparent_prefix_depth = 8"

fun peel_rounds :: "nat \<Rightarrow> string list \<Rightarrow> transparent_peel" where
  "peel_rounds 0 current =
     (case strip_transparent_prefix current of
        NotPrefix \<Rightarrow> PeelReady current
      | _ \<Rightarrow> PeelAmbiguous)"
| "peel_rounds (Suc n) current =
     (case strip_transparent_prefix current of
        NotPrefix \<Rightarrow> PeelReady current
      | Peeled inner \<Rightarrow> peel_rounds n inner
      | StripAmbiguous \<Rightarrow> PeelAmbiguous)"

definition peel_transparent_prefixes :: "string list \<Rightarrow> transparent_peel" where
  "peel_transparent_prefixes words = peel_rounds max_transparent_prefix_depth words"

section \<open>Normalisation\<close>

record normalized_peel =
  np_words :: "string list"
  np_has_chdir :: bool
  np_has_split_string :: bool
  np_env_options_uncertain :: bool
  np_exhausted :: bool
  np_ambiguous :: bool

text \<open>One round: wrappers, then transparent prefixes; the flag says whether the loop breaks.\<close>

definition normalize_round :: "normalized_peel \<Rightarrow> normalized_peel \<times> bool" where
  "normalize_round p =
     (let wrapped = unwrap_wrappers_checked (np_words p);
          q = \<lparr>np_words = wp_words wrapped,
               np_has_chdir = np_has_chdir p \<or> wp_has_chdir wrapped,
               np_has_split_string = np_has_split_string p \<or> wp_has_split_string wrapped,
               np_env_options_uncertain = np_env_options_uncertain p \<or> wp_env_options_uncertain wrapped,
               np_exhausted = np_exhausted p \<or> wp_exhausted wrapped,
               np_ambiguous = np_ambiguous p\<rparr>
      in if np_has_split_string q \<or> np_env_options_uncertain q then (q, True)
         else case peel_transparent_prefixes (np_words q) of
           PeelAmbiguous \<Rightarrow> (q\<lparr>np_ambiguous := True\<rparr>, True)
         | PeelReady inner \<Rightarrow>
             (q\<lparr>np_words := inner\<rparr>, length inner = length (np_words p)))"

fun normalize_rounds :: "nat \<Rightarrow> normalized_peel \<Rightarrow> normalized_peel" where
  "normalize_rounds 0 p = p"
| "normalize_rounds (Suc n) p =
     (case normalize_round p of
        (q, True) \<Rightarrow> q
      | (q, False) \<Rightarrow> normalize_rounds n q)"

definition max_normalize_rounds :: nat where
  "max_normalize_rounds = max_wrapper_depth + max_transparent_prefix_depth"

definition still_peelable :: "string list \<Rightarrow> bool" where
  "still_peelable words \<longleftrightarrow>
     (is_wrapper_command words \<and> strip_wrapper_command words \<noteq> None) \<or>
     strip_transparent_prefix words \<noteq> NotPrefix"

definition normalize_command_words :: "string list \<Rightarrow> normalized_peel" where
  "normalize_command_words words =
     (let p = normalize_rounds max_normalize_rounds
            \<lparr>np_words = words, np_has_chdir = False, np_has_split_string = False,
             np_env_options_uncertain = False, np_exhausted = False, np_ambiguous = False\<rparr>
      in if \<not> np_ambiguous p \<and> \<not> np_has_split_string p \<and> \<not> np_env_options_uncertain p \<and>
            still_peelable (np_words p)
         then p\<lparr>np_exhausted := True\<rparr> else p)"

text \<open>The flags on which every caller falls back to asking.\<close>

definition np_clean :: "normalized_peel \<Rightarrow> bool" where
  "np_clean p \<longleftrightarrow> \<not> np_has_split_string p \<and> \<not> np_env_options_uncertain p \<and>
     \<not> np_exhausted p \<and> \<not> np_ambiguous p"

subsection \<open>What normalisation returns\<close>

definition is_suffix :: "'a list \<Rightarrow> 'a list \<Rightarrow> bool" where
  "is_suffix ys xs \<longleftrightarrow> (\<exists>zs. xs = zs @ ys)"

lemma is_suffix_refl [simp]: "is_suffix xs xs"
  by (simp add: is_suffix_def)

lemma is_suffix_trans: "is_suffix xs ys \<Longrightarrow> is_suffix ys zs \<Longrightarrow> is_suffix xs zs"
  unfolding is_suffix_def by (metis append.assoc)

lemma is_suffix_same_length: "is_suffix xs ys \<Longrightarrow> length xs = length ys \<Longrightarrow> xs = ys"
  by (auto simp: is_suffix_def)

lemma is_suffix_drop: "is_suffix ys xs \<Longrightarrow> drop (length xs - length ys) xs = ys"
  by (auto simp: is_suffix_def)

lemma note_env_words [simp]: "wp_words (note_env p) = wp_words p"
  by (simp add: note_env_def Let_def)

lemma strip_wrapper_is_suffix: "strip_wrapper_command cmd = Some inner \<Longrightarrow> is_suffix inner cmd"
  using strip_wrapper_suffix(1) by (auto simp: is_suffix_def)

lemma unwrap_rounds_suffix: "is_suffix (wp_words (unwrap_rounds n p)) (wp_words p)"
proof (induction n p rule: unwrap_rounds.induct)
  case (2 n p)
  show ?case
  proof (cases "strip_wrapper_command (wp_words p)")
    case (Some inner)
    with "2.IH" [of "note_env p" inner] strip_wrapper_is_suffix show ?thesis
      by (auto simp: Let_def intro: is_suffix_trans)
  qed (simp add: Let_def)
qed simp

lemma peeled_at_suffix: "peeled_at cmd i = Peeled inner \<Longrightarrow> 1 \<le> i \<Longrightarrow>
    is_suffix inner cmd \<and> inner \<noteq> [] \<and> length inner < length cmd"
  unfolding peeled_at_def get_from_def is_suffix_def
  by (auto split: if_splits) (metis append_take_drop_id)

lemma strip_exec_suffix: "strip_exec_from cmd i = Peeled inner \<Longrightarrow> 1 \<le> i \<Longrightarrow>
    is_suffix inner cmd \<and> inner \<noteq> [] \<and> length inner < length cmd"
proof (induction cmd i rule: strip_exec_from.induct)
  case (1 cmd i)
  show ?case
    using "1.prems"(1) [unfolded strip_exec_from.simps [of cmd i]] "1.prems"(2) "1.IH"
    by (auto dest: peeled_at_suffix split: option.splits if_splits)
qed

lemma strip_command_suffix: "strip_command_from cmd i = Peeled inner \<Longrightarrow> 1 \<le> i \<Longrightarrow>
    is_suffix inner cmd \<and> inner \<noteq> [] \<and> length inner < length cmd"
proof (induction cmd i rule: strip_command_from.induct)
  case (1 cmd i)
  show ?case
    using "1.prems"(1) [unfolded strip_command_from.simps [of cmd i]] "1.prems"(2) "1.IH"
    by (auto dest: peeled_at_suffix split: option.splits if_splits)
qed

lemma strip_transparent_suffix:
  assumes "strip_transparent_prefix cmd = Peeled inner"
  shows "is_suffix inner cmd" "inner \<noteq> []" "length inner < length cmd"
  using assms strip_exec_suffix [of cmd 1] strip_command_suffix [of cmd 1] peeled_at_suffix [of cmd 1]
  by (auto simp: strip_transparent_prefix_def strip_builtin_prefix_def split: option.splits if_splits)

lemma peel_rounds_suffix: "peel_rounds n words = PeelReady inner \<Longrightarrow> is_suffix inner words"
  by (induction n words rule: peel_rounds.induct)
    (auto dest: strip_transparent_suffix intro: is_suffix_trans split: transparent_strip.splits)

lemma peel_rounds_ready:
  "peel_rounds n words = PeelReady inner \<Longrightarrow> strip_transparent_prefix inner = NotPrefix"
  by (induction n words rule: peel_rounds.induct) (auto split: transparent_strip.splits)

lemma normalize_round_suffix: "is_suffix (np_words (fst (normalize_round p))) (np_words p)"
  unfolding normalize_round_def unwrap_wrappers_checked_def peel_transparent_prefixes_def Let_def
  using unwrap_rounds_suffix [of max_wrapper_depth "\<lparr>wp_words = np_words p, wp_has_chdir = False,
    wp_has_split_string = False, wp_env_options_uncertain = False, wp_exhausted = False\<rparr>"]
  by (auto split: transparent_peel.split dest: peel_rounds_suffix intro: is_suffix_trans)

lemma normalize_rounds_suffix: "is_suffix (np_words (normalize_rounds n p)) (np_words p)"
proof (induction n p rule: normalize_rounds.induct)
  case (2 n p)
  obtain q b where q: "normalize_round p = (q, b)" by fastforce
  with normalize_round_suffix [of p] have "is_suffix (np_words q) (np_words p)" by simp
  with 2 [OF q [symmetric]] q show ?case
    by (cases b) (auto intro: is_suffix_trans)
qed simp

lemma normalize_words_suffix: "is_suffix (np_words (normalize_command_words words)) words"
  using normalize_rounds_suffix [of max_normalize_rounds "\<lparr>np_words = words, np_has_chdir = False,
    np_has_split_string = False, np_env_options_uncertain = False, np_exhausted = False,
    np_ambiguous = False\<rparr>"]
  by (simp add: normalize_command_words_def Let_def)

lemma normalize_clean_not_peelable:
  "np_clean (normalize_command_words words) \<Longrightarrow>
    \<not> still_peelable (np_words (normalize_command_words words))"
  by (auto simp: normalize_command_words_def np_clean_def Let_def split: if_splits)

end
