(* ===== verification/ExecRisk.thy ===== *)
theory ExecRisk imports ShellWords Rust_Path begin

text \<open>
  The execution risk of a command line (\<^verbatim>\<open>permission/exec_risk.rs\<close>): options that make
  \<^verbatim>\<open>sort\<close> or \<^verbatim>\<open>git\<close> run a program, the read-only queries of \<^verbatim>\<open>git\<close>, the
  configuration entries that run one, and the directories whose configuration a chain of commands
  will read. The entries of a repository's configuration come from libgit2: the reader and its
  parser of booleans are arguments.
\<close>

section \<open>Normalisation\<close>

fun exec_risk_rounds :: "nat \<Rightarrow> string list \<Rightarrow> string list option" where
  "exec_risk_rounds 0 words = None"
| "exec_risk_rounds (Suc n) words =
     (let checked = unwrap_wrappers_checked words in
      if wp_exhausted checked \<or> wp_has_split_string checked \<or> wp_has_chdir checked then None
      else case peel_transparent_prefixes (wp_words checked) of
        PeelAmbiguous \<Rightarrow> None
      | PeelReady inner \<Rightarrow>
          if length inner = length words \<or> length inner = length (wp_words checked)
          then Some inner else exec_risk_rounds n inner)"

definition normalize_for_exec_risk :: "string list \<Rightarrow> string list option" where
  "normalize_for_exec_risk words = exec_risk_rounds max_normalize_rounds words"

section \<open>Options\<close>

definition option_char :: "char \<Rightarrow> bool" where
  "option_char b \<longleftrightarrow> ascii_alnum b \<or> b = CHR ''-''"

definition is_accepted_long_option_prefix :: "string \<Rightarrow> string \<Rightarrow> nat \<Rightarrow> bool" where
  "is_accepted_long_option_prefix flag full min_len \<longleftrightarrow>
     starts_with flag ''--'' \<and> min_len \<le> length flag \<and> starts_with full flag \<and>
     list_all option_char flag"

text \<open>The part of a token before its first equals sign.\<close>

definition option_flag :: "string \<Rightarrow> string" where
  "option_flag tok = takeWhile (\<lambda>c. c \<noteq> CHR ''='') tok"

definition normalized_token_basename :: "string \<Rightarrow> string" where
  "normalized_token_basename tok =
     (let name = ascii_lower (last_segment tok) in unwrap_or name (strip_suffix ''.exe'' name))"

definition normalized_program_name :: "string list \<Rightarrow> string option" where
  "normalized_program_name words =
     (case words of
        [] \<Rightarrow> None
      | raw # _ \<Rightarrow> if last_segment raw = [] then None else Some (normalized_token_basename raw))"

definition is_git_program :: "string list \<Rightarrow> bool" where
  "is_git_program words \<longleftrightarrow> normalized_program_name words = Some ''git''"

definition is_sort_program :: "string list \<Rightarrow> bool" where
  "is_sort_program words \<longleftrightarrow> normalized_program_name words = Some ''sort''"

definition compress_program_flag :: "string \<Rightarrow> bool" where
  "compress_program_flag w \<longleftrightarrow>
     w = ''--compress-program'' \<or> starts_with w ''--compress-program='' \<or>
     is_accepted_long_option_prefix (option_flag w) ''--compress-program'' 4"

definition sort_has_compress_program_flag :: "string list \<Rightarrow> bool" where
  "sort_has_compress_program_flag words \<longleftrightarrow>
     list_ex compress_program_flag (takeWhile (\<lambda>w. w \<noteq> ''--'') (drop 1 words))"

definition is_git_config_env_flag :: "string \<Rightarrow> bool" where
  "is_git_config_env_flag tok \<longleftrightarrow>
     tok = ''--config-env'' \<or> starts_with tok ''--config-env='' \<or>
     is_accepted_long_option_prefix (option_flag tok) ''--config-env'' 4"

definition is_git_repo_retarget_flag :: "string \<Rightarrow> bool" where
  "is_git_repo_retarget_flag tok \<longleftrightarrow>
     tok = ''--git-dir'' \<or> starts_with tok ''--git-dir='' \<or>
     tok = ''--work-tree'' \<or> starts_with tok ''--work-tree='' \<or>
     is_accepted_long_option_prefix (option_flag tok) ''--git-dir'' 4 \<or>
     is_accepted_long_option_prefix (option_flag tok) ''--work-tree'' 4"

definition is_attached_git_config_c :: "string \<Rightarrow> bool" where
  "is_attached_git_config_c tok \<longleftrightarrow> starts_with tok ''-c'' \<and> 2 < length tok"

definition attached_git_c_path :: "string \<Rightarrow> string option" where
  "attached_git_c_path tok =
     (case strip_prefix ''-C'' tok of Some rest \<Rightarrow> if rest = [] then None else Some rest | None \<Rightarrow> None)"

definition value_options :: "string list" where
  "value_options =
     [''-C'', ''-c'', ''--git-dir'', ''--work-tree'', ''--namespace'', ''--super-prefix'',
      ''--exec-path'', ''--list-cmds'', ''--attr-source'', ''--config-env'']"

definition value_option_stems :: "(string \<times> nat) list" where
  "value_option_stems =
     [(''--config-env'', 4), (''--git-dir'', 4), (''--work-tree'', 4), (''--namespace'', 7),
      (''--super-prefix'', 8), (''--exec-path'', 7), (''--list-cmds'', 7), (''--attr-source'', 8)]"

definition git_global_option_takes_value :: "string \<Rightarrow> bool" where
  "git_global_option_takes_value tok \<longleftrightarrow>
     List.member value_options tok \<or>
     list_ex (\<lambda>(full, min_len). is_accepted_long_option_prefix tok full min_len) value_option_stems"

text \<open>The number of words that an option of \<^verbatim>\<open>git\<close> before the subcommand takes.\<close>

definition option_width :: "string \<Rightarrow> string list \<Rightarrow> nat" where
  "option_width tok rest =
     (if CHR ''='' \<notin> set tok \<and> git_global_option_takes_value tok \<and>
         (case rest of n # _ \<Rightarrow> \<not> starts_with n ''-'' \<or> n = ''-'' | [] \<Rightarrow> False)
      then 2 else 1)"

definition ends_globals :: "string \<Rightarrow> bool" where
  "ends_globals tok \<longleftrightarrow> tok = ''--'' \<or> \<not> starts_with tok ''-'' \<or> tok = ''-''"

definition is_exec_risk_global :: "string \<Rightarrow> bool" where
  "is_exec_risk_global tok \<longleftrightarrow>
     tok = ''-c'' \<or> is_attached_git_config_c tok \<or> is_git_config_env_flag tok \<or>
     is_git_repo_retarget_flag tok"

text \<open>The scan of the words after \<^verbatim>\<open>git\<close>.\<close>

function scan_globals :: "string list \<Rightarrow> bool" where
  "scan_globals [] \<longleftrightarrow> False"
| "scan_globals (tok # rest) \<longleftrightarrow>
     (if ends_globals tok then False
      else if is_exec_risk_global tok then True
      else if attached_git_c_path tok \<noteq> None then scan_globals rest
      else scan_globals (drop (option_width tok rest - 1) rest))"
  by pat_completeness auto
termination by (relation "measure length") auto

definition git_has_exec_risk_global :: "string list \<Rightarrow> bool" where
  "git_has_exec_risk_global words \<longleftrightarrow> scan_globals (drop 1 words)"

definition segment_has_exec_risk_flag :: "string list \<Rightarrow> bool" where
  "segment_has_exec_risk_flag words \<longleftrightarrow>
     (if is_sort_program words then sort_has_compress_program_flag words
      else if is_git_program words then git_has_exec_risk_global words
      else False)"

record segment_exec_facts =
  exec_risk :: bool
  has_git :: bool

definition segment_exec_facts_of :: "string list \<Rightarrow> segment_exec_facts" where
  "segment_exec_facts_of words =
     (case normalize_for_exec_risk words of
        None \<Rightarrow> \<lparr>exec_risk = True, has_git = False\<rparr>
      | Some inner \<Rightarrow>
          \<lparr>exec_risk = segment_has_exec_risk_flag inner, has_git = is_git_program inner\<rparr>)"

section \<open>Read-only queries\<close>

definition safe_git_subcommands :: "string list" where
  "safe_git_subcommands =
     [''status'', ''branch'', ''log'', ''diff'', ''ls-files'', ''show'', ''rev-parse'', ''blame'',
      ''grep'', ''describe'', ''merge-base'', ''check-ignore'', ''check-attr'', ''cat-file'',
      ''ls-tree'', ''show-ref'', ''for-each-ref'', ''rev-list'', ''name-rev'', ''count-objects'',
      ''shortlog'']"

definition git_query_unsafe_options :: "string list" where
  "git_query_unsafe_options =
     [''--filters'', ''--textconv'', ''--output'', ''--ext-diff'', ''--open-files-in-pager'']"

definition git_query_option_is_unsafe :: "string \<Rightarrow> bool" where
  "git_query_option_is_unsafe w \<longleftrightarrow>
     2 < length (option_flag w) \<and>
     list_ex (\<lambda>full. starts_with full (option_flag w)) git_query_unsafe_options"

function verb_index_from :: "string list \<Rightarrow> nat \<Rightarrow> nat option" where
  "verb_index_from words i =
     (case get_at words i of
        None \<Rightarrow> None
      | Some tok \<Rightarrow>
          if tok = ''-'' \<or> tok = ''--'' then None
          else if \<not> starts_with tok ''-'' then Some i
          else if tok = ''-C'' then verb_index_from words (i + 2)
          else if attached_git_c_path tok \<noteq> None \<or> tok = ''--no-pager'' \<or> tok = ''-P''
          then verb_index_from words (i + 1)
          else None)"
  by pat_completeness auto
termination
  by (relation "measure (\<lambda>(words, i). length words - i)") (auto simp: get_at_Some)

declare verb_index_from.simps [simp del]

definition git_safe_query_verb_index :: "string list \<Rightarrow> nat option" where
  "git_safe_query_verb_index words = verb_index_from words 1"

definition git_words_have_unsafe_query_option :: "string list \<Rightarrow> bool" where
  "git_words_have_unsafe_query_option words \<longleftrightarrow>
     get_at words 0 = Some ''git'' \<and>
     (list_ex git_query_option_is_unsafe (drop 1 words) \<or>
      Option.bind (git_safe_query_verb_index words) (get_at words) = Some ''grep'' \<and>
      list_ex (\<lambda>w. starts_with w ''-O'') (drop 1 words))"

definition git_words_are_read_only_query :: "string list \<Rightarrow> bool" where
  "git_words_are_read_only_query words \<longleftrightarrow>
     get_at words 0 = Some ''git'' \<and> \<not> git_has_exec_risk_global words \<and>
     (case git_safe_query_verb_index words of
        None \<Rightarrow> False
      | Some i \<Rightarrow>
          (case get_at words i of Some w \<Rightarrow> List.member safe_git_subcommands w | None \<Rightarrow> False) \<and>
          \<not> git_words_have_unsafe_query_option words)"

section \<open>Configuration\<close>

text \<open>\<^verbatim>\<open>rsplit_once\<close> at a character.\<close>

definition rsplit_once :: "char \<Rightarrow> string \<Rightarrow> (string \<times> string) option" where
  "rsplit_once c s =
     (if c \<in> set s
      then Some (rev (tl (dropWhile (\<lambda>x. x \<noteq> c) (rev s))), rev (takeWhile (\<lambda>x. x \<noteq> c) (rev s)))
      else None)"

definition filter_command_driver :: "string \<Rightarrow> string option" where
  "filter_command_driver name =
     (case (str_get_to name 7, str_get_from name 7) of
        (Some head, Some rest) \<Rightarrow>
          if \<not> eq_ignore_ascii_case head ''filter.'' then None
          else (case rsplit_once (CHR ''.'') rest of
              None \<Rightarrow> None
            | Some (driver, prop) \<Rightarrow>
                if driver \<noteq> [] \<and> list_ex (eq_ignore_ascii_case prop) [''clean'', ''smudge'', ''process'']
                then Some driver else None)
      | _ \<Rightarrow> None)"

definition is_driver_key :: "string \<Rightarrow> bool" where
  "is_driver_key name \<longleftrightarrow>
     (case strip_prefix ''diff.'' name of
        Some rest \<Rightarrow> list_ex (ends_with rest) [''.command'', ''.textconv'', ''.external'']
      | None \<Rightarrow> False)"

definition is_shadowing_alias :: "string \<Rightarrow> string \<Rightarrow> bool" where
  "is_shadowing_alias name v \<longleftrightarrow>
     (case strip_prefix ''alias.'' name of
        Some alias \<Rightarrow> List.member safe_git_subcommands alias \<and> starts_with v ''!''
      | None \<Rightarrow> False)"

definition local_git_config_entry_is_exec :: "(string \<Rightarrow> bool option) \<Rightarrow> string \<Rightarrow> string \<Rightarrow> bool" where
  "local_git_config_entry_is_exec parse_bool name v \<longleftrightarrow>
     (let name = ascii_lower name; v = trim v in
      if v = [] then False
      else if name = ''core.fsmonitor'' then parse_bool v = None
      else name = ''diff.external'' \<or> is_driver_key name \<or> filter_command_driver name \<noteq> None \<or>
        is_shadowing_alias name v)"

definition local_repo_config_has_exec_risk ::
    "(string \<Rightarrow> bool option) \<Rightarrow> (path \<Rightarrow> (string \<times> string) list option) \<Rightarrow> path \<Rightarrow> bool" where
  "local_repo_config_has_exec_risk parse_bool entries cwd \<longleftrightarrow>
     (case entries cwd of
        None \<Rightarrow> True
      | Some es \<Rightarrow> list_ex (\<lambda>(name, v). local_git_config_entry_is_exec parse_bool name v) es)"

section \<open>The directories of a chain\<close>

definition is_static_path_operand :: "string \<Rightarrow> bool" where
  "is_static_path_operand p \<longleftrightarrow>
     p \<noteq> [] \<and> p \<noteq> ''-'' \<and> \<not> starts_with p ''-'' \<and> CHR ''$'' \<notin> set p \<and> CHR 0x60 \<notin> set p \<and>
     \<not> contains p ''$(''"

definition join_operand :: "path \<Rightarrow> string \<Rightarrow> path" where
  "join_operand base operand = (if is_absolute operand then operand else path_join base operand)"

fun chdir_target :: "string list \<Rightarrow> string option \<Rightarrow> string option" where
  "chdir_target [] target = target"
| "chdir_target (tok # rest) target =
     (if tok = ''--'' then get_at rest 0
      else if starts_with tok ''-'' \<or> target \<noteq> None then None
      else chdir_target rest (Some tok))"

definition apply_literal_chdir :: "path \<Rightarrow> string list \<Rightarrow> path option" where
  "apply_literal_chdir cwd words =
     (case chdir_target (drop 1 words) None of
        None \<Rightarrow> None
      | Some target \<Rightarrow> if is_static_path_operand target then Some (join_operand cwd target) else None)"

function effective_cwd_from :: "string list \<Rightarrow> path \<Rightarrow> path option" where
  "effective_cwd_from [] cwd = Some cwd"
| "effective_cwd_from (tok # rest) cwd =
     (if ends_globals tok then Some cwd
      else if is_git_repo_retarget_flag tok then None
      else if tok = ''-C'' then
        (case rest of
           [] \<Rightarrow> None
         | p # rest' \<Rightarrow>
             if is_static_path_operand p then effective_cwd_from rest' (join_operand cwd p) else None)
      else case attached_git_c_path tok of
        Some p \<Rightarrow>
          if is_static_path_operand p then effective_cwd_from rest (join_operand cwd p) else None
      | None \<Rightarrow> effective_cwd_from (drop (option_width tok rest - 1) rest) cwd)"
  by pat_completeness auto
termination by (relation "measure (length \<circ> fst)") auto

definition git_effective_cwd :: "string list \<Rightarrow> path \<Rightarrow> path option" where
  "git_effective_cwd words start_cwd = effective_cwd_from (drop 1 words) start_cwd"

text \<open>\<open>None\<close> is the plan that fails closed.\<close>

fun scan_segments :: "string list list \<Rightarrow> path \<Rightarrow> path list \<Rightarrow> path list option" where
  "scan_segments [] cwd git_cwds = (if git_cwds = [] then None else Some git_cwds)"
| "scan_segments (raw # segments) cwd git_cwds =
     (case normalize_for_exec_risk raw of
        None \<Rightarrow> None
      | Some words \<Rightarrow>
          (let program = normalized_program_name words in
           if program = Some ''cd'' \<or> program = Some ''pushd'' then
             (case apply_literal_chdir cwd words of
                None \<Rightarrow> None
              | Some next \<Rightarrow> scan_segments segments next git_cwds)
           else if program = Some ''popd'' then None
           else if program = Some ''git'' then
             (case git_effective_cwd words cwd of
                None \<Rightarrow> None
              | Some effective \<Rightarrow> scan_segments segments cwd (git_cwds @ [effective]))
           else scan_segments segments cwd git_cwds))"

definition ambient_scan_plan_from_segments :: "string list list \<Rightarrow> path \<Rightarrow> path list option" where
  "ambient_scan_plan_from_segments segments session_cwd = scan_segments segments session_cwd []"

definition ambient_exec_risk_from_plan ::
    "(string \<Rightarrow> bool option) \<Rightarrow> (path \<Rightarrow> (string \<times> string) list option) \<Rightarrow> path list option \<Rightarrow> bool" where
  "ambient_exec_risk_from_plan parse_bool entries plan \<longleftrightarrow>
     (case plan of
        None \<Rightarrow> True
      | Some dirs \<Rightarrow> list_ex (local_repo_config_has_exec_risk parse_bool entries) dirs)"

section \<open>What a read-only query is\<close>

text \<open>The options that may stand before the subcommand of a query.\<close>

inductive benign_globals :: "string list \<Rightarrow> bool" where
  no_global: "benign_globals []"
| chdir_global: "benign_globals gs \<Longrightarrow> benign_globals (''-C'' # v # gs)"
| attached_global: "attached_git_c_path tok \<noteq> None \<Longrightarrow> benign_globals gs \<Longrightarrow> benign_globals (tok # gs)"
| pager_global: "tok = ''--no-pager'' \<or> tok = ''-P'' \<Longrightarrow> benign_globals gs \<Longrightarrow> benign_globals (tok # gs)"

lemma attached_shape:
  assumes "attached_git_c_path tok \<noteq> None"
  shows "starts_with tok ''-''" "tok \<noteq> ''-''" "tok \<noteq> ''--''" "tok \<noteq> ''-C''"
  using assms
  by (auto simp: attached_git_c_path_def strip_prefix_Some starts_with_def split: option.splits if_splits)

lemma verb_index_shape:
  "verb_index_from words i = Some k \<Longrightarrow>
    i \<le> k \<and> k < length words \<and> \<not> starts_with (words ! k) ''-'' \<and>
    benign_globals (take (k - i) (drop i words))"
proof (induction words i rule: verb_index_from.induct)
  case (1 words i)
  note step = "1.prems" [unfolded verb_index_from.simps [of words i]]
  obtain tok where tok: "get_at words i = Some tok" and i: "i < length words" "words ! i = tok"
    using step by (auto simp: get_at_Some split: option.splits)
  have dash: "tok \<noteq> ''-''" "tok \<noteq> ''--''"
    using step tok by auto
  have split: "take (k - i) (drop i words) = tok # take (k - Suc i) (drop (Suc i) words)" if "i < k"
    using that i by (simp add: Cons_nth_drop_Suc [symmetric] take_Cons' Suc_diff_Suc)
  show ?case
  proof (cases "starts_with tok ''-''")
    case False
    with step tok dash i show ?thesis by (auto intro: no_global)
  next
    case dashed: True
    show ?thesis
    proof (cases "tok = ''-C''")
      case True
      with step tok dashed dash have next_index: "verb_index_from words (i + 2) = Some k" by simp
      from "1.IH"(1) [OF tok _ _ True next_index] dash dashed
      have ih: "i + 2 \<le> k" "k < length words" "\<not> starts_with (words ! k) ''-''"
        "benign_globals (take (k - (i + 2)) (drop (i + 2) words))" by auto
      then have "take (k - Suc i) (drop (Suc i) words) =
          words ! Suc i # take (k - (i + 2)) (drop (i + 2) words)"
        by (simp add: Cons_nth_drop_Suc [symmetric] take_Cons' Suc_diff_Suc numeral_2_eq_2)
      with ih True split show ?thesis by (auto intro: chdir_global)
    next
      case False
      with step tok dashed dash
      have kind: "attached_git_c_path tok \<noteq> None \<or> tok = ''--no-pager'' \<or> tok = ''-P''"
        and next_index: "verb_index_from words (i + 1) = Some k"
        by (auto split: if_splits)
      from "1.IH"(2) [OF tok _ _ False kind next_index] dash dashed
      have ih: "i + 1 \<le> k" "k < length words" "\<not> starts_with (words ! k) ''-''"
        "benign_globals (take (k - (i + 1)) (drop (i + 1) words))" by auto
      with kind split show ?thesis by (auto intro: attached_global pager_global)
    qed
  qed
qed

lemma verb_index_skips:
  assumes "benign_globals gs" and "\<not> starts_with verb ''-''"
  shows "verb_index_from (front @ gs @ verb # args) (length front) = Some (length front + length gs)"
  using assms(1)
proof (induction gs arbitrary: front)
  case no_global
  from assms(2) have "verb \<noteq> ''-''" "verb \<noteq> ''--''" by (auto simp: starts_with_def)
  with assms(2) show ?case
    by (simp add: verb_index_from.simps [of _ "length front"] get_at_def)
next
  case (chdir_global gs v)
  from chdir_global.IH [of "front @ [''-C'', v]"] show ?case
    by (simp add: verb_index_from.simps [of _ "length front"] get_at_def starts_with_def)
next
  case (attached_global tok gs)
  from attached_global.IH [of "front @ [tok]"] attached_shape [OF attached_global.hyps(1)] show ?case
    using attached_global.hyps(1)
    by (simp add: verb_index_from.simps [of _ "length front"] get_at_def)
next
  case (pager_global tok gs)
  from pager_global.hyps(1) have "starts_with tok ''-''" "tok \<noteq> ''-''" "tok \<noteq> ''--''" "tok \<noteq> ''-C''"
    by (auto simp: starts_with_def)
  with pager_global.IH [of "front @ [tok]"] pager_global.hyps(1) show ?case
    by (simp add: verb_index_from.simps [of _ "length front"] get_at_def)
qed

lemma safe_subcommand_plain: "verb \<in> set safe_git_subcommands \<Longrightarrow> \<not> starts_with verb ''-''"
  by (auto simp: safe_git_subcommands_def starts_with_def)

lemma query_parts:
  assumes "benign_globals globals" and "\<not> starts_with verb ''-''"
    and "words = ''git'' # globals @ verb # args"
  shows "git_safe_query_verb_index words = Some (Suc (length globals))"
    "get_at words (Suc (length globals)) = Some verb" "get_at words 0 = Some ''git''"
  using verb_index_skips [OF assms(1,2), of "[''git'']" args] assms(3)
  by (auto simp: git_safe_query_verb_index_def get_at_def nth_append)

lemma query_shape:
  assumes "git_safe_query_verb_index words = Some k" and "get_at words 0 = Some w"
  shows "\<exists>globals args. words = w # globals @ words ! k # args \<and> benign_globals globals \<and>
    \<not> starts_with (words ! k) ''-'' \<and> k = Suc (length globals)"
proof -
  from verb_index_shape [of words 1 k] assms(1)
  have k: "1 \<le> k" "k < length words" "\<not> starts_with (words ! k) ''-''"
    "benign_globals (take (k - 1) (drop 1 words))"
    by (simp_all add: git_safe_query_verb_index_def)
  from assms(2) obtain rest where words: "words = w # rest"
    by (cases words) (auto simp: get_at_def)
  from k words have "rest = take (k - 1) rest @ words ! k # drop k rest"
    using id_take_nth_drop [of "k - 1" rest] by (cases k) auto
  with k words show ?thesis
    by (intro exI [of _ "take (k - 1) rest"] exI [of _ "drop k rest"]) auto
qed

text \<open>
  A command line counts as a read-only query of git exactly when it is a safe subcommand behind
  benign global options (a directory or the pager), no word abbreviates an option that runs a
  driver or writes a file, a grep opens no pager, and no global option of the line changes the
  configuration or the repository.
\<close>
theorem read_only_query_iff:
  "git_words_are_read_only_query words \<longleftrightarrow>
     \<not> git_has_exec_risk_global words \<and>
     (\<exists>globals verb args. words = ''git'' # globals @ verb # args \<and> benign_globals globals \<and>
        verb \<in> set safe_git_subcommands \<and>
        (\<nexists>w. w \<in> set (globals @ verb # args) \<and> git_query_option_is_unsafe w) \<and>
        (verb \<noteq> ''grep'' \<or> (\<nexists>w. w \<in> set (globals @ verb # args) \<and> starts_with w ''-O'')))"
  (is "_ \<longleftrightarrow> \<not> ?risk \<and> (\<exists>globals verb args. ?shape globals verb args)")
proof
  assume query: "git_words_are_read_only_query words"
  then obtain k where k: "git_safe_query_verb_index words = Some k" and g: "get_at words 0 = Some ''git''"
    and "\<not> ?risk"
    by (auto simp: git_words_are_read_only_query_def split: option.splits)
  obtain globals args where words: "words = ''git'' # globals @ words ! k # args"
    "benign_globals globals" "\<not> starts_with (words ! k) ''-''" "k = Suc (length globals)"
    using query_shape [OF k g] by blast
  note parts = query_parts [OF words(2,3,1)]
  have "drop 1 words = globals @ words ! k # args" by (subst words(1)) simp
  moreover from query k parts(1,2) words(4)
  have safe: "words ! k \<in> set safe_git_subcommands"
    and "\<not> git_words_have_unsafe_query_option words"
    by (simp_all add: git_words_are_read_only_query_def)
  ultimately have "(\<nexists>w. w \<in> set (globals @ words ! k # args) \<and> git_query_option_is_unsafe w) \<and>
      (words ! k \<noteq> ''grep'' \<or> (\<nexists>w. w \<in> set (globals @ words ! k # args) \<and> starts_with w ''-O''))"
    unfolding git_words_have_unsafe_query_option_def parts list_ex_iff bind.bind_lunit option.inject
    by metis
  with words(1,2) safe have "?shape globals (words ! k) args" by blast
  with \<open>\<not> ?risk\<close> show "\<not> ?risk \<and> (\<exists>globals verb args. ?shape globals verb args)" by blast
next
  assume "\<not> ?risk \<and> (\<exists>globals verb args. ?shape globals verb args)"
  then obtain globals verb args where "\<not> ?risk" and shape: "?shape globals verb args" by blast
  then have words: "words = ''git'' # globals @ verb # args" and globals: "benign_globals globals"
    and safe: "verb \<in> set safe_git_subcommands" by blast+
  note parts = query_parts [OF globals safe_subcommand_plain [OF safe] words]
  have "drop 1 words = globals @ verb # args" by (simp add: words)
  with shape have "\<not> git_words_have_unsafe_query_option words"
    unfolding git_words_have_unsafe_query_option_def parts list_ex_iff bind.bind_lunit option.inject
    by metis
  with parts safe \<open>\<not> ?risk\<close> show "git_words_are_read_only_query words"
    by (simp add: git_words_are_read_only_query_def)
qed

section \<open>What the facts of a segment miss\<close>

theorem read_only_query_iff_witness:
  "git_words_are_read_only_query [''git'', ''-C'', ''src'', ''log'', ''-p''] \<and>
   \<not> (\<nexists>globals verb args. [''git'', ''-C'', ''src'', ''log'', ''-p''] = ''git'' # globals @ verb # args \<and>
        verb \<in> set safe_git_subcommands \<and> (verb \<noteq> ''grep'' \<or> (\<nexists>w. w \<in> set args \<and> starts_with w ''-O'')))"
proof -
  have query: "git_words_are_read_only_query [''git'', ''-C'', ''src'', ''log'', ''-p'']" by code_simp
  with read_only_query_iff [of "[''git'', ''-C'', ''src'', ''log'', ''-p'']"] show ?thesis
    by (metis Un_iff list.set_intros(2) set_append)
qed

text \<open>
  The normalisation behind the execution facts does not fail closed on every wrapper it cannot
  peel: a git command with a configuration override is a risk, also behind
  \<^verbatim>\<open>env A=1\<close> and behind a split string, but behind an \<^verbatim>\<open>env\<close> option that the scan does
  not know it is neither a risk nor a git command; and replacing the directory of git's own
  programs is no risk at all.
\<close>
theorem exec_facts_gaps:
  "segment_exec_facts_of [''git'', ''-c'', ''core.fsmonitor=x'', ''status''] = \<lparr>exec_risk = True, has_git = True\<rparr> \<and>
   segment_exec_facts_of [''env'', ''A=1'', ''git'', ''-c'', ''core.fsmonitor=x'', ''status''] =
     \<lparr>exec_risk = True, has_git = True\<rparr> \<and>
   exec_risk (segment_exec_facts_of [''env'', ''-S'', ''git -c core.fsmonitor=x status'']) \<and>
   segment_exec_facts_of [''env'', ''--default-signal'', ''git'', ''-c'', ''core.fsmonitor=x'', ''status''] =
     \<lparr>exec_risk = False, has_git = False\<rparr> \<and>
   segment_exec_facts_of [''git'', ''--exec-path=/tmp/x'', ''status''] = \<lparr>exec_risk = False, has_git = True\<rparr>"
  by (intro conjI; code_simp)

end
