(* ===== verification/ShellParse.thy ===== *)
theory ShellParse imports ShellWords begin

text \<open>
  Plain commands of a script and the display breaks
  (\<^verbatim>\<open>permission/bash_command_splitting.rs\<close>) over the syntax tree of the bash
  grammar. The grammar is third-party code: a tree is a value of \<open>ts_node\<close>, with what the code
  reads of a node (its kind, whether it is named, its byte range, its field in the parent, whether
  it contains a syntax error, its children), and the parser is the parameter
  \<open>parse :: string \<Rightarrow> ts_node option\<close> of every definition that parses. \<^verbatim>\<open>utf8_text\<close> of a
  node is the slice of its byte range; on the sources of the program, which are valid UTF-8, it
  does not fail.
\<close>

section \<open>Syntax trees\<close>

datatype ts_node = TS
  (ts_kind: string)
  (ts_named: bool)
  (ts_start: nat)
  (ts_end: nat)
  (ts_field: "string option")
  (ts_has_error: bool)
  (ts_children: "ts_node list")

type_synonym ts_parser = "string \<Rightarrow> ts_node option"

fun ts_nodes :: "ts_node \<Rightarrow> ts_node list" where
  "ts_nodes (TS k n s e f err cs) = TS k n s e f err cs # concat (map ts_nodes cs)"

definition named_children :: "ts_node \<Rightarrow> ts_node list" where
  "named_children n = filter ts_named (ts_children n)"

definition utf8_text :: "string \<Rightarrow> ts_node \<Rightarrow> string" where
  "utf8_text src n = take (ts_end n - ts_start n) (drop (ts_start n) src)"

lemma ts_nodes_children: "ts_nodes n = n # concat (map ts_nodes (ts_children n))"
  by (cases n) simp

lemma ts_size_child: "c \<in> set (ts_children n) \<Longrightarrow> size c < size n"
  by (cases n) (auto dest: size_list_estimation [where f = size] intro: le_imp_less_Suc
      simp: size_list_estimation')

lemma ts_size_children: "size_list size (ts_children n) < size n"
  by (cases n) simp

text \<open>
  The loops that walk the whole tree pop a node from a stack and push its children, so the last
  child is visited first (\<open>ts_walk\<close>), or push them in reverse, which visits the first child first.
\<close>

function ts_walk :: "ts_node list \<Rightarrow> ts_node list" where
  "ts_walk [] = []"
| "ts_walk (n # stack) = n # ts_walk (rev (ts_children n) @ stack)"
  by pat_completeness auto
termination
proof (relation "measure (size_list size)", goal_cases)
  case (2 n stack)
  have "size_list size (rev (ts_children n)) = size_list size (ts_children n)"
    by (simp add: size_list_conv_sum_list rev_map [symmetric] sum_list_rev)
  then show ?case using ts_size_children [of n] by (simp add: size_list_conv_sum_list)
qed simp

section \<open>Plain commands\<close>

record plain_command =
  pl_words :: "string list"
  pl_start :: nat
  pl_end :: nat

definition spans_whole_script :: "plain_command \<Rightarrow> string \<Rightarrow> bool" where
  "spans_whole_script c script \<longleftrightarrow>
     (case (str_get_to script (pl_start c), str_get_from script (pl_end c)) of
        (Some before, Some after) \<Rightarrow> trim before = [] \<and> trim after = []
      | _ \<Rightarrow> False)"

definition allowed_kinds :: "string list" where
  "allowed_kinds =
     [''program'', ''list'', ''pipeline'', ''command'', ''command_name'', ''word'', ''string'',
      ''string_content'', ''raw_string'', ''number'', ''concatenation'', ''variable_assignment'',
      ''variable_name'', ''redirected_statement'', ''file_redirect'', ''file_descriptor'',
      ''comment'', ''heredoc_redirect'', ''heredoc_start'', ''heredoc_body'', ''heredoc_content'',
      ''heredoc_end'']"

definition allowed_punct_tokens :: "string list" where
  "allowed_punct_tokens =
     [''&&'', ''||'', '';'', ''|'', [dquote_char], [quote_char], ''='', ''>'', ''>>'', ''<'', ''<<'',
      ''>&'', ''&>'', ''&>>'']"

text \<open>The check of one node of the walk.\<close>

definition node_allowed :: "ts_node \<Rightarrow> bool" where
  "node_allowed n \<longleftrightarrow>
     (let kind = ts_kind n in
      if ts_named n then List.member allowed_kinds kind
      else
        \<not> (list_ex (\<lambda>c. c \<in> set ''&;|'') kind \<and> \<not> List.member allowed_punct_tokens kind) \<and>
        (List.member allowed_punct_tokens kind \<or> trim kind = []))"

definition is_command_node :: "ts_node \<Rightarrow> bool" where
  "is_command_node n \<longleftrightarrow> ts_named n \<and> ts_kind n = ''command''"

text \<open>The words of a command with the range they span so far.\<close>

record word_acc =
  wa_words :: "string list"
  wa_start :: "nat option"
  wa_end :: "nat option"

definition add_word :: "word_acc \<Rightarrow> string \<Rightarrow> ts_node \<Rightarrow> word_acc" where
  "add_word a text n = a\<lparr>wa_words := wa_words a @ [text],
     wa_start := (if wa_start a = None then Some (ts_start n) else wa_start a),
     wa_end := Some (ts_end n)\<rparr>"

definition is_plain_string :: "ts_node \<Rightarrow> bool" where
  "is_plain_string n \<longleftrightarrow> map ts_kind (ts_children n) = [[dquote_char], ''string_content'', [dquote_char]]"

definition parse_child :: "string \<Rightarrow> ts_node \<Rightarrow> word_acc \<Rightarrow> word_acc option" where
  "parse_child src child a =
     (let kind = ts_kind child in
      if kind = ''variable_assignment'' then Some a
      else if kind = ''command_name'' then
        (case named_children child of
           [] \<Rightarrow> None
         | w # _ \<Rightarrow> if ts_kind w \<noteq> ''word'' then None else Some (add_word a (utf8_text src w) w))
      else if kind = ''word'' \<or> kind = ''number'' then Some (add_word a (utf8_text src child) child)
      else if kind = ''string'' \<and> is_plain_string child then
        Some (add_word a (utf8_text src (ts_children child ! 1)) child)
      else if kind = ''raw_string'' then
        map_option (\<lambda>s. add_word a s child)
          (Option.bind (strip_prefix [quote_char] (utf8_text src child)) (strip_suffix [quote_char]))
      else if kind = ''concatenation'' then Some (add_word a (utf8_text src child) child)
      else None)"

fun parse_children :: "string \<Rightarrow> ts_node list \<Rightarrow> word_acc \<Rightarrow> word_acc option" where
  "parse_children src [] a = Some a"
| "parse_children src (c # cs) a = Option.bind (parse_child src c a) (parse_children src cs)"

definition parse_plain_command_from_node :: "ts_node \<Rightarrow> string \<Rightarrow> plain_command option" where
  "parse_plain_command_from_node cmd src =
     (if ts_kind cmd \<noteq> ''command'' then None
      else map_option
        (\<lambda>a. \<lparr>pl_words = wa_words a, pl_start = unwrap_or (ts_start cmd) (wa_start a),
              pl_end = unwrap_or (ts_end cmd) (wa_end a)\<rparr>)
        (parse_children src (named_children cmd) \<lparr>wa_words = [], wa_start = None, wa_end = None\<rparr>))"

text \<open>All commands, or none when one of them fails.\<close>

fun parse_commands :: "ts_node list \<Rightarrow> string \<Rightarrow> plain_command list option" where
  "parse_commands [] src = Some []"
| "parse_commands (n # ns) src =
     (case parse_plain_command_from_node n src of
        None \<Rightarrow> None
      | Some c \<Rightarrow> map_option ((#) c) (parse_commands ns src))"

definition try_parse_word_only_commands_sequence ::
    "ts_node \<Rightarrow> string \<Rightarrow> plain_command list option" where
  "try_parse_word_only_commands_sequence root src =
     (if ts_has_error root then None
      else let visited = ts_walk [root]
        in if list_all node_allowed visited
           then parse_commands (sort_key ts_start (filter is_command_node visited)) src
           else None)"

definition all_commands_from_script :: "ts_parser \<Rightarrow> string \<Rightarrow> plain_command list option" where
  "all_commands_from_script parse script =
     Option.bind (parse script) (\<lambda>tree. try_parse_word_only_commands_sequence tree script)"

definition is_setup_command :: "string list \<Rightarrow> bool" where
  "is_setup_command cmd \<longleftrightarrow>
     cmd = [] \<or>
     hd cmd \<in> {''cd'', ''pushd'', ''popd'', ''export'', ''unset'', ''set'', ''sleep'', ''timeout''}"

lemma ts_walk_set: "set (ts_walk stack) = (\<Union>n \<in> set stack. set (ts_nodes n))"
proof (induction stack rule: ts_walk.induct)
  case (2 n stack)
  have "set (ts_nodes n) = insert n (\<Union>c \<in> set (ts_children n). set (ts_nodes c))"
    by (subst ts_nodes_children) simp
  with 2 show ?case by auto
qed simp

lemma ts_walk_root: "set (ts_walk [root]) = set (ts_nodes root)"
  by (simp add: ts_walk_set del: ts_walk.simps)

text \<open>
  The decomposition succeeds exactly when no node of the tree is outside the allowlist and every
  command is made of literal words.
\<close>

lemma word_only_sequence_Some:
  "try_parse_word_only_commands_sequence root src = Some cs \<longleftrightarrow>
     \<not> ts_has_error root \<and> (\<forall>n \<in> set (ts_nodes root). node_allowed n) \<and>
     parse_commands (sort_key ts_start (filter is_command_node (ts_walk [root]))) src = Some cs"
  by (auto simp: try_parse_word_only_commands_sequence_def list_all_iff ts_walk_root Let_def
      simp del: ts_walk.simps ts_nodes.simps split: if_splits)

lemma parse_commands_map:
  "parse_commands ns src = Some cs \<Longrightarrow>
    list_all2 (\<lambda>n c. parse_plain_command_from_node n src = Some c) ns cs"
  by (induction ns arbitrary: cs) (auto split: option.splits)

section \<open>Splitting off the first important command\<close>

text \<open>Splitting on unquoted white space, byte by byte as for \<open>decode_spelling\<close>.\<close>

fun sh_split_from :: "string \<Rightarrow> bool \<Rightarrow> bool \<Rightarrow> string \<Rightarrow> string list" where
  "sh_split_from current in_single in_double [] = (if current = [] then [] else [current])"
| "sh_split_from current in_single in_double (c # cs) =
     (if c = quote_char \<and> \<not> in_double then sh_split_from current (\<not> in_single) in_double cs
      else if c = dquote_char \<and> \<not> in_single then sh_split_from current in_single (\<not> in_double) cs
      else if c = CHR 0x5C then
        (case cs of
           [] \<Rightarrow> sh_split_from current in_single in_double []
         | n # cs' \<Rightarrow> sh_split_from (current @ [n]) in_single in_double cs')
      else case find (starts_with (c # cs)) white_space of
        Some w \<Rightarrow>
          if \<not> in_single \<and> \<not> in_double then
            (let rest = sh_split_from [] in_single in_double (drop (length w - 1) cs)
             in if current = [] then rest else current # rest)
          else sh_split_from (current @ [c]) in_single in_double cs
      | None \<Rightarrow> sh_split_from (current @ [c]) in_single in_double cs)"

definition sh_split_simple :: "string \<Rightarrow> string list" where
  "sh_split_simple s = sh_split_from [] False False s"

record bash_command_highlights =
  hl_prefix :: "string list"
  hl_highlighted_words :: "string list"
  hl_suffix :: "string list"

definition primary_command_from_script :: "ts_parser \<Rightarrow> string \<Rightarrow> bash_command_highlights option" where
  "primary_command_from_script parse script =
     (case all_commands_from_script parse script of
        None \<Rightarrow> None
      | Some commands \<Rightarrow>
          (case find (\<lambda>c. let peeled = unwrap_wrappers (pl_words c)
                          in peeled \<noteq> [] \<and> \<not> is_setup_command peeled) commands of
             None \<Rightarrow> None
           | Some c \<Rightarrow>
               (let peeled = unwrap_wrappers (pl_words c);
                    peeled_off = length (pl_words c) - length peeled
                in case (str_get_to script (pl_start c), str_get_from script (pl_end c)) of
                  (Some prefix, Some suffix) \<Rightarrow>
                    Some \<lparr>hl_prefix = sh_split_simple prefix @ take peeled_off (pl_words c),
                      hl_highlighted_words = drop peeled_off (pl_words c),
                      hl_suffix = sh_split_simple suffix\<rparr>
                | _ \<Rightarrow> None)))"

text \<open>The peeled words and the words shown as prefix are the words of the command.\<close>

lemma unwrap_wrappers_drop:
  "drop (length words - length (unwrap_wrappers words)) words = unwrap_wrappers words"
proof -
  have "is_suffix (unwrap_wrappers words) words"
    using unwrap_rounds_suffix [of max_wrapper_depth "\<lparr>wp_words = words, wp_has_chdir = False,
      wp_has_split_string = False, wp_env_options_uncertain = False, wp_exhausted = False\<rparr>"]
    by (simp add: unwrap_wrappers_def unwrap_wrappers_checked_def)
  then show ?thesis by (rule is_suffix_drop)
qed

section \<open>Soft breaks for the display\<close>

definition payload_node_kinds :: "string list" where
  "payload_node_kinds =
     [''heredoc_body'', ''simple_heredoc_body'', ''heredoc_content'', ''heredoc_end'', ''string'',
      ''raw_string'', ''string_content'', ''ansi_c_string'', ''translated_string'', ''comment'']"

definition is_soft_break_operator_kind :: "string \<Rightarrow> bool" where
  "is_soft_break_operator_kind kind \<longleftrightarrow> kind \<in> {''&&'', ''||'', ''|'', '';''}"

definition is_payload_node_kind :: "string \<Rightarrow> bool" where
  "is_payload_node_kind kind \<longleftrightarrow> List.member payload_node_kinds kind"

text \<open>A walk that does not descend below the nodes of a predicate; the first child comes first.\<close>

function ts_prune :: "(ts_node \<Rightarrow> bool) \<Rightarrow> ts_node list \<Rightarrow> ts_node list" where
  "ts_prune stop [] = []"
| "ts_prune stop (n # stack) =
     n # (if stop n then ts_prune stop stack else ts_prune stop (ts_children n @ stack))"
  by pat_completeness auto
termination
proof (relation "measure (\<lambda>(s, ns). size_list size ns)", goal_cases)
  case (3 stop n stack)
  then show ?case using ts_size_children [of n] by (simp add: size_list_conv_sum_list)
qed (simp_all add: size_list_conv_sum_list)

definition soft_break_offsets_after_operators :: "ts_parser \<Rightarrow> string \<Rightarrow> nat list" where
  "soft_break_offsets_after_operators parse script =
     (case parse script of
        None \<Rightarrow> []
      | Some root \<Rightarrow>
          if ts_has_error root then []
          else
            (let nodes = filter (\<lambda>n. \<not> is_payload_node_kind (ts_kind n) \<and>
                   is_soft_break_operator_kind (ts_kind n))
                   (ts_prune (\<lambda>n. is_payload_node_kind (ts_kind n)) [root]);
                 ends = filter (\<lambda>e. 0 < e \<and> e \<le> length script \<and> is_char_boundary script e)
                   (map ts_end nodes)
             in remdups_adj (sort ends)))"

definition heredoc_payload_kinds :: "string list" where
  "heredoc_payload_kinds = [''heredoc_body'', ''simple_heredoc_body'', ''heredoc_content'']"

text \<open>The ranges are sorted by their start, then by their end.\<close>

definition heredoc_payload_byte_ranges :: "ts_parser \<Rightarrow> string \<Rightarrow> (nat \<times> nat) list" where
  "heredoc_payload_byte_ranges parse script =
     (case parse script of
        None \<Rightarrow> []
      | Some root \<Rightarrow>
          if ts_has_error root then []
          else
            (let payload = (\<lambda>n. List.member heredoc_payload_kinds (ts_kind n));
                 ranges = filter (\<lambda>(s, e). s < e \<and> e \<le> length script)
                   (map (\<lambda>n. (ts_start n, ts_end n)) (filter payload (ts_prune payload [root])))
             in remdups_adj (sort_key fst (sort_key snd ranges))))"

definition range_fully_inside :: "nat \<Rightarrow> nat \<Rightarrow> (nat \<times> nat) list \<Rightarrow> bool" where
  "range_fully_inside s e ranges \<longleftrightarrow> s \<le> e \<and> list_ex (\<lambda>(rs, re). rs \<le> s \<and> e \<le> re) ranges"

text \<open>
  Cutting a text at offsets: an offset at or before the last cut is skipped, and so is one that
  \<^verbatim>\<open>str::get\<close> refuses.
\<close>

fun cut_at :: "string \<Rightarrow> nat \<Rightarrow> nat list \<Rightarrow> string list" where
  "cut_at line s [] = (if s < length line then [drop s line] else [])"
| "cut_at line s (b # bs) =
     (if s < b \<and> b \<le> length line \<and> is_char_boundary line s \<and> is_char_boundary line b
      then take (b - s) (drop s line) # cut_at line b bs
      else cut_at line s bs)"

definition split_physical_line_at_soft_breaks :: "string \<Rightarrow> nat \<Rightarrow> nat list \<Rightarrow> string list" where
  "split_physical_line_at_soft_breaks line line_start breaks =
     (let rel = remdups_adj (filter (is_char_boundary line) (map (\<lambda>b. b - line_start)
            (filter (\<lambda>b. line_start < b \<and> b < line_start + length line) breaks)));
          chunks = cut_at line 0 rel
      in if rel = [] then [line] else if chunks = [] then [line] else chunks)"

definition soft_break_chunks :: "ts_parser \<Rightarrow> string \<Rightarrow> string list" where
  "soft_break_chunks parse script =
     (let breaks = soft_break_offsets_after_operators parse script
      in if breaks = [] then [script] else cut_at script 0 breaks)"

lemma concat_cut_at: "s \<le> length line \<Longrightarrow> concat (cut_at line s bs) = drop s line"
proof (induction line s bs rule: cut_at.induct)
  case (2 line s b bs)
  show ?case
  proof (cases "s < b \<and> b \<le> length line \<and> is_char_boundary line s \<and> is_char_boundary line b")
    case True
    then have "drop s line = take (b - s) (drop s line) @ drop b line"
      by (metis append_take_drop_id drop_drop le_add_diff_inverse2 less_imp_le)
    with True 2 show ?thesis by simp
  qed (use 2 in auto)
qed simp

lemma split_physical_line_concat:
  "concat (split_physical_line_at_soft_breaks line line_start breaks) = line"
  by (simp add: split_physical_line_at_soft_breaks_def Let_def concat_cut_at)

lemma soft_break_chunks_concat: "concat (soft_break_chunks parse script) = script"
  by (simp add: soft_break_chunks_def Let_def concat_cut_at)

end
