(* ===== verification/PermScript.thy ===== *)
theory PermScript imports ShellParse begin

text \<open>
  Recovery of scripts that do not decompose into plain words
  (\<^verbatim>\<open>permission/bash_permission_script.rs\<close>), with what it uses of
  \<^verbatim>\<open>permission/shell_access.rs\<close> (the value of an argument node) and of
  \<^verbatim>\<open>permission/auto_mode/mod.rs\<close> (the risk of an environment variable). A recovered
  script keeps the position of every argument it cannot resolve; it is eligible for an allow rule
  only when every command is one of a few readers and every unresolved argument is a file name.
\<close>

section \<open>Trees with their ancestors\<close>

text \<open>
  Where the code asks a node for its parent or its next sibling, the model carries the chain of
  ancestors, innermost first, each with the index of the child the chain goes through.
\<close>

type_synonym ts_ctx = "(ts_node \<times> nat) list"

definition children_in :: "ts_node \<Rightarrow> ts_ctx \<Rightarrow> (ts_node \<times> ts_ctx) list" where
  "children_in n ctx = map (\<lambda>i. (ts_children n ! i, (n, i) # ctx)) [0..<length (ts_children n)]"

lemma map_fst_children_in [simp]: "map fst (children_in n ctx) = ts_children n"
  by (simp add: children_in_def comp_def map_nth)

function ts_walk_in :: "(ts_node \<times> ts_ctx) list \<Rightarrow> (ts_node \<times> ts_ctx) list" where
  "ts_walk_in [] = []"
| "ts_walk_in ((n, ctx) # stack) = (n, ctx) # ts_walk_in (rev (children_in n ctx) @ stack)"
  by pat_completeness auto
termination
proof (relation "measure (\<lambda>stack. size_list size (map fst stack))", goal_cases)
  case (2 n ctx stack)
  have "size_list size (map fst (rev (children_in n ctx))) = size_list size (ts_children n)"
    by (simp add: rev_map [symmetric] size_list_conv_sum_list sum_list_rev)
  then show ?case using ts_size_children [of n] by (simp add: size_list_conv_sum_list)
qed simp

lemma map_fst_ts_walk_in: "map fst (ts_walk_in stack) = ts_walk (map fst stack)"
  by (induction stack rule: ts_walk_in.induct) (simp_all add: rev_map [symmetric])

section \<open>Slices of the source\<close>

text \<open>\<^verbatim>\<open>source.get(node.byte_range())\<close>\<close>

definition node_spelling :: "string \<Rightarrow> ts_node \<Rightarrow> string option" where
  "node_spelling src n =
     (if ts_start n \<le> ts_end n \<and> is_char_boundary src (ts_start n) \<and> is_char_boundary src (ts_end n)
      then Some (utf8_text src n) else None)"

definition child_by_field :: "string \<Rightarrow> ts_node \<Rightarrow> ts_node option" where
  "child_by_field f n = find (\<lambda>c. ts_field c = Some f) (ts_children n)"

section \<open>The value of an argument\<close>

datatype arg_text = ArgLiteral string | ArgAmbiguous

definition expansion_kinds :: "string list" where
  "expansion_kinds =
     [''expansion'', ''simple_expansion'', ''command_substitution'', ''arithmetic_expansion'',
      ''process_substitution'']"

definition node_has_expansion :: "ts_node \<Rightarrow> bool" where
  "node_has_expansion n \<longleftrightarrow>
     list_ex (\<lambda>d. List.member expansion_kinds (ts_kind d)) (concat (map ts_nodes (ts_children n)))"

definition is_windows_path_like :: "string \<Rightarrow> bool" where
  "is_windows_path_like raw \<longleftrightarrow>
     starts_with raw [CHR 0x5C, CHR 0x5C] \<or>
     (raw \<noteq> [] \<and> ascii_alpha (hd raw) \<and> get_at raw 1 = Some (CHR '':''))"

fun fold_backslashes :: "string \<Rightarrow> string option" where
  "fold_backslashes [] = Some []"
| "fold_backslashes (ch # cs) =
     (if ch = CHR 0x5C then
        (case cs of [] \<Rightarrow> None | n # cs' \<Rightarrow> map_option ((#) n) (fold_backslashes cs'))
      else map_option ((#) ch) (fold_backslashes cs))"

definition decode_unquoted_word :: "string \<Rightarrow> string option" where
  "decode_unquoted_word raw =
     (if CHR 0x5C \<notin> set raw \<or> is_windows_path_like raw then Some raw else fold_backslashes raw)"

fun fold_double_quoted :: "string \<Rightarrow> string option" where
  "fold_double_quoted [] = Some []"
| "fold_double_quoted (ch # cs) =
     (if ch \<noteq> CHR 0x5C then map_option ((#) ch) (fold_double_quoted cs)
      else case cs of
        [] \<Rightarrow> None
      | n # cs' \<Rightarrow>
          if n \<in> set [CHR ''$'', CHR 0x60, dquote_char, CHR 0x5C, newline]
          then map_option ((#) n) (fold_double_quoted cs')
          else map_option (\<lambda>out. CHR 0x5C # n # out) (fold_double_quoted cs'))"

definition decode_double_quoted_content :: "string \<Rightarrow> string option" where
  "decode_double_quoted_content content =
     (if CHR 0x5C \<notin> set content then Some content else fold_double_quoted content)"

definition literal_or_ambiguous :: "string option \<Rightarrow> arg_text option" where
  "literal_or_ambiguous v =
     Some (case v of Some literal \<Rightarrow> ArgLiteral literal | None \<Rightarrow> ArgAmbiguous)"

text \<open>Strip a delimiter on both sides, or keep the text.\<close>

definition strip_both :: "char \<Rightarrow> string \<Rightarrow> string" where
  "strip_both d raw = unwrap_or raw (Option.bind (strip_prefix [d] raw) (strip_suffix [d]))"

definition shell_node_arg :: "ts_node \<Rightarrow> string \<Rightarrow> arg_text option" where
  "shell_node_arg n src =
     (let kind = ts_kind n; text = utf8_text src n in
      if kind = ''variable_assignment'' then None
      else if kind = ''word'' \<or> kind = ''number'' then literal_or_ambiguous (decode_unquoted_word text)
      else if kind = ''raw_string'' then Some (ArgLiteral (strip_both quote_char text))
      else if kind = ''string'' then
        (if node_has_expansion n then Some ArgAmbiguous
         else literal_or_ambiguous (decode_double_quoted_content (strip_both dquote_char text)))
      else if kind = ''concatenation'' then
        (if node_has_expansion n then Some ArgAmbiguous
         else literal_or_ambiguous (decode_shell_literal_spelling text))
      else Some ArgAmbiguous)"

section \<open>Environment variables\<close>

datatype env_risk = EnvSafe | EnvUnvetted | EnvInjection

definition safe_env_keys :: "string list" where
  "safe_env_keys =
     [''CARGO_TERM_COLOR'', ''CARGO_TERM_PROGRESS_WHEN'', ''RUST_LOG'', ''RUST_LOG_STYLE'',
      ''RUST_BACKTRACE'', ''RUST_TEST_THREADS'', ''RUST_MIN_STACK'', ''NO_COLOR'', ''CLICOLOR'',
      ''CLICOLOR_FORCE'', ''FORCE_COLOR'', ''COLORTERM'']"

definition injection_env_keys :: "string list" where
  "injection_env_keys =
     [''LD_PRELOAD'', ''LD_AUDIT'', ''BASH_ENV'', ''ENV'', ''IFS'', ''PATH'', ''GIT_EXTERNAL_DIFF'',
      ''GIT_PROXY_COMMAND'', ''PROMPT_COMMAND'']"

definition injection_env_key_prefixes :: "string list" where
  "injection_env_key_prefixes = [''DYLD_'', ''GIT_CONFIG'']"

definition env_key_risk :: "string \<Rightarrow> env_risk" where
  "env_key_risk key =
     (if List.member safe_env_keys key then EnvSafe
      else if List.member injection_env_keys key \<or>
        list_ex (starts_with key) injection_env_key_prefixes then EnvInjection
      else EnvUnvetted)"

definition witness_denied_keys :: "string list" where
  "witness_denied_keys =
     [''RIPGREP_CONFIG_PATH'', ''GCONV_PATH'', ''GETCONF_DIR'', ''GLIBC_TUNABLES'', ''HOSTALIASES'',
      ''LOCALDOMAIN'', ''LOCPATH'', ''MALLOC_TRACE'', ''NIS_PATH'', ''NLSPATH'', ''RESOLV_HOST_CONF'',
      ''RES_OPTIONS'', ''TZDIR'']"

definition witness_denied_key_prefixes :: "string list" where
  "witness_denied_key_prefixes = [''LD_'']"

section \<open>Recovered commands\<close>

datatype permission_word = WLiteral string | WUnresolved string

record permission_script =
  ps_commands :: "permission_word list list"
  ps_complete :: bool
  ps_eligible :: bool
  ps_unresolved :: bool

record script_state = permission_script +
  ss_assigned :: "string list"
  ss_used :: "string list"

definition is_path_prefix :: "string \<Rightarrow> bool" where
  "is_path_prefix v \<longleftrightarrow> starts_with v ''/'' \<or> starts_with v ''./''"

definition is_literal_word :: "permission_word \<Rightarrow> bool" where
  "is_literal_word w \<longleftrightarrow> (case w of WLiteral _ \<Rightarrow> True | WUnresolved _ \<Rightarrow> False)"

definition is_variable_name :: "string \<Rightarrow> bool" where
  "is_variable_name v \<longleftrightarrow>
     v \<noteq> [] \<and> (hd v = CHR ''_'' \<or> ascii_alpha (hd v)) \<and>
     list_all (\<lambda>b. b = CHR ''_'' \<or> ascii_alnum b) (tl v)"

text \<open>The children of a double-quoted string: text and at most one plain variable.\<close>

fun quoted_name :: "string \<Rightarrow> ts_node list \<Rightarrow> string option \<Rightarrow> string option" where
  "quoted_name src [] name = name"
| "quoted_name src (c # cs) name =
     (if ts_kind c = ''string_content'' then quoted_name src cs name
      else if ts_kind c \<notin> {''simple_expansion'', ''expansion''} \<or> name \<noteq> None then None
      else case node_spelling src c of
        None \<Rightarrow> None
      | Some text \<Rightarrow>
          (case or_else (Option.bind (strip_prefix ''${'' text) (strip_suffix ''}''))
                   (strip_prefix ''$'' text) of
             None \<Rightarrow> None
           | Some variable \<Rightarrow>
               if is_variable_name variable then quoted_name src cs (Some variable) else None))"

definition quoted_filename :: "ts_node \<Rightarrow> string \<Rightarrow> string list \<Rightarrow> (string \<times> bool) option" where
  "quoted_filename n src assigned =
     (if ts_kind n \<noteq> ''string'' then None
      else Option.bind (quoted_name src (named_children n) None) (\<lambda>name.
        Option.bind (Option.bind (node_spelling src n) (strip_prefix [dquote_char])) (\<lambda>content.
          Some (name, is_path_prefix content \<or>
            (starts_with content ''$'' \<and> List.member assigned name)))))"

section \<open>Readers\<close>

definition reader_option_allowed :: "string \<Rightarrow> string \<Rightarrow> bool" where
  "reader_option_allowed head arg \<longleftrightarrow>
     (let letters = (case arg of [] \<Rightarrow> [] | _ # cs \<Rightarrow> cs) in
      if head = ''ls'' then letters \<noteq> [] \<and> list_all (\<lambda>c. c \<in> set ''alhdFRtSr1'') letters
      else if head = ''rg'' then arg \<in> {''-n'', ''-v''}
      else if head = ''head'' \<or> head = ''tail'' then
        arg \<in> {''-n'', ''-c''} \<or> (letters \<noteq> [] \<and> list_all is_dec_digit letters)
      else if head = ''echo'' then arg \<in> {''-n'', ''-e'', ''-E''}
      else False)"

definition takes_value :: "string \<Rightarrow> string \<Rightarrow> bool" where
  "takes_value head arg \<longleftrightarrow> head \<in> {''head'', ''tail''} \<and> arg \<in> {''-n'', ''-c''}"

text \<open>
  The loop over the arguments: whether the option boundary was passed, whether a pattern was seen,
  whether a value is expected.
\<close>

fun reader_args ::
    "string \<Rightarrow> bool \<Rightarrow> bool \<Rightarrow> bool \<Rightarrow> (permission_word \<times> bool) list \<Rightarrow> bool" where
  "reader_args head boundary pattern value [] \<longleftrightarrow> pattern \<and> \<not> value"
| "reader_args head boundary pattern value ((WUnresolved _, safe) # ws) \<longleftrightarrow>
     \<not> value \<and> pattern \<and> (head = ''ls'' \<or> head = ''rg'') \<and> (boundary \<or> safe) \<and>
     reader_args head boundary pattern value ws"
| "reader_args head boundary pattern value ((WLiteral arg, _) # ws) \<longleftrightarrow>
     (if value then arg \<noteq> [] \<and> list_all is_dec_digit arg \<and> reader_args head boundary pattern False ws
      else if \<not> boundary \<and> arg = ''--'' then reader_args head True pattern value ws
      else if \<not> boundary \<and> starts_with arg ''-'' \<and> arg \<noteq> ''-'' then
        reader_option_allowed head arg \<and> reader_args head boundary pattern (takes_value head arg) ws
      else reader_args head boundary True value ws)"

definition reader_heads :: "string list" where
  "reader_heads = [''ls'', ''rg'', ''echo'', ''head'', ''tail'']"

definition readers_allow :: "permission_word list \<Rightarrow> bool list \<Rightarrow> bool" where
  "readers_allow words safe \<longleftrightarrow>
     (case words of
        WLiteral head # _ \<Rightarrow>
          List.member reader_heads head \<and>
          reader_args head False (head \<noteq> ''rg'') False (tl (zip words safe))
      | _ \<Rightarrow> False)"

section \<open>The analysis\<close>

definition recovered_kinds :: "string list" where
  "recovered_kinds =
     [''command'', ''variable_assignment'', ''program'', ''pipeline'', ''list'', ''command_name'',
      ''word'', ''number'', ''raw_string'', ''string'', ''string_content'', ''concatenation'',
      ''variable_name'', ''simple_expansion'', ''expansion'', ''comment'', '';'', ''&&'', ''||'', ''|'',
      [dquote_char], ''='', ''$'', ''${'', ''}'']"

definition max_nodes :: nat where
  "max_nodes = 4096"

definition assignment_witness ::
    "string \<Rightarrow> script_state \<Rightarrow> ts_node \<Rightarrow> ts_ctx \<Rightarrow> string option" where
  "assignment_witness src s n ctx =
     (let name = Option.bind (child_by_field ''name'' n) (node_spelling src);
          val = Option.bind (child_by_field ''value'' n) (\<lambda>v. shell_node_arg v src)
      in if ps_commands s = [] \<and> (case ctx of (p, _) # _ \<Rightarrow> ts_kind p = ''program'' | [] \<Rightarrow> False) \<and>
            (case val of Some (ArgLiteral v) \<Rightarrow> is_path_prefix v | _ \<Rightarrow> False)
         then (case name of
             None \<Rightarrow> None
           | Some key \<Rightarrow>
               if \<not> List.member witness_denied_keys key \<and>
                  \<not> list_ex (starts_with key) witness_denied_key_prefixes \<and>
                  env_key_risk key \<noteq> EnvInjection
               then Some key else None)
         else None)"

definition on_assignment :: "string \<Rightarrow> script_state \<Rightarrow> ts_node \<Rightarrow> ts_ctx \<Rightarrow> script_state" where
  "on_assignment src s n ctx =
     (case assignment_witness src s n ctx of
        None \<Rightarrow> s\<lparr>ps_eligible := False\<rparr>
      | Some key \<Rightarrow>
          if List.member (ss_assigned s) key then s\<lparr>ps_eligible := False\<rparr>
          else s\<lparr>ss_assigned := ss_assigned s @ [key]\<rparr>)"

text \<open>
  One argument of a command; the words and their safety are collected next to the state
  (\<open>arg_acc\<close>). The word of a command name is its first named child.
\<close>

type_synonym arg_acc = "script_state \<times> permission_word list \<times> bool list"

definition argument_node :: "ts_node \<Rightarrow> ts_node option" where
  "argument_node child =
     (if ts_kind child \<noteq> ''command_name'' then Some child else get_at (named_children child) 0)"

definition is_globbed :: "string \<Rightarrow> ts_node \<Rightarrow> bool" where
  "is_globbed src w \<longleftrightarrow>
     (ts_kind w = ''word'' \<or> ts_kind w = ''concatenation'') \<and>
     (case node_spelling src w of
        Some t \<Rightarrow> list_ex (\<lambda>c. c \<in> set ''*?[~'') t
      | None \<Rightarrow> False)"

definition on_literal :: "string \<Rightarrow> ts_node \<Rightarrow> string \<Rightarrow> arg_acc \<Rightarrow> arg_acc" where
  "on_literal src w v acc =
     (case acc of (s, words, safe) \<Rightarrow>
        (if is_globbed src w then s\<lparr>ps_eligible := False\<rparr> else s, words @ [WLiteral v], safe @ [True]))"

definition on_ambiguous :: "string \<Rightarrow> ts_node \<Rightarrow> arg_acc \<Rightarrow> arg_acc" where
  "on_ambiguous src w acc =
     (case acc of (s, words, safe) \<Rightarrow>
        case node_spelling src w of
          None \<Rightarrow> (s\<lparr>ps_complete := False\<rparr>, words, safe)
        | Some spelling \<Rightarrow>
            (let s = s\<lparr>ps_unresolved := True\<rparr> in
             case quoted_filename w src (ss_assigned s) of
               None \<Rightarrow> (s\<lparr>ps_complete := False\<rparr>, words @ [WUnresolved spelling], safe @ [False])
             | Some (name, ok) \<Rightarrow>
                 (if List.member (ss_assigned s) name then s\<lparr>ss_used := name # ss_used s\<rparr> else s,
                  words @ [WUnresolved spelling], safe @ [ok])))"

definition on_argument :: "string \<Rightarrow> ts_node \<Rightarrow> arg_acc \<Rightarrow> arg_acc" where
  "on_argument src child acc =
     (case acc of (s, words, safe) \<Rightarrow>
        if ts_kind child = ''variable_assignment'' then (s\<lparr>ps_eligible := False\<rparr>, words, safe)
        else case argument_node child of
          None \<Rightarrow> (s\<lparr>ps_complete := False\<rparr>, words, safe)
        | Some w \<Rightarrow>
            (case shell_node_arg w src of
               None \<Rightarrow> (s\<lparr>ps_eligible := False\<rparr>, words, safe)
             | Some (ArgLiteral v) \<Rightarrow> on_literal src w v acc
             | Some ArgAmbiguous \<Rightarrow> on_ambiguous src w acc))"

definition on_command :: "string \<Rightarrow> script_state \<Rightarrow> ts_node \<Rightarrow> script_state" where
  "on_command src s n =
     (case fold (on_argument src) (named_children n) (s, [], []) of (s, words, safe) \<Rightarrow>
        s\<lparr>ps_eligible := ps_eligible s \<and> readers_allow words safe,
          ps_complete := ps_complete s \<and> words \<noteq> [] \<and> is_literal_word (hd words),
          ps_commands := ps_commands s @ [words]\<rparr>)"

definition on_statement :: "string \<Rightarrow> ts_node \<times> ts_ctx \<Rightarrow> script_state \<Rightarrow> script_state" where
  "on_statement src st s =
     (if ts_kind (fst st) = ''variable_assignment'' then on_assignment src s (fst st) (snd st)
      else on_command src s (fst st))"

text \<open>
  The bounded walk pops at most \<open>max_nodes\<close> nodes, so it sees that many nodes of the whole walk
  and leaves none behind exactly when the tree has no more.
\<close>

definition analyze :: "ts_node \<Rightarrow> string \<Rightarrow> permission_script" where
  "analyze root src =
     (let walk = ts_walk_in [(root, [])];
          seen = take max_nodes walk;
          statements = sort_key (\<lambda>(n, _). ts_start n)
            (filter (\<lambda>(n, _). ts_kind n \<in> {''command'', ''variable_assignment''}) seen);
          complete = \<not> ts_has_error root \<and>
            list_all (\<lambda>(n, _). List.member recovered_kinds (ts_kind n)) seen \<and>
            length walk \<le> max_nodes;
          s = fold (on_statement src) statements
            \<lparr>ps_commands = [], ps_complete = complete, ps_eligible = True, ps_unresolved = False,
             ss_assigned = [], ss_used = []\<rparr>
      in \<lparr>ps_commands = ps_commands s, ps_complete = ps_complete s,
          ps_eligible = ps_eligible s \<and> ps_complete s \<and> ps_unresolved s \<and> ps_commands s \<noteq> [] \<and>
            list_all (\<lambda>a. List.member (ss_used s) a) (ss_assigned s),
          ps_unresolved = ps_unresolved s\<rparr>)"

definition is_eligible :: "permission_script \<Rightarrow> bool" where
  "is_eligible s \<longleftrightarrow> ps_eligible s"

definition has_unresolved :: "permission_script \<Rightarrow> bool" where
  "has_unresolved s \<longleftrightarrow> ps_complete s \<and> ps_unresolved s"

fun word_text :: "permission_word \<Rightarrow> string" where
  "word_text (WLiteral v) = v"
| "word_text (WUnresolved v) = v"

definition projections :: "permission_script \<Rightarrow> string list list" where
  "projections s =
     map (map word_text) (filter (\<lambda>ws. ws \<noteq> [] \<and> is_literal_word (hd ws)) (ps_commands s))"

section \<open>An eligible script runs readers only\<close>

lemma readers_allow_head:
  assumes "readers_allow words safe"
  shows "\<exists>head rest. words = WLiteral head # rest \<and> head \<in> set reader_heads"
  using assms by (auto simp: readers_allow_def split: list.splits permission_word.splits)

definition reader_command :: "permission_word list \<Rightarrow> bool" where
  "reader_command ws \<longleftrightarrow> (\<exists>head rest. ws = WLiteral head # rest \<and> head \<in> set reader_heads)"

text \<open>The flags only ever fall, and an argument does not touch the commands.\<close>

definition flags_fall :: "script_state \<Rightarrow> script_state \<Rightarrow> bool" where
  "flags_fall s s' \<longleftrightarrow> ps_commands s' = ps_commands s \<and>
     (ps_eligible s' \<longrightarrow> ps_eligible s) \<and> (ps_complete s' \<longrightarrow> ps_complete s)"

lemma flags_fall_updates [simp]:
  "flags_fall s s" "flags_fall s (s\<lparr>ps_eligible := False\<rparr>)" "flags_fall s (s\<lparr>ps_complete := False\<rparr>)"
  "flags_fall s (s\<lparr>ps_unresolved := True\<rparr>)"
  "flags_fall s (s\<lparr>ps_unresolved := True, ps_complete := False\<rparr>)"
  "flags_fall s (s\<lparr>ps_unresolved := True, ss_used := u\<rparr>)"
  by (simp_all add: flags_fall_def)

lemma on_argument_frame: "flags_fall s (fst (on_argument src child (s, words, safe)))"
proof -
  have "flags_fall s (fst (on_literal src w v (s, words, safe)))" for w v
    by (simp add: on_literal_def)
  moreover have "flags_fall s (fst (on_ambiguous src w (s, words, safe)))" for w
    by (simp add: on_ambiguous_def Let_def split: option.split prod.split)
  ultimately show ?thesis
    by (simp add: on_argument_def split: option.split arg_text.split)
qed

lemma fold_on_argument_frame:
  "fold (on_argument src) cs (s, ws, safe) = (s', ws', safe') \<Longrightarrow> flags_fall s s'"
proof (induction cs arbitrary: s ws safe)
  case (Cons c cs)
  obtain s1 ws1 safe1 where step: "on_argument src c (s, ws, safe) = (s1, ws1, safe1)"
    using prod_cases3 by blast
  with Cons on_argument_frame [of s src c ws safe] have "flags_fall s1 s'" "flags_fall s s1"
    by simp_all
  then show ?case by (auto simp: flags_fall_def)
qed simp

definition readers_so_far :: "script_state \<Rightarrow> bool" where
  "readers_so_far s \<longleftrightarrow> (ps_eligible s \<longrightarrow> (\<forall>ws \<in> set (ps_commands s). reader_command ws))"

lemma on_statement_readers: "readers_so_far s \<Longrightarrow> readers_so_far (on_statement src st s)"
proof (cases "ts_kind (fst st) = ''variable_assignment''")
  case False
  obtain s' ws safe where f: "fold (on_argument src) (named_children (fst st)) (s, [], []) = (s', ws, safe)"
    using prod_cases3 by blast
  assume "readers_so_far s"
  with False f fold_on_argument_frame [OF f] readers_allow_head [of ws safe] show ?thesis
    by (auto simp: on_statement_def on_command_def readers_so_far_def reader_command_def flags_fall_def)
qed (auto simp: on_statement_def on_assignment_def readers_so_far_def split: option.split)

lemma fold_on_statement_readers:
  "readers_so_far s \<Longrightarrow> readers_so_far (fold (on_statement src) sts s)"
  by (induction sts arbitrary: s) (simp_all add: on_statement_readers)

lemma on_statement_complete: "ps_complete (on_statement src st s) \<Longrightarrow> ps_complete s"
proof (cases "ts_kind (fst st) = ''variable_assignment''")
  case False
  obtain s' ws safe where f: "fold (on_argument src) (named_children (fst st)) (s, [], []) = (s', ws, safe)"
    using prod_cases3 by blast
  assume "ps_complete (on_statement src st s)"
  with False f fold_on_argument_frame [OF f] show ?thesis
    by (simp add: on_statement_def on_command_def flags_fall_def)
qed (simp add: on_statement_def on_assignment_def split: option.splits if_splits)

lemma fold_on_statement_complete:
  "ps_complete (fold (on_statement src) sts s) \<Longrightarrow> ps_complete s"
  by (induction sts arbitrary: s) (auto dest: on_statement_complete)

lemma eligible_readers:
  assumes "is_eligible (analyze root src)"
  shows "\<forall>ws \<in> set (ps_commands (analyze root src)). reader_command ws"
    "ps_complete (analyze root src)" "ps_commands (analyze root src) \<noteq> []"
    "\<not> ts_has_error root"
proof -
  let ?init = "\<lambda>c. \<lparr>ps_commands = [], ps_complete = c, ps_eligible = True, ps_unresolved = False,
    ss_assigned = [], ss_used = []\<rparr>"
  have init: "readers_so_far (?init c)" for c
    by (simp add: readers_so_far_def)
  from assms fold_on_statement_readers [OF init] show
    "\<forall>ws \<in> set (ps_commands (analyze root src)). reader_command ws"
    by (auto simp: analyze_def is_eligible_def Let_def readers_so_far_def)
  from assms show "ps_complete (analyze root src)" "ps_commands (analyze root src) \<noteq> []"
    by (auto simp: analyze_def is_eligible_def Let_def)
  then show "\<not> ts_has_error root"
    by (auto simp: analyze_def Let_def dest!: fold_on_statement_complete)
qed

lemma eligible_projections:
  assumes "is_eligible (analyze root src)"
  shows "projections (analyze root src) = map (map word_text) (ps_commands (analyze root src))"
    "\<forall>ws \<in> set (projections (analyze root src)). ws \<noteq> [] \<and> hd ws \<in> set reader_heads"
proof -
  from eligible_readers(1) [OF assms]
  have "ws \<noteq> [] \<and> is_literal_word (hd ws) \<and> word_text (hd ws) \<in> set reader_heads"
    if "ws \<in> set (ps_commands (analyze root src))" for ws
    using that by (fastforce simp: reader_command_def is_literal_word_def)
  then show "projections (analyze root src) = map (map word_text) (ps_commands (analyze root src))"
    and "\<forall>ws \<in> set (projections (analyze root src)). ws \<noteq> [] \<and> hd ws \<in> set reader_heads"
    by (auto simp: projections_def filter_id_conv hd_map)
qed

end
