(* ===== verification/PolicyMatch.thy ===== *)
theory PolicyMatch imports PermScript Rust_Path begin

text \<open>
  What a permission rule matches (\<^verbatim>\<open>permission/policy.rs\<close>): gate decisions and their
  combination, inline shell scripts, exec vehicles, command prefixes and globs, the spellings
  under which a path is matched, domains, and the symbolic links of a path. The parts that are not
  the repository's code are the fields of a \<open>policy_env\<close>: glob patterns (a compiled pattern is its
  match function on the separator option and the text), URL parsing, Unicode lower case, the bash
  grammar and the file system calls of the symlink walk.
\<close>

section \<open>The environment\<close>

type_synonym glob_pattern = "bool \<Rightarrow> string \<Rightarrow> bool"

datatype fs_meta = MetaSymlink | MetaOther | MetaNotFound | MetaError

record policy_env =
  glob_new :: "string \<Rightarrow> glob_pattern option"
  url_host :: "string \<Rightarrow> string option"
  to_lowercase :: "string \<Rightarrow> string"
  parse_shell :: ts_parser
  fs_canonicalize :: "path \<Rightarrow> path option"
  fs_symlink_metadata :: "path \<Rightarrow> fs_meta"
  fs_read_link :: "path \<Rightarrow> path option"

section \<open>Decisions of the gates\<close>

datatype gate_decision = GReject string | AskRuleMatch | AskFailClosed

fun into_decision :: "gate_decision \<Rightarrow> decision" where
  "into_decision (GReject reason) = Reject reason"
| "into_decision AskRuleMatch = Ask"
| "into_decision AskFailClosed = Ask"

definition gate_is_ask :: "gate_decision \<Rightarrow> bool" where
  "gate_is_ask g \<longleftrightarrow> g = AskRuleMatch \<or> g = AskFailClosed"

fun gate_rank :: "gate_decision \<Rightarrow> nat" where
  "gate_rank (GReject _) = 3"
| "gate_rank AskRuleMatch = 2"
| "gate_rank AskFailClosed = 1"

fun combine_gate_decisions :: "gate_decision option \<Rightarrow> gate_decision option \<Rightarrow> gate_decision option" where
  "combine_gate_decisions None other = other"
| "combine_gate_decisions (Some a) None = Some a"
| "combine_gate_decisions (Some a) (Some b) = Some (if gate_rank b \<le> gate_rank a then a else b)"

fun decision_rank :: "decision \<Rightarrow> nat" where
  "decision_rank (Reject _) = 3"
| "decision_rank (PolicyDeny _) = 3"
| "decision_rank Ask = 2"
| "decision_rank Allow = 1"
| "decision_rank (FollowupMessage _) = 0"
| "decision_rank Cancelled = 0"

fun combine_decisions :: "decision option \<Rightarrow> decision option \<Rightarrow> decision option" where
  "combine_decisions None other = other"
| "combine_decisions (Some a) None = Some a"
| "combine_decisions (Some a) (Some b) = Some (if decision_rank b \<le> decision_rank a then a else b)"

text \<open>
  Both combinations keep the higher rank and the left one on a tie. The interface of such an
  escalation: a rank that is zero on nothing only, and a combination that takes the maximum.
\<close>

locale escalation =
  fixes rank :: "'d option \<Rightarrow> nat"
    and comb :: "'d option \<Rightarrow> 'd option \<Rightarrow> 'd option"
  assumes rank_comb: "rank (comb a b) = max (rank a) (rank b)"
    and comb_sel: "comb a b = (if b \<noteq> None \<and> (a = None \<or> rank a < rank b) then b else a)"
    and rank_None: "rank None = 0"
begin

lemma comb_assoc: "comb (comb a b) c = comb a (comb b c)"
proof -
  have "comb None x = x" and "comb x None = x" for x
    by (simp_all add: comb_sel)
  then show ?thesis
    by (cases "a = None"; cases "b = None"; cases "c = None") (auto simp: comb_sel rank_comb)
qed

lemma comb_None [simp]: "comb None x = x" "comb x None = x"
  by (simp_all add: comb_sel)

lemma comb_idem [simp]: "comb a a = a"
  by (simp add: comb_sel)

lemma never_loosens: "rank a \<le> rank (comb a b)" "rank b \<le> rank (comb a b)"
  by (simp_all add: rank_comb)

lemma rank_fold: "rank (fold (\<lambda>x d. comb d (f x)) xs d) = fold (\<lambda>x n. max n (rank (f x))) xs (rank d)"
  by (induction xs arbitrary: d) (simp_all add: rank_comb)

lemma fold_max_ge: "fold (\<lambda>x n. max n (g x)) xs (k::nat) \<ge> k"
  by (induction xs arbitrary: k) (auto intro: le_trans [OF max.cobounded1])

lemma fold_max_iff: "m \<le> fold (\<lambda>x n. max n (g x)) xs k \<longleftrightarrow> m \<le> k \<or> (\<exists>x \<in> set xs. m \<le> (g x :: nat))"
  by (induction xs arbitrary: k) (auto simp: le_max_iff_disj)

lemma rank_fold_iff:
  "m \<le> rank (fold (\<lambda>x d. comb d (f x)) xs d) \<longleftrightarrow> m \<le> rank d \<or> (\<exists>x \<in> set xs. m \<le> rank (f x))"
  by (simp add: rank_fold fold_max_iff)

end

definition gate_rank_opt :: "gate_decision option \<Rightarrow> nat" where
  "gate_rank_opt d = (case d of None \<Rightarrow> 0 | Some g \<Rightarrow> gate_rank g)"

text \<open>For decisions the ranks are shifted by one, so that nothing ranks below everything.\<close>

definition decision_rank_opt :: "decision option \<Rightarrow> nat" where
  "decision_rank_opt d = (case d of None \<Rightarrow> 0 | Some g \<Rightarrow> Suc (decision_rank g))"

interpretation gate: escalation gate_rank_opt combine_gate_decisions
proof
  show "gate_rank_opt (combine_gate_decisions a b) = max (gate_rank_opt a) (gate_rank_opt b)" for a b
    by (cases a; cases b) (auto simp: gate_rank_opt_def)
  show "combine_gate_decisions a b =
      (if b \<noteq> None \<and> (a = None \<or> gate_rank_opt a < gate_rank_opt b) then b else a)" for a b
    by (cases a; cases b) (auto simp: gate_rank_opt_def)
qed (simp add: gate_rank_opt_def)

interpretation decide: escalation decision_rank_opt combine_decisions
proof
  show "decision_rank_opt (combine_decisions a b) = max (decision_rank_opt a) (decision_rank_opt b)" for a b
    by (cases a; cases b) (auto simp: decision_rank_opt_def)
  show "combine_decisions a b =
      (if b \<noteq> None \<and> (a = None \<or> decision_rank_opt a < decision_rank_opt b) then b else a)" for a b
    by (cases a; cases b) (auto simp: decision_rank_opt_def)
qed (simp add: decision_rank_opt_def)

section \<open>Inline shell scripts\<close>

datatype shell_word = Literal string | Untrusted

datatype inline_shell_script = NotInline | InlineLiteral nat | InlineUntrusted | InlineUnrecognized

definition is_potential_inline :: "inline_shell_script \<Rightarrow> bool" where
  "is_potential_inline s \<longleftrightarrow> (case s of InlineLiteral _ \<Rightarrow> True | InlineUntrusted \<Rightarrow> True | _ \<Rightarrow> False)"

definition ambiguous_after :: "bool \<Rightarrow> inline_shell_script" where
  "ambiguous_after saw_c = (if saw_c then InlineUntrusted else InlineUnrecognized)"

definition finish_literal :: "bool \<Rightarrow> nat \<Rightarrow> inline_shell_script" where
  "finish_literal dynamic_head i = (if dynamic_head then InlineUntrusted else InlineLiteral i)"

definition not_inline_or :: "bool \<Rightarrow> inline_shell_script" where
  "not_inline_or unrecognized = (if unrecognized then InlineUnrecognized else NotInline)"

text \<open>
  One word of the option scan: the classification, or the next index with the two flags.
\<close>

definition dash_c_word ::
    "bool \<Rightarrow> shell_word list \<Rightarrow> nat \<Rightarrow> bool \<Rightarrow> bool \<Rightarrow> string
      \<Rightarrow> inline_shell_script + nat \<times> bool \<times> bool" where
  "dash_c_word dynamic_head words i saw_c unrecognized word =
     (let continue_at = (\<lambda>n. Inr (i + n, saw_c, unrecognized)) in
      if word = ''--'' \<or> word = ''-'' then
        (if \<not> saw_c then Inl (not_inline_or unrecognized)
         else case get_at words (i + 1) of
           Some (Literal _) \<Rightarrow> Inl (finish_literal dynamic_head (i + 1))
         | _ \<Rightarrow> Inl InlineUntrusted)
      else if \<not> starts_with word ''-'' \<and> \<not> starts_with word ''+'' then
        Inl (if saw_c then finish_literal dynamic_head i else not_inline_or unrecognized)
      else if word = ''--init-file'' \<or> word = ''--rcfile'' then
        (case get_at words (i + 1) of
           Some (Literal _) \<Rightarrow> continue_at 2
         | _ \<Rightarrow> Inl (ambiguous_after saw_c))
      else if starts_with word ''--'' then
        (if word \<in> {''--noprofile'', ''--norc'', ''--posix''} then continue_at 1
         else if saw_c then Inl InlineUntrusted
         else Inr (i + 1, saw_c, True))
      else if word \<in> {''-o'', ''+o'', ''-O'', ''+O''} then
        (case get_at words (i + 1) of
           Some (Literal v) \<Rightarrow>
             if \<not> starts_with v ''-'' then continue_at 2 else Inl (ambiguous_after saw_c)
         | _ \<Rightarrow> Inl (ambiguous_after saw_c))
      else if starts_with word ''-O'' \<and> 2 < length word then continue_at 1
      else if (starts_with word ''+O'' \<or> starts_with word ''+o'') \<and> 2 < length word then continue_at 1
      else if starts_with word ''-o'' \<and> 2 < length word then Inl (ambiguous_after saw_c)
      else if starts_with word ''+'' then continue_at 1
      else
        (let flags = tl word in
         if CHR ''o'' \<in> set flags \<or> CHR ''O'' \<in> set flags then Inl (ambiguous_after saw_c)
         else Inr (i + 1, saw_c \<or> CHR ''c'' \<in> set flags, unrecognized)))"

lemma dash_c_word_progress:
  "dash_c_word d words i c u word = Inr (j, c', u') \<Longrightarrow> i < j"
  by (auto simp: dash_c_word_def Let_def split: if_splits option.splits shell_word.splits)

function dash_c_from ::
    "bool \<Rightarrow> shell_word list \<Rightarrow> nat \<Rightarrow> bool \<Rightarrow> bool \<Rightarrow> inline_shell_script" where
  "dash_c_from dynamic_head words i saw_c unrecognized =
     (case get_at words i of
        None \<Rightarrow> if saw_c then InlineUntrusted else not_inline_or unrecognized
      | Some Untrusted \<Rightarrow> ambiguous_after saw_c
      | Some (Literal word) \<Rightarrow>
          (case dash_c_word dynamic_head words i saw_c unrecognized word of
             Inl r \<Rightarrow> r
           | Inr (j, saw_c', unrecognized') \<Rightarrow> dash_c_from dynamic_head words j saw_c' unrecognized'))"
  by pat_completeness auto
termination
proof (relation "measure (\<lambda>(d, words, i, c, u). length words - i)", goal_cases)
  case (2 d words i c u w word x j y c' u')
  then have "i < j" "i < length words" by (auto dest: dash_c_word_progress simp: get_at_Some)
  then show ?case by simp
qed simp

declare dash_c_from.simps [simp del]

definition inline_shells :: "string list" where
  "inline_shells = [''bash'', ''sh'', ''dash'', ''zsh'', ''ksh'']"

definition shell_dash_c_script :: "shell_word list \<Rightarrow> inline_shell_script" where
  "shell_dash_c_script words =
     (case get_at words 0 of
        None \<Rightarrow> NotInline
      | Some Untrusted \<Rightarrow> dash_c_from True words 1 False False
      | Some (Literal program) \<Rightarrow>
          if List.member inline_shells (last_segment program)
          then dash_c_from False words 1 False False else NotInline)"

text \<open>A literal script is a word of the command, and its head is one of the shells.\<close>

lemma dash_c_word_literal:
  assumes "dash_c_word d words i c u word = Inl (InlineLiteral k)" and "i < length words"
  shows "k < length words"
  using assms
  by (auto simp: dash_c_word_def Let_def finish_literal_def not_inline_or_def ambiguous_after_def
      get_at_Some split: if_splits option.splits shell_word.splits)

lemma dash_c_from_literal:
  "dash_c_from d words i c u = InlineLiteral k \<Longrightarrow> k < length words"
proof (induction d words i c u rule: dash_c_from.induct)
  case (1 d words i c u)
  show ?case
  proof (cases "get_at words i")
    case None
    with "1.prems" show ?thesis
      by (simp add: dash_c_from.simps [of d words i] not_inline_or_def split: if_splits)
  next
    case (Some w)
    show ?thesis
    proof (cases w)
      case (Literal word)
      show ?thesis
      proof (cases "dash_c_word d words i c u word")
        case (Inl r)
        with "1.prems" Some Literal dash_c_word_literal [of d words i c u word k] show ?thesis
          by (simp add: dash_c_from.simps [of d words i] get_at_Some)
      next
        case (Inr p)
        obtain j c' u' where "p = (j, c', u')" by (cases p) auto
        with Inr Some Literal "1.prems" "1.IH" show ?thesis
          by (simp add: dash_c_from.simps [of d words i])
      qed
    next
      case Untrusted
      with "1.prems" Some show ?thesis
        by (simp add: dash_c_from.simps [of d words i] ambiguous_after_def split: if_splits)
    qed
  qed
qed

lemma shell_dash_c_literal: "shell_dash_c_script words = InlineLiteral k \<Longrightarrow> k < length words"
  by (auto simp: shell_dash_c_script_def dest: dash_c_from_literal
      split: option.splits shell_word.splits if_splits)

section \<open>Exec vehicles\<close>

definition exec_vehicle_heads :: "string list" where
  "exec_vehicle_heads =
     [''sh'', ''bash'', ''zsh'', ''dash'', ''ksh'', ''fish'',
      ''deno'', ''bun'', ''julia'', ''rscript'', ''awk'', ''gawk'', ''mawk'', ''nawk'', ''nodejs'',
      ''luajit'', ''phpdbg'', ''php-cgi'', ''pythonw'', ''npx'', ''bunx'', ''pipx'', ''uvx'', ''uv'',
      ''xargs'', ''find'', ''sudo'', ''doas'', ''su'', ''ssh'', ''watch'', ''setsid'', ''flock'',
      ''chroot'', ''nsenter'', ''docker'', ''podman'']"

definition exec_vehicle_head_families :: "string list" where
  "exec_vehicle_head_families = [''python'', ''node'', ''ruby'', ''perl'', ''php'', ''lua'']"

definition normalized_command_head :: "string list \<Rightarrow> string option" where
  "normalized_command_head words =
     map_option (\<lambda>w. let head = ascii_lower (last_segment w) in unwrap_or head (strip_suffix ''.exe'' head))
       (get_at words 0)"

definition version_suffix :: "string \<Rightarrow> bool" where
  "version_suffix rest \<longleftrightarrow>
     list_all (\<lambda>c. is_dec_digit c \<or> c = CHR ''.'') (unwrap_or rest (strip_suffix ''t'' rest))"

definition head_is_exec_vehicle :: "string list \<Rightarrow> bool" where
  "head_is_exec_vehicle words \<longleftrightarrow>
     (case normalized_command_head words of
        None \<Rightarrow> False
      | Some head \<Rightarrow>
          List.member exec_vehicle_heads head \<or>
          list_ex (\<lambda>family. case strip_prefix family head of
              None \<Rightarrow> False | Some rest \<Rightarrow> version_suffix rest) exec_vehicle_head_families)"

section \<open>Command patterns\<close>

definition matches_command_prefix :: "string \<Rightarrow> string \<Rightarrow> bool" where
  "matches_command_prefix cmd pattern \<longleftrightarrow>
     cmd = pattern \<or> (starts_with cmd pattern \<and> get_at cmd (length pattern) = Some (CHR '' ''))"

text \<open>\<open>path_ctx\<close> is the match context: in a path a star stops at a separator.\<close>

definition glob_matches :: "string \<Rightarrow> bool \<Rightarrow> glob_pattern option \<Rightarrow> bool" where
  "glob_matches text path_ctx pat = (case pat of None \<Rightarrow> False | Some p \<Rightarrow> p path_ctx text)"

definition bash_command_matches_pattern ::
    "policy_env \<Rightarrow> string \<Rightarrow> string \<Rightarrow> glob_pattern option \<Rightarrow> bool" where
  "bash_command_matches_pattern E command pattern precompiled =
     (let command = trim_start command; pattern = trim pattern in
      if pattern = [] then False
      else if pattern = ''*'' then True
      else if matches_command_prefix command pattern then True
      else case precompiled of
        Some p \<Rightarrow> glob_matches command False (Some p)
      | None \<Rightarrow> (case glob_new E pattern of
            Some p \<Rightarrow> glob_matches command False (Some p)
          | None \<Rightarrow> False))"

definition bash_allow_pattern_matches ::
    "policy_env \<Rightarrow> string \<Rightarrow> permission_rule \<Rightarrow> glob_pattern option \<Rightarrow> bool" where
  "bash_allow_pattern_matches E cmd rule matcher =
     (case rule_pattern rule of
        None \<Rightarrow> True
      | Some pattern \<Rightarrow> pattern = ''*'' \<or> bash_command_matches_pattern E cmd pattern matcher)"

definition bash_pattern_matches_command :: "policy_env \<Rightarrow> string \<Rightarrow> string \<Rightarrow> bool" where
  "bash_pattern_matches_command E pattern command = bash_command_matches_pattern E command pattern None"

definition bash_pattern_is_broad :: "string \<Rightarrow> bool" where
  "bash_pattern_is_broad pattern =
     (let pattern = trim pattern in
      if pattern = [] then False
      else pattern = ''*'' \<or> \<not> list_ex (\<lambda>w. contains pattern w) white_space)"

section \<open>Paths\<close>

definition path_match_string :: "path \<Rightarrow> string" where
  "path_match_string p = map (\<lambda>c. if c = CHR 0x5C then CHR ''/'' else c) p"

definition is_tilde_path :: "path \<Rightarrow> bool" where
  "is_tilde_path p \<longleftrightarrow>
     (case components p of Normal s # _ \<Rightarrow> starts_with s ''~'' | _ \<Rightarrow> False)"

definition path_has_parent_dir :: "path \<Rightarrow> bool" where
  "path_has_parent_dir p \<longleftrightarrow> List.member (components p) ParentDir"

definition join_cwd :: "path \<Rightarrow> path option \<Rightarrow> path" where
  "join_cwd p cwd =
     (case cwd of Some d \<Rightarrow> if is_absolute p then p else path_join d p | None \<Rightarrow> p)"

definition absolute_normalized_path :: "path \<Rightarrow> path option \<Rightarrow> path" where
  "absolute_normalized_path p cwd =
     (if is_tilde_path p then p else normalize_lexically (join_cwd p cwd))"

definition path_match_forms :: "path \<Rightarrow> path option \<Rightarrow> string list" where
  "path_match_forms p cwd =
     (let abs = absolute_normalized_path p cwd in
      path_match_string abs #
      (case cwd of
         Some d \<Rightarrow>
           (case path_strip_prefix (normalize_lexically d) abs of
              None \<Rightarrow> []
            | Some rel \<Rightarrow>
                (let rel_s = path_match_string rel in
                 if rel_s = [] \<or> rel_s = ''.'' then [''.'', ''./''] else [''./'' @ rel_s, rel_s]))
       | None \<Rightarrow>
           if \<not> is_absolute abs \<and> \<not> path_has_parent_dir abs \<and> \<not> is_tilde_path abs then
             (let lex_s = path_match_string abs in
              if lex_s \<noteq> ''.'' \<and> lex_s \<noteq> [] then [''./'' @ lex_s] else [])
           else []))"

definition path_context_matches :: "path \<Rightarrow> glob_pattern option \<Rightarrow> path option \<Rightarrow> bool" where
  "path_context_matches p matcher cwd =
     list_ex (\<lambda>text. glob_matches text True matcher) (path_match_forms p cwd)"

definition raw_absolute_tool_path :: "path \<Rightarrow> path option \<Rightarrow> string option" where
  "raw_absolute_tool_path p cwd =
     (if is_tilde_path p then None
      else let joined = join_cwd p cwd
        in if is_absolute joined then Some (path_match_string joined) else None)"

section \<open>Domains\<close>

definition trim_end_char :: "char \<Rightarrow> string \<Rightarrow> string" where
  "trim_end_char c s = rev (dropWhile (\<lambda>x. x = c) (rev s))"

definition normalize_domain :: "policy_env \<Rightarrow> string \<Rightarrow> string" where
  "normalize_domain E raw =
     (let s = trim_end_char (CHR ''.'') (trim_end_char (CHR ''/'') (trim raw));
          s = unwrap_or s (strip_prefix ''www.'' s)
      in to_lowercase E s)"

definition domain_matches :: "policy_env \<Rightarrow> string \<Rightarrow> string \<Rightarrow> bool" where
  "domain_matches E pattern url =
     (case url_host E url of
        None \<Rightarrow> False
      | Some host \<Rightarrow>
          (let domain = normalize_domain E host; p = normalize_domain E pattern
           in domain = p \<or> ends_with domain (''.'' @ p)))"

section \<open>Symbolic links\<close>

definition path_has_symlink :: "policy_env \<Rightarrow> path \<Rightarrow> bool" where
  "path_has_symlink E absolute \<longleftrightarrow>
     is_absolute absolute \<and>
     (let cs = components absolute in
      list_ex (\<lambda>n. fs_symlink_metadata E (path_of_components (take n cs)) = MetaSymlink)
        [1..<length cs + 1])"

definition max_symlink_depth :: nat where
  "max_symlink_depth = 40"

function symlink_walk :: "policy_env \<Rightarrow> path \<Rightarrow> nat \<Rightarrow> path option" where
  "symlink_walk E p depth =
     (if depth > max_symlink_depth then None
      else case fs_canonicalize E p of
        Some canonical \<Rightarrow> Some canonical
      | None \<Rightarrow>
          (case (parent_path p, file_name p) of
             (Some parent, Some name) \<Rightarrow>
               (case symlink_walk E parent (depth + 1) of
                  None \<Rightarrow> None
                | Some resolved_parent \<Rightarrow>
                    (let candidate = path_join resolved_parent name in
                     case fs_symlink_metadata E candidate of
                       MetaError \<Rightarrow> None
                     | MetaSymlink \<Rightarrow>
                         (case fs_read_link E candidate of
                            None \<Rightarrow> None
                          | Some target \<Rightarrow>
                              symlink_walk E
                                (if is_absolute target then target else path_join resolved_parent target)
                                (depth + 1))
                     | _ \<Rightarrow> Some candidate))
           | _ \<Rightarrow> None))"
  by pat_completeness auto
termination
  by (relation "measure (\<lambda>(E, p, depth). Suc max_symlink_depth - depth)") auto

declare symlink_walk.simps [simp del]

definition resolve_following_symlinks :: "policy_env \<Rightarrow> path \<Rightarrow> path option" where
  "resolve_following_symlinks E p = symlink_walk E p 0"

definition resolve_symlink_target :: "policy_env \<Rightarrow> path \<Rightarrow> string option" where
  "resolve_symlink_target E absolute =
     (if is_absolute absolute
      then map_option (\<lambda>r. path_match_string (normalize_lexically r)) (resolve_following_symlinks E absolute)
      else None)"

datatype symlink_follow = NoSymlink | SymlinkTarget string | Unresolvable

definition follow_absolute_symlink :: "policy_env \<Rightarrow> string \<Rightarrow> string \<Rightarrow> symlink_follow" where
  "follow_absolute_symlink E raw_absolute lexical_absolute =
     (case resolve_symlink_target E raw_absolute of
        Some resolved \<Rightarrow> if resolved \<noteq> lexical_absolute then SymlinkTarget resolved else NoSymlink
      | None \<Rightarrow> if path_has_symlink E raw_absolute then Unresolvable else NoSymlink)"

section \<open>The text of a path inside the working directory\<close>

text \<open>
  A relative spelling is offered only for a path below the working directory: it is the rest of
  the normalised path, without parent components.
\<close>

lemma is_absolute_path_join: "is_absolute d \<Longrightarrow> is_absolute (path_join d p)"
  by (cases d) (auto simp: path_join_def is_absolute_def starts_with_def)

lemma tilde_not_absolute: "is_tilde_path p \<Longrightarrow> \<not> is_absolute p"
  by (auto simp: is_tilde_path_def components_def Let_def)

lemma absolute_normalized_no_parent:
  assumes "is_absolute d" and "\<not> is_tilde_path p"
  shows "is_absolute (absolute_normalized_path p (Some d))"
    "ParentDir \<notin> set (components (absolute_normalized_path p (Some d)))"
proof -
  have "is_absolute (join_cwd p (Some d))"
    using assms(1) by (simp add: join_cwd_def is_absolute_path_join)
  with assms(2) show "is_absolute (absolute_normalized_path p (Some d))"
    and "ParentDir \<notin> set (components (absolute_normalized_path p (Some d)))"
    using normalize_absolute by (simp_all add: absolute_normalized_path_def)
qed

end
