(* ===== verification/ShellOperands.thy ===== *)
theory ShellOperands imports ExecRisk PolicyMatch begin

text \<open>
  The file operands of a command (\<^verbatim>\<open>permission/shell_access.rs\<close>): which programs read or
  write the files they are given, the operands and options that name them, the paths a command
  writes, and the textual normalisation of a path operand.
\<close>

section \<open>Programs\<close>

datatype shell_file_mode = ModeRead | ModeWrite | ModeCreate

definition reading_programs :: "string list" where
  "reading_programs =
     [''cat'', ''tac'', ''nl'', ''head'', ''tail'', ''grep'', ''egrep'', ''fgrep'', ''rg'', ''sed'',
      ''awk'', ''less'', ''more'', ''bat'', ''strings'', ''xxd'', ''od'', ''hexdump'', ''base64'',
      ''base32'', ''cut'', ''sort'', ''uniq'', ''wc'', ''type'', ''get-content'', ''gc'', ''diff'',
      ''comm'', ''rev'', ''jq'', ''yq'', ''select-string'', ''sls'', ''ag'', ''ack'', ''zcat'',
      ''zless'', ''zmore'', ''zgrep'', ''zegrep'', ''zfgrep'', ''bzcat'', ''bzgrep'', ''xzcat'',
      ''xzgrep'', ''zstdcat'', ''lz4cat'']"

definition writing_programs :: "string list" where
  "writing_programs =
     [''tee'', ''set-content'', ''out-file'', ''add-content'', ''tee-object'', ''truncate'']"

definition shell_file_mode :: "string \<Rightarrow> shell_file_mode option" where
  "shell_file_mode program =
     (if List.member reading_programs program then Some ModeRead
      else if List.member writing_programs program then Some ModeWrite
      else None)"

definition shell_program_name :: "string \<Rightarrow> string" where
  "shell_program_name w = last_segment w"

definition is_creation_program :: "string \<Rightarrow> bool" where
  "is_creation_program program \<longleftrightarrow> program = ''mkdir'' \<or> program = ''touch''"

definition is_safe_write_sink :: "string \<Rightarrow> bool" where
  "is_safe_write_sink p \<longleftrightarrow> p = ''/dev/null'' \<or> p = ''/dev/stdout'' \<or> p = ''/dev/stderr''"

section \<open>Operands\<close>

fun candidates_from :: "bool \<Rightarrow> string list \<Rightarrow> string list" where
  "candidates_from end_of_options [] = []"
| "candidates_from end_of_options (tok # rest) =
     (if \<not> end_of_options \<and> tok = ''--'' then candidates_from True rest
      else if end_of_options \<or> (tok \<noteq> ''-'' \<and> \<not> starts_with tok ''-'')
      then tok # candidates_from end_of_options rest
      else candidates_from end_of_options rest)"

definition shell_file_candidates :: "string list \<Rightarrow> string list" where
  "shell_file_candidates words = candidates_from False (drop 1 words)"

definition short_option_with :: "char \<Rightarrow> string \<Rightarrow> bool" where
  "short_option_with c w \<longleftrightarrow> starts_with w ''-'' \<and> \<not> starts_with w ''--'' \<and> c \<in> set w"

definition shell_sed_in_place :: "string list \<Rightarrow> bool" where
  "shell_sed_in_place words \<longleftrightarrow>
     list_ex (\<lambda>w. w = ''--in-place'' \<or> starts_with w ''--in-place='' \<or> short_option_with (CHR ''i'') w)
       (drop 1 words)"

text \<open>The output file that one token names, given the token after it.\<close>

definition output_flag_value :: "bool \<Rightarrow> string \<Rightarrow> string \<Rightarrow> string option" where
  "output_flag_value clustered_o tok next_or_empty =
     (if starts_with tok ''--'' then
        (case split_once (CHR ''='') tok of
           Some (flag, v) \<Rightarrow>
             if is_accepted_long_option_prefix flag ''--output'' 3 then Some v else None
         | None \<Rightarrow>
             if is_accepted_long_option_prefix tok ''--output'' 3 then Some next_or_empty else None)
      else if tok = ''-o'' then Some next_or_empty
      else if starts_with tok ''-o'' then Some (drop 2 tok)
      else if \<not> clustered_o then None
      else case strip_prefix ''-'' tok of
        None \<Rightarrow> None
      | Some flags \<Rightarrow>
          if flags = [] \<or> starts_with flags ''o'' \<or> CHR ''='' \<in> set flags then None
          else (case split_once (CHR ''o'') flags of
              None \<Rightarrow> None
            | Some (_, after_o) \<Rightarrow> Some (if after_o = [] then next_or_empty else after_o)))"

text \<open>Every token with the token after it, the empty one at the end.\<close>

definition with_next :: "string list \<Rightarrow> (string \<times> string option) list" where
  "with_next words = zip words (map Some (drop 1 words) @ [None])"

definition shell_output_flag_values :: "string list \<Rightarrow> bool \<Rightarrow> string list" where
  "shell_output_flag_values words clustered_o =
     List.map_filter (\<lambda>(tok, next). output_flag_value clustered_o tok (unwrap_or [] next)) (with_next words)"

definition value_flag_value :: "string \<Rightarrow> string \<Rightarrow> string option \<Rightarrow> string option" where
  "value_flag_value flag tok next =
     (case strip_prefix (flag @ ''='') tok of
        Some v \<Rightarrow> Some v
      | None \<Rightarrow>
          if tok = flag then next
          else if \<not> starts_with flag ''--'' then
            (case strip_prefix flag tok of Some v \<Rightarrow> if v = [] then None else Some v | None \<Rightarrow> None)
          else None)"

definition value_flag_values :: "string list \<Rightarrow> string \<Rightarrow> string list" where
  "value_flag_values words flag =
     List.map_filter (\<lambda>(tok, next). value_flag_value flag tok next) (with_next words)"

definition dd_operand :: "string \<Rightarrow> (string \<times> shell_file_mode) option" where
  "dd_operand tok =
     (case strip_prefix ''if='' tok of
        Some p \<Rightarrow> Some (p, ModeRead)
      | None \<Rightarrow> map_option (\<lambda>p. (p, ModeWrite)) (strip_prefix ''of='' tok))"

definition all_written :: "string list \<Rightarrow> (string \<times> shell_file_mode) list" where
  "all_written paths = map (\<lambda>p. (p, ModeWrite)) paths"

definition special_file_operands :: "string \<Rightarrow> string list \<Rightarrow> (string \<times> shell_file_mode) list" where
  "special_file_operands program words =
     (if program = ''dd'' then List.map_filter dd_operand (drop 1 words)
      else if program = ''sort'' then all_written (shell_output_flag_values words True)
      else if program = ''go'' \<or> program = ''git'' then all_written (shell_output_flag_values words False)
      else if program = ''rustc'' then
        all_written (shell_output_flag_values words False @ value_flag_values words ''--out-dir'')
      else if program = ''rustfmt'' then all_written (shell_file_candidates words)
      else [])"

definition path_moving_programs :: "string list" where
  "path_moving_programs = [''cp'', ''mv'', ''ln'', ''install'']"

definition shell_path_command_operands ::
    "string \<Rightarrow> string list \<Rightarrow> (string \<times> shell_file_mode) list option" where
  "shell_path_command_operands program words =
     (let operands = shell_file_candidates words in
      if List.member path_moving_programs program then
        (if operands = [] then None
         else Some (map (\<lambda>s. (s, ModeRead)) (butlast operands) @ [(last operands, ModeWrite)]))
      else if program = ''rm'' \<or> program = ''rmdir'' then Some (all_written operands)
      else if is_creation_program program then Some (map (\<lambda>c. (c, ModeCreate)) operands)
      else if program = ''uniq'' then
        (case operands of
           input # out # _ \<Rightarrow> Some [(input, ModeRead), (out, ModeWrite)]
         | _ \<Rightarrow> None)
      else None)"

definition shell_arg_is_ambiguous :: "string \<Rightarrow> bool" where
  "shell_arg_is_ambiguous tok \<longleftrightarrow> CHR ''*'' \<in> set tok \<or> CHR ''?'' \<in> set tok \<or> CHR ''['' \<in> set tok"

definition is_directory_operand :: "string \<Rightarrow> bool" where
  "is_directory_operand tok \<longleftrightarrow> tok = ''.'' \<or> tok = ''..'' \<or> ends_with tok ''/''"

definition shell_reader_can_recurse :: "string \<Rightarrow> string list \<Rightarrow> string list \<Rightarrow> bool" where
  "shell_reader_can_recurse program words candidates \<longleftrightarrow>
     (program \<in> {''grep'', ''egrep'', ''fgrep''} \<and>
      list_ex (\<lambda>w. w = ''--recursive'' \<or> w = ''--dereference-recursive'' \<or>
          short_option_with (CHR ''r'') w \<or> short_option_with (CHR ''R'') w) words) \<or>
     (program \<in> {''rg'', ''ag'', ''ack''} \<and>
      (length candidates \<le> 1 \<or> list_ex is_directory_operand (drop 1 candidates)))"

section \<open>The paths a command writes\<close>

definition written :: "(string \<times> shell_file_mode) list \<Rightarrow> string list" where
  "written operands = map fst (filter (\<lambda>(p, mode). mode = ModeWrite) operands)"

definition command_words_write_paths :: "string list \<Rightarrow> string list" where
  "command_words_write_paths words =
     (let inner = unwrap_wrappers words in
      case get_at inner 0 of
        None \<Rightarrow> []
      | Some w \<Rightarrow>
          (let program = ascii_lower (shell_program_name w);
               special = written (special_file_operands program inner)
           in case shell_path_command_operands program inner of
                Some operands \<Rightarrow> special @ written operands
              | None \<Rightarrow>
                  if shell_file_mode program = Some ModeWrite \<or>
                     (program = ''sed'' \<and> shell_sed_in_place inner)
                  then special @ shell_file_candidates inner else special))"

definition command_words_creation_paths :: "string list \<Rightarrow> string list" where
  "command_words_creation_paths words =
     (let inner = unwrap_wrappers words in
      case get_at inner 0 of
        None \<Rightarrow> []
      | Some w \<Rightarrow>
          (case shell_path_command_operands (ascii_lower (shell_program_name w)) inner of
             None \<Rightarrow> []
           | Some operands \<Rightarrow> map fst (filter (\<lambda>(p, mode). mode = ModeCreate) operands)))"

section \<open>Paths of the shell\<close>

definition is_absolute_shell_path :: "string \<Rightarrow> bool" where
  "is_absolute_shell_path p \<longleftrightarrow>
     starts_with p ''/'' \<or> starts_with p ''~/'' \<or> get_at p 1 = Some (CHR '':'')"

definition is_quote :: "char \<Rightarrow> bool" where
  "is_quote c \<longleftrightarrow> c = dquote_char \<or> c = quote_char"

definition trim_quotes :: "string \<Rightarrow> string" where
  "trim_quotes s = rev (dropWhile is_quote (rev (dropWhile is_quote s)))"

definition normalize_shell_path_raw :: "string \<Rightarrow> string" where
  "normalize_shell_path_raw p =
     (let q = path_match_string (trim_quotes p) in
      case strip_prefix ''/c/'' q of Some rest \<Rightarrow> ''C:/'' @ rest | None \<Rightarrow> q)"

text \<open>One segment of the walk; the stack is reversed.\<close>

definition push_segment :: "bool \<Rightarrow> string list \<Rightarrow> string \<Rightarrow> string list" where
  "push_segment absolute out segment =
     (if segment = [] \<or> segment = ''.'' then out
      else if segment = ''..'' then
        (case out of
           s # rest \<Rightarrow> if s \<noteq> ''..'' then rest else if \<not> absolute then ''..'' # out else out
         | [] \<Rightarrow> if \<not> absolute then [''..''] else [])
      else segment # out)"

definition normalized_segments :: "bool \<Rightarrow> string list \<Rightarrow> string list" where
  "normalized_segments absolute segments = rev (foldl (push_segment absolute) [] segments)"

definition lexical_normalize :: "string \<Rightarrow> string" where
  "lexical_normalize p =
     (let prefix_len = (if get_at p 1 = Some (CHR '':'') then 2 else 0);
          pre = take prefix_len p; rest = drop prefix_len p;
          absolute = starts_with rest ''/'';
          body = join ''/'' (normalized_segments absolute (split_on (CHR ''/'') rest))
      in pre @ (if absolute then ''/'' else []) @ body)"

definition normalize_shell_path :: "string \<Rightarrow> string" where
  "normalize_shell_path p = lexical_normalize (normalize_shell_path_raw p)"

definition shell_access :: "shell_file_mode \<Rightarrow> string \<Rightarrow> access_kind" where
  "shell_access mode p = (case mode of ModeRead \<Rightarrow> AcRead (Some p) | _ \<Rightarrow> AcEdit p)"

section \<open>The two normalisations agree\<close>

lemma push_segment_absolute:
  assumes "''..'' \<notin> set out"
  shows "''..'' \<notin> set (push_segment True out s)"
    "foldl normalize_push (map Normal out @ [RootDir])
        (map segment_component (filter (\<lambda>s. s \<noteq> [] \<and> s \<noteq> ''.'') [s])) =
      map Normal (push_segment True out s) @ [RootDir]"
proof -
  show "''..'' \<notin> set (push_segment True out s)"
    using assms by (cases out) (auto simp: push_segment_def)
  have "normalize_push (map Normal out @ [RootDir]) (Normal s) = Normal s # map Normal out @ [RootDir]"
    by (cases out) simp_all
  moreover have "normalize_push (map Normal out @ [RootDir]) ParentDir =
      map Normal (push_segment True out ''..'') @ [RootDir]"
    using assms by (cases out) (auto simp: push_segment_def)
  ultimately show "foldl normalize_push (map Normal out @ [RootDir])
        (map segment_component (filter (\<lambda>s. s \<noteq> [] \<and> s \<noteq> ''.'') [s])) =
      map Normal (push_segment True out s) @ [RootDir]"
    by (cases "s = ''..''") (simp_all add: push_segment_def segment_component_def)
qed

lemma foldl_push_segment_absolute:
  "''..'' \<notin> set out \<Longrightarrow>
    foldl normalize_push (map Normal out @ [RootDir])
        (map segment_component (filter (\<lambda>s. s \<noteq> [] \<and> s \<noteq> ''.'') segments)) =
      map Normal (foldl (push_segment True) out segments) @ [RootDir] \<and>
    ''..'' \<notin> set (foldl (push_segment True) out segments)"
proof (induction segments arbitrary: out)
  case (Cons s segments)
  note step = push_segment_absolute [OF Cons.prems, of s]
  have "map segment_component (filter (\<lambda>s. s \<noteq> [] \<and> s \<noteq> ''.'') (s # segments)) =
      map segment_component (filter (\<lambda>s. s \<noteq> [] \<and> s \<noteq> ''.'') [s]) @
      map segment_component (filter (\<lambda>s. s \<noteq> [] \<and> s \<noteq> ''.'') segments)" by simp
  with step(2) Cons.IH [OF step(1)] show ?case by (simp only: foldl_append foldl.simps) simp
qed simp

lemma normalize_components_segments:
  assumes "is_absolute p"
  shows "normalize_components (components p) =
    RootDir # map Normal (normalized_segments True (split_on (CHR ''/'') p))"
  using foldl_push_segment_absolute [of "[]" "split_on (CHR ''/'') p"] assms
  by (simp add: normalize_components_def components_def Let_def normalized_segments_def rev_map)

text \<open>
  The shell gate and the file tools agree on what a path names: on an absolute path the
  normalisation of a shell operand is the lexical normalisation of the tools (whose second
  character is not a colon, the mark of a drive letter).
\<close>
theorem shell_normalization_agrees:
  assumes "is_absolute p" and "get_at p 1 \<noteq> Some (CHR '':'')"
  shows "lexical_normalize p = normalize_lexically p"
proof -
  let ?names = "normalized_segments True (split_on (CHR ''/'') p)"
  have comps: "normalize_components (components p) = RootDir # map Normal ?names"
    by (rule normalize_components_segments [OF assms(1)])
  then have "list_all ordinary (map Normal ?names)"
    using normalize_components_absolute [OF assms(1)] by auto
  from path_of_rooted [OF this] have "normalize_lexically p = CHR ''/'' # join ''/'' ?names"
    by (simp add: normalize_lexically_def comps comp_def)
  with assms show ?thesis
    by (simp add: lexical_normalize_def Let_def is_absolute_def)
qed

theorem shell_normalization_agrees_witness:
  "lexical_normalize ''/work/a/../../etc//./passwd'' = normalize_lexically ''/work/a/../../etc//./passwd''"
  by (rule shell_normalization_agrees) (simp_all add: is_absolute_def starts_with_def get_at_def)

end
