(* ===== verification/PermRules.thy ===== *)
theory PermRules imports PermTypes begin

text \<open>
  Parsing of permission rules (\<^verbatim>\<open>permission/rules.rs\<close>): the recognised default modes
  and their effects, and the grammar \<^verbatim>\<open>Tool(pattern)\<close> with its backslash escapes. The
  main result is that a rule written with the escapes parses back to itself, for every tool name
  and every pattern that the grammar does not give a special reading.
\<close>

section \<open>Default modes\<close>

datatype default_permission_mode =
  DmDefault | DmAcceptEdits | DmPlan | DmAuto | DmDontAsk | DmBypassPermissions

definition default_mode_from_str :: "string \<Rightarrow> string + default_permission_mode" where
  "default_mode_from_str s =
     (if s = ''default'' then Inr DmDefault
      else if s = ''acceptEdits'' then Inr DmAcceptEdits
      else if s = ''plan'' then Inr DmPlan
      else if s = ''auto'' then Inr DmAuto
      else if s = ''dontAsk'' then Inr DmDontAsk
      else if s = ''bypassPermissions'' then Inr DmBypassPermissions
      else Inl s)"

record default_mode_effects =
  me_prompt_policy :: prompt_policy
  me_accept_edits :: bool
  me_bypass_permissions :: bool

definition no_effects :: default_mode_effects where
  "no_effects = \<lparr>me_prompt_policy = PpAsk, me_accept_edits = False, me_bypass_permissions = False\<rparr>"

fun effects :: "default_permission_mode \<Rightarrow> default_mode_effects" where
  "effects DmAcceptEdits = no_effects\<lparr>me_accept_edits := True\<rparr>"
| "effects DmBypassPermissions = no_effects\<lparr>me_bypass_permissions := True\<rparr>"
| "effects DmDefault = no_effects"
| "effects DmPlan = no_effects"
| "effects DmDontAsk = no_effects\<lparr>me_prompt_policy := PpDeny\<rparr>"
| "effects DmAuto = no_effects\<lparr>me_prompt_policy := PpAuto\<rparr>"

section \<open>Errors\<close>

datatype rule_parse_error =
    UnsupportedToolPrefix string
  | UnknownToolPrefix string
  | MalformedRule string

fun rule_parse_error_str :: "rule_parse_error \<Rightarrow> string" where
  "rule_parse_error_str (UnsupportedToolPrefix p) = ''unsupported tool prefix: '' @ p"
| "rule_parse_error_str (UnknownToolPrefix p) = ''unknown tool prefix: '' @ p"
| "rule_parse_error_str (MalformedRule d) = ''malformed rule: '' @ d"

section \<open>The parser\<close>

definition tool_name_to_filter :: "string \<Rightarrow> tool_filter option" where
  "tool_name_to_filter name =
     (if name = ''Bash'' then Some TfBash
      else if name = ''Read'' then Some TfRead
      else if name = ''Edit'' \<or> name = ''Write'' then Some TfEdit
      else if name = ''MCPTool'' then Some TfMcp
      else if name = ''Grep'' \<or> name = ''Glob'' then Some TfGrep
      else if name = ''WebFetch'' then Some TfWebFetch
      else if name = ''WebSearch'' then Some TfWebSearch
      else if name = ''AgentMessage'' \<or> name = ''SendSubagentMessage'' \<or> name = ''SendAgentMessage''
      then Some TfAgentMessage
      else None)"

abbreviation backslash :: char where
  "backslash \<equiv> CHR 0x5C"

text \<open>The number of backslashes right before a position: the loop of \<^verbatim>\<open>is_unescaped\<close>.\<close>

fun backslashes_before :: "string \<Rightarrow> nat \<Rightarrow> nat" where
  "backslashes_before s 0 = 0"
| "backslashes_before s (Suc j) =
     (if j < length s \<and> s ! j = backslash then Suc (backslashes_before s j) else 0)"

definition is_unescaped :: "string \<Rightarrow> nat \<Rightarrow> bool" where
  "is_unescaped s pos \<longleftrightarrow> even (backslashes_before s pos)"

definition find_first_unescaped :: "string \<Rightarrow> char \<Rightarrow> nat option" where
  "find_first_unescaped s target = find (\<lambda>i. s ! i = target \<and> is_unescaped s i) [0..<length s]"

definition find_last_unescaped :: "string \<Rightarrow> char \<Rightarrow> nat option" where
  "find_last_unescaped s target =
     find (\<lambda>i. s ! i = target \<and> is_unescaped s i) (rev [0..<length s])"

definition unescape_rule_content :: "string \<Rightarrow> string" where
  "unescape_rule_content s =
     (if backslash \<notin> set s then s
      else str_replace [backslash, backslash] [backslash]
        (str_replace [backslash, CHR '')''] '')''
          (str_replace [backslash, CHR ''(''] ''('' s)))"

definition strip_domain_prefix :: "string \<Rightarrow> string \<times> pattern_mode" where
  "strip_domain_prefix pattern =
     (case strip_prefix ''domain:'' pattern of
        Some domain \<Rightarrow> (domain, Domain)
      | None \<Rightarrow> (pattern, Glob))"

definition strip_bash_colon_wildcard :: "string \<Rightarrow> string" where
  "strip_bash_colon_wildcard pattern = unwrap_or pattern (strip_suffix '':*'' pattern)"

definition unsupported_prefix :: "string \<Rightarrow> bool" where
  "unsupported_prefix s \<longleftrightarrow> s \<in> {''EnterWorktree'', ''NotebookEdit'', ''NotebookRead''}"

definition missing_close :: "rule_parse_error" where
  "missing_close = MalformedRule ''missing closing parenthesis''"

definition some_nonempty :: "string \<Rightarrow> string option" where
  "some_nonempty s = (if s = [] then None else Some s)"

text \<open>The branch of a rule with an opening parenthesis.\<close>

definition parse_paren_rule ::
    "string \<Rightarrow> nat \<Rightarrow> rule_action \<Rightarrow> rule_parse_error + permission_rule" where
  "parse_paren_rule rule open_paren action =
     (let prefix_trimmed = trim (take open_paren rule);
          content_and_close = drop (open_paren + 1) rule
      in case find_last_unescaped content_and_close (CHR '')'') of
        None \<Rightarrow> Inl missing_close
      | Some close_paren \<Rightarrow>
          (let raw_content = trim (take close_paren content_and_close);
               pattern = (if raw_content = [] \<or> raw_content = ''*'' then []
                          else unescape_rule_content raw_content)
           in case tool_name_to_filter prefix_trimmed of
             None \<Rightarrow>
               if unsupported_prefix prefix_trimmed then Inl (UnsupportedToolPrefix prefix_trimmed)
               else Inl (UnknownToolPrefix prefix_trimmed)
           | Some tool \<Rightarrow>
               (let pattern = (if tool = TfBash then strip_bash_colon_wildcard pattern else pattern);
                    (pattern, mode) = strip_domain_prefix pattern
                in Inr \<lparr>rule_act = action, rule_tool = tool,
                    rule_pattern = some_nonempty pattern, rule_mode = mode\<rparr>)))"

text \<open>The branch of a bare word: a tool name, an MCP spelling, or a pattern for any tool.\<close>

definition parse_bare_rule ::
    "string \<Rightarrow> rule_action \<Rightarrow> rule_parse_error + permission_rule" where
  "parse_bare_rule rule action =
     (let result = (\<lambda>tool pattern. Inr \<lparr>rule_act = action, rule_tool = tool,
             rule_pattern = pattern, rule_mode = Glob\<rparr>)
      in if unsupported_prefix rule then Inl (UnsupportedToolPrefix rule)
         else case tool_name_to_filter rule of
           Some tool \<Rightarrow> result tool None
         | None \<Rightarrow>
             (case nonempty (strip_prefix ''mcp__'' rule) of
                Some rest \<Rightarrow>
                  result TfMcp
                    (if rest = ''*'' then None
                     else if contains rest ''__'' then Some rest
                     else Some (rest @ ''__*''))
              | None \<Rightarrow> result TfAny (some_nonempty rule)))"

definition parse_permission_rule ::
    "string \<Rightarrow> rule_action \<Rightarrow> rule_parse_error + permission_rule" where
  "parse_permission_rule rule action =
     (let rule = trim rule
      in case find_first_unescaped rule (CHR ''('') of
        Some open_paren \<Rightarrow> parse_paren_rule rule open_paren action
      | None \<Rightarrow> parse_bare_rule rule action)"

section \<open>Escaping\<close>

text \<open>
  The escapes the parser undoes, written as their inverse: a backslash before every parenthesis
  and every backslash.
\<close>

definition escape_char :: "char \<Rightarrow> string" where
  "escape_char c = (if c \<in> {backslash, CHR ''('', CHR '')''} then [backslash, c] else [c])"

definition escape_rule_content :: "string \<Rightarrow> string" where
  "escape_rule_content s = concat (map escape_char s)"

lemma escape_Nil [simp]: "escape_rule_content [] = []"
  by (simp add: escape_rule_content_def)

lemma escape_Cons [simp]:
  "escape_rule_content (c # s) = escape_char c @ escape_rule_content s"
  by (simp add: escape_rule_content_def)

lemma escape_append [simp]:
  "escape_rule_content (s @ t) = escape_rule_content s @ escape_rule_content t"
  by (simp add: escape_rule_content_def)

lemma escape_eq_Nil [simp]: "escape_rule_content s = [] \<longleftrightarrow> s = []"
  by (cases s) (auto simp: escape_char_def)

text \<open>
  A half-escaped string: some of the three characters still carry their backslash. Each
  replacement removes the backslash of one of them, because the backslashes of a half-escaped
  string come in front of what they escape.
\<close>

definition half_escape :: "char set \<Rightarrow> string \<Rightarrow> string" where
  "half_escape E s = concat (map (\<lambda>c. if c \<in> E then [backslash, c] else [c]) s)"

lemma half_escape_simps [simp]:
  "half_escape E [] = []"
  "half_escape E (c # s) = (if c \<in> E then [backslash, c] else [c]) @ half_escape E s"
  by (simp_all add: half_escape_def)

lemma half_escape_hd:
  "c \<in> E \<Longrightarrow> c \<noteq> backslash \<Longrightarrow> half_escape E s \<noteq> [] \<Longrightarrow> hd (half_escape E s) \<noteq> c"
  by (cases s) auto

lemma starts_with_pair: "starts_with (x # xs) [a, b] \<longleftrightarrow> x = a \<and> xs \<noteq> [] \<and> hd xs = b"
  by (cases xs) (auto simp: starts_with_def)

lemma str_replace_pair:
  "str_replace [a, b] r (x # xs) =
     (if x = a \<and> xs \<noteq> [] \<and> hd xs = b then r @ str_replace [a, b] r (tl xs)
      else x # str_replace [a, b] r xs)"
  by (auto simp: starts_with_pair) (cases xs; simp)

lemma replace_half_escape:
  assumes "c \<in> E" and "backslash \<in> E" and "c \<noteq> backslash"
  shows "str_replace [backslash, c] [c] (half_escape E s) = half_escape (E - {c}) s"
proof (induction s)
  case (Cons x s)
  have "half_escape E s \<noteq> [] \<longrightarrow> hd (half_escape E s) \<noteq> c"
    using half_escape_hd assms by blast
  with Cons assms show ?case
    by (auto simp: str_replace_pair simp del: str_replace.simps)
qed simp

lemma replace_backslashes:
  "str_replace [backslash, backslash] [backslash] (half_escape {backslash} s) = s"
  by (induction s) (auto simp: str_replace_pair simp del: str_replace.simps(2))

lemma escape_half: "escape_rule_content s = half_escape {backslash, CHR ''('', CHR '')''} s"
  by (induction s) (auto simp: escape_char_def)

lemma no_backslash_escape: "backslash \<notin> set (escape_rule_content s) \<Longrightarrow> escape_rule_content s = s"
  by (induction s) (auto simp: escape_char_def split: if_splits)

lemma unescape_escape: "unescape_rule_content (escape_rule_content s) = s"
proof (cases "backslash \<in> set (escape_rule_content s)")
  case True
  have "{backslash, CHR ''('', CHR '')''} - {CHR ''(''} = {backslash, CHR '')''}"
    and "{backslash, CHR '')''} - {CHR '')''} = {backslash}" by auto
  with True show ?thesis
    by (simp add: unescape_rule_content_def escape_half replace_half_escape replace_backslashes)
qed (metis no_backslash_escape unescape_rule_content_def)

text \<open>The backslashes at the end of an escaped text are paired, so what follows is unescaped.\<close>

lemma backslashes_before_append:
  "n \<le> length s \<Longrightarrow> backslashes_before (s @ t) n = backslashes_before s n"
  by (induction n) (auto simp: nth_append)

lemma backslashes_before_skip:
  "t \<noteq> [] \<Longrightarrow> last t \<noteq> backslash \<Longrightarrow> backslashes_before (s @ t @ u) (length s + length t) = 0"
  by (cases t rule: rev_cases) (auto simp: nth_append)

lemma escaped_end_even:
  "even (backslashes_before (escape_rule_content s @ t) (length (escape_rule_content s)))"
proof (induction s arbitrary: t rule: rev_induct)
  case (snoc c s)
  show ?case
  proof (cases "c = backslash")
    case True
    then show ?thesis
      using snoc.IH [of "[backslash, backslash] @ t"]
      by (simp add: escape_char_def nth_append)
  next
    case False
    then show ?thesis
      using backslashes_before_skip [of "escape_char c" "escape_rule_content s" t]
      by (simp add: escape_char_def split: if_splits)
  qed
qed simp

lemma find_last_append:
  "is_unescaped (s @ [c]) (length s) \<Longrightarrow> find_last_unescaped (s @ [c]) c = Some (length s)"
  by (simp add: find_last_unescaped_def)

lemma backslashes_before_none: "backslash \<notin> set s \<Longrightarrow> backslashes_before s n = 0"
  by (induction n) (auto simp: in_set_conv_nth)

lemma find_first_after:
  assumes "c \<notin> set s" and "backslash \<notin> set s"
  shows "find_first_unescaped (s @ c # t) c = Some (length s)"
proof -
  have "backslashes_before (s @ c # t) (length s) = 0"
    using assms(2) by (simp add: backslashes_before_append backslashes_before_none)
  then show ?thesis
    using assms(1) unfolding find_first_unescaped_def is_unescaped_def
    by (subst find_Some_iff) (force simp: nth_append in_set_conv_nth intro: exI [of _ "length s"])
qed

section \<open>Rendering a rule\<close>

text \<open>The text of a rule in the grammar, for a tool name and a pattern.\<close>

definition domain_text :: "pattern_mode \<Rightarrow> string" where
  "domain_text mode = (if mode = Domain then ''domain:'' else [])"

definition render_rule :: "string \<Rightarrow> pattern_mode \<Rightarrow> string option \<Rightarrow> string" where
  "render_rule name mode pattern =
     (case pattern of
        None \<Rightarrow> name
      | Some p \<Rightarrow> name @ ''('' @ escape_rule_content (domain_text mode @ p) @ '')'')"

text \<open>
  What a pattern must satisfy for the grammar to keep it: it begins and ends with a printable
  character, so trimming does not shorten it; it is not the wildcard; it does not begin with the
  domain marker nor, for a Bash rule, end with the colon wildcard; a domain is not a Bash rule's.
\<close>

definition plain_pattern :: "tool_filter \<Rightarrow> pattern_mode \<Rightarrow> string \<Rightarrow> bool" where
  "plain_pattern tool mode p \<longleftrightarrow>
     p \<noteq> [] \<and> is_plain (hd p) \<and> is_plain (last p) \<and>
     (if mode = Domain then tool \<noteq> TfBash
      else p \<noteq> ''*'' \<and> \<not> starts_with p ''domain:'' \<and> (tool = TfBash \<longrightarrow> \<not> ends_with p '':*''))"

lemma last_escape: "s \<noteq> [] \<Longrightarrow> last (escape_rule_content s) = last s"
  by (cases s rule: rev_cases) (auto simp: escape_char_def)

lemma hd_escape: "s \<noteq> [] \<Longrightarrow> hd (escape_rule_content s) \<in> {hd s, backslash}"
  by (cases s) (auto simp: escape_char_def)

lemma escape_star: "escape_rule_content s = ''*'' \<longleftrightarrow> s = ''*''"
  by (cases s) (auto simp: escape_char_def)

lemma is_plain_backslash [simp]: "is_plain backslash"
  by (simp add: is_plain_def)

lemma trim_escape:
  assumes "s \<noteq> []" and "is_plain (hd s)" and "is_plain (last s)"
  shows "trim (escape_rule_content s) = escape_rule_content s"
proof (rule trim_plain)
  show "is_plain (hd (escape_rule_content s))"
    using hd_escape [OF assms(1)] assms(2) by auto
qed (use assms in \<open>simp_all add: last_escape\<close>)

lemma tool_names:
  assumes "tool_name_to_filter name = Some tool"
  shows "name \<in> {''Bash'', ''Read'', ''Edit'', ''Write'', ''MCPTool'', ''Grep'', ''Glob'',
    ''WebFetch'', ''WebSearch'', ''AgentMessage'', ''SendSubagentMessage'', ''SendAgentMessage''}"
  using assms by (auto simp: tool_name_to_filter_def split: if_splits)

lemma tool_name_plain:
  assumes "tool_name_to_filter name = Some tool"
  shows "name \<noteq> []" "is_plain (hd name)" "is_plain (last name)" "CHR ''('' \<notin> set name"
    "backslash \<notin> set name" "\<not> unsupported_prefix name"
  using tool_names [OF assms] by (auto simp: is_plain_def unsupported_prefix_def)

lemma tool_name_trim: "tool_name_to_filter name = Some tool \<Longrightarrow> trim name = name"
  using tool_name_plain by (simp add: trim_plain)

lemma parse_bare_tool_name:
  assumes "tool_name_to_filter name = Some tool"
  shows "parse_permission_rule name action = Inr \<lparr>rule_act = action, rule_tool = tool,
    rule_pattern = None, rule_mode = Glob\<rparr>"
proof -
  have "find_first_unescaped name (CHR ''('') = None"
    using tool_name_plain [OF assms] by (auto simp: find_first_unescaped_def find_None_iff in_set_conv_nth)
  then show ?thesis
    using assms tool_name_plain [OF assms]
    by (simp add: parse_permission_rule_def tool_name_trim parse_bare_rule_def)
qed

text \<open>The text between the parentheses of a rule of the grammar reaches the filters unchanged.\<close>

lemma parse_paren_text:
  assumes name: "tool_name_to_filter name = Some tool"
    and p: "p \<noteq> []" "is_plain (hd p)" "is_plain (last p)" "p \<noteq> ''*''"
  shows "parse_permission_rule (name @ ''('' @ escape_rule_content p @ '')'') action =
    (let (pattern, mode) =
           strip_domain_prefix (if tool = TfBash then strip_bash_colon_wildcard p else p)
     in Inr \<lparr>rule_act = action, rule_tool = tool,
          rule_pattern = some_nonempty pattern, rule_mode = mode\<rparr>)"
proof -
  let ?e = "escape_rule_content p" and ?rule = "name @ CHR ''('' # escape_rule_content p @ '')''"
  note plain = tool_name_plain [OF name]
  have "is_plain (CHR '')'')" by (simp add: is_plain_def)
  with plain have trim_rule: "trim ?rule = ?rule" by (simp add: trim_plain)
  have "find_first_unescaped ?rule (CHR ''('') = Some (length name)"
    using find_first_after [of "CHR ''(''" name "?e @ '')''"] plain by simp
  moreover have "find_last_unescaped (?e @ '')'') (CHR '')'') = Some (length ?e)"
    using escaped_end_even by (intro find_last_append) (simp add: is_unescaped_def)
  ultimately show ?thesis
    using p name
    by (simp add: parse_permission_rule_def trim_rule parse_paren_rule_def tool_name_trim
        trim_escape escape_star unescape_escape)
qed

lemma strip_domain_prefix_marked: "strip_domain_prefix (''domain:'' @ p) = (p, Domain)"
  unfolding strip_domain_prefix_def strip_prefix_append by simp

lemma strip_domain_prefix_other: "\<not> starts_with p ''domain:'' \<Longrightarrow> strip_domain_prefix p = (p, Glob)"
  unfolding strip_domain_prefix_def strip_prefix_None [symmetric] by simp

lemma strip_bash_other: "\<not> ends_with p '':*'' \<Longrightarrow> strip_bash_colon_wildcard p = p"
  unfolding strip_bash_colon_wildcard_def strip_suffix_None [symmetric] by (simp add: unwrap_or_def)

lemma strip_bash_marked: "strip_bash_colon_wildcard (p @ '':*'') = p"
  unfolding strip_bash_colon_wildcard_def strip_suffix_append by (simp add: unwrap_or_def)

text \<open>
  C37. A permission rule written in the grammar parses back to itself: for every tool name the
  parser knows, every pattern of the plain form and both pattern modes, parsing the rendered text
  returns a rule with the given action, the filter of the tool, the pattern and the mode. The
  escapes of parentheses and backslashes are undone exactly, in whatever order they occur.
\<close>
theorem parse_render_rule:
  assumes "tool_name_to_filter name = Some tool"
    and "case pattern of None \<Rightarrow> mode = Glob | Some p \<Rightarrow> plain_pattern tool mode p"
  shows "parse_permission_rule (render_rule name mode pattern) action =
    Inr \<lparr>rule_act = action, rule_tool = tool, rule_pattern = pattern, rule_mode = mode\<rparr>"
proof (cases pattern)
  case None
  with assms show ?thesis by (simp add: render_rule_def parse_bare_tool_name)
next
  case (Some p)
  with assms(2) have p: "plain_pattern tool mode p" by simp
  note text_of = parse_paren_text [OF assms(1)]
  show ?thesis
  proof (cases mode)
    case Glob
    with p Some show ?thesis
      using text_of [of p action]
      by (simp add: render_rule_def plain_pattern_def domain_text_def strip_bash_other
          strip_domain_prefix_other some_nonempty_def)
  next
    case Domain
    with p have "is_plain (last (''domain:'' @ p))" "tool \<noteq> TfBash"
      by (simp_all add: plain_pattern_def)
    with Domain p Some show ?thesis
      using text_of [of "''domain:'' @ p" action] strip_domain_prefix_marked [of p]
      by (simp add: render_rule_def plain_pattern_def domain_text_def is_plain_def some_nonempty_def)
  qed
qed

theorem parse_render_rule_witness:
  "parse_permission_rule (render_rule ''Bash'' Glob (Some ''echo (a) [b]'')) RDeny =
    Inr \<lparr>rule_act = RDeny, rule_tool = TfBash, rule_pattern = Some ''echo (a) [b]'', rule_mode = Glob\<rparr>"
  by (rule parse_render_rule)
    (simp_all add: tool_name_to_filter_def plain_pattern_def is_plain_def starts_with_def ends_with_def)

text \<open>
  The colon wildcard of a Bash rule is a prefix, and the MCP spellings of other tools name the
  server's tools.
\<close>

lemma parse_bash_colon_wildcard:
  assumes "p \<noteq> []" and "is_plain (hd p)" and "\<not> starts_with p ''domain:''"
  shows "parse_permission_rule (''Bash('' @ escape_rule_content (p @ '':*'') @ '')'') action =
    Inr \<lparr>rule_act = action, rule_tool = TfBash, rule_pattern = Some p, rule_mode = Glob\<rparr>"
proof -
  have "tool_name_to_filter ''Bash'' = Some TfBash" by (simp add: tool_name_to_filter_def)
  from parse_paren_text [OF this, where p = "p @ '':*''" and action = action] assms strip_bash_marked [of p]
  show ?thesis
    by (simp add: is_plain_def strip_domain_prefix_other some_nonempty_def)
qed

end
