(* ===== verification/ShellAccess.thy ===== *)
theory ShellAccess imports ShellOperands PolicyEval begin

text \<open>
  The file gate of a shell command (\<^verbatim>\<open>permission/shell_access.rs\<close>): the redirects and the
  invocations of a script, the places where its working directory changes, and the evaluation of
  every path against the file rules, through wrappers, inline scripts and symbolic links. The gate
  only escalates.
\<close>

section \<open>Execution scopes\<close>

text \<open>A byte range; the end of the outermost scope (\<^verbatim>\<open>usize::MAX\<close>) is \<open>None\<close>.\<close>

record execution_scope =
  sc_start :: nat
  sc_end :: "nat option"

definition scope_contains :: "execution_scope \<Rightarrow> execution_scope \<Rightarrow> bool" where
  "scope_contains a b \<longleftrightarrow>
     sc_start a \<le> sc_start b \<and>
     (case sc_end a of
        None \<Rightarrow> True
      | Some e \<Rightarrow> (case sc_end b of None \<Rightarrow> False | Some e' \<Rightarrow> e' \<le> e))"

definition node_scope :: "ts_node \<Rightarrow> execution_scope" where
  "node_scope n = \<lparr>sc_start = ts_start n, sc_end = Some (ts_end n)\<rparr>"

definition next_is_background :: "ts_node \<Rightarrow> nat \<Rightarrow> bool" where
  "next_is_background parent i \<longleftrightarrow>
     (case get_at (ts_children parent) (i + 1) of Some s \<Rightarrow> ts_kind s = ''&'' | None \<Rightarrow> False)"

definition subshell_kinds :: "string list" where
  "subshell_kinds = [''subshell'', ''command_substitution'', ''process_substitution'']"

fun execution_scope_of :: "ts_node \<Rightarrow> ts_ctx \<Rightarrow> execution_scope" where
  "execution_scope_of current [] = \<lparr>sc_start = 0, sc_end = None\<rparr>"
| "execution_scope_of current ((parent, i) # ctx) =
     (if next_is_background parent i then
        node_scope (if ts_kind current = ''list'' then current else parent)
      else if List.member subshell_kinds (ts_kind parent) then node_scope parent
      else if ts_kind parent = ''pipeline'' then node_scope current
      else execution_scope_of parent ctx)"

record cwd_poison =
  cp_at :: nat
  cp_scope :: execution_scope

definition changes_cwd :: "ts_node \<Rightarrow> string \<Rightarrow> bool" where
  "changes_cwd n src \<longleftrightarrow>
     ts_kind n = ''command'' \<and>
     (case child_by_field ''name'' n of
        None \<Rightarrow> False
      | Some name \<Rightarrow>
          List.member [''cd'', ''pushd'', ''popd''] (shell_program_name (utf8_text src name)))"

definition cwd_poison_positions :: "ts_node \<Rightarrow> string \<Rightarrow> cwd_poison list" where
  "cwd_poison_positions root src =
     map (\<lambda>(n, ctx). \<lparr>cp_at = ts_start n, cp_scope = execution_scope_of n ctx\<rparr>)
       (filter (\<lambda>(n, ctx). changes_cwd n src) (ts_walk_in [(root, [])]))"

definition script_has_cwd_change :: "ts_node \<Rightarrow> string \<Rightarrow> bool" where
  "script_has_cwd_change root src \<longleftrightarrow> cwd_poison_positions root src \<noteq> []"

definition cwd_unpinned_before :: "cwd_poison list \<Rightarrow> nat \<Rightarrow> execution_scope \<Rightarrow> bool" where
  "cwd_unpinned_before positions at scope \<longleftrightarrow>
     list_ex (\<lambda>poison. cp_at poison < at \<and>
       (cp_scope poison = scope \<or> scope_contains (cp_scope poison) scope)) positions"

section \<open>Invocations\<close>

text \<open>A word of an invocation is a \<open>shell_word\<close>: literal, or one that expands at run time.\<close>

record shell_invocation =
  iv_start :: nat
  iv_scope :: execution_scope
  iv_words :: "shell_word list"
  iv_wrapper_words :: "string list"

definition literal_words :: "shell_word list \<Rightarrow> string list" where
  "literal_words ws = List.map_filter (\<lambda>w. case w of Literal s \<Rightarrow> Some s | Untrusted \<Rightarrow> None) ws"

definition wrapper_word :: "shell_word \<Rightarrow> string" where
  "wrapper_word w = (case w of Literal s \<Rightarrow> s | Untrusted \<Rightarrow> [nul])"

definition invocation_word :: "string \<Rightarrow> ts_node \<Rightarrow> shell_word option" where
  "invocation_word src child =
     (case (if ts_kind child = ''command_name''
            then Option.bind (get_at (named_children child) 0) (\<lambda>inner. shell_node_arg inner src)
            else shell_node_arg child src) of
        Some (ArgLiteral w) \<Rightarrow> Some (Literal w)
      | Some ArgAmbiguous \<Rightarrow> Some Untrusted
      | None \<Rightarrow> None)"

definition invocation_of :: "string \<Rightarrow> ts_node \<Rightarrow> ts_ctx \<Rightarrow> shell_invocation" where
  "invocation_of src n ctx =
     (let ws = List.map_filter (invocation_word src) (named_children n)
      in \<lparr>iv_start = ts_start n, iv_scope = execution_scope_of n ctx, iv_words = ws,
          iv_wrapper_words = map wrapper_word ws\<rparr>)"

definition shell_command_invocations :: "ts_node \<Rightarrow> string \<Rightarrow> shell_invocation list" where
  "shell_command_invocations root src =
     sort_key iv_start
       (map (\<lambda>(n, ctx). invocation_of src n ctx)
         (filter (\<lambda>(n, ctx). ts_kind n = ''command'') (ts_walk_in [(root, [])])))"

record checked_invocation_peel =
  ci_words :: "shell_word list"
  ci_has_chdir :: bool
  ci_has_split_string :: bool
  ci_env_options_uncertain :: bool
  ci_exhausted :: bool
  ci_transparent_ambiguous :: bool

definition unwrap_invocation_checked :: "shell_invocation \<Rightarrow> checked_invocation_peel" where
  "unwrap_invocation_checked iv =
     (let norm = normalize_command_words (iv_wrapper_words iv);
          peeled_count = length (iv_wrapper_words iv) - length (np_words norm)
      in \<lparr>ci_words = unwrap_or [] (get_from (iv_words iv) peeled_count),
          ci_has_chdir = np_has_chdir norm, ci_has_split_string = np_has_split_string norm,
          ci_env_options_uncertain = np_env_options_uncertain norm,
          ci_exhausted = np_exhausted norm, ci_transparent_ambiguous = np_ambiguous norm\<rparr>)"

definition words_are_opaque_shell :: "shell_word list \<Rightarrow> bool" where
  "words_are_opaque_shell ws \<longleftrightarrow>
     is_potential_inline (shell_dash_c_script ws) \<or>
     (case get_at ws 0 of Some (Literal program) \<Rightarrow> shell_program_name program = ''eval'' | _ \<Rightarrow> False)"

definition tree_has_opaque_shell :: "ts_node \<Rightarrow> string \<Rightarrow> bool" where
  "tree_has_opaque_shell root src \<longleftrightarrow>
     list_ex (\<lambda>iv. words_are_opaque_shell (ci_words (unwrap_invocation_checked iv)))
       (shell_command_invocations root src)"

section \<open>Redirects\<close>

record shell_redirect_target =
  rt_path :: "string option"
  rt_mode :: shell_file_mode
  rt_ambiguous :: bool
  rt_start :: nat
  rt_scope :: execution_scope

text \<open>The operator of a redirect: the first child that has an angle bracket, unless it is a here-document.\<close>

fun redirect_operator :: "ts_node list \<Rightarrow> string option" where
  "redirect_operator [] = None"
| "redirect_operator (c # cs) =
     (if contains (ts_kind c) ''<<'' then None
      else if CHR ''>'' \<in> set (ts_kind c) \<or> CHR ''<'' \<in> set (ts_kind c) then Some (ts_kind c)
      else redirect_operator cs)"

definition shell_redirect_one ::
    "ts_node \<Rightarrow> string \<Rightarrow> (string option \<times> shell_file_mode \<times> bool) option" where
  "shell_redirect_one n src =
     (case redirect_operator (ts_children n) of
        None \<Rightarrow> None
      | Some redirect \<Rightarrow>
          (let mode = (if CHR ''>'' \<in> set redirect then ModeWrite else ModeRead);
               duplicates_fd = (redirect = ''>&'' \<or> redirect = ''<&'')
           in case Option.bind (child_by_field ''destination'' n) (\<lambda>dest. shell_node_arg dest src) of
             None \<Rightarrow> None
           | Some (ArgLiteral s) \<Rightarrow>
               if s = [] \<or> starts_with s ''&'' \<or>
                  (duplicates_fd \<and> (s = ''-'' \<or> list_all is_dec_digit s))
               then None
               else Some (Some s, mode, shell_arg_is_ambiguous s)
           | Some ArgAmbiguous \<Rightarrow> Some (None, mode, True)))"

definition redirect_target :: "string \<Rightarrow> ts_node \<Rightarrow> ts_ctx \<Rightarrow> shell_redirect_target option" where
  "redirect_target src n ctx =
     (if ts_kind n \<noteq> ''file_redirect'' then None
      else map_option (\<lambda>(p, mode, ambiguous).
          \<lparr>rt_path = p, rt_mode = mode, rt_ambiguous = ambiguous, rt_start = ts_start n,
           rt_scope = execution_scope_of n ctx\<rparr>)
        (shell_redirect_one n src))"

definition shell_redirect_targets :: "ts_node \<Rightarrow> string \<Rightarrow> shell_redirect_target list" where
  "shell_redirect_targets root src =
     List.map_filter (\<lambda>(n, ctx). redirect_target src n ctx) (ts_walk_in [(root, [])])"

section \<open>The paths a script writes\<close>

record write_paths_split =
  ws_redirect_paths :: "string list"
  ws_unextracted_write_redirect :: bool
  ws_word_paths :: "string list"
  ws_creation_paths :: "string list"

definition command_write_paths_split :: "ts_node \<Rightarrow> string \<Rightarrow> write_paths_split" where
  "command_write_paths_split root src =
     (let writes = filter (\<lambda>r. rt_mode r = ModeWrite) (shell_redirect_targets root src);
          lines = map (\<lambda>iv. literal_words (iv_words iv)) (shell_command_invocations root src)
      in \<lparr>ws_redirect_paths = List.map_filter rt_path writes,
          ws_unextracted_write_redirect = list_ex (\<lambda>r. rt_path r = None) writes,
          ws_word_paths = concat (map command_words_write_paths lines),
          ws_creation_paths = concat (map command_words_creation_paths lines)\<rparr>)"

definition command_write_paths_in_tree :: "ts_node \<Rightarrow> string \<Rightarrow> string list" where
  "command_write_paths_in_tree root src =
     (let split = command_write_paths_split root src
      in ws_redirect_paths split @ ws_word_paths split)"

section \<open>The evaluation of one path\<close>

definition escalate_access ::
    "policy_env \<Rightarrow> compiled_policy \<Rightarrow> path option \<Rightarrow> access_kind \<Rightarrow> gate_decision option" where
  "escalate_access E p rule_cwd access =
     (case evaluate_lexical_with_cwd E p access rule_cwd of
        Some (Reject reason) \<Rightarrow> Some (GReject reason)
      | Some Ask \<Rightarrow> Some AskRuleMatch
      | _ \<Rightarrow> None)"

text \<open>The absolute spelling of a normalised operand.\<close>

definition anchored :: "path \<Rightarrow> string \<Rightarrow> string" where
  "anchored cwd p = (if is_absolute_shell_path p then p else normalize_shell_path (path_join cwd p))"

definition raw_anchored :: "path \<Rightarrow> bool \<Rightarrow> string \<Rightarrow> string option" where
  "raw_anchored cwd cwd_unpinned raw =
     (if is_absolute_shell_path raw then Some raw
      else if cwd_unpinned then None
      else Some (normalize_shell_path_raw (path_join cwd raw)))"

definition resolved_gate ::
    "policy_env \<Rightarrow> (access_kind \<Rightarrow> gate_decision option) \<Rightarrow> path \<Rightarrow> bool \<Rightarrow> shell_file_mode \<Rightarrow> string
      \<Rightarrow> gate_decision option" where
  "resolved_gate E escalate cwd cwd_unpinned mode tok =
     (case raw_anchored cwd cwd_unpinned (normalize_shell_path_raw tok) of
        None \<Rightarrow> None
      | Some raw_absolute \<Rightarrow>
          (case follow_absolute_symlink E raw_absolute (anchored cwd (normalize_shell_path tok)) of
             SymlinkTarget resolved \<Rightarrow> escalate (shell_access mode resolved)
           | Unresolvable \<Rightarrow> Some AskFailClosed
           | NoSymlink \<Rightarrow> None))"

definition evaluate_shell_path ::
    "policy_env \<Rightarrow> compiled_policy \<Rightarrow> string \<Rightarrow> path \<Rightarrow> shell_file_mode \<Rightarrow> bool
      \<Rightarrow> gate_decision option" where
  "evaluate_shell_path E p tok cwd mode cwd_unpinned =
     (let file = normalize_shell_path tok;
          absolute = is_absolute_shell_path file;
          escalate = escalate_access E p (if absolute \<or> \<not> cwd_unpinned then Some cwd else None);
          resolved = resolved_gate E escalate cwd cwd_unpinned mode tok;
          anchored_decision =
            (if cwd_unpinned \<and> \<not> absolute then None
             else combine_gate_decisions (escalate (shell_access mode (anchored cwd file))) resolved);
          d = combine_gate_decisions (escalate (shell_access mode file)) anchored_decision
      in combine_gate_decisions d (ask_if (cwd_unpinned \<and> \<not> absolute)))"

section \<open>The evaluation of a script\<close>

text \<open>A decision so far, and whether a question is forced at the end.\<close>

type_synonym gate_state = "gate_decision option \<times> bool"

definition evaluate_operand ::
    "policy_env \<Rightarrow> compiled_policy \<Rightarrow> path \<Rightarrow> bool \<Rightarrow> string \<times> shell_file_mode
      \<Rightarrow> gate_state \<Rightarrow> gate_state" where
  "evaluate_operand E p cwd unpinned operand st =
     (combine_gate_decisions (fst st) (evaluate_shell_path E p (fst operand) cwd (snd operand) unpinned),
      snd st \<or> shell_arg_is_ambiguous (fst operand))"

definition redirect_step ::
    "policy_env \<Rightarrow> compiled_policy \<Rightarrow> path \<Rightarrow> bool \<Rightarrow> cwd_poison list \<Rightarrow> shell_redirect_target
      \<Rightarrow> gate_state \<Rightarrow> gate_state" where
  "redirect_step E p cwd cwd_unpinned changes r st =
     (let forced = snd st \<or> rt_ambiguous r in
      case rt_path r of
        None \<Rightarrow> (fst st, forced)
      | Some file \<Rightarrow>
          (combine_gate_decisions (fst st)
             (evaluate_shell_path E p file cwd (rt_mode r)
               (cwd_unpinned \<or> cwd_unpinned_before changes (rt_start r) (rt_scope r))),
           forced))"

text \<open>
  The inline script of an invocation; \<open>inner\<close> evaluates a nested script with the given flag for the
  working directory and is absent when the budget is spent.
\<close>

definition inline_step ::
    "(string \<Rightarrow> bool \<Rightarrow> gate_decision option) option \<Rightarrow> shell_word list \<Rightarrow> bool \<Rightarrow> bool
      \<Rightarrow> gate_state \<Rightarrow> gate_state" where
  "inline_step inner ws unpinned parse_failed st =
     (let script = shell_dash_c_script ws;
          forced = snd st \<or> (parse_failed \<and> script \<noteq> NotInline)
      in case script of
           InlineLiteral i \<Rightarrow>
             (case inner of
                None \<Rightarrow> (fst st, True)
              | Some eval \<Rightarrow>
                  (case get_at ws i of
                     Some (Literal s) \<Rightarrow> (combine_gate_decisions (fst st) (eval s unpinned), forced)
                   | _ \<Rightarrow> (fst st, forced)))
         | NotInline \<Rightarrow> (fst st, forced)
         | _ \<Rightarrow> (fst st, True))"

definition is_known_program :: "string \<Rightarrow> string list \<Rightarrow> bool" where
  "is_known_program program lits \<longleftrightarrow>
     program = ''dd'' \<or> shell_file_mode program \<noteq> None \<or> shell_path_command_operands program lits \<noteq> None"

definition program_modes :: "string \<Rightarrow> string list \<Rightarrow> shell_file_mode list" where
  "program_modes program lits =
     (case shell_file_mode program of
        None \<Rightarrow> []
      | Some mode \<Rightarrow>
          if program = ''sed'' \<and> shell_sed_in_place lits then [ModeRead, ModeWrite] else [mode])"

text \<open>Every operand with the mode it is checked in, in the order of the checks.\<close>

definition file_operands :: "string \<Rightarrow> string list \<Rightarrow> (string \<times> shell_file_mode) list" where
  "file_operands program lits =
     special_file_operands program lits @
     (if program = ''dd'' then []
      else case shell_path_command_operands program lits of
        Some operands \<Rightarrow> operands
      | None \<Rightarrow>
          concat (map (\<lambda>tok. map (\<lambda>mode. (tok, mode)) (program_modes program lits))
            (shell_file_candidates lits)))"

definition recursion_forced :: "string \<Rightarrow> string list \<Rightarrow> bool" where
  "recursion_forced program lits \<longleftrightarrow>
     program \<noteq> ''dd'' \<and> shell_path_command_operands program lits = None \<and>
     program_modes program lits \<noteq> [] \<and>
     shell_reader_can_recurse program lits (shell_file_candidates lits)"

definition operands_step ::
    "policy_env \<Rightarrow> compiled_policy \<Rightarrow> path \<Rightarrow> shell_word list \<Rightarrow> bool \<Rightarrow> bool
      \<Rightarrow> gate_state \<Rightarrow> gate_state" where
  "operands_step E p cwd ws unpinned parse_failed st =
     (case get_at ws 0 of
        Some (Literal w) \<Rightarrow>
          (let program = ascii_lower (shell_program_name w); lits = literal_words ws in
           if List.member [''cd'', ''pushd'', ''popd''] program then st
           else
             (let known = (is_known_program program lits \<and>
                    (unpinned \<or> List.member ws Untrusted \<or> parse_failed));
                  st = fold (evaluate_operand E p cwd unpinned) (file_operands program lits)
                         (fst st, snd st \<or> known)
              in (fst st, snd st \<or> recursion_forced program lits)))
      | _ \<Rightarrow> st)"

definition invocation_unpinned :: "bool \<Rightarrow> cwd_poison list \<Rightarrow> shell_invocation \<Rightarrow> bool" where
  "invocation_unpinned cwd_unpinned changes iv \<longleftrightarrow>
     cwd_unpinned \<or> cwd_unpinned_before changes (iv_start iv) (iv_scope iv) \<or>
     ci_has_chdir (unwrap_invocation_checked iv)"

definition peel_uncertain :: "checked_invocation_peel \<Rightarrow> bool" where
  "peel_uncertain ci \<longleftrightarrow>
     ci_exhausted ci \<or> ci_has_split_string ci \<or> ci_env_options_uncertain ci \<or>
     ci_transparent_ambiguous ci"

definition invocation_step ::
    "policy_env \<Rightarrow> compiled_policy \<Rightarrow> path \<Rightarrow> (string \<Rightarrow> bool \<Rightarrow> gate_decision option) option
      \<Rightarrow> bool \<Rightarrow> bool \<Rightarrow> cwd_poison list \<Rightarrow> shell_invocation \<Rightarrow> gate_state \<Rightarrow> gate_state" where
  "invocation_step E p cwd inner cwd_unpinned parse_failed changes iv st =
     (let peeled = unwrap_invocation_checked iv; ws = ci_words peeled;
          unpinned = invocation_unpinned cwd_unpinned changes iv;
          st = (fst st, snd st \<or> peel_uncertain peeled);
          st = inline_step inner ws unpinned parse_failed st
      in operands_step E p cwd ws unpinned parse_failed st)"

definition script_file_gate ::
    "policy_env \<Rightarrow> compiled_policy \<Rightarrow> path \<Rightarrow> (string \<Rightarrow> bool \<Rightarrow> gate_decision option) option
      \<Rightarrow> string \<Rightarrow> bool \<Rightarrow> bool \<Rightarrow> gate_decision option" where
  "script_file_gate E p cwd inner cmd cwd_unpinned entered_inline =
     (case parse_shell E cmd of
        None \<Rightarrow> ask_if entered_inline
      | Some root \<Rightarrow>
          (let parse_failed = ts_has_error root;
               changes = cwd_poison_positions root cmd;
               st = fold (redirect_step E p cwd cwd_unpinned changes) (shell_redirect_targets root cmd)
                      (None, entered_inline \<and> parse_failed);
               st = fold (invocation_step E p cwd inner cwd_unpinned parse_failed changes)
                      (shell_command_invocations root cmd) st
           in combine_gate_decisions (fst st) (ask_if (snd st))))"

primrec evaluate_shell_file_access_inner ::
    "policy_env \<Rightarrow> compiled_policy \<Rightarrow> path \<Rightarrow> nat \<Rightarrow> string \<Rightarrow> bool \<Rightarrow> bool \<Rightarrow> gate_decision option" where
  "evaluate_shell_file_access_inner E p cwd 0 = script_file_gate E p cwd None"
| "evaluate_shell_file_access_inner E p cwd (Suc n) =
     script_file_gate E p cwd
       (Some (\<lambda>cmd unpinned. evaluate_shell_file_access_inner E p cwd n cmd unpinned True))"

definition evaluate_shell_file_access_gate ::
    "policy_env \<Rightarrow> compiled_policy \<Rightarrow> string \<Rightarrow> path \<Rightarrow> gate_decision option" where
  "evaluate_shell_file_access_gate E p cmd cwd =
     (if cp_has_file_restrictions p
      then evaluate_shell_file_access_inner E p cwd max_inline_shell_depth cmd False False
      else None)"

definition evaluate_shell_file_access ::
    "policy_env \<Rightarrow> compiled_policy \<Rightarrow> string \<Rightarrow> path \<Rightarrow> decision option" where
  "evaluate_shell_file_access E p cmd cwd =
     map_option into_decision (evaluate_shell_file_access_gate E p cmd cwd)"

end
