(* ===== verification/PolicyLaws.thy ===== *)
theory PolicyLaws imports PolicyEval begin

text \<open>
  What a compiled policy decides. The evaluation of one access is compared with a specification
  over the set of rules; the gate for commands is characterised by the commands a script can run,
  through chains, wrappers, inline shell scripts and packed \<^verbatim>\<open>env\<close> strings.
\<close>

section \<open>Evaluating one access\<close>

definition matching :: "policy_env \<Rightarrow> access_kind \<Rightarrow> path option \<Rightarrow> permission_rule \<Rightarrow> bool" where
  "matching E access cwd r \<longleftrightarrow>
     rule_reaches access r \<and> pattern_matches E access r (compile_pattern E r) cwd"

lemma cp_new_rules [simp]: "cp_rules (compiled_policy_new E cfg) = pc_rules cfg"
  by (simp add: cp_rules_def compiled_policy_new_def Let_def)

lemma zip_map_right: "zip xs (map f xs) = map (\<lambda>x. (x, f x)) xs"
  by (induction xs) simp_all

lemma cp_new_zip:
  "zip (cp_rules (compiled_policy_new E cfg)) (cp_matchers (compiled_policy_new E cfg)) =
    map (\<lambda>r. (r, compile_pattern E r)) (pc_rules cfg)"
  unfolding cp_new_rules by (simp add: compiled_policy_new_def Let_def zip_map_right)

lemma scan_rules_spec:
  "scan_rules E access cwd (map (\<lambda>r. (r, compile_pattern E r)) rules) asked allowed =
    (case find (\<lambda>r. matching E access cwd r \<and> rule_act r = RDeny) rules of
       Some r \<Rightarrow> Inl (deny_reason r)
     | None \<Rightarrow> Inr (asked \<or> list_ex (\<lambda>r. matching E access cwd r \<and> rule_act r = RAsk) rules,
                    allowed \<or> list_ex (\<lambda>r. matching E access cwd r \<and> rule_act r = RAllow) rules))"
  by (induction rules arbitrary: asked allowed)
    (auto simp: matching_def split: rule_action.splits option.splits)

text \<open>Which allow rules cover a command.\<close>

definition covers ::
    "policy_env \<Rightarrow> permission_config \<Rightarrow> allow_rule_scope \<Rightarrow> string list \<Rightarrow> bool" where
  "covers E cfg scope words \<longleftrightarrow>
     words \<noteq> [] \<and> (scope = NarrowOnly \<longrightarrow> \<not> head_is_exec_vehicle words) \<and>
     (\<exists>r \<in> set (pc_rules cfg). rule_act r = RAllow \<and> bash_tool (rule_tool r) \<and>
        (scope = NarrowOnly \<longrightarrow> \<not> rule_is_catchall E r) \<and>
        bash_allow_pattern_matches E (join '' '' words) r (compile_pattern E r))"

lemma bash_words_allowed_iff:
  "bash_words_allowed E (compiled_policy_new E cfg) words scope \<longleftrightarrow> covers E cfg scope words"
proof -
  have "zip (zip (cp_rules (compiled_policy_new E cfg)) (cp_matchers (compiled_policy_new E cfg)))
      (cp_catchall (compiled_policy_new E cfg)) =
      map (\<lambda>r. ((r, compile_pattern E r), rule_is_catchall E r)) (pc_rules cfg)"
    unfolding cp_new_zip by (simp add: compiled_policy_new_def Let_def zip_map1 zip_map_right)
  then show ?thesis
    by (auto simp: bash_words_allowed_def covers_def Let_def list_ex_iff)
qed

lemma covers_cong: "set (pc_rules cfg) = set (pc_rules cfg') \<Longrightarrow> covers E cfg = covers E cfg'"
  by (intro ext) (simp add: covers_def)

lemma covers_has_allow: "covers E cfg scope words \<Longrightarrow> cp_has_bash_allow_rules (compiled_policy_new E cfg)"
  by (auto simp: covers_def compiled_policy_new_def Let_def list_ex_iff)

text \<open>The chain of a script over a predicate on words, in place of the policy.\<close>

definition segment_covered ::
    "(string list \<Rightarrow> bool) \<Rightarrow> (string \<Rightarrow> bool) option \<Rightarrow> string list \<Rightarrow> bool" where
  "segment_covered ok inner raw_words =
     (let norm = normalize_command_words raw_words; words = np_words norm in
      np_clean norm \<and> ok words \<and>
      (case shell_dash_c_script (shell_words_of words) of
         InlineLiteral i \<Rightarrow>
           (case (inner, get_at words i) of (Some allowed, Some script) \<Rightarrow> allowed script | _ \<Rightarrow> False)
       | NotInline \<Rightarrow> True
       | _ \<Rightarrow> False))"

definition chain_covered_step ::
    "policy_env \<Rightarrow> (string list \<Rightarrow> bool) \<Rightarrow> (string \<Rightarrow> bool) option \<Rightarrow> string \<Rightarrow> bool" where
  "chain_covered_step E ok inner cmd =
     (case all_commands_from_script (parse_shell E) cmd of
        None \<Rightarrow>
          (case parse_shell E cmd of
             None \<Rightarrow> False
           | Some tree \<Rightarrow> is_eligible (analyze tree cmd) \<and> list_all ok (projections (analyze tree cmd)))
      | Some segments \<Rightarrow> segments \<noteq> [] \<and> list_all (\<lambda>c. segment_covered ok inner (pl_words c)) segments)"

primrec chain_covered :: "policy_env \<Rightarrow> (string list \<Rightarrow> bool) \<Rightarrow> nat \<Rightarrow> string \<Rightarrow> bool" where
  "chain_covered E ok 0 = chain_covered_step E ok None"
| "chain_covered E ok (Suc d) = chain_covered_step E ok (Some (chain_covered E ok d))"

lemma chain_step_covered:
  "chain_allowed_step E (compiled_policy_new E cfg) scope inner =
    chain_covered_step E (covers E cfg scope) inner"
  by (rule ext) (simp add: chain_allowed_step_def chain_covered_step_def segment_allowed_def
      segment_covered_def recovered_commands_def bash_words_allowed_iff Let_def
      split: option.split)

lemma chain_allowed_iff:
  "bash_chain_fully_allowed E (compiled_policy_new E cfg) scope d = chain_covered E (covers E cfg scope) d"
  by (induction d) (simp_all add: chain_step_covered)

lemma segment_covered_ok: "segment_covered ok inner ws \<Longrightarrow> ok (np_words (normalize_command_words ws))"
  by (simp add: segment_covered_def Let_def)

lemma chain_covered_step_some: "chain_covered_step E ok inner cmd \<Longrightarrow> \<exists>words. ok words"
proof (cases "all_commands_from_script (parse_shell E) cmd")
  case None
  assume chain: "chain_covered_step E ok inner cmd"
  with None obtain tree where "is_eligible (analyze tree cmd)"
    "list_all ok (projections (analyze tree cmd))"
    by (auto simp: chain_covered_step_def split: option.splits)
  moreover from this have "projections (analyze tree cmd) \<noteq> []"
    using eligible_projections(1) eligible_readers(3) by simp
  ultimately show ?thesis by (cases "projections (analyze tree cmd)") auto
next
  case (Some segments)
  assume "chain_covered_step E ok inner cmd"
  with Some show ?thesis
    by (cases segments) (auto simp: chain_covered_step_def dest: segment_covered_ok)
qed

lemma chain_covered_some: "chain_covered E ok d cmd \<Longrightarrow> \<exists>words. ok words"
  by (cases d) (auto dest: chain_covered_step_some)

text \<open>The specification: deny before ask before allow, over the set of rules.\<close>

definition policy_spec ::
    "policy_env \<Rightarrow> permission_config \<Rightarrow> access_kind \<Rightarrow> path option \<Rightarrow> decision option" where
  "policy_spec E cfg access cwd =
     (case find (\<lambda>r. matching E access cwd r \<and> rule_act r = RDeny) (pc_rules cfg) of
        Some r \<Rightarrow> Some (Reject (deny_reason r))
      | None \<Rightarrow>
          if \<exists>r \<in> set (pc_rules cfg). matching E access cwd r \<and> rule_act r = RAsk then Some Ask
          else if (case access of
              AcBash cmd \<Rightarrow> chain_covered E (covers E cfg ScopeAny) max_inline_shell_depth cmd
            | _ \<Rightarrow> \<exists>r \<in> set (pc_rules cfg). matching E access cwd r \<and> rule_act r = RAllow)
          then Some Allow else None)"

lemma evaluate_lexical:
  "evaluate_lexical_with_cwd E (compiled_policy_new E cfg) access cwd = policy_spec E cfg access cwd"
proof -
  let ?p = "compiled_policy_new E cfg"
  have bash: "cp_has_bash_allow_rules ?p \<and> bash_chain_fully_allowed E ?p ScopeAny max_inline_shell_depth cmd
      \<longleftrightarrow> chain_covered E (covers E cfg ScopeAny) max_inline_shell_depth cmd" for cmd
    unfolding chain_allowed_iff using chain_covered_some covers_has_allow by meson
  show ?thesis
    unfolding evaluate_lexical_with_cwd_def cp_new_zip scan_rules_spec policy_spec_def bash list_ex_iff
    by (simp split: option.split access_kind.split)
qed

lemma find_None_set: "find P xs = None \<longleftrightarrow> \<not> (\<exists>x \<in> set xs. P x)"
  by (auto simp: find_None_iff)

lemma policy_spec_rank:
  "decision_rank_opt (policy_spec E cfg access cwd) =
    (if \<exists>r \<in> set (pc_rules cfg). matching E access cwd r \<and> rule_act r = RDeny then 4
     else if \<exists>r \<in> set (pc_rules cfg). matching E access cwd r \<and> rule_act r = RAsk then 3
     else if (case access of
         AcBash cmd \<Rightarrow> chain_covered E (covers E cfg ScopeAny) max_inline_shell_depth cmd
       | _ \<Rightarrow> \<exists>r \<in> set (pc_rules cfg). matching E access cwd r \<and> rule_act r = RAllow) then 2
     else 0)"
proof (cases "find (\<lambda>r. matching E access cwd r \<and> rule_act r = RDeny) (pc_rules cfg)")
  case None
  then have "\<not> (\<exists>r \<in> set (pc_rules cfg). matching E access cwd r \<and> rule_act r = RDeny)"
    by (rule iffD1 [OF find_None_set])
  then show ?thesis
    unfolding policy_spec_def None by (simp add: decision_rank_opt_def)
next
  case (Some r)
  then have "\<exists>r \<in> set (pc_rules cfg). matching E access cwd r \<and> rule_act r = RDeny"
    by (auto simp: find_Some_iff)
  with Some show ?thesis by (simp add: policy_spec_def decision_rank_opt_def)
qed

text \<open>
  The order of the rules and their repetition do not matter: two policies with the same set of
  rules decide every access alike (both reject, both ask, both allow, or both leave it open).
\<close>
theorem policy_order_independent:
  assumes "set (pc_rules cfg) = set (pc_rules cfg')"
  shows "decision_rank_opt (evaluate_lexical_with_cwd E (compiled_policy_new E cfg) access cwd) =
    decision_rank_opt (evaluate_lexical_with_cwd E (compiled_policy_new E cfg') access cwd)"
  unfolding evaluate_lexical policy_spec_rank assms covers_cong [OF assms] by simp

definition plain_env :: policy_env where
  "plain_env = \<lparr>glob_new = (\<lambda>p. Some (\<lambda>path_ctx text. text = p)), url_host = (\<lambda>u. Some u),
     to_lowercase = ascii_lower, parse_shell = (\<lambda>_. None), fs_canonicalize = (\<lambda>p. Some p),
     fs_symlink_metadata = (\<lambda>_. MetaOther), fs_read_link = (\<lambda>_. None)\<rparr>"

definition edit_rule :: "rule_action \<Rightarrow> string option \<Rightarrow> permission_rule" where
  "edit_rule act pat = \<lparr>rule_act = act, rule_tool = TfEdit, rule_pattern = pat, rule_mode = Glob\<rparr>"

theorem policy_order_independent_witness:
  "decision_rank_opt (evaluate_lexical_with_cwd plain_env (compiled_policy_new plain_env
      (permission_config_new [edit_rule RAllow None, edit_rule RDeny (Some ''/etc/passwd'')]))
      (AcEdit ''/etc/passwd'') None) =
    decision_rank_opt (evaluate_lexical_with_cwd plain_env (compiled_policy_new plain_env
      (permission_config_new [edit_rule RDeny (Some ''/etc/passwd''), edit_rule RAllow None]))
      (AcEdit ''/etc/passwd'') None)"
  by (rule policy_order_independent) (auto simp: permission_config_new_def)

text \<open>
  A policy grows monotonically: with more rules a rejection stays a rejection, and an access
  that had to be asked about is at least asked about, whatever the added rules allow.
\<close>
theorem more_rules_never_loosen:
  assumes "set (pc_rules cfg) \<subseteq> set (pc_rules cfg')"
    and "3 \<le> decision_rank_opt (evaluate_lexical_with_cwd E (compiled_policy_new E cfg) access cwd)"
  shows "decision_rank_opt (evaluate_lexical_with_cwd E (compiled_policy_new E cfg) access cwd) \<le>
    decision_rank_opt (evaluate_lexical_with_cwd E (compiled_policy_new E cfg') access cwd)"
proof -
  from assms(2) have "(\<exists>r \<in> set (pc_rules cfg). matching E access cwd r \<and> rule_act r = RDeny) \<or>
      (\<exists>r \<in> set (pc_rules cfg). matching E access cwd r \<and> rule_act r = RAsk)"
    unfolding evaluate_lexical policy_spec_rank by (simp split: if_splits)
  with assms(1) show ?thesis
    unfolding evaluate_lexical policy_spec_rank by auto
qed

theorem more_rules_never_loosen_witness:
  "decision_rank_opt (evaluate_lexical_with_cwd plain_env (compiled_policy_new plain_env
      (permission_config_new [edit_rule RAsk None])) (AcEdit ''/tmp/x'') None) \<le>
    decision_rank_opt (evaluate_lexical_with_cwd plain_env (compiled_policy_new plain_env
      (permission_config_new [edit_rule RAllow None, edit_rule RAsk None])) (AcEdit ''/tmp/x'') None)"
proof (rule more_rules_never_loosen)
  show "3 \<le> decision_rank_opt (evaluate_lexical_with_cwd plain_env (compiled_policy_new plain_env
      (permission_config_new [edit_rule RAsk None])) (AcEdit ''/tmp/x'') None)"
    by code_simp
qed (auto simp: permission_config_new_def)

section \<open>Symbolic links\<close>

lemma evaluate_with_cwd_lexical:
  "native_file_path access = None \<Longrightarrow>
    evaluate_with_cwd E p access cwd = evaluate_lexical_with_cwd E p access cwd"
  by (simp add: evaluate_with_cwd_def evaluate_with_cwd_details_def)

lemma evaluate_bash: "evaluate E p (AcBash cmd) = evaluate_lexical_with_cwd E p (AcBash cmd) None"
  by (simp add: evaluate_def evaluate_with_cwd_lexical)

text \<open>
  Following symbolic links never loosens a decision: the decision with the links followed
  ranks at least as high as the one on the spelling alone; and when the spelling leads through a
  link to a target that a deny rule rejects, the access is rejected.
\<close>
theorem symlinks_only_escalate:
  "decision_rank_opt (evaluate_lexical_with_cwd E p access cwd) \<le>
     decision_rank_opt (evaluate_with_cwd E p access cwd) \<and>
   (\<nexists>file raw target reason. native_file_path access = Some file \<and>
      raw_absolute_tool_path file cwd = Some raw \<and>
      follow_absolute_symlink E raw (path_match_string (absolute_normalized_path file cwd)) =
        SymlinkTarget target \<and>
      evaluate_lexical_with_cwd E p (access_with_path access target) cwd = Some (Reject reason) \<and>
      decision_rank_opt (evaluate_with_cwd E p access cwd) \<noteq> 4)"
proof
  show "decision_rank_opt (evaluate_lexical_with_cwd E p access cwd) \<le>
     decision_rank_opt (evaluate_with_cwd E p access cwd)"
    unfolding evaluate_with_cwd_def evaluate_with_cwd_details_def Let_def
    by (simp add: decide.never_loosens split: option.split symlink_follow.split)
  have four: "decision_rank_opt d \<le> 4" for d
  proof (cases d)
    case (Some x)
    then show ?thesis by (cases x) (simp_all add: decision_rank_opt_def)
  qed (simp add: decision_rank_opt_def)
  have "decision_rank_opt (combine_decisions d (Some (Reject reason))) = 4" for d reason
    using four [of d] decide.rank_comb [of d "Some (Reject reason)"]
    by (simp add: decision_rank_opt_def)
  then show "\<nexists>file raw target reason. native_file_path access = Some file \<and>
      raw_absolute_tool_path file cwd = Some raw \<and>
      follow_absolute_symlink E raw (path_match_string (absolute_normalized_path file cwd)) =
        SymlinkTarget target \<and>
      evaluate_lexical_with_cwd E p (access_with_path access target) cwd = Some (Reject reason) \<and>
      decision_rank_opt (evaluate_with_cwd E p access cwd) \<noteq> 4"
    by (auto simp: evaluate_with_cwd_def evaluate_with_cwd_details_def Let_def)
qed

section \<open>The commands a script can run\<close>

text \<open>
  The commands of a script as the gate sees them: the words of its plain commands, or the
  projections of the recovered script. A command leads to further scripts: the literal argument
  of a shell's \<^verbatim>\<open>-c\<close>, and the packed string of \<^verbatim>\<open>env -S\<close>.
\<close>

definition script_commands :: "policy_env \<Rightarrow> string \<Rightarrow> string list list" where
  "script_commands E cmd =
     (case all_commands_from_script (parse_shell E) cmd of
        Some segments \<Rightarrow> map pl_words segments
      | None \<Rightarrow>
          (case parse_shell E cmd of
             None \<Rightarrow> []
           | Some tree \<Rightarrow> projections (analyze tree cmd)))"

definition inner_words :: "string list \<Rightarrow> string list" where
  "inner_words words = np_words (normalize_command_words words)"

definition inline_script :: "string list \<Rightarrow> string \<Rightarrow> bool" where
  "inline_script words s \<longleftrightarrow>
     (\<exists>i. shell_dash_c_script (shell_words_of (inner_words words)) = InlineLiteral i \<and>
          get_at (inner_words words) i = Some s)"

definition packed_script :: "string list \<Rightarrow> string \<Rightarrow> bool" where
  "packed_script words s \<longleftrightarrow> env_split_string_script (inner_words words) = Some s"

inductive runs :: "policy_env \<Rightarrow> nat \<Rightarrow> string \<Rightarrow> string list \<Rightarrow> bool" for E :: policy_env where
  direct: "words \<in> set (script_commands E cmd) \<Longrightarrow> runs E d cmd words"
| inline: "words \<in> set (script_commands E cmd) \<Longrightarrow> inline_script words s \<Longrightarrow> runs E d s ws \<Longrightarrow>
    runs E (Suc d) cmd ws"
| packed: "words \<in> set (script_commands E cmd) \<Longrightarrow> packed_script words s \<Longrightarrow> runs E d s ws \<Longrightarrow>
    runs E (Suc d) cmd ws"

inductive_cases runs_0: "runs E 0 cmd ws"
inductive_cases runs_Suc: "runs E (Suc d) cmd ws"

text \<open>The two texts of a command that the rules are matched against.\<close>

definition rule_texts :: "string list \<Rightarrow> string set" where
  "rule_texts words = {join '' '' words, join '' '' (inner_words words)}"

lemma same_length_inner: "length (inner_words ws) = length ws \<Longrightarrow> inner_words ws = ws"
  unfolding inner_words_def using normalize_words_suffix is_suffix_same_length by blast

lemma forms_texts:
  "(\<exists>w \<in> set (ws # (if length (inner_words ws) \<noteq> length ws then [inner_words ws] else [])).
      P (join '' '' w)) \<longleftrightarrow> (\<exists>text \<in> rule_texts ws. P text)"
  using same_length_inner [of ws] by (auto simp: rule_texts_def split: if_splits)

lemma gate_rank_le: "gate_rank_opt d \<le> 3"
proof (cases d)
  case (Some g)
  then show ?thesis by (cases g) (simp_all add: gate_rank_opt_def)
qed (simp add: gate_rank_opt_def)

lemma rank_ask_if: "gate_rank_opt (ask_if b) = (if b then 1 else 0)"
  by (simp add: ask_if_def gate_rank_opt_def)

lemma rank_escalate:
  "gate_rank_opt (escalate_words E p w) =
    decision_rank_opt (escalation_only (evaluate E p (AcBash (join '' '' w)))) - 1"
  by (simp add: escalate_words_def gate_rank_opt_def decision_rank_opt_def split: option.split decision.split)

lemma rank_escalate_ge:
  "1 < m \<Longrightarrow> m \<le> gate_rank_opt (escalate_words E p w) \<longleftrightarrow>
    Suc m \<le> decision_rank_opt (escalation_only (evaluate E p (AcBash (join '' '' w))))"
  unfolding rank_escalate by auto

text \<open>The rank a command contributes to the gate, for ranks above the fail-closed one.\<close>

lemma command_words_rank:
  assumes "1 < m"
  shows "m \<le> gate_rank_opt (evaluate_command_words E p inner ws) \<longleftrightarrow>
    (\<exists>text \<in> rule_texts ws. Suc m \<le> decision_rank_opt (escalation_only (evaluate E p (AcBash text)))) \<or>
    (\<exists>gate s. inner = Some gate \<and> (inline_script ws s \<or> packed_script ws s) \<and> m \<le> gate_rank_opt (gate s))"
proof -
  have rank1: "\<not> m \<le> gate_rank_opt (Some AskFailClosed)"
    using assms by (simp add: gate_rank_opt_def)
  have none: "\<not> m \<le> gate_rank_opt None" using assms by (simp add: gate_rank_opt_def)
  have recurse: "m \<le> gate_rank_opt (recurse_or_ask inner script) \<longleftrightarrow>
      (\<exists>gate s. inner = Some gate \<and> script = Some s \<and> m \<le> gate_rank_opt (gate s))" for script
    using rank1 by (auto simp: recurse_or_ask_def split: option.split)
  have inline: "m \<le> gate_rank_opt (inline_gate inner (inner_words ws)) \<longleftrightarrow>
      (\<exists>gate s. inner = Some gate \<and> inline_script ws s \<and> m \<le> gate_rank_opt (gate s))"
    using rank1 none recurse
    by (auto simp: inline_gate_def inline_script_def split: inline_shell_script.split)
  have packed: "m \<le> gate_rank_opt (split_string_gate inner (inner_words ws)) \<longleftrightarrow>
      (\<exists>gate s. inner = Some gate \<and> packed_script ws s \<and> m \<le> gate_rank_opt (gate s))"
    using none recurse by (auto simp: split_string_gate_def packed_script_def split: option.split)
  show ?thesis
    unfolding evaluate_command_words_def Let_def inner_words_def [symmetric] gate.rank_comb
      le_max_iff_disj gate.rank_fold_iff rank_ask_if rank_escalate_ge [OF assms] inline packed
      forms_texts [where P = "\<lambda>s. Suc m \<le> decision_rank_opt (escalation_only (evaluate E p (AcBash s)))"]
    using assms by auto
qed

text \<open>The rank of a script is the highest rank of a command it can run.\<close>

definition text_rank_ge :: "policy_env \<Rightarrow> compiled_policy \<Rightarrow> nat \<Rightarrow> string list \<Rightarrow> bool" where
  "text_rank_ge E p m ws \<longleftrightarrow>
     (\<exists>text \<in> rule_texts ws. Suc m \<le> decision_rank_opt (escalation_only (evaluate E p (AcBash text))))"

lemma segments_step_rank:
  assumes "1 < m"
  shows "m \<le> gate_rank_opt (segments_gate_step E p inner cmd) \<longleftrightarrow>
    (\<exists>ws \<in> set (script_commands E cmd). m \<le> gate_rank_opt (evaluate_command_words E p inner ws))"
proof (cases "all_commands_from_script (parse_shell E) cmd")
  case None
  show ?thesis
  proof (cases "parse_shell E cmd")
    case None
    with \<open>all_commands_from_script _ _ = None\<close> assms show ?thesis
      by (simp add: segments_gate_step_def script_commands_def recovered_commands_def gate_rank_opt_def)
  next
    case (Some tree)
    with None assms show ?thesis
      by (simp add: segments_gate_step_def script_commands_def recovered_commands_def Let_def
          gate.rank_fold_iff rank_ask_if)
  qed
next
  case (Some segments)
  with assms show ?thesis
    by (simp add: segments_gate_step_def script_commands_def Let_def gate.rank_fold_iff gate.rank_None)
qed

lemma segments_rank:
  assumes "1 < m"
  shows "m \<le> gate_rank_opt (evaluate_bash_command_segments E p d cmd) \<longleftrightarrow>
    (\<exists>ws. runs E d cmd ws \<and> text_rank_ge E p m ws)"
proof (induction d arbitrary: cmd)
  case 0
  then show ?case
    using assms
    by (auto simp: segments_step_rank command_words_rank text_rank_ge_def elim: runs_0 intro: runs.direct)
next
  case (Suc d)
  have "m \<le> gate_rank_opt (evaluate_bash_command_segments E p (Suc d) cmd) \<longleftrightarrow>
      (\<exists>ws \<in> set (script_commands E cmd). text_rank_ge E p m ws \<or>
        (\<exists>s. (inline_script ws s \<or> packed_script ws s) \<and>
          (\<exists>w. runs E d s w \<and> text_rank_ge E p m w)))"
    using assms Suc by (simp add: segments_step_rank command_words_rank text_rank_ge_def)
  also have "\<dots> \<longleftrightarrow> (\<exists>ws. runs E (Suc d) cmd ws \<and> text_rank_ge E p m ws)"
    by (blast elim: runs_Suc intro: runs.intros)
  finally show ?case .
qed

lemma decision_rank_4: "4 \<le> decision_rank_opt (escalation_only d) \<longleftrightarrow> (\<exists>r. d = Some (Reject r))"
proof (cases d)
  case (Some x)
  then show ?thesis by (cases x) (simp_all add: decision_rank_opt_def)
qed (simp add: decision_rank_opt_def)

lemma spec_rejects:
  "(\<exists>r. policy_spec E cfg access cwd = Some (Reject r)) \<longleftrightarrow>
    (\<exists>r \<in> set (pc_rules cfg). matching E access cwd r \<and> rule_act r = RDeny)"
proof -
  have "(\<exists>r. d = Some (Reject r)) \<longleftrightarrow> 4 \<le> decision_rank_opt d" if "\<nexists>r. d = Some (PolicyDeny r)" for d
  proof (cases d)
    case (Some x)
    with that show ?thesis by (cases x) (simp_all add: decision_rank_opt_def)
  qed (simp add: decision_rank_opt_def)
  moreover have "policy_spec E cfg access cwd \<noteq> Some (PolicyDeny r)" for r
    by (simp add: policy_spec_def split: option.split)
  ultimately show ?thesis by (simp add: policy_spec_rank)
qed

lemma gate_rejects: "(\<exists>r. map_option into_decision g = Some (Reject r)) \<longleftrightarrow> 3 \<le> gate_rank_opt g"
proof (cases g)
  case (Some x)
  then show ?thesis by (cases x) (simp_all add: gate_rank_opt_def)
qed (simp add: gate_rank_opt_def)

lemma deny_reaches_bash_tool:
  assumes "r \<in> set (pc_rules cfg)" and "rule_act r = RDeny" and "matching E (AcBash text) cwd r"
  shows "cp_has_bash_command_restrictions (compiled_policy_new E cfg)"
proof -
  have "bash_tool (rule_tool r)"
    using assms(3) by (cases "rule_tool r") (auto simp: matching_def rule_reaches_def
        tool_filter_matches_def bash_tool_def split: if_splits)
  with assms(1,2) show ?thesis
    by (auto simp: compiled_policy_new_def Let_def list_ex_iff restricts_def)
qed

text \<open>
  C9. A denied command cannot hide in a script, and nothing else is rejected: the gate rejects a
  script exactly when some command the script can run (chained, behind wrappers and transparent
  prefixes, in the inline script of a shell or in a packed \<^verbatim>\<open>env\<close> string, nested up to the
  budget of eight) has a text, as written or with its wrappers peeled, that a deny rule matches.
\<close>
theorem command_gate_rejects_iff:
  "(\<exists>reason. evaluate_bash_command_policy E (compiled_policy_new E cfg) cmd = Some (Reject reason)) \<longleftrightarrow>
    (\<exists>words text r. runs E max_inline_shell_depth cmd words \<and> text \<in> rule_texts words \<and>
       r \<in> set (pc_rules cfg) \<and> rule_act r = RDeny \<and> matching E (AcBash text) None r)"
proof -
  let ?p = "compiled_policy_new E cfg"
  have denied: "(\<exists>r. evaluate E ?p (AcBash line) = Some (Reject r)) \<longleftrightarrow>
      (\<exists>r \<in> set (pc_rules cfg). matching E (AcBash line) None r \<and> rule_act r = RDeny)" for line
    by (simp add: evaluate_bash evaluate_lexical spec_rejects)
  have rank: "text_rank_ge E ?p 3 ws \<longleftrightarrow> (\<exists>text \<in> rule_texts ws. \<exists>r \<in> set (pc_rules cfg).
      matching E (AcBash text) None r \<and> rule_act r = RDeny)" for ws
    unfolding text_rank_ge_def using decision_rank_4 denied by auto
  show ?thesis
  proof (cases "cp_has_bash_command_restrictions ?p")
    case True
    then show ?thesis
      unfolding evaluate_bash_command_policy_def gate_rejects evaluate_bash_command_gate_def
      by (auto simp: segments_rank rank)
  next
    case False
    then show ?thesis
      using deny_reaches_bash_tool
      by (auto simp: evaluate_bash_command_policy_def evaluate_bash_command_gate_def)
  qed
qed

end
