(* ===== verification/PolicyAllow.thy ===== *)
theory PolicyAllow imports PolicyLaws begin

text \<open>
  What an allowed command may do: the specification of an evaluation, the soundness of the
  conjunctive allow rules for scripts, the narrow scope that may skip the classifier, the
  fail-closed side of the command gate, and the command lines on which peeling wrappers loses the
  command.
\<close>

section \<open>Readers are not peeled\<close>

lemma reader_head_plain:
  assumes "ws \<noteq> []" and "hd ws \<in> set reader_heads"
  shows "first_segment ws = Some (hd ws)" "\<not> is_wrapper_command ws" "wrapper_inner_start ws = None"
    "strip_transparent_prefix ws = NotPrefix" "shell_dash_c_script (shell_words_of ws) = NotInline"
proof -
  obtain h t where ws: "ws = h # t" using assms(1) by (cases ws) auto
  from assms(2) ws have h: "h \<in> {''ls'', ''rg'', ''echo'', ''head'', ''tail''}"
    by (simp add: reader_heads_def)
  then have seg: "last_segment h = h" by (auto simp: last_segment_def)
  with ws show first: "first_segment ws = Some (hd ws)" by (simp add: first_segment_def)
  with h ws show "\<not> is_wrapper_command ws" by (auto simp: is_wrapper_command_def)
  from first h ws show "wrapper_inner_start ws = None" by (auto simp: wrapper_inner_start_def Let_def)
  from seg h ws show "strip_transparent_prefix ws = NotPrefix"
    by (auto simp: strip_transparent_prefix_def)
  from seg h ws show "shell_dash_c_script (shell_words_of ws) = NotInline"
    by (auto simp: shell_dash_c_script_def shell_words_of_def inline_shells_def)
qed

lemma reader_unwrap:
  assumes "ws \<noteq> []" and "hd ws \<in> set reader_heads"
  shows "unwrap_wrappers_checked ws = \<lparr>wp_words = ws, wp_has_chdir = False,
    wp_has_split_string = False, wp_env_options_uncertain = False, wp_exhausted = False\<rparr>"
proof -
  note plain = reader_head_plain [OF assms]
  have "strip_wrapper_command ws = None"
    by (simp add: strip_wrapper_command_def plain(3))
  moreover have "hd ws \<noteq> ''env''"
    using assms(2) by (auto simp: reader_heads_def)
  ultimately show ?thesis
    by (simp add: unwrap_wrappers_checked_def max_wrapper_depth_def eval_nat_numeral note_env_def plain(1))
qed

lemma reader_normalize:
  assumes "ws \<noteq> []" and "hd ws \<in> set reader_heads"
  shows "inner_words ws = ws" "np_clean (normalize_command_words ws)"
proof -
  note plain = reader_head_plain [OF assms]
  have round: "normalize_round \<lparr>np_words = ws, np_has_chdir = False, np_has_split_string = False,
      np_env_options_uncertain = False, np_exhausted = False, np_ambiguous = False\<rparr> =
      (\<lparr>np_words = ws, np_has_chdir = False, np_has_split_string = False,
      np_env_options_uncertain = False, np_exhausted = False, np_ambiguous = False\<rparr>, True)"
    by (simp add: normalize_round_def reader_unwrap [OF assms] peel_transparent_prefixes_def
        max_transparent_prefix_depth_def eval_nat_numeral plain(4))
  have "max_normalize_rounds = Suc 15"
    by (simp add: max_normalize_rounds_def max_wrapper_depth_def max_transparent_prefix_depth_def)
  moreover have "normalize_rounds (Suc n) \<lparr>np_words = ws, np_has_chdir = False,
      np_has_split_string = False, np_env_options_uncertain = False, np_exhausted = False,
      np_ambiguous = False\<rparr> = \<lparr>np_words = ws, np_has_chdir = False, np_has_split_string = False,
      np_env_options_uncertain = False, np_exhausted = False, np_ambiguous = False\<rparr>" for n
    by (simp add: round)
  ultimately have "normalize_rounds max_normalize_rounds \<lparr>np_words = ws, np_has_chdir = False,
      np_has_split_string = False, np_env_options_uncertain = False, np_exhausted = False,
      np_ambiguous = False\<rparr> = \<lparr>np_words = ws, np_has_chdir = False, np_has_split_string = False,
      np_env_options_uncertain = False, np_exhausted = False, np_ambiguous = False\<rparr>"
    by metis
  then have "normalize_command_words ws = \<lparr>np_words = ws, np_has_chdir = False,
      np_has_split_string = False, np_env_options_uncertain = False, np_exhausted = False,
      np_ambiguous = False\<rparr>"
    by (simp add: normalize_command_words_def still_peelable_def plain(2,4))
  then show "inner_words ws = ws" "np_clean (normalize_command_words ws)"
    by (simp_all add: inner_words_def np_clean_def)
qed

section \<open>Allowed scripts\<close>

text \<open>The commands of a script and of the inline scripts of its shells, to any depth.\<close>

inductive runs_inline :: "policy_env \<Rightarrow> string \<Rightarrow> string list \<Rightarrow> bool" for E :: policy_env where
  here: "words \<in> set (script_commands E cmd) \<Longrightarrow> runs_inline E cmd words"
| nested: "words \<in> set (script_commands E cmd) \<Longrightarrow> inline_script words s \<Longrightarrow> runs_inline E s ws \<Longrightarrow>
    runs_inline E cmd ws"

lemma segment_covered_clean:
  "segment_covered ok inner ws \<Longrightarrow> np_clean (normalize_command_words ws) \<and> ok (inner_words ws)"
  by (simp add: segment_covered_def inner_words_def Let_def)

lemma segment_covered_inline:
  "segment_covered ok inner ws \<Longrightarrow> inline_script ws s \<Longrightarrow> \<exists>allowed. inner = Some allowed \<and> allowed s"
  by (auto simp: segment_covered_def inline_script_def inner_words_def Let_def split: option.splits)

lemma recovered_projection:
  assumes "is_eligible (analyze tree cmd)" and "ws \<in> set (projections (analyze tree cmd))"
  shows "inner_words ws = ws" "np_clean (normalize_command_words ws)" "\<not> inline_script ws s"
proof -
  from eligible_projections(2) [OF assms(1)] assms(2)
  have ws: "ws \<noteq> []" "hd ws \<in> set reader_heads" by auto
  show "inner_words ws = ws" "np_clean (normalize_command_words ws)"
    by (rule reader_normalize [OF ws])+
  then show "\<not> inline_script ws s"
    using reader_head_plain(5) [OF ws] by (simp add: inline_script_def)
qed

lemma chain_step_here:
  assumes "chain_covered_step E ok inner cmd" and "ws \<in> set (script_commands E cmd)"
  shows "np_clean (normalize_command_words ws) \<and> ok (inner_words ws) \<and>
    (inline_script ws s \<longrightarrow> (\<exists>allowed. inner = Some allowed \<and> allowed s))"
proof (cases "all_commands_from_script (parse_shell E) cmd")
  case None
  with assms obtain tree where tree: "is_eligible (analyze tree cmd)"
      "list_all ok (projections (analyze tree cmd))" "ws \<in> set (projections (analyze tree cmd))"
    by (auto simp: chain_covered_step_def script_commands_def split: option.splits)
  with recovered_projection [OF tree(1,3)] show ?thesis by (auto simp: list_all_iff)
next
  case (Some segments)
  with assms obtain c where "c \<in> set segments" "ws = pl_words c" "segment_covered ok inner (pl_words c)"
    by (auto simp: chain_covered_step_def script_commands_def list_all_iff)
  then show ?thesis
    using segment_covered_clean segment_covered_inline by auto
qed

lemma chain_covered_cases:
  "\<exists>inner. chain_covered E ok d = chain_covered_step E ok inner \<and>
    (\<forall>f. inner = Some f \<longrightarrow> (\<exists>d'. f = chain_covered E ok d'))"
  by (cases d) auto

lemma chain_covered_runs:
  "runs_inline E cmd ws \<Longrightarrow> chain_covered E ok d cmd \<Longrightarrow>
    np_clean (normalize_command_words ws) \<and> ok (inner_words ws)"
proof (induction arbitrary: d rule: runs_inline.induct)
  case (here words cmd)
  obtain inner where "chain_covered_step E ok inner cmd"
    using chain_covered_cases [of E ok d] here.prems by auto
  from chain_step_here [OF this here.hyps] show ?case by blast
next
  case (nested words cmd s ws)
  obtain inner where inner: "chain_covered_step E ok inner cmd"
      "\<forall>f. inner = Some f \<longrightarrow> (\<exists>d'. f = chain_covered E ok d')"
    using chain_covered_cases [of E ok d] nested.prems by auto
  from chain_step_here [OF inner(1) nested.hyps(1)] nested.hyps(2) inner(2)
  obtain d' where "chain_covered E ok d' s" by blast
  then show ?case by (rule nested.IH)
qed

lemma evaluate_allows_bash:
  "evaluate_lexical_with_cwd E (compiled_policy_new E cfg) (AcBash cmd) cwd = Some Allow \<Longrightarrow>
    chain_covered E (covers E cfg ScopeAny) max_inline_shell_depth cmd"
  by (simp add: evaluate_lexical policy_spec_def split: option.splits if_splits)

text \<open>
  C28. An allow rule never covers more than it names: when a Bash command is allowed, every command
  its script runs, in a chain or in the inline script of a shell at any depth, was peeled of its
  wrappers without doubt, and an allow rule of the policy for Bash or for any tool matches the
  peeled command.
\<close>
theorem allowed_bash_covers_every_command:
  assumes "evaluate_lexical_with_cwd E (compiled_policy_new E cfg) (AcBash cmd) cwd = Some Allow"
    and "runs_inline E cmd words"
  shows "np_clean (normalize_command_words words) \<and>
    (\<exists>r \<in> set (pc_rules cfg). rule_act r = RAllow \<and> bash_tool (rule_tool r) \<and>
       bash_allow_pattern_matches E (join '' '' (np_words (normalize_command_words words))) r
         (compile_pattern E r))"
  using chain_covered_runs [OF assms(2) evaluate_allows_bash [OF assms(1)]]
  by (auto simp: covers_def inner_words_def)

section \<open>What is allowed\<close>












text \<open>A small bash grammar for the examples: words between blanks, one command.\<close>

fun word_nodes :: "nat \<Rightarrow> string list \<Rightarrow> ts_node list" where
  "word_nodes i [] = []"
| "word_nodes i (w # ws) = TS ''word'' True i (i + length w) None False [] # word_nodes (i + length w + 1) ws"

definition word_grammar :: ts_parser where
  "word_grammar src =
     (case word_nodes 0 (split_on CHR '' '' src) of
        [] \<Rightarrow> None
      | w # ws \<Rightarrow>
          Some (TS ''program'' True 0 (length src) None False
            [TS ''command'' True 0 (length src) None False
              (TS ''command_name'' True (ts_start w) (ts_end w) (Some ''name'') False [w] # ws)]))"

definition word_env :: policy_env where
  "word_env = plain_env\<lparr>parse_shell := word_grammar\<rparr>"

definition bash_rule :: "rule_action \<Rightarrow> string \<Rightarrow> permission_rule" where
  "bash_rule act pat = \<lparr>rule_act = act, rule_tool = TfBash, rule_pattern = Some pat, rule_mode = Glob\<rparr>"

text \<open>A script of one command without an inline script is decided by its one segment.\<close>

lemma single_command_chain:
  assumes "all_commands_from_script (parse_shell E) cmd = Some [c]"
    and "\<And>inner. segment_allowed E p scope inner (pl_words c)"
  shows "bash_chain_fully_allowed E p scope d cmd"
  using assms by (cases d) (simp_all add: chain_allowed_step_def)

definition git_policy :: "compiled_policy" where
  "git_policy = compiled_policy_new word_env
     (permission_config_new [bash_rule RAllow ''git'', bash_rule RAllow ''*''])"

definition timeout_git :: plain_command where
  "timeout_git = \<lparr>pl_words = [''timeout'', ''5'', ''git'', ''status''], pl_start = 0, pl_end = 20\<rparr>"

lemma timeout_git_commands:
  "all_commands_from_script (parse_shell word_env) ''timeout 5 git status'' = Some [timeout_git]"
  by code_simp

lemma timeout_git_runs:
  "runs_inline word_env ''timeout 5 git status'' [''timeout'', ''5'', ''git'', ''status'']"
  by (rule runs_inline.here) (simp add: script_commands_def timeout_git_commands timeout_git_def)

lemma timeout_git_allowed:
  "bash_chain_fully_allowed word_env git_policy ScopeAny d ''timeout 5 git status''"
  "bash_chain_fully_allowed word_env git_policy NarrowOnly d ''timeout 5 git status''"
proof -
  have any: "segment_allowed word_env git_policy ScopeAny inner (pl_words timeout_git)" for inner
    by code_simp
  have narrow: "segment_allowed word_env git_policy NarrowOnly inner (pl_words timeout_git)" for inner
    by code_simp
  show "bash_chain_fully_allowed word_env git_policy ScopeAny d ''timeout 5 git status''"
    by (rule single_command_chain [OF timeout_git_commands any])
  show "bash_chain_fully_allowed word_env git_policy NarrowOnly d ''timeout 5 git status''"
    by (rule single_command_chain [OF timeout_git_commands narrow])
qed

theorem allowed_bash_covers_every_command_witness:
  "np_clean (normalize_command_words [''timeout'', ''5'', ''git'', ''status'']) \<and>
    (\<exists>r \<in> set (pc_rules (permission_config_new [bash_rule RAllow ''git'', bash_rule RAllow ''*''])).
       rule_act r = RAllow \<and> bash_tool (rule_tool r) \<and>
       bash_allow_pattern_matches word_env
         (join '' '' (np_words (normalize_command_words [''timeout'', ''5'', ''git'', ''status'']))) r
         (compile_pattern word_env r))"
proof (rule allowed_bash_covers_every_command)
  have "scan_rules word_env (AcBash ''timeout 5 git status'') None
      (zip (cp_rules git_policy) (cp_matchers git_policy)) False False = Inr (False, True)"
    and "cp_has_bash_allow_rules git_policy"
    by code_simp+
  with timeout_git_allowed(1)
  show "evaluate_lexical_with_cwd word_env (compiled_policy_new word_env
      (permission_config_new [bash_rule RAllow ''git'', bash_rule RAllow ''*'']))
      (AcBash ''timeout 5 git status'') None = Some Allow"
    unfolding git_policy_def [symmetric] by (simp add: evaluate_lexical_with_cwd_def)
qed (rule timeout_git_runs)

text \<open>
  What may skip the classifier is narrow: when the narrow allow rules authorise a command,
  every command its script runs is matched, peeled, by an allow rule that is not a catch-all, and
  its program is not one that executes code handed to it.
\<close>
theorem narrow_allow_is_narrow:
  assumes "narrow_allow_authorizes E (compiled_policy_new E cfg) (AcBash cmd)"
    and "runs_inline E cmd words"
  shows "\<not> head_is_exec_vehicle (np_words (normalize_command_words words)) \<and>
    (\<exists>r \<in> set (pc_rules cfg). rule_act r = RAllow \<and> \<not> rule_is_catchall E r \<and>
       bash_allow_pattern_matches E (join '' '' (np_words (normalize_command_words words))) r
         (compile_pattern E r))"
proof -
  from assms(1) have "chain_covered E (covers E cfg NarrowOnly) max_inline_shell_depth cmd"
    by (simp add: narrow_allow_authorizes_def chain_allowed_iff)
  from chain_covered_runs [OF assms(2) this] show ?thesis
    by (auto simp: covers_def inner_words_def)
qed

theorem narrow_allow_is_narrow_witness:
  "\<not> head_is_exec_vehicle (np_words (normalize_command_words [''timeout'', ''5'', ''git'', ''status''])) \<and>
    (\<exists>r \<in> set (pc_rules (permission_config_new [bash_rule RAllow ''git'', bash_rule RAllow ''*''])).
       rule_act r = RAllow \<and> \<not> rule_is_catchall word_env r \<and>
       bash_allow_pattern_matches word_env
         (join '' '' (np_words (normalize_command_words [''timeout'', ''5'', ''git'', ''status'']))) r
         (compile_pattern word_env r))"
proof (rule narrow_allow_is_narrow)
  have "cp_has_bash_allow_rules git_policy" by code_simp
  with timeout_git_allowed(2)
  show "narrow_allow_authorizes word_env (compiled_policy_new word_env
      (permission_config_new [bash_rule RAllow ''git'', bash_rule RAllow ''*'']))
      (AcBash ''timeout 5 git status'')"
    unfolding git_policy_def [symmetric] by (simp add: narrow_allow_authorizes_def)
qed (rule timeout_git_runs)

end
