(* ===== verification/PolicyGate.thy ===== *)
theory PolicyGate imports PolicyAllow begin

text \<open>
  The fail-closed side of the command gate, and the command lines on which the peeling of wrappers
  loses the command the rules are about.
\<close>

section \<open>Silence of the gate\<close>

lemma rank_zero: "gate_rank_opt g = 0 \<longleftrightarrow> g = None"
proof (cases g)
  case (Some x)
  then show ?thesis by (cases x) (simp_all add: gate_rank_opt_def)
qed (simp add: gate_rank_opt_def)

lemma combine_None_iff: "combine_gate_decisions a b = None \<longleftrightarrow> a = None \<and> b = None"
  by (cases a; cases b) auto

lemma fold_combine_None:
  "fold (\<lambda>x d. combine_gate_decisions d (f x)) xs d = None \<longleftrightarrow> d = None \<and> (\<forall>x \<in> set xs. f x = None)"
  by (induction xs arbitrary: d) (auto simp: combine_None_iff)

lemma ask_if_None [simp]: "ask_if b = None \<longleftrightarrow> \<not> b"
  by (simp add: ask_if_def)

lemma recurse_None:
  "recurse_or_ask inner script = None \<longleftrightarrow> (\<exists>gate s. inner = Some gate \<and> script = Some s \<and> gate s = None)"
  by (auto simp: recurse_or_ask_def split: option.split)

text \<open>A command the gate is silent about.\<close>

lemma silent_command:
  assumes "evaluate_command_words E p inner ws = None"
  shows "np_clean (normalize_command_words ws)"
    "\<forall>line \<in> rule_texts ws. escalation_only (evaluate E p (AcBash line)) = None"
    "inline_script ws s \<or> packed_script ws s \<Longrightarrow> \<exists>gate. inner = Some gate \<and> gate s = None"
proof -
  have parts: "\<not> np_exhausted (normalize_command_words ws)" "\<not> np_ambiguous (normalize_command_words ws)"
      "\<not> np_env_options_uncertain (normalize_command_words ws)"
      "\<not> np_has_split_string (normalize_command_words ws)"
      "\<forall>w \<in> set (ws # (if length (inner_words ws) \<noteq> length ws then [inner_words ws] else [])).
        escalate_words E p w = None"
      "inline_gate inner (inner_words ws) = None" "split_string_gate inner (inner_words ws) = None"
    using assms unfolding evaluate_command_words_def Let_def inner_words_def [symmetric]
      combine_None_iff fold_combine_None ask_if_None by blast+
  then show "np_clean (normalize_command_words ws)" by (simp add: np_clean_def)
  have escalate: "escalate_words E p w = None \<longleftrightarrow>
      escalation_only (evaluate E p (AcBash (join '' '' w))) = None" for w
    by (simp add: escalate_words_def split: option.split decision.split)
  show "\<forall>line \<in> rule_texts ws. escalation_only (evaluate E p (AcBash line)) = None"
    using parts(5) same_length_inner [of ws] unfolding escalate rule_texts_def
    by (auto split: if_splits)
  show "\<exists>gate. inner = Some gate \<and> gate s = None" if "inline_script ws s \<or> packed_script ws s"
    using that parts(6,7)
    by (auto simp: inline_script_def packed_script_def inline_gate_def split_string_gate_def recurse_None)
qed

lemma silent_step:
  assumes "segments_gate_step E p inner cmd = None"
  shows "parse_shell E cmd \<noteq> None"
    "ws \<in> set (script_commands E cmd) \<Longrightarrow> evaluate_command_words E p inner ws = None"
  using assms
  by (auto simp: segments_gate_step_def script_commands_def recovered_commands_def Let_def
      fold_combine_None all_commands_from_script_def split: option.splits bind_splits)

lemma silent_segments:
  assumes "evaluate_bash_command_segments E p d cmd = None" and "runs E n cmd ws"
  shows "np_clean (normalize_command_words ws) \<and>
    (\<forall>line \<in> rule_texts ws. escalation_only (evaluate E p (AcBash line)) = None)"
  using assms(2,1)
proof (induction n cmd ws arbitrary: d rule: runs.induct)
  case (direct words cmd n)
  obtain inner where "segments_gate_step E p inner cmd = None"
    using direct.prems by (cases d) auto
  from silent_command [OF silent_step(2) [OF this direct.hyps]] show ?case by blast
next
  case (inline words cmd s n ws)
  obtain inner where step: "segments_gate_step E p inner cmd = None"
      "\<forall>gate. inner = Some gate \<longrightarrow> (\<exists>d'. gate = evaluate_bash_command_segments E p d')"
    using inline.prems by (cases d) auto
  from silent_command(3) [OF silent_step(2) [OF step(1) inline.hyps(1)], of s] inline.hyps(2) step(2)
  obtain d' where "evaluate_bash_command_segments E p d' s = None" by blast
  then show ?case by (rule inline.IH)
next
  case (packed words cmd s n ws)
  obtain inner where step: "segments_gate_step E p inner cmd = None"
      "\<forall>gate. inner = Some gate \<longrightarrow> (\<exists>d'. gate = evaluate_bash_command_segments E p d')"
    using packed.prems by (cases d) auto
  from silent_command(3) [OF silent_step(2) [OF step(1) packed.hyps(1)], of s] packed.hyps(2) step(2)
  obtain d' where "evaluate_bash_command_segments E p d' s = None" by blast
  then show ?case by (rule packed.IH)
qed

lemma escalation_None_rank: "escalation_only d = None \<longleftrightarrow>
    d \<notin> Some ` (insert Ask (range Reject))"
proof (cases d)
  case (Some x)
  then show ?thesis by (cases x) auto
qed auto

lemma no_restricting_rule:
  assumes "escalation_only (evaluate E (compiled_policy_new E cfg) (AcBash line)) = None"
    and "r \<in> set (pc_rules cfg)" and "restricts r"
  shows "\<not> matching E (AcBash line) None r"
proof
  assume "matching E (AcBash line) None r"
  with assms(2,3) have "3 \<le> decision_rank_opt (policy_spec E cfg (AcBash line) None)"
    unfolding policy_spec_rank restricts_def by auto
  moreover have "escalation_only (policy_spec E cfg (AcBash line) None) = None"
    using assms(1) by (simp add: evaluate_bash evaluate_lexical)
  moreover have "policy_spec E cfg (AcBash line) None \<noteq> Some (PolicyDeny x)" for x
    by (simp add: policy_spec_def split: option.split)
  moreover have "escalation_only d \<noteq> None" if "3 \<le> decision_rank_opt d" "\<And>x. d \<noteq> Some (PolicyDeny x)" for d
  proof (cases d)
    case (Some y)
    with that show ?thesis by (cases y) (auto simp: decision_rank_opt_def)
  qed (use that in \<open>simp add: decision_rank_opt_def\<close>)
  ultimately show False by blast
qed

text \<open>
  C31. Silence of the command gate is proof that it saw everything: when a policy with deny or ask
  rules for commands lets a script pass without a decision, the script parsed, every command it
  runs at whatever nesting was peeled of its wrappers without doubt, and no deny and no ask rule
  matches it as written or peeled.
\<close>
theorem silent_gate_saw_everything:
  assumes "cp_has_bash_command_restrictions (compiled_policy_new E cfg)"
    and "evaluate_bash_command_policy E (compiled_policy_new E cfg) cmd = None"
    and "runs E n cmd words"
  shows "parse_shell E cmd \<noteq> None \<and> np_clean (normalize_command_words words) \<and>
    \<not> (\<exists>line \<in> rule_texts words. \<exists>r \<in> set (pc_rules cfg). restricts r \<and> matching E (AcBash line) None r)"
proof -
  have silent: "evaluate_bash_command_segments E (compiled_policy_new E cfg) max_inline_shell_depth cmd = None"
    using assms(1,2) by (simp add: evaluate_bash_command_policy_def evaluate_bash_command_gate_def)
  then have "parse_shell E cmd \<noteq> None"
    using silent_step(1) by (simp add: max_inline_shell_depth_def eval_nat_numeral)
  with silent_segments [OF silent assms(3)] no_restricting_rule show ?thesis by blast
qed

text \<open>A script of one command without further scripts has the decision of its words.\<close>

lemma single_command_gate:
  assumes "all_commands_from_script (parse_shell E) cmd = Some [c]"
    and "\<And>inner. evaluate_command_words E p inner (pl_words c) = g"
    and "cp_has_bash_command_restrictions p"
  shows "evaluate_bash_command_policy E p cmd = map_option into_decision g"
proof -
  have "evaluate_bash_command_segments E p d cmd = g" for d
    using assms(1,2) by (cases d) (simp_all add: segments_gate_step_def)
  with assms(3) show ?thesis
    by (simp add: evaluate_bash_command_policy_def evaluate_bash_command_gate_def)
qed

definition deny_rm :: "compiled_policy" where
  "deny_rm = compiled_policy_new word_env (permission_config_new [bash_rule RDeny ''rm''])"

lemma deny_rm_restricts: "cp_has_bash_command_restrictions deny_rm"
  by code_simp

lemma timeout_git_silent: "evaluate_command_words word_env deny_rm inner (pl_words timeout_git) = None"
  by code_simp

theorem silent_gate_saw_everything_witness:
  "parse_shell word_env ''timeout 5 git status'' \<noteq> None \<and>
    np_clean (normalize_command_words [''timeout'', ''5'', ''git'', ''status'']) \<and>
    \<not> (\<exists>line \<in> rule_texts [''timeout'', ''5'', ''git'', ''status''].
        \<exists>r \<in> set (pc_rules (permission_config_new [bash_rule RDeny ''rm''])).
          restricts r \<and> matching word_env (AcBash line) None r)"
proof (rule silent_gate_saw_everything [where n = 0])
  show "cp_has_bash_command_restrictions (compiled_policy_new word_env
      (permission_config_new [bash_rule RDeny ''rm'']))"
    unfolding deny_rm_def [symmetric] by (rule deny_rm_restricts)
  show "evaluate_bash_command_policy word_env (compiled_policy_new word_env
      (permission_config_new [bash_rule RDeny ''rm''])) ''timeout 5 git status'' = None"
    unfolding deny_rm_def [symmetric]
    using single_command_gate [OF timeout_git_commands timeout_git_silent deny_rm_restricts] by simp
  show "runs word_env 0 ''timeout 5 git status'' [''timeout'', ''5'', ''git'', ''status'']"
    by (rule runs.direct) (simp add: script_commands_def timeout_git_commands timeout_git_def)
qed

section \<open>Commands that peeling loses\<close>

definition deny_rm_reason :: string where
  "deny_rm_reason = ''Denied by permission policy: deny rule on bash matching \"rm\"''"

definition command_of :: "string list \<Rightarrow> nat \<Rightarrow> plain_command" where
  "command_of ws n = \<lparr>pl_words = ws, pl_start = 0, pl_end = n\<rparr>"

text \<open>
  A denied command does hide behind wrapper options that the peeling does not model: with a
  deny rule for \<^verbatim>\<open>rm\<close>, the command behind \<^verbatim>\<open>stdbuf -o L\<close> and behind
  \<^verbatim>\<open>env A=1\<close> is rejected, but behind \<^verbatim>\<open>stdbuf --output L\<close> (the long form takes
  its value as the next word, which is peeled as the command) and behind \<^verbatim>\<open>env a-b=1\<close>
  (\<^verbatim>\<open>env\<close> accepts any name before the equals sign) the gate passes it without a decision.
\<close>
theorem wrapper_options_hide_command:
  "evaluate_bash_command_policy word_env deny_rm ''stdbuf -o L rm x'' = Some (Reject deny_rm_reason) \<and>
   evaluate_bash_command_policy word_env deny_rm ''env A=1 rm x'' = Some (Reject deny_rm_reason) \<and>
   evaluate_bash_command_policy word_env deny_rm ''stdbuf --output L rm x'' = None \<and>
   evaluate_bash_command_policy word_env deny_rm ''env a-b=1 rm x'' = None"
proof -
  note gate = single_command_gate [OF _ _ deny_rm_restricts]
  have "evaluate_bash_command_policy word_env deny_rm ''stdbuf -o L rm x'' =
      map_option into_decision (Some (GReject deny_rm_reason))"
    by (rule gate [where c = "command_of [''stdbuf'', ''-o'', ''L'', ''rm'', ''x''] 16"]) code_simp+
  moreover have "evaluate_bash_command_policy word_env deny_rm ''env A=1 rm x'' =
      map_option into_decision (Some (GReject deny_rm_reason))"
    by (rule gate [where c = "command_of [''env'', ''A=1'', ''rm'', ''x''] 12"]) code_simp+
  moreover have "evaluate_bash_command_policy word_env deny_rm ''stdbuf --output L rm x'' =
      map_option into_decision None"
    by (rule gate [where c = "command_of [''stdbuf'', ''--output'', ''L'', ''rm'', ''x''] 22"]) code_simp+
  moreover have "evaluate_bash_command_policy word_env deny_rm ''env a-b=1 rm x'' =
      map_option into_decision None"
    by (rule gate [where c = "command_of [''env'', ''a-b=1'', ''rm'', ''x''] 14"]) code_simp+
  ultimately show ?thesis by simp
qed

text \<open>
  Sixteen alternations of a transparent prefix and \<^verbatim>\<open>env\<close> use up the rounds of the
  normalisation; what is left is an \<^verbatim>\<open>env -S\<close> that no round has scanned, so the result
  carries no flag, although every packed string is meant to keep the floor of asking.
\<close>

definition alternating :: "nat \<Rightarrow> string list" where
  "alternating n = concat (replicate n [''command'', ''env'']) @ [''-S'', ''ls -l'']"

text \<open>
  The normalisation of a command does not always fail closed: at fifteen and at seventeen
  alternations of \<^verbatim>\<open>command\<close> and \<^verbatim>\<open>env\<close> the packed string or the spent budget is
  flagged, at sixteen neither is, and the peeled words are still an \<^verbatim>\<open>env -S\<close> with a packed
  script.
\<close>
theorem normalization_budget_hides_split_string:
  "\<not> np_clean (normalize_command_words (alternating 15)) \<and>
   \<not> np_clean (normalize_command_words (alternating 17)) \<and>
   np_clean (normalize_command_words (alternating 16)) \<and>
   packed_script (alternating 16) ''ls -l''"
proof -
  have "np_words (normalize_command_words (alternating 16)) = [''env'', ''-S'', ''ls -l'']"
    by code_simp
  moreover have "env_split_string_script [''env'', ''-S'', ''ls -l''] = Some ''ls -l''"
    by code_simp
  moreover have "\<not> np_clean (normalize_command_words (alternating 15))"
    by code_simp
  moreover have "\<not> np_clean (normalize_command_words (alternating 17))"
    by code_simp
  moreover have "np_clean (normalize_command_words (alternating 16))"
    by code_simp
  ultimately show ?thesis by (simp add: packed_script_def inner_words_def)
qed

end
