(* ===== verification/ShellAccessLaws.thy ===== *)
theory ShellAccessLaws imports ShellAccess PolicyGate begin

text \<open>
  What the file gate of a shell command decides: the files that a script names, through redirects,
  operands and nested inline scripts; that the gate rejects exactly when a deny rule matches one of
  them; and what its silence means.
\<close>

section \<open>The files of a script\<close>

definition invocation_operands :: "shell_word list \<Rightarrow> (string \<times> shell_file_mode) list" where
  "invocation_operands ws =
     (case get_at ws 0 of
        Some (Literal w) \<Rightarrow>
          (let program = ascii_lower (shell_program_name w) in
           if List.member [''cd'', ''pushd'', ''popd''] program then []
           else file_operands program (literal_words ws))
      | _ \<Rightarrow> [])"

definition inline_words_script :: "shell_word list \<Rightarrow> string option" where
  "inline_words_script ws =
     (case shell_dash_c_script ws of
        InlineLiteral i \<Rightarrow> (case get_at ws i of Some (Literal s) \<Rightarrow> Some s | _ \<Rightarrow> None)
      | _ \<Rightarrow> None)"

definition words_of :: "shell_invocation \<Rightarrow> shell_word list" where
  "words_of iv = ci_words (unwrap_invocation_checked iv)"

text \<open>
  \<open>names_file E n cmd u name mode u'\<close>: the script names the name, in that mode, with its working
  directory unknown if \<open>u'\<close>; inline scripts are entered at most \<open>n\<close> deep.
\<close>

inductive names_file ::
    "policy_env \<Rightarrow> nat \<Rightarrow> string \<Rightarrow> bool \<Rightarrow> string \<Rightarrow> shell_file_mode \<Rightarrow> bool \<Rightarrow> bool" for E where
  redirected:
    "\<lbrakk>parse_shell E cmd = Some root; r \<in> set (shell_redirect_targets root cmd); rt_path r = Some name\<rbrakk>
      \<Longrightarrow> names_file E n cmd u name (rt_mode r)
            (u \<or> cwd_unpinned_before (cwd_poison_positions root cmd) (rt_start r) (rt_scope r))"
| operand:
    "\<lbrakk>parse_shell E cmd = Some root; iv \<in> set (shell_command_invocations root cmd);
      (name, mode) \<in> set (invocation_operands (words_of iv))\<rbrakk>
      \<Longrightarrow> names_file E n cmd u name mode (invocation_unpinned u (cwd_poison_positions root cmd) iv)"
| inline:
    "\<lbrakk>parse_shell E cmd = Some root; iv \<in> set (shell_command_invocations root cmd);
      inline_words_script (words_of iv) = Some script;
      names_file E n script (invocation_unpinned u (cwd_poison_positions root cmd) iv) name mode u'\<rbrakk>
      \<Longrightarrow> names_file E (Suc n) cmd u name mode u'"

inductive_cases names_file_0: "names_file E 0 cmd u name mode u'"
inductive_cases names_file_Suc: "names_file E (Suc n) cmd u name mode u'"

section \<open>Ranks through the steps\<close>

abbreviation rank_of :: "gate_state \<Rightarrow> nat" where
  "rank_of st \<equiv> gate_rank_opt (fst st)"

lemma rank_fold_state:
  assumes "\<And>x st. k \<le> rank_of (f x st) \<longleftrightarrow> k \<le> rank_of st \<or> Q x"
  shows "k \<le> rank_of (fold f xs st) \<longleftrightarrow> k \<le> rank_of st \<or> (\<exists>x \<in> set xs. Q x)"
  by (induction xs arbitrary: st) (auto simp: assms)

lemma rank_operand:
  "k \<le> rank_of (evaluate_operand E p cwd u operand st) \<longleftrightarrow>
    k \<le> rank_of st \<or> k \<le> gate_rank_opt (evaluate_shell_path E p (fst operand) cwd (snd operand) u)"
  by (simp add: evaluate_operand_def gate.rank_comb le_max_iff_disj)

lemma rank_redirect:
  assumes "1 \<le> k"
  shows "k \<le> rank_of (redirect_step E p cwd u changes r st) \<longleftrightarrow>
    k \<le> rank_of st \<or> (\<exists>name. rt_path r = Some name \<and>
      k \<le> gate_rank_opt (evaluate_shell_path E p name cwd (rt_mode r)
            (u \<or> cwd_unpinned_before changes (rt_start r) (rt_scope r))))"
  using assms by (cases "rt_path r") (simp_all add: redirect_step_def Let_def gate.rank_comb le_max_iff_disj)

lemma rank_inline:
  assumes "1 \<le> k"
  shows "k \<le> rank_of (inline_step inner ws u failed st) \<longleftrightarrow>
    k \<le> rank_of st \<or> (\<exists>script eval. inline_words_script ws = Some script \<and> inner = Some eval \<and>
      k \<le> gate_rank_opt (eval script u))"
  using assms
  by (cases "shell_dash_c_script ws"; cases inner)
    (auto simp: inline_step_def inline_words_script_def Let_def gate.rank_comb le_max_iff_disj
      split: option.splits shell_word.splits)

lemma rank_operands:
  assumes "1 \<le> k"
  shows "k \<le> rank_of (operands_step E p cwd ws u failed st) \<longleftrightarrow>
    k \<le> rank_of st \<or> (\<exists>(name, mode) \<in> set (invocation_operands ws).
      k \<le> gate_rank_opt (evaluate_shell_path E p name cwd mode u))"
proof (cases "get_at ws 0")
  case (Some w)
  show ?thesis
  proof (cases w)
    case (Literal s)
    with Some assms show ?thesis
      by (simp add: operands_step_def invocation_operands_def Let_def case_prod_beta
          rank_fold_state [OF rank_operand])
  qed (use Some assms in \<open>simp add: operands_step_def invocation_operands_def\<close>)
qed (use assms in \<open>simp add: operands_step_def invocation_operands_def\<close>)

lemma rank_invocation:
  assumes "1 \<le> k"
  shows "k \<le> rank_of (invocation_step E p cwd inner u failed changes iv st) \<longleftrightarrow>
    k \<le> rank_of st \<or>
    (\<exists>script eval. inline_words_script (words_of iv) = Some script \<and> inner = Some eval \<and>
      k \<le> gate_rank_opt (eval script (invocation_unpinned u changes iv))) \<or>
    (\<exists>(name, mode) \<in> set (invocation_operands (words_of iv)).
      k \<le> gate_rank_opt (evaluate_shell_path E p name cwd mode (invocation_unpinned u changes iv)))"
  using assms by (simp add: invocation_step_def Let_def rank_operands rank_inline words_of_def)

text \<open>The files that one level of a script names.\<close>

definition level_rank_ge ::
    "policy_env \<Rightarrow> compiled_policy \<Rightarrow> path \<Rightarrow> nat \<Rightarrow> (string \<Rightarrow> bool \<Rightarrow> gate_decision option) option
      \<Rightarrow> string \<Rightarrow> ts_node \<Rightarrow> bool \<Rightarrow> bool" where
  "level_rank_ge E p cwd k inner cmd root u \<longleftrightarrow>
     (let changes = cwd_poison_positions root cmd in
      (\<exists>r \<in> set (shell_redirect_targets root cmd). \<exists>name. rt_path r = Some name \<and>
         k \<le> gate_rank_opt (evaluate_shell_path E p name cwd (rt_mode r)
               (u \<or> cwd_unpinned_before changes (rt_start r) (rt_scope r)))) \<or>
      (\<exists>iv \<in> set (shell_command_invocations root cmd).
         (\<exists>script eval. inline_words_script (words_of iv) = Some script \<and> inner = Some eval \<and>
            k \<le> gate_rank_opt (eval script (invocation_unpinned u changes iv))) \<or>
         (\<exists>(name, mode) \<in> set (invocation_operands (words_of iv)).
            k \<le> gate_rank_opt (evaluate_shell_path E p name cwd mode
                  (invocation_unpinned u changes iv)))))"

lemma shell_rank_ask_if: "gate_rank_opt (ask_if b) = (if b then 1 else 0)"
  by (simp add: ask_if_def gate_rank_opt_def)

lemma script_file_gate_rank:
  assumes "1 \<le> k"
  shows "k \<le> gate_rank_opt (script_file_gate E p cwd inner cmd u entered) \<Longrightarrow> 1 < k \<Longrightarrow>
      \<exists>root. parse_shell E cmd = Some root \<and> level_rank_ge E p cwd k inner cmd root u"
    and "parse_shell E cmd = Some root \<Longrightarrow> level_rank_ge E p cwd k inner cmd root u \<Longrightarrow>
      k \<le> gate_rank_opt (script_file_gate E p cwd inner cmd u entered)"
proof -
  note folds = rank_fold_state [OF rank_invocation [OF assms]] rank_fold_state [OF rank_redirect [OF assms]]
  have level: "k \<le> gate_rank_opt (script_file_gate E p cwd inner cmd u entered) \<longleftrightarrow>
      level_rank_ge E p cwd k inner cmd root u \<or> (k \<le> 1 \<and>
        k \<le> gate_rank_opt (script_file_gate E p cwd inner cmd u entered))"
    if "parse_shell E cmd = Some root" for root
    using that assms
    by (simp add: script_file_gate_def Let_def gate.rank_comb le_max_iff_disj folds level_rank_ge_def
        shell_rank_ask_if gate.rank_None) auto
  show "\<exists>root. parse_shell E cmd = Some root \<and> level_rank_ge E p cwd k inner cmd root u"
    if "k \<le> gate_rank_opt (script_file_gate E p cwd inner cmd u entered)" "1 < k"
  proof (cases "parse_shell E cmd")
    case None
    with that show ?thesis by (simp add: script_file_gate_def shell_rank_ask_if split: if_splits)
  next
    case (Some root)
    with that level [OF Some] show ?thesis by auto
  qed
  show "k \<le> gate_rank_opt (script_file_gate E p cwd inner cmd u entered)"
    if "parse_shell E cmd = Some root" "level_rank_ge E p cwd k inner cmd root u"
    using level [OF that(1)] that(2) by blast
qed

text \<open>The budget of nested scripts as the argument of one level.\<close>

definition nested_gate ::
    "policy_env \<Rightarrow> compiled_policy \<Rightarrow> path \<Rightarrow> nat \<Rightarrow> (string \<Rightarrow> bool \<Rightarrow> gate_decision option) option" where
  "nested_gate E p cwd n =
     (case n of 0 \<Rightarrow> None
      | Suc m \<Rightarrow> Some (\<lambda>cmd u. evaluate_shell_file_access_inner E p cwd m cmd u True))"

lemma inner_is_level:
  "evaluate_shell_file_access_inner E p cwd n = script_file_gate E p cwd (nested_gate E p cwd n)"
  by (cases n) (simp_all add: nested_gate_def)

lemma names_file_checked:
  assumes "names_file E n cmd u name mode u'" and "1 \<le> k"
    and "k \<le> gate_rank_opt (evaluate_shell_path E p name cwd mode u')"
  shows "k \<le> gate_rank_opt (evaluate_shell_file_access_inner E p cwd n cmd u entered)"
  using assms
proof (induction arbitrary: entered)
  case (redirected cmd root r name n u)
  then have "level_rank_ge E p cwd k (nested_gate E p cwd n) cmd root u"
    unfolding level_rank_ge_def Let_def by blast
  with redirected script_file_gate_rank(2) show ?case by (simp add: inner_is_level)
next
  case (operand cmd root iv name mode n u)
  then have "level_rank_ge E p cwd k (nested_gate E p cwd n) cmd root u"
    unfolding level_rank_ge_def Let_def by blast
  with operand script_file_gate_rank(2) show ?case by (simp add: inner_is_level)
next
  case (inline cmd root iv script n u name mode u')
  let ?eval = "\<lambda>cmd u. evaluate_shell_file_access_inner E p cwd n cmd u True"
  from inline.IH [OF inline.prems, of True]
  have "k \<le> gate_rank_opt (?eval script (invocation_unpinned u (cwd_poison_positions root cmd) iv))" .
  with inline.hyps have "level_rank_ge E p cwd k (Some ?eval) cmd root u"
    unfolding level_rank_ge_def Let_def by blast
  with inline script_file_gate_rank(2) show ?case by (simp add: inner_is_level nested_gate_def)
qed

lemma checked_names_file:
  assumes "1 < k"
  shows "k \<le> gate_rank_opt (evaluate_shell_file_access_inner E p cwd n cmd u entered) \<Longrightarrow>
    \<exists>name mode u'. names_file E n cmd u name mode u' \<and>
      k \<le> gate_rank_opt (evaluate_shell_path E p name cwd mode u')"
proof (induction n arbitrary: cmd u entered)
  case 0
  with assms script_file_gate_rank(1) [of k E p cwd None cmd u entered]
  obtain root where "parse_shell E cmd = Some root" "level_rank_ge E p cwd k None cmd root u" by auto
  then show ?case
    unfolding level_rank_ge_def Let_def by (auto intro: redirected operand)
next
  case (Suc n)
  let ?eval = "\<lambda>cmd u. evaluate_shell_file_access_inner E p cwd n cmd u True"
  from Suc.prems assms script_file_gate_rank(1) [of k E p cwd "Some ?eval" cmd u entered]
  obtain root where root: "parse_shell E cmd = Some root" "level_rank_ge E p cwd k (Some ?eval) cmd root u"
    by auto
  then consider
      (name) r name where "r \<in> set (shell_redirect_targets root cmd)" "rt_path r = Some name"
        "k \<le> gate_rank_opt (evaluate_shell_path E p name cwd (rt_mode r)
            (u \<or> cwd_unpinned_before (cwd_poison_positions root cmd) (rt_start r) (rt_scope r)))"
    | (script) iv script where "iv \<in> set (shell_command_invocations root cmd)"
        "inline_words_script (words_of iv) = Some script"
        "k \<le> gate_rank_opt (?eval script (invocation_unpinned u (cwd_poison_positions root cmd) iv))"
    | (operand) iv name mode where "iv \<in> set (shell_command_invocations root cmd)"
        "(name, mode) \<in> set (invocation_operands (words_of iv))"
        "k \<le> gate_rank_opt (evaluate_shell_path E p name cwd mode
            (invocation_unpinned u (cwd_poison_positions root cmd) iv))"
    unfolding level_rank_ge_def Let_def by blast
  then show ?case
  proof cases
    case name
    with root show ?thesis by (blast intro: redirected)
  next
    case script
    from Suc.IH [OF script(3)] obtain name mode u' where
      "names_file E n script (invocation_unpinned u (cwd_poison_positions root cmd) iv) name mode u'"
      "k \<le> gate_rank_opt (evaluate_shell_path E p name cwd mode u')" by blast
    with root script show ?thesis by (blast intro: inline)
  next
    case operand
    with root show ?thesis by (blast intro: names_file.operand)
  qed
qed

section \<open>The texts of a path\<close>

definition link_texts :: "policy_env \<Rightarrow> path \<Rightarrow> bool \<Rightarrow> string \<Rightarrow> string list" where
  "link_texts E cwd u tok =
     (case raw_anchored cwd u (normalize_shell_path_raw tok) of
        None \<Rightarrow> []
      | Some raw \<Rightarrow>
          (case follow_absolute_symlink E raw (anchored cwd (normalize_shell_path tok)) of
             SymlinkTarget resolved \<Rightarrow> [resolved] | _ \<Rightarrow> []))"

definition path_texts :: "policy_env \<Rightarrow> path \<Rightarrow> bool \<Rightarrow> string \<Rightarrow> string list" where
  "path_texts E cwd u tok =
     (let name = normalize_shell_path tok in
      name #
      (if u \<and> \<not> is_absolute_shell_path name then []
       else anchored cwd name # link_texts E cwd u tok))"

definition path_rule_cwd :: "path \<Rightarrow> bool \<Rightarrow> string \<Rightarrow> path option" where
  "path_rule_cwd cwd u tok =
     (if is_absolute_shell_path (normalize_shell_path tok) \<or> \<not> u then Some cwd else None)"

definition text_gate ::
    "policy_env \<Rightarrow> compiled_policy \<Rightarrow> path \<Rightarrow> bool \<Rightarrow> shell_file_mode \<Rightarrow> string \<Rightarrow> string
      \<Rightarrow> gate_decision option" where
  "text_gate E p cwd u mode tok form =
     escalate_access E p (path_rule_cwd cwd u tok) (shell_access mode form)"

lemma resolved_rank:
  assumes "1 \<le> k"
  shows "form \<in> set (link_texts E cwd u tok) \<Longrightarrow> k \<le> gate_rank_opt (esc (shell_access mode form)) \<Longrightarrow>
      k \<le> gate_rank_opt (resolved_gate E esc cwd u mode tok)"
    and "1 < k \<Longrightarrow> k \<le> gate_rank_opt (resolved_gate E esc cwd u mode tok) \<Longrightarrow>
      \<exists>form \<in> set (link_texts E cwd u tok). k \<le> gate_rank_opt (esc (shell_access mode form))"
proof -
  have none: "\<not> k \<le> gate_rank_opt None" "1 < k \<Longrightarrow> \<not> k \<le> gate_rank_opt (Some AskFailClosed)"
    using assms by (simp_all add: gate_rank_opt_def)
  have "resolved_gate E esc cwd u mode tok =
      (case link_texts E cwd u tok of form # _ \<Rightarrow> esc (shell_access mode form) | [] \<Rightarrow> None) \<or>
      resolved_gate E esc cwd u mode tok = Some AskFailClosed \<and> link_texts E cwd u tok = []"
    by (simp add: link_texts_def resolved_gate_def split: option.split symlink_follow.split)
  moreover have "length (link_texts E cwd u tok) \<le> 1"
    by (simp add: link_texts_def split: option.split symlink_follow.split)
  ultimately show "form \<in> set (link_texts E cwd u tok) \<Longrightarrow> k \<le> gate_rank_opt (esc (shell_access mode form)) \<Longrightarrow>
      k \<le> gate_rank_opt (resolved_gate E esc cwd u mode tok)"
    and "1 < k \<Longrightarrow> k \<le> gate_rank_opt (resolved_gate E esc cwd u mode tok) \<Longrightarrow>
      \<exists>form \<in> set (link_texts E cwd u tok). k \<le> gate_rank_opt (esc (shell_access mode form))"
    using none by (cases "link_texts E cwd u tok"; auto)+
qed

lemma evaluate_path_rank:
  assumes "1 \<le> k"
  shows "k \<le> gate_rank_opt (evaluate_shell_path E p tok cwd mode u) \<longleftrightarrow>
    k \<le> gate_rank_opt (text_gate E p cwd u mode tok (normalize_shell_path tok)) \<or>
    (if u \<and> \<not> is_absolute_shell_path (normalize_shell_path tok) then k \<le> 1
     else k \<le> gate_rank_opt (text_gate E p cwd u mode tok (anchored cwd (normalize_shell_path tok))) \<or>
       k \<le> gate_rank_opt
         (resolved_gate E (escalate_access E p (path_rule_cwd cwd u tok)) cwd u mode tok))"
  using assms
  by (simp add: evaluate_shell_path_def Let_def text_gate_def path_rule_cwd_def gate.rank_comb
      le_max_iff_disj shell_rank_ask_if gate.rank_None)

lemma path_rank_texts:
  assumes "form \<in> set (path_texts E cwd u tok)" and "1 \<le> k"
    and "k \<le> gate_rank_opt (text_gate E p cwd u mode tok form)"
  shows "k \<le> gate_rank_opt (evaluate_shell_path E p tok cwd mode u)"
  using assms(1,3) resolved_rank(1) [OF assms(2), of form E cwd u tok]
  unfolding evaluate_path_rank [OF assms(2)] path_texts_def Let_def text_gate_def
  by (cases "u \<and> \<not> is_absolute_shell_path (normalize_shell_path tok)") auto

lemma path_rank_only_texts:
  assumes "1 < k" and "k \<le> gate_rank_opt (evaluate_shell_path E p tok cwd mode u)"
  shows "\<exists>form \<in> set (path_texts E cwd u tok). k \<le> gate_rank_opt (text_gate E p cwd u mode tok form)"
proof -
  from assms(1) have k: "1 \<le> k" "\<not> k \<le> 1" by simp_all
  from assms(2) resolved_rank(2) [OF k(1) assms(1)] show ?thesis
    unfolding evaluate_path_rank [OF k(1)] path_texts_def Let_def text_gate_def
    by (cases "u \<and> \<not> is_absolute_shell_path (normalize_shell_path tok)") (use k(2) in auto)
qed

lemma unknown_cwd_asks:
  "u \<Longrightarrow> \<not> is_absolute_shell_path (normalize_shell_path tok) \<Longrightarrow>
    1 \<le> gate_rank_opt (evaluate_shell_path E p tok cwd mode u)"
  by (simp add: evaluate_shell_path_def Let_def gate.rank_comb shell_rank_ask_if)

lemma escalate_rank_3:
  "3 \<le> gate_rank_opt (escalate_access E (compiled_policy_new E cfg) cwd access) \<longleftrightarrow>
    (\<exists>r \<in> set (pc_rules cfg). rule_act r = RDeny \<and> matching E access cwd r)"
proof -
  have "3 \<le> gate_rank_opt (escalate_access E (compiled_policy_new E cfg) cwd access) \<longleftrightarrow>
      (\<exists>reason. evaluate_lexical_with_cwd E (compiled_policy_new E cfg) access cwd = Some (Reject reason))"
    by (auto simp: escalate_access_def gate_rank_opt_def split: option.splits decision.splits)
  then show ?thesis unfolding evaluate_lexical spec_rejects by blast
qed

lemma escalate_rank_1:
  assumes "r \<in> set (pc_rules cfg)" and "restricts r" and "matching E access cwd r"
  shows "1 \<le> gate_rank_opt (escalate_access E (compiled_policy_new E cfg) cwd access)"
proof -
  from assms have "3 \<le> decision_rank_opt (policy_spec E cfg access cwd)"
    unfolding policy_spec_rank restricts_def by auto
  moreover have "policy_spec E cfg access cwd \<noteq> Some (PolicyDeny r)" for r
    by (simp add: policy_spec_def split: option.split)
  ultimately show ?thesis
    unfolding escalate_access_def evaluate_lexical
    by (auto simp: gate_rank_opt_def decision_rank_opt_def split: option.splits decision.splits)
qed

lemma shell_access_file_tool:
  assumes "matching E (shell_access mode form) cwd r"
  shows "file_tool (rule_tool r)"
  using assms
  by (cases mode; cases "rule_tool r") (auto simp: matching_def rule_reaches_def
      tool_filter_matches_def file_tool_def shell_access_def split: if_splits)

lemma restricting_file_rule:
  assumes "r \<in> set (pc_rules cfg)" and "restricts r" and "matching E (shell_access mode form) cwd r"
  shows "cp_has_file_restrictions (compiled_policy_new E cfg)"
  using assms shell_access_file_tool [OF assms(3)]
  by (auto simp: compiled_policy_new_def Let_def list_ex_iff)

text \<open>
  C19. The file gate rejects exactly the denied files: a script is rejected if and only if some file
  that it names (in a redirect, as an operand of a program that reads or writes files, behind
  wrappers, or in an inline script nested up to the budget of eight) has a text that a deny rule
  matches, among its normalised spelling, its spelling below the working directory, and the target
  of the links on it.
\<close>
theorem file_gate_rejects_iff:
  "(\<exists>reason. evaluate_shell_file_access E (compiled_policy_new E cfg) cmd cwd = Some (Reject reason)) \<longleftrightarrow>
   (\<exists>name mode u form r. names_file E max_inline_shell_depth cmd False name mode u \<and>
      form \<in> set (path_texts E cwd u name) \<and> r \<in> set (pc_rules cfg) \<and> rule_act r = RDeny \<and>
      matching E (shell_access mode form) (path_rule_cwd cwd u name) r)"
proof -
  let ?p = "compiled_policy_new E cfg"
  have path: "3 \<le> gate_rank_opt (evaluate_shell_path E ?p name cwd mode u) \<longleftrightarrow>
      (\<exists>form \<in> set (path_texts E cwd u name). \<exists>r \<in> set (pc_rules cfg). rule_act r = RDeny \<and>
        matching E (shell_access mode form) (path_rule_cwd cwd u name) r)" for name mode u
    using path_rank_texts [of _ E cwd u name 3 ?p mode] path_rank_only_texts [of 3 E ?p name cwd mode u]
    unfolding text_gate_def escalate_rank_3 by auto
  have inner: "3 \<le> gate_rank_opt (evaluate_shell_file_access_inner E ?p cwd n cmd False False) \<longleftrightarrow>
      (\<exists>name mode u. names_file E n cmd False name mode u \<and>
        3 \<le> gate_rank_opt (evaluate_shell_path E ?p name cwd mode u))" for n
    using names_file_checked [where k = 3] checked_names_file [of 3] by (metis numeral_le_one_iff
        one_le_numeral one_less_numeral_iff semiring_norm(70) semiring_norm(77))
  show ?thesis
  proof (cases "cp_has_file_restrictions ?p")
    case True
    then show ?thesis
      unfolding evaluate_shell_file_access_def gate_rejects evaluate_shell_file_access_gate_def
      by (simp add: inner path) blast
  next
    case False
    then show ?thesis
      using restricting_file_rule [of _ cfg E] unfolding restricts_def
      by (auto simp: evaluate_shell_file_access_def evaluate_shell_file_access_gate_def)
  qed
qed

section \<open>Forced questions\<close>

lemma forced_fold:
  assumes "\<And>x st. snd st \<Longrightarrow> snd (f x st)"
  shows "snd st \<Longrightarrow> snd (fold f xs st)"
  by (induction xs arbitrary: st) (auto simp: assms)

lemma forced_fold_by:
  assumes mono: "\<And>x st. snd st \<Longrightarrow> snd (f x st)" and "x \<in> set xs" and by_x: "\<And>st. snd (f x st)"
  shows "snd (fold f xs st)"
  using assms(2)
proof (induction xs arbitrary: st)
  case (Cons y ys)
  show ?case
  proof (cases "x = y")
    case True
    with forced_fold [of f "f x st" ys, OF mono by_x] show ?thesis by simp
  next
    case False
    with Cons show ?thesis by simp
  qed
qed simp

lemma forced_operand:
  "snd st \<Longrightarrow> snd (evaluate_operand E p cwd u operand st)"
  "shell_arg_is_ambiguous (fst operand) \<Longrightarrow> snd (evaluate_operand E p cwd u operand st)"
  by (simp_all add: evaluate_operand_def)

lemma forced_redirect:
  "snd st \<Longrightarrow> snd (redirect_step E p cwd u changes r st)"
  "rt_ambiguous r \<Longrightarrow> snd (redirect_step E p cwd u changes r st)"
  by (simp_all add: redirect_step_def split: option.split)

lemma forced_inline: "snd st \<Longrightarrow> snd (inline_step inner ws u failed st)"
  by (simp add: inline_step_def Let_def split: inline_shell_script.split option.split shell_word.split)

lemma forced_operands: "snd st \<Longrightarrow> snd (operands_step E p cwd ws u failed st)"
  using forced_fold [of "evaluate_operand E p cwd u", OF forced_operand(1)]
  by (simp add: operands_step_def Let_def split: option.split shell_word.split)

lemma forced_operands_by:
  assumes "operand \<in> set (invocation_operands ws)" and "shell_arg_is_ambiguous (fst operand)"
  shows "snd (operands_step E p cwd ws u failed st)"
proof -
  from assms(1) obtain w where w: "get_at ws 0 = Some (Literal w)"
      "\<not> List.member [''cd'', ''pushd'', ''popd''] (ascii_lower (shell_program_name w))"
      "operand \<in> set (file_operands (ascii_lower (shell_program_name w)) (literal_words ws))"
    by (cases "get_at ws 0") (auto simp: invocation_operands_def Let_def split: shell_word.splits if_splits)
  have "snd (fold (evaluate_operand E p cwd u)
      (file_operands (ascii_lower (shell_program_name w)) (literal_words ws)) st')" for st'
    by (rule forced_fold_by [of "evaluate_operand E p cwd u", OF forced_operand(1) w(3)
          forced_operand(2) [OF assms(2)]])
  with w(1,2) show ?thesis
    unfolding operands_step_def Let_def by simp
qed

lemma forced_invocation:
  "snd st \<Longrightarrow> snd (invocation_step E p cwd inner u failed changes iv st)"
  "peel_uncertain (unwrap_invocation_checked iv) \<Longrightarrow>
    snd (invocation_step E p cwd inner u failed changes iv st)"
  "operand \<in> set (invocation_operands (words_of iv)) \<Longrightarrow> shell_arg_is_ambiguous (fst operand) \<Longrightarrow>
    snd (invocation_step E p cwd inner u failed changes iv st)"
  by (simp_all add: invocation_step_def Let_def forced_operands forced_inline forced_operands_by words_of_def)

lemma silent_level:
  assumes "script_file_gate E p cwd inner cmd u entered = None" and "parse_shell E cmd = Some root"
  shows "r \<in> set (shell_redirect_targets root cmd) \<Longrightarrow> \<not> rt_ambiguous r"
    and "iv \<in> set (shell_command_invocations root cmd) \<Longrightarrow>
      operand \<in> set (invocation_operands (words_of iv)) \<Longrightarrow> \<not> shell_arg_is_ambiguous (fst operand)"
    and "iv \<in> set (shell_command_invocations root cmd) \<Longrightarrow> \<not> peel_uncertain (unwrap_invocation_checked iv)"
proof -
  let ?red = "redirect_step E p cwd u (cwd_poison_positions root cmd)"
    and ?inv = "invocation_step E p cwd inner u (ts_has_error root) (cwd_poison_positions root cmd)"
  let ?st = "fold ?inv (shell_command_invocations root cmd)
      (fold ?red (shell_redirect_targets root cmd) (None, entered \<and> ts_has_error root))"
  have "combine_gate_decisions (fst ?st) (ask_if (snd ?st)) = None"
    using assms by (simp add: script_file_gate_def Let_def)
  then have quiet: "\<not> snd ?st"
    by (cases "fst ?st") (auto simp: ask_if_def)
  have inv: "\<not> snd (fold ?red (shell_redirect_targets root cmd) (None, entered \<and> ts_has_error root))"
    using forced_fold [of ?inv, OF forced_invocation(1)] quiet by blast
  show "\<not> rt_ambiguous r" if "r \<in> set (shell_redirect_targets root cmd)"
    using forced_fold_by [of ?red, OF forced_redirect(1) that forced_redirect(2)] inv by blast
  show "\<not> shell_arg_is_ambiguous (fst operand)"
    if "iv \<in> set (shell_command_invocations root cmd)" "operand \<in> set (invocation_operands (words_of iv))"
    using forced_fold_by [of ?inv, OF forced_invocation(1) that(1) forced_invocation(3) [OF that(2)]] quiet
    by blast
  show "\<not> peel_uncertain (unwrap_invocation_checked iv)"
    if "iv \<in> set (shell_command_invocations root cmd)"
    using forced_fold_by [of ?inv, OF forced_invocation(1) that forced_invocation(2)] quiet by blast
qed

lemma redirect_ambiguous_iff:
  assumes "r \<in> set (shell_redirect_targets root cmd)" and "rt_path r = Some name"
  shows "rt_ambiguous r = shell_arg_is_ambiguous name"
proof -
  from assms(1) obtain n ctx where "redirect_target cmd n ctx = Some r"
    by (auto simp: shell_redirect_targets_def map_filter_def split: if_splits)
  then obtain mode amb where one: "shell_redirect_one n cmd = Some (Some name, mode, amb)" "rt_ambiguous r = amb"
    using assms(2) by (auto simp: redirect_target_def split: if_splits)
  then show ?thesis
    by (auto simp: shell_redirect_one_def Let_def split: option.splits arg_text.splits if_splits)
qed

lemma names_file_unambiguous:
  "names_file E n cmd u name mode u' \<Longrightarrow>
    evaluate_shell_file_access_inner E p cwd n cmd u entered = None \<Longrightarrow> \<not> shell_arg_is_ambiguous name"
proof (induction arbitrary: entered rule: names_file.induct)
  case (redirected cmd root r name n u)
  then show ?case
    using silent_level(1) [of E p cwd _ cmd u entered root r] redirect_ambiguous_iff [of r root cmd name]
    by (simp add: inner_is_level)
next
  case (operand cmd root iv name mode n u)
  then show ?case
    using silent_level(2) [of E p cwd _ cmd u entered root iv "(name, mode)"] by (simp add: inner_is_level)
next
  case (inline cmd root iv script n u name mode u')
  let ?eval = "\<lambda>cmd u. evaluate_shell_file_access_inner E p cwd n cmd u True"
  let ?v = "invocation_unpinned u (cwd_poison_positions root cmd) iv"
  have "?eval script ?v = None"
  proof (rule ccontr)
    assume "?eval script ?v \<noteq> None"
    then obtain g where "?eval script ?v = Some g" by blast
    then have "1 \<le> gate_rank_opt (?eval script ?v)" by (cases g) (simp_all add: gate_rank_opt_def)
    with inline.hyps have "level_rank_ge E p cwd 1 (Some ?eval) cmd root u"
      unfolding level_rank_ge_def Let_def by blast
    with inline script_file_gate_rank(2) [of 1 E cmd root p cwd "Some ?eval" u entered] show False
      by (simp add: gate.rank_None)
  qed
  with inline.IH show ?case by blast
qed

text \<open>
  Silence of the file gate is proof that it saw every file: when a policy with deny or ask rules
  on files says nothing about a script, then every file that the script names is spelled out (no
  wildcard), has a known working directory or an absolute path, and none of its texts matches a
  deny or an ask rule.
\<close>
theorem silent_file_gate_saw_everything:
  assumes "cp_has_file_restrictions (compiled_policy_new E cfg)"
    and "evaluate_shell_file_access E (compiled_policy_new E cfg) cmd cwd = None"
    and "names_file E max_inline_shell_depth cmd False name mode u"
  shows "\<not> shell_arg_is_ambiguous name \<and>
    \<not> (u \<and> \<not> is_absolute_shell_path (normalize_shell_path name)) \<and>
    \<not> (\<exists>form r. form \<in> set (path_texts E cwd u name) \<and> r \<in> set (pc_rules cfg) \<and> restricts r \<and>
         matching E (shell_access mode form) (path_rule_cwd cwd u name) r)"
proof -
  let ?p = "compiled_policy_new E cfg"
  from assms(1,2) have silent:
      "evaluate_shell_file_access_inner E ?p cwd max_inline_shell_depth cmd False False = None"
    by (simp add: evaluate_shell_file_access_def evaluate_shell_file_access_gate_def)
  then have "\<not> 1 \<le> gate_rank_opt (evaluate_shell_path E ?p name cwd mode u)"
    using names_file_checked [OF assms(3), of 1 ?p cwd False] by (auto simp: gate.rank_None)
  moreover have "1 \<le> gate_rank_opt (text_gate E ?p cwd u mode name form)"
    if "r \<in> set (pc_rules cfg)" "restricts r"
      "matching E (shell_access mode form) (path_rule_cwd cwd u name) r" for form r
    unfolding text_gate_def using escalate_rank_1 [OF that] .
  ultimately show ?thesis
    using names_file_unambiguous [OF assms(3) silent] unknown_cwd_asks [of u name E ?p cwd mode]
      path_rank_texts [of _ E cwd u name 1 ?p mode] by blast
qed

text \<open>A file system without links, and a policy that denies reading one file.\<close>

definition linkless_env :: policy_env where
  "linkless_env = word_env\<lparr>fs_canonicalize := (\<lambda>p. Some (normalize_lexically p))\<rparr>"

definition read_rule :: "rule_action \<Rightarrow> string \<Rightarrow> permission_rule" where
  "read_rule act pat = \<lparr>rule_act = act, rule_tool = TfRead, rule_pattern = Some pat, rule_mode = Glob\<rparr>"

definition deny_read :: "string \<Rightarrow> permission_config" where
  "deny_read pat = permission_config_new [read_rule RDeny pat]"

definition deny_read_reason :: "string \<Rightarrow> decision" where
  "deny_read_reason pat = Reject (deny_reason (read_rule RDeny pat))"

definition cat_tree :: ts_node where
  "cat_tree = unwrap_or (TS [] False 0 0 None False []) (parse_shell linkless_env ''cat /work/a'')"

theorem silent_file_gate_saw_everything_witness:
  "\<not> shell_arg_is_ambiguous ''/work/a'' \<and>
   \<not> (\<exists>form r. form \<in> set (path_texts linkless_env ''/work'' False ''/work/a'') \<and>
        r \<in> set (pc_rules (deny_read ''/etc/passwd'')) \<and> restricts r \<and>
        matching linkless_env (shell_access ModeRead form) (path_rule_cwd ''/work'' False ''/work/a'') r)"
proof -
  let ?iv = "hd (shell_command_invocations cat_tree ''cat /work/a'')"
  have "parse_shell linkless_env ''cat /work/a'' = Some cat_tree"
    and "shell_command_invocations cat_tree ''cat /work/a'' = [?iv]"
    and "invocation_operands (words_of ?iv) = [(''/work/a'', ModeRead)]"
    and pinned: "invocation_unpinned False (cwd_poison_positions cat_tree ''cat /work/a'') ?iv = False"
    by code_simp+
  moreover have "?iv \<in> set (shell_command_invocations cat_tree ''cat /work/a'')"
    by (subst \<open>shell_command_invocations cat_tree ''cat /work/a'' = [?iv]\<close>) simp
  ultimately have "names_file linkless_env max_inline_shell_depth ''cat /work/a'' False ''/work/a'' ModeRead False"
    using names_file.operand [of linkless_env "''cat /work/a''" cat_tree ?iv "''/work/a''" ModeRead
        max_inline_shell_depth False] by simp
  moreover have "cp_has_file_restrictions (compiled_policy_new linkless_env (deny_read ''/etc/passwd''))"
    by code_simp
  moreover have "evaluate_shell_file_access linkless_env
      (compiled_policy_new linkless_env (deny_read ''/etc/passwd'')) ''cat /work/a'' ''/work'' = None"
    by code_simp
  ultimately show ?thesis
    using silent_file_gate_saw_everything [of linkless_env "deny_read ''/etc/passwd''" "''cat /work/a''"
        "''/work''" "''/work/a''" ModeRead False] by blast
qed

end
