(* ===== verification/ShellAccessGaps.thy ===== *)
theory ShellAccessGaps imports ShellAccessLaws begin

text \<open>
  The file gate at concrete scripts: a script that the gate passes, and the ways in which a file
  escapes it.
\<close>

text \<open>Two commands of plain words with a conjunction between them.\<close>

definition command_at :: "nat \<Rightarrow> string list \<Rightarrow> ts_node" where
  "command_at i ws =
     (let end = i + length (join '' '' ws) in
      case word_nodes i ws of
        [] \<Rightarrow> TS ''command'' True i end None False []
      | w # args \<Rightarrow>
          TS ''command'' True i end None False
            (TS ''command_name'' True (ts_start w) (ts_end w) (Some ''name'') False [w] # args))"

definition and_tree :: "string list \<Rightarrow> string list \<Rightarrow> ts_node" where
  "and_tree a b =
     (let n = length (join '' '' a); m = n + 4 + length (join '' '' b)
      in TS ''program'' True 0 m None False
           [TS ''list'' True 0 m None False
              [command_at 0 a, TS ''&&'' False (n + 1) (n + 3) None False [], command_at (n + 4) b]])"

definition and_text :: "string list \<Rightarrow> string list \<Rightarrow> string" where
  "and_text a b = join '' '' a @ '' && '' @ join '' '' b"

definition and_env :: "string list \<Rightarrow> string list \<Rightarrow> policy_env" where
  "and_env a b = linkless_env\<lparr>parse_shell :=
     (\<lambda>src. if src = and_text a b then Some (and_tree a b) else None)\<rparr>"

definition gate_of_pair :: "string list \<Rightarrow> string list \<Rightarrow> decision option" where
  "gate_of_pair a b = evaluate_shell_file_access (and_env a b)
     (compiled_policy_new (and_env a b) (deny_read ''/etc/passwd'')) (and_text a b) ''/work''"

text \<open>
  A change of the directory can hide from the gate: with reading the password file denied, the
  script that changes to its directory and reads it by its relative name makes the gate ask, but
  with the change written behind a transparent prefix (the gate looks at the name of the command as
  it is spelled) the gate passes the script without a decision.
\<close>
theorem prefixed_cd_hides_directory:
  "gate_of_pair [''cd'', ''/etc''] [''cat'', ''/etc/passwd''] = Some (deny_read_reason ''/etc/passwd'') \<and>
   gate_of_pair [''cd'', ''/etc''] [''cat'', ''passwd''] = Some Ask \<and>
   gate_of_pair [''builtin'', ''cd'', ''/etc''] [''cat'', ''passwd''] = None \<and>
   gate_of_pair [''command'', ''cd'', ''/etc''] [''cat'', ''passwd''] = None"
  by (intro conjI; code_simp)

definition gate_of_words :: "string \<Rightarrow> string \<Rightarrow> decision option" where
  "gate_of_words pat cmd = evaluate_shell_file_access linkless_env
     (compiled_policy_new linkless_env (deny_read pat)) cmd ''/work''"

text \<open>
  A directory whose name is one letter and a colon hides a path: the normalisation takes it for
  a drive and the path for an absolute one, so the file behind it is compared neither with the
  rules of the working directory nor with the target of its links.
\<close>
theorem drive_letter_hides_path:
  "gate_of_words ''/work/secret'' ''cat a/../secret'' = Some (deny_read_reason ''/work/secret'') \<and>
   gate_of_words ''/work/secret'' ''cat a:/../secret'' = None \<and>
   normalize_lexically ''/work/a:/../secret'' = ''/work/secret''"
  by (intro conjI; code_simp)

end
