(* ===== verification/AutoRisk.thy ===== *)
theory AutoRisk imports ShellAccess ExecRisk begin

text \<open>
  The static part of the automatic permission mode: the findings on a Bash request
  (\<^verbatim>\<open>auto_mode/security_findings.rs\<close>), the risk of the environment that a script sets, and the
  fail-closed heuristic that recognises a routine command (\<^verbatim>\<open>auto_mode/mod.rs\<close>,
  \<^verbatim>\<open>auto_mode/routine_git.rs\<close>). The set of findings is a set over the ten variants; where the code
  iterates it, the model filters the variants in their order.
\<close>

section \<open>Findings\<close>

datatype finding =
    FailClosedPolicy
  | UnparseableShell
  | UnresolvedArgument
  | OpaqueShell
  | ExecOrAmbientGit
  | FindEnvInjection
  | UnvettedEnv
  | FileWrite
  | DangerousCommand
  | SpecialExecSurface

type_synonym assessment = "finding set"

definition all_findings :: "finding list" where
  "all_findings =
     [FailClosedPolicy, UnparseableShell, UnresolvedArgument, OpaqueShell, ExecOrAmbientGit,
      FindEnvInjection, UnvettedEnv, FileWrite, DangerousCommand, SpecialExecSurface]"

fun finding_token :: "finding \<Rightarrow> string" where
  "finding_token FailClosedPolicy = ''fail_closed_policy''"
| "finding_token UnparseableShell = ''unparseable_shell''"
| "finding_token UnresolvedArgument = ''unresolved_argument''"
| "finding_token OpaqueShell = ''opaque_shell''"
| "finding_token ExecOrAmbientGit = ''exec_or_ambient_git''"
| "finding_token FindEnvInjection = ''env_injection''"
| "finding_token UnvettedEnv = ''unvetted_env''"
| "finding_token FileWrite = ''file_write''"
| "finding_token DangerousCommand = ''dangerous_command''"
| "finding_token SpecialExecSurface = ''special_exec_surface''"

fun finding_description :: "finding \<Rightarrow> string" where
  "finding_description FailClosedPolicy =
     ''permission policy could not determine whether a rule applies''"
| "finding_description UnparseableShell = ''shell structure could not be fully parsed''"
| "finding_description UnresolvedArgument = ''argument values depend on shell expansion''"
| "finding_description OpaqueShell = ''invokes a nested or dynamically supplied shell command''"
| "finding_description ExecOrAmbientGit =
     ''may run code via an execution callback or ambient Git configuration''"
| "finding_description FindEnvInjection =
     ''sets environment variables that can change which code executes''"
| "finding_description UnvettedEnv = ''sets environment variables outside the known-safe set''"
| "finding_description FileWrite = ''writes to a real file rather than a sink''"
| "finding_description DangerousCommand = ''a destructive or high-impact command''"
| "finding_description SpecialExecSurface =
     ''options or tools that can write arbitrary output, execute code, override config/identity, or disclose the process environment''"

definition is_grant_floor :: "finding \<Rightarrow> bool" where
  "is_grant_floor f \<longleftrightarrow>
     f \<in> {FileWrite, UnvettedEnv, FindEnvInjection, OpaqueShell, ExecOrAmbientGit, SpecialExecSurface}"

definition in_order :: "assessment \<Rightarrow> finding list" where
  "in_order A = filter (\<lambda>f. f \<in> A) all_findings"

definition constrains_broad_grant :: "assessment \<Rightarrow> bool" where
  "constrains_broad_grant A \<longleftrightarrow> list_ex is_grant_floor (in_order A)"

definition is_file_write_only :: "assessment \<Rightarrow> bool" where
  "is_file_write_only A \<longleftrightarrow> length (in_order A) = 1 \<and> FileWrite \<in> A"

definition finding_tokens :: "assessment \<Rightarrow> string list" where
  "finding_tokens A = map finding_token (in_order A)"

definition render_glossary :: "assessment \<Rightarrow> string" where
  "render_glossary A =
     join [newline] (map (\<lambda>f. ''- '' @ finding_token f @ '': '' @ finding_description f) (in_order A))"

lemma all_findings_complete: "f \<in> set all_findings"
  by (cases f) (simp_all add: all_findings_def)

lemma in_order_set [simp]: "set (in_order A) = A"
  by (auto simp: in_order_def all_findings_complete)

lemma constrains_broad_grant_iff: "constrains_broad_grant A \<longleftrightarrow> (\<exists>f \<in> A. is_grant_floor f)"
  by (auto simp: constrains_broad_grant_def list_ex_iff)

lemma in_order_distinct: "distinct (in_order A)"
  by (simp add: in_order_def all_findings_def)

lemma is_file_write_only_iff: "is_file_write_only A \<longleftrightarrow> A = {FileWrite}"
proof -
  have "length (in_order A) = card A"
    using distinct_card [OF in_order_distinct [of A]] by simp
  then show ?thesis by (auto simp: is_file_write_only_def card_1_singleton_iff)
qed

section \<open>Flags that select who runs\<close>

definition kubectl_unsafe_flags :: "string list" where
  "kubectl_unsafe_flags =
     [''--kubeconfig'', ''--context'', ''--cluster'', ''--server'', ''-s'', ''--token'', ''--user'',
      ''--as'', ''--as-group'', ''--as-uid'', ''--as-user-extra'', ''--username'', ''--password'',
      ''--client-certificate'', ''--client-key'', ''--certificate-authority'']"

definition rg_unsafe_flags :: "string list" where
  "rg_unsafe_flags = [''--pre'', ''--hostname-bin'']"

text \<open>The name of a flag is the word up to its first equals sign (\<open>option_flag\<close>).\<close>

definition rg_has_unsafe_flag :: "string list \<Rightarrow> bool" where
  "rg_has_unsafe_flag words \<longleftrightarrow>
     normalized_command_head words = Some ''rg'' \<and>
     list_ex (\<lambda>w. List.member rg_unsafe_flags (option_flag w)) (drop 1 words)"

section \<open>The environment that a script sets\<close>

text \<open>The derived order of the variants, from the least risk to the greatest.\<close>

fun risk_level :: "env_risk \<Rightarrow> nat" where
  "risk_level EnvSafe = 0"
| "risk_level EnvUnvetted = 1"
| "risk_level EnvInjection = 2"

instantiation env_risk :: linorder
begin

definition less_eq_env_risk :: "env_risk \<Rightarrow> env_risk \<Rightarrow> bool" where
  "less_eq_env_risk a b \<longleftrightarrow> risk_level a \<le> risk_level b"

definition less_env_risk :: "env_risk \<Rightarrow> env_risk \<Rightarrow> bool" where
  "less_env_risk a b \<longleftrightarrow> risk_level a < risk_level b"

instance
proof
  fix x y :: env_risk
  show "x \<le> y \<Longrightarrow> y \<le> x \<Longrightarrow> x = y"
    by (cases x; cases y) (simp_all add: less_eq_env_risk_def)
qed (auto simp: less_eq_env_risk_def less_env_risk_def)

end

lemma max_env_safe [simp]: "max EnvSafe r = r" "max r EnvSafe = r"
  by (cases r; simp add: max_def less_eq_env_risk_def)+

lemma max_is_safe: "max a b = EnvSafe \<longleftrightarrow> a = EnvSafe \<and> b = EnvSafe"
  by (cases a; cases b) (simp_all add: max_def less_eq_env_risk_def)

definition assignment_key :: "ts_node \<Rightarrow> string \<Rightarrow> string" where
  "assignment_key n src =
     (case find (\<lambda>c. ts_kind c = ''variable_name'') (ts_children n) of
        Some c \<Rightarrow> utf8_text src c
      | None \<Rightarrow> hd (split_on (CHR ''='') (utf8_text src n)))"

text \<open>
  The arguments of one \<^verbatim>\<open>env\<close> up to its command; nothing when an option is among them, which
  ends the walk as an injection.
\<close>

fun env_args_risk :: "bool \<Rightarrow> env_risk \<Rightarrow> string list \<Rightarrow> env_risk option" where
  "env_args_risk options_done risk [] = Some risk"
| "env_args_risk options_done risk (arg # args) =
     (if arg = ''--'' then env_args_risk True risk args
      else if \<not> options_done \<and> starts_with arg ''-'' then None
      else case split_once (CHR ''='') arg of
        Some (key, v) \<Rightarrow> env_args_risk options_done (max risk (env_key_risk key)) args
      | None \<Rightarrow> Some risk)"

fun command_env_rounds :: "nat \<Rightarrow> env_risk \<Rightarrow> string list \<Rightarrow> env_risk" where
  "command_env_rounds 0 risk current = risk"
| "command_env_rounds (Suc n) risk current =
     (let here = (if first_segment current = Some ''env''
                  then env_args_risk False risk (drop 1 current) else Some risk)
      in case here of
           None \<Rightarrow> EnvInjection
         | Some risk \<Rightarrow>
             (case strip_wrapper_command current of
                Some inner \<Rightarrow> command_env_rounds n risk inner
              | None \<Rightarrow> risk))"

definition command_env_risk :: "string list \<Rightarrow> env_risk" where
  "command_env_risk words = command_env_rounds 8 EnvSafe words"

definition script_env_risk :: "ts_node \<Rightarrow> string \<Rightarrow> plain_command list \<Rightarrow> env_risk" where
  "script_env_risk root src cmds =
     (let risk = fold (\<lambda>n r. if ts_kind n = ''variable_assignment''
                             then max r (env_key_risk (assignment_key n src)) else r)
                   (ts_walk [root]) EnvSafe
      in fold (\<lambda>c r. max r (command_env_risk (pl_words c))) cmds risk)"

section \<open>Scripts that may invoke git\<close>

fun split_where :: "('a \<Rightarrow> bool) \<Rightarrow> 'a list \<Rightarrow> 'a list list" where
  "split_where p [] = [[]]"
| "split_where p (x # xs) =
     (if p x then [] # split_where p xs
      else case split_where p xs of [] \<Rightarrow> [[x]] | y # ys \<Rightarrow> (x # y) # ys)"

definition trim_where :: "('a \<Rightarrow> bool) \<Rightarrow> 'a list \<Rightarrow> 'a list" where
  "trim_where p s = rev (dropWhile p (rev (dropWhile p s)))"

definition shell_separators :: string where
  "shell_separators = ''|&;()<>'' @ [CHR 0x60]"

text \<open>
  Splitting at white space and at the separators: an empty token is passed over, so it does not
  matter that the two kinds are split one after the other.
\<close>

definition script_may_invoke_git :: "string \<Rightarrow> bool" where
  "script_may_invoke_git cmd \<longleftrightarrow>
     list_ex (\<lambda>token. let trimmed = trim_where (\<lambda>c. c \<in> {quote_char, dquote_char, CHR 0x60}) token
                      in trimmed \<noteq> [] \<and> normalized_token_basename trimmed = ''git'')
       (concat (map (split_where (\<lambda>c. c \<in> set shell_separators)) (split_whitespace cmd)))"

end
