(* ===== verification/RoutineBash.thy ===== *)
theory RoutineBash imports AutoRisk begin

text \<open>
  The heuristic of the automatic mode for Bash (\<^verbatim>\<open>auto_mode/mod.rs\<close>,
  \<^verbatim>\<open>auto_mode/routine_git.rs\<close>): a command line is allowed without the model only when it
  decomposes into plain commands, each of them on a list of routine ones. Launchers of package
  managers are resolved and what they launch is classified again.
\<close>

section \<open>Routine git\<close>

definition branch_switch_benign_flags :: "string list" where
  "branch_switch_benign_flags =
     [''-q'', ''--quiet'', ''-d'', ''--detach'', ''-t'', ''--track'', ''--no-track'', ''--guess'',
      ''--no-guess'', ''--progress'', ''--no-progress'', ''--recurse-submodules'',
      ''--no-recurse-submodules'']"

definition maintenance_branch :: "string \<Rightarrow> string \<Rightarrow> bool" where
  "maintenance_branch stem ext \<longleftrightarrow>
     (let leaf = last (split_on (CHR ''/'') stem)
      in ext = ''x'' \<and> list_ex is_dec_digit leaf \<and> list_all (\<lambda>c. is_dec_digit c \<or> c = CHR ''.'') leaf)"

definition looks_like_extension :: "string \<Rightarrow> bool" where
  "looks_like_extension ext \<longleftrightarrow>
     1 \<le> length ext \<and> length ext \<le> 5 \<and> list_all ascii_alnum ext \<and> list_ex ascii_alpha ext"

definition rejected_in_branch_names :: "string \<Rightarrow> bool" where
  "rejected_in_branch_names op \<longleftrightarrow>
     list_ex (\<lambda>c. starts_with c ''.'' \<or> ends_with c ''.lock'') (split_on (CHR ''/'') op) \<or>
     ends_with op ''/'' \<or> ends_with op ''.'' \<or> contains op ''..'' \<or> contains op [CHR ''@'', CHR ''{''] \<or>
     list_ex (\<lambda>c. c \<in> {CHR 0x7E, CHR 0x5E, CHR '':'', CHR 0x5C}) op \<or>
     list_ex (\<lambda>w. contains op w) white_space"

definition operand_reads_as_path :: "string \<Rightarrow> bool" where
  "operand_reads_as_path op \<longleftrightarrow>
     rejected_in_branch_names op \<or>
     starts_with op ''/'' \<or> list_ex (\<lambda>c. c \<in> {CHR ''*'', CHR ''?'', CHR ''[''}) op \<or>
     (case rsplit_once (CHR ''.'') op of
        None \<Rightarrow> False
      | Some (stem, ext) \<Rightarrow> \<not> maintenance_branch stem ext \<and> looks_like_extension ext)"

text \<open>The number of operands, nothing when an argument is refused.\<close>

fun branch_switch_operands :: "string list \<Rightarrow> nat option" where
  "branch_switch_operands [] = Some 0"
| "branch_switch_operands (w # ws) =
     (if w \<in> {''-b'', ''-B'', ''-c'', ''-C'', ''--orphan''} then
        (case ws of [] \<Rightarrow> Some 0 | _ # rest \<Rightarrow> branch_switch_operands rest)
      else if w = ''-'' then map_option Suc (branch_switch_operands ws)
      else if List.member branch_switch_benign_flags w then branch_switch_operands ws
      else if starts_with w ''-'' then None
      else if operand_reads_as_path w then None
      else map_option Suc (branch_switch_operands ws))"

definition is_routine_branch_switch :: "string list \<Rightarrow> bool" where
  "is_routine_branch_switch args \<longleftrightarrow>
     (case branch_switch_operands args of None \<Rightarrow> False | Some n \<Rightarrow> n \<le> 1)"

fun is_routine_stash :: "string list \<Rightarrow> bool" where
  "is_routine_stash [] = True"
| "is_routine_stash (w # ws) =
     (if w = ''-m'' \<or> w = ''--message'' then (case ws of [] \<Rightarrow> True | _ # rest \<Rightarrow> is_routine_stash rest)
      else if w = ''-q'' \<or> w = ''--quiet'' then is_routine_stash ws
      else if starts_with w ''-'' then False
      else w \<in> {''push'', ''save'', ''pop'', ''apply'', ''list'', ''show'', ''branch''})"

definition git_words_are_routine :: "string list \<Rightarrow> bool" where
  "git_words_are_routine words \<longleftrightarrow>
     (if get_at words 0 \<noteq> Some ''git'' then False
      else if git_words_are_read_only_query words then True
      else if git_words_have_unsafe_query_option words then False
      else case get_at words 1 of
        None \<Rightarrow> False
      | Some verb \<Rightarrow>
          (let args = drop 2 words in
           if verb \<in> {''add'', ''commit'', ''pull'', ''fetch''} then True
           else if verb = ''worktree'' then get_at args 0 = Some ''list''
           else if verb = ''checkout'' \<or> verb = ''switch'' then is_routine_branch_switch args
           else if verb = ''stash'' then is_routine_stash args
           else False))"

section \<open>Package managers\<close>

definition is_package_manager :: "string \<Rightarrow> bool" where
  "is_package_manager prog \<longleftrightarrow>
     prog \<in> {''uv'', ''uvx'', ''npm'', ''npx'', ''pnpm'', ''yarn'', ''rustup''}"

definition is_npm_like :: "string \<Rightarrow> bool" where
  "is_npm_like prog \<longleftrightarrow> prog \<in> {''npm'', ''pnpm'', ''yarn''}"

definition npm_safe_subcommands :: "string list" where
  "npm_safe_subcommands =
     [''install'', ''i'', ''ci'', ''add'', ''remove'', ''rm'', ''uninstall'', ''update'', ''up'',
      ''upgrade'', ''test'', ''t'', ''run'', ''run-script'', ''start'', ''build'', ''audit'', ''list'',
      ''ls'', ''ll'', ''outdated'', ''why'', ''view'', ''info'', ''dedupe'', ''prune'', ''version'',
      ''pack'', ''config'', ''link'', ''unlink'', ''rebuild'', ''store'', ''fetch'', ''import'']"

definition uv_safe_subcommands :: "string list" where
  "uv_safe_subcommands =
     [''sync'', ''pip'', ''lock'', ''venv'', ''add'', ''remove'', ''tree'', ''export'', ''build'',
      ''version'', ''python'', ''cache'', ''init'', ''self'', ''help'']"

definition rustup_safe_subcommands :: "string list" where
  "rustup_safe_subcommands =
     [''show'', ''toolchain'', ''component'', ''target'', ''default'', ''update'', ''which'', ''doc'',
      ''self'', ''completions'', ''set'', ''override'']"

definition launched_writes_nonsink :: "string list \<Rightarrow> bool" where
  "launched_writes_nonsink words \<longleftrightarrow>
     list_ex (\<lambda>p. \<not> is_safe_write_sink p) (command_words_write_paths words)"

definition launcher_subcommand :: "string \<Rightarrow> string list \<Rightarrow> string option" where
  "launcher_subcommand head inner =
     map_option (\<lambda>sub. if is_npm_like head \<and> sub = ''x'' then ''exec''
                       else if is_npm_like head \<and> sub = ''innit'' then ''init'' else sub)
       (get_at inner 1)"

definition is_remote_launcher :: "string \<Rightarrow> string list \<Rightarrow> bool" where
  "is_remote_launcher head inner \<longleftrightarrow>
     (if head = ''npx'' \<or> head = ''uvx'' then True
      else if head = ''uv'' \<and> get_at inner 1 = Some ''tool'' \<and> get_at inner 2 = Some ''run'' then True
      else case launcher_subcommand head inner of
        None \<Rightarrow> False
      | Some sub \<Rightarrow>
          is_npm_like head \<and>
          (sub \<in> {''dlx'', ''create'', ''explore''} \<or>
           (sub = ''init'' \<and> (case get_at inner 2 of Some a \<Rightarrow> \<not> starts_with a ''-'' | None \<Rightarrow> False))))"

datatype launch_target = NotLauncher | LaunchInner "string list" | LaunchUnresolved

text \<open>The words from an index on, when there is one there and it is no option.\<close>

definition launched_from :: "string list \<Rightarrow> nat \<Rightarrow> launch_target" where
  "launched_from inner start =
     (case get_at inner start of
        Some tok \<Rightarrow> if starts_with tok ''-'' then LaunchUnresolved else LaunchInner (drop start inner)
      | None \<Rightarrow> LaunchUnresolved)"

definition explicit_launch_target :: "string \<Rightarrow> string list \<Rightarrow> launch_target" where
  "explicit_launch_target head inner =
     (case launcher_subcommand head inner of
        None \<Rightarrow> NotLauncher
      | Some sub \<Rightarrow>
          if head = ''uv'' \<and> sub = ''run'' then launched_from inner 2
          else if head = ''rustup'' \<and> sub = ''run'' then
            (case get_at inner 2 of
               Some toolchain \<Rightarrow>
                 if starts_with toolchain ''-'' then LaunchUnresolved else launched_from inner 3
             | None \<Rightarrow> LaunchUnresolved)
          else if is_npm_like head \<and> sub = ''exec'' then
            launched_from inner (if get_at inner 2 = Some ''--'' then 3 else 2)
          else NotLauncher)"

definition safe_subcommand :: "string \<Rightarrow> string list \<Rightarrow> bool" where
  "safe_subcommand prog inner \<longleftrightarrow>
     (case launcher_subcommand prog inner of
        None \<Rightarrow> False
      | Some s \<Rightarrow>
          if is_npm_like prog then List.member npm_safe_subcommands s
          else if prog = ''uv'' then List.member uv_safe_subcommands s
          else if prog = ''rustup'' then List.member rustup_safe_subcommands s
          else False)"

lemma launched_from_shorter:
  "launched_from inner start = LaunchInner launched \<Longrightarrow> length launched = length inner - start \<and> start < length inner"
  by (auto simp: launched_from_def get_at_def split: option.splits if_splits)

lemma launched_shorter:
  "explicit_launch_target head inner = LaunchInner launched \<Longrightarrow> length launched + 2 \<le> length inner"
  by (auto simp: explicit_launch_target_def split: option.splits if_splits dest!: launched_from_shorter)

section \<open>Routine commands\<close>

definition routine_prefixes :: "string list" where
  "routine_prefixes =
     [''cargo '', ''pytest'', ''python '', ''python3 '', ''node '', ''rustc '', ''rustfmt'', ''clippy'',
      ''make '', ''cmake '', ''cd'', ''pushd'', ''popd'', ''ls'', ''pwd'', ''echo '', ''printf '', ''cat '',
      ''head '', ''tail '', ''wc '', ''rg '', ''grep '', ''which '', ''type '', ''true'', ''false'', ''test '',
      ''sort '', ''uniq '', ''tr '', ''cut '', ''diff '', ''jq '', ''date'', ''whoami'', ''hostname'',
      ''uname'', ''nproc'', ''printenv'', ''stat '', ''file '', ''tree'', ''basename '', ''dirname '',
      ''realpath '', ''readlink '', ''strings '', ''sleep '', ''df '', ''du '', ''ps '', ''top'', ''htop'',
      ''bazel '', ''just '', ''go '', ''kubectl get'', ''kubectl logs'', ''kubectl describe'', ''set'']"

definition is_lone_wrapper :: "string list \<Rightarrow> bool" where
  "is_lone_wrapper words \<longleftrightarrow> length words = 1 \<and> is_wrapper_command words"

definition find_actions :: "string list" where
  "find_actions =
     [''-delete'', ''-exec'', ''-execdir'', ''-ok'', ''-okdir'', ''-fprint'', ''-fprint0'', ''-fprintf'',
      ''-fls'']"

definition find_is_read_only :: "string list \<Rightarrow> bool" where
  "find_is_read_only words \<longleftrightarrow> \<not> list_ex (List.member find_actions) words"

definition nonflag_tokens :: "string list \<Rightarrow> nat \<Rightarrow> string list" where
  "nonflag_tokens inner n = take n (filter (\<lambda>w. \<not> starts_with w ''-'') (drop 1 inner))"

definition gh_subcommand_is_read_only :: "string list \<Rightarrow> bool" where
  "gh_subcommand_is_read_only inner \<longleftrightarrow>
     (case nonflag_tokens inner 2 of
        [grp, sub] \<Rightarrow>
          (grp \<in> {''pr'', ''issue'', ''release'', ''run'', ''workflow'', ''repo'', ''gist''} \<and>
           sub \<in> {''view'', ''list'', ''status'', ''checks'', ''diff''}) \<or>
          (grp = ''auth'' \<and> sub = ''status'')
      | [only] \<Rightarrow> only = ''status''
      | _ \<Rightarrow> False)"

definition tree_writes :: "string list \<Rightarrow> bool" where
  "tree_writes inner \<longleftrightarrow>
     list_ex (\<lambda>w. short_option_with (CHR ''o'') w \<or> starts_with w ''--output'') inner"

definition kubectl_flagged :: "string list \<Rightarrow> bool" where
  "kubectl_flagged inner \<longleftrightarrow>
     list_ex (\<lambda>w. List.member kubectl_unsafe_flags (option_flag w)) (drop 1 inner)"

definition has_routine_prefix :: "string list \<Rightarrow> bool" where
  "has_routine_prefix inner \<longleftrightarrow>
     (let joined = ascii_lower (join '' '' inner) in
      list_ex (\<lambda>p. let base = trim p in
          joined = base \<or>
          (starts_with joined base \<and>
           (case str_get_from joined (length base) of Some s \<Rightarrow> starts_with s '' '' | None \<Rightarrow> False)))
        routine_prefixes)"

text \<open>A command that no package manager runs.\<close>

definition plain_command_is_routine :: "string \<Rightarrow> string list \<Rightarrow> bool" where
  "plain_command_is_routine head inner \<longleftrightarrow>
     (if head = ''find'' then find_is_read_only inner
      else if head = ''git'' then git_words_are_routine inner
      else if head = ''tree'' \<and> tree_writes inner then False
      else if rg_has_unsafe_flag inner then False
      else if head = ''kubectl'' \<and> kubectl_flagged inner then False
      else if head = ''gh'' then gh_subcommand_is_read_only inner
      else has_routine_prefix inner)"

lemma unwrap_wrappers_suffix: "is_suffix (unwrap_wrappers words) words"
  using unwrap_rounds_suffix [of max_wrapper_depth "\<lparr>wp_words = words, wp_has_chdir = False,
    wp_has_split_string = False, wp_env_options_uncertain = False, wp_exhausted = False\<rparr>"]
  by (simp add: unwrap_wrappers_def unwrap_wrappers_checked_def)

lemma unwrap_wrappers_shorter: "length (unwrap_wrappers words) \<le> length words"
  using unwrap_wrappers_suffix [of words] unfolding is_suffix_def
  by (metis le_add2 length_append)

function (sequential) bash_command_is_routine :: "string list \<Rightarrow> bool"
  and package_manager_subcommand_is_routine :: "string \<Rightarrow> string list \<Rightarrow> bool option" where
  "bash_command_is_routine words =
     (let inner = unwrap_wrappers words in
      if is_lone_wrapper inner then True
      else case inner of
        [] \<Rightarrow> True
      | head_word # _ \<Rightarrow>
          (let head = ascii_lower (last_segment head_word) in
           case package_manager_subcommand_is_routine head inner of
             Some routine \<Rightarrow> routine
           | None \<Rightarrow> plain_command_is_routine head inner))"
| "package_manager_subcommand_is_routine prog inner =
     (if \<not> is_package_manager prog then None
      else if is_remote_launcher prog inner then Some False
      else case explicit_launch_target prog inner of
        LaunchUnresolved \<Rightarrow> Some False
      | LaunchInner launched \<Rightarrow>
          Some (command_env_risk launched = EnvSafe \<and> \<not> launched_writes_nonsink launched \<and>
                bash_command_is_routine launched)
      | NotLauncher \<Rightarrow> Some (safe_subcommand prog inner))"
  by pat_completeness auto

termination
proof (relation "measure (\<lambda>x. case x of Inl words \<Rightarrow> 2 * length words + 1 | Inr (prog, inner) \<Rightarrow> 2 * length inner)",
    goal_cases)
  case (2 words inner head_word rest head)
  then show ?case using unwrap_wrappers_shorter [of words] by simp
next
  case (3 prog inner launched)
  then show ?case using launched_shorter by fastforce
qed simp

declare bash_command_is_routine.simps [simp del]
  package_manager_subcommand_is_routine.simps [simp del]

definition classify_bash :: "policy_env \<Rightarrow> string \<Rightarrow> bool" where
  "classify_bash E cmd \<longleftrightarrow>
     (case parse_shell E cmd of
        None \<Rightarrow> False
      | Some tree \<Rightarrow>
          (case try_parse_word_only_commands_sequence tree cmd of
             None \<Rightarrow> False
           | Some cmds \<Rightarrow>
               script_env_risk tree cmd cmds = EnvSafe \<and>
               list_all is_safe_write_sink (command_write_paths_in_tree tree cmd) \<and>
               cmds \<noteq> [] \<and> list_all (\<lambda>c. bash_command_is_routine (pl_words c)) cmds))"

end
