(* ===== verification/Truncate.thy ===== *)
theory Truncate imports HubSessions begin

text \<open>
  Cutting texts for display (\<^verbatim>\<open>xai-grok-tools/src/util/truncate.rs\<close>). A string is the list of
  its UTF-8 bytes; a character is a first byte with the continuation bytes behind it, so the number of
  characters is the number of bytes that continue none.
\<close>

definition char_count :: "string \<Rightarrow> nat" where
  "char_count s = length (filter (\<lambda>c. \<not> is_continuation c) s)"

text \<open>The offset of the \<open>n\<close>-th character, counted from zero.\<close>

fun char_offset :: "string \<Rightarrow> nat \<Rightarrow> nat option" where
  "char_offset [] n = None"
| "char_offset (c # cs) n =
     (if is_continuation c then map_option Suc (char_offset cs n)
      else case n of 0 \<Rightarrow> Some 0 | Suc m \<Rightarrow> map_option Suc (char_offset cs m))"

definition truncate_line :: "string \<Rightarrow> nat \<Rightarrow> string" where
  "truncate_line line max_chars =
     (if length line \<le> max_chars \<or> char_count line \<le> max_chars then line
      else (let end_byte = unwrap_or (length line) (char_offset line max_chars)
            in unwrap_or [] (if is_char_boundary line end_byte then Some (take end_byte line) else None) @
               '' [... truncated ('' @ dec_of (char_count line) @ '' chars total)]''))"

text \<open>The loop of the soft wrap: \<open>k\<close> characters are on the current line.\<close>

fun soft_wrap :: "nat \<Rightarrow> nat \<Rightarrow> string \<Rightarrow> string" where
  "soft_wrap width k [] = []"
| "soft_wrap width k (c # cs) =
     (if is_continuation c then c # soft_wrap width k cs
      else if width \<le> k then newline # c # soft_wrap width 1 cs
      else c # soft_wrap width (Suc k) cs)"

text \<open>The estimate of the capacity divides by the width: nothing is a division by zero.\<close>

definition soft_wrap_line :: "string \<Rightarrow> nat \<Rightarrow> string option" where
  "soft_wrap_line line wrap_width =
     (if length line \<le> wrap_width \<or> char_count line \<le> wrap_width then Some line
      else if wrap_width = 0 then None
      else Some (soft_wrap wrap_width 0 line))"

definition truncate_str :: "string \<Rightarrow> nat \<Rightarrow> string" where
  "truncate_str s max_bytes =
     (if length s \<le> max_bytes then s else take (boundary_at_most s max_bytes) s)"

record partial_output =
  po_text :: string
  po_total_bytes :: nat

definition po_whole :: "string \<Rightarrow> partial_output" where
  "po_whole text = \<lparr>po_text = text, po_total_bytes = length text\<rparr>"

definition po_part_of :: "string \<Rightarrow> nat \<Rightarrow> partial_output" where
  "po_part_of text total_bytes = \<lparr>po_text = text, po_total_bytes = max total_bytes (length text)\<rparr>"

definition truncate_with_preview ::
    "partial_output \<Rightarrow> nat \<Rightarrow> nat \<Rightarrow> string option \<Rightarrow> string \<times> bool" where
  "truncate_with_preview out max_bytes preview_bytes footer_hint =
     (let text = po_text out; total = po_total_bytes out;
          footer = ''[Output truncated - '' @ dec_of total @ '' bytes total'' @
            (case footer_hint of Some hint \<Rightarrow> ''. '' @ hint @ '']'' | None \<Rightarrow> '']'')
      in if total \<le> length text \<and> length text \<le> max_bytes then (text, False)
         else if length text \<le> max_bytes then (text @ [newline, newline] @ footer, True)
         else (truncate_str text (min preview_bytes (length text)) @ [newline, newline] @ footer, True))"

definition truncate_str_with_marker :: "string \<Rightarrow> nat \<Rightarrow> string" where
  "truncate_str_with_marker s max_bytes =
     (if length s \<le> max_bytes then s
      else if length ellipsis > max_bytes then truncate_str s max_bytes
      else take (boundary_at_most s (max_bytes - length ellipsis)) s @ ellipsis)"

definition floor_char_boundary :: "string \<Rightarrow> nat \<Rightarrow> nat" where
  "floor_char_boundary s index =
     (if index \<ge> length s then length s else boundary_at_most s index)"

definition ceil_char_boundary :: "string \<Rightarrow> nat \<Rightarrow> nat" where
  "ceil_char_boundary s index =
     (if index \<ge> length s then length s
      else case find (is_char_boundary s) [index..<length s] of Some i \<Rightarrow> i | None \<Rightarrow> length s)"

section \<open>What is kept\<close>

lemma truncate_str_prefix:
  "length (truncate_str s n) \<le> n \<and> (\<exists>rest. s = truncate_str s n @ rest)"
  using boundary_at_most_le [of s n]
  by (auto simp: truncate_str_def intro!: exI [of _ "drop (boundary_at_most s n) s"])

lemma char_boundary_bounds:
  "floor_char_boundary s i \<le> length s" "ceil_char_boundary s i \<le> length s"
  "is_char_boundary s (floor_char_boundary s i)" "is_char_boundary s (ceil_char_boundary s i)"
  using boundary_at_most_le [of s i] boundary_at_most_boundary [of s i] is_char_boundary_def [of s "length s"]
  by (auto simp: floor_char_boundary_def ceil_char_boundary_def find_Some_iff split: option.splits)

text \<open>The lines that a soft wrap cuts, the first one continuing \<open>k\<close> characters.\<close>

lemma soft_wrap_lines:
  assumes "k \<le> width" and "0 < width"
  shows "\<exists>line rest. soft_wrap width k s = join [newline] (line # rest) \<and> concat (line # rest) = s \<and>
    k + char_count line \<le> width \<and> (\<forall>l \<in> set rest. char_count l \<le> width)"
  using assms(1)
proof (induction s arbitrary: k)
  case Nil
  then show ?case by (intro exI [of _ "[]"]) (simp add: char_count_def)
next
  case (Cons c s)
  consider (more) "is_continuation c" | (wrap) "\<not> is_continuation c" "k = width"
    | (fits) "\<not> is_continuation c" "k < width" using Cons.prems by linarith
  then show ?case
  proof cases
    case more
    from Cons.IH [OF Cons.prems] obtain line rest where "soft_wrap width k s = join [newline] (line # rest)"
      "concat (line # rest) = s" "k + char_count line \<le> width" "\<forall>l \<in> set rest. char_count l \<le> width" by blast
    with more show ?thesis
      by (intro exI [of _ "c # line"] exI [of _ rest]) (cases rest; simp add: char_count_def)
  next
    case wrap
    from Cons.IH [of 1] assms(2) obtain line rest where "soft_wrap width 1 s = join [newline] (line # rest)"
      "concat (line # rest) = s" "1 + char_count line \<le> width" "\<forall>l \<in> set rest. char_count l \<le> width" by auto
    with wrap show ?thesis
      by (intro exI [of _ "[]"] exI [of _ "(c # line) # rest"]) (cases rest; simp add: char_count_def)
  next
    case fits
    with Cons.IH [of "Suc k"] obtain line rest where "soft_wrap width (Suc k) s = join [newline] (line # rest)"
      "concat (line # rest) = s" "Suc k + char_count line \<le> width" "\<forall>l \<in> set rest. char_count l \<le> width" by auto
    with fits show ?thesis
      by (intro exI [of _ "c # line"] exI [of _ rest]) (cases rest; simp add: char_count_def)
  qed
qed

text \<open>
  Soft wrapping loses nothing: the wrapped text is the line cut into pieces of at most the width
  in characters, joined by newlines; the only width that panics is zero, on a text that is not empty.
\<close>
theorem soft_wrap_keeps_content:
  "case soft_wrap_line line width of
     None \<Rightarrow> width = 0 \<and> line \<noteq> []
   | Some wrapped \<Rightarrow> \<exists>pieces. wrapped = join [newline] pieces \<and> concat pieces = line \<and>
       list_all (\<lambda>p. char_count p \<le> width) pieces"
proof (cases "length line \<le> width \<or> char_count line \<le> width")
  case True
  moreover have "char_count line \<le> length line" by (simp add: char_count_def)
  ultimately show ?thesis
    by (auto simp: soft_wrap_line_def intro!: exI [of _ "[line]"])
next
  case False
  show ?thesis
  proof (cases "width = 0")
    case True
    with False show ?thesis by (auto simp: soft_wrap_line_def)
  next
    case pos: False
    then obtain piece pieces where "soft_wrap width 0 line = join [newline] (piece # pieces)"
      "concat (piece # pieces) = line" "list_all (\<lambda>p. char_count p \<le> width) (piece # pieces)"
      using soft_wrap_lines [of 0 width line] by (auto simp: list_all_iff)
    with False pos show ?thesis
      by (auto simp: soft_wrap_line_def intro!: exI [of _ "piece # pieces"])
  qed
qed

text \<open>
  A truncation with a marker keeps to its budget: the result is never longer than the limit in
  bytes, is the text itself when that fits, and is otherwise a prefix of the text that ends at a
  character, followed by nothing or by the marker.
\<close>
theorem truncation_keeps_to_budget:
  "length (truncate_str_with_marker s n) \<le> n \<and>
   (\<exists>kept rest marker. s = kept @ rest \<and> truncate_str_with_marker s n = kept @ marker \<and>
      is_char_boundary s (length kept) \<and> marker \<in> {[], ellipsis} \<and> (rest = [] \<longleftrightarrow> length s \<le> n))"
proof (cases "length s \<le> n")
  case True
  then show ?thesis
    by (intro conjI exI [of _ s] exI [of _ "[]"]) (simp_all add: truncate_str_with_marker_def is_char_boundary_def)
next
  case False
  let ?at = "if length ellipsis > n then n else n - length ellipsis"
  let ?kept = "take (boundary_at_most s ?at) s"
  have at: "boundary_at_most s ?at \<le> ?at" by (rule boundary_at_most_le)
  then have at_n: "boundary_at_most s ?at \<le> n" by (simp split: if_splits)
  with False have len: "length ?kept = boundary_at_most s ?at" by (simp only: length_take min_def) simp
  have "truncate_str_with_marker s n = ?kept @ (if length ellipsis > n then [] else ellipsis)"
    using False by (simp add: truncate_str_with_marker_def truncate_str_def)
  moreover have "is_char_boundary s (length ?kept)"
    unfolding len by (rule boundary_at_most_boundary)
  moreover have "drop (boundary_at_most s ?at) s \<noteq> []"
    using False at_n unfolding drop_eq_Nil by linarith
  moreover have "length (?kept @ (if length ellipsis > n then [] else ellipsis)) \<le> n"
    unfolding length_append len using at by (simp split: if_splits)
  ultimately show ?thesis using False
    by (intro conjI exI [of _ ?kept] exI [of _ "drop (boundary_at_most s ?at) s"]
        exI [of _ "if length ellipsis > n then [] else ellipsis"]) auto
qed

end
