(* ===== verification/AutoModeLaws.thy ===== *)
theory AutoModeLaws imports AutoMode PolicyAllow begin

text \<open>
  What the automatic mode guarantees: an approval comes from the heuristic on an action without
  findings or from a clear answer of the model; no text that the model is asked to judge can forge a
  heading of the prompt; and what a routine script launches is checked at every depth.
\<close>

section \<open>Approvals\<close>

text \<open>An answer that can only be read as an approval.\<close>

definition json_says :: "classifier_env \<Rightarrow> string option \<Rightarrow> bool option" where
  "json_says C answer = Option.bind (Option.bind answer (json_from_str C)) should_block"

definition mentions_block :: "string \<Rightarrow> bool" where
  "mentions_block answer \<longleftrightarrow>
     contains answer (dquoted ''shouldblock'' @ '': true'') \<or>
     contains answer (''shouldblock'' @ [dquote_char] @ '':true'')"

definition clearly_allows :: "classifier_env \<Rightarrow> string \<Rightarrow> bool" where
  "clearly_allows C answer \<longleftrightarrow>
     (let t = trim answer; whole = json_says C (Some t); inner = json_says C (embedded_object t) in
      t \<noteq> [] \<and>
      (whole = Some False \<or> (whole = None \<and> inner = Some False) \<or>
       (whole = None \<and> inner = None \<and> \<not> mentions_block (ascii_lower t) \<and>
        trim (ascii_lower t) \<in> {''allow'', ''allowed'', ''approve'', ''approved''})))"

lemma outcome_of_json_None: "outcome_of_json v = None \<longleftrightarrow> Option.bind v should_block = None"
  by (cases v) (simp_all add: outcome_of_json_def)

lemma outcome_of_json_Some:
  assumes "outcome_of_json v = Some out"
  shows "\<exists>b. Option.bind v should_block = Some b \<and> co_verdict out = (if b then VBlock else VAllow)"
proof -
  from assms obtain j where v: "v = Some j" by (cases v) (simp_all add: outcome_of_json_def)
  with assms obtain b where b: "should_block j = Some b"
    and out: "out = outcome_llm (if b then VBlock else VAllow) (classifier_reason j)"
    by (cases "should_block j") (simp_all only: outcome_of_json_def option.case option.map option.inject
        option.distinct)
  show ?thesis unfolding v out outcome_llm_def using b by (intro exI [of _ b]) simp
qed

lemma outcome_of_json_says:
  "outcome_of_json (Option.bind a (json_from_str C)) = None \<longleftrightarrow> json_says C a = None"
  "outcome_of_json (Option.bind a (json_from_str C)) = Some out \<Longrightarrow>
     \<exists>b. json_says C a = Some b \<and> co_verdict out = (if b then VBlock else VAllow)"
  unfolding json_says_def by (rule outcome_of_json_None, rule outcome_of_json_Some)

lemma one_word_allow: "one_word_verdict w = VAllow \<longleftrightarrow> w \<in> {''allow'', ''allowed'', ''approve'', ''approved''}"
  by (simp add: one_word_verdict_def)

lemma parse_allows_iff: "parse_classifier_model_text C answer = VAllow \<longleftrightarrow> clearly_allows C answer"
proof -
  let ?t = "trim answer"
  note whole = outcome_of_json_says [of "Some ?t" C, unfolded bind.bind_lunit]
  note inner = outcome_of_json_says [of "embedded_object ?t" C]
  show ?thesis
  proof (cases "?t = []")
    case True
    then show ?thesis
      by (simp add: parse_classifier_model_text_def parse_classifier_model_output_def clearly_allows_def
          outcome_heuristic_def)
  next
    case nonempty: False
    show ?thesis
    proof (cases "outcome_of_json (json_from_str C ?t)")
      case None
      then show ?thesis
        using nonempty whole(1) inner
        by (cases "outcome_of_json (Option.bind (embedded_object ?t) (json_from_str C))")
          (auto simp: parse_classifier_model_text_def parse_classifier_model_output_def
            clearly_allows_def mentions_block_def outcome_llm_def one_word_allow Let_def split: if_splits)
    next
      case (Some out)
      then show ?thesis
        using nonempty whole(2) [OF Some]
        by (auto simp: parse_classifier_model_text_def parse_classifier_model_output_def
            clearly_allows_def Let_def split: if_splits)
    qed
  qed
qed

text \<open>
  C20. Nothing is approved without evidence: the classifier answers allow exactly when the heuristic
  allows an action that has no security finding, or when the model was asked, answered, and its answer
  is a clear approval: a JSON object that says not to block, or one word that approves. A failure of
  the model, an answer in prose, or an unreadable answer on a flagged action never approves.
\<close>
theorem approval_needs_evidence:
  "co_verdict (classify E C L tool access detail ctx) = VAllow \<longleftrightarrow>
     (classify_sync E tool access detail ctx = VAllow \<and> cx_security_findings ctx = {}) \<or>
     (\<exists>answer. clearly_allows C answer \<and>
        model_text L (build_classifier_messages C tool access detail ctx (lc_prompt_type L)) =
          Some (Inr answer))"
proof -
  have "classify_sync E tool access detail ctx \<noteq> VAllow" if "is_agent_message access"
    using that by (cases access) (simp_all add: is_agent_message_def classify_sync_def classify_access_def)
  then show ?thesis
    unfolding parse_allows_iff [symmetric] parse_classifier_model_text_def
    by (auto simp: classify_def Let_def outcome_heuristic_def outcome_failure_def
        split: option.splits sum.splits if_splits)
qed

section \<open>Headings\<close>

definition is_heading :: "string \<Rightarrow> bool" where
  "is_heading line \<longleftrightarrow> starts_with (trim_start line) ''#''"

definition headings :: "string \<Rightarrow> string list" where
  "headings s = filter is_heading (split_on newline s)"

text \<open>No white space character is the beginning of another.\<close>

lemma white_space_prefix_table:
  "list_all (\<lambda>a. list_all (\<lambda>b. a = b \<or> \<not> starts_with b a) white_space) white_space"
  by code_simp

lemma white_space_prefix_free:
  assumes "a \<in> set white_space" and "b \<in> set white_space" and "a @ x = b @ y"
  shows "a = b"
proof -
  from assms(3) have "starts_with b a \<or> starts_with a b"
    by (auto simp: append_eq_append_conv2 starts_with_iff)
  with assms(1,2) white_space_prefix_table show ?thesis by (auto simp: list_all_iff)
qed

lemma white_space_nonempty: "w \<in> set white_space \<Longrightarrow> w \<noteq> []"
  by (auto simp: white_space_def)

lemma find_white_space:
  assumes "w \<in> set white_space"
  shows "find (\<lambda>p. p \<noteq> [] \<and> starts_with (w @ x) p) white_space = Some w"
proof (cases "find (\<lambda>p. p \<noteq> [] \<and> starts_with (w @ x) p) white_space")
  case None
  with assms white_space_nonempty have "\<not> starts_with (w @ x) w" by (auto simp: find_None_iff)
  then show ?thesis by simp
next
  case (Some p)
  then obtain y where "p \<in> set white_space" "w @ x = p @ y"
    unfolding find_Some_iff starts_with_iff by (metis nth_mem)
  with white_space_prefix_free [OF assms] Some show ?thesis by metis
qed

lemma trim_start_white_space: "w \<in> set white_space \<Longrightarrow> trim_start (w @ x) = trim_start x"
  unfolding trim_start_def by (subst strip_all.simps) (simp add: find_white_space)

lemma trim_start_cases:
  obtains (stop) "trim_start s = s" | (strip) w x where "w \<in> set white_space" "s = w @ x"
proof (cases "find (\<lambda>p. p \<noteq> [] \<and> starts_with s p) white_space")
  case None
  then have "trim_start s = s" unfolding trim_start_def by (subst strip_all.simps) simp
  then show thesis by (rule stop)
next
  case (Some w)
  then obtain x where "w \<in> set white_space" "s = w @ x"
    unfolding find_Some_iff starts_with_iff by (metis nth_mem)
  then show thesis by (rule strip)
qed

lemma space_in_white_space: "w \<in> set white_space \<Longrightarrow> CHR '' '' \<in> set w \<Longrightarrow> w = '' ''"
  by (auto simp: white_space_def)

lemma heading_space: "is_heading (p @ CHR '' '' # q) \<Longrightarrow> is_heading p \<or> is_heading q"
proof (induction "length p" arbitrary: p rule: less_induct)
  case less
  show ?case
  proof (cases "p = []")
    case True
    with less.prems trim_start_white_space [of "'' ''" q] show ?thesis
      by (simp add: is_heading_def white_space_def)
  next
    case nonempty: False
    show ?thesis
    proof (rule trim_start_cases [of "p @ CHR '' '' # q"])
      assume "trim_start (p @ CHR '' '' # q) = p @ CHR '' '' # q"
      with less.prems nonempty have hash: "hd p = CHR ''#''"
        by (cases p) (simp_all add: is_heading_def starts_with_def)
      have "trim_start p = p"
        using nonempty by (rule trim_start_plain) (simp add: hash is_plain_def)
      with hash nonempty show ?thesis by (cases p) (simp_all add: is_heading_def starts_with_def)
    next
      fix w x assume w: "w \<in> set white_space" "p @ CHR '' '' # q = w @ x"
      then consider p' where "p = w @ p'" | r where "w = p @ CHR '' '' # r"
        by (auto simp: append_eq_append_conv2 Cons_eq_append_conv)
      then show ?thesis
      proof cases
        case 1
        with w have "x = p' @ CHR '' '' # q" by simp
        with less.prems w trim_start_white_space [OF w(1)] have "is_heading (p' @ CHR '' '' # q)"
          by (simp add: is_heading_def)
        moreover have "length p' < length p" using 1 white_space_nonempty [OF w(1)] by simp
        ultimately have "is_heading p' \<or> is_heading q" by (intro less.hyps)
        with 1 trim_start_white_space [OF w(1)] show ?thesis by (simp add: is_heading_def)
      next
        case 2
        with w(1) space_in_white_space [of w] nonempty show ?thesis by (simp add: append_eq_Cons_conv)
      qed
    qed
  qed
qed

lemma neutralize_shape:
  assumes "is_heading (pre @ CHR 0x5C # rest)" and "trim_start (pre @ h) = h" and "length pre = length (pre @ h) - length h"
  shows False
  using assms
proof (induction "length pre" arbitrary: pre rule: less_induct)
  case less
  show ?case
  proof (cases "pre = []")
    case True
    have "trim_start (CHR 0x5C # rest) = CHR 0x5C # rest"
      by (rule trim_start_plain) (simp_all add: is_plain_def)
    with True less.prems(1) show ?thesis by (simp add: is_heading_def starts_with_def)
  next
    case nonempty: False
    show ?thesis
    proof (rule trim_start_cases [of "pre @ h"])
      assume "trim_start (pre @ h) = pre @ h"
      with less.prems(2) nonempty show ?thesis by simp
    next
      fix w x assume w: "w \<in> set white_space" "pre @ h = w @ x"
      with less.prems(2) have "trim_start x = h" using trim_start_white_space [OF w(1)] by simp
      with strip_all_suffix [of x white_space] obtain pre' where x: "x = pre' @ h"
        by (auto simp: trim_start_def)
      with w(2) have pre: "pre = w @ pre'" by simp
      show ?thesis
      proof (rule less.hyps [of pre'])
        show "length pre' < length pre" using pre white_space_nonempty [OF w(1)] by simp
        show "is_heading (pre' @ CHR 0x5C # rest)"
          using less.prems(1) pre trim_start_white_space [OF w(1)] by (simp add: is_heading_def)
        show "trim_start (pre' @ h) = h" using \<open>trim_start x = h\<close> x by simp
      qed simp
    qed
  qed
qed

lemma neutralized_line: "\<not> is_heading (neutralize_line line)"
proof (cases "is_heading line")
  case True
  obtain pre where pre: "line = pre @ trim_start line"
    using strip_all_suffix by (auto simp: trim_start_def)
  then have "take (length line - length (trim_start line)) line = pre"
    by (metis append_eq_conv_conj add_diff_cancel_right' length_append)
  then show ?thesis
    using True neutralize_shape [of pre _ "trim_start line"] pre
    by (auto simp: neutralize_line_def is_heading_def [of line] Let_def)
next
  case False
  then show ?thesis by (simp add: neutralize_line_def is_heading_def Let_def)
qed

section \<open>Texts without headings\<close>

lemma split_on_seam: "split_on c (a @ c # b) = split_on c a @ split_on c b"
  by (induction a) (auto split: list.splits)

lemma split_on_glue: "c \<notin> set p \<Longrightarrow> split_on c (p @ s) = (p @ hd (split_on c s)) # tl (split_on c s)"
  by (induction p) (cases "split_on c s"; auto)+

lemma split_on_space:
  "split_on newline (a @ CHR '' '' # b) =
    butlast (split_on newline a) @
    [last (split_on newline a) @ CHR '' '' # hd (split_on newline b)] @ tl (split_on newline b)"
proof (induction a)
  case Nil
  then show ?case using split_on_glue [of newline "'' ''" b] by simp
next
  case (Cons c a)
  have "split_on newline a \<noteq> []" by (rule split_on_nonempty)
  with Cons show ?case by (cases "split_on newline a"; cases "butlast (split_on newline a)") auto
qed

lemma headings_seam [simp]: "headings (a @ newline # b) = headings a @ headings b"
  by (simp add: headings_def split_on_seam)

lemma headings_Nil [simp]: "headings [] = []"
  by (simp add: headings_def is_heading_def trim_start_def starts_with_def)

lemma plain_start_no_heading:
  "p \<noteq> [] \<Longrightarrow> is_plain (hd p) \<Longrightarrow> hd p \<noteq> CHR ''#'' \<Longrightarrow> \<not> is_heading (p @ x)"
  by (cases p) (simp_all add: is_heading_def trim_start_plain starts_with_def)

text \<open>A label in front of a text takes its first line; the other lines are those of the text.\<close>

lemma headings_label:
  assumes "headings s = []" and "newline \<notin> set p" and "p \<noteq> []" "is_plain (hd p)" "hd p \<noteq> CHR ''#''"
  shows "headings (p @ s) = []"
proof -
  have "split_on newline s \<noteq> []" by (rule split_on_nonempty)
  with assms(1) have "filter is_heading (tl (split_on newline s)) = []"
    by (cases "split_on newline s") (auto simp: headings_def split: if_splits)
  with plain_start_no_heading [OF assms(3-5)] show ?thesis
    by (simp add: headings_def split_on_glue [OF assms(2)])
qed

lemma headings_space:
  assumes "headings a = []" and "headings b = []"
  shows "headings (a @ CHR '' '' # b) = []"
proof -
  have ne: "split_on newline a \<noteq> []" "split_on newline b \<noteq> []" by (rule split_on_nonempty)+
  with assms have "\<not> is_heading l" if "l \<in> set (split_on newline a) \<union> set (split_on newline b)" for l
    using that by (auto simp: headings_def filter_empty_conv)
  moreover from ne have "last (split_on newline a) \<in> set (split_on newline a)"
    "hd (split_on newline b) \<in> set (split_on newline b)" by simp_all
  ultimately show ?thesis
    using heading_space [of "last (split_on newline a)" "hd (split_on newline b)"]
    by (auto simp: headings_def split_on_space filter_empty_conv dest: in_set_butlastD list.set_sel(2) [OF ne(2)])
qed

lemma headings_join: "\<forall>s \<in> set ss. headings s = [] \<Longrightarrow> headings (join [newline] ss) = []"
  by (induction "[newline]" ss rule: join.induct) auto

lemma neutralize_line_no_newline:
  assumes "newline \<notin> set line"
  shows "newline \<notin> set (neutralize_line line)"
proof -
  obtain pre where "line = pre @ trim_start line" using strip_all_suffix by (auto simp: trim_start_def)
  then have "set (trim_start line) \<subseteq> set line" by (metis Un_upper2 set_append)
  with assms set_take_subset [of _ line] show ?thesis by (auto simp: neutralize_line_def Let_def)
qed

lemma str_lines_no_newline: "l \<in> set (str_lines s) \<Longrightarrow> newline \<notin> set l"
  using split_on_no_sep [of _ newline s]
  by (auto simp: str_lines_def Let_def strip_cr_def last_in_set split_on_nonempty
      split: if_splits dest!: in_set_butlastD dest: in_set_butlastD)

lemma headings_neutralized [simp]: "headings (neutralize_headings s) = []"
proof (cases "str_lines s = []")
  case False
  have "split_on newline (neutralize_headings s) = map neutralize_line (str_lines s)"
    unfolding neutralize_headings_def using False
    by (intro split_on_join) (auto dest: neutralize_line_no_newline [OF str_lines_no_newline])
  then show ?thesis by (simp add: headings_def neutralized_line filter_empty_conv)
qed (simp add: neutralize_headings_def)

lemma headings_turn: "render_untrusted t = Some s \<Longrightarrow> headings s = []"
  by (cases t) (auto intro!: headings_space headings_label [of _ "''User: ''", simplified] simp: is_plain_def)

lemma headings_transcript: "headings (transcript_text ctx) = []"
  unfolding transcript_text_def
  by (rule headings_join) (auto simp: List.map_filter_def headings_turn split: option.splits)

lemma headings_action: "headings (proposed_action tool access detail) = []"
proof -
  have kind: "headings (''access_kind: '' @ access_kind_name access) = []"
    by (cases access; simp add: access_kind_name_def; code_simp)
  have "headings (''tool: '' @ neutralize_headings tool) = []"
    "headings (''detail: '' @ neutralize_headings (unwrap_or ''(none)'' detail)) = []"
    by (rule headings_label; simp add: is_plain_def)+
  with kind show ?thesis
    using headings_seam [of "''tool: '' @ neutralize_headings tool"]
      headings_seam [of "''access_kind: '' @ access_kind_name access"]
    by (simp add: proposed_action_def)
qed

text \<open>
  No text can forge a heading of the prompt: whatever the transcript, the name of the tool and the
  detail of the action are, the message that asks the model to judge has, among its lines, exactly
  the headings that the program wrote, in their order.
\<close>
theorem prompt_headings_fixed:
  "headings (trailing_message tool access detail ctx prompt_type) =
     (case prompt_type of
        PtFull \<Rightarrow> [''## Recent conversation'', ''## Proposed action'']
      | PtJustCommand \<Rightarrow> []
      | _ \<Rightarrow> [''## Proposed action''])"
proof -
  have fixed_lines: "headings ''## Recent conversation'' = [''## Recent conversation'']"
    "headings ''## Proposed action'' = [''## Proposed action'']"
    "headings ''(no recent conversation context)'' = []" "headings classifier_json_instruction = []"
    by code_simp+
  have transcript: "headings (if transcript_text ctx = [] then ''(no recent conversation context)''
      else transcript_text ctx) = []"
    using fixed_lines(3) headings_transcript by simp
  have seams: "headings (a @ newline # newline # b) = headings a @ headings b" for a b
    using headings_seam [of a "newline # b"] headings_seam [of "[]" b] by simp
  show ?thesis
    using fixed_lines transcript headings_action seams
      headings_seam [of "''## Recent conversation''"] headings_seam [of "''## Proposed action''"]
    by (cases prompt_type) (simp_all add: trailing_message_def Let_def del: headings_seam)
qed

section \<open>What a routine command launches\<close>

text \<open>One step of a package manager's launcher, as the heuristic resolves it.\<close>

definition inner_head :: "string list \<Rightarrow> string" where
  "inner_head words = ascii_lower (last_segment (hd (unwrap_wrappers words)))"

inductive launches :: "string list \<Rightarrow> string list \<Rightarrow> bool" where
  "unwrap_wrappers words \<noteq> [] \<Longrightarrow> \<not> is_lone_wrapper (unwrap_wrappers words) \<Longrightarrow>
   is_package_manager (inner_head words) \<Longrightarrow>
   explicit_launch_target (inner_head words) (unwrap_wrappers words) = LaunchInner launched \<Longrightarrow>
   launches words launched"

text \<open>
  What \<^verbatim>\<open>env\<close> is told before its command: an option, and the variables that it sets. A command
  may be \<^verbatim>\<open>env\<close> itself or hide one behind up to seven wrappers.
\<close>

fun env_option :: "string list \<Rightarrow> bool" where
  "env_option [] = False"
| "env_option (arg # args) =
     (arg \<noteq> ''--'' \<and> (starts_with arg ''-'' \<or> split_once (CHR ''='') arg \<noteq> None \<and> env_option args))"

fun env_keys :: "string list \<Rightarrow> string list" where
  "env_keys [] = []"
| "env_keys (arg # args) =
     (if arg = ''--'' then env_keys args
      else case split_once (CHR ''='') arg of Some (key, v) \<Rightarrow> key # env_keys args | None \<Rightarrow> [])"

definition plain_env_args :: "string list \<Rightarrow> bool" where
  "plain_env_args args \<longleftrightarrow> \<not> env_option args \<and> set (env_keys args) \<subseteq> set safe_env_keys"

primrec peeled :: "nat \<Rightarrow> string list \<Rightarrow> string list option" where
  "peeled 0 words = Some words"
| "peeled (Suc n) words = Option.bind (strip_wrapper_command words) (peeled n)"

definition sets_cosmetic_only :: "string list \<Rightarrow> bool" where
  "sets_cosmetic_only words \<longleftrightarrow>
     (\<forall>n < 8. \<forall>inner. peeled n words = Some inner \<and> first_segment inner = Some ''env'' \<longrightarrow>
        plain_env_args (drop 1 inner))"

lemma env_key_safe: "env_key_risk key = EnvSafe \<longleftrightarrow> key \<in> set safe_env_keys"
  by (simp add: env_key_risk_def)

lemma env_args_safe:
  "env_args_risk options_done risk args = Some EnvSafe \<Longrightarrow>
    risk = EnvSafe \<and> set (env_keys args) \<subseteq> set safe_env_keys \<and> (\<not> options_done \<longrightarrow> \<not> env_option args)"
proof (induction args arbitrary: options_done risk)
  case (Cons arg args)
  show ?case
  proof (cases "arg = ''--''")
    case True
    with Cons.prems Cons.IH [of True risk] show ?thesis by simp
  next
    case False
    show ?thesis
    proof (cases "split_once (CHR ''='') arg")
      case None
      with False Cons.prems show ?thesis by (auto split: if_splits)
    next
      case (Some kv)
      obtain key v where "kv = (key, v)" by (cases kv)
      with False Some Cons.prems Cons.IH [of options_done "max risk (env_key_risk key)"] show ?thesis
        by (auto simp: max_is_safe env_key_safe split: if_splits)
    qed
  qed
qed simp

lemma command_env_rounds_safe:
  "command_env_rounds k risk words = EnvSafe \<Longrightarrow> risk = EnvSafe \<and>
    (\<forall>n < k. \<forall>inner. peeled n words = Some inner \<and> first_segment inner = Some ''env'' \<longrightarrow>
       plain_env_args (drop 1 inner))"
proof (induction k arbitrary: risk words)
  case (Suc k)
  from Suc.prems obtain r where here: "(if first_segment words = Some ''env''
      then env_args_risk False risk (drop 1 words) else Some risk) = Some r"
    and rest: "(case strip_wrapper_command words of Some inner \<Rightarrow> command_env_rounds k r inner | None \<Rightarrow> r) = EnvSafe"
    by (auto simp: Let_def split: option.splits)
  have r: "r = EnvSafe" using rest Suc.IH by (auto split: option.splits)
  with here have risk: "risk = EnvSafe" and now: "first_segment words = Some ''env'' \<longrightarrow> plain_env_args (drop 1 words)"
    using env_args_safe [of False risk "drop 1 words"] by (auto simp: plain_env_args_def split: if_splits)
  have "plain_env_args (drop 1 inner)"
    if "n < Suc k" "peeled n words = Some inner" "first_segment inner = Some ''env''" for n inner
  proof (cases n)
    case (Suc m)
    with that(2) obtain next_words where "strip_wrapper_command words = Some next_words"
        "peeled m next_words = Some inner" by (auto split: bind_splits)
    with rest Suc.IH [of r next_words] that Suc show ?thesis by simp
  qed (use that now in simp)
  with risk show ?case by blast
qed simp

lemma command_env_risk_safe: "command_env_risk words = EnvSafe \<Longrightarrow> sets_cosmetic_only words"
  using command_env_rounds_safe [of 8 EnvSafe words] by (simp add: command_env_risk_def sets_cosmetic_only_def)

text \<open>What is expected of a command that is launched.\<close>

definition vetted_launch :: "string list \<Rightarrow> bool" where
  "vetted_launch words \<longleftrightarrow> bash_command_is_routine words \<and> sets_cosmetic_only words \<and>
     list_all is_safe_write_sink (command_words_write_paths words)"

lemma package_manager_launch:
  assumes "is_package_manager prog" and "explicit_launch_target prog inner = LaunchInner launched"
    and "package_manager_subcommand_is_routine prog inner = Some True"
  shows "\<not> is_remote_launcher prog inner \<and> vetted_launch launched"
  using assms command_env_risk_safe [of launched]
  by (auto simp: package_manager_subcommand_is_routine.simps [of prog] vetted_launch_def
      launched_writes_nonsink_def list_all_iff list_ex_iff split: if_splits)

lemma routine_launch:
  assumes "bash_command_is_routine words" and "launches words launched"
  shows "vetted_launch launched \<and> \<not> is_remote_launcher (inner_head words) (unwrap_wrappers words)"
  using assms(2)
proof cases
  case 1
  then obtain w rest where inner: "unwrap_wrappers words = w # rest" by (cases "unwrap_wrappers words") auto
  have "\<exists>routine. package_manager_subcommand_is_routine (inner_head words) (unwrap_wrappers words) = Some routine"
    using 1(3,4) by (cases "is_remote_launcher (inner_head words) (unwrap_wrappers words)")
      (auto simp: package_manager_subcommand_is_routine.simps [of "inner_head words"])
  then obtain routine where
      "package_manager_subcommand_is_routine (inner_head words) (unwrap_wrappers words) = Some routine" by blast
  with assms(1) 1(2) inner have
      "package_manager_subcommand_is_routine (inner_head words) (unwrap_wrappers words) = Some True"
    by (simp add: bash_command_is_routine.simps [of words] inner_head_def Let_def)
  from package_manager_launch [OF 1(3,4) this] show ?thesis by blast
qed

lemma fold_max_safe:
  "fold (\<lambda>c r. max r (f c)) cs r = EnvSafe \<Longrightarrow> r = EnvSafe \<and> (\<forall>c \<in> set cs. f c = EnvSafe)"
proof (induction cs arbitrary: r)
  case (Cons c cs)
  from Cons.prems have "fold (\<lambda>c r. max r (f c)) cs (max r (f c)) = EnvSafe" by simp
  from Cons.IH [OF this] show ?case by (simp add: max_is_safe)
qed simp

lemma fold_assignments_safe:
  "fold (\<lambda>n r. if P n then max r (f n) else r) ns r = EnvSafe \<Longrightarrow>
    r = EnvSafe \<and> (\<forall>n \<in> set ns. P n \<longrightarrow> f n = EnvSafe)"
proof (induction ns arbitrary: r)
  case (Cons n ns)
  from Cons.prems have "fold (\<lambda>n r. if P n then max r (f n) else r) ns (if P n then max r (f n) else r) = EnvSafe"
    by simp
  from Cons.IH [OF this] show ?case by (cases "P n") (simp_all add: max_is_safe)
qed simp

lemma script_env_risk_safe:
  assumes "script_env_risk root src cmds = EnvSafe"
  shows "\<forall>c \<in> set cmds. sets_cosmetic_only (pl_words c)"
    and "\<forall>n \<in> set (ts_walk [root]). ts_kind n = ''variable_assignment'' \<longrightarrow>
      assignment_key n src \<in> set safe_env_keys"
proof -
  from fold_max_safe [OF assms [unfolded script_env_risk_def Let_def]]
  have cmds: "\<forall>c \<in> set cmds. command_env_risk (pl_words c) = EnvSafe"
    and walk: "fold (\<lambda>n r. if ts_kind n = ''variable_assignment''
        then max r (env_key_risk (assignment_key n src)) else r) (ts_walk [root]) EnvSafe = EnvSafe" by blast+
  from cmds command_env_risk_safe show "\<forall>c \<in> set cmds. sets_cosmetic_only (pl_words c)" by blast
  from conjunct2 [OF fold_assignments_safe [OF walk]]
  show "\<forall>n \<in> set (ts_walk [root]). ts_kind n = ''variable_assignment'' \<longrightarrow>
      assignment_key n src \<in> set safe_env_keys" unfolding env_key_safe .
qed

text \<open>
  C34. What the heuristic allows was vetted at every depth: an allowed script decomposes into plain
  commands, and each is routine; no variable outside the cosmetic list is set in it, neither by an
  assignment anywhere in its tree nor as an argument of \<^verbatim>\<open>env\<close>, which takes no option either, behind
  up to seven wrappers; it writes no file by a redirect or an operand but to a sink; and every command
  that a package manager launches in it, through any number of launchers, is routine itself, sets no
  such variable and writes no such file, and no launcher on the way fetches what it runs. (A routine
  command can still run what its project or its options name.)
\<close>
theorem routine_script_is_vetted:
  assumes "classify_bash E cmd"
  shows "\<exists>tree cmds. parse_shell E cmd = Some tree \<and>
    try_parse_word_only_commands_sequence tree cmd = Some cmds \<and> cmds \<noteq> [] \<and>
    list_all is_safe_write_sink (command_write_paths_in_tree tree cmd) \<and>
    (\<forall>n \<in> set (ts_walk [tree]). ts_kind n = ''variable_assignment'' \<longrightarrow>
       assignment_key n cmd \<in> set safe_env_keys) \<and>
    (\<forall>c \<in> set cmds. bash_command_is_routine (pl_words c) \<and> sets_cosmetic_only (pl_words c) \<and>
      (\<forall>words launched. launches\<^sup>*\<^sup>* (pl_words c) words \<and> launches words launched \<longrightarrow>
         vetted_launch launched \<and> \<not> is_remote_launcher (inner_head words) (unwrap_wrappers words)))"
proof -
  from assms obtain tree cmds where parsed: "parse_shell E cmd = Some tree"
      "try_parse_word_only_commands_sequence tree cmd = Some cmds" "cmds \<noteq> []"
      "list_all is_safe_write_sink (command_write_paths_in_tree tree cmd)"
    and env: "script_env_risk tree cmd cmds = EnvSafe"
    and routine: "\<forall>c \<in> set cmds. bash_command_is_routine (pl_words c)"
    unfolding classify_bash_def by (auto simp: list_all_iff split: option.splits)
  have "bash_command_is_routine words" if "launches\<^sup>*\<^sup>* start words" "bash_command_is_routine start" for start words
    using that by (induction rule: rtranclp_induct) (auto dest: routine_launch simp: vetted_launch_def)
  with parsed routine script_env_risk_safe [OF env] routine_launch show ?thesis by blast
qed

theorem routine_script_is_vetted_witness:
  "classify_bash word_env ''timeout 5 uv run npm exec -- pytest -q'' \<and> vetted_launch [''pytest'', ''-q'']"
proof -
  let ?start = "[''timeout'', ''5'', ''uv'', ''run'', ''npm'', ''exec'', ''--'', ''pytest'', ''-q'']"
  let ?npm = "[''npm'', ''exec'', ''--'', ''pytest'', ''-q'']"
  have routine: "classify_bash word_env ''timeout 5 uv run npm exec -- pytest -q''" by code_simp
  from routine_script_is_vetted [OF routine] obtain tree cmds where
    parsed: "parse_shell word_env ''timeout 5 uv run npm exec -- pytest -q'' = Some tree"
      "try_parse_word_only_commands_sequence tree ''timeout 5 uv run npm exec -- pytest -q'' = Some cmds"
    and vetted: "\<And>c words launched. c \<in> set cmds \<Longrightarrow> launches\<^sup>*\<^sup>* (pl_words c) words \<Longrightarrow>
      launches words launched \<Longrightarrow> vetted_launch launched" by blast
  have "all_commands_from_script (parse_shell word_env) ''timeout 5 uv run npm exec -- pytest -q'' =
      Some [\<lparr>pl_words = ?start, pl_start = 0, pl_end = 38\<rparr>]" by code_simp
  with parsed have cmds: "cmds = [\<lparr>pl_words = ?start, pl_start = 0, pl_end = 38\<rparr>]"
    by (simp add: all_commands_from_script_def)
  have "launches ?start ?npm" by (rule launches.intros; code_simp)
  then have chain: "launches\<^sup>*\<^sup>* ?start ?npm" by (rule r_into_rtranclp)
  have "launches ?npm [''pytest'', ''-q'']" by (rule launches.intros; code_simp)
  with chain vetted [of "hd cmds" ?npm] have "vetted_launch [''pytest'', ''-q'']" by (simp add: cmds)
  with routine show ?thesis ..
qed

end
