(* ===== verification/PermState.thy ===== *)
theory PermState imports PermTypes Rust_Path begin

text \<open>
  The remembered grants of a project and their store (\<^verbatim>\<open>permission/state.rs\<close>). A hash set is the
  list of its elements in the order of iteration. The store is a map from paths to what reading the
  file gives (the text of a file is of a type of its own, \<open>'c\<close>); the TOML parser and printer, the encoding of a directory in the sessions directory, and
  whether a write succeeds are parameters (\<open>store_env\<close>). A load may write: a store from before the
  validation of server grants is rewritten without them.
\<close>

section \<open>Grants\<close>

record permission_state =
  st_edit_policy :: edit_policy
  st_allow_bash_execute :: bool
  st_allowed_bash_commands :: "string list"
  st_disallowed_bash_commands :: "string list"
  st_allowed_bash_globs :: "string list"
  st_allowed_web_fetch_domains :: "string list"
  st_allowed_mcp_tools :: "string list"
  st_allowed_mcp_servers :: "string list"
  st_disallowed_mcp_tools :: "string list"
  st_disallowed_web_fetch_domains :: "string list"
  st_validated_version :: int

definition validated_mcp_server_grants_version :: int where
  "validated_mcp_server_grants_version = 1"

definition legacy_mcp_server_grants_version :: int where
  "legacy_mcp_server_grants_version = 0"

text \<open>The version field of a parsed file, as a value of \<open>json\<close> for the TOML value.\<close>

definition deserialize_mcp_server_grants_version :: "json \<Rightarrow> int" where
  "deserialize_mcp_server_grants_version v =
     (case as_i64 v of Some version \<Rightarrow> if 0 \<le> version then version else 0 | None \<Rightarrow> 0)"

definition default_state :: permission_state where
  "default_state =
     \<lparr>st_edit_policy = EpAsk, st_allow_bash_execute = False, st_allowed_bash_commands = [],
      st_disallowed_bash_commands = [], st_allowed_bash_globs = [], st_allowed_web_fetch_domains = [],
      st_allowed_mcp_tools = [], st_allowed_mcp_servers = [], st_disallowed_mcp_tools = [],
      st_disallowed_web_fetch_domains = [],
      st_validated_version = validated_mcp_server_grants_version\<rparr>"

text \<open>\<^verbatim>\<open>HashSet::insert\<close> and \<^verbatim>\<open>extend\<close>\<close>

definition set_insert :: "'a \<Rightarrow> 'a list \<Rightarrow> 'a list" where
  "set_insert x xs = (if List.member xs x then xs else xs @ [x])"

definition set_extend :: "'a list \<Rightarrow> 'a list \<Rightarrow> 'a list" where
  "set_extend xs ys = fold set_insert ys xs"

lemma set_set_insert [simp]: "set (set_insert x xs) = insert x (set xs)"
  by (auto simp: set_insert_def)

lemma set_set_extend [simp]: "set (set_extend xs ys) = set xs \<union> set ys"
  unfolding set_extend_def by (induction ys arbitrary: xs) auto

definition merge_grants_from :: "permission_state \<Rightarrow> permission_state \<Rightarrow> permission_state" where
  "merge_grants_from s other =
     s\<lparr>st_allow_bash_execute := st_allow_bash_execute s \<or> st_allow_bash_execute other,
       st_allowed_bash_commands :=
         set_extend (st_allowed_bash_commands s) (st_allowed_bash_commands other),
       st_disallowed_bash_commands :=
         set_extend (st_disallowed_bash_commands s) (st_disallowed_bash_commands other),
       st_allowed_bash_globs := set_extend (st_allowed_bash_globs s) (st_allowed_bash_globs other),
       st_allowed_web_fetch_domains :=
         set_extend (st_allowed_web_fetch_domains s) (st_allowed_web_fetch_domains other),
       st_allowed_mcp_tools := set_extend (st_allowed_mcp_tools s) (st_allowed_mcp_tools other),
       st_allowed_mcp_servers := set_extend (st_allowed_mcp_servers s) (st_allowed_mcp_servers other),
       st_disallowed_mcp_tools := set_extend (st_disallowed_mcp_tools s) (st_disallowed_mcp_tools other),
       st_disallowed_web_fetch_domains :=
         set_extend (st_disallowed_web_fetch_domains s) (st_disallowed_web_fetch_domains other)\<rparr>"

section \<open>Where the store is\<close>

datatype 'c file_content = Missing | Unreadable | Holds 'c

type_synonym 'c files = "path \<Rightarrow> 'c file_content"

record 'c store_env =
  toml_from_str :: "'c \<Rightarrow> permission_state option"
  toml_to_string :: "permission_state \<Rightarrow> 'c option"
  sessions_cwd_dir :: "string \<Rightarrow> path"
  git_root :: "path \<Rightarrow> path option"
  can_write :: "path \<Rightarrow> bool"

text \<open>The root that grants are kept for; re-collecting the components drops a trailing separator.\<close>

definition permission_scope_root :: "'c store_env \<Rightarrow> path \<Rightarrow> path" where
  "permission_scope_root S cwd =
     (case git_root S cwd of Some root \<Rightarrow> path_of_components (components root) | None \<Rightarrow> cwd)"

definition legacy_state_dir :: "'c store_env \<Rightarrow> path \<Rightarrow> path \<Rightarrow> path option" where
  "legacy_state_dir S cwd dir =
     (let legacy = sessions_cwd_dir S cwd in if path_eq legacy dir then None else Some legacy)"

record store_dirs =
  sd_dir :: path
  sd_legacy_dir :: "path option"

definition resolve_store_dirs :: "'c store_env \<Rightarrow> path \<Rightarrow> store_dirs" where
  "resolve_store_dirs S cwd =
     (let dir = sessions_cwd_dir S (permission_scope_root S cwd)
      in \<lparr>sd_dir = dir, sd_legacy_dir = legacy_state_dir S cwd dir\<rparr>)"

text \<open>
  A character that is not an ASCII letter, a digit, a hyphen or an underscore becomes one underscore,
  however many bytes it has.
\<close>

definition sanitize_client_id :: "string \<Rightarrow> string" where
  "sanitize_client_id s =
     map (\<lambda>c. let n = of_char c :: nat in
            if (65 \<le> n \<and> n \<le> 90) \<or> (97 \<le> n \<and> n \<le> 122) \<or> is_dec_digit c \<or> c = CHR ''-'' \<or> c = CHR ''_''
            then c else CHR ''_'')
       (filter (\<lambda>c. \<not> is_continuation c) s)"

definition state_file_path :: "path \<Rightarrow> string option \<Rightarrow> path" where
  "state_file_path dir client_identifier =
     (case client_identifier of
        Some cid \<Rightarrow> path_join dir (''permission_'' @ sanitize_client_id cid @ ''.toml'')
      | None \<Rightarrow> path_join dir ''permission.toml'')"

section \<open>Loading and persisting\<close>

definition persist_state_to_path :: "'c store_env \<Rightarrow> path \<Rightarrow> permission_state \<Rightarrow> 'c files \<Rightarrow> 'c files" where
  "persist_state_to_path S p state fs =
     (case toml_to_string S state of
        Some contents \<Rightarrow> if can_write S p then fs(p := Holds contents) else fs
      | None \<Rightarrow> fs)"

definition drop_legacy_servers :: "permission_state \<Rightarrow> permission_state" where
  "drop_legacy_servers s =
     s\<lparr>st_allowed_mcp_servers := [], st_validated_version := validated_mcp_server_grants_version\<rparr>"

definition try_load_state :: "'c store_env \<Rightarrow> path \<Rightarrow> 'c files \<Rightarrow> permission_state option \<times> 'c files" where
  "try_load_state S p fs =
     (case fs p of
        Holds s \<Rightarrow>
          (let state = unwrap_or default_state (toml_from_str S s) in
           if st_validated_version state < validated_mcp_server_grants_version then
             (let state = drop_legacy_servers state
              in (Some state, persist_state_to_path S p state fs))
           else (Some state, fs))
      | _ \<Rightarrow> (None, fs))"

definition load_shared :: "'c store_env \<Rightarrow> path \<Rightarrow> 'c files \<Rightarrow> permission_state \<times> 'c files" where
  "load_shared S dir fs =
     (let (found, fs) = try_load_state S (state_file_path dir None) fs
      in (unwrap_or default_state found, fs))"

definition load_state_from_dir ::
    "'c store_env \<Rightarrow> path \<Rightarrow> string option \<Rightarrow> 'c files \<Rightarrow> permission_state \<times> 'c files" where
  "load_state_from_dir S dir client_identifier fs =
     (case client_identifier of
        Some cid \<Rightarrow>
          (case try_load_state S (state_file_path dir (Some cid)) fs of
             (Some state, fs) \<Rightarrow> (state, fs)
           | (None, fs) \<Rightarrow> load_shared S dir fs)
      | None \<Rightarrow> load_shared S dir fs)"

text \<open>A file that cannot be looked at counts as present.\<close>

definition file_present :: "'c files \<Rightarrow> path \<Rightarrow> bool" where
  "file_present fs p \<longleftrightarrow> fs p \<noteq> Missing"

definition state_dir_has_store :: "path \<Rightarrow> string option \<Rightarrow> 'c files \<Rightarrow> bool" where
  "state_dir_has_store dir client_identifier fs \<longleftrightarrow>
     (client_identifier \<noteq> None \<and> file_present fs (state_file_path dir client_identifier)) \<or>
     file_present fs (state_file_path dir None)"

definition load_state_with_fallback ::
    "'c store_env \<Rightarrow> store_dirs \<Rightarrow> string option \<Rightarrow> 'c files \<Rightarrow> permission_state \<times> 'c files" where
  "load_state_with_fallback S dirs client_identifier fs =
     (case sd_legacy_dir dirs of
        Some legacy_dir \<Rightarrow>
          if \<not> state_dir_has_store (sd_dir dirs) client_identifier fs
          then load_state_from_dir S legacy_dir client_identifier fs
          else load_state_from_dir S (sd_dir dirs) client_identifier fs
      | None \<Rightarrow> load_state_from_dir S (sd_dir dirs) client_identifier fs)"

definition load_state_from_disk ::
    "'c store_env \<Rightarrow> path \<Rightarrow> string option \<Rightarrow> 'c files \<Rightarrow> permission_state \<times> 'c files" where
  "load_state_from_disk S cwd client_identifier fs =
     load_state_with_fallback S (resolve_store_dirs S cwd) client_identifier fs"

definition persist_state_to_dir ::
    "'c store_env \<Rightarrow> path \<Rightarrow> permission_state \<Rightarrow> string option \<Rightarrow> 'c files \<Rightarrow> 'c files" where
  "persist_state_to_dir S dir state client_identifier fs =
     persist_state_to_path S (state_file_path dir client_identifier) state fs"

definition persist_state_merging_to_dir ::
    "'c store_env \<Rightarrow> path \<Rightarrow> permission_state \<Rightarrow> string option \<Rightarrow> 'c files \<Rightarrow> 'c files" where
  "persist_state_merging_to_dir S dir state client_identifier fs =
     (let (on_disk, fs) = try_load_state S (state_file_path dir client_identifier) fs;
          merged = (case on_disk of Some d \<Rightarrow> merge_grants_from state d | None \<Rightarrow> state)
      in persist_state_to_dir S dir merged client_identifier fs)"

definition persist_state ::
    "'c store_env \<Rightarrow> path \<Rightarrow> permission_state \<Rightarrow> string option \<Rightarrow> 'c files \<Rightarrow> 'c files" where
  "persist_state S cwd state client_identifier fs =
     persist_state_merging_to_dir S (sd_dir (resolve_store_dirs S cwd)) state client_identifier fs"

definition replace_state_on_disk ::
    "'c store_env \<Rightarrow> path \<Rightarrow> permission_state \<Rightarrow> string option \<Rightarrow> 'c files \<Rightarrow> 'c files" where
  "replace_state_on_disk S cwd state client_identifier fs =
     persist_state_to_dir S (sd_dir (resolve_store_dirs S cwd)) state client_identifier fs"

section \<open>The cached store\<close>

text \<open>\<open>sig\<close> is the modification time and length of a file, nothing when they cannot be read.\<close>

record 'sig cached_state_store =
  cs_dirs :: store_dirs
  cs_client_identifier :: "string option"
  cs_last_sig :: "'sig option"

definition current_sig ::
    "('c files \<Rightarrow> path \<Rightarrow> 'sig option) \<Rightarrow> 'sig cached_state_store \<Rightarrow> 'c files \<Rightarrow> 'sig option" where
  "current_sig sig_of c fs = sig_of fs (state_file_path (sd_dir (cs_dirs c)) (cs_client_identifier c))"

definition cached_read :: "'c store_env \<Rightarrow> 'sig cached_state_store \<Rightarrow> 'c files \<Rightarrow> permission_state \<times> 'c files" where
  "cached_read S c fs = load_state_with_fallback S (cs_dirs c) (cs_client_identifier c) fs"

definition resolve_and_load ::
    "'c store_env \<Rightarrow> ('c files \<Rightarrow> path \<Rightarrow> 'sig option) \<Rightarrow> path \<Rightarrow> string option \<Rightarrow> 'c files
      \<Rightarrow> 'sig cached_state_store \<times> permission_state \<times> 'c files" where
  "resolve_and_load S sig_of cwd client_identifier fs =
     (let store = \<lparr>cs_dirs = resolve_store_dirs S cwd, cs_client_identifier = client_identifier,
                   cs_last_sig = None\<rparr>;
          store = store\<lparr>cs_last_sig := current_sig sig_of store fs\<rparr>
      in (store, cached_read S store fs))"

definition reload_if_changed ::
    "'c store_env \<Rightarrow> ('c files \<Rightarrow> path \<Rightarrow> 'sig option) \<Rightarrow> 'sig cached_state_store \<Rightarrow> 'c files
      \<Rightarrow> 'sig cached_state_store \<times> permission_state option \<times> 'c files" where
  "reload_if_changed S sig_of c fs =
     (let s = current_sig sig_of c fs in
      if s = cs_last_sig c then (c, None, fs)
      else (let c = c\<lparr>cs_last_sig := s\<rparr>; (state, fs) = cached_read S c fs in (c, Some state, fs)))"

section \<open>Stale stores\<close>

text \<open>The files of one session directory that a clean-up removes; an age is nothing when unknown.\<close>

definition is_state_file_name :: "string \<Rightarrow> bool" where
  "is_state_file_name name \<longleftrightarrow> starts_with name ''permission'' \<and> ends_with name ''.toml''"

definition cleanup_dir :: "nat \<Rightarrow> (path \<Rightarrow> nat option) \<Rightarrow> path list \<Rightarrow> 'c files \<Rightarrow> 'c files" where
  "cleanup_dir max_age age_of entries fs =
     fold (\<lambda>p fs. if is_state_file_name (unwrap_or [] (file_name p)) \<and>
                    (case age_of p of Some age \<Rightarrow> max_age < age | None \<Rightarrow> False)
                  then fs(p := Missing) else fs) entries fs"

end
