(* ===== verification/McpNames.thy ===== *)
theory McpNames imports ShellWords begin

text \<open>
  Identifiers on the wire (\<^verbatim>\<open>xai-tool-protocol/src/ids.rs\<close>) and the names under which the tools
  of an MCP server enter the catalogue of a session (\<^verbatim>\<open>xai-grok-mcp/src/tool_name.rs\<close>). A
  qualified name is the server, two underscores and the tool; a grant for a whole server is decided
  by parsing such a name back.
\<close>

section \<open>Identifiers\<close>

datatype id_error = IdEmpty | IdInvalidFormat string | IdReservedPrefix string

definition is_id_char :: "char \<Rightarrow> bool" where
  "is_id_char c \<longleftrightarrow> ascii_alnum c \<or> c = CHR ''_'' \<or> c = CHR ''-''"

definition is_valid_segment :: "string \<Rightarrow> bool" where
  "is_valid_segment s \<longleftrightarrow> s \<noteq> [] \<and> list_all is_id_char s"

definition ensure_non_empty :: "string \<Rightarrow> id_error + unit" where
  "ensure_non_empty s = (if s = [] then Inl IdEmpty else Inr ())"

text \<open>The constructor of an opaque identifier with its extra validator.\<close>

definition opaque_id_new :: "(string \<Rightarrow> id_error + unit) \<Rightarrow> string \<Rightarrow> id_error + string" where
  "opaque_id_new validator s =
     (case ensure_non_empty s of
        Inl e \<Rightarrow> Inl e
      | Inr _ \<Rightarrow> (case validator s of Inl e \<Rightarrow> Inl e | Inr _ \<Rightarrow> Inr s))"

definition hub_reserved_session_prefix :: string where
  "hub_reserved_session_prefix = ''__hub:''"

definition validate_session_id :: "string \<Rightarrow> id_error + unit" where
  "validate_session_id s =
     (if starts_with s hub_reserved_session_prefix then Inl (IdReservedPrefix s) else Inr ())"

definition session_id_new :: "string \<Rightarrow> id_error + string" where
  "session_id_new = opaque_id_new validate_session_id"

definition server_id_reserved_prefix :: string where
  "server_id_reserved_prefix = ''auto:''"

definition validate_server_id :: "string \<Rightarrow> id_error + unit" where
  "validate_server_id s =
     (if starts_with s server_id_reserved_prefix then Inl (IdReservedPrefix s) else Inr ())"

definition server_id_new :: "string \<Rightarrow> id_error + string" where
  "server_id_new = opaque_id_new validate_server_id"

definition synthesize_for_tool :: "string \<Rightarrow> string" where
  "synthesize_for_tool tool_id = server_id_reserved_prefix @ ''tool:'' @ tool_id"

definition is_well_formed_tool_id :: "string \<Rightarrow> bool" where
  "is_well_formed_tool_id s \<longleftrightarrow>
     (case split_on (CHR '':'') s of
        [first] \<Rightarrow> is_valid_segment first
      | [first, second] \<Rightarrow> is_valid_segment first \<and> is_valid_segment second
      | _ \<Rightarrow> False)"

definition validate_tool_id :: "string \<Rightarrow> id_error + unit" where
  "validate_tool_id s = (if \<not> is_well_formed_tool_id s then Inl (IdInvalidFormat s) else Inr ())"

definition tool_id_new :: "string \<Rightarrow> id_error + string" where
  "tool_id_new = opaque_id_new validate_tool_id"

section \<open>Qualified names\<close>

datatype mcp_tool_admission_error =
    InvalidServerName string
  | InvalidToolName string
  | QualifiedNameTooLong string nat nat
  | InvalidOrAmbiguousQualifiedName string

definition provider_tool_name_max_chars :: nat where
  "provider_tool_name_max_chars = 64"

definition mcp_qualified_name_max_chars :: nat where
  "mcp_qualified_name_max_chars = 256"

definition mcp_tool_name_delimiter :: string where
  "mcp_tool_name_delimiter = ''__''"

definition is_mcp_name_segment :: "string \<Rightarrow> bool" where
  "is_mcp_name_segment name \<longleftrightarrow>
     name \<noteq> [] \<and> list_all (\<lambda>c. ascii_alnum c \<or> c = CHR ''_'' \<or> c = CHR ''-'') name"

definition starts_with_letter_or_underscore :: "string \<Rightarrow> bool" where
  "starts_with_letter_or_underscore name \<longleftrightarrow>
     (case name of c # _ \<Rightarrow> ascii_alpha c \<or> c = CHR ''_'' | [] \<Rightarrow> False)"

definition validate_tool_name :: "string \<Rightarrow> string + unit" where
  "validate_tool_name name =
     (if name = [] then Inl ''tool name cannot be empty''
      else if length name > provider_tool_name_max_chars \<or>
        \<not> starts_with_letter_or_underscore name \<or> \<not> is_mcp_name_segment name
      then Inl (''tool name '' @ [quote_char] @ name @ [quote_char] @ '' is invalid '' @
        map char_of [226, 128, 148 :: nat] @
        '' must match ^[a-zA-Z_][a-zA-Z0-9_-]{0,63}$ (start with letter/underscore, max '' @
        dec_of provider_tool_name_max_chars @ '' chars)'')
      else Inr ())"

text \<open>The offsets of the windows of the name that are the delimiter; windows may overlap.\<close>

definition delimiter_boundaries :: "string \<Rightarrow> nat list" where
  "delimiter_boundaries name =
     filter (\<lambda>i. take 2 (drop i name) = mcp_tool_name_delimiter) [0..<length name - 1]"

definition parse_mcp_qualified_name :: "string \<Rightarrow> (string \<times> string \<times> string) option" where
  "parse_mcp_qualified_name name =
     (case delimiter_boundaries name of
        [boundary] \<Rightarrow>
          (let server = take boundary name;
               tool = drop (boundary + length mcp_tool_name_delimiter) name
           in if server = [] \<or> tool = [] then None
              else case tool_id_new name of Inl _ \<Rightarrow> None | Inr tid \<Rightarrow> Some (tid, server, tool))
      | _ \<Rightarrow> None)"

definition parse_mcp_tool_name :: "string \<Rightarrow> (string \<times> string) option" where
  "parse_mcp_tool_name name = map_option snd (parse_mcp_qualified_name name)"

definition qualify_mcp_tool_name :: "string \<Rightarrow> string \<Rightarrow> mcp_tool_admission_error + string" where
  "qualify_mcp_tool_name server tool =
     (if \<not> starts_with_letter_or_underscore server \<or> \<not> is_mcp_name_segment server
      then Inl (InvalidServerName server)
      else if \<not> is_mcp_name_segment tool then Inl (InvalidToolName tool)
      else
        (let qualified = server @ mcp_tool_name_delimiter @ tool in
         if length qualified > mcp_qualified_name_max_chars
         then Inl (QualifiedNameTooLong qualified (length qualified) mcp_qualified_name_max_chars)
         else if parse_mcp_qualified_name qualified = None
         then Inl (InvalidOrAmbiguousQualifiedName qualified)
         else Inr qualified))"

section \<open>A name is its server and its tool\<close>

lemma delimiter_here: "length server \<in> set (delimiter_boundaries (server @ mcp_tool_name_delimiter @ tool))"
  by (simp add: delimiter_boundaries_def mcp_tool_name_delimiter_def)

lemma parse_mcp_qualified_name_Some:
  assumes "parse_mcp_qualified_name name = Some (tid, server, tool)"
  shows "name = server @ mcp_tool_name_delimiter @ tool" and "server \<noteq> []" and "tool \<noteq> []"
    and "tid = name" and "delimiter_boundaries name = [length server]"
proof -
  from assms obtain b where b: "delimiter_boundaries name = [b]"
    and parts: "server = take b name" "tool = drop (b + 2) name" "server \<noteq> []" "tool \<noteq> []" "tid = name"
    by (auto simp: parse_mcp_qualified_name_def mcp_tool_name_delimiter_def tool_id_new_def
        opaque_id_new_def Let_def split: list.splits if_splits sum.splits)
  have "b \<in> set (delimiter_boundaries name)" by (simp add: b)
  then have here: "take 2 (drop b name) = mcp_tool_name_delimiter" and "b < length name - 1"
    by (auto simp: delimiter_boundaries_def)
  have "name = take b name @ take 2 (drop b name) @ drop (b + 2) name"
    by (metis append_take_drop_id drop_drop add.commute)
  with parts here show "name = server @ mcp_tool_name_delimiter @ tool" by simp
  from parts show "server \<noteq> []" "tool \<noteq> []" "tid = name" by simp_all
  from b parts \<open>b < length name - 1\<close> show "delimiter_boundaries name = [length server]" by simp
qed

lemma qualify_parse:
  assumes "qualify_mcp_tool_name server tool = Inr name"
  shows "parse_mcp_qualified_name name = Some (name, server, tool)"
proof -
  let ?name = "server @ mcp_tool_name_delimiter @ tool"
  from assms have name: "name = ?name" and "parse_mcp_qualified_name ?name \<noteq> None"
    by (auto simp: qualify_mcp_tool_name_def Let_def split: if_splits)
  then obtain tid s t where parsed: "parse_mcp_qualified_name ?name = Some (tid, s, t)" by auto
  note parts = parse_mcp_qualified_name_Some [OF parsed]
  from parts(5) delimiter_here [of server tool] have "length s = length server" by simp
  with parts(1,4) parsed show ?thesis by (simp add: name)
qed

text \<open>
  A qualified name says which server a tool belongs to: a name admitted to the catalogue parses
  back to the server and the tool that it was made of, so two different pairs never share a name and
  a grant for one server never covers the tool of another.
\<close>
theorem qualified_names_unique:
  assumes "qualify_mcp_tool_name server tool = Inr name"
  shows "parse_mcp_tool_name name = Some (server, tool) \<and>
    (\<forall>server' tool'. qualify_mcp_tool_name server' tool' = Inr name \<longrightarrow>
       server' = server \<and> tool' = tool) \<and>
    length name \<le> mcp_qualified_name_max_chars"
proof -
  have "length name \<le> mcp_qualified_name_max_chars"
    using assms by (auto simp: qualify_mcp_tool_name_def Let_def split: if_splits)
  moreover have "parse_mcp_tool_name name = Some (server, tool)"
    using qualify_parse [OF assms] by (simp add: parse_mcp_tool_name_def)
  moreover have "server' = server \<and> tool' = tool" if "qualify_mcp_tool_name server' tool' = Inr name" for server' tool'
    using qualify_parse [OF assms] qualify_parse [OF that] by simp
  ultimately show ?thesis by blast
qed

theorem qualified_names_unique_witness:
  "parse_mcp_tool_name ''notion__2fa_enable'' = Some (''notion'', ''2fa_enable'')"
proof -
  have "qualify_mcp_tool_name ''notion'' ''2fa_enable'' = Inr ''notion__2fa_enable''" by code_simp
  from qualified_names_unique [OF this] show ?thesis by simp
qed

text \<open>An identifier that was not synthesised by the hub never collides with one that was.\<close>

lemma client_server_id_not_synthesized:
  "server_id_new s = Inr sid \<Longrightarrow> sid \<noteq> synthesize_for_tool t"
  by (auto simp: server_id_new_def opaque_id_new_def validate_server_id_def ensure_non_empty_def
      synthesize_for_tool_def split: if_splits)

end
