(* ===== verification/WebDomains.thy ===== *)
theory WebDomains imports PolicyMatch begin

text \<open>
  The domain allowlist of the fetch tool
  (\<^verbatim>\<open>xai-grok-tools/src/implementations/grok_build/web_fetch/domain.rs\<close>): entries are a host or a
  host with a path, kept in a map from hosts. The host and the path of a URL are what the URL parser
  gives (\<open>url_host\<close>, and the argument \<open>path\<close>).
\<close>

datatype host_entry = AnyPath | PathPrefixes "string list"

type_synonym domain_matcher = "(string, host_entry) hmap"

definition add_prefix :: "string \<Rightarrow> host_entry \<Rightarrow> host_entry" where
  "add_prefix pre e =
     (case e of
        PathPrefixes v \<Rightarrow> if List.member v pre then e else PathPrefixes (v @ [pre])
      | AnyPath \<Rightarrow> e)"

text \<open>The host and the path of a normalised entry.\<close>

definition split_entry :: "string \<Rightarrow> string \<times> string option" where
  "split_entry normalized =
     (case str_find normalized ''/'' of
        Some i \<Rightarrow> (take i normalized, Some (drop i normalized))
      | None \<Rightarrow> (normalized, None))"

definition insert_entry :: "policy_env \<Rightarrow> string \<Rightarrow> domain_matcher \<Rightarrow> domain_matcher" where
  "insert_entry E raw entries =
     (let normalized = normalize_domain E raw in
      if normalized = [] then entries
      else case split_entry normalized of
        (host, None) \<Rightarrow> hm_ins host AnyPath entries
      | (host, Some raw_path) \<Rightarrow>
          if hm_get entries host = Some AnyPath then entries
          else
            (let pre = trim_end_char (CHR ''/'') raw_path in
             if pre = [] \<or> pre = ''/'' then hm_ins host AnyPath entries
             else
               (let pre = (if starts_with pre ''/'' then pre else ''/'' @ pre) in
                case hm_get entries host of
                  Some e \<Rightarrow> hm_ins host (add_prefix pre e) entries
                | None \<Rightarrow> hm_ins host (PathPrefixes [pre]) entries)))"

definition domain_matcher_new :: "policy_env \<Rightarrow> string list \<Rightarrow> domain_matcher" where
  "domain_matcher_new E raw_entries = fold (insert_entry E) raw_entries []"

definition path_below :: "string \<Rightarrow> string \<Rightarrow> bool" where
  "path_below url_path pre \<longleftrightarrow>
     url_path = pre \<or> (starts_with url_path pre \<and> get_at url_path (length pre) = Some (CHR ''/''))"

text \<open>Nothing when the URL is permitted, else the host that is not.\<close>

definition domain_check :: "policy_env \<Rightarrow> domain_matcher \<Rightarrow> string option \<Rightarrow> string \<Rightarrow> string option" where
  "domain_check E m raw_host url_path =
     (case raw_host of
        None \<Rightarrow> Some []
      | Some h \<Rightarrow>
          (let host = normalize_domain E h in
           case hm_get m host of
             Some AnyPath \<Rightarrow> None
           | Some (PathPrefixes prefixes) \<Rightarrow>
               if list_ex (path_below (to_lowercase E url_path)) prefixes then None else Some host
           | None \<Rightarrow> Some host))"

definition domain_from_url :: "policy_env \<Rightarrow> string \<Rightarrow> string option" where
  "domain_from_url E raw_url = map_option (normalize_domain E) (url_host E raw_url)"

section \<open>The matcher is the union of its entries\<close>

text \<open>What one entry permits on its own: a host, and the paths below a prefix of it.\<close>

definition entry_rule :: "policy_env \<Rightarrow> string \<Rightarrow> (string \<times> string option) option" where
  "entry_rule E raw =
     (let normalized = normalize_domain E raw in
      if normalized = [] then None
      else case split_entry normalized of
        (host, None) \<Rightarrow> Some (host, None)
      | (host, Some raw_path) \<Rightarrow>
          (let pre = trim_end_char (CHR ''/'') raw_path
           in Some (host, if pre = [] then None else Some pre)))"

definition entry_permits :: "policy_env \<Rightarrow> string \<Rightarrow> string \<Rightarrow> string \<Rightarrow> bool" where
  "entry_permits E raw host url_path \<longleftrightarrow>
     (case entry_rule E raw of
        None \<Rightarrow> False
      | Some (h, None) \<Rightarrow> h = host
      | Some (h, Some pre) \<Rightarrow> h = host \<and> path_below url_path pre)"

text \<open>What a map of entries permits.\<close>

definition permits :: "domain_matcher \<Rightarrow> string \<Rightarrow> string \<Rightarrow> bool" where
  "permits m host url_path \<longleftrightarrow>
     (case hm_get m host of
        None \<Rightarrow> False
      | Some AnyPath \<Rightarrow> True
      | Some (PathPrefixes v) \<Rightarrow> list_ex (path_below url_path) v)"

lemma str_find_slash:
  "str_find s ''/'' = Some i \<Longrightarrow> \<exists>rest. drop i s = CHR ''/'' # rest"
  by (induction s arbitrary: i) (auto simp: starts_with_def split: if_splits)

lemma split_entry_path: "split_entry s = (h, Some p) \<Longrightarrow> \<exists>rest. p = CHR ''/'' # rest"
  by (auto simp: split_entry_def dest: str_find_slash split: option.splits)

lemma trim_end_char_prefix: "\<exists>ys. s = trim_end_char c s @ ys \<and> set ys \<subseteq> {c}"
proof -
  have "rev s = takeWhile (\<lambda>x. x = c) (rev s) @ dropWhile (\<lambda>x. x = c) (rev s)" by simp
  then have "s = rev (dropWhile (\<lambda>x. x = c) (rev s)) @ rev (takeWhile (\<lambda>x. x = c) (rev s))"
    by (metis rev_append rev_rev_ident)
  then show ?thesis
    by (intro exI [of _ "rev (takeWhile (\<lambda>x. x = c) (rev s))"])
      (auto simp: trim_end_char_def dest: set_takeWhileD)
qed

lemma trim_end_char_last: "trim_end_char c s \<noteq> [] \<Longrightarrow> last (trim_end_char c s) \<noteq> c"
  using hd_dropWhile [of "\<lambda>x. x = c" "rev s"] by (auto simp: trim_end_char_def last_rev)

lemma trimmed_path:
  assumes "p = CHR ''/'' # rest" and "trim_end_char (CHR ''/'') p \<noteq> []"
  shows "starts_with (trim_end_char (CHR ''/'') p) ''/''" "trim_end_char (CHR ''/'') p \<noteq> ''/''"
proof -
  obtain ys where "p = trim_end_char (CHR ''/'') p @ ys" using trim_end_char_prefix by blast
  with assms show "starts_with (trim_end_char (CHR ''/'') p) ''/''"
    by (cases "trim_end_char (CHR ''/'') p") (auto simp: starts_with_def)
  from trim_end_char_last [OF assms(2)] show "trim_end_char (CHR ''/'') p \<noteq> ''/''" by auto
qed

lemma permits_ins:
  "permits (hm_ins h e m) host url_path \<longleftrightarrow>
     (if host = h then (case e of AnyPath \<Rightarrow> True | PathPrefixes v \<Rightarrow> list_ex (path_below url_path) v)
      else permits m host url_path)"
  by (auto simp: permits_def hm.get_ins)

lemma permits_any: "hm_get m h = Some AnyPath \<Longrightarrow> permits m h url_path"
  by (simp add: permits_def)

lemma permits_add_prefix:
  "hm_get m h = Some e \<Longrightarrow> e \<noteq> AnyPath \<Longrightarrow>
     (case add_prefix pre e of AnyPath \<Rightarrow> True | PathPrefixes v \<Rightarrow> list_ex (path_below url_path) v) \<longleftrightarrow>
     permits m h url_path \<or> path_below url_path pre"
  by (cases e) (auto simp: permits_def add_prefix_def list_ex_iff)

lemma insert_entry_permits:
  "permits (insert_entry E raw m) host url_path \<longleftrightarrow>
     permits m host url_path \<or> entry_permits E raw host url_path"
proof (cases "normalize_domain E raw = []")
  case True
  then show ?thesis by (simp add: insert_entry_def entry_permits_def entry_rule_def)
next
  case nonempty: False
  obtain h pth where split: "split_entry (normalize_domain E raw) = (h, pth)" by fastforce
  show ?thesis
  proof (cases pth)
    case None
    with nonempty split show ?thesis
      by (auto simp: insert_entry_def entry_permits_def entry_rule_def permits_ins)
  next
    case (Some p)
    let ?pre = "trim_end_char (CHR ''/'') p"
    obtain rest where p: "p = CHR ''/'' # rest" using split Some split_entry_path by blast
    show ?thesis
    proof (cases "?pre = []")
      case True
      with nonempty split Some permits_any [of m h url_path] show ?thesis
        by (auto simp: insert_entry_def entry_permits_def entry_rule_def permits_ins)
    next
      case False
      note pre = trimmed_path [OF p False]
      from nonempty split Some False have rule: "entry_permits E raw host url_path \<longleftrightarrow>
          h = host \<and> path_below url_path ?pre"
        by (simp add: entry_permits_def entry_rule_def)
      have step: "insert_entry E raw m =
          (if hm_get m h = Some AnyPath then m
           else case hm_get m h of Some e \<Rightarrow> hm_ins h (add_prefix ?pre e) m
             | None \<Rightarrow> hm_ins h (PathPrefixes [?pre]) m)"
        using nonempty split Some False pre by (simp add: insert_entry_def Let_def)
      show ?thesis
      proof (cases "hm_get m h")
        case None
        then have "\<not> permits m h url_path" by (simp add: permits_def)
        with None rule show ?thesis by (auto simp: step permits_ins)
      next
        case (Some e)
        with rule permits_any [of m h url_path] permits_add_prefix [OF Some] show ?thesis
          by (cases "e = AnyPath") (auto simp: step permits_ins)
      qed
    qed
  qed
qed

lemma matcher_permits:
  "permits (fold (insert_entry E) raws m) host url_path \<longleftrightarrow>
     permits m host url_path \<or> (\<exists>raw \<in> set raws. entry_permits E raw host url_path)"
proof (induction raws arbitrary: m)
  case (Cons raw raws)
  show ?case unfolding fold_simps(2) Cons.IH insert_entry_permits by auto
qed simp

text \<open>
  The allowlist permits exactly what one of its entries permits: a URL passes if and only if some
  entry names its host, alone or with a path that the path of the URL is below; neither the order of
  the entries nor repeated ones matter, and an empty list permits nothing.
\<close>
theorem allowlist_is_union:
  "domain_check E (domain_matcher_new E raws) (Some h) url_path = None \<longleftrightarrow>
     (\<exists>raw \<in> set raws. entry_permits E raw (normalize_domain E h) (to_lowercase E url_path))"
proof -
  have "domain_check E m (Some h) url_path = None \<longleftrightarrow>
      permits m (normalize_domain E h) (to_lowercase E url_path)" for m
    by (auto simp: domain_check_def permits_def Let_def split: option.splits host_entry.splits)
  then show ?thesis
    by (simp add: domain_matcher_new_def matcher_permits) (simp add: permits_def)
qed

end
