(* ===== verification/ProtectedEdit.thy ===== *)
theory ProtectedEdit imports PolicyMatch begin

text \<open>
  The edits that always need a confirmation (\<^verbatim>\<open>permission/shell_access.rs\<close>): hooks,
  credentials, startup files, system and agent configuration, recognised by the components of the
  path, of the path with its dots resolved, and of the file that the links lead to. The user's
  configuration directory (\<^verbatim>\<open>user_grok_home\<close>, read from the environment) is the
  argument \<open>home\<close>.
\<close>

section \<open>Reasons\<close>

datatype protected_edit_reason =
  HookRoot | GitHooks | Ssh | StartupFile | EtcFile | GrokConfig | GrokSandbox | ClaudeSettings |
  CursorHooks | SensitivePath

fun reason_kind :: "protected_edit_reason \<Rightarrow> string" where
  "reason_kind HookRoot = ''hook_root''"
| "reason_kind GitHooks = ''git_hooks''"
| "reason_kind Ssh = ''ssh''"
| "reason_kind StartupFile = ''startup_file''"
| "reason_kind EtcFile = ''etc''"
| "reason_kind GrokConfig = ''grok_config''"
| "reason_kind GrokSandbox = ''grok_sandbox''"
| "reason_kind ClaudeSettings = ''claude_settings''"
| "reason_kind CursorHooks = ''cursor_hooks''"
| "reason_kind SensitivePath = ''sensitive''"

fun reason_description :: "protected_edit_reason \<Rightarrow> string option" where
  "reason_description HookRoot = Some ''Note: This edit contains changes to hooks, which can be executed as code on later sessions without a separate execution approval.''"
| "reason_description GitHooks = Some ''Note: This edit contains changes to Git hooks, which can run automatically on commit, push, or other Git actions without a separate execution approval.''"
| "reason_description Ssh = Some (''Note: This edit contains changes under '' @ [CHR 0x60] @ ''.ssh'' @ [CHR 0x60] @ '', which can affect credentials and authentication for future sessions.'')"
| "reason_description StartupFile = Some ''Note: This edit contains changes to a shell startup file, which can run automatically in future terminals without a separate execution approval.''"
| "reason_description EtcFile = Some (''Note: This edit contains changes under '' @ [CHR 0x60] @ ''/etc'' @ [CHR 0x60] @ '', which is system configuration and can affect this machine beyond the current project.'')"
| "reason_description GrokConfig = Some ''Note: This edit contains changes to Grok config, which can alter permissions, tools, and other behavior in later sessions.''"
| "reason_description GrokSandbox = Some ''Note: This edit contains changes to the Grok sandbox config, which can loosen filesystem and network restrictions on commands.''"
| "reason_description ClaudeSettings = Some ''Note: This edit contains changes to Claude-compatible settings, which can install hooks or change permission mode without a separate execution approval.''"
| "reason_description CursorHooks = Some ''Note: This edit contains changes to Cursor hooks, which can run automatically in later sessions without a separate execution approval.''"
| "reason_description SensitivePath = None"

record protected_edit_permission =
  pe_kind :: string
  pe_description :: "string option"

definition from_reason :: "protected_edit_reason \<Rightarrow> protected_edit_permission" where
  "from_reason r = \<lparr>pe_kind = reason_kind r, pe_description = reason_description r\<rparr>"

section \<open>Components\<close>

text \<open>The ordinary components in lower case.\<close>

definition lower_components :: "path \<Rightarrow> string list" where
  "lower_components p =
     List.map_filter (\<lambda>c. case c of Normal s \<Rightarrow> Some (ascii_lower s) | _ \<Rightarrow> None) (components p)"

definition has_pair :: "string \<Rightarrow> string \<Rightarrow> string list \<Rightarrow> bool" where
  "has_pair a b cs \<longleftrightarrow> list_ex (\<lambda>(x, y). x = a \<and> y = b) (zip cs (drop 1 cs))"

definition startup_files :: "string list" where
  "startup_files =
     [''.bashrc'', ''.bash_profile'', ''.bash_login'', ''.bash_logout'', ''.profile'', ''.zshrc'',
      ''.zshenv'', ''.zprofile'', ''.zlogin'', ''.zlogout'', ''.kshrc'', ''.cshrc'', ''.tcshrc'',
      ''.login'', ''.logout'', ''.inputrc'', ''.xprofile'']"

definition grok_home_matches :: "policy_env \<Rightarrow> path option \<Rightarrow> (path \<Rightarrow> bool) \<Rightarrow> bool" where
  "grok_home_matches E home pred \<longleftrightarrow>
     (case home of
        None \<Rightarrow> False
      | Some h \<Rightarrow>
          (let lexical = normalize_lexically h in
           pred lexical \<or>
           (case resolve_following_symlinks E lexical of Some r \<Rightarrow> pred r | None \<Rightarrow> False)))"

definition path_is_under_user_grok_hook_root :: "path \<Rightarrow> path \<Rightarrow> bool" where
  "path_is_under_user_grok_hook_root p grok_home \<longleftrightarrow>
     path_starts_with p (path_join grok_home ''hooks'') \<or> path_eq p (path_join grok_home ''hooks-paths'')"

definition protected_grok_hook_root :: "policy_env \<Rightarrow> path option \<Rightarrow> path \<Rightarrow> string list \<Rightarrow> bool" where
  "protected_grok_hook_root E home p cs \<longleftrightarrow>
     has_pair ''.grok'' ''hooks'' cs \<or> ends_with cs [''.grok'', ''hooks-paths''] \<or>
     grok_home_matches E home (path_is_under_user_grok_hook_root p)"

text \<open>Below \<^verbatim>\<open>.git/modules\<close>, past the first name.\<close>

definition module_hooks_at :: "string list \<Rightarrow> nat \<Rightarrow> bool" where
  "module_hooks_at cs git \<longleftrightarrow>
     get_at cs git = Some ''.git'' \<and> get_at cs (git + 1) = Some ''modules'' \<and>
     (case get_from cs (git + 2) of
        None \<Rightarrow> False
      | Some rest \<Rightarrow> List.member (drop 1 rest) ''hooks'')"

definition protected_git_hooks_path :: "string list \<Rightarrow> bool" where
  "protected_git_hooks_path cs \<longleftrightarrow>
     has_pair ''.git'' ''hooks'' cs \<or> list_ex (module_hooks_at cs) [0..<length cs]"

text \<open>The component \<open>k\<close> places from the end.\<close>

definition from_end :: "nat \<Rightarrow> string list \<Rightarrow> string option" where
  "from_end k cs = (if k \<le> length cs \<and> 0 < k then Some (cs ! (length cs - k)) else None)"

definition is_grant_store :: "string list \<Rightarrow> string \<Rightarrow> bool" where
  "is_grant_store cs file \<longleftrightarrow>
     (file = ''permission.toml'' \<or> (starts_with file ''permission_'' \<and> ends_with file ''.toml'')) \<and>
     from_end 3 cs = Some ''sessions''"

definition is_in_sessions_of :: "path \<Rightarrow> path \<Rightarrow> bool" where
  "is_in_sessions_of p home \<longleftrightarrow>
     (case Option.bind (parent_path p) parent_path of
        Some sessions \<Rightarrow> path_eq sessions (path_join home ''sessions'')
      | None \<Rightarrow> False)"

definition config_file_reason :: "string \<Rightarrow> protected_edit_reason option" where
  "config_file_reason file =
     (if List.member [''config.toml'', ''managed_config.toml'', ''requirements.toml'',
         ''mcp.json'', ''lsp.json''] file
      then Some GrokConfig
      else if file = ''sandbox.toml'' then Some GrokSandbox else None)"

definition is_directly_in :: "path \<Rightarrow> path \<Rightarrow> bool" where
  "is_directly_in p home \<longleftrightarrow>
     (case parent_path p of Some d \<Rightarrow> path_eq d home | None \<Rightarrow> False)"

definition protected_grok_config_file_with_home ::
    "policy_env \<Rightarrow> path \<Rightarrow> string list \<Rightarrow> path option \<Rightarrow> protected_edit_reason option" where
  "protected_grok_config_file_with_home E p cs home =
     (case from_end 1 cs of
        None \<Rightarrow> None
      | Some file \<Rightarrow>
          if is_grant_store cs file then
            (if from_end 4 cs = Some ''.grok'' \<or> grok_home_matches E home (is_in_sessions_of p)
             then Some GrokConfig else None)
          else (case config_file_reason file of
              None \<Rightarrow> None
            | Some reason \<Rightarrow>
                if from_end 2 cs = Some ''.grok'' \<or> grok_home_matches E home (is_directly_in p)
                then Some reason else None))"

definition protected_grok_config_file ::
    "policy_env \<Rightarrow> path option \<Rightarrow> path \<Rightarrow> string list \<Rightarrow> protected_edit_reason option" where
  "protected_grok_config_file E home p cs = protected_grok_config_file_with_home E p cs home"

definition protected_edit_reason_of ::
    "policy_env \<Rightarrow> path option \<Rightarrow> path \<Rightarrow> protected_edit_reason option" where
  "protected_edit_reason_of E home p =
     (let cs = lower_components p; file = unwrap_or [] (from_end 1 cs) in
      if protected_grok_hook_root E home p cs then Some HookRoot
      else if ends_with cs [''.claude'', ''settings.json''] \<or>
        ends_with cs [''.claude'', ''settings.local.json''] then Some ClaudeSettings
      else if ends_with cs [''.cursor'', ''hooks.json''] then Some CursorHooks
      else if protected_git_hooks_path cs then Some GitHooks
      else if List.member cs ''.ssh'' then Some Ssh
      else if List.member startup_files file then Some StartupFile
      else case protected_grok_config_file E home p cs of
        Some reason \<Rightarrow> Some reason
      | None \<Rightarrow>
          if path_eq p ''/etc'' \<or> path_starts_with p ''/etc'' then Some EtcFile else None)"

definition resolved_path_is_within_root :: "policy_env \<Rightarrow> path \<Rightarrow> path \<Rightarrow> bool" where
  "resolved_path_is_within_root E resolved root \<longleftrightarrow>
     (case resolve_following_symlinks E root of
        Some r \<Rightarrow> path_starts_with resolved r
      | None \<Rightarrow> True)"

definition edit_target_protection :: "policy_env \<Rightarrow> path option \<Rightarrow> path \<Rightarrow> protected_edit_reason option" where
  "edit_target_protection E home p =
     (if \<not> is_absolute p then Some SensitivePath
      else case protected_edit_reason_of E home (normalize_lexically p) of
        Some reason \<Rightarrow> Some reason
      | None \<Rightarrow>
          (case resolve_following_symlinks E p of
             None \<Rightarrow> Some SensitivePath
           | Some resolved \<Rightarrow>
               (case protected_edit_reason_of E home resolved of
                  Some reason \<Rightarrow> Some reason
                | None \<Rightarrow>
                    if resolved_path_is_within_root E resolved ''/etc'' then Some SensitivePath
                    else None)))"

section \<open>Where an unprotected edit goes\<close>

lemma has_pair_Cons: "has_pair a b ys \<Longrightarrow> has_pair a b (y # ys)"
  by (cases ys) (auto simp: has_pair_def)

lemma has_pair_append: "has_pair a b (pre @ [a, b] @ post)"
  by (induction pre) (simp_all add: has_pair_Cons, simp add: has_pair_def)

lemma module_hooks_append:
  "protected_git_hooks_path (pre @ [''.git'', ''modules'', x] @ mid @ [''hooks''] @ post)"
  (is "protected_git_hooks_path ?cs")
proof -
  have "module_hooks_at ?cs (length pre)"
    by (simp add: module_hooks_at_def get_at_def get_from_def nth_append)
  moreover have "length pre \<in> set [0..<length ?cs]" by simp
  ultimately have "list_ex (module_hooks_at ?cs) [0..<length ?cs]" unfolding list_ex_iff by blast
  then show ?thesis unfolding protected_git_hooks_path_def ..
qed

lemma unprotected_components:
  assumes "protected_edit_reason_of E home q = None"
  shows "lower_components q \<noteq> pre @ [''.grok'', ''hooks''] @ post"
    "lower_components q \<noteq> pre @ [''.git'', ''hooks''] @ post"
    "lower_components q \<noteq> pre @ [''.git'', ''modules'', x] @ mid @ [''hooks''] @ post"
    "lower_components q \<noteq> pre @ [''.ssh''] @ post"
    "\<not> path_starts_with q ''/etc''"
proof -
  let ?cs = "lower_components q"
  from assms have none: "\<not> protected_grok_hook_root E home q ?cs" "\<not> protected_git_hooks_path ?cs"
      "''.ssh'' \<notin> set ?cs" "\<not> path_starts_with q ''/etc''"
    by (auto simp: protected_edit_reason_of_def Let_def split: if_splits option.splits)
  then have "\<not> has_pair ''.grok'' ''hooks'' ?cs" "\<not> has_pair ''.git'' ''hooks'' ?cs"
    by (auto simp: protected_grok_hook_root_def protected_git_hooks_path_def)
  with has_pair_append show "?cs \<noteq> pre @ [''.grok'', ''hooks''] @ post"
    "?cs \<noteq> pre @ [''.git'', ''hooks''] @ post" by metis+
  from none(2) module_hooks_append
  show "?cs \<noteq> pre @ [''.git'', ''modules'', x] @ mid @ [''hooks''] @ post" by metis
  from none(3) show "?cs \<noteq> pre @ [''.ssh''] @ post" by auto
  from none(4) show "\<not> path_starts_with q ''/etc''" .
qed

text \<open>
  An edit without protection stays away from what runs later: neither the path with its dots
  resolved nor the file its links lead to has, in any mix of cases, a hooks directory of git, of one
  of its submodules or of the agent, or an ssh directory among its components, and neither is below
  the system configuration.
\<close>
theorem unprotected_edit_is_harmless:
  assumes "edit_target_protection E home p = None"
    and "q = normalize_lexically p \<or> resolve_following_symlinks E p = Some q"
  shows "lower_components q \<noteq> pre @ [''.grok'', ''hooks''] @ post \<and>
    lower_components q \<noteq> pre @ [''.git'', ''hooks''] @ post \<and>
    lower_components q \<noteq> pre @ [''.git'', ''modules'', x] @ mid @ [''hooks''] @ post \<and>
    lower_components q \<noteq> pre @ [''.ssh''] @ post \<and>
    \<not> path_starts_with q ''/etc''"
proof -
  from assms have "protected_edit_reason_of E home q = None"
    by (auto simp: edit_target_protection_def split: if_splits option.splits)
  from unprotected_components [OF this] show ?thesis by blast
qed

text \<open>A file system without links.\<close>

definition physical_env :: policy_env where
  "physical_env = \<lparr>glob_new = (\<lambda>_. None), url_host = (\<lambda>_. None), to_lowercase = (\<lambda>s. s),
     parse_shell = (\<lambda>_. None), fs_canonicalize = Some, fs_symlink_metadata = (\<lambda>_. MetaOther),
     fs_read_link = (\<lambda>_. None)\<rparr>"

theorem unprotected_edit_is_harmless_witness:
  "lower_components ''/work/src/main.rs'' \<noteq> [''work''] @ [''.git'', ''hooks''] @ [''main.rs''] \<and>
   \<not> path_starts_with ''/work/src/main.rs'' ''/etc''"
proof -
  have "edit_target_protection physical_env None ''/work/src/../src/main.rs'' = None" by code_simp
  moreover have "''/work/src/main.rs'' = normalize_lexically ''/work/src/../src/main.rs''" by code_simp
  ultimately show ?thesis
    using unprotected_edit_is_harmless [of physical_env None "''/work/src/../src/main.rs''"
        "''/work/src/main.rs''" "[''work'']" "[''main.rs'']"] by blast
qed

end
