(* ===== verification/BashGrants.thy ===== *)
theory BashGrants imports AutoMode PermState McpNames WebDomains ProtectedEdit PolicyEval begin

text \<open>
  Grants that a user gave and what they authorise (\<^verbatim>\<open>permission/grants.rs\<close>,
  \<^verbatim>\<open>permission/grants/bash_grants.rs\<close>, \<^verbatim>\<open>permission/reasons.rs\<close>): the safe lists, the scope
  that an always-allow answer may persist, the evaluation of a Bash request against the grants, the
  decisions taken before the user is asked, and what an answer records. The functions are stateless;
  they read a \<open>permission_state\<close>.
\<close>

section \<open>Flags that no grant vouches for\<close>

definition kubectl_has_unsafe_flag :: "string list \<Rightarrow> bool" where
  "kubectl_has_unsafe_flag words \<longleftrightarrow>
     normalized_command_head words = Some ''kubectl'' \<and> kubectl_flagged words"

definition ps_value_flags :: "string list" where
  "ps_value_flags =
     [''-o'', ''-O'', ''--format'', ''--sort'', ''-p'', ''-q'', ''-t'', ''-u'', ''-U'', ''-g'', ''-G'', ''-C'', ''-s'',
      ''--pid'', ''--ppid'', ''--sid'', ''--tty'', ''--user'', ''--group'', ''--cols'', ''--columns'', ''--width'',
      ''o'', ''O'']"

definition ps_word_dumps :: "string \<Rightarrow> bool" where
  "ps_word_dumps s \<longleftrightarrow>
     (let single = starts_with s ''-'' \<and> \<not> starts_with s ''--'';
          dashless = \<not> starts_with s ''-'';
          bsd_selector_cluster = single \<and> (CHR ''a'' \<in> set s \<or> CHR ''x'' \<in> set s)
      in CHR ''E'' \<in> set s \<or> (CHR ''e'' \<in> set s \<and> (dashless \<or> bsd_selector_cluster)))"

fun ps_words_dump :: "string list \<Rightarrow> bool" where
  "ps_words_dump [] = False"
| "ps_words_dump (s # ws) =
     (if starts_with s ''--format='' \<or> starts_with s ''--sort='' then ps_words_dump ws
      else if List.member ps_value_flags s then
        (case ws of [] \<Rightarrow> False | _ # ws' \<Rightarrow> ps_words_dump ws')
      else if starts_with s ''-o'' \<or> starts_with s ''-O'' then ps_words_dump ws
      else if ps_word_dumps s then True
      else if starts_with s ''-'' \<and> \<not> starts_with s ''--'' \<and> (ends_with s ''o'' \<or> ends_with s ''O'') then
        (case ws of [] \<Rightarrow> False | _ # ws' \<Rightarrow> ps_words_dump ws')
      else ps_words_dump ws)"

definition ps_dumps_environment :: "string list \<Rightarrow> bool" where
  "ps_dumps_environment words \<longleftrightarrow>
     normalized_command_head words = Some ''ps'' \<and> ps_words_dump (drop 1 words)"

section \<open>Safe lists\<close>

definition is_safe_git_query_prefix :: "string \<Rightarrow> bool" where
  "is_safe_git_query_prefix cmd \<longleftrightarrow>
     (case strip_prefix ''git '' cmd of
        None \<Rightarrow> False
      | Some rest \<Rightarrow> list_ex (matches_command_prefix rest) safe_git_subcommands)"

definition safe_commands :: "string list" where
  "safe_commands =
     [''ls'', ''cat'', ''pwd'', ''date'', ''whoami'', ''hostname'', ''uptime'', ''grep'', ''rg'',
      ''kubectl get'', ''kubectl logs'', ''kubectl describe'', ''ps'', ''head'', ''tail'', ''wc'', ''sort'',
      ''uniq'', ''tr'', ''cut'', ''echo'', ''printf'']"

definition is_safe_command_words_str :: "string \<Rightarrow> bool" where
  "is_safe_command_words_str cmd \<longleftrightarrow>
     list_ex (matches_command_prefix cmd) safe_commands \<or> is_safe_git_query_prefix cmd"

definition always_safe_commands :: "string list" where
  "always_safe_commands =
     [''ls'', ''cat'', ''pwd'', ''date'', ''whoami'', ''hostname'', ''uptime'', ''ps'', ''grep'', ''rg'',
      ''kubectl get'', ''kubectl logs'', ''kubectl describe'']"

text \<open>The checks that both lists make first, then git's own rule, then the list.\<close>

definition safe_by :: "(string \<Rightarrow> bool) \<Rightarrow> string list \<Rightarrow> bool" where
  "safe_by listed words \<longleftrightarrow>
     words \<noteq> [] \<and> \<not> rg_has_unsafe_flag words \<and> \<not> kubectl_has_unsafe_flag words \<and>
     \<not> ps_dumps_environment words \<and>
     (if get_at words 0 = Some ''git'' then git_words_are_read_only_query words
      else listed (join '' '' words))"

definition is_safe_command_words :: "string list \<Rightarrow> bool" where
  "is_safe_command_words words \<longleftrightarrow> safe_by is_safe_command_words_str words"

definition is_always_safe_command_words :: "string list \<Rightarrow> bool" where
  "is_always_safe_command_words words \<longleftrightarrow>
     safe_by (\<lambda>joined. list_ex (matches_command_prefix joined) always_safe_commands) words"

definition is_safe_creation_command :: "string list \<Rightarrow> bool" where
  "is_safe_creation_command words \<longleftrightarrow>
     (case get_at words 0 of Some w \<Rightarrow> is_creation_program w | None \<Rightarrow> False)"

definition dangerous_commands :: "string list" where
  "dangerous_commands =
     [''rm'', ''chmod'', ''chown'', ''chgrp'', ''chattr'', ''pkill'', ''kill'', ''killall'', ''git push'']"

definition is_dangerous_command_words :: "string list \<Rightarrow> bool" where
  "is_dangerous_command_words words \<longleftrightarrow>
     (case normalized_command_head words of
        None \<Rightarrow> False
      | Some head \<Rightarrow>
          (let joined = (if length words = 1 then head else head @ '' '' @ join '' '' (drop 1 words))
           in list_ex (matches_command_prefix joined) dangerous_commands))"

section \<open>The scope of an answer\<close>

definition always_allow_scope_pinned :: "string list \<Rightarrow> bool" where
  "always_allow_scope_pinned words \<longleftrightarrow>
     is_dangerous_command_words words \<or> head_is_exec_vehicle words \<or>
     normalized_command_head words = Some ''sed''"

definition gh_always_allow_scope :: "string list \<Rightarrow> nat option" where
  "gh_always_allow_scope words =
     (if normalized_command_head words \<noteq> Some ''gh'' then None
      else Some (case (get_at words 1, get_at words 2) of
          (Some grp, Some verb) \<Rightarrow>
            if \<not> starts_with grp ''-'' \<and> \<not> starts_with verb ''-'' then 3 else length words
        | _ \<Rightarrow> length words))"

text \<open>The first index from \<open>n\<close> on whose word is no flag.\<close>

definition skip_flags :: "string list \<Rightarrow> nat \<Rightarrow> nat" where
  "skip_flags words n = n + length (takeWhile (\<lambda>w. starts_with w ''-'') (drop n words))"

definition base_scope :: "string list \<Rightarrow> nat" where
  "base_scope words =
     (if is_safe_command_words words \<and>
         (case get_at words 0 of Some w \<Rightarrow> is_safe_command_words_str w | None \<Rightarrow> False) then 1
      else if is_safe_command_words words \<and> 2 \<le> length words \<and>
         is_safe_command_words_str (join '' '' (take 2 words)) then 2
      else skip_flags words (min (length words) 2))"

definition default_always_allow_scope :: "string list \<Rightarrow> nat" where
  "default_always_allow_scope words =
     (if words = [] then 0
      else if always_allow_scope_pinned words then length words
      else case gh_always_allow_scope words of Some n \<Rightarrow> n | None \<Rightarrow> base_scope words)"

definition default_always_deny_scope :: "string list \<Rightarrow> nat" where
  "default_always_deny_scope words = (if words = [] then 0 else base_scope words)"

definition minimum_always_allow_scope :: "string list \<Rightarrow> nat" where
  "minimum_always_allow_scope words =
     (if always_allow_scope_pinned words then length words
      else unwrap_or 1 (gh_always_allow_scope words))"

section \<open>The evaluation of a request\<close>

datatype segment_evaluation =
    AutoAllow bool
  | SegReject string
  | NeedsPrompts "string list"
  | Unparseable

record bash_evaluation =
  be_segments :: segment_evaluation
  be_exact_grant :: bool
  be_all_segments_granted :: bool
  be_assessment :: assessment
  be_redirect_write :: bool
  be_ambient_segments :: "string list list option"
  be_protected_paths :: "string list"
  be_has_cwd_change :: bool
  be_recovered_eligible :: bool

fun env_risk_finding :: "env_risk \<Rightarrow> finding option" where
  "env_risk_finding EnvInjection = Some FindEnvInjection"
| "env_risk_finding EnvUnvetted = Some UnvettedEnv"
| "env_risk_finding EnvSafe = None"

definition finding_if :: "bool \<Rightarrow> finding \<Rightarrow> assessment" where
  "finding_if b f = (if b then {f} else {})"

definition rejected_text :: "string \<Rightarrow> string" where
  "rejected_text d = ''User previously rejected `'' @ d @ ''` in this project''"

definition raw_deny_rejection :: "string \<Rightarrow> permission_state \<Rightarrow> segment_evaluation option" where
  "raw_deny_rejection cmd state =
     map_option (\<lambda>d. SegReject (rejected_text d))
       (find (matches_command_prefix cmd) (st_disallowed_bash_commands state))"

definition words_join_unambiguously :: "policy_env \<Rightarrow> string list \<Rightarrow> bool" where
  "words_join_unambiguously E words \<longleftrightarrow>
     (let joined = join '' '' words in
      case all_commands_from_script (parse_shell E) joined of
        Some [only] \<Rightarrow> spans_whole_script only joined \<and> pl_words only = words
      | _ \<Rightarrow> False)"

definition whole_script_grant ::
    "policy_env \<Rightarrow> string \<Rightarrow> plain_command list \<Rightarrow> permission_state \<Rightarrow> bool" where
  "whole_script_grant E cmd segments state \<longleftrightarrow>
     List.member (st_allowed_bash_commands state) cmd \<or>
     (case segments of
        [only] \<Rightarrow>
          spans_whole_script only cmd \<and> words_join_unambiguously E (pl_words only) \<and>
          List.member (st_allowed_bash_commands state) (join '' '' (pl_words only))
      | _ \<Rightarrow> False)"

text \<open>What the commands of a script leave behind, one after the other.\<close>

record segment_acc =
  sa_needs_prompt :: "string list"
  sa_via_session_grant :: bool
  sa_all_segments_granted :: bool
  sa_exec_risk :: bool
  sa_has_git :: bool
  sa_assessment :: assessment

definition segment_acc_start :: "assessment \<Rightarrow> segment_acc" where
  "segment_acc_start A =
     \<lparr>sa_needs_prompt = [], sa_via_session_grant = False, sa_all_segments_granted = True,
      sa_exec_risk = False, sa_has_git = False, sa_assessment = A\<rparr>"

definition segment_grant :: "policy_env \<Rightarrow> permission_state \<Rightarrow> string list \<Rightarrow> bool" where
  "segment_grant E state words \<longleftrightarrow>
     (let s = join '' '' words in
      (if always_allow_scope_pinned words then List.member (st_allowed_bash_commands state) s
       else list_ex (matches_command_prefix s) (st_allowed_bash_commands state)) \<or>
      list_ex (\<lambda>g. bash_pattern_matches_command E g s) (st_allowed_bash_globs state))"

definition special_exec_surface :: "string list \<Rightarrow> bool" where
  "special_exec_surface words \<longleftrightarrow>
     kubectl_has_unsafe_flag words \<or> rg_has_unsafe_flag words \<or> ps_dumps_environment words \<or>
     git_words_have_unsafe_query_option words"

definition matched_safe :: "string list \<Rightarrow> bool" where
  "matched_safe words \<longleftrightarrow>
     is_safe_command_words words \<or> is_always_safe_command_words words \<or> is_safe_creation_command words"

text \<open>The part of a command that every command takes, set-up commands too.\<close>

definition note_segment :: "string list \<Rightarrow> segment_acc \<Rightarrow> segment_acc" where
  "note_segment raw_words a =
     (let words = unwrap_wrappers raw_words; facts = segment_exec_facts_of raw_words in
      a\<lparr>sa_assessment := sa_assessment a \<union>
          finding_if (words_are_opaque_shell (map Literal words)) OpaqueShell \<union>
          finding_if (exec_risk facts) ExecOrAmbientGit,
        sa_exec_risk := sa_exec_risk a \<or> exec_risk facts,
        sa_has_git := sa_has_git a \<or> has_git facts\<rparr>)"

text \<open>The outcome of a command that is neither set-up nor denied.\<close>

definition judge_segment ::
    "policy_env \<Rightarrow> permission_state \<Rightarrow> bool \<Rightarrow> string list \<Rightarrow> segment_acc \<Rightarrow> segment_acc" where
  "judge_segment E state honor_safe_lists words a =
     (let s = join '' '' words;
          matched_grant = segment_grant E state words;
          a = a\<lparr>sa_all_segments_granted := sa_all_segments_granted a \<and> matched_grant\<rparr>;
          prompt = (\<lambda>A. a\<lparr>sa_assessment := sa_assessment a \<union> A, sa_needs_prompt := sa_needs_prompt a @ [s]\<rparr>)
      in if is_dangerous_command_words words then prompt {DangerousCommand}
         else if special_exec_surface words \<and> \<not> List.member (st_allowed_bash_commands state) s
         then prompt {SpecialExecSurface}
         else if matched_grant then a\<lparr>sa_via_session_grant := True\<rparr>
         else if honor_safe_lists \<and> matched_safe words then a
         else prompt {})"

text \<open>The loop over the commands; a denied command ends it with the text of the rejection.\<close>

fun judge_segments ::
    "policy_env \<Rightarrow> permission_state \<Rightarrow> bool \<Rightarrow> plain_command list \<Rightarrow> segment_acc
      \<Rightarrow> (string \<times> segment_acc) + segment_acc" where
  "judge_segments E state honor [] a = Inr a"
| "judge_segments E state honor (c # cs) a =
     (let raw_words = pl_words c; words = unwrap_wrappers raw_words; a = note_segment raw_words a in
      if is_setup_command words then judge_segments E state honor cs a
      else case find (matches_command_prefix (join '' '' words)) (st_disallowed_bash_commands state) of
        Some d \<Rightarrow> Inl (rejected_text d, a)
      | None \<Rightarrow> judge_segments E state honor cs (judge_segment E state honor words a))"

text \<open>A script that the parser cannot take apart at all.\<close>

definition evaluate_unparsed :: "string \<Rightarrow> permission_state \<Rightarrow> bash_evaluation" where
  "evaluate_unparsed cmd state =
     \<lparr>be_segments = unwrap_or Unparseable (raw_deny_rejection cmd state),
      be_exact_grant = List.member (st_allowed_bash_commands state) cmd,
      be_all_segments_granted = False,
      be_assessment = {UnparseableShell} \<union> finding_if (script_may_invoke_git cmd) ExecOrAmbientGit,
      be_redirect_write = True, be_ambient_segments = None, be_protected_paths = [],
      be_has_cwd_change = False, be_recovered_eligible = False\<rparr>"

text \<open>The findings on the commands of a recovered script.\<close>

definition projection_findings :: "string list \<Rightarrow> assessment" where
  "projection_findings words =
     (let words = unwrap_wrappers words in
      finding_if (is_dangerous_command_words words) DangerousCommand \<union>
      finding_if (rg_has_unsafe_flag words) SpecialExecSurface \<union>
      finding_if (exec_risk (segment_exec_facts_of words)) ExecOrAmbientGit)"

definition recovered_rejection :: "string \<Rightarrow> string list list \<Rightarrow> permission_state \<Rightarrow> segment_evaluation" where
  "recovered_rejection cmd projs state =
     unwrap_or Unparseable
       (or_else (raw_deny_rejection cmd state)
         (Option.bind (find (\<lambda>ws. raw_deny_rejection (join '' '' (unwrap_wrappers ws)) state \<noteq> None) projs)
           (\<lambda>ws. raw_deny_rejection (join '' '' (unwrap_wrappers ws)) state)))"

definition evaluate_recovered ::
    "ts_node \<Rightarrow> string \<Rightarrow> permission_state \<Rightarrow> assessment \<Rightarrow> bool \<Rightarrow> string list \<Rightarrow> bool \<Rightarrow> bash_evaluation" where
  "evaluate_recovered tree cmd state A redirect_write protected_paths has_cwd_change =
     (let recovery = analyze tree cmd; projs = projections recovery in
      \<lparr>be_segments = recovered_rejection cmd projs state,
       be_exact_grant = List.member (st_allowed_bash_commands state) cmd,
       be_all_segments_granted = False,
       be_assessment = A \<union>
         finding_if (has_unresolved recovery) UnresolvedArgument \<union>
         (\<Union>ws \<in> set projs. projection_findings ws) \<union>
         finding_if (\<not> is_eligible recovery) UnparseableShell \<union>
         finding_if (tree_has_opaque_shell tree cmd) OpaqueShell \<union>
         finding_if (script_may_invoke_git cmd) ExecOrAmbientGit,
       be_redirect_write = redirect_write \<or> \<not> is_eligible recovery,
       be_ambient_segments = None, be_protected_paths = protected_paths,
       be_has_cwd_change = has_cwd_change, be_recovered_eligible = is_eligible recovery\<rparr>)"

definition evaluate_segments ::
    "policy_env \<Rightarrow> string \<Rightarrow> permission_state \<Rightarrow> bool \<Rightarrow> plain_command list \<Rightarrow> assessment \<Rightarrow> bool
      \<Rightarrow> string list \<Rightarrow> bool \<Rightarrow> bash_evaluation" where
  "evaluate_segments E cmd state honor segments A redirect_write protected_paths has_cwd_change =
     (let exact = whole_script_grant E cmd segments state in
      case judge_segments E state honor segments (segment_acc_start A) of
        Inl (reason, a) \<Rightarrow>
          \<lparr>be_segments = SegReject reason, be_exact_grant = exact,
           be_all_segments_granted = sa_all_segments_granted a, be_assessment = sa_assessment a,
           be_redirect_write = redirect_write, be_ambient_segments = None, be_protected_paths = [],
           be_has_cwd_change = False, be_recovered_eligible = False\<rparr>
      | Inr a \<Rightarrow>
          \<lparr>be_segments = (if sa_needs_prompt a = [] then AutoAllow (sa_via_session_grant a)
                          else NeedsPrompts (sa_needs_prompt a)),
           be_exact_grant = exact, be_all_segments_granted = sa_all_segments_granted a,
           be_assessment = sa_assessment a, be_redirect_write = redirect_write,
           be_ambient_segments =
             (if sa_has_git a \<and> \<not> sa_exec_risk a then Some (map pl_words segments) else None),
           be_protected_paths = protected_paths, be_has_cwd_change = has_cwd_change,
           be_recovered_eligible = False\<rparr>)"

definition redirect_writes :: "write_paths_split \<Rightarrow> bool" where
  "redirect_writes w \<longleftrightarrow>
     ws_unextracted_write_redirect w \<or> list_ex (\<lambda>p. \<not> is_safe_write_sink p) (ws_redirect_paths w)"

definition evaluate_bash :: "policy_env \<Rightarrow> string \<Rightarrow> permission_state \<Rightarrow> bool \<Rightarrow> bash_evaluation" where
  "evaluate_bash E cmd state honor_safe_lists =
     (case parse_shell E cmd of
        None \<Rightarrow> evaluate_unparsed cmd state
      | Some tree \<Rightarrow>
          (let writes = command_write_paths_split tree cmd;
               has_cwd_change = script_has_cwd_change tree cmd;
               redirect_write = redirect_writes writes;
               word_write = list_ex (\<lambda>p. \<not> is_safe_write_sink p) (ws_word_paths writes);
               protected_paths = ws_creation_paths writes @ ws_word_paths writes @ ws_redirect_paths writes;
               segments = try_parse_word_only_commands_sequence tree cmd;
               env = env_risk_finding (script_env_risk tree cmd (unwrap_or [] segments));
               A = finding_if (redirect_write \<or> word_write) FileWrite \<union> set_option env
           in case segments of
                None \<Rightarrow> evaluate_recovered tree cmd state A redirect_write protected_paths has_cwd_change
              | Some segments \<Rightarrow>
                  evaluate_segments E cmd state honor_safe_lists segments A redirect_write protected_paths
                    has_cwd_change))"

end
