(* ===== verification/BashDecisions.thy ===== *)
theory BashDecisions imports BashGrants begin

text \<open>
  The decisions before the user is asked and what an answer records (\<^verbatim>\<open>permission/grants.rs\<close>,
  \<^verbatim>\<open>permission/grants/bash_grants.rs\<close>), the resolution of a path that the model gave
  (\<^verbatim>\<open>xai-grok-tools/src/types/resources.rs\<close>), and the answers of a prompt
  (\<^verbatim>\<open>permission/prompter.rs\<close>). The expansion of a tilde is an argument.
\<close>

section \<open>Paths of the model\<close>

function strip_escapes :: "string \<Rightarrow> string" where
  "strip_escapes s =
     (case or_else (strip_suffix [CHR 0x5C, CHR ''n''] s)
             (or_else (strip_suffix [CHR 0x5C, CHR ''r''] s) (strip_suffix [CHR 0x5C, CHR ''t''] s)) of
        Some stripped \<Rightarrow> strip_escapes (trim_end stripped)
      | None \<Rightarrow> s)"
  by pat_completeness auto
termination
proof (relation "measure length", goal_cases)
  case (2 s stripped)
  then obtain e where "s = stripped @ [CHR 0x5C, e]"
    by (auto simp: or_else_def strip_suffix_Some split: option.splits)
  moreover obtain ys where "stripped = trim_end stripped @ ys" using trim_end_prefix by blast
  then have "length (trim_end stripped) \<le> length stripped" by (metis le_add1 length_append)
  ultimately show ?case by simp
qed simp

declare strip_escapes.simps [simp del]

definition sanitize_model_path_arg :: "string \<Rightarrow> string" where
  "sanitize_model_path_arg input =
     (let trimmed = trim input;
          quote_wrapped = (2 \<le> length trimmed \<and> is_quote (hd trimmed) \<and> is_quote (last trimmed));
          unquoted = trim (trim_quotes trimmed)
      in if quote_wrapped then strip_escapes unquoted else unquoted)"

definition resolve_model_path :: "(string \<Rightarrow> string) \<Rightarrow> path \<Rightarrow> path option \<Rightarrow> string \<Rightarrow> path" where
  "resolve_model_path tilde cwd display_cwd input =
     (let expanded = tilde (sanitize_model_path_arg input);
          as_absolute = ''/'' @ expanded;
          effective_base = unwrap_or cwd display_cwd
      in case (display_cwd, is_absolute expanded) of
           (Some display, True) \<Rightarrow>
             (case path_strip_prefix display expanded of
                Some suffix \<Rightarrow> path_join cwd suffix
              | None \<Rightarrow> expanded)
         | _ \<Rightarrow>
             if \<not> is_absolute expanded \<and> expanded \<noteq> [] \<and> path_starts_with as_absolute effective_base
             then (case path_strip_prefix effective_base as_absolute of
                     Some suffix \<Rightarrow> path_join cwd suffix
                   | None \<Rightarrow> path_join cwd expanded)
             else path_join cwd expanded)"

section \<open>Floors\<close>

record request_path_context =
  rc_real_cwd :: path
  rc_display_cwd :: "path option"

definition resolve_in ::
    "(string \<Rightarrow> string) \<Rightarrow> path \<Rightarrow> request_path_context option \<Rightarrow> string \<Rightarrow> path" where
  "resolve_in tilde cwd context p =
     (case context of
        Some ctx \<Rightarrow> resolve_model_path tilde (rc_real_cwd ctx) (rc_display_cwd ctx) p
      | None \<Rightarrow> resolve_model_path tilde cwd None p)"

definition bash_protected_target ::
    "policy_env \<Rightarrow> path option \<Rightarrow> (string \<Rightarrow> string) \<Rightarrow> bash_evaluation \<Rightarrow> path
      \<Rightarrow> request_path_context option \<Rightarrow> protected_edit_reason option" where
  "bash_protected_target E home tilde e cwd context =
     (if be_has_cwd_change e \<and> list_ex (\<lambda>p. \<not> is_absolute p) (be_protected_paths e)
      then Some SensitivePath
      else Option.bind
        (find (\<lambda>p. edit_target_protection E home (resolve_in tilde cwd context p) \<noteq> None)
          (be_protected_paths e))
        (\<lambda>p. edit_target_protection E home (resolve_in tilde cwd context p)))"

definition protected_target ::
    "policy_env \<Rightarrow> path option \<Rightarrow> (string \<Rightarrow> string) \<Rightarrow> access_kind \<Rightarrow> bash_evaluation option \<Rightarrow> path
      \<Rightarrow> request_path_context option \<Rightarrow> protected_edit_reason option" where
  "protected_target E home tilde access evaluation cwd context =
     (case access of
        AcEdit p \<Rightarrow> edit_target_protection E home (resolve_in tilde cwd context p)
      | AcBash cmd \<Rightarrow>
          Option.bind evaluation (\<lambda>e. bash_protected_target E home tilde e cwd context)
      | _ \<Rightarrow> None)"

definition bash_request_floor_requires_prompt :: "bash_evaluation option \<Rightarrow> bool" where
  "bash_request_floor_requires_prompt evaluation \<longleftrightarrow>
     (case evaluation of
        None \<Rightarrow> False
      | Some e \<Rightarrow> \<not> be_exact_grant e \<and> constrains_broad_grant (be_assessment e))"

definition evaluate_bash_with_ambient ::
    "policy_env \<Rightarrow> (string \<Rightarrow> bool option) \<Rightarrow> (path \<Rightarrow> (string \<times> string) list option)
      \<Rightarrow> string \<Rightarrow> permission_state \<Rightarrow> path \<Rightarrow> bash_evaluation" where
  "evaluate_bash_with_ambient E parse_bool entries cmd state cwd =
     (let e = evaluate_bash E cmd state True in
      case be_ambient_segments e of
        None \<Rightarrow> e
      | Some raw \<Rightarrow>
          (let e = e\<lparr>be_ambient_segments := None\<rparr> in
           if ambient_exec_risk_from_plan parse_bool entries (ambient_scan_plan_from_segments raw cwd)
           then e\<lparr>be_assessment := insert ExecOrAmbientGit (be_assessment e)\<rparr>
           else e))"

section \<open>Decisions of the grants\<close>

datatype reason =
    ReYolo | RePolicyAllow | RePolicyDeny | RePolicyAsk | ReBashCommandGateAsk | ReShellFileGateAsk
  | ReAutoFastPath | ReAutoClassifierAllow | ReAutoClassifierDeny | ReAutoClassifierTimeout
  | ReAutoClassifierUnavailable | ReAutoDenialLimit | ReSandboxAuto | RePersistedGrant
  | ReSessionGrant | ReStaticAllowlist | ReSafeCommand | ReSessionDeny | RePromptDeny
  | RePromptAllow | ReNeedsUser | ReBashRequestFloor | ReOpaqueShell | ReHookAsk | ReRequesterGone

fun reason_str :: "reason \<Rightarrow> string" where
  "reason_str ReYolo = ''yolo''"
| "reason_str RePolicyAllow = ''policy_allow''"
| "reason_str RePolicyDeny = ''policy_deny''"
| "reason_str RePolicyAsk = ''policy_ask''"
| "reason_str ReBashCommandGateAsk = ''bash_command_gate_ask''"
| "reason_str ReShellFileGateAsk = ''shell_file_gate_ask''"
| "reason_str ReAutoFastPath = ''auto_fast_path''"
| "reason_str ReAutoClassifierAllow = ''auto_classifier_allow''"
| "reason_str ReAutoClassifierDeny = ''auto_classifier_deny''"
| "reason_str ReAutoClassifierTimeout = ''auto_classifier_timeout''"
| "reason_str ReAutoClassifierUnavailable = ''auto_classifier_unavailable''"
| "reason_str ReAutoDenialLimit = ''auto_denial_limit''"
| "reason_str ReSandboxAuto = ''sandbox_auto''"
| "reason_str RePersistedGrant = ''persisted_grant''"
| "reason_str ReSessionGrant = ''session_grant''"
| "reason_str ReStaticAllowlist = ''static_allowlist''"
| "reason_str ReSafeCommand = ''safe_command''"
| "reason_str ReSessionDeny = ''session_deny''"
| "reason_str RePromptDeny = ''prompt_deny''"
| "reason_str RePromptAllow = ''prompt_allow''"
| "reason_str ReNeedsUser = ''needs_user''"
| "reason_str ReBashRequestFloor = ''bash_request_floor''"
| "reason_str ReOpaqueShell = ''opaque_shell''"
| "reason_str ReHookAsk = ''hook_ask''"
| "reason_str ReRequesterGone = ''requester_gone''"

definition all_reasons :: "reason list" where
  "all_reasons =
     [ReYolo, RePolicyAllow, RePolicyDeny, RePolicyAsk, ReBashCommandGateAsk, ReShellFileGateAsk,
      ReAutoFastPath, ReAutoClassifierAllow, ReAutoClassifierDeny, ReAutoClassifierTimeout,
      ReAutoClassifierUnavailable, ReAutoDenialLimit, ReSandboxAuto, RePersistedGrant,
      ReSessionGrant, ReStaticAllowlist, ReSafeCommand, ReSessionDeny, RePromptDeny, RePromptAllow,
      ReNeedsUser, ReBashRequestFloor, ReOpaqueShell, ReHookAsk, ReRequesterGone]"

lemma reason_vocabulary: "distinct (map reason_str all_reasons) \<and> r \<in> set all_reasons"
  by (cases r) (simp_all add: all_reasons_def)

record bash_grant_opts =
  go_honor_safe_lists :: bool
  go_allow_blanket :: bool
  go_conservative_blanket :: bool

definition pre_classifier :: bash_grant_opts where
  "pre_classifier =
     \<lparr>go_honor_safe_lists = True, go_allow_blanket = True, go_conservative_blanket = True\<rparr>"

definition ask_floor_remember :: bash_grant_opts where
  "ask_floor_remember =
     \<lparr>go_honor_safe_lists = False, go_allow_blanket = False, go_conservative_blanket = False\<rparr>"

definition post_classify :: "bool \<Rightarrow> bash_grant_opts" where
  "post_classify auto_forced_prompt =
     \<lparr>go_honor_safe_lists = True, go_allow_blanket = \<not> auto_forced_prompt,
      go_conservative_blanket = False\<rparr>"

definition persisted_bash_auto_allows :: "permission_state \<Rightarrow> string \<Rightarrow> string option \<Rightarrow> bool" where
  "persisted_bash_auto_allows state cmd yolo_pin \<longleftrightarrow>
     (st_allow_bash_execute state \<and> yolo_pin = None) \<or> List.member (st_allowed_bash_commands state) cmd"

definition allow_if :: "bool \<Rightarrow> reason \<Rightarrow> (decision \<times> reason) option" where
  "allow_if b r = (if b then Some (Allow, r) else None)"

definition bash_grant_pre_decision ::
    "string \<Rightarrow> bash_evaluation \<Rightarrow> permission_state \<Rightarrow> string option \<Rightarrow> bash_grant_opts
      \<Rightarrow> (decision \<times> reason) option" where
  "bash_grant_pre_decision cmd e state yolo_pin opts =
     (case be_segments e of
        SegReject reason \<Rightarrow> Some (Reject reason, ReSessionDeny)
      | segments \<Rightarrow>
          if bash_request_floor_requires_prompt (Some e) then None
          else (case segments of
            AutoAllow via \<Rightarrow>
              if \<not> go_honor_safe_lists opts \<and> \<not> be_all_segments_granted e then None
              else Some (Allow, if via then ReSessionGrant else ReSafeCommand)
          | NeedsPrompts ss \<Rightarrow>
              if \<not> go_allow_blanket opts then None
              else if go_conservative_blanket opts \<and> DangerousCommand \<in> be_assessment e
              then allow_if (be_exact_grant e) ReSessionGrant
              else allow_if (persisted_bash_auto_allows state cmd yolo_pin) ReSessionGrant
          | _ \<Rightarrow>
              if \<not> go_allow_blanket opts then None
              else allow_if (if go_conservative_blanket opts then be_exact_grant e
                             else persisted_bash_auto_allows state cmd yolo_pin) ReSessionGrant))"

definition mcp_server_prefix_allowed :: "string \<Rightarrow> string list \<Rightarrow> bool" where
  "mcp_server_prefix_allowed name servers \<longleftrightarrow>
     servers \<noteq> [] \<and>
     (case parse_mcp_qualified_name name of
        Some (tid, server, tool) \<Rightarrow> List.member servers server | None \<Rightarrow> False)"

definition mcp_pre_decision :: "string \<Rightarrow> permission_state \<Rightarrow> bool \<Rightarrow> bool \<Rightarrow> decision option" where
  "mcp_pre_decision name state policy_forced_prompt remember_tool_approvals =
     (if List.member (st_disallowed_mcp_tools state) name then Some (Reject (rejected_text name))
      else if policy_forced_prompt \<and> \<not> remember_tool_approvals then None
      else if List.member (st_allowed_mcp_tools state) name then Some Allow
      else if mcp_server_prefix_allowed name (st_allowed_mcp_servers state) then Some Allow
      else None)"

definition web_fetch_deny_key :: "policy_env \<Rightarrow> string \<Rightarrow> string" where
  "web_fetch_deny_key E host = to_lowercase E (trim_end_char (CHR ''.'') (trim host))"

definition web_fetch_deny_key_from_url :: "policy_env \<Rightarrow> string \<Rightarrow> string option" where
  "web_fetch_deny_key_from_url E url =
     Option.bind (url_host E url) (\<lambda>h.
       let key = web_fetch_deny_key E h in if key = [] then None else Some key)"

definition denies_domain :: "string \<Rightarrow> string \<Rightarrow> bool" where
  "denies_domain domain denied \<longleftrightarrow>
     denied \<noteq> [] \<and>
     (domain = denied \<or>
      (length denied + 1 < length domain \<and> ends_with domain denied \<and>
       get_at domain (length domain - length denied - 1) = Some (CHR ''.'')))"

definition denied_web_fetch_domain :: "policy_env \<Rightarrow> string \<Rightarrow> string list \<Rightarrow> string option" where
  "denied_web_fetch_domain E host disallowed =
     find (denies_domain (web_fetch_deny_key E host)) disallowed"

definition web_fetch_deny_pre_decision :: "policy_env \<Rightarrow> string \<Rightarrow> permission_state \<Rightarrow> decision option" where
  "web_fetch_deny_pre_decision E url state =
     Option.bind (url_host E url) (\<lambda>h.
       map_option (\<lambda>d. Reject (rejected_text d))
         (denied_web_fetch_domain E h (st_disallowed_web_fetch_domains state)))"

text \<open>A URL that does not parse and one without a host have no host, and neither is decided.\<close>

definition web_fetch_pre_decision ::
    "policy_env \<Rightarrow> (string \<Rightarrow> string) \<Rightarrow> string \<Rightarrow> permission_state \<Rightarrow> domain_matcher option
      \<Rightarrow> (decision \<times> reason) option" where
  "web_fetch_pre_decision E url_path url state matcher =
     (case url_host E url of
        None \<Rightarrow> None
      | Some host \<Rightarrow>
          (case web_fetch_deny_pre_decision E url state of
             Some reject \<Rightarrow> Some (reject, ReSessionDeny)
           | None \<Rightarrow>
               if (case matcher of
                     Some m \<Rightarrow> domain_check E m (Some host) (url_path url) = None | None \<Rightarrow> False)
               then Some (Allow, ReStaticAllowlist)
               else allow_if
                 (List.member (st_allowed_web_fetch_domains state) (normalize_domain E host))
                 ReSessionGrant))"

definition session_grant_pre_decision ::
    "policy_env \<Rightarrow> (string \<Rightarrow> string) \<Rightarrow> access_kind \<Rightarrow> bash_evaluation option \<Rightarrow> permission_state \<Rightarrow> bool
      \<Rightarrow> domain_matcher option \<Rightarrow> string option \<Rightarrow> (decision \<times> reason) option" where
  "session_grant_pre_decision E url_path access evaluation state allow_edits_for_session matcher yolo_pin =
     (case access of
        AcMCPTool name input \<Rightarrow>
          map_option (\<lambda>d. (d, case d of Reject t \<Rightarrow> ReSessionDeny | _ \<Rightarrow> ReSessionGrant))
            (mcp_pre_decision name state False False)
      | AcWebFetch url \<Rightarrow> web_fetch_pre_decision E url_path url state matcher
      | AcEdit p \<Rightarrow> if allow_edits_for_session then Some (Allow, ReSessionGrant) else None
      | AcBash cmd \<Rightarrow>
          Option.bind evaluation (\<lambda>e. bash_grant_pre_decision cmd e state yolo_pin pre_classifier)
      | _ \<Rightarrow> None)"

section \<open>What an answer records\<close>

datatype prompt_outcome =
    AllowOnce
  | AllowAlways
  | AllowEditsForSession
  | AllowAlwaysBashCommand string
  | AllowAlwaysBashGlob string
  | AllowAlwaysDomain string
  | AllowAlwaysMcpTool string
  | AllowAlwaysMcpServer string
  | RejectOnce
  | RejectAlwaysBashCommand string
  | RejectAlwaysMcpTool string
  | RejectAlwaysDomain string
  | PromptCancelled
  | PromptFollowup string
  | PromptError string

fun prompt_outcome_wire :: "prompt_outcome \<Rightarrow> string" where
  "prompt_outcome_wire AllowOnce = ''allow_once''"
| "prompt_outcome_wire AllowAlways = ''allow_always''"
| "prompt_outcome_wire AllowEditsForSession = ''allow_edits_for_session''"
| "prompt_outcome_wire (AllowAlwaysBashCommand s) = ''allow_always_bash''"
| "prompt_outcome_wire (AllowAlwaysBashGlob s) = ''allow_always_bash_glob''"
| "prompt_outcome_wire (AllowAlwaysDomain s) = ''allow_always_domain''"
| "prompt_outcome_wire (AllowAlwaysMcpTool s) = ''allow_always_mcp_tool''"
| "prompt_outcome_wire (AllowAlwaysMcpServer s) = ''allow_always_mcp_server''"
| "prompt_outcome_wire RejectOnce = ''reject_once''"
| "prompt_outcome_wire (RejectAlwaysBashCommand s) = ''reject_always_bash''"
| "prompt_outcome_wire (RejectAlwaysMcpTool s) = ''reject_always_mcp_tool''"
| "prompt_outcome_wire (RejectAlwaysDomain s) = ''reject_always_domain''"
| "prompt_outcome_wire PromptCancelled = ''cancelled''"
| "prompt_outcome_wire (PromptFollowup s) = ''followup''"
| "prompt_outcome_wire (PromptError s) = ''error''"

definition always_allow_scope_persists :: "policy_env \<Rightarrow> bash_command_highlights \<Rightarrow> nat \<Rightarrow> bool" where
  "always_allow_scope_persists E h n \<longleftrightarrow>
     (let words = hl_highlighted_words h in
      if n = 0 \<or> n > length words \<or> n < minimum_always_allow_scope words then False
      else words_join_unambiguously E (take n words) \<or>
        (n = length words \<and> hl_prefix h = [] \<and> hl_suffix h = []))"

definition max_segment_grants :: nat where
  "max_segment_grants = 5"

definition mints_segment_grant :: "policy_env \<Rightarrow> string list \<Rightarrow> bool" where
  "mints_segment_grant E words \<longleftrightarrow>
     words \<noteq> [] \<and> \<not> is_setup_command words \<and> \<not> is_dangerous_command_words words \<and>
     \<not> head_is_exec_vehicle words \<and> words_join_unambiguously E words"

definition bash_grant_segments :: "policy_env \<Rightarrow> string \<Rightarrow> string list" where
  "bash_grant_segments E cmd =
     (case all_commands_from_script (parse_shell E) cmd of
        None \<Rightarrow> []
      | Some segments \<Rightarrow>
          (let grants = map (join '' '') (filter (mints_segment_grant E)
                 (map (\<lambda>c. unwrap_wrappers (pl_words c)) segments))
           in if length grants > max_segment_grants then [] else grants))"

definition allow_command :: "string \<Rightarrow> permission_state \<Rightarrow> permission_state" where
  "allow_command cmd s = s\<lparr>st_allowed_bash_commands := set_insert cmd (st_allowed_bash_commands s)\<rparr>"

definition persist_bash_always_allow ::
    "policy_env \<Rightarrow> permission_state \<Rightarrow> string \<Rightarrow> string \<Rightarrow> permission_state" where
  "persist_bash_always_allow E state cmd pre =
     (case primary_command_from_script (parse_shell E) cmd of
        None \<Rightarrow> state
      | Some h \<Rightarrow>
          (let words = hl_highlighted_words h;
               verified = list_ex (\<lambda>n. words_join_unambiguously E (take n words) \<and>
                   join '' '' (take n words) = pre)
                 [minimum_always_allow_scope words..<length words + 1]
           in if verified then allow_command pre state
              else if hl_prefix h = [] \<and> hl_suffix h = [] \<and> join '' '' words = pre
              then allow_command cmd state
              else state))"

definition bash_glob_covers_script :: "policy_env \<Rightarrow> string \<Rightarrow> string \<Rightarrow> bool" where
  "bash_glob_covers_script E cmd pattern \<longleftrightarrow>
     (if bash_glob_is_catchall E pattern then False
      else case all_commands_from_script (parse_shell E) cmd of
        None \<Rightarrow> bash_pattern_matches_command E pattern cmd
      | Some segments \<Rightarrow>
          list_ex (\<lambda>c. let words = unwrap_wrappers (pl_words c) in
              words \<noteq> [] \<and> \<not> is_setup_command words \<and>
              bash_pattern_matches_command E pattern (join '' '' words)) segments)"

definition always_allow_row_is_effective :: "policy_env \<Rightarrow> string \<Rightarrow> bool" where
  "always_allow_row_is_effective E cmd \<longleftrightarrow>
     (case primary_command_from_script (parse_shell E) cmd of
        None \<Rightarrow> False
      | Some h \<Rightarrow>
          (let words = hl_highlighted_words h; scope = default_always_allow_scope words in
           if \<not> always_allow_scope_persists E h scope then False
           else
             (let scratch = persist_bash_always_allow E default_state cmd (join '' '' (take scope words))
              in case bash_grant_pre_decision cmd (evaluate_bash E cmd scratch True) scratch None
                    pre_classifier of
                   Some (Allow, r) \<Rightarrow> True
                 | _ \<Rightarrow> False)))"

definition allow_mcp_tool :: "string \<Rightarrow> permission_state \<Rightarrow> permission_state" where
  "allow_mcp_tool name s = s\<lparr>st_allowed_mcp_tools := set_insert name (st_allowed_mcp_tools s)\<rparr>"

definition record_bash_outcome ::
    "policy_env \<Rightarrow> permission_state \<Rightarrow> string \<Rightarrow> prompt_outcome \<Rightarrow> permission_state \<times> string option" where
  "record_bash_outcome E state cmd out =
     (case out of
        AllowAlways \<Rightarrow>
          (state\<lparr>st_allowed_bash_commands :=
             set_extend (set_insert cmd (st_allowed_bash_commands state)) (bash_grant_segments E cmd)\<rparr>,
           Some cmd)
      | AllowAlwaysBashCommand pre \<Rightarrow> (persist_bash_always_allow E state cmd pre, Some pre)
      | AllowAlwaysBashGlob pattern \<Rightarrow>
          if bash_glob_covers_script E cmd pattern
          then (state\<lparr>st_allowed_bash_globs := set_insert pattern (st_allowed_bash_globs state)\<rparr>, Some pattern)
          else (state, None)
      | RejectAlwaysBashCommand pre \<Rightarrow>
          (state\<lparr>st_disallowed_bash_commands := set_insert pre (st_disallowed_bash_commands state)\<rparr>, Some pre)
      | _ \<Rightarrow> (state, None))"

definition record_mcp_outcome ::
    "permission_state \<Rightarrow> string \<Rightarrow> prompt_outcome \<Rightarrow> permission_state \<times> string option" where
  "record_mcp_outcome state name out =
     (case out of
        AllowAlways \<Rightarrow> (allow_mcp_tool name state, Some name)
      | AllowAlwaysMcpTool client_name \<Rightarrow> (allow_mcp_tool name state, Some name)
      | AllowAlwaysMcpServer server_prefix \<Rightarrow>
          (case parse_mcp_qualified_name name of
             Some (tid, server, tool) \<Rightarrow>
               if server = server_prefix
               then (state\<lparr>st_allowed_mcp_servers := set_insert server (st_allowed_mcp_servers state)\<rparr>,
                     Some server)
               else (allow_mcp_tool name state, Some name)
           | None \<Rightarrow> (allow_mcp_tool name state, Some name))
      | RejectAlwaysMcpTool client_name \<Rightarrow>
          (state\<lparr>st_disallowed_mcp_tools := set_insert name (st_disallowed_mcp_tools state)\<rparr>, Some name)
      | _ \<Rightarrow> (state, None))"

definition record_web_outcome ::
    "policy_env \<Rightarrow> permission_state \<Rightarrow> string \<Rightarrow> prompt_outcome \<Rightarrow> permission_state \<times> string option" where
  "record_web_outcome E state url out =
     (case out of
        AllowAlwaysDomain client_domain \<Rightarrow>
          (case map_option (normalize_domain E) (url_host E url) of
             None \<Rightarrow> (state, None)
           | Some domain \<Rightarrow>
               (state\<lparr>st_allowed_web_fetch_domains :=
                  set_insert domain (st_allowed_web_fetch_domains state)\<rparr>, Some domain))
      | RejectAlwaysDomain client_domain \<Rightarrow>
          (case web_fetch_deny_key_from_url E url of
             None \<Rightarrow> (state, None)
           | Some domain \<Rightarrow>
               (state\<lparr>st_disallowed_web_fetch_domains :=
                  set_insert domain (st_disallowed_web_fetch_domains state)\<rparr>, Some domain))
      | _ \<Rightarrow> (state, None))"

definition record_prompt_outcome ::
    "policy_env \<Rightarrow> permission_state \<Rightarrow> access_kind \<Rightarrow> prompt_outcome
      \<Rightarrow> permission_state \<times> string option" where
  "record_prompt_outcome E state access out =
     (case access of
        AcBash cmd \<Rightarrow> record_bash_outcome E state cmd out
      | AcMCPTool name input \<Rightarrow> record_mcp_outcome state name out
      | AcWebFetch url \<Rightarrow> record_web_outcome E state url out
      | _ \<Rightarrow> (state, None))"

end
