(* ===== verification/PermStateLaws.thy ===== *)
theory PermStateLaws imports PermState begin

text \<open>
  The store of grants under several sessions: a merge is the least upper bound of two states, no grant
  is lost when sessions persist one after the other, a reset is not undone by an older store, and the
  server grants of an unvalidated store never load.
\<close>

section \<open>The order of grants\<close>

definition grants_le :: "permission_state \<Rightarrow> permission_state \<Rightarrow> bool" where
  "grants_le s t \<longleftrightarrow>
     (st_allow_bash_execute s \<longrightarrow> st_allow_bash_execute t) \<and>
     set (st_allowed_bash_commands s) \<subseteq> set (st_allowed_bash_commands t) \<and>
     set (st_disallowed_bash_commands s) \<subseteq> set (st_disallowed_bash_commands t) \<and>
     set (st_allowed_bash_globs s) \<subseteq> set (st_allowed_bash_globs t) \<and>
     set (st_allowed_web_fetch_domains s) \<subseteq> set (st_allowed_web_fetch_domains t) \<and>
     set (st_allowed_mcp_tools s) \<subseteq> set (st_allowed_mcp_tools t) \<and>
     set (st_allowed_mcp_servers s) \<subseteq> set (st_allowed_mcp_servers t) \<and>
     set (st_disallowed_mcp_tools s) \<subseteq> set (st_disallowed_mcp_tools t) \<and>
     set (st_disallowed_web_fetch_domains s) \<subseteq> set (st_disallowed_web_fetch_domains t)"

lemma grants_le_refl [simp]: "grants_le s s"
  by (simp add: grants_le_def)

lemma grants_le_trans: "grants_le s t \<Longrightarrow> grants_le t u \<Longrightarrow> grants_le s u"
  unfolding grants_le_def by blast

lemma merge_upper: "grants_le s (merge_grants_from s d)" "grants_le d (merge_grants_from s d)"
  by (simp_all add: grants_le_def merge_grants_from_def)

lemma merge_least: "grants_le s u \<Longrightarrow> grants_le d u \<Longrightarrow> grants_le (merge_grants_from s d) u"
  by (simp add: grants_le_def merge_grants_from_def)

lemma merge_version [simp]: "st_validated_version (merge_grants_from s d) = st_validated_version s"
  by (simp add: merge_grants_from_def)

section \<open>One file\<close>

definition validated :: "permission_state \<Rightarrow> bool" where
  "validated s \<longleftrightarrow> validated_mcp_server_grants_version \<le> st_validated_version s"

text \<open>
  The store that is written and read back: writing succeeds, and parsing gives back a validated state
  that was printed (of a version below zero it would not).
\<close>

definition writable :: "'c store_env \<Rightarrow> path \<Rightarrow> bool" where
  "writable S p \<longleftrightarrow> can_write S p \<and>
     (\<forall>s. validated s \<longrightarrow> (\<exists>c. toml_to_string S s = Some c \<and> toml_from_str S c = Some s))"

lemma validated_merge [simp]: "validated (merge_grants_from s d) = validated s"
  by (simp add: validated_def)

lemma validated_drop [simp]: "validated (drop_legacy_servers s)"
  by (simp add: validated_def drop_legacy_servers_def)

lemma load_validated: "fst (try_load_state S p fs) = Some s \<Longrightarrow> validated s"
  by (auto simp: try_load_state_def Let_def validated_def drop_legacy_servers_def
      split: file_content.splits if_splits)

lemma persist_then_load:
  assumes "writable S p" and "validated s"
  shows "try_load_state S p (persist_state_to_path S p s fs) =
    (Some s, persist_state_to_path S p s fs)"
proof -
  from assms obtain c where "toml_to_string S s = Some c" "toml_from_str S c = Some s" "can_write S p"
    by (auto simp: writable_def)
  with assms(2) show ?thesis
    by (simp add: persist_state_to_path_def try_load_state_def validated_def)
qed

definition loads :: "'c store_env \<Rightarrow> path \<Rightarrow> 'c files \<Rightarrow> permission_state option" where
  "loads S p fs = fst (try_load_state S p fs)"

lemma merging_loads:
  assumes "writable S (state_file_path dir cid)" and "validated s"
  shows "loads S (state_file_path dir cid) (persist_state_merging_to_dir S dir s cid fs) =
    Some (case loads S (state_file_path dir cid) fs of Some d \<Rightarrow> merge_grants_from s d | None \<Rightarrow> s)"
  using assms
  by (cases "try_load_state S (state_file_path dir cid) fs")
    (auto simp: persist_state_merging_to_dir_def persist_state_to_dir_def loads_def persist_then_load
      split: option.splits)

text \<open>
  C32. Sessions that persist one after the other lose nothing: after any sequence of sessions has
  persisted its states to one store, what the store gives back has every grant and every denial of
  each of them and of what the store held before, and nothing that none of them had.
\<close>
theorem persisted_grants_survive:
  assumes "writable S (state_file_path dir cid)" and "list_all validated sessions" and "sessions \<noteq> []"
  shows "\<exists>t. loads S (state_file_path dir cid)
      (fold (\<lambda>s. persist_state_merging_to_dir S dir s cid) sessions fs) = Some t \<and> validated t \<and>
    (\<forall>s \<in> set sessions. grants_le s t) \<and>
    (\<forall>d. loads S (state_file_path dir cid) fs = Some d \<longrightarrow> grants_le d t) \<and>
    (\<forall>u. (\<forall>s \<in> set sessions. grants_le s u) \<and>
         (\<forall>d. loads S (state_file_path dir cid) fs = Some d \<longrightarrow> grants_le d u) \<longrightarrow> grants_le t u)"
  using assms(2,3)
proof (induction sessions arbitrary: fs)
  case (Cons s sessions)
  let ?p = "state_file_path dir cid"
  let ?fs = "persist_state_merging_to_dir S dir s cid fs"
  let ?t = "case loads S ?p fs of Some d \<Rightarrow> merge_grants_from s d | None \<Rightarrow> s"
  from Cons.prems have s: "validated s" and rest: "list_all validated sessions" by simp_all
  have here: "loads S ?p ?fs = Some ?t" by (rule merging_loads [OF assms(1) s])
  have t: "validated ?t" "grants_le s ?t" "\<And>d. loads S ?p fs = Some d \<Longrightarrow> grants_le d ?t"
    "\<And>u. grants_le s u \<Longrightarrow> (\<And>d. loads S ?p fs = Some d \<Longrightarrow> grants_le d u) \<Longrightarrow> grants_le ?t u"
    using s merge_upper merge_least by (auto split: option.splits)
  show ?case
  proof (cases "sessions = []")
    case True
    with here t show ?thesis by (intro exI [of _ ?t]) simp
  next
    case False
    from Cons.IH [OF rest False, of ?fs] here obtain t' where
      "loads S ?p (fold (\<lambda>s. persist_state_merging_to_dir S dir s cid) sessions ?fs) = Some t'" "validated t'"
      "\<forall>s \<in> set sessions. grants_le s t'" "grants_le ?t t'"
      "\<forall>u. (\<forall>s \<in> set sessions. grants_le s u) \<and> grants_le ?t u \<longrightarrow> grants_le t' u" by auto
    with t show ?thesis
      by (intro exI [of _ t']) (auto intro: grants_le_trans)
  qed
qed simp

definition plain_store :: "permission_state store_env" where
  "plain_store =
     \<lparr>toml_from_str = Some, toml_to_string = Some, sessions_cwd_dir = (\<lambda>cwd. ''/s'' @ cwd),
      git_root = (\<lambda>cwd. Some ''/repo''), can_write = (\<lambda>p. True)\<rparr>"

lemma plain_store_writable: "writable plain_store p"
  by (simp add: writable_def plain_store_def)

definition allowing :: "string \<Rightarrow> permission_state" where
  "allowing cmd = default_state\<lparr>st_allowed_bash_commands := [cmd]\<rparr>"

theorem persisted_grants_survive_witness:
  "\<exists>t. loads plain_store (state_file_path ''/s/repo'' None)
      (fold (\<lambda>s. persist_state_merging_to_dir plain_store ''/s/repo'' s None)
        [allowing ''make'', allowing ''ls''] (\<lambda>p. Missing)) = Some t \<and>
    grants_le (allowing ''make'') t \<and> grants_le (allowing ''ls'') t"
proof -
  have "list_all validated [allowing ''make'', allowing ''ls'']"
    by (simp add: validated_def allowing_def default_state_def)
  from persisted_grants_survive [OF plain_store_writable this] show ?thesis by fastforce
qed

section \<open>Resets and old stores\<close>

lemma state_path_inj: "state_file_path dir (Some a) = state_file_path dir (Some b) \<longleftrightarrow>
    sanitize_client_id a = sanitize_client_id b"
  by (simp add: state_file_path_def path_join_def is_absolute_def starts_with_def)

text \<open>
  A reset is final for its client: after a client replaced the store of a repository, a load for
  the same client from any directory of the repository gives exactly that state, whatever an older
  store of one of its directories still holds.
\<close>
theorem reset_is_final:
  assumes "writable S (state_file_path (sd_dir (resolve_store_dirs S cwd)) client)"
    and "validated state"
    and "permission_scope_root S cwd' = permission_scope_root S cwd"
  shows "fst (load_state_from_disk S cwd' client (replace_state_on_disk S cwd state client fs)) = state"
proof -
  let ?dir = "sd_dir (resolve_store_dirs S cwd)"
  let ?p = "state_file_path ?dir client"
  let ?fs = "replace_state_on_disk S cwd state client fs"
  have dir: "sd_dir (resolve_store_dirs S cwd') = ?dir"
    using assms(3) by (simp add: resolve_store_dirs_def Let_def)
  have load: "try_load_state S ?p ?fs = (Some state, ?fs)"
    using persist_then_load [OF assms(1,2)]
    by (simp add: replace_state_on_disk_def persist_state_to_dir_def)
  then have "state_dir_has_store ?dir client ?fs"
    by (cases client) (auto simp: state_dir_has_store_def file_present_def try_load_state_def)
  moreover from load have "load_state_from_dir S ?dir client ?fs = (state, ?fs)"
    by (cases client) (simp_all add: load_state_from_dir_def load_shared_def unwrap_or_def)
  ultimately show ?thesis
    by (simp add: load_state_from_disk_def load_state_with_fallback_def dir split: option.splits)
qed

definition old_store :: "permission_state files" where
  "old_store = (\<lambda>p. if p = state_file_path ''/s/repo/sub'' None then Holds (allowing ''make'') else Missing)"

theorem reset_is_final_witness:
  "fst (load_state_from_disk plain_store ''/repo/sub'' None old_store) = allowing ''make'' \<and>
   fst (load_state_from_disk plain_store ''/repo/sub'' None
     (replace_state_on_disk plain_store ''/repo'' default_state None old_store)) = default_state"
proof
  show "fst (load_state_from_disk plain_store ''/repo/sub'' None old_store) = allowing ''make''"
    by code_simp
  have "validated default_state" by (simp add: validated_def default_state_def)
  moreover have "permission_scope_root plain_store ''/repo/sub'' = permission_scope_root plain_store ''/repo''"
    by (simp add: permission_scope_root_def plain_store_def)
  ultimately show "fst (load_state_from_disk plain_store ''/repo/sub'' None
     (replace_state_on_disk plain_store ''/repo'' default_state None old_store)) = default_state"
    by (rule reset_is_final [OF plain_store_writable])
qed

text \<open>
  Two gaps of the store: a reset by one client does not end the older store of a directory for a
  client of another name, although any write at the root is said to; and two clients whose names
  differ only in characters that are replaced share one store, so each has the grants of the other.
\<close>
theorem store_gaps:
  "fst (load_state_from_disk plain_store ''/repo/sub'' (Some ''web'')
     (replace_state_on_disk plain_store ''/repo/sub'' default_state (Some ''tui'') old_store)) =
     allowing ''make'' \<and>
   fst (load_state_from_disk plain_store ''/repo'' (Some ''a_b'')
     (persist_state plain_store ''/repo'' (allowing ''make'') (Some ''a.b'') (\<lambda>p. Missing))) =
     allowing ''make''"
  by (intro conjI; code_simp)

end
