(* ===== verification/GrantLaws.thy ===== *)
theory GrantLaws imports BashDecisions PermStateLaws PolicyAllow begin

text \<open>
  What a remembered answer can and cannot do: a denial wins over every grant, an allow covers every
  command of a script, an answer records only what the prompt was about, and the script it was given
  for replays.
\<close>

section \<open>Denials\<close>

definition denies :: "permission_state \<Rightarrow> string \<Rightarrow> bool" where
  "denies state text \<longleftrightarrow> (\<exists>d \<in> set (st_disallowed_bash_commands state). matches_command_prefix text d)"

text \<open>The command that is judged, without its wrappers.\<close>

definition judged :: "plain_command \<Rightarrow> string list" where
  "judged c = unwrap_wrappers (pl_words c)"

definition bash_denied :: "policy_env \<Rightarrow> string \<Rightarrow> permission_state \<Rightarrow> bool" where
  "bash_denied E cmd state \<longleftrightarrow>
     (case parse_shell E cmd of
        None \<Rightarrow> denies state cmd
      | Some tree \<Rightarrow>
          (case try_parse_word_only_commands_sequence tree cmd of
             None \<Rightarrow> denies state cmd \<or>
               (\<exists>ws \<in> set (projections (analyze tree cmd)). denies state (join '' '' (unwrap_wrappers ws)))
           | Some cs \<Rightarrow>
               (\<exists>c \<in> set cs. \<not> is_setup_command (judged c) \<and> denies state (join '' '' (judged c)))))"

lemma find_denied: "find (matches_command_prefix s) (st_disallowed_bash_commands state) = None \<longleftrightarrow> \<not> denies state s"
  by (auto simp: find_None_iff denies_def)

lemma raw_deny_None: "raw_deny_rejection s state = None \<longleftrightarrow> \<not> denies state s"
  by (simp add: raw_deny_rejection_def find_denied)

lemma raw_deny_reject: "raw_deny_rejection s state = Some r \<Longrightarrow> \<exists>t. r = SegReject t"
  by (auto simp: raw_deny_rejection_def)

lemma judge_segments_denied:
  "isl (judge_segments E state honor cs a) \<longleftrightarrow>
     (\<exists>c \<in> set cs. \<not> is_setup_command (judged c) \<and> denies state (join '' '' (judged c)))"
proof (induction cs arbitrary: a)
  case (Cons c cs)
  have unfold: "judge_segments E state honor (c # cs) a =
      (let a = note_segment (pl_words c) a in
       if is_setup_command (judged c) then judge_segments E state honor cs a
       else case find (matches_command_prefix (join '' '' (judged c))) (st_disallowed_bash_commands state) of
         Some d \<Rightarrow> Inl (rejected_text d, a)
       | None \<Rightarrow> judge_segments E state honor cs (judge_segment E state honor (judged c) a))"
    by (simp add: judged_def Let_def split: option.split)
  show ?case
  proof (cases "is_setup_command (judged c)")
    case True
    then show ?thesis by (simp add: unfold Cons.IH del: judge_segments.simps)
  next
    case False
    then show ?thesis
      using find_denied [of "join '' '' (judged c)" state]
      by (cases "find (matches_command_prefix (join '' '' (judged c))) (st_disallowed_bash_commands state)")
        (auto simp: unfold Cons.IH Let_def simp del: judge_segments.simps)
  qed
qed simp

lemma evaluate_segments_cases:
  obtains (rejected) reason a where
    "judge_segments E state honor cs (segment_acc_start A) = Inl (reason, a)"
    "be_segments (evaluate_segments E cmd state honor cs A rw ps cw) = SegReject reason"
  | (judged) a where "judge_segments E state honor cs (segment_acc_start A) = Inr a"
    "be_segments (evaluate_segments E cmd state honor cs A rw ps cw) =
       (if sa_needs_prompt a = [] then AutoAllow (sa_via_session_grant a) else NeedsPrompts (sa_needs_prompt a))"
    "be_assessment (evaluate_segments E cmd state honor cs A rw ps cw) = sa_assessment a"
    "be_all_segments_granted (evaluate_segments E cmd state honor cs A rw ps cw) =
       sa_all_segments_granted a"
proof (cases "judge_segments E state honor cs (segment_acc_start A)")
  case (Inl x)
  then show thesis using rejected by (cases x) (auto simp: evaluate_segments_def Let_def)
next
  case (Inr a)
  then show thesis by (intro judged [of a]) (simp_all add: evaluate_segments_def Let_def)
qed

lemma evaluate_segments_rejects:
  "(\<exists>t. be_segments (evaluate_segments E cmd state honor cs A rw ps cw) = SegReject t) \<longleftrightarrow>
     (\<exists>c \<in> set cs. \<not> is_setup_command (judged c) \<and> denies state (join '' '' (judged c)))"
  unfolding judge_segments_denied [of E state honor cs "segment_acc_start A", symmetric]
  by (cases rule: evaluate_segments_cases [of E state honor cs A cmd rw ps cw]) auto

lemma recovered_rejects:
  "(\<exists>t. recovered_rejection cmd projs state = SegReject t) \<longleftrightarrow>
     denies state cmd \<or> (\<exists>ws \<in> set projs. denies state (join '' '' (unwrap_wrappers ws)))"
proof (cases "raw_deny_rejection cmd state")
  case (Some r)
  with raw_deny_reject [OF Some] raw_deny_None [of cmd state] show ?thesis
    by (auto simp: recovered_rejection_def or_else_def unwrap_or_def)
next
  case none: None
  let ?f = "\<lambda>ws. raw_deny_rejection (join '' '' (unwrap_wrappers ws)) state"
  show ?thesis
  proof (cases "find (\<lambda>ws. ?f ws \<noteq> None) projs")
    case None
    with none have "recovered_rejection cmd projs state = Unparseable"
      by (simp add: recovered_rejection_def or_else_def unwrap_or_def)
    with none None show ?thesis by (auto simp: find_None_iff raw_deny_None)
  next
    case (Some ws)
    then have "ws \<in> set projs" "?f ws \<noteq> None" by (auto simp: find_Some_iff)
    moreover from this obtain t where "?f ws = Some (SegReject t)" using raw_deny_reject by blast
    moreover from this none Some have "recovered_rejection cmd projs state = SegReject t"
      by (simp add: recovered_rejection_def or_else_def unwrap_or_def)
    moreover have "denies state (join '' '' (unwrap_wrappers ws))"
      using \<open>?f ws \<noteq> None\<close> by (simp add: raw_deny_None)
    ultimately show ?thesis by blast
  qed
qed

lemma evaluate_bash_rejects:
  "(\<exists>t. be_segments (evaluate_bash E cmd state honor) = SegReject t) \<longleftrightarrow> bash_denied E cmd state"
proof (cases "parse_shell E cmd")
  case None
  have "(\<exists>t. unwrap_or Unparseable (raw_deny_rejection cmd state) = SegReject t) \<longleftrightarrow> denies state cmd"
    using raw_deny_None [of cmd state] raw_deny_reject [of cmd state]
    by (cases "raw_deny_rejection cmd state") (auto simp: unwrap_or_def)
  with None show ?thesis by (simp add: evaluate_bash_def evaluate_unparsed_def bash_denied_def)
next
  case (Some tree)
  show ?thesis
  proof (cases "try_parse_word_only_commands_sequence tree cmd")
    case None
    with Some show ?thesis
      by (simp add: evaluate_bash_def evaluate_recovered_def bash_denied_def Let_def recovered_rejects)
  next
    case (Some cs)
    with \<open>parse_shell E cmd = Some tree\<close> show ?thesis
      by (simp add: evaluate_bash_def bash_denied_def Let_def evaluate_segments_rejects)
  qed
qed

lemma pre_decision_rejects:
  "(\<exists>t. bash_grant_pre_decision cmd e state pin opts = Some (Reject t, ReSessionDeny)) \<longleftrightarrow>
     (\<exists>t. be_segments e = SegReject t)"
  by (cases "be_segments e") (auto simp: bash_grant_pre_decision_def allow_if_def split: if_splits)

text \<open>What counts as remembered denial of an access.\<close>

definition subdomain_of :: "string \<Rightarrow> string \<Rightarrow> bool" where
  "subdomain_of host domain \<longleftrightarrow> host = domain \<or> (\<exists>sub. sub \<noteq> [] \<and> host = sub @ CHR ''.'' # domain)"

fun access_denied :: "policy_env \<Rightarrow> access_kind \<Rightarrow> permission_state \<Rightarrow> bool" where
  "access_denied E (AcBash cmd) state = bash_denied E cmd state"
| "access_denied E (AcMCPTool name input) state = List.member (st_disallowed_mcp_tools state) name"
| "access_denied E (AcWebFetch url) state =
     (\<exists>host \<in> set_option (url_host E url). \<exists>d \<in> set (st_disallowed_web_fetch_domains state).
        d \<noteq> [] \<and> subdomain_of (web_fetch_deny_key E host) d)"
| "access_denied E _ state = False"

lemma denies_domain_iff: "denies_domain host d \<longleftrightarrow> d \<noteq> [] \<and> subdomain_of host d"
proof -
  have "(length d + 1 < length host \<and> ends_with host d \<and> get_at host (length host - length d - 1) = Some (CHR ''.'')) \<longleftrightarrow>
      (\<exists>sub. sub \<noteq> [] \<and> host = sub @ CHR ''.'' # d)" (is "?l \<longleftrightarrow> ?r")
  proof
    assume ?l
    then obtain p where p: "host = p @ d" "1 < length p" by (auto simp: ends_with_iff)
    then obtain sub c where sub: "p = sub @ [c]" "sub \<noteq> []" by (cases p rule: rev_cases) auto
    with p \<open>?l\<close> have "c = CHR ''.''" by (simp add: get_at_Some nth_append)
    with p(1) sub show ?r by auto
  next
    assume ?r
    then show ?l by (auto simp: ends_with_iff get_at_Some nth_append)
  qed
  then show ?thesis by (auto simp: denies_domain_def subdomain_of_def)
qed

text \<open>The evaluation that goes with a request: only a Bash request has one.\<close>

definition evaluation_of ::
    "policy_env \<Rightarrow> (string \<Rightarrow> bool option) \<Rightarrow> (path \<Rightarrow> (string \<times> string) list option) \<Rightarrow> path
      \<Rightarrow> access_kind \<Rightarrow> permission_state \<Rightarrow> bash_evaluation option" where
  "evaluation_of E parse_bool entries cwd access state =
     (case access of
        AcBash cmd \<Rightarrow> Some (evaluate_bash_with_ambient E parse_bool entries cmd state cwd)
      | _ \<Rightarrow> None)"

lemma with_ambient_frame [simp]:
  "be_segments (evaluate_bash_with_ambient E pb en cmd state cwd) = be_segments (evaluate_bash E cmd state True)"
  "be_exact_grant (evaluate_bash_with_ambient E pb en cmd state cwd) =
     be_exact_grant (evaluate_bash E cmd state True)"
  "be_all_segments_granted (evaluate_bash_with_ambient E pb en cmd state cwd) =
     be_all_segments_granted (evaluate_bash E cmd state True)"
  by (simp_all add: evaluate_bash_with_ambient_def Let_def split: option.split)

lemma ambient_grows:
  "be_assessment (evaluate_bash E cmd state True) \<subseteq>
     be_assessment (evaluate_bash_with_ambient E pb en cmd state cwd)"
  by (auto simp: evaluate_bash_with_ambient_def Let_def split: option.split)

lemma web_denied:
  "(\<exists>t. web_fetch_pre_decision E up url state matcher = Some (Reject t, ReSessionDeny)) \<longleftrightarrow>
     access_denied E (AcWebFetch url) state"
proof (cases "url_host E url")
  case (Some host)
  have "denied_web_fetch_domain E host (st_disallowed_web_fetch_domains state) \<noteq> None \<longleftrightarrow>
      access_denied E (AcWebFetch url) state"
    by (auto simp: Some denied_web_fetch_domain_def find_None_iff denies_domain_iff)
  with Some show ?thesis
    by (cases "denied_web_fetch_domain E host (st_disallowed_web_fetch_domains state)")
      (auto simp: web_fetch_pre_decision_def web_fetch_deny_pre_decision_def allow_if_def
        split: option.splits if_splits)
qed (simp add: web_fetch_pre_decision_def)

text \<open>
  C11. A remembered denial wins over every grant: a request is rejected from memory if and only if a
  denial matches what is judged of it, whatever grants, blanket approval, static allowlist and options
  there are. Of a script that is a sequence of plain commands each command is judged as it stands
  after the wrappers that are peeled (\<open>unwrap_wrappers\<close>), except that a command that only sets up others
  (\<open>is_setup_command\<close>) is passed over even if it was denied; of any other script the text as a whole
  and, if it parses, each command that can be read off it; of a tool its name; of a fetch the host and
  its parent domains. The prefix \<^verbatim>\<open>command\<close> is not peeled: \<open>prefix_hides_denied_command\<close> below.
\<close>
theorem remembered_denial_wins:
  "(\<exists>t. session_grant_pre_decision E url_path access (evaluation_of E parse_bool entries cwd access state)
      state allow_edits matcher yolo_pin = Some (Reject t, ReSessionDeny)) \<longleftrightarrow>
   access_denied E access state"
proof (cases access)
  case (AcBash cmd)
  then show ?thesis
    using pre_decision_rejects [of cmd _ state yolo_pin pre_classifier] evaluate_bash_rejects [of E cmd state True]
    by (simp add: session_grant_pre_decision_def evaluation_of_def)
next
  case (AcWebFetch url)
  then show ?thesis
    using web_denied [of E url_path url state matcher] by (simp add: session_grant_pre_decision_def)
next
  case (AcMCPTool name input)
  then show ?thesis
    by (auto simp: session_grant_pre_decision_def mcp_pre_decision_def)
qed (simp_all add: session_grant_pre_decision_def)

section \<open>What an allow covers\<close>

definition segment_passes :: "policy_env \<Rightarrow> permission_state \<Rightarrow> string list \<Rightarrow> bool" where
  "segment_passes E state words \<longleftrightarrow>
     \<not> is_dangerous_command_words words \<and>
     (\<not> special_exec_surface words \<or> List.member (st_allowed_bash_commands state) (join '' '' words)) \<and>
     (segment_grant E state words \<or> matched_safe words)"

lemma judge_segment_frame:
  "sa_all_segments_granted (judge_segment E state honor words a) \<longleftrightarrow>
     sa_all_segments_granted a \<and> segment_grant E state words"
  "sa_assessment a \<subseteq> sa_assessment (judge_segment E state honor words a)"
  "is_dangerous_command_words words \<Longrightarrow>
     DangerousCommand \<in> sa_assessment (judge_segment E state honor words a)"
  by (auto simp: judge_segment_def Let_def)

lemma judge_segment_silent:
  "sa_needs_prompt (judge_segment E state honor words a) = [] \<Longrightarrow>
     sa_needs_prompt a = [] \<and> segment_passes E state words"
  by (auto simp: judge_segment_def segment_passes_def Let_def split: if_splits)

lemma note_segment_frame [simp]:
  "sa_needs_prompt (note_segment raw a) = sa_needs_prompt a"
  "sa_all_segments_granted (note_segment raw a) = sa_all_segments_granted a"
  by (simp_all add: note_segment_def Let_def)

lemma note_segment_grows: "sa_assessment a \<subseteq> sa_assessment (note_segment raw a)"
  by (auto simp: note_segment_def Let_def)

lemma judge_segments_spec:
  assumes "judge_segments E state honor cs a = Inr b"
  shows "sa_assessment a \<subseteq> sa_assessment b"
    and "sa_needs_prompt b = [] \<Longrightarrow> sa_needs_prompt a = [] \<and>
      (\<forall>c \<in> set cs. is_setup_command (judged c) \<or> segment_passes E state (judged c))"
    and "sa_all_segments_granted b \<Longrightarrow> sa_all_segments_granted a \<and>
      (\<forall>c \<in> set cs. is_setup_command (judged c) \<or> segment_grant E state (judged c))"
    and "c \<in> set cs \<Longrightarrow> \<not> is_setup_command (judged c) \<Longrightarrow> is_dangerous_command_words (judged c) \<Longrightarrow>
      DangerousCommand \<in> sa_assessment b"
  using assms
proof (atomize (full), induction cs arbitrary: a)
  case (Cons c' cs)
  let ?a = "note_segment (pl_words c') a"
  show ?case
  proof (cases "is_setup_command (judged c')")
    case True
    with Cons.prems have "judge_segments E state honor cs ?a = Inr b" by (simp add: judged_def Let_def)
    from Cons.IH [OF this] note_segment_grows [of a "pl_words c'"] True show ?thesis
      by (simp del: judge_segments.simps) blast
  next
    case False
    let ?b = "judge_segment E state honor (judged c') ?a"
    have step: "judge_segments E state honor cs ?b = Inr b"
      using Cons.prems False by (simp add: judged_def Let_def split: option.splits)
    from note_segment_grows [of a "pl_words c'"] judge_segment_frame(2) [of ?a]
    have grows: "sa_assessment a \<subseteq> sa_assessment ?b" by blast
    with Cons.IH [OF step] judge_segment_frame(1) [of E state honor "judged c'" ?a]
      judge_segment_frame(3) [of "judged c'" E state honor ?a]
      judge_segment_silent [of E state honor "judged c'" ?a] False show ?thesis
      by (simp del: judge_segments.simps) blast
  qed
qed simp

lemma evaluate_bash_segments:
  assumes "parse_shell E cmd = Some tree" and "try_parse_word_only_commands_sequence tree cmd = Some cs"
  shows "\<exists>A rw ps cw. evaluate_bash E cmd state honor = evaluate_segments E cmd state honor cs A rw ps cw"
  using assms by (auto simp: evaluate_bash_def Let_def)

lemma evaluate_bash_judged:
  assumes "parse_shell E cmd = Some tree" and "try_parse_word_only_commands_sequence tree cmd = Some cs"
    and "\<nexists>t. be_segments (evaluate_bash E cmd state True) = SegReject t"
  obtains a :: segment_acc where
    "be_segments (evaluate_bash E cmd state True) =
       (if sa_needs_prompt a = [] then AutoAllow (sa_via_session_grant a) else NeedsPrompts (sa_needs_prompt a))"
    "sa_needs_prompt a = [] \<Longrightarrow>
       \<forall>c \<in> set cs. is_setup_command (judged c) \<or> segment_passes E state (judged c)"
    "be_all_segments_granted (evaluate_bash E cmd state True) \<Longrightarrow>
       \<forall>c \<in> set cs. is_setup_command (judged c) \<or> segment_grant E state (judged c)"
    "\<And>c. c \<in> set cs \<Longrightarrow> \<not> is_setup_command (judged c) \<Longrightarrow> is_dangerous_command_words (judged c) \<Longrightarrow>
       DangerousCommand \<in> be_assessment (evaluate_bash E cmd state True)"
proof -
  obtain A rw ps cw where e: "evaluate_bash E cmd state True = evaluate_segments E cmd state True cs A rw ps cw"
    using evaluate_bash_segments [OF assms(1,2)] by blast
  show thesis
  proof (cases rule: evaluate_segments_cases [of E state True cs A cmd rw ps cw])
    case (rejected reason a)
    with assms(3) e show ?thesis by simp
  next
    case (judged a)
    with e judge_segments_spec [OF judged(1)] show ?thesis by (intro that [of a]) simp_all
  qed
qed

lemma floor_of_ambient:
  "constrains_broad_grant (be_assessment (evaluate_bash E cmd state True)) \<Longrightarrow>
   constrains_broad_grant (be_assessment (evaluate_bash_with_ambient E pb en cmd state cwd))"
  using ambient_grows [of E cmd state pb en cwd] by (auto simp: constrains_broad_grant_iff)

lemma allowed_member_exact:
  assumes "List.member (st_allowed_bash_commands state) cmd"
  shows "be_exact_grant (evaluate_bash E cmd state honor)"
proof (cases "parse_shell E cmd")
  case None
  with assms show ?thesis by (simp add: evaluate_bash_def evaluate_unparsed_def)
next
  case (Some tree)
  with assms show ?thesis
    by (cases "try_parse_word_only_commands_sequence tree cmd")
      (auto simp: evaluate_bash_def evaluate_recovered_def evaluate_segments_def whole_script_grant_def
        Let_def split: sum.split)
qed

text \<open>
  C10. A grant covers every command: when a request is allowed from memory and the script is not granted
  as a whole, then no finding constrains it, and either the blanket approval of Bash holds, nothing
  pins it, and (where the decision is conservative) no command is dangerous, or every command of the
  script, set-up aside, is on a safe list or has a grant of its own that fits it, is not dangerous,
  and uses no special flag unless it is granted to the letter; without the safe lists every command
  has a grant.
\<close>
theorem grant_covers_every_command:
  assumes "bash_grant_pre_decision cmd (evaluate_bash_with_ambient E parse_bool entries cmd state cwd)
      state yolo_pin opts = Some (Allow, r)"
    and "parse_shell E cmd = Some tree" and "try_parse_word_only_commands_sequence tree cmd = Some cs"
    and "\<not> be_exact_grant (evaluate_bash E cmd state True)"
  shows "\<not> constrains_broad_grant (be_assessment (evaluate_bash E cmd state True)) \<and>
    ((go_allow_blanket opts \<and> st_allow_bash_execute state \<and> yolo_pin = None \<and>
      (go_conservative_blanket opts \<longrightarrow>
        (\<forall>c \<in> set cs. is_setup_command (judged c) \<or> \<not> is_dangerous_command_words (judged c)))) \<or>
     ((\<forall>c \<in> set cs. is_setup_command (judged c) \<or> segment_passes E state (judged c)) \<and>
      (go_honor_safe_lists opts \<or>
        (\<forall>c \<in> set cs. is_setup_command (judged c) \<or> segment_grant E state (judged c)))))"
proof -
  let ?e = "evaluate_bash_with_ambient E parse_bool entries cmd state cwd"
  have seg: "be_segments ?e = be_segments (evaluate_bash E cmd state True)" by simp
  with assms(1) have "\<nexists>t. be_segments (evaluate_bash E cmd state True) = SegReject t"
    by (auto simp: bash_grant_pre_decision_def)
  then show ?thesis
  proof (rule evaluate_bash_judged [OF assms(2,3)])
    fix a :: segment_acc
    assume "be_segments (evaluate_bash E cmd state True) =
        (if sa_needs_prompt a = [] then AutoAllow (sa_via_session_grant a) else NeedsPrompts (sa_needs_prompt a))"
    then have a: "be_segments ?e =
        (if sa_needs_prompt a = [] then AutoAllow (sa_via_session_grant a) else NeedsPrompts (sa_needs_prompt a))"
      using seg by simp
    assume passes: "sa_needs_prompt a = [] \<Longrightarrow>
        \<forall>c \<in> set cs. is_setup_command (judged c) \<or> segment_passes E state (judged c)"
    assume granted: "be_all_segments_granted (evaluate_bash E cmd state True) \<Longrightarrow>
        \<forall>c \<in> set cs. is_setup_command (judged c) \<or> segment_grant E state (judged c)"
    assume dangerous: "\<And>c. c \<in> set cs \<Longrightarrow> \<not> is_setup_command (judged c) \<Longrightarrow>
        is_dangerous_command_words (judged c) \<Longrightarrow>
        DangerousCommand \<in> be_assessment (evaluate_bash E cmd state True)"
    from assms(1,4) a have floor: "\<not> constrains_broad_grant (be_assessment ?e)"
      by (auto simp: bash_grant_pre_decision_def bash_request_floor_requires_prompt_def split: if_splits)
    show ?thesis
    proof (cases "sa_needs_prompt a = []")
      case True
      with assms(1) a floor have "go_honor_safe_lists opts \<or> be_all_segments_granted ?e"
        by (auto simp: bash_grant_pre_decision_def split: if_splits)
      with floor floor_of_ambient passes [OF True] granted show ?thesis by auto
    next
      case False
      from assms(4) allowed_member_exact have "\<not> List.member (st_allowed_bash_commands state) cmd" by blast
      with assms(1,4) a floor False have "go_allow_blanket opts" "st_allow_bash_execute state" "yolo_pin = None"
        "go_conservative_blanket opts \<longrightarrow> DangerousCommand \<notin> be_assessment ?e"
        by (auto simp: bash_grant_pre_decision_def bash_request_floor_requires_prompt_def allow_if_def
            persisted_bash_auto_allows_def split: if_splits)
      with floor floor_of_ambient dangerous ambient_grows show ?thesis by blast
    qed
  qed
qed

section \<open>An approved script replays\<close>

lemma exact_grant_allows:
  assumes "be_exact_grant e" and "\<nexists>t. be_segments e = SegReject t"
    and "List.member (st_allowed_bash_commands state) cmd"
  shows "\<exists>r. bash_grant_pre_decision cmd e state pin pre_classifier = Some (Allow, r)"
  using assms
  by (cases "be_segments e")
    (auto simp: bash_grant_pre_decision_def bash_request_floor_requires_prompt_def pre_classifier_def
      allow_if_def persisted_bash_auto_allows_def)

lemma denied_cong:
  "st_disallowed_bash_commands s = st_disallowed_bash_commands t \<Longrightarrow> bash_denied E cmd s = bash_denied E cmd t"
  by (simp add: bash_denied_def denies_def split: option.split)

text \<open>
  An approval is kept: after the user answered always to a script that is not denied, the same
  script is allowed from memory, whatever it contains and whatever its repository's configuration
  says, until a denial covers it.
\<close>
theorem always_allow_replays:
  assumes "\<not> bash_denied E cmd state" and "state' = fst (record_prompt_outcome E state (AcBash cmd) AllowAlways)"
  shows "\<exists>r. session_grant_pre_decision E url_path (AcBash cmd)
      (evaluation_of E parse_bool entries cwd (AcBash cmd) state') state' edits matcher pin = Some (Allow, r)"
proof -
  have "List.member (st_allowed_bash_commands state') cmd"
    "st_disallowed_bash_commands state' = st_disallowed_bash_commands state"
    by (simp_all add: assms(2) record_prompt_outcome_def record_bash_outcome_def)
  with assms(1) denied_cong [of state' state E cmd] allowed_member_exact evaluate_bash_rejects [of E cmd state' True]
    exact_grant_allows [of "evaluate_bash_with_ambient E parse_bool entries cmd state' cwd" state' cmd pin]
  show ?thesis by (simp add: session_grant_pre_decision_def evaluation_of_def)
qed

section \<open>What an answer records\<close>

text \<open>The command grants that an answer to the prompt of a script may record.\<close>

definition bash_scope :: "policy_env \<Rightarrow> string \<Rightarrow> string \<Rightarrow> bool" where
  "bash_scope E cmd g \<longleftrightarrow>
     g = cmd \<or> g \<in> set (bash_grant_segments E cmd) \<or>
     (\<exists>h n. primary_command_from_script (parse_shell E) cmd = Some h \<and>
        minimum_always_allow_scope (hl_highlighted_words h) \<le> n \<and> n \<le> length (hl_highlighted_words h) \<and>
        words_join_unambiguously E (take n (hl_highlighted_words h)) \<and>
        g = join '' '' (take n (hl_highlighted_words h)))"

lemma persist_scope:
  "persist_bash_always_allow E s cmd pre = s \<or>
     (\<exists>g. bash_scope E cmd g \<and> persist_bash_always_allow E s cmd pre = allow_command g s)"
proof (cases "primary_command_from_script (parse_shell E) cmd")
  case (Some h)
  let ?words = "hl_highlighted_words h"
  let ?verified = "list_ex (\<lambda>n. words_join_unambiguously E (take n ?words) \<and> join '' '' (take n ?words) = pre)
      [minimum_always_allow_scope ?words..<length ?words + 1]"
  have "bash_scope E cmd pre" if ?verified
    using that Some by (fastforce simp: list_ex_iff bash_scope_def)
  moreover have "bash_scope E cmd cmd" by (simp add: bash_scope_def)
  moreover have "persist_bash_always_allow E s cmd pre \<in> {s, allow_command cmd s} \<or>
      ?verified \<and> persist_bash_always_allow E s cmd pre = allow_command pre s"
    by (simp add: persist_bash_always_allow_def Some Let_def)
  ultimately show ?thesis by blast
qed (simp add: persist_bash_always_allow_def)

text \<open>
  C27. An answer records only what the prompt was about: whatever scope the client sends back, a new
  command grant is the script itself, one of its own commands or a beginning of its first command
  that is long enough and cannot be read otherwise; a new pattern is no catch-all and matches a
  command of the script; a new tool is the one that asked, a new server is that of the tool, a new
  domain is that of the URL; nothing that was remembered is lost and no blanket approval appears.
\<close>
theorem answers_grant_only_what_was_asked:
  assumes "s' = fst (record_prompt_outcome E s access out)"
  shows "grants_le s s' \<and> st_allow_bash_execute s' = st_allow_bash_execute s \<and>
    (\<forall>g \<in> set (st_allowed_bash_commands s') - set (st_allowed_bash_commands s).
       \<exists>cmd. access = AcBash cmd \<and> bash_scope E cmd g) \<and>
    (\<forall>g \<in> set (st_allowed_bash_globs s') - set (st_allowed_bash_globs s).
       \<exists>cmd. access = AcBash cmd \<and> \<not> bash_glob_is_catchall E g \<and> bash_glob_covers_script E cmd g) \<and>
    (\<forall>name \<in> set (st_allowed_mcp_tools s') - set (st_allowed_mcp_tools s). \<exists>input. access = AcMCPTool name input) \<and>
    (\<forall>server \<in> set (st_allowed_mcp_servers s') - set (st_allowed_mcp_servers s).
       \<exists>name input tool. access = AcMCPTool name input \<and> parse_mcp_tool_name name = Some (server, tool)) \<and>
    (\<forall>d \<in> set (st_allowed_web_fetch_domains s') - set (st_allowed_web_fetch_domains s).
       \<exists>url host. access = AcWebFetch url \<and> url_host E url = Some host \<and> d = normalize_domain E host)"
proof (cases access)
  case (AcBash cmd)
  then have s': "s' = fst (record_bash_outcome E s cmd out)" by (simp add: assms record_prompt_outcome_def)
  show ?thesis
  proof (cases out)
    case AllowAlways
    then show ?thesis
      by (auto simp: AcBash s' record_bash_outcome_def grants_le_def bash_scope_def)
  next
    case (AllowAlwaysBashCommand pre)
    then have "s' = persist_bash_always_allow E s cmd pre" by (simp add: s' record_bash_outcome_def)
    with persist_scope [of E s cmd pre] show ?thesis
      by (auto simp: AcBash allow_command_def grants_le_def)
  next
    case (AllowAlwaysBashGlob pattern)
    have "bash_glob_covers_script E cmd pattern \<Longrightarrow> \<not> bash_glob_is_catchall E pattern"
      by (auto simp: bash_glob_covers_script_def)
    with AllowAlwaysBashGlob show ?thesis
      by (auto simp: AcBash s' record_bash_outcome_def grants_le_def)
  qed (auto simp: AcBash s' record_bash_outcome_def grants_le_def)
next
  case (AcMCPTool name input)
  then have s': "s' = fst (record_mcp_outcome s name out)" by (simp add: assms record_prompt_outcome_def)
  show ?thesis
    by (cases out)
      (auto simp: AcMCPTool s' record_mcp_outcome_def allow_mcp_tool_def grants_le_def parse_mcp_tool_name_def
        split: option.splits)
next
  case (AcWebFetch url)
  then have s': "s' = fst (record_web_outcome E s url out)" by (simp add: assms record_prompt_outcome_def)
  show ?thesis
    by (cases out) (auto simp: AcWebFetch s' record_web_outcome_def grants_le_def split: option.splits)
qed (auto simp: assms record_prompt_outcome_def)

section \<open>Concrete requests\<close>

text \<open>No configuration of git anywhere, and the decision that the grants take on a script.\<close>

definition no_git_config :: "path \<Rightarrow> (string \<times> string) list option" where
  "no_git_config d = Some []"

definition bash_evaluation_at :: "permission_state \<Rightarrow> string \<Rightarrow> bash_evaluation" where
  "bash_evaluation_at state cmd =
     evaluate_bash_with_ambient word_env (\<lambda>s. None) no_git_config cmd state ''/work''"

definition grant_decision :: "permission_state \<Rightarrow> string \<Rightarrow> (decision \<times> reason) option" where
  "grant_decision state cmd =
     session_grant_pre_decision word_env (\<lambda>u. []) (AcBash cmd)
       (evaluation_of word_env (\<lambda>s. None) no_git_config ''/work'' (AcBash cmd) state) state False None None"

definition allowing_cargo :: permission_state where
  "allowing_cargo = default_state\<lparr>st_allowed_bash_commands := [''cargo'']\<rparr>"

theorem grant_covers_every_command_witness:
  "bash_grant_pre_decision ''timeout 5 cargo test'' (bash_evaluation_at allowing_cargo ''timeout 5 cargo test'')
     allowing_cargo None ask_floor_remember = Some (Allow, ReSessionGrant) \<and>
   segment_grant word_env allowing_cargo [''cargo'', ''test'']"
proof -
  let ?cmd = "''timeout 5 cargo test''"
  have allow: "bash_grant_pre_decision ?cmd (bash_evaluation_at allowing_cargo ?cmd) allowing_cargo None
      ask_floor_remember = Some (Allow, ReSessionGrant)" by code_simp
  have parsed: "all_commands_from_script (parse_shell word_env) ?cmd =
      Some [\<lparr>pl_words = [''timeout'', ''5'', ''cargo'', ''test''], pl_start = 0, pl_end = 20\<rparr>]" by code_simp
  then obtain tree where tree: "parse_shell word_env ?cmd = Some tree"
      and cs: "try_parse_word_only_commands_sequence tree ?cmd =
        Some [\<lparr>pl_words = [''timeout'', ''5'', ''cargo'', ''test''], pl_start = 0, pl_end = 20\<rparr>]"
    by (auto simp: all_commands_from_script_def bind_eq_Some_conv)
  have "\<not> be_exact_grant (evaluate_bash word_env ?cmd allowing_cargo True)" by code_simp
  then have "is_setup_command (unwrap_wrappers [''timeout'', ''5'', ''cargo'', ''test'']) \<or>
      segment_grant word_env allowing_cargo (unwrap_wrappers [''timeout'', ''5'', ''cargo'', ''test''])"
    using grant_covers_every_command [OF allow [unfolded bash_evaluation_at_def] tree cs]
    by (simp add: ask_floor_remember_def judged_def)
  moreover have "unwrap_wrappers [''timeout'', ''5'', ''cargo'', ''test''] = [''cargo'', ''test'']" by code_simp
  ultimately show ?thesis using allow by (simp add: is_setup_command_def)
qed

theorem always_allow_replays_witness:
  "grant_decision default_state ''rm -rf build'' = None \<and>
   (\<exists>r. grant_decision (fst (record_prompt_outcome word_env default_state (AcBash ''rm -rf build'') AllowAlways))
      ''rm -rf build'' = Some (Allow, r))"
proof
  show "grant_decision default_state ''rm -rf build'' = None" by code_simp
  have "\<not> bash_denied word_env ''rm -rf build'' default_state"
    by (auto simp: bash_denied_def denies_def default_state_def split: option.split)
  from always_allow_replays [OF this refl]
  show "\<exists>r. grant_decision (fst (record_prompt_outcome word_env default_state (AcBash ''rm -rf build'') AllowAlways))
      ''rm -rf build'' = Some (Allow, r)" unfolding grant_decision_def .
qed

theorem answers_grant_only_what_was_asked_witness:
  "st_allowed_mcp_servers (fst (record_prompt_outcome word_env default_state
     (AcMCPTool ''notion__search'' JNull) (AllowAlwaysMcpServer ''github''))) = []"
proof -
  let ?s = "fst (record_prompt_outcome word_env default_state (AcMCPTool ''notion__search'' JNull)
    (AllowAlwaysMcpServer ''github''))"
  have "parse_mcp_tool_name ''notion__search'' = Some (''notion'', ''search'')" by code_simp
  moreover have "set (st_allowed_mcp_servers default_state) = {}" by (simp add: default_state_def)
  ultimately have "set (st_allowed_mcp_servers ?s) \<subseteq> {''notion''}"
    using answers_grant_only_what_was_asked [where E = word_env and s = default_state
      and access = "AcMCPTool ''notion__search'' JNull" and out = "AllowAlwaysMcpServer ''github''", OF refl]
    by auto
  moreover have "''notion'' \<notin> set (st_allowed_mcp_servers ?s)" by code_simp
  ultimately have "set (st_allowed_mcp_servers ?s) = {}" by (metis subset_singletonD insertI1)
  then show ?thesis by (rule iffD1 [OF set_empty])
qed

text \<open>
  A transparent prefix hides a command from the memory of the user: with Bash approved for the
  project and \<^verbatim>\<open>rm\<close> never to be run, \<^verbatim>\<open>rm\<close> is rejected and also behind \<^verbatim>\<open>timeout\<close>, but
  behind \<^verbatim>\<open>command\<close> it is neither denied nor dangerous and is allowed without a question. And a flag
  of \<^verbatim>\<open>kubectl\<close> that selects the server is seen when it stands alone or with an equals sign, but
  with its value attached the command is on the safe list.
\<close>
theorem prefix_hides_denied_command:
  "(let state = default_state\<lparr>st_allow_bash_execute := True, st_disallowed_bash_commands := [''rm'']\<rparr> in
    grant_decision state ''rm -rf build'' = Some (Reject (rejected_text ''rm''), ReSessionDeny) \<and>
    grant_decision state ''timeout 5 rm -rf build'' = Some (Reject (rejected_text ''rm''), ReSessionDeny) \<and>
    grant_decision state ''command rm -rf build'' = Some (Allow, ReSessionGrant)) \<and>
   grant_decision default_state ''kubectl get pods -s https://x'' = None \<and>
   grant_decision default_state ''kubectl get pods -shttps://x'' = Some (Allow, ReSafeCommand)"
  unfolding Let_def by (intro conjI; code_simp)

definition quiet_env :: classifier_env where
  "quiet_env = \<lparr>json_from_str = (\<lambda>s. None), json_to_string = (\<lambda>v. []), system_prompt = []\<rparr>"

text \<open>
  A fetch may run a program unasked: git runs the program of \<^verbatim>\<open>--upload-pack\<close>, but a fetch with
  it has no security finding and is routine for the heuristic, so that in automatic mode it is
  approved without asking the model or the user; the same option is not accepted of a query.
\<close>
theorem fetch_runs_program_unasked:
  "be_assessment (bash_evaluation_at default_state ''git fetch --upload-pack=/tmp/x .'') = {} \<and>
   (\<forall>L. co_verdict (classify word_env quiet_env L ''bash'' (AcBash ''git fetch --upload-pack=/tmp/x .'') None
      \<lparr>cx_turns = [], cx_project_instructions = None, cx_security_findings = {}\<rparr>) = VAllow) \<and>
   \<not> bash_command_is_routine [''git'', ''ls-remote'', ''--upload-pack=/tmp/x'', ''.'']"
proof -
  let ?ctx = "\<lparr>cx_turns = [], cx_project_instructions = None, cx_security_findings = {}\<rparr> :: classifier_context"
  have "classify_sync word_env ''bash'' (AcBash ''git fetch --upload-pack=/tmp/x .'') None ?ctx = VAllow"
    by code_simp
  then have "co_verdict (classify word_env quiet_env L ''bash'' (AcBash ''git fetch --upload-pack=/tmp/x .'') None
      ?ctx) = VAllow" for L
    by (simp add: classify_def outcome_heuristic_def)
  moreover have "be_assessment (bash_evaluation_at default_state ''git fetch --upload-pack=/tmp/x .'') = {}"
    by code_simp
  moreover have "\<not> bash_command_is_routine [''git'', ''ls-remote'', ''--upload-pack=/tmp/x'', ''.'']"
    by code_simp
  ultimately show ?thesis by blast
qed

end
