(* ===== verification/GatePreflight.thy ===== *)
theory GatePreflight imports BashDecisions begin

text \<open>
  What the permission manager computes before it decides (\<^verbatim>\<open>permission/gate_preflight.rs\<close>): the policy
  and the two gates of a request, evaluated once, with the question whether an ask may go to the
  classifier; when a configured allow is deferred (\<^verbatim>\<open>permission/manager/bash_policy_allow.rs\<close>); the
  classification of a request for its event (\<^verbatim>\<open>permission/manager/request_classification.rs\<close>).
\<close>

section \<open>The preflight\<close>

record gate_preflight =
  gp_direct :: "decision option"
  gp_bash_command :: "gate_decision option"
  gp_shell_file :: "gate_decision option"
  gp_native_symlink_fail_closed :: bool
  gp_defers_gate_ask :: bool

definition rule_match_ask ::
    "decision option \<Rightarrow> gate_decision option \<Rightarrow> gate_decision option \<Rightarrow> bool" where
  "rule_match_ask direct bash_command shell_file \<longleftrightarrow>
     direct = Some Ask \<or> bash_command = Some AskRuleMatch \<or> shell_file = Some AskRuleMatch"

definition fail_closed_ask :: "gate_decision option \<Rightarrow> gate_decision option \<Rightarrow> bool" where
  "fail_closed_ask bash_command shell_file \<longleftrightarrow>
     bash_command = Some AskFailClosed \<or> shell_file = Some AskFailClosed"

definition both_gates ::
    "policy_env \<Rightarrow> compiled_policy option \<Rightarrow> access_kind \<Rightarrow> path
      \<Rightarrow> gate_decision option \<times> gate_decision option" where
  "both_gates E policy access cwd =
     (case (policy, access) of
        (Some p, AcBash cmd) \<Rightarrow>
          (evaluate_bash_command_gate E p cmd, evaluate_shell_file_access_gate E p cmd cwd)
      | _ \<Rightarrow> (None, None))"

definition gate_preflight ::
    "policy_env \<Rightarrow> compiled_policy option \<Rightarrow> access_kind \<Rightarrow> path \<Rightarrow> bool \<Rightarrow> gate_preflight" where
  "gate_preflight E policy access cwd auto_mode =
     (let (direct, native_symlink_fail_closed) =
            (case policy of
               Some p \<Rightarrow> evaluate_with_cwd_details E p access (Some cwd) | None \<Rightarrow> (None, False));
          (bash_command, shell_file) = both_gates E policy access cwd
      in \<lparr>gp_direct = direct, gp_bash_command = bash_command, gp_shell_file = shell_file,
          gp_native_symlink_fail_closed = native_symlink_fail_closed,
          gp_defers_gate_ask = auto_mode \<and> fail_closed_ask bash_command shell_file \<and>
            \<not> rule_match_ask direct bash_command shell_file\<rparr>)"

definition policy_decision :: "gate_preflight \<Rightarrow> decision option" where
  "policy_decision g =
     combine_decisions
       (combine_decisions (gp_direct g) (map_option into_decision (gp_bash_command g)))
       (map_option into_decision (gp_shell_file g))"

definition policy_forced_prompt :: "gate_preflight \<Rightarrow> bool" where
  "policy_forced_prompt g \<longleftrightarrow> policy_decision g = Some Ask"

definition gate_asks :: "gate_decision option \<Rightarrow> bool" where
  "gate_asks g \<longleftrightarrow> (case g of Some d \<Rightarrow> gate_is_ask d | None \<Rightarrow> False)"

definition shell_file_forced_prompt :: "gate_preflight \<Rightarrow> bool" where
  "shell_file_forced_prompt g \<longleftrightarrow> gate_asks (gp_shell_file g)"

definition shell_forced_prompt :: "gate_preflight \<Rightarrow> bool" where
  "shell_forced_prompt g \<longleftrightarrow>
     gate_asks (gp_bash_command g) \<or> shell_file_forced_prompt g \<or> gp_native_symlink_fail_closed g"

definition admits_auto_classifier :: "gate_preflight \<Rightarrow> bool" where
  "admits_auto_classifier g \<longleftrightarrow> \<not> policy_forced_prompt g \<or> gp_defers_gate_ask g"

definition prompt_trigger :: "gate_preflight \<Rightarrow> reason option \<Rightarrow> reason option" where
  "prompt_trigger g auto_prompt_reason =
     (if gp_direct g = Some Ask then Some RePolicyAsk
      else if gp_defers_gate_ask g then auto_prompt_reason
      else if gate_asks (gp_bash_command g) then Some ReBashCommandGateAsk
      else if shell_file_forced_prompt g then Some ReShellFileGateAsk
      else auto_prompt_reason)"

section \<open>Configured allows\<close>

definition configured_filename_allow :: "bash_evaluation option \<Rightarrow> bool" where
  "configured_filename_allow evaluation \<longleftrightarrow>
     (case evaluation of
        None \<Rightarrow> False
      | Some e \<Rightarrow>
          be_recovered_eligible e \<and>
          list_all (\<lambda>f. f = UnresolvedArgument \<or> f = UnvettedEnv \<or> f \<notin> be_assessment e) all_findings)"

definition requires_recovered_classification :: "bash_evaluation option \<Rightarrow> bool" where
  "requires_recovered_classification evaluation \<longleftrightarrow>
     (case evaluation of
        None \<Rightarrow> False | Some e \<Rightarrow> UnresolvedArgument \<in> be_assessment e \<and> \<not> be_exact_grant e)"

definition narrow_allow_clears_write_floor ::
    "policy_env \<Rightarrow> bash_evaluation option \<Rightarrow> compiled_policy option \<Rightarrow> access_kind \<Rightarrow> bool" where
  "narrow_allow_clears_write_floor E evaluation policy access \<longleftrightarrow>
     (case evaluation of
        None \<Rightarrow> False | Some e \<Rightarrow> is_file_write_only (be_assessment e) \<and> \<not> be_redirect_write e) \<and>
     (case policy of None \<Rightarrow> False | Some p \<Rightarrow> narrow_allow_authorizes E p access)"

definition broad_allow_deferred ::
    "policy_env \<Rightarrow> bash_evaluation option \<Rightarrow> compiled_policy option \<Rightarrow> access_kind \<Rightarrow> bool \<Rightarrow> bool" where
  "broad_allow_deferred E evaluation policy access configured_mode \<longleftrightarrow>
     (requires_recovered_classification evaluation \<or> bash_request_floor_requires_prompt evaluation) \<and>
     \<not> narrow_allow_clears_write_floor E evaluation policy access \<and>
     \<not> (configured_mode \<and> configured_filename_allow evaluation)"

definition broad_allow_floor_requires_prompt ::
    "policy_env \<Rightarrow> (string \<Rightarrow> bool option) \<Rightarrow> (path \<Rightarrow> (string \<times> string) list option)
      \<Rightarrow> access_kind \<Rightarrow> compiled_policy option \<Rightarrow> path \<Rightarrow> bool \<Rightarrow> bool" where
  "broad_allow_floor_requires_prompt E parse_bool entries access policy cwd configured_mode \<longleftrightarrow>
     (case access of
        AcBash cmd \<Rightarrow>
          broad_allow_deferred E
            (Some (evaluate_bash_with_ambient E parse_bool entries cmd default_state cwd))
            policy access configured_mode
      | _ \<Rightarrow> False)"

section \<open>The classification of a request\<close>

definition auto_deny_consecutive_limit :: nat where
  "auto_deny_consecutive_limit = 3"

definition auto_deny_total_limit :: nat where
  "auto_deny_total_limit = 20"

definition auto_deny_guidance :: string where
  "auto_deny_guidance =
     ''Take a safer approach that stays within what the user asked for; do not retry this exact '' @
     ''action or attempt to work around the denial. If no safer alternative exists, ask the user '' @
     ''how to proceed.''"

record denial_counters =
  dn_consecutive :: nat
  dn_total :: nat

datatype classification_source = ClassifiedBy classifier_source | NotWired

definition classification_kind :: "classification_source \<Rightarrow> source_kind" where
  "classification_kind s = (case s of ClassifiedBy c \<Rightarrow> source_kind_of c | NotWired \<Rightarrow> SkNotWired)"

record classification_outcome =
  cl_verdict :: verdict
  cl_source :: classification_source

datatype request_classification =
    NotClassified
  | FastPathAllowed
  | Classified assessment "classification_outcome option"

definition cl_classifier_source :: "request_classification \<Rightarrow> source_kind option" where
  "cl_classifier_source c =
     (case c of
        NotClassified \<Rightarrow> None
      | FastPathAllowed \<Rightarrow> Some SkFastPath
      | Classified A out \<Rightarrow> map_option (\<lambda>o'. classification_kind (cl_source o')) out)"

definition cl_classifier_verdict :: "request_classification \<Rightarrow> verdict option" where
  "cl_classifier_verdict c =
     (case c of Classified A out \<Rightarrow> map_option cl_verdict out | _ \<Rightarrow> None)"

definition security_findings_tokens :: "request_classification \<Rightarrow> string list option" where
  "security_findings_tokens c = (case c of Classified A out \<Rightarrow> Some (finding_tokens A) | _ \<Rightarrow> None)"

datatype permission_mode = ModeAlwaysApprove | ModeAuto | ModeAsk

fun permission_mode_artifact_str :: "permission_mode \<Rightarrow> string" where
  "permission_mode_artifact_str ModeAlwaysApprove = ''always-approve''"
| "permission_mode_artifact_str ModeAuto = ''auto''"
| "permission_mode_artifact_str ModeAsk = ''ask''"

section \<open>Names\<close>

definition tool_name_for_access :: "access_kind \<Rightarrow> string" where
  "tool_name_for_access access =
     (case access of
        AcRead p \<Rightarrow> ''read_file''
      | AcGrep p g \<Rightarrow> ''grep''
      | AcEdit p \<Rightarrow> ''search_replace''
      | AcBash c \<Rightarrow> ''run_terminal_command''
      | AcMCPTool name input \<Rightarrow> ''mcp:'' @ name
      | AcWebFetch u \<Rightarrow> ''web_fetch''
      | AcWebSearch q \<Rightarrow> ''web_search''
      | AcAgentMessage a \<Rightarrow> ''send_subagent_message''
      | AcTool name \<Rightarrow> name)"

text \<open>The domains that the fetch tool may reach without a question.\<close>

definition default_allowed_domains :: "string list" where
  "default_allowed_domains =
     [''x.ai'', ''console.x.ai'', ''docs.x.ai'', ''api.x.ai'', ''docs.python.org'',
      ''en.cppreference.com'', ''docs.oracle.com'', ''learn.microsoft.com'',
      ''developer.mozilla.org'', ''go.dev'', ''pkg.go.dev'', ''www.php.net'', ''docs.swift.org'',
      ''kotlinlang.org'', ''ruby-doc.org'', ''doc.rust-lang.org'', ''docs.rs'',
      ''www.typescriptlang.org'', ''react.dev'', ''angular.io'', ''vuejs.org'', ''nextjs.org'',
      ''expressjs.com'', ''nodejs.org'', ''bun.sh'', ''jquery.com'', ''getbootstrap.com'',
      ''tailwindcss.com'', ''d3js.org'', ''threejs.org'', ''redux.js.org'', ''webpack.js.org'',
      ''jestjs.io'', ''reactrouter.com'', ''docs.djangoproject.com'', ''flask.palletsprojects.com'',
      ''fastapi.tiangolo.com'', ''pandas.pydata.org'', ''numpy.org'', ''www.tensorflow.org'',
      ''pytorch.org'', ''scikit-learn.org'', ''matplotlib.org'', ''requests.readthedocs.io'',
      ''jupyter.org'', ''laravel.com'', ''symfony.com'', ''wordpress.org'', ''docs.spring.io'',
      ''hibernate.org'', ''tomcat.apache.org'', ''gradle.org'', ''maven.apache.org'', ''asp.net'',
      ''dotnet.microsoft.com'', ''nuget.org'', ''blazor.net'', ''reactnative.dev'',
      ''docs.flutter.dev'', ''developer.apple.com'', ''developer.android.com'', ''keras.io'',
      ''spark.apache.org'', ''huggingface.co'', ''www.kaggle.com'', ''redis.io'',
      ''www.postgresql.org'', ''dev.mysql.com'', ''www.sqlite.org'', ''graphql.org'', ''prisma.io'',
      ''docs.aws.amazon.com'', ''cloud.google.com'', ''kubernetes.io'', ''www.docker.com'',
      ''www.terraform.io'', ''www.ansible.com'', ''vercel.com/docs'', ''docs.netlify.com'',
      ''devcenter.heroku.com'', ''cypress.io'', ''selenium.dev'', ''docs.unity.com'',
      ''docs.unrealengine.com'', ''git-scm.com'', ''nginx.org'', ''httpd.apache.org'']"

section \<open>What the preflight says\<close>

lemma policy_decision_reject:
  "policy_decision g = Some (Reject r) \<Longrightarrow>
     gp_direct g = Some (Reject r) \<or> gp_bash_command g = Some (GReject r) \<or> gp_shell_file g = Some (GReject r)"
  by (cases "gp_direct g"; cases "gp_bash_command g"; cases "gp_shell_file g")
    (auto simp: policy_decision_def split: if_splits elim!: into_decision.elims)

lemma defers_only_in_auto: "gp_defers_gate_ask (gate_preflight E p access cwd auto) \<Longrightarrow> auto"
  by (auto simp: gate_preflight_def Let_def split: prod.splits)

end
