(* ===== verification/PermManager.thy ===== *)
theory PermManager imports GatePreflight begin

text \<open>
  The permission manager (\<^verbatim>\<open>permission/manager/mod.rs\<close>): the state of the actor, and every command
  that it handles. A request runs through the stages of the code in their order, each a function that
  answers or passes on; an answer is what is sent to the requester, with the event that is emitted.
  Code outside the crate and the outside world are the fields of \<open>manager_env\<close>; what the user
  answers, and when the requester goes away, come with the request. Times and identifiers of the
  event that only copy the clock are left out.
\<close>

section \<open>State\<close>

type_synonym classifier =
  "string \<Rightarrow> access_kind \<Rightarrow> string option \<Rightarrow> classifier_context \<Rightarrow> classifier_outcome"

record ('c, 'sig) manager_env =
  me_policy_env :: policy_env
  me_classifier_env :: classifier_env
  me_store_env :: "'c store_env"
  me_signature :: "'c files \<Rightarrow> path \<Rightarrow> 'sig option"
  me_home :: "path option"
  me_tilde :: "string \<Rightarrow> string"
  me_url_path :: "string \<Rightarrow> string"
  me_parse_bool :: "string \<Rightarrow> bool option"
  me_git_entries :: "path \<Rightarrow> (string \<times> string) list option"
  me_sandbox_auto_bash :: bool

text \<open>What a manager is spawned with.\<close>

record manager_config =
  mc_cwd :: path
  mc_client_type :: client_type
  mc_permission_config :: "permission_config option"
  mc_allowed_domains :: "string list"
  mc_client_identifier :: "string option"
  mc_remember_tool_approvals :: bool
  mc_yolo_pin :: "string option"

record ('c, 'sig) manager =
  mg_state :: permission_state
  mg_store :: "'sig cached_state_store"
  mg_files :: "'c files"
  mg_yolo_mode :: bool
  mg_auto_mode :: bool
  mg_auto_classifier :: "classifier option"
  mg_consecutive_denials :: nat
  mg_total_denials :: nat
  mg_classifier_turns :: "turn list"
  mg_recorded_decisions :: "turn list"
  mg_project_instructions :: "string option"
  mg_allow_edits_for_session :: bool

definition compiled_policy_of :: "('c, 'sig) manager_env \<Rightarrow> manager_config \<Rightarrow> compiled_policy option" where
  "compiled_policy_of M cfg =
     map_option (compiled_policy_new (me_policy_env M)) (mc_permission_config cfg)"

definition prompt_policy_of :: "manager_config \<Rightarrow> prompt_policy" where
  "prompt_policy_of cfg =
     (case mc_permission_config cfg of Some c \<Rightarrow> pc_prompt_policy c | None \<Rightarrow> PpAsk)"

definition static_matcher :: "('c, 'sig) manager_env \<Rightarrow> manager_config \<Rightarrow> domain_matcher" where
  "static_matcher M cfg = domain_matcher_new (me_policy_env M) (mc_allowed_domains cfg)"

definition allowlist_is_default :: "manager_config \<Rightarrow> bool" where
  "allowlist_is_default cfg \<longleftrightarrow> mc_allowed_domains cfg = default_allowed_domains"

definition clamp_yolo :: "bool \<Rightarrow> string option \<Rightarrow> bool" where
  "clamp_yolo requested yolo_pin \<longleftrightarrow> requested \<and> yolo_pin = None"

definition default_auto_mode_classifier :: "('c, 'sig) manager_env \<Rightarrow> classifier" where
  "default_auto_mode_classifier M = classify (me_policy_env M) (me_classifier_env M) production_default"

definition save_state :: "('c, 'sig) manager_env \<Rightarrow> manager_config \<Rightarrow> ('c, 'sig) manager \<Rightarrow> ('c, 'sig) manager" where
  "save_state M cfg m =
     m\<lparr>mg_files := persist_state (me_store_env M) (mc_cwd cfg) (mg_state m) (mc_client_identifier cfg)
        (mg_files m)\<rparr>"

definition spawn_manager ::
    "('c, 'sig) manager_env \<Rightarrow> manager_config \<Rightarrow> bool \<Rightarrow> 'c files \<Rightarrow> ('c, 'sig) manager" where
  "spawn_manager M cfg initial_yolo fs =
     (let initial_yolo = clamp_yolo initial_yolo (mc_yolo_pin cfg);
          seed_auto = (\<not> initial_yolo \<and>
            (case mc_permission_config cfg of Some c \<Rightarrow> pc_prompt_policy c = PpAuto | None \<Rightarrow> False));
          (store, state, fs) = resolve_and_load (me_store_env M) (me_signature M) (mc_cwd cfg)
            (mc_client_identifier cfg) fs;
          m = \<lparr>mg_state = state, mg_store = store, mg_files = fs, mg_yolo_mode = initial_yolo,
               mg_auto_mode = seed_auto, mg_auto_classifier = Some (default_auto_mode_classifier M),
               mg_consecutive_denials = 0, mg_total_denials = 0, mg_classifier_turns = [],
               mg_recorded_decisions = [], mg_project_instructions = None,
               mg_allow_edits_for_session = False\<rparr>
      in if st_edit_policy state = EpAllow
         then save_state M cfg (m\<lparr>mg_state := state\<lparr>st_edit_policy := EpAsk\<rparr>\<rparr>)
         else m)"

section \<open>Requests\<close>

record permission_request =
  rq_access :: access_kind
  rq_tool_call_id :: string
  rq_path_context :: "request_path_context option"
  rq_session_id :: "string option"
  rq_subagent_type :: "string option"
  rq_subagent_description :: "string option"
  rq_hook_ask :: "hook_ask option"

text \<open>
  What happens around a request: the check at which the requester is first found gone (0 when the
  request is taken from the queue, 1 after the scan of the repositories, 2 while the classifier
  works, 3 before the prompt, 4 while it is open), and the answer of the user.
\<close>

record request_world =
  rw_gone :: "nat option"
  rw_answer :: prompt_outcome

definition closed_at :: "request_world \<Rightarrow> nat \<Rightarrow> bool" where
  "closed_at w check \<longleftrightarrow> (case rw_gone w of Some g \<Rightarrow> g \<le> check | None \<Rightarrow> False)"

definition access_detail_of :: "('c, 'sig) manager_env \<Rightarrow> access_kind \<Rightarrow> string option" where
  "access_detail_of M access =
     (case access of
        AcRead p \<Rightarrow> None
      | AcGrep p g \<Rightarrow> p
      | AcEdit p \<Rightarrow> Some p
      | AcBash cmd \<Rightarrow> Some cmd
      | AcMCPTool name input \<Rightarrow> Some (mcp_access_detail (me_classifier_env M) name input)
      | AcWebFetch url \<Rightarrow> Some url
      | AcWebSearch q \<Rightarrow> Some q
      | AcAgentMessage a \<Rightarrow> Some a
      | AcTool name \<Rightarrow> Some name)"

record permission_event =
  ev_tool_id :: string
  ev_tool_name :: string
  ev_access_kind :: string
  ev_access_detail :: "string option"
  ev_yolo_mode :: bool
  ev_auto_approved :: bool
  ev_user_prompted :: bool
  ev_decision :: string
  ev_prompt_outcome :: "string option"
  ev_reject_reason :: "string option"
  ev_subagent_session_id :: "string option"
  ev_subagent_type :: "string option"
  ev_subagent_description :: "string option"
  ev_permission_mode :: string
  ev_decision_reason :: string
  ev_classifier_source :: "string option"
  ev_auto_denials :: "denial_counters option"
  ev_security_findings :: "string list option"
  ev_classifier_verdict :: "string option"
  ev_remember_tool_approvals :: bool

definition decision_name :: "decision \<Rightarrow> string" where
  "decision_name d =
     (case d of
        Allow \<Rightarrow> ''allow'' | Ask \<Rightarrow> ''ask'' | Reject r \<Rightarrow> ''reject'' | PolicyDeny r \<Rightarrow> ''reject''
      | FollowupMessage s \<Rightarrow> ''followup'' | Cancelled \<Rightarrow> ''cancelled'')"

definition reject_reason_of :: "decision \<Rightarrow> string option" where
  "reject_reason_of d = (case d of Reject r \<Rightarrow> Some r | PolicyDeny r \<Rightarrow> Some r | _ \<Rightarrow> None)"

definition permission_mode_of :: "('c, 'sig) manager \<Rightarrow> permission_mode" where
  "permission_mode_of m =
     (if mg_yolo_mode m then ModeAlwaysApprove else if mg_auto_mode m then ModeAuto else ModeAsk)"

definition emit_event ::
    "('c, 'sig) manager_env \<Rightarrow> manager_config \<Rightarrow> ('c, 'sig) manager \<Rightarrow> permission_request
      \<Rightarrow> request_classification \<Rightarrow> decision \<Rightarrow> bool \<Rightarrow> bool \<Rightarrow> string option \<Rightarrow> reason \<Rightarrow> permission_event" where
  "emit_event M cfg m rq rc decision auto_approved user_prompted prompt_outcome decision_reason =
     \<lparr>ev_tool_id = rq_tool_call_id rq, ev_tool_name = tool_name_for_access (rq_access rq),
      ev_access_kind = access_kind_name (rq_access rq),
      ev_access_detail = access_detail_of M (rq_access rq), ev_yolo_mode = mg_yolo_mode m,
      ev_auto_approved = auto_approved, ev_user_prompted = user_prompted,
      ev_decision = decision_name decision, ev_prompt_outcome = prompt_outcome,
      ev_reject_reason = reject_reason_of decision, ev_subagent_session_id = rq_session_id rq,
      ev_subagent_type = rq_subagent_type rq, ev_subagent_description = rq_subagent_description rq,
      ev_permission_mode = permission_mode_artifact_str (permission_mode_of m),
      ev_decision_reason = reason_str decision_reason,
      ev_classifier_source = map_option source_wire_str (cl_classifier_source rc),
      ev_auto_denials =
        (if mg_auto_mode m
         then Some \<lparr>dn_consecutive = mg_consecutive_denials m, dn_total = mg_total_denials m\<rparr> else None),
      ev_security_findings = security_findings_tokens rc,
      ev_classifier_verdict = map_option verdict_wire_str (cl_classifier_verdict rc),
      ev_remember_tool_approvals = mc_remember_tool_approvals cfg\<rparr>"

section \<open>The facts of a request\<close>

record request_facts =
  fa_access :: access_kind
  fa_evaluation :: "bash_evaluation option"
  fa_scanned :: bool
  fa_recovered :: bool
  fa_protected :: "protected_edit_reason option"
  fa_preflight :: gate_preflight
  fa_hook :: bool

text \<open>Grants of other sessions are read again, but not a blanket approval of Bash.\<close>

definition reload_grants ::
    "('c, 'sig) manager_env \<Rightarrow> ('c, 'sig) manager \<Rightarrow> access_kind \<Rightarrow> ('c, 'sig) manager" where
  "reload_grants M m access =
     (if (case access of
            AcBash c \<Rightarrow> True | AcMCPTool n i \<Rightarrow> True | AcWebFetch u \<Rightarrow> True | _ \<Rightarrow> False)
      then (case reload_if_changed (me_store_env M) (me_signature M) (mg_store m) (mg_files m) of
          (store, fresh, fs) \<Rightarrow>
            (let m = m\<lparr>mg_store := store, mg_files := fs\<rparr> in
             case fresh of
               Some other \<Rightarrow>
                 m\<lparr>mg_state := (merge_grants_from (mg_state m) other)
                     \<lparr>st_allow_bash_execute := st_allow_bash_execute (mg_state m)\<rparr>\<rparr>
             | None \<Rightarrow> m))
      else m)"

definition request_cwd :: "manager_config \<Rightarrow> permission_request \<Rightarrow> path" where
  "request_cwd cfg rq =
     (case rq_path_context rq of Some ctx \<Rightarrow> rc_real_cwd ctx | None \<Rightarrow> mc_cwd cfg)"

definition evaluate_access ::
    "('c, 'sig) manager_env \<Rightarrow> permission_state \<Rightarrow> access_kind \<Rightarrow> path \<Rightarrow> bash_evaluation option" where
  "evaluate_access M state access cwd =
     (case access of
        AcBash cmd \<Rightarrow>
          Some (evaluate_bash_with_ambient (me_policy_env M) (me_parse_bool M) (me_git_entries M) cmd
            state cwd)
      | _ \<Rightarrow> None)"

text \<open>Whether the scan of the repositories runs, after which the requester is looked at again.\<close>

definition scans_repositories :: "('c, 'sig) manager_env \<Rightarrow> ('c, 'sig) manager \<Rightarrow> access_kind \<Rightarrow> bool" where
  "scans_repositories M m access \<longleftrightarrow>
     (case access of
        AcBash cmd \<Rightarrow>
          be_ambient_segments (evaluate_bash (me_policy_env M) cmd (mg_state m) True) \<noteq> None
      | _ \<Rightarrow> False)"

definition facts_of ::
    "('c, 'sig) manager_env \<Rightarrow> manager_config \<Rightarrow> ('c, 'sig) manager \<Rightarrow> permission_request \<Rightarrow> request_facts" where
  "facts_of M cfg m rq =
     (let access = rq_access rq;
          evaluation = evaluate_access M (mg_state m) access (request_cwd cfg rq)
      in \<lparr>fa_access = access, fa_evaluation = evaluation, fa_scanned = scans_repositories M m access,
          fa_recovered = mg_auto_mode m \<and> requires_recovered_classification evaluation,
          fa_protected = protected_target (me_policy_env M) (me_home M) (me_tilde M) access evaluation
            (mc_cwd cfg) (rq_path_context rq),
          fa_preflight = gate_preflight (me_policy_env M) (compiled_policy_of M cfg) access
            (request_cwd cfg rq) (mg_auto_mode m),
          fa_hook = rq_hook_ask rq \<noteq> None\<rparr>)"

section \<open>The stages before the classifier\<close>

text \<open>An answer: the decision, whether it is automatic, and why.\<close>

type_synonym answer = "decision \<times> bool \<times> reason"

definition forced_before_classifier :: "request_facts \<Rightarrow> bool" where
  "forced_before_classifier f \<longleftrightarrow>
     policy_forced_prompt (fa_preflight f) \<or> shell_forced_prompt (fa_preflight f) \<or> fa_hook f"

definition policy_stage :: "request_facts \<Rightarrow> answer option" where
  "policy_stage f =
     (case policy_decision (fa_preflight f) of
        Some (Reject reason) \<Rightarrow> Some (PolicyDeny reason, False, RePolicyDeny) | _ \<Rightarrow> None)"

definition yolo_stage :: "('c, 'sig) manager \<Rightarrow> request_facts \<Rightarrow> answer option" where
  "yolo_stage m f =
     (if mg_yolo_mode m \<and> \<not> shell_forced_prompt (fa_preflight f) \<and> \<not> fa_hook f
      then Some (Allow, True, ReYolo) else None)"

definition session_stage ::
    "('c, 'sig) manager_env \<Rightarrow> manager_config \<Rightarrow> ('c, 'sig) manager \<Rightarrow> request_facts \<Rightarrow> answer option" where
  "session_stage M cfg m f =
     (if forced_before_classifier f \<or> fa_protected f \<noteq> None then None
      else case session_grant_pre_decision (me_policy_env M) (me_url_path M) (fa_access f)
          (fa_evaluation f) (mg_state m) (mg_allow_edits_for_session m)
          (if mg_auto_mode m \<and> allowlist_is_default cfg then None else Some (static_matcher M cfg))
          (mc_yolo_pin cfg) of
        Some (decision, reason) \<Rightarrow>
          if fa_recovered f \<and> decision = Allow then None else Some (decision, True, reason)
      | None \<Rightarrow> None)"

definition bash_assessment_is_clear :: "bash_evaluation option \<Rightarrow> bool" where
  "bash_assessment_is_clear evaluation \<longleftrightarrow>
     (case evaluation of Some e \<Rightarrow> be_assessment e = {} | None \<Rightarrow> True)"

definition narrow_allow ::
    "('c, 'sig) manager_env \<Rightarrow> manager_config \<Rightarrow> access_kind \<Rightarrow> bool" where
  "narrow_allow M cfg access \<longleftrightarrow>
     (case compiled_policy_of M cfg of
        Some p \<Rightarrow> narrow_allow_authorizes (me_policy_env M) p access | None \<Rightarrow> False)"

definition auto_policy_stage ::
    "('c, 'sig) manager_env \<Rightarrow> manager_config \<Rightarrow> ('c, 'sig) manager \<Rightarrow> request_facts \<Rightarrow> answer option" where
  "auto_policy_stage M cfg m f =
     (let covering = configured_filename_allow (fa_evaluation f) in
      if mg_auto_mode m \<and> (covering \<or> \<not> fa_recovered f) \<and> \<not> forced_before_classifier f \<and>
         fa_protected f = None \<and> policy_decision (fa_preflight f) = Some Allow \<and>
         (covering \<or> bash_assessment_is_clear (fa_evaluation f) \<or>
          (\<not> bash_request_floor_requires_prompt (fa_evaluation f) \<and> narrow_allow M cfg (fa_access f)))
      then Some (Allow, True, RePolicyAllow) else None)"

section \<open>The classifier\<close>

definition classifier_assessment :: "bash_evaluation option \<Rightarrow> bool \<Rightarrow> assessment" where
  "classifier_assessment evaluation fail_closed_policy =
     (case evaluation of Some e \<Rightarrow> be_assessment e | None \<Rightarrow> {}) \<union>
     finding_if fail_closed_policy FailClosedPolicy"

datatype route_result = RouteCompleted classifier_outcome | RouteNotWired | RouteAbandoned

definition classify_route ::
    "('c, 'sig) manager_env \<Rightarrow> ('c, 'sig) manager \<Rightarrow> request_facts \<Rightarrow> assessment \<Rightarrow> request_world
      \<Rightarrow> route_result" where
  "classify_route M m f A w =
     (case mg_auto_classifier m of
        Some clf \<Rightarrow>
          if closed_at w 2 then RouteAbandoned
          else RouteCompleted (clf (tool_name_for_access (fa_access f)) (fa_access f)
            (access_detail_of M (fa_access f))
            \<lparr>cx_turns = mg_classifier_turns m @ mg_recorded_decisions m,
             cx_project_instructions = mg_project_instructions m, cx_security_findings = A\<rparr>)
      | None \<Rightarrow>
          if is_agent_message (fa_access f) then RouteCompleted (outcome_heuristic VBlock)
          else RouteNotWired)"

text \<open>
  Where a request goes after the classifier: it is answered, it goes on (perhaps with a reason for
  which the user must be asked), or its requester is gone.
\<close>

datatype auto_route = AutoAnswer answer | AutoGoOn "reason option" | AutoGone

definition blocked_text :: "classifier_outcome \<Rightarrow> string" where
  "blocked_text out =
     (case co_reason out of
        Some r \<Rightarrow> ''Auto mode blocked this action ('' @ trim_end_char (CHR ''.'') r @ ''). '' @ auto_deny_guidance
      | None \<Rightarrow> ''Auto mode blocked this action. '' @ auto_deny_guidance)"

definition may_deny :: "('c, 'sig) manager \<Rightarrow> bool" where
  "may_deny m \<longleftrightarrow>
     mg_consecutive_denials m < auto_deny_consecutive_limit \<and> mg_total_denials m < auto_deny_total_limit"

definition on_verdict ::
    "manager_config \<Rightarrow> ('c, 'sig) manager \<Rightarrow> request_facts \<Rightarrow> classifier_outcome
      \<Rightarrow> auto_route \<times> ('c, 'sig) manager" where
  "on_verdict cfg m f out =
     (case co_verdict out of
        VAllow \<Rightarrow>
          (if fa_hook f then AutoGoOn None else AutoAnswer (Allow, True, ReAutoClassifierAllow),
           m\<lparr>mg_consecutive_denials := 0\<rparr>)
      | VBlock \<Rightarrow>
          if can_present_permission_prompt (mc_client_type cfg)
          then (AutoGoOn (Some ReAutoClassifierDeny), m)
          else if may_deny m
          then (AutoAnswer (PolicyDeny (blocked_text out), False, ReAutoClassifierDeny),
                m\<lparr>mg_consecutive_denials := mg_consecutive_denials m + 1,
                  mg_total_denials := mg_total_denials m + 1\<rparr>)
          else (AutoGoOn (Some ReAutoDenialLimit), m)
      | VUnavailable \<Rightarrow>
          (AutoGoOn (Some (if is_timeout out then ReAutoClassifierTimeout
             else ReAutoClassifierUnavailable)), m))"

definition classified_as :: "verdict \<Rightarrow> classification_source \<Rightarrow> classification_outcome option" where
  "classified_as v s = Some \<lparr>cl_verdict = v, cl_source = s\<rparr>"

definition classify_stage ::
    "('c, 'sig) manager_env \<Rightarrow> manager_config \<Rightarrow> ('c, 'sig) manager \<Rightarrow> request_facts \<Rightarrow> request_world
      \<Rightarrow> auto_route \<times> request_classification \<times> ('c, 'sig) manager" where
  "classify_stage M cfg m f w =
     (let A = classifier_assessment (fa_evaluation f) (gp_defers_gate_ask (fa_preflight f)) in
      case classify_route M m f A w of
        RouteAbandoned \<Rightarrow> (AutoGone, Classified A None, m)
      | RouteNotWired \<Rightarrow>
          (AutoGoOn (Some ReAutoClassifierUnavailable),
           Classified A (classified_as VUnavailable NotWired), m)
      | RouteCompleted out \<Rightarrow>
          (case on_verdict cfg m f out of
             (route, m) \<Rightarrow>
               (route,
                Classified A (classified_as (co_verdict out) (ClassifiedBy (provenance_source (co_provenance out)))),
                m)))"

definition auto_stage ::
    "('c, 'sig) manager_env \<Rightarrow> manager_config \<Rightarrow> ('c, 'sig) manager \<Rightarrow> request_facts \<Rightarrow> request_world
      \<Rightarrow> auto_route \<times> request_classification \<times> ('c, 'sig) manager" where
  "auto_stage M cfg m f w =
     (if \<not> mg_auto_mode m \<or> \<not> admits_auto_classifier (fa_preflight f) then (AutoGoOn None, NotClassified, m)
      else
        (let tool_name = tool_name_for_access (fa_access f);
             needs_user =
               fa_protected f \<noteq> None \<or> access_requires_user_interaction tool_name (fa_access f)
         in case auto_mode_fast_path (fa_access f) tool_name needs_user of
              FastAllow \<Rightarrow>
                if fa_hook f then (AutoGoOn None, NotClassified, m)
                else (AutoAnswer (Allow, True, ReAutoFastPath), FastPathAllowed, m)
            | FastPromptUser \<Rightarrow> (AutoGoOn (Some ReNeedsUser), NotClassified, m)
            | FastClassify \<Rightarrow> classify_stage M cfg m f w))"

section \<open>The stages after the classifier\<close>

definition sandbox_stage ::
    "('c, 'sig) manager_env \<Rightarrow> request_facts \<Rightarrow> reason option \<Rightarrow> answer option" where
  "sandbox_stage M f forced =
     (if (case fa_access f of AcBash cmd \<Rightarrow> True | _ \<Rightarrow> False) \<and> \<not> fa_recovered f \<and>
         me_sandbox_auto_bash M \<and> \<not> bash_request_floor_requires_prompt (fa_evaluation f) \<and>
         \<not> policy_forced_prompt (fa_preflight f) \<and> forced = None \<and> \<not> fa_hook f \<and> fa_protected f = None
      then Some (Allow, True, ReSandboxAuto) else None)"

definition policy_allow_stage ::
    "('c, 'sig) manager_env \<Rightarrow> manager_config \<Rightarrow> request_facts \<Rightarrow> reason option \<Rightarrow> answer option" where
  "policy_allow_stage M cfg f forced =
     (case policy_decision (fa_preflight f) of
        Some Ask \<Rightarrow> None
      | Some Allow \<Rightarrow>
          if fa_protected f \<noteq> None \<or> forced \<noteq> None \<or> fa_hook f \<or> fa_recovered f \<or>
             broad_allow_deferred (me_policy_env M) (fa_evaluation f) (compiled_policy_of M cfg)
               (fa_access f) (prompt_policy_of cfg \<noteq> PpDeny)
          then None else Some (Allow, True, RePolicyAllow)
      | Some decision \<Rightarrow> Some (decision, True, RePolicyAllow)
      | None \<Rightarrow> None)"

definition bash_pre_decision ::
    "manager_config \<Rightarrow> ('c, 'sig) manager \<Rightarrow> request_facts \<Rightarrow> reason option \<Rightarrow> string
      \<Rightarrow> (decision \<times> reason) option" where
  "bash_pre_decision cfg m f forced cmd =
     (if fa_protected f \<noteq> None \<or> bash_request_floor_requires_prompt (fa_evaluation f) then None
      else Option.bind (fa_evaluation f) (\<lambda>e.
        if policy_forced_prompt (fa_preflight f)
        then (if mc_remember_tool_approvals cfg \<and> forced = None \<and> \<not> shell_file_forced_prompt (fa_preflight f)
              then bash_grant_pre_decision cmd e (mg_state m) (mc_yolo_pin cfg) ask_floor_remember
              else None)
        else bash_grant_pre_decision cmd e (mg_state m) (mc_yolo_pin cfg) (post_classify (forced \<noteq> None))))"

definition edit_pre_decision ::
    "('c, 'sig) manager \<Rightarrow> request_facts \<Rightarrow> (decision \<times> reason) option" where
  "edit_pre_decision m f =
     (if mg_allow_edits_for_session m \<and> fa_protected f = None then Some (Allow, RePersistedGrant)
      else if st_edit_policy (mg_state m) = EpReject then Some (Reject ''edits prohibited'', ReSessionDeny)
      else None)"

definition fetch_pre_decision ::
    "('c, 'sig) manager_env \<Rightarrow> manager_config \<Rightarrow> ('c, 'sig) manager \<Rightarrow> string
      \<Rightarrow> (decision \<times> reason) option" where
  "fetch_pre_decision M cfg m url =
     (case url_host (me_policy_env M) url of
        None \<Rightarrow> None
      | Some host \<Rightarrow>
          (case web_fetch_deny_pre_decision (me_policy_env M) url (mg_state m) of
             Some reject \<Rightarrow> Some (reject, ReSessionDeny)
           | None \<Rightarrow>
               if domain_check (me_policy_env M) (static_matcher M cfg) (Some host) (me_url_path M url) = None
               then Some (Allow, ReStaticAllowlist)
               else if List.member (st_allowed_web_fetch_domains (mg_state m))
                 (normalize_domain (me_policy_env M) host)
               then Some (Allow, RePersistedGrant) else None))"

definition pre_decision ::
    "('c, 'sig) manager_env \<Rightarrow> manager_config \<Rightarrow> ('c, 'sig) manager \<Rightarrow> request_facts \<Rightarrow> reason option
      \<Rightarrow> (decision \<times> reason) option" where
  "pre_decision M cfg m f forced =
     (let asked = policy_forced_prompt (fa_preflight f) in
      case fa_access f of
        AcRead p \<Rightarrow> if asked then None else Some (Allow, ReSafeCommand)
      | AcGrep p g \<Rightarrow> if asked then None else Some (Allow, ReSafeCommand)
      | AcWebSearch q \<Rightarrow> Some (Allow, ReSafeCommand)
      | AcMCPTool name input \<Rightarrow>
          map_option (\<lambda>d. (d, case d of Reject r \<Rightarrow> ReSessionDeny | _ \<Rightarrow> RePersistedGrant))
            (mcp_pre_decision name (mg_state m) asked (mc_remember_tool_approvals cfg))
      | AcEdit p \<Rightarrow> edit_pre_decision m f
      | AcBash cmd \<Rightarrow> bash_pre_decision cfg m f forced cmd
      | AcWebFetch url \<Rightarrow> fetch_pre_decision M cfg m url
      | AcAgentMessage a \<Rightarrow> None
      | AcTool t \<Rightarrow> None)"

definition is_bash :: "access_kind \<Rightarrow> bool" where
  "is_bash access \<longleftrightarrow> (case access of AcBash c \<Rightarrow> True | _ \<Rightarrow> False)"

definition is_fetch :: "access_kind \<Rightarrow> bool" where
  "is_fetch access \<longleftrightarrow> (case access of AcWebFetch u \<Rightarrow> True | _ \<Rightarrow> False)"

text \<open>Without an answer of the classifier, a URL that is on a list needs no question.\<close>

definition webfetch_static_fallback ::
    "access_kind \<Rightarrow> reason option \<Rightarrow> (decision \<times> reason) option \<Rightarrow> bool" where
  "webfetch_static_fallback access forced pre \<longleftrightarrow>
     (forced = Some ReAutoClassifierTimeout \<or> forced = Some ReAutoClassifierUnavailable) \<and>
     is_fetch access \<and>
     (pre = Some (Allow, ReStaticAllowlist) \<or> pre = Some (Allow, RePersistedGrant))"

definition allows_now :: "(decision \<times> reason) option \<Rightarrow> bool" where
  "allows_now pre \<longleftrightarrow> (case pre of Some (Allow, r) \<Rightarrow> True | _ \<Rightarrow> False)"

definition memory_stage ::
    "('c, 'sig) manager_env \<Rightarrow> manager_config \<Rightarrow> ('c, 'sig) manager \<Rightarrow> request_facts \<Rightarrow> reason option
      \<Rightarrow> answer option" where
  "memory_stage M cfg m f forced =
     (let pre = pre_decision M cfg m f forced in
      if allows_now pre \<and>
         (fa_hook f \<or>
          ((fa_recovered f \<or> (forced \<noteq> None \<and> \<not> is_bash (fa_access f))) \<and>
           \<not> webfetch_static_fallback (fa_access f) forced pre))
      then None
      else map_option (\<lambda>(decision, reason). (decision, True, reason)) pre)"

definition prompt_policy_deny_reason :: string where
  "prompt_policy_deny_reason = ''denied by prompt policy (tool not pre-approved)''"

definition prompt_policy_stage :: "manager_config \<Rightarrow> request_facts \<Rightarrow> answer option" where
  "prompt_policy_stage cfg f =
     (if prompt_policy_of cfg = PpDeny then Some (PolicyDeny prompt_policy_deny_reason, False, RePromptDeny)
      else if prompt_policy_of cfg = PpAllow \<and> \<not> fa_recovered f \<and> \<not> fa_hook f
      then Some (Allow, True, RePromptAllow) else None)"

section \<open>The prompt\<close>

definition opaque_floor :: "bash_evaluation option \<Rightarrow> bool" where
  "opaque_floor evaluation \<longleftrightarrow>
     (case evaluation of
        Some e \<Rightarrow> \<not> be_exact_grant e \<and> OpaqueShell \<in> be_assessment e | None \<Rightarrow> False)"

definition trigger_of_prompt :: "request_facts \<Rightarrow> reason option \<Rightarrow> reason" where
  "trigger_of_prompt f forced =
     unwrap_or
       (if fa_hook f then ReHookAsk
        else if opaque_floor (fa_evaluation f) then ReOpaqueShell
        else if bash_request_floor_requires_prompt (fa_evaluation f) then ReBashRequestFloor
        else ReNeedsUser)
       (prompt_trigger (fa_preflight f) forced)"

definition prompt_outcome_allows :: "prompt_outcome \<Rightarrow> bool" where
  "prompt_outcome_allows out \<longleftrightarrow>
     (case out of
        AllowOnce \<Rightarrow> True | AllowAlways \<Rightarrow> True | AllowEditsForSession \<Rightarrow> True
      | AllowAlwaysBashCommand s \<Rightarrow> True | AllowAlwaysBashGlob s \<Rightarrow> True | AllowAlwaysDomain s \<Rightarrow> True
      | AllowAlwaysMcpTool s \<Rightarrow> True | AllowAlwaysMcpServer s \<Rightarrow> True
      | _ \<Rightarrow> False)"

definition prompt_outcome_rejects :: "prompt_outcome \<Rightarrow> bool" where
  "prompt_outcome_rejects out \<longleftrightarrow>
     (case out of
        RejectOnce \<Rightarrow> True | RejectAlwaysBashCommand s \<Rightarrow> True | RejectAlwaysMcpTool s \<Rightarrow> True
      | RejectAlwaysDomain s \<Rightarrow> True | _ \<Rightarrow> False)"

text \<open>A message to an agent and a plain tool have no store: an answer holds for the call.\<close>

definition coerce_outcome :: "access_kind \<Rightarrow> prompt_outcome \<Rightarrow> prompt_outcome" where
  "coerce_outcome access out =
     (case access of
        AcAgentMessage a \<Rightarrow>
          if prompt_outcome_allows out then AllowOnce
          else if prompt_outcome_rejects out then RejectOnce else out
      | AcTool t \<Rightarrow>
          if prompt_outcome_allows out then AllowOnce
          else if prompt_outcome_rejects out then RejectOnce else out
      | _ \<Rightarrow> out)"

definition user_rejected :: decision where
  "user_rejected = Reject ''User rejected the execution''"

definition grants_edits_for_session :: "access_kind \<Rightarrow> prompt_outcome \<Rightarrow> bool" where
  "grants_edits_for_session access out \<longleftrightarrow>
     (case access of AcEdit p \<Rightarrow> out = AllowEditsForSession | _ \<Rightarrow> False)"

text \<open>The decision and the outcome that is reported: a scope that recorded nothing is a once-answer.\<close>

definition decision_of_outcome ::
    "access_kind \<Rightarrow> prompt_outcome \<Rightarrow> string option \<Rightarrow> decision \<times> string" where
  "decision_of_outcome access out recorded =
     (let kind = prompt_outcome_wire out;
          once = prompt_outcome_wire AllowOnce;
          grant = (Allow, if recorded \<noteq> None then kind else once);
          refuse = (case recorded of
              Some key \<Rightarrow>
                (Reject (''User rejected the execution and excluded `'' @ key @
                  ''` from future runs in this project''), kind)
            | None \<Rightarrow> (user_rejected, prompt_outcome_wire RejectOnce))
      in case out of
           AllowOnce \<Rightarrow> (Allow, kind)
         | AllowAlways \<Rightarrow> (Allow, kind)
         | AllowEditsForSession \<Rightarrow> (Allow, if grants_edits_for_session access out then kind else once)
         | AllowAlwaysBashCommand s \<Rightarrow> grant
         | AllowAlwaysBashGlob s \<Rightarrow> grant
         | AllowAlwaysDomain s \<Rightarrow> grant
         | AllowAlwaysMcpTool s \<Rightarrow> grant
         | AllowAlwaysMcpServer s \<Rightarrow> grant
         | RejectOnce \<Rightarrow> (user_rejected, kind)
         | RejectAlwaysBashCommand s \<Rightarrow> refuse
         | RejectAlwaysMcpTool s \<Rightarrow> refuse
         | RejectAlwaysDomain s \<Rightarrow> refuse
         | PromptCancelled \<Rightarrow> (Cancelled, kind)
         | PromptFollowup msg \<Rightarrow> (FollowupMessage msg, kind)
         | PromptError e \<Rightarrow> (Reject (''Failed to request permission from user: '' @ e), kind))"

definition prompted_decision_approved :: "decision \<Rightarrow> string \<Rightarrow> bool option" where
  "prompted_decision_approved decision outcome_str =
     (case decision of
        Allow \<Rightarrow> Some True
      | Reject r \<Rightarrow> if outcome_str \<noteq> ''error'' then Some False else None
      | _ \<Rightarrow> None)"

definition max_recorded_permission_decisions :: nat where
  "max_recorded_permission_decisions = 12"

definition push_recorded :: "turn \<Rightarrow> turn list \<Rightarrow> turn list" where
  "push_recorded t ts = drop (length ts + 1 - max_recorded_permission_decisions) (ts @ [t])"

definition record_decision ::
    "('c, 'sig) manager_env \<Rightarrow> access_kind \<Rightarrow> decision \<Rightarrow> string \<Rightarrow> ('c, 'sig) manager \<Rightarrow> ('c, 'sig) manager" where
  "record_decision M access decision outcome_str m =
     (case prompted_decision_approved decision outcome_str of
        None \<Rightarrow> m
      | Some approved \<Rightarrow>
          m\<lparr>mg_recorded_decisions :=
             push_recorded
               (PermissionDecision (tool_name_for_access access)
                 (permission_decision_args (me_classifier_env M) access (access_detail_of M access)) approved)
               (mg_recorded_decisions m)\<rparr>)"

text \<open>What is remembered of an answer, and written to the store when there is anything to write.\<close>

definition remember_outcome ::
    "('c, 'sig) manager_env \<Rightarrow> manager_config \<Rightarrow> access_kind \<Rightarrow> prompt_outcome \<Rightarrow> ('c, 'sig) manager
      \<Rightarrow> ('c, 'sig) manager \<times> string option" where
  "remember_outcome M cfg access out m =
     (let (state, recorded) = record_prompt_outcome (me_policy_env M) (mg_state m) access out;
          m = m\<lparr>mg_state := state\<rparr>;
          m = (if recorded \<noteq> None then save_state M cfg m else m)
      in (m\<lparr>mg_allow_edits_for_session :=
            mg_allow_edits_for_session m \<or> grants_edits_for_session access out\<rparr>, recorded))"

section \<open>One request\<close>

text \<open>What a request leaves behind: the manager, what was sent to the requester, and the event.\<close>

record ('c, 'sig) request_result =
  rr_manager :: "('c, 'sig) manager"
  rr_decision :: "decision option"
  rr_event :: permission_event

definition requester_gone ::
    "('c, 'sig) manager_env \<Rightarrow> manager_config \<Rightarrow> ('c, 'sig) manager \<Rightarrow> permission_request
      \<Rightarrow> request_classification \<Rightarrow> ('c, 'sig) request_result" where
  "requester_gone M cfg m rq rc =
     \<lparr>rr_manager = m, rr_decision = None,
      rr_event = emit_event M cfg m rq rc Cancelled False False None ReRequesterGone\<rparr>"

definition answer_request ::
    "('c, 'sig) manager_env \<Rightarrow> manager_config \<Rightarrow> ('c, 'sig) manager \<Rightarrow> permission_request
      \<Rightarrow> request_classification \<Rightarrow> answer \<Rightarrow> ('c, 'sig) request_result" where
  "answer_request M cfg m rq rc a =
     (case a of (decision, auto_approved, reason) \<Rightarrow>
        \<lparr>rr_manager = m, rr_decision = Some decision,
         rr_event = emit_event M cfg m rq rc decision auto_approved False None reason\<rparr>)"

definition prompt_user ::
    "('c, 'sig) manager_env \<Rightarrow> manager_config \<Rightarrow> ('c, 'sig) manager \<Rightarrow> permission_request \<Rightarrow> request_facts
      \<Rightarrow> request_classification \<Rightarrow> reason option \<Rightarrow> request_world \<Rightarrow> ('c, 'sig) request_result" where
  "prompt_user M cfg m rq f rc forced w =
     (let access = rq_access rq;
          out = coerce_outcome access (if closed_at w 4 then PromptCancelled else rw_answer w);
          (m, recorded) = remember_outcome M cfg access out m;
          (decision, outcome_str) = decision_of_outcome access out recorded;
          m = record_decision M access decision outcome_str m;
          gone = (decision = Cancelled \<and> closed_at w 4);
          trigger = (if gone then ReRequesterGone else trigger_of_prompt f forced)
      in \<lparr>rr_manager =
            (if outcome_str \<noteq> ''error'' \<and> \<not> gone
             then m\<lparr>mg_consecutive_denials := 0, mg_total_denials := 0\<rparr> else m),
          rr_decision = Some decision,
          rr_event = emit_event M cfg m rq rc decision False True (Some outcome_str) trigger\<rparr>)"

text \<open>The stages after the classifier, in their order, and the prompt at the end.\<close>

definition late_answer ::
    "('c, 'sig) manager_env \<Rightarrow> manager_config \<Rightarrow> ('c, 'sig) manager \<Rightarrow> request_facts \<Rightarrow> reason option
      \<Rightarrow> answer option" where
  "late_answer M cfg m f forced =
     or_else (sandbox_stage M f forced)
       (or_else (policy_allow_stage M cfg f forced)
         (or_else (memory_stage M cfg m f forced) (prompt_policy_stage cfg f)))"

definition settle ::
    "('c, 'sig) manager_env \<Rightarrow> manager_config \<Rightarrow> ('c, 'sig) manager \<Rightarrow> permission_request \<Rightarrow> request_facts
      \<Rightarrow> request_classification \<Rightarrow> reason option \<Rightarrow> request_world \<Rightarrow> ('c, 'sig) request_result" where
  "settle M cfg m rq f rc forced w =
     (case late_answer M cfg m f forced of
        Some a \<Rightarrow> answer_request M cfg m rq rc a
      | None \<Rightarrow>
          if closed_at w 3 then requester_gone M cfg m rq rc
          else prompt_user M cfg m rq f rc forced w)"

definition early_answer ::
    "('c, 'sig) manager_env \<Rightarrow> manager_config \<Rightarrow> ('c, 'sig) manager \<Rightarrow> request_facts \<Rightarrow> answer option" where
  "early_answer M cfg m f =
     or_else (policy_stage f)
       (or_else (yolo_stage m f)
         (or_else (session_stage M cfg m f) (auto_policy_stage M cfg m f)))"

definition handle_request ::
    "('c, 'sig) manager_env \<Rightarrow> manager_config \<Rightarrow> ('c, 'sig) manager \<Rightarrow> permission_request \<Rightarrow> request_world
      \<Rightarrow> ('c, 'sig) request_result" where
  "handle_request M cfg m rq w =
     (if closed_at w 0 then requester_gone M cfg m rq NotClassified
      else
        (let m = reload_grants M m (rq_access rq); f = facts_of M cfg m rq in
         if fa_scanned f \<and> closed_at w 1 then requester_gone M cfg m rq NotClassified
         else case early_answer M cfg m f of
           Some a \<Rightarrow> answer_request M cfg m rq NotClassified a
         | None \<Rightarrow>
             (case auto_stage M cfg m f w of
                (AutoAnswer a, rc, m) \<Rightarrow> answer_request M cfg m rq rc a
              | (AutoGone, rc, m) \<Rightarrow> requester_gone M cfg m rq rc
              | (AutoGoOn forced, rc, m) \<Rightarrow> settle M cfg m rq f rc forced w)))"

section \<open>Commands\<close>

datatype permission_command =
    CmdRequest permission_request request_world
  | CmdSetYoloMode bool
  | CmdSetAutoMode bool
  | CmdSetClassifier "classifier option"
  | CmdSetClassifierTranscript "turn list"
  | CmdSetProjectInstructions "string option"
  | CmdResetState
  | CmdShutdown

definition set_yolo_mode :: "manager_config \<Rightarrow> bool \<Rightarrow> ('c, 'sig) manager \<Rightarrow> ('c, 'sig) manager" where
  "set_yolo_mode cfg enabled m =
     (let clamped = clamp_yolo enabled (mc_yolo_pin cfg)
      in m\<lparr>mg_yolo_mode := clamped, mg_auto_mode := mg_auto_mode m \<and> \<not> clamped\<rparr>)"

definition set_auto_mode ::
    "('c, 'sig) manager_env \<Rightarrow> bool \<Rightarrow> ('c, 'sig) manager \<Rightarrow> ('c, 'sig) manager" where
  "set_auto_mode M enabled m =
     (let m = m\<lparr>mg_auto_mode := enabled\<rparr> in
      if enabled
      then m\<lparr>mg_yolo_mode := False,
             mg_auto_classifier :=
               (case mg_auto_classifier m of
                  None \<Rightarrow> Some (default_auto_mode_classifier M) | Some c \<Rightarrow> Some c)\<rparr>
      else m)"

definition reset_state ::
    "('c, 'sig) manager_env \<Rightarrow> manager_config \<Rightarrow> ('c, 'sig) manager \<Rightarrow> ('c, 'sig) manager" where
  "reset_state M cfg m =
     m\<lparr>mg_state := default_state,
       mg_files := replace_state_on_disk (me_store_env M) (mc_cwd cfg) default_state
         (mc_client_identifier cfg) (mg_files m),
       mg_allow_edits_for_session := False\<rparr>"

definition on_command ::
    "('c, 'sig) manager_env \<Rightarrow> manager_config \<Rightarrow> permission_command \<Rightarrow> ('c, 'sig) manager
      \<Rightarrow> ('c, 'sig) manager" where
  "on_command M cfg cmd m =
     (case cmd of
        CmdRequest rq w \<Rightarrow> rr_manager (handle_request M cfg m rq w)
      | CmdSetYoloMode enabled \<Rightarrow> set_yolo_mode cfg enabled m
      | CmdSetAutoMode enabled \<Rightarrow> set_auto_mode M enabled m
      | CmdSetClassifier classifier \<Rightarrow> m\<lparr>mg_auto_classifier := classifier\<rparr>
      | CmdSetClassifierTranscript turns \<Rightarrow> m\<lparr>mg_classifier_turns := turns\<rparr>
      | CmdSetProjectInstructions instructions \<Rightarrow> m\<lparr>mg_project_instructions := instructions\<rparr>
      | CmdResetState \<Rightarrow> reset_state M cfg m
      | CmdShutdown \<Rightarrow> m)"

text \<open>The loop of the actor, with what it sent and emitted; it ends at a shutdown.\<close>

fun run_manager ::
    "('c, 'sig) manager_env \<Rightarrow> manager_config \<Rightarrow> permission_command list \<Rightarrow> ('c, 'sig) manager
      \<Rightarrow> (decision option \<times> permission_event) list \<times> ('c, 'sig) manager" where
  "run_manager M cfg [] m = ([], m)"
| "run_manager M cfg (CmdShutdown # cmds) m = ([], m)"
| "run_manager M cfg (cmd # cmds) m =
     (let (outs, m') = run_manager M cfg cmds (on_command M cfg cmd m)
      in ((case cmd of
             CmdRequest rq w \<Rightarrow>
               [(rr_decision (handle_request M cfg m rq w), rr_event (handle_request M cfg m rq w))]
           | _ \<Rightarrow> []) @ outs, m'))"

end
