(* ===== verification/ManagerLaws.thy ===== *)
theory ManagerLaws imports PermManager PermStateLaws PolicyAllow begin

text \<open>
  The properties of the permission manager: what every stage can answer, the ways in which a request
  is allowed, the invariant of the actor and its budget of denials.
\<close>

named_theorems stage_defs

lemmas [stage_defs] =
  policy_stage_def yolo_stage_def session_stage_def auto_policy_stage_def sandbox_stage_def
  policy_allow_stage_def memory_stage_def prompt_policy_stage_def

section \<open>The ways through a request\<close>

lemma or_else_Some: "or_else a b = Some x \<longleftrightarrow> a = Some x \<or> a = None \<and> b = Some x"
  by (cases a) simp_all

lemma or_else_None: "or_else a b = None \<longleftrightarrow> a = None \<and> b = None"
  by (cases a) simp_all

lemma closed_gone: "closed_at w n \<Longrightarrow> rw_gone w \<noteq> None"
  by (auto simp: closed_at_def split: option.splits)

lemma auto_stage_gone: "auto_stage M cfg m f w = (AutoGone, rc, m') \<Longrightarrow> rw_gone w \<noteq> None"
  using closed_gone [of w 2]
  by (auto simp: auto_stage_def classify_stage_def classify_route_def on_verdict_def Let_def
    split: if_splits auto_fast_path.splits option.splits verdict.splits route_result.splits)

lemma settle_cases:
  obtains (answered) a where "late_answer M cfg m f forced = Some a"
      "settle M cfg m rq f rc forced w = answer_request M cfg m rq rc a"
  | (unheard) "settle M cfg m rq f rc forced w = requester_gone M cfg m rq rc" "rw_gone w \<noteq> None"
  | (prompted) "late_answer M cfg m f forced = None"
      "settle M cfg m rq f rc forced w = prompt_user M cfg m rq f rc forced w"
  using closed_gone [of w 3]
  by (cases "late_answer M cfg m f forced"; cases "closed_at w 3") (auto simp: settle_def)

text \<open>
  Every request ends in one of five ways: its requester is gone, it is answered before the
  classifier, by it or after it, or the user is asked.
\<close>

lemma handle_request_cases [consumes 2, case_names unheard early classified late prompt]:
  fixes M :: "('c, 'sig) manager_env" and m :: "('c, 'sig) manager"
  assumes "m1 = reload_grants M m (rq_access rq)" and "f = facts_of M cfg m1 rq"
  obtains
    (unheard) rc m' where "handle_request M cfg m rq w = requester_gone M cfg m' rq rc"
      "m' = m \<or> m' = m1 \<or> (\<exists>route. auto_stage M cfg m1 f w = (route, rc, m'))" "rw_gone w \<noteq> None"
  | (early) a where "early_answer M cfg m1 f = Some a"
      "handle_request M cfg m rq w = answer_request M cfg m1 rq NotClassified a"
  | (classified) a rc m2 where "early_answer M cfg m1 f = None"
      "auto_stage M cfg m1 f w = (AutoAnswer a, rc, m2)"
      "handle_request M cfg m rq w = answer_request M cfg m2 rq rc a"
  | (late) forced rc m2 a where "early_answer M cfg m1 f = None"
      "auto_stage M cfg m1 f w = (AutoGoOn forced, rc, m2)" "late_answer M cfg m2 f forced = Some a"
      "handle_request M cfg m rq w = answer_request M cfg m2 rq rc a"
  | (prompt) forced rc m2 where "early_answer M cfg m1 f = None"
      "auto_stage M cfg m1 f w = (AutoGoOn forced, rc, m2)" "late_answer M cfg m2 f forced = None"
      "handle_request M cfg m rq w = prompt_user M cfg m2 rq f rc forced w"
proof (cases "closed_at w 0 \<or> fa_scanned f \<and> closed_at w 1")
  case True
  moreover from this have "rw_gone w \<noteq> None" using closed_gone by blast
  ultimately show thesis
    using unheard [of m NotClassified] unheard [of m1 NotClassified] assms
    unfolding handle_request_def Let_def by (cases "closed_at w 0") simp_all
next
  case False
  note heard = this
  obtain route rc m2 where stage: "auto_stage M cfg m1 f w = (route, rc, m2)" by (metis prod_cases3)
  show thesis
  proof (cases "early_answer M cfg m1 f")
    case (Some a)
    with heard assms show thesis by (intro early) (auto simp: handle_request_def Let_def)
  next
    case None
    show thesis
    proof (cases route)
      case (AutoAnswer a)
      with heard None stage assms show thesis by (intro classified) (auto simp: handle_request_def Let_def)
    next
      case AutoGone
      with heard None stage assms have "handle_request M cfg m rq w = requester_gone M cfg m2 rq rc"
        by (auto simp: handle_request_def Let_def)
      with stage AutoGone auto_stage_gone show thesis by (intro unheard) auto
    next
      case (AutoGoOn forced)
      with heard None stage assms
      have settled: "handle_request M cfg m rq w = settle M cfg m2 rq f rc forced w"
        by (auto simp: handle_request_def Let_def)
      show thesis
        using settled stage None AutoGoOn unheard late prompt
        by (cases rule: settle_cases [of M cfg m2 f forced rq rc w]) auto
    qed
  qed
qed

section \<open>What the stages leave alone\<close>

text \<open>The classifier stage touches the counters only: a denial counts, an approval ends the row.\<close>

lemma auto_stage_frame:
  assumes "auto_stage M cfg m f w = (route, rc, m')"
  shows "m' = m \<or> m' = m\<lparr>mg_consecutive_denials := 0\<rparr> \<or>
    may_deny m \<and> (\<exists>text. route = AutoAnswer (PolicyDeny text, False, ReAutoClassifierDeny)) \<and>
    m' = m\<lparr>mg_consecutive_denials := mg_consecutive_denials m + 1,
           mg_total_denials := mg_total_denials m + 1\<rparr>"
  using assms
  by (auto simp: auto_stage_def classify_stage_def on_verdict_def Let_def
    split: if_splits auto_fast_path.splits verdict.splits route_result.splits)

lemma auto_stage_same:
  assumes "auto_stage M cfg m f w = (route, rc, m')"
  shows "mg_state m' = mg_state m" "mg_allow_edits_for_session m' = mg_allow_edits_for_session m"
    "mg_yolo_mode m' = mg_yolo_mode m" "mg_auto_mode m' = mg_auto_mode m"
    "mg_recorded_decisions m' = mg_recorded_decisions m" "mg_auto_classifier m' = mg_auto_classifier m"
    "mg_classifier_turns m' = mg_classifier_turns m"
    "mg_project_instructions m' = mg_project_instructions m" "mg_files m' = mg_files m"
  using auto_stage_frame [OF assms] by auto

lemma reload_frame:
  shows "mg_allow_edits_for_session (reload_grants M m access) = mg_allow_edits_for_session m"
    "mg_yolo_mode (reload_grants M m access) = mg_yolo_mode m"
    "mg_auto_mode (reload_grants M m access) = mg_auto_mode m"
    "mg_recorded_decisions (reload_grants M m access) = mg_recorded_decisions m"
    "mg_consecutive_denials (reload_grants M m access) = mg_consecutive_denials m"
    "mg_total_denials (reload_grants M m access) = mg_total_denials m"
    "mg_auto_classifier (reload_grants M m access) = mg_auto_classifier m"
    "st_edit_policy (mg_state (reload_grants M m access)) = st_edit_policy (mg_state m)"
    "st_allow_bash_execute (mg_state (reload_grants M m access)) = st_allow_bash_execute (mg_state m)"
  by (auto simp: reload_grants_def merge_grants_from_def Let_def
    split: access_kind.splits prod.splits option.splits)

section \<open>The grounds of an approval\<close>

definition user_approved :: "request_world \<Rightarrow> permission_event \<Rightarrow> bool" where
  "user_approved w ev \<longleftrightarrow>
     ev_user_prompted ev \<and> \<not> closed_at w 4 \<and> prompt_outcome_allows (rw_answer w)"

text \<open>The classifier that is installed, on the findings of the request, allows it.\<close>

definition classifier_allows ::
    "('c, 'sig) manager_env \<Rightarrow> ('c, 'sig) manager \<Rightarrow> request_facts \<Rightarrow> bool" where
  "classifier_allows M m f \<longleftrightarrow>
     (case mg_auto_classifier m of
        None \<Rightarrow> False
      | Some clf \<Rightarrow>
          co_verdict (clf (tool_name_for_access (fa_access f)) (fa_access f)
            (access_detail_of M (fa_access f))
            \<lparr>cx_turns = mg_classifier_turns m @ mg_recorded_decisions m,
             cx_project_instructions = mg_project_instructions m,
             cx_security_findings =
               classifier_assessment (fa_evaluation f) (gp_defers_gate_ask (fa_preflight f))\<rparr>) = VAllow)"

definition auto_mode_allows ::
    "('c, 'sig) manager_env \<Rightarrow> ('c, 'sig) manager \<Rightarrow> request_facts \<Rightarrow> bool" where
  "auto_mode_allows M m f \<longleftrightarrow>
     mg_auto_mode m \<and> admits_auto_classifier (fa_preflight f) \<and>
     \<not> access_requires_user_interaction (tool_name_for_access (fa_access f)) (fa_access f) \<and>
     (auto_mode_fast_path (fa_access f) (tool_name_for_access (fa_access f)) False = FastAllow \<or>
      classifier_allows M m f)"

text \<open>
  Memory, or the kind of the access, allows it. Plain reads and searches of files need no answer of the
  user unless the policy asks, searches of the web never do, and a fetch passes if its domain is on the
  static list or was allowed before; for the others there must be an earlier answer, and for a command
  also the safe list counts (\<open>bash_grant_pre_decision\<close>).
\<close>

definition memory_allows ::
    "('c, 'sig) manager_env \<Rightarrow> manager_config \<Rightarrow> ('c, 'sig) manager \<Rightarrow> request_facts \<Rightarrow> bool" where
  "memory_allows M cfg m f \<longleftrightarrow>
     (let asked = policy_forced_prompt (fa_preflight f); state = mg_state m in
      case fa_access f of
        AcRead p \<Rightarrow> \<not> asked
      | AcGrep p g \<Rightarrow> \<not> asked
      | AcWebSearch q \<Rightarrow> True
      | AcMCPTool name input \<Rightarrow>
          mcp_pre_decision name state asked (mc_remember_tool_approvals cfg) = Some Allow
      | AcEdit p \<Rightarrow> mg_allow_edits_for_session m
      | AcBash cmd \<Rightarrow>
          (\<exists>e opts r. fa_evaluation f = Some e \<and>
             bash_grant_pre_decision cmd e state (mc_yolo_pin cfg) opts = Some (Allow, r) \<and>
             (asked \<longrightarrow> mc_remember_tool_approvals cfg \<and> opts = ask_floor_remember \<and>
                \<not> shell_file_forced_prompt (fa_preflight f)))
      | AcWebFetch url \<Rightarrow>
          (\<exists>host. url_host (me_policy_env M) url = Some host \<and>
             web_fetch_deny_pre_decision (me_policy_env M) url state = None \<and>
             (domain_check (me_policy_env M) (static_matcher M cfg) (Some host) (me_url_path M url) = None \<or>
              List.member (st_allowed_web_fetch_domains state) (normalize_domain (me_policy_env M) host)))
      | _ \<Rightarrow> False)"

definition approval_ground ::
    "('c, 'sig) manager_env \<Rightarrow> manager_config \<Rightarrow> ('c, 'sig) manager \<Rightarrow> request_facts \<Rightarrow> bool" where
  "approval_ground M cfg m f \<longleftrightarrow>
     mg_yolo_mode m \<and> \<not> shell_forced_prompt (fa_preflight f) \<or>
     prompt_policy_of cfg = PpAllow \<and> \<not> fa_recovered f \<or>
     fa_protected f = None \<and>
       (policy_decision (fa_preflight f) = Some Allow \<or> auto_mode_allows M m f \<or>
        memory_allows M cfg m f \<or>
        is_bash (fa_access f) \<and> me_sandbox_auto_bash M \<and>
          \<not> bash_request_floor_requires_prompt (fa_evaluation f) \<and>
          \<not> policy_forced_prompt (fa_preflight f))"

lemma ground_same:
  assumes "auto_stage M cfg m f w = (route, rc, m')"
  shows "approval_ground M cfg m' f = approval_ground M cfg m f"
    "memory_allows M cfg m' f = memory_allows M cfg m f"
  using auto_stage_same [OF assms]
  by (simp_all add: approval_ground_def auto_mode_allows_def memory_allows_def classifier_allows_def
    cong: option.case_cong access_kind.case_cong)

lemma protected_kinds:
  "fa_protected (facts_of M cfg m rq) = None \<or>
     (\<exists>p. fa_access (facts_of M cfg m rq) = AcEdit p) \<or> (\<exists>c. fa_access (facts_of M cfg m rq) = AcBash c)"
  by (cases "rq_access rq") (auto simp: facts_of_def Let_def protected_target_def)

lemma session_grant_memory:
  assumes "session_grant_pre_decision (me_policy_env M) (me_url_path M) (fa_access f) (fa_evaluation f)
      (mg_state m) (mg_allow_edits_for_session m)
      (if b then None else Some (static_matcher M cfg)) (mc_yolo_pin cfg) = Some (Allow, r)"
    and "\<not> policy_forced_prompt (fa_preflight f)"
  shows "memory_allows M cfg m f"
  using assms
  by (cases "fa_access f")
    (auto simp: session_grant_pre_decision_def memory_allows_def mcp_pre_decision_def allow_if_def
      web_fetch_pre_decision_def web_fetch_deny_pre_decision_def
      split: if_splits option.splits bind_splits)

section \<open>What each stage can allow\<close>

lemma early_allows:
  assumes "early_answer M cfg m f = Some (Allow, automatic, r)"
  shows "policy_decision (fa_preflight f) \<noteq> Some (Reject t)" "\<not> fa_hook f" "approval_ground M cfg m f"
proof -
  from assms have no_policy: "policy_stage f = None"
    by (auto simp: early_answer_def or_else_Some policy_stage_def split: option.splits decision.splits)
  then show "policy_decision (fa_preflight f) \<noteq> Some (Reject t)" by (auto simp: policy_stage_def)
  from assms no_policy consider "yolo_stage m f = Some (Allow, automatic, r)"
    | "session_stage M cfg m f = Some (Allow, automatic, r)"
    | "auto_policy_stage M cfg m f = Some (Allow, automatic, r)"
    by (auto simp: early_answer_def or_else_Some)
  then have "\<not> fa_hook f \<and> approval_ground M cfg m f"
  proof cases
    case 1
    then show ?thesis by (auto simp: yolo_stage_def approval_ground_def split: if_splits)
  next
    case 2
    then have "\<not> policy_forced_prompt (fa_preflight f)" "fa_protected f = None" "\<not> fa_hook f"
      by (auto simp: session_stage_def forced_before_classifier_def split: if_splits)
    moreover from 2 have "memory_allows M cfg m f"
      using session_grant_memory [of M f m "mg_auto_mode m \<and> allowlist_is_default cfg" cfg]
      by (auto simp: session_stage_def forced_before_classifier_def split: if_splits option.splits prod.splits)
    ultimately show ?thesis by (simp add: approval_ground_def)
  next
    case 3
    then show ?thesis
      by (auto simp: auto_policy_stage_def approval_ground_def forced_before_classifier_def Let_def
        split: if_splits)
  qed
  then show "\<not> fa_hook f" "approval_ground M cfg m f" by simp_all
qed

lemma fast_path_quiet:
  "auto_mode_fast_path access tool needs_user \<noteq> FastPromptUser \<Longrightarrow> \<not> needs_user"
  by (auto simp: auto_mode_fast_path_def)

lemma verdict_allows:
  assumes "on_verdict cfg m f out = (AutoAnswer (Allow, automatic, r), m')"
  shows "co_verdict out = VAllow" "\<not> fa_hook f"
  using assms by (auto simp: on_verdict_def Let_def split: verdict.splits if_splits)

lemma auto_allows:
  assumes "auto_stage M cfg m f w = (AutoAnswer (Allow, automatic, r), rc, m')"
  shows "\<not> fa_hook f" "approval_ground M cfg m f"
proof -
  let ?tool = "tool_name_for_access (fa_access f)"
  let ?needs = "fa_protected f \<noteq> None \<or> access_requires_user_interaction ?tool (fa_access f)"
  from assms have auto: "mg_auto_mode m" "admits_auto_classifier (fa_preflight f)"
    by (auto simp: auto_stage_def split: if_splits)
  with assms have path: "auto_mode_fast_path (fa_access f) ?tool ?needs = FastAllow \<and> \<not> fa_hook f \<or>
      auto_mode_fast_path (fa_access f) ?tool ?needs = FastClassify \<and>
      classify_stage M cfg m f w = (AutoAnswer (Allow, automatic, r), rc, m')"
    by (auto simp: auto_stage_def Let_def split: auto_fast_path.splits if_splits)
  then have "auto_mode_fast_path (fa_access f) ?tool ?needs \<noteq> FastPromptUser" by auto
  then have quiet: "\<not> ?needs" by (rule fast_path_quiet)
  have "\<not> fa_hook f \<and> (auto_mode_fast_path (fa_access f) ?tool False = FastAllow \<or> classifier_allows M m f)"
    using path
  proof
    assume "auto_mode_fast_path (fa_access f) ?tool ?needs = FastAllow \<and> \<not> fa_hook f"
    with quiet show ?thesis by simp
  next
    assume "auto_mode_fast_path (fa_access f) ?tool ?needs = FastClassify \<and>
      classify_stage M cfg m f w = (AutoAnswer (Allow, automatic, r), rc, m')"
    then show ?thesis
      by (auto simp: classify_stage_def classify_route_def classifier_allows_def Let_def outcome_heuristic_def
        dest: verdict_allows split: route_result.splits prod.splits option.splits if_splits)
  qed
  with auto quiet show "\<not> fa_hook f" "approval_ground M cfg m f"
    by (auto simp: approval_ground_def auto_mode_allows_def)
qed

lemma memory_stage_allows:
  assumes "memory_stage M cfg m f forced = Some (Allow, automatic, r)"
    and "fa_protected f = None \<or> (\<exists>p. fa_access f = AcEdit p) \<or> (\<exists>c. fa_access f = AcBash c)"
  shows "\<not> fa_hook f" "memory_allows M cfg m f" "fa_protected f = None"
proof -
  have pre: "pre_decision M cfg m f forced = Some (Allow, r)"
    using assms(1) by (auto simp: memory_stage_def Let_def split: if_splits)
  then have "allows_now (pre_decision M cfg m f forced)" by (simp add: allows_now_def)
  with assms(1) show "\<not> fa_hook f" by (auto simp: memory_stage_def Let_def split: if_splits)
  from pre show "memory_allows M cfg m f"
    by (cases "fa_access f")
      (auto simp: pre_decision_def memory_allows_def bash_pre_decision_def edit_pre_decision_def
        fetch_pre_decision_def web_fetch_deny_pre_decision_def Let_def
        split: if_splits option.splits bind_splits)
  from pre assms(2) show "fa_protected f = None"
    by (cases "fa_access f")
      (auto simp: pre_decision_def bash_pre_decision_def edit_pre_decision_def Let_def split: if_splits)
qed

lemma late_allows:
  assumes "late_answer M cfg m f forced = Some (Allow, automatic, r)"
    and "fa_protected f = None \<or> (\<exists>p. fa_access f = AcEdit p) \<or> (\<exists>c. fa_access f = AcBash c)"
  shows "\<not> fa_hook f \<and> approval_ground M cfg m f"
proof -
  from assms(1) consider "sandbox_stage M f forced = Some (Allow, automatic, r)"
    | "policy_allow_stage M cfg f forced = Some (Allow, automatic, r)"
    | "memory_stage M cfg m f forced = Some (Allow, automatic, r)"
    | "prompt_policy_stage cfg f = Some (Allow, automatic, r)"
    by (auto simp: late_answer_def or_else_Some)
  then show ?thesis
  proof cases
    case 1
    then show ?thesis
      by (auto simp: sandbox_stage_def approval_ground_def is_bash_def split: if_splits)
  next
    case 2
    then show ?thesis
      by (auto simp: policy_allow_stage_def approval_ground_def split: if_splits option.splits decision.splits)
  next
    case 3
    with memory_stage_allows [OF 3 assms(2)] show ?thesis by (simp add: approval_ground_def)
  next
    case 4
    then show ?thesis by (auto simp: prompt_policy_stage_def approval_ground_def split: if_splits)
  qed
qed

lemma no_policy_stage: "early_answer M cfg m f = None \<Longrightarrow> policy_decision (fa_preflight f) \<noteq> Some (Reject t)"
  by (auto simp: early_answer_def or_else_None policy_stage_def)

section \<open>The prompt\<close>

lemma coerced_allows: "prompt_outcome_allows (coerce_outcome access out) = prompt_outcome_allows out"
  by (cases access; cases out)
    (simp_all add: coerce_outcome_def prompt_outcome_allows_def prompt_outcome_rejects_def)

lemma allowing_outcome:
  "fst (decision_of_outcome access out recorded) = Allow \<longleftrightarrow> prompt_outcome_allows out"
  by (cases out)
    (simp_all add: decision_of_outcome_def prompt_outcome_allows_def user_rejected_def Let_def
      split: option.split)

lemma prompt_decision:
  "rr_decision (prompt_user M cfg m rq f rc forced w) = Some Allow \<longleftrightarrow>
     \<not> closed_at w 4 \<and> prompt_outcome_allows (rw_answer w)"
proof -
  let ?out = "coerce_outcome (rq_access rq) (if closed_at w 4 then PromptCancelled else rw_answer w)"
  have "rr_decision (prompt_user M cfg m rq f rc forced w) =
      Some (fst (decision_of_outcome (rq_access rq) ?out (snd (remember_outcome M cfg (rq_access rq) ?out m))))"
    by (simp add: prompt_user_def Let_def split: prod.split)
  moreover have "\<not> prompt_outcome_allows PromptCancelled" by (simp add: prompt_outcome_allows_def)
  ultimately show ?thesis by (simp add: allowing_outcome coerced_allows)
qed

lemma prompt_event:
  "ev_user_prompted (rr_event (prompt_user M cfg m rq f rc forced w))"
  by (simp add: prompt_user_def emit_event_def Let_def split: prod.split)

lemma answer_request_simps [simp]:
  "rr_decision (answer_request M cfg m rq rc (d, a, r)) = Some d"
  "rr_manager (answer_request M cfg m rq rc (d, a, r)) = m"
  "\<not> ev_user_prompted (rr_event (answer_request M cfg m rq rc (d, a, r)))"
  "ev_decision_reason (rr_event (answer_request M cfg m rq rc (d, a, r))) = reason_str r"
  "ev_decision (rr_event (answer_request M cfg m rq rc (d, a, r))) = decision_name d"
  "rr_decision (requester_gone M cfg m rq rc) = None" "rr_manager (requester_gone M cfg m rq rc) = m"
  "\<not> ev_user_prompted (rr_event (requester_gone M cfg m rq rc))"
  "ev_decision_reason (rr_event (requester_gone M cfg m rq rc)) = reason_str ReRequesterGone"
  by (simp_all add: answer_request_def requester_gone_def emit_event_def)

section \<open>A concrete manager\<close>

text \<open>
  A manager on a disk without files, in a workspace that no repository configuration touches; the
  host of a URL is what stands between the scheme and the next slash.
\<close>

definition host_of_https :: "string \<Rightarrow> string option" where
  "host_of_https url =
     (if starts_with url ''https://''
      then Some (takeWhile (\<lambda>c. c \<noteq> CHR ''/'') (drop 8 url)) else None)"

definition plain_manager_env :: "(permission_state, nat) manager_env" where
  "plain_manager_env =
     \<lparr>me_policy_env = word_env\<lparr>url_host := host_of_https\<rparr>,
      me_classifier_env = \<lparr>json_from_str = (\<lambda>s. None), json_to_string = (\<lambda>v. []), system_prompt = []\<rparr>,
      me_store_env = plain_store, me_signature = (\<lambda>fs p. None), me_home = None,
      me_tilde = (\<lambda>s. s), me_url_path = (\<lambda>u. []), me_parse_bool = (\<lambda>s. None),
      me_git_entries = (\<lambda>p. None), me_sandbox_auto_bash = False\<rparr>"

definition plain_config :: "permission_rule list \<Rightarrow> prompt_policy \<Rightarrow> manager_config" where
  "plain_config rules policy =
     \<lparr>mc_cwd = ''/work'', mc_client_type = Generic,
      mc_permission_config = Some (permission_config_new rules\<lparr>pc_prompt_policy := policy\<rparr>),
      mc_allowed_domains = [''docs.rs''], mc_client_identifier = None,
      mc_remember_tool_approvals = True, mc_yolo_pin = None\<rparr>"

definition plain_request :: "access_kind \<Rightarrow> permission_request" where
  "plain_request access =
     \<lparr>rq_access = access, rq_tool_call_id = ''call'', rq_path_context = None, rq_session_id = None,
      rq_subagent_type = None, rq_subagent_description = None, rq_hook_ask = None\<rparr>"

definition answering :: "prompt_outcome \<Rightarrow> request_world" where
  "answering out = \<lparr>rw_gone = None, rw_answer = out\<rparr>"

definition plain_manager :: "manager_config \<Rightarrow> (permission_state, nat) manager" where
  "plain_manager cfg = spawn_manager plain_manager_env cfg False (\<lambda>p. Missing)"

definition plain_result ::
    "permission_rule list \<Rightarrow> prompt_policy \<Rightarrow> access_kind \<Rightarrow> prompt_outcome
      \<Rightarrow> decision option \<times> bool \<times> string" where
  "plain_result rules policy access out =
     (let cfg = plain_config rules policy;
          r = handle_request plain_manager_env cfg (plain_manager cfg) (plain_request access) (answering out)
      in (rr_decision r, ev_user_prompted (rr_event r), ev_decision_reason (rr_event r)))"

definition tool_rule :: "rule_action \<Rightarrow> tool_filter \<Rightarrow> permission_rule" where
  "tool_rule act tool = \<lparr>rule_act = act, rule_tool = tool, rule_pattern = None, rule_mode = Glob\<rparr>"

section \<open>The properties\<close>

text \<open>
  C2. Nothing is allowed without a ground: when a request is allowed, the policy stage does not deny
  it, and either the user was asked and said yes, or no hook asked for confirmation and one of these
  grounds holds: always-approve, when no shell gate insists on a prompt; a prompt policy that allows,
  for a script that was not merely recovered; or, with no protected target, one of five: the policy
  allows it; automatic mode admits it, by its fast path or its classifier; the kind of the access
  allows it, which is so for a read or a search of files for which the policy does not ask, for every
  search of the web, and for a fetch from a domain of the static allowlist that the user has not
  denied; the memory of earlier answers allows it, be it an edit after edits were allowed for the
  session, a tool, a domain, or a script whose commands are granted, safe or mere set-up; or it is a
  command in the sandbox without a constraining finding for which the policy does not ask.
\<close>
theorem allow_has_ground:
  assumes "rr_decision (handle_request M cfg m rq w) = Some Allow"
    and "m1 = reload_grants M m (rq_access rq)" and "f = facts_of M cfg m1 rq"
  shows "policy_decision (fa_preflight f) \<noteq> Some (Reject t) \<and>
    (user_approved w (rr_event (handle_request M cfg m rq w)) \<or>
     rq_hook_ask rq = None \<and> approval_ground M cfg m1 f)"
proof -
  have hook: "fa_hook f \<longleftrightarrow> rq_hook_ask rq \<noteq> None" using assms(3) by (simp add: facts_of_def Let_def)
  have kinds: "fa_protected f = None \<or> (\<exists>p. fa_access f = AcEdit p) \<or> (\<exists>c. fa_access f = AcBash c)"
    using protected_kinds [of M cfg m1 rq] assms(3) by simp
  show ?thesis
    using assms(2,3)
  proof (cases rule: handle_request_cases [where w = w])
    case (unheard rc m')
    with assms(1) show ?thesis by simp
  next
    case (early a)
    with assms(1) obtain automatic r where "a = (Allow, automatic, r)" by (cases a) auto
    with early early_allows hook show ?thesis by metis
  next
    case (classified a rc m2)
    with assms(1) obtain automatic r where "a = (Allow, automatic, r)" by (cases a) auto
    with classified auto_allows hook no_policy_stage show ?thesis by metis
  next
    case (late forced rc m2 a)
    with assms(1) obtain automatic r where "a = (Allow, automatic, r)" by (cases a) auto
    with late late_allows [OF _ kinds] ground_same(1) hook no_policy_stage show ?thesis by metis
  next
    case (prompt forced rc m2)
    with assms(1) no_policy_stage [OF prompt(1)] show ?thesis
      by (simp add: prompt_decision user_approved_def prompt_event)
  qed
qed

theorem allow_has_ground_witness:
  "(let cfg = plain_config [] PpAsk;
        r = handle_request plain_manager_env cfg (plain_manager cfg) (plain_request (AcEdit ''a''))
          (answering AllowOnce)
    in rr_decision r = Some Allow \<and> policy_decision (gate_preflight (me_policy_env plain_manager_env)
         (compiled_policy_of plain_manager_env cfg) (AcEdit ''a'') ''/work'' False) \<noteq> Some (Reject ''no''))"
proof -
  let ?cfg = "plain_config [] PpAsk"
  let ?rq = "plain_request (AcEdit ''a'')"
  have "rr_decision (handle_request plain_manager_env ?cfg (plain_manager ?cfg) ?rq (answering AllowOnce)) =
      Some Allow" by code_simp
  moreover have "mg_auto_mode (reload_grants plain_manager_env (plain_manager ?cfg) (AcEdit ''a'')) = False"
    by code_simp
  ultimately show ?thesis
    using allow_has_ground [OF _ refl refl, of plain_manager_env ?cfg "plain_manager ?cfg" ?rq
        "answering AllowOnce" "''no''"]
    by (simp add: facts_of_def Let_def plain_request_def request_cwd_def plain_config_def)
qed

text \<open>
  C22. A denial of the policy is final: when a rule or a gate denies a request that is heard, it is
  refused with the text of the rule, without a question and without a trace in memory, whatever the
  mode, the grants, the classifier, the hooks and the user say.
\<close>
theorem policy_denial_is_final:
  assumes "m1 = reload_grants M m (rq_access rq)" and "f = facts_of M cfg m1 rq"
    and "policy_decision (fa_preflight f) = Some (Reject t)" and "rw_gone w = None"
  shows "rr_decision (handle_request M cfg m rq w) = Some (PolicyDeny t) \<and>
    \<not> ev_user_prompted (rr_event (handle_request M cfg m rq w)) \<and>
    rr_manager (handle_request M cfg m rq w) = m1"
proof -
  have "early_answer M cfg m1 f = Some (PolicyDeny t, False, RePolicyDeny)"
    using assms(3) by (simp add: early_answer_def policy_stage_def)
  with assms have "handle_request M cfg m rq w =
      answer_request M cfg m1 rq NotClassified (PolicyDeny t, False, RePolicyDeny)"
    by (simp add: handle_request_def closed_at_def Let_def)
  then show ?thesis by simp
qed

theorem policy_denial_is_final_witness:
  "(let cfg = plain_config [tool_rule RDeny TfEdit] PpAllow;
        r = handle_request plain_manager_env cfg (plain_manager cfg) (plain_request (AcEdit ''a''))
          (answering AllowOnce)
    in (\<exists>t. rr_decision r = Some (PolicyDeny t)) \<and> \<not> ev_user_prompted (rr_event r))"
proof -
  let ?cfg = "plain_config [tool_rule RDeny TfEdit] PpAllow"
  let ?rq = "plain_request (AcEdit ''a'')"
  have "(case policy_decision (fa_preflight (facts_of plain_manager_env ?cfg
      (reload_grants plain_manager_env (plain_manager ?cfg) (rq_access ?rq)) ?rq)) of
      Some (Reject t) \<Rightarrow> True | _ \<Rightarrow> False)" by code_simp
  then obtain t where "policy_decision (fa_preflight (facts_of plain_manager_env ?cfg
      (reload_grants plain_manager_env (plain_manager ?cfg) (rq_access ?rq)) ?rq)) = Some (Reject t)"
    by (simp split: option.splits decision.splits)
  from policy_denial_is_final [OF refl refl this, of "answering AllowOnce"]
  show ?thesis by (simp add: answering_def Let_def)
qed

section \<open>What can be answered at all\<close>

lemma bash_grant_no_ask: "bash_grant_pre_decision cmd e state pin opts \<noteq> Some (Ask, r)"
  by (cases "be_segments e") (simp_all add: bash_grant_pre_decision_def allow_if_def)

lemma mcp_no_ask: "mcp_pre_decision name state asked remember \<noteq> Some Ask"
  by (simp add: mcp_pre_decision_def)

lemma deny_no_ask: "web_fetch_deny_pre_decision E url state \<noteq> Some Ask"
  by (simp add: web_fetch_deny_pre_decision_def split: bind_splits)

lemma session_grant_no_ask: "session_grant_pre_decision E up access e s ed mt pin \<noteq> Some (Ask, r)"
proof (cases access)
  case (AcWebFetch url)
  then show ?thesis using deny_no_ask [of E url s]
    by (auto simp: session_grant_pre_decision_def web_fetch_pre_decision_def allow_if_def split: option.split)
next
  case (AcMCPTool name input)
  then show ?thesis using mcp_no_ask by (auto simp: session_grant_pre_decision_def)
next
  case (AcBash cmd)
  then show ?thesis by (simp add: session_grant_pre_decision_def bash_grant_no_ask split: bind_split)
qed (simp_all add: session_grant_pre_decision_def)

lemma pre_decision_no_ask: "pre_decision M cfg m f forced \<noteq> Some (Ask, r)"
proof (cases "fa_access f")
  case (AcWebFetch url)
  then show ?thesis using deny_no_ask [of "me_policy_env M" url "mg_state m"]
    by (auto simp: pre_decision_def fetch_pre_decision_def split: option.split)
next
  case (AcMCPTool name input)
  then show ?thesis using mcp_no_ask by (auto simp: pre_decision_def)
next
  case (AcBash cmd)
  then show ?thesis by (simp add: pre_decision_def bash_pre_decision_def bash_grant_no_ask split: bind_split)
qed (simp_all add: pre_decision_def edit_pre_decision_def)

lemma policy_stage_no_ask: "policy_stage f \<noteq> Some (Ask, a, r)"
  by (simp add: policy_stage_def split: option.split decision.split)

lemma session_stage_no_ask: "session_stage M cfg m f \<noteq> Some (Ask, a, r)"
proof
  assume "session_stage M cfg m f = Some (Ask, a, r)"
  then obtain mt where "session_grant_pre_decision (me_policy_env M) (me_url_path M) (fa_access f)
      (fa_evaluation f) (mg_state m) (mg_allow_edits_for_session m) mt (mc_yolo_pin cfg) = Some (Ask, r)"
    by (simp add: session_stage_def split: if_split_asm option.split_asm prod.split_asm)
  then show False by (simp add: session_grant_no_ask)
qed

lemma early_no_ask: "early_answer M cfg m f \<noteq> Some (Ask, a, r)"
  by (simp add: early_answer_def or_else_Some policy_stage_no_ask session_stage_no_ask yolo_stage_def
    auto_policy_stage_def Let_def)

lemma policy_allow_stage_no_ask: "policy_allow_stage M cfg f forced \<noteq> Some (Ask, a, r)"
  by (simp add: policy_allow_stage_def split: option.split decision.split)

lemma memory_stage_no_ask: "memory_stage M cfg m f forced \<noteq> Some (Ask, a, r)"
proof
  assume "memory_stage M cfg m f forced = Some (Ask, a, r)"
  then have "pre_decision M cfg m f forced = Some (Ask, r)"
    by (simp add: memory_stage_def Let_def split: if_split_asm prod.split_asm)
  then show False by (simp add: pre_decision_no_ask)
qed

lemma late_no_ask: "late_answer M cfg m f forced \<noteq> Some (Ask, a, r)"
  by (simp add: late_answer_def or_else_Some policy_allow_stage_no_ask memory_stage_no_ask
    sandbox_stage_def prompt_policy_stage_def)

lemma auto_no_ask: "auto_stage M cfg m f w \<noteq> (AutoAnswer (Ask, a, r), rc, m')"
  by (auto simp: auto_stage_def classify_stage_def on_verdict_def Let_def
    split: if_splits auto_fast_path.splits verdict.splits route_result.splits)

lemma outcome_no_ask: "fst (decision_of_outcome access out recorded) \<noteq> Ask"
  by (cases out) (simp_all add: decision_of_outcome_def user_rejected_def Let_def split: option.split)

text \<open>
  C39. A requester never has to ask again: the answer to a request is a final decision, never the
  decision to ask, whichever stage gives it.
\<close>
theorem answers_are_final: "rr_decision (handle_request M cfg m rq w) \<noteq> Some Ask"
  using refl [of "reload_grants M m (rq_access rq)"] refl [of "facts_of M cfg (reload_grants M m (rq_access rq)) rq"]
proof (cases rule: handle_request_cases [where w = w])
  case (early a)
  with early_no_ask [of M cfg "reload_grants M m (rq_access rq)"] show ?thesis by (cases a) auto
next
  case (classified a rc m2)
  with auto_no_ask [of M cfg "reload_grants M m (rq_access rq)"] show ?thesis by (cases a) auto
next
  case (late forced rc m2 a)
  with late_no_ask [of M cfg m2 _ forced] show ?thesis by (cases a) auto
next
  case (prompt forced rc m2)
  then show ?thesis by (auto simp: prompt_user_def Let_def outcome_no_ask split: prod.split dest: arg_cong [of _ _ fst])
qed simp

text \<open>
  Under the policy not to ask, nobody is asked: with a prompt policy that denies, no request
  ever opens a prompt.
\<close>
theorem dont_ask_never_prompts:
  assumes "prompt_policy_of cfg = PpDeny"
  shows "\<not> ev_user_prompted (rr_event (handle_request M cfg m rq w))"
  using refl [of "reload_grants M m (rq_access rq)"] refl [of "facts_of M cfg (reload_grants M m (rq_access rq)) rq"]
proof (cases rule: handle_request_cases [where w = w])
  case (early a)
  then show ?thesis by (cases a) simp
next
  case (classified a rc m2)
  then show ?thesis by (cases a) simp
next
  case (late forced rc m2 a)
  then show ?thesis by (cases a) simp
next
  case (prompt forced rc m2)
  with assms show ?thesis by (simp add: late_answer_def or_else_None prompt_policy_stage_def)
qed simp

theorem dont_ask_never_prompts_witness:
  "(let cfg = plain_config [] PpDeny;
        r = handle_request plain_manager_env cfg (plain_manager cfg) (plain_request (AcEdit ''a''))
          (answering AllowOnce)
    in rr_decision r = Some (PolicyDeny prompt_policy_deny_reason) \<and> \<not> ev_user_prompted (rr_event r))"
proof -
  let ?cfg = "plain_config [] PpDeny"
  have "rr_decision (handle_request plain_manager_env ?cfg (plain_manager ?cfg)
      (plain_request (AcEdit ''a'')) (answering AllowOnce)) = Some (PolicyDeny prompt_policy_deny_reason)"
    by code_simp
  moreover have "prompt_policy_of ?cfg = PpDeny" by code_simp
  ultimately show ?thesis using dont_ask_never_prompts [of ?cfg] by (simp add: Let_def)
qed

end
