(* ===== verification/ManagerRuns.thy ===== *)
theory ManagerRuns imports ManagerLaws begin

text \<open>
  The permission manager over its whole life: the invariant of the managers that can be reached, the
  budget of the denials that automatic mode gives on its own, and what the properties say of
  concrete requests.
\<close>

section \<open>The managers that can be reached\<close>

text \<open>Between two commands other sessions may write to the disk.\<close>

inductive manager_reaches ::
    "('c, 'sig) manager_env \<Rightarrow> manager_config \<Rightarrow> ('c, 'sig) manager \<Rightarrow> ('c, 'sig) manager \<Rightarrow> bool"
    for M cfg m0 where
  start: "manager_reaches M cfg m0 m0"
| command: "manager_reaches M cfg m0 m \<Longrightarrow> manager_reaches M cfg m0 (on_command M cfg cmd m)"
| outside: "manager_reaches M cfg m0 m \<Longrightarrow> manager_reaches M cfg m0 (m\<lparr>mg_files := fs\<rparr>)"

definition manager_ok :: "manager_config \<Rightarrow> bool \<Rightarrow> ('c, 'sig) manager \<Rightarrow> bool" where
  "manager_ok cfg blanket m \<longleftrightarrow>
     (mg_yolo_mode m \<longrightarrow> mc_yolo_pin cfg = None \<and> \<not> mg_auto_mode m) \<and>
     mg_consecutive_denials m \<le> auto_deny_consecutive_limit \<and>
     mg_consecutive_denials m \<le> mg_total_denials m \<and> mg_total_denials m \<le> auto_deny_total_limit \<and>
     length (mg_recorded_decisions m) \<le> max_recorded_permission_decisions \<and>
     st_edit_policy (mg_state m) \<noteq> EpAllow \<and> (st_allow_bash_execute (mg_state m) \<longrightarrow> blanket)"

lemma manager_ok_files [simp]: "manager_ok cfg b (m\<lparr>mg_files := fs\<rparr>) = manager_ok cfg b m"
  by (simp add: manager_ok_def)

lemma pushed_length:
  "length (push_recorded t ts) \<le> max_recorded_permission_decisions"
  by (simp add: push_recorded_def max_recorded_permission_decisions_def)

lemma recorded_state:
  "st_edit_policy (fst (record_prompt_outcome E s access out)) = st_edit_policy s \<and>
   st_allow_bash_execute (fst (record_prompt_outcome E s access out)) = st_allow_bash_execute s"
proof (cases access)
  case (AcBash cmd)
  then show ?thesis
    by (cases out) (simp_all add: record_prompt_outcome_def record_bash_outcome_def
      persist_bash_always_allow_def allow_command_def Let_def split: option.split)
next
  case (AcMCPTool name input)
  then show ?thesis
    by (cases out) (simp_all add: record_prompt_outcome_def record_mcp_outcome_def allow_mcp_tool_def
      split: option.split prod.split)
next
  case (AcWebFetch url)
  then show ?thesis
    by (cases out) (simp_all add: record_prompt_outcome_def record_web_outcome_def split: option.split)
qed (simp_all add: record_prompt_outcome_def)

lemma remember_frame:
  assumes "remember_outcome M cfg access out m = (m', recorded)"
  shows "mg_yolo_mode m' = mg_yolo_mode m" "mg_auto_mode m' = mg_auto_mode m"
    "mg_consecutive_denials m' = mg_consecutive_denials m" "mg_total_denials m' = mg_total_denials m"
    "mg_recorded_decisions m' = mg_recorded_decisions m"
    "st_edit_policy (mg_state m') = st_edit_policy (mg_state m)"
    "st_allow_bash_execute (mg_state m') = st_allow_bash_execute (mg_state m)"
  using assms recorded_state [of "me_policy_env M" "mg_state m" access out]
  by (auto simp: remember_outcome_def save_state_def Let_def split: prod.splits if_splits)

lemma record_decision_ok: "manager_ok cfg b m \<Longrightarrow> manager_ok cfg b (record_decision M access d out m)"
  by (simp add: record_decision_def manager_ok_def pushed_length split: option.split)

lemma reload_ok [simp]: "manager_ok cfg b (reload_grants M m access) = manager_ok cfg b m"
  by (simp add: manager_ok_def reload_frame)

lemma auto_stage_ok:
  assumes "manager_ok cfg b m" and "auto_stage M cfg m f w = (route, rc, m')"
  shows "manager_ok cfg b m'"
  using auto_stage_frame [OF assms(2)] assms(1) by (auto simp: manager_ok_def may_deny_def)

lemma prompt_user_ok:
  assumes "manager_ok cfg b m"
  shows "manager_ok cfg b (rr_manager (prompt_user M cfg m rq f rc forced w))"
proof -
  let ?out = "coerce_outcome (rq_access rq) (if closed_at w 4 then PromptCancelled else rw_answer w)"
  obtain m1 recorded where remembered: "remember_outcome M cfg (rq_access rq) ?out m = (m1, recorded)"
    by (cases "remember_outcome M cfg (rq_access rq) ?out m")
  obtain d out where decided: "decision_of_outcome (rq_access rq) ?out recorded = (d, out)"
    by (cases "decision_of_outcome (rq_access rq) ?out recorded")
  have "manager_ok cfg b m1" using assms by (simp add: manager_ok_def remember_frame [OF remembered])
  then have "manager_ok cfg b (record_decision M (rq_access rq) d out m1)" by (rule record_decision_ok)
  moreover from this have "manager_ok cfg b (record_decision M (rq_access rq) d out m1
      \<lparr>mg_consecutive_denials := 0, mg_total_denials := 0\<rparr>)"
    by (simp add: manager_ok_def)
  ultimately show ?thesis using remembered decided by (simp add: prompt_user_def Let_def)
qed

lemma handle_request_ok:
  assumes "manager_ok cfg b m"
  shows "manager_ok cfg b (rr_manager (handle_request M cfg m rq w))"
  using refl [of "reload_grants M m (rq_access rq)"] refl [of "facts_of M cfg (reload_grants M m (rq_access rq)) rq"]
proof (cases rule: handle_request_cases [where w = w])
  case (unheard rc m')
  then show ?thesis
    using assms auto_stage_ok [of cfg b "reload_grants M m (rq_access rq)" M] by auto
next
  case (early a)
  then show ?thesis using assms by (cases a) simp
next
  case (classified a rc m2)
  then show ?thesis using auto_stage_ok [OF _ classified(2)] assms by (cases a) simp
next
  case (late forced rc m2 a)
  then show ?thesis using auto_stage_ok [OF _ late(2)] assms by (cases a) simp
next
  case (prompt forced rc m2)
  then show ?thesis using auto_stage_ok [OF _ prompt(2)] assms by (simp add: prompt_user_ok)
qed

lemma on_command_ok:
  assumes "manager_ok cfg b m"
  shows "manager_ok cfg b (on_command M cfg cmd m)"
proof (cases cmd)
  case (CmdRequest rq w)
  with assms show ?thesis by (simp add: on_command_def handle_request_ok)
qed (use assms in \<open>simp_all add: on_command_def manager_ok_def set_yolo_mode_def set_auto_mode_def
  reset_state_def clamp_yolo_def default_state_def Let_def\<close>)

lemma spawn_ok:
  "manager_ok cfg (st_allow_bash_execute (mg_state (spawn_manager M cfg y fs))) (spawn_manager M cfg y fs)"
  by (simp add: manager_ok_def spawn_manager_def save_state_def clamp_yolo_def Let_def split: prod.split)

text \<open>
  C3. The invariant of the permission manager: whatever it is asked and told, and whatever other
  sessions write, a manager approves everything only when no policy pins that mode, and then
  automatic mode is off; at most three denials in a row and twenty in all are counted before a
  prompt, the first not more than the second; at most twelve answers of the user are kept; the
  persisted policy never allows all edits; and a blanket approval of Bash is never gained while the
  manager runs.
\<close>
theorem manager_invariant:
  assumes "manager_reaches M cfg (spawn_manager M cfg y fs) m"
  shows "(mg_yolo_mode m \<longrightarrow> mc_yolo_pin cfg = None \<and> \<not> mg_auto_mode m) \<and>
    mg_consecutive_denials m \<le> 3 \<and> mg_consecutive_denials m \<le> mg_total_denials m \<and>
    mg_total_denials m \<le> 20 \<and> length (mg_recorded_decisions m) \<le> 12 \<and>
    st_edit_policy (mg_state m) \<noteq> EpAllow \<and>
    (st_allow_bash_execute (mg_state m) \<longrightarrow> st_allow_bash_execute (mg_state (spawn_manager M cfg y fs)))"
proof -
  from assms have "manager_ok cfg (st_allow_bash_execute (mg_state (spawn_manager M cfg y fs))) m"
    by induction (simp_all add: spawn_ok on_command_ok)
  then show ?thesis
    by (simp add: manager_ok_def auto_deny_consecutive_limit_def auto_deny_total_limit_def
      max_recorded_permission_decisions_def)
qed

theorem manager_invariant_witness:
  "mg_auto_mode (on_command plain_manager_env (plain_config [] PpAsk) (CmdSetAutoMode True)
     (plain_manager (plain_config [] PpAsk))) \<and>
   mg_total_denials (on_command plain_manager_env (plain_config [] PpAsk) (CmdSetAutoMode True)
     (plain_manager (plain_config [] PpAsk))) \<le> 20"
proof -
  let ?cfg = "plain_config [] PpAsk"
  have "manager_reaches plain_manager_env ?cfg (spawn_manager plain_manager_env ?cfg False (\<lambda>p. Missing))
      (on_command plain_manager_env ?cfg (CmdSetAutoMode True) (plain_manager ?cfg))"
    unfolding plain_manager_def by (intro manager_reaches.intros)
  from manager_invariant [OF this]
  show ?thesis by (simp add: on_command_def set_auto_mode_def Let_def)
qed

section \<open>The budget of denials\<close>

text \<open>A denial that automatic mode gives without asking the user.\<close>

definition auto_denial :: "permission_event \<Rightarrow> bool" where
  "auto_denial ev \<longleftrightarrow>
     ev_decision_reason ev = reason_str ReAutoClassifierDeny \<and> \<not> ev_user_prompted ev"

lemma reason_is_denial: "reason_str r = reason_str ReAutoClassifierDeny \<longleftrightarrow> r = ReAutoClassifierDeny"
  by (cases r) simp_all

lemma bash_grant_no_denial: "bash_grant_pre_decision cmd e s pin opts \<noteq> Some (d, ReAutoClassifierDeny)"
  by (cases "be_segments e") (simp_all add: bash_grant_pre_decision_def allow_if_def)

lemma session_grant_no_denial:
  "session_grant_pre_decision E up access e s ed mt pin \<noteq> Some (d, ReAutoClassifierDeny)"
proof (cases access)
  case (AcBash cmd)
  then show ?thesis by (simp add: session_grant_pre_decision_def bash_grant_no_denial split: bind_split)
qed (auto simp: session_grant_pre_decision_def web_fetch_pre_decision_def allow_if_def
  split: option.split decision.split bind_split)

lemma session_stage_no_denial: "session_stage M cfg m f \<noteq> Some (d, a, ReAutoClassifierDeny)"
proof
  assume "session_stage M cfg m f = Some (d, a, ReAutoClassifierDeny)"
  then obtain mt where "session_grant_pre_decision (me_policy_env M) (me_url_path M) (fa_access f)
      (fa_evaluation f) (mg_state m) (mg_allow_edits_for_session m) mt (mc_yolo_pin cfg) =
      Some (d, ReAutoClassifierDeny)"
    by (simp add: session_stage_def split: if_split_asm option.split_asm prod.split_asm)
  then show False by (simp add: session_grant_no_denial)
qed

lemma early_no_denial: "early_answer M cfg m f \<noteq> Some (d, a, ReAutoClassifierDeny)"
  by (simp add: early_answer_def or_else_Some session_stage_no_denial policy_stage_def yolo_stage_def
    auto_policy_stage_def Let_def split: option.split decision.split)

lemma pre_decision_no_denial: "pre_decision M cfg m f forced \<noteq> Some (d, ReAutoClassifierDeny)"
proof (cases "fa_access f")
  case (AcBash cmd)
  then show ?thesis
    by (simp add: pre_decision_def bash_pre_decision_def bash_grant_no_denial split: bind_split)
next
  case (AcMCPTool name input)
  then show ?thesis by (auto simp: pre_decision_def split: decision.split)
qed (simp_all add: pre_decision_def edit_pre_decision_def fetch_pre_decision_def split: option.split)

lemma late_no_denial: "late_answer M cfg m f forced \<noteq> Some (d, a, ReAutoClassifierDeny)"
proof -
  have "memory_stage M cfg m f forced \<noteq> Some (d, a, ReAutoClassifierDeny)"
  proof
    assume "memory_stage M cfg m f forced = Some (d, a, ReAutoClassifierDeny)"
    then have "pre_decision M cfg m f forced = Some (d, ReAutoClassifierDeny)"
      by (simp add: memory_stage_def Let_def split: if_split_asm prod.split_asm)
    then show False by (simp add: pre_decision_no_denial)
  qed
  moreover have "policy_allow_stage M cfg f forced \<noteq> Some (d, a, ReAutoClassifierDeny)"
    by (simp add: policy_allow_stage_def split: option.split decision.split)
  ultimately show ?thesis
    by (simp add: late_answer_def or_else_Some sandbox_stage_def prompt_policy_stage_def)
qed

lemma answered_denial:
  "auto_denial (rr_event (answer_request M cfg m rq rc (d, a, r))) \<longleftrightarrow> r = ReAutoClassifierDeny"
  by (simp add: auto_denial_def reason_is_denial del: reason_str.simps)

lemma gone_no_denial: "\<not> auto_denial (rr_event (requester_gone M cfg m rq rc))"
  by (simp add: auto_denial_def reason_is_denial del: reason_str.simps)

lemma reload_total [simp]: "mg_total_denials (reload_grants M m access) = mg_total_denials m"
  by (simp add: reload_frame)

lemma auto_stage_total:
  assumes "auto_stage M cfg m f w = (route, rc, m')"
  shows "mg_total_denials m \<le> mg_total_denials m'"
    "route = AutoAnswer (d, a, ReAutoClassifierDeny) \<Longrightarrow>
     mg_total_denials m' = Suc (mg_total_denials m) \<and> mg_total_denials m' \<le> auto_deny_total_limit"
proof -
  from assms have frame: "m' = m \<or> m' = m\<lparr>mg_consecutive_denials := 0\<rparr> \<or>
    may_deny m \<and> m' = m\<lparr>mg_consecutive_denials := mg_consecutive_denials m + 1,
           mg_total_denials := mg_total_denials m + 1\<rparr>"
    using auto_stage_frame by blast
  then show "mg_total_denials m \<le> mg_total_denials m'" by auto
  assume "route = AutoAnswer (d, a, ReAutoClassifierDeny)"
  with assms show "mg_total_denials m' = Suc (mg_total_denials m) \<and> mg_total_denials m' \<le> auto_deny_total_limit"
    by (auto simp: auto_stage_def classify_stage_def on_verdict_def may_deny_def Let_def
      split: if_splits auto_fast_path.splits verdict.splits route_result.splits)
qed

text \<open>A request that asks nobody keeps the count of denials, one more for each.\<close>

lemma request_spends:
  assumes "\<not> ev_user_prompted (rr_event (handle_request M cfg m rq w))"
    and "mg_total_denials m \<le> auto_deny_total_limit"
  shows "mg_total_denials m + (if auto_denial (rr_event (handle_request M cfg m rq w)) then 1 else 0)
    \<le> mg_total_denials (rr_manager (handle_request M cfg m rq w))"
  using refl [of "reload_grants M m (rq_access rq)"] refl [of "facts_of M cfg (reload_grants M m (rq_access rq)) rq"]
proof (cases rule: handle_request_cases [where w = w])
  case (unheard rc m')
  then show ?thesis using auto_stage_total(1) [of M cfg "reload_grants M m (rq_access rq)"]
    by (auto simp: gone_no_denial)
next
  case (early a)
  then show ?thesis by (cases a) (auto simp: answered_denial early_no_denial)
next
  case (classified a rc m2)
  then show ?thesis using auto_stage_total [OF classified(2)] by (cases a) (auto simp: answered_denial)
next
  case (late forced rc m2 a)
  then show ?thesis using auto_stage_total(1) [OF late(2)]
    by (cases a) (auto simp: answered_denial late_no_denial)
next
  case (prompt forced rc m2)
  with assms(1) show ?thesis by (simp add: prompt_event)
qed

lemma command_keeps_total:
  assumes "\<And>rq w. cmd \<noteq> CmdRequest rq w"
  shows "mg_total_denials (on_command M cfg cmd m) = mg_total_denials m"
proof (cases cmd)
  case (CmdRequest rq w)
  with assms show ?thesis by blast
qed (simp_all add: on_command_def set_yolo_mode_def set_auto_mode_def reset_state_def Let_def)

lemma run_spends:
  assumes "run_manager M cfg cmds m = (outs, m')" and "\<forall>(d, ev) \<in> set outs. \<not> ev_user_prompted ev"
    and "manager_ok cfg b m"
  shows "mg_total_denials m + length (filter (\<lambda>(d, ev). auto_denial ev) outs) \<le> auto_deny_total_limit"
  using assms
proof (induction cmds arbitrary: m outs m')
  case Nil
  then show ?case by (simp add: manager_ok_def)
next
  case (Cons cmd cmds)
  obtain outs1 m1 where rest: "run_manager M cfg cmds (on_command M cfg cmd m) = (outs1, m1)"
    by (cases "run_manager M cfg cmds (on_command M cfg cmd m)")
  have ok: "manager_ok cfg b (on_command M cfg cmd m)" using Cons.prems(3) by (rule on_command_ok)
  have total: "mg_total_denials m \<le> auto_deny_total_limit" using Cons.prems(3) by (simp add: manager_ok_def)
  show ?case
  proof (cases cmd)
    case (CmdRequest rq w)
    let ?r = "handle_request M cfg m rq w"
    from CmdRequest Cons.prems(1) rest have outs: "outs = (rr_decision ?r, rr_event ?r) # outs1"
      by simp
    with Cons.prems(2) have quiet: "\<not> ev_user_prompted (rr_event ?r)"
      "\<forall>(d, ev) \<in> set outs1. \<not> ev_user_prompted ev" by auto
    from request_spends [OF quiet(1) total] Cons.IH [OF rest quiet(2) ok] CmdRequest outs
    show ?thesis by (simp add: on_command_def split: if_splits)
  next
    case CmdShutdown
    with Cons.prems(1) total show ?thesis by simp
  qed (use Cons.prems rest Cons.IH [OF rest _ ok] command_keeps_total [of cmd M cfg m] in auto)
qed

text \<open>
  C25. The denials of automatic mode are bounded: a manager that has asked the user nothing has given
  at most twenty of them, however many requests it was sent and whatever its classifier says.
\<close>
theorem denial_budget:
  assumes "run_manager M cfg cmds (spawn_manager M cfg y fs) = (outs, m')"
    and "\<forall>(d, ev) \<in> set outs. \<not> ev_user_prompted ev"
  shows "length (filter (\<lambda>(d, ev). auto_denial ev) outs) \<le> 20"
  using run_spends [OF assms spawn_ok] by (simp add: auto_deny_total_limit_def)

text \<open>With a classifier that blocks everything, the third request in a row is the last denial.\<close>

theorem denial_budget_witness:
  "(let cfg = plain_config [] PpAuto;
        block = CmdSetClassifier (Some (\<lambda>name access detail ctx. outcome_heuristic VBlock));
        ask = CmdRequest (plain_request (AcTool ''deploy'')) (answering RejectOnce);
        outs = fst (run_manager plain_manager_env cfg [block, ask, ask, ask] (plain_manager cfg))
    in map (\<lambda>(d, ev). auto_denial ev) outs = [True, True, True] \<and>
       length (filter (\<lambda>(d, ev). auto_denial ev) outs) \<le> 20)"
proof -
  let ?cfg = "plain_config [] PpAuto"
  let ?block = "CmdSetClassifier (Some (\<lambda>name access detail ctx. outcome_heuristic VBlock))"
  let ?ask = "CmdRequest (plain_request (AcTool ''deploy'')) (answering RejectOnce)"
  let ?run = "run_manager plain_manager_env ?cfg [?block, ?ask, ?ask, ?ask] (plain_manager ?cfg)"
  have denied: "map (\<lambda>(d, ev). auto_denial ev) (fst ?run) = [True, True, True]" by code_simp
  have "list_all (\<lambda>(d, ev). \<not> ev_user_prompted ev) (fst ?run)" by code_simp
  then have "\<forall>(d, ev) \<in> set (fst ?run). \<not> ev_user_prompted ev" by (simp add: list_all_iff)
  from denial_budget [OF _ this, of plain_manager_env ?cfg] denied show ?thesis
    unfolding plain_manager_def Let_def by (metis prod.collapse)
qed

section \<open>Rules to ask\<close>

text \<open>
  A rule to ask is kept for some tools only: with the same rule to ask, a read and a search of
  files wait for the user, but a search of the web is approved at once, and so is a fetch from a
  domain of the static list, with nobody asked.
\<close>
theorem ask_rule_ignored:
  "plain_result [tool_rule RAsk TfAny] PpAsk (AcRead (Some ''a'')) RejectOnce = (Some user_rejected, True, ''policy_ask'') \<and>
   plain_result [tool_rule RAsk TfAny] PpAsk (AcGrep None None) RejectOnce = (Some user_rejected, True, ''policy_ask'') \<and>
   plain_result [tool_rule RAsk TfWebSearch] PpAsk (AcWebSearch ''q'') RejectOnce =
     (Some Allow, False, ''safe_command'') \<and>
   plain_result [tool_rule RAsk TfWebFetch] PpAsk (AcWebFetch ''https://docs.rs/x'') RejectOnce =
     (Some Allow, False, ''static_allowlist'')"
  by (intro conjI; code_simp)

end
