(* ===== verification/HubGate.thy ===== *)
theory HubGate imports ManagerRuns begin

text \<open>
  The approval of tool calls that come over the hub: the request that is sent to the session owner
  and what its reply means (\<^verbatim>\<open>permission/hub_permission.rs\<close>), and the gate in front of every tool
  call of a hub session (\<^verbatim>\<open>permission/hub_gate.rs\<close>). The decoding of a call by the toolset and the
  reply of the hub are parameters; metrics are left out, and the scan of the repositories is taken to
  finish.
\<close>

section \<open>The request\<close>

datatype tool_approval_policy = AlwaysPrompt | GrantsAllowed | UnattendedAllowed

fun policy_wire :: "tool_approval_policy \<Rightarrow> string" where
  "policy_wire AlwaysPrompt = ''always_prompt''"
| "policy_wire GrantsAllowed = ''grants_allowed''"
| "policy_wire UnattendedAllowed = ''unattended_allowed''"

definition scope_for_access :: "access_kind \<Rightarrow> string" where
  "scope_for_access access =
     (case access of
        AcBash c \<Rightarrow> ''write'' | AcEdit p \<Rightarrow> ''write'' | AcMCPTool n i \<Rightarrow> ''write''
      | AcAgentMessage a \<Rightarrow> ''write'' | AcTool t \<Rightarrow> ''write''
      | AcRead p \<Rightarrow> ''read'' | AcGrep p g \<Rightarrow> ''read'' | AcWebFetch u \<Rightarrow> ''read'' | AcWebSearch q \<Rightarrow> ''read'')"

definition describe_access :: "access_kind \<Rightarrow> string" where
  "describe_access access =
     (case access of
        AcBash c \<Rightarrow> ''Run a terminal command''
      | AcEdit p \<Rightarrow> ''Edit '' @ p
      | AcMCPTool name i \<Rightarrow> ''Run MCP tool '' @ name
      | AcWebFetch url \<Rightarrow> ''Fetch '' @ url
      | AcWebSearch query \<Rightarrow> ''Search the web for '' @ query
      | AcRead p \<Rightarrow> ''Read a file''
      | AcGrep p g \<Rightarrow> ''Search file contents''
      | AcAgentMessage a \<Rightarrow> ''Send a message to subagent '' @ a
      | AcTool name \<Rightarrow> ''Run '' @ name)"

definition build_permission_payload ::
    "access_kind \<Rightarrow> string \<Rightarrow> hook_ask option \<Rightarrow> tool_approval_policy \<Rightarrow> json" where
  "build_permission_payload access tool_call_id hook policy =
     (let description = (case hook of
            Some ask \<Rightarrow> prompt_header ask (describe_access access) | None \<Rightarrow> describe_access access);
          payload = JObj [(''tool_call_id'', JStr tool_call_id),
            (''tool_name'', JStr (tool_name_for_access access)), (''description'', JStr description),
            (''scope'', JStr (scope_for_access access)),
            (''tool_approval_policy'', JStr (policy_wire policy))]
      in case access of
           AcBash command \<Rightarrow> jset ''bash_command'' (JStr command) payload
         | AcAgentMessage a \<Rightarrow> jset ''subagent_id'' (JStr a) payload
         | AcEdit p \<Rightarrow> jset ''edit_file_paths'' (JArr [JStr p]) payload
         | _ \<Rightarrow> payload)"

section \<open>The reply\<close>

definition reply_word :: "json \<Rightarrow> string" where
  "reply_word reply =
     (case jget ''outcome'' reply of
        Some (JStr s) \<Rightarrow> s
      | Some (JInt n) \<Rightarrow>
          if n = 1 then ''approve'' else if n = 2 then ''reject''
          else if n = 3 then ''always_approve'' else if n = 4 then ''always_reject'' else []
      | _ \<Rightarrow> [])"

definition scope_kind_value :: "json \<Rightarrow> (string \<times> string option) option" where
  "scope_kind_value reply =
     Option.bind (jget ''scope'' reply) (\<lambda>scope.
       map_option (\<lambda>kind. (kind, jget_str ''value'' scope)) (jget_str ''kind'' scope))"

definition always_approve_outcome :: "json \<Rightarrow> prompt_outcome" where
  "always_approve_outcome reply =
     (case scope_kind_value reply of
        Some (kind, Some value) \<Rightarrow>
          if kind = ''bash_command'' then AllowAlwaysBashCommand value
          else if kind = ''bash_glob'' then AllowAlwaysBashGlob value
          else if kind = ''server_prefix'' then AllowAlwaysMcpServer value
          else if kind = ''domain'' then AllowAlwaysDomain value
          else AllowAlways
      | _ \<Rightarrow> AllowAlways)"

definition always_reject_outcome :: "json \<Rightarrow> access_kind \<Rightarrow> prompt_outcome" where
  "always_reject_outcome reply access =
     (let own = (case access of AcMCPTool name i \<Rightarrow> RejectAlwaysMcpTool name | _ \<Rightarrow> RejectOnce) in
      case scope_kind_value reply of
        Some (kind, value) \<Rightarrow>
          if kind = ''bash_command'' \<and> value \<noteq> None then RejectAlwaysBashCommand (the value)
          else if kind = ''domain'' \<and> value \<noteq> None then RejectAlwaysDomain (the value)
          else if kind = ''tool_scope'' then own
          else RejectOnce
      | None \<Rightarrow> RejectOnce)"

definition reply_to_outcome :: "json \<Rightarrow> access_kind \<Rightarrow> prompt_outcome" where
  "reply_to_outcome reply access =
     (let word = reply_word reply in
      if word = ''approve'' then AllowOnce
      else if word = ''always_approve'' then always_approve_outcome reply
      else if word = ''reject'' then
        (case nonempty (jget_str ''followup_message'' reply) of
           Some message \<Rightarrow> PromptFollowup message | None \<Rightarrow> RejectOnce)
      else if word = ''always_reject'' then always_reject_outcome reply access
      else if word = ''cancelled'' then PromptCancelled
      else RejectOnce)"

text \<open>The transport gives a reply or an error.\<close>

definition request_permission_via_hub :: "access_kind \<Rightarrow> string + json \<Rightarrow> prompt_outcome" where
  "request_permission_via_hub access answer =
     (case answer of
        Inl e \<Rightarrow> PromptError (''hub permission request failed: '' @ e)
      | Inr reply \<Rightarrow>
          (let out = reply_to_outcome reply access in
           if out = AllowAlways \<and> (case access of AcEdit p \<Rightarrow> True | _ \<Rightarrow> False) then AllowEditsForSession
           else if out = AllowAlways \<and>
             (case access of AcAgentMessage a \<Rightarrow> True | AcTool t \<Rightarrow> True | _ \<Rightarrow> False) then AllowOnce
           else out))"

section \<open>The gate\<close>

datatype host_kind = HostDaemon | HostSandbox
datatype tool_approval_gate = GateEnforced | GateOff

definition resolve_gate :: "host_kind \<Rightarrow> bool \<Rightarrow> tool_approval_gate" where
  "resolve_gate host hitl_opt_in =
     (if (case host of HostDaemon \<Rightarrow> True | HostSandbox \<Rightarrow> hitl_opt_in) then GateEnforced else GateOff)"

definition requires_approval :: "access_kind \<Rightarrow> bool" where
  "requires_approval access \<longleftrightarrow>
     (case access of AcRead p \<Rightarrow> False | AcGrep p g \<Rightarrow> False | AcWebSearch q \<Rightarrow> False | _ \<Rightarrow> True)"

record 'sig folder_grants =
  fg_cwd :: path
  fg_store :: "'sig cached_state_store"
  fg_state :: permission_state
  fg_allow_edits_for_session :: bool

record ('c, 'sig) hub_approval =
  ha_cwd :: path
  ha_yolo_mode :: bool
  ha_policy :: tool_approval_policy
  ha_grants :: "'sig folder_grants option"
  ha_files :: "'c files"

definition folder_load ::
    "('c, 'sig) manager_env \<Rightarrow> path \<Rightarrow> 'c files \<Rightarrow> 'sig folder_grants \<times> 'c files" where
  "folder_load M cwd fs =
     (case resolve_and_load (me_store_env M) (me_signature M) cwd None fs of
        (store, state, fs) \<Rightarrow>
          (\<lparr>fg_cwd = cwd, fg_store = store, fg_state = state, fg_allow_edits_for_session = False\<rparr>, fs))"

definition folder_reload ::
    "('c, 'sig) manager_env \<Rightarrow> 'sig folder_grants \<Rightarrow> 'c files \<Rightarrow> 'sig folder_grants \<times> 'c files" where
  "folder_reload M g fs =
     (case reload_if_changed (me_store_env M) (me_signature M) (fg_store g) fs of
        (store, fresh, fs) \<Rightarrow>
          (g\<lparr>fg_store := store, fg_state := unwrap_or (fg_state g) fresh\<rparr>, fs))"

definition blanket_bash_needs_unattended :: string where
  "blanket_bash_needs_unattended =
     ''a folder'' @ [CHR 39] @ ''s allow_bash_execute needs the tenant'' @ [CHR 39] @
     ''s unattended_allowed ceiling''"

text \<open>What the grants say of an access: it runs, it is denied, or nothing.\<close>

definition folder_decision ::
    "('c, 'sig) manager_env \<Rightarrow> 'sig folder_grants \<Rightarrow> access_kind \<Rightarrow> tool_approval_policy
      \<Rightarrow> (string + unit) option" where
  "folder_decision M g access policy =
     (let bash = evaluate_access M (fg_state g) access (fg_cwd g);
          yolo_pin = (if policy \<noteq> UnattendedAllowed then Some blanket_bash_needs_unattended else None)
      in if protected_target (me_policy_env M) (me_home M) (me_tilde M) access bash (fg_cwd g) None \<noteq> None
         then None
         else case session_grant_pre_decision (me_policy_env M) (me_url_path M) access bash (fg_state g)
             (fg_allow_edits_for_session g) None yolo_pin of
           Some (Allow, r) \<Rightarrow> Some (Inr ())
         | Some (Reject reason, r) \<Rightarrow> Some (Inl reason)
         | _ \<Rightarrow> None)"

definition folder_record ::
    "('c, 'sig) manager_env \<Rightarrow> 'sig folder_grants \<Rightarrow> access_kind \<Rightarrow> prompt_outcome \<Rightarrow> 'c files
      \<Rightarrow> 'sig folder_grants \<times> 'c files" where
  "folder_record M g access out fs =
     (if out = AllowEditsForSession then (g\<lparr>fg_allow_edits_for_session := True\<rparr>, fs)
      else case record_prompt_outcome (me_policy_env M) (fg_state g) access out of
        (state, recorded) \<Rightarrow>
          (g\<lparr>fg_state := state\<rparr>,
           if recorded \<noteq> None then persist_state (me_store_env M) (fg_cwd g) state None fs else fs))"

section \<open>One call\<close>

datatype 'e hub_error = Undecodable 'e | PermissionDenied string

text \<open>The grants that count under a policy: loaded once, when the first guarded call needs them.\<close>

definition folder_for ::
    "('c, 'sig) manager_env \<Rightarrow> ('c, 'sig) hub_approval \<Rightarrow> 'sig folder_grants option \<times> 'c files" where
  "folder_for M s =
     (case ha_grants s of
        Some g \<Rightarrow> (Some g, ha_files s)
      | None \<Rightarrow>
          if is_absolute (ha_cwd s)
          then (case folder_load M (ha_cwd s) (ha_files s) of (g, fs) \<Rightarrow> (Some g, fs))
          else (None, ha_files s))"

definition denial_of :: "string \<Rightarrow> prompt_outcome \<Rightarrow> 'e hub_error" where
  "denial_of tool_name out =
     PermissionDenied
       (case out of
          PromptFollowup msg \<Rightarrow> ''tool permission redirected: '' @ msg
        | _ \<Rightarrow> ''tool permission denied for '' @ tool_name)"

text \<open>The question to the owner; without a channel to it the call is denied.\<close>

definition ask_owner :: "string \<Rightarrow> access_kind \<Rightarrow> (string + json) option \<Rightarrow> 'e hub_error + prompt_outcome" where
  "ask_owner tool_name access transport =
     (case transport of
        None \<Rightarrow> Inl (PermissionDenied ''tool permission unavailable (no hub transport)'')
      | Some answer \<Rightarrow> Inr (request_permission_via_hub access answer))"

definition owner_result :: "string \<Rightarrow> prompt_outcome \<Rightarrow> 'e hub_error + unit" where
  "owner_result tool_name out =
     (if prompt_outcome_allows out then Inr () else Inl (denial_of tool_name out))"

definition settle_with_grants ::
    "('c, 'sig) manager_env \<Rightarrow> ('c, 'sig) hub_approval \<Rightarrow> 'sig folder_grants \<Rightarrow> 'c files \<Rightarrow> string
      \<Rightarrow> access_kind \<Rightarrow> (string + json) option \<Rightarrow> ('e hub_error + unit) \<times> ('c, 'sig) hub_approval" where
  "settle_with_grants M s g fs tool_name access transport =
     (case folder_reload M g fs of
        (g, fs) \<Rightarrow>
          (case folder_decision M g access (ha_policy s) of
             Some (Inr _) \<Rightarrow> (Inr (), s\<lparr>ha_grants := Some g, ha_files := fs\<rparr>)
           | Some (Inl reason) \<Rightarrow>
               (Inl (PermissionDenied reason), s\<lparr>ha_grants := Some g, ha_files := fs\<rparr>)
           | None \<Rightarrow>
               (case ask_owner tool_name access transport of
                  Inl e \<Rightarrow> (Inl e, s\<lparr>ha_grants := Some g, ha_files := fs\<rparr>)
                | Inr out \<Rightarrow>
                    (case folder_record M g access out fs of
                       (g, fs) \<Rightarrow>
                         (owner_result tool_name out, s\<lparr>ha_grants := Some g, ha_files := fs\<rparr>)))))"

definition settle_without_grants ::
    "('c, 'sig) hub_approval \<Rightarrow> string \<Rightarrow> access_kind \<Rightarrow> (string + json) option
      \<Rightarrow> ('e hub_error + unit) \<times> ('c, 'sig) hub_approval" where
  "settle_without_grants s tool_name access transport =
     (case ask_owner tool_name access transport of
        Inl e \<Rightarrow> (Inl e, s) | Inr out \<Rightarrow> (owner_result tool_name out, s))"

definition hub_settle ::
    "('c, 'sig) manager_env \<Rightarrow> (string \<Rightarrow> json \<Rightarrow> 'e + tool_input) \<Rightarrow> ('c, 'sig) hub_approval
      \<Rightarrow> string \<Rightarrow> json \<Rightarrow> (string + json) option
      \<Rightarrow> ('e hub_error + unit) \<times> ('c, 'sig) hub_approval" where
  "hub_settle M try_parse s tool_name args transport =
     (if ha_policy s = UnattendedAllowed \<and> ha_yolo_mode s then (Inr (), s)
      else case try_parse tool_name args of
        Inl e \<Rightarrow> (Inl (Undecodable e), s)
      | Inr input \<Rightarrow>
          (let access = access_kind_of input in
           if \<not> requires_approval access then (Inr (), s)
           else if ha_policy s = AlwaysPrompt then settle_without_grants s tool_name access transport
           else case folder_for M s of
             (None, fs) \<Rightarrow> settle_without_grants s tool_name access transport
           | (Some g, fs) \<Rightarrow> settle_with_grants M s g fs tool_name access transport))"

definition approve_hub_call ::
    "('c, 'sig) manager_env \<Rightarrow> (string \<Rightarrow> json \<Rightarrow> 'e + tool_input) \<Rightarrow> tool_approval_gate
      \<Rightarrow> ('c, 'sig) hub_approval \<Rightarrow> string \<Rightarrow> json \<Rightarrow> (string + json) option
      \<Rightarrow> ('e hub_error + unit) \<times> ('c, 'sig) hub_approval" where
  "approve_hub_call M try_parse gate s tool_name args transport =
     (case gate of
        GateOff \<Rightarrow> (Inr (), s)
      | GateEnforced \<Rightarrow> hub_settle M try_parse s tool_name args transport)"

end
