(* ===== verification/PermPrompter.thy ===== *)
theory PermPrompter imports GatePreflight begin

text \<open>
  The local prompt (\<^verbatim>\<open>permission/prompter.rs\<close>): the options that each kind of access offers, what is
  sent with them, and what a selected option means. An ordered map of options is the list of its
  entries. The upper case of the first character of a word is a parameter; showing the prompt and
  its events are left out.
\<close>

section \<open>Options\<close>

datatype option_kind = KAllowOnce | KAllowAlways | KRejectOnce | KRejectAlways | KOther

record permission_option =
  po_name :: string
  po_kind :: option_kind
  po_meta :: "json option"

type_synonym permission_options = "(string \<times> permission_option) list"

definition plain_option :: "string \<Rightarrow> option_kind \<Rightarrow> permission_option" where
  "plain_option label kind = \<lparr>po_name = label, po_kind = kind, po_meta = None\<rparr>"

definition reject_once_label :: string where
  "reject_once_label = ''No, and tell Grok what to do differently''"

definition allow_edits_session_option_id :: string where
  "allow_edits_session_option_id = ''allow-edits-session''"

definition enable_always_approve_option_id :: string where
  "enable_always_approve_option_id = ''enable-always-approve''"

definition enable_always_approve_option :: permission_option where
  "enable_always_approve_option =
     plain_option (''Yes, and don'' @ [CHR 39] @ ''t ask again for anything (always-approve mode)'') KAllowOnce"

definition is_enable_always_approve_option :: "string \<Rightarrow> bool" where
  "is_enable_always_approve_option option_id \<longleftrightarrow> option_id = enable_always_approve_option_id"

definition client_supports_enable_always_approve :: "client_type \<Rightarrow> bool" where
  "client_supports_enable_always_approve c \<longleftrightarrow> c = GrokTUI \<or> c = GrokPager \<or> c = Desktop"

definition insert_all :: "('k \<times> 'v) list \<Rightarrow> ('k \<times> 'v) list \<Rightarrow> ('k \<times> 'v) list" where
  "insert_all new m = fold (\<lambda>(k, v). hm_ins k v) new m"

definition prepend_enable_always_approve ::
    "client_type \<Rightarrow> permission_options \<Rightarrow> permission_options" where
  "prepend_enable_always_approve c base =
     (if \<not> client_supports_enable_always_approve c then base
      else insert_all base [(enable_always_approve_option_id, enable_always_approve_option)])"

section \<open>Names of MCP tools\<close>

definition mcp_tool_action :: "string \<Rightarrow> string option \<Rightarrow> string" where
  "mcp_tool_action tool_name server_prefix =
     (case server_prefix of
        None \<Rightarrow> tool_name
      | Some pre \<Rightarrow>
          unwrap_or tool_name
            (Option.bind (strip_prefix pre tool_name) (strip_prefix mcp_tool_name_delimiter)))"

definition mcp_titleize_segment :: "(string \<Rightarrow> string) \<Rightarrow> string \<Rightarrow> string" where
  "mcp_titleize_segment upcase_first name =
     join '' '' (map (\<lambda>w. if w = [] then [] else upcase_first w) (split_on (CHR ''_'') name))"

definition titled :: "(string \<Rightarrow> string) \<Rightarrow> string \<Rightarrow> string \<Rightarrow> string" where
  "titled upcase_first server action =
     ''('' @ mcp_titleize_segment upcase_first server @ '') '' @ mcp_titleize_segment upcase_first action"

definition mcp_tool_display_name :: "(string \<Rightarrow> string) \<Rightarrow> string \<Rightarrow> string option \<Rightarrow> string" where
  "mcp_tool_display_name upcase_first tool_name server_prefix =
     (case server_prefix of
        Some server \<Rightarrow> titled upcase_first server (mcp_tool_action tool_name server_prefix)
      | None \<Rightarrow> mcp_titleize_segment upcase_first tool_name)"

definition mcp_pretty_name_if_qualified :: "(string \<Rightarrow> string) \<Rightarrow> string \<Rightarrow> string" where
  "mcp_pretty_name_if_qualified upcase_first name =
     (case parse_mcp_qualified_name name of
        Some (tid, server, action) \<Rightarrow> titled upcase_first server action
      | None \<Rightarrow> name)"

definition mcp_server_of :: "string \<Rightarrow> string option" where
  "mcp_server_of tool_name = map_option (\<lambda>(tid, server, action). server) (parse_mcp_qualified_name tool_name)"

section \<open>The options of an access\<close>

definition edit_options :: permission_options where
  "edit_options =
     [(allow_edits_session_option_id, plain_option ''Yes, allow all edits during this session'' KAllowAlways),
      (''allow-once'', plain_option ''Yes'' KAllowOnce),
      (''reject-once'', plain_option reject_once_label KRejectOnce)]"

definition bash_options :: permission_options where
  "bash_options =
     [(''allow-once'', plain_option ''Yes, proceed'' KAllowOnce),
      (''reject-once'', plain_option reject_once_label KRejectOnce)]"

definition generic_bash_options :: permission_options where
  "generic_bash_options =
     [(''always-allow'',
       plain_option (''Yes, and don'' @ [CHR 39] @ ''t ask again for bash commands'') KAllowAlways),
      (''allow-once'', plain_option ''Yes, proceed'' KAllowOnce),
      (''reject-once'', plain_option reject_once_label KRejectOnce),
      (''reject-always'',
       plain_option (''No, and don'' @ [CHR 39] @ ''t ask again for this command'') KRejectAlways)]"

definition fallback_options :: permission_options where
  "fallback_options =
     [(''always-allow'', plain_option ''always allow'' KAllowAlways),
      (''allow-once'', plain_option ''allow once'' KAllowOnce),
      (''reject-once'', plain_option ''reject once'' KRejectOnce)]"

definition agent_message_options :: permission_options where
  "agent_message_options =
     [(''allow-once'', plain_option ''Yes, send once'' KAllowOnce),
      (''reject-once'', plain_option reject_once_label KRejectOnce)]"

definition remember_tool_approvals_gated_ids :: "string list" where
  "remember_tool_approvals_gated_ids =
     [''allow-always-command'', ''reject-always-command'', ''allow-always-mcp'', ''reject-always-mcp'',
      ''allow-always-domain'', ''reject-always-domain'', ''always-allow'', ''reject-always'']"

definition bash_scope_option :: "string \<Rightarrow> option_kind \<Rightarrow> bash_command_highlights \<Rightarrow> permission_option" where
  "bash_scope_option pre kind primary =
     \<lparr>po_name = pre @ '' '' @ join '' '' (hl_highlighted_words primary), po_kind = kind,
      po_meta = Some (JObj [(''prompt_prefix'', JStr pre)])\<rparr>"

definition fancy_bash_options :: "policy_env \<Rightarrow> string \<Rightarrow> permission_options" where
  "fancy_bash_options E cmd =
     (let primary = primary_command_from_script (parse_shell E) cmd;
          allow = (case primary of
              Some h \<Rightarrow>
                if always_allow_row_is_effective E cmd
                then [(''allow-always-command'', bash_scope_option ''Always allow:'' KAllowAlways h)] else []
            | None \<Rightarrow> []);
          deny = (case primary of
              Some h \<Rightarrow> [(''reject-always-command'', bash_scope_option ''Never allow:'' KRejectAlways h)]
            | None \<Rightarrow> [])
      in insert_all deny (insert_all bash_options allow))"

definition web_fetch_options :: "policy_env \<Rightarrow> string \<Rightarrow> permission_options" where
  "web_fetch_options E url =
     (let domain = unwrap_or ''unknown domain'' (domain_from_url E url);
          deny_domain = unwrap_or domain (web_fetch_deny_key_from_url E url)
      in [(''allow-always-domain'',
           plain_option (''Yes, always allow '' @ domain @ '' for this project'') KAllowAlways),
          (''allow-once'', plain_option ''Yes, allow once'' KAllowOnce),
          (''reject-once'', plain_option reject_once_label KRejectOnce),
          (''reject-always-domain'',
           plain_option (''No, never allow '' @ deny_domain @ '' for this project'') KRejectAlways)])"

definition mcp_options :: "(string \<Rightarrow> string) \<Rightarrow> string \<Rightarrow> permission_options" where
  "mcp_options upcase_first tool_name =
     (let server = mcp_server_of tool_name
      in [(''allow-always-mcp'',
           \<lparr>po_name = ''Always allow: '' @ tool_name, po_kind = KAllowAlways,
            po_meta = Some (JObj [(''prompt_prefix'', JStr ''Always allow:''),
              (''tool_name'', JStr tool_name), (''server_prefix'', jopt_str server)])\<rparr>),
          (''allow-once'', plain_option ''Yes'' KAllowOnce),
          (''reject-once'', plain_option reject_once_label KRejectOnce),
          (''reject-always-mcp'',
           plain_option (''Never allow: '' @ mcp_tool_display_name upcase_first tool_name server) KRejectAlways)])"

definition build_options_inner ::
    "policy_env \<Rightarrow> (string \<Rightarrow> string) \<Rightarrow> client_type \<Rightarrow> access_kind \<Rightarrow> permission_options" where
  "build_options_inner E upcase_first c access =
     (case access of
        AcEdit p \<Rightarrow> edit_options
      | AcAgentMessage a \<Rightarrow> agent_message_options
      | AcTool t \<Rightarrow> agent_message_options
      | AcBash cmd \<Rightarrow>
          if client_supports_enable_always_approve c then fancy_bash_options E cmd else generic_bash_options
      | AcWebFetch url \<Rightarrow> web_fetch_options E url
      | AcMCPTool name input \<Rightarrow>
          if client_supports_enable_always_approve c then mcp_options upcase_first name else fallback_options
      | _ \<Rightarrow> fallback_options)"

definition build_options ::
    "policy_env \<Rightarrow> (string \<Rightarrow> string) \<Rightarrow> client_type \<Rightarrow> bool \<Rightarrow> access_kind \<Rightarrow> permission_options" where
  "build_options E upcase_first c remember access =
     (let base = build_options_inner E upcase_first c access;
          base = (if remember then base
            else filter (\<lambda>(k, opt). k \<notin> set remember_tool_approvals_gated_ids) base)
      in prepend_enable_always_approve c base)"

section \<open>What is sent with a prompt\<close>

definition strings_json :: "string list \<Rightarrow> json" where
  "strings_json xs = JArr (map JStr xs)"

definition highlights_json :: "bash_command_highlights \<Rightarrow> (string \<times> json) list" where
  "highlights_json h =
     [(''prefix'', strings_json (hl_prefix h)),
      (''highlighted_words'', strings_json (hl_highlighted_words h)),
      (''suffix'', strings_json (hl_suffix h))]"

definition bash_selection_meta ::
    "policy_env \<Rightarrow> client_type \<Rightarrow> bool \<Rightarrow> access_kind \<Rightarrow> (string \<times> json) list option" where
  "bash_selection_meta E c remember access =
     (case access of
        AcBash cmd \<Rightarrow>
          if remember \<and> client_supports_enable_always_approve c
          then map_option highlights_json (primary_command_from_script (parse_shell E) cmd) else None
      | _ \<Rightarrow> None)"

definition protected_edit_meta :: "protected_edit_reason \<Rightarrow> (string \<times> json) list" where
  "protected_edit_meta r =
     (''kind'', JStr (pe_kind (from_reason r))) #
     (case pe_description (from_reason r) of Some d \<Rightarrow> [(''description'', JStr d)] | None \<Rightarrow> [])"

definition hook_ask_json :: "hook_ask \<Rightarrow> json" where
  "hook_ask_json ask =
     JObj ((''hookName'', JStr (hook_name ask)) #
       (case hook_reason ask of Some r \<Rightarrow> [(''reason'', JStr r)] | None \<Rightarrow> []))"

definition permission_request_meta ::
    "policy_env \<Rightarrow> client_type \<Rightarrow> bool \<Rightarrow> access_kind \<Rightarrow> protected_edit_reason option \<Rightarrow> hook_ask option
      \<Rightarrow> (string \<times> json) list option" where
  "permission_request_meta E c remember access protected hook =
     (let meta = unwrap_or []
            (or_else (bash_selection_meta E c remember access) (map_option protected_edit_meta protected));
          meta = (case hook of Some ask \<Rightarrow> hm_ins ''hookAsk'' (hook_ask_json ask) meta | None \<Rightarrow> meta)
      in if meta = [] then None else Some meta)"

text \<open>The title of the tool call, with the hook that asked.\<close>

definition with_hook_ask_header :: "string option \<Rightarrow> hook_ask option \<Rightarrow> string \<Rightarrow> string option" where
  "with_hook_ask_header title hook tool_name =
     (case hook of
        None \<Rightarrow> title
      | Some ask \<Rightarrow>
          Some (prompt_header ask
            (unwrap_or tool_name (nonempty (map_option trim title)))))"

section \<open>What a selected option means\<close>

text \<open>The parts of the answer's meta: the scope of an MCP grant, and the terms of a command.\<close>

datatype mcp_scope_selection = ScopeTool string | ScopeServer string

definition mcp_scope_of_meta :: "json option \<Rightarrow> mcp_scope_selection option" where
  "mcp_scope_of_meta meta =
     Option.bind meta (\<lambda>m. Option.bind (jget_str ''kind'' m) (\<lambda>kind.
       if kind = ''tool'' then map_option ScopeTool (jget_str ''tool_name'' m)
       else if kind = ''server'' then map_option ScopeServer (jget_str ''server'' m)
       else None))"

fun all_strings :: "json list \<Rightarrow> string list option" where
  "all_strings [] = Some []"
| "all_strings (v # vs) =
     Option.bind (as_str v) (\<lambda>s. map_option (\<lambda>ss. s # ss) (all_strings vs))"

record bash_command_selected_terms =
  st_command_parts :: "string list"
  st_is_glob :: bool

definition selected_terms_of_meta :: "json option \<Rightarrow> bash_command_selected_terms option" where
  "selected_terms_of_meta meta =
     Option.bind meta (\<lambda>m.
       Option.bind (Option.bind (Option.bind (jget ''command_parts'' m) as_array) all_strings) (\<lambda>parts.
         case jget ''is_glob'' m of
           None \<Rightarrow> Some \<lparr>st_command_parts = parts, st_is_glob = False\<rparr>
         | Some (JBool b) \<Rightarrow> Some \<lparr>st_command_parts = parts, st_is_glob = b\<rparr>
         | Some v \<Rightarrow> None))"

definition selected_mcp_scope :: "json option \<Rightarrow> access_kind \<Rightarrow> prompt_outcome" where
  "selected_mcp_scope meta access =
     (let own = (case access of AcMCPTool name input \<Rightarrow> AllowAlwaysMcpTool name | _ \<Rightarrow> AllowAlways) in
      case mcp_scope_of_meta meta of
        Some (ScopeTool tool_name) \<Rightarrow> AllowAlwaysMcpTool tool_name
      | Some (ScopeServer server) \<Rightarrow> if server = [] then own else AllowAlwaysMcpServer server
      | None \<Rightarrow> own)"

definition selected_command :: "policy_env \<Rightarrow> json option \<Rightarrow> access_kind \<Rightarrow> prompt_outcome" where
  "selected_command E meta access =
     (case selected_terms_of_meta meta of
        Some terms \<Rightarrow>
          (let pattern = join '' '' (st_command_parts terms)
           in if st_is_glob terms then AllowAlwaysBashGlob pattern else AllowAlwaysBashCommand pattern)
      | None \<Rightarrow>
          (case access of
             AcBash cmd \<Rightarrow>
               (case primary_command_from_script (parse_shell E) cmd of
                  Some primary \<Rightarrow> AllowAlwaysBashCommand (join '' '' (hl_highlighted_words primary))
                | None \<Rightarrow> AllowAlways)
           | _ \<Rightarrow> AllowAlways))"

definition selected_allow_always ::
    "policy_env \<Rightarrow> string \<Rightarrow> json option \<Rightarrow> access_kind \<Rightarrow> prompt_outcome" where
  "selected_allow_always E option_id meta access =
     (if is_enable_always_approve_option option_id then AllowOnce
      else if option_id = ''allow-always-mcp'' then selected_mcp_scope meta access
      else if option_id = ''allow-always-domain'' then
        (case access of
           AcWebFetch url \<Rightarrow>
             (case nonempty (domain_from_url E url) of Some d \<Rightarrow> AllowAlwaysDomain d | None \<Rightarrow> AllowOnce)
         | _ \<Rightarrow> AllowOnce)
      else if option_id = ''allow-always-command'' then selected_command E meta access
      else if option_id = allow_edits_session_option_id \<and> (case access of AcEdit p \<Rightarrow> True | _ \<Rightarrow> False)
      then AllowEditsForSession
      else AllowAlways)"

definition selected_reject_always ::
    "policy_env \<Rightarrow> string \<Rightarrow> json option \<Rightarrow> access_kind \<Rightarrow> prompt_outcome" where
  "selected_reject_always E option_id meta access =
     (if option_id = ''reject-always-command'' \<or> option_id = ''reject-always'' then
        (case selected_terms_of_meta meta of
           Some terms \<Rightarrow> RejectAlwaysBashCommand (join '' '' (st_command_parts terms))
         | None \<Rightarrow>
             (case access of
                AcBash cmd \<Rightarrow>
                  (case primary_command_from_script (parse_shell E) cmd of
                     Some primary \<Rightarrow> RejectAlwaysBashCommand (join '' '' (hl_highlighted_words primary))
                   | None \<Rightarrow> RejectAlwaysBashCommand cmd)
              | _ \<Rightarrow> RejectOnce))
      else if option_id = ''reject-always-mcp'' then
        (case access of AcMCPTool name input \<Rightarrow> RejectAlwaysMcpTool name | _ \<Rightarrow> RejectOnce)
      else if option_id = ''reject-always-domain'' then
        (case access of
           AcWebFetch url \<Rightarrow>
             (case web_fetch_deny_key_from_url E url of
                Some d \<Rightarrow> RejectAlwaysDomain d | None \<Rightarrow> RejectOnce)
         | _ \<Rightarrow> RejectOnce)
      else RejectOnce)"

definition selected_reject_once :: "json option \<Rightarrow> prompt_outcome" where
  "selected_reject_once meta =
     (case Option.bind meta (jget_str ''followup_message'') of
        Some followup \<Rightarrow> if trim followup \<noteq> [] then PromptFollowup followup else RejectOnce
      | None \<Rightarrow> RejectOnce)"

definition map_selected_outcome ::
    "policy_env \<Rightarrow> permission_options \<Rightarrow> string \<Rightarrow> json option \<Rightarrow> access_kind \<Rightarrow> prompt_outcome" where
  "map_selected_outcome E options option_id meta access =
     (case hm_get options option_id of
        None \<Rightarrow> PromptError ''unknown permission option''
      | Some opt \<Rightarrow>
          (case po_kind opt of
             KAllowOnce \<Rightarrow> AllowOnce
           | KAllowAlways \<Rightarrow> selected_allow_always E option_id meta access
           | KRejectOnce \<Rightarrow> selected_reject_once meta
           | KRejectAlways \<Rightarrow> selected_reject_always E option_id meta access
           | KOther \<Rightarrow> PromptError ''unknown permission option kind''))"

text \<open>The answer of the client: a failure, a cancelled prompt, or an option with its meta.\<close>

datatype client_answer = AnswerFailed | AnswerCancelled | AnswerSelected string "json option" | AnswerOther

definition local_prompt_outcome ::
    "policy_env \<Rightarrow> (string \<Rightarrow> string) \<Rightarrow> client_type \<Rightarrow> bool \<Rightarrow> access_kind \<Rightarrow> client_answer
      \<Rightarrow> prompt_outcome" where
  "local_prompt_outcome E upcase_first c remember access answer =
     (case answer of
        AnswerFailed \<Rightarrow> PromptError ''failed to request permission''
      | AnswerCancelled \<Rightarrow> PromptCancelled
      | AnswerSelected option_id meta \<Rightarrow>
          map_selected_outcome E (build_options E upcase_first c remember access) option_id meta access
      | AnswerOther \<Rightarrow> PromptError ''unknown permission outcome'')"

datatype permission_verdict = VerdictAllow | VerdictDeny | VerdictCancelled | VerdictFollowup

definition permission_decision_for_outcome :: "prompt_outcome \<Rightarrow> permission_verdict" where
  "permission_decision_for_outcome out =
     (case out of
        AllowOnce \<Rightarrow> VerdictAllow
      | AllowAlways \<Rightarrow> VerdictAllow
      | AllowEditsForSession \<Rightarrow> VerdictAllow
      | AllowAlwaysBashCommand s \<Rightarrow> VerdictAllow
      | AllowAlwaysBashGlob s \<Rightarrow> VerdictAllow
      | AllowAlwaysDomain s \<Rightarrow> VerdictAllow
      | AllowAlwaysMcpTool s \<Rightarrow> VerdictAllow
      | AllowAlwaysMcpServer s \<Rightarrow> VerdictAllow
      | RejectOnce \<Rightarrow> VerdictDeny
      | RejectAlwaysBashCommand s \<Rightarrow> VerdictDeny
      | RejectAlwaysMcpTool s \<Rightarrow> VerdictDeny
      | RejectAlwaysDomain s \<Rightarrow> VerdictDeny
      | PromptError e \<Rightarrow> VerdictDeny
      | PromptCancelled \<Rightarrow> VerdictCancelled
      | PromptFollowup m \<Rightarrow> VerdictFollowup)"

text \<open>
  The events of one prompt: the request, and one resolution, which the guard emits as cancelled when
  the prompt is dropped before it ends.
\<close>

datatype prompt_record = PermissionRequested string | PermissionResolved string permission_verdict

definition prompt_records :: "access_kind \<Rightarrow> prompt_outcome option \<Rightarrow> prompt_record list" where
  "prompt_records access outcome =
     [PermissionRequested (tool_name_for_access access),
      PermissionResolved (tool_name_for_access access)
        (case outcome of Some out \<Rightarrow> permission_decision_for_outcome out | None \<Rightarrow> VerdictCancelled)]"

end
