(* ===== verification/HubGateLaws.thy ===== *)
theory HubGateLaws imports HubGate PermPrompter begin

text \<open>
  The properties of the two ways to ask the user: the local prompt and the gate of the hub.
\<close>

section \<open>The local prompt\<close>

lemma insert_all_single:
  "insert_all base [(k, v)] = (k, v) # base" if "k \<notin> fst ` set base" "distinct (map fst base)"
proof -
  have "insert_all base m = m @ base" if "distinct (map fst base)" "fst ` set base \<inter> fst ` set m = {}" for m
    using that
  proof (induction base arbitrary: m)
    case (Cons e base)
    obtain k v where e: "e = (k, v)" by (cases e)
    from Cons.prems e have "hm_ins k v m = m @ [(k, v)]"
      by (induction m) auto
    with Cons e show ?case by (auto simp: insert_all_def)
  qed (simp add: insert_all_def)
  from this [of "[(k, v)]"] that show ?thesis by simp
qed

lemmas option_list_defs = edit_options_def bash_options_def generic_bash_options_def
  fallback_options_def agent_message_options_def mcp_options_def web_fetch_options_def plain_option_def
  allow_edits_session_option_id_def enable_always_approve_option_id_def

text \<open>With the bash rows of a client that can choose a scope written out.\<close>

lemma fancy_bash_rows:
  obtains (plain) "fancy_bash_options E cmd = bash_options"
  | (deny) h where "fancy_bash_options E cmd =
      bash_options @ [(''reject-always-command'', bash_scope_option ''Never allow:'' KRejectAlways h)]"
  | (both) h where "always_allow_row_is_effective E cmd" "fancy_bash_options E cmd =
      (''allow-always-command'', bash_scope_option ''Always allow:'' KAllowAlways h) # bash_options @
      [(''reject-always-command'', bash_scope_option ''Never allow:'' KRejectAlways h)]"
proof (cases "primary_command_from_script (parse_shell E) cmd")
  case None
  then show thesis by (intro plain) (simp add: fancy_bash_options_def insert_all_def bash_options_def)
next
  case (Some h)
  show thesis
  proof (cases "always_allow_row_is_effective E cmd")
    case True
    with Some show thesis
      by (intro both [of h]) (simp_all add: fancy_bash_options_def insert_all_def bash_options_def)
  next
    case False
    with Some show thesis
      by (intro deny [of h]) (simp add: fancy_bash_options_def insert_all_def bash_options_def)
  qed
qed

lemma inner_ids:
  "distinct (map fst (build_options_inner E up c access))"
  "enable_always_approve_option_id \<notin> fst ` set (build_options_inner E up c access)"
proof -
  have "distinct (map fst (build_options_inner E up c access)) \<and>
      enable_always_approve_option_id \<notin> fst ` set (build_options_inner E up c access)"
  proof (cases access)
    case (AcBash cmd)
    show ?thesis
      by (cases rule: fancy_bash_rows [of E cmd]) (simp_all add: AcBash build_options_inner_def option_list_defs)
  qed (simp_all add: build_options_inner_def option_list_defs Let_def)
  then show "distinct (map fst (build_options_inner E up c access))"
    "enable_always_approve_option_id \<notin> fst ` set (build_options_inner E up c access)" by simp_all
qed

lemma build_options_rows:
  "build_options E up c remember access =
     (if client_supports_enable_always_approve c
      then [(enable_always_approve_option_id, enable_always_approve_option)] else []) @
     (if remember then build_options_inner E up c access
      else filter (\<lambda>(k, opt). k \<notin> set remember_tool_approvals_gated_ids) (build_options_inner E up c access))"
proof -
  let ?inner = "build_options_inner E up c access"
  have "distinct (map fst (filter P ?inner))" "enable_always_approve_option_id \<notin> fst ` set (filter P ?inner)" for P
    using inner_ids [of E up c access] by (auto simp: distinct_map_filter)
  with inner_ids [of E up c access] show ?thesis
    by (simp add: build_options_def prepend_enable_always_approve_def insert_all_single Let_def)
qed

text \<open>An option for always that no gate strips is the one for the edits of the session.\<close>

lemma ungated_rows:
  "list_all (\<lambda>(k, opt). k \<in> set remember_tool_approvals_gated_ids \<or>
      po_kind opt = KAllowOnce \<or> po_kind opt = KRejectOnce \<or>
      po_kind opt = KAllowAlways \<and> k = allow_edits_session_option_id \<and> (\<exists>p. access = AcEdit p))
    (build_options_inner E up c access)"
proof (cases access)
  case (AcBash cmd)
  show ?thesis
    by (cases rule: fancy_bash_rows [of E cmd])
      (simp_all add: AcBash build_options_inner_def bash_scope_option_def option_list_defs
        remember_tool_approvals_gated_ids_def)
qed (simp_all add: build_options_inner_def option_list_defs remember_tool_approvals_gated_ids_def Let_def)

lemma ungated_kinds:
  assumes "(k, opt) \<in> set (build_options_inner E up c access)" and "k \<notin> set remember_tool_approvals_gated_ids"
  shows "po_kind opt = KAllowOnce \<or> po_kind opt = KRejectOnce \<or>
    po_kind opt = KAllowAlways \<and> k = allow_edits_session_option_id \<and> (\<exists>p. access = AcEdit p)"
  using ungated_rows [of access E up c] assms by (fastforce simp: list_all_iff)

lemma gate_off_outcome:
  "local_prompt_outcome E up c False access answer \<in> {AllowOnce, RejectOnce, PromptCancelled} \<or>
   local_prompt_outcome E up c False access answer = AllowEditsForSession \<and> (\<exists>p. access = AcEdit p) \<or>
   (\<exists>t. local_prompt_outcome E up c False access answer = PromptFollowup t) \<or>
   (\<exists>t. local_prompt_outcome E up c False access answer = PromptError t)"
proof (cases answer)
  case (AnswerSelected option_id meta)
  show ?thesis
  proof (cases "hm_get (build_options E up c False access) option_id")
    case None
    then show ?thesis by (simp add: AnswerSelected local_prompt_outcome_def map_selected_outcome_def)
  next
    case (Some opt)
    then have row: "(option_id, opt) \<in> set (build_options E up c False access)" by (rule map_of_SomeD)
    have "po_kind opt = KAllowOnce \<or> po_kind opt = KRejectOnce \<or>
        po_kind opt = KAllowAlways \<and> option_id = allow_edits_session_option_id \<and> (\<exists>p. access = AcEdit p)"
      using row ungated_kinds [of option_id opt E up c access]
      by (auto simp: build_options_rows enable_always_approve_option_def plain_option_def split: if_splits)
    then show ?thesis
    proof (elim disjE conjE exE)
      fix p
      assume "po_kind opt = KAllowAlways" "option_id = allow_edits_session_option_id" "access = AcEdit p"
      with Some show ?thesis
        by (simp add: AnswerSelected local_prompt_outcome_def map_selected_outcome_def
          selected_allow_always_def is_enable_always_approve_option_def option_list_defs)
    qed (use Some in \<open>auto simp: AnswerSelected local_prompt_outcome_def map_selected_outcome_def
      selected_reject_once_def split: option.split\<close>)
  qed
qed (simp_all add: local_prompt_outcome_def)

text \<open>
  With the memory of approvals switched off, no answer of a client is remembered: whatever option
  it names and whatever it sends with it, nothing is recorded, and only an answer to an edit can
  reach beyond the call, to the edits of the session.
\<close>
theorem gate_off_remembers_nothing:
  "record_prompt_outcome E' state access (local_prompt_outcome E up c False access answer) = (state, None) \<and>
   (local_prompt_outcome E up c False access answer = AllowEditsForSession \<longrightarrow> (\<exists>p. access = AcEdit p))"
  using gate_off_outcome [of E up c access answer]
  by (cases access)
    (auto simp: record_prompt_outcome_def record_bash_outcome_def record_mcp_outcome_def record_web_outcome_def)

theorem gate_off_remembers_nothing_witness:
  "local_prompt_outcome word_env (\<lambda>w. w) GrokPager False (AcEdit ''a'')
     (AnswerSelected allow_edits_session_option_id None) = AllowEditsForSession \<and>
   local_prompt_outcome word_env (\<lambda>w. w) GrokPager False (AcBash ''make test'')
     (AnswerSelected ''allow-always-command'' None) = PromptError ''unknown permission option'' \<and>
   (\<exists>p. AcEdit ''a'' = AcEdit p)"
proof -
  have "local_prompt_outcome word_env (\<lambda>w. w) GrokPager False (AcEdit ''a'')
      (AnswerSelected allow_edits_session_option_id None) = AllowEditsForSession" by code_simp
  moreover have "local_prompt_outcome word_env (\<lambda>w. w) GrokPager False (AcBash ''make test'')
      (AnswerSelected ''allow-always-command'' None) = PromptError ''unknown permission option''" by code_simp
  ultimately show ?thesis
    using gate_off_remembers_nothing [of word_env default_state "AcEdit ''a''" word_env "\<lambda>w. w" GrokPager
      "AnswerSelected allow_edits_session_option_id None"] by simp
qed

lemma kept_rows:
  "k \<notin> set gone \<Longrightarrow> hm_get (filter (\<lambda>(k, opt). k \<notin> set gone) m) k = hm_get m k"
  by (induction m) auto

lemma built_row:
  assumes "k \<notin> set remember_tool_approvals_gated_ids" and "k \<noteq> enable_always_approve_option_id"
  shows "hm_get (build_options E up c remember access) k = hm_get (build_options_inner E up c access) k"
  using assms(2) kept_rows [OF assms(1), of "build_options_inner E up c access"]
  by (simp add: build_options_rows)

lemma inner_once_rows:
  "\<exists>a r. hm_get (build_options_inner E up c access) ''allow-once'' = Some a \<and> po_kind a = KAllowOnce \<and>
     hm_get (build_options_inner E up c access) ''reject-once'' = Some r \<and> po_kind r = KRejectOnce"
proof (cases access)
  case (AcBash cmd)
  show ?thesis
    by (cases rule: fancy_bash_rows [of E cmd])
      (simp_all add: AcBash build_options_inner_def bash_scope_option_def option_list_defs)
qed (simp_all add: build_options_inner_def option_list_defs Let_def)

lemma built_distinct: "distinct (map fst (build_options E up c remember access))"
proof -
  have "distinct (map fst (filter P (build_options_inner E up c access)))"
    "enable_always_approve_option_id \<notin> fst ` set (filter P (build_options_inner E up c access))" for P
    using inner_ids [of E up c access] by (auto simp: distinct_map_filter)
  with inner_ids [of E up c access] show ?thesis by (auto simp: build_options_rows)
qed

lemma first_row:
  "take 1 (build_options E up c remember access) =
     [(enable_always_approve_option_id, enable_always_approve_option)] \<longleftrightarrow>
   client_supports_enable_always_approve c"
proof (cases "client_supports_enable_always_approve c")
  case False
  have "(enable_always_approve_option_id, enable_always_approve_option) \<notin>
      set (build_options E up c remember access)"
    using inner_ids(2) [of E up c access] False
    by (cases remember) (auto simp: build_options_rows image_iff)
  with False show ?thesis by (cases "build_options E up c remember access") auto
qed (simp add: build_options_rows)

text \<open>
  Every prompt can be answered for once: whatever the access, the client and the memory of
  approvals, the options have different names and offer to allow and to reject the call once; and the
  option to approve everything from now on comes first, for exactly the clients that can switch.
\<close>
theorem prompt_can_be_answered_once:
  "distinct (map fst (build_options E up c remember access)) \<and>
   map_selected_outcome E (build_options E up c remember access) ''allow-once'' meta access = AllowOnce \<and>
   map_selected_outcome E (build_options E up c remember access) ''reject-once'' None access = RejectOnce \<and>
   (take 1 (build_options E up c remember access) =
      [(enable_always_approve_option_id, enable_always_approve_option)]) =
   client_supports_enable_always_approve c"
proof -
  have ids: "''allow-once'' \<notin> set remember_tool_approvals_gated_ids"
    "''reject-once'' \<notin> set remember_tool_approvals_gated_ids"
    "''allow-once'' \<noteq> enable_always_approve_option_id" "''reject-once'' \<noteq> enable_always_approve_option_id"
    by (simp_all add: remember_tool_approvals_gated_ids_def enable_always_approve_option_id_def)
  obtain a r where once: "hm_get (build_options_inner E up c access) ''allow-once'' = Some a"
      "po_kind a = KAllowOnce" "hm_get (build_options_inner E up c access) ''reject-once'' = Some r"
      "po_kind r = KRejectOnce"
    using inner_once_rows [of E up c access] by (elim exE conjE)
  have rows: "hm_get (build_options E up c remember access) ''allow-once'' = Some a"
    "hm_get (build_options E up c remember access) ''reject-once'' = Some r"
    using built_row [OF ids(1,3), of E up c remember access] built_row [OF ids(2,4), of E up c remember access]
      once by (simp_all del: One_nat_def)
  show ?thesis
    by (intro conjI built_distinct first_row)
      (simp_all add: map_selected_outcome_def rows once selected_reject_once_def)
qed

section \<open>The reply of the hub\<close>

lemma always_approve_allows: "prompt_outcome_allows (always_approve_outcome reply)"
  by (simp add: always_approve_outcome_def prompt_outcome_allows_def split: option.split prod.split)

lemma always_reject_denies: "\<not> prompt_outcome_allows (always_reject_outcome reply access)"
  by (simp add: always_reject_outcome_def prompt_outcome_allows_def Let_def
    split: option.split prod.split access_kind.split)

lemma reply_allows:
  "prompt_outcome_allows (reply_to_outcome reply access) \<longleftrightarrow>
     reply_word reply = ''approve'' \<or> reply_word reply = ''always_approve''"
proof -
  have "\<not> prompt_outcome_allows (case x of Some m \<Rightarrow> PromptFollowup m | None \<Rightarrow> RejectOnce)" for x
    by (simp add: prompt_outcome_allows_def split: option.split)
  moreover have "prompt_outcome_allows AllowOnce" "\<not> prompt_outcome_allows RejectOnce"
    "\<not> prompt_outcome_allows PromptCancelled" by (simp_all add: prompt_outcome_allows_def)
  ultimately show ?thesis
    by (simp add: reply_to_outcome_def always_approve_allows always_reject_denies Let_def)
qed

lemma via_hub_allows:
  "prompt_outcome_allows (request_permission_via_hub access answer) \<longleftrightarrow>
     (case answer of Inl e \<Rightarrow> False | Inr reply \<Rightarrow> prompt_outcome_allows (reply_to_outcome reply access))"
proof (cases answer)
  case (Inr reply)
  moreover have "prompt_outcome_allows AllowOnce" "prompt_outcome_allows AllowEditsForSession"
    "prompt_outcome_allows AllowAlways" by (simp_all add: prompt_outcome_allows_def)
  ultimately show ?thesis by (auto simp: request_permission_via_hub_def Let_def)
qed (simp add: request_permission_via_hub_def prompt_outcome_allows_def)

text \<open>
  C26. A reply of the hub allows only in so many words: the answer of the transport allows the call
  exactly when it is a reply whose outcome is the word for approval or for approval always, or the
  number of one of the two; an error of the transport and every other reply, of whatever shape,
  denies.
\<close>
theorem reply_allows_iff:
  "prompt_outcome_allows (request_permission_via_hub access answer) \<longleftrightarrow>
     (\<exists>reply. answer = Inr reply \<and>
        jget ''outcome'' reply \<in>
          {Some (JStr ''approve''), Some (JStr ''always_approve''), Some (JInt 1), Some (JInt 3)})"
proof (cases answer)
  case (Inr reply)
  have word: "reply_word reply = ''approve'' \<longleftrightarrow>
      jget ''outcome'' reply = Some (JStr ''approve'') \<or> jget ''outcome'' reply = Some (JInt 1)"
    "reply_word reply = ''always_approve'' \<longleftrightarrow>
      jget ''outcome'' reply = Some (JStr ''always_approve'') \<or> jget ''outcome'' reply = Some (JInt 3)"
    by (simp_all add: reply_word_def split: option.split json.split)
  show ?thesis by (simp add: Inr via_hub_allows reply_allows word disj_ac)
qed (simp add: via_hub_allows)

section \<open>The gate of the hub\<close>

text \<open>What the grants decide, once other sessions' grants are read.\<close>

definition granted ::
    "('c, 'sig) manager_env \<Rightarrow> ('c, 'sig) hub_approval \<Rightarrow> access_kind \<Rightarrow> bool" where
  "granted M s access \<longleftrightarrow>
     ha_policy s \<noteq> AlwaysPrompt \<and>
     (\<exists>g fs. folder_for M s = (Some g, fs) \<and>
        (let state = fg_state (fst (folder_reload M g fs));
             bash = evaluate_access M state access (fg_cwd g) in
         protected_target (me_policy_env M) (me_home M) (me_tilde M) access bash (fg_cwd g) None = None \<and>
         (\<exists>pin r. (pin = None \<longrightarrow> ha_policy s = UnattendedAllowed) \<and>
            session_grant_pre_decision (me_policy_env M) (me_url_path M) access bash state
              (fg_allow_edits_for_session g) None pin = Some (Allow, r))))"

definition owner_agreed :: "access_kind \<Rightarrow> (string + json) option \<Rightarrow> bool" where
  "owner_agreed access transport \<longleftrightarrow>
     (\<exists>answer. transport = Some answer \<and> prompt_outcome_allows (request_permission_via_hub access answer))"

lemma folder_allows:
  assumes "folder_decision M g access policy = Some (Inr u)"
  shows "protected_target (me_policy_env M) (me_home M) (me_tilde M) access
      (evaluate_access M (fg_state g) access (fg_cwd g)) (fg_cwd g) None = None"
    "\<exists>pin r. (pin = None \<longrightarrow> policy = UnattendedAllowed) \<and>
      session_grant_pre_decision (me_policy_env M) (me_url_path M) access
        (evaluate_access M (fg_state g) access (fg_cwd g)) (fg_state g) (fg_allow_edits_for_session g) None pin =
      Some (Allow, r)"
proof -
  let ?pin = "if policy \<noteq> UnattendedAllowed then Some blanket_bash_needs_unattended else None"
  let ?grant = "session_grant_pre_decision (me_policy_env M) (me_url_path M) access
        (evaluate_access M (fg_state g) access (fg_cwd g)) (fg_state g) (fg_allow_edits_for_session g) None ?pin"
  show "protected_target (me_policy_env M) (me_home M) (me_tilde M) access
      (evaluate_access M (fg_state g) access (fg_cwd g)) (fg_cwd g) None = None"
    using assms by (simp add: folder_decision_def Let_def split: if_split_asm)
  with assms have "(case ?grant of Some (Allow, r) \<Rightarrow> Some (Inr ()) | Some (Reject reason, r) \<Rightarrow> Some (Inl reason)
      | _ \<Rightarrow> None) = Some (Inr u)"
    by (simp add: folder_decision_def Let_def)
  then obtain r where "?grant = Some (Allow, r)"
    by (cases ?grant) (auto split: decision.splits)
  then show "\<exists>pin r. (pin = None \<longrightarrow> policy = UnattendedAllowed) \<and>
      session_grant_pre_decision (me_policy_env M) (me_url_path M) access
        (evaluate_access M (fg_state g) access (fg_cwd g)) (fg_state g) (fg_allow_edits_for_session g) None pin =
      Some (Allow, r)"
    by (intro exI [of _ ?pin] exI [of _ r]) simp
qed

lemma reload_keeps:
  "fg_cwd (fst (folder_reload M g fs)) = fg_cwd g"
  "fg_allow_edits_for_session (fst (folder_reload M g fs)) = fg_allow_edits_for_session g"
  by (simp_all add: folder_reload_def split: prod.split)

lemma without_grants_runs:
  "fst (settle_without_grants s tool_name access transport) = Inr u \<Longrightarrow> owner_agreed access transport"
  by (auto simp: settle_without_grants_def ask_owner_def owner_result_def owner_agreed_def
    split: option.splits if_splits)

lemma with_grants_runs:
  assumes "fst (settle_with_grants M s g fs tool_name access transport) = Inr u"
  shows "(\<exists>v. folder_decision M (fst (folder_reload M g fs)) access (ha_policy s) = Some (Inr v)) \<or>
    owner_agreed access transport"
proof -
  obtain g' fs' where reload: "folder_reload M g fs = (g', fs')" by (cases "folder_reload M g fs")
  show ?thesis
  proof (cases "folder_decision M g' access (ha_policy s)")
    case None
    with assms reload show ?thesis
      by (auto simp: settle_with_grants_def ask_owner_def owner_result_def owner_agreed_def
        split: option.splits prod.splits if_splits)
  next
    case (Some d)
    with assms reload show ?thesis by (cases d) (simp_all add: settle_with_grants_def)
  qed
qed

text \<open>
  C4. A call over the hub runs only with consent, as far as its kind requires consent: when an enforced
  gate lets a call through, either the tenant allows unattended hosts and the session approves
  everything; or the toolset decodes the call to an access that by its kind requires no approval (a
  read, a search of files or of the web; inputs whose tool the toolset does not know and calls like the
  one that kills a task count as reads, see \<open>access_kind_of\<close>); or the grants of the folder cover it, with which
  the safe commands count too, and it touches no protected target, with the blanket grant for Bash
  only where unattended hosts are allowed; or the owner of the session was asked and agreed.
\<close>
theorem hub_call_needs_consent:
  fixes try_parse :: "string \<Rightarrow> json \<Rightarrow> 'e + tool_input"
  assumes "fst (approve_hub_call M try_parse GateEnforced s tool_name args transport) = Inr ()"
  shows "ha_policy s = UnattendedAllowed \<and> ha_yolo_mode s \<or>
    (\<exists>input. try_parse tool_name args = Inr input \<and>
       (\<not> requires_approval (access_kind_of input) \<or> granted M s (access_kind_of input) \<or>
        owner_agreed (access_kind_of input) transport))"
proof (cases "ha_policy s = UnattendedAllowed \<and> ha_yolo_mode s")
  case False
  with assms obtain input where input: "try_parse tool_name args = Inr input"
    by (auto simp: approve_hub_call_def hub_settle_def split: sum.splits)
  let ?access = "access_kind_of input"
  have "\<not> requires_approval ?access \<or> granted M s ?access \<or> owner_agreed ?access transport"
  proof (rule ccontr)
    assume no: "\<not> ?thesis"
    with without_grants_runs [of s tool_name ?access transport "()"]
    have free: "fst (settle_without_grants s tool_name ?access transport) \<noteq>
        (Inr () :: 'e hub_error + unit)" by blast
    with assms False input no obtain g fs where folder: "ha_policy s \<noteq> AlwaysPrompt"
        "folder_for M s = (Some g, fs)" 
        "fst (settle_with_grants M s g fs tool_name ?access transport) = (Inr () :: 'e hub_error + unit)"
      by (auto simp: approve_hub_call_def hub_settle_def Let_def split: if_splits prod.splits option.splits)
    with with_grants_runs [OF folder(3)] no obtain v where
      "folder_decision M (fst (folder_reload M g fs)) ?access (ha_policy s) = Some (Inr v)" by blast
    from folder_allows [OF this] folder(1,2) have "granted M s ?access"
      unfolding granted_def Let_def reload_keeps by blast
    with no show False by blast
  qed
  with input show ?thesis by blast
qed simp

text \<open>
  Under the policy to prompt always, memory plays no part: with a gate that is enforced, a
  guarded call that the toolset decodes is settled by the owner alone, without a channel to the owner
  it is denied, and nothing is loaded, recorded or written.
\<close>
theorem always_prompt_ignores_memory:
  assumes "ha_policy s = AlwaysPrompt" and "try_parse tool_name args = Inr input"
    and "requires_approval (access_kind_of input)"
  shows "snd (approve_hub_call M try_parse GateEnforced s tool_name args transport) = s \<and>
    (fst (approve_hub_call M try_parse GateEnforced s tool_name args transport) = Inr ()) =
      owner_agreed (access_kind_of input) transport"
  using assms
  by (auto simp: approve_hub_call_def hub_settle_def settle_without_grants_def ask_owner_def owner_result_def
    owner_agreed_def Let_def split: option.split)

section \<open>The two surfaces\<close>

text \<open>A toolset with two tools, whose argument is the command or the path.\<close>

definition two_tools :: "string \<Rightarrow> json \<Rightarrow> string + tool_input" where
  "two_tools tool_name args =
     (case jget_str ''arg'' args of
        None \<Rightarrow> Inl ''missing field''
      | Some a \<Rightarrow>
          if tool_name = ''bash'' then Inr (BashTool a)
          else if tool_name = ''write'' then Inr (Write a) else Inl ''unknown tool'')"

definition hub_session :: "tool_approval_policy \<Rightarrow> permission_state files \<Rightarrow> (permission_state, nat) hub_approval" where
  "hub_session policy fs =
     \<lparr>ha_cwd = ''/work'', ha_yolo_mode = False, ha_policy = policy, ha_grants = None, ha_files = fs\<rparr>"

definition hub_result ::
    "tool_approval_policy \<Rightarrow> permission_state files \<Rightarrow> string \<Rightarrow> string \<Rightarrow> (string + json) option
      \<Rightarrow> string hub_error + unit" where
  "hub_result policy fs tool_name arg transport =
     fst (approve_hub_call plain_manager_env two_tools GateEnforced (hub_session policy fs) tool_name
       (JObj [(''arg'', JStr arg)]) transport)"

definition approving :: "(string + json) option" where
  "approving = Some (Inr (JObj [(''outcome'', JStr ''approve'')]))"

theorem hub_call_needs_consent_witness:
  "hub_result GrantsAllowed (\<lambda>p. Missing) ''bash'' ''make'' approving = Inr () \<and>
   owner_agreed (AcBash ''make'') approving"
proof -
  have runs: "hub_result GrantsAllowed (\<lambda>p. Missing) ''bash'' ''make'' approving = Inr ()" by code_simp
  have "granted plain_manager_env (hub_session GrantsAllowed (\<lambda>p. Missing)) (AcBash ''make'') \<or>
      owner_agreed (AcBash ''make'') approving"
    using hub_call_needs_consent [OF runs [unfolded hub_result_def]]
    by (simp add: hub_session_def two_tools_def jget_str_def requires_approval_def)
  moreover have "owner_agreed (AcBash ''make'') approving"
    by (simp add: owner_agreed_def approving_def via_hub_allows reply_allows reply_word_def)
  ultimately show ?thesis using runs by simp
qed

theorem always_prompt_ignores_memory_witness:
  "hub_result AlwaysPrompt (\<lambda>p. Missing) ''bash'' ''make'' None \<noteq> Inr () \<and> \<not> owner_agreed (AcBash ''make'') None"
proof -
  have "\<not> owner_agreed (AcBash ''make'') None" by (simp add: owner_agreed_def)
  with always_prompt_ignores_memory [of "hub_session AlwaysPrompt (\<lambda>p. Missing)" two_tools "''bash''"
      "JObj [(''arg'', JStr ''make'')]" "BashTool ''make''" plain_manager_env None]
  show ?thesis
    by (simp add: hub_result_def hub_session_def two_tools_def jget_str_def requires_approval_def)
qed

text \<open>The files after a client has allowed a command for always.\<close>

definition files_after_always :: "string option \<Rightarrow> string \<Rightarrow> permission_state files" where
  "files_after_always client cmd =
     (let cfg = plain_config [] PpAsk\<lparr>mc_client_identifier := client\<rparr>
      in mg_files (rr_manager (handle_request plain_manager_env cfg (plain_manager cfg)
           (plain_request (AcBash cmd)) (answering AllowAlways))))"

definition prohibiting_edits :: "permission_state files" where
  "prohibiting_edits =
     (\<lambda>p. if p = state_file_path ''/s/repo'' None then Holds (default_state\<lparr>st_edit_policy := EpReject\<rparr>) else Missing)"

text \<open>
  What the user settled for the folder does not hold over the hub: a command that a client allowed
  for always runs over the hub without a question when the client gave no identifier, but when it gave
  one, as the terminal UI does, the grant is in a store of its own that the hub never reads; and where
  the stored policy prohibits all edits, the local manager rejects an edit, but over the hub it runs
  when the owner is asked and agrees.
\<close>
theorem hub_reads_other_store:
  "hub_result GrantsAllowed (files_after_always None ''make'') ''bash'' ''make'' None = Inr () \<and>
   hub_result GrantsAllowed (files_after_always (Some ''grok-pager'') ''make'') ''bash'' ''make'' None =
     Inl (PermissionDenied ''tool permission unavailable (no hub transport)'') \<and>
   rr_decision (handle_request plain_manager_env (plain_config [] PpAsk)
     (spawn_manager plain_manager_env (plain_config [] PpAsk) False prohibiting_edits)
     (plain_request (AcEdit ''/work/a'')) (answering AllowOnce)) = Some (Reject ''edits prohibited'') \<and>
   hub_result GrantsAllowed prohibiting_edits ''write'' ''/work/a'' approving = Inr ()"
  by (intro conjI; code_simp)

end
