(* ===== verification/PermHandle.thy ===== *)
theory PermHandle imports ManagerRuns begin

text \<open>
  The handle of the permission manager (\<^verbatim>\<open>permission/manager/mod.rs\<close>, \<^verbatim>\<open>PermissionHandle\<close>): clones of
  it are used by many tasks at once. A call that changes the mode first stores the mode in flags that
  all clones and the actor share, then sends a command; the actor stores the flags again when it
  handles the command. The steps below interleave these at will.
\<close>

section \<open>The shared state\<close>

record ('c, 'sig) handle_state =
  hs_actor :: "('c, 'sig) manager"
  hs_running :: bool
  hs_queue :: "permission_command list"
  hs_yolo_state :: bool
  hs_auto_state :: bool
  hs_side_query_wired :: bool
  hs_in_flight :: nat

datatype permission_handle = AllowAllHandle | ActorHandle

text \<open>What a command stores in the flag of always-approve, and in that of automatic mode.\<close>

definition stores_yolo :: "string option \<Rightarrow> permission_command \<Rightarrow> bool option" where
  "stores_yolo yolo_pin cmd =
     (case cmd of
        CmdSetYoloMode enabled \<Rightarrow> Some (clamp_yolo enabled yolo_pin)
      | CmdSetAutoMode enabled \<Rightarrow> if enabled then Some False else None
      | _ \<Rightarrow> None)"

definition stores_auto :: "string option \<Rightarrow> permission_command \<Rightarrow> bool option" where
  "stores_auto yolo_pin cmd =
     (case cmd of
        CmdSetYoloMode enabled \<Rightarrow> if clamp_yolo enabled yolo_pin then Some False else None
      | CmdSetAutoMode enabled \<Rightarrow> Some enabled
      | _ \<Rightarrow> None)"

definition store_flags ::
    "string option \<Rightarrow> permission_command \<Rightarrow> ('c, 'sig) handle_state \<Rightarrow> ('c, 'sig) handle_state" where
  "store_flags yolo_pin cmd h =
     h\<lparr>hs_yolo_state := unwrap_or (hs_yolo_state h) (stores_yolo yolo_pin cmd),
       hs_auto_state := unwrap_or (hs_auto_state h) (stores_auto yolo_pin cmd)\<rparr>"

text \<open>A send to an actor that has ended is an error, which is logged and dropped.\<close>

definition send_command :: "permission_command \<Rightarrow> ('c, 'sig) handle_state \<Rightarrow> ('c, 'sig) handle_state" where
  "send_command cmd h = (if hs_running h then h\<lparr>hs_queue := hs_queue h @ [cmd]\<rparr> else h)"

section \<open>The calls of a handle\<close>

definition handle_set_yolo_mode ::
    "string option \<Rightarrow> bool \<Rightarrow> ('c, 'sig) handle_state \<Rightarrow> ('c, 'sig) handle_state" where
  "handle_set_yolo_mode yolo_pin enabled h =
     send_command (CmdSetYoloMode enabled) (store_flags yolo_pin (CmdSetYoloMode enabled) h)"

definition handle_set_auto_mode ::
    "string option \<Rightarrow> bool \<Rightarrow> ('c, 'sig) handle_state \<Rightarrow> ('c, 'sig) handle_state" where
  "handle_set_auto_mode yolo_pin enabled h =
     send_command (CmdSetAutoMode enabled) (store_flags yolo_pin (CmdSetAutoMode enabled) h)"

definition handle_set_classifier ::
    "classifier option \<Rightarrow> ('c, 'sig) handle_state \<Rightarrow> ('c, 'sig) handle_state" where
  "handle_set_classifier classifier h =
     send_command (CmdSetClassifier classifier) (h\<lparr>hs_side_query_wired := False\<rparr>)"

definition handle_set_classifier_with_side_query ::
    "classifier \<Rightarrow> bool \<Rightarrow> ('c, 'sig) handle_state \<Rightarrow> ('c, 'sig) handle_state" where
  "handle_set_classifier_with_side_query classifier wired h =
     send_command (CmdSetClassifier (Some classifier)) (h\<lparr>hs_side_query_wired := wired\<rparr>)"

definition handle_set_llm_side_query_wired ::
    "bool \<Rightarrow> ('c, 'sig) handle_state \<Rightarrow> ('c, 'sig) handle_state" where
  "handle_set_llm_side_query_wired wired h = h\<lparr>hs_side_query_wired := wired\<rparr>"

definition handle_is_yolo_mode :: "permission_handle \<Rightarrow> ('c, 'sig) handle_state \<Rightarrow> bool" where
  "handle_is_yolo_mode p h \<longleftrightarrow> (case p of AllowAllHandle \<Rightarrow> True | ActorHandle \<Rightarrow> hs_yolo_state h)"

definition handle_is_auto_mode :: "permission_handle \<Rightarrow> ('c, 'sig) handle_state \<Rightarrow> bool" where
  "handle_is_auto_mode p h \<longleftrightarrow> (case p of AllowAllHandle \<Rightarrow> False | ActorHandle \<Rightarrow> hs_auto_state h)"

definition handle_has_llm_side_query :: "permission_handle \<Rightarrow> ('c, 'sig) handle_state \<Rightarrow> bool" where
  "handle_has_llm_side_query p h \<longleftrightarrow>
     (case p of AllowAllHandle \<Rightarrow> False | ActorHandle \<Rightarrow> hs_side_query_wired h)"

definition handle_deny_read_globs :: "permission_handle \<Rightarrow> string list \<Rightarrow> string list" where
  "handle_deny_read_globs p globs = (case p of AllowAllHandle \<Rightarrow> [] | ActorHandle \<Rightarrow> globs)"

text \<open>
  A request waits for its answer: the answer is nothing when the actor dropped it, which happens when
  it has ended. The count of the requests in flight grows when it starts and falls when it ends.
\<close>

definition begin_request ::
    "permission_request \<Rightarrow> request_world \<Rightarrow> ('c, 'sig) handle_state \<Rightarrow> ('c, 'sig) handle_state" where
  "begin_request rq w h =
     send_command (CmdRequest rq w) (h\<lparr>hs_in_flight := hs_in_flight h + 1\<rparr>)"

definition end_request :: "('c, 'sig) handle_state \<Rightarrow> ('c, 'sig) handle_state" where
  "end_request h = h\<lparr>hs_in_flight := hs_in_flight h - 1\<rparr>"

definition request_outcome :: "permission_handle \<Rightarrow> bool \<Rightarrow> decision option \<Rightarrow> decision" where
  "request_outcome p sent answer =
     (case p of
        AllowAllHandle \<Rightarrow> Allow
      | ActorHandle \<Rightarrow>
          if \<not> sent then Reject ''permission manager unavailable''
          else case answer of
            Some decision \<Rightarrow> decision
          | None \<Rightarrow> Reject ''failed to receive permission decision'')"

text \<open>The listener for prompts: the first one stays until it is closed.\<close>

definition set_user_prompt_notify :: "('t \<Rightarrow> bool) \<Rightarrow> 't \<Rightarrow> 't option \<Rightarrow> 't option" where
  "set_user_prompt_notify is_closed tx slot =
     (case slot of Some existing \<Rightarrow> if is_closed existing then Some tx else slot | None \<Rightarrow> Some tx)"

section \<open>The steps of the handles and the actor\<close>

definition spawn_handle ::
    "('c, 'sig) manager_env \<Rightarrow> manager_config \<Rightarrow> bool \<Rightarrow> 'c files \<Rightarrow> ('c, 'sig) handle_state" where
  "spawn_handle M cfg initial_yolo fs =
     (let m = spawn_manager M cfg initial_yolo fs
      in \<lparr>hs_actor = m, hs_running = True, hs_queue = [], hs_yolo_state = mg_yolo_mode m,
          hs_auto_state = mg_auto_mode m, hs_side_query_wired = False, hs_in_flight = 0\<rparr>)"

text \<open>One turn of the loop of the actor: the command, with the flags that it stores.\<close>

definition actor_turn ::
    "('c, 'sig) manager_env \<Rightarrow> manager_config \<Rightarrow> permission_command \<Rightarrow> ('c, 'sig) handle_state
      \<Rightarrow> ('c, 'sig) handle_state" where
  "actor_turn M cfg cmd h =
     store_flags (mc_yolo_pin cfg) cmd
       (h\<lparr>hs_actor := on_command M cfg cmd (hs_actor h), hs_running := (cmd \<noteq> CmdShutdown)\<rparr>)"

text \<open>
  The state of a run: what is shared, and the commands whose flags are stored by a task that has not
  sent them yet.
\<close>

inductive handle_run ::
    "('c, 'sig) manager_env \<Rightarrow> manager_config \<Rightarrow> ('c, 'sig) handle_state
      \<Rightarrow> ('c, 'sig) handle_state \<Rightarrow> permission_command list \<Rightarrow> bool"
    for M cfg h0 where
  start: "handle_run M cfg h0 h0 []"
| store: "handle_run M cfg h0 h unsent \<Longrightarrow>
    handle_run M cfg h0 (store_flags (mc_yolo_pin cfg) cmd h) (cmd # unsent)"
| send: "handle_run M cfg h0 h (before @ cmd # after) \<Longrightarrow>
    handle_run M cfg h0 (send_command cmd h) (before @ after)"
| turn: "handle_run M cfg h0 h unsent \<Longrightarrow> hs_running h \<Longrightarrow> hs_queue h = cmd # rest \<Longrightarrow>
    handle_run M cfg h0 (actor_turn M cfg cmd (h\<lparr>hs_queue := rest\<rparr>)) unsent"

section \<open>The flags and the actor agree\<close>

lemma prompt_modes:
  "mg_yolo_mode (rr_manager (prompt_user M cfg m rq f rc forced w)) = mg_yolo_mode m \<and>
   mg_auto_mode (rr_manager (prompt_user M cfg m rq f rc forced w)) = mg_auto_mode m"
proof -
  let ?out = "coerce_outcome (rq_access rq) (if closed_at w 4 then PromptCancelled else rw_answer w)"
  obtain m1 recorded where remembered: "remember_outcome M cfg (rq_access rq) ?out m = (m1, recorded)"
    by (cases "remember_outcome M cfg (rq_access rq) ?out m")
  obtain d out where decided: "decision_of_outcome (rq_access rq) ?out recorded = (d, out)"
    by (cases "decision_of_outcome (rq_access rq) ?out recorded")
  show ?thesis using remember_frame(1,2) [OF remembered] remembered decided
    by (simp add: prompt_user_def record_decision_def Let_def split: option.split)
qed

lemma request_modes:
  "mg_yolo_mode (rr_manager (handle_request M cfg m rq w)) = mg_yolo_mode m \<and>
   mg_auto_mode (rr_manager (handle_request M cfg m rq w)) = mg_auto_mode m"
  using refl [of "reload_grants M m (rq_access rq)"] refl [of "facts_of M cfg (reload_grants M m (rq_access rq)) rq"]
proof (cases rule: handle_request_cases [where w = w])
  case (unheard rc m')
  then show ?thesis by (auto simp: reload_frame dest: auto_stage_same)
next
  case (early a)
  then show ?thesis by (cases a) (simp add: reload_frame)
next
  case (classified a rc m2)
  then show ?thesis using auto_stage_same [OF classified(2)] by (cases a) (simp add: reload_frame)
next
  case (late forced rc m2 a)
  then show ?thesis using auto_stage_same [OF late(2)] by (cases a) (simp add: reload_frame)
next
  case (prompt forced rc m2)
  then show ?thesis using auto_stage_same [OF prompt(2)]
    by (simp add: prompt_modes reload_frame)
qed

lemma command_modes:
  "mg_yolo_mode (on_command M cfg cmd m) = unwrap_or (mg_yolo_mode m) (stores_yolo (mc_yolo_pin cfg) cmd)"
  "mg_auto_mode (on_command M cfg cmd m) = unwrap_or (mg_auto_mode m) (stores_auto (mc_yolo_pin cfg) cmd)"
  by (cases cmd; simp add: on_command_def stores_yolo_def stores_auto_def set_yolo_mode_def
    set_auto_mode_def reset_state_def request_modes Let_def)+

text \<open>A flag that no command on the way stores is the mode of the actor.\<close>

lemma run_agrees:
  assumes "handle_run M cfg (spawn_handle M cfg y fs) h unsent"
  shows "(hs_running h \<longrightarrow>
      ((\<forall>cmd \<in> set (hs_queue h) \<union> set unsent. stores_yolo (mc_yolo_pin cfg) cmd = None) \<longrightarrow>
         hs_yolo_state h = mg_yolo_mode (hs_actor h)) \<and>
      ((\<forall>cmd \<in> set (hs_queue h) \<union> set unsent. stores_auto (mc_yolo_pin cfg) cmd = None) \<longrightarrow>
         hs_auto_state h = mg_auto_mode (hs_actor h)))"
  using assms
proof (induction)
  case start
  then show ?case by (simp add: spawn_handle_def Let_def)
next
  case (store h unsent cmd)
  then show ?case by (simp add: store_flags_def)
next
  case (send h before cmd after)
  then show ?case by (auto simp: send_command_def split: if_splits)
next
  case (turn h unsent cmd rest)
  have "stores_yolo (mc_yolo_pin cfg) cmd = None \<or> (\<exists>b. stores_yolo (mc_yolo_pin cfg) cmd = Some b)"
    "stores_auto (mc_yolo_pin cfg) cmd = None \<or> (\<exists>b. stores_auto (mc_yolo_pin cfg) cmd = Some b)"
    by auto
  with turn show ?case
    by (elim disjE exE) (simp_all add: actor_turn_def store_flags_def command_modes)
qed

lemma stored_under_pin: "stores_yolo (Some pin) cmd \<noteq> Some True"
  by (simp add: stores_yolo_def clamp_yolo_def split: permission_command.split)

lemma run_pinned:
  assumes "handle_run M cfg (spawn_handle M cfg y fs) h unsent" and "mc_yolo_pin cfg = Some pin"
  shows "\<not> hs_yolo_state h"
  using assms
proof (induction)
  case start
  then show ?case
    by (simp add: spawn_handle_def spawn_manager_def save_state_def clamp_yolo_def Let_def split: prod.split)
next
  case (store h unsent cmd)
  then show ?case using stored_under_pin [of pin cmd]
    by (cases "stores_yolo (Some pin) cmd") (auto simp: store_flags_def)
next
  case (send h before cmd after)
  then show ?case by (simp add: send_command_def)
next
  case (turn h unsent cmd rest)
  then show ?case using stored_under_pin [of pin cmd]
    by (cases "stores_yolo (Some pin) cmd") (auto simp: actor_turn_def store_flags_def)
qed

text \<open>
  C23. The mode that a handle shows settles: however the calls of any number of clones and the turns
  of the actor interleave, a running actor with no command on the way is in the mode that the handles
  show; and when a policy pins the mode, no handle ever shows that everything is approved, not even
  for a moment.
\<close>
theorem modes_settle:
  assumes "handle_run M cfg (spawn_handle M cfg y fs) h unsent"
  shows "(hs_running h \<and> hs_queue h = [] \<and> unsent = [] \<longrightarrow>
      handle_is_yolo_mode ActorHandle h = mg_yolo_mode (hs_actor h) \<and>
      handle_is_auto_mode ActorHandle h = mg_auto_mode (hs_actor h)) \<and>
    (mc_yolo_pin cfg \<noteq> None \<longrightarrow> \<not> handle_is_yolo_mode ActorHandle h)"
  using run_agrees [OF assms] run_pinned [OF assms]
  by (auto simp: handle_is_yolo_mode_def handle_is_auto_mode_def)

text \<open>Two calls whose flags are stored in one order and whose commands are sent in the other.\<close>

theorem modes_settle_witness:
  "\<exists>h. handle_run plain_manager_env (plain_config [] PpAsk)
       (spawn_handle plain_manager_env (plain_config [] PpAsk) False (\<lambda>p. Missing)) h [] \<and>
     hs_running h \<and> hs_queue h = [] \<and> \<not> hs_yolo_state h \<and> mg_auto_mode (hs_actor h) = hs_auto_state h"
proof -
  let ?cfg = "plain_config [] PpAsk"
  let ?M = plain_manager_env
  let ?h0 = "spawn_handle ?M ?cfg False (\<lambda>p. Missing)"
  let ?yolo = "CmdSetYoloMode True"
  let ?auto = "CmdSetAutoMode True"
  let ?h1 = "store_flags (mc_yolo_pin ?cfg) ?yolo (store_flags (mc_yolo_pin ?cfg) ?auto ?h0)"
  let ?h2 = "send_command ?auto (send_command ?yolo ?h1)"
  have stored: "handle_run ?M ?cfg ?h0 ?h1 [?yolo, ?auto]"
    by (intro handle_run.store handle_run.start)
  then have "handle_run ?M ?cfg ?h0 (send_command ?yolo ?h1) [?auto]"
    using handle_run.send [of ?M ?cfg ?h0 ?h1 "[]" ?yolo "[?auto]"] by simp
  then have sent: "handle_run ?M ?cfg ?h0 ?h2 []"
    using handle_run.send [of ?M ?cfg ?h0 _ "[]" ?auto "[]"] by simp
  have queue: "hs_queue ?h2 = [?yolo, ?auto]" "hs_running ?h2"
    by (simp_all add: send_command_def store_flags_def spawn_handle_def Let_def)
  let ?h3 = "actor_turn ?M ?cfg ?yolo (?h2\<lparr>hs_queue := [?auto]\<rparr>)"
  let ?h4 = "actor_turn ?M ?cfg ?auto (?h3\<lparr>hs_queue := []\<rparr>)"
  have "handle_run ?M ?cfg ?h0 ?h3 []" using handle_run.turn [OF sent queue(2,1)] .
  moreover have third: "hs_queue ?h3 = [?auto]" "hs_running ?h3"
    by (simp_all add: actor_turn_def store_flags_def)
  ultimately have run: "handle_run ?M ?cfg ?h0 ?h4 []"
    using handle_run.turn [of ?M ?cfg ?h0 ?h3 "[]" ?auto "[]"] by simp
  have "hs_queue ?h4 = []" "hs_running ?h4" "\<not> hs_yolo_state ?h4"
    by (simp_all add: actor_turn_def store_flags_def stores_yolo_def)
  with modes_settle [OF run] run show ?thesis
    by (intro exI [of _ ?h4]) (simp add: handle_is_auto_mode_def)
qed

end
