(* ===== verification/DoomLoop.thy ===== *)
theory DoomLoop imports Json begin

text \<open>
  The repetition check of the server (\<^verbatim>\<open>xai-grok-sampling-types/src/doom_loop.rs\<close>,
  \<^verbatim>\<open>xai-grok-sampler/src/doom_loop.rs\<close> and \<^verbatim>\<open>actor/request_metadata.rs\<close>): the labels
  a stream reports, the policy that says which of them are confident, the collector of one
  attempt and the labels kept for a whole request. \<open>json_of\<close> stands for
  \<^verbatim>\<open>serde_json::from_str::<Value>\<close>. The collector lives behind a mutex that no other code
  can poison; an operation on it is one critical section.
\<close>

section \<open>Labels and policy\<close>

datatype signal_kind =
    TailRepetition nat
  | ExactRepetition nat nat
  | LowLogprob
  | UnknownSignal string

record doom_signal =
  ds_kind :: signal_kind
  ds_channel :: string
  ds_raw :: string

record doom_policy =
  dp_max_threshold :: nat
  dp_max_retries :: nat
  dp_window_tokens :: nat

definition default_doom_policy :: doom_policy where
  "default_doom_policy = \<lparr>dp_max_threshold = 64, dp_max_retries = 2, dp_window_tokens = 1024\<rparr>"

definition clamp_max_threshold :: "nat \<Rightarrow> nat" where
  "clamp_max_threshold v = max 2 (min 64 v)"

definition clamp_max_retries :: "nat \<Rightarrow> nat" where
  "clamp_max_retries v = max 0 (min 5 v)"

definition clamp_window_tokens :: "nat \<Rightarrow> nat" where
  "clamp_window_tokens v = (if 512 \<le> v \<and> v \<le> 4096 then v else 4096)"

definition THINKING_CHANNEL :: string where
  "THINKING_CHANNEL = ''thinking''"

definition is_confident :: "doom_policy \<Rightarrow> doom_signal \<Rightarrow> bool" where
  "is_confident p s \<longleftrightarrow>
     ds_channel s = THINKING_CHANNEL \<and>
     (case ds_kind s of TailRepetition t \<Rightarrow> t \<le> dp_max_threshold p | _ \<Rightarrow> False)"

definition confident_triggers :: "doom_policy \<Rightarrow> doom_signal list \<Rightarrow> string list" where
  "confident_triggers p signals = map ds_raw (filter (is_confident p) signals)"

definition parse_signal_kind :: "string \<Rightarrow> signal_kind" where
  "parse_signal_kind head =
     (case split_once (CHR '':'') head of
        Some (name, arg) \<Rightarrow>
          if name = ''tail_repetition'' then
            (case parse_uint u32_max arg of
               Some t \<Rightarrow> TailRepetition t
             | None \<Rightarrow> UnknownSignal head)
          else if name = ''exact_repetition'' then
            (case split_once (CHR ''x'') arg of
               Some (tokens, copies) \<Rightarrow>
                 (case (parse_uint u32_max tokens, parse_uint u32_max copies) of
                    (Some n, Some k) \<Rightarrow> ExactRepetition n k
                  | _ \<Rightarrow> UnknownSignal head)
             | None \<Rightarrow> UnknownSignal head)
          else UnknownSignal head
      | None \<Rightarrow> if head = ''low_logprob'' then LowLogprob else UnknownSignal head)"

definition parse_signal :: "string \<Rightarrow> doom_signal" where
  "parse_signal raw =
     (let (head, channel) = (case split_once (CHR ''@'') raw of Some hc \<Rightarrow> hc | None \<Rightarrow> (raw, []))
      in \<lparr>ds_kind = parse_signal_kind head, ds_channel = channel, ds_raw = raw\<rparr>)"

text \<open>The state of the loop: the first label and the tightest one so far with its threshold.\<close>

definition tightest_step ::
    "string option \<times> (nat \<times> string) option \<Rightarrow> string \<Rightarrow> string option \<times> (nat \<times> string) option" where
  "tightest_step st raw =
     (case st of (first, best) \<Rightarrow>
        (Some (case first of None \<Rightarrow> raw | Some f \<Rightarrow> f),
         case ds_kind (parse_signal raw) of
           TailRepetition t \<Rightarrow>
             (case best of
                None \<Rightarrow> Some (t, raw)
              | Some (bt, b) \<Rightarrow> if t < bt then Some (t, raw) else Some (bt, b))
         | _ \<Rightarrow> best))"

definition tightest :: "string list \<Rightarrow> string option" where
  "tightest raws =
     (let (first, best) = foldl tightest_step (None, None) raws
      in case best of Some (t, raw) \<Rightarrow> Some raw | None \<Rightarrow> first)"

section \<open>Frames of the stream\<close>

definition DOOM_LOOP_CHECK_EVENT_TYPE :: string where
  "DOOM_LOOP_CHECK_EVENT_TYPE = ''response.doom_loop_check''"

datatype doom_peek =
    CheckEvent "doom_signal list"
  | ResponseField "doom_signal list"
  | NothingToPeek

definition parse_triggers :: "json option \<Rightarrow> doom_signal list" where
  "parse_triggers triggers =
     (case Option.bind triggers as_array of
        None \<Rightarrow> []
      | Some arr \<Rightarrow> map parse_signal (List.map_filter as_str arr))"

definition peek_doom_loop :: "(string \<Rightarrow> json option) \<Rightarrow> string \<Rightarrow> doom_peek" where
  "peek_doom_loop json_of data =
     (if \<not> contains data ''doom_loop_check'' then NothingToPeek
      else case json_of data of
        None \<Rightarrow> NothingToPeek
      | Some v \<Rightarrow>
          if jget_str ''type'' v = Some DOOM_LOOP_CHECK_EVENT_TYPE
          then CheckEvent (parse_triggers (jpointer [''doom_loop_check'', ''triggers''] v))
          else (case jpointer [''response'', ''doom_loop_check'', ''triggers''] v of
                  Some triggers \<Rightarrow> ResponseField (parse_triggers (Some triggers))
                | None \<Rightarrow> NothingToPeek))"

definition is_check_event :: "(string \<Rightarrow> json option) \<Rightarrow> string \<Rightarrow> string \<Rightarrow> bool" where
  "is_check_event json_of event_name data \<longleftrightarrow>
     event_name = DOOM_LOOP_CHECK_EVENT_TYPE \<or>
     (contains data DOOM_LOOP_CHECK_EVENT_TYPE \<and>
      (case json_of data of
         None \<Rightarrow> False
       | Some v \<Rightarrow> jget_str ''type'' v = Some DOOM_LOOP_CHECK_EVENT_TYPE))"

section \<open>The collector of an attempt\<close>

definition MAX_COLLECTED_DOOM_LOOP_SIGNALS :: nat where
  "MAX_COLLECTED_DOOM_LOOP_SIGNALS = 64"

definition MAX_DOOM_LOOP_SIGNAL_BYTES :: nat where
  "MAX_DOOM_LOOP_SIGNAL_BYTES = 256"

record collector =
  co_signals :: "doom_signal list"
  co_malformed_logged :: bool
  co_policy :: doom_policy
  co_abort_disarmed :: bool

definition collector_new :: "doom_policy \<Rightarrow> collector" where
  "collector_new policy =
     \<lparr>co_signals = [], co_malformed_logged = False, co_policy = policy, co_abort_disarmed = False\<rparr>"

definition disarm_abort :: "collector \<Rightarrow> collector" where
  "disarm_abort c = c\<lparr>co_abort_disarmed := True\<rparr>"

definition abort_triggers :: "collector \<Rightarrow> string list option" where
  "abort_triggers c =
     (if co_abort_disarmed c then None
      else let confident = confident_triggers (co_policy c) (co_signals c)
           in if confident = [] then None else Some confident)"

text \<open>The loops below stop at the first label that finds the list full.\<close>

fun push_signals :: "doom_signal list \<Rightarrow> doom_signal list \<Rightarrow> doom_signal list" where
  "push_signals acc [] = acc"
| "push_signals acc (s # ss) =
     (if MAX_COLLECTED_DOOM_LOOP_SIGNALS \<le> length acc then acc
      else push_signals
        (if length (ds_raw s) \<le> MAX_DOOM_LOOP_SIGNAL_BYTES \<and> \<not> list_ex (\<lambda>x. ds_raw x = ds_raw s) acc
         then acc @ [s] else acc) ss)"

definition record_signals :: "doom_signal list \<Rightarrow> collector \<Rightarrow> collector" where
  "record_signals signals c = c\<lparr>co_signals := push_signals (co_signals c) signals\<rparr>"

definition log_malformed_once :: "collector \<Rightarrow> collector" where
  "log_malformed_once c = c\<lparr>co_malformed_logged := True\<rparr>"

definition absorb ::
    "(string \<Rightarrow> json option) \<Rightarrow> string \<Rightarrow> string \<Rightarrow> collector \<Rightarrow> bool \<times> collector" where
  "absorb json_of event_name data c =
     (let named = (event_name = DOOM_LOOP_CHECK_EVENT_TYPE);
          keep = (\<lambda>signals. if signals = [] then log_malformed_once c else record_signals signals c)
      in case peek_doom_loop json_of data of
           CheckEvent signals \<Rightarrow> (True, keep signals)
         | ResponseField signals \<Rightarrow> (named, keep signals)
         | NothingToPeek \<Rightarrow> (named, if named then log_malformed_once c else c))"

definition collector_take :: "collector \<Rightarrow> doom_signal list \<times> collector" where
  "collector_take c = (co_signals c, c\<lparr>co_signals := []\<rparr>)"

section \<open>The labels of a request\<close>

fun merge_signal_labels :: "string list \<Rightarrow> string list \<Rightarrow> string list" where
  "merge_signal_labels target [] = target"
| "merge_signal_labels target (s # ss) =
     (if MAX_COLLECTED_DOOM_LOOP_SIGNALS \<le> length target then target
      else merge_signal_labels
        (if length s \<le> MAX_DOOM_LOOP_SIGNAL_BYTES \<and> s \<notin> set target then target @ [s] else target) ss)"

record recovery_attempt =
  ra_triggers :: "string list"
  ra_aborted_at_chunk :: "nat option"

definition MAX_DOOM_LOOP_RECOVERY_ATTEMPTS :: nat where
  "MAX_DOOM_LOOP_RECOVERY_ATTEMPTS = 16"

text \<open>What is handed over when the request ends: \<open>'r\<close> is its result.\<close>

record 'r collected =
  cl_result :: 'r
  cl_terminal_event_queued :: bool
  cl_signals :: "string list"
  cl_attempts :: "recovery_attempt list"

text \<open>
  \<open>cs_waiting\<close> says that the one-shot sender is still there, \<open>cs_delivered\<close> what went
  through it.
\<close>

record 'r completion =
  cs_waiting :: bool
  cs_signals :: "string list"
  cs_attempts :: "recovery_attempt list"
  cs_delivered :: "'r collected list"

definition completion_new :: "bool \<Rightarrow> 'r completion" where
  "completion_new tx = \<lparr>cs_waiting = tx, cs_signals = [], cs_attempts = [], cs_delivered = []\<rparr>"

definition merge_doom_loop_signals :: "string list \<Rightarrow> 'r completion \<Rightarrow> 'r completion" where
  "merge_doom_loop_signals signals c = c\<lparr>cs_signals := merge_signal_labels (cs_signals c) signals\<rparr>"

definition record_recovery_attempt :: "string list \<Rightarrow> nat option \<Rightarrow> 'r completion \<Rightarrow> 'r completion" where
  "record_recovery_attempt triggers aborted c =
     (if MAX_DOOM_LOOP_RECOVERY_ATTEMPTS \<le> length (cs_attempts c) then c
      else c\<lparr>cs_attempts := cs_attempts c @
               [\<lparr>ra_triggers = merge_signal_labels [] triggers, ra_aborted_at_chunk = aborted\<rparr>]\<rparr>)"

definition completion_send :: "'r \<Rightarrow> bool \<Rightarrow> 'r completion \<Rightarrow> 'r completion" where
  "completion_send result queued c =
     (if cs_waiting c
      then c\<lparr>cs_waiting := False,
             cs_delivered := cs_delivered c @
               [\<lparr>cl_result = result, cl_terminal_event_queued = queued,
                 cl_signals = cs_signals c, cl_attempts = cs_attempts c\<rparr>],
             cs_signals := [], cs_attempts := []\<rparr>
      else c)"

end
