(* ===== verification/Conversation.thy ===== *)
theory Conversation imports Truncate DoomLoop begin

text \<open>
  The conversation the agent keeps (\<^verbatim>\<open>xai-grok-sampling-types/src/conversation.rs\<close>): its items and
  their constructors, the text of an item, the images of a request, the response of a turn and the
  policy for a response that hit its token limit. A string is the list of its bytes. Of the wire
  types of the Responses API (\<^verbatim>\<open>async-openai\<close>) the fields are those the modelled code reads;
  \<open>json_ok\<close> stands for \<^verbatim>\<open>serde_json::from_str::<IgnoredAny>(s).is_ok()\<close>.
\<close>

section \<open>Items\<close>

definition truncate_bytes :: "string \<Rightarrow> nat \<Rightarrow> string" where
  "truncate_bytes s max_bytes =
     (if length s \<le> max_bytes then s else take (boundary_at_most s max_bytes) s)"

definition sanitize_tool_arguments :: "(string \<Rightarrow> bool) \<Rightarrow> string \<Rightarrow> string" where
  "sanitize_tool_arguments json_ok arguments =
     (if \<not> json_ok arguments then [CHR 0x7B, CHR 0x7D] else arguments)"

datatype synthetic_reason =
    Human | Primary | CompactionMeta | SystemReminder | LengthContinue | ProjectInstructions
  | AutoContinue | AutoRecovery | Interjection | AgentMessage | TaskCompleted | SubagentCompleted
  | NotificationDrain | GoalSummary | GoalClassifierNudge | SchedulerFired | StopHookFeedback
  | WorkingDirectorySwitch | ParentHumanMessage | SessionPrefix | DirectBash | GoalSetup
  | UnknownReason

definition starts_prompt_turn :: "synthetic_reason \<Rightarrow> bool" where
  "starts_prompt_turn r \<longleftrightarrow>
     (case r of
        Human \<Rightarrow> True | AgentMessage \<Rightarrow> True | ParentHumanMessage \<Rightarrow> True | DirectBash \<Rightarrow> True
      | GoalSetup \<Rightarrow> True | UnknownReason \<Rightarrow> True | TaskCompleted \<Rightarrow> True | SubagentCompleted \<Rightarrow> True
      | NotificationDrain \<Rightarrow> True | GoalClassifierNudge \<Rightarrow> True | SchedulerFired \<Rightarrow> True
      | Primary \<Rightarrow> False | SessionPrefix \<Rightarrow> False | CompactionMeta \<Rightarrow> False | SystemReminder \<Rightarrow> False
      | LengthContinue \<Rightarrow> False | ProjectInstructions \<Rightarrow> False | AutoContinue \<Rightarrow> False
      | AutoRecovery \<Rightarrow> False | Interjection \<Rightarrow> False | GoalSummary \<Rightarrow> False | StopHookFeedback \<Rightarrow> False
      | WorkingDirectorySwitch \<Rightarrow> False)"

datatype prior_turn_interrupt =
    MidTurnAbort | PermissionRejected | PermissionCancelled | UnknownInterrupt

datatype content_part = TextPart string | ImagePart string

record system_item =
  si_content :: string
  si_reason :: synthetic_reason

record user_item =
  ui_content :: "content_part list"
  ui_reason :: synthetic_reason
  ui_cwd_generation :: "nat option"
  ui_prior_interrupt :: "prior_turn_interrupt option"
  ui_prompt_index :: "nat option"

record tool_call =
  tc_id :: string
  tc_name :: string
  tc_arguments :: string

record assistant_item =
  ai_content :: string
  ai_tool_calls :: "tool_call list"
  ai_model_id :: "string option"
  ai_fingerprint :: "string option"
  ai_effort :: "string option"

record tool_result_item =
  tr_call_id :: string
  tr_content :: string
  tr_images :: "content_part list"

datatype web_action =
    SearchAction string
  | OpenPageAction "string option"
  | FindAction string string
  | FindInPageAction string string

datatype backend_tool =
    WebSearchCall string web_action
  | XSearchCall string string string
  | CodeInterpreterCall string "string option"

record reasoning_item =
  re_id :: string
  re_summary :: "string list"
  re_content :: "string list option"
  re_encrypted :: "string option"
  re_status :: "string option"

datatype conversation_item =
    System system_item
  | User user_item
  | Assistant assistant_item
  | ToolResult tool_result_item
  | BackendToolCall backend_tool
  | Reasoning reasoning_item

definition backend_tool_id :: "backend_tool \<Rightarrow> string" where
  "backend_tool_id b =
     (case b of
        WebSearchCall i action \<Rightarrow> i
      | XSearchCall i name input \<Rightarrow> i
      | CodeInterpreterCall i code \<Rightarrow> i)"

definition quote_mark :: string where
  "quote_mark = [CHR 0x22]"

definition web_action_desc :: "web_action \<Rightarrow> string" where
  "web_action_desc action =
     (case action of
        SearchAction query \<Rightarrow> ''search: '' @ query
      | OpenPageAction url \<Rightarrow> ''open: '' @ unwrap_or ''?'' url
      | FindAction pattern url \<Rightarrow> ''find '' @ quote_mark @ pattern @ quote_mark @ '' in '' @ url
      | FindInPageAction pattern url \<Rightarrow>
          ''find '' @ quote_mark @ pattern @ quote_mark @ '' in '' @ url)"

definition text_summary :: "backend_tool \<Rightarrow> string" where
  "text_summary b =
     (case b of
        WebSearchCall i action \<Rightarrow> ''[backend web_search] '' @ web_action_desc action
      | XSearchCall i name input \<Rightarrow> ''[backend x_search] '' @ name @ ''('' @ input @ '')''
      | CodeInterpreterCall i code \<Rightarrow>
          ''[backend code_interpreter] '' @
          (case code of
             None \<Rightarrow> []
           | Some c \<Rightarrow> if length c > 100 then truncate_bytes c 100 @ ''...'' else c))"

section \<open>Constructors\<close>

definition system_prompt :: "string \<Rightarrow> conversation_item" where
  "system_prompt content = System \<lparr>si_content = content, si_reason = Primary\<rparr>"

text \<open>The one-part user items differ in their reason only.\<close>

definition user_text :: "synthetic_reason \<Rightarrow> string \<Rightarrow> conversation_item" where
  "user_text reason content =
     User \<lparr>ui_content = [TextPart content], ui_reason = reason, ui_cwd_generation = None,
           ui_prior_interrupt = None, ui_prompt_index = None\<rparr>"

definition user_message :: "string \<Rightarrow> conversation_item" where
  "user_message = user_text Human"

definition user_with_parts :: "content_part list \<Rightarrow> conversation_item" where
  "user_with_parts parts =
     User \<lparr>ui_content = parts, ui_reason = Human, ui_cwd_generation = None,
           ui_prior_interrupt = None, ui_prompt_index = None\<rparr>"

definition user_meta :: "string \<Rightarrow> conversation_item" where
  "user_meta = user_text CompactionMeta"

definition system_reminder :: "string \<Rightarrow> conversation_item" where
  "system_reminder = user_text SystemReminder"

definition length_continue_reminder :: "string \<Rightarrow> conversation_item" where
  "length_continue_reminder = user_text LengthContinue"

definition project_instructions :: "string \<Rightarrow> conversation_item" where
  "project_instructions = user_text ProjectInstructions"

definition working_directory_switch :: "string \<Rightarrow> nat \<Rightarrow> conversation_item" where
  "working_directory_switch content generation =
     User \<lparr>ui_content = [TextPart content], ui_reason = WorkingDirectorySwitch,
           ui_cwd_generation = Some generation, ui_prior_interrupt = None, ui_prompt_index = None\<rparr>"

definition working_directory_switch_generation :: "conversation_item \<Rightarrow> nat option" where
  "working_directory_switch_generation item =
     (case item of
        User u \<Rightarrow> if ui_reason u = WorkingDirectorySwitch then ui_cwd_generation u else None
      | _ \<Rightarrow> None)"

definition agent_message :: "string \<Rightarrow> conversation_item" where
  "agent_message = user_text AgentMessage"

definition auto_continue :: "string \<Rightarrow> conversation_item" where
  "auto_continue = user_text AutoContinue"

definition auto_recovery :: "string \<Rightarrow> conversation_item" where
  "auto_recovery = user_text AutoRecovery"

definition interjection :: "string \<Rightarrow> conversation_item" where
  "interjection = user_text Interjection"

definition task_completed :: "string \<Rightarrow> conversation_item" where
  "task_completed = user_text TaskCompleted"

definition subagent_completed :: "string \<Rightarrow> conversation_item" where
  "subagent_completed = user_text SubagentCompleted"

definition notification_drain :: "string \<Rightarrow> conversation_item" where
  "notification_drain = user_text NotificationDrain"

definition goal_summary :: "string \<Rightarrow> conversation_item" where
  "goal_summary = user_text GoalSummary"

definition goal_classifier_nudge :: "string \<Rightarrow> conversation_item" where
  "goal_classifier_nudge = user_text GoalClassifierNudge"

definition scheduler_fired :: "string \<Rightarrow> conversation_item" where
  "scheduler_fired = user_text SchedulerFired"

definition stop_hook_feedback :: "string \<Rightarrow> conversation_item" where
  "stop_hook_feedback = user_text StopHookFeedback"

definition plain_assistant :: assistant_item where
  "plain_assistant = \<lparr>ai_content = [], ai_tool_calls = [], ai_model_id = None, ai_fingerprint = None,
                      ai_effort = None\<rparr>"

definition assistant_message :: "string \<Rightarrow> conversation_item" where
  "assistant_message content = Assistant (plain_assistant\<lparr>ai_content := content\<rparr>)"

definition assistant_with_model :: "string \<Rightarrow> string \<Rightarrow> conversation_item" where
  "assistant_with_model content model_id =
     Assistant (plain_assistant\<lparr>ai_content := content, ai_model_id := Some model_id\<rparr>)"

definition assistant_tool_calls :: "tool_call list \<Rightarrow> conversation_item" where
  "assistant_tool_calls calls = Assistant (plain_assistant\<lparr>ai_tool_calls := calls\<rparr>)"

definition tool_result :: "string \<Rightarrow> string \<Rightarrow> conversation_item" where
  "tool_result call_id content =
     ToolResult \<lparr>tr_call_id = call_id, tr_content = content, tr_images = []\<rparr>"

definition tool_result_with_images :: "string \<Rightarrow> string \<Rightarrow> content_part list \<Rightarrow> conversation_item" where
  "tool_result_with_images call_id content images =
     ToolResult \<lparr>tr_call_id = call_id, tr_content = content, tr_images = images\<rparr>"

section \<open>Reading and marking items\<close>

datatype role = SystemRole | UserRole | AssistantRole | ToolRole

definition item_role :: "conversation_item \<Rightarrow> role" where
  "item_role item =
     (case item of
        System s \<Rightarrow> SystemRole
      | User u \<Rightarrow> UserRole
      | Assistant a \<Rightarrow> AssistantRole
      | ToolResult t \<Rightarrow> ToolRole
      | BackendToolCall b \<Rightarrow> AssistantRole
      | Reasoning r \<Rightarrow> AssistantRole)"

definition item_reason :: "conversation_item \<Rightarrow> synthetic_reason option" where
  "item_reason item =
     (case item of User u \<Rightarrow> Some (ui_reason u) | System s \<Rightarrow> Some (si_reason s) | _ \<Rightarrow> None)"

definition is_human_user_turn :: "conversation_item \<Rightarrow> bool" where
  "is_human_user_turn item \<longleftrightarrow> (case item of User u \<Rightarrow> ui_reason u = Human | _ \<Rightarrow> False)"

definition is_primary_system_turn :: "conversation_item \<Rightarrow> bool" where
  "is_primary_system_turn item \<longleftrightarrow> (case item of System s \<Rightarrow> si_reason s = Primary | _ \<Rightarrow> False)"

definition user_add_image :: "string \<Rightarrow> user_item \<Rightarrow> user_item" where
  "user_add_image url u = u\<lparr>ui_content := ui_content u @ [ImagePart url]\<rparr>"

definition add_image :: "string \<Rightarrow> conversation_item \<Rightarrow> conversation_item" where
  "add_image url item = (case item of User u \<Rightarrow> User (user_add_image url u) | _ \<Rightarrow> item)"

definition reasoning_item_text :: "reasoning_item \<Rightarrow> string" where
  "reasoning_item_text r =
     join [newline] (re_summary r @ (case re_content r of Some c \<Rightarrow> c | None \<Rightarrow> []))"

fun part_text :: "content_part \<Rightarrow> string option" where
  "part_text (TextPart s) = Some s"
| "part_text (ImagePart url) = None"

definition text_content :: "conversation_item \<Rightarrow> string" where
  "text_content item =
     (case item of
        System s \<Rightarrow> si_content s
      | User u \<Rightarrow> join [newline] (List.map_filter part_text (ui_content u))
      | Assistant a \<Rightarrow> ai_content a
      | ToolResult t \<Rightarrow> tr_content t
      | BackendToolCall b \<Rightarrow> text_summary b
      | Reasoning r \<Rightarrow> reasoning_item_text r)"

text \<open>What the compaction engine asks of an item.\<close>

definition compaction_text :: "conversation_item \<Rightarrow> string option" where
  "compaction_text item = (let s = text_content item in if s = [] then None else Some s)"

definition has_tool_requests :: "conversation_item \<Rightarrow> bool" where
  "has_tool_requests item \<longleftrightarrow> (case item of Assistant a \<Rightarrow> ai_tool_calls a \<noteq> [] | _ \<Rightarrow> False)"

definition add_tool_call :: "tool_call \<Rightarrow> assistant_item \<Rightarrow> assistant_item" where
  "add_tool_call call a = a\<lparr>ai_tool_calls := ai_tool_calls a @ [call]\<rparr>"

definition assistant_set_model_id :: "string \<Rightarrow> assistant_item \<Rightarrow> assistant_item" where
  "assistant_set_model_id model_id a = a\<lparr>ai_model_id := Some model_id\<rparr>"

definition with_model_id :: "string \<Rightarrow> conversation_item \<Rightarrow> conversation_item" where
  "with_model_id model_id item =
     (case item of Assistant a \<Rightarrow> Assistant (a\<lparr>ai_model_id := Some model_id\<rparr>) | _ \<Rightarrow> item)"

definition set_prior_turn_interrupt :: "prior_turn_interrupt \<Rightarrow> conversation_item \<Rightarrow> conversation_item" where
  "set_prior_turn_interrupt interrupt item =
     (case item of User u \<Rightarrow> User (u\<lparr>ui_prior_interrupt := Some interrupt\<rparr>) | _ \<Rightarrow> item)"

definition set_prompt_index :: "nat \<Rightarrow> conversation_item \<Rightarrow> conversation_item" where
  "set_prompt_index prompt_index item =
     (case item of User u \<Rightarrow> User (u\<lparr>ui_prompt_index := Some prompt_index\<rparr>) | _ \<Rightarrow> item)"

section \<open>Reasoning\<close>

record reasoning_content =
  rc_text :: "string option"
  rc_encrypted :: "string option"
  rc_id :: "string option"

definition join_nonempty_parts :: "string list \<Rightarrow> string option" where
  "join_nonempty_parts parts = (let joined = join [newline] parts in if joined = [] then None else Some joined)"

definition from_reasoning_item :: "reasoning_item \<Rightarrow> reasoning_content option" where
  "from_reasoning_item r =
     (let s = or_else (Option.bind (re_content r) join_nonempty_parts) (join_nonempty_parts (re_summary r))
      in if s = None \<and> re_encrypted r = None then None
         else Some \<lparr>rc_text = s, rc_encrypted = re_encrypted r, rc_id = Some (re_id r)\<rparr>)"

definition reasoning_content_is_empty :: "reasoning_content \<Rightarrow> bool" where
  "reasoning_content_is_empty r \<longleftrightarrow> rc_text r = None \<and> rc_encrypted r = None"

definition synthesized_reasoning_item :: "string \<Rightarrow> reasoning_item" where
  "synthesized_reasoning_item s =
     \<lparr>re_id = [], re_summary = [s], re_content = None, re_encrypted = None, re_status = None\<rparr>"

definition is_reasoning :: "conversation_item \<Rightarrow> bool" where
  "is_reasoning item \<longleftrightarrow> (case item of Reasoning r \<Rightarrow> True | _ \<Rightarrow> False)"

definition is_assistant :: "conversation_item \<Rightarrow> bool" where
  "is_assistant item \<longleftrightarrow> (case item of Assistant a \<Rightarrow> True | _ \<Rightarrow> False)"

definition reasoning_has_summary_text :: "conversation_item \<Rightarrow> bool" where
  "reasoning_has_summary_text item \<longleftrightarrow>
     (case item of Reasoning r \<Rightarrow> list_ex (\<lambda>s. s \<noteq> []) (re_summary r) | _ \<Rightarrow> False)"

text \<open>The text goes to the first reasoning item.\<close>

fun append_to_first_reasoning :: "string \<Rightarrow> conversation_item list \<Rightarrow> conversation_item list" where
  "append_to_first_reasoning s [] = []"
| "append_to_first_reasoning s (Reasoning r # items) =
     Reasoning (r\<lparr>re_summary := re_summary r @ [s]\<rparr>) # items"
| "append_to_first_reasoning s (item # items) = item # append_to_first_reasoning s items"

text \<open>Before the last assistant item, at the end when there is none.\<close>

definition insert_before_last_assistant ::
    "conversation_item \<Rightarrow> conversation_item list \<Rightarrow> conversation_item list" where
  "insert_before_last_assistant new items =
     (if list_ex is_assistant items
      then (let after = takeWhile (\<lambda>i. \<not> is_assistant i) (rev items);
                pos = length items - Suc (length after)
            in take pos items @ [new] @ drop pos items)
      else items @ [new])"

definition inject_streaming_reasoning_fallback ::
    "string \<Rightarrow> conversation_item list \<Rightarrow> conversation_item list" where
  "inject_streaming_reasoning_fallback s items =
     (if s = [] then items
      else if list_ex reasoning_has_summary_text items then items
      else if list_ex is_reasoning items then append_to_first_reasoning s items
      else insert_before_last_assistant (Reasoning (synthesized_reasoning_item s)) items)"

definition build_synthetic_reasoning ::
    "string \<Rightarrow> string option \<Rightarrow> string option \<Rightarrow> reasoning_item option" where
  "build_synthetic_reasoning i s encrypted =
     (let s = nonempty s; encrypted = nonempty encrypted
      in if s = None \<and> encrypted = None then None
         else Some \<lparr>re_id = i, re_summary = (case s of Some x \<Rightarrow> [x] | None \<Rightarrow> []),
                    re_content = None, re_encrypted = encrypted, re_status = None\<rparr>)"

text \<open>
  An entry of a legacy \<^verbatim>\<open>raw_output\<close> array, as \<^verbatim>\<open>serde_json::from_value::<rs::OutputItem>\<close>
  reads it: \<open>output_item_of\<close> is that parser.
\<close>

datatype output_item =
    OutReasoning reasoning_item
  | OutBackend backend_tool
  | OutMessage
  | OutOther

fun lift_raw_output ::
    "(json \<Rightarrow> output_item option) \<Rightarrow> json list \<Rightarrow> string set \<Rightarrow> conversation_item list \<times> string set" where
  "lift_raw_output output_item_of [] seen = ([], seen)"
| "lift_raw_output output_item_of (entry # entries) seen =
     (case output_item_of entry of
        Some (OutReasoning r) \<Rightarrow>
          (let (items, seen) = lift_raw_output output_item_of entries seen in (Reasoning r # items, seen))
      | Some (OutBackend b) \<Rightarrow>
          (if backend_tool_id b \<in> seen then lift_raw_output output_item_of entries seen
           else let (items, seen) = lift_raw_output output_item_of entries (insert (backend_tool_id b) seen)
                in (BackendToolCall b # items, seen))
      | _ \<Rightarrow> lift_raw_output output_item_of entries seen)"

definition upgrade_legacy_reasoning ::
    "(json \<Rightarrow> output_item option) \<Rightarrow> json \<Rightarrow> string set \<Rightarrow> conversation_item list \<times> string set" where
  "upgrade_legacy_reasoning output_item_of raw seen =
     (let is_v1 = (jget_str ''type'' raw = Some ''assistant'');
          is_v0 = (jget_str ''role'' raw = Some ''assistant'');
          sibling = (\<lambda>r. case r of Some item \<Rightarrow> [Reasoning item] | None \<Rightarrow> [])
      in if as_object raw = None \<or> \<not> is_v1 \<and> \<not> is_v0 then ([], seen)
         else case Option.bind (jget ''raw_output'' raw) as_array of
           Some entries \<Rightarrow> lift_raw_output output_item_of entries seen
         | None \<Rightarrow>
             (case (is_v1, Option.bind (jget ''reasoning'' raw) as_object) of
                (True, Some kvs) \<Rightarrow>
                  (sibling (build_synthetic_reasoning (unwrap_or [] (jget_str ''id'' (JObj kvs)))
                     (jget_str ''text'' (JObj kvs)) (jget_str ''encrypted'' (JObj kvs))), seen)
              | _ \<Rightarrow>
                  (case (is_v0, jget_str ''reasoning_content'' raw) of
                     (True, Some rc) \<Rightarrow>
                       (if rc = [] then ([], seen)
                        else (sibling (build_synthetic_reasoning [] (Some rc) None), seen))
                   | _ \<Rightarrow> ([], seen))))"

end
