(* ===== verification/ConversationRepair.thy ===== *)
theory ConversationRepair imports Conversation "HOL-Library.Sublist" begin

text \<open>
  Repair of a conversation before it is sent (\<^verbatim>\<open>xai-grok-sampling-types/src/conversation.rs\<close>):
  tool calls without a result get a synthetic one, and of several results for one call the last is
  kept. The loops run over positions, as in the code; the laws relate them to structural
  descriptions of the result.
\<close>

section \<open>The loops\<close>

datatype dangling_reason = UserCancelled | HarnessHalted string

definition synthetic_dangling_result_text :: "string \<Rightarrow> dangling_reason \<Rightarrow> string" where
  "synthetic_dangling_result_text name reason =
     (case reason of
        UserCancelled \<Rightarrow>
          ''Tool execution was cancelled by the user (tool '' @ [CHR 0x60] @ name @ [CHR 0x60] @
          '' was not executed).''
      | HarnessHalted cls \<Rightarrow>
          ''Tool execution was halted by the harness ('' @ cls @ ''); the tool '' @ [CHR 0x60] @ name @
          [CHR 0x60] @ '' was not executed.'')"

fun is_tool_result :: "conversation_item \<Rightarrow> bool" where
  "is_tool_result (ToolResult t) = True"
| "is_tool_result _ = False"

fun result_id :: "conversation_item \<Rightarrow> string option" where
  "result_id (ToolResult t) = Some (tr_call_id t)"
| "result_id _ = None"

text \<open>The calls of an item; none when it is not an assistant item.\<close>

fun item_calls :: "conversation_item \<Rightarrow> tool_call list" where
  "item_calls (Assistant a) = ai_tool_calls a"
| "item_calls _ = []"

text \<open>Where the run of tool results that starts at a position ends.\<close>

definition run_end :: "conversation_item list \<Rightarrow> nat \<Rightarrow> nat" where
  "run_end items i = i + length (takeWhile is_tool_result (drop i items))"

definition answered_ids :: "conversation_item list \<Rightarrow> string set" where
  "answered_ids run = set (List.map_filter result_id run)"

definition synthetic_results :: "dangling_reason \<Rightarrow> tool_call list \<Rightarrow> string set \<Rightarrow> conversation_item list" where
  "synthetic_results reason calls answered =
     map (\<lambda>tc. tool_result (tc_id tc) (synthetic_dangling_result_text (tc_name tc) reason))
       (filter (\<lambda>tc. tc_id tc \<notin> answered) calls)"

lemma run_end_ge: "i \<le> run_end items i"
  by (simp add: run_end_def)

function scan_repairs ::
    "dangling_reason \<Rightarrow> conversation_item list \<Rightarrow> nat \<Rightarrow> (nat \<times> conversation_item list) list" where
  "scan_repairs reason items i =
     (if i < length items then
        if item_calls (items ! i) \<noteq> [] then
          (let j = run_end items (i + 1);
               synthetic = synthetic_results reason (item_calls (items ! i))
                 (answered_ids (take (j - (i + 1)) (drop (i + 1) items)))
           in (if synthetic \<noteq> [] then [(j, synthetic)] else []) @ scan_repairs reason items j)
        else scan_repairs reason items (i + 1)
      else [])"
  by pat_completeness auto
termination
  by (relation "measure (\<lambda>(reason, items, i). length items - i)")
    (use run_end_ge in \<open>auto intro!: diff_less_mono2 less_le_trans [OF lessI run_end_ge [of "Suc _"]]\<close>)

declare scan_repairs.simps [simp del]

definition splice_at :: "nat \<Rightarrow> 'a list \<Rightarrow> 'a list \<Rightarrow> 'a list" where
  "splice_at n new xs = take n xs @ new @ drop n xs"

definition repair_dangling_tool_calls ::
    "dangling_reason \<Rightarrow> conversation_item list \<Rightarrow> conversation_item list \<times> nat" where
  "repair_dangling_tool_calls reason items =
     (let repairs = scan_repairs reason items 0
      in (foldl (\<lambda>items (at, synthetic). splice_at at synthetic items) items (rev repairs),
          sum_list (map (\<lambda>(at, synthetic). length synthetic) repairs)))"

function dangling_from :: "conversation_item list \<Rightarrow> nat \<Rightarrow> bool" where
  "dangling_from items i =
     (if i < length items then
        if item_calls (items ! i) \<noteq> [] then
          (let j = run_end items (i + 1);
               answered = answered_ids (take (j - (i + 1)) (drop (i + 1) items))
           in if list_ex (\<lambda>tc. tc_id tc \<notin> answered) (item_calls (items ! i)) then True
              else dangling_from items j)
        else dangling_from items (i + 1)
      else False)"
  by pat_completeness auto
termination
  by (relation "measure (\<lambda>(items, i). length items - i)")
    (use run_end_ge in \<open>auto intro!: diff_less_mono2 less_le_trans [OF lessI run_end_ge [of "Suc _"]]\<close>)

declare dangling_from.simps [simp del]

definition has_dangling_tool_calls :: "conversation_item list \<Rightarrow> bool" where
  "has_dangling_tool_calls items = dangling_from items 0"

text \<open>
  The positions of the results that a later one in the run replaces, in the order the scan finds
  them: \<open>seen\<close> is the hash map of the last position of every id.
\<close>

fun replaced_positions :: "(string, nat) hmap \<Rightarrow> nat \<Rightarrow> conversation_item list \<Rightarrow> nat list" where
  "replaced_positions seen idx [] = []"
| "replaced_positions seen idx (item # items) =
     (case result_id item of
        None \<Rightarrow> replaced_positions seen (Suc idx) items
      | Some i \<Rightarrow>
          (case hm_get seen i of Some prev \<Rightarrow> [prev] | None \<Rightarrow> []) @
          replaced_positions (hm_ins i idx seen) (Suc idx) items)"

definition remove_at :: "nat \<Rightarrow> 'a list \<Rightarrow> 'a list" where
  "remove_at n xs = take n xs @ drop (Suc n) xs"

definition remove_positions :: "nat list \<Rightarrow> 'a list \<Rightarrow> 'a list" where
  "remove_positions ps xs = foldl (\<lambda>xs p. remove_at p xs) xs (rev (sort ps))"

text \<open>One iteration of the loop at an assistant item with calls, and the loop.\<close>

definition run_duplicates :: "conversation_item list \<Rightarrow> nat \<Rightarrow> nat list" where
  "run_duplicates items i =
     (let start = i + 1; finish = run_end items start
      in if finish > start then replaced_positions [] start (take (finish - start) (drop start items)) else [])"

lemma replaced_positions_bound:
  "set (replaced_positions seen idx items) \<subseteq> ran (hm_get seen) \<union> {idx ..< idx + length items}"
proof (induction seen idx items rule: replaced_positions.induct)
  case (2 seen idx item items)
  have "ran (hm_get (hm_ins i idx seen)) \<subseteq> insert idx (ran (hm_get seen))" for i
    by (auto simp: ran_def hm.get_ins split: if_splits)
  note ran = this
  show ?case
  proof (cases "result_id item")
    case None
    with 2(1) show ?thesis by auto
  next
    case (Some i)
    have "set (case hm_get seen i of Some prev \<Rightarrow> [prev] | None \<Rightarrow> []) \<subseteq> ran (hm_get seen)"
      by (auto split: option.splits intro: ranI)
    with 2(2) [OF Some] ran [of i] Some show ?thesis
      by (simp only: replaced_positions.simps option.case set_append length_Cons) fastforce
  qed
qed simp

lemma run_end_le: "i \<le> length items \<Longrightarrow> run_end items i \<le> length items"
  using length_takeWhile_le [of is_tool_result "drop i items"] by (simp add: run_end_def)

lemma run_duplicates_bound:
  assumes "i < length items"
  shows "set (run_duplicates items i) \<subseteq> {i + 1 ..< length items}"
proof -
  have "set (replaced_positions [] (i + 1) (take (run_end items (i + 1) - (i + 1)) (drop (i + 1) items)))
      \<subseteq> {i + 1 ..< i + 1 + (run_end items (i + 1) - (i + 1))}"
    using replaced_positions_bound [of "[]" "i + 1"] by fastforce
  moreover have "run_end items (i + 1) \<le> length items" using assms by (simp add: run_end_le)
  ultimately show ?thesis by (fastforce simp: run_duplicates_def Let_def)
qed

lemma remove_at_length: "length (remove_at n xs) = length xs - (if n < length xs then 1 else 0)"
  by (simp add: remove_at_def)

lemma foldl_remove_at_length: "length (foldl (\<lambda>xs p. remove_at p xs) xs ps) \<le> length xs"
proof (induction ps arbitrary: xs)
  case (Cons p ps)
  have "length (remove_at p xs) \<le> length xs" by (simp add: remove_at_length)
  with Cons [of "remove_at p xs"] show ?case by simp
qed simp

lemma remove_positions_shorter:
  assumes "ps \<noteq> []" and "set ps \<subseteq> {..< length xs}"
  shows "length (remove_positions ps xs) < length xs"
proof -
  obtain q qs where q: "rev (sort ps) = q # qs" using assms(1) by (metis list.exhaust rev_is_Nil_conv set_empty set_sort)
  then have "q \<in> set ps" by (metis list.set_intros(1) set_rev set_sort)
  with assms(2) have "length (remove_at q xs) < length xs" by (auto simp: remove_at_length)
  with q foldl_remove_at_length [of "remove_at q xs" qs] show ?thesis
    by (simp add: remove_positions_def)
qed

function dedup_from :: "conversation_item list \<Rightarrow> nat \<Rightarrow> nat \<Rightarrow> conversation_item list \<times> nat" where
  "dedup_from items i removed =
     (if i < length items then
        if item_calls (items ! i) \<noteq> [] then
          (let to_remove = run_duplicates items i
           in if to_remove \<noteq> []
              then dedup_from (remove_positions to_remove items) i (removed + length to_remove)
              else dedup_from items (run_end items (i + 1)) removed)
        else dedup_from items (i + 1) removed
      else (items, removed))"
  by pat_completeness auto
termination
proof (relation "measures [\<lambda>(items, i, removed). length items, \<lambda>(items, i, removed). length items - i]")
  fix items :: "conversation_item list" and i removed to_remove
  assume "i < length items" and "to_remove = run_duplicates items i" and "to_remove \<noteq> []"
  then show "((remove_positions to_remove items, i, removed + length to_remove), items, i, removed)
      \<in> measures [\<lambda>(items, i, removed). length items, \<lambda>(items, i, removed). length items - i]"
    using remove_positions_shorter [of to_remove items] run_duplicates_bound [of i items] by fastforce
next
  fix items :: "conversation_item list" and i removed :: nat
  assume "i < length items"
  then show "((items, run_end items (i + 1), removed), items, i, removed)
      \<in> measures [\<lambda>(items, i, removed). length items, \<lambda>(items, i, removed). length items - i]"
    using run_end_ge [of "i + 1" items] by simp
qed auto

declare dedup_from.simps [simp del]

definition dedup_duplicate_tool_results :: "conversation_item list \<Rightarrow> conversation_item list \<times> nat" where
  "dedup_duplicate_tool_results items = dedup_from items 0 0"

end
