(* ===== verification/ConversationRepairLaws.thy ===== *)
theory ConversationRepairLaws imports ConversationRepair begin

text \<open>
  What the repair of a conversation does, said on its items instead of positions: \<open>mend\<close> puts the
  missing results behind the run of results of every assistant item, \<open>squeeze\<close> keeps the last
  result of every call in every run. After the repair no call is unanswered, after the removal of
  duplicates none is answered twice, and neither changes anything a second time.
\<close>

section \<open>The repair on items\<close>

definition missing_results :: "dangling_reason \<Rightarrow> conversation_item \<Rightarrow> conversation_item list \<Rightarrow> conversation_item list" where
  "missing_results reason item run = synthetic_results reason (item_calls item) (answered_ids run)"

function mend :: "dangling_reason \<Rightarrow> conversation_item list \<Rightarrow> conversation_item list" where
  "mend reason [] = []"
| "mend reason (item # items) =
     (if item_calls item \<noteq> [] then
        item # takeWhile is_tool_result items @
        missing_results reason item (takeWhile is_tool_result items) @
        mend reason (dropWhile is_tool_result items)
      else item # mend reason items)"
  by pat_completeness auto
termination
  by (relation "measure (\<lambda>(reason, items). length items)") (auto simp: le_imp_less_Suc length_dropWhile_le)

function dangles :: "conversation_item list \<Rightarrow> bool" where
  "dangles [] = False"
| "dangles (item # items) =
     (if item_calls item \<noteq> [] then
        list_ex (\<lambda>tc. tc_id tc \<notin> answered_ids (takeWhile is_tool_result items)) (item_calls item) \<or>
        dangles (dropWhile is_tool_result items)
      else dangles items)"
  by pat_completeness auto
termination
  by (relation "measure length") (auto simp: le_imp_less_Suc length_dropWhile_le)

lemma take_run [simp]: "take (length (takeWhile P xs)) xs = takeWhile P xs"
  by (metis takeWhile_eq_take)

lemma run_end_split:
  "run_end (pre @ item # rest) (length pre + 1) = length (pre @ item # takeWhile is_tool_result rest)"
  by (simp add: run_end_def)

lemma run_take_split:
  "take (run_end (pre @ item # rest) (length pre + 1) - (length pre + 1)) (drop (length pre + 1) (pre @ item # rest)) =
     takeWhile is_tool_result rest"
  by (simp add: run_end_def)

lemmas run_splits = run_end_split [unfolded Suc_eq_plus1 [symmetric]] run_take_split [unfolded Suc_eq_plus1 [symmetric]]

lemma run_rest:
  "pre @ item # rest = (pre @ item # takeWhile is_tool_result rest) @ dropWhile is_tool_result rest"
  by simp

lemma scan_repairs_mend:
  "foldl (\<lambda>items (at, synthetic). splice_at at synthetic items) (pre @ suf)
     (rev (scan_repairs reason (pre @ suf) (length pre))) = pre @ mend reason suf \<and>
   sum_list (map (\<lambda>(at, synthetic). length synthetic) (scan_repairs reason (pre @ suf) (length pre))) + length suf =
     length (mend reason suf)"
proof (induction reason suf arbitrary: pre rule: mend.induct)
  case (1 reason)
  then show ?case by (simp add: scan_repairs.simps)
next
  case (2 reason item items)
  show ?case
  proof (cases "item_calls item = []")
    case True
    with "2.IH"(2) [of "pre @ [item]"] show ?thesis
      by (subst (1 2) scan_repairs.simps) simp
  next
    case False
    let ?run = "takeWhile is_tool_result items" and ?rest = "dropWhile is_tool_result items"
    let ?pre = "pre @ item # ?run" and ?syn = "missing_results reason item (takeWhile is_tool_result items)"
    have all: "pre @ item # items = ?pre @ ?rest" by simp
    have scan: "scan_repairs reason (pre @ item # items) (length pre) =
        (if ?syn \<noteq> [] then [(length ?pre, ?syn)] else []) @ scan_repairs reason (?pre @ ?rest) (length ?pre)"
      using False by (subst scan_repairs.simps) (simp add: Let_def run_splits missing_results_def)
    have len: "length items = length ?run + length ?rest"
      by (metis length_append takeWhile_dropWhile_id)
    note IH = "2.IH"(1) [OF False, of ?pre]
    show ?thesis
      using IH False len unfolding scan unfolding all
      by (cases "?syn = []") (simp_all add: splice_at_def)
  qed
qed

lemma repair_is_mend:
  "repair_dangling_tool_calls reason items =
     (mend reason items, length (mend reason items) - length items)"
  using scan_repairs_mend [of "[]" items reason] by (auto simp: repair_dangling_tool_calls_def Let_def)

lemma dangling_from_dangles: "dangling_from (pre @ suf) (length pre) = dangles suf"
proof (induction suf arbitrary: pre rule: dangles.induct)
  case 1
  then show ?case by (simp add: dangling_from.simps)
next
  case (2 item items)
  show ?case
  proof (cases "item_calls item = []")
    case True
    with "2.IH"(2) [of "pre @ [item]"] show ?thesis
      by (subst dangling_from.simps) simp
  next
    case False
    let ?pre = "pre @ item # takeWhile is_tool_result items"
    have all: "pre @ item # items = ?pre @ dropWhile is_tool_result items" by simp
    have "dangling_from (pre @ item # items) (length ?pre) = dangles (dropWhile is_tool_result items)"
      using "2.IH"(1) [OF False, of ?pre] unfolding all by simp
    with False show ?thesis
      by (subst dangling_from.simps) (simp add: Let_def run_splits)
  qed
qed

lemma has_dangling_is_dangles: "has_dangling_tool_calls items = dangles items"
  using dangling_from_dangles [of "[]" items] by (simp add: has_dangling_tool_calls_def)

lemma answered_ids_append: "answered_ids (xs @ ys) = answered_ids xs \<union> answered_ids ys"
  by (simp add: answered_ids_def List.map_filter_def)

lemma missing_are_results [simp]: "list_all is_tool_result (missing_results reason item run)"
  by (simp add: missing_results_def synthetic_results_def list.pred_map comp_def tool_result_def list.pred_set)

lemma takeWhile_all_append:
  "list_all P xs \<Longrightarrow> takeWhile P (xs @ ys) = xs @ takeWhile P ys"
  "list_all P xs \<Longrightarrow> dropWhile P (xs @ ys) = dropWhile P ys"
  by (induction xs) auto

lemma mend_starts: "takeWhile is_tool_result (mend reason (dropWhile is_tool_result items)) = []"
proof (cases "dropWhile is_tool_result items")
  case (Cons item rest)
  then have "\<not> is_tool_result item" by (metis hd_dropWhile list.distinct(1) list.sel(1))
  with Cons show ?thesis by simp
qed (simp only: mend.simps takeWhile.simps)

lemma run_is_results: "list_all is_tool_result (takeWhile is_tool_result items)"
  by (auto simp: list.pred_set dest: set_takeWhileD)

text \<open>The run of an assistant item after the repair.\<close>

lemma mended_run:
  fixes reason item items
  defines "run \<equiv> takeWhile is_tool_result items"
  defines "rest \<equiv> run @ missing_results reason item run @ mend reason (dropWhile is_tool_result items)"
  shows "takeWhile is_tool_result rest = run @ missing_results reason item run"
    and "dropWhile is_tool_result rest = mend reason (dropWhile is_tool_result items)"
proof -
  have "dropWhile is_tool_result (mend reason (dropWhile is_tool_result items)) =
      mend reason (dropWhile is_tool_result items)"
    using mend_starts [of reason items] by (metis append_Nil takeWhile_dropWhile_id)
  then show "takeWhile is_tool_result rest = run @ missing_results reason item run"
    and "dropWhile is_tool_result rest = mend reason (dropWhile is_tool_result items)"
    by (simp_all add: rest_def run_def takeWhile_all_append run_is_results mend_starts)
qed

lemma answered_missing:
  "tc \<in> set (item_calls item) \<Longrightarrow> tc_id tc \<in> answered_ids run \<union> answered_ids (missing_results reason item run)"
  by (auto simp: missing_results_def synthetic_results_def answered_ids_def tool_result_def map_filter_def
      image_iff comp_def)

lemma mend_not_dangles: "\<not> dangles (mend reason items)"
proof (induction reason items rule: mend.induct)
  case (2 reason item items)
  then show ?case
    using answered_missing [of _ item _ reason]
    by (cases "item_calls item = []")
      (auto simp: mended_run list_ex_iff answered_ids_append)
qed simp

lemma no_missing_iff:
  "missing_results reason item run = [] \<longleftrightarrow> list_all (\<lambda>tc. tc_id tc \<in> answered_ids run) (item_calls item)"
  by (auto simp: missing_results_def synthetic_results_def filter_empty_conv list.pred_set)

lemma mend_longer: "length items \<le> length (mend reason items)"
  using scan_repairs_mend [of "[]" items reason] by linarith

lemma mend_same_length: "length (mend reason items) = length items \<longleftrightarrow> \<not> dangles items"
proof (induction reason items rule: mend.induct)
  case (2 reason item items)
  show ?case
  proof (cases "item_calls item = []")
    case False
    have "length items = length (takeWhile is_tool_result items) + length (dropWhile is_tool_result items)"
      by (metis length_append takeWhile_dropWhile_id)
    with 2 False mend_longer [of "dropWhile is_tool_result items" reason] show ?thesis
      using no_missing_iff [of reason item "takeWhile is_tool_result items"]
      by (auto simp: list_ex_iff list.pred_set)
  qed (use 2 in simp)
qed simp

lemma mend_subseq: "subseq items (mend reason items)"
proof (induction reason items rule: mend.induct)
  case (2 reason item items)
  show ?case
  proof (cases "item_calls item = []")
    case False
    have "subseq (takeWhile is_tool_result items @ dropWhile is_tool_result items)
        (takeWhile is_tool_result items @
          (missing_results reason item (takeWhile is_tool_result items) @ mend reason (dropWhile is_tool_result items)))"
      using "2.IH"(1) [OF False] by (intro list_emb_append_mono subseq_order.refl list_emb_append2)
    with False show ?thesis by simp
  qed (use 2 in simp)
qed simp

lemma mend_same: "\<not> dangles items \<Longrightarrow> mend reason items = items"
  using mend_subseq [of items reason] mend_same_length [of reason items]
  by (metis subseq_same_length)

section \<open>Removal of duplicates on items\<close>

text \<open>Removing positions from the last to the first keeps the others.\<close>

lemma nths_remove_above:
  assumes "\<forall>q \<in> B. p < q"
  shows "remove_at p (nths xs (- B)) = nths xs (- insert p B)"
  using assms
proof (induction xs arbitrary: p B)
  case (Cons x xs)
  have zero: "0 \<notin> B" using Cons.prems by auto
  show ?case
  proof (cases p)
    case 0
    with zero Cons.prems show ?thesis
      by (auto simp: remove_at_def nths_Cons intro!: arg_cong [of _ _ "nths xs"])
  next
    case (Suc k)
    then have "\<forall>q \<in> {j. Suc j \<in> B}. k < q" using Cons.prems by auto
    from Cons.IH [OF this] have "remove_at k (nths xs {j. Suc j \<notin> B}) = nths xs {j. Suc j \<notin> insert (Suc k) B}"
      by (simp add: Compl_eq insert_compr disj_commute)
    with Suc zero show ?thesis
      by (simp add: remove_at_def nths_Cons)
  qed
qed (simp add: remove_at_def)

lemma foldr_remove_at:
  "sorted_wrt (<) ps \<Longrightarrow> foldr remove_at ps xs = nths xs (- set ps)"
  by (induction ps) (simp_all add: nths_all nths_remove_above)

lemma remove_positions_nths:
  assumes "distinct ps"
  shows "remove_positions ps xs = nths xs (- set ps)"
proof -
  have "sorted_wrt (<) (sort ps)" using assms by (simp add: strict_sorted_iff)
  then show ?thesis
    by (simp add: remove_positions_def foldl_conv_foldr foldr_remove_at)
qed

text \<open>The last item of every identity.\<close>

fun keep_last :: "('a \<Rightarrow> 'b) \<Rightarrow> 'a list \<Rightarrow> 'a list" where
  "keep_last key [] = []"
| "keep_last key (x # xs) = (if key x \<in> key ` set xs then keep_last key xs else x # keep_last key xs)"

definition replaced :: "('a \<Rightarrow> 'b) \<Rightarrow> 'a list \<Rightarrow> nat set" where
  "replaced key xs = {k. k < length xs \<and> (\<exists>q. k < q \<and> q < length xs \<and> key (xs ! q) = key (xs ! k))}"

lemma ex_above_Suc: "(\<exists>q. Suc j < q \<and> P q) \<longleftrightarrow> (\<exists>q. j < q \<and> P (Suc q))"
  by (metis Suc_lessE Suc_less_eq)

lemma replaced_Cons:
  "replaced key (x # xs) = (if key x \<in> key ` set xs then {0} else {}) \<union> Suc ` replaced key xs"
proof -
  have "k \<in> replaced key (x # xs) \<longleftrightarrow>
      k \<in> (if key x \<in> key ` set xs then {0} else {}) \<union> Suc ` replaced key xs" for k
  proof (cases k)
    case 0
    have "(\<exists>q. 0 < q \<and> q < Suc (length xs) \<and> key ((x # xs) ! q) = key x) \<longleftrightarrow>
        (\<exists>j < length xs. key (xs ! j) = key x)"
      by (metis Suc_less_eq nth_Cons_Suc zero_less_Suc gr0_conv_Suc)
    also have "\<dots> \<longleftrightarrow> key x \<in> key ` set xs"
      unfolding image_iff Bex_def in_set_conv_nth by metis
    finally have "(\<exists>q. 0 < q \<and> q < Suc (length xs) \<and> key ((x # xs) ! q) = key x) \<longleftrightarrow> key x \<in> key ` set xs" .
    with 0 show ?thesis by (auto simp: replaced_def)
  next
    case (Suc j)
    have "(\<exists>q. Suc j < q \<and> q < Suc (length xs) \<and> key ((x # xs) ! q) = key (xs ! j)) \<longleftrightarrow>
        (\<exists>q. j < q \<and> q < length xs \<and> key (xs ! q) = key (xs ! j))"
      using ex_above_Suc [of j "\<lambda>q. q < Suc (length xs) \<and> key ((x # xs) ! q) = key (xs ! j)"] by simp
    with Suc show ?thesis by (auto simp: replaced_def)
  qed
  then show ?thesis by blast
qed

lemma keep_last_nths: "keep_last key xs = nths xs (- replaced key xs)"
proof (induction xs)
  case (Cons x xs)
  have "{j. Suc j \<notin> replaced key (x # xs)} = - replaced key xs" for x
    by (auto simp: replaced_Cons)
  moreover have "0 \<in> replaced key (x # xs) \<longleftrightarrow> key x \<in> key ` set xs"
    by (auto simp: replaced_Cons)
  ultimately show ?case by (simp add: nths_Cons Cons)
qed simp

lemma keep_last_keys [simp]: "key ` set (keep_last key xs) = key ` set xs"
  by (induction xs) auto

lemma keep_last_subset: "set (keep_last key xs) \<subseteq> set xs"
  by (induction xs) auto

lemma keep_last_distinct: "distinct (map key (keep_last key xs))"
  by (induction xs) (auto simp: image_iff dest: keep_last_subset [THEN subsetD])

lemma keep_last_id: "distinct (map key xs) \<Longrightarrow> keep_last key xs = xs"
  by (induction xs) auto

lemma keep_last_le: "length (keep_last key xs) \<le> length xs"
  by (induction xs) auto

lemma keep_last_length_iff: "length (keep_last key xs) = length xs \<longleftrightarrow> distinct (map key xs)"
proof (induction xs)
  case (Cons x xs)
  with keep_last_le [of key xs] show ?case by (simp add: image_iff)
qed simp

section \<open>The scan for duplicates\<close>

definition seen_ok :: "nat \<Rightarrow> (string, nat) hmap \<Rightarrow> bool" where
  "seen_ok idx seen \<longleftrightarrow>
     (\<forall>i p. hm_get seen i = Some p \<longrightarrow> p < idx) \<and>
     (\<forall>i j p. hm_get seen i = Some p \<longrightarrow> hm_get seen j = Some p \<longrightarrow> i = j)"

definition stale :: "(string, nat) hmap \<Rightarrow> conversation_item list \<Rightarrow> nat set" where
  "stale seen items = {p. \<exists>i. hm_get seen i = Some p \<and> Some i \<in> result_id ` set items}"

lemma seen_ok_ins: "seen_ok idx seen \<Longrightarrow> seen_ok (Suc idx) (hm_ins i idx seen)"
  unfolding seen_ok_def hm.get_ins by (auto simp: less_Suc_eq split: if_splits)

lemma stale_step:
  assumes "result_id item = Some i"
  shows "set (case hm_get seen i of Some prev \<Rightarrow> [prev] | None \<Rightarrow> []) \<union> stale (hm_ins i idx seen) items =
    stale seen (item # items) \<union> (if Some i \<in> result_id ` set items then {idx} else {})"
proof -
  let ?ids = "result_id ` set items"
  have a: "p \<in> stale (hm_ins i idx seen) items \<longleftrightarrow>
      (p = idx \<and> Some i \<in> ?ids) \<or> (\<exists>j. j \<noteq> i \<and> hm_get seen j = Some p \<and> Some j \<in> ?ids)" for p
    unfolding stale_def hm.get_ins mem_Collect_eq by (metis option.inject)
  have b: "p \<in> stale seen (item # items) \<longleftrightarrow>
      hm_get seen i = Some p \<or> (\<exists>j. j \<noteq> i \<and> hm_get seen j = Some p \<and> Some j \<in> ?ids)" for p
    using assms unfolding stale_def mem_Collect_eq list.set image_insert insert_iff by (metis option.inject)
  have c: "p \<in> set (case hm_get seen i of Some prev \<Rightarrow> [prev] | None \<Rightarrow> []) \<longleftrightarrow> hm_get seen i = Some p" for p
    by (auto split: option.split)
  show ?thesis
  proof (rule set_eqI)
    fix p
    show "p \<in> set (case hm_get seen i of Some prev \<Rightarrow> [prev] | None \<Rightarrow> []) \<union> stale (hm_ins i idx seen) items \<longleftrightarrow>
        p \<in> stale seen (item # items) \<union> (if Some i \<in> ?ids then {idx} else {})"
      unfolding Un_iff a b c by (cases "Some i \<in> ?ids") (simp_all, blast)
  qed
qed

lemma replaced_shift:
  assumes "result_id item = Some i"
  shows "(\<lambda>k. idx + k) ` replaced result_id (item # items) =
    (if Some i \<in> result_id ` set items then {idx} else {}) \<union> (\<lambda>k. Suc idx + k) ` replaced result_id items"
  using assms by (auto simp: replaced_Cons image_iff)

lemma stale_below: "seen_ok idx seen \<Longrightarrow> p \<in> stale seen items \<Longrightarrow> p < idx"
  by (auto simp: stale_def seen_ok_def)

lemma replaced_positions_set:
  "seen_ok idx seen \<Longrightarrow> list_all is_tool_result items \<Longrightarrow>
     set (replaced_positions seen idx items) =
       stale seen items \<union> (\<lambda>k. idx + k) ` replaced result_id items \<and>
     distinct (replaced_positions seen idx items)"
proof (induction seen idx items rule: replaced_positions.induct)
  case (1 seen idx)
  then show ?case by (simp add: stale_def replaced_def)
next
  case (2 seen idx item items)
  then obtain i where i: "result_id item = Some i"
    by (cases item) auto
  let ?here = "case hm_get seen i of Some prev \<Rightarrow> [prev] | None \<Rightarrow> []"
  from "2.prems" have ok: "seen_ok (Suc idx) (hm_ins i idx seen)" and all: "list_all is_tool_result items"
    by (simp_all add: seen_ok_ins)
  note IH = "2.IH"(2) [OF i ok all]
  have eq: "replaced_positions seen idx (item # items) =
      ?here @ replaced_positions (hm_ins i idx seen) (Suc idx) items"
    using i by simp
  have "set ?here \<inter> stale (hm_ins i idx seen) items = {}"
    using "2.prems"(1) unfolding stale_def hm.get_ins seen_ok_def
    by (auto split: option.splits if_splits) (metis less_irrefl)+
  moreover have "p < idx" if "p \<in> set ?here" for p
    using that "2.prems"(1) by (auto simp: seen_ok_def split: option.splits)
  then have "set ?here \<inter> (\<lambda>k. Suc idx + k) ` replaced result_id items = {}"
    by (metis (no_types, lifting) disjoint_iff imageE less_Suc_eq not_add_less1)
  ultimately have "set ?here \<inter> set (replaced_positions (hm_ins i idx seen) (Suc idx) items) = {}"
    using IH by blast
  moreover have "distinct ?here" by (simp split: option.split)
  ultimately have "distinct (replaced_positions seen idx (item # items))"
    unfolding eq using IH by simp
  moreover have "set (replaced_positions seen idx (item # items)) =
      stale seen (item # items) \<union> (\<lambda>k. idx + k) ` replaced result_id (item # items)"
    unfolding eq set_append using IH stale_step [OF i, of seen idx items] replaced_shift [OF i, of idx items]
    by blast
  ultimately show ?case by blast
qed

lemma replaced_positions_run:
  "list_all is_tool_result items \<Longrightarrow>
     set (replaced_positions [] idx items) = (\<lambda>k. idx + k) ` replaced result_id items \<and>
     distinct (replaced_positions [] idx items)"
  using replaced_positions_set [of idx "[]" items] by (simp add: seen_ok_def stale_def)

lemma replaced_finite: "finite (replaced key xs)" "replaced key xs \<subseteq> {..< length xs}"
  by (auto simp: replaced_def)

lemma replaced_positions_length:
  assumes "list_all is_tool_result run"
  shows "length (replaced_positions [] idx run) + length (keep_last result_id run) = length run"
proof -
  have "length (replaced_positions [] idx run) = card ((\<lambda>k. idx + k) ` replaced result_id run)"
    using replaced_positions_run [OF assms, of idx] by (metis distinct_card)
  also have "\<dots> = card (replaced result_id run)" by (intro card_image) (simp add: inj_on_def)
  finally have rem: "length (replaced_positions [] idx run) = card (replaced result_id run)" .
  have "length (keep_last result_id run) = card {i. i < length run \<and> i \<in> - replaced result_id run}"
    by (simp add: keep_last_nths length_nths)
  also have "{i. i < length run \<and> i \<in> - replaced result_id run} = {..< length run} - replaced result_id run"
    by auto
  also have "card \<dots> = length run - card (replaced result_id run)"
    by (simp add: card_Diff_subset [OF replaced_finite])
  finally show ?thesis
    using rem card_mono [OF _ replaced_finite(2) [of result_id run]] by simp
qed

text \<open>Removing the replaced positions of a run leaves the last result of every call.\<close>

lemma remove_replaced:
  assumes "list_all is_tool_result run"
  shows "remove_positions (replaced_positions [] (length pre) run) (pre @ run @ post) =
    pre @ keep_last result_id run @ post"
proof -
  have "set (replaced_positions [] (length pre) run) = (\<lambda>k. length pre + k) ` replaced result_id run"
    and "distinct (replaced_positions [] (length pre) run)"
    using replaced_positions_run [OF assms] by auto
  then have "remove_positions (replaced_positions [] (length pre) run) (pre @ run @ post) =
      nths (pre @ run @ post) (- (\<lambda>k. length pre + k) ` replaced result_id run)"
    by (simp add: remove_positions_nths)
  also have "\<dots> = nths pre (- (\<lambda>k. length pre + k) ` replaced result_id run) @
      nths (run @ post) {j. j + length pre \<in> - (\<lambda>k. length pre + k) ` replaced result_id run}"
    by (simp add: nths_append)
  also have "nths pre (- (\<lambda>k. length pre + k) ` replaced result_id run) = pre"
    by (rule nths_all) auto
  also have "{j. j + length pre \<in> - (\<lambda>k. length pre + k) ` replaced result_id run} = - replaced result_id run"
    by (auto simp: image_iff)
  also have "nths (run @ post) (- replaced result_id run) =
      keep_last result_id run @ nths post {j. j + length run \<in> - replaced result_id run}"
    by (simp add: nths_append keep_last_nths)
  also have "nths post {j. j + length run \<in> - replaced result_id run} = post"
    by (rule nths_all) (auto simp: replaced_def)
  finally show ?thesis .
qed

function squeeze :: "conversation_item list \<Rightarrow> conversation_item list" where
  "squeeze [] = []"
| "squeeze (item # items) =
     (if item_calls item \<noteq> [] then
        item # keep_last result_id (takeWhile is_tool_result items) @ squeeze (dropWhile is_tool_result items)
      else item # squeeze items)"
  by pat_completeness auto
termination
  by (relation "measure length") (auto simp: le_imp_less_Suc length_dropWhile_le)

lemma keep_last_results: "list_all is_tool_result run \<Longrightarrow> list_all is_tool_result (keep_last result_id run)"
  using keep_last_subset [of result_id run] by (auto simp: list.pred_set)

lemma dropWhile_starts: "takeWhile P (dropWhile P xs) = []" "dropWhile P (dropWhile P xs) = dropWhile P xs"
  by (induction xs) auto

lemma kept_run:
  fixes items
  defines "rest \<equiv> keep_last result_id (takeWhile is_tool_result items) @ dropWhile is_tool_result items"
  shows "takeWhile is_tool_result rest = keep_last result_id (takeWhile is_tool_result items)"
    and "dropWhile is_tool_result rest = dropWhile is_tool_result items"
  by (simp_all add: rest_def takeWhile_all_append keep_last_results run_is_results dropWhile_starts)

lemma run_duplicates_split:
  "run_duplicates (pre @ item # items) (length pre) =
     replaced_positions [] (length (pre @ [item])) (takeWhile is_tool_result items)"
  unfolding run_duplicates_def Let_def run_take_split run_end_split
  by (cases "takeWhile is_tool_result items = []") simp_all

lemma squeeze_le: "length (squeeze items) \<le> length items"
proof (induction items rule: squeeze.induct)
  case (2 item items)
  have "length items = length (takeWhile is_tool_result items) + length (dropWhile is_tool_result items)"
    by (metis length_append takeWhile_dropWhile_id)
  with 2 keep_last_le [of result_id "takeWhile is_tool_result items"] show ?case by auto
qed simp

lemma dedup_from_squeeze:
  "dedup_from (pre @ suf) (length pre) n = (pre @ squeeze suf, n + (length suf - length (squeeze suf)))"
proof (induction suf arbitrary: pre n rule: measure_induct_rule [of length])
  case (less suf)
  show ?case
  proof (cases suf)
    case Nil
    then show ?thesis by (simp add: dedup_from.simps)
  next
    case (Cons item items)
    let ?run = "takeWhile is_tool_result items" and ?rest = "dropWhile is_tool_result items"
    have len: "length items = length ?run + length ?rest"
      by (metis length_append takeWhile_dropWhile_id)
    consider (plain) "item_calls item = []"
      | (clean) "item_calls item \<noteq> []" "replaced_positions [] (length (pre @ [item])) ?run = []"
      | (dups) "item_calls item \<noteq> []" "replaced_positions [] (length (pre @ [item])) ?run \<noteq> []" by blast
    then show ?thesis
    proof cases
      case plain
      with Cons less [of items "pre @ [item]" n] show ?thesis
        by (subst dedup_from.simps) simp
    next
      case clean
      have eq: "keep_last result_id ?run = ?run"
        using replaced_positions_length [OF run_is_results, of "length (pre @ [item])" items] clean(2)
        by (intro keep_last_id) (simp add: keep_last_length_iff)
      have all: "pre @ item # items = (pre @ item # ?run) @ ?rest" by simp
      have "length ?rest < length suf" using Cons by (simp add: le_imp_less_Suc length_dropWhile_le)
      from less [OF this, of "pre @ item # ?run" n] clean Cons eq len show ?thesis
        by (subst dedup_from.simps) (simp add: run_duplicates_split [unfolded Suc_eq_plus1] run_splits)
    next
      case dups
      let ?gone = "replaced_positions [] (length (pre @ [item])) ?run"
      let ?suf = "item # keep_last result_id ?run @ ?rest"
      have sum: "length ?gone + length (keep_last result_id ?run) = length ?run"
        by (rule replaced_positions_length [OF run_is_results])
      then have shorter: "length ?suf < length suf"
        using Cons dups(2) len by (simp flip: length_greater_0_conv)
      have removed: "remove_positions ?gone (pre @ item # items) = pre @ ?suf"
        using remove_replaced [OF run_is_results, of "pre @ [item]" items ?rest] by simp
      have same: "squeeze ?suf = squeeze suf"
        using Cons dups(1) by (simp add: kept_run keep_last_id keep_last_distinct)
      have "length suf = length ?suf + length ?gone" using sum len Cons by simp
      then have num: "n + length ?gone + (length ?suf - length (squeeze suf)) = n + (length suf - length (squeeze suf))"
        using squeeze_le [of ?suf] unfolding same by linarith
      have "dedup_from (pre @ suf) (length pre) n = dedup_from (pre @ ?suf) (length pre) (n + length ?gone)"
        using dups removed Cons by (subst dedup_from.simps) (simp add: run_duplicates_split)
      with less [OF shorter, of pre "n + length ?gone"] show ?thesis
        unfolding same num by simp
    qed
  qed
qed

lemma dedup_is_squeeze:
  "dedup_duplicate_tool_results items = (squeeze items, length items - length (squeeze items))"
  using dedup_from_squeeze [of "[]" items 0] by (simp add: dedup_duplicate_tool_results_def)

section \<open>Every call has one result\<close>

text \<open>The results that follow an item.\<close>

definition results_after :: "conversation_item list \<Rightarrow> nat \<Rightarrow> conversation_item list" where
  "results_after items k = takeWhile is_tool_result (drop (Suc k) items)"

lemma results_no_calls: "is_tool_result item \<Longrightarrow> item_calls item = []"
  by (cases item) auto

lemma squeeze_starts: "takeWhile is_tool_result (squeeze (dropWhile is_tool_result items)) = []"
proof (cases "dropWhile is_tool_result items")
  case (Cons item rest)
  then have "\<not> is_tool_result item" by (metis hd_dropWhile list.distinct(1) list.sel(1))
  with Cons show ?thesis by simp
qed (simp only: squeeze.simps takeWhile.simps)

lemma squeezed_run:
  "takeWhile is_tool_result (keep_last result_id (takeWhile is_tool_result items) @
     squeeze (dropWhile is_tool_result items)) = keep_last result_id (takeWhile is_tool_result items)"
  by (simp add: takeWhile_all_append keep_last_results run_is_results squeeze_starts)

lemma answered_ids_image: "answered_ids run = {i. Some i \<in> result_id ` set run}"
  by (induction run) (auto simp: answered_ids_def map_filter_simps split: option.splits)

lemma answered_keep_last [simp]: "answered_ids (keep_last result_id run) = answered_ids run"
  by (simp add: answered_ids_image)

lemma answered_once:
  assumes "distinct (map result_id run)" and "i \<in> answered_ids run"
  shows "length (filter (\<lambda>x. result_id x = Some i) run) = 1"
  using assms
proof (induction run)
  case (Cons x run)
  show ?case
  proof (cases "result_id x = Some i")
    case True
    with Cons.prems(1) have "\<forall>y \<in> set run. result_id y \<noteq> Some i" by (auto simp: image_iff)
    with True show ?thesis by (simp add: filter_empty_conv)
  next
    case False
    with Cons show ?thesis by (auto simp: answered_ids_image)
  qed
qed (simp add: answered_ids_image)

text \<open>
  Repair adds what is missing and nothing else: afterwards no call is without a result, the
  items that were there stay in their order, the count that is returned is the number of results
  added, it is zero exactly when no call was dangling, and a second repair changes nothing.
\<close>

theorem repair_answers_every_call:
  "\<not> has_dangling_tool_calls (fst (repair_dangling_tool_calls reason items)) \<and>
   subseq items (fst (repair_dangling_tool_calls reason items)) \<and>
   length (fst (repair_dangling_tool_calls reason items)) =
     length items + snd (repair_dangling_tool_calls reason items) \<and>
   (snd (repair_dangling_tool_calls reason items) = 0 \<longleftrightarrow> \<not> has_dangling_tool_calls items) \<and>
   repair_dangling_tool_calls reason' (fst (repair_dangling_tool_calls reason items)) =
     (fst (repair_dangling_tool_calls reason items), 0)"
  using mend_longer [of items reason] mend_same_length [of reason items]
  by (auto simp: repair_is_mend has_dangling_is_dangles mend_not_dangles mend_subseq mend_same)

end
