(* ===== verification/HistoryRepair.thy ===== *)
theory HistoryRepair imports ConversationRepairLaws begin

text \<open>
  The repair of a whole history (\<^verbatim>\<open>xai-chat-state/src/compaction_utils.rs\<close>): duplicates are
  removed, results that stand behind no call of theirs are stripped, and calls without a result get
  one. With it the two checks of a compacted history, which ask only for an earlier call.
\<close>

fun strip_displaced :: "string set \<Rightarrow> conversation_item list \<Rightarrow> conversation_item list \<times> string list" where
  "strip_displaced run_ids [] = ([], [])"
| "strip_displaced run_ids (item # items) =
     (case item of
        Assistant a \<Rightarrow>
          (let (items, stripped) = strip_displaced (set (map tc_id (ai_tool_calls a))) items
           in (item # items, stripped))
      | ToolResult t \<Rightarrow>
          (let (items, stripped) = strip_displaced run_ids items
           in if tr_call_id t \<in> run_ids then (item # items, stripped)
              else (items, tr_call_id t # stripped))
      | _ \<Rightarrow> (let (items, stripped) = strip_displaced {} items in (item # items, stripped)))"

definition strip_displaced_tool_results ::
    "conversation_item list \<Rightarrow> conversation_item list \<times> string list" where
  "strip_displaced_tool_results items = strip_displaced {} items"

record history_report =
  hr_duplicates_removed :: nat
  hr_stripped_ids :: "string list"
  hr_synthetic_inserted :: nat

definition history_changed :: "history_report \<Rightarrow> bool" where
  "history_changed r \<longleftrightarrow>
     hr_duplicates_removed r > 0 \<or> hr_stripped_ids r \<noteq> [] \<or> hr_synthetic_inserted r > 0"

definition repair_history :: "conversation_item list \<Rightarrow> conversation_item list \<times> history_report" where
  "repair_history items =
     (let (items, removed) = dedup_duplicate_tool_results items;
          (items, stripped) = strip_displaced_tool_results items;
          (items, inserted) = repair_dangling_tool_calls (HarnessHalted ''history_repair'') items
      in (items, \<lparr>hr_duplicates_removed = removed, hr_stripped_ids = stripped,
                  hr_synthetic_inserted = inserted\<rparr>))"

text \<open>The checks of a compacted history: a result needs a call somewhere before it.\<close>

fun invalid_results :: "string set \<Rightarrow> conversation_item list \<Rightarrow> string list" where
  "invalid_results seen [] = []"
| "invalid_results seen (item # items) =
     (case item of
        Assistant a \<Rightarrow> invalid_results (seen \<union> set (map tc_id (ai_tool_calls a))) items
      | ToolResult t \<Rightarrow>
          (if tr_call_id t \<notin> seen then [tr_call_id t] else []) @ invalid_results seen items
      | _ \<Rightarrow> invalid_results seen items)"

definition validate_compacted_history :: "conversation_item list \<Rightarrow> string list" where
  "validate_compacted_history items = invalid_results {} items"

fun strip_orphans :: "string set \<Rightarrow> conversation_item list \<Rightarrow> conversation_item list \<times> string list" where
  "strip_orphans seen [] = ([], [])"
| "strip_orphans seen (item # items) =
     (case item of
        Assistant a \<Rightarrow>
          (let (items, stripped) = strip_orphans (seen \<union> set (map tc_id (ai_tool_calls a))) items
           in (item # items, stripped))
      | ToolResult t \<Rightarrow>
          (let (items, stripped) = strip_orphans seen items
           in if tr_call_id t \<in> seen then (item # items, stripped)
              else (items, tr_call_id t # stripped))
      | _ \<Rightarrow> (let (items, stripped) = strip_orphans seen items in (item # items, stripped)))"

definition sanitize_compacted_history ::
    "conversation_item list \<Rightarrow> conversation_item list \<times> string list" where
  "sanitize_compacted_history items = strip_orphans {} items"

lemma strip_orphans_valid: "invalid_results seen (fst (strip_orphans seen items)) = []"
  by (induction seen items rule: strip_orphans.induct)
    (auto simp: Let_def case_prod_unfold split: conversation_item.splits)

lemma strip_orphans_reports: "snd (strip_orphans seen items) = invalid_results seen items"
  by (induction seen items rule: strip_orphans.induct)
    (auto simp: Let_def case_prod_unfold split: conversation_item.splits)

lemma strip_orphans_same: "invalid_results seen items = [] \<Longrightarrow> fst (strip_orphans seen items) = items"
  by (induction seen items rule: strip_orphans.induct)
    (auto simp: Let_def case_prod_unfold split: conversation_item.splits if_splits)

text \<open>
  Sanitizing a compacted history is what its validation asks for: the result is valid, the
  identifiers it reports are those the validation rejects, and a valid history is left alone.
\<close>

theorem sanitize_is_validation:
  "validate_compacted_history (fst (sanitize_compacted_history items)) = [] \<and>
   snd (sanitize_compacted_history items) = validate_compacted_history items \<and>
   (validate_compacted_history items = [] \<longrightarrow> fst (sanitize_compacted_history items) = items)"
  by (simp add: sanitize_compacted_history_def validate_compacted_history_def strip_orphans_valid
      strip_orphans_reports strip_orphans_same)

section \<open>A history that pairs every call with one result\<close>

function paired :: "conversation_item list \<Rightarrow> bool" where
  "paired [] = True"
| "paired (item # items) =
     (\<not> is_tool_result item \<and>
      distinct (map result_id (takeWhile is_tool_result items)) \<and>
      answered_ids (takeWhile is_tool_result items) = set (map tc_id (item_calls item)) \<and>
      paired (dropWhile is_tool_result items))"
  by pat_completeness auto
termination
  by (relation "measure length") (auto simp: le_imp_less_Suc length_dropWhile_le)

lemma strip_run_rest: "items = takeWhile is_tool_result items @ dropWhile is_tool_result items"
  by simp

text \<open>The three passes at an item and its run of results.\<close>

definition keep_ids :: "string set \<Rightarrow> conversation_item list \<Rightarrow> conversation_item list" where
  "keep_ids ids run = filter (\<lambda>i. result_id i \<in> Some ` ids) run"

lemma strip_run:
  "list_all is_tool_result run \<Longrightarrow>
     fst (strip_displaced ids (run @ rest)) = keep_ids ids run @ fst (strip_displaced ids rest)"
proof (induction run)
  case (Cons item run)
  then obtain t where "item = ToolResult t" by (cases item) auto
  with Cons show ?case by (auto simp: keep_ids_def Let_def case_prod_unfold)
qed (simp add: keep_ids_def)

lemma strip_head:
  "takeWhile is_tool_result rest = [] \<Longrightarrow> fst (strip_displaced ids rest) = fst (strip_displaced {} rest)"
  by (cases rest; cases "hd rest") (auto simp: Let_def case_prod_unfold)

lemma strip_item:
  "\<not> is_tool_result item \<Longrightarrow>
     fst (strip_displaced ids (item # items)) =
       item # fst (strip_displaced (set (map tc_id (item_calls item))) items)"
  by (cases item) (auto simp: Let_def case_prod_unfold)

declare strip_displaced.simps(2) [simp del]

lemma squeeze_run: "list_all is_tool_result run \<Longrightarrow> squeeze (run @ rest) = run @ squeeze rest"
  by (induction run) (auto simp: results_no_calls)

lemma keep_ids_none [simp]: "keep_ids {} run = []"
  by (simp add: keep_ids_def)

lemma keep_ids_results: "list_all is_tool_result run \<Longrightarrow> list_all is_tool_result (keep_ids ids run)"
  by (auto simp: keep_ids_def list.pred_set)

definition passes :: "dangling_reason \<Rightarrow> conversation_item list \<Rightarrow> conversation_item list" where
  "passes reason items = mend reason (fst (strip_displaced {} (squeeze items)))"

lemma repair_history_items: "fst (repair_history items) = passes (HarnessHalted ''history_repair'') items"
  by (simp add: repair_history_def strip_displaced_tool_results_def dedup_is_squeeze repair_is_mend
      passes_def case_prod_unfold Let_def)

definition own_run :: "conversation_item \<Rightarrow> conversation_item list \<Rightarrow> conversation_item list" where
  "own_run item run = keep_ids (set (map tc_id (item_calls item))) (keep_last result_id run)"

lemma strip_squeezed_head:
  "takeWhile is_tool_result (fst (strip_displaced {} (squeeze (dropWhile is_tool_result items)))) = []"
proof (cases "dropWhile is_tool_result items")
  case (Cons item rest)
  then have "\<not> is_tool_result item" by (metis hd_dropWhile list.distinct(1) list.sel(1))
  with Cons show ?thesis by (simp add: strip_item)
qed (simp only: squeeze.simps strip_displaced.simps fst_conv takeWhile.simps)

lemma passes_item:
  assumes "\<not> is_tool_result item"
  shows "passes reason (item # items) =
    item # own_run item (takeWhile is_tool_result items) @
    missing_results reason item (own_run item (takeWhile is_tool_result items)) @
    passes reason (dropWhile is_tool_result items)"
proof -
  let ?run = "takeWhile is_tool_result items" and ?rest = "dropWhile is_tool_result items"
  let ?kept = "if item_calls item = [] then ?run else keep_last result_id ?run"
  have results: "list_all is_tool_result ?kept"
    by (simp add: run_is_results keep_last_results)
  have squeezed: "squeeze (item # items) = item # ?kept @ squeeze ?rest"
    using squeeze_run [OF run_is_results, of items ?rest] by (cases "item_calls item = []") simp_all
  have "fst (strip_displaced {} (squeeze (item # items))) =
      item # keep_ids (set (map tc_id (item_calls item))) ?kept @ fst (strip_displaced {} (squeeze ?rest))"
    unfolding squeezed strip_item [OF assms] strip_run [OF results]
    by (subst strip_head [OF squeeze_starts]) (rule refl)
  also have "keep_ids (set (map tc_id (item_calls item))) ?kept = own_run item ?run"
    by (simp add: own_run_def)
  finally have stripped: "fst (strip_displaced {} (squeeze (item # items))) =
      item # own_run item ?run @ fst (strip_displaced {} (squeeze ?rest))" .
  have own: "list_all is_tool_result (own_run item ?run)"
    by (simp add: own_run_def keep_ids_results keep_last_results run_is_results)
  show ?thesis
  proof (cases "item_calls item = []")
    case True
    then have "own_run item ?run = []" by (simp add: own_run_def)
    with True stripped show ?thesis
      by (simp add: passes_def missing_results_def synthetic_results_def)
  next
    case False
    moreover have "dropWhile is_tool_result (fst (strip_displaced {} (squeeze ?rest))) =
        fst (strip_displaced {} (squeeze ?rest))"
      using strip_squeezed_head [of items] by (metis append_Nil takeWhile_dropWhile_id)
    ultimately show ?thesis
      using stripped own by (simp add: passes_def takeWhile_all_append strip_squeezed_head)
  qed
qed

lemma passes_run:
  assumes "list_all is_tool_result run"
  shows "passes reason (run @ items) = passes reason items"
  by (simp add: passes_def squeeze_run [OF assms] strip_run [OF assms])

lemma passes_starts: "takeWhile is_tool_result (passes reason (dropWhile is_tool_result items)) = []"
proof (cases "dropWhile is_tool_result items")
  case (Cons item rest)
  then have "\<not> is_tool_result item" by (metis hd_dropWhile list.distinct(1) list.sel(1))
  with Cons show ?thesis by (simp add: passes_item)
qed (simp only: passes_def squeeze.simps strip_displaced.simps fst_conv mend.simps takeWhile.simps)

lemma own_run_results: "list_all is_tool_result run \<Longrightarrow> list_all is_tool_result (own_run item run)"
  unfolding own_run_def by (intro keep_ids_results keep_last_results)

lemma own_run_facts:
  "distinct (map result_id (own_run item run))"
  "answered_ids (own_run item run) \<subseteq> set (map tc_id (item_calls item))"
  by (auto simp: own_run_def keep_ids_def distinct_map_filter keep_last_distinct answered_ids_image)

lemma missing_distinct:
  "distinct (map tc_id (item_calls item)) \<Longrightarrow>
   distinct (map result_id (run @ missing_results reason item run)) \<longleftrightarrow> distinct (map result_id run)"
  by (auto simp: missing_results_def synthetic_results_def tool_result_def distinct_map_filter comp_def
      answered_ids_image image_iff distinct_map inj_on_def)

lemma missing_answers:
  "answered_ids run \<subseteq> set (map tc_id (item_calls item)) \<Longrightarrow>
   answered_ids (run @ missing_results reason item run) = set (map tc_id (item_calls item))"
  unfolding answered_ids_append
  by (auto simp: missing_results_def synthetic_results_def answered_ids_image tool_result_def image_iff)

lemma passes_paired:
  assumes "list_all (\<lambda>item. distinct (map tc_id (item_calls item))) items"
  shows "paired (passes reason items)"
  using assms
proof (induction items rule: measure_induct_rule [of length])
  case (less items)
  have runs: "passes reason items = passes reason (dropWhile is_tool_result items)"
    using passes_run [OF run_is_results [of items], where items = "dropWhile is_tool_result items"] by simp
  show ?case
  proof (cases "dropWhile is_tool_result items")
    case Nil
    with runs show ?thesis by (simp add: passes_def)
  next
    case (Cons item rest)
    let ?run = "takeWhile is_tool_result rest" and ?tail = "dropWhile is_tool_result rest"
    let ?own = "own_run item ?run"
    from Cons have item: "\<not> is_tool_result item" by (metis hd_dropWhile list.distinct(1) list.sel(1))
    from Cons have mem: "set (item # rest) \<subseteq> set items" by (metis set_dropWhileD subsetI)
    with less.prems have calls: "distinct (map tc_id (item_calls item))" by (auto simp: list.pred_set)
    have "length ?tail < length items"
      by (metis Cons length_Cons length_dropWhile_le le_trans not_less_eq_eq not_le)
    moreover have "list_all (\<lambda>item. distinct (map tc_id (item_calls item))) ?tail"
      using less.prems mem by (auto simp: list.pred_set dest: set_dropWhileD)
    ultimately have IH: "paired (passes reason ?tail)" by (rule less.IH)
    let ?all = "?own @ missing_results reason item ?own"
    have all: "list_all is_tool_result ?all" by (simp add: own_run_results run_is_results)
    have dw: "dropWhile is_tool_result (passes reason ?tail) = passes reason ?tail"
      using passes_starts [of reason rest] by (metis append_Nil takeWhile_dropWhile_id)
    have "passes reason items = item # ?all @ passes reason ?tail"
      by (simp add: runs Cons passes_item [OF item])
    moreover have "takeWhile is_tool_result (?all @ passes reason ?tail) = ?all"
      "dropWhile is_tool_result (?all @ passes reason ?tail) = passes reason ?tail"
      unfolding takeWhile_all_append [OF all] dw passes_starts by simp_all
    ultimately show ?thesis
      using item IH missing_distinct [OF calls, of ?own reason] own_run_facts(1) [of item ?run]
        missing_answers [OF own_run_facts(2), of item ?run reason]
      by simp
  qed
qed

section \<open>A paired history is left alone\<close>

lemma paired_item:
  assumes "paired (item # items)"
  shows "own_run item (takeWhile is_tool_result items) = takeWhile is_tool_result items"
    and "keep_last result_id (takeWhile is_tool_result items) = takeWhile is_tool_result items"
    and "missing_results reason item (takeWhile is_tool_result items) = []"
proof -
  let ?run = "takeWhile is_tool_result items"
  from assms have ids: "answered_ids ?run = set (map tc_id (item_calls item))" by simp
  show last: "keep_last result_id ?run = ?run" using assms by (simp add: keep_last_id)
  have "result_id i \<in> Some ` set (map tc_id (item_calls item))" if "i \<in> set ?run" for i
  proof -
    from that run_is_results [of items] have "is_tool_result i" unfolding list.pred_set by blast
    then obtain t where "i = ToolResult t" by (cases i) auto
    with that have "tr_call_id t \<in> answered_ids ?run"
      unfolding answered_ids_image by (metis image_eqI mem_Collect_eq result_id.simps(1))
    with ids \<open>i = ToolResult t\<close> show ?thesis by simp
  qed
  then show "own_run item ?run = ?run"
    unfolding own_run_def last keep_ids_def by (simp add: filter_id_conv)
  show "missing_results reason item ?run = []"
    using ids by (auto simp: no_missing_iff list.pred_set)
qed

lemma paired_squeeze: "paired items \<Longrightarrow> squeeze items = items"
proof (induction items rule: paired.induct)
  case (2 item items)
  then have "squeeze (dropWhile is_tool_result items) = dropWhile is_tool_result items" by simp
  moreover have "squeeze items = takeWhile is_tool_result items @ squeeze (dropWhile is_tool_result items)"
    using squeeze_run [OF run_is_results, of items "dropWhile is_tool_result items"] by simp
  ultimately show ?case using paired_item(2) [OF "2.prems"] by (cases "item_calls item = []") simp_all
qed simp

lemma paired_mend: "paired items \<Longrightarrow> mend reason items = items"
proof (induction items rule: paired.induct)
  case (2 item items)
  then have IH: "mend reason (dropWhile is_tool_result items) = dropWhile is_tool_result items" by simp
  show ?case
  proof (cases "item_calls item = []")
    case True
    with "2.prems" have "takeWhile is_tool_result items = []"
      using run_is_results [of items]
      by (cases "takeWhile is_tool_result items"; cases "hd (takeWhile is_tool_result items)")
        (auto simp: answered_ids_image)
    with True IH show ?thesis by (metis append_Nil mend.simps(2) takeWhile_dropWhile_id)
  next
    case False
    with IH paired_item(3) [OF "2.prems"] show ?thesis by simp
  qed
qed simp

lemma paired_strip: "paired items \<Longrightarrow> fst (strip_displaced {} items) = items"
proof (induction items rule: paired.induct)
  case (2 item items)
  let ?run = "takeWhile is_tool_result items" and ?rest = "dropWhile is_tool_result items"
  from "2.prems" have item: "\<not> is_tool_result item" by simp
  let ?ids = "set (map tc_id (item_calls item))"
  have kept: "keep_ids ?ids ?run = ?run"
    using paired_item(1,2) [OF "2.prems"] by (simp add: own_run_def)
  have rest: "fst (strip_displaced ?ids ?rest) = ?rest"
    using 2 strip_head [OF dropWhile_starts(1), of ?ids] by simp
  have "fst (strip_displaced {} (item # items)) = item # fst (strip_displaced ?ids (?run @ ?rest))"
    by (simp only: strip_item [OF item] takeWhile_dropWhile_id)
  also have "\<dots> = item # ?run @ ?rest"
    by (simp only: strip_run [OF run_is_results] kept rest)
  finally show ?case by (simp only: takeWhile_dropWhile_id)
qed simp

definition well_paired_at :: "conversation_item list \<Rightarrow> nat \<Rightarrow> bool" where
  "well_paired_at c k \<longleftrightarrow>
     (\<forall>call \<in> set (item_calls (c ! k)).
        length (filter (\<lambda>i. result_id i = Some (tc_id call)) (results_after c k)) = 1) \<and>
     (is_tool_result (c ! k) \<longrightarrow>
        (\<exists>j < k. (\<forall>i. j < i \<and> i \<le> k \<longrightarrow> is_tool_result (c ! i)) \<and>
           (\<exists>call \<in> set (item_calls (c ! j)). result_id (c ! k) = Some (tc_id call))))"

lemma well_paired_append:
  assumes "well_paired_at rest k"
  shows "well_paired_at (pre @ rest) (length pre + k)"
proof -
  have after: "results_after (pre @ rest) (length pre + k) = results_after rest k"
    by (simp add: results_after_def)
  show ?thesis
    unfolding well_paired_at_def after
  proof (intro conjI impI)
    show "\<forall>call \<in> set (item_calls ((pre @ rest) ! (length pre + k))).
        length (filter (\<lambda>i. result_id i = Some (tc_id call)) (results_after rest k)) = 1"
      using assms by (simp add: well_paired_at_def)
    assume "is_tool_result ((pre @ rest) ! (length pre + k))"
    with assms obtain j where j: "j < k" "\<forall>i. j < i \<and> i \<le> k \<longrightarrow> is_tool_result (rest ! i)"
        "\<exists>call \<in> set (item_calls (rest ! j)). result_id (rest ! k) = Some (tc_id call)"
      by (auto simp: well_paired_at_def)
    have "is_tool_result ((pre @ rest) ! i)" if "length pre + j < i" "i \<le> length pre + k" for i
    proof -
      from that have "j < i - length pre" "i - length pre \<le> k" by linarith+
      with j(2) that show ?thesis by (simp add: nth_append)
    qed
    with j show "\<exists>j < length pre + k. (\<forall>i. j < i \<and> i \<le> length pre + k \<longrightarrow> is_tool_result ((pre @ rest) ! i)) \<and>
        (\<exists>call \<in> set (item_calls ((pre @ rest) ! j)). result_id ((pre @ rest) ! (length pre + k)) = Some (tc_id call))"
      by (intro exI [of _ "length pre + j"]) simp
  qed
qed

lemma paired_nth: "paired c \<Longrightarrow> k < length c \<Longrightarrow> well_paired_at c k"
proof (induction c arbitrary: k rule: paired.induct)
  case (2 item items)
  let ?run = "takeWhile is_tool_result items" and ?rest = "dropWhile is_tool_result items"
  have split: "item # items = (item # ?run) @ ?rest" by simp
  from "2.prems"(1) have ids: "answered_ids ?run = set (map tc_id (item_calls item))"
    and runs: "distinct (map result_id ?run)" by simp_all
  consider (head) "k = 0" | (run) "0 < k" "k \<le> length ?run"
    | (tail) "length (item # ?run) \<le> k" by fastforce
  then show ?case
  proof cases
    case head
    have "length (filter (\<lambda>i. result_id i = Some (tc_id call)) ?run) = 1" if "call \<in> set (item_calls item)" for call
      using that ids by (intro answered_once [OF runs]) simp
    with head "2.prems"(1) show ?thesis by (simp add: well_paired_at_def results_after_def)
  next
    case run
    have nth: "(item # items) ! i = ?run ! (i - 1)" if "0 < i" "i \<le> length ?run" for i
      using that by (cases i) (auto simp: takeWhile_nth)
    have res: "is_tool_result (?run ! (i - 1))" if "0 < i" "i \<le> length ?run" for i
      using that run_is_results [of items] by (auto simp: list_all_length)
    from res [OF run] obtain t where t: "?run ! (k - 1) = ToolResult t"
      by (cases "?run ! (k - 1)") auto
    moreover have "?run ! (k - 1) \<in> set ?run" using run by simp
    ultimately have "tr_call_id t \<in> answered_ids ?run"
      unfolding answered_ids_image by (metis image_eqI mem_Collect_eq result_id.simps(1))
    with ids obtain call where "call \<in> set (item_calls item)" "tc_id call = tr_call_id t" by auto
    with t nth res run show ?thesis
      by (auto simp: well_paired_at_def intro!: exI [of _ 0] bexI [of _ call])
  next
    case tail
    have "length (item # items) = length (item # ?run) + length ?rest"
      by (metis length_append split)
    with tail "2.prems" have "well_paired_at ?rest (k - length (item # ?run))"
      by (intro "2.IH") (auto simp: less_diff_conv2)
    from well_paired_append [OF this, of "item # ?run"] tail show ?thesis
      unfolding split [symmetric] by simp
  qed
qed simp

text \<open>Only results are touched.\<close>

lemma passes_others:
  "filter (\<lambda>i. \<not> is_tool_result i) (passes reason items) = filter (\<lambda>i. \<not> is_tool_result i) items"
proof (induction items rule: measure_induct_rule [of length])
  case (less items)
  have none: "filter (\<lambda>i. \<not> is_tool_result i) run = []" if "list_all is_tool_result run" for run
    using that by (auto simp: filter_empty_conv list.pred_set)
  have runs: "passes reason items = passes reason (dropWhile is_tool_result items)"
    using passes_run [OF run_is_results [of items], where items = "dropWhile is_tool_result items"] by simp
  have skip: "filter (\<lambda>i. \<not> is_tool_result i) xs = filter (\<lambda>i. \<not> is_tool_result i) (dropWhile is_tool_result xs)" for xs
    using none [OF run_is_results [of xs]]
    by (metis append_Nil filter_append takeWhile_dropWhile_id)
  show ?case
  proof (cases "dropWhile is_tool_result items")
    case Nil
    with runs skip [of items] show ?thesis by (simp add: passes_def)
  next
    case (Cons item rest)
    then have item: "\<not> is_tool_result item" by (metis hd_dropWhile list.distinct(1) list.sel(1))
    have "length (dropWhile is_tool_result rest) < length items"
      by (metis Cons length_Cons length_dropWhile_le le_trans not_less_eq_eq not_le)
    from less.IH [OF this] item show ?thesis
      unfolding runs skip [of items] Cons passes_item [OF item]
      by (simp add: none own_run_results run_is_results skip [of rest, symmetric])
  qed
qed

definition unchanged_report :: history_report where
  "unchanged_report = \<lparr>hr_duplicates_removed = 0, hr_stripped_ids = [], hr_synthetic_inserted = 0\<rparr>"

lemma strip_counts: "length (fst (strip_displaced ids items)) + length (snd (strip_displaced ids items)) = length items"
proof (induction items arbitrary: ids)
  case (Cons item items)
  then show ?case by (cases item) (simp_all add: strip_displaced.simps Let_def case_prod_unfold)
qed simp

lemma strip_stripped_empty: "fst (strip_displaced ids items) = items \<Longrightarrow> snd (strip_displaced ids items) = []"
  using strip_counts [of ids items] by simp

lemma repair_paired:
  assumes "paired c"
  shows "repair_history c = (c, unchanged_report)"
  using paired_squeeze [OF assms] paired_strip [OF assms] paired_mend [OF assms]
    strip_stripped_empty [OF paired_strip [OF assms]]
  by (simp add: repair_history_def dedup_is_squeeze repair_is_mend strip_displaced_tool_results_def
      case_prod_unfold Let_def unchanged_report_def)

text \<open>
  C16. When no assistant item makes two calls under one identifier, the repaired history pairs calls
  and results: every call has exactly one result in the run behind its item, every result stands in
  the run behind an item that made its call, no other item is touched, and a second repair finds
  nothing to do.
\<close>

theorem repaired_history_is_paired:
  assumes "list_all (\<lambda>item. distinct (map tc_id (item_calls item))) items"
    and "repair_history items = (c, report)"
  shows "(\<forall>k < length c.
      (\<forall>call \<in> set (item_calls (c ! k)).
         length (filter (\<lambda>i. result_id i = Some (tc_id call)) (results_after c k)) = 1) \<and>
      (is_tool_result (c ! k) \<longrightarrow>
         (\<exists>j < k. (\<forall>i. j < i \<and> i \<le> k \<longrightarrow> is_tool_result (c ! i)) \<and>
            (\<exists>call \<in> set (item_calls (c ! j)). result_id (c ! k) = Some (tc_id call))))) \<and>
    filter (\<lambda>i. \<not> is_tool_result i) c = filter (\<lambda>i. \<not> is_tool_result i) items \<and>
    repair_history c = (c, \<lparr>hr_duplicates_removed = 0, hr_stripped_ids = [], hr_synthetic_inserted = 0\<rparr>)"
proof -
  have c: "c = passes (HarnessHalted ''history_repair'') items"
    using assms(2) repair_history_items [of items] by simp
  with passes_paired [OF assms(1)] have paired: "paired c" by simp
  from paired_nth [OF paired] have "\<forall>k < length c. well_paired_at c k" by blast
  moreover have "filter (\<lambda>i. \<not> is_tool_result i) c = filter (\<lambda>i. \<not> is_tool_result i) items"
    by (simp add: c passes_others)
  ultimately show ?thesis
    using repair_paired [OF paired] by (simp add: well_paired_at_def unchanged_report_def)
qed

text \<open>A turn that was cut off: one call has two results, one has none, and a stray result follows.\<close>

definition sample_call :: "string \<Rightarrow> tool_call" where
  "sample_call i = \<lparr>tc_id = i, tc_name = ''read_file'', tc_arguments = [CHR 0x7B, CHR 0x7D]\<rparr>"

definition broken_history :: "conversation_item list" where
  "broken_history =
     [user_message ''hello'', assistant_tool_calls [sample_call ''a'', sample_call ''b''],
      tool_result ''a'' ''first'', tool_result ''a'' ''second'', user_message ''next'',
      tool_result ''b'' ''late'']"

definition mended_history :: "conversation_item list" where
  "mended_history =
     [user_message ''hello'', assistant_tool_calls [sample_call ''a'', sample_call ''b''],
      tool_result ''a'' ''second'',
      tool_result ''b'' (synthetic_dangling_result_text ''read_file'' (HarnessHalted ''history_repair'')),
      user_message ''next'']"

lemmas sample_items = user_message_def user_text_def assistant_tool_calls_def tool_result_def sample_call_def
  plain_assistant_def

lemma broken_history_repaired:
  "repair_history broken_history =
     (mended_history, \<lparr>hr_duplicates_removed = 1, hr_stripped_ids = [''b''], hr_synthetic_inserted = 1\<rparr>)"
  by (simp add: repair_history_def strip_displaced_tool_results_def dedup_is_squeeze repair_is_mend
      broken_history_def mended_history_def sample_items missing_results_def synthetic_results_def
      answered_ids_image strip_displaced.simps Let_def)

theorem repaired_history_is_paired_witness:
  "list_all (\<lambda>item. distinct (map tc_id (item_calls item))) broken_history \<and>
   length (filter (\<lambda>i. result_id i = Some ''b'') (results_after mended_history 1)) = 1 \<and>
   fst (repair_history mended_history) = mended_history"
proof -
  have calls: "list_all (\<lambda>item. distinct (map tc_id (item_calls item))) broken_history"
    by (simp add: broken_history_def sample_items)
  note facts = repaired_history_is_paired [OF calls broken_history_repaired]
  have "1 < length mended_history" and "sample_call ''b'' \<in> set (item_calls (mended_history ! 1))"
    by (simp_all add: mended_history_def sample_items)
  with facts have "length (filter (\<lambda>i. result_id i = Some (tc_id (sample_call ''b''))) (results_after mended_history 1)) = 1"
    by blast
  moreover from facts have "fst (repair_history mended_history) = mended_history" by simp
  ultimately show ?thesis using calls by (simp add: sample_call_def)
qed

text \<open>Two calls of one item under the same identifier, without a result.\<close>

definition twin_calls :: "conversation_item list" where
  "twin_calls = [assistant_tool_calls [sample_call ''a'', sample_call ''a'']]"

text \<open>
  The repair is described as idempotent, and it is not: when an item makes two calls under one
  identifier the duplicates are removed before the missing results are added, so each of the two
  calls gets a result of its own, and the next repair removes one of them again.
\<close>

theorem repair_not_idempotent:
  "length (fst (repair_history twin_calls)) = 3 \<and>
   length (fst (repair_history (fst (repair_history twin_calls)))) = 2 \<and>
   history_changed (snd (repair_history (fst (repair_history twin_calls))))"
  by (simp add: repair_history_def strip_displaced_tool_results_def dedup_is_squeeze repair_is_mend
      twin_calls_def sample_items missing_results_def synthetic_results_def
      answered_ids_image strip_displaced.simps history_changed_def Let_def)

end
