(* ===== verification/ConversationTurn.thy ===== *)
theory ConversationTurn imports Conversation begin

text \<open>
  What goes to the model and what comes back (\<^verbatim>\<open>xai-grok-sampling-types/src/conversation.rs\<close>,
  \<^verbatim>\<open>apply_length_policy\<close> of \<^verbatim>\<open>xai-grok-sampler/src/client.rs\<close>): the request with its images,
  the response, the reason it counts as empty, and what becomes of a response that hit its token
  limit. Of a request the model keeps the items and the policy; the other fields are passed on to
  the backend unread.
\<close>

section \<open>Images of a request\<close>

datatype length_policy = FailLength | CompleteToolCalls | CompletePartial

record conversation_request =
  rq_items :: "conversation_item list"
  rq_length_policy :: length_policy

definition request_from_items :: "conversation_item list \<Rightarrow> conversation_request" where
  "request_from_items items = \<lparr>rq_items = items, rq_length_policy = CompleteToolCalls\<rparr>"

definition request_push :: "conversation_item \<Rightarrow> conversation_request \<Rightarrow> conversation_request" where
  "request_push item rq = rq\<lparr>rq_items := rq_items rq @ [item]\<rparr>"

definition IMAGE_STRIP_PLACEHOLDER :: string where
  "IMAGE_STRIP_PLACEHOLDER =
     ''[image removed '' @ [CHR 0xE2, CHR 0x80, CHR 0x94] @ '' the server could not process it; '' @
     ''its contents are unavailable. Ask the user to re-attach the image if it is still needed.]''"

fun strip_user_parts :: "(string \<Rightarrow> bool) \<Rightarrow> content_part list \<Rightarrow> content_part list \<times> string list" where
  "strip_user_parts p [] = ([], [])"
| "strip_user_parts p (ImagePart url # parts) =
     (let (parts, urls) = strip_user_parts p parts
      in if p url then (TextPart IMAGE_STRIP_PLACEHOLDER # parts, url # urls)
         else (ImagePart url # parts, urls))"
| "strip_user_parts p (TextPart s # parts) =
     (let (parts, urls) = strip_user_parts p parts in (TextPart s # parts, urls))"

fun strip_result_images :: "(string \<Rightarrow> bool) \<Rightarrow> content_part list \<Rightarrow> content_part list \<times> string list" where
  "strip_result_images p [] = ([], [])"
| "strip_result_images p (ImagePart url # parts) =
     (let (parts, urls) = strip_result_images p parts
      in if p url then (parts, url # urls) else (ImagePart url # parts, urls))"
| "strip_result_images p (TextPart s # parts) =
     (let (parts, urls) = strip_result_images p parts in (TextPart s # parts, urls))"

fun strip_item_images :: "(string \<Rightarrow> bool) \<Rightarrow> conversation_item \<Rightarrow> conversation_item \<times> string list" where
  "strip_item_images p (User u) =
     (let (parts, urls) = strip_user_parts p (ui_content u) in (User (u\<lparr>ui_content := parts\<rparr>), urls))"
| "strip_item_images p (ToolResult t) =
     (let (parts, urls) = strip_result_images p (tr_images t)
      in (ToolResult (t\<lparr>tr_images := parts\<rparr>), urls))"
| "strip_item_images p item = (item, [])"

fun strip_images_where ::
    "(string \<Rightarrow> bool) \<Rightarrow> conversation_item list \<Rightarrow> conversation_item list \<times> string list" where
  "strip_images_where p [] = ([], [])"
| "strip_images_where p (item # items) =
     (let (item, urls) = strip_item_images p item; (items, more) = strip_images_where p items
      in (item # items, urls @ more))"

definition strip_images :: "conversation_request \<Rightarrow> conversation_request \<times> string list" where
  "strip_images rq =
     (let (items, urls) = strip_images_where (\<lambda>url. True) (rq_items rq)
      in (rq\<lparr>rq_items := items\<rparr>, urls))"

definition strip_images_by_url ::
    "conversation_item list \<Rightarrow> string list \<Rightarrow> conversation_item list \<times> nat" where
  "strip_images_by_url items urls =
     (let (items, stripped) = strip_images_where (\<lambda>url. list_ex (\<lambda>u. u = url) urls) items
      in (items, length stripped))"

section \<open>Responses\<close>

datatype stop_reason = StopTurn | StopLength | StopToolCalls | StopContentFilter

datatype finish_reason = FinStop | FinLength | FinToolCalls | FinFunctionCall | FinContentFilter

definition stop_reason_of_finish :: "finish_reason \<Rightarrow> stop_reason" where
  "stop_reason_of_finish fr =
     (case fr of
        FinStop \<Rightarrow> StopTurn
      | FinLength \<Rightarrow> StopLength
      | FinToolCalls \<Rightarrow> StopToolCalls
      | FinFunctionCall \<Rightarrow> StopToolCalls
      | FinContentFilter \<Rightarrow> StopContentFilter)"

definition stop_reason_str :: "stop_reason \<Rightarrow> string" where
  "stop_reason_str r =
     (case r of
        StopTurn \<Rightarrow> ''stop''
      | StopLength \<Rightarrow> ''length''
      | StopToolCalls \<Rightarrow> ''tool_calls''
      | StopContentFilter \<Rightarrow> ''content_filter'')"

record token_usage =
  tu_prompt :: nat
  tu_completion :: nat
  tu_total :: nat
  tu_reasoning :: nat
  tu_cached_prompt :: nat
  tu_cache_creation :: nat

text \<open>\<^verbatim>\<open>Usage\<close> of the chat API: the details are optional.\<close>

record wire_usage =
  wu_prompt :: nat
  wu_completion :: nat
  wu_total :: nat
  wu_cached :: "nat option"
  wu_reasoning :: "nat option"

definition token_usage_of :: "wire_usage \<Rightarrow> token_usage" where
  "token_usage_of u =
     \<lparr>tu_prompt = wu_prompt u, tu_completion = wu_completion u, tu_total = wu_total u,
      tu_reasoning = unwrap_or 0 (wu_reasoning u), tu_cached_prompt = unwrap_or 0 (wu_cached u),
      tu_cache_creation = 0\<rparr>"

record conversation_response =
  cr_items :: "conversation_item list"
  cr_stop_reason :: "stop_reason option"
  cr_usage :: "token_usage option"
  cr_cost_usd_ticks :: "int option"
  cr_message_chunks_emitted :: nat
  cr_signals :: "doom_signal list"
  cr_stop_message :: "string option"
  cr_message_id :: "string option"
  cr_raw_stop_reason :: "string option"
  cr_stop_sequence :: "string option"

definition reported_cost_ticks :: "int option \<Rightarrow> int option" where
  "reported_cost_ticks raw = (case raw of Some t \<Rightarrow> if t > 0 then Some t else None | None \<Rightarrow> None)"

fun last_assistant :: "conversation_item list \<Rightarrow> assistant_item option" where
  "last_assistant [] = None"
| "last_assistant (item # items) =
     (case last_assistant items of
        Some a \<Rightarrow> Some a
      | None \<Rightarrow> (case item of Assistant a \<Rightarrow> Some a | _ \<Rightarrow> None))"

definition response_assistant :: "conversation_response \<Rightarrow> assistant_item option" where
  "response_assistant r = last_assistant (cr_items r)"

definition assistant_text :: "conversation_response \<Rightarrow> string" where
  "assistant_text r = (case response_assistant r of Some a \<Rightarrow> ai_content a | None \<Rightarrow> [])"

fun reasoning_of :: "conversation_item \<Rightarrow> reasoning_item option" where
  "reasoning_of (Reasoning r) = Some r"
| "reasoning_of _ = None"

definition reasoning_items :: "conversation_response \<Rightarrow> reasoning_item list" where
  "reasoning_items r = List.map_filter reasoning_of (cr_items r)"

definition backend_tool_items :: "conversation_response \<Rightarrow> conversation_item list" where
  "backend_tool_items r = filter (\<lambda>i. case i of BackendToolCall b \<Rightarrow> True | _ \<Rightarrow> False) (cr_items r)"

definition carries_reasoning :: "reasoning_item \<Rightarrow> bool" where
  "carries_reasoning r \<longleftrightarrow> re_summary r \<noteq> [] \<or> re_content r \<noteq> None \<or> re_encrypted r \<noteq> None"

datatype empty_reason = ReasoningOnly | NoVisibleContent

definition response_empty_reason :: "conversation_response \<Rightarrow> empty_reason option" where
  "response_empty_reason r =
     (case response_assistant r of
        None \<Rightarrow> Some NoVisibleContent
      | Some a \<Rightarrow>
          if ai_content a \<noteq> [] \<or> ai_tool_calls a \<noteq> [] then None
          else if list_ex carries_reasoning (reasoning_items r) then Some ReasoningOnly
          else Some NoVisibleContent)"

definition response_is_empty :: "conversation_response \<Rightarrow> bool" where
  "response_is_empty r \<longleftrightarrow> response_empty_reason r \<noteq> None"

definition response_tool_calls :: "conversation_response \<Rightarrow> tool_call list" where
  "response_tool_calls r = (case response_assistant r of Some a \<Rightarrow> ai_tool_calls a | None \<Rightarrow> [])"

definition fallback_text :: "conversation_response \<Rightarrow> string option" where
  "fallback_text r =
     (if cr_message_chunks_emitted r > 0 then None
      else let s = assistant_text r in if s = [] then None else Some s)"

section \<open>The token limit\<close>

datatype length_verdict = PassVerdict | SalvageVerdict | SalvageToolCalls | FailVerdict

definition complete_arguments :: "(string \<Rightarrow> bool) \<Rightarrow> tool_call \<Rightarrow> bool" where
  "complete_arguments json_ok tc \<longleftrightarrow> trim (tc_arguments tc) = [] \<or> json_ok (tc_arguments tc)"

definition length_verdict :: "(string \<Rightarrow> bool) \<Rightarrow> length_policy \<Rightarrow> conversation_response \<Rightarrow> length_verdict" where
  "length_verdict json_ok policy r =
     (if cr_stop_reason r \<noteq> Some StopLength then PassVerdict
      else let calls = response_tool_calls r
           in if calls \<noteq> [] then
                (case (policy, list_all (complete_arguments json_ok) calls) of
                   (FailLength, _) \<Rightarrow> FailVerdict
                 | (_, False) \<Rightarrow> FailVerdict
                 | (_, True) \<Rightarrow> SalvageToolCalls)
              else if policy = CompletePartial \<and> response_empty_reason r = None then SalvageVerdict
              else FailVerdict)"

text \<open>\<open>None\<close> is the error \<^verbatim>\<open>MaxTokensTruncation\<close>.\<close>

definition apply_length_policy ::
    "(string \<Rightarrow> bool) \<Rightarrow> length_policy \<Rightarrow> conversation_response \<Rightarrow> conversation_response option" where
  "apply_length_policy json_ok policy r =
     (case length_verdict json_ok policy r of
        PassVerdict \<Rightarrow> Some r
      | FailVerdict \<Rightarrow> None
      | SalvageVerdict \<Rightarrow> Some r
      | SalvageToolCalls \<Rightarrow> Some r)"

section \<open>Images are stripped once\<close>

fun part_is_image :: "content_part \<Rightarrow> bool" where
  "part_is_image (ImagePart url) = True"
| "part_is_image (TextPart s) = False"

fun item_images :: "conversation_item \<Rightarrow> string list" where
  "item_images (User u) = [url. ImagePart url \<leftarrow> ui_content u]"
| "item_images (ToolResult t) = [url. ImagePart url \<leftarrow> tr_images t]"
| "item_images _ = []"

definition request_images :: "conversation_request \<Rightarrow> string list" where
  "request_images rq = concat (map item_images (rq_items rq))"

lemma strip_user_parts_split:
  "snd (strip_user_parts p parts) = filter p [url. ImagePart url \<leftarrow> parts] \<and>
   [url. ImagePart url \<leftarrow> fst (strip_user_parts p parts)] = filter (\<lambda>u. \<not> p u) [url. ImagePart url \<leftarrow> parts] \<and>
   length (fst (strip_user_parts p parts)) = length parts"
  by (induction p parts rule: strip_user_parts.induct) (auto simp: Let_def split: prod.split)

lemma strip_result_images_split:
  "snd (strip_result_images p parts) = filter p [url. ImagePart url \<leftarrow> parts] \<and>
   [url. ImagePart url \<leftarrow> fst (strip_result_images p parts)] = filter (\<lambda>u. \<not> p u) [url. ImagePart url \<leftarrow> parts]"
  by (induction p parts rule: strip_result_images.induct) (auto simp: Let_def split: prod.split)

lemma strip_item_images_split:
  "snd (strip_item_images p item) = filter p (item_images item)"
  "item_images (fst (strip_item_images p item)) = filter (\<lambda>u. \<not> p u) (item_images item)"
  by (cases item; use strip_user_parts_split strip_result_images_split in \<open>simp add: Let_def case_prod_unfold\<close>)+

lemma strip_images_where_split:
  "snd (strip_images_where p items) = filter p (concat (map item_images items))"
  "concat (map item_images (fst (strip_images_where p items))) =
     filter (\<lambda>u. \<not> p u) (concat (map item_images items))"
  by (induction items)
    (simp_all add: Let_def case_prod_unfold filter_concat strip_item_images_split)

lemma strip_images_where_length [simp]: "length (fst (strip_images_where p items)) = length items"
  by (induction items) (simp_all add: Let_def case_prod_unfold)

lemma strip_images_urls [simp]: "snd (strip_images rq) = request_images rq"
  by (simp add: strip_images_def case_prod_unfold Let_def strip_images_where_split request_images_def)

lemma strip_images_none [simp]: "request_images (fst (strip_images rq)) = []"
  by (simp add: strip_images_def case_prod_unfold Let_def strip_images_where_split request_images_def)

lemma strip_images_keeps_policy [simp]: "rq_length_policy (fst (strip_images rq)) = rq_length_policy rq"
  by (simp add: strip_images_def case_prod_unfold Let_def)

end
