(* ===== verification/ConversationCut.thy ===== *)
theory ConversationCut imports Conversation begin

text \<open>
  Where a conversation is cut when the session rewinds to a prompt
  (\<^verbatim>\<open>conversation_truncate_for_prompt\<close> of \<^verbatim>\<open>xai-grok-sampling-types/src/conversation.rs\<close>), and the
  rewriting of working directories when a session is forked. Prompts recorded since markers exist
  carry their index; before the first marker the turns are counted.
\<close>

section \<open>The loops\<close>

fun user_prompt_index :: "conversation_item \<Rightarrow> nat option" where
  "user_prompt_index (User u) = ui_prompt_index u"
| "user_prompt_index _ = None"

fun first_prompt_index :: "conversation_item list \<Rightarrow> nat option" where
  "first_prompt_index [] = None"
| "first_prompt_index (item # items) =
     (case user_prompt_index item of Some idx \<Rightarrow> Some idx | None \<Rightarrow> first_prompt_index items)"

text \<open>The loops carry the position of the item at their head.\<close>

fun cut_markers_only :: "nat \<Rightarrow> nat \<Rightarrow> conversation_item list \<Rightarrow> nat" where
  "cut_markers_only target i [] = i"
| "cut_markers_only target i (item # items) =
     (case user_prompt_index item of
        Some idx \<Rightarrow> if target \<le> idx then i else cut_markers_only target (Suc i) items
      | None \<Rightarrow> cut_markers_only target (Suc i) items)"

text \<open>
  The turn that an unmarked user item opens, and whether the preamble has been seen afterwards:
  the first item typed by the user is the preamble.
\<close>

definition unmarked_turn :: "bool \<Rightarrow> nat \<Rightarrow> synthetic_reason \<Rightarrow> nat option \<times> bool" where
  "unmarked_turn preamble nxt r =
     (if r = Human \<and> \<not> preamble then (None, True)
      else if r = Human then (Some nxt, preamble)
      else if starts_prompt_turn r then (Some nxt, preamble)
      else (None, preamble))"

fun cut_legacy :: "nat \<Rightarrow> nat \<Rightarrow> bool \<Rightarrow> nat \<Rightarrow> conversation_item list \<Rightarrow> nat" where
  "cut_legacy target nxt preamble i [] = i"
| "cut_legacy target nxt preamble i (item # items) =
     (case item of
        User u \<Rightarrow>
          (case unmarked_turn preamble nxt (ui_reason u) of
             (Some idx, preamble) \<Rightarrow>
               if target \<le> idx then i else cut_legacy target (idx + 1) preamble (Suc i) items
           | (None, preamble) \<Rightarrow> cut_legacy target nxt preamble (Suc i) items)
      | _ \<Rightarrow> cut_legacy target nxt preamble (Suc i) items)"

fun count_legacy_turns :: "bool \<Rightarrow> conversation_item list \<Rightarrow> nat" where
  "count_legacy_turns preamble [] = 0"
| "count_legacy_turns preamble (item # items) =
     (case item of
        User u \<Rightarrow>
          (if ui_prompt_index u \<noteq> None then 0
           else if ui_reason u = Human \<and> \<not> preamble then count_legacy_turns True items
           else if ui_reason u = Human then Suc (count_legacy_turns preamble items)
           else if starts_prompt_turn (ui_reason u) then Suc (count_legacy_turns preamble items)
           else count_legacy_turns preamble items)
      | _ \<Rightarrow> count_legacy_turns preamble items)"

fun cut_progressive :: "nat \<Rightarrow> nat \<Rightarrow> bool \<Rightarrow> bool \<Rightarrow> nat \<Rightarrow> conversation_item list \<Rightarrow> nat" where
  "cut_progressive target nxt preamble marked i [] = i"
| "cut_progressive target nxt preamble marked i (item # items) =
     (case item of
        User u \<Rightarrow>
          (case ui_prompt_index u of
             Some idx \<Rightarrow>
               (if target \<le> idx then i else cut_progressive target nxt preamble True (Suc i) items)
           | None \<Rightarrow>
               if marked then cut_progressive target nxt preamble marked (Suc i) items
               else case unmarked_turn preamble nxt (ui_reason u) of
                 (Some idx, preamble) \<Rightarrow>
                   if target \<le> idx then i
                   else cut_progressive target (idx + 1) preamble marked (Suc i) items
               | (None, preamble) \<Rightarrow> cut_progressive target nxt preamble marked (Suc i) items)
      | _ \<Rightarrow> cut_progressive target nxt preamble marked (Suc i) items)"

definition conversation_truncate_for_prompt :: "conversation_item list \<Rightarrow> nat \<Rightarrow> nat" where
  "conversation_truncate_for_prompt conversation target =
     (case first_prompt_index conversation of
        None \<Rightarrow> cut_legacy target 0 False 0 conversation
      | Some first_marker \<Rightarrow>
          if count_legacy_turns False conversation \<noteq> first_marker
          then cut_markers_only target 0 conversation
          else cut_progressive target 0 False False 0 conversation)"

section \<open>Working directories\<close>

text \<open>The source directory is not empty.\<close>

definition rewrite_text :: "string \<Rightarrow> string \<Rightarrow> string \<Rightarrow> string" where
  "rewrite_text src dst s = (if contains s src then str_replace src dst s else s)"

fun rewrite_part :: "string \<Rightarrow> string \<Rightarrow> content_part \<Rightarrow> content_part" where
  "rewrite_part src dst (TextPart s) = TextPart (rewrite_text src dst s)"
| "rewrite_part src dst (ImagePart url) = ImagePart url"

definition rewrite_item_cwd :: "string \<Rightarrow> string \<Rightarrow> conversation_item \<Rightarrow> conversation_item" where
  "rewrite_item_cwd src dst item =
     (case item of
        System s \<Rightarrow> System (s\<lparr>si_content := rewrite_text src dst (si_content s)\<rparr>)
      | User u \<Rightarrow> User (u\<lparr>ui_content := map (rewrite_part src dst) (ui_content u)\<rparr>)
      | Assistant a \<Rightarrow>
          Assistant (a\<lparr>ai_content := rewrite_text src dst (ai_content a),
            ai_tool_calls := map (\<lambda>tc. tc\<lparr>tc_arguments := rewrite_text src dst (tc_arguments tc)\<rparr>)
              (ai_tool_calls a)\<rparr>)
      | ToolResult t \<Rightarrow> ToolResult (t\<lparr>tr_content := rewrite_text src dst (tr_content t)\<rparr>)
      | BackendToolCall b \<Rightarrow> BackendToolCall b
      | Reasoning r \<Rightarrow>
          Reasoning (r\<lparr>re_summary := map (rewrite_text src dst) (re_summary r),
            re_content := map_option (map (rewrite_text src dst)) (re_content r)\<rparr>))"

definition transform_conversation_cwd ::
    "conversation_item list \<Rightarrow> string \<Rightarrow> string \<Rightarrow> conversation_item list" where
  "transform_conversation_cwd items src dst = map (rewrite_item_cwd src dst) items"

section \<open>What a cut keeps\<close>

lemma cut_markers_only_bounds:
  "i \<le> cut_markers_only target i items" "cut_markers_only target i items \<le> i + length items"
proof -
  have "i \<le> cut_markers_only target i items \<and> cut_markers_only target i items \<le> i + length items"
  proof (induction items arbitrary: i)
    case (Cons item items)
    from Cons [of "Suc i"] show ?case by (auto split: option.split)
  qed simp
  then show "i \<le> cut_markers_only target i items" "cut_markers_only target i items \<le> i + length items"
    by simp_all
qed

lemma cut_legacy_bounds: "cut_legacy target nxt preamble i items \<le> i + length items"
proof (induction items arbitrary: nxt preamble i)
  case (Cons item items)
  have "cut_legacy target n p (Suc i) items \<le> Suc (i + length items)" for n p
    using Cons [of n p "Suc i"] by simp
  then show ?case
    by (cases item) (auto split: option.split prod.split)
qed simp

lemma cut_progressive_bounds: "cut_progressive target nxt preamble marked i items \<le> i + length items"
proof (induction items arbitrary: nxt preamble marked i)
  case (Cons item items)
  have "cut_progressive target n p m (Suc i) items \<le> Suc (i + length items)" for n p m
    using Cons [of n p m "Suc i"] by simp
  then show ?case
    by (cases item) (auto split: option.split prod.split)
qed simp

lemma cut_within: "conversation_truncate_for_prompt items target \<le> length items"
  using cut_markers_only_bounds(2) [of target 0 items] cut_legacy_bounds [of target 0 False 0 items]
    cut_progressive_bounds [of target 0 False False 0 items]
  by (simp add: conversation_truncate_for_prompt_def split: option.split)

text \<open>Every loop returns at the first item that opens the target or a later prompt.\<close>

lemma cut_markers_only_at:
  assumes "k < length items" and "user_prompt_index (items ! k) = Some target"
    and "\<forall>j < k. \<forall>idx. user_prompt_index (items ! j) = Some idx \<longrightarrow> idx < target"
  shows "cut_markers_only target i items = i + k"
  using assms
proof (induction items arbitrary: i k)
  case (Cons item items)
  show ?case
  proof (cases k)
    case 0
    with Cons.prems show ?thesis by simp
  next
    case (Suc m)
    have "cut_markers_only target (Suc i) items = Suc i + m"
      using Cons.prems Suc by (intro Cons.IH) auto
    moreover have "idx < target" if "user_prompt_index item = Some idx" for idx
      using Cons.prems(3) Suc that by (metis nth_Cons_0 zero_less_Suc)
    ultimately show ?thesis using Suc by (auto split: option.split)
  qed
qed simp

lemma user_prompt_index_eq:
  "user_prompt_index item = (case item of User u \<Rightarrow> ui_prompt_index u | _ \<Rightarrow> None)"
  by (cases item) simp_all

lemma cut_progressive_marked:
  assumes "k < length items" and "user_prompt_index (items ! k) = Some target"
    and "\<forall>j < k. \<forall>idx. user_prompt_index (items ! j) = Some idx \<longrightarrow> idx < target"
  shows "cut_progressive target nxt preamble True i items = i + k"
  using assms
proof (induction items arbitrary: i k)
  case (Cons item items)
  show ?case
  proof (cases k)
    case 0
    with Cons.prems show ?thesis by (cases item) simp_all
  next
    case (Suc m)
    have "cut_progressive target nxt preamble True (Suc i) items = Suc i + m"
      using Cons.prems Suc by (intro Cons.IH) auto
    moreover have "idx < target" if "user_prompt_index item = Some idx" for idx
      using Cons.prems(3) Suc that by (metis nth_Cons_0 zero_less_Suc)
    ultimately show ?thesis using Suc by (cases item) (auto split: option.split)
  qed
qed simp

text \<open>The turns counted before the first marker are those the progressive loop numbers.\<close>

lemma cut_progressive_at:
  assumes "k < length items" and "user_prompt_index (items ! k) = Some target"
    and "\<forall>j < k. \<forall>idx. user_prompt_index (items ! j) = Some idx \<longrightarrow> idx < target"
    and "nxt + count_legacy_turns preamble items \<le> target"
  shows "cut_progressive target nxt preamble False i items = i + k"
  using assms
proof (induction items arbitrary: i k nxt preamble)
  case (Cons item items)
  show ?case
  proof (cases k)
    case 0
    with Cons.prems show ?thesis by (cases item) simp_all
  next
    case (Suc m)
    have at: "m < length items" "user_prompt_index (items ! m) = Some target"
      "\<forall>j < m. \<forall>idx. user_prompt_index (items ! j) = Some idx \<longrightarrow> idx < target"
      using Cons.prems Suc by auto
    have less: "idx < target" if "user_prompt_index item = Some idx" for idx
      using Cons.prems(3) Suc that by (metis nth_Cons_0 zero_less_Suc)
    note IH = Cons.IH [OF at, of _ _ "Suc i"] and marked = cut_progressive_marked [OF at, of _ _ "Suc i"]
    show ?thesis
    proof (cases item)
      case (User u)
      then show ?thesis
      proof (cases "ui_prompt_index u")
        case None
        with User Cons.prems(4) IH Suc show ?thesis
          by (auto simp: unmarked_turn_def split: if_splits)
      next
        case (Some idx)
        with less User marked Suc show ?thesis by auto
      qed
    qed (use IH Cons.prems(4) Suc in auto)
  qed
qed simp

lemma first_prompt_index_before:
  assumes "k < length items" and "user_prompt_index (items ! k) = Some target"
    and "\<forall>j < k. \<forall>idx. user_prompt_index (items ! j) = Some idx \<longrightarrow> idx < target"
  shows "\<exists>first. first_prompt_index items = Some first \<and> first \<le> target"
  using assms
proof (induction items arbitrary: k)
  case (Cons item items)
  show ?case
  proof (cases k)
    case 0
    with Cons.prems show ?thesis by simp
  next
    case (Suc m)
    have "\<exists>first. first_prompt_index items = Some first \<and> first \<le> target"
      using Cons.prems Suc by (intro Cons.IH [of m]) auto
    moreover have "idx < target" if "user_prompt_index item = Some idx" for idx
      using Cons.prems(3) Suc that by (metis nth_Cons_0 zero_less_Suc)
    ultimately show ?thesis by (auto split: option.split)
  qed
qed simp

text \<open>
  C18. Rewinding to a prompt cuts the conversation exactly at the item that recorded its index, when
  the prompts recorded before it have smaller indices, whatever unmarked items, synthetic messages
  and turns of older sessions stand in front of it.
\<close>

theorem rewind_cuts_at_the_prompt:
  assumes "k < length conversation" and "conversation ! k = User u" and "ui_prompt_index u = Some target"
    and "\<forall>j < k. \<forall>v idx. conversation ! j = User v \<longrightarrow> ui_prompt_index v = Some idx \<longrightarrow> idx < target"
  shows "conversation_truncate_for_prompt conversation target = k"
proof -
  have marker: "user_prompt_index (conversation ! k) = Some target" using assms(2,3) by simp
  have before: "\<forall>j < k. \<forall>idx. user_prompt_index (conversation ! j) = Some idx \<longrightarrow> idx < target"
    using assms(4) by (auto simp: user_prompt_index_eq split: conversation_item.splits)
  obtain first where first: "first_prompt_index conversation = Some first" "first \<le> target"
    using first_prompt_index_before [OF assms(1) marker before] by blast
  show ?thesis
  proof (cases "count_legacy_turns False conversation = first")
    case True
    with first cut_progressive_at [OF assms(1) marker before, of 0 False 0] show ?thesis
      by (simp add: conversation_truncate_for_prompt_def)
  next
    case False
    with first cut_markers_only_at [OF assms(1) marker before, of 0] show ?thesis
      by (simp add: conversation_truncate_for_prompt_def)
  qed
qed

definition marked_user :: "nat \<Rightarrow> conversation_item" where
  "marked_user idx = set_prompt_index idx (user_message ''prompt'')"

theorem rewind_cuts_at_the_prompt_witness:
  "conversation_truncate_for_prompt
     [system_prompt ''s'', user_message ''preamble'', user_message ''turn'', assistant_message ''a'',
      marked_user 1, system_reminder ''r'', marked_user 2] 2 = 6"
  by (rule rewind_cuts_at_the_prompt [where u = "case marked_user 2 of User u \<Rightarrow> u"])
    (auto simp: marked_user_def set_prompt_index_def user_message_def user_text_def system_prompt_def
      assistant_message_def system_reminder_def less_Suc_eq numeral_eq_Suc)

end
