(* ===== verification/DoomLoopLaws.thy ===== *)
theory DoomLoopLaws imports DoomLoop begin

text \<open>
  The labels kept of the repetition check are bounded whatever the server sends, an attempt that
  is disarmed is never aborted, and the label chosen for telemetry is the tightest one.
\<close>

section \<open>Bounds\<close>

definition labels_ok :: "string list \<Rightarrow> bool" where
  "labels_ok ls \<longleftrightarrow>
     distinct ls \<and> length ls \<le> MAX_COLLECTED_DOOM_LOOP_SIGNALS \<and>
     list_all (\<lambda>l. length l \<le> MAX_DOOM_LOOP_SIGNAL_BYTES) ls"

lemma labels_ok_Nil [simp, intro]: "labels_ok []"
  by (simp add: labels_ok_def)

lemma labels_ok_snoc:
  "labels_ok ls \<Longrightarrow> length ls < MAX_COLLECTED_DOOM_LOOP_SIGNALS \<Longrightarrow>
   length l \<le> MAX_DOOM_LOOP_SIGNAL_BYTES \<Longrightarrow> l \<notin> set ls \<Longrightarrow> labels_ok (ls @ [l])"
  by (simp add: labels_ok_def)

lemma merge_signal_labels_ok: "labels_ok target \<Longrightarrow> labels_ok (merge_signal_labels target ss)"
  by (induction target ss rule: merge_signal_labels.induct) (simp_all add: labels_ok_snoc)

lemma merge_signal_labels_extends: "\<exists>more. merge_signal_labels target ss = target @ more \<and> set more \<subseteq> set ss"
proof (induction target ss rule: merge_signal_labels.induct)
  case (2 target s ss)
  then show ?case by (cases "MAX_COLLECTED_DOOM_LOOP_SIGNALS \<le> length target") (force split: if_splits)+
qed simp

lemma push_signals_raw:
  "map ds_raw (push_signals acc ss) = merge_signal_labels (map ds_raw acc) (map ds_raw ss)"
proof (induction acc ss rule: push_signals.induct)
  case (2 acc s ss)
  have "list_ex (\<lambda>x. ds_raw x = ds_raw s) acc \<longleftrightarrow> ds_raw s \<in> set (map ds_raw acc)"
    unfolding list_ex_iff set_map image_iff by metis
  with 2 show ?case by simp
qed simp

lemma push_signals_subset: "set (push_signals acc ss) \<subseteq> set acc \<union> set ss"
  by (induction acc ss rule: push_signals.induct) (auto split: if_splits)

definition collector_ok :: "collector \<Rightarrow> bool" where
  "collector_ok c \<longleftrightarrow> labels_ok (map ds_raw (co_signals c))"

lemma collector_new_ok [simp]: "collector_ok (collector_new p)"
  by (simp add: collector_ok_def collector_new_def)

lemma record_signals_ok: "collector_ok c \<Longrightarrow> collector_ok (record_signals ss c)"
  by (simp add: collector_ok_def record_signals_def push_signals_raw merge_signal_labels_ok)

lemma log_malformed_ok [simp]: "collector_ok (log_malformed_once c) = collector_ok c"
  by (simp add: collector_ok_def log_malformed_once_def)

lemma absorb_ok: "collector_ok c \<Longrightarrow> collector_ok (snd (absorb json_of name data c))"
  unfolding absorb_def Let_def by (cases "peek_doom_loop json_of data"; simp add: record_signals_ok)

lemma collector_take_ok: "collector_ok (snd (collector_take c))"
  by (simp add: collector_ok_def collector_take_def)

definition completion_ok :: "'r completion \<Rightarrow> bool" where
  "completion_ok c \<longleftrightarrow>
     labels_ok (cs_signals c) \<and> length (cs_attempts c) \<le> MAX_DOOM_LOOP_RECOVERY_ATTEMPTS \<and>
     list_all (\<lambda>a. labels_ok (ra_triggers a)) (cs_attempts c)"

lemma completion_new_ok [simp]: "completion_ok (completion_new tx)"
  by (simp add: completion_ok_def completion_new_def)

lemma merge_doom_loop_signals_ok: "completion_ok c \<Longrightarrow> completion_ok (merge_doom_loop_signals ss c)"
  by (simp add: completion_ok_def merge_doom_loop_signals_def merge_signal_labels_ok)

lemma record_recovery_attempt_ok: "completion_ok c \<Longrightarrow> completion_ok (record_recovery_attempt ts a c)"
  by (simp add: completion_ok_def record_recovery_attempt_def merge_signal_labels_ok)

lemmas completion_oks = completion_new_ok merge_doom_loop_signals_ok record_recovery_attempt_ok

section \<open>A disarmed attempt\<close>

lemma absorb_keeps_arming [simp]:
  "co_abort_disarmed (snd (absorb json_of name data c)) = co_abort_disarmed c"
  "co_policy (snd (absorb json_of name data c)) = co_policy c"
  unfolding absorb_def Let_def
  by (cases "peek_doom_loop json_of data"; simp add: record_signals_def log_malformed_once_def)+

fun absorb_all :: "(string \<Rightarrow> json option) \<Rightarrow> (string \<times> string) list \<Rightarrow> collector \<Rightarrow> collector" where
  "absorb_all json_of [] c = c"
| "absorb_all json_of ((name, data) # frames) c =
     absorb_all json_of frames (snd (absorb json_of name data c))"

lemma absorb_all_disarmed:
  "co_abort_disarmed (absorb_all json_of frames c) = co_abort_disarmed c"
  by (induction json_of frames c rule: absorb_all.induct) simp_all

lemma absorb_all_policy: "co_policy (absorb_all json_of frames c) = co_policy c"
  by (induction json_of frames c rule: absorb_all.induct) simp_all

lemma absorb_all_ok: "collector_ok c \<Longrightarrow> collector_ok (absorb_all json_of frames c)"
  by (induction json_of frames c rule: absorb_all.induct) (simp_all add: absorb_ok)

lemma confident_triggers_iff:
  "confident_triggers p ss = [] \<longleftrightarrow> \<not> list_ex (is_confident p) ss"
  by (auto simp: confident_triggers_def filter_empty_conv list_ex_iff)

text \<open>
  Whatever frames the server sends, the collector of an attempt holds at most 64 labels, all
  different and of at most 256 bytes; it tells the stream to stop exactly when the attempt is
  armed and one of them repeats the tail of the thinking channel at or below the threshold of the
  policy; and once disarmed it never does.
\<close>

theorem collector_bounded:
  "length (co_signals (absorb_all json_of frames (collector_new p))) \<le> 64 \<and>
   distinct (map ds_raw (co_signals (absorb_all json_of frames (collector_new p)))) \<and>
   list_all (\<lambda>s. length (ds_raw s) \<le> 256) (co_signals (absorb_all json_of frames (collector_new p))) \<and>
   (abort_triggers (absorb_all json_of frames (collector_new p)) \<noteq> None \<longleftrightarrow>
      list_ex (\<lambda>s. ds_channel s = ''thinking'' \<and> (case ds_kind s of
          TailRepetition t \<Rightarrow> t \<le> dp_max_threshold p | _ \<Rightarrow> False))
        (co_signals (absorb_all json_of frames (collector_new p)))) \<and>
   abort_triggers (absorb_all json_of frames (disarm_abort (collector_new p))) = None"
proof -
  have "collector_ok (absorb_all json_of frames (collector_new p))"
    by (simp add: absorb_all_ok)
  then have "labels_ok (map ds_raw (co_signals (absorb_all json_of frames (collector_new p))))"
    by (simp add: collector_ok_def)
  moreover have "co_policy (absorb_all json_of frames (collector_new p)) = p"
    and "\<not> co_abort_disarmed (absorb_all json_of frames (collector_new p))"
    and "co_abort_disarmed (absorb_all json_of frames (disarm_abort (collector_new p)))"
    by (simp_all add: absorb_all_policy absorb_all_disarmed collector_new_def disarm_abort_def)
  ultimately show ?thesis
    by (simp add: labels_ok_def list.pred_map comp_def abort_triggers_def Let_def is_confident_def
        confident_triggers_iff [unfolded is_confident_def [abs_def]] THINKING_CHANNEL_def
        MAX_COLLECTED_DOOM_LOOP_SIGNALS_def MAX_DOOM_LOOP_SIGNAL_BYTES_def cong: signal_kind.case_cong)
qed

section \<open>The tightest label\<close>

definition tail_threshold :: "string \<Rightarrow> nat option" where
  "tail_threshold raw = (case ds_kind (parse_signal raw) of TailRepetition t \<Rightarrow> Some t | _ \<Rightarrow> None)"

text \<open>What the loop knows after some labels.\<close>

definition tightest_inv :: "string list \<Rightarrow> string option \<times> (nat \<times> string) option \<Rightarrow> bool" where
  "tightest_inv raws st \<longleftrightarrow>
     (case st of (first, best) \<Rightarrow>
        first = (case raws of [] \<Rightarrow> None | r # _ \<Rightarrow> Some r) \<and>
        (case best of
           None \<Rightarrow> (\<forall>r \<in> set raws. tail_threshold r = None)
         | Some (t, raw) \<Rightarrow> raw \<in> set raws \<and> tail_threshold raw = Some t \<and>
             (\<forall>r \<in> set raws. \<forall>u. tail_threshold r = Some u \<longrightarrow> t \<le> u)))"

lemma tightest_step_inv:
  assumes "tightest_inv raws st"
  shows "tightest_inv (raws @ [raw]) (tightest_step st raw)"
proof (cases "ds_kind (parse_signal raw)")
  case (TailRepetition t)
  then have raw: "tail_threshold raw = Some t" by (simp add: tail_threshold_def)
  obtain first best where "st = (first, best)" by fastforce
  with assms TailRepetition raw show ?thesis
    by (cases raws) (auto simp: tightest_inv_def tightest_step_def split: option.splits)
qed (use assms in \<open>cases st; cases raws;
       auto simp: tightest_inv_def tightest_step_def tail_threshold_def split: option.splits\<close>)+

lemma tightest_inv_foldl: "tightest_inv raws (foldl tightest_step (None, None) raws)"
proof (induction raws rule: rev_induct)
  case Nil
  then show ?case by (simp add: tightest_inv_def)
next
  case (snoc raw raws)
  then show ?case by (simp add: tightest_step_inv)
qed

text \<open>
  The label chosen for telemetry is one of those reported; when one of them names a threshold
  the chosen one does, and none is lower; otherwise it is the first. There is one unless nothing
  was reported.
\<close>

theorem tightest_is_tightest:
  "(tightest raws = None \<longleftrightarrow> raws = []) \<and>
   (\<forall>raw. tightest raws = Some raw \<longrightarrow> raw \<in> set raws \<and>
     (\<forall>r \<in> set raws. \<forall>u. tail_threshold r = Some u \<longrightarrow>
        (\<exists>t. tail_threshold raw = Some t \<and> t \<le> u)) \<and>
     ((\<forall>r \<in> set raws. tail_threshold r = None) \<longrightarrow> raw = hd raws))"
proof -
  obtain first best where st: "foldl tightest_step (None, None) raws = (first, best)" by fastforce
  with tightest_inv_foldl [of raws] have inv: "tightest_inv raws (first, best)" by simp
  show ?thesis
  proof (cases best)
    case None
    with inv st show ?thesis
      by (cases raws) (auto simp: tightest_def tightest_inv_def)
  next
    case (Some b)
    with inv st show ?thesis
      by (cases b) (auto simp: tightest_def tightest_inv_def)
  qed
qed

end
