(* ===== verification/SamplingError.thy ===== *)
theory SamplingError imports ConversationTurn Breaker begin

text \<open>
  The errors of a sampling request (\<^verbatim>\<open>xai-grok-sampling-types/src/error.rs\<close>), the detector of a
  context overflow (\<^verbatim>\<open>code_compaction/failure.rs\<close> of \<^verbatim>\<open>xai-grok-compaction\<close>) and what of an error
  crosses to a consumer (\<^verbatim>\<open>xai-grok-sampler/src/events.rs\<close>, \<^verbatim>\<open>synthesize_from_info\<close> of
  \<^verbatim>\<open>request_task.rs\<close>). An error of \<^verbatim>\<open>reqwest\<close> is what its accessors say; \<open>serde_custom\<close> is
  \<^verbatim>\<open>serde::de::Error::custom\<close> and \<open>status_text\<close> the rendering of an HTTP status.
\<close>

section \<open>Size overflows in a message\<close>

definition is_anchored :: "string \<Rightarrow> string \<Rightarrow> bool" where
  "is_anchored m needle \<longleftrightarrow> list_ex (\<lambda>segment. starts_with segment needle) (split_str '': '' m)"

definition has_size_slug :: "string \<Rightarrow> bool" where
  "has_size_slug m \<longleftrightarrow>
     list_ex (is_anchored m)
       [''context_length_exceeded'', ''exceed_context_size_error'', ''payload_too_large'',
        ''request_too_large'']"

definition has_rendered_413_phrase :: "string \<Rightarrow> bool" where
  "has_rendered_413_phrase m \<longleftrightarrow>
     contains m ''413 payload too large'' \<or> contains m ''413 content too large'' \<or>
     contains m ''413 request entity too large''"

definition has_input_length_pair :: "string \<Rightarrow> bool" where
  "has_input_length_pair m \<longleftrightarrow>
     contains m ''input length'' \<and> contains m ''exceeds the maximum allowed length''"

definition is_context_length_message :: "string \<Rightarrow> bool" where
  "is_context_length_message message \<longleftrightarrow>
     (let m = ascii_lower message
      in contains m ''too long for this model'' \<or>
         contains m ''prompt is too long'' \<or>
         contains m ''maximum prompt length'' \<or>
         contains m ''maximum context length'' \<or>
         contains m ''maximum allowed number of bytes'' \<or>
         (contains m ''current message'' \<and> contains m ''exceeds budget'') \<or>
         is_anchored m ''request too large'' \<or>
         has_size_slug m \<or>
         has_rendered_413_phrase m \<or>
         has_input_length_pair m)"

section \<open>Codes\<close>

definition INVALID_IMAGE_ERROR_CODE :: string where
  "INVALID_IMAGE_ERROR_CODE = ''invalid_image''"

definition IMAGE_CONTENT_PATH_MARKER :: string where
  "IMAGE_CONTENT_PATH_MARKER = ''.image.source.''"

definition is_byte_size_overflow_error_code :: "string \<Rightarrow> bool" where
  "is_byte_size_overflow_error_code code \<longleftrightarrow>
     parse_uint 65535 code = Some 413 \<or>
     eq_ignore_ascii_case code ''payload_too_large'' \<or>
     eq_ignore_ascii_case code ''request_too_large''"

definition is_size_overflow_error_code :: "string \<Rightarrow> bool" where
  "is_size_overflow_error_code code \<longleftrightarrow>
     is_byte_size_overflow_error_code code \<or>
     eq_ignore_ascii_case code ''exceed_context_size_error'' \<or>
     eq_ignore_ascii_case code ''context_length_exceeded''"

datatype api_error_code =
    InvalidImage
  | ContextOverflow string
  | OtherCode string

definition parse_api_error_code :: "string \<Rightarrow> api_error_code" where
  "parse_api_error_code code =
     (if code = INVALID_IMAGE_ERROR_CODE then InvalidImage
      else if is_size_overflow_error_code code then ContextOverflow code
      else OtherCode code)"

definition code_str :: "api_error_code \<Rightarrow> string" where
  "code_str c =
     (case c of
        InvalidImage \<Rightarrow> INVALID_IMAGE_ERROR_CODE
      | ContextOverflow code \<Rightarrow> code
      | OtherCode code \<Rightarrow> code)"

definition is_size_overflow :: "api_error_code \<Rightarrow> bool" where
  "is_size_overflow c \<longleftrightarrow> (case c of ContextOverflow code \<Rightarrow> True | _ \<Rightarrow> False)"

definition is_byte_size_overflow :: "api_error_code \<Rightarrow> bool" where
  "is_byte_size_overflow c \<longleftrightarrow>
     (case c of ContextOverflow code \<Rightarrow> is_byte_size_overflow_error_code code | _ \<Rightarrow> False)"

section \<open>Errors\<close>

datatype sent_credential = SentWith | SentWithout | SentUnknown

definition from_sent_fragment :: "string option \<Rightarrow> sent_credential" where
  "from_sent_fragment fragment = (if fragment \<noteq> None then SentWith else SentWithout)"

definition sent_credential_of_wire :: "string \<Rightarrow> sent_credential" where
  "sent_credential_of_wire s =
     (if s = ''sent'' then SentWith else if s = ''missing'' then SentWithout else SentUnknown)"

definition sent_is_missing :: "sent_credential \<Rightarrow> bool" where
  "sent_is_missing c \<longleftrightarrow> c = SentWithout"

record empty_context =
  ec_reason :: empty_reason
  ec_had_reasoning :: bool
  ec_content_len :: nat
  ec_tool_call_count :: nat
  ec_finish_reason :: "string option"
  ec_completion_tokens :: "nat option"
  ec_reasoning_tokens :: "nat option"
  ec_prompt_tokens :: "nat option"
  ec_model :: string
  ec_first_choice_seen :: bool

definition finish_reason_str :: "empty_context \<Rightarrow> string" where
  "finish_reason_str c = unwrap_or ''none'' (ec_finish_reason c)"

record model_metadata =
  md_context_window :: "nat option"
  md_max_completion_tokens :: "nat option"
  md_models_etag :: "string option"

text \<open>What \<^verbatim>\<open>reqwest::Error\<close> answers; \<open>he_causes\<close> is its chain of sources, outermost first.\<close>

record http_error =
  he_text :: string
  he_causes :: "string list"
  he_timeout :: bool
  he_connect :: bool
  he_request :: bool
  he_body :: bool
  he_is_status :: bool
  he_status :: "u16 option"
  he_url :: "string option"

record serde_error =
  se_text :: string
  se_line :: nat
  se_column :: nat

record api_failure =
  af_status :: u16
  af_message :: string
  af_metadata :: "model_metadata option"
  af_retry_after :: "nat option"
  af_should_retry :: "bool option"
  af_code :: "api_error_code option"

datatype sampling_error =
    AuthError string sent_credential
  | InvalidConfiguration string
  | MtlsConfiguration string
  | HttpError http_error
  | SerializationError serde_error
  | ApiError api_failure
  | EventStreamError string
  | StreamError string string "api_error_code option"
  | IdleTimeout nat
  | EmptyResponse empty_context
  | MaxTokensTruncation
  | DoomLoopDetected "string list" "nat option"

record error_env =
  ee_status_text :: "u16 \<Rightarrow> string"
  ee_serde_custom :: "string \<Rightarrow> serde_error"

definition SERIALIZATION_DISPLAY_PREFIX :: string where
  "SERIALIZATION_DISPLAY_PREFIX = ''serialization error: ''"

definition MAX_TOKENS_TRUNCATION_MESSAGE :: string where
  "MAX_TOKENS_TRUNCATION_MESSAGE = ''response truncated by max_tokens''"

definition empty_reason_str :: "empty_reason \<Rightarrow> string" where
  "empty_reason_str r =
     (case r of ReasoningOnly \<Rightarrow> ''reasoning_only'' | NoVisibleContent \<Rightarrow> ''no_visible_content'')"

text \<open>The rendering of an error.\<close>

definition error_text :: "error_env \<Rightarrow> sampling_error \<Rightarrow> string" where
  "error_text N err =
     (case err of
        AuthError message credential \<Rightarrow> message
      | InvalidConfiguration m \<Rightarrow> ''invalid client configuration: '' @ m
      | MtlsConfiguration m \<Rightarrow> ''invalid mTLS client configuration: '' @ m
      | HttpError e \<Rightarrow> ''request error: '' @ he_text e
      | SerializationError e \<Rightarrow> SERIALIZATION_DISPLAY_PREFIX @ se_text e
      | ApiError a \<Rightarrow> ''API error (status '' @ ee_status_text N (af_status a) @ ''): '' @ af_message a
      | EventStreamError m \<Rightarrow> ''reqwest error stream: '' @ m
      | StreamError error_type m code \<Rightarrow> ''stream error ('' @ error_type @ ''): '' @ m
      | IdleTimeout n \<Rightarrow> ''inference idle timeout after '' @ dec_of n @ ''s with no chunks''
      | EmptyResponse c \<Rightarrow> ''empty response from model ('' @ empty_reason_str (ec_reason c) @ '')''
      | MaxTokensTruncation \<Rightarrow> MAX_TOKENS_TRUNCATION_MESSAGE
      | DoomLoopDetected triggers chunk \<Rightarrow> ''doom loop detected: '' @ join '', '' triggers)"

definition detail_with_causes :: "error_env \<Rightarrow> sampling_error \<Rightarrow> string" where
  "detail_with_causes N err =
     error_text N err @
     (case err of HttpError e \<Rightarrow> concat (map (\<lambda>cause. '': '' @ cause) (he_causes e)) | _ \<Rightarrow> [])"

definition auth_unknown :: "string \<Rightarrow> sampling_error" where
  "auth_unknown message = AuthError message SentUnknown"

definition serialization_message :: "error_env \<Rightarrow> string \<Rightarrow> sampling_error" where
  "serialization_message N msg = SerializationError (ee_serde_custom N msg)"

definition serialization_from_rendered :: "error_env \<Rightarrow> string \<Rightarrow> sampling_error" where
  "serialization_from_rendered N rendered =
     serialization_message N
       (unwrap_or rendered (strip_prefix SERIALIZATION_DISPLAY_PREFIX rendered))"

section \<open>What an error asks for\<close>

definition is_auth_error :: "sampling_error \<Rightarrow> bool" where
  "is_auth_error err \<longleftrightarrow>
     (case err of AuthError m c \<Rightarrow> True | ApiError a \<Rightarrow> af_status a = 401 | _ \<Rightarrow> False)"

definition is_rate_limited :: "sampling_error \<Rightarrow> bool" where
  "is_rate_limited err \<longleftrightarrow> (case err of ApiError a \<Rightarrow> af_status a = 429 | _ \<Rightarrow> False)"

definition is_payload_too_large :: "sampling_error \<Rightarrow> bool" where
  "is_payload_too_large err \<longleftrightarrow> (case err of ApiError a \<Rightarrow> af_status a = 413 | _ \<Rightarrow> False)"

definition is_likely_body_rejected :: "sampling_error \<Rightarrow> bool" where
  "is_likely_body_rejected err \<longleftrightarrow>
     (case err of
        HttpError e \<Rightarrow> (he_request e \<or> he_body e) \<and> \<not> he_timeout e \<and> \<not> he_connect e
      | _ \<Rightarrow> False)"

definition is_encrypted_content_error :: "sampling_error \<Rightarrow> bool" where
  "is_encrypted_content_error err \<longleftrightarrow>
     (case err of
        ApiError a \<Rightarrow> af_status a = 400 \<and> contains (af_message a) ''encrypted_content''
      | _ \<Rightarrow> False)"

definition is_image_processing_error :: "sampling_error \<Rightarrow> bool" where
  "is_image_processing_error err \<longleftrightarrow>
     (case err of
        ApiError a \<Rightarrow>
          (af_status a = 400 \<or> af_status a = 500) \<and>
          (af_code a = Some InvalidImage \<or>
           contains (af_message a) ''Could not process image'' \<or>
           contains (af_message a) IMAGE_CONTENT_PATH_MARKER)
      | StreamError error_type m code \<Rightarrow> code = Some InvalidImage
      | _ \<Rightarrow> False)"

definition is_retryable_api_status :: "u16 \<Rightarrow> bool" where
  "is_retryable_api_status status = should_retry edge_client_policy status"

definition is_retryable_reqwest :: "http_error \<Rightarrow> bool" where
  "is_retryable_reqwest e =
     (if he_timeout e \<or> he_connect e then True
      else if he_is_status e
      then (case he_status e of Some status \<Rightarrow> is_retryable_api_status status | None \<Rightarrow> False)
      else if he_request e \<or> he_body e then True
      else False)"

definition is_retryable :: "sampling_error \<Rightarrow> bool" where
  "is_retryable err =
     (case err of
        AuthError m c \<Rightarrow> False
      | InvalidConfiguration m \<Rightarrow> False
      | MtlsConfiguration m \<Rightarrow> False
      | HttpError e \<Rightarrow> is_retryable_reqwest e
      | SerializationError e \<Rightarrow> False
      | ApiError a \<Rightarrow> is_retryable_api_status (af_status a)
      | EventStreamError m \<Rightarrow> True
      | StreamError error_type m code \<Rightarrow> True
      | IdleTimeout n \<Rightarrow> False
      | EmptyResponse c \<Rightarrow> True
      | MaxTokensTruncation \<Rightarrow> False
      | DoomLoopDetected triggers chunk \<Rightarrow> True)"

definition error_metadata :: "sampling_error \<Rightarrow> model_metadata option" where
  "error_metadata err = (case err of ApiError a \<Rightarrow> af_metadata a | _ \<Rightarrow> None)"

definition retry_after :: "sampling_error \<Rightarrow> nat option" where
  "retry_after err = (case err of ApiError a \<Rightarrow> af_retry_after a | _ \<Rightarrow> None)"

definition should_retry_header :: "sampling_error \<Rightarrow> bool option" where
  "should_retry_header err = (case err of ApiError a \<Rightarrow> af_should_retry a | _ \<Rightarrow> None)"

definition coded :: "(api_error_code \<Rightarrow> bool) \<Rightarrow> api_error_code option \<Rightarrow> bool" where
  "coded p code \<longleftrightarrow> (case code of Some c \<Rightarrow> p c | None \<Rightarrow> False)"

definition is_context_length_error :: "sampling_error \<Rightarrow> bool" where
  "is_context_length_error err =
     (case err of
        ApiError a \<Rightarrow>
          (let size_coded = coded is_size_overflow (af_code a)
           in if af_status a = 429 \<and> af_retry_after a \<noteq> None \<and> \<not> size_coded then False
              else size_coded \<or> is_context_length_message (af_message a))
      | StreamError error_type m code \<Rightarrow> coded is_size_overflow code \<or> is_context_length_message m
      | _ \<Rightarrow> False)"

definition is_byte_size_overflow_coded :: "sampling_error \<Rightarrow> bool" where
  "is_byte_size_overflow_coded err =
     (case err of
        ApiError a \<Rightarrow> coded is_byte_size_overflow (af_code a)
      | StreamError error_type m code \<Rightarrow> coded is_byte_size_overflow code
      | _ \<Rightarrow> False)"

definition message_looks_overloaded :: "string \<Rightarrow> bool" where
  "message_looks_overloaded message \<longleftrightarrow>
     (let m = ascii_lower message in contains m ''overloaded'' \<or> contains m ''service_unavailable_error'')"

definition is_overloaded :: "sampling_error \<Rightarrow> bool" where
  "is_overloaded err =
     (case err of
        ApiError a \<Rightarrow>
          af_status a = 529 \<or>
          (500 \<le> af_status a \<and> af_status a < 600 \<and> message_looks_overloaded (af_message a))
      | StreamError error_type m code \<Rightarrow>
          eq_ignore_ascii_case error_type ''overloaded_error'' \<or>
          eq_ignore_ascii_case error_type ''service_unavailable_error''
      | _ \<Rightarrow> False)"

definition is_retry_vetoed :: "sampling_error \<Rightarrow> bool" where
  "is_retry_vetoed err \<longleftrightarrow> should_retry_header err = Some False \<or> is_context_length_error err"

section \<open>Error bodies\<close>

text \<open>
  The two envelopes as \<^verbatim>\<open>serde\<close> reads them: \<open>be_nested\<close> yields type, message and code of
  \<^verbatim>\<open>ErrorResponse\<close>, \<open>be_flat\<close> error and code of \<^verbatim>\<open>FlatErrorResponse\<close>.
\<close>

record body_env =
  be_nested :: "string \<Rightarrow> (string option \<times> string option \<times> string option) option"
  be_flat :: "string \<Rightarrow> (string \<times> string option) option"

record parsed_error =
  pe_type :: string
  pe_message :: string
  pe_code :: "api_error_code option"

definition semantic_code :: "api_error_code option \<Rightarrow> api_error_code option" where
  "semantic_code code = (case code of Some (OtherCode c) \<Rightarrow> None | _ \<Rightarrow> code)"

definition try_parse_error :: "body_env \<Rightarrow> string \<Rightarrow> parsed_error option" where
  "try_parse_error B data =
     (case be_nested B data of
        Some (kind, message, code) \<Rightarrow>
          Some \<lparr>pe_type = unwrap_or ''unknown'' kind, pe_message = unwrap_or ''unknown error'' message,
                pe_code = map_option parse_api_error_code code\<rparr>
      | None \<Rightarrow>
          (case be_flat B data of
             Some (error, code) \<Rightarrow>
               Some \<lparr>pe_type = unwrap_or ''server_error'' code, pe_message = error,
                     pe_code = semantic_code (map_option parse_api_error_code code)\<rparr>
           | None \<Rightarrow> None))"

definition parse_error_code :: "body_env \<Rightarrow> string \<Rightarrow> api_error_code option" where
  "parse_error_code B body = Option.bind (try_parse_error B body) pe_code"

definition try_parse_stream_error :: "body_env \<Rightarrow> string \<Rightarrow> sampling_error option" where
  "try_parse_stream_error B data =
     map_option (\<lambda>p. StreamError (pe_type p) (pe_message p) (pe_code p)) (try_parse_error B data)"

definition status_user_message :: "u16 \<Rightarrow> string" where
  "status_user_message status =
     (let code = dec_of (unat status); http = ''(HTTP '' @ code @ '').''
      in if 502 \<le> status \<and> status \<le> 504
         then ''Grok is temporarily unavailable. Please try again in a moment. '' @ http
         else if status = 529
         then ''Grok is temporarily overloaded. Please try again in a moment. '' @ http
         else if 520 \<le> status \<and> status \<le> 524 \<or> status = 530
         then ''Connection to Grok timed out or was interrupted. Please try again. '' @ http
         else if status = 525 \<or> status = 526 then ''Secure connection to Grok failed. '' @ http
         else if 500 \<le> status \<and> status < 600 then ''Something went wrong on the server '' @ http
         else ''Request failed '' @ http)"

section \<open>What a consumer sees of an error\<close>

datatype error_kind =
    KAuth | KHttp | KApi | KSerialization | KIdleTimeout | KRateLimited | KEmptyResponse
  | KMaxTokens | KDoomLoop

record error_info =
  ei_kind :: error_kind
  ei_status :: "u16 option"
  ei_message :: string
  ei_is_retryable :: bool
  ei_retry_after :: "nat option"
  ei_should_retry :: "bool option"
  ei_code :: "api_error_code option"
  ei_metadata :: "model_metadata option"
  ei_empty_context :: "empty_context option"
  ei_triggers :: "string list option"
  ei_aborted_at_chunk :: "nat option"
  ei_credential :: sent_credential

definition kind_of :: "sampling_error \<Rightarrow> error_kind" where
  "kind_of err =
     (case err of
        AuthError m c \<Rightarrow> KAuth
      | InvalidConfiguration m \<Rightarrow> KApi
      | MtlsConfiguration m \<Rightarrow> KApi
      | HttpError e \<Rightarrow> KHttp
      | SerializationError e \<Rightarrow> KSerialization
      | ApiError a \<Rightarrow> if is_rate_limited err then KRateLimited else KApi
      | EventStreamError m \<Rightarrow> KHttp
      | StreamError error_type m code \<Rightarrow> KApi
      | IdleTimeout n \<Rightarrow> KIdleTimeout
      | EmptyResponse c \<Rightarrow> KEmptyResponse
      | MaxTokensTruncation \<Rightarrow> KMaxTokens
      | DoomLoopDetected triggers chunk \<Rightarrow> KDoomLoop)"

definition info_of :: "error_env \<Rightarrow> sampling_error \<Rightarrow> error_info" where
  "info_of N err =
     \<lparr>ei_kind = kind_of err,
      ei_status = (case err of ApiError a \<Rightarrow> Some (af_status a) | _ \<Rightarrow> None),
      ei_message = error_text N err,
      ei_is_retryable = is_retryable err,
      ei_retry_after = retry_after err,
      ei_should_retry = should_retry_header err,
      ei_code = (case err of ApiError a \<Rightarrow> af_code a | StreamError error_type m code \<Rightarrow> code | _ \<Rightarrow> None),
      ei_metadata = error_metadata err,
      ei_empty_context = (case err of EmptyResponse c \<Rightarrow> Some c | _ \<Rightarrow> None),
      ei_triggers = (case err of DoomLoopDetected triggers chunk \<Rightarrow> Some triggers | _ \<Rightarrow> None),
      ei_aborted_at_chunk = (case err of DoomLoopDetected triggers chunk \<Rightarrow> chunk | _ \<Rightarrow> None),
      ei_credential = (case err of AuthError m c \<Rightarrow> c | _ \<Rightarrow> SentUnknown)\<rparr>"

definition kind_str :: "error_kind \<Rightarrow> string" where
  "kind_str k =
     (case k of
        KAuth \<Rightarrow> ''auth'' | KHttp \<Rightarrow> ''http'' | KApi \<Rightarrow> ''api''
      | KSerialization \<Rightarrow> ''serialization'' | KIdleTimeout \<Rightarrow> ''idle_timeout''
      | KRateLimited \<Rightarrow> ''rate_limited'' | KEmptyResponse \<Rightarrow> ''empty_response''
      | KMaxTokens \<Rightarrow> ''max_tokens_truncation'' | KDoomLoop \<Rightarrow> ''doom_loop_detected'')"

definition kind_of_str :: "string \<Rightarrow> error_kind option" where
  "kind_of_str s =
     (if s = ''auth'' then Some KAuth
      else if s = ''http'' then Some KHttp
      else if s = ''api'' then Some KApi
      else if s = ''serialization'' then Some KSerialization
      else if s = ''idle_timeout'' then Some KIdleTimeout
      else if s = ''rate_limited'' then Some KRateLimited
      else if s = ''empty_response'' then Some KEmptyResponse
      else if s = ''max_tokens_truncation'' then Some KMaxTokens
      else if s = ''doom_loop_detected'' then Some KDoomLoop
      else None)"

text \<open>The number of seconds in the message of a timeout: the first word that is a number and an s.\<close>

fun find_seconds :: "string list \<Rightarrow> nat option" where
  "find_seconds [] = None"
| "find_seconds (tok # toks) =
     (case Option.bind (strip_suffix ''s'' tok) (parse_uint u64_max) of
        Some n \<Rightarrow> Some n
      | None \<Rightarrow> find_seconds toks)"

definition synthesize_from_info :: "error_env \<Rightarrow> error_info \<Rightarrow> sampling_error" where
  "synthesize_from_info N info =
     (case ei_kind info of
        KIdleTimeout \<Rightarrow> IdleTimeout (unwrap_or 0 (find_seconds (split_whitespace (ei_message info))))
      | KAuth \<Rightarrow> AuthError (ei_message info) (ei_credential info)
      | KSerialization \<Rightarrow> serialization_from_rendered N (ei_message info)
      | KHttp \<Rightarrow> EventStreamError (ei_message info)
      | KEmptyResponse \<Rightarrow>
          (case ei_empty_context info of
             Some c \<Rightarrow> EmptyResponse c
           | None \<Rightarrow> EventStreamError (ei_message info))
      | KMaxTokens \<Rightarrow> MaxTokensTruncation
      | KDoomLoop \<Rightarrow> DoomLoopDetected (unwrap_or [] (ei_triggers info)) (ei_aborted_at_chunk info)
      | _ \<Rightarrow>
          ApiError \<lparr>af_status = unwrap_or 500
                      (Option.bind (ei_status info) (\<lambda>c. if 100 \<le> c \<and> c < 1000 then Some c else None)),
                    af_message = ei_message info, af_metadata = ei_metadata info,
                    af_retry_after = ei_retry_after info, af_should_retry = ei_should_retry info,
                    af_code = ei_code info\<rparr>)"

end
