(* ===== verification/SamplingRetry.thy ===== *)
theory SamplingRetry imports SamplingError begin

text \<open>
  What a failed attempt leads to (\<^verbatim>\<open>xai-grok-sampler/src/retry.rs\<close>, the policy of
  \<^verbatim>\<open>config.rs\<close>). Durations are milliseconds. The jitter comes from a hash of a counter and the
  thread; here it is the argument \<open>j\<close>, any number.
\<close>

section \<open>Budgets and waiting times\<close>

definition RATE_LIMIT_RETRY_THRESHOLD :: nat where
  "RATE_LIMIT_RETRY_THRESHOLD = 2"

definition DEFAULT_MAX_RETRIES :: nat where
  "DEFAULT_MAX_RETRIES = 15"

definition MAX_RETRY_BACKOFF :: nat where
  "MAX_RETRY_BACKOFF = 30000"

definition TRANSPORT_REBUILD_BACKOFF :: nat where
  "TRANSPORT_REBUILD_BACKOFF = 200"

record request_policy =
  po_max_retries :: nat
  po_rate_limit_threshold :: nat
  po_only_before_output :: bool

definition default_request_policy :: request_policy where
  "default_request_policy =
     \<lparr>po_max_retries = DEFAULT_MAX_RETRIES, po_rate_limit_threshold = RATE_LIMIT_RETRY_THRESHOLD,
      po_only_before_output = False\<rparr>"

text \<open>\<open>env_override\<close> is the variable \<^verbatim>\<open>GROK_MAX_RETRIES\<close>.\<close>

definition resolve_max_retries :: "string option \<Rightarrow> nat option \<Rightarrow> nat" where
  "resolve_max_retries env_override model_max_retries =
     unwrap_or DEFAULT_MAX_RETRIES
       (or_else (Option.bind env_override (parse_uint u32_max)) model_max_retries)"

definition doom_loop_backoff :: "nat \<Rightarrow> nat" where
  "doom_loop_backoff j = j mod 251"

definition jitter_backoff :: "nat \<Rightarrow> nat \<Rightarrow> nat" where
  "jitter_backoff j base_ms =
     (let jitter_range = base_ms div 5; jitter = j mod (jitter_range * 2 + 1)
      in base_ms - jitter_range + jitter)"

text \<open>\<^verbatim>\<open>u64::checked_shl\<close>: only the width is checked, bits that are shifted out are lost.\<close>

definition checked_shl64 :: "nat \<Rightarrow> nat \<Rightarrow> nat option" where
  "checked_shl64 n shift = (if shift < 64 then Some (wrap64 (n * 2 ^ shift)) else None)"

definition retry_base :: "nat \<Rightarrow> nat" where
  "retry_base retry_count =
     (let shift = retry_count - 1
      in min (unwrap_or u64_max (checked_shl64 2000 shift)) MAX_RETRY_BACKOFF)"

definition retry_backoff_with_jitter :: "nat \<Rightarrow> nat \<Rightarrow> nat" where
  "retry_backoff_with_jitter j retry_count = jitter_backoff j (retry_base retry_count)"

definition retry_after_or_backoff :: "nat \<Rightarrow> nat \<Rightarrow> nat option \<Rightarrow> nat" where
  "retry_after_or_backoff j attempt retry_after_secs =
     (case retry_after_secs of
        Some secs \<Rightarrow>
          if secs > 0 then jitter_backoff j (min (secs * 1000) MAX_RETRY_BACKOFF)
          else retry_backoff_with_jitter j attempt
      | None \<Rightarrow> retry_backoff_with_jitter j attempt)"

section \<open>The decision\<close>

datatype retry_decision =
    Retry nat
  | RetryWithBackoff nat bool
  | RetryWithImageStrip
  | RetryWithClientRebuild nat
  | EmitToSession sampling_error
  | FatalError sampling_error

definition clone_error :: "error_env \<Rightarrow> sampling_error \<Rightarrow> sampling_error" where
  "clone_error N err =
     (case err of
        HttpError e \<Rightarrow> EventStreamError (he_text e)
      | SerializationError e \<Rightarrow> serialization_message N (se_text e)
      | _ \<Rightarrow> err)"

definition is_http :: "sampling_error \<Rightarrow> bool" where
  "is_http err \<longleftrightarrow> (case err of HttpError e \<Rightarrow> True | _ \<Rightarrow> False)"

definition is_doom_loop :: "sampling_error \<Rightarrow> bool" where
  "is_doom_loop err \<longleftrightarrow> (case err of DoomLoopDetected triggers chunk \<Rightarrow> True | _ \<Rightarrow> False)"

definition classify_error ::
    "error_env \<Rightarrow> nat \<Rightarrow> sampling_error \<Rightarrow> nat \<Rightarrow> nat \<Rightarrow> nat \<Rightarrow> retry_decision" where
  "classify_error N j err retry_count max_retries rate_limit_threshold =
     (let next_attempt = retry_count + 1
      in if is_auth_error err then EmitToSession (clone_error N err)
         else if is_encrypted_content_error err then EmitToSession (clone_error N err)
         else if max_retries = 0 then FatalError (clone_error N err)
         else if is_payload_too_large err \<or> is_byte_size_overflow_coded err then RetryWithImageStrip
         else if is_image_processing_error err then RetryWithImageStrip
         else if is_retry_vetoed err then FatalError (clone_error N err)
         else if is_doom_loop err then Retry (doom_loop_backoff j)
         else if is_rate_limited err then
           (if min max_retries rate_limit_threshold \<le> next_attempt then FatalError (clone_error N err)
            else RetryWithBackoff
              (case retry_after err of
                 Some secs \<Rightarrow> secs * 1000
               | None \<Rightarrow> retry_backoff_with_jitter j next_attempt) True)
         else if is_retryable err then
           (if max_retries \<le> next_attempt then FatalError (clone_error N err)
            else if next_attempt = 1
            then RetryWithClientRebuild
              (if is_http err then jitter_backoff j TRANSPORT_REBUILD_BACKOFF
               else retry_after_or_backoff j next_attempt (retry_after err))
            else Retry (retry_after_or_backoff j next_attempt (retry_after err)))
         else FatalError (clone_error N err))"

section \<open>The message to the user\<close>

definition http_details :: "(u16 \<Rightarrow> string) \<Rightarrow> http_error \<Rightarrow> string list" where
  "http_details status_text e =
     (if he_timeout e then [''timeout''] else []) @
     (if he_connect e then [''connection failed''] else []) @
     (case he_status e of Some status \<Rightarrow> [''status '' @ status_text status] | None \<Rightarrow> []) @
     (case he_url e of Some url \<Rightarrow> [''url: '' @ url] | None \<Rightarrow> [])"

definition status_hint :: "u16 \<Rightarrow> string" where
  "status_hint status =
     (if status = 400 then '' (bad request - check your input)''
      else if status = 401 \<or> status = 403 then '' (authentication issue - check your API key)''
      else if status = 404 then '' (endpoint not found - check model configuration)''
      else if status = 413 then '' (request too large - try /compact or start new session)''
      else if status = 429 then '' (rate limited - please wait and retry)''
      else if status = 500 then '' (server internal error)''
      else if is_retryable_api_status status then '' (server unavailable - please retry)''
      else [])"

definition bool_text :: "bool \<Rightarrow> string" where
  "bool_text b = (if b then ''true'' else ''false'')"

definition format_sampling_error :: "error_env \<Rightarrow> sampling_error \<Rightarrow> nat option \<Rightarrow> string" where
  "format_sampling_error N err retry_count =
     (case retry_count of
        Some count \<Rightarrow> ''Request failed after '' @ dec_of count @ '' retries. ''
      | None \<Rightarrow> []) @
     (case err of
        AuthError m c \<Rightarrow>
          ''Authentication failed: '' @ m @ ''. Please check your API key configuration.''
      | InvalidConfiguration m \<Rightarrow>
          ''Invalid configuration: '' @ m @ ''. Please check your model settings.''
      | MtlsConfiguration m \<Rightarrow>
          ''Invalid mTLS configuration: '' @ m @
          ''. Please check the model endpoint and certificate directory.''
      | HttpError e \<Rightarrow>
          ''HTTP request failed: '' @
          (let details = http_details (ee_status_text N) e
           in if details = [] then he_text e
              else he_text e @ '' ('' @ join '', '' details @ '')'') @
          ''. This may be a network issue or the API endpoint may be unavailable.''
      | SerializationError e \<Rightarrow>
          ''Failed to parse API response at line '' @ dec_of (se_line e) @ '' column '' @
          dec_of (se_column e) @ '': '' @ se_text e @
          ''. This indicates an unexpected response format from the server.''
      | ApiError a \<Rightarrow>
          ''API error (HTTP '' @ dec_of (unat (af_status a)) @ status_hint (af_status a) @ ''): '' @
          af_message a
      | EventStreamError m \<Rightarrow>
          ''Event stream error: '' @ m @ ''. The connection to the server was interrupted.''
      | StreamError error_type m code \<Rightarrow>
          ''Server stream error ('' @ error_type @ ''): '' @ m @
          ''. The server encountered an error while streaming the response.''
      | IdleTimeout n \<Rightarrow>
          ''Model stopped responding after '' @ dec_of n @
          ''s. The model may be overloaded or stuck. Try again or use a different model.''
      | EmptyResponse c \<Rightarrow>
          ''Empty response from model ('' @ empty_reason_str (ec_reason c) @ ''): model='' @
          ec_model c @ '', had_reasoning='' @ bool_text (ec_had_reasoning c) @ '', finish_reason='' @
          finish_reason_str c @ '', completion_tokens='' @
          dec_of (unwrap_or 0 (ec_completion_tokens c))
      | MaxTokensTruncation \<Rightarrow> ''Response truncated by max_tokens.''
      | DoomLoopDetected triggers chunk \<Rightarrow>
          ''Server detected a reasoning loop ('' @ join '', '' triggers @
          ''); resampling the response.'')"

section \<open>Laws\<close>

lemma jitter_bounds:
  "base - base div 5 \<le> jitter_backoff j base" "jitter_backoff j base \<le> base + base div 5"
proof -
  have "j mod (base div 5 * 2 + 1) \<le> base div 5 * 2" by (simp add: less_Suc_eq_le [symmetric])
  moreover have "base div 5 \<le> base" by simp
  ultimately show "base - base div 5 \<le> jitter_backoff j base" "jitter_backoff j base \<le> base + base div 5"
    unfolding jitter_backoff_def Let_def by linarith+
qed

lemma retry_base_le: "retry_base n \<le> MAX_RETRY_BACKOFF"
  by (simp add: retry_base_def Let_def)

lemma jitter_capped: "base \<le> MAX_RETRY_BACKOFF \<Longrightarrow> jitter_backoff j base \<le> 36000"
  using jitter_bounds(2) [of j base] by (simp add: MAX_RETRY_BACKOFF_def)

lemma retry_after_capped: "retry_after_or_backoff j n secs \<le> 36000"
  by (simp add: retry_after_or_backoff_def retry_backoff_with_jitter_def jitter_capped retry_base_le
      split: option.split)

text \<open>For as many retries as any configuration has in practice the base doubles up to the cap.\<close>

lemma retry_base_exact:
  assumes "n \<le> 54"
  shows "retry_base n = min (2000 * 2 ^ (n - 1)) MAX_RETRY_BACKOFF"
proof -
  have "n - 1 \<le> 53" using assms by simp
  then have "(2::nat) ^ (n - 1) \<le> 2 ^ 53" by (rule power_increasing) simp
  then have "2000 * (2::nat) ^ (n - 1) < 2 ^ 64" by simp
  then have "checked_shl64 2000 (n - 1) = Some (2000 * 2 ^ (n - 1))"
    using \<open>n - 1 \<le> 53\<close> by (simp add: checked_shl64_def wrap64_def)
  then show ?thesis by (simp add: retry_base_def Let_def)
qed

text \<open>
  A request that goes on has budget left, unless it goes on with its images stripped or after a
  repetition was detected.
\<close>

lemma retry_has_budget:
  assumes "classify_error N j err k m r = Retry b \<or> classify_error N j err k m r = RetryWithBackoff b l \<or>
    classify_error N j err k m r = RetryWithClientRebuild b"
    and "\<not> is_doom_loop err"
  shows "Suc k < m"
  using assms by (auto simp: classify_error_def Let_def split: if_splits)

lemma no_budget_ends:
  "classify_error N j err k 0 r = EmitToSession (clone_error N err) \<or>
   classify_error N j err k 0 r = FatalError (clone_error N err)"
  by (simp add: classify_error_def)

lemma clone_twice:
  assumes "\<And>m. se_text (ee_serde_custom N m) = m"
  shows "clone_error N (clone_error N err) = clone_error N err"
  using assms by (cases err) (simp_all add: clone_error_def serialization_message_def)

end
