(* ===== verification/DoomRecovery.thy ===== *)
theory DoomRecovery imports ConversationTurn begin

text \<open>
  What is kept of a response that was given up because it repeated itself
  (\<^verbatim>\<open>xai-grok-sampler/src/doom_loop_recovery.rs\<close>): two byte budgets, the capture that a stream
  records into, and the items with which the next attempt is told about it. A capture behind its
  mutex is a value; one that is not armed is \<open>None\<close>. A \<^verbatim>\<open>BTreeMap\<close> is the list of its entries
  in the order of the keys, which \<open>enc\<close> encodes as lists of numbers.
\<close>

section \<open>Ordered maps\<close>

fun lex_less :: "nat list \<Rightarrow> nat list \<Rightarrow> bool" where
  "lex_less xs [] = False"
| "lex_less [] (y # ys) = True"
| "lex_less (x # xs) (y # ys) = (x < y \<or> (x = y \<and> lex_less xs ys))"

definition str_key :: "string \<Rightarrow> nat list" where
  "str_key = map of_char"

definition item_key :: "nat \<times> string \<Rightarrow> nat list" where
  "item_key k = fst k # str_key (snd k)"

definition part_key :: "nat \<times> nat \<times> string \<Rightarrow> nat list" where
  "part_key k = fst k # fst (snd k) # str_key (snd (snd k))"

definition index_key :: "nat \<Rightarrow> nat list" where
  "index_key n = [n]"

fun bt_put :: "('k \<Rightarrow> nat list) \<Rightarrow> 'k \<Rightarrow> 'v \<Rightarrow> ('k \<times> 'v) list \<Rightarrow> ('k \<times> 'v) list" where
  "bt_put enc k v [] = [(k, v)]"
| "bt_put enc k v ((k', v') # m) =
     (if k' = k then (k, v) # m
      else if lex_less (enc k) (enc k') then (k, v) # (k', v') # m
      else (k', v') # bt_put enc k v m)"

section \<open>Byte budgets\<close>

definition RECOVERY_REMINDER :: string where
  "RECOVERY_REMINDER =
     ''<system_reminder>Your messages have been flagged as looping. Your response has been flagged as '' @
     ''repeating the same text pattern. Avoid excessive repetition. If you are having trouble ask the '' @
     ''user for guidance.</system_reminder>''"

definition MAX_RECOVERY_REASONING_BYTES :: nat where
  "MAX_RECOVERY_REASONING_BYTES = 8192"

definition MAX_RECOVERY_TEXT_BYTES :: nat where
  "MAX_RECOVERY_TEXT_BYTES = 4096"

definition TRUNCATION_MARKER :: string where
  "TRUNCATION_MARKER = '' ['' @ ellipsis @ ''truncated]''"

record recovery_budget =
  bu_cap :: nat
  bu_used :: nat
  bu_truncated :: bool

definition budget_new :: "nat \<Rightarrow> recovery_budget" where
  "budget_new cap = \<lparr>bu_cap = cap, bu_used = 0, bu_truncated = False\<rparr>"

definition budget_append :: "recovery_budget \<Rightarrow> string \<Rightarrow> string \<Rightarrow> recovery_budget \<times> string" where
  "budget_append b slot s =
     (if bu_truncated b then (b, slot)
      else let remaining = bu_cap b - bu_used b
           in if length s \<le> remaining then (b\<lparr>bu_used := bu_used b + length s\<rparr>, slot @ s)
              else let cut = boundary_at_most s remaining; b = b\<lparr>bu_truncated := True\<rparr>
                   in if cut = 0 \<and> slot = [] then (b, slot)
                      else (b\<lparr>bu_used := bu_used b + cut\<rparr>, slot @ take cut s @ TRUNCATION_MARKER))"

definition budget_replace :: "recovery_budget \<Rightarrow> string \<Rightarrow> string \<Rightarrow> recovery_budget \<times> string" where
  "budget_replace b slot s =
     (if bu_truncated b then (b, slot)
      else budget_append (b\<lparr>bu_used := bu_used b - length slot\<rparr>) [] s)"

definition budget_charge :: "recovery_budget \<Rightarrow> nat \<Rightarrow> recovery_budget \<times> bool" where
  "budget_charge b len =
     (if bu_truncated b \<or> len > bu_cap b - bu_used b then (b, False)
      else (b\<lparr>bu_used := bu_used b + len\<rparr>, True))"

definition budget_fit :: "recovery_budget \<Rightarrow> string \<Rightarrow> recovery_budget \<times> string" where
  "budget_fit b s = budget_append b [] s"

section \<open>The capture\<close>

text \<open>An item of the wire: of a message the texts of its parts, refusals included.\<close>

datatype wire_item =
    WireMessage "string list"
  | WireReasoning reasoning_item
  | WireOther

datatype captured_item =
    CapturedReasoning reasoning_item
  | CapturedText string

type_synonym reasoning_parts = "((nat \<times> string) \<times> (nat \<times> string) list) list"

record captured_response =
  cp_typed :: "(nat \<times> captured_item) list"
  cp_terminal_seen :: bool
  cp_content :: reasoning_parts
  cp_summary :: reasoning_parts
  cp_raw_indexes :: "nat set"
  cp_output :: "((nat \<times> nat \<times> string) \<times> string) list"
  cp_reasoning_budget :: recovery_budget
  cp_text_budget :: recovery_budget
  cp_veto_replay :: bool

definition captured_default :: captured_response where
  "captured_default =
     \<lparr>cp_typed = [], cp_terminal_seen = False, cp_content = [], cp_summary = [],
      cp_raw_indexes = {}, cp_output = [],
      cp_reasoning_budget = budget_new MAX_RECOVERY_REASONING_BYTES,
      cp_text_budget = budget_new MAX_RECOVERY_TEXT_BYTES, cp_veto_replay = False\<rparr>"

definition capture_armed :: "captured_response option" where
  "capture_armed = Some captured_default"

definition is_armed :: "captured_response option \<Rightarrow> bool" where
  "is_armed c \<longleftrightarrow> c \<noteq> None"

text \<open>The slot of a part, and the part written back.\<close>

definition part_slot :: "nat \<times> string \<Rightarrow> nat \<Rightarrow> reasoning_parts \<Rightarrow> string" where
  "part_slot k i m = unwrap_or [] (map_of (unwrap_or [] (map_of m k)) i)"

definition put_part :: "nat \<times> string \<Rightarrow> nat \<Rightarrow> string \<Rightarrow> reasoning_parts \<Rightarrow> reasoning_parts" where
  "put_part k i s m = bt_put item_key k (bt_put index_key i s (unwrap_or [] (map_of m k))) m"

text \<open>A delta and a completed text differ only in the operation of the budget.\<close>

definition record_reasoning ::
    "(recovery_budget \<Rightarrow> string \<Rightarrow> string \<Rightarrow> recovery_budget \<times> string) \<Rightarrow>
     nat \<Rightarrow> nat \<Rightarrow> string \<Rightarrow> string \<Rightarrow> captured_response \<Rightarrow> captured_response" where
  "record_reasoning write output_index content_index item_id s c =
     (let k = (output_index, item_id);
          (b, slot) = write (cp_reasoning_budget c) (part_slot k content_index (cp_content c)) s;
          c = c\<lparr>cp_reasoning_budget := b, cp_content := put_part k content_index slot (cp_content c)\<rparr>
      in if slot \<noteq> [] then c\<lparr>cp_raw_indexes := insert output_index (cp_raw_indexes c)\<rparr> else c)"

definition record_summary ::
    "(recovery_budget \<Rightarrow> string \<Rightarrow> string \<Rightarrow> recovery_budget \<times> string) \<Rightarrow>
     nat \<Rightarrow> nat \<Rightarrow> string \<Rightarrow> string \<Rightarrow> captured_response \<Rightarrow> captured_response" where
  "record_summary write output_index summary_index item_id s c =
     (if output_index \<in> cp_raw_indexes c then c
      else let k = (output_index, item_id);
               (b, slot) = write (cp_reasoning_budget c) (part_slot k summary_index (cp_summary c)) s
           in c\<lparr>cp_reasoning_budget := b, cp_summary := put_part k summary_index slot (cp_summary c)\<rparr>)"

definition record_output ::
    "(recovery_budget \<Rightarrow> string \<Rightarrow> string \<Rightarrow> recovery_budget \<times> string) \<Rightarrow>
     nat \<Rightarrow> nat \<Rightarrow> string \<Rightarrow> string \<Rightarrow> captured_response \<Rightarrow> captured_response" where
  "record_output write output_index content_index item_id s c =
     (let k = (output_index, content_index, item_id);
          (b, slot) = write (cp_text_budget c) (unwrap_or [] (map_of (cp_output c) k)) s
      in c\<lparr>cp_text_budget := b, cp_output := bt_put part_key k slot (cp_output c)\<rparr>)"

text \<open>Nothing is recorded of an empty text, nor into a capture that is not armed.\<close>

definition with_text ::
    "(string \<Rightarrow> captured_response \<Rightarrow> captured_response) \<Rightarrow> string \<Rightarrow>
     captured_response option \<Rightarrow> captured_response option" where
  "with_text f s c = (if s = [] then c else map_option (f s) c)"

definition record_reasoning_delta ::
    "nat \<Rightarrow> nat \<Rightarrow> string \<Rightarrow> string \<Rightarrow> captured_response option \<Rightarrow> captured_response option" where
  "record_reasoning_delta output_index content_index item_id =
     with_text (record_reasoning budget_append output_index content_index item_id)"

definition record_reasoning_done ::
    "nat \<Rightarrow> nat \<Rightarrow> string \<Rightarrow> string \<Rightarrow> captured_response option \<Rightarrow> captured_response option" where
  "record_reasoning_done output_index content_index item_id =
     with_text (record_reasoning budget_replace output_index content_index item_id)"

definition record_reasoning_summary_delta ::
    "nat \<Rightarrow> nat \<Rightarrow> string \<Rightarrow> string \<Rightarrow> captured_response option \<Rightarrow> captured_response option" where
  "record_reasoning_summary_delta output_index summary_index item_id =
     with_text (record_summary budget_append output_index summary_index item_id)"

definition record_reasoning_summary_done ::
    "nat \<Rightarrow> nat \<Rightarrow> string \<Rightarrow> string \<Rightarrow> captured_response option \<Rightarrow> captured_response option" where
  "record_reasoning_summary_done output_index summary_index item_id =
     with_text (record_summary budget_replace output_index summary_index item_id)"

definition record_output_delta ::
    "nat \<Rightarrow> nat \<Rightarrow> string \<Rightarrow> string \<Rightarrow> captured_response option \<Rightarrow> captured_response option" where
  "record_output_delta output_index content_index item_id =
     with_text (record_output budget_append output_index content_index item_id)"

definition record_output_done ::
    "nat \<Rightarrow> nat \<Rightarrow> string \<Rightarrow> string \<Rightarrow> captured_response option \<Rightarrow> captured_response option" where
  "record_output_done output_index content_index item_id =
     with_text (record_output budget_replace output_index content_index item_id)"

definition record_unreplayable :: "captured_response option \<Rightarrow> captured_response option" where
  "record_unreplayable c = map_option (\<lambda>c. c\<lparr>cp_veto_replay := True\<rparr>) c"

definition record_item_start :: "wire_item \<Rightarrow> captured_response option \<Rightarrow> captured_response option" where
  "record_item_start item c =
     (case item of
        WireMessage texts \<Rightarrow> c
      | WireReasoning r \<Rightarrow> c
      | WireOther \<Rightarrow> record_unreplayable c)"

definition capture_item :: "nat \<Rightarrow> wire_item \<Rightarrow> captured_response \<Rightarrow> captured_response" where
  "capture_item output_index item c =
     (case item of
        WireReasoning r \<Rightarrow>
          c\<lparr>cp_typed := bt_put index_key output_index (CapturedReasoning r) (cp_typed c)\<rparr>
      | WireMessage texts \<Rightarrow>
          (let s = concat texts
           in if s \<noteq> []
              then c\<lparr>cp_typed := bt_put index_key output_index (CapturedText s) (cp_typed c)\<rparr>
              else c)
      | WireOther \<Rightarrow> c\<lparr>cp_veto_replay := True\<rparr>)"

definition record_output_item ::
    "nat \<Rightarrow> wire_item \<Rightarrow> captured_response option \<Rightarrow> captured_response option" where
  "record_output_item output_index item c = map_option (capture_item output_index item) c"

definition record_terminal_output ::
    "wire_item list \<Rightarrow> captured_response option \<Rightarrow> captured_response option" where
  "record_terminal_output output c =
     foldl (\<lambda>c (i, item). record_output_item i item c)
       (map_option (\<lambda>c. c\<lparr>cp_typed := [], cp_terminal_seen := True\<rparr>) c)
       (List.enumerate 0 output)"

section \<open>The turn that is replayed\<close>

record captured_turn =
  ct_typed :: "captured_item list"
  ct_terminal_seen :: bool
  ct_reasoning :: "(string \<times> string) list"
  ct_output :: string
  ct_veto_replay :: bool

definition captured_take :: "captured_response option \<Rightarrow> captured_turn" where
  "captured_take capture =
     (case capture of
        None \<Rightarrow> \<lparr>ct_typed = [], ct_terminal_seen = False, ct_reasoning = [], ct_output = [],
                 ct_veto_replay = False\<rparr>
      | Some c \<Rightarrow>
          (let raw_content = filter (\<lambda>(k, parts). list_ex (\<lambda>p. snd p \<noteq> []) parts) (cp_content c);
               raw_indexes = set (map (fst \<circ> fst) raw_content);
               kept = filter (\<lambda>(k, parts). fst k \<notin> raw_indexes) (cp_summary c);
               parts = foldl (\<lambda>m (k, ps). bt_put item_key k ps m) kept raw_content
           in \<lparr>ct_typed = map snd (cp_typed c), ct_terminal_seen = cp_terminal_seen c,
               ct_reasoning = filter (\<lambda>(i, s). s \<noteq> [])
                 (map (\<lambda>(k, ps). (snd k, concat (map snd ps))) parts),
               ct_output = concat (map snd (cp_output c)), ct_veto_replay = cp_veto_replay c\<rparr>))"

fun take_streamed ::
    "string \<Rightarrow> (string \<times> string) list \<Rightarrow> string option \<times> (string \<times> string) list" where
  "take_streamed item_id [] = (None, [])"
| "take_streamed item_id ((i, s) # streamed) =
     (if i = item_id then (Some s, streamed)
      else let (found, rest) = take_streamed item_id streamed in (found, (i, s) # rest))"

text \<open>Texts fitted in order; those that come out empty are dropped.\<close>

fun fit_all :: "recovery_budget \<Rightarrow> string list \<Rightarrow> recovery_budget \<times> string list" where
  "fit_all b [] = (b, [])"
| "fit_all b (s # ss) =
     (let (b, t) = budget_fit b s; (b, ts) = fit_all b ss
      in (b, if t = [] then ts else t # ts))"

definition fit_reasoning ::
    "reasoning_item \<Rightarrow> string option \<Rightarrow> recovery_budget \<Rightarrow> recovery_budget \<times> reasoning_item" where
  "fit_reasoning r streamed_text b =
     (let typed = filter (\<lambda>s. s \<noteq> []) (unwrap_or [] (re_content r));
          wanted = (if typed = [] then (case streamed_text of Some s \<Rightarrow> [s] | None \<Rightarrow> []) else typed);
          (b, content) = fit_all b wanted;
          (b, summary) = fit_all b (re_summary r);
          (b, encrypted) =
            (case re_encrypted r of
               None \<Rightarrow> (b, None)
             | Some e \<Rightarrow> (let (b, ok) = budget_charge b (length e) in (b, if ok then Some e else None)))
      in (b, r\<lparr>re_content := if content = [] then None else Some content, re_summary := summary,
               re_encrypted := encrypted\<rparr>))"

definition reasoning_has_text :: "reasoning_item \<Rightarrow> bool" where
  "reasoning_has_text r \<longleftrightarrow>
     (case re_content r of Some parts \<Rightarrow> list_ex (\<lambda>s. s \<noteq> []) parts | None \<Rightarrow> False) \<or> re_summary r \<noteq> []"

record replay =
  rp_streamed :: "(string \<times> string) list"
  rp_reasoning_budget :: recovery_budget
  rp_text_budget :: recovery_budget
  rp_carried_text :: bool

fun replay_typed ::
    "captured_item list \<Rightarrow> replay \<Rightarrow> conversation_item list \<times> replay" where
  "replay_typed [] st = ([], st)"
| "replay_typed (CapturedReasoning r # items) st =
     (let (streamed_text, streamed) = take_streamed (re_id r) (rp_streamed st);
          (b, r) = fit_reasoning r streamed_text (rp_reasoning_budget st);
          (out, st) = replay_typed items (st\<lparr>rp_streamed := streamed, rp_reasoning_budget := b\<rparr>)
      in (if reasoning_has_text r \<or> re_encrypted r \<noteq> None then Reasoning r # out else out, st))"
| "replay_typed (CapturedText s # items) st =
     (let (b, s) = budget_fit (rp_text_budget st) s;
          (out, st) = replay_typed items (st\<lparr>rp_text_budget := b, rp_carried_text := True\<rparr>)
      in (if s \<noteq> [] then assistant_message s # out else out, st))"

fun replay_streamed ::
    "recovery_budget \<Rightarrow> (string \<times> string) list \<Rightarrow> recovery_budget \<times> conversation_item list" where
  "replay_streamed b [] = (b, [])"
| "replay_streamed b ((i, s) # streamed) =
     (let (b, t) = budget_fit b s; (b, items) = replay_streamed b streamed
      in (b, if t = [] then items
             else Reasoning \<lparr>re_id = i, re_summary = [], re_content = Some [t], re_encrypted = None,
                             re_status = None\<rparr> # items))"

definition take_items :: "captured_response option \<Rightarrow> conversation_item list" where
  "take_items capture =
     (let c = captured_take capture
      in if ct_veto_replay c then []
         else let (items, st) = replay_typed (ct_typed c)
                    \<lparr>rp_streamed = ct_reasoning c,
                     rp_reasoning_budget = budget_new MAX_RECOVERY_REASONING_BYTES,
                     rp_text_budget = budget_new MAX_RECOVERY_TEXT_BYTES, rp_carried_text = False\<rparr>
              in if ct_terminal_seen c then items
                 else let (b, more) = replay_streamed (rp_reasoning_budget st) (rp_streamed st);
                          s = (if rp_carried_text st then []
                               else snd (budget_fit (rp_text_budget st) (ct_output c)))
                      in items @ more @ (if s = [] then [] else [assistant_message s]))"

definition append_recovery_context ::
    "conversation_item list \<Rightarrow> conversation_request \<Rightarrow> conversation_request" where
  "append_recovery_context failed_items rq =
     rq\<lparr>rq_items := rq_items rq @ failed_items @ [system_reminder RECOVERY_REMINDER]\<rparr>"

section \<open>The bounds of a replay\<close>

text \<open>
  A replayed turn is small and harmless: each of its two channels stays within its byte budget and
  one marker, and it makes no tool call and carries no image.
\<close>

definition slack :: "recovery_budget \<Rightarrow> nat" where
  "slack b = (if bu_truncated b then 0 else bu_cap b - bu_used b + length TRUNCATION_MARKER)"

lemma slack_new [simp]: "slack (budget_new cap) = cap + length TRUNCATION_MARKER"
  by (simp add: slack_def budget_new_def)

lemma budget_append_slack:
  assumes "budget_append b slot s = (b', out)"
  shows "length out + slack b' \<le> length slot + slack b"
proof (cases "bu_truncated b \<or> length s \<le> bu_cap b - bu_used b")
  case True
  with assms show ?thesis by (auto simp: budget_append_def slack_def Let_def split: if_splits)
next
  case False
  moreover have "boundary_at_most s (bu_cap b - bu_used b) \<le> bu_cap b - bu_used b"
    by (rule boundary_at_most_le)
  ultimately show ?thesis using assms
    by (auto simp: budget_append_def slack_def Let_def split: if_splits)
qed

lemma budget_fit_slack: "budget_fit b s = (b', out) \<Longrightarrow> length out + slack b' \<le> slack b"
  using budget_append_slack [of b "[]"] by (simp add: budget_fit_def)

lemma budget_charge_slack:
  "budget_charge b n = (b', ok) \<Longrightarrow> (if ok then n else 0) + slack b' \<le> slack b"
  by (auto simp: budget_charge_def slack_def split: if_splits)

lemma fit_all_slack: "fit_all b ss = (b', out) \<Longrightarrow> sum_list (map length out) + slack b' \<le> slack b"
proof (induction ss arbitrary: b b' out)
  case (Cons s ss)
  obtain b1 t where t: "budget_fit b s = (b1, t)" by fastforce
  obtain b2 ts where ts: "fit_all b1 ss = (b2, ts)" by fastforce
  from budget_fit_slack [OF t] Cons.IH [OF ts] Cons.prems t ts show ?case
    by (auto split: if_splits)
qed simp

text \<open>The bytes of an item in the two channels.\<close>

definition opt_bytes :: "string option \<Rightarrow> nat" where
  "opt_bytes s = (case s of None \<Rightarrow> 0 | Some s \<Rightarrow> length s)"

definition reasoning_bytes :: "reasoning_item \<Rightarrow> nat" where
  "reasoning_bytes r =
     sum_list (map length (unwrap_or [] (re_content r))) + sum_list (map length (re_summary r)) +
     opt_bytes (re_encrypted r)"

fun replayed_reasoning :: "conversation_item \<Rightarrow> nat" where
  "replayed_reasoning (Reasoning r) = reasoning_bytes r"
| "replayed_reasoning _ = 0"

fun replayed_text :: "conversation_item \<Rightarrow> nat" where
  "replayed_text (Assistant a) = length (ai_content a)"
| "replayed_text _ = 0"

fun replayable :: "conversation_item \<Rightarrow> bool" where
  "replayable (Reasoning r) = True"
| "replayable (Assistant a) = (ai_tool_calls a = [])"
| "replayable _ = False"

lemma replayable_assistant [simp]: "replayable (assistant_message s)"
  by (simp add: assistant_message_def plain_assistant_def)

lemma replayed_assistant [simp]:
  "replayed_text (assistant_message s) = length s" "replayed_reasoning (assistant_message s) = 0"
  by (simp_all add: assistant_message_def)

lemma fit_reasoning_slack:
  assumes "fit_reasoning r st b = (b', r')"
  shows "reasoning_bytes r' + slack b' \<le> slack b"
proof -
  obtain w b1 content b2 summary where
    c: "fit_all b w = (b1, content)" and s: "fit_all b1 (re_summary r) = (b2, summary)" and
    r: "re_content r' = (if content = [] then None else Some content)" "re_summary r' = summary" and
    e: "(case re_encrypted r of
               None \<Rightarrow> (b2, None)
             | Some e \<Rightarrow> (let (b, ok) = budget_charge b2 (length e) in (b, if ok then Some e else None)))
        = (b', re_encrypted r')"
    using assms by (auto simp: fit_reasoning_def Let_def case_prod_unfold prod_eq_iff)
  have "opt_bytes (re_encrypted r') + slack b' \<le> slack b2"
  proof (cases "re_encrypted r")
    case None
    with e show ?thesis by (auto simp: opt_bytes_def)
  next
    case (Some x)
    obtain b3 ok where "budget_charge b2 (length x) = (b3, ok)" by fastforce
    with budget_charge_slack [OF this] e Some show ?thesis
      by (auto simp: opt_bytes_def split: if_splits option.split)
  qed
  with fit_all_slack [OF c] fit_all_slack [OF s] r show ?thesis
    by (auto simp: reasoning_bytes_def)
qed

lemma replay_typed_slack:
  "replay_typed items st = (out, st') \<Longrightarrow>
   sum_list (map replayed_reasoning out) + slack (rp_reasoning_budget st') \<le> slack (rp_reasoning_budget st) \<and>
   sum_list (map replayed_text out) + slack (rp_text_budget st') \<le> slack (rp_text_budget st) \<and>
   list_all replayable out"
proof (induction items arbitrary: st out st')
  case (Cons item items)
  show ?case
  proof (cases item)
    case (CapturedReasoning r)
    obtain found streamed where f: "take_streamed (re_id r) (rp_streamed st) = (found, streamed)"
      by fastforce
    obtain b r' where fit: "fit_reasoning r found (rp_reasoning_budget st) = (b, r')" by fastforce
    obtain more st2 where rest:
      "replay_typed items (st\<lparr>rp_streamed := streamed, rp_reasoning_budget := b\<rparr>) = (more, st2)"
      by fastforce
    from Cons.IH [OF rest] fit_reasoning_slack [OF fit] Cons.prems CapturedReasoning f fit rest
    show ?thesis by (auto simp: Let_def split: if_splits)
  next
    case (CapturedText s)
    obtain b t where fit: "budget_fit (rp_text_budget st) s = (b, t)" by fastforce
    obtain more st2 where rest:
      "replay_typed items (st\<lparr>rp_text_budget := b, rp_carried_text := True\<rparr>) = (more, st2)" by fastforce
    from Cons.IH [OF rest] budget_fit_slack [OF fit] Cons.prems CapturedText fit rest
    show ?thesis by (auto simp: Let_def split: if_splits)
  qed
qed simp

lemma replay_streamed_slack:
  "replay_streamed b streamed = (b', out) \<Longrightarrow>
   sum_list (map replayed_reasoning out) + slack b' \<le> slack b \<and>
   sum_list (map replayed_text out) = 0 \<and> list_all replayable out"
proof (induction b streamed arbitrary: b' out rule: replay_streamed.induct)
  case (2 b i s streamed)
  obtain b1 t where fit: "budget_fit b s = (b1, t)" by fastforce
  obtain b2 items where rest: "replay_streamed b1 streamed = (b2, items)" by fastforce
  from "2.IH" [OF fit [symmetric] refl rest] budget_fit_slack [OF fit] "2.prems" fit rest
  show ?case by (auto simp: reasoning_bytes_def opt_bytes_def split: if_splits)
qed simp

definition within_budget :: "conversation_item list \<Rightarrow> bool" where
  "within_budget items \<longleftrightarrow>
     sum_list (map replayed_reasoning items) \<le> MAX_RECOVERY_REASONING_BYTES + length TRUNCATION_MARKER \<and>
     sum_list (map replayed_text items) \<le> MAX_RECOVERY_TEXT_BYTES + length TRUNCATION_MARKER \<and>
     list_all replayable items"

lemma take_items_within: "within_budget (take_items capture)"
proof -
  let ?c = "captured_take capture"
  obtain items st where typed: "replay_typed (ct_typed ?c)
      \<lparr>rp_streamed = ct_reasoning ?c, rp_reasoning_budget = budget_new MAX_RECOVERY_REASONING_BYTES,
       rp_text_budget = budget_new MAX_RECOVERY_TEXT_BYTES, rp_carried_text = False\<rparr> = (items, st)"
    by fastforce
  obtain b more where streamed: "replay_streamed (rp_reasoning_budget st) (rp_streamed st) = (b, more)"
    by fastforce
  obtain b' t where fit: "budget_fit (rp_text_budget st) (ct_output ?c) = (b', t)" by fastforce
  from replay_typed_slack [OF typed] replay_streamed_slack [OF streamed] budget_fit_slack [OF fit]
  show ?thesis
    by (auto simp: take_items_def within_budget_def Let_def typed streamed fit simp del: sum_list_eq_0_iff)
qed

text \<open>
  C24. Whatever a stream recorded before it was given up, in any order and of any size, the next
  attempt replays at most 8 KiB of its reasoning, encrypted blobs included, and at most 4 KiB of its
  text, each with one marker where it was cut; the replayed items make no tool call.
\<close>

theorem replay_is_bounded:
  "sum_list (map replayed_reasoning (take_items capture)) \<le> 8192 + length TRUNCATION_MARKER \<and>
   sum_list (map replayed_text (take_items capture)) \<le> 4096 + length TRUNCATION_MARKER \<and>
   list_all replayable (take_items capture)"
  using take_items_within [of capture]
  by (simp add: within_budget_def MAX_RECOVERY_REASONING_BYTES_def MAX_RECOVERY_TEXT_BYTES_def)

lemma replayable_no_images: "list_all replayable items \<Longrightarrow> concat (map item_images items) = []"
proof (induction items)
  case (Cons item items)
  then show ?case by (cases item) simp_all
qed simp

lemma append_recovery_images [simp]:
  "list_all replayable items \<Longrightarrow> request_images (append_recovery_context items rq) = request_images rq"
  by (simp add: append_recovery_context_def request_images_def replayable_no_images
      system_reminder_def user_text_def)

end
