(* ===== verification/RequestTask.thy ===== *)
theory RequestTask imports SamplingRetry DoomRecovery begin

text \<open>
  One sampling request from its submission to its end (\<^verbatim>\<open>xai-grok-sampler/src/actor/request_task.rs\<close>,
  the events of \<^verbatim>\<open>events.rs\<close>). The backend and what happens around it are the record \<open>task_env\<close>:
  which stream an attempt gets, when the token is cancelled, whether a client can be built, whether
  the receiver of the events is still there. An attempt is numbered by the attempts before it. A
  stream is the list of its events until it ends; \<open>ss_raw_errors\<close> are the errors that the raw stream
  yielded before the stream failed.
\<close>

section \<open>Events\<close>

datatype sampling_channel = TextChannel | ReasoningChannel

datatype strip_reason = ServerRejected | PayloadHeuristic

record inference_stats =
  is_first_token_ms :: "nat option"
  is_last_byte_ms :: nat
  is_chunk_count :: nat
  is_intervals_ms :: "nat list"
  is_p50_ms :: "nat option"
  is_p99_ms :: "nat option"
  is_max_ms :: "nat option"
  is_mean_ms :: "nat option"
  is_attempts :: nat

datatype sampling_event =
    StreamStarted string int
  | FirstToken string
  | ChannelToken string sampling_channel string nat
  | ToolCallDelta string nat "string option" "string option" "string option"
  | ResponseStarted string string string nat nat nat
  | ReasoningCompleted string string
  | Completed string conversation_response inference_stats
  | DoomLoopSignals string "string list"
  | ImagesStripped string "string list" strip_reason
  | Retrying string nat nat error_kind string "string list option" "nat option"
  | Failed string error_info
  | MetadataEvent string model_metadata
  | BackendToolCallStarted string string string
  | BackendToolCallCompleted string string string "json option"

definition event_request_id :: "sampling_event \<Rightarrow> string" where
  "event_request_id ev =
     (case ev of
        StreamStarted i t \<Rightarrow> i | FirstToken i \<Rightarrow> i | ChannelToken i c s n \<Rightarrow> i
      | ToolCallDelta i n a b c \<Rightarrow> i | ResponseStarted i m n a b c \<Rightarrow> i
      | ReasoningCompleted i s \<Rightarrow> i | Completed i r m \<Rightarrow> i | DoomLoopSignals i ts \<Rightarrow> i
      | ImagesStripped i us r \<Rightarrow> i | Retrying i a m k r ts c \<Rightarrow> i | Failed i e \<Rightarrow> i
      | MetadataEvent i m \<Rightarrow> i | BackendToolCallStarted i c n \<Rightarrow> i
      | BackendToolCallCompleted i c n r \<Rightarrow> i)"

text \<open>The events after which output counts as handed to the caller.\<close>

definition is_output :: "sampling_event \<Rightarrow> bool" where
  "is_output ev \<longleftrightarrow>
     (case ev of
        FirstToken i \<Rightarrow> True
      | ChannelToken i c s n \<Rightarrow> True
      | ToolCallDelta i n a b c \<Rightarrow> True
      | BackendToolCallStarted i c n \<Rightarrow> True
      | BackendToolCallCompleted i c n r \<Rightarrow> True
      | _ \<Rightarrow> False)"

section \<open>The environment and the state of a task\<close>

datatype api_backend = ChatCompletionsApi | ResponsesApi | MessagesApi

text \<open>
  What a stream does: the events it forwards, the raw errors, what is recorded of it, when the token is
  cancelled, and whether it saw output before it ended (a refusal is never forwarded as an event).
\<close>

record stream_script =
  ss_events :: "sampling_event list"
  ss_raw_output :: bool
  ss_raw_errors :: "sampling_error list"
  ss_recorded :: captured_response
  ss_cancel_at :: "nat option"

datatype attempt_script =
    InitFails sampling_error
  | Streams stream_script

text \<open>
  \<open>te_attempt n rq http1 armed\<close> is what the backend does with the request \<open>rq\<close> in attempt \<open>n\<close>,
  over the rebuilt client or not, with the abort of the repetition check armed or not.
\<close>

record task_env =
  te_request_id :: string
  te_errors :: error_env
  te_json_ok :: "string \<Rightarrow> bool"
  te_api :: api_backend
  te_policy :: request_policy
  te_config_max_retries :: "nat option"
  te_env_max_retries :: "string option"
  te_config_rate_threshold :: "nat option"
  te_doom :: "doom_policy option"
  te_client_error :: "sampling_error option"
  te_rebuilds :: "nat \<Rightarrow> bool"
  te_jitter :: "nat \<Rightarrow> nat"
  te_cancelled :: "nat \<Rightarrow> bool"
  te_sleep_cancelled :: "nat \<Rightarrow> bool"
  te_receiver :: "nat \<Rightarrow> bool"
  te_attempt :: "nat \<Rightarrow> conversation_request \<Rightarrow> bool \<Rightarrow> bool \<Rightarrow> attempt_script"

type_synonym task_result = "sampling_error + conversation_response \<times> inference_stats"

record task =
  tk_request :: conversation_request
  tk_http1 :: bool
  tk_retries :: nat
  tk_doom_retries :: nat
  tk_output_observed :: bool
  tk_sends :: nat
  tk_events :: "sampling_event list"
  tk_completion :: "task_result completion"

definition attempt_number :: "task \<Rightarrow> nat" where
  "attempt_number t = tk_retries t + tk_doom_retries t"

definition task_new :: "conversation_request \<Rightarrow> bool \<Rightarrow> task" where
  "task_new rq waiting =
     \<lparr>tk_request = rq, tk_http1 = False, tk_retries = 0, tk_doom_retries = 0,
      tk_output_observed = False, tk_sends = 0, tk_events = [],
      tk_completion = completion_new waiting\<rparr>"

text \<open>Sending on the channel says whether the receiver was there.\<close>

definition emit :: "task_env \<Rightarrow> sampling_event \<Rightarrow> task \<Rightarrow> task \<times> bool" where
  "emit E ev t =
     (let queued = te_receiver E (tk_sends t);
          t = t\<lparr>tk_sends := tk_sends t + 1\<rparr>
      in (if queued then t\<lparr>tk_events := tk_events t @ [ev]\<rparr> else t, queued))"

definition send_completion :: "task_result \<Rightarrow> task \<times> bool \<Rightarrow> task" where
  "send_completion result sent =
     (case sent of (t, queued) \<Rightarrow>
        t\<lparr>tk_completion := completion_send result queued (tk_completion t)\<rparr>)"

definition emit_failed :: "task_env \<Rightarrow> sampling_error \<Rightarrow> task \<Rightarrow> task \<times> bool" where
  "emit_failed E err = emit E (Failed (te_request_id E) (info_of (te_errors E) err))"

definition emit_retrying :: "task_env \<Rightarrow> nat \<Rightarrow> nat \<Rightarrow> sampling_error \<Rightarrow> task \<Rightarrow> task" where
  "emit_retrying E attempt max_retries err t =
     (let info = info_of (te_errors E) err
      in fst (emit E (Retrying (te_request_id E) attempt max_retries (ei_kind info)
           (detail_with_causes (te_errors E) err) (ei_triggers info) (ei_aborted_at_chunk info)) t))"

definition emit_images_stripped :: "task_env \<Rightarrow> string list \<Rightarrow> strip_reason \<Rightarrow> task \<Rightarrow> task" where
  "emit_images_stripped E urls reason t =
     fst (emit E (ImagesStripped (te_request_id E) urls reason) t)"

definition cancelled_info :: error_info where
  "cancelled_info =
     \<lparr>ei_kind = KApi, ei_status = None, ei_message = ''request cancelled'', ei_is_retryable = False,
      ei_retry_after = None, ei_should_retry = None, ei_code = None, ei_metadata = None,
      ei_empty_context = None, ei_triggers = None, ei_aborted_at_chunk = None,
      ei_credential = SentUnknown\<rparr>"

definition handle_cancellation :: "task_env \<Rightarrow> task \<Rightarrow> task" where
  "handle_cancellation E t =
     send_completion (Inl (auth_unknown ''request cancelled''))
       (emit E (Failed (te_request_id E) cancelled_info) t)"

definition strip_reason_for_image_error :: "sampling_error \<Rightarrow> strip_reason" where
  "strip_reason_for_image_error err =
     (case err of
        ApiError a \<Rightarrow> if af_code a = Some InvalidImage then ServerRejected else PayloadHeuristic
      | StreamError error_type m code \<Rightarrow>
          if code = Some InvalidImage then ServerRejected else PayloadHeuristic
      | _ \<Rightarrow> PayloadHeuristic)"

section \<open>An attempt\<close>

datatype attempt_outcome =
    AttemptCompleted conversation_response inference_stats
  | AttemptEmpty empty_context "string list"
  | AttemptFailed sampling_error "string list" "conversation_item list"
  | AttemptCancelled
  | AttemptInitFailed sampling_error

text \<open>The cell behind the teed stream keeps a copy of its first error.\<close>

definition tee_errors :: "error_env \<Rightarrow> sampling_error list \<Rightarrow> sampling_error option" where
  "tee_errors N raw = (case raw of [] \<Rightarrow> None | e # es \<Rightarrow> Some (clone_error N e))"

definition build_empty_context :: "empty_reason \<Rightarrow> conversation_response \<Rightarrow> empty_context" where
  "build_empty_context reason r =
     \<lparr>ec_reason = reason,
      ec_had_reasoning = list_ex carries_reasoning (reasoning_items r),
      ec_content_len = (case response_assistant r of Some a \<Rightarrow> length (ai_content a) | None \<Rightarrow> 0),
      ec_tool_call_count = (case response_assistant r of Some a \<Rightarrow> length (ai_tool_calls a) | None \<Rightarrow> 0),
      ec_finish_reason = map_option stop_reason_str (cr_stop_reason r),
      ec_completion_tokens = map_option tu_completion (cr_usage r),
      ec_reasoning_tokens = map_option tu_reasoning (cr_usage r),
      ec_prompt_tokens = map_option tu_prompt (cr_usage r),
      ec_model = (case response_assistant r of Some a \<Rightarrow> unwrap_or [] (ai_model_id a) | None \<Rightarrow> []),
      ec_first_choice_seen = (case response_assistant r of Some a \<Rightarrow> ai_model_id a \<noteq> None | None \<Rightarrow> False)\<rparr>"

text \<open>What a response that the stream completed counts as.\<close>

definition judge_response ::
    "task_env \<Rightarrow> doom_policy option \<Rightarrow> captured_response option \<Rightarrow> length_policy \<Rightarrow> string list \<Rightarrow>
     conversation_response \<Rightarrow> inference_stats \<Rightarrow> attempt_outcome" where
  "judge_response E doom_check capture policy all_triggers response metrics =
     (let confident = (case doom_check of Some p \<Rightarrow> confident_triggers p (cr_signals response) | None \<Rightarrow> [])
      in if confident \<noteq> [] then
           AttemptFailed (DoomLoopDetected confident None) all_triggers (take_items capture)
         else case apply_length_policy (te_json_ok E) policy response of
           None \<Rightarrow> AttemptFailed MaxTokensTruncation all_triggers []
         | Some response \<Rightarrow>
             (case response_empty_reason response of
                Some reason \<Rightarrow>
                  if cr_stop_reason response \<noteq> Some StopContentFilter
                  then AttemptEmpty (build_empty_context reason response) all_triggers
                  else AttemptCompleted response metrics
              | None \<Rightarrow> AttemptCompleted response metrics))"

definition on_completed ::
    "task_env \<Rightarrow> doom_policy option \<Rightarrow> captured_response option \<Rightarrow> length_policy \<Rightarrow>
     conversation_response \<Rightarrow> inference_stats \<Rightarrow> task \<Rightarrow> attempt_outcome \<times> task" where
  "on_completed E doom_check capture policy response metrics t =
     (let t = t\<lparr>tk_output_observed := True\<rparr>;
          all_triggers = merge_signal_labels [] (map ds_raw (cr_signals response));
          t = (if all_triggers \<noteq> [] then fst (emit E (DoomLoopSignals (te_request_id E) all_triggers) t)
               else t)
      in (judge_response E doom_check capture policy all_triggers response metrics, t))"

definition on_failed ::
    "task_env \<Rightarrow> sampling_error option \<Rightarrow> captured_response option \<Rightarrow> string list \<Rightarrow> error_info \<Rightarrow>
     attempt_outcome" where
  "on_failed E captured capture signals info =
     (let err = (case captured of Some e \<Rightarrow> e | None \<Rightarrow> synthesize_from_info (te_errors E) info)
      in AttemptFailed err signals (if is_doom_loop err then take_items capture else []))"

text \<open>\<open>cancel\<close> is the number of events before the cancellation is seen.\<close>

fun drive_l2 ::
    "task_env \<Rightarrow> sampling_error option \<Rightarrow> doom_policy option \<Rightarrow> captured_response option \<Rightarrow>
     length_policy \<Rightarrow> nat option \<Rightarrow> string list \<Rightarrow> sampling_event list \<Rightarrow> task \<Rightarrow> attempt_outcome \<times> task" where
  "drive_l2 E captured doom_check capture policy cancel signals [] t =
     (if cancel = Some 0 then (AttemptCancelled, t)
      else (AttemptFailed (EventStreamError ''stream dropped without terminal event'') signals [], t))"
| "drive_l2 E captured doom_check capture policy cancel signals (ev # evs) t =
     (if cancel = Some 0 then (AttemptCancelled, t)
      else let cancel = map_option (\<lambda>n. n - 1) cancel in case ev of
        Completed i response metrics \<Rightarrow> on_completed E doom_check capture policy response metrics t
      | Failed i info \<Rightarrow> (on_failed E captured capture signals info, t)
      | DoomLoopSignals i triggers \<Rightarrow>
          drive_l2 E captured doom_check capture policy cancel (merge_signal_labels signals triggers) evs
            (fst (emit E (DoomLoopSignals (te_request_id E) triggers) t))
      | _ \<Rightarrow>
          drive_l2 E captured doom_check capture policy cancel signals evs
            (fst (emit E ev (if is_output ev then t\<lparr>tk_output_observed := True\<rparr> else t))))"

text \<open>Only a stream of the Responses API can be armed, and only an armed one is recorded.\<close>

definition see_raw_output :: "stream_script \<Rightarrow> task \<Rightarrow> task" where
  "see_raw_output s t = t\<lparr>tk_output_observed := tk_output_observed t \<or> ss_raw_output s\<rparr>"

definition run_one_attempt :: "task_env \<Rightarrow> doom_policy option \<Rightarrow> task \<Rightarrow> attempt_outcome \<times> task" where
  "run_one_attempt E doom_check t =
     (let doom_check = (if te_api E = ResponsesApi then doom_check else None); armed = doom_check \<noteq> None
      in case te_attempt E (attempt_number t) (tk_request t) (tk_http1 t) armed of
           InitFails err \<Rightarrow> (AttemptInitFailed err, t)
         | Streams s \<Rightarrow>
             drive_l2 E (tee_errors (te_errors E) (ss_raw_errors s)) doom_check
               (if armed then Some (ss_recorded s) else None)
               (rq_length_policy (tk_request t)) (ss_cancel_at s) [] (ss_events s) (see_raw_output s t))"

section \<open>The retry loop\<close>

text \<open>
  The result of an iteration: whether the loop goes on, and the state. A retry waits unless the
  token is cancelled.
\<close>

definition sleep_or_cancel :: "task_env \<Rightarrow> nat \<Rightarrow> task \<Rightarrow> bool \<times> task" where
  "sleep_or_cancel E n t =
     (if te_sleep_cancelled E n then (False, handle_cancellation E t) else (True, t))"

definition rate_threshold :: "task_env \<Rightarrow> nat" where
  "rate_threshold E = unwrap_or (po_rate_limit_threshold (te_policy E)) (te_config_rate_threshold E)"

definition note_retry :: "task_env \<Rightarrow> sampling_error \<Rightarrow> nat \<Rightarrow> task \<Rightarrow> task" where
  "note_retry E err max_retries t =
     (let t = t\<lparr>tk_retries := tk_retries t + 1\<rparr>
      in emit_retrying E (tk_retries t) max_retries err t)"

definition give_up :: "task_env \<Rightarrow> sampling_error \<Rightarrow> task \<Rightarrow> bool \<times> task" where
  "give_up E err t = (False, send_completion (Inl err) (emit_failed E err t))"

text \<open>Images of an upload that the server cut off are left out before it is tried again.\<close>

definition strip_rejected_upload :: "task_env \<Rightarrow> sampling_error \<Rightarrow> retry_decision \<Rightarrow> task \<Rightarrow> task" where
  "strip_rejected_upload E err decision t =
     (if (case decision of
            Retry b \<Rightarrow> True | RetryWithBackoff b l \<Rightarrow> True | RetryWithClientRebuild b \<Rightarrow> True
          | _ \<Rightarrow> False) \<and> is_likely_body_rejected err
      then (let (rq, urls) = strip_images (tk_request t); t = t\<lparr>tk_request := rq\<rparr>
            in if urls \<noteq> [] then emit_images_stripped E urls PayloadHeuristic t else t)
      else t)"

definition carry_out ::
    "task_env \<Rightarrow> sampling_error \<Rightarrow> nat \<Rightarrow> nat \<Rightarrow> retry_decision \<Rightarrow> task \<Rightarrow> bool \<times> task" where
  "carry_out E err n max_retries decision t =
     (case decision of
        Retry backoff \<Rightarrow> sleep_or_cancel E n (note_retry E err max_retries t)
      | RetryWithBackoff backoff limited \<Rightarrow> sleep_or_cancel E n (note_retry E err max_retries t)
      | RetryWithImageStrip \<Rightarrow>
          (let (rq, urls) = strip_images (tk_request t); t = t\<lparr>tk_request := rq\<rparr>
           in if urls = [] then
                (False, send_completion (Inl (clone_error (te_errors E) err)) (emit_failed E err t))
              else (True, note_retry E err max_retries
                      (emit_images_stripped E urls (strip_reason_for_image_error err) t)))
      | RetryWithClientRebuild backoff \<Rightarrow>
          (case sleep_or_cancel E n (note_retry E err max_retries t) of
             (True, t) \<Rightarrow> (True, if te_rebuilds E n then t\<lparr>tk_http1 := True\<rparr> else t)
           | (False, t) \<Rightarrow> (False, t))
      | EmitToSession e \<Rightarrow> give_up E e t
      | FatalError e \<Rightarrow> give_up E e t)"

definition apply_retry_decision :: "task_env \<Rightarrow> sampling_error \<Rightarrow> nat \<Rightarrow> task \<Rightarrow> bool \<times> task" where
  "apply_retry_decision E err max_retries t =
     (let n = attempt_number t;
          decision = classify_error (te_errors E) (te_jitter E n) err (tk_retries t) max_retries
            (rate_threshold E)
      in carry_out E err n max_retries decision (strip_rejected_upload E err decision t))"

definition doom_max_retries :: "task_env \<Rightarrow> nat" where
  "doom_max_retries E = (case te_doom E of None \<Rightarrow> 0 | Some p \<Rightarrow> dp_max_retries p)"

definition task_max_retries :: "task_env \<Rightarrow> nat" where
  "task_max_retries E =
     (let configured = or_else (te_config_max_retries E) (Some (po_max_retries (te_policy E)))
      in if configured = Some 0 then 0 else resolve_max_retries (te_env_max_retries E) configured)"

definition note_resample :: "sampling_error \<Rightarrow> conversation_item list \<Rightarrow> task \<Rightarrow> task" where
  "note_resample err recovery_items t =
     (let (triggers, chunk) = (case err of DoomLoopDetected ts c \<Rightarrow> (ts, c) | _ \<Rightarrow> ([], None))
      in t\<lparr>tk_doom_retries := tk_doom_retries t + 1,
           tk_completion := record_recovery_attempt triggers chunk (tk_completion t),
           tk_request := append_recovery_context recovery_items (tk_request t)\<rparr>)"

definition doom_recovery ::
    "task_env \<Rightarrow> sampling_error \<Rightarrow> conversation_item list \<Rightarrow> task \<Rightarrow> bool \<times> task" where
  "doom_recovery E err recovery_items t =
     (if po_only_before_output (te_policy E) \<and> tk_output_observed t then
        (False, send_completion (Inl (clone_error (te_errors E) err)) (emit_failed E err t))
      else let n = attempt_number t; t = note_resample err recovery_items t
           in sleep_or_cancel E n (emit_retrying E (tk_doom_retries t) (doom_max_retries E) err t))"

definition merge_labels :: "string list \<Rightarrow> task \<Rightarrow> task" where
  "merge_labels signals t =
     t\<lparr>tk_completion := merge_doom_loop_signals signals (tk_completion t)\<rparr>"

definition settle_attempt :: "task_env \<Rightarrow> attempt_outcome \<Rightarrow> task \<Rightarrow> bool \<times> task" where
  "settle_attempt E outcome t =
     (let effective_max_retries =
            (if po_only_before_output (te_policy E) \<and> tk_output_observed t then 0
             else task_max_retries E)
      in case outcome of
           AttemptCompleted response metrics \<Rightarrow>
             (let t = merge_labels (map ds_raw (cr_signals response)) t;
                  metrics = metrics\<lparr>is_attempts := tk_retries t + tk_doom_retries t + 1\<rparr>
              in (False, send_completion (Inr (response, metrics))
                    (emit E (Completed (te_request_id E) response metrics) t)))
         | AttemptEmpty context signals \<Rightarrow>
             apply_retry_decision E (EmptyResponse context) effective_max_retries (merge_labels signals t)
         | AttemptFailed err signals recovery_items \<Rightarrow>
             (let t = merge_labels signals t
              in if is_doom_loop err then doom_recovery E err recovery_items t
                 else apply_retry_decision E err effective_max_retries t)
         | AttemptCancelled \<Rightarrow> (False, handle_cancellation E t)
         | AttemptInitFailed err \<Rightarrow> apply_retry_decision E err effective_max_retries t)"

definition attempt_once :: "task_env \<Rightarrow> task \<Rightarrow> bool \<times> task" where
  "attempt_once E t =
     (if te_cancelled E (attempt_number t) then (False, handle_cancellation E t)
      else let doom_check = (if tk_doom_retries t < doom_max_retries E then te_doom E else None);
               (outcome, t) = run_one_attempt E doom_check t
           in settle_attempt E outcome t)"

partial_function (option) retry_loop :: "task_env \<Rightarrow> task \<Rightarrow> task option" where
  "retry_loop E t = (case attempt_once E t of (again, t') \<Rightarrow> if again then retry_loop E t' else Some t')"

definition run_request_task :: "task_env \<Rightarrow> conversation_request \<Rightarrow> bool \<Rightarrow> task option" where
  "run_request_task E rq waiting =
     (case te_client_error E of
        Some err \<Rightarrow> Some (snd (give_up E err (task_new rq waiting)))
      | None \<Rightarrow> retry_loop E (task_new rq waiting))"

end
