(* ===== verification/RequestTaskLaws.thy ===== *)
theory RequestTaskLaws imports RequestTask begin

text \<open>
  The retry loop returns, answers once, and keeps to its budgets. \<open>running\<close> is the invariant of a
  task that goes on, \<open>answered\<close> what holds of one that has ended, \<open>in_budget\<close> the budgets.
\<close>

section \<open>The rules of the loop\<close>

lemma retry_loop_rule:
  assumes "retry_loop E t = Some r" and "I t"
    and step: "\<And>t t'. I t \<Longrightarrow> attempt_once E t = (True, t') \<Longrightarrow> I t'"
    and stop: "\<And>t t'. I t \<Longrightarrow> attempt_once E t = (False, t') \<Longrightarrow> Q t'"
  shows "Q r"
proof -
  have "I t \<longrightarrow> Q r"
  proof (rule retry_loop.raw_induct [where P = "\<lambda>E' t r. E' = E \<longrightarrow> I t \<longrightarrow> Q r", THEN mp, OF _ assms(1) refl])
    fix loop E' s r
    assume IH: "\<And>E' t r. loop E' t = Some r \<Longrightarrow> E' = E \<longrightarrow> I t \<longrightarrow> Q r"
      and run: "(case attempt_once E' s of (again, t') \<Rightarrow> if again then loop E' t' else Some t') = Some r"
    show "E' = E \<longrightarrow> I s \<longrightarrow> Q r"
    proof (intro impI)
      assume "E' = E" and "I s"
      obtain again t' where s: "attempt_once E s = (again, t')" by fastforce
      show "Q r"
      proof (cases again)
        case True
        with s run \<open>E' = E\<close> IH [of E t' r] step [OF \<open>I s\<close>] show ?thesis by simp
      next
        case False
        with s run \<open>E' = E\<close> stop [OF \<open>I s\<close>] show ?thesis by simp
      qed
    qed
  qed
  with assms(2) show ?thesis by simp
qed

lemma retry_loop_returns:
  assumes "I t"
    and step: "\<And>t t'. I t \<Longrightarrow> attempt_once E t = (True, t') \<Longrightarrow>
      I t' \<and> attempt_number t' = Suc (attempt_number t)"
    and bound: "\<And>t. I t \<Longrightarrow> attempt_number t \<le> N"
  shows "\<exists>r. retry_loop E t = Some r"
  using assms(1)
proof (induction "N - attempt_number t" arbitrary: t rule: less_induct)
  case less
  obtain again t' where s: "attempt_once E t = (again, t')" by fastforce
  show ?case
  proof (cases again)
    case True
    with s step [OF less.prems] have t': "I t'" "attempt_number t' = Suc (attempt_number t)" by simp_all
    with bound [OF t'(1)] have "N - attempt_number t' < N - attempt_number t" by simp
    from less.hyps [OF this t'(1)] s True show ?thesis by (simp add: retry_loop.simps [of E t])
  qed (simp add: s retry_loop.simps [of E t])
qed

section \<open>What a step leaves alone\<close>

definition is_terminal :: "sampling_event \<Rightarrow> bool" where
  "is_terminal ev \<longleftrightarrow> (case ev of Completed i r m \<Rightarrow> True | Failed i e \<Rightarrow> True | _ \<Rightarrow> False)"

definition is_retrying :: "sampling_event \<Rightarrow> bool" where
  "is_retrying ev \<longleftrightarrow> (case ev of Retrying i a m k r ts c \<Rightarrow> True | _ \<Rightarrow> False)"

lemma event_kinds [simp]:
  "is_terminal (Completed i r m)" "is_terminal (Failed i e)" "\<not> is_terminal (DoomLoopSignals i ts)"
  "\<not> is_terminal (Retrying i a mx k re tso c)" "\<not> is_terminal (ImagesStripped i us sr)"
  "is_retrying (Retrying i a mx k re tso c)" "\<not> is_retrying (Completed i r m)" "\<not> is_retrying (Failed i e)"
  "\<not> is_retrying (DoomLoopSignals i ts)" "\<not> is_retrying (ImagesStripped i us sr)"
  "\<not> is_output (Completed i r m)" "\<not> is_output (Failed i e)" "\<not> is_output (DoomLoopSignals i ts)"
  "\<not> is_output (Retrying i a mx k re tso c)" "\<not> is_output (ImagesStripped i us sr)"
  by (simp_all add: is_terminal_def is_retrying_def is_output_def)

lemma emit_frame [simp]:
  "tk_request (fst (emit E ev t)) = tk_request t" "tk_http1 (fst (emit E ev t)) = tk_http1 t"
  "tk_retries (fst (emit E ev t)) = tk_retries t"
  "tk_doom_retries (fst (emit E ev t)) = tk_doom_retries t"
  "tk_output_observed (fst (emit E ev t)) = tk_output_observed t"
  "tk_completion (fst (emit E ev t)) = tk_completion t"
  "tk_events (fst (emit E ev t)) = tk_events t @ (if te_receiver E (tk_sends t) then [ev] else [])"
  "snd (emit E ev t) = te_receiver E (tk_sends t)"
  by (simp_all add: emit_def Let_def)

lemma send_completion_frame [simp]:
  "tk_request (send_completion r s) = tk_request (fst s)"
  "tk_retries (send_completion r s) = tk_retries (fst s)"
  "tk_doom_retries (send_completion r s) = tk_doom_retries (fst s)"
  "tk_output_observed (send_completion r s) = tk_output_observed (fst s)"
  "tk_events (send_completion r s) = tk_events (fst s)"
  "tk_completion (send_completion r s) = completion_send r (snd s) (tk_completion (fst s))"
  by (simp_all add: send_completion_def case_prod_unfold)

text \<open>The part of the state that the budgets read.\<close>

definition same_budget :: "task \<Rightarrow> task \<Rightarrow> bool" where
  "same_budget t t' \<longleftrightarrow>
     tk_retries t' = tk_retries t \<and> tk_doom_retries t' = tk_doom_retries t \<and>
     tk_request t' = tk_request t \<and> tk_completion t' = tk_completion t"

lemma drive_l2_same_budget:
  "same_budget t (snd (drive_l2 E captured doom_check capture policy cancel signals evs t))"
proof (induction evs arbitrary: cancel signals t)
  case (Cons ev evs)
  show ?case
  proof (cases "cancel = Some 0")
    case False
    then show ?thesis
      using Cons by (cases ev) (simp_all add: Let_def same_budget_def on_completed_def)
  qed (simp add: same_budget_def)
qed (simp add: same_budget_def)

lemma same_budget_raw: "same_budget (see_raw_output s t) t' = same_budget t t'"
  by (simp add: same_budget_def see_raw_output_def)

lemma run_one_attempt_same_budget: "same_budget t (snd (run_one_attempt E doom_check t))"
  using drive_l2_same_budget [of "see_raw_output _ t", unfolded same_budget_raw]
  by (simp add: run_one_attempt_def Let_def same_budget_def split: attempt_script.split)

section \<open>One answer\<close>

definition running :: "bool \<Rightarrow> task \<Rightarrow> bool" where
  "running waiting t \<longleftrightarrow>
     filter is_terminal (tk_events t) = [] \<and>
     cs_waiting (tk_completion t) = waiting \<and> cs_delivered (tk_completion t) = []"

definition answered :: "bool \<Rightarrow> task \<Rightarrow> bool" where
  "answered waiting t \<longleftrightarrow>
     (let ends = filter is_terminal (tk_events t); queued = (ends \<noteq> [])
      in length ends \<le> 1 \<and> (queued \<longrightarrow> is_terminal (last (tk_events t))) \<and>
         map cl_terminal_event_queued (cs_delivered (tk_completion t)) = (if waiting then [queued] else []))"

lemma running_new [simp]: "running waiting (task_new rq waiting)"
  by (simp add: running_def task_new_def completion_new_def)

lemma running_emit [simp]: "\<not> is_terminal ev \<Longrightarrow> running w (fst (emit E ev t)) = running w t"
  by (simp add: running_def)

lemma running_updates [simp]:
  "running w (t\<lparr>tk_request := rq\<rparr>) = running w t" "running w (t\<lparr>tk_retries := n\<rparr>) = running w t"
  "running w (t\<lparr>tk_doom_retries := n\<rparr>) = running w t" "running w (t\<lparr>tk_http1 := b\<rparr>) = running w t"
  "running w (t\<lparr>tk_output_observed := b\<rparr>) = running w t"
  "running w (t\<lparr>tk_completion := merge_doom_loop_signals ls (tk_completion t)\<rparr>) = running w t"
  by (simp_all add: running_def merge_doom_loop_signals_def)

lemma running_answered:
  assumes "running w t" and "is_terminal ev"
  shows "answered w (send_completion r (emit E ev t))"
  using assms by (auto simp: running_def answered_def Let_def completion_send_def)

lemma cancelled_answered: "running w t \<Longrightarrow> answered w (handle_cancellation E t)"
  by (simp add: handle_cancellation_def running_answered)

lemma failed_answered: "running w t \<Longrightarrow> answered w (send_completion r (emit_failed E err t))"
  by (simp add: emit_failed_def running_answered)

definition settled :: "bool \<Rightarrow> bool \<times> task \<Rightarrow> bool" where
  "settled w s \<longleftrightarrow> (if fst s then running w (snd s) else answered w (snd s))"

lemma sleep_settled: "running w t \<Longrightarrow> settled w (sleep_or_cancel E n t)"
  by (simp add: settled_def sleep_or_cancel_def cancelled_answered)

lemma give_up_settled: "running w t \<Longrightarrow> settled w (give_up E err t)"
  by (simp add: settled_def give_up_def failed_answered)

lemma running_note_retry [simp]: "running w (note_retry E err m t) = running w t"
  by (simp add: note_retry_def emit_retrying_def Let_def)

lemma running_strip [simp]: "running w (strip_rejected_upload E err d t) = running w t"
  by (simp add: strip_rejected_upload_def emit_images_stripped_def Let_def case_prod_unfold)

lemma running_emit_retrying [simp]: "running w (emit_retrying E a m err t) = running w t"
  by (simp add: emit_retrying_def Let_def)

lemma running_emit_stripped [simp]: "running w (emit_images_stripped E us sr t) = running w t"
  by (simp add: emit_images_stripped_def)

lemma carry_out_settled: "running w t \<Longrightarrow> settled w (carry_out E err n m d t)"
proof -
  assume run: "running w t"
  note sleep = sleep_settled [of w "note_retry E err m t" E n]
  show ?thesis
  proof (cases d)
    case RetryWithImageStrip
    with run show ?thesis
      by (simp add: carry_out_def Let_def case_prod_unfold settled_def failed_answered
          del: strip_images_urls)
  next
    case (RetryWithClientRebuild b)
    with run sleep show ?thesis
      by (auto simp: carry_out_def settled_def split: prod.split bool.split)
  qed (use run sleep give_up_settled in \<open>simp_all add: carry_out_def\<close>)
qed

lemma apply_retry_settled: "running w t \<Longrightarrow> settled w (apply_retry_decision E err m t)"
  by (simp add: apply_retry_decision_def Let_def carry_out_settled)

lemma running_note_resample [simp]: "running w (note_resample err items t) = running w t"
  by (simp add: note_resample_def running_def record_recovery_attempt_def case_prod_unfold Let_def)

lemma doom_recovery_settled: "running w t \<Longrightarrow> settled w (doom_recovery E err items t)"
  by (simp add: doom_recovery_def Let_def sleep_settled settled_def [of w "(False, _)"] failed_answered)

lemma running_merge [simp]: "running w (merge_labels ls t) = running w t"
  by (simp add: merge_labels_def)

lemma settle_settled: "running w t \<Longrightarrow> settled w (settle_attempt E outcome t)"
  by (cases outcome)
    (simp_all add: settle_attempt_def Let_def apply_retry_settled doom_recovery_settled
      settled_def [of w "(False, _)"] running_answered cancelled_answered)

lemma drive_l2_running:
  "running w t \<Longrightarrow> running w (snd (drive_l2 E captured doom_check capture policy cancel signals evs t))"
proof (induction evs arbitrary: cancel signals t)
  case (Cons ev evs)
  show ?case
  proof (cases "cancel = Some 0")
    case False
    with Cons show ?thesis
      by (cases ev) (simp_all add: Let_def on_completed_def is_output_def is_terminal_def)
  qed (use Cons.prems in simp)
qed simp

lemma attempt_once_settled: "running w t \<Longrightarrow> settled w (attempt_once E t)"
proof -
  assume run: "running w t"
  have "running w (snd (run_one_attempt E dc t))" for dc
    using run drive_l2_running [of w "see_raw_output _ t"]
    by (simp add: run_one_attempt_def Let_def see_raw_output_def split: attempt_script.split)
  with run show ?thesis
    by (simp add: attempt_once_def Let_def case_prod_unfold settle_settled cancelled_answered
        settled_def [of w "(False, _)"])
qed

end
