(* ===== verification/RequestTaskRuns.thy ===== *)
theory RequestTaskRuns imports RequestTaskLaws begin

text \<open>
  The properties of a whole request: it ends within its budgets and is answered once, and a caller
  who cannot take output back sees no retry after it.
\<close>

section \<open>Budgets\<close>

definition in_budget :: "task_env \<Rightarrow> task \<Rightarrow> bool" where
  "in_budget E t \<longleftrightarrow>
     tk_doom_retries t \<le> doom_max_retries E \<and> tk_retries t \<le> task_max_retries E \<and>
     (0 < task_max_retries E \<longrightarrow> tk_retries t = task_max_retries E \<longrightarrow> request_images (tk_request t) = [])"

lemma within_new [simp]: "in_budget E (task_new rq waiting)"
  by (simp add: in_budget_def task_new_def)

lemma task_new_simps [simp]:
  "tk_retries (task_new rq w) = 0" "tk_doom_retries (task_new rq w) = 0" "tk_events (task_new rq w) = []"
  by (simp_all add: task_new_def)

text \<open>An iteration that goes on is one attempt more, and every iteration keeps the budgets.\<close>

definition advances :: "task_env \<Rightarrow> task \<Rightarrow> bool \<times> task \<Rightarrow> bool" where
  "advances E t s \<longleftrightarrow> in_budget E (snd s) \<and> (fst s \<longrightarrow> attempt_number (snd s) = Suc (attempt_number t))"

lemma cancellation_frame [simp]:
  "tk_retries (handle_cancellation E t) = tk_retries t"
  "tk_doom_retries (handle_cancellation E t) = tk_doom_retries t"
  "tk_request (handle_cancellation E t) = tk_request t"
  "tk_output_observed (handle_cancellation E t) = tk_output_observed t"
  by (simp_all add: handle_cancellation_def)

lemma within_cong:
  "tk_retries t' = tk_retries t \<Longrightarrow> tk_doom_retries t' = tk_doom_retries t \<Longrightarrow>
   tk_request t' = tk_request t \<Longrightarrow> in_budget E t' = in_budget E t"
  by (simp add: in_budget_def)

lemma sleep_frame [simp]:
  "tk_retries (snd (sleep_or_cancel E n t)) = tk_retries t"
  "tk_doom_retries (snd (sleep_or_cancel E n t)) = tk_doom_retries t"
  "tk_request (snd (sleep_or_cancel E n t)) = tk_request t"
  "tk_output_observed (snd (sleep_or_cancel E n t)) = tk_output_observed t"
  by (simp_all add: sleep_or_cancel_def)

lemma emit_retrying_frame [simp]:
  "tk_retries (emit_retrying E a m err t) = tk_retries t"
  "tk_doom_retries (emit_retrying E a m err t) = tk_doom_retries t"
  "tk_request (emit_retrying E a m err t) = tk_request t"
  "tk_output_observed (emit_retrying E a m err t) = tk_output_observed t"
  by (simp_all add: emit_retrying_def Let_def)

lemma note_retry_frame [simp]:
  "tk_retries (note_retry E err m t) = Suc (tk_retries t)"
  "tk_doom_retries (note_retry E err m t) = tk_doom_retries t"
  "tk_request (note_retry E err m t) = tk_request t"
  "tk_output_observed (note_retry E err m t) = tk_output_observed t"
  by (simp_all add: note_retry_def Let_def)

lemma emit_stripped_frame [simp]:
  "tk_retries (emit_images_stripped E us sr t) = tk_retries t"
  "tk_doom_retries (emit_images_stripped E us sr t) = tk_doom_retries t"
  "tk_request (emit_images_stripped E us sr t) = tk_request t"
  "tk_output_observed (emit_images_stripped E us sr t) = tk_output_observed t"
  by (simp_all add: emit_images_stripped_def)

lemma give_up_frame [simp]:
  "tk_retries (snd (give_up E err t)) = tk_retries t"
  "tk_doom_retries (snd (give_up E err t)) = tk_doom_retries t"
  "tk_request (snd (give_up E err t)) = tk_request t"
  "tk_output_observed (snd (give_up E err t)) = tk_output_observed t" "\<not> fst (give_up E err t)"
  by (simp_all add: give_up_def emit_failed_def)

lemma strip_rejected_frame [simp]:
  "tk_retries (strip_rejected_upload E err d t) = tk_retries t"
  "tk_doom_retries (strip_rejected_upload E err d t) = tk_doom_retries t"
  "tk_output_observed (strip_rejected_upload E err d t) = tk_output_observed t"
  by (simp_all add: strip_rejected_upload_def Let_def case_prod_unfold)

lemma strip_rejected_none:
  "d = RetryWithImageStrip \<or> d = EmitToSession e \<or> d = FatalError e \<Longrightarrow> strip_rejected_upload E err d t = t"
  by (auto simp: strip_rejected_upload_def)

lemma image_strip_needs_budget:
  "classify_error N j err k m r = RetryWithImageStrip \<Longrightarrow> 0 < m"
  by (auto simp: classify_error_def Let_def split: if_splits)

text \<open>A retry that waits has budget left, so the clause on images is not reached.\<close>

lemma waited_within:
  assumes "in_budget E t" and "Suc (tk_retries t) < task_max_retries E"
    and "tk_retries t' = Suc (tk_retries t)" and "tk_doom_retries t' = tk_doom_retries t"
  shows "in_budget E t' \<and> attempt_number t' = Suc (attempt_number t)"
  using assms by (simp add: in_budget_def attempt_number_def)

lemma apply_retry_advances:
  assumes "in_budget E t" and "m = 0 \<or> m = task_max_retries E" and "\<not> is_doom_loop err"
  shows "advances E t (apply_retry_decision E err m t)"
proof -
  let ?d = "classify_error (te_errors E) (te_jitter E (attempt_number t)) err (tk_retries t) m
    (rate_threshold E)"
  define t1 where "t1 = strip_rejected_upload E err ?d t"
  have apply_eq: "apply_retry_decision E err m t = carry_out E err (attempt_number t) m ?d t1"
    by (simp add: apply_retry_decision_def Let_def t1_def)
  have t1: "tk_retries t1 = tk_retries t" "tk_doom_retries t1 = tk_doom_retries t"
    by (simp_all add: t1_def)
  have room: "Suc (tk_retries t) < task_max_retries E"
    if "?d = Retry b \<or> ?d = RetryWithBackoff b l \<or> ?d = RetryWithClientRebuild b" for b l
    using retry_has_budget [OF that assms(3)] assms(2) by auto
  note waited = waited_within [OF assms(1)]
  show ?thesis
  proof (cases ?d)
    case (Retry b)
    with waited room t1 show ?thesis by (simp add: apply_eq carry_out_def advances_def)
  next
    case (RetryWithBackoff b l)
    with waited room t1 show ?thesis by (simp add: apply_eq carry_out_def advances_def)
  next
    case (RetryWithClientRebuild b)
    with waited room t1 show ?thesis
      by (auto simp: apply_eq carry_out_def advances_def sleep_or_cancel_def)
  next
    case RetryWithImageStrip
    then have "t1 = t" by (simp add: t1_def strip_rejected_none)
    moreover have "0 < task_max_retries E"
      using image_strip_needs_budget [OF RetryWithImageStrip] assms(2) by auto
    ultimately show ?thesis using assms(1) RetryWithImageStrip
      by (auto simp: apply_eq carry_out_def advances_def Let_def case_prod_unfold in_budget_def
          attempt_number_def emit_failed_def)
  next
    case (EmitToSession e)
    then have "t1 = t" by (simp add: t1_def strip_rejected_none)
    with assms(1) EmitToSession show ?thesis
      by (simp add: apply_eq carry_out_def advances_def in_budget_def)
  next
    case (FatalError e)
    then have "t1 = t" by (simp add: t1_def strip_rejected_none)
    with assms(1) FatalError show ?thesis
      by (simp add: apply_eq carry_out_def advances_def in_budget_def)
  qed
qed

lemma note_resample_frame [simp]:
  "tk_retries (note_resample err items t) = tk_retries t"
  "tk_doom_retries (note_resample err items t) = Suc (tk_doom_retries t)"
  "tk_request (note_resample err items t) = append_recovery_context items (tk_request t)"
  "tk_output_observed (note_resample err items t) = tk_output_observed t"
  by (simp_all add: note_resample_def Let_def case_prod_unfold)

lemma doom_recovery_advances:
  assumes "in_budget E t" and "tk_doom_retries t < doom_max_retries E" and "list_all replayable items"
  shows "advances E t (doom_recovery E err items t)"
  using assms
  by (simp add: doom_recovery_def Let_def advances_def in_budget_def attempt_number_def emit_failed_def)

section \<open>Who reports a repetition\<close>

text \<open>What a backend reports to the loop as a repetition of the model.\<close>

definition opening_reports_loop :: "attempt_script \<Rightarrow> bool" where
  "opening_reports_loop s \<longleftrightarrow> (case s of InitFails err \<Rightarrow> is_doom_loop err | Streams x \<Rightarrow> False)"

definition stream_reports_loop :: "attempt_script \<Rightarrow> bool" where
  "stream_reports_loop s \<longleftrightarrow>
     (case s of
        InitFails err \<Rightarrow> False
      | Streams x \<Rightarrow>
          list_ex is_doom_loop (ss_raw_errors x) \<or>
          list_ex (\<lambda>ev. case ev of Failed i info \<Rightarrow> ei_kind info = KDoomLoop | _ \<Rightarrow> False) (ss_events x))"

lemma clone_doom [simp]: "is_doom_loop (clone_error N e) = is_doom_loop e"
  by (cases e) (simp_all add: clone_error_def is_doom_loop_def serialization_message_def)

lemma synthesized_doom [simp]:
  "is_doom_loop (synthesize_from_info N info) \<longleftrightarrow> ei_kind info = KDoomLoop"
  by (cases "ei_kind info")
    (simp_all add: synthesize_from_info_def is_doom_loop_def serialization_from_rendered_def
      serialization_message_def split: option.split)

lemma take_items_replayable [simp]: "list_all replayable (take_items capture)"
  using take_items_within [of capture] by (simp add: within_budget_def)

lemma drive_l2_doom:
  assumes "drive_l2 E captured doom_check capture policy cancel signals evs t =
      (AttemptFailed err sigs items, t')"
  shows "list_all replayable items"
    and "is_doom_loop err \<Longrightarrow> doom_check \<noteq> None \<or> (\<exists>e. captured = Some e \<and> is_doom_loop e) \<or>
      list_ex (\<lambda>ev. case ev of Failed i info \<Rightarrow> ei_kind info = KDoomLoop | _ \<Rightarrow> False) evs"
proof -
  have "list_all replayable items \<and> (is_doom_loop err \<longrightarrow> doom_check \<noteq> None \<or>
      (\<exists>e. captured = Some e \<and> is_doom_loop e) \<or>
      list_ex (\<lambda>ev. case ev of Failed i info \<Rightarrow> ei_kind info = KDoomLoop | _ \<Rightarrow> False) evs)"
    using assms
  proof (induction evs arbitrary: cancel signals t)
    case Nil
    then show ?case by (auto simp: is_doom_loop_def split: if_splits)
  next
    case (Cons ev evs)
    show ?case
    proof (cases "cancel = Some 0")
      case False
      note prems = Cons.prems Cons.IH False
      show ?thesis
      proof (cases ev)
        case (Completed i r m)
        with prems show ?thesis
          by (auto simp: Let_def on_completed_def judge_response_def is_doom_loop_def
              split: if_splits option.splits)
      next
        case (Failed i info)
        with prems show ?thesis by (auto simp: on_failed_def Let_def split: option.splits)
      next
        case (DoomLoopSignals i ts)
        with prems show ?thesis by (simp add: Let_def)
      qed (use prems in \<open>simp add: Let_def\<close>)+
    qed (use Cons.prems in simp)
  qed
  then show "list_all replayable items"
    and "is_doom_loop err \<Longrightarrow> doom_check \<noteq> None \<or> (\<exists>e. captured = Some e \<and> is_doom_loop e) \<or>
      list_ex (\<lambda>ev. case ev of Failed i info \<Rightarrow> ei_kind info = KDoomLoop | _ \<Rightarrow> False) evs"
    by blast+
qed

lemma run_one_attempt_doom:
  assumes disarmed: "\<And>n rq h. \<not> stream_reports_loop (te_attempt E n rq h False)"
    and run: "run_one_attempt E doom_check t = (AttemptFailed err sigs items, t')"
  shows "list_all replayable items" and "is_doom_loop err \<Longrightarrow> doom_check \<noteq> None"
proof -
  define dc where "dc = (if te_api E = ResponsesApi then doom_check else None)"
  obtain s where s: "te_attempt E (attempt_number t) (tk_request t) (tk_http1 t) (dc \<noteq> None) = Streams s"
    and drive: "drive_l2 E (tee_errors (te_errors E) (ss_raw_errors s)) dc
        (if dc \<noteq> None then Some (ss_recorded s) else None)
        (rq_length_policy (tk_request t)) (ss_cancel_at s) [] (ss_events s) (see_raw_output s t) =
      (AttemptFailed err sigs items, t')"
    using run by (auto simp: run_one_attempt_def Let_def dc_def split: attempt_script.splits)
  show "list_all replayable items" by (rule drive_l2_doom(1) [OF drive])
  assume doom: "is_doom_loop err"
  have "dc \<noteq> None"
  proof
    assume none: "dc = None"
    with s disarmed [of "attempt_number t" "tk_request t" "tk_http1 t"] have
      "\<not> list_ex is_doom_loop (ss_raw_errors s)"
      "\<not> list_ex (\<lambda>ev. case ev of Failed i info \<Rightarrow> ei_kind info = KDoomLoop | _ \<Rightarrow> False) (ss_events s)"
      by (simp_all add: stream_reports_loop_def)
    moreover from this(1) have "\<not> (\<exists>e. tee_errors (te_errors E) (ss_raw_errors s) = Some e \<and> is_doom_loop e)"
      by (auto simp: tee_errors_def split: list.splits)
    ultimately show False using drive_l2_doom(2) [OF drive doom] none by blast
  qed
  then show "doom_check \<noteq> None" by (auto simp: dc_def split: if_splits)
qed

lemma run_one_attempt_opening:
  assumes "\<And>n rq h a. \<not> opening_reports_loop (te_attempt E n rq h a)"
    and "run_one_attempt E doom_check t = (AttemptInitFailed err, t')"
  shows "\<not> is_doom_loop err"
proof -
  have drive: "fst (drive_l2 E c d r p x l evs t) \<noteq> AttemptInitFailed e" for c d r p x l evs t e
  proof (induction evs arbitrary: x l t)
    case (Cons ev evs)
    then show ?case
      by (cases ev) (simp_all add: Let_def on_completed_def judge_response_def on_failed_def
          split: option.split)
  qed simp
  define dc where "dc = (if te_api E = ResponsesApi then doom_check else None)"
  show ?thesis
  proof (cases "te_attempt E (attempt_number t) (tk_request t) (tk_http1 t) (dc \<noteq> None)")
    case (InitFails e)
    with assms(2) have "e = err" by (simp add: run_one_attempt_def Let_def dc_def)
    with InitFails assms(1) show ?thesis by (metis attempt_script.simps(5) opening_reports_loop_def)
  next
    case (Streams s)
    with assms(2) have "fst (drive_l2 E (tee_errors (te_errors E) (ss_raw_errors s)) dc
        (if dc \<noteq> None then Some (ss_recorded s) else None)
        (rq_length_policy (tk_request t)) (ss_cancel_at s) [] (ss_events s) (see_raw_output s t)) = AttemptInitFailed err"
      by (simp add: run_one_attempt_def Let_def dc_def)
    with drive show ?thesis by blast
  qed
qed

lemma merge_labels_frame [simp]:
  "tk_retries (merge_labels ls t) = tk_retries t" "tk_doom_retries (merge_labels ls t) = tk_doom_retries t"
  "tk_request (merge_labels ls t) = tk_request t"
  "tk_output_observed (merge_labels ls t) = tk_output_observed t"
  "tk_events (merge_labels ls t) = tk_events t"
  by (simp_all add: merge_labels_def)

lemma settle_advances:
  assumes "in_budget E t"
    and "\<And>err sigs items. outcome = AttemptFailed err sigs items \<Longrightarrow>
      list_all replayable items \<and> (is_doom_loop err \<longrightarrow> tk_doom_retries t < doom_max_retries E)"
    and "\<And>err. outcome = AttemptInitFailed err \<Longrightarrow> \<not> is_doom_loop err"
  shows "advances E t (settle_attempt E outcome t)"
proof -
  define m where "m = (if po_only_before_output (te_policy E) \<and> tk_output_observed t then 0
    else task_max_retries E)"
  have m: "m = 0 \<or> m = task_max_retries E" by (simp add: m_def)
  have merged: "in_budget E (merge_labels ls t)" "advances E (merge_labels ls t) s = advances E t s" for ls s
    using assms(1) by (simp_all add: in_budget_def advances_def attempt_number_def)
  have not_empty: "\<not> is_doom_loop (EmptyResponse c)" for c by (simp add: is_doom_loop_def)
  note retry = apply_retry_advances [OF _ m]
  show ?thesis
  proof (cases outcome)
    case (AttemptCompleted r mt)
    with assms(1) show ?thesis
      by (simp add: settle_attempt_def Let_def advances_def in_budget_def)
  next
    case (AttemptEmpty c sigs)
    with retry [OF merged(1) not_empty] merged(2) show ?thesis
      by (simp add: settle_attempt_def Let_def m_def)
  next
    case (AttemptFailed err sigs items)
    with assms(2) [OF this] retry [OF merged(1), of err sigs]
      doom_recovery_advances [OF merged(1), of sigs items err] merged(2)
    show ?thesis by (auto simp: settle_attempt_def Let_def m_def)
  next
    case AttemptCancelled
    with assms(1) show ?thesis by (simp add: settle_attempt_def advances_def in_budget_def)
  next
    case (AttemptInitFailed err)
    with retry [OF assms(1) assms(3)] show ?thesis by (simp add: settle_attempt_def Let_def m_def)
  qed
qed

lemma attempt_once_advances:
  assumes "in_budget E t"
    and disarmed: "\<And>n rq h. \<not> stream_reports_loop (te_attempt E n rq h False)"
    and starting: "\<And>n rq h a. \<not> opening_reports_loop (te_attempt E n rq h a)"
  shows "advances E t (attempt_once E t)"
proof (cases "te_cancelled E (attempt_number t)")
  case True
  with assms(1) show ?thesis by (simp add: attempt_once_def advances_def in_budget_def)
next
  case False
  define dc where "dc = (if tk_doom_retries t < doom_max_retries E then te_doom E else None)"
  obtain outcome t1 where run: "run_one_attempt E dc t = (outcome, t1)" by fastforce
  have same: "tk_retries t1 = tk_retries t" "tk_doom_retries t1 = tk_doom_retries t"
    "tk_request t1 = tk_request t"
    using run_one_attempt_same_budget [of t E dc] run by (simp_all add: same_budget_def)
  then have t1: "in_budget E t1" "advances E t1 s = advances E t s" for s
    using assms(1) by (simp_all add: in_budget_def advances_def attempt_number_def)
  have "tk_doom_retries t1 < doom_max_retries E" if "dc \<noteq> None"
    using that same by (simp add: dc_def split: if_splits)
  then have "advances E t1 (settle_attempt E outcome t1)"
    using run_one_attempt_doom [OF disarmed] run_one_attempt_opening [OF starting] run
    by (intro settle_advances [OF t1(1)]) blast+
  with False run t1(2) show ?thesis by (simp add: attempt_once_def Let_def dc_def)
qed

lemma attempt_in_budget:
  assumes "\<And>n rq h. \<not> stream_reports_loop (te_attempt E n rq h False)"
    and "\<And>n rq h a. \<not> opening_reports_loop (te_attempt E n rq h a)"
    and "in_budget E t" and "attempt_once E t = (again, t')"
  shows "in_budget E t'" and "again \<Longrightarrow> attempt_number t' = Suc (attempt_number t)"
  using attempt_once_advances [OF assms(3,1,2)] assms(4) by (simp_all add: advances_def)

lemma attempt_settled:
  "running w t \<Longrightarrow> attempt_once E t = (True, t') \<Longrightarrow> running w t'"
  "running w t \<Longrightarrow> attempt_once E t = (False, t') \<Longrightarrow> answered w t'"
  using attempt_once_settled [of w t E] by (simp_all add: settled_def)

text \<open>
  C5. Every sampling request ends: after at most as many retries as configured and as many resamples
  as the repetition policy allows it has been answered, with exactly one result for a caller who
  waits and at most one terminal event, which is the last one and about which the result says
  truly whether it was queued. What the loop relies on is that only a stream whose abort is armed
  reports a repetition.
\<close>

theorem request_ends:
  assumes disarmed: "\<And>n rq h. \<not> stream_reports_loop (te_attempt E n rq h False)"
    and starting: "\<And>n rq h a. \<not> opening_reports_loop (te_attempt E n rq h a)"
  shows "\<exists>t. run_request_task E rq waiting = Some t \<and> answered waiting t \<and>
    tk_retries t \<le> task_max_retries E \<and> tk_doom_retries t \<le> doom_max_retries E"
proof (cases "te_client_error E")
  case None
  have "\<exists>r. retry_loop E (task_new rq waiting) = Some r"
  proof (rule retry_loop_returns [where I = "in_budget E" and N = "task_max_retries E + doom_max_retries E"])
    show "in_budget E t' \<and> attempt_number t' = Suc (attempt_number t)"
      if "in_budget E t" "attempt_once E t = (True, t')" for t t'
      using attempt_in_budget [OF assms that] by simp
    show "attempt_number t \<le> task_max_retries E + doom_max_retries E" if "in_budget E t" for t
      using that by (simp add: in_budget_def attempt_number_def)
  qed simp
  then obtain r where r: "retry_loop E (task_new rq waiting) = Some r" by blast
  have "answered waiting r"
    by (rule retry_loop_rule [OF r, where I = "running waiting"]) (simp, (erule (1) attempt_settled)+)
  moreover have "in_budget E r"
    by (rule retry_loop_rule [OF r, where I = "in_budget E"])
      (simp, (erule (1) attempt_in_budget(1) [OF assms])+)
  ultimately show ?thesis using r None by (simp add: run_request_task_def in_budget_def)
next
  case (Some err)
  with give_up_settled [of waiting "task_new rq waiting" E err] show ?thesis
    by (simp add: run_request_task_def settled_def)
qed

section \<open>Output that cannot be taken back\<close>

definition quiet_after_output :: "sampling_event list \<Rightarrow> bool" where
  "quiet_after_output evs \<longleftrightarrow> list_all (\<lambda>e. \<not> is_retrying e) (dropWhile (\<lambda>e. \<not> is_output e) evs)"

definition cautious :: "task \<Rightarrow> bool" where
  "cautious t \<longleftrightarrow>
     quiet_after_output (tk_events t) \<and> (list_ex is_output (tk_events t) \<longrightarrow> tk_output_observed t)"

lemma output_not_retrying: "is_output e \<Longrightarrow> \<not> is_retrying e"
  by (cases e) (simp_all add: is_output_def is_retrying_def)

lemma quiet_snoc:
  "quiet_after_output (evs @ [e]) \<longleftrightarrow>
   quiet_after_output evs \<and> (list_ex is_output evs \<longrightarrow> \<not> is_retrying e)"
  by (induction evs) (auto simp: quiet_after_output_def output_not_retrying)

lemma cautious_emit:
  assumes "cautious t" and "is_output e \<longrightarrow> tk_output_observed t"
    and "is_retrying e \<longrightarrow> \<not> tk_output_observed t"
  shows "cautious (fst (emit E e t))"
  using assms by (auto simp: cautious_def quiet_snoc)

lemma cautious_plain:
  assumes "tk_events t' = tk_events t" and "tk_output_observed t' = tk_output_observed t"
  shows "cautious t' = cautious t"
  using assms by (simp add: cautious_def)

lemma cautious_observed: "cautious t \<Longrightarrow> cautious (t\<lparr>tk_output_observed := True\<rparr>)"
  by (simp add: cautious_def)

lemma cautious_raw: "cautious t \<Longrightarrow> cautious (see_raw_output s t)"
  by (simp add: cautious_def see_raw_output_def)

lemma cautious_updates [simp]:
  "cautious (t\<lparr>tk_request := rq\<rparr>) = cautious t" "cautious (t\<lparr>tk_retries := n\<rparr>) = cautious t"
  "cautious (t\<lparr>tk_http1 := b\<rparr>) = cautious t" "cautious (merge_labels ls t) = cautious t"
  "cautious (note_resample err items t) = cautious t"
  by (simp_all add: cautious_def merge_labels_def note_resample_def Let_def case_prod_unfold)

lemma cautious_sent [simp]: "cautious (send_completion r s) = cautious (fst s)"
  by (simp add: cautious_def)

lemma cautious_failed [simp]: "cautious t \<Longrightarrow> cautious (fst (emit_failed E err t))"
  by (simp add: emit_failed_def cautious_emit)

lemma cautious_cancelled [simp]: "cautious t \<Longrightarrow> cautious (handle_cancellation E t)"
  by (simp add: handle_cancellation_def cautious_emit)

lemma cautious_sleep [simp]: "cautious t \<Longrightarrow> cautious (snd (sleep_or_cancel E n t))"
  by (simp add: sleep_or_cancel_def)

lemma cautious_retrying:
  "cautious t \<Longrightarrow> \<not> tk_output_observed t \<Longrightarrow> cautious (emit_retrying E a m err t)"
  by (simp add: emit_retrying_def Let_def cautious_emit)

lemma cautious_note_retry:
  "cautious t \<Longrightarrow> \<not> tk_output_observed t \<Longrightarrow> cautious (note_retry E err m t)"
  by (simp add: note_retry_def Let_def cautious_retrying)

lemma cautious_emit_stripped [simp]: "cautious t \<Longrightarrow> cautious (emit_images_stripped E us sr t)"
  by (simp add: emit_images_stripped_def cautious_emit)

lemma cautious_strip [simp]: "cautious t \<Longrightarrow> cautious (strip_rejected_upload E err d t)"
  by (simp add: strip_rejected_upload_def Let_def case_prod_unfold)

lemma cautious_give_up [simp]: "cautious t \<Longrightarrow> cautious (snd (give_up E err t))"
  by (simp add: give_up_def)

lemma carry_out_cautious:
  assumes "cautious t" and "\<not> tk_output_observed t"
  shows "cautious (snd (carry_out E err n m d t))"
proof (cases d)
  case RetryWithImageStrip
  with assms show ?thesis
    by (auto simp: carry_out_def Let_def case_prod_unfold simp del: strip_images_urls
        intro!: cautious_note_retry)
next
  case (RetryWithClientRebuild b)
  obtain b2 t2 where t2: "sleep_or_cancel E n (note_retry E err m t) = (b2, t2)" by fastforce
  with cautious_sleep [OF cautious_note_retry [OF assms, of E err m], of E n] have "cautious t2" by simp
  with RetryWithClientRebuild t2 show ?thesis by (cases b2) (simp_all add: carry_out_def)
qed (use assms cautious_note_retry [OF assms] in \<open>simp_all add: carry_out_def\<close>)

lemma apply_retry_cautious:
  "cautious t \<Longrightarrow> \<not> tk_output_observed t \<Longrightarrow> cautious (snd (apply_retry_decision E err m t))"
  by (simp add: apply_retry_decision_def Let_def carry_out_cautious)

lemma apply_no_retry_cautious:
  "cautious t \<Longrightarrow> cautious (snd (apply_retry_decision E err 0 t))"
  using no_budget_ends [of "te_errors E" "te_jitter E (attempt_number t)" err "tk_retries t"
      "rate_threshold E"]
  by (auto simp: apply_retry_decision_def Let_def carry_out_def)

lemma doom_recovery_cautious:
  assumes "cautious t" and "po_only_before_output (te_policy E)"
  shows "cautious (snd (doom_recovery E err items t))"
  using assms by (simp add: doom_recovery_def Let_def cautious_retrying)

lemma settle_cautious:
  assumes "cautious t" and "po_only_before_output (te_policy E)"
  shows "cautious (snd (settle_attempt E outcome t))"
  using assms
  by (cases outcome)
    (simp_all add: settle_attempt_def Let_def apply_retry_cautious apply_no_retry_cautious
      doom_recovery_cautious cautious_emit)

lemma drive_l2_cautious:
  "cautious t \<Longrightarrow> list_all (\<lambda>e. \<not> is_retrying e) evs \<Longrightarrow>
   cautious (snd (drive_l2 E captured doom_check capture policy cancel signals evs t))"
proof (induction evs arbitrary: cancel signals t)
  case (Cons ev evs)
  have forward: "cautious (fst (emit E ev (if is_output ev then t\<lparr>tk_output_observed := True\<rparr> else t)))"
    using Cons.prems by (auto intro!: cautious_emit cautious_observed)
  show ?case
  proof (cases "cancel = Some 0")
    case False
    note IH = Cons.IH [OF forward]
    show ?thesis
    proof (cases ev)
      case (Completed i r m)
      with False Cons.prems show ?thesis
        by (simp add: Let_def on_completed_def cautious_emit cautious_observed)
    next
      case (DoomLoopSignals i ts)
      with False Cons.prems show ?thesis by (simp add: Let_def Cons.IH cautious_emit)
    qed (use False Cons.prems IH in \<open>simp_all add: Let_def\<close>)
  qed (use Cons.prems in simp)
qed simp

lemma attempt_once_cautious:
  assumes "cautious t" and "po_only_before_output (te_policy E)"
    and "\<And>n rq h a s. te_attempt E n rq h a = Streams s \<Longrightarrow> list_all (\<lambda>e. \<not> is_retrying e) (ss_events s)"
  shows "cautious (snd (attempt_once E t))"
proof -
  have "cautious (snd (run_one_attempt E dc t))" for dc
    using assms(1,3) by (auto simp: run_one_attempt_def Let_def drive_l2_cautious cautious_raw
        split: attempt_script.split)
  with assms(1,2) show ?thesis
    by (simp add: attempt_once_def Let_def case_prod_unfold settle_cautious)
qed

text \<open>
  C14. A caller who asked for retries before output only never sees one after it: in the events of
  such a request no retry follows the first token, tool call or backend call, whatever the attempts
  run into and whatever the detector of repetitions reports.
\<close>

theorem no_retry_after_output:
  assumes "po_only_before_output (te_policy E)"
    and streams: "\<And>n rq h a s. te_attempt E n rq h a = Streams s \<Longrightarrow>
      list_all (\<lambda>e. \<not> is_retrying e) (ss_events s)"
    and run: "run_request_task E rq waiting = Some t"
  shows "list_all (\<lambda>e. \<not> is_retrying e) (dropWhile (\<lambda>e. \<not> is_output e) (tk_events t))"
proof -
  have start: "cautious (task_new rq waiting)"
    by (simp add: cautious_def quiet_after_output_def)
  note step = attempt_once_cautious [OF _ assms(1) streams]
  have "cautious t"
  proof (cases "te_client_error E")
    case None
    with run have "retry_loop E (task_new rq waiting) = Some t" by (simp add: run_request_task_def)
    then show ?thesis
      by (rule retry_loop_rule [where I = cautious]) (use start step in \<open>force+\<close>)
  next
    case (Some err)
    with run start show ?thesis by (auto simp: run_request_task_def)
  qed
  then show ?thesis by (simp add: cautious_def quiet_after_output_def)
qed

section \<open>Two requests\<close>

definition demo_errors :: error_env where
  "demo_errors = \<lparr>ee_status_text = (\<lambda>s. dec_of (unat s)),
                  ee_serde_custom = (\<lambda>m. \<lparr>se_text = m, se_line = 0, se_column = 0\<rparr>)\<rparr>"

definition demo_response :: conversation_response where
  "demo_response =
     \<lparr>cr_items = [assistant_message ''done''], cr_stop_reason = Some StopTurn, cr_usage = None,
      cr_cost_usd_ticks = None, cr_message_chunks_emitted = 0, cr_signals = [], cr_stop_message = None,
      cr_message_id = None, cr_raw_stop_reason = None, cr_stop_sequence = None\<rparr>"

definition demo_stats :: inference_stats where
  "demo_stats =
     \<lparr>is_first_token_ms = None, is_last_byte_ms = 0, is_chunk_count = 0, is_intervals_ms = [],
      is_p50_ms = None, is_p99_ms = None, is_max_ms = None, is_mean_ms = None, is_attempts = 0\<rparr>"

definition demo_stream :: "sampling_event list \<Rightarrow> attempt_script" where
  "demo_stream evs = Streams \<lparr>ss_events = evs, ss_raw_output = False, ss_raw_errors = [], ss_recorded = captured_default,
                              ss_cancel_at = None\<rparr>"

text \<open>
  An armed first attempt shows a token and reports a repetition; every other attempt completes.
\<close>

definition demo_env :: "bool \<Rightarrow> task_env" where
  "demo_env only_before_output =
     \<lparr>te_request_id = ''r'', te_errors = demo_errors, te_json_ok = (\<lambda>s. True), te_api = ResponsesApi,
      te_policy = default_request_policy\<lparr>po_only_before_output := only_before_output\<rparr>,
      te_config_max_retries = Some 3, te_env_max_retries = None, te_config_rate_threshold = None,
      te_doom = Some default_doom_policy, te_client_error = None, te_rebuilds = (\<lambda>n. True),
      te_jitter = (\<lambda>n. 0), te_cancelled = (\<lambda>n. False), te_sleep_cancelled = (\<lambda>n. False),
      te_receiver = (\<lambda>n. True),
      te_attempt = (\<lambda>n rq http1 armed. demo_stream
        (if armed \<and> n = 0
         then [FirstToken ''r'', Failed ''r'' (info_of demo_errors (DoomLoopDetected [''loop''] (Some 7)))]
         else [FirstToken ''r'', Completed ''r'' demo_response demo_stats]))\<rparr>"

lemma demo_attempts:
  "\<not> stream_reports_loop (te_attempt (demo_env b) n rq h False)"
  "\<not> opening_reports_loop (te_attempt (demo_env b) n rq h a)"
  by (simp_all add: demo_env_def demo_stream_def stream_reports_loop_def opening_reports_loop_def)

theorem request_ends_witness:
  "\<exists>t. run_request_task (demo_env False) (request_from_items [user_message ''hi'']) True = Some t \<and>
     answered True t \<and> tk_retries t \<le> 3 \<and> tk_doom_retries t \<le> 2"
  using request_ends [of "demo_env False", OF demo_attempts]
  by (simp add: demo_env_def task_max_retries_def doom_max_retries_def resolve_max_retries_def
      default_doom_policy_def)

lemma demo_run:
  "\<exists>t. run_request_task (demo_env True) (request_from_items [user_message ''hi'']) True = Some t \<and>
     length (tk_events t) = 2 \<and> list_ex is_output (tk_events t)"
  by (simp add: run_request_task_def retry_loop.simps attempt_once_def run_one_attempt_def see_raw_output_def
      settle_attempt_def doom_recovery_def demo_env_def demo_stream_def Let_def on_failed_def tee_errors_def
      synthesize_from_info_def info_of_def kind_of_def is_doom_loop_def is_output_def emit_def emit_failed_def
      send_completion_def default_doom_policy_def doom_max_retries_def task_new_def attempt_number_def
      merge_labels_def default_request_policy_def)

theorem no_retry_after_output_witness:
  "\<exists>t. run_request_task (demo_env True) (request_from_items [user_message ''hi'']) True = Some t \<and>
     list_ex is_output (tk_events t) \<and>
     list_all (\<lambda>e. \<not> is_retrying e) (dropWhile (\<lambda>e. \<not> is_output e) (tk_events t))"
proof -
  obtain t where run: "run_request_task (demo_env True) (request_from_items [user_message ''hi'']) True = Some t"
    and out: "list_ex is_output (tk_events t)" using demo_run by blast
  have "list_all (\<lambda>e. \<not> is_retrying e) (dropWhile (\<lambda>e. \<not> is_output e) (tk_events t))"
    by (rule no_retry_after_output [OF _ _ run])
      (auto simp: demo_env_def demo_stream_def is_retrying_def)
  with run out show ?thesis by blast
qed

end
