(* ===== verification/SamplingErrorLaws.thy ===== *)
theory SamplingErrorLaws imports SamplingRetry begin

text \<open>
  What survives of an error on its way to the retry loop, and the waiting times.
\<close>

section \<open>Errors that are rebuilt\<close>

lemma digit_plain: "is_dec_digit c \<Longrightarrow> is_plain c"
  by (auto simp: is_dec_digit_def is_plain_def)

lemma dec_digits_plain: "list_all is_plain (dec_of n)"
  using dec_of_digits [of n] digit_plain by (auto simp: list_all_iff)

lemma timeout_words:
  "split_whitespace (error_text N (IdleTimeout n)) =
     [''inference'', ''idle'', ''timeout'', ''after'', dec_of n @ ''s'', ''with'', ''no'', ''chunks'']"
proof -
  have word: "split_ws_from [] (w @ CHR '' '' # s) = w # split_ws_from [] s"
    if "w \<noteq> []" "list_all is_plain w" for w s
    using that by (simp add: split_ws_plain split_ws_space del: split_ws_from.simps)
  have last: "split_ws_from [] w = [w]" if "w \<noteq> []" "list_all is_plain w" for w
    using split_ws_plain [OF that(2), of "[]" "[]"] that(1) by simp
  have text_eq: "error_text N (IdleTimeout n) =
      ''inference'' @ CHR '' '' # ''idle'' @ CHR '' '' # ''timeout'' @ CHR '' '' # ''after'' @ CHR '' '' #
      (dec_of n @ ''s'') @ CHR '' '' # ''with'' @ CHR '' '' # ''no'' @ CHR '' '' # ''chunks''"
    by (simp add: error_text_def)
  have plain: "list_all is_plain (dec_of n @ ''s'')" "list_all is_plain ''inference''"
    "list_all is_plain ''idle''" "list_all is_plain ''timeout''" "list_all is_plain ''after''"
    "list_all is_plain ''with''" "list_all is_plain ''no''" "list_all is_plain ''chunks''"
    using dec_digits_plain [of n] by (simp_all add: is_plain_def)
  show ?thesis unfolding text_eq split_whitespace_def
    by (simp only: word plain last not_Cons_self2 list.distinct append_is_Nil_conv simp_thms)
qed

lemma timeout_seconds:
  "n \<le> u64_max \<Longrightarrow> find_seconds (split_whitespace (error_text N (IdleTimeout n))) = Some n"
proof -
  assume "n \<le> u64_max"
  have none: "strip_suffix ''s'' ''inference'' = None" "strip_suffix ''s'' ''idle'' = None"
    "strip_suffix ''s'' ''timeout'' = None" "strip_suffix ''s'' ''after'' = None"
    by (simp_all add: strip_suffix_None ends_with_def starts_with_def)
  with \<open>n \<le> u64_max\<close> show ?thesis by (simp add: timeout_words)
qed

text \<open>The errors that a consumer can rebuild without loss.\<close>

definition rebuildable :: "error_env \<Rightarrow> sampling_error \<Rightarrow> bool" where
  "rebuildable N err \<longleftrightarrow>
     (case err of
        AuthError m c \<Rightarrow> True
      | SerializationError e \<Rightarrow> ee_serde_custom N (se_text e) = e
      | IdleTimeout n \<Rightarrow> n \<le> u64_max
      | EmptyResponse c \<Rightarrow> True
      | MaxTokensTruncation \<Rightarrow> True
      | DoomLoopDetected triggers chunk \<Rightarrow> True
      | _ \<Rightarrow> False)"

text \<open>
  The decision on an error without the copy of the error that it may carry, and the condition under
  which the decision does not depend on how the error was rendered: the rendering holds a marker
  that decides exactly when the message does. A stream error has no marker of an image to look for.
\<close>

definition without_error :: "retry_decision \<Rightarrow> retry_decision" where
  "without_error d =
     (case d of
        EmitToSession err \<Rightarrow> EmitToSession MaxTokensTruncation
      | FatalError err \<Rightarrow> FatalError MaxTokensTruncation
      | _ \<Rightarrow> d)"

definition decisive_markers :: "string list" where
  "decisive_markers = [''encrypted_content'', ''Could not process image'', IMAGE_CONTENT_PATH_MARKER]"

definition same_markers :: "error_env \<Rightarrow> sampling_error \<Rightarrow> bool" where
  "same_markers N err \<longleftrightarrow>
     (case err of
        ApiError a \<Rightarrow>
          list_all (\<lambda>mark. contains (error_text N err) mark = contains (af_message a) mark) decisive_markers \<and>
          is_context_length_message (error_text N err) = is_context_length_message (af_message a)
      | StreamError error_type m code \<Rightarrow>
          list_all (\<lambda>mark. \<not> contains (error_text N err) mark) decisive_markers \<and>
          is_context_length_message (error_text N err) = is_context_length_message m
      | _ \<Rightarrow> True)"

definition valid_status :: "sampling_error \<Rightarrow> bool" where
  "valid_status err \<longleftrightarrow> (case err of ApiError a \<Rightarrow> 100 \<le> af_status a \<and> af_status a < 1000 | _ \<Rightarrow> True)"

definition rebuilt :: "error_env \<Rightarrow> sampling_error \<Rightarrow> sampling_error" where
  "rebuilt N err = synthesize_from_info N (info_of N err)"

lemma rebuilt_api:
  "100 \<le> af_status a \<Longrightarrow> af_status a < 1000 \<Longrightarrow>
    rebuilt N (ApiError a) = ApiError (a\<lparr>af_message := error_text N (ApiError a)\<rparr>)"
  by (simp add: rebuilt_def synthesize_from_info_def info_of_def kind_of_def error_metadata_def
      retry_after_def should_retry_header_def)

lemma rebuilt_stream:
  "rebuilt N (StreamError error_type m code) =
    ApiError \<lparr>af_status = 500, af_message = error_text N (StreamError error_type m code), af_metadata = None,
      af_retry_after = None, af_should_retry = None, af_code = code\<rparr>"
  by (simp add: rebuilt_def synthesize_from_info_def info_of_def kind_of_def error_metadata_def
      retry_after_def should_retry_header_def)

lemma rebuilt_exactly: "rebuildable N err \<Longrightarrow> rebuilt N err = err"
proof (cases err)
  case (IdleTimeout n)
  moreover assume "rebuildable N err"
  ultimately show ?thesis
    using timeout_seconds [of n N]
    by (simp add: rebuilt_def rebuildable_def synthesize_from_info_def info_of_def kind_of_def)
next
  case (SerializationError e)
  moreover have "strip_prefix p (p @ s) = Some s" for p s :: string by (simp add: strip_prefix_def)
  moreover assume "rebuildable N err"
  ultimately show ?thesis
    by (simp add: rebuilt_def rebuildable_def synthesize_from_info_def info_of_def kind_of_def error_text_def
        serialization_from_rendered_def serialization_message_def)
qed (simp_all add: rebuilt_def rebuildable_def synthesize_from_info_def info_of_def kind_of_def error_text_def)

lemmas error_tests = is_auth_error_def is_encrypted_content_error_def is_payload_too_large_def
  is_byte_size_overflow_coded_def is_image_processing_error_def is_retry_vetoed_def
  should_retry_header_def is_context_length_error_def is_doom_loop_def is_rate_limited_def
  is_retryable_def retry_after_def is_http_def

lemma server_error_retryable: "is_retryable_api_status 500"
  by (simp add: is_retryable_api_status_def should_retry_def classify_def edge_client_policy_def)

lemma classify_cong:
  assumes "is_auth_error e = is_auth_error f" and "is_encrypted_content_error e = is_encrypted_content_error f"
    and "is_payload_too_large e = is_payload_too_large f"
    and "is_byte_size_overflow_coded e = is_byte_size_overflow_coded f"
    and "is_image_processing_error e = is_image_processing_error f"
    and "is_retry_vetoed e = is_retry_vetoed f" and "is_doom_loop e = is_doom_loop f"
    and "is_rate_limited e = is_rate_limited f" and "is_retryable e = is_retryable f"
    and "retry_after e = retry_after f" and "is_http e = is_http f"
  shows "without_error (classify_error N j e k m r) = without_error (classify_error N j f k m r)"
  by (simp add: classify_error_def assms Let_def without_error_def)

lemma same_decision_api:
  assumes "err = ApiError a" and "valid_status err" and "same_markers N err"
  shows "without_error (classify_error N j (rebuilt N err) k m r) = without_error (classify_error N j err k m r)"
proof -
  have eq: "rebuilt N err = ApiError (a\<lparr>af_message := error_text N err\<rparr>)"
    using assms(1,2) rebuilt_api [of a N] by (simp add: valid_status_def)
  have marks: "contains (error_text N err) ''encrypted_content'' = contains (af_message a) ''encrypted_content''"
    "contains (error_text N err) ''Could not process image'' = contains (af_message a) ''Could not process image''"
    "contains (error_text N err) IMAGE_CONTENT_PATH_MARKER = contains (af_message a) IMAGE_CONTENT_PATH_MARKER"
    "is_context_length_message (error_text N err) = is_context_length_message (af_message a)"
    using assms(1,3) by (simp_all add: same_markers_def decisive_markers_def)
  show ?thesis
    unfolding eq by (rule classify_cong) (simp_all add: assms(1) error_tests marks [unfolded assms(1)])
qed

lemma same_decision_stream:
  assumes "err = StreamError error_type msg code" and "same_markers N err"
  shows "without_error (classify_error N j (rebuilt N err) k m r) = without_error (classify_error N j err k m r)"
proof -
  have marks: "\<not> contains (error_text N err) ''Could not process image''"
    "\<not> contains (error_text N err) IMAGE_CONTENT_PATH_MARKER"
    "is_context_length_message (error_text N err) = is_context_length_message msg"
    using assms by (simp_all add: same_markers_def decisive_markers_def)
  show ?thesis
    unfolding assms(1) rebuilt_stream
    by (rule classify_cong) (simp_all add: error_tests server_error_retryable marks [unfolded assms(1)])
qed

text \<open>
  C33. What the mirror of an error keeps for the retry loop, when the error itself is not at hand:
  failures of authentication, parsing, time, content, length and repetition come back as they were,
  the seconds of a timeout read back from its message; an error of the API comes back with its
  rendering as its message and everything else as it was, an error of the stream as a server error
  with its rendering and its code; and the decision on an error of the API or of the stream is the
  same, with the same waiting time, unless the rendering adds or hides a text that decides: that of an
  image, of encrypted content or of the length of the context. (An error of the transport comes back
  as an error of the event stream and is not covered.)
\<close>

theorem rebuilt_error_is_the_same:
  "(rebuildable N err \<longrightarrow> synthesize_from_info N (info_of N err) = err) \<and>
   (\<forall>a. err = ApiError a \<and> valid_status err \<longrightarrow>
      synthesize_from_info N (info_of N err) = ApiError (a\<lparr>af_message := error_text N err\<rparr>)) \<and>
   (\<forall>error_type msg code. err = StreamError error_type msg code \<longrightarrow>
      synthesize_from_info N (info_of N err) =
        ApiError \<lparr>af_status = 500, af_message = error_text N err, af_metadata = None,
          af_retry_after = None, af_should_retry = None, af_code = code\<rparr>) \<and>
   ((\<exists>a. err = ApiError a) \<or> (\<exists>error_type msg code. err = StreamError error_type msg code) \<longrightarrow>
      valid_status err \<longrightarrow> same_markers N err \<longrightarrow>
      without_error (classify_error N j (synthesize_from_info N (info_of N err)) k m r) =
        without_error (classify_error N j err k m r))"
proof -
  have "rebuildable N err \<longrightarrow> rebuilt N err = err" by (blast intro: rebuilt_exactly)
  moreover have "\<forall>a. err = ApiError a \<and> valid_status err \<longrightarrow>
      rebuilt N err = ApiError (a\<lparr>af_message := error_text N err\<rparr>)"
    by (auto simp: valid_status_def rebuilt_api)
  moreover have "\<forall>error_type msg code. err = StreamError error_type msg code \<longrightarrow>
      rebuilt N err = ApiError \<lparr>af_status = 500, af_message = error_text N err, af_metadata = None,
          af_retry_after = None, af_should_retry = None, af_code = code\<rparr>"
    by (auto simp: rebuilt_stream)
  moreover have "(\<exists>a. err = ApiError a) \<or> (\<exists>error_type msg code. err = StreamError error_type msg code) \<longrightarrow>
      valid_status err \<longrightarrow> same_markers N err \<longrightarrow>
      without_error (classify_error N j (rebuilt N err) k m r) = without_error (classify_error N j err k m r)"
  proof (intro impI)
    assume kind: "(\<exists>a. err = ApiError a) \<or> (\<exists>error_type msg code. err = StreamError error_type msg code)"
      and status: "valid_status err" and marks: "same_markers N err"
    from kind show "without_error (classify_error N j (rebuilt N err) k m r) =
        without_error (classify_error N j err k m r)"
    proof
      assume "\<exists>a. err = ApiError a"
      then obtain a where "err = ApiError a" ..
      from same_decision_api [OF this status marks] show ?thesis .
    next
      assume "\<exists>error_type msg code. err = StreamError error_type msg code"
      then obtain error_type msg code where "err = StreamError error_type msg code" by blast
      from same_decision_stream [OF this marks] show ?thesis .
    qed
  qed
  ultimately show ?thesis unfolding rebuilt_def by (intro conjI)
qed

definition custom_serde :: error_env where
  "custom_serde = \<lparr>ee_status_text = (\<lambda>s. dec_of (unat s)),
                   ee_serde_custom = (\<lambda>m. \<lparr>se_text = m, se_line = 0, se_column = 0\<rparr>)\<rparr>"

definition invalid_image_error :: sampling_error where
  "invalid_image_error = StreamError ''api_error'' ''bad request'' (Some InvalidImage)"

theorem rebuilt_error_is_the_same_witness:
  "synthesize_from_info custom_serde (info_of custom_serde (IdleTimeout 300)) = IdleTimeout 300 \<and>
   without_error (classify_error custom_serde 0
     (synthesize_from_info custom_serde (info_of custom_serde invalid_image_error)) 0 3 3) = RetryWithImageStrip"
proof
  show "synthesize_from_info custom_serde (info_of custom_serde (IdleTimeout 300)) = IdleTimeout 300"
    using rebuilt_error_is_the_same [of custom_serde "IdleTimeout 300"]
    by (simp add: rebuildable_def u64_max_def)
  have "same_markers custom_serde invalid_image_error" by code_simp
  moreover have "valid_status invalid_image_error" by (simp add: valid_status_def invalid_image_error_def)
  moreover have "without_error (classify_error custom_serde 0 invalid_image_error 0 3 3) = RetryWithImageStrip"
    by code_simp
  moreover have "\<exists>error_type msg code. invalid_image_error = StreamError error_type msg code"
    by (simp add: invalid_image_error_def)
  ultimately show "without_error (classify_error custom_serde 0
      (synthesize_from_info custom_serde (info_of custom_serde invalid_image_error)) 0 3 3) = RetryWithImageStrip"
    using rebuilt_error_is_the_same [of custom_serde invalid_image_error 0 0 3 3] by metis
qed

text \<open>
  The rendering decides where the error did not: a stream error without a code whose message speaks of
  an image is not one of an image, but its mirror, a server error, is, and the images of the request
  are taken out.
\<close>

lemma mirror_strips_images:
  "let err = StreamError ''api_error'' ''Could not process image'' None in
   \<not> is_image_processing_error err \<and>
   is_image_processing_error (synthesize_from_info custom_serde (info_of custom_serde err))"
  unfolding Let_def by (intro conjI; code_simp)

section \<open>Waiting times\<close>

definition within_a_fifth :: "nat \<Rightarrow> nat \<Rightarrow> bool" where
  "within_a_fifth base wait \<longleftrightarrow> base - base div 5 \<le> wait \<and> wait \<le> base + base div 5"

lemma jitter_within: "within_a_fifth base (jitter_backoff j base)"
  by (simp add: within_a_fifth_def jitter_bounds)

text \<open>Two thousand is 125 times 16, so that a shift by sixty leaves no bit of it.\<close>

lemma retry_base_upto_60:
  assumes "5 \<le> n" and "n \<le> 60"
  shows "retry_base n = MAX_RETRY_BACKOFF"
proof (cases "n \<le> 54")
  case True
  from assms(1) have "(2::nat) ^ 4 \<le> 2 ^ (n - 1)" by (intro power_increasing) simp_all
  then show ?thesis using retry_base_exact [OF True] by (simp add: MAX_RETRY_BACKOFF_def)
next
  case False
  with assms(2) have "n = 55 \<or> n = 56 \<or> n = 57 \<or> n = 58 \<or> n = 59 \<or> n = 60" by linarith
  then show ?thesis
    by (elim disjE) (simp_all add: retry_base_def checked_shl64_def wrap64_def MAX_RETRY_BACKOFF_def)
qed

lemma retry_base_61_64:
  assumes "61 \<le> n" and "n \<le> 64"
  shows "retry_base n = 0"
proof -
  from assms have "n = 61 \<or> n = 62 \<or> n = 63 \<or> n = 64" by linarith
  then show ?thesis by (elim disjE) (simp_all add: retry_base_def checked_shl64_def wrap64_def)
qed

lemma retry_base_every:
  "retry_base n =
    (if n \<le> 60 then min (2000 * 2 ^ (n - 1)) MAX_RETRY_BACKOFF
     else if n \<le> 64 then 0 else MAX_RETRY_BACKOFF)"
proof (cases "n < 5")
  case True
  then show ?thesis using retry_base_exact [of n] by simp
next
  case False
  then have "(2::nat) ^ 4 \<le> 2 ^ (n - 1)" by (intro power_increasing) simp_all
  then have "min (2000 * 2 ^ (n - 1)) MAX_RETRY_BACKOFF = MAX_RETRY_BACKOFF"
    by (simp add: MAX_RETRY_BACKOFF_def min_def)
  moreover have "retry_base n = MAX_RETRY_BACKOFF" if "64 < n"
  proof -
    from that have "\<not> n - 1 < 64" by simp
    then show ?thesis by (simp add: retry_base_def checked_shl64_def MAX_RETRY_BACKOFF_def u64_max_def Let_def)
  qed
  ultimately show ?thesis using False retry_base_upto_60 [of n] retry_base_61_64 [of n] by simp
qed

text \<open>
  C40. The waiting time before the \<open>n\<close>-th retry, whatever the jitter: up to the sixtieth it is within
  a fifth of two seconds doubled \<open>n - 1\<close> times, or of thirty seconds when that is less; from the
  sixty-first to the sixty-fourth the shift has lost every bit of the two seconds and the loop does not
  wait at all; after that it is within a fifth of thirty seconds. Where the time of the server is asked
  for first, a time above zero is taken, within a fifth and up to thirty seconds, and otherwise the
  waiting time is the one above. (After a rate limit the time of the server is taken as it is.)
\<close>

theorem backoff_vanishes:
  "(let base = (if n \<le> 60 then min (2000 * 2 ^ (n - 1)) 30000 else if n \<le> 64 then 0 else 30000)
    in within_a_fifth base (retry_backoff_with_jitter j n) \<and>
       (case secs of
          Some (Suc s) \<Rightarrow> within_a_fifth (min (Suc s * 1000) 30000) (retry_after_or_backoff j n secs)
        | _ \<Rightarrow> retry_after_or_backoff j n secs = retry_backoff_with_jitter j n))"
  using jitter_within [of "retry_base n" j] jitter_within
  by (auto simp: retry_base_every [of n] retry_backoff_with_jitter_def retry_after_or_backoff_def
      MAX_RETRY_BACKOFF_def Let_def split: option.split nat.split)

end
