(* ===== verification/ChatUsage.thy ===== *)
theory ChatUsage imports ConversationTurn ConversationCut TokenEst Breaker begin

text \<open>
  The numbers a conversation carries (\<^verbatim>\<open>xai-chat-state/src/actor/state.rs\<close>, \<^verbatim>\<open>usage.rs\<close>,
  \<^verbatim>\<open>reseed_total_tokens\<close> of \<^verbatim>\<open>mutations.rs\<close>) and the query text of an item
  (\<^verbatim>\<open>compaction_utils.rs\<close>): estimates from bytes, the ledgers of what was billed, and the
  scaling of an estimate by what the provider reported, with the rounding of doubles written out.
\<close>

section \<open>Estimates\<close>

record tool_spec =
  ts_name :: string
  ts_description :: "string option"
  ts_parameters :: json

definition estimate_system_message_tokens :: "conversation_item \<Rightarrow> nat" where
  "estimate_system_message_tokens item =
     (case item of System s \<Rightarrow> estimate_tokens (si_content s) | _ \<Rightarrow> 0)"

text \<open>\<open>print\<close> is \<^verbatim>\<open>serde_json::Value::to_string\<close>.\<close>

definition estimate_tool_tokens :: "(json \<Rightarrow> string) \<Rightarrow> string \<Rightarrow> string option \<Rightarrow> json \<Rightarrow> nat" where
  "estimate_tool_tokens print name description parameters =
     (length name + length (unwrap_or [] description) + length (print parameters)) div BYTES_PER_TOKEN"

definition estimate_tool_specs_tokens :: "(json \<Rightarrow> string) \<Rightarrow> tool_spec list \<Rightarrow> nat" where
  "estimate_tool_specs_tokens print tools =
     sum_list (map (\<lambda>t. estimate_tool_tokens print (ts_name t) (ts_description t) (ts_parameters t)) tools)"

fun part_bytes :: "content_part \<Rightarrow> nat" where
  "part_bytes (TextPart s) = length s"
| "part_bytes (ImagePart url) = 0"

definition estimate_item_tokens :: "conversation_item \<Rightarrow> nat" where
  "estimate_item_tokens item =
     (case item of
        System s \<Rightarrow> estimate_tokens (si_content s)
      | User u \<Rightarrow>
          sum_list (map part_bytes (ui_content u)) div BYTES_PER_TOKEN +
          estimate_image_tokens (length (filter part_is_image (ui_content u)))
      | Assistant a \<Rightarrow>
          (length (ai_content a) + sum_list (map (\<lambda>tc. length (tc_arguments tc)) (ai_tool_calls a)))
            div BYTES_PER_TOKEN
      | ToolResult t \<Rightarrow> estimate_tokens (tr_content t)
      | BackendToolCall b \<Rightarrow> estimate_tokens (text_summary b)
      | Reasoning r \<Rightarrow>
          (let text_bytes = length (reasoning_item_text r);
               enc_bytes = (case re_encrypted r of Some e \<Rightarrow> length e | None \<Rightarrow> 0)
           in max text_bytes (enc_bytes * 3 div 4) div BYTES_PER_TOKEN))"

definition estimate_conversation_tokens :: "conversation_item list \<Rightarrow> nat" where
  "estimate_conversation_tokens items = sum_list (map estimate_item_tokens items)"

definition count_item_tokens :: "conversation_item \<Rightarrow> nat" where
  "count_item_tokens item = min (estimate_item_tokens item) u32_max"

definition is_system :: "conversation_item \<Rightarrow> bool" where
  "is_system item \<longleftrightarrow> (case item of System s \<Rightarrow> True | _ \<Rightarrow> False)"

definition estimate_messages_tokens :: "conversation_item list \<Rightarrow> nat" where
  "estimate_messages_tokens items =
     sum_list (map estimate_item_tokens (filter (\<lambda>i. \<not> is_system i) items))"

section \<open>Doubles\<close>

text \<open>
  A positive double is a fraction. \<open>f64_of\<close> is the double next to \<open>n / d\<close>, ties to even: the
  quotient is scaled until its integer part has 53 bits. Neither an overflow nor a subnormal occurs
  below, as every exponent lies between \<open>-64\<close> and \<open>192\<close>.
\<close>

type_synonym pos_f64 = "nat \<times> nat"

function shrink_shift :: "nat \<Rightarrow> nat \<Rightarrow> nat \<Rightarrow> nat" where
  "shrink_shift n d j =
     (if d = 0 \<or> n < 2 ^ 53 * d * 2 ^ j then j else shrink_shift n d (Suc j))"
  by pat_completeness auto
termination
proof (relation "measure (\<lambda>(n, d, j). Suc n - 2 ^ 53 * d * 2 ^ j)", goal_cases)
  case (2 n d j)
  then have "2 ^ 53 * d * 2 ^ j < 2 ^ 53 * d * 2 ^ Suc j" "2 ^ 53 * d * 2 ^ j \<le> n" by simp_all
  then show ?case unfolding in_measure prod.case by linarith
qed simp

declare shrink_shift.simps [simp del]

definition f64_of :: "nat \<Rightarrow> nat \<Rightarrow> pos_f64" where
  "f64_of n d =
     (if n < 2 ^ 53 * d
      then (let k = scale_shift n d 0 in (round_half_even (n * 2 ^ k) d, 2 ^ k))
      else (let j = shrink_shift n d 0 in (round_half_even n (d * 2 ^ j) * 2 ^ j, 1)))"

definition f64_from_u64 :: "nat \<Rightarrow> pos_f64" where
  "f64_from_u64 n = f64_of n 1"

definition f64_quotient :: "pos_f64 \<Rightarrow> pos_f64 \<Rightarrow> pos_f64" where
  "f64_quotient x y = f64_of (fst x * snd y) (snd x * fst y)"

definition f64_product :: "pos_f64 \<Rightarrow> pos_f64 \<Rightarrow> pos_f64" where
  "f64_product x y = f64_of (fst x * fst y) (snd x * snd y)"

text \<open>\<^verbatim>\<open>round() as u64\<close>: to the nearest integer, halves up, saturating.\<close>

definition f64_round_u64 :: "pos_f64 \<Rightarrow> nat" where
  "f64_round_u64 x = min u64_max ((2 * fst x + snd x) div (2 * snd x))"

definition scale_estimate :: "nat \<Rightarrow> nat \<Rightarrow> nat \<Rightarrow> nat" where
  "scale_estimate base total_tokens estimate =
     (let ratio = f64_quotient (f64_from_u64 total_tokens) (f64_from_u64 estimate)
      in f64_round_u64 (f64_product (f64_from_u64 base) ratio))"

text \<open>The total and the estimate at the last response, and the estimate after the rewrite.\<close>

definition reseed_total_tokens :: "nat \<Rightarrow> nat \<Rightarrow> nat \<Rightarrow> nat" where
  "reseed_total_tokens total_tokens estimate base =
     (let tokens = (if total_tokens > 0 \<and> estimate > 0 then scale_estimate base total_tokens estimate else base)
      in if total_tokens > 0 then min tokens total_tokens else tokens)"

section \<open>Ledgers\<close>

record usage_totals =
  ut_input :: nat
  ut_output :: nat
  ut_cached_read :: nat
  ut_cache_creation :: nat
  ut_reasoning :: nat
  ut_model_calls :: nat
  ut_api_duration_ms :: nat
  ut_cost_usd_ticks :: "int option"
  ut_cost_missing_calls :: nat

definition zero_totals :: usage_totals where
  "zero_totals =
     \<lparr>ut_input = 0, ut_output = 0, ut_cached_read = 0, ut_cache_creation = 0, ut_reasoning = 0,
      ut_model_calls = 0, ut_api_duration_ms = 0, ut_cost_usd_ticks = None, ut_cost_missing_calls = 0\<rparr>"

definition totals_from_call :: "token_usage \<Rightarrow> nat option \<Rightarrow> int option \<Rightarrow> usage_totals" where
  "totals_from_call usage api_duration_ms cost =
     (let cost = reported_cost_ticks cost
      in \<lparr>ut_input = tu_prompt usage, ut_output = tu_completion usage,
          ut_cached_read = tu_cached_prompt usage, ut_cache_creation = tu_cache_creation usage,
          ut_reasoning = tu_reasoning usage, ut_model_calls = 1,
          ut_api_duration_ms = unwrap_or 0 api_duration_ms, ut_cost_usd_ticks = cost,
          ut_cost_missing_calls = (if cost = None then 1 else 0)\<rparr>)"

definition totals_total_tokens :: "usage_totals \<Rightarrow> nat" where
  "totals_total_tokens t = sat_add64 (ut_input t) (ut_output t)"

definition cost_is_partial :: "usage_totals \<Rightarrow> bool" where
  "cost_is_partial t \<longleftrightarrow> ut_cost_usd_ticks t \<noteq> None \<and> ut_cost_missing_calls t > 0"

definition sat_add_i64 :: "int \<Rightarrow> int \<Rightarrow> int" where
  "sat_add_i64 a b = max (- (2 ^ 63)) (min (2 ^ 63 - 1) (a + b))"

definition merge_cost_ticks :: "int option \<Rightarrow> int option \<Rightarrow> int option" where
  "merge_cost_ticks a b =
     (if a = None \<and> b = None then None else Some (sat_add_i64 (unwrap_or 0 a) (unwrap_or 0 b)))"

definition fold_totals :: "usage_totals \<Rightarrow> usage_totals \<Rightarrow> usage_totals" where
  "fold_totals other t =
     \<lparr>ut_input = sat_add64 (ut_input t) (ut_input other),
      ut_output = sat_add64 (ut_output t) (ut_output other),
      ut_cached_read = sat_add64 (ut_cached_read t) (ut_cached_read other),
      ut_cache_creation = sat_add64 (ut_cache_creation t) (ut_cache_creation other),
      ut_reasoning = sat_add64 (ut_reasoning t) (ut_reasoning other),
      ut_model_calls = sat_add64 (ut_model_calls t) (ut_model_calls other),
      ut_api_duration_ms = sat_add64 (ut_api_duration_ms t) (ut_api_duration_ms other),
      ut_cost_usd_ticks = merge_cost_ticks (ut_cost_usd_ticks t) (ut_cost_usd_ticks other),
      ut_cost_missing_calls = sat_add64 (ut_cost_missing_calls t) (ut_cost_missing_calls other)\<rparr>"

text \<open>The map of the models is an \<^verbatim>\<open>IndexMap\<close>: a new key goes to the end.\<close>

record usage_ledger =
  ul_totals :: usage_totals
  ul_by_model :: "(string, usage_totals) hmap"
  ul_main_loop_model_calls :: nat
  ul_incomplete :: bool

definition empty_ledger :: usage_ledger where
  "empty_ledger = \<lparr>ul_totals = zero_totals, ul_by_model = [], ul_main_loop_model_calls = 0,
                   ul_incomplete = False\<rparr>"

definition fold_entry :: "string \<Rightarrow> usage_totals \<Rightarrow> usage_ledger \<Rightarrow> usage_ledger" where
  "fold_entry model_id totals l =
     l\<lparr>ul_totals := fold_totals totals (ul_totals l),
       ul_by_model := hm_ins model_id
         (fold_totals totals (unwrap_or zero_totals (hm_get (ul_by_model l) model_id))) (ul_by_model l)\<rparr>"

definition record_main_loop_call ::
    "string \<Rightarrow> token_usage \<Rightarrow> nat option \<Rightarrow> int option \<Rightarrow> usage_ledger \<Rightarrow> usage_ledger" where
  "record_main_loop_call model_id usage api_duration_ms cost l =
     fold_entry model_id (totals_from_call usage api_duration_ms cost)
       (l\<lparr>ul_main_loop_model_calls := sat_add64 (ul_main_loop_model_calls l) 1\<rparr>)"

definition mark_incomplete :: "usage_ledger \<Rightarrow> usage_ledger" where
  "mark_incomplete l = l\<lparr>ul_incomplete := True\<rparr>"

definition record_subagent :: "(string \<times> usage_totals) list \<Rightarrow> bool \<Rightarrow> usage_ledger \<Rightarrow> usage_ledger" where
  "record_subagent by_model incomplete l =
     (let l = fold (\<lambda>(model_id, totals). fold_entry model_id totals) by_model l
      in if incomplete then mark_incomplete l else l)"

section \<open>Leading system message\<close>

definition trim_end_newlines :: "string \<Rightarrow> string" where
  "trim_end_newlines s = rev (dropWhile (\<lambda>c. c = newline \<or> c = CHR 0x0D) (rev s))"

definition canonical_system_prompt_eq :: "string \<Rightarrow> string \<Rightarrow> bool" where
  "canonical_system_prompt_eq a b \<longleftrightarrow> trim_end_newlines a = trim_end_newlines b"

definition replace_or_insert_system_head ::
    "conversation_item list \<Rightarrow> string \<Rightarrow> conversation_item list \<times> bool" where
  "replace_or_insert_system_head c prompt =
     (case c of
        System s # rest \<Rightarrow>
          (if canonical_system_prompt_eq (si_content s) prompt then (c, False)
           else (System (s\<lparr>si_content := prompt\<rparr>) # rest, True))
      | _ \<Rightarrow> (system_prompt prompt # c, True))"

end
