(* ===== verification/ImageBudget.thy ===== *)
theory ImageBudget imports ConversationTurn begin

text \<open>
  The byte budget for the images of a request (\<^verbatim>\<open>xai-chat-state/src/image_budget.rs\<close>): once the
  body reaches the trigger, the oldest images are replaced until the estimate of its size is at the
  low-water mark. \<open>json_sizes\<close> is the length that \<^verbatim>\<open>serde_json\<close> writes for a conversation, a
  part and a string. An \<^verbatim>\<open>unreachable!\<close> is the value \<open>None\<close>.
\<close>

section \<open>Sizes\<close>

record json_sizes =
  js_items :: "conversation_item list \<Rightarrow> nat"
  js_part :: "content_part \<Rightarrow> nat"
  js_str :: "string \<Rightarrow> nat"

definition IMAGE_COMPACT_PLACEHOLDER :: string where
  "IMAGE_COMPACT_PLACEHOLDER =
     ''[An earlier image was removed to keep the request within its size limit and is no longer visible. '' @
     ''Do not describe or reason about its contents from memory; ask the user to re-share it if you need '' @
     ''to see it again.]''"

definition TOOL_IMAGE_COMPACT_NOTE :: string where
  "TOOL_IMAGE_COMPACT_NOTE =
     ''[One or more images from this tool result were removed to keep the request within its size limit '' @
     ''and are no longer visible. Do not describe or reason about their contents from memory.]''"

definition MAX_REQUEST_BYTES :: nat where
  "MAX_REQUEST_BYTES = 50 * 1024 * 1024"

definition IMAGE_COMPACT_TRIGGER_BYTES :: nat where
  "IMAGE_COMPACT_TRIGGER_BYTES = MAX_REQUEST_BYTES - 3 * 1024 * 1024"

definition IMAGE_COMPACT_RECLAIM_TARGET_BYTES :: nat where
  "IMAGE_COMPACT_RECLAIM_TARGET_BYTES = MAX_REQUEST_BYTES div 2"

definition inline_image_count :: "conversation_item list \<Rightarrow> nat" where
  "inline_image_count c =
     sum_list (map (\<lambda>item. case item of
         User u \<Rightarrow> length (filter part_is_image (ui_content u))
       | ToolResult t \<Rightarrow> length (filter part_is_image (tr_images t))
       | _ \<Rightarrow> 0) c)"

definition encoded_url_bytes :: "json_sizes \<Rightarrow> string \<Rightarrow> nat" where
  "encoded_url_bytes S url =
     (case split_once (CHR '','') url of
        None \<Rightarrow> sat_sub (js_str S url) 2
      | Some (header, base64_tail) \<Rightarrow>
          if starts_with header ''data:'' \<and> ends_with header '';base64''
          then sat_sub (js_str S header) 2 + 1 + length base64_tail
          else sat_sub (js_str S url) 2)"

text \<open>The length of \<^verbatim>\<open>{"type":"image","url":""}\<close>.\<close>

definition IMAGE_PART_FRAME_BYTES :: nat where
  "IMAGE_PART_FRAME_BYTES = 25"

definition image_part_bytes :: "json_sizes \<Rightarrow> string \<Rightarrow> nat" where
  "image_part_bytes S url = IMAGE_PART_FRAME_BYTES + encoded_url_bytes S url"

definition blank_image_urls :: "json_sizes \<Rightarrow> content_part list \<Rightarrow> content_part list \<times> nat" where
  "blank_image_urls S parts =
     (map (\<lambda>p. case p of ImagePart url \<Rightarrow> ImagePart [] | _ \<Rightarrow> p) parts,
      sum_list (map (\<lambda>p. case p of ImagePart url \<Rightarrow> encoded_url_bytes S url | _ \<Rightarrow> 0) parts))"

definition blank_item :: "json_sizes \<Rightarrow> conversation_item \<Rightarrow> conversation_item \<times> nat" where
  "blank_item S item =
     (case item of
        User u \<Rightarrow>
          (let (parts, n) = blank_image_urls S (ui_content u) in (User (u\<lparr>ui_content := parts\<rparr>), n))
      | ToolResult t \<Rightarrow>
          (let (parts, n) = blank_image_urls S (tr_images t) in (ToolResult (t\<lparr>tr_images := parts\<rparr>), n))
      | _ \<Rightarrow> (item, 0))"

definition conversation_body_bytes :: "json_sizes \<Rightarrow> conversation_item list \<Rightarrow> nat" where
  "conversation_body_bytes S c =
     (let blanked = map (blank_item S) c
      in js_items S (map fst blanked) + sum_list (map snd blanked))"

section \<open>Eviction\<close>

datatype image_location = UserImage nat nat | ResultImage nat

fun user_part_images :: "json_sizes \<Rightarrow> nat \<Rightarrow> nat \<Rightarrow> content_part list \<Rightarrow> (image_location \<times> nat) list" where
  "user_part_images S i j [] = []"
| "user_part_images S i j (p # parts) =
     (case p of
        ImagePart url \<Rightarrow> [(UserImage i j, image_part_bytes S url)]
      | TextPart s \<Rightarrow> []) @ user_part_images S i (Suc j) parts"

fun result_part_images :: "json_sizes \<Rightarrow> nat \<Rightarrow> content_part list \<Rightarrow> (image_location \<times> nat) list" where
  "result_part_images S i [] = []"
| "result_part_images S i (p # parts) =
     (case p of
        ImagePart url \<Rightarrow> [(ResultImage i, image_part_bytes S url)]
      | TextPart s \<Rightarrow> []) @ result_part_images S i parts"

definition images_at :: "json_sizes \<Rightarrow> nat \<Rightarrow> conversation_item \<Rightarrow> (image_location \<times> nat) list" where
  "images_at S i item =
     (case item of
        User u \<Rightarrow> user_part_images S i 0 (ui_content u)
      | ToolResult t \<Rightarrow> result_part_images S i (tr_images t)
      | _ \<Rightarrow> [])"

fun find_images :: "json_sizes \<Rightarrow> nat \<Rightarrow> conversation_item list \<Rightarrow> (image_location \<times> nat) list" where
  "find_images S i [] = []"
| "find_images S i (item # c) = images_at S i item @ find_images S (Suc i) c"

fun part_position :: "content_part list \<Rightarrow> nat option" where
  "part_position [] = None"
| "part_position (p # parts) =
     (if part_is_image p then Some 0 else map_option Suc (part_position parts))"

definition tool_note_suffix :: string where
  "tool_note_suffix = [newline, newline] @ TOOL_IMAGE_COMPACT_NOTE"

text \<open>
  One round of the loop: nothing there to replace, a panic, or the changed conversation with the
  running estimate.
\<close>

datatype eviction = Skipped | Panicked | Evicted "conversation_item list" nat

definition evict_result_image :: "json_sizes \<Rightarrow> nat \<Rightarrow> nat \<Rightarrow> tool_result_item \<Rightarrow> (tool_result_item \<times> nat) option" where
  "evict_result_image S bytes running t =
     (case part_position (tr_images t) of
        None \<Rightarrow> None
      | Some k \<Rightarrow>
          (let images = take k (tr_images t) @ drop (Suc k) (tr_images t);
               running = sat_sub running (bytes + (if images \<noteq> [] then 1 else 0));
               note_bytes = sat_sub (js_str S tool_note_suffix) 2
           in if contains (tr_content t) TOOL_IMAGE_COMPACT_NOTE
              then Some (t\<lparr>tr_images := images\<rparr>, running)
              else Some (t\<lparr>tr_images := images, tr_content := tr_content t @ tool_note_suffix\<rparr>,
                         sat_add64 running note_bytes)))"

definition evict_one ::
    "json_sizes \<Rightarrow> image_location \<Rightarrow> nat \<Rightarrow> nat \<Rightarrow> conversation_item list \<Rightarrow> eviction" where
  "evict_one S location bytes running c =
     (case location of
        UserImage i j \<Rightarrow>
          (if i < length c then
             (case c ! i of
                User u \<Rightarrow>
                  (if j < length (ui_content u) then
                     let placeholder = TextPart IMAGE_COMPACT_PLACEHOLDER
                     in Evicted (c[i := User (u\<lparr>ui_content := (ui_content u)[j := placeholder]\<rparr>)])
                          (sat_sub running (sat_sub bytes (js_part S placeholder)))
                   else Skipped)
              | _ \<Rightarrow> Skipped)
           else Skipped)
      | ResultImage i \<Rightarrow>
          (if i < length c then
             (case c ! i of
                ToolResult t \<Rightarrow>
                  (case evict_result_image S bytes running t of
                     None \<Rightarrow> Panicked
                   | Some (t, running) \<Rightarrow> Evicted (c[i := ToolResult t]) running)
              | _ \<Rightarrow> Skipped)
           else Skipped))"

fun evict_loop ::
    "json_sizes \<Rightarrow> nat \<Rightarrow> (image_location \<times> nat) list \<Rightarrow> nat \<Rightarrow> nat \<Rightarrow> conversation_item list \<Rightarrow>
     (conversation_item list \<times> nat) option" where
  "evict_loop S target [] running evicted c = Some (c, evicted)"
| "evict_loop S target ((location, bytes) # images) running evicted c =
     (if running \<le> target then Some (c, evicted)
      else case evict_one S location bytes running c of
        Skipped \<Rightarrow> evict_loop S target images running evicted c
      | Panicked \<Rightarrow> None
      | Evicted c running \<Rightarrow> evict_loop S target images running (evicted + 1) c)"

definition evict_images_to_budget ::
    "json_sizes \<Rightarrow> conversation_item list \<Rightarrow> nat \<Rightarrow> nat \<Rightarrow> (conversation_item list \<times> nat) option" where
  "evict_images_to_budget S c current target = evict_loop S target (find_images S 0 c) current 0 c"

section \<open>The budget\<close>

record image_budget =
  ib_items :: "conversation_item list"
  ib_body_bytes :: nat
  ib_body_bytes_after :: nat
  ib_inline_images :: nat
  ib_needs_compaction :: bool
  ib_evicted :: nat

definition apply_image_budget_with_limits ::
    "json_sizes \<Rightarrow> conversation_item list \<Rightarrow> nat \<Rightarrow> nat \<Rightarrow> image_budget option" where
  "apply_image_budget_with_limits S items trigger target =
     (let body = conversation_body_bytes S items; images = inline_image_count items;
          needs = trigger \<le> body
      in case (if needs \<and> target < body then evict_images_to_budget S items body target
               else Some (items, 0)) of
           None \<Rightarrow> None
         | Some (items, evicted) \<Rightarrow>
             Some \<lparr>ib_items = items, ib_body_bytes = body,
                   ib_body_bytes_after = (if evicted = 0 then body else conversation_body_bytes S items),
                   ib_inline_images = images, ib_needs_compaction = needs, ib_evicted = evicted\<rparr>)"

definition apply_image_budget :: "json_sizes \<Rightarrow> conversation_item list \<Rightarrow> image_budget option" where
  "apply_image_budget S items =
     apply_image_budget_with_limits S items IMAGE_COMPACT_TRIGGER_BYTES IMAGE_COMPACT_RECLAIM_TARGET_BYTES"

section \<open>Laws\<close>

abbreviation part_urls :: "content_part list \<Rightarrow> string list" where
  "part_urls parts \<equiv> [url. ImagePart url \<leftarrow> parts]"

definition conversation_images :: "conversation_item list \<Rightarrow> string list" where
  "conversation_images c = concat (map item_images c)"

lemma conversation_images_simps [simp]:
  "conversation_images [] = []"
  "conversation_images (item # c) = item_images item @ conversation_images c"
  "conversation_images (c @ c') = conversation_images c @ conversation_images c'"
  by (simp_all add: conversation_images_def)

lemma user_part_images_head:
  "user_part_images S i j parts = (loc, b) # rest \<Longrightarrow>
   \<exists>m. loc = UserImage i (j + m) \<and> m < length parts \<and> part_is_image (parts ! m) \<and>
     user_part_images S i j (parts[m := TextPart s]) = rest \<and>
     part_urls parts = hd (part_urls parts) # part_urls (parts[m := TextPart s])"
proof (induction parts arbitrary: j)
  case (Cons p parts)
  show ?case
  proof (cases p)
    case (TextPart x)
    with Cons obtain m where "loc = UserImage i (Suc j + m)" "m < length parts" "part_is_image (parts ! m)"
      "user_part_images S i (Suc j) (parts[m := TextPart s]) = rest"
      "part_urls parts = hd (part_urls parts) # part_urls (parts[m := TextPart s])"
      by fastforce
    with TextPart show ?thesis by (intro exI [of _ "Suc m"]) simp
  next
    case (ImagePart url)
    with Cons.prems show ?thesis by (intro exI [of _ 0]) auto
  qed
qed simp

lemma result_part_images_head:
  "result_part_images S i parts = (loc, b) # rest \<Longrightarrow>
   \<exists>k. loc = ResultImage i \<and> part_position parts = Some k \<and>
     result_part_images S i (take k parts @ drop (Suc k) parts) = rest \<and>
     part_urls parts = hd (part_urls parts) # part_urls (take k parts @ drop (Suc k) parts) \<and>
     filter (\<lambda>p. \<not> part_is_image p) (take k parts @ drop (Suc k) parts) = filter (\<lambda>p. \<not> part_is_image p) parts"
proof (induction parts)
  case (Cons p parts)
  show ?case
  proof (cases p)
    case (TextPart x)
    with Cons obtain k where "loc = ResultImage i" "part_position parts = Some k"
      "result_part_images S i (take k parts @ drop (Suc k) parts) = rest"
      "part_urls parts = hd (part_urls parts) # part_urls (take k parts @ drop (Suc k) parts)"
      "filter (\<lambda>p. \<not> part_is_image p) (take k parts @ drop (Suc k) parts) =
       filter (\<lambda>p. \<not> part_is_image p) parts"
      by fastforce
    with TextPart show ?thesis by (intro exI [of _ "Suc k"]) simp
  next
    case (ImagePart url)
    with Cons.prems show ?thesis by (intro exI [of _ 0]) auto
  qed
qed simp

text \<open>What eviction leaves of an item: everything but images, and a note in their place.\<close>

definition part_evicted :: "content_part \<Rightarrow> content_part \<Rightarrow> bool" where
  "part_evicted p p' \<longleftrightarrow> p' = p \<or> part_is_image p \<and> p' = TextPart IMAGE_COMPACT_PLACEHOLDER"

definition noted :: "string \<Rightarrow> string \<Rightarrow> bool" where
  "noted s s' \<longleftrightarrow> s' = s \<or> \<not> contains s TOOL_IMAGE_COMPACT_NOTE \<and> s' = s @ tool_note_suffix"

fun item_evicted :: "conversation_item \<Rightarrow> conversation_item \<Rightarrow> bool" where
  "item_evicted (User u) (User u') \<longleftrightarrow>
     u' = u\<lparr>ui_content := ui_content u'\<rparr> \<and> list_all2 part_evicted (ui_content u) (ui_content u')"
| "item_evicted (ToolResult t) (ToolResult t') \<longleftrightarrow>
     tr_call_id t' = tr_call_id t \<and> noted (tr_content t) (tr_content t') \<and>
     filter (\<lambda>p. \<not> part_is_image p) (tr_images t') = filter (\<lambda>p. \<not> part_is_image p) (tr_images t)"
| "item_evicted item item' \<longleftrightarrow> item' = item"

lemma part_evicted_refl [simp]: "part_evicted p p"
  by (simp add: part_evicted_def)

lemma part_evicted_trans: "part_evicted p q \<Longrightarrow> part_evicted q r \<Longrightarrow> part_evicted p r"
  by (auto simp: part_evicted_def)

lemma item_evicted_refl [simp]: "item_evicted item item"
  by (cases item) (simp_all add: noted_def list_all2_refl)

lemma contains_append: "contains (s @ p) p"
proof (induction s)
  case Nil
  show ?case using starts_with_append [of p "[]"] by (cases p) simp_all
qed simp

lemma contains_note: "contains (s @ tool_note_suffix) TOOL_IMAGE_COMPACT_NOTE"
  using contains_append [of "s @ [newline, newline]"] by (simp add: tool_note_suffix_def)

lemma noted_trans: "noted s s' \<Longrightarrow> noted s' s'' \<Longrightarrow> noted s s''"
  by (auto simp: noted_def contains_note)

lemma user_evicted_trans:
  assumes "item_evicted (User u) (User u')" and "item_evicted (User u') (User u'')"
  shows "item_evicted (User u) (User u'')"
proof -
  have "list_all2 part_evicted (ui_content u) (ui_content u'')"
    using list_all2_trans [of part_evicted part_evicted part_evicted] part_evicted_trans assms
    by fastforce
  moreover have "u'' = u\<lparr>ui_content := ui_content u''\<rparr>"
    using assms by (cases u; cases u'; cases u'') simp
  ultimately show ?thesis by simp
qed

lemma item_evicted_trans:
  assumes "item_evicted a b" and "item_evicted b c"
  shows "item_evicted a c"
proof (cases a)
  case (User u)
  with assms obtain u' u'' where "b = User u'" "c = User u''" by (cases b; cases c) auto
  with User assms show ?thesis using user_evicted_trans by blast
next
  case (ToolResult t)
  with assms obtain t' t'' where "b = ToolResult t'" "c = ToolResult t''" by (cases b; cases c) auto
  with ToolResult assms show ?thesis by (auto intro: noted_trans)
qed (use assms in auto)

lemma list_all2_update_same:
  assumes "\<And>x. P x x" and "P (xs ! m) y"
  shows "list_all2 P xs (xs[m := y])"
proof (unfold list_all2_conv_all_nth, intro conjI allI impI)
  fix i assume "i < length xs"
  with assms show "P (xs ! i) (xs[m := y] ! i)" by (cases "i = m") simp_all
qed simp

lemma evict_at_user:
  assumes "user_part_images S i 0 (ui_content u) = (loc, b) # rest" and "i = length pre"
  shows "\<exists>u'. (\<forall>running. \<exists>running'.
      evict_one S loc b running (pre @ User u # c) = Evicted (pre @ User u' # c) running') \<and>
    images_at S i (User u') = rest \<and>
    item_images (User u) = hd (item_images (User u)) # item_images (User u') \<and>
    item_evicted (User u) (User u')"
proof -
  obtain m where m: "loc = UserImage i m" "m < length (ui_content u)" "part_is_image (ui_content u ! m)"
    "user_part_images S i 0 ((ui_content u)[m := TextPart IMAGE_COMPACT_PLACEHOLDER]) = rest"
    "part_urls (ui_content u) = hd (part_urls (ui_content u)) #
       part_urls ((ui_content u)[m := TextPart IMAGE_COMPACT_PLACEHOLDER])"
    using user_part_images_head [OF assms(1)] by auto
  define u' where "u' = u\<lparr>ui_content := (ui_content u)[m := TextPart IMAGE_COMPACT_PLACEHOLDER]\<rparr>"
  have "item_evicted (User u) (User u')"
    using m(3) by (simp add: u'_def part_evicted_def list_all2_update_same)
  moreover have "\<exists>running'. evict_one S loc b running (pre @ User u # c) = Evicted (pre @ User u' # c) running'"
    for running using m(1,2) assms(2) by (simp add: evict_one_def u'_def Let_def)
  ultimately show ?thesis
    using m(4,5) by (intro exI [of _ u'] conjI) (simp_all add: u'_def images_at_def)
qed

lemma evict_at_result:
  assumes "result_part_images S i (tr_images t) = (loc, b) # rest" and "i = length pre"
  shows "\<exists>t'. (\<forall>running. \<exists>running'.
      evict_one S loc b running (pre @ ToolResult t # c) = Evicted (pre @ ToolResult t' # c) running') \<and>
    images_at S i (ToolResult t') = rest \<and>
    item_images (ToolResult t) = hd (item_images (ToolResult t)) # item_images (ToolResult t') \<and>
    item_evicted (ToolResult t) (ToolResult t')"
proof -
  obtain k where k: "loc = ResultImage i" "part_position (tr_images t) = Some k"
    "result_part_images S i (take k (tr_images t) @ drop (Suc k) (tr_images t)) = rest"
    "part_urls (tr_images t) = hd (part_urls (tr_images t)) #
       part_urls (take k (tr_images t) @ drop (Suc k) (tr_images t))"
    "filter (\<lambda>p. \<not> part_is_image p) (take k (tr_images t) @ drop (Suc k) (tr_images t)) =
     filter (\<lambda>p. \<not> part_is_image p) (tr_images t)"
    using result_part_images_head [OF assms(1)] by auto
  define t' where "t' = t\<lparr>tr_images := take k (tr_images t) @ drop (Suc k) (tr_images t),
    tr_content := if contains (tr_content t) TOOL_IMAGE_COMPACT_NOTE then tr_content t
      else tr_content t @ tool_note_suffix\<rparr>"
  have "\<exists>running'. evict_one S loc b running (pre @ ToolResult t # c) =
      Evicted (pre @ ToolResult t' # c) running'" for running
    using k(1,2) assms(2) by (simp add: evict_one_def evict_result_image_def t'_def Let_def)
  moreover have "item_evicted (ToolResult t) (ToolResult t')"
    using k(5) by (simp add: t'_def noted_def)
  ultimately show ?thesis
    using k(3,4) by (intro exI [of _ t'] conjI) (simp_all add: t'_def images_at_def)
qed

lemma evict_at_item:
  assumes "images_at S i item = (loc, b) # rest" and "i = length pre"
  shows "\<exists>item'. (\<forall>running. \<exists>running'.
      evict_one S loc b running (pre @ item # c) = Evicted (pre @ item' # c) running') \<and>
    images_at S i item' = rest \<and> item_images item = hd (item_images item) # item_images item' \<and>
    item_evicted item item'"
proof (cases item)
  case (User u)
  with assms(1) have "user_part_images S i 0 (ui_content u) = (loc, b) # rest" by (simp add: images_at_def)
  from evict_at_user [OF this assms(2), of c] User show ?thesis by blast
next
  case (ToolResult t)
  with assms(1) have "result_part_images S i (tr_images t) = (loc, b) # rest" by (simp add: images_at_def)
  from evict_at_result [OF this assms(2), of c] ToolResult show ?thesis by blast
qed (use assms(1) in \<open>simp_all add: images_at_def\<close>)

lemma user_part_images_length: "length (user_part_images S i j parts) = length (part_urls parts)"
  by (induction parts arbitrary: j) (simp_all split: content_part.split)

lemma result_part_images_length: "length (result_part_images S i parts) = length (part_urls parts)"
  by (induction parts) (simp_all split: content_part.split)

lemma images_at_length: "length (images_at S i item) = length (item_images item)"
  by (cases item) (simp_all add: images_at_def user_part_images_length result_part_images_length)

lemma find_images_length: "length (find_images S i c) = length (conversation_images c)"
  by (induction c arbitrary: i) (simp_all add: images_at_length)

lemma image_count: "inline_image_count c = length (conversation_images c)"
proof -
  have parts: "length (filter part_is_image parts) = length (part_urls parts)" for parts
    by (induction parts) (simp_all split: content_part.split)
  have "(case item of User u \<Rightarrow> length (filter part_is_image (ui_content u))
      | ToolResult t \<Rightarrow> length (filter part_is_image (tr_images t)) | _ \<Rightarrow> 0) = length (item_images item)" for item
    by (cases item) (simp_all add: parts)
  then show ?thesis by (simp add: inline_image_count_def conversation_images_def length_concat comp_def)
qed

lemma images_at_none: "images_at S i item = [] \<Longrightarrow> item_images item = []"
  using images_at_length [of S i item] by simp

lemma evict_head:
  assumes "find_images S (length pre) c = (loc, b) # rest"
  shows "\<exists>c'. (\<forall>running. \<exists>running'. evict_one S loc b running (pre @ c) = Evicted (pre @ c') running') \<and>
    find_images S (length pre) c' = rest \<and>
    conversation_images c = hd (conversation_images c) # conversation_images c' \<and>
    list_all2 item_evicted c c'"
  using assms
proof (induction c arbitrary: pre)
  case (Cons item c)
  show ?case
  proof (cases "images_at S (length pre) item")
    case Nil
    with Cons.IH [of "pre @ [item]"] Cons.prems obtain c' where
      "\<forall>running. \<exists>running'. evict_one S loc b running (pre @ item # c) = Evicted (pre @ item # c') running'"
      "find_images S (Suc (length pre)) c' = rest"
      "conversation_images c = hd (conversation_images c) # conversation_images c'"
      "list_all2 item_evicted c c'" by auto
    with Nil images_at_none [OF Nil] show ?thesis by (intro exI [of _ "item # c'"]) simp
  next
    case (Cons first more)
    with Cons.prems have head: "images_at S (length pre) item = (loc, b) # more"
      and rest: "rest = more @ find_images S (Suc (length pre)) c" by auto
    obtain item' where
      "\<forall>running. \<exists>running'. evict_one S loc b running (pre @ item # c) = Evicted (pre @ item' # c) running'"
      "images_at S (length pre) item' = more" "item_images item = hd (item_images item) # item_images item'"
      "item_evicted item item'"
      using evict_at_item [OF head refl] by blast
    moreover from this have "item_images item \<noteq> []" by (metis list.distinct(1))
    ultimately show ?thesis
      using rest by (intro exI [of _ "item' # c"]) (simp add: list_all2_refl hd_append)
  qed
qed simp

lemma evict_loop_spec:
  "find_images S 0 c = images \<Longrightarrow>
   \<exists>c' k. evict_loop S target images running evicted c = Some (c', evicted + k) \<and> k \<le> length images \<and>
     conversation_images c' = drop k (conversation_images c) \<and> list_all2 item_evicted c c'"
proof (induction images arbitrary: c running evicted)
  case (Cons first images)
  obtain loc b where first: "first = (loc, b)" by (cases first)
  show ?case
  proof (cases "running \<le> target")
    case True
    then show ?thesis
      by (intro exI [of _ c] exI [of _ 0]) (simp add: first list_all2_refl)
  next
    case False
    obtain c1 where c1: "\<forall>running. \<exists>running'. evict_one S loc b running c = Evicted c1 running'"
      "find_images S 0 c1 = images" "conversation_images c = hd (conversation_images c) # conversation_images c1"
      "list_all2 item_evicted c c1"
      using evict_head [of S "[]" c loc b images] Cons.prems by (auto simp: first)
    from c1(1) obtain running' where step: "evict_one S loc b running c = Evicted c1 running'" by blast
    obtain c' k where rest: "evict_loop S target images running' (evicted + 1) c1 = Some (c', evicted + 1 + k)"
      "k \<le> length images" "conversation_images c' = drop k (conversation_images c1)"
      "list_all2 item_evicted c1 c'"
      using Cons.IH [OF c1(2)] by blast
    have "drop (Suc k) (conversation_images c) = drop k (conversation_images c1)"
      by (subst c1(3)) simp
    moreover have "list_all2 item_evicted c c'"
      using list_all2_trans [of item_evicted item_evicted item_evicted] item_evicted_trans c1(4) rest(4) by blast
    ultimately show ?thesis
      using False step rest by (intro exI [of _ c'] exI [of _ "Suc k"]) (simp add: first)
  qed
qed (simp add: list_all2_refl)

lemma budget_applies:
  "\<exists>b. apply_image_budget_with_limits S items trigger target = Some b \<and>
     conversation_images (ib_items b) = drop (ib_evicted b) (conversation_images items) \<and>
     ib_evicted b \<le> ib_inline_images b \<and>
     (trigger \<le> ib_body_bytes b \<and> target < ib_body_bytes b \<or> ib_items b = items) \<and>
     list_all2 item_evicted items (ib_items b)"
proof -
  obtain c k where "evict_images_to_budget S items (conversation_body_bytes S items) target = Some (c, k)"
    "k \<le> inline_image_count items" "conversation_images c = drop k (conversation_images items)"
    "list_all2 item_evicted items c"
    using evict_loop_spec [of S items "find_images S 0 items", OF refl, of target
        "conversation_body_bytes S items" 0]
    by (auto simp: evict_images_to_budget_def image_count find_images_length)
  then show ?thesis
    by (auto simp: apply_image_budget_with_limits_def Let_def list_all2_refl)
qed

text \<open>
  C21. Eviction never panics and takes the oldest images first: what is left of the images of a request
  is a tail of them, as long as the count it reports says; nothing is evicted from a body below the
  trigger; and apart from its images no item changes but for the note in their place.
\<close>

theorem eviction_takes_the_oldest:
  "\<exists>b. apply_image_budget_with_limits S items trigger target = Some b \<and>
     concat (map item_images (ib_items b)) = drop (ib_evicted b) (concat (map item_images items)) \<and>
     ib_evicted b \<le> ib_inline_images b \<and>
     (trigger \<le> ib_body_bytes b \<and> target < ib_body_bytes b \<or> ib_items b = items) \<and>
     list_all2 item_evicted items (ib_items b)"
  using budget_applies [of S items trigger target] by (simp add: conversation_images_def)

end
