(* ===== verification/ChatState.thy ===== *)
theory ChatState imports ChatUsage ImageBudget HistoryRepair begin

text \<open>
  The state of a session's conversation and every operation on it (\<^verbatim>\<open>xai-chat-state\<close>:
  \<^verbatim>\<open>types.rs\<close>, \<^verbatim>\<open>actor/state.rs\<close>, \<^verbatim>\<open>actor/mutations.rs\<close>, \<^verbatim>\<open>actor/queries.rs\<close>,
  \<^verbatim>\<open>actor/request_builder.rs\<close>). What is written to disk and what is sent to the session are the
  lists \<open>ca_persisted\<close> and \<open>ca_events\<close>, in order. The fields of the sampling configuration that
  the actor only passes on are left out. \<^verbatim>\<open>debug_assert!\<close> is off.
\<close>

section \<open>State\<close>

record chat_config =
  cg_model :: string
  cg_context_window :: nat

record pruning_config =
  pc_enabled :: bool
  pc_keep_last_n_turns :: nat
  pc_soft_trim_threshold :: nat
  pc_soft_trim_head :: nat
  pc_soft_trim_tail :: nat
  pc_hard_clear_age_turns :: nat

definition default_pruning_config :: pruning_config where
  "default_pruning_config =
     \<lparr>pc_enabled = True, pc_keep_last_n_turns = 3, pc_soft_trim_threshold = 4000,
      pc_soft_trim_head = 1500, pc_soft_trim_tail = 1500, pc_hard_clear_age_turns = 10\<rparr>"

datatype auth_type = SessionToken | ApiKeyAuth

record chat_credentials =
  kr_api_key :: "string option"
  kr_auth_type :: auth_type
  kr_alpha_test_key :: "string option"
  kr_client_version :: "string option"

definition default_credentials :: chat_credentials where
  "default_credentials = \<lparr>kr_api_key = None, kr_auth_type = SessionToken, kr_alpha_test_key = None,
                          kr_client_version = None\<rparr>"

record chat_snapshot =
  sn_conversation :: "conversation_item list"
  sn_config :: chat_config
  sn_prompt_index :: nat
  sn_total_tokens :: nat
  sn_estimate :: nat
  sn_edited_paths :: "string set"
  sn_prompt_texts :: "string list"
  sn_stream_start_ms :: "int option"
  sn_turn_start_ms :: "int option"
  sn_last_compaction :: "nat option"
  sn_credentials :: chat_credentials

record turn_capture_state =
  tu_start_offset :: nat
  tu_pre_replacement :: "conversation_item list"
  tu_compaction_occurred :: bool

record turn_capture =
  tm_messages :: "conversation_item list"
  tm_compaction_occurred :: bool

record chat_state =
  cs_conversation :: "conversation_item list"
  cs_config :: chat_config
  cs_prompt_index :: nat
  cs_prompt_texts :: "string list"
  cs_total_tokens :: nat
  cs_stream_start_ms :: "int option"
  cs_turn_start_ms :: "int option"
  cs_edited_paths :: "string set"
  cs_last_compaction :: "nat option"
  cs_credentials :: chat_credentials
  cs_since_model :: nat
  cs_estimate :: nat
  cs_last_turn_usage :: "token_usage option"
  cs_prompt_usage :: "usage_ledger option"
  cs_session_usage :: usage_ledger
  cs_capture :: "turn_capture_state option"
  cs_trace_buffer :: "conversation_item list"
  cs_trace_turns :: "conversation_item list list"

definition chat_state_new :: "conversation_item list \<Rightarrow> chat_config \<Rightarrow> chat_state" where
  "chat_state_new conversation config =
     (let (conversation, deduped) = dedup_duplicate_tool_results conversation;
          (conversation, repaired) = repair_dangling_tool_calls UserCancelled conversation;
          initial_tokens = estimate_conversation_tokens conversation
      in \<lparr>cs_conversation = conversation, cs_config = config, cs_prompt_index = 0, cs_prompt_texts = [],
          cs_total_tokens = initial_tokens, cs_stream_start_ms = None, cs_turn_start_ms = None,
          cs_edited_paths = {}, cs_last_compaction = None, cs_credentials = default_credentials,
          cs_since_model = 0, cs_estimate = initial_tokens, cs_last_turn_usage = None,
          cs_prompt_usage = None, cs_session_usage = empty_ledger, cs_capture = None,
          cs_trace_buffer = [], cs_trace_turns = []\<rparr>)"

definition seal_harness_trace_turn :: "chat_state \<Rightarrow> chat_state" where
  "seal_harness_trace_turn s =
     (if cs_trace_buffer s \<noteq> []
      then s\<lparr>cs_trace_buffer := [], cs_trace_turns := cs_trace_turns s @ [cs_trace_buffer s]\<rparr>
      else s)"

datatype chat_event =
    PromptIndexChanged nat
  | TokensUpdated nat
  | ConversationReset nat
  | ImageBudgetReport nat nat nat nat bool nat nat

datatype persist_call =
    PersistMessage conversation_item
  | PersistSwitch conversation_item
  | ReplaceHistory "conversation_item list"
  | ReplaceHistoryForStrip "conversation_item list"
  | FlushWrites

record chat_actor =
  ca_state :: chat_state
  ca_pruning :: pruning_config
  ca_persisted :: "persist_call list"
  ca_events :: "chat_event list"

definition on_state :: "(chat_state \<Rightarrow> chat_state) \<Rightarrow> chat_actor \<Rightarrow> chat_actor" where
  "on_state f a = a\<lparr>ca_state := f (ca_state a)\<rparr>"

definition persist :: "persist_call \<Rightarrow> chat_actor \<Rightarrow> chat_actor" where
  "persist call a = a\<lparr>ca_persisted := ca_persisted a @ [call]\<rparr>"

definition send_event :: "chat_event \<Rightarrow> chat_actor \<Rightarrow> chat_actor" where
  "send_event e a = a\<lparr>ca_events := ca_events a @ [e]\<rparr>"

section \<open>Rewriting the history\<close>

definition turn_tail :: "conversation_item list \<Rightarrow> nat \<Rightarrow> conversation_item list" where
  "turn_tail conversation offset = (if offset \<le> length conversation then drop offset conversation else [])"

definition snapshot_turn_slice :: "chat_state \<Rightarrow> chat_state" where
  "snapshot_turn_slice s =
     s\<lparr>cs_capture := map_option (\<lambda>cap. cap\<lparr>tu_pre_replacement := tu_pre_replacement cap @
         turn_tail (cs_conversation s) (tu_start_offset cap)\<rparr>) (cs_capture s)\<rparr>"

definition rebase_turn_capture_offset :: "chat_state \<Rightarrow> chat_state" where
  "rebase_turn_capture_offset s =
     s\<lparr>cs_capture := map_option (\<lambda>cap. cap\<lparr>tu_start_offset := length (cs_conversation s)\<rparr>)
         (cs_capture s)\<rparr>"

datatype history_rewrite = IntegrityRepair | RetainedPrune | ImageStrip

text \<open>The number of changes; for a strip that changed something the disk is asked to answer.\<close>

definition rewrite_history ::
    "history_rewrite \<Rightarrow> (conversation_item list \<Rightarrow> conversation_item list \<times> nat) \<Rightarrow> chat_actor \<Rightarrow>
     nat \<times> chat_actor" where
  "rewrite_history kind mutate a =
     (let snapshots = (kind = IntegrityRepair);
          a = (if snapshots then on_state snapshot_turn_slice a else a);
          (conversation, changed) = mutate (cs_conversation (ca_state a));
          a = on_state (\<lambda>s. s\<lparr>cs_conversation := conversation\<rparr>) a;
          a = (if changed > 0
               then persist (if kind = ImageStrip then ReplaceHistoryForStrip conversation
                             else ReplaceHistory conversation) a
               else a);
          a = (if snapshots then on_state rebase_turn_capture_offset a else a)
      in (changed, a))"

definition mend_conversation ::
    "dangling_reason \<Rightarrow> conversation_item list \<Rightarrow> conversation_item list \<times> nat" where
  "mend_conversation reason conversation =
     (let (conversation, deduped) = dedup_duplicate_tool_results conversation;
          (conversation, repaired) = repair_dangling_tool_calls reason conversation
      in (conversation, repaired + deduped))"

definition ensure_conversation_integrity :: "dangling_reason \<Rightarrow> chat_actor \<Rightarrow> chat_actor" where
  "ensure_conversation_integrity reason a = snd (rewrite_history IntegrityRepair (mend_conversation reason) a)"

definition is_continue_reminder :: "conversation_item \<Rightarrow> bool" where
  "is_continue_reminder item \<longleftrightarrow> (case item of User u \<Rightarrow> ui_reason u = LengthContinue | _ \<Rightarrow> False)"

definition drop_trailing_reminders :: "conversation_item list \<Rightarrow> conversation_item list \<times> nat" where
  "drop_trailing_reminders conversation =
     (let kept = rev (dropWhile is_continue_reminder (rev conversation))
      in (kept, length conversation - length kept))"

definition pop_stranded_continue_reminder :: "chat_actor \<Rightarrow> chat_actor" where
  "pop_stranded_continue_reminder a =
     (let conversation = cs_conversation (ca_state a)
      in if conversation \<noteq> [] \<and> is_continue_reminder (last conversation)
         then snd (rewrite_history IntegrityRepair drop_trailing_reminders a) else a)"

definition repair_dangling_after_harness_halt :: "string \<Rightarrow> chat_actor \<Rightarrow> chat_actor" where
  "repair_dangling_after_harness_halt cls a =
     ensure_conversation_integrity (HarnessHalted cls) (pop_stranded_continue_reminder a)"

section \<open>Old tool results\<close>

text \<open>The dash is U+2014.\<close>

definition HARD_CLEAR_PLACEHOLDER :: string where
  "HARD_CLEAR_PLACEHOLDER = ''[Tool result omitted '' @ [CHR 0xE2, CHR 0x80, CHR 0x94] @ '' too old]''"

definition is_user :: "conversation_item \<Rightarrow> bool" where
  "is_user item \<longleftrightarrow> (case item of User u \<Rightarrow> True | _ \<Rightarrow> False)"

text \<open>The loops go from the last item to the first, so these functions take the reversed list.\<close>

fun clear_old_results ::
    "nat \<Rightarrow> nat \<Rightarrow> bool \<Rightarrow> conversation_item list \<Rightarrow> conversation_item list \<times> nat" where
  "clear_old_results threshold turn_from_end seen [] = ([], 0)"
| "clear_old_results threshold turn_from_end seen (item # items) =
     (case item of
        User u \<Rightarrow>
          (let (items, n) = clear_old_results threshold
                 (if seen then turn_from_end + 1 else turn_from_end) True items
           in (item # items, n))
      | ToolResult t \<Rightarrow>
          (let (items, n) = clear_old_results threshold turn_from_end seen items
           in if turn_from_end < threshold then (item # items, n)
              else if tr_content t \<noteq> HARD_CLEAR_PLACEHOLDER
              then (ToolResult (t\<lparr>tr_content := HARD_CLEAR_PLACEHOLDER\<rparr>) # items, n + 1)
              else (item # items, n))
      | _ \<Rightarrow>
          (let (items, n) = clear_old_results threshold turn_from_end seen items in (item # items, n)))"

definition clear_retained :: "nat \<Rightarrow> conversation_item list \<Rightarrow> conversation_item list \<times> nat" where
  "clear_retained threshold conversation =
     (let (items, n) = clear_old_results threshold 0 False (rev conversation) in (rev items, n))"

definition retained_threshold :: "pruning_config \<Rightarrow> nat \<Rightarrow> conversation_item list \<Rightarrow> nat" where
  "retained_threshold config prompt_index conversation =
     (let total_user_items = length (filter is_user conversation);
          synthetic_count = sat_sub total_user_items prompt_index
      in sat_add64 (pc_hard_clear_age_turns config) synthetic_count)"

definition prune_retained_conversation :: "chat_actor \<Rightarrow> nat \<times> chat_actor" where
  "prune_retained_conversation a =
     (let config = ca_pruning a; s = ca_state a
      in if \<not> pc_enabled config then (0, a)
         else if cs_prompt_index s < pc_hard_clear_age_turns config then (0, a)
         else rewrite_history RetainedPrune
                (clear_retained (retained_threshold config (cs_prompt_index s) (cs_conversation s))) a)"

definition take_chars :: "nat \<Rightarrow> string \<Rightarrow> string" where
  "take_chars n s = (case char_offset s n of Some k \<Rightarrow> take k s | None \<Rightarrow> s)"

definition drop_chars :: "nat \<Rightarrow> string \<Rightarrow> string" where
  "drop_chars n s = (case char_offset s n of Some k \<Rightarrow> drop k s | None \<Rightarrow> [])"

definition safe_char_slice_tail :: "string \<Rightarrow> nat \<Rightarrow> string" where
  "safe_char_slice_tail s count =
     (let n = char_count s in if n \<le> count then s else drop_chars (n - count) s)"

definition SOFT_TRIM_SEPARATOR :: string where
  "SOFT_TRIM_SEPARATOR =
     [newline, newline] @ ''['' @ ellipsis @ ''trimmed'' @ ellipsis @ '']'' @ [newline, newline]"

definition prune_result :: "pruning_config \<Rightarrow> nat \<Rightarrow> tool_result_item \<Rightarrow> tool_result_item" where
  "prune_result config turn_from_end t =
     (if turn_from_end < pc_keep_last_n_turns config then t
      else if pc_hard_clear_age_turns config \<le> turn_from_end then t\<lparr>tr_content := HARD_CLEAR_PLACEHOLDER\<rparr>
      else if pc_soft_trim_threshold config < char_count (tr_content t) then
        t\<lparr>tr_content := take_chars (pc_soft_trim_head config) (tr_content t) @ SOFT_TRIM_SEPARATOR @
            safe_char_slice_tail (tr_content t) (pc_soft_trim_tail config)\<rparr>
      else t)"

fun prune_from_end ::
    "pruning_config \<Rightarrow> nat \<Rightarrow> bool \<Rightarrow> conversation_item list \<Rightarrow> conversation_item list" where
  "prune_from_end config turn_from_end seen [] = []"
| "prune_from_end config turn_from_end seen (item # items) =
     (case item of
        User u \<Rightarrow> item # prune_from_end config (if seen then turn_from_end + 1 else turn_from_end) True items
      | ToolResult t \<Rightarrow>
          ToolResult (prune_result config turn_from_end t) # prune_from_end config turn_from_end seen items
      | _ \<Rightarrow> item # prune_from_end config turn_from_end seen items)"

definition prune_conversation :: "pruning_config \<Rightarrow> conversation_item list \<Rightarrow> conversation_item list" where
  "prune_conversation config conversation =
     (if pc_enabled config then rev (prune_from_end config 0 False (rev conversation)) else conversation)"

definition should_prune :: "nat \<Rightarrow> nat \<Rightarrow> bool" where
  "should_prune total_tokens context_window \<longleftrightarrow> total_tokens > context_window div 2"

definition prune_items_for_turn_request :: "chat_actor \<Rightarrow> conversation_item list \<Rightarrow> conversation_item list" where
  "prune_items_for_turn_request a items =
     (if should_prune (cs_total_tokens (ca_state a)) (cg_context_window (cs_config (ca_state a)))
      then prune_conversation (ca_pruning a) items else items)"

section \<open>Adding items\<close>

definition add_estimate :: "conversation_item \<Rightarrow> chat_actor \<Rightarrow> chat_actor" where
  "add_estimate item a =
     on_state (\<lambda>s. s\<lparr>cs_since_model := cs_since_model s + estimate_item_tokens item\<rparr>) a"

definition persist_and_push_message :: "conversation_item \<Rightarrow> chat_actor \<Rightarrow> chat_actor" where
  "persist_and_push_message item a =
     on_state (\<lambda>s. s\<lparr>cs_conversation := cs_conversation s @ [item]\<rparr>) (persist (PersistMessage item) a)"

definition is_assistant :: "conversation_item \<Rightarrow> bool" where
  "is_assistant item \<longleftrightarrow> (case item of Assistant x \<Rightarrow> True | _ \<Rightarrow> False)"

definition push_message :: "conversation_item \<Rightarrow> chat_actor \<Rightarrow> chat_actor" where
  "push_message item a =
     persist_and_push_message item (if \<not> is_assistant item then add_estimate item a else a)"

definition push_model_output :: "conversation_item \<Rightarrow> chat_actor \<Rightarrow> chat_actor" where
  "push_model_output = persist_and_push_message"

definition push_unreported_model_output :: "conversation_item \<Rightarrow> chat_actor \<Rightarrow> chat_actor" where
  "push_unreported_model_output item a = persist_and_push_message item (add_estimate item a)"

text \<open>The items behind which a trailing continue reminder is stranded.\<close>

definition ends_continuation :: "conversation_item \<Rightarrow> bool" where
  "ends_continuation item \<longleftrightarrow>
     (case item of
        User u \<Rightarrow> starts_prompt_turn (ui_reason u) \<or>
          ui_reason u \<in> {AutoRecovery, StopHookFeedback, GoalSummary, WorkingDirectorySwitch, Interjection}
      | _ \<Rightarrow> False)"

definition push_user_message_with_repair_reason ::
    "conversation_item \<Rightarrow> dangling_reason \<Rightarrow> chat_actor \<Rightarrow> chat_actor" where
  "push_user_message_with_repair_reason item reason a =
     (let a = (if ends_continuation item then pop_stranded_continue_reminder a else a);
          a = ensure_conversation_integrity reason a
      in snd (prune_retained_conversation (persist_and_push_message item (add_estimate item a))))"

definition push_user_message :: "conversation_item \<Rightarrow> chat_actor \<Rightarrow> chat_actor" where
  "push_user_message item = push_user_message_with_repair_reason item UserCancelled"

text \<open>The first item of a generation is replaced, else the item is added.\<close>

fun replace_switch ::
    "nat \<Rightarrow> conversation_item \<Rightarrow> conversation_item list \<Rightarrow> (conversation_item \<times> conversation_item list) option" where
  "replace_switch generation authoritative [] = None"
| "replace_switch generation authoritative (item # items) =
     (if working_directory_switch_generation item = Some generation then Some (item, authoritative # items)
      else map_option (\<lambda>(old, items). (old, item # items)) (replace_switch generation authoritative items))"

definition converge_working_directory_switch :: "nat \<Rightarrow> conversation_item \<Rightarrow> chat_state \<Rightarrow> chat_state" where
  "converge_working_directory_switch generation authoritative s =
     (let new_tokens = estimate_item_tokens authoritative
      in case replace_switch generation authoritative (cs_conversation s) of
        Some (existing, conversation) \<Rightarrow>
          (let old_tokens = estimate_item_tokens existing
           in s\<lparr>cs_since_model :=
                  if old_tokens \<le> new_tokens then sat_add64 (cs_since_model s) (new_tokens - old_tokens)
                  else sat_sub (cs_since_model s) (old_tokens - new_tokens),
                cs_conversation := conversation\<rparr>)
      | None \<Rightarrow> s\<lparr>cs_since_model := cs_since_model s + new_tokens,
                  cs_conversation := cs_conversation s @ [authoritative]\<rparr>)"

definition strip_conversation_images :: "string list \<Rightarrow> chat_actor \<Rightarrow> nat option \<times> chat_actor" where
  "strip_conversation_images urls a =
     (let (stripped, a) = rewrite_history ImageStrip (\<lambda>c. strip_images_by_url c urls) a
      in (if stripped > 0 then Some stripped else None, a))"

section \<open>Tokens and billing\<close>

definition record_token_usage :: "nat \<Rightarrow> chat_actor \<Rightarrow> chat_actor" where
  "record_token_usage total_tokens a =
     send_event (TokensUpdated total_tokens)
       (on_state (\<lambda>s. s\<lparr>cs_since_model := 0,
          cs_estimate := estimate_conversation_tokens (cs_conversation s),
          cs_total_tokens := total_tokens\<rparr>) a)"

definition prompt_ledger :: "chat_state \<Rightarrow> usage_ledger" where
  "prompt_ledger s = unwrap_or empty_ledger (cs_prompt_usage s)"

definition record_model_call_usage ::
    "string option \<Rightarrow> token_usage \<Rightarrow> nat option \<Rightarrow> int option \<Rightarrow> chat_state \<Rightarrow> chat_state" where
  "record_model_call_usage model_id usage api_duration_ms cost s =
     (let model_key = (case model_id of Some i \<Rightarrow> if i \<noteq> [] then i else cg_model (cs_config s)
                       | None \<Rightarrow> cg_model (cs_config s));
          bill = record_main_loop_call model_key usage api_duration_ms cost
      in s\<lparr>cs_prompt_usage := Some (bill (prompt_ledger s)), cs_session_usage := bill (cs_session_usage s)\<rparr>)"

definition record_subagent_usage ::
    "(string \<times> usage_totals) list \<Rightarrow> bool \<Rightarrow> bool \<Rightarrow> chat_state \<Rightarrow> chat_state" where
  "record_subagent_usage by_model attribute_to_prompt incomplete s =
     (if by_model = [] \<and> \<not> incomplete then s
      else let bill = record_subagent by_model incomplete;
               s = (if attribute_to_prompt then s\<lparr>cs_prompt_usage := Some (bill (prompt_ledger s))\<rparr> else s)
           in s\<lparr>cs_session_usage := bill (cs_session_usage s)\<rparr>)"

definition mark_usage_incomplete :: "bool \<Rightarrow> bool \<Rightarrow> chat_state \<Rightarrow> chat_state" where
  "mark_usage_incomplete prompt session s =
     (let s = (if prompt then s\<lparr>cs_prompt_usage := Some (mark_incomplete (prompt_ledger s))\<rparr> else s)
      in if session then s\<lparr>cs_session_usage := mark_incomplete (cs_session_usage s)\<rparr> else s)"

definition increment_prompt_index :: "chat_actor \<Rightarrow> chat_actor" where
  "increment_prompt_index a =
     (let a = on_state (\<lambda>s. s\<lparr>cs_prompt_usage := None, cs_prompt_index := cs_prompt_index s + 1\<rparr>) a
      in send_event (PromptIndexChanged (cs_prompt_index (ca_state a))) a)"

section \<open>Replacing the conversation\<close>

definition note_compaction :: "bool \<Rightarrow> chat_state \<Rightarrow> chat_state" where
  "note_compaction is_compaction s =
     (if is_compaction
      then s\<lparr>cs_capture := map_option (\<lambda>cap. cap\<lparr>tu_compaction_occurred := True\<rparr>) (cs_capture s)\<rparr>
      else s)"

definition replace_conversation :: "conversation_item list \<Rightarrow> bool \<Rightarrow> chat_actor \<Rightarrow> chat_actor" where
  "replace_conversation items is_compaction a =
     (let a = on_state (\<lambda>s. note_compaction is_compaction (snapshot_turn_slice s)) a;
          a = persist (ReplaceHistory items) a;
          base_estimate = estimate_conversation_tokens items;
          s = ca_state a;
          estimated_tokens = reseed_total_tokens (cs_total_tokens s) (cs_estimate s) base_estimate;
          a = on_state (\<lambda>s. rebase_turn_capture_offset
                (s\<lparr>cs_conversation := items, cs_since_model := 0, cs_total_tokens := estimated_tokens,
                   cs_estimate := base_estimate\<rparr>)) a
      in send_event (TokensUpdated estimated_tokens)
           (send_event (ConversationReset (length (cs_conversation (ca_state a)))) a))"

text \<open>
  A repair takes the conversation out of the state and puts it back: while the changed one is put
  in place, the state has an empty one.
\<close>

definition actor_repair_history :: "bool \<Rightarrow> chat_actor \<Rightarrow> history_report \<times> chat_actor" where
  "actor_repair_history dry_run a =
     (let (items, report) = repair_history (cs_conversation (ca_state a))
      in if dry_run then (report, a)
         else if history_changed report
         then (report, replace_conversation items False (on_state (\<lambda>s. s\<lparr>cs_conversation := []\<rparr>) a))
         else (report, on_state (\<lambda>s. s\<lparr>cs_conversation := items\<rparr>) a))"

definition replace_system_head :: "string \<Rightarrow> chat_actor \<Rightarrow> bool \<times> chat_actor" where
  "replace_system_head prompt a =
     (let conversation = cs_conversation (ca_state a);
          same = (case conversation of System s # rest \<Rightarrow> canonical_system_prompt_eq (si_content s) prompt
                  | _ \<Rightarrow> False)
      in if same then (False, a)
         else let (conversation, changed) = replace_or_insert_system_head conversation prompt
              in (changed, replace_conversation conversation False a))"

definition take_snapshot :: "chat_state \<Rightarrow> chat_snapshot" where
  "take_snapshot s =
     \<lparr>sn_conversation = cs_conversation s, sn_config = cs_config s, sn_prompt_index = cs_prompt_index s,
      sn_total_tokens = cs_total_tokens s, sn_estimate = cs_estimate s,
      sn_edited_paths = cs_edited_paths s, sn_prompt_texts = cs_prompt_texts s,
      sn_stream_start_ms = cs_stream_start_ms s, sn_turn_start_ms = cs_turn_start_ms s,
      sn_last_compaction = cs_last_compaction s, sn_credentials = cs_credentials s\<rparr>"

definition restore_snapshot :: "chat_snapshot \<Rightarrow> chat_state \<Rightarrow> chat_state" where
  "restore_snapshot snap s =
     (let s = rebase_turn_capture_offset ((snapshot_turn_slice s)\<lparr>cs_conversation := sn_conversation snap\<rparr>)
      in s\<lparr>cs_config := sn_config snap, cs_prompt_index := sn_prompt_index snap,
           cs_total_tokens := sn_total_tokens snap, cs_since_model := 0,
           cs_estimate := (if sn_estimate snap > 0 then sn_estimate snap
                           else estimate_conversation_tokens (cs_conversation s)),
           cs_edited_paths := sn_edited_paths snap, cs_prompt_texts := sn_prompt_texts snap,
           cs_stream_start_ms := sn_stream_start_ms snap, cs_turn_start_ms := sn_turn_start_ms snap,
           cs_last_compaction := sn_last_compaction snap, cs_credentials := sn_credentials snap,
           cs_prompt_usage := None\<rparr>)"

text \<open>The place of the user item with \<open>target\<close> user items before it.\<close>

fun nth_user_position :: "nat \<Rightarrow> nat \<Rightarrow> conversation_item list \<Rightarrow> nat option" where
  "nth_user_position target user_count [] = None"
| "nth_user_position target user_count (item # items) =
     (if is_user item
      then if user_count = target then Some 0
           else map_option Suc (nth_user_position target (user_count + 1) items)
      else map_option Suc (nth_user_position target user_count items))"

definition truncate_to_prompt_index :: "nat \<Rightarrow> chat_actor \<Rightarrow> chat_actor" where
  "truncate_to_prompt_index target a =
     (let s = ca_state a
      in if cs_prompt_index s \<le> target then a
         else let conversation = take (unwrap_or (length (cs_conversation s))
                    (nth_user_position target 0 (cs_conversation s))) (cs_conversation s);
                  base_estimate = estimate_conversation_tokens conversation;
                  estimated_tokens = reseed_total_tokens (cs_total_tokens s) (cs_estimate s) base_estimate;
                  a = on_state (\<lambda>s. s\<lparr>cs_conversation := conversation,
                        cs_prompt_texts := take target (cs_prompt_texts s), cs_prompt_index := target,
                        cs_total_tokens := estimated_tokens, cs_since_model := 0,
                        cs_estimate := base_estimate\<rparr>) a
              in send_event (ConversationReset (length conversation))
                   (persist (ReplaceHistory conversation) a))"

end
