(* ===== verification/ChatQueries.thy ===== *)
theory ChatQueries imports ChatState begin

text \<open>
  What the actor answers without changing its state (\<^verbatim>\<open>xai-chat-state/src/actor/queries.rs\<close>), and
  the history that a request gets (\<^verbatim>\<open>actor/request_builder.rs\<close>, \<^verbatim>\<open>ModelRequestHistory\<close> and the
  query text of \<^verbatim>\<open>compaction_utils.rs\<close>).
\<close>

section \<open>Queries\<close>

record compact_trigger =
  ct_total_tokens :: nat
  ct_context_window :: nat
  ct_utilization_percent :: nat

definition check_auto_compact_needed :: "u8 \<Rightarrow> chat_state \<Rightarrow> compact_trigger option" where
  "check_auto_compact_needed threshold_percent s =
     (let cw = cg_context_window (cs_config s)
      in if exceeds_threshold (cs_total_tokens s) cw threshold_percent
         then Some \<lparr>ct_total_tokens = cs_total_tokens s, ct_context_window = cw,
                    ct_utilization_percent = usage_percentage_truncated_u8 (cs_total_tokens s) cw\<rparr>
         else None)"

type_synonym model_metadata = "string option \<times> string option"

fun first_metadata :: "conversation_item list \<Rightarrow> model_metadata" where
  "first_metadata [] = (None, None)"
| "first_metadata (item # items) =
     (case item of Assistant a \<Rightarrow> (ai_model_id a, ai_fingerprint a) | _ \<Rightarrow> first_metadata items)"

definition get_last_model_metadata :: "chat_state \<Rightarrow> model_metadata" where
  "get_last_model_metadata s = first_metadata (rev (cs_conversation s))"

definition spoken :: "conversation_item \<Rightarrow> string option" where
  "spoken item = (case item of Assistant a \<Rightarrow> if trim (ai_content a) \<noteq> [] then Some (ai_content a) else None
                  | _ \<Rightarrow> None)"

fun first_some :: "('a \<Rightarrow> 'b option) \<Rightarrow> 'a list \<Rightarrow> 'b option" where
  "first_some f [] = None"
| "first_some f (x # xs) = (case f x of Some y \<Rightarrow> Some y | None \<Rightarrow> first_some f xs)"

definition get_last_assistant_text :: "chat_state \<Rightarrow> string option" where
  "get_last_assistant_text s = first_some spoken (rev (cs_conversation s))"

text \<open>A user item at which a turn began.\<close>

definition is_turn_boundary :: "conversation_item \<Rightarrow> bool" where
  "is_turn_boundary item \<longleftrightarrow>
     (case item of User u \<Rightarrow> ui_prompt_index u \<noteq> None \<or> starts_prompt_turn (ui_reason u) | _ \<Rightarrow> False)"

text \<open>The segments before the last one, from the last to the first.\<close>

fun salvage_segments :: "conversation_item list \<Rightarrow> string list" where
  "salvage_segments [] = []"
| "salvage_segments (item # items) =
     (case item of
        Assistant a \<Rightarrow>
          (if ai_tool_calls a \<noteq> [] then []
           else (if trim (ai_content a) \<noteq> [] then [ai_content a] else []) @ salvage_segments items)
      | Reasoning r \<Rightarrow> salvage_segments items
      | User u \<Rightarrow> if ui_reason u = LengthContinue then salvage_segments items else []
      | _ \<Rightarrow> [])"

text \<open>A turn boundary before any text has no report.\<close>

fun trailing_report :: "conversation_item list \<Rightarrow> string list option" where
  "trailing_report [] = Some []"
| "trailing_report (item # items) =
     (case spoken item of
        Some txt \<Rightarrow> Some (txt # salvage_segments items)
      | None \<Rightarrow> if is_turn_boundary item then None else trailing_report items)"

definition get_trailing_assistant_report :: "chat_state \<Rightarrow> string option" where
  "get_trailing_assistant_report s =
     (case trailing_report (rev (cs_conversation s)) of
        None \<Rightarrow> None
      | Some segments \<Rightarrow> if segments = [] then None else Some (concat (rev segments)))"

fun texts_of_turn :: "conversation_item list \<Rightarrow> string list" where
  "texts_of_turn [] = []"
| "texts_of_turn (item # items) =
     (case spoken item of
        Some txt \<Rightarrow> txt # texts_of_turn items
      | None \<Rightarrow> if is_turn_boundary item then [] else texts_of_turn items)"

definition assistant_texts_in_turn :: "chat_state \<Rightarrow> string list" where
  "assistant_texts_in_turn s = rev (texts_of_turn (rev (cs_conversation s)))"

definition get_last_assistant_text_in_turn :: "chat_state \<Rightarrow> string option" where
  "get_last_assistant_text_in_turn s =
     (let texts = assistant_texts_in_turn s in if texts = [] then None else Some (last texts))"

definition get_assistant_text_in_turn :: "chat_state \<Rightarrow> string option" where
  "get_assistant_text_in_turn s =
     (let texts = assistant_texts_in_turn s in if texts = [] then None else Some (join [newline] texts))"

definition first_part_text :: "conversation_item \<Rightarrow> string option" where
  "first_part_text item =
     (case item of
        User u \<Rightarrow> (case ui_content u of TextPart txt # parts \<Rightarrow> Some txt | _ \<Rightarrow> None)
      | _ \<Rightarrow> None)"

definition get_first_user_text :: "chat_state \<Rightarrow> string option" where
  "get_first_user_text s = first_some first_part_text (cs_conversation s)"

definition get_conversation_item_at :: "nat \<Rightarrow> chat_state \<Rightarrow> conversation_item option" where
  "get_conversation_item_at index s =
     (if index < length (cs_conversation s) then Some (cs_conversation s ! index) else None)"

record conversation_counts =
  cc_total :: nat
  cc_user :: nat
  cc_assistant :: nat
  cc_tool_result :: nat

definition get_conversation_counts :: "chat_state \<Rightarrow> conversation_counts" where
  "get_conversation_counts s =
     (let c = cs_conversation s
      in \<lparr>cc_total = length c, cc_user = length (filter is_user c),
          cc_assistant = length (filter is_assistant c), cc_tool_result = length (filter is_tool_result c)\<rparr>)"

definition get_system_message :: "chat_state \<Rightarrow> conversation_item option" where
  "get_system_message s = find is_system (cs_conversation s)"

section \<open>The query of the user\<close>

definition SYSTEM_TAGS :: "string list" where
  "SYSTEM_TAGS = [''user_info'', ''project_layout'', ''git_status'', ''fork-context'',
     ''system-reminder'', ''agent-memory'', ''system_reminder'', ''background_context'',
     ''command-name'', ''command-message'', ''command-args'', ''rules'']"

definition open_tag :: "string \<Rightarrow> string" where
  "open_tag tag = ''<'' @ tag @ ''>''"

definition close_tag :: "string \<Rightarrow> string" where
  "close_tag tag = ''</'' @ tag @ ''>''"

lemma str_find_bound: "str_find s p = Some k \<Longrightarrow> k + length p \<le> length s"
proof (induction s arbitrary: k)
  case (Cons x s)
  show ?case
  proof (cases "starts_with (x # s) p")
    case True
    then have "length p \<le> length (x # s)" unfolding starts_with_def by (metis length_take min.cobounded1)
    with True Cons.prems show ?thesis by simp
  next
    case False
    with Cons show ?thesis by auto
  qed
qed (simp split: if_splits)

function strip_tag :: "string \<Rightarrow> string \<Rightarrow> string" where
  "strip_tag tag s =
     (case str_find s (open_tag tag) of
        None \<Rightarrow> s
      | Some start \<Rightarrow>
          (case str_find (drop start s) (close_tag tag) of
             None \<Rightarrow> s
           | Some rel \<Rightarrow> strip_tag tag (take start s @ drop (start + rel + length (close_tag tag)) s)))"
  by pat_completeness auto
termination
proof (relation "measure (\<lambda>(tag, s). length s)", goal_cases)
  case (2 tag s start rel)
  with str_find_bound [of s "open_tag tag" start] show ?case by (simp add: open_tag_def close_tag_def)
qed simp

declare strip_tag.simps [simp del]

definition strip_system_tags :: "string \<Rightarrow> string" where
  "strip_system_tags s = trim (foldl (\<lambda>s tag. strip_tag tag s) s SYSTEM_TAGS)"

definition extract_user_query :: "string \<Rightarrow> string" where
  "extract_user_query s =
     (let stripped = strip_system_tags s; tag = open_tag ''user_query''
      in case str_find stripped tag of
        None \<Rightarrow> stripped
      | Some start \<Rightarrow>
          (let content = drop (start + length tag) stripped
           in case str_find content (close_tag ''user_query'') of
                None \<Rightarrow> stripped
              | Some n \<Rightarrow> trim (take n content)))"

definition extract_last_user_query :: "conversation_item list \<Rightarrow> string option" where
  "extract_last_user_query conversation =
     (case find is_user (rev conversation) of
        None \<Rightarrow> None
      | Some item \<Rightarrow>
          (let q = extract_user_query (text_content item) in if q = [] then None else Some q))"

section \<open>The history of a request\<close>

definition MEMORY_CONTEXT_OPEN_TAG :: string where
  "MEMORY_CONTEXT_OPEN_TAG = ''<memory-context>''"

definition trim_newlines :: "string \<Rightarrow> string" where
  "trim_newlines s = rev (dropWhile (\<lambda>c. c = newline) (rev s))"

definition upsert_memory_reminder_text :: "string \<Rightarrow> string \<Rightarrow> string \<times> bool" where
  "upsert_memory_reminder_text sys reminder =
     (let updated =
        (case str_find sys MEMORY_CONTEXT_OPEN_TAG of
           Some idx \<Rightarrow>
             (let prefix = trim_newlines (take idx sys)
              in if prefix = [] then reminder else prefix @ [newline, newline] @ reminder)
         | None \<Rightarrow>
             if trim_end sys = reminder then sys
             else if sys = [] then reminder
             else trim_newlines sys @ [newline, newline] @ reminder)
      in (updated, sys \<noteq> updated))"

definition inject_memory_reminder :: "conversation_item list \<Rightarrow> string \<Rightarrow> conversation_item list \<times> bool" where
  "inject_memory_reminder items reminder =
     (let reminder = trim reminder
      in if reminder = [] then (items, False)
         else case items of
           System s # rest \<Rightarrow>
             (let (content, changed) = upsert_memory_reminder_text (si_content s) reminder
              in (System (s\<lparr>si_content := content\<rparr>) # rest, changed))
         | _ \<Rightarrow> (system_prompt reminder # items, True))"

definition AGENT_MESSAGE_MODEL_LABEL :: string where
  "AGENT_MESSAGE_MODEL_LABEL =
     ''[Message authored by another agent; not a human request or approval.]''"

definition label_agent_message :: "conversation_item \<Rightarrow> conversation_item" where
  "label_agent_message item =
     (case item of
        User u \<Rightarrow>
          if ui_reason u = AgentMessage
          then User (u\<lparr>ui_content := TextPart AGENT_MESSAGE_MODEL_LABEL # ui_content u\<rparr>) else item
      | _ \<Rightarrow> item)"

definition model_request_history :: "conversation_item list \<Rightarrow> conversation_item list" where
  "model_request_history conversation = map label_agent_message conversation"

text \<open>The fields that are copied from the configuration and the caller are kept but for constants.\<close>

record built_request = conversation_request +
  br_tools :: "tool_spec list"
  br_model :: string
  br_conv_id :: string
  br_req_id :: string

definition persist_reminder :: "string option \<Rightarrow> bool \<Rightarrow> chat_actor \<Rightarrow> string option \<times> chat_actor" where
  "persist_reminder memory_reminder persist_it a =
     (case (memory_reminder, persist_it) of
        (Some reminder, True) \<Rightarrow>
          (let a = on_state snapshot_turn_slice a;
               (conversation, injected) = inject_memory_reminder (cs_conversation (ca_state a)) reminder;
               a = on_state (\<lambda>s. s\<lparr>cs_conversation := conversation\<rparr>) a;
               a = (if injected then persist (ReplaceHistory conversation) a else a)
           in (if injected then None else memory_reminder, on_state rebase_turn_capture_offset a))
      | _ \<Rightarrow> (memory_reminder, a))"

definition report_images :: "image_budget \<Rightarrow> chat_actor \<Rightarrow> chat_actor" where
  "report_images b a =
     (if ib_inline_images b > 0
      then send_event (ImageBudgetReport (ib_body_bytes b) IMAGE_COMPACT_TRIGGER_BYTES
             IMAGE_COMPACT_RECLAIM_TARGET_BYTES (ib_inline_images b) (ib_needs_compaction b) (ib_evicted b)
             (ib_body_bytes_after b)) a
      else a)"

definition request_items :: "chat_actor \<Rightarrow> string option \<Rightarrow> conversation_item list \<Rightarrow> conversation_item list" where
  "request_items a memory_reminder items =
     (let items = prune_items_for_turn_request a items;
          items = (case memory_reminder of Some r \<Rightarrow> fst (inject_memory_reminder items r) | None \<Rightarrow> items)
      in model_request_history items)"

definition build_conversation_request ::
    "json_sizes \<Rightarrow> tool_spec list \<Rightarrow> string option \<Rightarrow> bool \<Rightarrow> string \<Rightarrow> string \<Rightarrow> chat_actor \<Rightarrow>
     (built_request \<times> chat_actor) option" where
  "build_conversation_request S tools memory_reminder persist_it conv_id req_id a =
     (let (memory_reminder, a) = persist_reminder memory_reminder persist_it a
      in case apply_image_budget S (cs_conversation (ca_state a)) of
        None \<Rightarrow> None
      | Some budget \<Rightarrow>
          (let a = report_images budget a
           in Some (\<lparr>rq_items = request_items a memory_reminder (ib_items budget),
                     rq_length_policy = CompleteToolCalls, br_tools = tools,
                     br_model = cg_model (cs_config (ca_state a)), br_conv_id = conv_id,
                     br_req_id = req_id\<rparr>, a)))"

end
