(* ===== verification/ChatActor.thy ===== *)
theory ChatActor imports ChatQueries begin

text \<open>
  The actor that owns a session's conversation (\<^verbatim>\<open>xai-chat-state/src/actor/mod.rs\<close>,
  \<^verbatim>\<open>commands.rs\<close>, \<^verbatim>\<open>persistence.rs\<close>): its commands, the handling of each with the answer that
  goes to the caller, the actor working off a queue, and the process in which callers send commands,
  the actor may wait for the disk, and tasks answer for it. What the disk answers comes from the
  environment. A panic is \<open>None\<close>.
\<close>

section \<open>Commands\<close>

datatype strict_ack = Appended | AlreadyPresent conversation_item

datatype strict_error = NotCommitted string | Committed strict_ack string | Indeterminate string

type_synonym strict_result = "strict_error + strict_ack"

datatype strip_outcome = StripApplied nat | StripNoMatch | StripWriteFailed nat

record chat_env =
  ce_sizes :: json_sizes
  ce_switch_ack :: "persist_call list \<Rightarrow> strict_result option"
  ce_strip_written :: "persist_call list \<Rightarrow> bool"

text \<open>
  The commands, sorted by what they touch: a query reads the state, an update changes fields of the
  state alone, the others also write to disk, send events or change the conversation.
\<close>

datatype chat_query =
    GetConversation
  | GetPromptIndex
  | GetLastCompactionPromptIndex
  | GetTotalTokens
  | GetLastTurnUsage
  | GetPromptUsage
  | GetSessionUsage
  | GetEstimatedTotalTokens
  | GetEstimatedMessagesTokens
  | GetSamplingConfig
  | GetAgentEditedPaths
  | GetNotificationMeta
  | Snapshot
  | CheckAutoCompactNeeded u8
  | GetCredentials
  | GetLastModelMetadata
  | GetConversationLen
  | HasDanglingToolCalls
  | GetLastAssistantText
  | GetTrailingAssistantReport
  | GetLastAssistantTextInTurn
  | GetAssistantTextInTurn
  | GetFirstUserText
  | GetConversationItemAt nat
  | GetLastUserQueryText
  | GetConversationCounts
  | GetSystemMessage

datatype chat_update =
    RecordLastTurnUsage token_usage
  | RecordModelCallUsage "string option" token_usage "nat option" "int option"
  | RecordSubagentUsage "(string \<times> usage_totals) list" bool bool
  | MarkUsageIncomplete bool bool
  | UpdateSamplingConfig chat_config
  | RecordAgentEditedPath string
  | RecordStreamStart int
  | RecordTurnStart int
  | CachePromptText string
  | RecordCompactionAt nat
  | UpdateCredentials chat_credentials
  | RestoreSnapshot chat_snapshot
  | BeginTurnCapture
  | AppendHarnessTraceItems "conversation_item list"
  | FlushHarnessTraceTurn

datatype chat_command =
    Query chat_query
  | Update chat_update
  | PushUserMessage conversation_item
  | PushUserMessagesBatch "conversation_item list"
  | PushUserMessagesBatchAndAck "conversation_item list"
  | PushUserMessageAndAck conversation_item
  | AppendWorkingDirectorySwitchAndAck string nat
  | PushUserMessageWithRepairReason conversation_item dangling_reason
  | PushAssistantResponse conversation_item
  | PushToolResult conversation_item
  | PushModelOutput conversation_item
  | PushUnreportedModelOutput conversation_item
  | RecordTokenUsage nat
  | IncrementPromptIndex
  | ReplaceConversation "conversation_item list" bool
  | RepairHistory bool "bool option"
  | StripConversationImages "string list"
  | ReplaceSystemHead string
  | Flush
  | RepairDanglingAfterHarnessHalt string
  | PopStrandedContinueReminder
  | BuildConversationRequest "tool_spec list" "string option" bool string string
  | ApplyTurnRequestPruning "conversation_item list"
  | TruncateToPromptIndex nat
  | TakeTurnMessages
  | TakeHarnessTraceTurns

datatype chat_reply =
    Done
  | SwitchResult strict_result
  | RepairRefused
  | RepairReport history_report
  | StripResult strip_outcome
  | Truth bool
  | Number nat
  | MaybeNumber "nat option"
  | Items "conversation_item list"
  | MaybeItem "conversation_item option"
  | MaybeText "string option"
  | Request built_request
  | TurnUsage "token_usage option"
  | MaybeLedger "usage_ledger option"
  | Ledger usage_ledger
  | Config chat_config
  | Paths "string set"
  | NotificationMeta "int option" "int option"
  | SnapshotTaken chat_snapshot
  | CompactTrigger "compact_trigger option"
  | CredentialsHeld chat_credentials
  | Metadata model_metadata
  | Captured "turn_capture option"
  | TraceTurns "conversation_item list list"
  | Counts conversation_counts

section \<open>Handling\<close>

definition switch_ack_dropped :: strict_result where
  "switch_ack_dropped =
     Inl (Indeterminate ''working-directory switch acknowledgement dropped; retry by generation'')"

text \<open>The item that the disk holds for the generation, when it is known to hold one.\<close>

definition authoritative_switch :: "conversation_item \<Rightarrow> strict_result \<Rightarrow> conversation_item option" where
  "authoritative_switch candidate result =
     (case result of
        Inr Appended \<Rightarrow> Some candidate
      | Inl (Committed Appended e) \<Rightarrow> Some candidate
      | Inr (AlreadyPresent item) \<Rightarrow> Some item
      | Inl (Committed (AlreadyPresent item) e) \<Rightarrow> Some item
      | Inl e \<Rightarrow> None)"

text \<open>
  The handling of a change of directory has two halves: the actor writes the candidate and waits for
  the disk, and goes on when the disk has answered or dropped the channel.
\<close>

definition begin_switch :: "string \<Rightarrow> nat \<Rightarrow> chat_actor \<Rightarrow> chat_actor" where
  "begin_switch content generation a =
     persist (PersistSwitch (working_directory_switch content generation)) (pop_stranded_continue_reminder a)"

definition finish_switch ::
    "string \<Rightarrow> nat \<Rightarrow> strict_result option \<Rightarrow> chat_actor \<Rightarrow> chat_reply \<times> chat_actor" where
  "finish_switch content generation ack a =
     (let result = unwrap_or switch_ack_dropped ack;
          a = (case authoritative_switch (working_directory_switch content generation) result of
                 Some item \<Rightarrow> on_state (converge_working_directory_switch generation item) a
               | None \<Rightarrow> a)
      in (SwitchResult result, a))"

definition append_switch :: "chat_env \<Rightarrow> string \<Rightarrow> nat \<Rightarrow> chat_actor \<Rightarrow> chat_reply \<times> chat_actor" where
  "append_switch E content generation a =
     (let a = begin_switch content generation a
      in finish_switch content generation (ce_switch_ack E (ca_persisted a)) a)"

lemmas switch_defs = append_switch_def begin_switch_def finish_switch_def

definition repair_command :: "bool \<Rightarrow> bool option \<Rightarrow> chat_actor \<Rightarrow> chat_reply \<times> chat_actor" where
  "repair_command dry_run turn_active a =
     (if turn_active = Some True then (RepairRefused, a)
      else let (report, a) = actor_repair_history dry_run a in (RepairReport report, a))"

definition strip_reply :: "nat \<Rightarrow> bool \<Rightarrow> chat_reply" where
  "strip_reply stripped written = StripResult (if written then StripApplied stripped else StripWriteFailed stripped)"

definition strip_command :: "chat_env \<Rightarrow> string list \<Rightarrow> chat_actor \<Rightarrow> chat_reply \<times> chat_actor" where
  "strip_command E urls a =
     (case strip_conversation_images urls a of
        (None, a) \<Rightarrow> (StripResult StripNoMatch, a)
      | (Some n, a) \<Rightarrow> (strip_reply n (ce_strip_written E (ca_persisted a)), a))"

definition begin_turn_capture :: "chat_state \<Rightarrow> chat_state" where
  "begin_turn_capture s =
     s\<lparr>cs_capture := Some \<lparr>tu_start_offset = length (cs_conversation s), tu_pre_replacement = [],
                           tu_compaction_occurred = False\<rparr>\<rparr>"

definition captured_turn :: "chat_state \<Rightarrow> turn_capture option" where
  "captured_turn s =
     map_option (\<lambda>cap. \<lparr>tm_messages = tu_pre_replacement cap @
         turn_tail (cs_conversation s) (tu_start_offset cap),
       tm_compaction_occurred = tu_compaction_occurred cap\<rparr>) (cs_capture s)"

definition take_trace_turns :: "chat_actor \<Rightarrow> chat_reply \<times> chat_actor" where
  "take_trace_turns a =
     (let a = on_state seal_harness_trace_turn a
      in (TraceTurns (cs_trace_turns (ca_state a)), on_state (\<lambda>s. s\<lparr>cs_trace_turns := []\<rparr>) a))"

definition build_command ::
    "chat_env \<Rightarrow> tool_spec list \<Rightarrow> string option \<Rightarrow> bool \<Rightarrow> string \<Rightarrow> string \<Rightarrow> chat_actor \<Rightarrow>
     (chat_reply \<times> chat_actor) option" where
  "build_command E tools memory_reminder persist_it conv_id req_id a =
     map_option (\<lambda>(rq, a). (Request rq, a))
       (build_conversation_request (ce_sizes E) tools memory_reminder persist_it conv_id req_id
         (ensure_conversation_integrity UserCancelled a))"

definition answer :: "chat_query \<Rightarrow> chat_state \<Rightarrow> chat_reply" where
  "answer q s =
     (case q of
        GetConversation \<Rightarrow> Items (cs_conversation s)
      | GetPromptIndex \<Rightarrow> Number (cs_prompt_index s)
      | GetLastCompactionPromptIndex \<Rightarrow> MaybeNumber (cs_last_compaction s)
      | GetTotalTokens \<Rightarrow> Number (cs_total_tokens s)
      | GetLastTurnUsage \<Rightarrow> TurnUsage (cs_last_turn_usage s)
      | GetPromptUsage \<Rightarrow> MaybeLedger (cs_prompt_usage s)
      | GetSessionUsage \<Rightarrow> Ledger (cs_session_usage s)
      | GetEstimatedTotalTokens \<Rightarrow> Number (wrap64 (cs_total_tokens s + cs_since_model s))
      | GetEstimatedMessagesTokens \<Rightarrow> Number (estimate_messages_tokens (cs_conversation s))
      | GetSamplingConfig \<Rightarrow> Config (cs_config s)
      | GetAgentEditedPaths \<Rightarrow> Paths (cs_edited_paths s)
      | GetNotificationMeta \<Rightarrow> NotificationMeta (cs_stream_start_ms s) (cs_turn_start_ms s)
      | Snapshot \<Rightarrow> SnapshotTaken (take_snapshot s)
      | CheckAutoCompactNeeded threshold \<Rightarrow> CompactTrigger (check_auto_compact_needed threshold s)
      | GetCredentials \<Rightarrow> CredentialsHeld (cs_credentials s)
      | GetLastModelMetadata \<Rightarrow> Metadata (get_last_model_metadata s)
      | GetConversationLen \<Rightarrow> Number (length (cs_conversation s))
      | HasDanglingToolCalls \<Rightarrow> Truth (has_dangling_tool_calls (cs_conversation s))
      | GetLastAssistantText \<Rightarrow> MaybeText (get_last_assistant_text s)
      | GetTrailingAssistantReport \<Rightarrow> MaybeText (get_trailing_assistant_report s)
      | GetLastAssistantTextInTurn \<Rightarrow> MaybeText (get_last_assistant_text_in_turn s)
      | GetAssistantTextInTurn \<Rightarrow> MaybeText (get_assistant_text_in_turn s)
      | GetFirstUserText \<Rightarrow> MaybeText (get_first_user_text s)
      | GetConversationItemAt index \<Rightarrow> MaybeItem (get_conversation_item_at index s)
      | GetLastUserQueryText \<Rightarrow> MaybeText (extract_last_user_query (cs_conversation s))
      | GetConversationCounts \<Rightarrow> Counts (get_conversation_counts s)
      | GetSystemMessage \<Rightarrow> MaybeItem (get_system_message s))"

fun update :: "chat_update \<Rightarrow> chat_state \<Rightarrow> chat_state" where
  "update (RecordLastTurnUsage usage) s = s\<lparr>cs_last_turn_usage := Some usage\<rparr>"
| "update (RecordModelCallUsage model_id usage duration cost) s =
     record_model_call_usage model_id usage duration cost s"
| "update (RecordSubagentUsage by_model attribute incomplete) s =
     record_subagent_usage by_model attribute incomplete s"
| "update (MarkUsageIncomplete prompt session) s = mark_usage_incomplete prompt session s"
| "update (UpdateSamplingConfig config) s = s\<lparr>cs_config := config\<rparr>"
| "update (RecordAgentEditedPath path) s = s\<lparr>cs_edited_paths := insert path (cs_edited_paths s)\<rparr>"
| "update (RecordStreamStart t) s = s\<lparr>cs_stream_start_ms := Some t\<rparr>"
| "update (RecordTurnStart t) s = s\<lparr>cs_turn_start_ms := Some t\<rparr>"
| "update (CachePromptText prompt) s = s\<lparr>cs_prompt_texts := cs_prompt_texts s @ [prompt]\<rparr>"
| "update (RecordCompactionAt index) s = s\<lparr>cs_last_compaction := Some index\<rparr>"
| "update (UpdateCredentials credentials) s = s\<lparr>cs_credentials := credentials\<rparr>"
| "update (RestoreSnapshot snap) s = restore_snapshot snap s"
| "update BeginTurnCapture s = begin_turn_capture s"
| "update (AppendHarnessTraceItems items) s = s\<lparr>cs_trace_buffer := cs_trace_buffer s @ items\<rparr>"
| "update FlushHarnessTraceTurn s = seal_harness_trace_turn s"

text \<open>The updates whose caller waits for them.\<close>

definition update_reply :: "chat_update \<Rightarrow> chat_reply option" where
  "update_reply u =
     (case u of
        RecordSubagentUsage by_model attribute incomplete \<Rightarrow> Some Done
      | MarkUsageIncomplete prompt session \<Rightarrow> Some Done
      | _ \<Rightarrow> None)"

text \<open>The outer option is a panic, the inner one tells whether the command has a reply channel.\<close>

fun handle_command :: "chat_env \<Rightarrow> chat_command \<Rightarrow> chat_actor \<Rightarrow> (chat_reply option \<times> chat_actor) option" where
  "handle_command E (Query q) a = Some (Some (answer q (ca_state a)), a)"
| "handle_command E (Update u) a = Some (update_reply u, on_state (update u) a)"
| "handle_command E (PushUserMessage item) a = Some (None, push_user_message item a)"
| "handle_command E (PushUserMessagesBatch items) a = Some (None, fold push_user_message items a)"
| "handle_command E (PushUserMessagesBatchAndAck items) a = Some (Some Done, fold push_user_message items a)"
| "handle_command E (PushUserMessageAndAck item) a = Some (Some Done, push_user_message item a)"
| "handle_command E (AppendWorkingDirectorySwitchAndAck content generation) a =
     Some (map_prod Some id (append_switch E content generation a))"
| "handle_command E (PushUserMessageWithRepairReason item reason) a =
     Some (None, push_user_message_with_repair_reason item reason a)"
| "handle_command E (PushAssistantResponse item) a = Some (None, push_message item a)"
| "handle_command E (PushToolResult item) a = Some (None, push_message item a)"
| "handle_command E (PushModelOutput item) a = Some (None, push_model_output item a)"
| "handle_command E (PushUnreportedModelOutput item) a = Some (None, push_unreported_model_output item a)"
| "handle_command E (RecordTokenUsage total_tokens) a = Some (None, record_token_usage total_tokens a)"
| "handle_command E IncrementPromptIndex a = Some (None, increment_prompt_index a)"
| "handle_command E (ReplaceConversation items is_compaction) a =
     Some (None, replace_conversation items is_compaction a)"
| "handle_command E (RepairHistory dry_run turn_active) a =
     Some (map_prod Some id (repair_command dry_run turn_active a))"
| "handle_command E (StripConversationImages urls) a = Some (map_prod Some id (strip_command E urls a))"
| "handle_command E (ReplaceSystemHead prompt) a =
     Some (map_prod (Some \<circ> Truth) id (replace_system_head prompt a))"
| "handle_command E Flush a = Some (None, persist FlushWrites a)"
| "handle_command E (RepairDanglingAfterHarnessHalt cls) a =
     Some (None, repair_dangling_after_harness_halt cls a)"
| "handle_command E PopStrandedContinueReminder a = Some (None, pop_stranded_continue_reminder a)"
| "handle_command E (BuildConversationRequest tools memory_reminder persist_it conv_id req_id) a =
     map_option (map_prod Some id) (build_command E tools memory_reminder persist_it conv_id req_id a)"
| "handle_command E (ApplyTurnRequestPruning items) a =
     Some (Some (Items (prune_items_for_turn_request a items)), a)"
| "handle_command E (TruncateToPromptIndex target) a =
     Some (Some Done, on_state (\<lambda>s. s\<lparr>cs_capture := None, cs_prompt_usage := None\<rparr>)
       (truncate_to_prompt_index target a))"
| "handle_command E TakeTurnMessages a =
     Some (Some (Captured (captured_turn (ca_state a))), on_state (\<lambda>s. s\<lparr>cs_capture := None\<rparr>) a)"
| "handle_command E TakeHarnessTraceTurns a = Some (map_prod Some id (take_trace_turns a))"

text \<open>
  The actor works off its queue in order; cancelling it drops what is still queued. Here every answer
  is there when the command has been handled, which is what the state of the actor comes to; when the
  answers are sent is below.
\<close>

fun run_actor :: "chat_env \<Rightarrow> chat_command list \<Rightarrow> chat_actor \<Rightarrow> (chat_reply option list \<times> chat_actor) option" where
  "run_actor E [] a = Some ([], a)"
| "run_actor E (cmd # cmds) a =
     (case handle_command E cmd a of
        None \<Rightarrow> None
      | Some (reply, a) \<Rightarrow> map_option (\<lambda>(replies, a). (reply # replies, a)) (run_actor E cmds a))"

definition spawn_with_pruning ::
    "conversation_item list \<Rightarrow> chat_config \<Rightarrow> pruning_config \<Rightarrow> chat_actor" where
  "spawn_with_pruning initial config pruning =
     \<lparr>ca_state = chat_state_new initial config, ca_pruning = pruning, ca_persisted = [], ca_events = []\<rparr>"

section \<open>The process\<close>

text \<open>
  The actor as its callers see it. They send commands at any time, and the number of a command is its
  caller. A change of directory suspends the actor until the disk has answered. A strip that found
  images is answered by a task of its own when the disk has taken the new history, while the actor goes
  on; \<open>pr_tasks\<close> holds for each the caller, the number of images and what had been written by then.
\<close>

record chat_process =
  pr_actor :: chat_actor
  pr_sent :: "chat_command list"
  pr_taken :: nat
  pr_waiting :: "(string \<times> nat) option"
  pr_tasks :: "(nat \<times> nat \<times> persist_call list) list"
  pr_replies :: "(nat \<times> chat_reply) list"

definition process_new :: "chat_actor \<Rightarrow> chat_process" where
  "process_new a =
     \<lparr>pr_actor = a, pr_sent = [], pr_taken = 0, pr_waiting = None, pr_tasks = [], pr_replies = []\<rparr>"

definition reply_to :: "nat \<Rightarrow> chat_reply option \<Rightarrow> chat_process \<Rightarrow> chat_process" where
  "reply_to caller reply p =
     p\<lparr>pr_replies := pr_replies p @ (case reply of None \<Rightarrow> [] | Some r \<Rightarrow> [(caller, r)])\<rparr>"

text \<open>The next command is received and handled; \<open>None\<close> when there is none, or on a panic.\<close>

definition take_command :: "chat_env \<Rightarrow> chat_process \<Rightarrow> chat_process option" where
  "take_command E p =
     (if pr_waiting p \<noteq> None \<or> length (pr_sent p) \<le> pr_taken p then None
      else let caller = pr_taken p; a = pr_actor p; p = p\<lparr>pr_taken := pr_taken p + 1\<rparr>
           in case pr_sent p ! caller of
                AppendWorkingDirectorySwitchAndAck content generation \<Rightarrow>
                  Some (p\<lparr>pr_actor := begin_switch content generation a,
                          pr_waiting := Some (content, generation)\<rparr>)
              | StripConversationImages urls \<Rightarrow>
                  (case strip_conversation_images urls a of
                     (None, a) \<Rightarrow> Some (reply_to caller (Some (StripResult StripNoMatch)) (p\<lparr>pr_actor := a\<rparr>))
                   | (Some n, a) \<Rightarrow>
                       Some (p\<lparr>pr_actor := a, pr_tasks := pr_tasks p @ [(caller, n, ca_persisted a)]\<rparr>))
              | cmd \<Rightarrow>
                  map_option (\<lambda>(reply, a). reply_to caller reply (p\<lparr>pr_actor := a\<rparr>)) (handle_command E cmd a))"

text \<open>The disk answers the actor that waits, or one of the tasks.\<close>

definition switch_acked :: "chat_env \<Rightarrow> chat_process \<Rightarrow> chat_process option" where
  "switch_acked E p =
     map_option (\<lambda>(content, generation).
       let (reply, a) = finish_switch content generation (ce_switch_ack E (ca_persisted (pr_actor p))) (pr_actor p)
       in reply_to (pr_taken p - 1) (Some reply) (p\<lparr>pr_actor := a, pr_waiting := None\<rparr>)) (pr_waiting p)"

definition strip_acked :: "chat_env \<Rightarrow> nat \<Rightarrow> chat_process \<Rightarrow> chat_process option" where
  "strip_acked E k p =
     (if length (pr_tasks p) \<le> k then None
      else case pr_tasks p ! k of (caller, n, calls) \<Rightarrow>
        Some (reply_to caller (Some (strip_reply n (ce_strip_written E calls)))
          (p\<lparr>pr_tasks := take k (pr_tasks p) @ drop (Suc k) (pr_tasks p)\<rparr>)))"

inductive process_work :: "chat_env \<Rightarrow> chat_process \<Rightarrow> chat_process \<Rightarrow> bool" for E where
  takes: "take_command E p = Some p' \<Longrightarrow> process_work E p p'"
| switched: "switch_acked E p = Some p' \<Longrightarrow> process_work E p p'"
| stripped: "strip_acked E k p = Some p' \<Longrightarrow> process_work E p p'"

inductive process_step :: "chat_env \<Rightarrow> chat_process \<Rightarrow> chat_process \<Rightarrow> bool" for E where
  works: "process_work E p p' \<Longrightarrow> process_step E p p'"
| sends: "process_step E p (p\<lparr>pr_sent := pr_sent p @ [cmd]\<rparr>)"

end
