(* ===== verification/ChatLaws.thy ===== *)
theory ChatLaws imports ChatActor "HOL-Library.Multiset" begin

text \<open>
  What holds of the actor that owns a conversation: its callers are answered; the capture of a turn is
  the log of what the turn added, through the repairs of pushes and requests, pruning and compactions;
  the bills add up; and what each operation leaves alone.
\<close>

section \<open>Frames\<close>

lemma actor_fields [simp]:
  "ca_state (persist c a) = ca_state a" "ca_state (send_event e a) = ca_state a"
  "ca_state (on_state f a) = f (ca_state a)"
  "ca_pruning (persist c a) = ca_pruning a" "ca_pruning (send_event e a) = ca_pruning a"
  "ca_pruning (on_state f a) = ca_pruning a"
  "ca_persisted (persist c a) = ca_persisted a @ [c]" "ca_persisted (send_event e a) = ca_persisted a"
  "ca_persisted (on_state f a) = ca_persisted a"
  by (simp_all add: persist_def send_event_def on_state_def)

lemma rewrite_history_state:
  "ca_state (snd (rewrite_history kind mutate a)) =
     (if kind = IntegrityRepair
      then rebase_turn_capture_offset ((snapshot_turn_slice (ca_state a))
        \<lparr>cs_conversation := fst (mutate (cs_conversation (ca_state a)))\<rparr>)
      else (ca_state a)\<lparr>cs_conversation := fst (mutate (cs_conversation (ca_state a)))\<rparr>)"
  by (simp add: rewrite_history_def Let_def case_prod_unfold snapshot_turn_slice_def)

lemma rewrite_history_pruning [simp]: "ca_pruning (snd (rewrite_history kind mutate a)) = ca_pruning a"
  by (simp add: rewrite_history_def Let_def case_prod_unfold)

text \<open>The two ledgers, which a rewrite of the history never touches.\<close>

definition bills :: "chat_state \<Rightarrow> usage_ledger option \<times> usage_ledger" where
  "bills s = (cs_prompt_usage s, cs_session_usage s)"

lemma bills_fields [simp]:
  "bills (s\<lparr>cs_conversation := c\<rparr>) = bills s" "bills (s\<lparr>cs_since_model := n\<rparr>) = bills s"
  "bills (s\<lparr>cs_total_tokens := n\<rparr>) = bills s" "bills (s\<lparr>cs_estimate := n\<rparr>) = bills s"
  "bills (s\<lparr>cs_capture := cap\<rparr>) = bills s" "bills (s\<lparr>cs_prompt_index := n\<rparr>) = bills s"
  "bills (s\<lparr>cs_prompt_texts := ts\<rparr>) = bills s" "bills (s\<lparr>cs_last_turn_usage := u\<rparr>) = bills s"
  "bills (s\<lparr>cs_config := g\<rparr>) = bills s" "bills (s\<lparr>cs_edited_paths := p\<rparr>) = bills s"
  "bills (s\<lparr>cs_stream_start_ms := t\<rparr>) = bills s" "bills (s\<lparr>cs_turn_start_ms := t\<rparr>) = bills s"
  "bills (s\<lparr>cs_last_compaction := k\<rparr>) = bills s" "bills (s\<lparr>cs_credentials := cr\<rparr>) = bills s"
  "bills (s\<lparr>cs_trace_buffer := b\<rparr>) = bills s" "bills (s\<lparr>cs_trace_turns := tt\<rparr>) = bills s"
  by (simp_all add: bills_def)

lemma bills_small [simp]:
  "bills (snapshot_turn_slice s) = bills s" "bills (rebase_turn_capture_offset s) = bills s"
  "bills (note_compaction b s) = bills s" "bills (begin_turn_capture s) = bills s"
  "bills (seal_harness_trace_turn s) = bills s"
  by (simp_all add: snapshot_turn_slice_def rebase_turn_capture_offset_def note_compaction_def
      begin_turn_capture_def seal_harness_trace_turn_def)

lemma bills_rewrite [simp]: "bills (ca_state (snd (rewrite_history kind mutate a))) = bills (ca_state a)"
  by (simp add: rewrite_history_state)

lemma bills_ops [simp]:
  "bills (ca_state (ensure_conversation_integrity r a)) = bills (ca_state a)"
  "bills (ca_state (pop_stranded_continue_reminder a)) = bills (ca_state a)"
  "bills (ca_state (repair_dangling_after_harness_halt cls a)) = bills (ca_state a)"
  "bills (ca_state (snd (prune_retained_conversation a))) = bills (ca_state a)"
  "bills (ca_state (add_estimate item a)) = bills (ca_state a)"
  "bills (ca_state (persist_and_push_message item a)) = bills (ca_state a)"
  "bills (ca_state (push_message item a)) = bills (ca_state a)"
  "bills (ca_state (record_token_usage n a)) = bills (ca_state a)"
  "bills (ca_state (replace_conversation items b a)) = bills (ca_state a)"
  "bills (ca_state (truncate_to_prompt_index n a)) = bills (ca_state a)"
  "bills (converge_working_directory_switch g item s) = bills s"
  by (simp_all add: ensure_conversation_integrity_def pop_stranded_continue_reminder_def Let_def
      repair_dangling_after_harness_halt_def prune_retained_conversation_def add_estimate_def
      persist_and_push_message_def push_message_def record_token_usage_def replace_conversation_def
      truncate_to_prompt_index_def converge_working_directory_switch_def case_prod_unfold
      split: option.split)

lemma bills_push [simp]:
  "bills (ca_state (push_user_message_with_repair_reason item r a)) = bills (ca_state a)"
  "bills (ca_state (push_user_message item a)) = bills (ca_state a)"
  "bills (ca_state (push_model_output item a)) = bills (ca_state a)"
  "bills (ca_state (push_unreported_model_output item a)) = bills (ca_state a)"
  by (simp_all add: push_user_message_with_repair_reason_def push_user_message_def Let_def
      push_model_output_def push_unreported_model_output_def)

lemma bills_batch [simp]: "bills (ca_state (fold push_user_message items a)) = bills (ca_state a)"
  by (induction items arbitrary: a) simp_all

section \<open>The log of a turn\<close>

text \<open>
  What may happen to an item that is already in the conversation: an old result is cleared, images
  that the server rejected are replaced, and a change of the working directory takes the wording the
  disk has for its generation.
\<close>

inductive cleaning :: "conversation_item \<Rightarrow> conversation_item \<Rightarrow> bool" where
  clear: "cleaning (ToolResult t) (ToolResult (t\<lparr>tr_content := HARD_CLEAR_PLACEHOLDER\<rparr>))"
| strip: "cleaning item (fst (strip_item_images p item))"
| settle: "working_directory_switch_generation x = Some g \<Longrightarrow>
    working_directory_switch_generation y = Some g \<Longrightarrow> cleaning x y"

inductive_simps cleaning_assistant: "cleaning (Assistant a) y"

abbreviation cleaned :: "conversation_item \<Rightarrow> conversation_item \<Rightarrow> bool" where
  "cleaned \<equiv> cleaning\<^sup>*\<^sup>*"

abbreviation all_cleaned :: "conversation_item list \<Rightarrow> conversation_item list \<Rightarrow> bool" where
  "all_cleaned \<equiv> list_all2 cleaned"

lemma all_cleaned_refl [simp]: "all_cleaned xs xs"
  by (simp add: list_all2_refl)

lemma all_cleaned_trans: "all_cleaned xs ys \<Longrightarrow> all_cleaned ys zs \<Longrightarrow> all_cleaned xs zs"
  by (rule list_all2_trans [of cleaned cleaned cleaned]) (rule rtranclp_trans)

text \<open>The turn that is captured adds \<open>msgs\<close>; \<open>b\<close> tells whether a compaction happened in it.\<close>

definition tracks :: "conversation_item list \<Rightarrow> bool \<Rightarrow> chat_state \<Rightarrow> bool" where
  "tracks msgs b s \<longleftrightarrow>
     (case cs_capture s of
        None \<Rightarrow> False
      | Some cap \<Rightarrow> tu_start_offset cap \<le> length (cs_conversation s) \<and>
          all_cleaned msgs (tu_pre_replacement cap @ drop (tu_start_offset cap) (cs_conversation s)) \<and>
          tu_compaction_occurred cap = b)"

lemma tracks_cong:
  "cs_capture s' = cs_capture s \<Longrightarrow> cs_conversation s' = cs_conversation s \<Longrightarrow> tracks msgs b s' = tracks msgs b s"
  by (simp add: tracks_def cong: option.case_cong)

lemma tracks_fields [simp]:
  "tracks msgs b (s\<lparr>cs_since_model := n\<rparr>) = tracks msgs b s"
  "tracks msgs b (s\<lparr>cs_total_tokens := n\<rparr>) = tracks msgs b s" "tracks msgs b (s\<lparr>cs_estimate := n\<rparr>) = tracks msgs b s"
  "tracks msgs b (s\<lparr>cs_prompt_index := n\<rparr>) = tracks msgs b s"
  "tracks msgs b (s\<lparr>cs_prompt_usage := l\<rparr>) = tracks msgs b s"
  "tracks msgs b (s\<lparr>cs_session_usage := l'\<rparr>) = tracks msgs b s"
  "tracks msgs b (s\<lparr>cs_config := g\<rparr>) = tracks msgs b s"
  "tracks msgs b (s\<lparr>cs_prompt_texts := ts\<rparr>) = tracks msgs b s"
  "tracks msgs b (s\<lparr>cs_edited_paths := ps\<rparr>) = tracks msgs b s"
  "tracks msgs b (s\<lparr>cs_stream_start_ms := t\<rparr>) = tracks msgs b s"
  "tracks msgs b (s\<lparr>cs_turn_start_ms := t\<rparr>) = tracks msgs b s"
  "tracks msgs b (s\<lparr>cs_last_compaction := k\<rparr>) = tracks msgs b s"
  "tracks msgs b (s\<lparr>cs_credentials := cr\<rparr>) = tracks msgs b s"
  "tracks msgs b (s\<lparr>cs_last_turn_usage := u\<rparr>) = tracks msgs b s"
  "tracks msgs b (s\<lparr>cs_trace_buffer := items\<rparr>) = tracks msgs b s"
  "tracks msgs b (s\<lparr>cs_trace_turns := turns\<rparr>) = tracks msgs b s"
  by (rule tracks_cong; simp)+

lemma tracks_rebased:
  "tracks msgs b s \<Longrightarrow>
   tracks msgs b (rebase_turn_capture_offset ((snapshot_turn_slice s)\<lparr>cs_conversation := c\<rparr>))"
  by (cases "cs_capture s")
    (simp_all add: tracks_def rebase_turn_capture_offset_def snapshot_turn_slice_def turn_tail_def)

lemma tracks_cleaned:
  assumes "tracks msgs b s" and "all_cleaned (cs_conversation s) c"
  shows "tracks msgs b (s\<lparr>cs_conversation := c\<rparr>)"
proof -
  have "length c = length (cs_conversation s)" using list_all2_lengthD [OF assms(2)] by simp
  moreover have "all_cleaned (pre @ drop n (cs_conversation s)) (pre @ drop n c)" for pre n
    using assms(2) by (intro list_all2_appendI list_all2_dropI all_cleaned_refl)
  ultimately show ?thesis
    using assms(1) all_cleaned_trans by (auto simp: tracks_def split: option.splits)
qed

lemma tracks_push:
  "tracks msgs b s \<Longrightarrow> tracks (msgs @ [item]) b (s\<lparr>cs_conversation := cs_conversation s @ [item]\<rparr>)"
  by (auto simp: tracks_def list_all2_appendI simp flip: append_assoc split: option.splits)

lemma tracks_rewrite:
  assumes "tracks msgs b (ca_state a)"
    and "kind \<noteq> IntegrityRepair \<longrightarrow> all_cleaned (cs_conversation (ca_state a)) (fst (mutate (cs_conversation (ca_state a))))"
  shows "tracks msgs b (ca_state (snd (rewrite_history kind mutate a)))"
  using assms tracks_rebased tracks_cleaned by (simp add: rewrite_history_state)

lemma clear_old_results_cleaned:
  "all_cleaned items (fst (clear_old_results threshold n seen items))"
proof (induction items arbitrary: n seen)
  case (Cons item items)
  have "cleaned (ToolResult t) (ToolResult (t\<lparr>tr_content := HARD_CLEAR_PLACEHOLDER\<rparr>))" for t
    by (rule r_into_rtranclp) (rule cleaning.clear)
  with Cons show ?case
    by (cases item) (simp_all add: Let_def case_prod_unfold)
qed simp

lemma clear_retained_cleaned: "all_cleaned c (fst (clear_retained threshold c))"
  using clear_old_results_cleaned [of "rev c" threshold 0 False]
  by (simp add: clear_retained_def case_prod_unfold Let_def list_all2_rev1)

lemma strip_where_cleaned: "all_cleaned c (fst (strip_images_where p c))"
proof (induction c)
  case (Cons item c)
  have "cleaned item (fst (strip_item_images p item))" by (rule r_into_rtranclp) (rule cleaning.strip)
  with Cons show ?case by (simp add: Let_def case_prod_unfold)
qed simp

lemma strip_by_url_cleaned: "all_cleaned c (fst (strip_images_by_url c urls))"
  by (simp add: strip_images_by_url_def case_prod_unfold Let_def strip_where_cleaned)

lemma replace_switch_cleaned:
  "replace_switch g item c = Some (old, c') \<Longrightarrow> working_directory_switch_generation item = Some g \<Longrightarrow>
   all_cleaned c c'"
proof (induction c arbitrary: c')
  case (Cons x c)
  show ?case
  proof (cases "working_directory_switch_generation x = Some g")
    case True
    then have "cleaned x item" using Cons.prems(2) by (intro r_into_rtranclp cleaning.settle)
    with True Cons.prems show ?thesis by auto
  next
    case False
    with Cons show ?thesis by auto
  qed
qed simp

section \<open>What each operation does to the log\<close>

lemma tracks_ensure [simp]:
  "tracks msgs b (ca_state a) \<Longrightarrow> tracks msgs b (ca_state (ensure_conversation_integrity r a))"
  by (simp add: ensure_conversation_integrity_def tracks_rewrite)

lemma tracks_pop [simp]:
  "tracks msgs b (ca_state a) \<Longrightarrow> tracks msgs b (ca_state (pop_stranded_continue_reminder a))"
  by (simp add: pop_stranded_continue_reminder_def Let_def tracks_rewrite)

lemma tracks_prune [simp]:
  "tracks msgs b (ca_state a) \<Longrightarrow> tracks msgs b (ca_state (snd (prune_retained_conversation a)))"
  by (simp add: prune_retained_conversation_def Let_def tracks_rewrite clear_retained_cleaned)

lemma tracks_strip:
  "tracks msgs b (ca_state a) \<Longrightarrow> tracks msgs b (ca_state (snd (strip_conversation_images urls a)))"
  by (simp add: strip_conversation_images_def case_prod_unfold Let_def tracks_rewrite strip_by_url_cleaned)

lemma tracks_add_estimate [simp]:
  "tracks msgs b (ca_state (add_estimate item a)) = tracks msgs b (ca_state a)"
  by (simp add: add_estimate_def)

lemma tracks_persist_push:
  "tracks msgs b (ca_state a) \<Longrightarrow> tracks (msgs @ [item]) b (ca_state (persist_and_push_message item a))"
  by (simp add: persist_and_push_message_def tracks_push)

lemma tracks_push_message:
  "tracks msgs b (ca_state a) \<Longrightarrow> tracks (msgs @ [item]) b (ca_state (push_message item a))"
  "tracks msgs b (ca_state a) \<Longrightarrow> tracks (msgs @ [item]) b (ca_state (push_model_output item a))"
  "tracks msgs b (ca_state a) \<Longrightarrow> tracks (msgs @ [item]) b (ca_state (push_unreported_model_output item a))"
  by (simp_all add: push_message_def push_model_output_def push_unreported_model_output_def
      tracks_persist_push)

lemma tracks_push_user:
  "tracks msgs b (ca_state a) \<Longrightarrow>
   tracks (msgs @ [item]) b (ca_state (push_user_message_with_repair_reason item r a))"
  by (simp add: push_user_message_with_repair_reason_def Let_def tracks_persist_push)

lemma tracks_batch:
  "tracks msgs b (ca_state a) \<Longrightarrow> tracks (msgs @ items) b (ca_state (fold push_user_message items a))"
proof (induction items arbitrary: msgs a)
  case (Cons item items)
  from Cons.IH [OF tracks_push_user [OF Cons.prems]] show ?case by (simp add: push_user_message_def)
qed simp

lemma tracks_replace:
  assumes "tracks msgs b (ca_state a)"
  shows "tracks msgs (b \<or> is_compaction) (ca_state (replace_conversation items is_compaction a))"
  using assms
  by (cases "cs_capture (ca_state a)")
    (simp_all add: replace_conversation_def Let_def tracks_def note_compaction_def snapshot_turn_slice_def
      rebase_turn_capture_offset_def turn_tail_def)

lemma tracks_system_head:
  "tracks msgs b (ca_state a) \<Longrightarrow> tracks msgs b (ca_state (snd (replace_system_head prompt a)))"
  using tracks_replace [of msgs b a False] by (simp add: replace_system_head_def Let_def case_prod_unfold)

lemma tracks_restore: "tracks msgs b s \<Longrightarrow> tracks msgs b (restore_snapshot snap s)"
  using tracks_rebased [of msgs b s "sn_conversation snap"] by (simp add: restore_snapshot_def Let_def)

lemma tracks_since_conversation [simp]:
  "tracks msgs b (s\<lparr>cs_since_model := n, cs_conversation := c\<rparr>) = tracks msgs b (s\<lparr>cs_conversation := c\<rparr>)"
  by (rule tracks_cong) simp_all

lemma tracks_converge:
  assumes "tracks msgs b s" and "working_directory_switch_generation item = Some g"
  shows "tracks (msgs @ (if replace_switch g item (cs_conversation s) = None then [item] else [])) b
    (converge_working_directory_switch g item s)"
proof (cases "replace_switch g item (cs_conversation s)")
  case None
  with tracks_push [OF assms(1), of item] show ?thesis
    by (simp add: converge_working_directory_switch_def Let_def)
next
  case (Some r)
  obtain old c where "r = (old, c)" by (cases r)
  with Some tracks_cleaned [OF assms(1) replace_switch_cleaned [OF _ assms(2)], of old c] show ?thesis
    by (simp add: converge_working_directory_switch_def Let_def)
qed

lemma tracks_persist_reminder:
  "tracks msgs b (ca_state a) \<Longrightarrow> tracks msgs b (ca_state (snd (persist_reminder r p a)))"
proof (cases r; cases p; simp add: persist_reminder_def Let_def case_prod_unfold)
  fix reminder
  assume "tracks msgs b (ca_state a)"
  from tracks_rebased [OF this]
  show "tracks msgs b (rebase_turn_capture_offset ((snapshot_turn_slice (ca_state a))
      \<lparr>cs_conversation := fst (inject_memory_reminder (cs_conversation (snapshot_turn_slice (ca_state a))) reminder)\<rparr>))" .
qed

section \<open>A whole turn\<close>

text \<open>The items that a command adds to the conversation.\<close>

fun added :: "chat_env \<Rightarrow> chat_command \<Rightarrow> chat_actor \<Rightarrow> conversation_item list" where
  "added E (PushUserMessage item) a = [item]"
| "added E (PushUserMessagesBatch items) a = items"
| "added E (PushUserMessagesBatchAndAck items) a = items"
| "added E (PushUserMessageAndAck item) a = [item]"
| "added E (PushUserMessageWithRepairReason item reason) a = [item]"
| "added E (PushAssistantResponse item) a = [item]"
| "added E (PushToolResult item) a = [item]"
| "added E (PushModelOutput item) a = [item]"
| "added E (PushUnreportedModelOutput item) a = [item]"
| "added E (AppendWorkingDirectorySwitchAndAck content generation) a =
     (let candidate = working_directory_switch content generation;
          a = persist (PersistSwitch candidate) (pop_stranded_continue_reminder a)
      in case authoritative_switch candidate (unwrap_or switch_ack_dropped (ce_switch_ack E (ca_persisted a))) of
           None \<Rightarrow> []
         | Some item \<Rightarrow>
             if replace_switch generation item (cs_conversation (ca_state a)) = None then [item] else [])"
| "added E cmd a = []"

fun turn_log :: "chat_env \<Rightarrow> chat_command list \<Rightarrow> chat_actor \<Rightarrow> conversation_item list" where
  "turn_log E [] a = []"
| "turn_log E (cmd # cmds) a =
     added E cmd a @ (case handle_command E cmd a of None \<Rightarrow> [] | Some (r, a) \<Rightarrow> turn_log E cmds a)"

fun compacts :: "chat_command \<Rightarrow> bool" where
  "compacts (ReplaceConversation items is_compaction) = is_compaction"
| "compacts cmd = False"

text \<open>
  The commands of a turn that goes on: it is not begun again, taken or rewound, and the history is
  not repaired under it.
\<close>

fun within_turn :: "chat_command \<Rightarrow> bool" where
  "within_turn (Update u) = (u \<noteq> BeginTurnCapture)"
| "within_turn TakeTurnMessages = False"
| "within_turn (TruncateToPromptIndex target) = False"
| "within_turn (RepairHistory dry_run turn_active) = (dry_run \<or> turn_active = Some True)"
| "within_turn cmd = True"

text \<open>The disk answers for a generation with an item of that generation.\<close>

definition disk_keeps_generations :: "chat_env \<Rightarrow> bool" where
  "disk_keeps_generations E \<longleftrightarrow>
     (\<forall>calls content g r item.
        ce_switch_ack E (calls @ [PersistSwitch (working_directory_switch content g)]) = Some r \<and>
        (r = Inr (AlreadyPresent item) \<or> (\<exists>e. r = Inl (Committed (AlreadyPresent item) e))) \<longrightarrow>
        working_directory_switch_generation item = Some g)"

lemma candidate_generation: "working_directory_switch_generation (working_directory_switch c g) = Some g"
  by (simp add: working_directory_switch_generation_def working_directory_switch_def)

lemma authoritative_generation:
  assumes "disk_keeps_generations E"
    and "authoritative_switch (working_directory_switch content g)
      (unwrap_or switch_ack_dropped (ce_switch_ack E (calls @ [PersistSwitch (working_directory_switch content g)]))) =
      Some item"
  shows "working_directory_switch_generation item = Some g"
proof (cases "ce_switch_ack E (calls @ [PersistSwitch (working_directory_switch content g)])")
  case None
  with assms(2) show ?thesis by (simp add: authoritative_switch_def switch_ack_dropped_def)
next
  case (Some r)
  show ?thesis
  proof (cases "item = working_directory_switch content g")
    case False
    with assms(2) Some have "r = Inr (AlreadyPresent item) \<or> (\<exists>e. r = Inl (Committed (AlreadyPresent item) e))"
      by (auto simp: authoritative_switch_def split: sum.splits strict_ack.splits strict_error.splits)
    with assms(1) Some show ?thesis unfolding disk_keeps_generations_def by blast
  qed (simp add: candidate_generation)
qed

lemma tracks_append_switch:
  assumes "disk_keeps_generations E" and "tracks msgs b (ca_state a)"
  shows "tracks (msgs @ added E (AppendWorkingDirectorySwitchAndAck content g) a) b
    (ca_state (snd (append_switch E content g a)))"
proof -
  let ?item = "authoritative_switch (working_directory_switch content g)
    (unwrap_or switch_ack_dropped (ce_switch_ack E (ca_persisted (pop_stranded_continue_reminder a) @
      [PersistSwitch (working_directory_switch content g)])))"
  have pop: "tracks msgs b (ca_state (pop_stranded_continue_reminder a))" using assms(2) by simp
  show ?thesis
  proof (cases ?item)
    case (Some item)
    from authoritative_generation [OF assms(1) Some] tracks_converge [OF pop]
    show ?thesis by (simp add: switch_defs Let_def Some)
  qed (use pop in \<open>simp add: switch_defs Let_def\<close>)
qed

lemma tracks_update:
  "tracks msgs b s \<Longrightarrow> u \<noteq> BeginTurnCapture \<Longrightarrow> tracks msgs b (update u s)"
  by (cases u) (auto simp: record_model_call_usage_def record_subagent_usage_def mark_usage_incomplete_def
      seal_harness_trace_turn_def Let_def tracks_restore)

lemma tracks_build:
  assumes "build_command E tools r p c q a = Some (reply, a')" and "tracks msgs b (ca_state a)"
  shows "tracks msgs b (ca_state a')"
proof -
  have "tracks msgs b (ca_state (snd (persist_reminder r p (ensure_conversation_integrity UserCancelled a))))"
    using assms(2) by (simp add: tracks_persist_reminder)
  with assms(1) show ?thesis
    by (auto simp: build_command_def build_conversation_request_def report_images_def Let_def
        case_prod_unfold split: option.splits if_splits)
qed

lemma strip_command_state: "snd (strip_command E urls a) = snd (strip_conversation_images urls a)"
  by (simp add: strip_command_def case_prod_unfold split: option.split)

lemma step_tracks:
  assumes "disk_keeps_generations E" and "within_turn cmd"
    and "tracks msgs b (ca_state a)" and "handle_command E cmd a = Some (r, a')"
  shows "tracks (msgs @ added E cmd a) (b \<or> compacts cmd) (ca_state a')"
proof (cases cmd)
  case (AppendWorkingDirectorySwitchAndAck content g)
  with tracks_append_switch [OF assms(1,3), of content g] assms(4) show ?thesis by (auto simp: map_prod_def case_prod_unfold)
next
  case (BuildConversationRequest tools mr p c q)
  with tracks_build [of E tools mr p c q a] assms(3,4) show ?thesis by auto
qed (use assms in \<open>auto simp: tracks_update tracks_push_user push_user_message_def tracks_batch
    tracks_push_message record_token_usage_def increment_prompt_index_def Let_def tracks_replace
    repair_command_def actor_repair_history_def case_prod_unfold strip_command_state tracks_strip
    repair_dangling_after_harness_halt_def tracks_system_head take_trace_turns_def
    seal_harness_trace_turn_def map_prod_def\<close>)

section \<open>The actor answers\<close>

text \<open>The commands that carry a reply channel (\<^verbatim>\<open>commands.rs\<close>).\<close>

fun awaits_reply :: "chat_command \<Rightarrow> bool" where
  "awaits_reply (Query q) = True"
| "awaits_reply (Update (RecordSubagentUsage by_model attribute incomplete)) = True"
| "awaits_reply (Update (MarkUsageIncomplete prompt session)) = True"
| "awaits_reply (PushUserMessagesBatchAndAck items) = True"
| "awaits_reply (PushUserMessageAndAck item) = True"
| "awaits_reply (AppendWorkingDirectorySwitchAndAck content generation) = True"
| "awaits_reply (RepairHistory dry_run turn_active) = True"
| "awaits_reply (StripConversationImages urls) = True"
| "awaits_reply (ReplaceSystemHead prompt) = True"
| "awaits_reply (BuildConversationRequest tools memory_reminder persist_it conv_id req_id) = True"
| "awaits_reply (ApplyTurnRequestPruning items) = True"
| "awaits_reply (TruncateToPromptIndex target) = True"
| "awaits_reply TakeTurnMessages = True"
| "awaits_reply TakeHarnessTraceTurns = True"
| "awaits_reply cmd = False"

lemma build_returns: "\<exists>r. build_command E tools mr p c q a = Some r"
proof -
  have "\<exists>b. apply_image_budget S items = Some b" for S items
    using budget_applies [of S items] by (auto simp: apply_image_budget_def)
  then show ?thesis
    by (fastforce simp: build_command_def build_conversation_request_def Let_def case_prod_unfold
        split: option.split)
qed

lemma update_reply_iff: "(update_reply u \<noteq> None) = awaits_reply (Update u)"
  by (cases u) (simp_all add: update_reply_def)

lemma handle_returns: "\<exists>r a'. handle_command E cmd a = Some (r, a') \<and> (r \<noteq> None) = awaits_reply cmd"
proof (cases cmd)
  case (BuildConversationRequest tools mr p c q)
  with build_returns [of E tools mr p c q a] show ?thesis by (auto simp: case_prod_unfold)
next
  case (Update u)
  with update_reply_iff [of u] show ?thesis by simp
qed (simp_all add: map_prod_def case_prod_unfold)

lemma run_actor_append:
  "run_actor E (cmds @ later) a =
     (case run_actor E cmds a of
        None \<Rightarrow> None
      | Some (replies, a) \<Rightarrow> map_option (\<lambda>(rest, a). (replies @ rest, a)) (run_actor E later a))"
  by (induction cmds arbitrary: a)
    (auto simp: option.map_ident map_option_case split: option.splits prod.splits)

lemma run_actor_returns:
  "\<exists>replies a'. run_actor E cmds a = Some (replies, a') \<and>
     list_all2 (\<lambda>cmd reply. (reply \<noteq> None) = awaits_reply cmd) cmds replies"
proof (induction cmds arbitrary: a)
  case (Cons cmd cmds)
  obtain r a1 where "handle_command E cmd a = Some (r, a1)" "(r \<noteq> None) = awaits_reply cmd"
    using handle_returns by blast
  with Cons.IH [of a1] show ?case by fastforce
qed simp

text \<open>
  The process against the queue worked off in order: the commands that are done, the answers that they
  have, and those that are still with a task.
\<close>

fun answers_from :: "nat \<Rightarrow> chat_reply option list \<Rightarrow> (nat \<times> chat_reply) list" where
  "answers_from i [] = []"
| "answers_from i (r # rs) = (case r of None \<Rightarrow> [] | Some reply \<Rightarrow> [(i, reply)]) @ answers_from (Suc i) rs"

definition answers :: "chat_reply option list \<Rightarrow> (nat \<times> chat_reply) list" where
  "answers replies = answers_from 0 replies"

definition task_answer :: "chat_env \<Rightarrow> nat \<times> nat \<times> persist_call list \<Rightarrow> nat \<times> chat_reply" where
  "task_answer E t = (case t of (caller, n, calls) \<Rightarrow> (caller, strip_reply n (ce_strip_written E calls)))"

definition commands_done :: "chat_process \<Rightarrow> nat" where
  "commands_done p = (if pr_waiting p = None then pr_taken p else pr_taken p - 1)"

definition mid_switch :: "chat_process \<Rightarrow> chat_actor \<Rightarrow> bool" where
  "mid_switch p a \<longleftrightarrow>
     (case pr_waiting p of
        None \<Rightarrow> pr_actor p = a
      | Some (content, generation) \<Rightarrow>
          0 < pr_taken p \<and> pr_actor p = begin_switch content generation a \<and>
          pr_sent p ! (pr_taken p - 1) = AppendWorkingDirectorySwitchAndAck content generation)"

definition process_inv :: "chat_env \<Rightarrow> chat_actor \<Rightarrow> chat_process \<Rightarrow> bool" where
  "process_inv E a0 p \<longleftrightarrow> pr_taken p \<le> length (pr_sent p) \<and>
     (\<exists>replies a. run_actor E (take (commands_done p) (pr_sent p)) a0 = Some (replies, a) \<and> mid_switch p a \<and>
        mset (pr_replies p) + mset (map (task_answer E) (pr_tasks p)) = mset (answers replies))"

definition work_left :: "chat_process \<Rightarrow> nat" where
  "work_left p = 2 * (length (pr_sent p) - pr_taken p) + (if pr_waiting p = None then 0 else 1) +
     length (pr_tasks p)"

lemma answers_from_append:
  "answers_from i (rs @ ss) = answers_from i rs @ answers_from (i + length rs) ss"
  by (induction rs arbitrary: i) simp_all

lemma answers_snoc:
  "answers (rs @ [r]) = answers rs @ (case r of None \<Rightarrow> [] | Some reply \<Rightarrow> [(length rs, reply)])"
  by (simp add: answers_def answers_from_append)

lemma answers_callers: "distinct (map fst (answers_from i rs)) \<and> (\<forall>c \<in> set (map fst (answers_from i rs)). i \<le> c)"
proof (induction rs arbitrary: i)
  case (Cons r rs)
  from Cons.IH [of "Suc i"] show ?case by (auto split: option.split)
qed simp

lemma run_actor_length: "run_actor E cmds a = Some (replies, a') \<Longrightarrow> length replies = length cmds"
  by (induction cmds arbitrary: a replies) (auto split: option.splits prod.splits)

lemma run_actor_snoc:
  assumes "run_actor E cmds a0 = Some (replies, a)" and "handle_command E cmd a = Some (r, a')"
  shows "run_actor E (cmds @ [cmd]) a0 = Some (replies @ [r], a')"
  using assms by (simp add: run_actor_append)

text \<open>A command that is done: its answer, if it has one, is there or with a task.\<close>

lemma process_inv_done:
  assumes "process_inv E a0 p" and "commands_done p < length (pr_sent p)"
    and "\<And>a. mid_switch p a \<Longrightarrow> handle_command E (pr_sent p ! commands_done p) a = Some (r, pr_actor p')"
    and "mset (pr_replies p') + mset (map (task_answer E) (pr_tasks p')) =
        mset (pr_replies p) + mset (map (task_answer E) (pr_tasks p)) +
        mset (case r of None \<Rightarrow> [] | Some reply \<Rightarrow> [(commands_done p, reply)])"
    and "pr_sent p' = pr_sent p" and "pr_waiting p' = None" and "pr_taken p' = Suc (commands_done p)"
  shows "process_inv E a0 p'"
proof -
  from assms(1) obtain replies a where run: "run_actor E (take (commands_done p) (pr_sent p)) a0 = Some (replies, a)"
    and mid: "mid_switch p a"
    and all: "mset (pr_replies p) + mset (map (task_answer E) (pr_tasks p)) = mset (answers replies)"
    by (auto simp: process_inv_def)
  have len: "length replies = commands_done p" using run_actor_length [OF run] assms(2) by simp
  from all assms(4)
  have "mset (pr_replies p') + mset (map (task_answer E) (pr_tasks p')) = mset (answers (replies @ [r]))"
    by (cases r) (simp_all add: answers_snoc len)
  moreover have "run_actor E (take (Suc (commands_done p)) (pr_sent p)) a0 = Some (replies @ [r], pr_actor p')"
    using run_actor_snoc [OF run assms(3) [OF mid]] assms(2) by (simp add: take_Suc_conv_app_nth)
  ultimately show ?thesis
    using assms(2,5-7) by (auto simp: process_inv_def commands_done_def mid_switch_def)
qed

fun answered_later :: "chat_command \<Rightarrow> bool" where
  "answered_later (AppendWorkingDirectorySwitchAndAck content generation) = True"
| "answered_later (StripConversationImages urls) = True"
| "answered_later cmd = False"

lemma take_plain:
  assumes "pr_waiting p = None" and "pr_taken p < length (pr_sent p)"
    and "\<not> answered_later (pr_sent p ! pr_taken p)"
  shows "take_command E p = map_option
    (\<lambda>(reply, a). reply_to (pr_taken p) reply (p\<lparr>pr_taken := pr_taken p + 1, pr_actor := a\<rparr>))
    (handle_command E (pr_sent p ! pr_taken p) (pr_actor p))"
  using assms by (cases "pr_sent p ! pr_taken p") (simp_all add: take_command_def Let_def)

lemma take_command_inv:
  assumes "take_command E p = Some p'" and "process_inv E a0 p"
  shows "process_inv E a0 p' \<and> work_left p' < work_left p"
proof -
  have "\<not> (pr_waiting p \<noteq> None \<or> length (pr_sent p) \<le> pr_taken p)"
  proof
    assume "pr_waiting p \<noteq> None \<or> length (pr_sent p) \<le> pr_taken p"
    with assms(1) show False by (simp add: take_command_def)
  qed
  then have ready: "pr_waiting p = None" "pr_taken p < length (pr_sent p)"
    unfolding de_Morgan_disj not_not not_le by blast+
  then have finished: "commands_done p = pr_taken p" by (simp add: commands_done_def)
  have mid: "pr_actor p = a" if "mid_switch p a" for a using that ready by (simp add: mid_switch_def)
  show ?thesis
  proof (cases "answered_later (pr_sent p ! pr_taken p)")
    case False
    with assms(1) take_plain [OF ready] obtain r a where
      step: "handle_command E (pr_sent p ! pr_taken p) (pr_actor p) = Some (r, a)"
      and p': "p' = reply_to (pr_taken p) r (p\<lparr>pr_taken := pr_taken p + 1, pr_actor := a\<rparr>)" by auto
    have "process_inv E a0 p'"
      by (rule process_inv_done [OF assms(2), of r], unfold finished)
        (use ready mid step in \<open>simp_all add: p' reply_to_def\<close>)
    then show ?thesis using ready by (simp add: p' reply_to_def work_left_def)
  next
    case True
    then consider (switch) content generation where
        "pr_sent p ! pr_taken p = AppendWorkingDirectorySwitchAndAck content generation"
      | (strip) urls where "pr_sent p ! pr_taken p = StripConversationImages urls"
      by (cases "pr_sent p ! pr_taken p") auto
    then show ?thesis
    proof cases
      case switch
      with assms(1) ready have p': "p' = p\<lparr>pr_taken := pr_taken p + 1,
          pr_actor := begin_switch content generation (pr_actor p), pr_waiting := Some (content, generation)\<rparr>"
        by (simp add: take_command_def Let_def)
      have "process_inv E a0 p'"
        using assms(2) ready switch by (auto simp: process_inv_def p' commands_done_def mid_switch_def)
      then show ?thesis using ready by (simp add: p' work_left_def)
    next
      case strip
      obtain found a where stripped: "strip_conversation_images urls (pr_actor p) = (found, a)" by fastforce
      show ?thesis
      proof (cases found)
        case None
        with strip stripped assms(1) ready have p': "p' = reply_to (pr_taken p) (Some (StripResult StripNoMatch))
            (p\<lparr>pr_taken := pr_taken p + 1, pr_actor := a\<rparr>)" by (simp add: take_command_def Let_def)
        have "process_inv E a0 p'"
          by (rule process_inv_done [OF assms(2), of "Some (StripResult StripNoMatch)"])
            (use ready finished mid strip stripped None in \<open>simp_all add: p' reply_to_def strip_command_def\<close>)
        then show ?thesis using ready by (simp add: p' reply_to_def work_left_def)
      next
        case (Some n)
        with strip stripped assms(1) ready have p': "p' = p\<lparr>pr_taken := pr_taken p + 1, pr_actor := a,
            pr_tasks := pr_tasks p @ [(pr_taken p, n, ca_persisted a)]\<rparr>" by (simp add: take_command_def Let_def)
        have "process_inv E a0 p'"
          by (rule process_inv_done [OF assms(2), of "Some (strip_reply n (ce_strip_written E (ca_persisted a)))"])
            (use ready finished mid strip stripped Some in \<open>simp_all add: p' strip_command_def task_answer_def\<close>)
        then show ?thesis using ready by (simp add: p' work_left_def)
      qed
    qed
  qed
qed

lemma switch_acked_inv:
  assumes "switch_acked E p = Some p'" and "process_inv E a0 p"
  shows "process_inv E a0 p' \<and> work_left p' < work_left p"
proof -
  from assms(1) obtain content generation where waiting: "pr_waiting p = Some (content, generation)"
    by (auto simp: switch_acked_def)
  obtain reply a where finish:
      "finish_switch content generation (ce_switch_ack E (ca_persisted (pr_actor p))) (pr_actor p) = (reply, a)"
    by fastforce
  with assms(1) waiting have p': "p' = reply_to (pr_taken p - 1) (Some reply) (p\<lparr>pr_actor := a, pr_waiting := None\<rparr>)"
    by (simp add: switch_acked_def)
  from assms(2) waiting have taken: "0 < pr_taken p" "pr_taken p \<le> length (pr_sent p)"
    by (auto simp: process_inv_def mid_switch_def)
  have "process_inv E a0 p'"
    by (rule process_inv_done [OF assms(2), of "Some reply"])
      (use waiting taken finish in \<open>simp_all add: p' reply_to_def commands_done_def mid_switch_def
         append_switch_def Let_def\<close>)
  then show ?thesis using waiting by (simp add: p' reply_to_def work_left_def)
qed

lemma strip_acked_inv:
  assumes "strip_acked E k p = Some p'" and "process_inv E a0 p"
  shows "process_inv E a0 p' \<and> work_left p' < work_left p"
proof -
  from assms(1) obtain caller n calls where k: "k < length (pr_tasks p)"
    and task: "pr_tasks p ! k = (caller, n, calls)"
    and p': "p' = reply_to caller (Some (strip_reply n (ce_strip_written E calls)))
      (p\<lparr>pr_tasks := take k (pr_tasks p) @ drop (Suc k) (pr_tasks p)\<rparr>)"
    by (auto simp: strip_acked_def split: if_splits prod.splits)
  have "mset (map (task_answer E) (pr_tasks p)) = mset (map (task_answer E)
      (take k (pr_tasks p) @ pr_tasks p ! k # drop (Suc k) (pr_tasks p)))"
    using id_take_nth_drop [OF k] by simp
  with task have "mset (pr_replies p') + mset (map (task_answer E) (pr_tasks p')) =
      mset (pr_replies p) + mset (map (task_answer E) (pr_tasks p))"
    by (simp add: p' reply_to_def task_answer_def)
  moreover have "commands_done p' = commands_done p" "pr_sent p' = pr_sent p" "pr_taken p' = pr_taken p"
    by (simp_all add: p' reply_to_def commands_done_def)
  moreover have "mid_switch p' = mid_switch p"
    by (rule ext, cases "pr_waiting p") (simp_all add: p' reply_to_def mid_switch_def case_prod_unfold)
  ultimately have "process_inv E a0 p'" using assms(2) by (simp add: process_inv_def)
  then show ?thesis using k by (simp add: p' reply_to_def work_left_def)
qed

lemma work_inv: "process_work E p p' \<Longrightarrow> process_inv E a0 p \<Longrightarrow> process_inv E a0 p' \<and> work_left p' < work_left p"
  by (induction rule: process_work.induct) (rule take_command_inv switch_acked_inv strip_acked_inv; assumption)+

lemma step_inv: "process_step E p p' \<Longrightarrow> process_inv E a0 p \<Longrightarrow> process_inv E a0 p'"
proof (induction rule: process_step.induct)
  case (sends p cmd)
  then have "pr_taken p \<le> length (pr_sent p)" by (simp add: process_inv_def)
  then have "commands_done p \<le> length (pr_sent p)" by (auto simp: commands_done_def)
  with sends show ?case
    by (auto simp: process_inv_def commands_done_def mid_switch_def nth_append split: if_splits)
qed (use work_inv in blast)

lemma process_inv_run: "(process_step E)\<^sup>*\<^sup>* (process_new a) p \<Longrightarrow> process_inv E a p"
proof (induction rule: rtranclp_induct)
  case base
  show ?case by (simp add: process_inv_def process_new_def commands_done_def mid_switch_def answers_def)
qed (rule step_inv)

lemma take_returns:
  assumes "pr_waiting p = None" and "pr_taken p < length (pr_sent p)"
  shows "take_command E p \<noteq> None"
proof (cases "answered_later (pr_sent p ! pr_taken p)")
  case False
  obtain r a where "handle_command E (pr_sent p ! pr_taken p) (pr_actor p) = Some (r, a)"
    using handle_returns by blast
  with take_plain [OF assms False] show ?thesis by simp
next
  case True
  with assms show ?thesis
    by (cases "pr_sent p ! pr_taken p") (auto simp: take_command_def Let_def split: prod.split option.split)
qed

lemma work_remains:
  assumes "work_left p \<noteq> 0"
  shows "\<exists>p'. process_work E p p'"
proof (cases "pr_waiting p")
  case (Some w)
  then have "switch_acked E p \<noteq> None" by (simp add: switch_acked_def)
  then show ?thesis using process_work.switched by blast
next
  case None
  show ?thesis
  proof (cases "pr_taken p < length (pr_sent p)")
    case True
    with take_returns [OF None] show ?thesis using process_work.takes by blast
  next
    case False
    with None assms have "pr_tasks p \<noteq> []" by (auto simp: work_left_def)
    then have "strip_acked E 0 p \<noteq> None" by (auto simp: strip_acked_def split: prod.split)
    then show ?thesis using process_work.stripped by blast
  qed
qed

text \<open>
  C15. Every caller is answered, if the process goes on and the disk answers or drops what it was asked:
  whatever commands were sent and however far it has come, each further step leaves less to do, and
  as long as something is left some step can be taken; the next command can be taken unless the actor
  waits for the disk to confirm a change of directory, however many strips the disk still owes an
  answer; no caller has two answers; and when nothing is left every command was handled, the state is
  that of the commands handled one after the other, and exactly those callers that wait for an answer
  have got it, the one that this handling gives.
\<close>

theorem every_caller_is_answered:
  assumes "(process_step E)\<^sup>*\<^sup>* (process_new a) p"
  shows "(\<forall>p'. process_work E p p' \<longrightarrow> work_left p' < work_left p) \<and>
    (work_left p \<noteq> 0 \<longrightarrow> (\<exists>p'. process_work E p p')) \<and>
    (pr_waiting p = None \<and> pr_taken p < length (pr_sent p) \<longrightarrow> take_command E p \<noteq> None) \<and>
    distinct (map fst (pr_replies p)) \<and>
    (work_left p = 0 \<longrightarrow>
      (\<exists>replies. run_actor E (pr_sent p) a = Some (replies, pr_actor p) \<and>
         mset (pr_replies p) = mset (answers replies) \<and>
         list_all2 (\<lambda>cmd reply. (reply \<noteq> None) = awaits_reply cmd) (pr_sent p) replies))"
proof (intro conjI)
  note inv = process_inv_run [OF assms]
  show "\<forall>p'. process_work E p p' \<longrightarrow> work_left p' < work_left p" using work_inv inv by blast
  show "work_left p \<noteq> 0 \<longrightarrow> (\<exists>p'. process_work E p p')" using work_remains by blast
  show "pr_waiting p = None \<and> pr_taken p < length (pr_sent p) \<longrightarrow> take_command E p \<noteq> None"
    using take_returns by blast
  from inv obtain replies a' where
    run: "run_actor E (take (commands_done p) (pr_sent p)) a = Some (replies, a')" and mid: "mid_switch p a'"
    and all: "mset (pr_replies p) + mset (map (task_answer E) (pr_tasks p)) = mset (answers replies)"
    by (auto simp: process_inv_def)
  have "mset (map fst (answers replies)) =
      mset (map fst (pr_replies p)) + mset (map fst (map (task_answer E) (pr_tasks p)))"
    using arg_cong [OF all, of "image_mset fst"] by (simp add: multiset.map_comp)
  then have "distinct (map fst (pr_replies p) @ map fst (map (task_answer E) (pr_tasks p)))"
    using answers_callers [of 0 replies] unfolding answers_def by (metis mset_append mset_eq_imp_distinct_iff)
  then show "distinct (map fst (pr_replies p))" by simp
  show "work_left p = 0 \<longrightarrow>
      (\<exists>replies. run_actor E (pr_sent p) a = Some (replies, pr_actor p) \<and>
         mset (pr_replies p) = mset (answers replies) \<and>
         list_all2 (\<lambda>cmd reply. (reply \<noteq> None) = awaits_reply cmd) (pr_sent p) replies)"
  proof
    assume "work_left p = 0"
    then have idle: "pr_waiting p = None" "pr_tasks p = []" "length (pr_sent p) \<le> pr_taken p"
      by (auto simp: work_left_def split: if_splits)
    with mid have "pr_actor p = a'" by (simp add: mid_switch_def)
    moreover have "take (commands_done p) (pr_sent p) = pr_sent p" using idle by (simp add: commands_done_def)
    ultimately show "\<exists>replies. run_actor E (pr_sent p) a = Some (replies, pr_actor p) \<and>
         mset (pr_replies p) = mset (answers replies) \<and>
         list_all2 (\<lambda>cmd reply. (reply \<noteq> None) = awaits_reply cmd) (pr_sent p) replies"
      using run all idle run_actor_returns [of E "pr_sent p" a] by auto
  qed
qed

section \<open>The capture\<close>

lemma run_tracks:
  "disk_keeps_generations E \<Longrightarrow> list_all within_turn cmds \<Longrightarrow> tracks msgs b (ca_state a) \<Longrightarrow>
   \<exists>replies a'. run_actor E cmds a = Some (replies, a') \<and>
     tracks (msgs @ turn_log E cmds a) (b \<or> list_ex compacts cmds) (ca_state a')"
proof (induction cmds arbitrary: a msgs b)
  case (Cons cmd cmds)
  obtain r a1 where step: "handle_command E cmd a = Some (r, a1)" using handle_returns by blast
  from Cons.prems have "tracks (msgs @ added E cmd a) (b \<or> compacts cmd) (ca_state a1)"
    by (intro step_tracks [OF _ _ _ step]) simp_all
  with Cons.IH [of "msgs @ added E cmd a" "b \<or> compacts cmd" a1] Cons.prems step show ?case
    by (auto simp: disj_assoc)
qed simp

lemma tracks_captured:
  "tracks msgs b s \<Longrightarrow> \<exists>cap. captured_turn s = Some cap \<and> all_cleaned msgs (tm_messages cap) \<and>
     tm_compaction_occurred cap = b"
  by (auto simp: tracks_def captured_turn_def turn_tail_def split: option.splits)

lemma begin_tracks: "tracks [] False (begin_turn_capture s)"
  by (simp add: tracks_def begin_turn_capture_def)

text \<open>
  C6. The messages taken at the end of a turn are those the turn added, all of them and in their
  order, if none of the commands in between begins a turn, takes it or rewinds the conversation, and
  none is the repair command in its writing form outside an active turn (\<open>repair_drops_the_turn\<close> below
  shows that such a one loses messages); and if the disk, when it answers a change of directory with
  the item it already has, answers with one of the same generation. What the other commands do to the
  conversation in the middle of the turn does no harm: repairs made when a message is pushed or a
  request is built, pruning, restoring and replacement by a compaction. Until it is taken a message of
  the turn may change in three ways only: a result may be cleared, images that the server rejected
  stripped, and a change of directory may get the wording of another of its generation. The capture
  says whether a compaction occurred.
\<close>

theorem captured_turn_is_the_log:
  assumes "disk_keeps_generations E" and "list_all within_turn cmds"
  shows "\<exists>replies cap a'.
    run_actor E (Update BeginTurnCapture # cmds @ [TakeTurnMessages]) a =
      Some (None # replies @ [Some (Captured (Some cap))], a') \<and>
    list_all2 cleaning\<^sup>*\<^sup>* (turn_log E cmds (on_state begin_turn_capture a)) (tm_messages cap) \<and>
    tm_compaction_occurred cap = list_ex compacts cmds"
proof -
  have "tracks [] False (ca_state (on_state begin_turn_capture a))" by (simp add: begin_tracks)
  from run_tracks [OF assms this] obtain replies a' where
    run: "run_actor E cmds (on_state begin_turn_capture a) = Some (replies, a')"
    and "tracks (turn_log E cmds (on_state begin_turn_capture a)) (list_ex compacts cmds) (ca_state a')"
    by auto
  from tracks_captured [OF this(2)] obtain cap where "captured_turn (ca_state a') = Some cap"
    "all_cleaned (turn_log E cmds (on_state begin_turn_capture a)) (tm_messages cap)"
    "tm_compaction_occurred cap = list_ex compacts cmds" by blast
  moreover have "update BeginTurnCapture = begin_turn_capture" by (rule ext) simp
  ultimately show ?thesis
    using run by (simp add: run_actor_append update_reply_def)
qed

text \<open>
  Only a repair that changes something loses the messages of the turn: it puts the new history in
  place while the state holds an empty one, so the slice that is saved for the capture is empty. A
  head of the conversation is replaced from a copy for that very reason.
\<close>

lemma repair_drops_the_turn:
  assumes "cs_capture (ca_state a) = Some cap"
    and "history_changed (snd (repair_history (cs_conversation (ca_state a))))"
    and "turn_active \<noteq> Some True"
    and "handle_command E (RepairHistory False turn_active) a = Some (r, a')"
  shows "captured_turn (ca_state a') =
    Some \<lparr>tm_messages = tu_pre_replacement cap, tm_compaction_occurred = tu_compaction_occurred cap\<rparr>"
  using assms
  by (auto simp: repair_command_def actor_repair_history_def case_prod_unfold map_prod_def Let_def
      replace_conversation_def note_compaction_def snapshot_turn_slice_def rebase_turn_capture_offset_def
      turn_tail_def captured_turn_def)

section \<open>Bills\<close>

definition billed :: "(usage_totals \<Rightarrow> nat) set" where
  "billed = {ut_input, ut_output, ut_cached_read, ut_cache_creation, ut_reasoning, ut_model_calls,
     ut_api_duration_ms, ut_cost_missing_calls}"

lemma billed_fold: "f \<in> billed \<Longrightarrow> f (fold_totals x t) = sat_add64 (f t) (f x)"
  by (auto simp: billed_def fold_totals_def)

lemma billed_zero: "f \<in> billed \<Longrightarrow> f zero_totals = 0"
  by (auto simp: billed_def zero_totals_def)

definition adds_up :: "usage_ledger \<Rightarrow> bool" where
  "adds_up l \<longleftrightarrow> hm_wf (ul_by_model l) \<and>
     (\<forall>f \<in> billed. f (ul_totals l) = min u64_max (\<Sum>(m, t) \<leftarrow> ul_by_model l. f t))"

lemma sum_update:
  fixes f :: "'v \<Rightarrow> nat"
  assumes "hm_wf m"
  shows "(\<Sum>(k, v) \<leftarrow> hm_ins k v m. f v) + (case hm_get m k of Some w \<Rightarrow> f w | None \<Rightarrow> 0) =
    (\<Sum>(k, v) \<leftarrow> m. f v) + f v"
  using assms
proof (induction m)
  case (Cons x m)
  obtain k' w where x: "x = (k', w)" by (cases x)
  from Cons.prems have "hm_wf m" by (simp add: hm_wf_def)
  with Cons.IH show ?case by (auto simp: x)
qed simp

lemma adds_up_empty: "adds_up empty_ledger"
  by (auto simp: adds_up_def empty_ledger_def billed_zero)

lemma saturated_sum: "s' + e = s + min m (e + x) \<Longrightarrow> e \<le> s \<Longrightarrow> min m (min m s + x) = min m (s' :: nat)"
  by (simp add: min_def split: if_splits)

lemma adds_up_entry:
  assumes "adds_up l"
  shows "adds_up (fold_entry model_id x l)"
proof -
  have wf: "hm_wf (ul_by_model l)" using assms by (simp add: adds_up_def)
  let ?e = "unwrap_or zero_totals (hm_get (ul_by_model l) model_id)"
  have "f (ul_totals (fold_entry model_id x l)) =
      min u64_max (\<Sum>(m, t) \<leftarrow> ul_by_model (fold_entry model_id x l). f t)" if f: "f \<in> billed" for f
  proof -
    let ?s = "\<Sum>(m, t) \<leftarrow> ul_by_model l. f t"
    let ?s' = "\<Sum>(m, t) \<leftarrow> hm_ins model_id (fold_totals x ?e) (ul_by_model l). f t"
    have entry: "(case hm_get (ul_by_model l) model_id of Some w \<Rightarrow> f w | None \<Rightarrow> 0) = f ?e"
      by (simp add: billed_zero [OF f] unwrap_or_def split: option.split)
    have "?s' + f ?e = ?s + min u64_max (f ?e + f x)"
      using sum_update [OF wf, of f model_id "fold_totals x ?e"]
      by (simp add: entry billed_fold [OF f] sat_add64_def)
    moreover have "f ?e \<le> ?s"
    proof (cases "hm_get (ul_by_model l) model_id")
      case (Some w)
      then have "(model_id, w) \<in> set (ul_by_model l)" by (rule map_of_SomeD)
      then have "f w \<in> set (map (\<lambda>(m, t). f t) (ul_by_model l))" by force
      from member_le_sum_list [OF this] Some show ?thesis by (simp add: unwrap_or_def)
    qed (simp add: billed_zero [OF f] unwrap_or_def)
    ultimately have "min u64_max (min u64_max ?s + f x) = min u64_max ?s'" by (rule saturated_sum)
    moreover have "f (ul_totals l) = min u64_max ?s" using assms f by (simp add: adds_up_def)
    ultimately show ?thesis by (simp add: fold_entry_def billed_fold [OF f] sat_add64_def)
  qed
  then show ?thesis using hm.wf_ins [OF wf] by (simp add: adds_up_def fold_entry_def)
qed

text \<open>A ledger that another one covers, in every count.\<close>

definition covers :: "usage_ledger \<Rightarrow> usage_ledger \<Rightarrow> bool" where
  "covers big small \<longleftrightarrow>
     (\<forall>f \<in> billed. f (ul_totals small) \<le> f (ul_totals big)) \<and>
     ul_main_loop_model_calls small \<le> ul_main_loop_model_calls big"

lemma covers_empty: "covers l empty_ledger"
  by (auto simp: covers_def empty_ledger_def billed_zero)

lemma covers_entry: "covers big small \<Longrightarrow> covers (fold_entry m x big) (fold_entry m x small)"
  by (auto simp: covers_def fold_entry_def billed_fold sat_add64_def intro: min.mono)

lemma covers_entries:
  "covers big small \<Longrightarrow> covers (fold (\<lambda>(m, x). fold_entry m x) xs big) (fold (\<lambda>(m, x). fold_entry m x) xs small)"
  by (induction xs arbitrary: big small) (auto simp: covers_entry)

lemma adds_up_entries: "adds_up l \<Longrightarrow> adds_up (fold (\<lambda>(m, x). fold_entry m x) xs l)"
  by (induction xs arbitrary: l) (auto simp: adds_up_entry)

lemma ledger_flags [simp]:
  "adds_up (l\<lparr>ul_main_loop_model_calls := n\<rparr>) = adds_up l" "adds_up (mark_incomplete l) = adds_up l"
  "covers (mark_incomplete big) small = covers big small"
  "covers big (mark_incomplete small) = covers big small"
  by (simp_all add: adds_up_def covers_def mark_incomplete_def)

lemma call_billed:
  "adds_up l \<Longrightarrow> adds_up (record_main_loop_call m u d c l)"
  "covers big small \<Longrightarrow> covers (record_main_loop_call m u d c big) (record_main_loop_call m u d c small)"
proof -
  show "adds_up l \<Longrightarrow> adds_up (record_main_loop_call m u d c l)"
    by (simp add: record_main_loop_call_def adds_up_entry)
  assume "covers big small"
  then have "covers (big\<lparr>ul_main_loop_model_calls := sat_add64 (ul_main_loop_model_calls big) 1\<rparr>)
      (small\<lparr>ul_main_loop_model_calls := sat_add64 (ul_main_loop_model_calls small) 1\<rparr>)"
    by (auto simp: covers_def sat_add64_def intro: min.mono)
  then show "covers (record_main_loop_call m u d c big) (record_main_loop_call m u d c small)"
    unfolding record_main_loop_call_def by (rule covers_entry)
qed

lemma subagent_billed:
  "adds_up l \<Longrightarrow> adds_up (record_subagent xs i l)"
  "covers big small \<Longrightarrow> covers (record_subagent xs i big) (record_subagent xs i small)"
  by (simp_all add: record_subagent_def Let_def adds_up_entries covers_entries)

lemma adds_up_bounded: "adds_up l \<Longrightarrow> f \<in> billed \<Longrightarrow> f (ul_totals l) \<le> u64_max"
  unfolding adds_up_def by (metis min.cobounded1)

lemma entries_grow:
  "covers big small \<Longrightarrow> adds_up small \<Longrightarrow> covers (fold (\<lambda>(m, x). fold_entry m x) xs big) small"
proof (induction xs arbitrary: big)
  case (Cons mx xs)
  have "covers (fold_entry m x big) small" for m x
    using Cons.prems adds_up_bounded [OF Cons.prems(2)]
    by (auto simp: covers_def fold_entry_def billed_fold sat_add64_def intro: trans_le_add1)
  with Cons.IH Cons.prems(2) show ?case by (simp add: case_prod_unfold)
qed simp

lemma subagent_grows: "covers big small \<Longrightarrow> adds_up small \<Longrightarrow> covers (record_subagent xs i big) small"
  by (simp add: record_subagent_def Let_def entries_grow)

definition well_billed :: "usage_ledger option \<times> usage_ledger \<Rightarrow> bool" where
  "well_billed b \<longleftrightarrow>
     (let prompt = unwrap_or empty_ledger (fst b)
      in adds_up (snd b) \<and> adds_up prompt \<and> covers (snd b) prompt)"

lemma well_billed_new: "well_billed (None, empty_ledger)"
  by (simp add: well_billed_def unwrap_or_def adds_up_empty covers_empty)

lemma well_billed_reset: "well_billed (p, l) \<Longrightarrow> well_billed (None, l)"
  by (simp add: well_billed_def unwrap_or_def adds_up_empty covers_empty Let_def)

lemma update_billed:
  assumes "well_billed (bills s)"
  shows "well_billed (bills (update u s))"
proof (cases u)
  case (RecordModelCallUsage model_id usage d c)
  with assms show ?thesis
    by (simp add: well_billed_def bills_def record_model_call_usage_def Let_def prompt_ledger_def
        call_billed unwrap_or_def [of _ "Some _"])
next
  case (RecordSubagentUsage by_model attribute incomplete)
  with assms show ?thesis
    by (auto simp: well_billed_def bills_def record_subagent_usage_def Let_def prompt_ledger_def
        subagent_billed subagent_grows unwrap_or_def [of _ "Some _"])
next
  case (MarkUsageIncomplete prompt session)
  with assms show ?thesis
    by (auto simp: well_billed_def bills_def mark_usage_incomplete_def Let_def prompt_ledger_def
        unwrap_or_def [of _ "Some _"])
next
  case (RestoreSnapshot snap)
  have "bills (restore_snapshot snap s) = (None, snd (bills s))"
    by (simp add: restore_snapshot_def Let_def bills_def rebase_turn_capture_offset_def
        snapshot_turn_slice_def)
  with RestoreSnapshot assms show ?thesis
    using well_billed_reset [of "fst (bills s)" "snd (bills s)"] by simp
qed (use assms in simp_all)

lemma command_billed:
  assumes "handle_command E cmd a = Some (r, a')" and "well_billed (bills (ca_state a))"
  shows "well_billed (bills (ca_state a'))"
proof (cases cmd)
  case (Update u)
  with assms show ?thesis using update_billed by auto
next
  case (AppendWorkingDirectorySwitchAndAck content g)
  with assms show ?thesis
    by (auto simp: switch_defs Let_def map_prod_def split: option.splits)
next
  case IncrementPromptIndex
  then have "bills (ca_state a') = (None, snd (bills (ca_state a)))"
    using assms(1) by (auto simp: increment_prompt_index_def Let_def bills_def)
  then show ?thesis using assms(2) well_billed_reset [of "fst (bills (ca_state a))"] by simp
next
  case (TruncateToPromptIndex n)
  then have "bills (ca_state a') = (None, snd (bills (ca_state a)))"
    using assms(1) bills_ops(10) [of n a] by (auto simp: bills_def)
  then show ?thesis using assms(2) well_billed_reset [of "fst (bills (ca_state a))"] by simp
next
  case (BuildConversationRequest tools mr p c q)
  have "bills (ca_state (snd (persist_reminder r p a))) = bills (ca_state a)" for r p a
    by (cases r; cases p) (simp_all add: persist_reminder_def Let_def case_prod_unfold)
  with BuildConversationRequest assms show ?thesis
    by (auto simp: build_command_def build_conversation_request_def report_images_def Let_def
        case_prod_unfold split: option.splits if_splits)
qed (use assms in \<open>auto simp: repair_command_def actor_repair_history_def case_prod_unfold map_prod_def
      strip_command_state strip_conversation_images_def Let_def replace_system_head_def take_trace_turns_def\<close>)

section \<open>The invariant\<close>

definition capture_in_range :: "chat_state \<Rightarrow> bool" where
  "capture_in_range s \<longleftrightarrow>
     (case cs_capture s of None \<Rightarrow> True | Some cap \<Rightarrow> tu_start_offset cap \<le> length (cs_conversation s))"

lemma in_range_cong:
  "cs_capture s' = cs_capture s \<Longrightarrow> length (cs_conversation s) \<le> length (cs_conversation s') \<Longrightarrow>
   capture_in_range s \<Longrightarrow> capture_in_range s'"
  by (auto simp: capture_in_range_def split: option.splits)

lemma in_range_rebased [simp]: "capture_in_range (rebase_turn_capture_offset s)"
  by (simp add: capture_in_range_def rebase_turn_capture_offset_def split: option.split)

lemma in_range_rewrite:
  assumes "capture_in_range (ca_state a)"
    and "kind \<noteq> IntegrityRepair \<longrightarrow>
      length (fst (mutate (cs_conversation (ca_state a)))) = length (cs_conversation (ca_state a))"
  shows "capture_in_range (ca_state (snd (rewrite_history kind mutate a)))"
proof (cases "kind = IntegrityRepair")
  case False
  with assms(2) show ?thesis
    by (simp add: rewrite_history_state) (rule in_range_cong [OF _ _ assms(1)]; simp)
qed (simp add: rewrite_history_state)

lemma in_range_ops:
  assumes "capture_in_range (ca_state a)"
  shows "capture_in_range (ca_state (ensure_conversation_integrity r a))"
    "capture_in_range (ca_state (pop_stranded_continue_reminder a))"
    "capture_in_range (ca_state (snd (prune_retained_conversation a)))"
    "capture_in_range (ca_state (snd (strip_conversation_images urls a)))"
    "capture_in_range (ca_state (add_estimate item a))"
    "capture_in_range (ca_state (persist_and_push_message item a))"
proof -
  note rewrite = in_range_rewrite [OF assms]
  show "capture_in_range (ca_state (ensure_conversation_integrity r a))"
    by (simp add: ensure_conversation_integrity_def rewrite)
  show "capture_in_range (ca_state (pop_stranded_continue_reminder a))"
    using assms by (simp add: pop_stranded_continue_reminder_def Let_def rewrite)
  show "capture_in_range (ca_state (snd (prune_retained_conversation a)))"
    using assms list_all2_lengthD [OF clear_retained_cleaned]
    by (simp add: prune_retained_conversation_def Let_def rewrite)
  show "capture_in_range (ca_state (snd (strip_conversation_images urls a)))"
    using list_all2_lengthD [OF strip_by_url_cleaned]
    by (simp add: strip_conversation_images_def Let_def case_prod_unfold rewrite)
  show "capture_in_range (ca_state (add_estimate item a))"
    by (rule in_range_cong [OF _ _ assms]) (simp_all add: add_estimate_def)
  show "capture_in_range (ca_state (persist_and_push_message item a))"
    by (rule in_range_cong [OF _ _ assms]) (simp_all add: persist_and_push_message_def)
qed

lemma in_range_push:
  assumes "capture_in_range (ca_state a)"
  shows "capture_in_range (ca_state (push_message item a))"
    "capture_in_range (ca_state (push_model_output item a))"
    "capture_in_range (ca_state (push_unreported_model_output item a))"
    "capture_in_range (ca_state (push_user_message_with_repair_reason item r a))"
    "capture_in_range (ca_state (push_user_message item a))"
  using assms
  by (simp_all add: push_message_def push_model_output_def push_unreported_model_output_def
      push_user_message_with_repair_reason_def push_user_message_def Let_def in_range_ops)

lemma in_range_batch:
  "capture_in_range (ca_state a) \<Longrightarrow> capture_in_range (ca_state (fold push_user_message items a))"
  by (induction items arbitrary: a) (simp_all add: in_range_push)

lemma in_range_replace [simp]: "capture_in_range (ca_state (replace_conversation items b a))"
  by (simp add: replace_conversation_def Let_def)

lemma replace_switch_length: "replace_switch g item c = Some (old, c') \<Longrightarrow> length c' = length c"
  by (induction c arbitrary: c') (auto split: if_splits)

lemma in_range_converge:
  "capture_in_range s \<Longrightarrow> capture_in_range (converge_working_directory_switch g item s)"
  by (rule in_range_cong)
    (auto simp: converge_working_directory_switch_def Let_def replace_switch_length
      split: option.split)

lemma in_range_restore: "capture_in_range (restore_snapshot snap s)"
  by (rule in_range_cong [OF _ _ in_range_rebased [of "(snapshot_turn_slice s)
        \<lparr>cs_conversation := sn_conversation snap\<rparr>"]])
    (simp_all add: restore_snapshot_def Let_def)

lemma in_range_update: "capture_in_range s \<Longrightarrow> capture_in_range (update u s)"
proof (cases u)
  case BeginTurnCapture
  then show ?thesis by (simp add: capture_in_range_def begin_turn_capture_def)
next
  case (RestoreSnapshot snap)
  then show ?thesis by (simp add: in_range_restore)
qed (auto elim!: in_range_cong [rotated 2] simp: record_model_call_usage_def record_subagent_usage_def
    mark_usage_incomplete_def seal_harness_trace_turn_def Let_def)

lemma in_range_reminder:
  "capture_in_range (ca_state a) \<Longrightarrow> capture_in_range (ca_state (snd (persist_reminder r p a)))"
  by (cases r; cases p) (simp_all add: persist_reminder_def Let_def case_prod_unfold)

lemma in_range_dropped: "cs_capture s = None \<Longrightarrow> capture_in_range s"
  by (simp add: capture_in_range_def)

lemma unchanged_repair_length:
  assumes "\<not> history_changed (snd (repair_history c))"
  shows "length (fst (repair_history c)) = length c"
proof -
  let ?x = "squeeze c"
  let ?y = "fst (strip_displaced {} ?x)"
  have "length ?x = length c" "snd (strip_displaced {} ?x) = []" "length (mend (HarnessHalted ''history_repair'') ?y) \<le> length ?y"
    using assms squeeze_le [of c]
    by (auto simp: history_changed_def repair_history_def case_prod_unfold Let_def dedup_is_squeeze
        strip_displaced_tool_results_def repair_is_mend)
  with strip_counts [of "{}" ?x] mend_longer [of ?y "HarnessHalted ''history_repair''"] show ?thesis
    by (simp add: repair_history_def case_prod_unfold Let_def dedup_is_squeeze
        strip_displaced_tool_results_def repair_is_mend)
qed

lemma in_range_repair:
  assumes "capture_in_range (ca_state a)"
  shows "capture_in_range (ca_state (snd (actor_repair_history d a)))"
  using assms unchanged_repair_length [of "cs_conversation (ca_state a)"]
  by (auto simp: actor_repair_history_def case_prod_unfold Let_def elim!: in_range_cong [rotated 2])

lemma in_range_misc:
  assumes "capture_in_range (ca_state a)"
  shows "capture_in_range (ca_state (record_token_usage n a))"
    "capture_in_range (ca_state (increment_prompt_index a))"
    "capture_in_range (ca_state (snd (take_trace_turns a)))"
    "capture_in_range (ca_state (repair_dangling_after_harness_halt cls a))"
    "capture_in_range (ca_state (snd (replace_system_head prompt a)))"
  by (rule in_range_cong [OF _ _ assms], simp_all add: record_token_usage_def)
    (rule in_range_cong [OF _ _ assms], simp_all add: increment_prompt_index_def Let_def,
      rule in_range_cong [OF _ _ assms], simp_all add: take_trace_turns_def seal_harness_trace_turn_def Let_def,
      use assms in \<open>simp_all add: repair_dangling_after_harness_halt_def in_range_ops replace_system_head_def
        Let_def case_prod_unfold\<close>)

lemma command_in_range:
  assumes "handle_command E cmd a = Some (r, a')" and "capture_in_range (ca_state a)"
  shows "capture_in_range (ca_state a')"
proof (cases cmd)
  case (Update u)
  with assms show ?thesis using in_range_update by auto
next
  case (AppendWorkingDirectorySwitchAndAck content g)
  with assms show ?thesis
    by (auto simp: switch_defs Let_def map_prod_def in_range_ops in_range_converge split: option.splits)
next
  case (BuildConversationRequest tools mr p c q)
  have "capture_in_range (ca_state (snd (persist_reminder mr p (ensure_conversation_integrity UserCancelled a))))"
    using assms(2) by (simp add: in_range_reminder in_range_ops)
  with BuildConversationRequest assms show ?thesis
    by (auto simp: build_command_def build_conversation_request_def report_images_def Let_def
        case_prod_unfold split: option.splits if_splits)
next
  case (RepairHistory d t)
  with assms in_range_repair [OF assms(2), of d] show ?thesis
    by (auto simp: repair_command_def case_prod_unfold map_prod_def Let_def split: if_splits)
qed (use assms in \<open>auto simp: in_range_push in_range_batch in_range_ops in_range_misc in_range_dropped
      case_prod_unfold map_prod_def strip_command_state\<close>)

lemma run_invariant:
  "well_billed (bills (ca_state a)) \<Longrightarrow> capture_in_range (ca_state a) \<Longrightarrow>
   \<exists>replies a'. run_actor E cmds a = Some (replies, a') \<and> well_billed (bills (ca_state a')) \<and>
     capture_in_range (ca_state a')"
proof (induction cmds arbitrary: a)
  case (Cons cmd cmds)
  obtain r a1 where step: "handle_command E cmd a = Some (r, a1)" using handle_returns by blast
  from Cons.IH [OF command_billed [OF step Cons.prems(1)] command_in_range [OF step Cons.prems(2)]] step
  show ?case by fastforce
qed simp

lemma spawned:
  "bills (ca_state (spawn_with_pruning initial config pruning)) = (None, empty_ledger)"
  "cs_capture (ca_state (spawn_with_pruning initial config pruning)) = None"
  by (simp_all add: spawn_with_pruning_def chat_state_new_def bills_def case_prod_unfold Let_def)

text \<open>
  C8. Whatever commands an actor has worked off: the capture of a turn starts inside the conversation,
  so that taking it never runs past the end; the totals of the session's bill and of the prompt's bill
  are the sums over their models, saturating as the counters do; and the session's bill covers the
  prompt's in every count.
\<close>

theorem chat_invariant:
  "\<exists>replies a. run_actor E cmds (spawn_with_pruning initial config pruning) = Some (replies, a) \<and>
     capture_in_range (ca_state a) \<and> adds_up (cs_session_usage (ca_state a)) \<and>
     adds_up (prompt_ledger (ca_state a)) \<and>
     covers (cs_session_usage (ca_state a)) (prompt_ledger (ca_state a))"
proof -
  let ?a = "spawn_with_pruning initial config pruning"
  have "well_billed (bills (ca_state ?a))" "capture_in_range (ca_state ?a)"
    by (simp_all add: spawned well_billed_new in_range_dropped)
  from run_invariant [OF this, of E cmds] show ?thesis
    by (auto simp: well_billed_def bills_def prompt_ledger_def Let_def)
qed

section \<open>A captured turn\<close>

definition quiet_disk :: chat_env where
  "quiet_disk = \<lparr>ce_sizes = \<lparr>js_items = length, js_part = (\<lambda>p. 0), js_str = length\<rparr>,
                 ce_switch_ack = (\<lambda>calls. Some (Inr Appended)), ce_strip_written = (\<lambda>calls. True)\<rparr>"

definition compacted_turn :: "chat_command list" where
  "compacted_turn =
     [PushUserMessageAndAck (user_message ''fix it''), PushModelOutput (assistant_message ''looking''),
      AppendWorkingDirectorySwitchAndAck ''moved'' 1, ReplaceConversation [user_message ''summary''] True,
      PushModelOutput (assistant_message ''done'')]"

lemmas turn_steps = begin_turn_capture_def push_user_message_def push_user_message_with_repair_reason_def
  prune_retained_conversation_def persist_and_push_message_def push_model_output_def add_estimate_def
  pop_stranded_continue_reminder_def ensure_conversation_integrity_def rewrite_history_state
  rebase_turn_capture_offset_def snapshot_turn_slice_def mend_conversation_def dedup_is_squeeze repair_is_mend
  default_pruning_config_def quiet_disk_def authoritative_switch_def Let_def unwrap_or_def
  user_message_def user_text_def assistant_message_def plain_assistant_def is_continue_reminder_def
  working_directory_switch_generation_def case_prod_unfold

text \<open>The four messages of a turn that was compacted in the middle.\<close>

theorem captured_turn_is_the_log_witness:
  "\<exists>replies cap a'.
     run_actor quiet_disk (Update BeginTurnCapture # compacted_turn @ [TakeTurnMessages])
       (spawn_with_pruning [] \<lparr>cg_model = ''m'', cg_context_window = 1000\<rparr> default_pruning_config) =
       Some (None # replies @ [Some (Captured (Some cap))], a') \<and>
     length (tm_messages cap) = 4 \<and> tm_compaction_occurred cap"
proof -
  have disk: "disk_keeps_generations quiet_disk"
    by (simp add: disk_keeps_generations_def quiet_disk_def)
  have turn: "list_all within_turn compacted_turn" "list_ex compacts compacted_turn"
    by (simp_all add: compacted_turn_def)
  let ?a = "spawn_with_pruning [] \<lparr>cg_model = ''m'', cg_context_window = 1000\<rparr> default_pruning_config"
  have "length (turn_log quiet_disk compacted_turn (on_state begin_turn_capture ?a)) = 4"
    by (simp add: compacted_turn_def spawn_with_pruning_def chat_state_new_def turn_steps)
  with captured_turn_is_the_log [OF disk turn(1), of ?a] turn(2) show ?thesis
    by (auto dest: list_all2_lengthD)
qed

text \<open>
  What a request is built from, what pruning spares, and how the token total moves. The calls and
  the results of a conversation are all that decides whether a call is unanswered (\<open>call_view\<close>);
  eviction, pruning, labelling and the memory reminder leave them alone.
\<close>

section \<open>Calls and results\<close>

definition call_view :: "conversation_item \<Rightarrow> tool_call list \<times> string option" where
  "call_view item = (item_calls item, result_id item)"

lemma result_view: "is_tool_result item \<longleftrightarrow> snd (call_view item) \<noteq> None"
  by (cases item) (simp_all add: call_view_def)

lemma view_runs:
  "map call_view (takeWhile is_tool_result items) = takeWhile (\<lambda>v. snd v \<noteq> None) (map call_view items)"
  "map call_view (dropWhile is_tool_result items) = dropWhile (\<lambda>v. snd v \<noteq> None) (map call_view items)"
  by (simp_all only: takeWhile_map dropWhile_map comp_def result_view [symmetric])

lemma answered_view: "answered_ids items = set (List.map_filter snd (map call_view items))"
  by (induction items) (auto simp: answered_ids_def map_filter_simps call_view_def split: option.splits)

lemma same_view_dangles: "map call_view xs = map call_view ys \<Longrightarrow> dangles xs = dangles ys"
proof (induction xs arbitrary: ys rule: dangles.induct)
  case (2 x xs)
  then obtain y ys' where ys: "ys = y # ys'" "call_view x = call_view y" "map call_view xs = map call_view ys'"
    by auto
  then have calls: "item_calls x = item_calls y" by (simp add: call_view_def)
  have run: "answered_ids (takeWhile is_tool_result xs) = answered_ids (takeWhile is_tool_result ys')"
    by (simp add: answered_view view_runs ys(3))
  show ?case
  proof (cases "item_calls x = []")
    case True
    with "2.IH"(2) [OF _ ys(3)] calls ys(1) show ?thesis by simp
  next
    case False
    have "map call_view (dropWhile is_tool_result xs) = map call_view (dropWhile is_tool_result ys')"
      by (simp add: view_runs ys(3))
    from "2.IH"(1) [OF False this] False calls run ys(1) show ?thesis by simp
  qed
qed simp

lemma no_calls_dangle: "item_calls item = [] \<Longrightarrow> dangles (item # items) = dangles items"
  by simp

text \<open>The calls and results of everything but the system messages.\<close>

definition exchange :: "conversation_item list \<Rightarrow> (tool_call list \<times> string option) list" where
  "exchange items = map call_view (filter (\<lambda>i. \<not> is_system i) items)"

lemma same_view_exchange:
  assumes "list_all2 (\<lambda>x y. call_view x = call_view y \<and> is_system x = is_system y) xs ys"
  shows "exchange xs = exchange ys" and "dangles xs = dangles ys"
proof -
  show "exchange xs = exchange ys" using assms by induction (simp_all add: exchange_def)
  have "map call_view xs = map call_view ys" using assms by induction simp_all
  then show "dangles xs = dangles ys" by (rule same_view_dangles)
qed

abbreviation alike :: "conversation_item list \<Rightarrow> conversation_item list \<Rightarrow> bool" where
  "alike \<equiv> list_all2 (\<lambda>x y. call_view x = call_view y \<and> is_system x = is_system y)"

lemma alike_refl [simp]: "alike xs xs"
  by (simp add: list_all2_refl)

lemma evicted_alike: "list_all2 item_evicted xs ys \<Longrightarrow> alike xs ys"
proof (erule list_all2_mono)
  fix x y assume "item_evicted x y"
  then show "call_view x = call_view y \<and> is_system x = is_system y"
    by (cases x; cases y) (auto simp: call_view_def is_system_def)
qed

lemma prune_from_end_alike: "alike items (prune_from_end config n seen items)"
proof (induction items arbitrary: n seen)
  case (Cons item items)
  then show ?case
    by (cases item) (auto simp: call_view_def is_system_def prune_result_def)
qed simp

lemma prune_alike: "alike items (prune_items_for_turn_request a items)"
  using prune_from_end_alike [of "rev items" "ca_pruning a" 0 False]
  by (simp add: prune_items_for_turn_request_def prune_conversation_def list_all2_rev1)

lemma label_alike: "alike items (model_request_history items)"
proof -
  have "call_view (label_agent_message x) = call_view x \<and> is_system (label_agent_message x) = is_system x" for x
    by (cases x) (simp_all add: label_agent_message_def call_view_def is_system_def)
  then show ?thesis by (simp add: model_request_history_def list_all2_map2 list_all2_refl)
qed

lemma reminder_exchange:
  "exchange (fst (inject_memory_reminder items r)) = exchange items \<and>
   dangles (fst (inject_memory_reminder items r)) = dangles items"
proof (cases "trim r = []")
  case False
  show ?thesis
  proof (cases items)
    case (Cons x rest)
    with False show ?thesis
      by (cases x) (simp_all add: inject_memory_reminder_def Let_def system_prompt_def exchange_def
          is_system_def case_prod_unfold)
  qed (use False in \<open>simp_all add: inject_memory_reminder_def Let_def system_prompt_def exchange_def is_system_def\<close>)
qed (simp add: inject_memory_reminder_def)

lemma request_items_exchange:
  "exchange (request_items a r items) = exchange items \<and> dangles (request_items a r items) = dangles items"
proof -
  let ?pruned = "prune_items_for_turn_request a items"
  let ?told = "case r of Some r \<Rightarrow> fst (inject_memory_reminder ?pruned r) | None \<Rightarrow> ?pruned"
  have "exchange ?told = exchange items" "dangles ?told = dangles items"
    using same_view_exchange [OF prune_alike [of items a]] reminder_exchange [of ?pruned]
    by (simp_all split: option.split)
  then show ?thesis
    using same_view_exchange [OF label_alike [of ?told]] by (simp add: request_items_def Let_def)
qed

lemma persist_reminder_exchange:
  fixes r p a
  defines "c \<equiv> cs_conversation (ca_state (snd (persist_reminder r p a)))"
  shows "exchange c = exchange (cs_conversation (ca_state a)) \<and> dangles c = dangles (cs_conversation (ca_state a))"
  using reminder_exchange [of "cs_conversation (ca_state a)"]
  by (cases r; cases p)
    (simp_all add: c_def persist_reminder_def Let_def case_prod_unfold rebase_turn_capture_offset_def
      snapshot_turn_slice_def)

lemma ensured_conversation:
  "cs_conversation (ca_state (ensure_conversation_integrity r a)) =
     fst (mend_conversation r (cs_conversation (ca_state a)))"
  by (simp add: ensure_conversation_integrity_def rewrite_history_state rebase_turn_capture_offset_def
      snapshot_turn_slice_def)

lemma mended_dangles: "\<not> dangles (fst (mend_conversation r c))"
  by (simp add: mend_conversation_def case_prod_unfold Let_def repair_is_mend mend_not_dangles)

text \<open>
  C7. In any state a request can be built, and it can be sent: no call in it is without a result, and
  but for the system message its calls and results are those of the repaired conversation, all of
  them and in their order, whatever images were evicted and whatever results pruned.
\<close>

theorem request_answers_every_call:
  "\<exists>rq a'. handle_command E (BuildConversationRequest tools mr p c q) a = Some (Some (Request rq), a') \<and>
     \<not> has_dangling_tool_calls (rq_items rq) \<and>
     exchange (rq_items rq) = exchange (fst (mend_conversation UserCancelled (cs_conversation (ca_state a))))"
proof -
  let ?e = "ensure_conversation_integrity UserCancelled a"
  let ?p = "persist_reminder mr p ?e"
  obtain b where b: "apply_image_budget (ce_sizes E) (cs_conversation (ca_state (snd ?p))) = Some b"
    "list_all2 item_evicted (cs_conversation (ca_state (snd ?p))) (ib_items b)"
    using budget_applies [of "ce_sizes E" "cs_conversation (ca_state (snd ?p))" IMAGE_COMPACT_TRIGGER_BYTES
        IMAGE_COMPACT_RECLAIM_TARGET_BYTES]
    unfolding apply_image_budget_def by blast
  define rq where "rq = \<lparr>rq_items = request_items (report_images b (snd ?p)) (fst ?p) (ib_items b),
    rq_length_policy = CompleteToolCalls, br_tools = tools,
    br_model = cg_model (cs_config (ca_state (report_images b (snd ?p)))), br_conv_id = c, br_req_id = q\<rparr>"
  have "handle_command E (BuildConversationRequest tools mr p c q) a =
      Some (Some (Request rq), report_images b (snd ?p))"
    by (simp add: build_command_def build_conversation_request_def case_prod_unfold Let_def b(1) rq_def)
  moreover have "\<not> dangles (rq_items rq)"
    "exchange (rq_items rq) = exchange (fst (mend_conversation UserCancelled (cs_conversation (ca_state a))))"
    using request_items_exchange [of "report_images b (snd ?p)" "fst ?p" "ib_items b"]
      same_view_exchange [OF evicted_alike [OF b(2)]] persist_reminder_exchange [of mr p ?e]
    by (simp_all add: rq_def ensured_conversation mended_dangles)
  ultimately show ?thesis by (auto simp: has_dangling_is_dangles)
qed

section \<open>What pruning spares\<close>

abbreviation users :: "conversation_item list \<Rightarrow> nat" where
  "users items \<equiv> length (filter is_user items)"

lemma cleared_position:
  "i < length items \<Longrightarrow> fst (clear_old_results threshold n seen items) ! i \<noteq> items ! i \<Longrightarrow>
   threshold \<le> n + (if seen then users (take i items) else users (take i items) - 1) \<and>
   (\<exists>t. items ! i = ToolResult t \<and>
      fst (clear_old_results threshold n seen items) ! i = ToolResult (t\<lparr>tr_content := HARD_CLEAR_PLACEHOLDER\<rparr>))"
proof (induction items arbitrary: i n seen)
  case (Cons item items)
  show ?case
  proof (cases i)
    case 0
    with Cons.prems show ?thesis
      by (cases item) (auto simp: Let_def case_prod_unfold split: if_splits)
  next
    case (Suc j)
    show ?thesis
    proof (cases "is_user item")
      case True
      then obtain u where "item = User u" by (cases item) (simp_all add: is_user_def)
      with Cons.IH [of j "if seen then n + 1 else n" True] Cons.prems Suc show ?thesis
        by (auto simp: Let_def case_prod_unfold is_user_def split: if_splits)
    next
      case False
      with Cons.IH [of j n seen] Cons.prems Suc show ?thesis
        by (cases item) (auto simp: Let_def case_prod_unfold is_user_def split: if_splits)
    qed
  qed
qed simp

lemma cleared_retained:
  assumes "i < length c" and "fst (clear_retained threshold c) ! i \<noteq> c ! i"
  shows "threshold \<le> users (drop (Suc i) c) - 1"
    and "\<exists>t. c ! i = ToolResult t \<and>
      fst (clear_retained threshold c) ! i = ToolResult (t\<lparr>tr_content := HARD_CLEAR_PLACEHOLDER\<rparr>)"
proof -
  let ?r = "fst (clear_old_results threshold 0 False (rev c))"
  let ?j = "length c - Suc i"
  have len: "length ?r = length c" using list_all2_lengthD [OF clear_old_results_cleaned] by fastforce
  have at: "fst (clear_retained threshold c) ! i = ?r ! ?j" "rev c ! ?j = c ! i"
    using assms(1) len by (simp_all add: clear_retained_def case_prod_unfold Let_def rev_nth)
  have "take ?j (rev c) = rev (drop (Suc i) c)" using assms(1) by (simp add: take_rev)
  then have "users (take ?j (rev c)) = users (drop (Suc i) c)"
    by (simp flip: rev_filter)
  with cleared_position [of ?j "rev c" threshold 0 False] assms at
  show "threshold \<le> users (drop (Suc i) c) - 1"
    and "\<exists>t. c ! i = ToolResult t \<and>
      fst (clear_retained threshold c) ! i = ToolResult (t\<lparr>tr_content := HARD_CLEAR_PLACEHOLDER\<rparr>)"
    by simp_all
qed

lemma filter_drop_le:
  "length (filter P (drop n xs)) + length (filter (\<lambda>x. P x \<and> Q x) xs) \<le>
   length (filter (\<lambda>x. P x \<and> Q x) (drop n xs)) + length (filter P xs)"
proof (induction xs arbitrary: n)
  case (Cons x xs)
  have le: "length (filter (\<lambda>x. P x \<and> Q x) ys) \<le> length (filter P ys)" for ys
    by (induction ys) simp_all
  show ?case
  proof (cases n)
    case (Suc m)
    with Cons [of m] le [of xs] show ?thesis by simp
  qed simp
qed simp

text \<open>
  C17. As long as the prompt index counts real prompts that the conversation still holds, pruning what
  is retained changes nothing but old results: a result is cleared only behind at least as many real
  user messages as the configuration says, however many synthetic ones there are.
\<close>

theorem retained_results_are_old:
  assumes c: "c = cs_conversation (ca_state a)"
    and pruned: "c' = cs_conversation (ca_state (snd (prune_retained_conversation a)))"
    and "cs_prompt_index (ca_state a) \<le> length (filter (\<lambda>x. is_user x \<and> typed x) c)"
    and "length c \<le> u64_max" and "i < length c" and "c' ! i \<noteq> c ! i"
  shows "pc_hard_clear_age_turns (ca_pruning a) \<le> length (filter (\<lambda>x. is_user x \<and> typed x) (drop i c)) \<and>
    (\<exists>t. c ! i = ToolResult t \<and> c' ! i = ToolResult (t\<lparr>tr_content := HARD_CLEAR_PLACEHOLDER\<rparr>))"
proof -
  let ?threshold = "retained_threshold (ca_pruning a) (cs_prompt_index (ca_state a)) c"
  have c': "c' = fst (clear_retained ?threshold c)"
    using assms(6) by (auto simp: pruned c prune_retained_conversation_def Let_def rewrite_history_state
        split: if_splits)
  from cleared_retained [OF assms(5) assms(6) [unfolded c']] obtain t where
    t: "c ! i = ToolResult t" "c' ! i = ToolResult (t\<lparr>tr_content := HARD_CLEAR_PLACEHOLDER\<rparr>)"
    and old: "?threshold \<le> users (drop (Suc i) c) - 1" by (auto simp: c')
  have drop: "drop i c = c ! i # drop (Suc i) c" using assms(5) by (simp add: Cons_nth_drop_Suc)
  have "users (drop (Suc i) c) \<le> length c - Suc i" by (metis length_drop length_filter_le)
  with old assms(4,5) have "?threshold < u64_max" by linarith
  then have "?threshold = pc_hard_clear_age_turns (ca_pruning a) + (users c - cs_prompt_index (ca_state a))"
    by (simp add: retained_threshold_def Let_def sat_add64_def sat_sub_def)
  with old filter_drop_le [of is_user i c typed] assms(3) t drop show ?thesis
    by (simp add: is_user_def [of "ToolResult _"])
qed

definition eager_pruning :: pruning_config where
  "eager_pruning = default_pruning_config\<lparr>pc_hard_clear_age_turns := 1\<rparr>"

definition sample_chat :: "pruning_config \<Rightarrow> nat \<Rightarrow> conversation_item list \<Rightarrow> chat_actor" where
  "sample_chat config prompt_index c =
     on_state (\<lambda>s. s\<lparr>cs_prompt_index := prompt_index, cs_conversation := c\<rparr>)
       (spawn_with_pruning [] \<lparr>cg_model = ''m'', cg_context_window = 1000\<rparr> config)"

definition read_turn :: "conversation_item list" where
  "read_turn = [user_message ''read it'',
     assistant_tool_calls [\<lparr>tc_id = ''c'', tc_name = ''read'', tc_arguments = ''a''\<rparr>],
     tool_result ''c'' ''data'']"

lemma sample_chat_fields [simp]:
  "ca_pruning (sample_chat config n c) = config" "cs_prompt_index (ca_state (sample_chat config n c)) = n"
  "cs_conversation (ca_state (sample_chat config n c)) = c"
  by (simp_all add: sample_chat_def spawn_with_pruning_def)

lemmas chat_items = read_turn_def user_message_def user_text_def interjection_def
  assistant_tool_calls_def plain_assistant_def tool_result_def is_user_def

lemmas prune_steps = prune_retained_conversation_def Let_def rewrite_history_state clear_retained_def
  retained_threshold_def sat_add64_def sat_sub_def u64_max_def HARD_CLEAR_PLACEHOLDER_def

text \<open>Two prompts later the result of the first one is old.\<close>

theorem retained_results_are_old_witness:
  "1 \<le> length (filter (\<lambda>x. is_user x \<and> True)
     (drop 2 (read_turn @ [user_message ''and now'', user_message ''thanks''])))"
proof -
  let ?c = "read_turn @ [user_message ''and now'', user_message ''thanks'']"
  let ?a = "sample_chat eager_pruning 3 ?c"
  have "cs_conversation (ca_state (snd (prune_retained_conversation ?a))) ! 2 \<noteq> ?c ! 2"
    by (simp add: prune_steps chat_items eager_pruning_def default_pruning_config_def)
  then show ?thesis
    using retained_results_are_old [of ?c ?a _ "\<lambda>x. True" 2]
    by (simp add: chat_items eager_pruning_def u64_max_def)
qed

text \<open>
  After a compaction the prompt index is larger than the number of user messages, so no message
  counts as synthetic: in the one turn that the conversation holds, eleven interjections are enough
  to clear a result that no prompt has followed.
\<close>

lemma eleven: "replicate 11 x = [x, x, x, x, x, x, x, x, x, x, x]"
  by (simp add: numeral_eq_Suc)

lemma young_result_cleared:
  "cs_conversation (ca_state (snd (prune_retained_conversation
     (sample_chat default_pruning_config 12 (read_turn @ replicate 11 (interjection ''wait'')))))) ! 2 =
     tool_result ''c'' HARD_CLEAR_PLACEHOLDER"
  by (simp add: prune_steps chat_items default_pruning_config_def eleven)

section \<open>A strip that the disk has not confirmed\<close>

text \<open>
  The images are stripped at once, and the actor goes on while the disk has still to confirm it: the
  query that was sent after the strip is answered before it.
\<close>

definition picture_chat :: chat_actor where
  "picture_chat = sample_chat default_pruning_config 0 [user_with_parts [ImagePart ''u'']]"

definition unconfirmed_strip :: chat_process where
  "unconfirmed_strip =
     (let a = snd (strip_conversation_images [''u''] picture_chat)
      in \<lparr>pr_actor = a, pr_sent = [StripConversationImages [''u''], Query GetPromptIndex], pr_taken = 2,
          pr_waiting = None, pr_tasks = [(0, 1, ca_persisted a)], pr_replies = [(1, Number 0)]\<rparr>)"

lemma picture_stripped:
  "fst (strip_conversation_images [''u''] picture_chat) = Some 1"
  "cs_prompt_index (ca_state (snd (strip_conversation_images [''u''] picture_chat))) = 0"
  by (simp_all add: picture_chat_def strip_conversation_images_def rewrite_history_state rewrite_history_def
      Let_def case_prod_unfold user_with_parts_def strip_images_by_url_def persist_def)

lemma unconfirmed_strip_reached: "(process_step E)\<^sup>*\<^sup>* (process_new picture_chat) unconfirmed_strip"
proof -
  let ?sent = "\<lambda>p cmd. p\<lparr>pr_sent := pr_sent p @ [cmd]\<rparr>"
  let ?o = "?sent (process_new picture_chat) (StripConversationImages [''u''])"
  let ?p = "?sent ?o (Query GetPromptIndex)"
  let ?a = "snd (strip_conversation_images [''u''] picture_chat)"
  let ?q = "?p\<lparr>pr_actor := ?a, pr_taken := 1, pr_tasks := [(0, 1, ca_persisted ?a)]\<rparr>"
  have "take_command E ?p = Some ?q"
    using picture_stripped(1) by (cases "strip_conversation_images [''u''] picture_chat")
      (simp add: take_command_def process_new_def)
  then have strip: "process_step E ?p ?q" by (intro process_step.works process_work.takes)
  have "take_command E ?q = Some unconfirmed_strip"
    using picture_stripped(2)
    by (simp add: take_command_def process_new_def unconfirmed_strip_def reply_to_def answer_def Let_def)
  then have query: "process_step E ?q unconfirmed_strip" by (intro process_step.works process_work.takes)
  have first: "process_step E (process_new picture_chat) ?o" by (rule process_step.sends)
  have second: "process_step E ?o ?p" by (rule process_step.sends)
  show ?thesis
    by (rule converse_rtranclp_into_rtranclp [OF first converse_rtranclp_into_rtranclp [OF second
        converse_rtranclp_into_rtranclp [OF strip r_into_rtranclp [of "process_step E", OF query]]]])
qed

theorem every_caller_is_answered_witness:
  "(\<exists>p. process_work quiet_disk unconfirmed_strip p \<and> work_left p < 1) \<and>
   distinct (map fst (pr_replies unconfirmed_strip))"
proof -
  have "work_left unconfirmed_strip = 1" by (simp add: unconfirmed_strip_def work_left_def Let_def)
  then show ?thesis
    using every_caller_is_answered [OF unconfirmed_strip_reached [of quiet_disk]] by fastforce
qed

section \<open>The first text of the user\<close>

text \<open>
  A first message that starts with an image is passed over and the text of a later one returned, where
  the comments on the query and on its command say that there is none.
\<close>

lemma first_text_scans_on:
  "get_first_user_text (ca_state (sample_chat default_pruning_config 0
     [user_with_parts [ImagePart ''u'', TextPart ''what is this''], user_message ''thanks''])) = Some ''thanks''"
  by (simp add: get_first_user_text_def first_part_text_def user_with_parts_def user_message_def user_text_def)

end
