(* ===== verification/Spec2Isabelle.thy ===== *)
theory Spec2Isabelle
  imports Delivery Interjection TokenEst Breaker PatchTool HubFrames ShellAccessGaps AutoModeLaws GrantLaws
    HubGateLaws PermHandle HistoryRepair ConversationTurn ConversationCut DoomLoopLaws RequestTaskRuns SamplingErrorLaws
    ChatLaws
begin

text \<open>
  A verification development for Grok to Mars, a command line agent in Rust. The program is a
  terminal user interface and an agent shell (\<^verbatim>\<open>crates/codegen\<close>), shared libraries
  (\<^verbatim>\<open>crates/common\<close>), and a session hub of its own (\<^verbatim>\<open>crates/codegen/gtm-hub\<close>) through
  which several clients, some of them phones on the local network, share the sessions of agent
  processes. The development models the parts that decide something: the hub, the permission policy,
  the patch tool, the message delivery between host and actor, the circuit breaker, the interjection
  queues, the compaction gate, the conversation with its repair and the actor that owns it, and the
  task of one sampling request.

  \<^bold>\<open>The theories.\<close> \<open>Prelude\<close> has what they share: machine integers, the interface of a hash map
  (the locale \<open>hash_map\<close>, interpreted on association lists as \<open>hm\<close>), and list lemmas.
  \<open>Rust_Str\<close> is what the code calls on strings (a string is the list of its UTF-8 bytes), \<open>Json\<close>
  is \<^verbatim>\<open>serde_json::Value\<close> with its accessors. Then, one component after the other:

  \<^item> \<open>Delivery\<close>: \<^verbatim>\<open>xai-message-delivery-core\<close> (\<^verbatim>\<open>lifecycle.rs\<close>, \<^verbatim>\<open>identity.rs\<close>,
    \<^verbatim>\<open>address.rs\<close>, \<^verbatim>\<open>envelope.rs\<close>). The slots of a lifecycle and every operation on them;
    the abstract specification is a run that also records what was committed, completed and fell
    back, with a step relation, an invariant and rule induction.
  \<^item> \<open>Interjection\<close>: \<^verbatim>\<open>xai-interjection-core\<close> and the joining of queued prompts in
    \<^verbatim>\<open>xai-prompt-queue\<close>.
  \<^item> \<open>TokenEst\<close>: the compaction gate of \<^verbatim>\<open>xai-token-estimation\<close>, with the saturation of
    \<^verbatim>\<open>u64\<close> written out.
  \<^item> \<open>Breaker\<close>: \<^verbatim>\<open>xai-circuit-breaker\<close>: the window with the rounding of its quotient, every
    operation as a sequential function, and \<^verbatim>\<open>check\<close> again as its atomic steps, which any
    number of threads take in any order.
  \<^item> \<open>PatchApply\<close>, \<open>PatchParse\<close>, \<open>PatchTool\<close>: the \<^verbatim>\<open>apply_patch\<close> tool of
    \<^verbatim>\<open>xai-grok-tools\<close>: matching and splicing, the parser, and the tool over a store of files
    that is the locale \<open>patch_store\<close> (an operation that succeeds does what it says, one that fails
    touches no other file), interpreted on a map from paths to texts; a map that refuses a write has its laws too.
    A panic of the indexing is the value \<open>None\<close>.
  \<^item> \<open>HubSessions\<close>: \<^verbatim>\<open>sessions.rs\<close> of the hub: listing and reading the stored sessions.
  \<^item> \<open>Hub\<close>: \<^verbatim>\<open>hub.rs\<close>: the clients, the table of sessions, the routes and every handler;
    \<open>HubActor\<close>: \<^verbatim>\<open>actor.rs\<close>: booting, the queue of prompts, permissions, one turn of the loop;
    \<open>HubServer\<close>: \<^verbatim>\<open>server.rs\<close> and \<^verbatim>\<open>frame.rs\<close>: one connection from the greeting to its end.
  \<^item> \<open>HubLaws\<close> and \<open>HubInvariant\<close>: what each operation leaves alone, and the hub as a transition
    system with its invariant. \<open>HubSafety\<close>, \<open>HubRouting\<close>, \<open>HubActorLaws\<close>, \<open>HubPrompts\<close>,
    \<open>HubFrames\<close>: the properties of the handlers, of the routes, of permissions, of the queue of
    prompts, and of connections.
  \<^item> The permission policy of \<^verbatim>\<open>xai-grok-workspace\<close> (\<^verbatim>\<open>src/permission\<close>). \<open>PermTypes\<close> is its
    vocabulary (\<^verbatim>\<open>types.rs\<close>), \<open>PermRules\<close> the parser of rules (\<^verbatim>\<open>rules.rs\<close>). \<open>ShellWords\<close> peels
    the wrappers of a command and \<open>ShellParse\<close> finds the commands of a script
    (\<^verbatim>\<open>bash_command_splitting.rs\<close>); \<open>PermScript\<close> analyses a script that is more than plain commands
    (\<^verbatim>\<open>bash_permission_script.rs\<close>). \<open>Rust_Path\<close> is what is used of \<^verbatim>\<open>std::path\<close>. \<open>PolicyMatch\<close> has
    the matching of a rule against an access (the locale \<open>escalation\<close> is the contract of the two
    combinations of decisions, interpreted as \<open>gate\<close> and \<open>decide\<close>) and \<open>PolicyEval\<close> the compiled
    policy with its evaluation and the gate for Bash commands (\<^verbatim>\<open>policy.rs\<close>,
    \<^verbatim>\<open>policy/bash_commands.rs\<close>). \<open>PolicyLaws\<close>, \<open>PolicyAllow\<close> and \<open>PolicyGate\<close> prove its
    specification. \<open>ExecRisk\<close> says which command lines of git run a program of the repository
    (\<^verbatim>\<open>exec_risk.rs\<close>); \<open>ShellOperands\<close>, \<open>ShellAccess\<close> and \<open>ProtectedEdit\<close> are
    \<^verbatim>\<open>shell_access.rs\<close>: the files that a command names, the gate that evaluates each of them,
    and the edits that always prompt. \<open>ShellAccessLaws\<close> and \<open>ShellAccessGaps\<close> show what this gate
    rejects and what passes it. \<open>McpNames\<close> has the identifiers of the tool protocol
    (\<^verbatim>\<open>xai-tool-protocol\<close>) and the qualified names of MCP tools, \<open>WebDomains\<close> the allowlist of
    domains of the fetch tool, \<open>Truncate\<close> the truncation of texts.
    Automatic mode (\<^verbatim>\<open>auto_mode\<close>): \<open>AutoRisk\<close> has the security findings and the risk of variables,
    \<open>RoutineBash\<close> the commands that are routine, \<open>AutoMode\<close> the classifier with its messages and the
    parser of the answer, \<open>AutoModeLaws\<close> its properties. Memory: \<open>PermState\<close> is what is remembered
    and the store of it (\<^verbatim>\<open>state.rs\<close>), \<open>BashGrants\<close> evaluates a script against it, \<open>BashDecisions\<close>
    decides from it and records the answers of a prompt (\<^verbatim>\<open>grants.rs\<close>); \<open>PermStateLaws\<close> and
    \<open>GrantLaws\<close> are their properties.
    The manager (\<^verbatim>\<open>manager/mod.rs\<close>): \<open>GatePreflight\<close> evaluates the policy and the gates once for a
    request (\<^verbatim>\<open>gate_preflight.rs\<close>, \<^verbatim>\<open>bash_policy_allow.rs\<close>), \<open>PermManager\<close> is the actor with every
    stage that a request passes and every command, \<open>ManagerLaws\<close> and \<open>ManagerRuns\<close> its properties for
    one request and for a whole run, \<open>PermHandle\<close> the handles that share its flags. \<open>PermPrompter\<close> is
    the local prompt (\<^verbatim>\<open>prompter.rs\<close>), \<open>HubGate\<close> the approval of calls that come over the hub
    (\<^verbatim>\<open>hub_permission.rs\<close>, \<^verbatim>\<open>hub_gate.rs\<close>), \<open>HubGateLaws\<close> their properties. The
    tree-sitter parser, glob patterns, URLs and the two file system calls are fields of
    \<open>policy_env\<close>, arbitrary functions.
  \<^item> The conversation and its sampling. \<open>Conversation\<close> has the items (\<^verbatim>\<open>conversation.rs\<close> of
    \<^verbatim>\<open>xai-grok-sampling-types\<close>), \<open>ConversationTurn\<close> requests and responses, \<open>ConversationRepair\<close>
    the loops that repair tool calls with \<open>ConversationRepairLaws\<close>, \<open>ConversationCut\<close> rewinding.
    \<open>HistoryRepair\<close> is the repair of a whole history (\<^verbatim>\<open>compaction_utils.rs\<close> of
    \<^verbatim>\<open>xai-chat-state\<close>). \<open>DoomLoop\<close> is the repetition check of the server with the collector of
    its labels, \<open>DoomLoopLaws\<close> its bounds. \<open>SamplingError\<close> has the errors of a request
    (\<^verbatim>\<open>error.rs\<close>, \<^verbatim>\<open>events.rs\<close>), \<open>SamplingRetry\<close> the decision on a failed attempt
    (\<^verbatim>\<open>retry.rs\<close> of \<^verbatim>\<open>xai-grok-sampler\<close>).
    \<open>SamplingErrorLaws\<close> shows what the mirror of an error keeps. \<open>DoomRecovery\<close> has the capture of
    a response that was given up for repeating itself, what is replayed of it
    (\<^verbatim>\<open>doom_loop_recovery.rs\<close>), and its bounds. \<open>RequestTask\<close> is the task of one
    request with every attempt and retry (\<^verbatim>\<open>actor/request_task.rs\<close>): the streams of the attempts
    are a field of its environment, its loop is a partial function. \<open>RequestTaskLaws\<close> has the rules
    of the loop, \<open>RequestTaskRuns\<close> shows that it ends and what its events are.

  \<^item> The owner of a conversation, the actor of \<^verbatim>\<open>xai-chat-state\<close>. \<open>ChatUsage\<close> has the estimates,
    the doubles they are scaled with and the ledgers (\<^verbatim>\<open>usage.rs\<close>), \<open>ImageBudget\<close> the eviction of
    images (\<^verbatim>\<open>image_budget.rs\<close>) with its laws, \<open>ChatState\<close> the state with every mutation
    (\<^verbatim>\<open>actor/state.rs\<close>, \<^verbatim>\<open>mutations.rs\<close>), \<open>ChatQueries\<close> the queries and the building of a request
    (\<^verbatim>\<open>queries.rs\<close>, \<^verbatim>\<open>request_builder.rs\<close>), \<open>ChatActor\<close> the commands and their handling
    (\<^verbatim>\<open>commands.rs\<close>, \<^verbatim>\<open>mod.rs\<close>), one after the other (\<open>run_actor\<close>) and as the process that its callers
    see (\<open>process_step\<close>: callers send, the actor handles or waits for the disk, tasks answer; it is not
    cancelled). \<open>ChatLaws\<close> shows its invariant, that it answers, what the
    capture of a turn holds, what a request holds and what pruning spares.

  \<^bold>\<open>How the model corresponds to the code.\<close> A struct is a record, an enum a datatype with the
  code's constructors, a method a function on the state that returns it updated, an error a value of
  a sum. A map under a mutex is an association list and a handler is one step. A channel is the list
  of what was put on it, in order. What comes from outside (the clock, files, certificates, the
  JSON printer and parser, lower-casing beyond ASCII) is a field of an environment record or an
  argument. Counters that would need \<open>2\<^sup>6\<^sup>4\<close> events to wrap are numbers.

  \<^bold>\<open>Termination.\<close> Every function is total but one: the loop of a sampling request, which ends or not
  by what the stream does, is a partial function whose value is \<open>None\<close> when it does not return, and
  \<open>request_ends\<close> shows that it returns. The loops of the parser and of the matcher recurse on a
  measure that is proved to shrink; the sequences of steps and events are arguments, of any length.
  The only budgets are the code's own: eight wrappers, sixteen rounds of normalisation, eight nested
  inline scripts, 4096 nodes of a recovered script, forty symbolic links.

  \<^bold>\<open>What is shown.\<close> For the hub: the caps and the freshness of ids in every reachable state, the
  confinement of LAN clients, one agent per session, who is answered and when, the order of prompts,
  permissions answered once, and frames that survive any cutting of the stream; and where the code
  does less than it means to: replies are not tied to the client they come from, an evicted client
  counts as local, notifications escape the confinement, ids of requests collide between clients,
  connections that fail are not disconnected, and reading a frame can be interrupted. For the patch
  tool: an update is exactly a splice, a patch writes nothing or exactly the changes before the first
  that fails, on a file system whose every operation may fail, a patch of different files in a plain
  store is all or nothing, every patch of the grammar parses to its hunks; and the ways in which an
  update is lost. For the permission
  policy: a rule parses back from its text, an evaluation is the first matching deny, else ask, else
  allow, where a script is allowed exactly when every command in it, at every depth, is matched once it
  was peeled without doubt (\<open>PolicyAllow\<close>), and no order of the rules matters; more rules and followed links only tighten; the gate
  rejects a script exactly when a command that it can run is denied, its silence means that every
  command was seen, and an allow covers every command; and two ways in which a command hides;
  the file gate rejects a script exactly when a file that it names is denied, its silence means that
  it knew every file, an edit that is not protected touches nothing that runs later; and two ways in
  which a file hides. Automatic mode approves only on evidence, its prompt cannot be forged, and what
  it takes for routine was vetted at every depth of launchers (which is not to say that it is harmless:
  a routine command runs what its project or its options name). A remembered denial of a command as it
  is judged wins over every grant, a grant covers every command, an answer records only what was asked and is honoured again,
  and sessions that share a store lose nothing. The manager allows nothing without a ground, a denial
  of the policy is final, its invariant and its budget of denials hold in every run, the modes that
  its handles show settle; with remembering switched off no answer is remembered; a call over the hub
  that by its kind requires approval runs only with consent; and two ways in which a rule or a grant does not hold where it should. For
  the breaker: its invariant, what recording and checking do, and the bound on the probes that any
  number of threads are let through within one cool-down, one more than configured, with the race that
  makes it one more and another between the state and its mirror. For delivery: each message is delivered or handed back exactly once. For the
  conversation: a repaired history pairs every call with one result, right behind it and in any
  history, a rewind cuts at the prompt that it names, and the labels that a stream reports stay
  within their bounds. A sampling request ends within its two budgets and answers its caller once,
  no retry follows output that the caller has seen when it asked for that, what is replayed of a
  response is bounded, an error that is rebuilt from its mirror is decided on as before unless its
  rendering adds or hides a text that decides, and the waiting time is the doubled one with its cap,
  but for four counts at which it vanishes. The owner of a conversation answers every caller once, by
  itself or by a task that waits for the disk, the capture of a turn is the log of what the turn added,
  through the repairs of pushes and requests and through compactions, its bills add up, a request
  leaves no call without a result, the oldest images are evicted first, and only old results are
  cleared; and two ways in which a turn or a result is lost.

  \<^bold>\<open>What is not modelled.\<close> Processes, sockets, TLS, files and terminals; in the hub the spawning of
  the agent, the listeners and the command line. Interleavings of two handlers of the hub below a
  whole handler are not modelled either. The other crates are listed in the manifest with the reason;
  next in line are the sources of the permission policy (\<^verbatim>\<open>resolution.rs\<close>,
  \<^verbatim>\<open>managed_policy\<close>), the task coordinator of \<^verbatim>\<open>xai-grok-tools\<close>,
  \<^verbatim>\<open>xai-grok-compaction\<close>, \<^verbatim>\<open>xai-hunk-tracker\<close> and \<^verbatim>\<open>xai-computer-hub-core\<close>.
\<close>

end
